(* ===== verification/Prelude.thy ===== *)
theory Prelude
  imports Main "HOL-Library.Word" "HOL-Library.AList" "HOL-Library.Multiset"
    "HOL-Library.Char_ord" "HOL-Library.List_Lexorder" "HOL-Library.Product_Lexorder"
    "HOL-Library.Option_ord"
begin

text \<open>
  Shared vocabulary of the development: the Rust machine integers, clock values and strings the
  kernel uses, the two result types (pure and stateful) every fallible function returns, hash maps,
  and the lemmas on them that the component theories use through the collections below.

  \<^item> \<open>u32\<close>, \<open>u64\<close> are fixed-width words; \<open>usize\<close> counts are \<open>nat\<close> with the cap of a 64-bit target
    written out where the source saturates.
  \<^item> \<open>SystemTime\<close> is the signed number of nanoseconds since the Unix epoch (64-bit Linux: an
    \<open>i64\<close> of seconds and the nanoseconds below one second), \<open>Duration\<close> a number of nanoseconds.
  \<^item> A \<open>String\<close> is its UTF-8 bytes, so equality and order are the ones Rust derives.
  \<^item> A \<open>HashMap\<close> is an association list: the list order stands for the unspecified iteration order,
    and the theorems that matter are proved for every order.
\<close>

named_theorems res_simps \<open>evaluation of the result types\<close>
named_theorems hm_simps \<open>lookups and key sets of hash maps\<close>

section \<open>Machine integers and clock values\<close>

type_synonym u32 = "32 word"
type_synonym u64 = "64 word"
type_synonym usize = nat
type_synonym system_time = int
type_synonym duration = nat

definition saturating_inc :: "'a::len word \<Rightarrow> 'a word" where
  "saturating_inc w = (if w = - 1 then w else w + 1)"

definition usize_max :: usize where
  "usize_max = 2 ^ 64 - 1"

definition usize_saturating_inc :: "usize \<Rightarrow> usize" where
  "usize_saturating_inc n = (if n < usize_max then Suc n else n)"

definition system_time_max :: system_time where
  "system_time_max = 2 ^ 63 * 1000000000 - 1"

definition checked_add :: "system_time \<Rightarrow> duration \<Rightarrow> system_time option" where
  "checked_add t d = (if t + int d \<le> system_time_max then Some (t + int d) else None)"

definition add_or_keep :: "system_time \<Rightarrow> duration \<Rightarrow> system_time" where
  "add_or_keep t d = (case checked_add t d of Some t' \<Rightarrow> t' | None \<Rightarrow> t)"

lemma add_or_keep_ge [simp]: "t \<le> add_or_keep t d"
  by (simp add: add_or_keep_def checked_add_def)

lemma add_or_keep_exact: "t + int d \<le> system_time_max \<Longrightarrow> add_or_keep t d = t + int d"
  by (simp add: add_or_keep_def checked_add_def)

lemma word_succ_neq [simp]: "(w :: 'a::len word) + 1 \<noteq> w" "w \<noteq> (w :: 'a::len word) + 1"
  by simp_all

lemma unat_saturating_inc: "unat (saturating_inc w) = (if w = - 1 then unat w else Suc (unat w))"
proof (cases "w = - 1")
  case False
  then have "1 + w \<noteq> 0" by (metis add.inverse_unique minus_equation_iff)
  from unatSuc [OF this] False show ?thesis by (simp add: saturating_inc_def add.commute)
qed (simp add: saturating_inc_def)

lemma saturating_inc_mono: "w \<le> saturating_inc w"
  by (simp add: word_le_nat_alt unat_saturating_inc)

lemma usize_saturating_inc_bound: "n \<le> usize_max \<Longrightarrow> usize_saturating_inc n \<le> usize_max"
  by (simp add: usize_saturating_inc_def)

section \<open>Rust strings: \<open>str::trim\<close>\<close>

text \<open>
  \<open>trim\<close> strips the code points with the Unicode property \<open>White_Space\<close> from both ends. On UTF-8
  bytes these are the ASCII characters 9 to 13 and 32, the two-byte sequences of U+0085 and U+00A0,
  and the three-byte sequences of U+1680, U+2000 to U+200A, U+2028, U+2029, U+202F, U+205F and
  U+3000. UTF-8 is self-synchronising, so a white-space sequence at the end of a valid string is its
  last code point; the end is stripped by matching the reversed sequences on the reversed bytes.
\<close>

definition ascii_ws :: "char list" where
  "ascii_ws = [CHR 0x09, CHR 0x0A, CHR 0x0B, CHR 0x0C, CHR 0x0D, CHR 0x20]"

definition utf8_ws :: "string list" where
  "utf8_ws =
     [[CHR 0xC2, CHR 0x85], [CHR 0xC2, CHR 0xA0], [CHR 0xE1, CHR 0x9A, CHR 0x80],
      [CHR 0xE2, CHR 0x80, CHR 0x80], [CHR 0xE2, CHR 0x80, CHR 0x81],
      [CHR 0xE2, CHR 0x80, CHR 0x82], [CHR 0xE2, CHR 0x80, CHR 0x83],
      [CHR 0xE2, CHR 0x80, CHR 0x84], [CHR 0xE2, CHR 0x80, CHR 0x85],
      [CHR 0xE2, CHR 0x80, CHR 0x86], [CHR 0xE2, CHR 0x80, CHR 0x87],
      [CHR 0xE2, CHR 0x80, CHR 0x88], [CHR 0xE2, CHR 0x80, CHR 0x89],
      [CHR 0xE2, CHR 0x80, CHR 0x8A], [CHR 0xE2, CHR 0x80, CHR 0xA8],
      [CHR 0xE2, CHR 0x80, CHR 0xA9], [CHR 0xE2, CHR 0x80, CHR 0xAF],
      [CHR 0xE2, CHR 0x81, CHR 0x9F], [CHR 0xE3, CHR 0x80, CHR 0x80]]"

definition ws_seqs :: "string list" where
  "ws_seqs = map (\<lambda>c. [c]) ascii_ws @ utf8_ws"

fun strip_one :: "string list \<Rightarrow> string \<Rightarrow> string option" where
  "strip_one [] s = None"
| "strip_one (w # ws) s =
     (if w \<noteq> [] \<and> take (length w) s = w then Some (drop (length w) s) else strip_one ws s)"

lemma strip_one_None_iff:
  "strip_one ws s = None \<longleftrightarrow> (\<forall>w \<in> set ws. w \<noteq> [] \<longrightarrow> take (length w) s \<noteq> w)"
  by (induction ws) auto

lemma strip_one_Some_split:
  "strip_one ws s = Some r \<Longrightarrow> \<exists>w. w \<noteq> [] \<and> s = w @ r"
  by (induction ws) (auto split: if_splits, metis append_take_drop_id)

lemma strip_one_None_append: "strip_one ws (s @ t) = None \<Longrightarrow> strip_one ws s = None"
  unfolding strip_one_None_iff
proof (intro ballI impI)
  fix w
  assume none: "\<forall>w \<in> set ws. w \<noteq> [] \<longrightarrow> take (length w) (s @ t) \<noteq> w"
    and w: "w \<in> set ws" "w \<noteq> []"
  show "take (length w) s \<noteq> w"
  proof
    assume eq: "take (length w) s = w"
    then have "length w \<le> length s" by (metis length_take min.cobounded1)
    with eq have "take (length w) (s @ t) = w" by simp
    with none w show False by blast
  qed
qed

function trim_with :: "string list \<Rightarrow> string \<Rightarrow> string" where
  "trim_with ws s = (case strip_one ws s of None \<Rightarrow> s | Some r \<Rightarrow> trim_with ws r)"
  by pat_completeness auto
termination
  by (relation "measure (\<lambda>(ws, s). length s)") (auto dest!: strip_one_Some_split)

declare trim_with.simps [simp del]

definition trim :: "string \<Rightarrow> string" where
  "trim s = rev (trim_with (map rev ws_seqs) (rev (trim_with ws_seqs s)))"

definition is_blank :: "string \<Rightarrow> bool" where
  "is_blank s \<longleftrightarrow> trim s = []"

lemma trim_with_None: "strip_one ws s = None \<Longrightarrow> trim_with ws s = s"
  by (simp add: trim_with.simps)

lemma trim_with_stripped: "strip_one ws (trim_with ws s) = None"
  by (induction ws s rule: trim_with.induct) (subst trim_with.simps, auto split: option.split)

lemma trim_with_suffix: "\<exists>p. s = p @ trim_with ws s"
proof (induction ws s rule: trim_with.induct)
  case (1 ws s)
  show ?case
  proof (cases "strip_one ws s")
    case None
    then show ?thesis by (simp add: trim_with_None)
  next
    case (Some r)
    from strip_one_Some_split [OF Some] obtain w where "s = w @ r" by blast
    moreover from "1" Some obtain p where "r = p @ trim_with ws r" by auto
    moreover have "trim_with ws s = trim_with ws r" using Some by (subst trim_with.simps) simp
    ultimately have "s = (w @ p) @ trim_with ws s" by simp
    then show ?thesis by blast
  qed
qed

lemma trim_stripped:
  "strip_one ws_seqs (trim s) = None" "strip_one (map rev ws_seqs) (rev (trim s)) = None"
proof -
  let ?a = "trim_with ws_seqs s"
  obtain p where "rev ?a = p @ trim_with (map rev ws_seqs) (rev ?a)"
    using trim_with_suffix by blast
  then have "?a = trim s @ rev p" by (metis rev_append rev_rev_ident trim_def)
  then show "strip_one ws_seqs (trim s) = None"
    by (metis strip_one_None_append trim_with_stripped)
  show "strip_one (map rev ws_seqs) (rev (trim s)) = None"
    by (simp add: trim_def trim_with_stripped)
qed

lemma trim_id_iff:
  "trim s = s \<longleftrightarrow> strip_one ws_seqs s = None \<and> strip_one (map rev ws_seqs) (rev s) = None"
  by (metis rev_rev_ident trim_def trim_stripped trim_with_None)

lemma trim_idem [simp]: "trim (trim s) = trim s"
  by (simp add: trim_id_iff trim_stripped)

lemma trim_Nil [simp]: "trim [] = []"
  by (simp add: trim_id_iff strip_one_None_iff)

lemma is_blank_trim [simp]: "is_blank (trim s) \<longleftrightarrow> is_blank s"
  by (simp add: is_blank_def)

lemma is_blank_Nil [simp]: "is_blank []"
  by (simp add: is_blank_def)

text \<open>A character that neither starts nor ends a white-space sequence.\<close>

definition plain_char :: "char \<Rightarrow> bool" where
  "plain_char c \<longleftrightarrow> c \<notin> set (map hd ws_seqs) \<and> c \<notin> set (map last ws_seqs)"

lemma strip_one_hd: "\<forall>w \<in> set ws. w = [] \<or> hd w \<noteq> c \<Longrightarrow> strip_one ws (c # s) = None"
  unfolding strip_one_None_iff by (metis hd_Cons_tl length_greater_0_conv list.sel(1) take_Cons')

lemma strip_one_plain:
  assumes "plain_char c"
  shows "strip_one ws_seqs (c # s) = None" "strip_one (map rev ws_seqs) (c # s) = None"
  using assms by (auto intro!: strip_one_hd simp: plain_char_def hd_rev)

lemma trim_plain_word:
  "plain_char c \<Longrightarrow> plain_char d \<Longrightarrow> trim (c # s @ [d]) = c # s @ [d]"
  using strip_one_plain(1) [of c "s @ [d]"] strip_one_plain(2) [of d "rev s @ [c]"]
  by (simp add: trim_id_iff)

section \<open>Rust strings: \<open>chars\<close> and \<open>split_whitespace\<close>\<close>

text \<open>
  \<open>chars\<close> of a valid UTF-8 string: every byte that is not a continuation byte (0x80 to 0xBF) starts a
  character.
\<close>

definition utf8_cont :: "char \<Rightarrow> bool" where
  "utf8_cont c \<longleftrightarrow> 128 \<le> (of_char c :: nat) \<and> (of_char c :: nat) < 192"

fun utf8_chars :: "string \<Rightarrow> string list" where
  "utf8_chars [] = []"
| "utf8_chars (c # s) =
     (case utf8_chars s of
        [] \<Rightarrow> [[c]]
      | w # ws \<Rightarrow> if utf8_cont (hd w) then (c # w) # ws else [c] # w # ws)"

lemma concat_utf8_chars [simp]: "concat (utf8_chars s) = s"
  by (induction s) (auto split: list.splits)

text \<open>The non-empty words between white space.\<close>

function split_words :: "string \<Rightarrow> string \<Rightarrow> string list" where
  "split_words acc s =
     (case strip_one ws_seqs s of
        Some r \<Rightarrow> (if acc = [] then [] else [acc]) @ split_words [] r
      | None \<Rightarrow>
          (case s of
             [] \<Rightarrow> if acc = [] then [] else [acc]
           | c # cs \<Rightarrow> split_words (acc @ [c]) cs))"
  by pat_completeness auto
termination
  by (relation "measure (\<lambda>(acc, s). length s)") (auto dest!: strip_one_Some_split)

declare split_words.simps [simp del]

definition split_whitespace :: "string \<Rightarrow> string list" where
  "split_whitespace s = split_words [] s"

section \<open>Hexadecimal rendering (\<open>{:x}\<close>)\<close>

definition hex_digit :: "nat \<Rightarrow> char" where
  "hex_digit d = ''0123456789abcdef'' ! d"

fun hex_string :: "nat \<Rightarrow> string" where
  "hex_string n = (if n < 16 then [hex_digit n] else hex_string (n div 16) @ [hex_digit (n mod 16)])"

declare hex_string.simps [simp del]

definition hex_value :: "char \<Rightarrow> nat" where
  "hex_value c = (if c \<le> CHR ''9'' then of_char c - 48 else of_char c - 87)"

lemma lt16_cases: "d < 16 \<Longrightarrow> d \<in> set [0..<(16::nat)]"
  by simp

lemma hex_value_digit: "d < 16 \<Longrightarrow> hex_value (hex_digit d) = d"
proof -
  have "\<forall>d \<in> set [0..<16]. hex_value (hex_digit d) = d" by code_simp
  then show "d < 16 \<Longrightarrow> hex_value (hex_digit d) = d" using lt16_cases by blast
qed

lemma hex_digit_plain: "d < 16 \<Longrightarrow> plain_char (hex_digit d)"
proof -
  have "\<forall>d \<in> set [0..<16]. plain_char (hex_digit d)" by code_simp
  then show "d < 16 \<Longrightarrow> plain_char (hex_digit d)" using lt16_cases by blast
qed

lemma hex_roundtrip: "foldl (\<lambda>a c. 16 * a + hex_value c) 0 (hex_string n) = n"
proof (induction n rule: hex_string.induct)
  case (1 n)
  then show ?case
    by (subst hex_string.simps) (auto simp: hex_value_digit)
qed

lemma hex_string_inj: "hex_string m = hex_string n \<longleftrightarrow> m = n"
  by (metis hex_roundtrip)

lemma hex_string_snoc: "\<exists>p d. hex_string n = p @ [hex_digit d] \<and> d < 16"
proof (cases "n < 16")
  case True
  then show ?thesis by (subst hex_string.simps) auto
next
  case False
  then have "hex_string n = hex_string (n div 16) @ [hex_digit (n mod 16)]"
    by (subst hex_string.simps) simp
  then show ?thesis by (metis mod_less_divisor zero_less_numeral)
qed

section \<open>Decimal rendering (\<open>{}\<close> and \<open>{:0w}\<close>)\<close>

fun dec_string :: "nat \<Rightarrow> string" where
  "dec_string n =
     (if n < 10 then [char_of (48 + n)] else dec_string (n div 10) @ [char_of (48 + n mod 10)])"

declare dec_string.simps [simp del]

definition dec_pad :: "nat \<Rightarrow> nat \<Rightarrow> string" where
  "dec_pad w n = replicate (w - length (dec_string n)) (CHR ''0'') @ dec_string n"

definition dec_value :: "string \<Rightarrow> nat" where
  "dec_value s = foldl (\<lambda>a c. a * 10 + (of_char c - 48)) 0 s"

lemma dec_value_dec_string: "dec_value (dec_string n) = n"
proof (induction n rule: dec_string.induct)
  case (1 n)
  show ?case
  proof (cases "n < 10")
    case True
    then show ?thesis by (simp add: dec_string.simps [of n] dec_value_def)
  next
    case False
    then have "dec_value (dec_string n) = dec_value (dec_string (n div 10)) * 10 + n mod 10"
      by (simp add: dec_string.simps [of n] dec_value_def)
    also have "\<dots> = n" using "1" False by simp
    finally show ?thesis .
  qed
qed

lemma dec_string_inj [simp]: "dec_string m = dec_string n \<longleftrightarrow> m = n"
  by (metis dec_value_dec_string)

lemma dec_value_pad: "dec_value (dec_pad w n) = n"
proof -
  have zeros: "foldl (\<lambda>a c. a * 10 + (of_char c - 48)) 0 (replicate k (CHR ''0'')) = (0 :: nat)" for k
    by (induction k) (simp_all add: of_char_def)
  show ?thesis
    using dec_value_dec_string [of n] by (simp add: dec_value_def dec_pad_def zeros)
qed

lemma dec_pad_inj [simp]: "dec_pad w m = dec_pad w n \<longleftrightarrow> m = n"
  by (metis dec_value_pad)

section \<open>Results: \<open>Result\<close> and the \<open>?\<close> operator\<close>

text \<open>
  A pure fallible function returns \<open>'e + 'a\<close> (\<open>Inl\<close> is \<open>Err\<close>). A method that also changes the state
  behind \<open>&self\<close> takes the state and returns the result together with the state it leaves, because
  the source keeps the writes made before an early return.
\<close>

type_synonym ('s, 'e, 'a) op = "'s \<Rightarrow> ('e + 'a) \<times> 's"

definition res_bind :: "'e + 'a \<Rightarrow> ('a \<Rightarrow> 'e + 'b) \<Rightarrow> 'e + 'b" where
  "res_bind r f = (case r of Inl e \<Rightarrow> Inl e | Inr a \<Rightarrow> f a)"

definition ok_or :: "'e \<Rightarrow> 'a option \<Rightarrow> 'e + 'a" where
  "ok_or e x = (case x of None \<Rightarrow> Inl e | Some a \<Rightarrow> Inr a)"

definition op_bind :: "('s, 'e, 'a) op \<Rightarrow> ('a \<Rightarrow> ('s, 'e, 'b) op) \<Rightarrow> ('s, 'e, 'b) op" where
  "op_bind m f = (\<lambda>s. case m s of (Inl e, s') \<Rightarrow> (Inl e, s') | (Inr a, s') \<Rightarrow> f a s')"

definition op_lift :: "'e + 'a \<Rightarrow> ('s, 'e, 'a) op" where
  "op_lift r = (\<lambda>s. (r, s))"

definition op_map :: "('a \<Rightarrow> 'b) \<Rightarrow> ('s, 'e, 'a) op \<Rightarrow> ('s, 'e, 'b) op" where
  "op_map g m = (\<lambda>s. case m s of (r, s') \<Rightarrow> (map_sum id g r, s'))"

lemma res_bind_simps [simp, res_simps]:
  "res_bind (Inl e) f = Inl e" "res_bind (Inr a) f = f a"
  by (simp_all add: res_bind_def)

lemma res_bind_Inr_iff: "res_bind r f = Inr b \<longleftrightarrow> (\<exists>a. r = Inr a \<and> f a = Inr b)"
  by (cases r) auto

lemma ok_or_simps [simp, res_simps]: "ok_or e None = Inl e" "ok_or e (Some a) = Inr a"
  by (simp_all add: ok_or_def)

lemma op_lift_simps [simp, res_simps]: "op_lift r s = (r, s)"
  by (simp add: op_lift_def)

lemma op_bind_Inr_iff:
  "op_bind m f s = (Inr b, s'') \<longleftrightarrow> (\<exists>a s'. m s = (Inr a, s') \<and> f a s' = (Inr b, s''))"
  by (auto simp: op_bind_def split: prod.splits sum.splits)

lemma op_bind_step [res_simps]:
  "m s = (Inl e, s') \<Longrightarrow> op_bind m f s = (Inl e, s')"
  "m s = (Inr a, s') \<Longrightarrow> op_bind m f s = f a s'"
  by (simp_all add: op_bind_def)

lemma op_bind_lift [simp, res_simps]:
  "op_bind (op_lift (Inl e)) f s = (Inl e, s)" "op_bind (op_lift (Inr a)) f s = f a s"
  by (simp_all add: op_bind_def)

lemma op_map_Inr_iff: "op_map g m s = (Inr b, s') \<longleftrightarrow> (\<exists>a. m s = (Inr a, s') \<and> b = g a)"
  by (cases "m s"; cases "fst (m s)") (auto simp: op_map_def)

lemma op_map_state [simp]: "snd (op_map g m s) = snd (m s)"
  by (simp add: op_map_def split: prod.split)

section \<open>Hash maps\<close>

type_synonym ('k, 'v) hash_map = "('k \<times> 'v) list"

abbreviation hm_get :: "('k, 'v) hash_map \<Rightarrow> 'k \<Rightarrow> 'v option" where
  "hm_get m k \<equiv> map_of m k"

abbreviation hm_insert :: "'k \<Rightarrow> 'v \<Rightarrow> ('k, 'v) hash_map \<Rightarrow> ('k, 'v) hash_map" where
  "hm_insert k v m \<equiv> AList.update k v m"

abbreviation hm_remove :: "'k \<Rightarrow> ('k, 'v) hash_map \<Rightarrow> ('k, 'v) hash_map" where
  "hm_remove k m \<equiv> AList.delete k m"

abbreviation hm_values :: "('k, 'v) hash_map \<Rightarrow> 'v list" where
  "hm_values m \<equiv> map snd m"

definition hm_wf :: "('k, 'v) hash_map \<Rightarrow> bool" where
  "hm_wf m \<longleftrightarrow> distinct (map fst m)"

text \<open>Two lists are the same hash map, iterated in different orders.\<close>

definition hm_same :: "('k, 'v) hash_map \<Rightarrow> ('k, 'v) hash_map \<Rightarrow> bool" where
  "hm_same m m' \<longleftrightarrow> hm_wf m \<and> hm_wf m' \<and> map_of m = map_of m'"

lemma hm_wf_Nil [simp, hm_simps]: "hm_wf []"
  by (simp add: hm_wf_def)

lemma hm_get_insert [simp, hm_simps]:
  "hm_get (hm_insert k v m) k' = (if k' = k then Some v else hm_get m k')"
  by (simp add: update_conv)

lemma hm_get_remove [simp, hm_simps]:
  "hm_get (hm_remove k m) k' = (if k' = k then None else hm_get m k')"
  by (simp add: delete_conv)

lemma hm_wf_insert [simp, hm_simps]: "hm_wf m \<Longrightarrow> hm_wf (hm_insert k v m)"
  by (simp add: hm_wf_def distinct_update)

lemma hm_wf_remove [simp, hm_simps]: "hm_wf m \<Longrightarrow> hm_wf (hm_remove k m)"
  by (simp add: hm_wf_def distinct_delete)

lemma hm_get_iff: "hm_wf m \<Longrightarrow> hm_get m k = Some v \<longleftrightarrow> (k, v) \<in> set m"
  by (simp add: hm_wf_def)

lemma hm_value_iff: "hm_wf m \<Longrightarrow> v \<in> set (hm_values m) \<longleftrightarrow> (\<exists>k. hm_get m k = Some v)"
  by (auto simp: hm_get_iff image_iff) force

lemma hm_same_mset: "hm_same m m' \<Longrightarrow> mset m = mset m'"
  unfolding hm_same_def hm_wf_def
  by (metis distinct_map map_of_inject_set set_eq_iff_mset_eq_distinct)

lemma hm_same_values: "hm_same m m' \<Longrightarrow> mset (hm_values m) = mset (hm_values m')"
  by (metis hm_same_mset mset_map)

text \<open>A stable sort by a key that identifies the elements forgets the order it starts from.\<close>

lemma sort_key_order_free:
  assumes "mset xs = mset ys" and "inj_on f (set xs)"
  shows "sort_key f xs = sort_key f ys"
  using assms by (intro sort_key_inj_key_eq) simp_all

lemma take_sort_subset: "set (take n (sort_key f xs)) \<subseteq> set xs"
  by (metis set_sort set_take_subset)

lemma sorted_take_sort: "sorted (map f (take n (sort_key f xs)))"
  by (metis sorted_sort_key sorted_wrt_take take_map)

lemma sort_take_complete:
  assumes "x \<in> set xs" and "x \<notin> set (take n (sort_key f xs))"
    and "y \<in> set (take n (sort_key f xs))"
  shows "f y \<le> f x"
proof -
  have "x \<in> set (drop n (sort_key f xs))"
    using assms(1,2) by (metis Un_iff append_take_drop_id set_append set_sort)
  moreover have "sorted (map f (take n (sort_key f xs)) @ map f (drop n (sort_key f xs)))"
    by (metis append_take_drop_id map_append sorted_sort_key)
  ultimately show ?thesis using assms(3) by (auto simp: sorted_append)
qed

end
