(* ===== verification/Kernel_Types.thy ===== *)
theory Kernel_Types
  imports Prelude
begin

text \<open>
  The vocabulary of \<open>bos-kernel\<close>: the identifier newtypes of \<open>ids.rs\<close>, the error model of
  \<open>error.rs\<close>, the execution context and telemetry events of \<open>observability.rs\<close> and the evidence
  kinds of \<open>evidence.rs\<close>. \<open>SystemTime::now()\<close> is an argument \<open>now\<close> wherever the source reads the
  clock, and the identifier \<open>CorrelationId::generate()\<close> returns is an argument wherever a function
  calls it for an error.
\<close>

section \<open>Identifiers (\<open>ids.rs\<close>)\<close>

record invalid_id =
  ii_type_name :: string

definition invalid_id_display :: "invalid_id \<Rightarrow> string" where
  "invalid_id_display e = ii_type_name e @ '' cannot be empty''"

text \<open>The body \<open>define_id!\<close> gives every newtype's \<open>try_new\<close>, with the type name it stringifies.\<close>

definition id_try_new :: "string \<Rightarrow> (string \<Rightarrow> 'i) \<Rightarrow> string \<Rightarrow> invalid_id + 'i" where
  "id_try_new name mk value =
     (let normalized = trim value
      in if normalized = [] then Inl \<lparr>ii_type_name = name\<rparr> else Inr (mk normalized))"

datatype command_id = CommandId (command_id_str: string)
datatype event_id = EventId (event_id_str: string)
datatype thread_id = ThreadId (thread_id_str: string)
datatype participant_id = ParticipantId (participant_id_str: string)
datatype message_id = MessageId (message_id_str: string)
datatype delivery_id = DeliveryId (delivery_id_str: string)
datatype agent_session_id = AgentSessionId (agent_session_id_str: string)
datatype workflow_id = WorkflowId (workflow_id_str: string)
datatype execution_id = ExecutionId (execution_id_str: string)
datatype correlation_id = CorrelationId (correlation_id_str: string)
datatype causation_id = CausationId (causation_id_str: string)
datatype idempotency_key = IdempotencyKey (idempotency_key_str: string)
datatype lease_id = LeaseId (lease_id_str: string)
datatype outbox_message_id = OutboxMessageId (outbox_message_id_str: string)

definition command_id_try_new :: "string \<Rightarrow> invalid_id + command_id" where
  "command_id_try_new = id_try_new ''CommandId'' CommandId"

definition event_id_try_new :: "string \<Rightarrow> invalid_id + event_id" where
  "event_id_try_new = id_try_new ''EventId'' EventId"

definition thread_id_try_new :: "string \<Rightarrow> invalid_id + thread_id" where
  "thread_id_try_new = id_try_new ''ThreadId'' ThreadId"

definition participant_id_try_new :: "string \<Rightarrow> invalid_id + participant_id" where
  "participant_id_try_new = id_try_new ''ParticipantId'' ParticipantId"

definition message_id_try_new :: "string \<Rightarrow> invalid_id + message_id" where
  "message_id_try_new = id_try_new ''MessageId'' MessageId"

definition delivery_id_try_new :: "string \<Rightarrow> invalid_id + delivery_id" where
  "delivery_id_try_new = id_try_new ''DeliveryId'' DeliveryId"

definition agent_session_id_try_new :: "string \<Rightarrow> invalid_id + agent_session_id" where
  "agent_session_id_try_new = id_try_new ''AgentSessionId'' AgentSessionId"

definition workflow_id_try_new :: "string \<Rightarrow> invalid_id + workflow_id" where
  "workflow_id_try_new = id_try_new ''WorkflowId'' WorkflowId"

definition execution_id_try_new :: "string \<Rightarrow> invalid_id + execution_id" where
  "execution_id_try_new = id_try_new ''ExecutionId'' ExecutionId"

definition correlation_id_try_new :: "string \<Rightarrow> invalid_id + correlation_id" where
  "correlation_id_try_new = id_try_new ''CorrelationId'' CorrelationId"

definition causation_id_try_new :: "string \<Rightarrow> invalid_id + causation_id" where
  "causation_id_try_new = id_try_new ''CausationId'' CausationId"

definition idempotency_key_try_new :: "string \<Rightarrow> invalid_id + idempotency_key" where
  "idempotency_key_try_new = id_try_new ''IdempotencyKey'' IdempotencyKey"

definition lease_id_try_new :: "string \<Rightarrow> invalid_id + lease_id" where
  "lease_id_try_new = id_try_new ''LeaseId'' LeaseId"

definition outbox_message_id_try_new :: "string \<Rightarrow> invalid_id + outbox_message_id" where
  "outbox_message_id_try_new = id_try_new ''OutboxMessageId'' OutboxMessageId"

lemmas id_try_new_defs =
  command_id_try_new_def
  event_id_try_new_def
  thread_id_try_new_def
  participant_id_try_new_def
  message_id_try_new_def
  delivery_id_try_new_def
  agent_session_id_try_new_def
  workflow_id_try_new_def
  execution_id_try_new_def
  correlation_id_try_new_def
  causation_id_try_new_def
  idempotency_key_try_new_def
  lease_id_try_new_def
  outbox_message_id_try_new_def

instantiation execution_id :: linorder
begin

definition less_eq_execution_id :: "execution_id \<Rightarrow> execution_id \<Rightarrow> bool" where
  "less_eq_execution_id x y \<longleftrightarrow> execution_id_str x \<le> execution_id_str y"

definition less_execution_id :: "execution_id \<Rightarrow> execution_id \<Rightarrow> bool" where
  "less_execution_id x y \<longleftrightarrow> execution_id_str x < execution_id_str y"

instance
  by standard (auto simp: less_eq_execution_id_def less_execution_id_def intro: execution_id.expand)

end

instantiation lease_id :: linorder
begin

definition less_eq_lease_id :: "lease_id \<Rightarrow> lease_id \<Rightarrow> bool" where
  "less_eq_lease_id x y \<longleftrightarrow> lease_id_str x \<le> lease_id_str y"

definition less_lease_id :: "lease_id \<Rightarrow> lease_id \<Rightarrow> bool" where
  "less_lease_id x y \<longleftrightarrow> lease_id_str x < lease_id_str y"

instance
  by standard (auto simp: less_eq_lease_id_def less_lease_id_def intro: lease_id.expand)

end

instantiation outbox_message_id :: linorder
begin

definition less_eq_outbox_message_id :: "outbox_message_id \<Rightarrow> outbox_message_id \<Rightarrow> bool" where
  "less_eq_outbox_message_id x y \<longleftrightarrow> outbox_message_id_str x \<le> outbox_message_id_str y"

definition less_outbox_message_id :: "outbox_message_id \<Rightarrow> outbox_message_id \<Rightarrow> bool" where
  "less_outbox_message_id x y \<longleftrightarrow> outbox_message_id_str x < outbox_message_id_str y"

instance
  by standard (auto simp: less_eq_outbox_message_id_def less_outbox_message_id_def intro: outbox_message_id.expand)

end

text \<open>
  \<open>CorrelationId::generate\<close>: the global counter starts at 1 and \<open>fetch_add\<close> wraps; a clock before
  the epoch panics (\<open>None\<close>).
\<close>

definition correlation_text :: "nat \<Rightarrow> u64 \<Rightarrow> string" where
  "correlation_text ms sequence = ''corr_'' @ hex_string ms @ ''_'' @ hex_string (unat sequence)"

definition correlation_generate :: "system_time \<Rightarrow> u64 \<Rightarrow> (correlation_id \<times> u64) option" where
  "correlation_generate now sequence =
     (if now < 0 then None
      else Some (projr (correlation_id_try_new (correlation_text (nat (now div 1000000)) sequence)),
                 sequence + 1))"

section \<open>Errors (\<open>error.rs\<close>)\<close>

datatype error_code =
  InvalidInput | InvalidState | Conflict | ConcurrentModification | NotFound | Policy
  | ExternalDependency | Timeout | BudgetExceeded | Unauthorized | Transient | Unexpected

datatype retry_class = Never | AfterReload | Backoff

fun default_retry_class :: "error_code \<Rightarrow> retry_class" where
  "default_retry_class ConcurrentModification = AfterReload"
| "default_retry_class ExternalDependency = Backoff"
| "default_retry_class Timeout = Backoff"
| "default_retry_class Transient = Backoff"
| "default_retry_class _ = Never"

fun error_code_display :: "error_code \<Rightarrow> string" where
  "error_code_display InvalidInput = ''invalid_input''"
| "error_code_display InvalidState = ''invalid_state''"
| "error_code_display Conflict = ''conflict''"
| "error_code_display ConcurrentModification = ''concurrent_modification''"
| "error_code_display NotFound = ''not_found''"
| "error_code_display Policy = ''policy''"
| "error_code_display ExternalDependency = ''external_dependency''"
| "error_code_display Timeout = ''timeout''"
| "error_code_display BudgetExceeded = ''budget_exceeded''"
| "error_code_display Unauthorized = ''unauthorized''"
| "error_code_display Transient = ''transient''"
| "error_code_display Unexpected = ''unexpected''"

record app_error =
  ae_kind :: error_code
  ae_code :: string
  ae_message :: string
  ae_retry :: retry_class
  ae_correlation_id :: correlation_id

type_synonym 'a app_result = "app_error + 'a"
type_synonym ('s, 'a) app_op = "('s, app_error, 'a) op"

definition app_error_new :: "error_code \<Rightarrow> string \<Rightarrow> string \<Rightarrow> correlation_id \<Rightarrow> app_error" where
  "app_error_new kind code message correlation_id =
     \<lparr>ae_kind = kind, ae_code = code, ae_message = message,
      ae_retry = default_retry_class kind, ae_correlation_id = correlation_id\<rparr>"

definition app_error_conflict :: "string \<Rightarrow> string \<Rightarrow> correlation_id \<Rightarrow> app_error" where
  "app_error_conflict code message cid = app_error_new Conflict code message cid"

definition app_error_concurrent_modification :: "string \<Rightarrow> string \<Rightarrow> correlation_id \<Rightarrow> app_error" where
  "app_error_concurrent_modification code message cid =
     app_error_new ConcurrentModification code message cid"

definition app_error_not_found :: "string \<Rightarrow> string \<Rightarrow> correlation_id \<Rightarrow> app_error" where
  "app_error_not_found code message cid = app_error_new NotFound code message cid"

definition app_error_unexpected :: "string \<Rightarrow> string \<Rightarrow> correlation_id \<Rightarrow> app_error" where
  "app_error_unexpected code message cid = app_error_new Unexpected code message cid"

definition app_error_with_retry :: "app_error \<Rightarrow> retry_class \<Rightarrow> app_error" where
  "app_error_with_retry e r = e\<lparr>ae_retry := r\<rparr>"

definition app_error_display :: "app_error \<Rightarrow> string" where
  "app_error_display e =
     ae_code e @ '' ['' @ error_code_display (ae_kind e) @ '']: '' @ ae_message e"

section \<open>Execution context and telemetry (\<open>observability.rs\<close>)\<close>

record actor_ref =
  ar_kind :: string
  ar_id :: string

record execution_context =
  cx_actor :: "actor_ref option"
  cx_correlation_id :: correlation_id
  cx_causation_id :: "causation_id option"
  cx_idempotency_key :: "idempotency_key option"
  cx_workflow_id :: "workflow_id option"
  cx_session_id :: "agent_session_id option"
  cx_thread_id :: "thread_id option"
  cx_attempt :: u32
  cx_started_at :: system_time
  cx_finished_at :: "system_time option"

definition execution_context_new :: "correlation_id \<Rightarrow> system_time \<Rightarrow> execution_context" where
  "execution_context_new cid now =
     \<lparr>cx_actor = None, cx_correlation_id = cid, cx_causation_id = None, cx_idempotency_key = None,
      cx_workflow_id = None, cx_session_id = None, cx_thread_id = None, cx_attempt = 1,
      cx_started_at = now, cx_finished_at = None\<rparr>"

definition cx_with_idempotency_key ::
    "execution_context \<Rightarrow> idempotency_key \<Rightarrow> execution_context" where
  "cx_with_idempotency_key ctx key = ctx\<lparr>cx_idempotency_key := Some key\<rparr>"

definition cx_with_attempt :: "execution_context \<Rightarrow> u32 \<Rightarrow> execution_context" where
  "cx_with_attempt ctx attempt = ctx\<lparr>cx_attempt := max attempt 1\<rparr>"

definition cx_start_at :: "execution_context \<Rightarrow> system_time \<Rightarrow> execution_context" where
  "cx_start_at ctx t = ctx\<lparr>cx_started_at := t\<rparr>"

definition cx_finish :: "execution_context \<Rightarrow> system_time \<Rightarrow> execution_context" where
  "cx_finish ctx t = ctx\<lparr>cx_finished_at := Some t\<rparr>"

definition app_error_from_context ::
    "error_code \<Rightarrow> string \<Rightarrow> string \<Rightarrow> execution_context \<Rightarrow> app_error" where
  "app_error_from_context kind code message ctx =
     app_error_new kind code message (cx_correlation_id ctx)"

lemmas app_error_defs = app_error_new_def app_error_conflict_def
  app_error_concurrent_modification_def app_error_not_found_def app_error_unexpected_def
  app_error_from_context_def

record telemetry_event =
  te_name :: string
  te_at :: system_time
  te_attributes :: "(string \<times> string) list"

definition telemetry_event_new :: "string \<Rightarrow> system_time \<Rightarrow> telemetry_event" where
  "telemetry_event_new name now = \<lparr>te_name = name, te_at = now, te_attributes = []\<rparr>"

definition te_with_attribute :: "telemetry_event \<Rightarrow> string \<Rightarrow> string \<Rightarrow> telemetry_event" where
  "te_with_attribute ev k v = ev\<lparr>te_attributes := te_attributes ev @ [(k, v)]\<rparr>"

section \<open>Evidence kinds (\<open>evidence.rs\<close>)\<close>

datatype evidence_kind = Artifact | Url | Note

fun evidence_kind_as_str :: "evidence_kind \<Rightarrow> string" where
  "evidence_kind_as_str Artifact = ''artifact''"
| "evidence_kind_as_str Url = ''url''"
| "evidence_kind_as_str Note = ''note''"

section \<open>Shared input checks\<close>

text \<open>
  \<open>require_non_empty\<close> is written out identically in \<open>outbox.rs\<close>, \<open>workers.rs\<close> and \<open>scheduler.rs\<close>.
\<close>

definition require_non_empty ::
    "string \<Rightarrow> string \<Rightarrow> string \<Rightarrow> execution_context \<Rightarrow> unit app_result" where
  "require_non_empty value field_name code ctx =
     (if is_blank value
      then Inl (app_error_from_context InvalidInput code (field_name @ '' must not be empty'') ctx)
      else Inr ())"

lemma require_non_empty_ok [simp]:
  "require_non_empty value field_name code ctx = Inr u \<longleftrightarrow> \<not> is_blank value"
  by (simp add: require_non_empty_def)

lemma require_non_empty_simps:
  "is_blank v \<Longrightarrow> require_non_empty v f c ctx =
     Inl (app_error_from_context InvalidInput c (f @ '' must not be empty'') ctx)"
  "\<not> is_blank v \<Longrightarrow> require_non_empty v f c ctx = Inr ()"
  by (simp_all add: require_non_empty_def)

section \<open>Facts\<close>

lemma id_try_new_Inr: "id_try_new name mk v = Inr i \<longleftrightarrow> \<not> is_blank v \<and> i = mk (trim v)"
  by (auto simp: id_try_new_def is_blank_def Let_def)

lemma id_try_new_Inl:
  "id_try_new name mk v = Inl e \<longleftrightarrow> is_blank v \<and> e = \<lparr>ii_type_name = name\<rparr>"
  by (auto simp: id_try_new_def is_blank_def Let_def)

lemma correlation_text_trim: "trim (correlation_text ms n) = correlation_text ms n"
proof -
  obtain p d where "hex_string (unat n) = p @ [hex_digit d]" and "d < 16"
    using hex_string_snoc by blast
  moreover have "plain_char CHR ''c''" by code_simp
  ultimately show ?thesis
    using trim_plain_word [of "CHR ''c''" "hex_digit d" "''orr_'' @ hex_string ms @ ''_'' @ p"]
    by (simp add: correlation_text_def hex_digit_plain)
qed

end
