(* ===== verification/Current_State.thy ===== *)
theory Current_State
  imports Kernel_Types
begin

text \<open>
  \<open>current_state.rs\<close>: a current-state value guarded by a revision token, an append-only audit log and
  an idempotency index. The abstract specification is a list of keyed events; the locale
  \<open>idempotent_log\<close> states what a client may rely on, and \<open>AuditedCurrentState::append\<close> is shown to
  implement it.
\<close>

section \<open>Data\<close>

type_synonym revision_token = u64

definition revision_initial :: revision_token where
  "revision_initial = 0"

text \<open>\<open>self.0 + 1\<close> on \<open>u64\<close> in the release profile, which wraps.\<close>

definition revision_next :: "revision_token \<Rightarrow> revision_token" where
  "revision_next r = r + 1"

datatype current_state_idempotency_key =
  CurrentStateIdempotencyKey (current_state_idempotency_key_str: string)

datatype invalid_current_state_idempotency_key = InvalidCurrentStateIdempotencyKey

definition current_state_key_try_new ::
    "string \<Rightarrow> invalid_current_state_idempotency_key + current_state_idempotency_key" where
  "current_state_key_try_new value =
     (let normalized = trim value
      in if normalized = [] then Inl InvalidCurrentStateIdempotencyKey
         else Inr (CurrentStateIdempotencyKey normalized))"

record stale_revision_error =
  sr_expected :: revision_token
  sr_actual :: revision_token

datatype append_result =
  Appended (append_revision: revision_token) (append_key: current_state_idempotency_key)
| Duplicate (append_revision: revision_token) (append_key: current_state_idempotency_key)

definition is_appended :: "append_result \<Rightarrow> bool" where
  "is_appended r = (case r of Appended _ _ \<Rightarrow> True | Duplicate _ _ \<Rightarrow> False)"

definition is_duplicate :: "append_result \<Rightarrow> bool" where
  "is_duplicate r = (case r of Appended _ _ \<Rightarrow> False | Duplicate _ _ \<Rightarrow> True)"

record 'e audit_log_entry =
  al_revision :: revision_token
  al_idempotency_key :: current_state_idempotency_key
  al_payload :: 'e

record ('s, 'e) audited_current_state =
  acs_state :: 's
  acs_revision :: revision_token
  acs_audit_log :: "'e audit_log_entry list"
  acs_idempotency_keys :: "(current_state_idempotency_key, revision_token) hash_map"

definition acs_new :: "'s \<Rightarrow> ('s, 'e) audited_current_state" where
  "acs_new state =
     \<lparr>acs_state = state, acs_revision = revision_initial, acs_audit_log = [],
      acs_idempotency_keys = []\<rparr>"

definition acs_append ::
    "revision_token \<Rightarrow> current_state_idempotency_key \<Rightarrow> 'e \<Rightarrow> ('s \<Rightarrow> 'e \<Rightarrow> 's)
     \<Rightarrow> (('s, 'e) audited_current_state, stale_revision_error, append_result) op" where
  "acs_append expected_revision idempotency_key payload apply_event self =
     (case hm_get (acs_idempotency_keys self) idempotency_key of
        Some revision \<Rightarrow> (Inr (Duplicate revision idempotency_key), self)
      | None \<Rightarrow>
          if expected_revision \<noteq> acs_revision self
          then (Inl \<lparr>sr_expected = expected_revision, sr_actual = acs_revision self\<rparr>, self)
          else
            let revision = revision_next (acs_revision self)
            in (Inr (Appended revision idempotency_key),
                self\<lparr>acs_state := apply_event (acs_state self) payload,
                     acs_revision := revision,
                     acs_idempotency_keys :=
                       hm_insert idempotency_key revision (acs_idempotency_keys self),
                     acs_audit_log :=
                       acs_audit_log self @
                         [\<lparr>al_revision = revision, al_idempotency_key = idempotency_key,
                           al_payload = payload\<rparr>]\<rparr>))"

section \<open>Abstract specification: a log of keyed events\<close>

fun key_index :: "'k \<Rightarrow> ('k \<times> 'e) list \<Rightarrow> nat option" where
  "key_index k [] = None"
| "key_index k ((k', e) # xs) = (if k' = k then Some 0 else map_option Suc (key_index k xs))"

lemma key_index_None: "key_index k xs = None \<longleftrightarrow> k \<notin> fst ` set xs"
  by (induction k xs rule: key_index.induct) auto

lemma key_index_append:
  "key_index k (xs @ ys) =
     (case key_index k xs of Some i \<Rightarrow> Some i
      | None \<Rightarrow> map_option (\<lambda>i. length xs + i) (key_index k ys))"
  by (induction xs; cases "key_index k ys") (auto split: option.splits if_splits)

text \<open>
  The contract of an idempotent, revision-checked log over a state \<open>'a\<close>. \<open>entries\<close> is its abstraction;
  the revision of the \<open>i\<close>-th entry is \<open>i + 1\<close> modulo \<open>2 ^ 64\<close>.
\<close>

locale idempotent_log =
  fixes inv :: "'a \<Rightarrow> bool"
    and entries :: "'a \<Rightarrow> ('k \<times> 'e) list"
    and append :: "u64 \<Rightarrow> 'k \<Rightarrow> 'e \<Rightarrow> 'a \<Rightarrow> ('err + 'r) \<times> 'a"
    and appended :: "u64 \<Rightarrow> 'k \<Rightarrow> 'r"
    and duplicate :: "u64 \<Rightarrow> 'k \<Rightarrow> 'r"
    and stale :: "u64 \<Rightarrow> u64 \<Rightarrow> 'err"
  assumes inv_append: "inv a \<Longrightarrow> inv (snd (append r k e a))"
    and append_known:
      "inv a \<Longrightarrow> key_index k (entries a) = Some i
         \<Longrightarrow> append r k e a = (Inr (duplicate (of_nat (Suc i)) k), a)"
    and append_stale:
      "inv a \<Longrightarrow> key_index k (entries a) = None \<Longrightarrow> r \<noteq> of_nat (length (entries a))
         \<Longrightarrow> append r k e a = (Inl (stale r (of_nat (length (entries a)))), a)"
    and append_fresh:
      "inv a \<Longrightarrow> key_index k (entries a) = None \<Longrightarrow> r = of_nat (length (entries a))
         \<Longrightarrow> fst (append r k e a) = Inr (appended (of_nat (Suc (length (entries a)))) k)
           \<and> entries (snd (append r k e a)) = entries a @ [(k, e)]"
begin

fun run :: "'a \<Rightarrow> (u64 \<times> 'k \<times> 'e) list \<Rightarrow> 'a" where
  "run a [] = a"
| "run a ((r, k, e) # qs) = run (snd (append r k e a)) qs"

lemma entries_append:
  assumes "inv a"
  shows "\<exists>zs. entries (snd (append r k e a)) = entries a @ zs"
proof (cases "key_index k (entries a)")
  case None
  then show ?thesis
    using append_stale [OF assms None, of r e] append_fresh [OF assms None, of r e]
    by (cases "r = of_nat (length (entries a))") auto
qed (use append_known [OF assms] in auto)

lemma run_extends:
  assumes "inv a"
  shows "inv (run a qs) \<and> (\<exists>zs. entries (run a qs) = entries a @ zs)"
  using assms
proof (induction a qs rule: run.induct)
  case (2 a r k e qs)
  then have "inv (snd (append r k e a))" by (simp add: inv_append)
  with "2" entries_append [OF "2.prems", of r k e] show ?case by auto
qed simp

text \<open>Once a key is accepted, every later use of it reports the first revision and changes nothing.\<close>

lemma replay_after_run:
  assumes "inv a" and "fst (append r k e a) = Inr (appended rv k)" and "rv = r + 1"
    and "key_index k (entries a) = None" and "r = of_nat (length (entries a))"
  shows "append r' k e' (run (snd (append r k e a)) qs)
       = (Inr (duplicate rv k), run (snd (append r k e a)) qs)"
proof -
  let ?b = "snd (append r k e a)"
  have b: "inv ?b" "entries ?b = entries a @ [(k, e)]"
    using assms append_fresh inv_append by auto
  obtain zs where zs: "inv (run ?b qs)" "entries (run ?b qs) = (entries a @ [(k, e)]) @ zs"
    using run_extends [OF b(1), of qs] b(2) by auto
  have "key_index k (entries (run ?b qs)) = Some (length (entries a))"
    using assms(4) by (simp add: zs(2) key_index_append)
  then show ?thesis
    using append_known [OF zs(1)] assms(3,5) by (simp add: add.commute)
qed

end

section \<open>The implementation meets the contract\<close>

definition acs_entries ::
    "('s, 'e) audited_current_state \<Rightarrow> (current_state_idempotency_key \<times> 'e) list" where
  "acs_entries a = map (\<lambda>x. (al_idempotency_key x, al_payload x)) (acs_audit_log a)"

text \<open>
  The invariant ties the four fields together: the revision counts the log, the log carries the
  revisions \<open>1, 2, \<dots>\<close>, the index holds exactly the log's keys, and the state is the replay of the log
  from the initial state.
\<close>

definition acs_inv :: "('s \<Rightarrow> 'e \<Rightarrow> 's) \<Rightarrow> 's \<Rightarrow> ('s, 'e) audited_current_state \<Rightarrow> bool" where
  "acs_inv f s0 a \<longleftrightarrow>
     acs_revision a = of_nat (length (acs_audit_log a))
   \<and> map al_revision (acs_audit_log a) = map of_nat [1..<Suc (length (acs_audit_log a))]
   \<and> distinct (map al_idempotency_key (acs_audit_log a))
   \<and> (\<forall>k. hm_get (acs_idempotency_keys a) k =
        map_option (\<lambda>i. of_nat (Suc i)) (key_index k (acs_entries a)))
   \<and> acs_state a = foldl f s0 (map al_payload (acs_audit_log a))"

lemma acs_inv_new: "acs_inv f s0 (acs_new s0)"
  by (simp add: acs_inv_def acs_new_def revision_initial_def acs_entries_def)

lemma acs_inv_append:
  assumes "acs_inv f s0 a"
  shows "acs_inv f s0 (snd (acs_append r k e f a))"
proof (cases "hm_get (acs_idempotency_keys a) k = None \<and> r = acs_revision a")
  case True
  then have "key_index k (acs_entries a) = None"
    using assms by (simp add: acs_inv_def)
  then have "k \<notin> set (map al_idempotency_key (acs_audit_log a))"
    by (simp add: key_index_None acs_entries_def image_image)
  with True assms show ?thesis
    by (auto simp: acs_inv_def acs_append_def revision_next_def Let_def acs_entries_def
        key_index_append split: option.splits)
qed (use assms in \<open>auto simp: acs_append_def split: option.splits\<close>)

interpretation acs: idempotent_log
  "acs_inv f s0" acs_entries "\<lambda>r k e. acs_append r k e f" Appended Duplicate
  "\<lambda>r actual. \<lparr>sr_expected = r, sr_actual = actual\<rparr>"
  for f :: "'s \<Rightarrow> 'e \<Rightarrow> 's" and s0 :: 's
proof unfold_locales
  fix a r k e
  assume inv: "acs_inv f s0 (a :: ('s, 'e) audited_current_state)"
  show "acs_inv f s0 (snd (acs_append r k e f a))"
    using inv by (rule acs_inv_append)
  show "acs_append r k e f a = (Inr (Duplicate (of_nat (Suc i)) k), a)"
    if "key_index k (acs_entries a) = Some i" for i
    using inv that by (simp add: acs_append_def acs_inv_def)
  have len: "length (acs_entries a) = length (acs_audit_log a)"
    by (simp add: acs_entries_def)
  show "acs_append r k e f a =
      (Inl \<lparr>sr_expected = r, sr_actual = of_nat (length (acs_entries a))\<rparr>, a)"
    if "key_index k (acs_entries a) = None" "r \<noteq> of_nat (length (acs_entries a))"
    using inv that len by (simp add: acs_append_def acs_inv_def)
  show "fst (acs_append r k e f a) = Inr (Appended (of_nat (Suc (length (acs_entries a)))) k)
      \<and> acs_entries (snd (acs_append r k e f a)) = acs_entries a @ [(k, e)]"
    if "key_index k (acs_entries a) = None" "r = of_nat (length (acs_entries a))"
    using inv that len
    by (simp add: acs_append_def acs_inv_def Let_def revision_next_def acs_entries_def add.commute)
qed

text \<open>A sequence of appends with one event handler.\<close>

fun acs_run ::
    "('s \<Rightarrow> 'e \<Rightarrow> 's) \<Rightarrow> ('s, 'e) audited_current_state
     \<Rightarrow> (revision_token \<times> current_state_idempotency_key \<times> 'e) list
     \<Rightarrow> ('s, 'e) audited_current_state" where
  "acs_run f a [] = a"
| "acs_run f a ((r, k, e) # qs) = acs_run f (snd (acs_append r k e f a)) qs"

lemma acs_run_inv: "acs_inv f s0 a \<Longrightarrow> acs_inv f s0 (acs_run f a qs)"
  by (induction f a qs rule: acs_run.induct) (auto intro: acs_inv_append)

lemma acs_run_eq: "acs_run f a qs = acs.run f a qs"
  by (induction f a qs rule: acs_run.induct) auto

section \<open>Properties\<close>

text \<open>
  (C5) Event sourcing: starting from a fresh \<open>AuditedCurrentState\<close>, after any sequence of appends the
  current state is the replay of the audit log's payloads from the initial state, the revision token
  counts the log, the entries carry the revisions 1, 2, ... in order, and no idempotency key occurs
  twice.
\<close>

theorem acs_state_is_replay:
  "let a = acs_run f (acs_new s0) qs; log = acs_audit_log a
   in acs_state a = foldl f s0 (map al_payload log)
    \<and> acs_revision a = of_nat (length log)
    \<and> map al_revision log = map of_nat [1..<Suc (length log)]
    \<and> distinct (map al_idempotency_key log)"
  using acs_run_inv [OF acs_inv_new, of f s0 qs] by (simp add: Let_def acs_inv_def)

text \<open>
  Exactly-once: when a run's next append with a key is accepted as revision \<open>rv\<close>, then after any
  further appends a repeated append with that key, whatever revision and payload it carries, reports
  \<open>Duplicate rv\<close> and leaves the whole structure unchanged.
\<close>

theorem acs_append_exactly_once:
  assumes acc: "acs_append r k e f (acs_run f (acs_new s0) ps) = (Inr (Appended rv k), b)"
  shows "acs_append r' k e' f (acs_run f b qs) = (Inr (Duplicate rv k), acs_run f b qs)"
proof -
  let ?a = "acs_run f (acs_new s0) ps"
  have inv: "acs_inv f s0 ?a" by (rule acs_run_inv [OF acs_inv_new])
  have none: "hm_get (acs_idempotency_keys ?a) k = None" and r: "r = acs_revision ?a"
    and rv: "rv = r + 1" and b: "b = snd (acs_append r k e f ?a)"
    using acc by (auto simp: acs_append_def revision_next_def Let_def split: option.splits if_splits)
  have new: "key_index k (acs_entries ?a) = None" "r = of_nat (length (acs_entries ?a))"
    using inv none r by (simp_all add: acs_inv_def acs_entries_def)
  have "fst (acs_append r k e f ?a) = Inr (Appended rv k)" using acc by simp
  then have "acs_append r' k e' f (acs.run f b qs) = (Inr (Duplicate rv k), acs.run f b qs)"
    unfolding b by (rule acs.replay_after_run [OF inv _ rv new])
  then show ?thesis by (simp only: acs_run_eq)
qed

theorem acs_append_exactly_once_witness:
  "acs_append 9 (CurrentStateIdempotencyKey ''a'') (100 :: int) (+)
     (acs_run (+)
        (snd (acs_append 0 (CurrentStateIdempotencyKey ''a'') 7 (+) (acs_run (+) (acs_new 0) [])))
        [(1, CurrentStateIdempotencyKey ''b'', 3)])
   = (Inr (Duplicate 1 (CurrentStateIdempotencyKey ''a'')),
      acs_run (+)
        (snd (acs_append 0 (CurrentStateIdempotencyKey ''a'') 7 (+) (acs_run (+) (acs_new 0) [])))
        [(1, CurrentStateIdempotencyKey ''b'', 3)])"
  by (rule acs_append_exactly_once [of 0 _ 7 _ 0 "[]"])
     (simp add: acs_append_def acs_new_def revision_initial_def revision_next_def)

text \<open>
  Optimistic concurrency: of two writers that read the same revision, the second one with a new
  key is refused with \<open>StaleRevisionError\<close> naming both revisions, and the refusal changes nothing.
\<close>

theorem acs_second_writer_is_stale:
  assumes "acs_append r k e f a = (Inr (Appended rv k), b)"
    and "hm_get (acs_idempotency_keys a) k' = None" and "k' \<noteq> k"
  shows "acs_append r k' e' f b = (Inl \<lparr>sr_expected = r, sr_actual = r + 1\<rparr>, b)"
  using assms
  by (auto simp: acs_append_def revision_next_def Let_def split: option.splits if_splits)

theorem acs_second_writer_is_stale_witness:
  "acs_append 0 (CurrentStateIdempotencyKey ''b'') (3 :: int) (+)
     (snd (acs_append 0 (CurrentStateIdempotencyKey ''a'') 7 (+) (acs_new 0)))
   = (Inl \<lparr>sr_expected = 0, sr_actual = 0 + 1\<rparr>,
      snd (acs_append 0 (CurrentStateIdempotencyKey ''a'') 7 (+) (acs_new 0)))"
  by (rule acs_second_writer_is_stale
        [of 0 "CurrentStateIdempotencyKey ''a''" 7 "(+)" "acs_new 0" 1])
     (simp_all add: acs_append_def acs_new_def revision_initial_def revision_next_def)

end
