(* ===== verification/Execution_Core.thy ===== *)
theory Execution_Core
  imports Current_State
begin

text \<open>
  \<open>execution.rs\<close> and \<open>execution/inspection.rs\<close>: idempotency claims, execution records and their
  transitions, execution leases, the requests the journal and the leased queue take, a claimed
  execution with its three resolutions, and the inspection view. Every transition is the function of
  the same name; \<open>&self\<close> accessors are the record selectors.
\<close>

section \<open>Idempotency claims\<close>

datatype execution_record_status = Pending | InFlight | Succeeded | Failed | DeadLettered

datatype idempotency_claim_status = ClaimInProgress | ClaimSucceeded | ClaimFailed

record idempotency_claim =
  ic_key :: idempotency_key
  ic_scope :: string
  ic_status :: idempotency_claim_status
  ic_attempt :: u32
  ic_duplicate_count :: u32
  ic_execution_id :: "execution_id option"
  ic_correlation_id :: "correlation_id option"
  ic_created_at :: system_time
  ic_first_claimed_at :: system_time
  ic_last_claimed_at :: system_time
  ic_completed_at :: "system_time option"
  ic_last_error :: "string option"

definition ic_new :: "idempotency_key \<Rightarrow> string \<Rightarrow> system_time \<Rightarrow> idempotency_claim" where
  "ic_new key scope now =
     \<lparr>ic_key = key, ic_scope = scope, ic_status = ClaimInProgress, ic_attempt = 1,
      ic_duplicate_count = 0, ic_execution_id = None, ic_correlation_id = None,
      ic_created_at = now, ic_first_claimed_at = now, ic_last_claimed_at = now,
      ic_completed_at = None, ic_last_error = None\<rparr>"

definition ic_attach_execution :: "idempotency_claim \<Rightarrow> execution_id \<Rightarrow> idempotency_claim" where
  "ic_attach_execution c i = c\<lparr>ic_execution_id := Some i\<rparr>"

definition ic_with_correlation_id :: "idempotency_claim \<Rightarrow> correlation_id \<Rightarrow> idempotency_claim" where
  "ic_with_correlation_id c i = c\<lparr>ic_correlation_id := Some i\<rparr>"

definition ic_with_attempt :: "idempotency_claim \<Rightarrow> u32 \<Rightarrow> idempotency_claim" where
  "ic_with_attempt c n = c\<lparr>ic_attempt := max n 1\<rparr>"

definition ic_touch :: "idempotency_claim \<Rightarrow> system_time \<Rightarrow> idempotency_claim" where
  "ic_touch c t = c\<lparr>ic_last_claimed_at := t\<rparr>"

definition ic_record_duplicate :: "idempotency_claim \<Rightarrow> system_time \<Rightarrow> idempotency_claim" where
  "ic_record_duplicate c t =
     c\<lparr>ic_duplicate_count := saturating_inc (ic_duplicate_count c), ic_last_claimed_at := t\<rparr>"

definition ic_mark_succeeded :: "idempotency_claim \<Rightarrow> system_time \<Rightarrow> idempotency_claim" where
  "ic_mark_succeeded c t =
     c\<lparr>ic_status := ClaimSucceeded, ic_completed_at := Some t, ic_last_claimed_at := t,
       ic_last_error := None\<rparr>"

definition ic_mark_failed :: "idempotency_claim \<Rightarrow> system_time \<Rightarrow> string \<Rightarrow> idempotency_claim" where
  "ic_mark_failed c t err =
     c\<lparr>ic_status := ClaimFailed, ic_completed_at := Some t, ic_last_claimed_at := t,
       ic_last_error := Some err\<rparr>"

definition ic_restore ::
    "idempotency_key \<Rightarrow> string \<Rightarrow> idempotency_claim_status \<Rightarrow> u32 \<Rightarrow> u32 \<Rightarrow> execution_id option
     \<Rightarrow> correlation_id option \<Rightarrow> system_time \<Rightarrow> system_time \<Rightarrow> system_time \<Rightarrow> system_time option
     \<Rightarrow> string option \<Rightarrow> idempotency_claim" where
  "ic_restore key scope status attempt duplicate_count execution_id correlation_id created_at
       first_claimed_at last_claimed_at completed_at last_error =
     \<lparr>ic_key = key, ic_scope = scope, ic_status = status, ic_attempt = max attempt 1,
      ic_duplicate_count = duplicate_count, ic_execution_id = execution_id,
      ic_correlation_id = correlation_id, ic_created_at = created_at,
      ic_first_claimed_at = first_claimed_at, ic_last_claimed_at = last_claimed_at,
      ic_completed_at = completed_at, ic_last_error = last_error\<rparr>"

definition validate_scope :: "string \<Rightarrow> execution_context \<Rightarrow> unit app_result" where
  "validate_scope scope ctx =
     (if is_blank scope
      then Inl (app_error_from_context InvalidInput ''idempotency_scope_required''
                  ''idempotency claims require a non-empty scope'' ctx)
      else Inr ())"

definition ic_from_context ::
    "idempotency_key \<Rightarrow> string \<Rightarrow> execution_id \<Rightarrow> execution_context \<Rightarrow> system_time
     \<Rightarrow> idempotency_claim app_result" where
  "ic_from_context key scope execution_id ctx now =
     (let claim = ic_touch
            (ic_with_attempt
              (ic_with_correlation_id (ic_attach_execution (ic_new key scope now) execution_id)
                (cx_correlation_id ctx))
              (cx_attempt ctx))
            (cx_started_at ctx)
      in res_bind (validate_scope (ic_scope claim) ctx) (\<lambda>_. Inr claim))"

section \<open>Execution records\<close>

record execution_record =
  er_id :: execution_id
  er_operation :: string
  er_target :: string
  er_idempotency_key :: idempotency_key
  er_correlation_id :: correlation_id
  er_status :: execution_record_status
  er_attempt :: u32
  er_recorded_at :: system_time
  er_available_at :: system_time
  er_last_attempted_at :: "system_time option"
  er_finished_at :: "system_time option"
  er_last_error :: "string option"
  er_revision :: revision_token

text \<open>The clock is read twice, for \<open>recorded_at\<close> and for \<open>available_at\<close>.\<close>

definition er_new ::
    "execution_id \<Rightarrow> string \<Rightarrow> string \<Rightarrow> idempotency_key \<Rightarrow> correlation_id
     \<Rightarrow> system_time \<Rightarrow> system_time \<Rightarrow> execution_record" where
  "er_new i operation target key cid now1 now2 =
     \<lparr>er_id = i, er_operation = operation, er_target = target, er_idempotency_key = key,
      er_correlation_id = cid, er_status = Pending, er_attempt = 1, er_recorded_at = now1,
      er_available_at = now2, er_last_attempted_at = None, er_finished_at = None,
      er_last_error = None, er_revision = revision_initial\<rparr>"

definition er_with_status ::
    "execution_record \<Rightarrow> execution_record_status \<Rightarrow> execution_record" where
  "er_with_status r st = r\<lparr>er_status := st\<rparr>"

definition er_with_attempt :: "execution_record \<Rightarrow> u32 \<Rightarrow> execution_record" where
  "er_with_attempt r n = r\<lparr>er_attempt := max n 1\<rparr>"

definition er_with_recorded_at :: "execution_record \<Rightarrow> system_time \<Rightarrow> execution_record" where
  "er_with_recorded_at r t = r\<lparr>er_recorded_at := t, er_available_at := t\<rparr>"

definition er_with_available_at :: "execution_record \<Rightarrow> system_time \<Rightarrow> execution_record" where
  "er_with_available_at r t = r\<lparr>er_available_at := t\<rparr>"

definition er_with_revision :: "execution_record \<Rightarrow> revision_token \<Rightarrow> execution_record" where
  "er_with_revision r v = r\<lparr>er_revision := v\<rparr>"

definition er_from_context ::
    "execution_id \<Rightarrow> string \<Rightarrow> string \<Rightarrow> execution_context \<Rightarrow> system_time \<Rightarrow> system_time
     \<Rightarrow> execution_record app_result" where
  "er_from_context i operation target ctx now1 now2 =
     res_bind
       (ok_or (app_error_from_context InvalidState ''execution_context_missing_idempotency_key''
                 ''execution records require an execution context with an idempotency key'' ctx)
          (cx_idempotency_key ctx))
       (\<lambda>key. Inr (er_with_recorded_at
          (er_with_attempt
             (er_new i operation target key (cx_correlation_id ctx) now1 now2)
             (cx_attempt ctx))
          (cx_started_at ctx)))"

definition er_mark_in_flight :: "execution_record \<Rightarrow> system_time \<Rightarrow> execution_record" where
  "er_mark_in_flight r now =
     r\<lparr>er_last_attempted_at := Some now, er_status := InFlight, er_finished_at := None,
       er_last_error := None, er_revision := revision_next (er_revision r)\<rparr>"

definition er_mark_claimed :: "execution_record \<Rightarrow> system_time \<Rightarrow> execution_record" where
  "er_mark_claimed r claimed_at =
     r\<lparr>er_status := InFlight, er_last_attempted_at := Some claimed_at, er_finished_at := None,
       er_last_error := None, er_revision := revision_next (er_revision r)\<rparr>"

definition er_mark_succeeded :: "execution_record \<Rightarrow> system_time \<Rightarrow> execution_record" where
  "er_mark_succeeded r finished_at =
     r\<lparr>er_status := Succeeded, er_last_attempted_at := Some finished_at,
       er_finished_at := Some finished_at, er_last_error := None,
       er_revision := revision_next (er_revision r)\<rparr>"

definition er_mark_failed :: "execution_record \<Rightarrow> system_time \<Rightarrow> string \<Rightarrow> execution_record" where
  "er_mark_failed r finished_at err =
     r\<lparr>er_status := Failed, er_last_attempted_at := Some finished_at,
       er_finished_at := Some finished_at, er_last_error := Some err,
       er_revision := revision_next (er_revision r)\<rparr>"

definition er_schedule_retry ::
    "execution_record \<Rightarrow> system_time \<Rightarrow> system_time \<Rightarrow> string \<Rightarrow> execution_record" where
  "er_schedule_retry r attempted_at next_available_at err =
     r\<lparr>er_status := Pending, er_attempt := saturating_inc (er_attempt r),
       er_available_at := next_available_at, er_last_attempted_at := Some attempted_at,
       er_finished_at := None, er_last_error := Some err,
       er_revision := revision_next (er_revision r)\<rparr>"

definition er_mark_dead_lettered ::
    "execution_record \<Rightarrow> system_time \<Rightarrow> string \<Rightarrow> execution_record" where
  "er_mark_dead_lettered r dead_lettered_at err =
     r\<lparr>er_status := DeadLettered, er_last_attempted_at := Some dead_lettered_at,
       er_finished_at := Some dead_lettered_at, er_last_error := Some err,
       er_revision := revision_next (er_revision r)\<rparr>"

definition er_release_claim :: "execution_record \<Rightarrow> system_time \<Rightarrow> execution_record" where
  "er_release_claim r released_at =
     r\<lparr>er_status := Pending, er_last_attempted_at := Some released_at, er_finished_at := None,
       er_revision := revision_next (er_revision r)\<rparr>"

lemmas er_transition_defs = er_mark_in_flight_def er_mark_claimed_def er_mark_succeeded_def
  er_mark_failed_def er_schedule_retry_def er_mark_dead_lettered_def er_release_claim_def
  er_with_status_def revision_next_def

section \<open>Leases and requests\<close>

record execution_lease =
  el_lease_id :: lease_id
  el_leased_by :: string
  el_leased_at :: system_time
  el_lease_expires_at :: system_time

definition el_from_now ::
    "lease_id \<Rightarrow> string \<Rightarrow> duration \<Rightarrow> system_time \<Rightarrow> execution_lease" where
  "el_from_now lease_id leased_by lease_ttl now =
     \<lparr>el_lease_id = lease_id, el_leased_by = leased_by, el_leased_at = now,
      el_lease_expires_at = add_or_keep now lease_ttl\<rparr>"

definition el_is_expired_at :: "execution_lease \<Rightarrow> system_time \<Rightarrow> bool" where
  "el_is_expired_at l now \<longleftrightarrow> el_lease_expires_at l < now"

definition el_renew :: "execution_lease \<Rightarrow> system_time \<Rightarrow> duration \<Rightarrow> execution_lease" where
  "el_renew l renewed_at lease_ttl =
     el_from_now (el_lease_id l) (el_leased_by l) lease_ttl renewed_at"

record execution_lease_request =
  elr_leased_by :: string
  elr_batch_size :: usize
  elr_lease_ttl :: duration
  elr_now :: system_time

definition elr_new :: "string \<Rightarrow> usize \<Rightarrow> duration \<Rightarrow> system_time \<Rightarrow> execution_lease_request" where
  "elr_new leased_by batch_size lease_ttl now =
     \<lparr>elr_leased_by = leased_by, elr_batch_size = max batch_size 1, elr_lease_ttl = lease_ttl,
      elr_now = now\<rparr>"

definition elr_at :: "execution_lease_request \<Rightarrow> system_time \<Rightarrow> execution_lease_request" where
  "elr_at q now = q\<lparr>elr_now := now\<rparr>"

record due_execution_request =
  der_due_before :: system_time
  der_limit :: usize
  der_include_expired_leases :: bool

definition der_new :: "usize \<Rightarrow> system_time \<Rightarrow> due_execution_request" where
  "der_new limit now =
     \<lparr>der_due_before = now, der_limit = max limit 1, der_include_expired_leases = True\<rparr>"

definition der_at :: "due_execution_request \<Rightarrow> system_time \<Rightarrow> due_execution_request" where
  "der_at q t = q\<lparr>der_due_before := t\<rparr>"

definition der_with_expired_leases :: "due_execution_request \<Rightarrow> bool \<Rightarrow> due_execution_request" where
  "der_with_expired_leases q b = q\<lparr>der_include_expired_leases := b\<rparr>"

record execution_lease_renewal =
  eln_execution_id :: execution_id
  eln_lease_id :: lease_id
  eln_leased_by :: string
  eln_renewed_at :: system_time
  eln_lease_ttl :: duration

definition eln_new ::
    "execution_id \<Rightarrow> lease_id \<Rightarrow> string \<Rightarrow> duration \<Rightarrow> system_time \<Rightarrow> execution_lease_renewal" where
  "eln_new execution_id lease_id leased_by lease_ttl now =
     \<lparr>eln_execution_id = execution_id, eln_lease_id = lease_id, eln_leased_by = leased_by,
      eln_renewed_at = now, eln_lease_ttl = lease_ttl\<rparr>"

definition eln_at :: "execution_lease_renewal \<Rightarrow> system_time \<Rightarrow> execution_lease_renewal" where
  "eln_at q t = q\<lparr>eln_renewed_at := t\<rparr>"

definition eln_renewed_lease :: "execution_lease_renewal \<Rightarrow> execution_lease" where
  "eln_renewed_lease q =
     el_from_now (eln_lease_id q) (eln_leased_by q) (eln_lease_ttl q) (eln_renewed_at q)"

definition eln_validate :: "execution_lease_renewal \<Rightarrow> execution_context \<Rightarrow> unit app_result" where
  "eln_validate q ctx =
     (if is_blank (eln_leased_by q)
      then Inl (app_error_from_context InvalidInput ''execution_lease_renewal_owner_required''
                  ''execution lease renewals require a non-empty worker identity'' ctx)
      else if eln_lease_ttl q = 0
      then Inl (app_error_from_context InvalidInput ''execution_lease_renewal_ttl_required''
                  ''execution lease renewals require a positive lease ttl'' ctx)
      else Inr ())"

record execution_success =
  es_execution_id :: execution_id
  es_lease_id :: lease_id
  es_finished_at :: system_time
  es_expected_revision :: "revision_token option"

definition es_new :: "execution_id \<Rightarrow> lease_id \<Rightarrow> system_time \<Rightarrow> execution_success" where
  "es_new i l t =
     \<lparr>es_execution_id = i, es_lease_id = l, es_finished_at = t, es_expected_revision = None\<rparr>"

definition es_with_expected_revision ::
    "execution_success \<Rightarrow> revision_token \<Rightarrow> execution_success" where
  "es_with_expected_revision q r = q\<lparr>es_expected_revision := Some r\<rparr>"

record execution_retry =
  ey_execution_id :: execution_id
  ey_lease_id :: lease_id
  ey_attempted_at :: system_time
  ey_next_available_at :: system_time
  ey_error :: string
  ey_expected_revision :: "revision_token option"

definition ey_new ::
    "execution_id \<Rightarrow> lease_id \<Rightarrow> system_time \<Rightarrow> system_time \<Rightarrow> string \<Rightarrow> execution_retry" where
  "ey_new i l t next err =
     \<lparr>ey_execution_id = i, ey_lease_id = l, ey_attempted_at = t, ey_next_available_at = next,
      ey_error = err, ey_expected_revision = None\<rparr>"

definition ey_with_expected_revision ::
    "execution_retry \<Rightarrow> revision_token \<Rightarrow> execution_retry" where
  "ey_with_expected_revision q r = q\<lparr>ey_expected_revision := Some r\<rparr>"

record execution_dead_letter =
  ed_execution_id :: execution_id
  ed_lease_id :: lease_id
  ed_dead_lettered_at :: system_time
  ed_error :: string
  ed_expected_revision :: "revision_token option"

definition ed_new ::
    "execution_id \<Rightarrow> lease_id \<Rightarrow> system_time \<Rightarrow> string \<Rightarrow> execution_dead_letter" where
  "ed_new i l t err =
     \<lparr>ed_execution_id = i, ed_lease_id = l, ed_dead_lettered_at = t, ed_error = err,
      ed_expected_revision = None\<rparr>"

definition ed_with_expected_revision ::
    "execution_dead_letter \<Rightarrow> revision_token \<Rightarrow> execution_dead_letter" where
  "ed_with_expected_revision q r = q\<lparr>ed_expected_revision := Some r\<rparr>"

section \<open>Claimed executions\<close>

record claimed_execution =
  ce_record :: execution_record
  ce_lease :: execution_lease

definition ce_claim ::
    "execution_record \<Rightarrow> execution_lease \<Rightarrow> claimed_execution app_result" where
  "ce_claim r lease =
     (if is_blank (el_leased_by lease)
      then Inl (app_error_new InvalidInput ''execution_lease_owner_required''
                  ''execution leases require a non-empty worker identity'' (er_correlation_id r))
      else if er_available_at r > el_leased_at lease
      then Inl (app_error_new InvalidState ''execution_not_available_for_claim''
                  ''execution work cannot be claimed before it is available'' (er_correlation_id r))
      else case er_status r of
        Pending \<Rightarrow> Inr \<lparr>ce_record = er_mark_claimed r (el_leased_at lease), ce_lease = lease\<rparr>
      | Failed \<Rightarrow> Inr \<lparr>ce_record = er_mark_claimed r (el_leased_at lease), ce_lease = lease\<rparr>
      | InFlight \<Rightarrow> Inl (app_error_new Conflict ''execution_already_claimed''
                  ''execution work is already in flight'' (er_correlation_id r))
      | Succeeded \<Rightarrow> Inl (app_error_new InvalidState ''execution_not_claimable''
                  ''completed execution work cannot be claimed again'' (er_correlation_id r))
      | DeadLettered \<Rightarrow> Inl (app_error_new InvalidState ''execution_not_claimable''
                  ''completed execution work cannot be claimed again'' (er_correlation_id r)))"

definition ce_replace_lease ::
    "claimed_execution \<Rightarrow> execution_lease \<Rightarrow> claimed_execution app_result" where
  "ce_replace_lease c lease =
     (if is_blank (el_leased_by lease)
      then Inl (app_error_new InvalidInput ''execution_lease_owner_required''
                  ''execution leases require a non-empty worker identity''
                  (er_correlation_id (ce_record c)))
      else Inr (c\<lparr>ce_lease := lease\<rparr>))"

definition ce_complete ::
    "claimed_execution \<Rightarrow> system_time \<Rightarrow> execution_record \<times> execution_success" where
  "ce_complete c finished_at =
     (er_mark_succeeded (ce_record c) finished_at,
      es_with_expected_revision
        (es_new (er_id (ce_record c)) (el_lease_id (ce_lease c)) finished_at)
        (er_revision (ce_record c)))"

definition ce_retry ::
    "claimed_execution \<Rightarrow> system_time \<Rightarrow> system_time \<Rightarrow> string
     \<Rightarrow> (execution_record \<times> execution_retry) app_result" where
  "ce_retry c attempted_at next_available_at err =
     (if next_available_at < attempted_at
      then Inl (app_error_new InvalidInput ''execution_retry_before_attempt''
                  ''execution retries require next availability at or after the attempt time''
                  (er_correlation_id (ce_record c)))
      else if is_blank err
      then Inl (app_error_new InvalidInput ''execution_retry_error_required''
                  ''execution retries require a failure reason''
                  (er_correlation_id (ce_record c)))
      else Inr
        (er_schedule_retry (ce_record c) attempted_at next_available_at err,
         ey_with_expected_revision
           (ey_new (er_id (ce_record c)) (el_lease_id (ce_lease c)) attempted_at
              next_available_at err)
           (er_revision (ce_record c))))"

definition ce_dead_letter ::
    "claimed_execution \<Rightarrow> system_time \<Rightarrow> string
     \<Rightarrow> (execution_record \<times> execution_dead_letter) app_result" where
  "ce_dead_letter c dead_lettered_at err =
     (if is_blank err
      then Inl (app_error_new InvalidInput ''execution_dead_letter_error_required''
                  ''dead-lettering execution work requires a failure reason''
                  (er_correlation_id (ce_record c)))
      else Inr
        (er_mark_dead_lettered (ce_record c) dead_lettered_at err,
         ed_with_expected_revision
           (ed_new (er_id (ce_record c)) (el_lease_id (ce_lease c)) dead_lettered_at err)
           (er_revision (ce_record c))))"

lemma ce_claim_ok_iff:
  "ce_claim r l = Inr c \<longleftrightarrow>
     \<not> is_blank (el_leased_by l) \<and> er_available_at r \<le> el_leased_at l
   \<and> er_status r \<in> {Pending, Failed}
   \<and> c = \<lparr>ce_record = er_mark_claimed r (el_leased_at l), ce_lease = l\<rparr>"
  by (auto simp: ce_claim_def split: execution_record_status.splits)

lemma er_mark_claimed_simps [simp]:
  "er_id (er_mark_claimed r t) = er_id r"
  "er_status (er_mark_claimed r t) = InFlight"
  "er_attempt (er_mark_claimed r t) = er_attempt r"
  "er_available_at (er_mark_claimed r t) = er_available_at r"
  "er_revision (er_mark_claimed r t) = er_revision r + 1"
  by (simp_all add: er_transition_defs)

lemma el_from_now_simps [simp]:
  "el_lease_id (el_from_now l w ttl t) = l" "el_leased_by (el_from_now l w ttl t) = w"
  "el_leased_at (el_from_now l w ttl t) = t"
  "el_lease_expires_at (el_from_now l w ttl t) = add_or_keep t ttl"
  by (simp_all add: el_from_now_def)

section \<open>Inspection (\<open>execution/inspection.rs\<close>)\<close>

record execution_inspection_query =
  eiq_observed_at :: system_time
  eiq_limit :: usize
  eiq_status :: "execution_record_status option"
  eiq_operation :: "string option"
  eiq_target :: "string option"

definition eiq_new :: "usize \<Rightarrow> system_time \<Rightarrow> execution_inspection_query" where
  "eiq_new limit now =
     \<lparr>eiq_observed_at = now, eiq_limit = max limit 1, eiq_status = None, eiq_operation = None,
      eiq_target = None\<rparr>"

text \<open>\<open>query.field().map(|v| value == v).unwrap_or(true)\<close>\<close>

definition matches_opt :: "'a option \<Rightarrow> 'a \<Rightarrow> bool" where
  "matches_opt f v = (case f of None \<Rightarrow> True | Some w \<Rightarrow> v = w)"

definition eiq_matches_record :: "execution_inspection_query \<Rightarrow> execution_record \<Rightarrow> bool" where
  "eiq_matches_record q r \<longleftrightarrow>
     matches_opt (eiq_status q) (er_status r)
   \<and> matches_opt (eiq_operation q) (er_operation r)
   \<and> matches_opt (eiq_target q) (er_target r)"

record execution_inspection_record =
  eir_record :: execution_record
  eir_lease :: "execution_lease option"

definition eiq_matches_inspection ::
    "execution_inspection_query \<Rightarrow> execution_inspection_record \<Rightarrow> bool" where
  "eiq_matches_inspection q r = eiq_matches_record q (eir_record r)"

definition eir_is_terminal :: "execution_inspection_record \<Rightarrow> bool" where
  "eir_is_terminal r \<longleftrightarrow> er_status (eir_record r) \<in> {Succeeded, DeadLettered}"

definition eir_has_active_lease_at :: "execution_inspection_record \<Rightarrow> system_time \<Rightarrow> bool" where
  "eir_has_active_lease_at r t =
     (case eir_lease r of None \<Rightarrow> False | Some l \<Rightarrow> \<not> el_is_expired_at l t)"

definition eir_has_stale_lease_at :: "execution_inspection_record \<Rightarrow> system_time \<Rightarrow> bool" where
  "eir_has_stale_lease_at r t =
     (case eir_lease r of None \<Rightarrow> False | Some l \<Rightarrow> el_is_expired_at l t)"

definition eir_is_due_at :: "execution_inspection_record \<Rightarrow> system_time \<Rightarrow> bool" where
  "eir_is_due_at r t \<longleftrightarrow>
     er_available_at (eir_record r) \<le> t
   \<and> er_status (eir_record r) \<in> {Pending, Failed, InFlight}
   \<and> \<not> eir_has_active_lease_at r t"

definition eir_is_retry_scheduled_at :: "execution_inspection_record \<Rightarrow> system_time \<Rightarrow> bool" where
  "eir_is_retry_scheduled_at r t \<longleftrightarrow>
     er_status (eir_record r) = Pending \<and> er_attempt (eir_record r) > 1
   \<and> er_available_at (eir_record r) > t"

record execution_inspection_summary =
  eis_total :: usize
  eis_pending :: usize
  eis_in_flight :: usize
  eis_succeeded :: usize
  eis_failed :: usize
  eis_dead_lettered :: usize
  eis_due :: usize
  eis_leased :: usize
  eis_retry_scheduled :: usize
  eis_stale_leases :: usize
  eis_oldest_due_at :: "system_time option"

definition eis_default :: execution_inspection_summary where
  "eis_default =
     \<lparr>eis_total = 0, eis_pending = 0, eis_in_flight = 0, eis_succeeded = 0, eis_failed = 0,
      eis_dead_lettered = 0, eis_due = 0, eis_leased = 0, eis_retry_scheduled = 0,
      eis_stale_leases = 0, eis_oldest_due_at = None\<rparr>"

text \<open>\<open>oldest.map(|o| o.min(t)).unwrap_or(t)\<close>\<close>

definition min_opt :: "system_time option \<Rightarrow> system_time \<Rightarrow> system_time option" where
  "min_opt oldest t = Some (case oldest of None \<Rightarrow> t | Some o' \<Rightarrow> min o' t)"

definition bump_if :: "bool \<Rightarrow> usize \<Rightarrow> usize" where
  "bump_if b n = (if b then usize_saturating_inc n else n)"

definition eis_observe_record ::
    "execution_inspection_summary \<Rightarrow> execution_inspection_record \<Rightarrow> system_time
     \<Rightarrow> execution_inspection_summary" where
  "eis_observe_record s r t =
     \<lparr>eis_total = usize_saturating_inc (eis_total s),
      eis_pending = bump_if (er_status (eir_record r) = Pending) (eis_pending s),
      eis_in_flight = bump_if (er_status (eir_record r) = InFlight) (eis_in_flight s),
      eis_succeeded = bump_if (er_status (eir_record r) = Succeeded) (eis_succeeded s),
      eis_failed = bump_if (er_status (eir_record r) = Failed) (eis_failed s),
      eis_dead_lettered = bump_if (er_status (eir_record r) = DeadLettered) (eis_dead_lettered s),
      eis_due = bump_if (eir_is_due_at r t) (eis_due s),
      eis_leased = bump_if (eir_has_active_lease_at r t) (eis_leased s),
      eis_retry_scheduled = bump_if (eir_is_retry_scheduled_at r t) (eis_retry_scheduled s),
      eis_stale_leases = bump_if (eir_has_stale_lease_at r t) (eis_stale_leases s),
      eis_oldest_due_at =
        (if eir_is_due_at r t then min_opt (eis_oldest_due_at s) (er_available_at (eir_record r))
         else eis_oldest_due_at s)\<rparr>"

record execution_inspection_snapshot =
  eip_execution_id :: execution_id
  eip_operation :: string
  eip_target :: string
  eip_correlation_id :: correlation_id
  eip_idempotency_key :: idempotency_key
  eip_status :: execution_record_status
  eip_attempt :: u32
  eip_recorded_at :: system_time
  eip_available_at :: system_time
  eip_last_attempted_at :: "system_time option"
  eip_finished_at :: "system_time option"
  eip_last_error :: "string option"
  eip_lease_id :: "lease_id option"
  eip_leased_by :: "string option"
  eip_lease_expires_at :: "system_time option"
  eip_active_lease :: bool
  eip_stale_lease :: bool
  eip_due :: bool
  eip_retry_scheduled :: bool

definition eir_snapshot_at ::
    "execution_inspection_record \<Rightarrow> system_time \<Rightarrow> execution_inspection_snapshot" where
  "eir_snapshot_at r t =
     \<lparr>eip_execution_id = er_id (eir_record r), eip_operation = er_operation (eir_record r),
      eip_target = er_target (eir_record r), eip_correlation_id = er_correlation_id (eir_record r),
      eip_idempotency_key = er_idempotency_key (eir_record r),
      eip_status = er_status (eir_record r), eip_attempt = er_attempt (eir_record r),
      eip_recorded_at = er_recorded_at (eir_record r),
      eip_available_at = er_available_at (eir_record r),
      eip_last_attempted_at = er_last_attempted_at (eir_record r),
      eip_finished_at = er_finished_at (eir_record r),
      eip_last_error = er_last_error (eir_record r),
      eip_lease_id = map_option el_lease_id (eir_lease r),
      eip_leased_by = map_option el_leased_by (eir_lease r),
      eip_lease_expires_at = map_option el_lease_expires_at (eir_lease r),
      eip_active_lease = eir_has_active_lease_at r t,
      eip_stale_lease = eir_has_stale_lease_at r t, eip_due = eir_is_due_at r t,
      eip_retry_scheduled = eir_is_retry_scheduled_at r t\<rparr>"

end
