(* ===== verification/Outbox_Core.thy ===== *)
theory Outbox_Core
  imports Execution_Core
begin

text \<open>
  \<open>outbox.rs\<close> and \<open>outbox/inspection.rs\<close> of the kernel: envelopes, messages and their transitions,
  delivery leases, the requests of the leased outbox, a claimed delivery with its three resolutions,
  the pending outbox, the transactional write with its validation, and the inspection view. The
  identifier \<open>CorrelationId::generate()\<close> returns in the errors of a claimed delivery is the argument
  \<open>gen\<close>. The main results characterise what \<open>TransactionalWrite::validate\<close> accepts.
\<close>

section \<open>Envelopes and messages\<close>

record outbox_envelope =
  oe_topic :: string
  oe_key :: string
  oe_payload :: string
  oe_content_type :: string
  oe_headers :: "(string \<times> string) list"

definition oe_new :: "string \<Rightarrow> string \<Rightarrow> string \<Rightarrow> outbox_envelope" where
  "oe_new topic key payload =
     \<lparr>oe_topic = topic, oe_key = key, oe_payload = payload, oe_content_type = ''application/json'',
      oe_headers = []\<rparr>"

definition oe_with_content_type :: "outbox_envelope \<Rightarrow> string \<Rightarrow> outbox_envelope" where
  "oe_with_content_type e c = e\<lparr>oe_content_type := c\<rparr>"

definition oe_with_header :: "outbox_envelope \<Rightarrow> string \<Rightarrow> string \<Rightarrow> outbox_envelope" where
  "oe_with_header e k v = e\<lparr>oe_headers := oe_headers e @ [(k, v)]\<rparr>"

record outbox_message =
  om_id :: outbox_message_id
  om_aggregate :: string
  om_aggregate_id :: string
  om_execution_id :: execution_id
  om_envelope :: outbox_envelope
  om_available_at :: system_time
  om_attempts :: u32
  om_last_attempted_at :: "system_time option"
  om_revision :: revision_token

definition om_new ::
    "outbox_message_id \<Rightarrow> string \<Rightarrow> string \<Rightarrow> execution_id \<Rightarrow> outbox_envelope \<Rightarrow> system_time
     \<Rightarrow> outbox_message" where
  "om_new i aggregate aggregate_id execution_id envelope now =
     \<lparr>om_id = i, om_aggregate = aggregate, om_aggregate_id = aggregate_id,
      om_execution_id = execution_id, om_envelope = envelope, om_available_at = now,
      om_attempts = 0, om_last_attempted_at = None, om_revision = revision_initial\<rparr>"

definition om_schedule_at :: "outbox_message \<Rightarrow> system_time \<Rightarrow> outbox_message" where
  "om_schedule_at m t = m\<lparr>om_available_at := t\<rparr>"

definition om_with_revision :: "outbox_message \<Rightarrow> revision_token \<Rightarrow> outbox_message" where
  "om_with_revision m r = m\<lparr>om_revision := r\<rparr>"

definition om_mark_attempted ::
    "outbox_message \<Rightarrow> system_time \<Rightarrow> system_time option \<Rightarrow> outbox_message" where
  "om_mark_attempted m attempted_at available_at =
     m\<lparr>om_attempts := saturating_inc (om_attempts m), om_last_attempted_at := Some attempted_at,
       om_available_at := (case available_at of None \<Rightarrow> om_available_at m | Some t \<Rightarrow> t),
       om_revision := revision_next (om_revision m)\<rparr>"

definition om_mark_claimed :: "outbox_message \<Rightarrow> outbox_message" where
  "om_mark_claimed m = m\<lparr>om_revision := revision_next (om_revision m)\<rparr>"

definition om_release_claim :: "outbox_message \<Rightarrow> system_time \<Rightarrow> outbox_message" where
  "om_release_claim m available_at =
     m\<lparr>om_available_at := available_at, om_revision := revision_next (om_revision m)\<rparr>"

lemmas om_transition_defs = om_mark_attempted_def om_mark_claimed_def om_release_claim_def
  revision_next_def

lemma om_transition_ids [simp]:
  "om_id (om_mark_attempted m t a) = om_id m" "om_id (om_mark_claimed m) = om_id m"
  "om_id (om_release_claim m t) = om_id m"
  "om_execution_id (om_mark_attempted m t a) = om_execution_id m"
  "om_execution_id (om_mark_claimed m) = om_execution_id m"
  "om_execution_id (om_release_claim m t) = om_execution_id m"
  by (simp_all add: om_transition_defs)

section \<open>Leases and requests\<close>

record outbox_delivery_lease =
  ol_lease_id :: lease_id
  ol_leased_by :: string
  ol_leased_at :: system_time
  ol_lease_expires_at :: system_time

definition ol_from_now ::
    "lease_id \<Rightarrow> string \<Rightarrow> duration \<Rightarrow> system_time \<Rightarrow> outbox_delivery_lease" where
  "ol_from_now lease_id leased_by lease_ttl now =
     \<lparr>ol_lease_id = lease_id, ol_leased_by = leased_by, ol_leased_at = now,
      ol_lease_expires_at = add_or_keep now lease_ttl\<rparr>"

definition ol_is_expired_at :: "outbox_delivery_lease \<Rightarrow> system_time \<Rightarrow> bool" where
  "ol_is_expired_at l now \<longleftrightarrow> ol_lease_expires_at l < now"

definition ol_renew ::
    "outbox_delivery_lease \<Rightarrow> system_time \<Rightarrow> duration \<Rightarrow> outbox_delivery_lease" where
  "ol_renew l renewed_at lease_ttl = ol_from_now (ol_lease_id l) (ol_leased_by l) lease_ttl renewed_at"

lemma ol_from_now_simps [simp]:
  "ol_lease_id (ol_from_now l w ttl t) = l" "ol_leased_by (ol_from_now l w ttl t) = w"
  "ol_leased_at (ol_from_now l w ttl t) = t"
  "ol_lease_expires_at (ol_from_now l w ttl t) = add_or_keep t ttl"
  by (simp_all add: ol_from_now_def)

record outbox_delivery_lease_request =
  olr_leased_by :: string
  olr_batch_size :: usize
  olr_lease_ttl :: duration
  olr_now :: system_time

definition olr_new ::
    "string \<Rightarrow> usize \<Rightarrow> duration \<Rightarrow> system_time \<Rightarrow> outbox_delivery_lease_request" where
  "olr_new leased_by batch_size lease_ttl now =
     \<lparr>olr_leased_by = leased_by, olr_batch_size = max batch_size 1, olr_lease_ttl = lease_ttl,
      olr_now = now\<rparr>"

definition olr_at ::
    "outbox_delivery_lease_request \<Rightarrow> system_time \<Rightarrow> outbox_delivery_lease_request" where
  "olr_at q now = q\<lparr>olr_now := now\<rparr>"

record due_outbox_message_request =
  dor_due_before :: system_time
  dor_limit :: usize
  dor_include_expired_leases :: bool

definition dor_new :: "usize \<Rightarrow> system_time \<Rightarrow> due_outbox_message_request" where
  "dor_new limit now =
     \<lparr>dor_due_before = now, dor_limit = max limit 1, dor_include_expired_leases = True\<rparr>"

definition dor_at ::
    "due_outbox_message_request \<Rightarrow> system_time \<Rightarrow> due_outbox_message_request" where
  "dor_at q t = q\<lparr>dor_due_before := t\<rparr>"

definition dor_with_expired_leases ::
    "due_outbox_message_request \<Rightarrow> bool \<Rightarrow> due_outbox_message_request" where
  "dor_with_expired_leases q b = q\<lparr>dor_include_expired_leases := b\<rparr>"

record outbox_delivery_lease_renewal =
  oln_message_id :: outbox_message_id
  oln_lease_id :: lease_id
  oln_leased_by :: string
  oln_renewed_at :: system_time
  oln_lease_ttl :: duration

definition oln_new ::
    "outbox_message_id \<Rightarrow> lease_id \<Rightarrow> string \<Rightarrow> duration \<Rightarrow> system_time
     \<Rightarrow> outbox_delivery_lease_renewal" where
  "oln_new message_id lease_id leased_by lease_ttl now =
     \<lparr>oln_message_id = message_id, oln_lease_id = lease_id, oln_leased_by = leased_by,
      oln_renewed_at = now, oln_lease_ttl = lease_ttl\<rparr>"

definition oln_at ::
    "outbox_delivery_lease_renewal \<Rightarrow> system_time \<Rightarrow> outbox_delivery_lease_renewal" where
  "oln_at q t = q\<lparr>oln_renewed_at := t\<rparr>"

definition oln_renewed_lease :: "outbox_delivery_lease_renewal \<Rightarrow> outbox_delivery_lease" where
  "oln_renewed_lease q =
     ol_from_now (oln_lease_id q) (oln_leased_by q) (oln_lease_ttl q) (oln_renewed_at q)"

definition oln_validate ::
    "outbox_delivery_lease_renewal \<Rightarrow> execution_context \<Rightarrow> unit app_result" where
  "oln_validate q ctx =
     (if is_blank (oln_leased_by q)
      then Inl (app_error_from_context InvalidInput ''outbox_lease_renewal_owner_required''
                  ''outbox lease renewals require a non-empty worker identity'' ctx)
      else if oln_lease_ttl q = 0
      then Inl (app_error_from_context InvalidInput ''outbox_lease_renewal_ttl_required''
                  ''outbox lease renewals require a positive lease ttl'' ctx)
      else Inr ())"

record outbox_delivery_success =
  os_message_id :: outbox_message_id
  os_lease_id :: lease_id
  os_delivered_at :: system_time
  os_expected_revision :: "revision_token option"

definition os_new ::
    "outbox_message_id \<Rightarrow> lease_id \<Rightarrow> system_time \<Rightarrow> outbox_delivery_success" where
  "os_new i l t =
     \<lparr>os_message_id = i, os_lease_id = l, os_delivered_at = t, os_expected_revision = None\<rparr>"

definition os_with_expected_revision ::
    "outbox_delivery_success \<Rightarrow> revision_token \<Rightarrow> outbox_delivery_success" where
  "os_with_expected_revision q r = q\<lparr>os_expected_revision := Some r\<rparr>"

record outbox_delivery_retry =
  oy_message_id :: outbox_message_id
  oy_lease_id :: lease_id
  oy_attempted_at :: system_time
  oy_next_available_at :: system_time
  oy_error :: string
  oy_expected_revision :: "revision_token option"

definition oy_new ::
    "outbox_message_id \<Rightarrow> lease_id \<Rightarrow> system_time \<Rightarrow> system_time \<Rightarrow> string
     \<Rightarrow> outbox_delivery_retry" where
  "oy_new i l t next err =
     \<lparr>oy_message_id = i, oy_lease_id = l, oy_attempted_at = t, oy_next_available_at = next,
      oy_error = err, oy_expected_revision = None\<rparr>"

definition oy_with_expected_revision ::
    "outbox_delivery_retry \<Rightarrow> revision_token \<Rightarrow> outbox_delivery_retry" where
  "oy_with_expected_revision q r = q\<lparr>oy_expected_revision := Some r\<rparr>"

record outbox_delivery_dead_letter =
  od_message_id :: outbox_message_id
  od_lease_id :: lease_id
  od_dead_lettered_at :: system_time
  od_error :: string
  od_expected_revision :: "revision_token option"

definition od_new ::
    "outbox_message_id \<Rightarrow> lease_id \<Rightarrow> system_time \<Rightarrow> string \<Rightarrow> outbox_delivery_dead_letter" where
  "od_new i l t err =
     \<lparr>od_message_id = i, od_lease_id = l, od_dead_lettered_at = t, od_error = err,
      od_expected_revision = None\<rparr>"

definition od_with_expected_revision ::
    "outbox_delivery_dead_letter \<Rightarrow> revision_token \<Rightarrow> outbox_delivery_dead_letter" where
  "od_with_expected_revision q r = q\<lparr>od_expected_revision := Some r\<rparr>"

section \<open>Claimed deliveries\<close>

record claimed_outbox_delivery =
  co_lease :: outbox_delivery_lease
  co_message :: outbox_message

definition co_claim ::
    "outbox_message \<Rightarrow> outbox_delivery_lease \<Rightarrow> correlation_id
     \<Rightarrow> claimed_outbox_delivery app_result" where
  "co_claim message lease gen =
     (if is_blank (ol_leased_by lease)
      then Inl (app_error_new InvalidInput ''outbox_lease_owner_required''
                  ''outbox leases require a non-empty worker identity'' gen)
      else if om_available_at message > ol_leased_at lease
      then Inl (app_error_new InvalidState ''outbox_not_available_for_claim''
                  ''outbox messages cannot be claimed before they are available'' gen)
      else Inr \<lparr>co_lease = lease, co_message = om_mark_claimed message\<rparr>)"

definition co_replace_lease ::
    "claimed_outbox_delivery \<Rightarrow> outbox_delivery_lease \<Rightarrow> correlation_id
     \<Rightarrow> claimed_outbox_delivery app_result" where
  "co_replace_lease c lease gen =
     (if is_blank (ol_leased_by lease)
      then Inl (app_error_new InvalidInput ''outbox_lease_owner_required''
                  ''outbox leases require a non-empty worker identity'' gen)
      else Inr (c\<lparr>co_lease := lease\<rparr>))"

definition co_complete ::
    "claimed_outbox_delivery \<Rightarrow> system_time \<Rightarrow> outbox_message \<times> outbox_delivery_success" where
  "co_complete c delivered_at =
     (om_mark_attempted (co_message c) delivered_at None,
      os_with_expected_revision
        (os_new (om_id (co_message c)) (ol_lease_id (co_lease c)) delivered_at)
        (om_revision (co_message c)))"

definition co_retry ::
    "claimed_outbox_delivery \<Rightarrow> system_time \<Rightarrow> system_time \<Rightarrow> string \<Rightarrow> correlation_id
     \<Rightarrow> (outbox_message \<times> outbox_delivery_retry) app_result" where
  "co_retry c attempted_at next_available_at err gen =
     (if next_available_at < attempted_at
      then Inl (app_error_new InvalidInput ''outbox_retry_before_attempt''
                  ''outbox retries require next availability at or after the attempt time'' gen)
      else if is_blank err
      then Inl (app_error_new InvalidInput ''outbox_retry_error_required''
                  ''outbox retries require a failure reason'' gen)
      else Inr
        (om_mark_attempted (co_message c) attempted_at (Some next_available_at),
         oy_with_expected_revision
           (oy_new (om_id (co_message c)) (ol_lease_id (co_lease c)) attempted_at
              next_available_at err)
           (om_revision (co_message c))))"

definition co_dead_letter ::
    "claimed_outbox_delivery \<Rightarrow> system_time \<Rightarrow> string \<Rightarrow> correlation_id
     \<Rightarrow> (outbox_message \<times> outbox_delivery_dead_letter) app_result" where
  "co_dead_letter c dead_lettered_at err gen =
     (if is_blank err
      then Inl (app_error_new InvalidInput ''outbox_dead_letter_error_required''
                  ''dead-lettering outbox work requires a failure reason'' gen)
      else Inr
        (om_mark_attempted (co_message c) dead_lettered_at None,
         od_with_expected_revision
           (od_new (om_id (co_message c)) (ol_lease_id (co_lease c)) dead_lettered_at err)
           (om_revision (co_message c))))"

lemma co_claim_ok_iff:
  "co_claim m l gen = Inr c \<longleftrightarrow>
     \<not> is_blank (ol_leased_by l) \<and> om_available_at m \<le> ol_leased_at l
   \<and> c = \<lparr>co_lease = l, co_message = om_mark_claimed m\<rparr>"
  by (auto simp: co_claim_def)

section \<open>The pending outbox\<close>

record pending_outbox =
  po_messages :: "outbox_message list"

definition po_push :: "pending_outbox \<Rightarrow> outbox_message \<Rightarrow> pending_outbox" where
  "po_push p m = p\<lparr>po_messages := po_messages p @ [m]\<rparr>"

definition po_drain :: "pending_outbox \<Rightarrow> outbox_message list \<times> pending_outbox" where
  "po_drain p = (po_messages p, p\<lparr>po_messages := []\<rparr>)"

section \<open>Transactional writes\<close>

record ('e, 'u) transactional_write =
  tw_aggregate_updates :: "'u list"
  tw_domain_events :: "'e list"
  tw_idempotency_claims :: "idempotency_claim list"
  tw_execution_records :: "execution_record list"
  tw_outbox_messages :: "outbox_message list"

datatype ('e, 'u) validated_transactional_write =
  ValidatedTransactionalWrite (into_inner: "('e, 'u) transactional_write")

definition tw_push_aggregate_update where
  "tw_push_aggregate_update w u = w\<lparr>tw_aggregate_updates := tw_aggregate_updates w @ [u]\<rparr>"

definition tw_push_domain_event where
  "tw_push_domain_event w e = w\<lparr>tw_domain_events := tw_domain_events w @ [e]\<rparr>"

definition tw_push_idempotency_claim where
  "tw_push_idempotency_claim w c = w\<lparr>tw_idempotency_claims := tw_idempotency_claims w @ [c]\<rparr>"

definition tw_push_execution_record where
  "tw_push_execution_record w r = w\<lparr>tw_execution_records := tw_execution_records w @ [r]\<rparr>"

definition tw_push_outbox_message where
  "tw_push_outbox_message w m = w\<lparr>tw_outbox_messages := tw_outbox_messages w @ [m]\<rparr>"

definition tw_is_empty :: "('e, 'u) transactional_write \<Rightarrow> bool" where
  "tw_is_empty w \<longleftrightarrow>
     tw_aggregate_updates w = [] \<and> tw_domain_events w = [] \<and> tw_idempotency_claims w = []
   \<and> tw_execution_records w = [] \<and> tw_outbox_messages w = []"

text \<open>The three loops of \<open>validate\<close>; \<open>HashSet::insert\<close> answers whether the element is new.\<close>

fun validate_claims ::
    "execution_context \<Rightarrow> idempotency_key set \<Rightarrow> idempotency_claim list \<Rightarrow> unit app_result" where
  "validate_claims ctx claim_keys [] = Inr ()"
| "validate_claims ctx claim_keys (c # cs) =
     res_bind (validate_scope (ic_scope c) ctx) (\<lambda>_.
       if ic_key c \<in> claim_keys
       then Inl (app_error_from_context Conflict ''duplicate_idempotency_claim''
                   ''transactional writes cannot contain duplicate idempotency claims'' ctx)
       else validate_claims ctx (insert (ic_key c) claim_keys) cs)"

definition claim_backed ::
    "execution_context \<Rightarrow> idempotency_claim list \<Rightarrow> execution_record \<Rightarrow> bool" where
  "claim_backed ctx claims r \<longleftrightarrow>
     list_ex (\<lambda>c. ic_key c = er_idempotency_key r) claims
   \<or> cx_idempotency_key ctx = Some (er_idempotency_key r)"

fun validate_records ::
    "execution_context \<Rightarrow> idempotency_claim list \<Rightarrow> execution_id set \<Rightarrow> idempotency_key set
     \<Rightarrow> (execution_id, execution_record) hash_map \<Rightarrow> execution_record list
     \<Rightarrow> (execution_id, execution_record) hash_map app_result" where
  "validate_records ctx claims execution_ids idempotency_keys execution_by_id [] =
     Inr execution_by_id"
| "validate_records ctx claims execution_ids idempotency_keys execution_by_id (r # rs) =
     res_bind (require_non_empty (er_operation r) ''execution operation''
                 ''execution_operation_required'' ctx) (\<lambda>_.
     res_bind (require_non_empty (er_target r) ''execution target''
                 ''execution_target_required'' ctx) (\<lambda>_.
       if er_correlation_id r \<noteq> cx_correlation_id ctx
       then Inl (app_error_from_context InvalidState ''execution_record_correlation_mismatch''
                   ''execution records must use the current execution context correlation id'' ctx)
       else if er_id r \<in> execution_ids
       then Inl (app_error_from_context Conflict ''duplicate_execution_record''
                   ''transactional writes cannot contain duplicate execution record ids'' ctx)
       else if er_idempotency_key r \<in> idempotency_keys
       then Inl (app_error_from_context Conflict ''duplicate_execution_idempotency_key''
                   ''transactional writes cannot contain multiple execution records for one idempotency key''
                   ctx)
       else if \<not> claim_backed ctx claims r
       then Inl (app_error_from_context InvalidState ''execution_record_missing_idempotency_claim''
                   ''execution records require a matching idempotency claim or execution context key''
                   ctx)
       else validate_records ctx claims (insert (er_id r) execution_ids)
              (insert (er_idempotency_key r) idempotency_keys)
              (hm_insert (er_id r) r execution_by_id) rs))"

fun validate_messages ::
    "execution_context \<Rightarrow> idempotency_claim list \<Rightarrow> (execution_id, execution_record) hash_map
     \<Rightarrow> outbox_message_id set \<Rightarrow> execution_id set \<Rightarrow> outbox_message list \<Rightarrow> unit app_result" where
  "validate_messages ctx claims execution_by_id outbox_message_ids outbox_execution_ids [] = Inr ()"
| "validate_messages ctx claims execution_by_id outbox_message_ids outbox_execution_ids (m # ms) =
     (if om_id m \<in> outbox_message_ids
      then Inl (app_error_from_context Conflict ''duplicate_outbox_message''
                  ''transactional writes cannot contain duplicate outbox message ids'' ctx)
      else
        res_bind (require_non_empty (om_aggregate m) ''outbox aggregate''
                    ''outbox_aggregate_required'' ctx) (\<lambda>_.
        res_bind (require_non_empty (om_aggregate_id m) ''outbox aggregate id''
                    ''outbox_aggregate_id_required'' ctx) (\<lambda>_.
        res_bind (require_non_empty (oe_topic (om_envelope m)) ''outbox topic''
                    ''outbox_topic_required'' ctx) (\<lambda>_.
        res_bind (require_non_empty (oe_key (om_envelope m)) ''outbox key''
                    ''outbox_key_required'' ctx) (\<lambda>_.
        res_bind (require_non_empty (oe_payload (om_envelope m)) ''outbox payload''
                    ''outbox_payload_required'' ctx) (\<lambda>_.
        (case hm_get execution_by_id (om_execution_id m) of
           None \<Rightarrow> Inl (app_error_from_context InvalidState ''outbox_execution_record_missing''
                          ''outbox messages require a matching execution record'' ctx)
         | Some record \<Rightarrow>
             if om_execution_id m \<in> outbox_execution_ids
             then Inl (app_error_from_context Conflict ''outbox_execution_record_reused''
                         ''each outbox message requires its own execution record'' ctx)
             else if \<not> claim_backed ctx claims record
             then Inl (app_error_from_context InvalidState ''outbox_missing_idempotency_claim''
                         ''outbox messages require execution records backed by an idempotency claim or context key''
                         ctx)
             else validate_messages ctx claims execution_by_id
                    (insert (om_id m) outbox_message_ids)
                    (insert (om_execution_id m) outbox_execution_ids) ms)))))))"

definition tw_validate ::
    "('e, 'u) transactional_write \<Rightarrow> execution_context
     \<Rightarrow> ('e, 'u) validated_transactional_write app_result" where
  "tw_validate w ctx =
     (if tw_outbox_messages w \<noteq> [] \<and> tw_execution_records w = []
      then Inl (app_error_from_context InvalidState ''outbox_requires_execution_record''
                  ''outbox messages require at least one execution record'' ctx)
      else
        res_bind (validate_claims ctx {} (tw_idempotency_claims w)) (\<lambda>_.
        res_bind (validate_records ctx (tw_idempotency_claims w) {} {} [] (tw_execution_records w))
          (\<lambda>execution_by_id.
        res_bind (validate_messages ctx (tw_idempotency_claims w) execution_by_id {} {}
                    (tw_outbox_messages w)) (\<lambda>_.
        Inr (ValidatedTransactionalWrite w)))))"

section \<open>Inspection (\<open>outbox/inspection.rs\<close>)\<close>

datatype outbox_message_status =
  OutboxPending | OutboxInFlight | OutboxDelivered | OutboxDeadLettered

record outbox_inspection_record =
  oir_message :: outbox_message
  oir_status :: outbox_message_status
  oir_lease :: "outbox_delivery_lease option"
  oir_delivered_at :: "system_time option"
  oir_dead_lettered_at :: "system_time option"
  oir_last_error :: "string option"

definition oir_new :: "outbox_message \<Rightarrow> outbox_message_status \<Rightarrow> outbox_inspection_record" where
  "oir_new m st =
     \<lparr>oir_message = m, oir_status = st, oir_lease = None, oir_delivered_at = None,
      oir_dead_lettered_at = None, oir_last_error = None\<rparr>"

definition oir_with_lease ::
    "outbox_inspection_record \<Rightarrow> outbox_delivery_lease option \<Rightarrow> outbox_inspection_record" where
  "oir_with_lease r l = r\<lparr>oir_lease := l\<rparr>"

definition oir_with_delivered_at ::
    "outbox_inspection_record \<Rightarrow> system_time option \<Rightarrow> outbox_inspection_record" where
  "oir_with_delivered_at r t = r\<lparr>oir_delivered_at := t\<rparr>"

definition oir_with_dead_lettered_at ::
    "outbox_inspection_record \<Rightarrow> system_time option \<Rightarrow> outbox_inspection_record" where
  "oir_with_dead_lettered_at r t = r\<lparr>oir_dead_lettered_at := t\<rparr>"

definition oir_with_last_error ::
    "outbox_inspection_record \<Rightarrow> string option \<Rightarrow> outbox_inspection_record" where
  "oir_with_last_error r e = r\<lparr>oir_last_error := e\<rparr>"

definition oir_is_terminal :: "outbox_inspection_record \<Rightarrow> bool" where
  "oir_is_terminal r \<longleftrightarrow> oir_status r \<in> {OutboxDelivered, OutboxDeadLettered}"

definition oir_has_active_lease_at :: "outbox_inspection_record \<Rightarrow> system_time \<Rightarrow> bool" where
  "oir_has_active_lease_at r t =
     (case oir_lease r of None \<Rightarrow> False | Some l \<Rightarrow> \<not> ol_is_expired_at l t)"

definition oir_has_stale_lease_at :: "outbox_inspection_record \<Rightarrow> system_time \<Rightarrow> bool" where
  "oir_has_stale_lease_at r t =
     (case oir_lease r of None \<Rightarrow> False | Some l \<Rightarrow> ol_is_expired_at l t)"

definition oir_is_due_at :: "outbox_inspection_record \<Rightarrow> system_time \<Rightarrow> bool" where
  "oir_is_due_at r t \<longleftrightarrow> oir_status r = OutboxPending \<and> om_available_at (oir_message r) \<le> t"

definition oir_is_retry_scheduled_at :: "outbox_inspection_record \<Rightarrow> system_time \<Rightarrow> bool" where
  "oir_is_retry_scheduled_at r t \<longleftrightarrow>
     oir_status r = OutboxPending \<and> om_attempts (oir_message r) > 0
   \<and> om_available_at (oir_message r) > t"

record outbox_inspection_query =
  oiq_observed_at :: system_time
  oiq_limit :: usize
  oiq_status :: "outbox_message_status option"
  oiq_aggregate :: "string option"
  oiq_topic :: "string option"

definition oiq_new :: "usize \<Rightarrow> system_time \<Rightarrow> outbox_inspection_query" where
  "oiq_new limit now =
     \<lparr>oiq_observed_at = now, oiq_limit = max limit 1, oiq_status = None, oiq_aggregate = None,
      oiq_topic = None\<rparr>"

definition oiq_matches_message ::
    "outbox_inspection_query \<Rightarrow> outbox_message \<Rightarrow> outbox_message_status \<Rightarrow> bool" where
  "oiq_matches_message q m st \<longleftrightarrow>
     matches_opt (oiq_status q) st
   \<and> matches_opt (oiq_aggregate q) (om_aggregate m)
   \<and> matches_opt (oiq_topic q) (oe_topic (om_envelope m))"

definition oiq_matches_inspection ::
    "outbox_inspection_query \<Rightarrow> outbox_inspection_record \<Rightarrow> bool" where
  "oiq_matches_inspection q r = oiq_matches_message q (oir_message r) (oir_status r)"

record outbox_inspection_snapshot =
  oip_message_id :: outbox_message_id
  oip_aggregate :: string
  oip_aggregate_id :: string
  oip_execution_id :: execution_id
  oip_topic :: string
  oip_key :: string
  oip_content_type :: string
  oip_status :: outbox_message_status
  oip_attempts :: u32
  oip_available_at :: system_time
  oip_last_attempted_at :: "system_time option"
  oip_delivered_at :: "system_time option"
  oip_dead_lettered_at :: "system_time option"
  oip_last_error :: "string option"
  oip_lease_id :: "lease_id option"
  oip_leased_by :: "string option"
  oip_lease_expires_at :: "system_time option"
  oip_active_lease :: bool
  oip_stale_lease :: bool
  oip_due :: bool
  oip_retry_scheduled :: bool

definition oir_snapshot_at ::
    "outbox_inspection_record \<Rightarrow> system_time \<Rightarrow> outbox_inspection_snapshot" where
  "oir_snapshot_at r t =
     \<lparr>oip_message_id = om_id (oir_message r), oip_aggregate = om_aggregate (oir_message r),
      oip_aggregate_id = om_aggregate_id (oir_message r),
      oip_execution_id = om_execution_id (oir_message r),
      oip_topic = oe_topic (om_envelope (oir_message r)),
      oip_key = oe_key (om_envelope (oir_message r)),
      oip_content_type = oe_content_type (om_envelope (oir_message r)),
      oip_status = oir_status r, oip_attempts = om_attempts (oir_message r),
      oip_available_at = om_available_at (oir_message r),
      oip_last_attempted_at = om_last_attempted_at (oir_message r),
      oip_delivered_at = oir_delivered_at r, oip_dead_lettered_at = oir_dead_lettered_at r,
      oip_last_error = oir_last_error r, oip_lease_id = map_option ol_lease_id (oir_lease r),
      oip_leased_by = map_option ol_leased_by (oir_lease r),
      oip_lease_expires_at = map_option ol_lease_expires_at (oir_lease r),
      oip_active_lease = oir_has_active_lease_at r t,
      oip_stale_lease = oir_has_stale_lease_at r t, oip_due = oir_is_due_at r t,
      oip_retry_scheduled = oir_is_retry_scheduled_at r t\<rparr>"

record outbox_inspection_summary =
  ois_total :: usize
  ois_pending :: usize
  ois_in_flight :: usize
  ois_delivered :: usize
  ois_dead_lettered :: usize
  ois_due :: usize
  ois_retry_scheduled :: usize
  ois_leased :: usize
  ois_stale_leases :: usize
  ois_oldest_due_at :: "system_time option"

definition ois_default :: outbox_inspection_summary where
  "ois_default =
     \<lparr>ois_total = 0, ois_pending = 0, ois_in_flight = 0, ois_delivered = 0, ois_dead_lettered = 0,
      ois_due = 0, ois_retry_scheduled = 0, ois_leased = 0, ois_stale_leases = 0,
      ois_oldest_due_at = None\<rparr>"

definition ois_observe ::
    "outbox_inspection_summary \<Rightarrow> outbox_inspection_record \<Rightarrow> system_time
     \<Rightarrow> outbox_inspection_summary" where
  "ois_observe s r t =
     \<lparr>ois_total = usize_saturating_inc (ois_total s),
      ois_pending = bump_if (oir_status r = OutboxPending) (ois_pending s),
      ois_in_flight = bump_if (oir_status r = OutboxInFlight) (ois_in_flight s),
      ois_delivered = bump_if (oir_status r = OutboxDelivered) (ois_delivered s),
      ois_dead_lettered = bump_if (oir_status r = OutboxDeadLettered) (ois_dead_lettered s),
      ois_due = bump_if (oir_is_due_at r t) (ois_due s),
      ois_retry_scheduled = bump_if (oir_is_retry_scheduled_at r t) (ois_retry_scheduled s),
      ois_leased = bump_if (oir_has_active_lease_at r t) (ois_leased s),
      ois_stale_leases = bump_if (oir_has_stale_lease_at r t) (ois_stale_leases s),
      ois_oldest_due_at =
        (if oir_is_due_at r t then min_opt (ois_oldest_due_at s) (om_available_at (oir_message r))
         else ois_oldest_due_at s)\<rparr>"

section \<open>What validation accepts\<close>

definition claims_ok :: "idempotency_claim list \<Rightarrow> bool" where
  "claims_ok cs \<longleftrightarrow> list_all (\<lambda>c. \<not> is_blank (ic_scope c)) cs \<and> distinct (map ic_key cs)"

definition records_ok ::
    "execution_context \<Rightarrow> idempotency_claim list \<Rightarrow> execution_record list \<Rightarrow> bool" where
  "records_ok ctx claims rs \<longleftrightarrow>
     list_all (\<lambda>r. \<not> is_blank (er_operation r) \<and> \<not> is_blank (er_target r)
                 \<and> er_correlation_id r = cx_correlation_id ctx \<and> claim_backed ctx claims r) rs
   \<and> distinct (map er_id rs) \<and> distinct (map er_idempotency_key rs)"

definition messages_ok :: "execution_record list \<Rightarrow> outbox_message list \<Rightarrow> bool" where
  "messages_ok rs ms \<longleftrightarrow>
     list_all (\<lambda>m. \<not> is_blank (om_aggregate m) \<and> \<not> is_blank (om_aggregate_id m)
                 \<and> \<not> is_blank (oe_topic (om_envelope m)) \<and> \<not> is_blank (oe_key (om_envelope m))
                 \<and> \<not> is_blank (oe_payload (om_envelope m))
                 \<and> om_execution_id m \<in> er_id ` set rs) ms
   \<and> distinct (map om_id ms) \<and> distinct (map om_execution_id ms)"

lemma validate_claims_ok_iff:
  "validate_claims ctx ks cs = Inr u \<longleftrightarrow> claims_ok cs \<and> set (map ic_key cs) \<inter> ks = {}"
  by (induction ctx ks cs rule: validate_claims.induct)
     (auto simp: validate_scope_def claims_ok_def res_bind_Inr_iff)

lemma validate_records_ok_iff:
  "validate_records ctx claims ids keys m rs = Inr m' \<longleftrightarrow>
     records_ok ctx claims rs \<and> set (map er_id rs) \<inter> ids = {}
   \<and> set (map er_idempotency_key rs) \<inter> keys = {}
   \<and> m' = fold (\<lambda>r. hm_insert (er_id r) r) rs m"
  by (induction ctx claims ids keys m rs rule: validate_records.induct)
     (auto simp: records_ok_def res_bind_Inr_iff)

lemma index_records_Some:
  "distinct (map er_id rs) \<Longrightarrow>
   hm_get (fold (\<lambda>r. hm_insert (er_id r) r) rs m) i = Some r \<longleftrightarrow>
     r \<in> set rs \<and> er_id r = i \<or> i \<notin> er_id ` set rs \<and> hm_get m i = Some r"
  by (induction rs arbitrary: m) (auto simp: image_iff)

lemma validate_messages_ok_iff:
  assumes "\<And>i r. hm_get by_id i = Some r \<Longrightarrow> claim_backed ctx claims r"
    and "\<And>i. hm_get by_id i \<noteq> None \<longleftrightarrow> i \<in> er_id ` set rs"
  shows "validate_messages ctx claims by_id ids eids ms = Inr () \<longleftrightarrow>
     messages_ok rs ms \<and> set (map om_id ms) \<inter> ids = {} \<and> set (map om_execution_id ms) \<inter> eids = {}"
proof (induction ms arbitrary: ids eids)
  case (Cons m ms)
  show ?case
    using assms(1) [of "om_execution_id m"] assms(2) [of "om_execution_id m"]
    by (cases "hm_get by_id (om_execution_id m)")
       (auto simp: messages_ok_def res_bind_Inr_iff Cons.IH)
qed (simp add: messages_ok_def)

text \<open>The first guard of \<open>validate\<close> is implied by the record lookup of every message.\<close>

lemma tw_validate_ok_iff:
  "tw_validate w ctx = Inr v \<longleftrightarrow>
     v = ValidatedTransactionalWrite w
   \<and> claims_ok (tw_idempotency_claims w)
   \<and> records_ok ctx (tw_idempotency_claims w) (tw_execution_records w)
   \<and> messages_ok (tw_execution_records w) (tw_outbox_messages w)"
proof (cases "records_ok ctx (tw_idempotency_claims w) (tw_execution_records w)")
  case True
  let ?m = "fold (\<lambda>r. hm_insert (er_id r) r) (tw_execution_records w) []"
  have d: "distinct (map er_id (tw_execution_records w))"
    and backed: "\<And>r. r \<in> set (tw_execution_records w)
                    \<Longrightarrow> claim_backed ctx (tw_idempotency_claims w) r"
    using True by (auto simp: records_ok_def list_all_iff)
  have msgs: "validate_messages ctx (tw_idempotency_claims w) ?m {} {} (tw_outbox_messages w) = Inr ()
      \<longleftrightarrow> messages_ok (tw_execution_records w) (tw_outbox_messages w)"
    by (subst validate_messages_ok_iff [where rs = "tw_execution_records w"])
       (auto simp: index_records_Some [OF d] image_iff intro: backed)
  have "tw_outbox_messages w \<noteq> [] \<Longrightarrow> messages_ok (tw_execution_records w) (tw_outbox_messages w)
      \<Longrightarrow> tw_execution_records w \<noteq> []"
    by (cases "tw_outbox_messages w") (auto simp: messages_ok_def)
  then show ?thesis
    using True msgs
    by (auto simp: tw_validate_def res_bind_Inr_iff validate_claims_ok_iff validate_records_ok_iff)
qed (auto simp: tw_validate_def res_bind_Inr_iff validate_records_ok_iff)

lemma validate_messages_codes:
  assumes "validate_messages ctx claims by_id ids eids ms = Inl e"
    and "\<And>i r. hm_get by_id i = Some r \<Longrightarrow> claim_backed ctx claims r"
  shows "ae_code e \<in> {''duplicate_outbox_message'', ''outbox_aggregate_required'',
           ''outbox_aggregate_id_required'', ''outbox_topic_required'', ''outbox_key_required'',
           ''outbox_payload_required'', ''outbox_execution_record_missing'',
           ''outbox_execution_record_reused''}"
  using assms
  by (induction ms arbitrary: ids eids)
     (auto simp: require_non_empty_def app_error_defs split: if_splits option.splits)

text \<open>Every refusal names the caller's context and is a permanent one.\<close>

definition refusal_of :: "execution_context \<Rightarrow> app_error \<Rightarrow> bool" where
  "refusal_of ctx e \<longleftrightarrow>
     ae_correlation_id e = cx_correlation_id ctx \<and> ae_retry e = Never
   \<and> ae_kind e \<in> {InvalidInput, InvalidState, Conflict}"

lemmas refusal_simps = refusal_of_def require_non_empty_def validate_scope_def app_error_defs

lemma validate_claims_refusal: "validate_claims ctx ks cs = Inl e \<Longrightarrow> refusal_of ctx e"
  by (induction ctx ks cs rule: validate_claims.induct) (auto simp: refusal_simps split: if_splits)

lemma validate_records_refusal:
  "validate_records ctx claims ids keys m rs = Inl e \<Longrightarrow> refusal_of ctx e"
  by (induction ctx claims ids keys m rs rule: validate_records.induct)
     (auto simp: refusal_simps split: if_splits)

lemma validate_messages_refusal:
  "validate_messages ctx claims by_id ids eids ms = Inl e \<Longrightarrow> refusal_of ctx e"
  by (induction ctx claims by_id ids eids ms rule: validate_messages.induct)
     (auto simp: refusal_simps split: if_splits option.splits)

lemma tw_validate_refusal: "tw_validate w ctx = Inl e \<Longrightarrow> refusal_of ctx e"
  by (auto simp: tw_validate_def res_bind_def split: if_splits sum.splits
      dest: validate_claims_refusal validate_records_refusal validate_messages_refusal)
     (simp_all add: refusal_simps)

section \<open>Properties\<close>

text \<open>
  \<open>TransactionalWrite::validate\<close> accepts exactly the well-formed writes, unchanged: claims have
  a scope and distinct keys; records are named, carry the context's correlation id, have distinct ids
  and distinct idempotency keys, and each key is claimed in the write or is the context's key;
  messages are fully addressed, have distinct ids, and map one-to-one to execution records of the same
  write. Every refusal carries the context's correlation id, is an input, state or conflict error and
  is never retryable.
\<close>

theorem tw_validate_accepts_exactly:
  "case tw_validate w ctx of
     Inr v \<Rightarrow> v = ValidatedTransactionalWrite w
       \<and> claims_ok (tw_idempotency_claims w)
       \<and> records_ok ctx (tw_idempotency_claims w) (tw_execution_records w)
       \<and> messages_ok (tw_execution_records w) (tw_outbox_messages w)
   | Inl e \<Rightarrow> refusal_of ctx e
       \<and> \<not> (claims_ok (tw_idempotency_claims w)
          \<and> records_ok ctx (tw_idempotency_claims w) (tw_execution_records w)
          \<and> messages_ok (tw_execution_records w) (tw_outbox_messages w))"
proof (cases "tw_validate w ctx")
  case (Inl e)
  then show ?thesis
    using tw_validate_ok_iff [of w ctx "ValidatedTransactionalWrite w"] tw_validate_refusal by auto
next
  case (Inr v)
  then show ?thesis using tw_validate_ok_iff [of w ctx v] by simp
qed

text \<open>
  The last check of the message loop of \<open>validate\<close> (\<open>outbox_missing_idempotency_claim\<close>) never
  fires: a message that finds its record finds one the record loop has already checked, so a refusal
  in the message loop is about the message itself.
\<close>

theorem tw_validate_message_claim_check_is_dead:
  assumes "validate_records ctx claims {} {} [] rs = Inr by_id"
    and "validate_messages ctx claims by_id {} {} ms = Inl e"
  shows "ae_code e \<in> {''duplicate_outbox_message'', ''outbox_aggregate_required'',
           ''outbox_aggregate_id_required'', ''outbox_topic_required'', ''outbox_key_required'',
           ''outbox_payload_required'', ''outbox_execution_record_missing'',
           ''outbox_execution_record_reused''}"
proof (rule validate_messages_codes [OF assms(2)])
  fix i r
  assume "hm_get by_id i = Some r"
  with assms(1) show "claim_backed ctx claims r"
    by (auto simp: validate_records_ok_iff records_ok_def index_records_Some list_all_iff)
qed

definition sample_context :: execution_context where
  "sample_context =
     cx_with_idempotency_key (execution_context_new (CorrelationId ''corr'') 0) (IdempotencyKey ''k'')"

definition sample_record :: execution_record where
  "sample_record =
     er_new (ExecutionId ''e1'') ''op'' ''target'' (IdempotencyKey ''k'') (CorrelationId ''corr'') 0 0"

definition sample_message :: outbox_message where
  "sample_message =
     om_new (OutboxMessageId ''m1'') ''agg'' ''1'' (ExecutionId ''e1'') (oe_new ''t'' ''k'' ''p'') 0"

lemmas sample_defs = sample_context_def sample_record_def sample_message_def er_new_def om_new_def
  oe_new_def execution_context_new_def cx_with_idempotency_key_def

theorem tw_validate_message_claim_check_is_dead_witness:
  "\<exists>e. validate_messages sample_context [] [(ExecutionId ''e1'', sample_record)] {} {}
         [sample_message, sample_message\<lparr>om_id := OutboxMessageId ''m2''\<rparr>] = Inl e
     \<and> ae_code e \<in> {''duplicate_outbox_message'', ''outbox_aggregate_required'',
           ''outbox_aggregate_id_required'', ''outbox_topic_required'', ''outbox_key_required'',
           ''outbox_payload_required'', ''outbox_execution_record_missing'',
           ''outbox_execution_record_reused''}"
proof -
  have blank: "\<not> is_blank ''op''" "\<not> is_blank ''target''" "\<not> is_blank ''agg''" "\<not> is_blank ''1''"
    "\<not> is_blank ''t''" "\<not> is_blank ''k''" "\<not> is_blank ''p''" by code_simp+
  have rec: "validate_records sample_context [] {} {} [] [sample_record]
      = Inr [(ExecutionId ''e1'', sample_record)]"
    by (simp add: sample_defs blank require_non_empty_simps claim_backed_def)
  let ?e = "app_error_from_context Conflict ''outbox_execution_record_reused''
              ''each outbox message requires its own execution record'' sample_context"
  have msg: "validate_messages sample_context [] [(ExecutionId ''e1'', sample_record)] {} {}
         [sample_message, sample_message\<lparr>om_id := OutboxMessageId ''m2''\<rparr>] = Inl ?e"
    by (simp add: sample_defs blank require_non_empty_simps claim_backed_def)
  from msg tw_validate_message_claim_check_is_dead [OF rec msg] show ?thesis by blast
qed

end
