(* ===== verification/Dispatch_Core.thy ===== *)
theory Dispatch_Core
  imports Outbox_Core
begin

text \<open>
  \<open>workers.rs\<close> (heartbeats and visibility queries) and \<open>dispatch.rs\<close> (the queue-agnostic dispatch
  vocabulary: selection and claim requests, due work, leases, renewals, claimed work, resolutions,
  expired-lease recovery and worker snapshots). A Rust enum variant \<open>T::Execution\<close> is the constructor
  \<open>T\<close>-prefixed below, because Isabelle constructors share one name space per theory.
\<close>

section \<open>Worker heartbeats (\<open>workers.rs\<close>)\<close>

datatype worker_visibility = Visible | Expired

record worker_heartbeat =
  wh_worker_id :: string
  wh_scope :: string
  wh_recorded_at :: system_time
  wh_visible_until :: system_time
  wh_active_leases :: usize

definition wh_new :: "string \<Rightarrow> string \<Rightarrow> system_time \<Rightarrow> system_time \<Rightarrow> worker_heartbeat" where
  "wh_new worker_id scope recorded_at visible_until =
     \<lparr>wh_worker_id = worker_id, wh_scope = scope, wh_recorded_at = recorded_at,
      wh_visible_until = visible_until, wh_active_leases = 0\<rparr>"

definition wh_from_ttl :: "string \<Rightarrow> string \<Rightarrow> system_time \<Rightarrow> duration \<Rightarrow> worker_heartbeat" where
  "wh_from_ttl worker_id scope recorded_at visibility_ttl =
     wh_new worker_id scope recorded_at (add_or_keep recorded_at visibility_ttl)"

definition wh_with_active_leases :: "worker_heartbeat \<Rightarrow> usize \<Rightarrow> worker_heartbeat" where
  "wh_with_active_leases h n = h\<lparr>wh_active_leases := n\<rparr>"

definition wh_visibility_at :: "worker_heartbeat \<Rightarrow> system_time \<Rightarrow> worker_visibility" where
  "wh_visibility_at h now = (if wh_visible_until h \<ge> now then Visible else Expired)"

definition wh_validate :: "worker_heartbeat \<Rightarrow> execution_context \<Rightarrow> unit app_result" where
  "wh_validate h ctx =
     res_bind (require_non_empty (wh_worker_id h) ''worker heartbeat worker id''
                 ''worker_heartbeat_worker_id_required'' ctx) (\<lambda>_.
     res_bind (require_non_empty (wh_scope h) ''worker heartbeat scope''
                 ''worker_heartbeat_scope_required'' ctx) (\<lambda>_.
       if wh_visible_until h < wh_recorded_at h
       then Inl (app_error_from_context InvalidInput ''worker_heartbeat_visibility_window_invalid''
                   ''worker heartbeat visibility must not end before it was recorded'' ctx)
       else Inr ()))"

record worker_visibility_ref =
  wv_worker_id :: string
  wv_scope :: string
  wv_visible_at :: system_time
  wv_limit :: usize

definition wv_new :: "string \<Rightarrow> string \<Rightarrow> system_time \<Rightarrow> worker_visibility_ref" where
  "wv_new worker_id scope now =
     \<lparr>wv_worker_id = worker_id, wv_scope = scope, wv_visible_at = now, wv_limit = 1\<rparr>"

definition wv_at :: "worker_visibility_ref \<Rightarrow> system_time \<Rightarrow> worker_visibility_ref" where
  "wv_at q t = q\<lparr>wv_visible_at := t\<rparr>"

record visible_workers_query =
  vw_scope :: string
  vw_visible_at :: system_time
  vw_limit :: usize

definition vw_new :: "string \<Rightarrow> system_time \<Rightarrow> visible_workers_query" where
  "vw_new scope now = \<lparr>vw_scope = scope, vw_visible_at = now, vw_limit = usize_max\<rparr>"

definition vw_at :: "visible_workers_query \<Rightarrow> system_time \<Rightarrow> visible_workers_query" where
  "vw_at q t = q\<lparr>vw_visible_at := t\<rparr>"

definition vw_with_limit :: "visible_workers_query \<Rightarrow> usize \<Rightarrow> visible_workers_query" where
  "vw_with_limit q n = q\<lparr>vw_limit := max n 1\<rparr>"

lemma wh_validate_ok_iff:
  "wh_validate h ctx = Inr u \<longleftrightarrow>
     \<not> is_blank (wh_worker_id h) \<and> \<not> is_blank (wh_scope h) \<and> wh_recorded_at h \<le> wh_visible_until h"
  by (auto simp: wh_validate_def res_bind_Inr_iff)

lemma wh_from_ttl_simps [simp]:
  "wh_worker_id (wh_from_ttl w s t d) = w" "wh_scope (wh_from_ttl w s t d) = s"
  "wh_recorded_at (wh_from_ttl w s t d) = t" "wh_visible_until (wh_from_ttl w s t d) = add_or_keep t d"
  by (simp_all add: wh_from_ttl_def wh_new_def)

section \<open>Queues and requests (\<open>dispatch.rs\<close>)\<close>

datatype dispatch_queue = Execution | Outbox

instantiation dispatch_queue :: linorder
begin

fun less_eq_dispatch_queue :: "dispatch_queue \<Rightarrow> dispatch_queue \<Rightarrow> bool" where
  "less_eq_dispatch_queue Execution q = True"
| "less_eq_dispatch_queue Outbox q = (q = Outbox)"

definition less_dispatch_queue :: "dispatch_queue \<Rightarrow> dispatch_queue \<Rightarrow> bool" where
  "less_dispatch_queue p q \<longleftrightarrow> p = Execution \<and> q = Outbox"

instance
proof
  fix p q r :: dispatch_queue
  show "p < q \<longleftrightarrow> p \<le> q \<and> \<not> q \<le> p" by (cases p; cases q) (simp_all add: less_dispatch_queue_def)
  show "p \<le> p" by (cases p) simp_all
  show "p \<le> q \<Longrightarrow> q \<le> r \<Longrightarrow> p \<le> r" by (cases p; cases q) simp_all
  show "p \<le> q \<Longrightarrow> q \<le> p \<Longrightarrow> p = q" by (cases p; cases q) simp_all
  show "p \<le> q \<or> q \<le> p" by (cases p; cases q) simp_all
qed

end

fun dispatch_queue_as_str :: "dispatch_queue \<Rightarrow> string" where
  "dispatch_queue_as_str Execution = ''execution''"
| "dispatch_queue_as_str Outbox = ''outbox''"

record dispatch_selection_request =
  ds_queue :: dispatch_queue
  ds_due_before :: system_time
  ds_limit :: usize
  ds_include_expired_leases :: bool

definition ds_new :: "dispatch_queue \<Rightarrow> usize \<Rightarrow> system_time \<Rightarrow> dispatch_selection_request" where
  "ds_new queue limit now =
     \<lparr>ds_queue = queue, ds_due_before = now, ds_limit = max limit 1,
      ds_include_expired_leases = True\<rparr>"

definition ds_at :: "dispatch_selection_request \<Rightarrow> system_time \<Rightarrow> dispatch_selection_request" where
  "ds_at q t = q\<lparr>ds_due_before := t\<rparr>"

definition ds_with_expired_leases ::
    "dispatch_selection_request \<Rightarrow> bool \<Rightarrow> dispatch_selection_request" where
  "ds_with_expired_leases q b = q\<lparr>ds_include_expired_leases := b\<rparr>"

text \<open>The clock value \<open>new\<close> reads is overwritten by \<open>at\<close>, so any \<open>now\<close> gives the same request.\<close>

definition ds_as_execution_request ::
    "dispatch_selection_request \<Rightarrow> system_time \<Rightarrow> due_execution_request option" where
  "ds_as_execution_request q now =
     (if ds_queue q = Execution
      then Some (der_with_expired_leases (der_at (der_new (ds_limit q) now) (ds_due_before q))
                   (ds_include_expired_leases q))
      else None)"

definition ds_as_outbox_request ::
    "dispatch_selection_request \<Rightarrow> system_time \<Rightarrow> due_outbox_message_request option" where
  "ds_as_outbox_request q now =
     (if ds_queue q = Outbox
      then Some (dor_with_expired_leases (dor_at (dor_new (ds_limit q) now) (ds_due_before q))
                   (ds_include_expired_leases q))
      else None)"

record dispatch_claim_request =
  dc_queue :: dispatch_queue
  dc_worker_id :: string
  dc_batch_size :: usize
  dc_lease_ttl :: duration
  dc_now :: system_time

definition dc_new ::
    "dispatch_queue \<Rightarrow> string \<Rightarrow> usize \<Rightarrow> duration \<Rightarrow> system_time \<Rightarrow> dispatch_claim_request" where
  "dc_new queue worker_id batch_size lease_ttl now =
     \<lparr>dc_queue = queue, dc_worker_id = worker_id, dc_batch_size = max batch_size 1,
      dc_lease_ttl = lease_ttl, dc_now = now\<rparr>"

definition dc_at :: "dispatch_claim_request \<Rightarrow> system_time \<Rightarrow> dispatch_claim_request" where
  "dc_at q t = q\<lparr>dc_now := t\<rparr>"

definition dc_as_execution_request ::
    "dispatch_claim_request \<Rightarrow> system_time \<Rightarrow> execution_lease_request option" where
  "dc_as_execution_request q now =
     (if dc_queue q = Execution
      then Some (elr_at (elr_new (dc_worker_id q) (dc_batch_size q) (dc_lease_ttl q) now) (dc_now q))
      else None)"

definition dc_as_outbox_request ::
    "dispatch_claim_request \<Rightarrow> system_time \<Rightarrow> outbox_delivery_lease_request option" where
  "dc_as_outbox_request q now =
     (if dc_queue q = Outbox
      then Some (olr_at (olr_new (dc_worker_id q) (dc_batch_size q) (dc_lease_ttl q) now) (dc_now q))
      else None)"

section \<open>Leases, due work and claimed work\<close>

datatype dispatch_lease =
  ExecutionLease execution_lease
| OutboxLease outbox_delivery_lease

fun dl_queue :: "dispatch_lease \<Rightarrow> dispatch_queue" where
  "dl_queue (ExecutionLease l) = Execution"
| "dl_queue (OutboxLease l) = Outbox"

fun dl_lease_id :: "dispatch_lease \<Rightarrow> lease_id" where
  "dl_lease_id (ExecutionLease l) = el_lease_id l"
| "dl_lease_id (OutboxLease l) = ol_lease_id l"

fun dl_leased_by :: "dispatch_lease \<Rightarrow> string" where
  "dl_leased_by (ExecutionLease l) = el_leased_by l"
| "dl_leased_by (OutboxLease l) = ol_leased_by l"

fun dl_leased_at :: "dispatch_lease \<Rightarrow> system_time" where
  "dl_leased_at (ExecutionLease l) = el_leased_at l"
| "dl_leased_at (OutboxLease l) = ol_leased_at l"

fun dl_lease_expires_at :: "dispatch_lease \<Rightarrow> system_time" where
  "dl_lease_expires_at (ExecutionLease l) = el_lease_expires_at l"
| "dl_lease_expires_at (OutboxLease l) = ol_lease_expires_at l"

fun dl_is_expired_at :: "dispatch_lease \<Rightarrow> system_time \<Rightarrow> bool" where
  "dl_is_expired_at (ExecutionLease l) now = el_is_expired_at l now"
| "dl_is_expired_at (OutboxLease l) now = ol_is_expired_at l now"

datatype claimed_dispatch_work =
  ClaimedExecutionWork claimed_execution
| ClaimedOutboxWork claimed_outbox_delivery

fun cw_queue :: "claimed_dispatch_work \<Rightarrow> dispatch_queue" where
  "cw_queue (ClaimedExecutionWork c) = Execution"
| "cw_queue (ClaimedOutboxWork c) = Outbox"

fun cw_lease :: "claimed_dispatch_work \<Rightarrow> dispatch_lease" where
  "cw_lease (ClaimedExecutionWork c) = ExecutionLease (ce_lease c)"
| "cw_lease (ClaimedOutboxWork c) = OutboxLease (co_lease c)"

datatype due_dispatch_work =
  DueExecution execution_record
| DueOutbox outbox_message

fun dd_queue :: "due_dispatch_work \<Rightarrow> dispatch_queue" where
  "dd_queue (DueExecution r) = Execution"
| "dd_queue (DueOutbox m) = Outbox"

fun dd_available_at :: "due_dispatch_work \<Rightarrow> system_time" where
  "dd_available_at (DueExecution r) = er_available_at r"
| "dd_available_at (DueOutbox m) = om_available_at m"

fun dd_claim ::
    "due_dispatch_work \<Rightarrow> dispatch_lease \<Rightarrow> correlation_id \<Rightarrow> claimed_dispatch_work app_result" where
  "dd_claim (DueExecution r) (ExecutionLease l) gen = map_sum id ClaimedExecutionWork (ce_claim r l)"
| "dd_claim (DueOutbox m) (OutboxLease l) gen = map_sum id ClaimedOutboxWork (co_claim m l gen)"
| "dd_claim (DueExecution r) (OutboxLease l) gen =
     Inl (app_error_new InvalidInput ''dispatch_claim_queue_mismatch''
            ''execution work requires an execution lease'' (er_correlation_id r))"
| "dd_claim (DueOutbox m) (ExecutionLease l) gen =
     Inl (app_error_new InvalidInput ''dispatch_claim_queue_mismatch''
            ''outbox work requires an outbox lease'' gen)"

datatype dispatch_lease_renewal =
  ExecutionRenewal execution_lease_renewal
| OutboxRenewal outbox_delivery_lease_renewal

fun dn_queue :: "dispatch_lease_renewal \<Rightarrow> dispatch_queue" where
  "dn_queue (ExecutionRenewal q) = Execution"
| "dn_queue (OutboxRenewal q) = Outbox"

fun dn_lease_id :: "dispatch_lease_renewal \<Rightarrow> lease_id" where
  "dn_lease_id (ExecutionRenewal q) = eln_lease_id q"
| "dn_lease_id (OutboxRenewal q) = oln_lease_id q"

fun dn_leased_by :: "dispatch_lease_renewal \<Rightarrow> string" where
  "dn_leased_by (ExecutionRenewal q) = eln_leased_by q"
| "dn_leased_by (OutboxRenewal q) = oln_leased_by q"

fun dn_renewed_at :: "dispatch_lease_renewal \<Rightarrow> system_time" where
  "dn_renewed_at (ExecutionRenewal q) = eln_renewed_at q"
| "dn_renewed_at (OutboxRenewal q) = oln_renewed_at q"

fun dn_lease_ttl :: "dispatch_lease_renewal \<Rightarrow> duration" where
  "dn_lease_ttl (ExecutionRenewal q) = eln_lease_ttl q"
| "dn_lease_ttl (OutboxRenewal q) = oln_lease_ttl q"

fun dn_validate :: "dispatch_lease_renewal \<Rightarrow> execution_context \<Rightarrow> unit app_result" where
  "dn_validate (ExecutionRenewal q) ctx = eln_validate q ctx"
| "dn_validate (OutboxRenewal q) ctx = oln_validate q ctx"

fun dn_renewed_lease :: "dispatch_lease_renewal \<Rightarrow> dispatch_lease" where
  "dn_renewed_lease (ExecutionRenewal q) = ExecutionLease (eln_renewed_lease q)"
| "dn_renewed_lease (OutboxRenewal q) = OutboxLease (oln_renewed_lease q)"

section \<open>Resolutions\<close>

datatype dispatch_resolution =
  ExecutionCompleted execution_record execution_success
| ExecutionRetried execution_record execution_retry
| ExecutionDeadLettered execution_record execution_dead_letter
| OutboxCompleted outbox_message outbox_delivery_success
| OutboxRetried outbox_message outbox_delivery_retry
| OutboxDeadLetteredWork outbox_message outbox_delivery_dead_letter

fun dr_queue :: "dispatch_resolution \<Rightarrow> dispatch_queue" where
  "dr_queue (ExecutionCompleted r q) = Execution"
| "dr_queue (ExecutionRetried r q) = Execution"
| "dr_queue (ExecutionDeadLettered r q) = Execution"
| "dr_queue (OutboxCompleted m q) = Outbox"
| "dr_queue (OutboxRetried m q) = Outbox"
| "dr_queue (OutboxDeadLetteredWork m q) = Outbox"

fun dr_lease_id :: "dispatch_resolution \<Rightarrow> lease_id" where
  "dr_lease_id (ExecutionCompleted r q) = es_lease_id q"
| "dr_lease_id (ExecutionRetried r q) = ey_lease_id q"
| "dr_lease_id (ExecutionDeadLettered r q) = ed_lease_id q"
| "dr_lease_id (OutboxCompleted m q) = os_lease_id q"
| "dr_lease_id (OutboxRetried m q) = oy_lease_id q"
| "dr_lease_id (OutboxDeadLetteredWork m q) = od_lease_id q"

fun cw_complete :: "claimed_dispatch_work \<Rightarrow> system_time \<Rightarrow> dispatch_resolution" where
  "cw_complete (ClaimedExecutionWork c) t =
     (case ce_complete c t of (r, q) \<Rightarrow> ExecutionCompleted r q)"
| "cw_complete (ClaimedOutboxWork c) t =
     (case co_complete c t of (m, q) \<Rightarrow> OutboxCompleted m q)"

fun cw_retry ::
    "claimed_dispatch_work \<Rightarrow> system_time \<Rightarrow> system_time \<Rightarrow> string \<Rightarrow> correlation_id
     \<Rightarrow> dispatch_resolution app_result" where
  "cw_retry (ClaimedExecutionWork c) t next err gen =
     map_sum id (\<lambda>(r, q). ExecutionRetried r q) (ce_retry c t next err)"
| "cw_retry (ClaimedOutboxWork c) t next err gen =
     map_sum id (\<lambda>(m, q). OutboxRetried m q) (co_retry c t next err gen)"

fun cw_dead_letter ::
    "claimed_dispatch_work \<Rightarrow> system_time \<Rightarrow> string \<Rightarrow> correlation_id
     \<Rightarrow> dispatch_resolution app_result" where
  "cw_dead_letter (ClaimedExecutionWork c) t err gen =
     map_sum id (\<lambda>(r, q). ExecutionDeadLettered r q) (ce_dead_letter c t err)"
| "cw_dead_letter (ClaimedOutboxWork c) t err gen =
     map_sum id (\<lambda>(m, q). OutboxDeadLetteredWork m q) (co_dead_letter c t err gen)"

lemma cw_resolution_lease:
  "dr_queue (cw_complete c t) = cw_queue c" "dr_lease_id (cw_complete c t) = dl_lease_id (cw_lease c)"
  "cw_retry c t next err gen = Inr res
     \<Longrightarrow> dr_queue res = cw_queue c \<and> dr_lease_id res = dl_lease_id (cw_lease c)"
  "cw_dead_letter c t err gen = Inr res
     \<Longrightarrow> dr_queue res = cw_queue c \<and> dr_lease_id res = dl_lease_id (cw_lease c)"
  by (cases c; auto simp: ce_complete_def co_complete_def ce_retry_def co_retry_def
      ce_dead_letter_def co_dead_letter_def es_new_def es_with_expected_revision_def os_new_def
      os_with_expected_revision_def ey_new_def ey_with_expected_revision_def oy_new_def
      oy_with_expected_revision_def ed_new_def ed_with_expected_revision_def od_new_def
      od_with_expected_revision_def split: if_splits)+

section \<open>Recovery requests and worker snapshots\<close>

record expired_lease_recovery_request =
  xr_queue :: dispatch_queue
  xr_now :: system_time
  xr_limit :: usize
  xr_max_attempts :: u32

definition xr_new ::
    "dispatch_queue \<Rightarrow> usize \<Rightarrow> u32 \<Rightarrow> system_time \<Rightarrow> expired_lease_recovery_request" where
  "xr_new queue limit max_attempts now =
     \<lparr>xr_queue = queue, xr_now = now, xr_limit = max limit 1, xr_max_attempts = max max_attempts 1\<rparr>"

definition xr_at ::
    "expired_lease_recovery_request \<Rightarrow> system_time \<Rightarrow> expired_lease_recovery_request" where
  "xr_at q t = q\<lparr>xr_now := t\<rparr>"

record expired_lease_recovery_summary =
  xs_recovered :: usize
  xs_dead_lettered :: usize

definition xs_default :: expired_lease_recovery_summary where
  "xs_default = \<lparr>xs_recovered = 0, xs_dead_lettered = 0\<rparr>"

definition xs_observe_recovered ::
    "expired_lease_recovery_summary \<Rightarrow> expired_lease_recovery_summary" where
  "xs_observe_recovered s = s\<lparr>xs_recovered := usize_saturating_inc (xs_recovered s)\<rparr>"

definition xs_observe_dead_lettered ::
    "expired_lease_recovery_summary \<Rightarrow> expired_lease_recovery_summary" where
  "xs_observe_dead_lettered s = s\<lparr>xs_dead_lettered := usize_saturating_inc (xs_dead_lettered s)\<rparr>"

record worker_dispatch_snapshot_ref =
  wr_worker_id :: string
  wr_scope :: string
  wr_observed_at :: system_time

definition wr_new :: "string \<Rightarrow> string \<Rightarrow> system_time \<Rightarrow> worker_dispatch_snapshot_ref" where
  "wr_new worker_id scope now =
     \<lparr>wr_worker_id = worker_id, wr_scope = scope, wr_observed_at = now\<rparr>"

definition wr_at ::
    "worker_dispatch_snapshot_ref \<Rightarrow> system_time \<Rightarrow> worker_dispatch_snapshot_ref" where
  "wr_at q t = q\<lparr>wr_observed_at := t\<rparr>"

record worker_dispatch_snapshots_query =
  wq_scope :: string
  wq_observed_at :: system_time
  wq_limit :: usize
  wq_include_expired_workers :: bool

definition wq_new :: "string \<Rightarrow> system_time \<Rightarrow> worker_dispatch_snapshots_query" where
  "wq_new scope now =
     \<lparr>wq_scope = scope, wq_observed_at = now, wq_limit = usize_max,
      wq_include_expired_workers = True\<rparr>"

definition wq_at ::
    "worker_dispatch_snapshots_query \<Rightarrow> system_time \<Rightarrow> worker_dispatch_snapshots_query" where
  "wq_at q t = q\<lparr>wq_observed_at := t\<rparr>"

definition wq_with_limit ::
    "worker_dispatch_snapshots_query \<Rightarrow> usize \<Rightarrow> worker_dispatch_snapshots_query" where
  "wq_with_limit q n = q\<lparr>wq_limit := max n 1\<rparr>"

definition wq_with_expired_workers ::
    "worker_dispatch_snapshots_query \<Rightarrow> bool \<Rightarrow> worker_dispatch_snapshots_query" where
  "wq_with_expired_workers q b = q\<lparr>wq_include_expired_workers := b\<rparr>"

record dispatch_queue_status_snapshot =
  qs_queue :: dispatch_queue
  qs_due_count :: usize
  qs_claimed_count :: usize
  qs_stale_claim_count :: usize
  qs_oldest_due_at :: "system_time option"

definition qs_new :: "dispatch_queue \<Rightarrow> dispatch_queue_status_snapshot" where
  "qs_new queue =
     \<lparr>qs_queue = queue, qs_due_count = 0, qs_claimed_count = 0, qs_stale_claim_count = 0,
      qs_oldest_due_at = None\<rparr>"

definition qs_with_due_count where
  "qs_with_due_count q n = (q :: dispatch_queue_status_snapshot)\<lparr>qs_due_count := n\<rparr>"

definition qs_with_claimed_count where
  "qs_with_claimed_count q n = (q :: dispatch_queue_status_snapshot)\<lparr>qs_claimed_count := n\<rparr>"

definition qs_with_stale_claim_count where
  "qs_with_stale_claim_count q n =
     (q :: dispatch_queue_status_snapshot)\<lparr>qs_stale_claim_count := n\<rparr>"

definition qs_with_oldest_due_at where
  "qs_with_oldest_due_at q t = (q :: dispatch_queue_status_snapshot)\<lparr>qs_oldest_due_at := t\<rparr>"

record worker_dispatch_snapshot =
  ws_worker_id :: string
  ws_scope :: string
  ws_observed_at :: system_time
  ws_heartbeat :: "worker_heartbeat option"
  ws_queues :: "dispatch_queue_status_snapshot list"

definition ws_new :: "string \<Rightarrow> string \<Rightarrow> system_time \<Rightarrow> worker_dispatch_snapshot" where
  "ws_new worker_id scope observed_at =
     \<lparr>ws_worker_id = worker_id, ws_scope = scope, ws_observed_at = observed_at,
      ws_heartbeat = None, ws_queues = []\<rparr>"

definition ws_visibility :: "worker_dispatch_snapshot \<Rightarrow> worker_visibility" where
  "ws_visibility s =
     (case ws_heartbeat s of None \<Rightarrow> Expired | Some h \<Rightarrow> wh_visibility_at h (ws_observed_at s))"

definition ws_claimed_work :: "worker_dispatch_snapshot \<Rightarrow> usize" where
  "ws_claimed_work s = sum_list (map qs_claimed_count (ws_queues s))"

definition ws_stale_claims :: "worker_dispatch_snapshot \<Rightarrow> usize" where
  "ws_stale_claims s = sum_list (map qs_stale_claim_count (ws_queues s))"

definition ws_active_leases :: "worker_dispatch_snapshot \<Rightarrow> usize" where
  "ws_active_leases s =
     (case ws_heartbeat s of None \<Rightarrow> ws_claimed_work s | Some h \<Rightarrow> wh_active_leases h)"

definition ws_queue ::
    "worker_dispatch_snapshot \<Rightarrow> dispatch_queue \<Rightarrow> dispatch_queue_status_snapshot option" where
  "ws_queue s q = find (\<lambda>x. qs_queue x = q) (ws_queues s)"

definition ws_with_heartbeat ::
    "worker_dispatch_snapshot \<Rightarrow> worker_heartbeat \<Rightarrow> worker_dispatch_snapshot" where
  "ws_with_heartbeat s h = s\<lparr>ws_heartbeat := Some h\<rparr>"

definition ws_push_queue ::
    "worker_dispatch_snapshot \<Rightarrow> dispatch_queue_status_snapshot \<Rightarrow> worker_dispatch_snapshot" where
  "ws_push_queue s q =
     s\<lparr>ws_queues := filter (\<lambda>x. qs_queue x \<noteq> qs_queue q) (ws_queues s) @ [q]\<rparr>"

lemmas dispatch_request_defs = ds_as_execution_request_def ds_as_outbox_request_def
  dc_as_execution_request_def dc_as_outbox_request_def der_new_def der_at_def
  der_with_expired_leases_def dor_new_def dor_at_def dor_with_expired_leases_def elr_new_def
  elr_at_def olr_new_def olr_at_def

end
