(* ===== verification/Memory_Store.thy ===== *)
theory Memory_Store
  imports Dispatch_Core
begin

text \<open>
  \<open>memory.rs\<close>: the in-memory work store, the kernel's implementation of \<open>ExecutionJournal\<close>,
  \<open>ExecutionInspectionStore\<close>, \<open>LeasedExecutions\<close>, \<open>OutboxInspectionStore\<close>, \<open>LeasedOutbox\<close>,
  \<open>DispatchWorkStore\<close>, \<open>ExpiredLeaseRecoveryStore\<close>, \<open>WorkerHeartbeatStore\<close> and
  \<open>DispatchStatusStore\<close>. This theory holds the definitions; \<open>Memory_Facts\<close> and \<open>Memory_Steps\<close> hold
  what is proved of them.

  Every method locks the one mutex for its whole body, so a method is one atomic function of the
  state; \<open>None\<close>-returning look-ups are total and no method body panics while it holds the lock, so
  the mutex is never poisoned and that error is not a branch. \<open>tracing\<close> calls are log output and are
  left out. \<open>entry.record = r\<close> through \<open>get_mut\<close> is an insert at a key that is present.
\<close>

section \<open>State\<close>

record stored_execution =
  sx_record :: execution_record
  sx_lease :: "execution_lease option"

record stored_outbox_message =
  so_message :: outbox_message
  so_lease :: "outbox_delivery_lease option"
  so_status :: outbox_message_status
  so_delivered_at :: "system_time option"
  so_dead_lettered_at :: "system_time option"
  so_last_error :: "string option"

record mem_state =
  ms_records :: "(execution_id, stored_execution) hash_map"
  ms_outbox :: "(outbox_message_id, stored_outbox_message) hash_map"
  ms_heartbeats :: "(string \<times> string, worker_heartbeat) hash_map"
  ms_next_lease_sequence :: u64

definition mem_new :: mem_state where
  "mem_new = \<lparr>ms_records = [], ms_outbox = [], ms_heartbeats = [], ms_next_lease_sequence = 0\<rparr>"

definition put_execution :: "execution_id \<Rightarrow> stored_execution \<Rightarrow> mem_state \<Rightarrow> mem_state" where
  "put_execution i e s = s\<lparr>ms_records := hm_insert i e (ms_records s)\<rparr>"

definition put_outbox :: "outbox_message_id \<Rightarrow> stored_outbox_message \<Rightarrow> mem_state \<Rightarrow> mem_state" where
  "put_outbox i e s = s\<lparr>ms_outbox := hm_insert i e (ms_outbox s)\<rparr>"

section \<open>Stored entries\<close>

definition sx_is_due_at :: "stored_execution \<Rightarrow> system_time \<Rightarrow> bool \<Rightarrow> bool" where
  "sx_is_due_at e now include_expired_leases =
     (if er_status (sx_record e) \<notin> {Pending, Failed, InFlight} then False
      else if er_available_at (sx_record e) > now then False
      else case sx_lease e of
             None \<Rightarrow> True
           | Some lease \<Rightarrow> if el_is_expired_at lease now then include_expired_leases else False)"

definition sx_materialize_due_record :: "stored_execution \<Rightarrow> system_time \<Rightarrow> execution_record" where
  "sx_materialize_due_record e now =
     (case sx_lease e of
        Some lease \<Rightarrow>
          if el_is_expired_at lease now \<and> er_status (sx_record e) = InFlight
          then er_with_status (sx_record e) Pending else sx_record e
      | None \<Rightarrow> sx_record e)"

definition sx_inspection_record :: "stored_execution \<Rightarrow> execution_inspection_record" where
  "sx_inspection_record e = \<lparr>eir_record = sx_record e, eir_lease = sx_lease e\<rparr>"

definition so_is_due_at :: "stored_outbox_message \<Rightarrow> system_time \<Rightarrow> bool \<Rightarrow> bool" where
  "so_is_due_at e now include_expired_leases =
     (if so_status e \<notin> {OutboxPending, OutboxInFlight} then False
      else if om_available_at (so_message e) > now then False
      else case so_lease e of
             None \<Rightarrow> True
           | Some lease \<Rightarrow> if ol_is_expired_at lease now then include_expired_leases else False)"

definition so_materialize_due_message :: "stored_outbox_message \<Rightarrow> outbox_message" where
  "so_materialize_due_message e = so_message e"

definition so_inspection_status_at :: "stored_outbox_message \<Rightarrow> system_time \<Rightarrow> outbox_message_status" where
  "so_inspection_status_at e now =
     (case so_status e of
        OutboxPending \<Rightarrow> OutboxPending
      | OutboxDelivered \<Rightarrow> OutboxDelivered
      | OutboxDeadLettered \<Rightarrow> OutboxDeadLettered
      | OutboxInFlight \<Rightarrow>
          (case so_lease e of
             Some lease \<Rightarrow> if \<not> ol_is_expired_at lease now then OutboxInFlight else OutboxPending
           | None \<Rightarrow> OutboxPending))"

definition so_inspection_record ::
    "stored_outbox_message \<Rightarrow> system_time \<Rightarrow> outbox_inspection_record" where
  "so_inspection_record e now =
     oir_with_last_error
       (oir_with_dead_lettered_at
         (oir_with_delivered_at
           (oir_with_lease (oir_new (so_message e) (so_inspection_status_at e now)) (so_lease e))
           (so_delivered_at e))
         (so_dead_lettered_at e))
       (so_last_error e)"

section \<open>Reading the state\<close>

definition lease_text :: "u64 \<Rightarrow> string" where
  "lease_text n = ''lease_exec_mem_'' @ hex_string (unat n)"

text \<open>\<open>LeaseId::new\<close> panics on a blank string; \<open>lease_text\<close> is never blank (proved in \<open>Memory_Facts\<close>).\<close>

definition next_lease_id :: "mem_state \<Rightarrow> lease_id \<times> mem_state" where
  "next_lease_id s =
     (let n = saturating_inc (ms_next_lease_sequence s)
      in (projr (lease_id_try_new (lease_text n)), s\<lparr>ms_next_lease_sequence := n\<rparr>))"

definition active_execution_leases_for_worker :: "mem_state \<Rightarrow> string \<Rightarrow> system_time \<Rightarrow> usize" where
  "active_execution_leases_for_worker s w now =
     length (filter (\<lambda>e. case sx_lease e of None \<Rightarrow> False
                         | Some l \<Rightarrow> el_leased_by l = w \<and> \<not> el_is_expired_at l now)
       (hm_values (ms_records s)))"

definition active_outbox_leases_for_worker :: "mem_state \<Rightarrow> string \<Rightarrow> system_time \<Rightarrow> usize" where
  "active_outbox_leases_for_worker s w now =
     length (filter (\<lambda>e. case so_lease e of None \<Rightarrow> False
                         | Some l \<Rightarrow> ol_leased_by l = w \<and> \<not> ol_is_expired_at l now)
       (hm_values (ms_outbox s)))"

definition active_leases_for_worker :: "mem_state \<Rightarrow> string \<Rightarrow> system_time \<Rightarrow> usize" where
  "active_leases_for_worker s w now =
     active_execution_leases_for_worker s w now + active_outbox_leases_for_worker s w now"

definition stale_execution_claim_count_for_worker ::
    "mem_state \<Rightarrow> string \<Rightarrow> system_time \<Rightarrow> usize" where
  "stale_execution_claim_count_for_worker s w now =
     length (filter (\<lambda>e. case sx_lease e of None \<Rightarrow> False
                         | Some l \<Rightarrow> el_leased_by l = w \<and> el_is_expired_at l now)
       (hm_values (ms_records s)))"

definition stale_outbox_claim_count_for_worker :: "mem_state \<Rightarrow> string \<Rightarrow> system_time \<Rightarrow> usize" where
  "stale_outbox_claim_count_for_worker s w now =
     length (filter (\<lambda>e. case so_lease e of None \<Rightarrow> False
                         | Some l \<Rightarrow> ol_leased_by l = w \<and> ol_is_expired_at l now)
       (hm_values (ms_outbox s)))"

definition due_execution_count :: "mem_state \<Rightarrow> system_time \<Rightarrow> usize" where
  "due_execution_count s now =
     length (filter (\<lambda>e. sx_is_due_at e now True) (hm_values (ms_records s)))"

definition due_outbox_count :: "mem_state \<Rightarrow> system_time \<Rightarrow> usize" where
  "due_outbox_count s now =
     length (filter (\<lambda>e. so_is_due_at e now True) (hm_values (ms_outbox s)))"

text \<open>\<open>Iterator::min\<close>\<close>

fun iter_min :: "'a::linorder list \<Rightarrow> 'a option" where
  "iter_min [] = None"
| "iter_min (x # xs) = Some (fold min xs x)"

definition oldest_due_execution_at :: "mem_state \<Rightarrow> system_time \<Rightarrow> system_time option" where
  "oldest_due_execution_at s now =
     iter_min (map (er_available_at \<circ> sx_record)
       (filter (\<lambda>e. sx_is_due_at e now True) (hm_values (ms_records s))))"

definition oldest_due_outbox_at :: "mem_state \<Rightarrow> system_time \<Rightarrow> system_time option" where
  "oldest_due_outbox_at s now =
     iter_min (map (om_available_at \<circ> so_message)
       (filter (\<lambda>e. so_is_due_at e now True) (hm_values (ms_outbox s))))"

definition execution_order :: "execution_record \<Rightarrow> system_time \<times> system_time \<times> execution_id" where
  "execution_order r = (er_available_at r, er_recorded_at r, er_id r)"

definition selectable_due_records ::
    "mem_state \<Rightarrow> due_execution_request \<Rightarrow> execution_record list" where
  "selectable_due_records s q =
     take (der_limit q)
       (sort_key execution_order
         (map (\<lambda>e. sx_materialize_due_record e (der_due_before q))
           (filter (\<lambda>e. sx_is_due_at e (der_due_before q) (der_include_expired_leases q))
             (hm_values (ms_records s)))))"

definition find_claimable_ids :: "mem_state \<Rightarrow> execution_lease_request \<Rightarrow> execution_id list" where
  "find_claimable_ids s q =
     (let selection = der_with_expired_leases
            (der_at (der_new (elr_batch_size q) (elr_now q)) (elr_now q)) True
      in map er_id (selectable_due_records s selection))"

definition message_order ::
    "outbox_message \<Rightarrow> system_time \<times> system_time option \<times> outbox_message_id" where
  "message_order m = (om_available_at m, om_last_attempted_at m, om_id m)"

definition selectable_due_messages ::
    "mem_state \<Rightarrow> due_outbox_message_request \<Rightarrow> outbox_message list" where
  "selectable_due_messages s q =
     take (dor_limit q)
       (sort_key message_order
         (map so_materialize_due_message
           (filter (\<lambda>e. so_is_due_at e (dor_due_before q) (dor_include_expired_leases q))
             (hm_values (ms_outbox s)))))"

definition find_claimable_message_ids ::
    "mem_state \<Rightarrow> outbox_delivery_lease_request \<Rightarrow> outbox_message_id list" where
  "find_claimable_message_ids s q =
     (let selection = dor_with_expired_leases
            (dor_at (dor_new (olr_batch_size q) (olr_now q)) (olr_now q)) True
      in map om_id (selectable_due_messages s selection))"

definition snapshot_heartbeat ::
    "mem_state \<Rightarrow> string \<Rightarrow> string \<Rightarrow> system_time \<Rightarrow> worker_heartbeat option" where
  "snapshot_heartbeat s worker_id scope observed_at =
     map_option (\<lambda>h. wh_with_active_leases h (active_leases_for_worker s worker_id observed_at))
       (hm_get (ms_heartbeats s) (scope, worker_id))"

definition visible_heartbeat ::
    "mem_state \<Rightarrow> string \<Rightarrow> string \<Rightarrow> system_time \<Rightarrow> worker_heartbeat option" where
  "visible_heartbeat s worker_id scope visible_at =
     (case snapshot_heartbeat s worker_id scope visible_at of
        None \<Rightarrow> None
      | Some h \<Rightarrow> if wh_visible_until h \<ge> visible_at then Some h else None)"

fun queue_snapshot_for_worker ::
    "mem_state \<Rightarrow> dispatch_queue \<Rightarrow> string \<Rightarrow> system_time \<Rightarrow> dispatch_queue_status_snapshot" where
  "queue_snapshot_for_worker s Execution w t =
     qs_with_oldest_due_at
       (qs_with_stale_claim_count
         (qs_with_claimed_count
           (qs_with_due_count (qs_new Execution) (due_execution_count s t))
           (active_execution_leases_for_worker s w t))
         (stale_execution_claim_count_for_worker s w t))
       (oldest_due_execution_at s t)"
| "queue_snapshot_for_worker s Outbox w t =
     qs_with_oldest_due_at
       (qs_with_stale_claim_count
         (qs_with_claimed_count
           (qs_with_due_count (qs_new Outbox) (due_outbox_count s t))
           (active_outbox_leases_for_worker s w t))
         (stale_outbox_claim_count_for_worker s w t))
       (oldest_due_outbox_at s t)"

text \<open>A \<open>BTreeSet\<close> collected in order is the sorted list without duplicates.\<close>

definition worker_ids_for_scope :: "mem_state \<Rightarrow> string \<Rightarrow> string list" where
  "worker_ids_for_scope s scope =
     sort (remdups
       (map wh_worker_id (filter (\<lambda>h. wh_scope h = scope) (hm_values (ms_heartbeats s)))
        @ map el_leased_by (List.map_filter sx_lease (hm_values (ms_records s)))
        @ map ol_leased_by (List.map_filter so_lease (hm_values (ms_outbox s)))))"

section \<open>The execution journal and its inspection\<close>

definition mem_record :: "mem_state \<Rightarrow> execution_id \<Rightarrow> execution_record option" where
  "mem_record s i = map_option sx_record (hm_get (ms_records s) i)"

definition mem_lease :: "mem_state \<Rightarrow> execution_id \<Rightarrow> execution_lease option" where
  "mem_lease s i = Option.bind (hm_get (ms_records s) i) sx_lease"

definition mem_append_outbox ::
    "outbox_message \<Rightarrow> execution_context \<Rightarrow> (mem_state, unit) app_op" where
  "mem_append_outbox m ctx s =
     (if hm_get (ms_outbox s) (om_id m) \<noteq> None
      then (Inl (app_error_conflict ''outbox_message_exists''
                   (''outbox message '' @ outbox_message_id_str (om_id m) @ '' already exists'')
                   (cx_correlation_id ctx)), s)
      else (Inr (), put_outbox (om_id m)
              \<lparr>so_message = m, so_lease = None, so_status = OutboxPending, so_delivered_at = None,
               so_dead_lettered_at = None, so_last_error = None\<rparr> s))"

definition mem_append ::
    "execution_record \<Rightarrow> execution_context \<Rightarrow> (mem_state, unit) app_op" where
  "mem_append r ctx s =
     (if hm_get (ms_records s) (er_id r) \<noteq> None
      then (Inl (app_error_conflict ''execution_record_exists''
                   (''execution record '' @ execution_id_str (er_id r) @ '' already exists'')
                   (cx_correlation_id ctx)), s)
      else (Inr (), put_execution (er_id r) \<lparr>sx_record = r, sx_lease = None\<rparr> s))"

definition execution_not_found :: "execution_id \<Rightarrow> execution_context \<Rightarrow> app_error" where
  "execution_not_found i ctx =
     app_error_not_found ''execution_record_not_found''
       (''execution record '' @ execution_id_str i @ '' was not found'') (cx_correlation_id ctx)"

definition message_not_found :: "outbox_message_id \<Rightarrow> execution_context \<Rightarrow> app_error" where
  "message_not_found i ctx =
     app_error_not_found ''outbox_message_not_found''
       (''outbox message '' @ outbox_message_id_str i @ '' was not found'') (cx_correlation_id ctx)"

definition mem_update ::
    "execution_record \<Rightarrow> execution_context \<Rightarrow> (mem_state, unit) app_op" where
  "mem_update r ctx s =
     (case hm_get (ms_records s) (er_id r) of
        None \<Rightarrow> (Inl (execution_not_found (er_id r) ctx), s)
      | Some entry \<Rightarrow>
          (Inr (), put_execution (er_id r)
             \<lparr>sx_record = r,
              sx_lease = (if er_status r \<noteq> InFlight then None else sx_lease entry)\<rparr> s))"

definition mem_lookup_execution_inspection ::
    "mem_state \<Rightarrow> execution_id \<Rightarrow> execution_inspection_record option" where
  "mem_lookup_execution_inspection s i =
     map_option sx_inspection_record (hm_get (ms_records s) i)"

definition query_matches_execution :: "execution_inspection_query \<Rightarrow> stored_execution \<Rightarrow> bool" where
  "query_matches_execution q e \<longleftrightarrow>
     matches_opt (eiq_status q) (er_status (sx_record e))
   \<and> matches_opt (eiq_operation q) (er_operation (sx_record e))
   \<and> matches_opt (eiq_target q) (er_target (sx_record e))"

definition mem_list_executions ::
    "mem_state \<Rightarrow> execution_inspection_query \<Rightarrow> execution_record list" where
  "mem_list_executions s q =
     take (eiq_limit q)
       (sort_key execution_order
         (map sx_record (filter (query_matches_execution q) (hm_values (ms_records s)))))"

definition mem_list_execution_inspection ::
    "mem_state \<Rightarrow> execution_inspection_query \<Rightarrow> execution_inspection_record list" where
  "mem_list_execution_inspection s q =
     take (eiq_limit q)
       (sort_key (execution_order \<circ> eir_record)
         (map sx_inspection_record
           (filter (query_matches_execution q) (hm_values (ms_records s)))))"

definition mem_summarize_executions ::
    "mem_state \<Rightarrow> execution_inspection_query \<Rightarrow> execution_inspection_summary" where
  "mem_summarize_executions s q =
     foldl (\<lambda>sum e. eis_observe_record sum (sx_inspection_record e) (eiq_observed_at q)) eis_default
       (filter (query_matches_execution q) (hm_values (ms_records s)))"

section \<open>Leased executions\<close>

definition require_revision ::
    "revision_token option \<Rightarrow> revision_token \<Rightarrow> execution_context \<Rightarrow> string \<Rightarrow> unit app_result" where
  "require_revision expected actual ctx code =
     (if (case expected of None \<Rightarrow> False | Some r \<Rightarrow> r \<noteq> actual)
      then Inl (app_error_concurrent_modification code
                  ''state transition revision did not match current persisted revision''
                  (cx_correlation_id ctx))
      else Inr ())"

definition mem_select_due_executions ::
    "due_execution_request \<Rightarrow> execution_context \<Rightarrow> (mem_state, execution_record list) app_op" where
  "mem_select_due_executions q ctx s = (Inr (selectable_due_records s q), s)"

text \<open>The \<open>for\<close> loop of \<open>claim_available\<close>: writes made before an error stay.\<close>

fun claim_executions ::
    "execution_lease_request \<Rightarrow> execution_context \<Rightarrow> execution_id list \<Rightarrow> claimed_execution list
     \<Rightarrow> (mem_state, claimed_execution list) app_op" where
  "claim_executions q ctx [] claimed s = (Inr claimed, s)"
| "claim_executions q ctx (i # is) claimed s =
     (let (lease_id, s1) = next_lease_id s;
          lease = el_from_now lease_id (elr_leased_by q) (elr_lease_ttl q) (elr_now q)
      in case hm_get (ms_records s1) i of
           None \<Rightarrow> (Inl (execution_not_found i ctx), s1)
         | Some entry \<Rightarrow>
             (case ce_claim (sx_materialize_due_record entry (elr_now q)) lease of
                Inl e \<Rightarrow> (Inl e, s1)
              | Inr next_claim \<Rightarrow>
                  claim_executions q ctx is (claimed @ [next_claim])
                    (put_execution i \<lparr>sx_record = ce_record next_claim, sx_lease = Some lease\<rparr> s1)))"

definition mem_claim_available ::
    "execution_lease_request \<Rightarrow> execution_context \<Rightarrow> (mem_state, claimed_execution list) app_op" where
  "mem_claim_available q ctx s = claim_executions q ctx (find_claimable_ids s q) [] s"

definition mem_renew_execution_lease ::
    "execution_lease_renewal \<Rightarrow> execution_context \<Rightarrow> (mem_state, execution_lease) app_op" where
  "mem_renew_execution_lease q ctx s =
     (case eln_validate q ctx of
        Inl e \<Rightarrow> (Inl e, s)
      | Inr _ \<Rightarrow>
     (case hm_get (ms_records s) (eln_execution_id q) of
        None \<Rightarrow> (Inl (execution_not_found (eln_execution_id q) ctx), s)
      | Some entry \<Rightarrow>
     (case sx_lease entry of
        None \<Rightarrow> (Inl (app_error_conflict ''execution_lease_missing''
                        ''execution work is not currently leased'' (cx_correlation_id ctx)), s)
      | Some lease \<Rightarrow>
          if el_lease_id lease \<noteq> eln_lease_id q \<or> el_leased_by lease \<noteq> eln_leased_by q
          then (Inl (app_error_concurrent_modification ''execution_lease_mismatch''
                       ''execution lease renewal did not match the active lease owner or lease id''
                       (cx_correlation_id ctx)), s)
          else if el_is_expired_at lease (eln_renewed_at q)
          then (Inl (app_error_conflict ''execution_lease_expired''
                       ''expired execution leases cannot be renewed'' (cx_correlation_id ctx)), s)
          else (Inr (eln_renewed_lease q),
                put_execution (eln_execution_id q)
                  (entry\<lparr>sx_lease := Some (eln_renewed_lease q)\<rparr>) s))))"

text \<open>
  The three resolutions of a leased execution share their skeleton: find the entry, match the lease,
  check the revision, replace the record and drop the lease. \<open>what\<close> is the infix of the error codes
  (\<open>completion\<close>, \<open>retry\<close>, \<open>dead_letter\<close>) and \<open>noun\<close> the subject of the messages.
\<close>

definition resolve_execution ::
    "string \<Rightarrow> string \<Rightarrow> execution_id \<Rightarrow> lease_id \<Rightarrow> revision_token option
     \<Rightarrow> (execution_record \<Rightarrow> execution_record) \<Rightarrow> execution_context \<Rightarrow> (mem_state, unit) app_op" where
  "resolve_execution what noun i lid expected transition ctx s =
     (case hm_get (ms_records s) i of
        None \<Rightarrow> (Inl (execution_not_found i ctx), s)
      | Some entry \<Rightarrow>
          (case sx_lease entry of
             Some lease \<Rightarrow>
               if el_lease_id lease = lid
               then
                 (case require_revision expected (er_revision (sx_record entry)) ctx
                         (''execution_'' @ what @ ''_revision_mismatch'') of
                    Inl e \<Rightarrow> (Inl e, s)
                  | Inr _ \<Rightarrow>
                      (Inr (), put_execution i
                         \<lparr>sx_record = transition (sx_record entry), sx_lease = None\<rparr> s))
               else (Inl (app_error_concurrent_modification (''execution_'' @ what @ ''_lease_mismatch'')
                            (noun @ '' did not match the active lease'') (cx_correlation_id ctx)), s)
           | None \<Rightarrow> (Inl (app_error_conflict (''execution_'' @ what @ ''_lease_missing'')
                            (noun @ '' requires an active lease'') (cx_correlation_id ctx)), s)))"

definition mem_acknowledge_completion ::
    "execution_success \<Rightarrow> execution_context \<Rightarrow> (mem_state, unit) app_op" where
  "mem_acknowledge_completion q ctx =
     resolve_execution ''completion'' ''execution completion'' (es_execution_id q) (es_lease_id q)
       (es_expected_revision q) (\<lambda>r. er_mark_succeeded r (es_finished_at q)) ctx"

definition mem_retry_execution ::
    "execution_retry \<Rightarrow> execution_context \<Rightarrow> (mem_state, unit) app_op" where
  "mem_retry_execution q ctx =
     resolve_execution ''retry'' ''execution retry'' (ey_execution_id q) (ey_lease_id q)
       (ey_expected_revision q)
       (\<lambda>r. er_schedule_retry r (ey_attempted_at q) (ey_next_available_at q) (ey_error q)) ctx"

definition mem_dead_letter_execution ::
    "execution_dead_letter \<Rightarrow> execution_context \<Rightarrow> (mem_state, unit) app_op" where
  "mem_dead_letter_execution q ctx =
     resolve_execution ''dead_letter'' ''execution dead-letter acknowledgement'' (ed_execution_id q)
       (ed_lease_id q) (ed_expected_revision q)
       (\<lambda>r. er_mark_dead_lettered r (ed_dead_lettered_at q) (ed_error q)) ctx"

section \<open>The outbox: inspection and leased deliveries\<close>

definition mem_lookup_outbox_message ::
    "mem_state \<Rightarrow> outbox_message_id \<Rightarrow> system_time \<Rightarrow> outbox_inspection_record option" where
  "mem_lookup_outbox_message s i observed_at =
     map_option (\<lambda>e. so_inspection_record e observed_at) (hm_get (ms_outbox s) i)"

definition query_matches_outbox :: "outbox_inspection_query \<Rightarrow> stored_outbox_message \<Rightarrow> bool" where
  "query_matches_outbox q e \<longleftrightarrow>
     matches_opt (oiq_status q) (so_inspection_status_at e (oiq_observed_at q))
   \<and> matches_opt (oiq_aggregate q) (om_aggregate (so_message e))
   \<and> matches_opt (oiq_topic q) (oe_topic (om_envelope (so_message e)))"

definition mem_list_outbox_messages ::
    "mem_state \<Rightarrow> outbox_inspection_query \<Rightarrow> outbox_inspection_record list" where
  "mem_list_outbox_messages s q =
     take (oiq_limit q)
       (sort_key (message_order \<circ> oir_message)
         (map (\<lambda>e. so_inspection_record e (oiq_observed_at q))
           (filter (query_matches_outbox q) (hm_values (ms_outbox s)))))"

definition mem_summarize_outbox ::
    "mem_state \<Rightarrow> outbox_inspection_query \<Rightarrow> outbox_inspection_summary" where
  "mem_summarize_outbox s q =
     foldl (\<lambda>sum e. ois_observe sum (so_inspection_record e (oiq_observed_at q)) (oiq_observed_at q))
       ois_default (filter (query_matches_outbox q) (hm_values (ms_outbox s)))"

definition mem_select_due_messages ::
    "due_outbox_message_request \<Rightarrow> execution_context \<Rightarrow> (mem_state, outbox_message list) app_op" where
  "mem_select_due_messages q ctx s = (Inr (selectable_due_messages s q), s)"

fun lease_messages ::
    "outbox_delivery_lease_request \<Rightarrow> execution_context \<Rightarrow> correlation_id \<Rightarrow> outbox_message_id list
     \<Rightarrow> claimed_outbox_delivery list \<Rightarrow> (mem_state, claimed_outbox_delivery list) app_op" where
  "lease_messages q ctx gen [] claimed s = (Inr claimed, s)"
| "lease_messages q ctx gen (i # is) claimed s =
     (let (lease_id, s1) = next_lease_id s;
          lease = ol_from_now lease_id (olr_leased_by q) (olr_lease_ttl q) (olr_now q)
      in case hm_get (ms_outbox s1) i of
           None \<Rightarrow> (Inl (message_not_found i ctx), s1)
         | Some entry \<Rightarrow>
             (case co_claim (so_materialize_due_message entry) lease gen of
                Inl e \<Rightarrow> (Inl e, s1)
              | Inr next_claim \<Rightarrow>
                  lease_messages q ctx gen is (claimed @ [next_claim])
                    (put_outbox i
                       (entry\<lparr>so_message := co_message next_claim, so_lease := Some lease,
                              so_status := OutboxInFlight\<rparr>) s1)))"

definition mem_lease_available ::
    "outbox_delivery_lease_request \<Rightarrow> execution_context \<Rightarrow> correlation_id
     \<Rightarrow> (mem_state, claimed_outbox_delivery list) app_op" where
  "mem_lease_available q ctx gen s =
     lease_messages q ctx gen (find_claimable_message_ids s q) [] s"

definition mem_renew_outbox_lease ::
    "outbox_delivery_lease_renewal \<Rightarrow> execution_context \<Rightarrow> (mem_state, outbox_delivery_lease) app_op" where
  "mem_renew_outbox_lease q ctx s =
     (case oln_validate q ctx of
        Inl e \<Rightarrow> (Inl e, s)
      | Inr _ \<Rightarrow>
     (case hm_get (ms_outbox s) (oln_message_id q) of
        None \<Rightarrow> (Inl (message_not_found (oln_message_id q) ctx), s)
      | Some entry \<Rightarrow>
     (case so_lease entry of
        None \<Rightarrow> (Inl (app_error_conflict ''outbox_lease_missing''
                        ''outbox work is not currently leased'' (cx_correlation_id ctx)), s)
      | Some lease \<Rightarrow>
          if ol_lease_id lease \<noteq> oln_lease_id q \<or> ol_leased_by lease \<noteq> oln_leased_by q
          then (Inl (app_error_concurrent_modification ''outbox_lease_mismatch''
                       ''outbox lease renewal did not match the active lease owner or lease id''
                       (cx_correlation_id ctx)), s)
          else if ol_is_expired_at lease (oln_renewed_at q)
          then (Inl (app_error_conflict ''outbox_lease_expired''
                       ''expired outbox leases cannot be renewed'' (cx_correlation_id ctx)), s)
          else (Inr (oln_renewed_lease q),
                put_outbox (oln_message_id q)
                  (entry\<lparr>so_lease := Some (oln_renewed_lease q)\<rparr>) s))))"

definition resolve_outbox ::
    "string \<Rightarrow> string \<Rightarrow> outbox_message_id \<Rightarrow> lease_id \<Rightarrow> revision_token option
     \<Rightarrow> (stored_outbox_message \<Rightarrow> stored_outbox_message) \<Rightarrow> execution_context
     \<Rightarrow> (mem_state, unit) app_op" where
  "resolve_outbox what noun i lid expected transition ctx s =
     (case hm_get (ms_outbox s) i of
        None \<Rightarrow> (Inl (message_not_found i ctx), s)
      | Some entry \<Rightarrow>
          (case so_lease entry of
             Some lease \<Rightarrow>
               if ol_lease_id lease = lid
               then
                 (case require_revision expected (om_revision (so_message entry)) ctx
                         (''outbox_'' @ what @ ''_revision_mismatch'') of
                    Inl e \<Rightarrow> (Inl e, s)
                  | Inr _ \<Rightarrow> (Inr (), put_outbox i ((transition entry)\<lparr>so_lease := None\<rparr>) s))
               else (Inl (app_error_concurrent_modification (''outbox_'' @ what @ ''_lease_mismatch'')
                            (noun @ '' did not match the active lease'') (cx_correlation_id ctx)), s)
           | None \<Rightarrow> (Inl (app_error_conflict (''outbox_'' @ what @ ''_lease_missing'')
                            (noun @ '' requires an active lease'') (cx_correlation_id ctx)), s)))"

definition mem_acknowledge_delivery ::
    "outbox_delivery_success \<Rightarrow> execution_context \<Rightarrow> (mem_state, unit) app_op" where
  "mem_acknowledge_delivery q ctx =
     resolve_outbox ''delivery'' ''outbox delivery acknowledgement'' (os_message_id q) (os_lease_id q)
       (os_expected_revision q)
       (\<lambda>e. e\<lparr>so_message := om_mark_attempted (so_message e) (os_delivered_at q) None,
              so_status := OutboxDelivered, so_delivered_at := Some (os_delivered_at q),
              so_last_error := None\<rparr>) ctx"

definition mem_retry_delivery ::
    "outbox_delivery_retry \<Rightarrow> execution_context \<Rightarrow> (mem_state, unit) app_op" where
  "mem_retry_delivery q ctx =
     resolve_outbox ''retry'' ''outbox retry'' (oy_message_id q) (oy_lease_id q)
       (oy_expected_revision q)
       (\<lambda>e. e\<lparr>so_message := om_mark_attempted (so_message e) (oy_attempted_at q)
                              (Some (oy_next_available_at q)),
              so_status := OutboxPending, so_last_error := Some (oy_error q)\<rparr>) ctx"

definition mem_dead_letter_delivery ::
    "outbox_delivery_dead_letter \<Rightarrow> execution_context \<Rightarrow> (mem_state, unit) app_op" where
  "mem_dead_letter_delivery q ctx =
     resolve_outbox ''dead_letter'' ''outbox dead-letter acknowledgement'' (od_message_id q)
       (od_lease_id q) (od_expected_revision q)
       (\<lambda>e. e\<lparr>so_message := om_mark_attempted (so_message e) (od_dead_lettered_at q) None,
              so_status := OutboxDeadLettered, so_dead_lettered_at := Some (od_dead_lettered_at q),
              so_last_error := Some (od_error q)\<rparr>) ctx"

section \<open>The dispatch work store\<close>

definition mem_select_due ::
    "dispatch_selection_request \<Rightarrow> execution_context \<Rightarrow> (mem_state, due_dispatch_work list) app_op" where
  "mem_select_due q ctx =
     (case ds_queue q of
        Execution \<Rightarrow>
          op_bind
            (op_lift (ok_or (app_error_unexpected ''dispatch_selection_queue_mismatch''
                               ''execution dispatch request did not convert'' (cx_correlation_id ctx))
                        (ds_as_execution_request q (ds_due_before q))))
            (\<lambda>request. op_map (map DueExecution) (mem_select_due_executions request ctx))
      | Outbox \<Rightarrow>
          op_bind
            (op_lift (ok_or (app_error_unexpected ''dispatch_selection_queue_mismatch''
                               ''outbox dispatch request did not convert'' (cx_correlation_id ctx))
                        (ds_as_outbox_request q (ds_due_before q))))
            (\<lambda>request. op_map (map DueOutbox) (mem_select_due_messages request ctx)))"

definition mem_claim_due ::
    "dispatch_claim_request \<Rightarrow> execution_context \<Rightarrow> correlation_id
     \<Rightarrow> (mem_state, claimed_dispatch_work list) app_op" where
  "mem_claim_due q ctx gen =
     (case dc_queue q of
        Execution \<Rightarrow>
          op_bind
            (op_lift (ok_or (app_error_unexpected ''dispatch_claim_queue_mismatch''
                               ''execution dispatch claim request did not convert''
                               (cx_correlation_id ctx))
                        (dc_as_execution_request q (dc_now q))))
            (\<lambda>request. op_map (map ClaimedExecutionWork) (mem_claim_available request ctx))
      | Outbox \<Rightarrow>
          op_bind
            (op_lift (ok_or (app_error_unexpected ''dispatch_claim_queue_mismatch''
                               ''outbox dispatch claim request did not convert''
                               (cx_correlation_id ctx))
                        (dc_as_outbox_request q (dc_now q))))
            (\<lambda>request. op_map (map ClaimedOutboxWork) (mem_lease_available request ctx gen)))"

fun mem_renew_claim ::
    "dispatch_lease_renewal \<Rightarrow> execution_context \<Rightarrow> (mem_state, dispatch_lease) app_op" where
  "mem_renew_claim (ExecutionRenewal q) ctx = op_map ExecutionLease (mem_renew_execution_lease q ctx)"
| "mem_renew_claim (OutboxRenewal q) ctx = op_map OutboxLease (mem_renew_outbox_lease q ctx)"

fun mem_finalize :: "dispatch_resolution \<Rightarrow> execution_context \<Rightarrow> (mem_state, unit) app_op" where
  "mem_finalize (ExecutionCompleted r q) ctx = mem_acknowledge_completion q ctx"
| "mem_finalize (ExecutionRetried r q) ctx = mem_retry_execution q ctx"
| "mem_finalize (ExecutionDeadLettered r q) ctx = mem_dead_letter_execution q ctx"
| "mem_finalize (OutboxCompleted m q) ctx = mem_acknowledge_delivery q ctx"
| "mem_finalize (OutboxRetried m q) ctx = mem_retry_delivery q ctx"
| "mem_finalize (OutboxDeadLetteredWork m q) ctx = mem_dead_letter_delivery q ctx"

section \<open>Expired-lease recovery\<close>

definition expired_execution_ids ::
    "mem_state \<Rightarrow> expired_lease_recovery_request \<Rightarrow> execution_id list" where
  "expired_execution_ids s q =
     map snd (take (xr_limit q) (sort_key id
       (map (\<lambda>(i, e). (er_available_at (sx_record e), i))
         (filter (\<lambda>(i, e). case sx_lease e of None \<Rightarrow> False | Some l \<Rightarrow> el_is_expired_at l (xr_now q))
           (ms_records s)))))"

definition recover_execution ::
    "expired_lease_recovery_request \<Rightarrow> execution_id
     \<Rightarrow> mem_state \<times> expired_lease_recovery_summary \<Rightarrow> mem_state \<times> expired_lease_recovery_summary" where
  "recover_execution q i = (\<lambda>(s, summary).
     case hm_get (ms_records s) i of
       None \<Rightarrow> (s, summary)
     | Some entry \<Rightarrow>
         if er_attempt (sx_record entry) \<ge> xr_max_attempts q
         then (put_execution i
                 \<lparr>sx_record = er_mark_dead_lettered (sx_record entry) (xr_now q)
                                ''lease expired beyond retry limit'', sx_lease = None\<rparr> s,
               xs_observe_dead_lettered summary)
         else (put_execution i
                 \<lparr>sx_record = er_release_claim (sx_record entry) (xr_now q), sx_lease = None\<rparr> s,
               xs_observe_recovered summary))"

definition expired_outbox_ids ::
    "mem_state \<Rightarrow> expired_lease_recovery_request \<Rightarrow> outbox_message_id list" where
  "expired_outbox_ids s q =
     map snd (take (xr_limit q) (sort_key id
       (map (\<lambda>(i, e). (om_available_at (so_message e), i))
         (filter (\<lambda>(i, e). case so_lease e of None \<Rightarrow> False | Some l \<Rightarrow> ol_is_expired_at l (xr_now q))
           (ms_outbox s)))))"

definition recover_message ::
    "expired_lease_recovery_request \<Rightarrow> outbox_message_id
     \<Rightarrow> mem_state \<times> expired_lease_recovery_summary \<Rightarrow> mem_state \<times> expired_lease_recovery_summary" where
  "recover_message q i = (\<lambda>(s, summary).
     case hm_get (ms_outbox s) i of
       None \<Rightarrow> (s, summary)
     | Some entry \<Rightarrow>
         if om_attempts (so_message entry) \<ge> xr_max_attempts q
         then (put_outbox i
                 (entry\<lparr>so_status := OutboxDeadLettered, so_dead_lettered_at := Some (xr_now q),
                        so_last_error := Some ''lease expired beyond retry limit'',
                        so_message := om_mark_attempted (so_message entry) (xr_now q) None,
                        so_lease := None\<rparr>) s,
               xs_observe_dead_lettered summary)
         else (put_outbox i
                 (entry\<lparr>so_status := OutboxPending,
                        so_message := om_release_claim (so_message entry) (xr_now q),
                        so_lease := None\<rparr>) s,
               xs_observe_recovered summary))"

definition mem_recover_expired_leases ::
    "expired_lease_recovery_request \<Rightarrow> execution_context
     \<Rightarrow> (mem_state, expired_lease_recovery_summary) app_op" where
  "mem_recover_expired_leases q ctx s =
     (case xr_queue q of
        Execution \<Rightarrow>
          (let (s', summary) = fold (recover_execution q) (expired_execution_ids s q) (s, xs_default)
           in (Inr summary, s'))
      | Outbox \<Rightarrow>
          (let (s', summary) = fold (recover_message q) (expired_outbox_ids s q) (s, xs_default)
           in (Inr summary, s')))"

section \<open>Heartbeats and worker snapshots\<close>

definition mem_record_heartbeat ::
    "worker_heartbeat \<Rightarrow> execution_context \<Rightarrow> (mem_state, unit) app_op" where
  "mem_record_heartbeat h ctx s =
     (case wh_validate h ctx of
        Inl e \<Rightarrow> (Inl e, s)
      | Inr _ \<Rightarrow>
          let h' = wh_with_active_leases h
                     (active_leases_for_worker s (wh_worker_id h) (wh_recorded_at h))
          in (Inr (), s\<lparr>ms_heartbeats :=
                          hm_insert (wh_scope h', wh_worker_id h') h' (ms_heartbeats s)\<rparr>))"

definition mem_lookup_worker ::
    "worker_visibility_ref \<Rightarrow> execution_context \<Rightarrow> (mem_state, worker_heartbeat option) app_op" where
  "mem_lookup_worker q ctx s =
     (Inr (visible_heartbeat s (wv_worker_id q) (wv_scope q) (wv_visible_at q)), s)"

definition mem_list_visible_workers ::
    "visible_workers_query \<Rightarrow> execution_context \<Rightarrow> (mem_state, worker_heartbeat list) app_op" where
  "mem_list_visible_workers q ctx s =
     (Inr (take (vw_limit q)
        (sort_key (\<lambda>h. (- wh_recorded_at h, wh_worker_id h))
          (List.map_filter (\<lambda>h. visible_heartbeat s (wh_worker_id h) (wh_scope h) (vw_visible_at q))
            (filter (\<lambda>h. wh_scope h = vw_scope q) (hm_values (ms_heartbeats s)))))), s)"

definition with_optional_heartbeat ::
    "worker_dispatch_snapshot \<Rightarrow> worker_heartbeat option \<Rightarrow> worker_dispatch_snapshot" where
  "with_optional_heartbeat w h = (case h of None \<Rightarrow> w | Some h \<Rightarrow> ws_with_heartbeat w h)"

definition worker_snapshot ::
    "mem_state \<Rightarrow> string \<Rightarrow> string \<Rightarrow> system_time \<Rightarrow> worker_dispatch_snapshot" where
  "worker_snapshot s worker_id scope t =
     with_optional_heartbeat
       (ws_push_queue
         (ws_push_queue (ws_new worker_id scope t) (queue_snapshot_for_worker s Execution worker_id t))
         (queue_snapshot_for_worker s Outbox worker_id t))
       (snapshot_heartbeat s worker_id scope t)"

definition mem_lookup_worker_snapshot ::
    "worker_dispatch_snapshot_ref \<Rightarrow> execution_context
     \<Rightarrow> (mem_state, worker_dispatch_snapshot option) app_op" where
  "mem_lookup_worker_snapshot q ctx s =
     (let w = wr_worker_id q; scope = wr_scope q; t = wr_observed_at q;
          heartbeat = snapshot_heartbeat s w scope t;
          has_queue_activity =
            active_execution_leases_for_worker s w t > 0
          \<or> active_outbox_leases_for_worker s w t > 0
          \<or> stale_execution_claim_count_for_worker s w t > 0
          \<or> stale_outbox_claim_count_for_worker s w t > 0
          \<or> hm_get (ms_heartbeats s) (scope, w) \<noteq> None
      in if \<not> has_queue_activity \<and> heartbeat = None then (Inr None, s)
         else (Inr (Some (worker_snapshot s w scope t)), s))"

definition mem_list_worker_snapshots ::
    "worker_dispatch_snapshots_query \<Rightarrow> execution_context
     \<Rightarrow> (mem_state, worker_dispatch_snapshot list) app_op" where
  "mem_list_worker_snapshots q ctx s =
     (Inr (take (wq_limit q)
        (sort_key (\<lambda>w. (- ws_observed_at w, ws_worker_id w))
          (List.map_filter
            (\<lambda>worker_id.
               let snapshot = worker_snapshot s worker_id (wq_scope q) (wq_observed_at q)
               in if \<not> wq_include_expired_workers q \<and> ws_visibility snapshot = Expired
                  then None else Some snapshot)
            (worker_ids_for_scope s (wq_scope q))))), s)"

end
