(* ===== verification/Lease_Contracts.thy ===== *)
theory Lease_Contracts
  imports Dispatch_Core
begin

text \<open>
  The two contracts a leased work queue offers its workers, as locales. \<open>lease_batch\<close> is the batch
  claim: a loop over selected identifiers that draws one lease number per item and stops at the first
  refusal. \<open>leased_work\<close> is the resolution of claimed work: a resolution is accepted exactly from the
  holder of the current lease at the current revision. Both are interpreted on the in-memory store, the
  first for executions and for outbox messages, the second on the dispatch interface of both.
\<close>

section \<open>Lease numbers\<close>

fun lease_numbers :: "u64 \<Rightarrow> nat \<Rightarrow> u64 list" where
  "lease_numbers k 0 = []"
| "lease_numbers k (Suc n) = saturating_inc k # lease_numbers (saturating_inc k) n"

lemma length_lease_numbers [simp]: "length (lease_numbers k n) = n"
  by (induction k n rule: lease_numbers.induct) auto

lemma not_saturated: "unat (k :: u64) + Suc n < 2 ^ 64 \<Longrightarrow> k \<noteq> - 1"
proof
  assume "unat k + Suc n < 2 ^ 64" and "k = - 1"
  moreover have "unat (- 1 :: u64) = 2 ^ 64 - 1"
    by (simp add: unsigned_minus_1_eq_mask mask_eq_exp_minus_1)
  ultimately show False by simp
qed

lemma lease_numbers_gt:
  "unat k + n < 2 ^ 64 \<Longrightarrow> x \<in> set (lease_numbers k n) \<Longrightarrow> unat k < unat x \<and> unat x \<le> unat k + n"
proof (induction k n rule: lease_numbers.induct)
  case (2 k n)
  then have "k \<noteq> - 1" using not_saturated by blast
  then have s: "unat (saturating_inc k) = Suc (unat k)" by (simp add: unat_saturating_inc)
  show ?case
  proof (cases "x = saturating_inc k")
    case False
    with "2.prems" s have "unat (saturating_inc k) < unat x \<and> unat x \<le> unat (saturating_inc k) + n"
      by (intro "2.IH") auto
    with s show ?thesis by simp
  qed (simp add: s)
qed simp

lemma distinct_lease_numbers: "unat k + n < 2 ^ 64 \<Longrightarrow> distinct (lease_numbers k n)"
proof (induction k n rule: lease_numbers.induct)
  case (2 k n)
  then have "k \<noteq> - 1" using not_saturated by blast
  then have "unat (saturating_inc k) + n < 2 ^ 64"
    using "2.prems" by (simp add: unat_saturating_inc)
  with "2.IH" lease_numbers_gt [OF this] show ?case by fastforce
qed simp

section \<open>Claiming a batch\<close>

locale lease_batch =
  fixes loop :: "'i list \<Rightarrow> 'c list \<Rightarrow> 's \<Rightarrow> (app_error + 'c list) \<times> 's"
    and step :: "'i \<Rightarrow> 's \<Rightarrow> (app_error + 'c) \<times> 's"
    and lookup :: "'s \<Rightarrow> 'i \<Rightarrow> 'e option"
    and seq :: "'s \<Rightarrow> u64"
    and rest :: "'s \<Rightarrow> 'r"
    and grant :: "'e \<Rightarrow> u64 \<Rightarrow> 'c option"
    and after :: "'e \<Rightarrow> 'c \<Rightarrow> 'e"
  assumes loop_Nil: "loop [] acc s = (Inr acc, s)"
    and loop_Cons: "loop (i # is) acc s =
      (case step i s of (Inl err, s') \<Rightarrow> (Inl err, s') | (Inr c, s') \<Rightarrow> loop is (acc @ [c]) s')"
    and step_grants:
      "lookup s i = Some e \<Longrightarrow> grant e (saturating_inc (seq s)) = Some c \<Longrightarrow>
         \<exists>s'. step i s = (Inr c, s') \<and> lookup s' = (lookup s)(i \<mapsto> after e c)
            \<and> seq s' = saturating_inc (seq s) \<and> rest s' = rest s"
    and step_refuses:
      "\<not> (\<exists>e c. lookup s i = Some e \<and> grant e (saturating_inc (seq s)) = Some c) \<Longrightarrow>
         \<exists>err s'. step i s = (Inl err, s') \<and> lookup s' = lookup s \<and> rest s' = rest s"
begin

text \<open>What a finished batch means: the \<open>n\<close>-th item was granted the \<open>n\<close>-th new lease number.\<close>

definition granted :: "'s \<Rightarrow> 's \<Rightarrow> 'i \<times> u64 \<Rightarrow> 'c \<Rightarrow> bool" where
  "granted s s' = (\<lambda>(i, n) c. \<exists>e. lookup s i = Some e \<and> grant e n = Some c
                        \<and> lookup s' i = Some (after e c))"

lemma step_ok:
  assumes "step i s = (Inr c, s')"
  shows "\<exists>e. lookup s i = Some e \<and> grant e (saturating_inc (seq s)) = Some c
           \<and> lookup s' = (lookup s)(i \<mapsto> after e c)
           \<and> seq s' = saturating_inc (seq s) \<and> rest s' = rest s"
proof -
  from assms step_refuses [of s i] obtain e c' where e: "lookup s i = Some e"
    "grant e (saturating_inc (seq s)) = Some c'" by fastforce
  with assms step_grants [OF e] show ?thesis by auto
qed

lemma loop_ok:
  assumes "loop is acc s = (Inr r, s')" and "distinct is"
  shows "\<exists>cs. r = acc @ cs
           \<and> list_all2 (granted s s') (zip is (lease_numbers (seq s) (length is))) cs
           \<and> (\<forall>i. i \<notin> set is \<longrightarrow> lookup s' i = lookup s i) \<and> rest s' = rest s"
  using assms
proof (induction "is" arbitrary: acc s)
  case (Cons i "is")
  then obtain c s1 where st: "step i s = (Inr c, s1)" and lp: "loop is (acc @ [c]) s1 = (Inr r, s')"
    by (auto simp: loop_Cons split: prod.splits sum.splits)
  from step_ok [OF st] obtain e where e: "lookup s i = Some e"
    "grant e (saturating_inc (seq s)) = Some c" "lookup s1 = (lookup s)(i \<mapsto> after e c)"
    "seq s1 = saturating_inc (seq s)" "rest s1 = rest s" by blast
  from Cons.IH [OF lp] Cons.prems(2) obtain cs where cs: "r = (acc @ [c]) @ cs"
    "list_all2 (granted s1 s') (zip is (lease_numbers (seq s1) (length is))) cs"
    "\<forall>j. j \<notin> set is \<longrightarrow> lookup s' j = lookup s1 j" "rest s' = rest s1" by auto
  have "list_all2 (granted s s') (zip is (lease_numbers (seq s1) (length is))) cs"
    using cs(2)
  proof (rule list.rel_mono_strong)
    fix x c'
    assume "x \<in> set (zip is (lease_numbers (seq s1) (length is)))" and g: "granted s1 s' x c'"
    then have "fst x \<in> set is" by (metis prod.collapse set_zip_leftD)
    then have "fst x \<noteq> i" using Cons.prems(2) by auto
    with g e(3) show "granted s s' x c'" by (cases x) (simp add: granted_def)
  qed
  moreover have "granted s s' (i, saturating_inc (seq s)) c"
    using e cs(3) Cons.prems(2) by (auto simp: granted_def)
  ultimately show ?case using e cs by auto
qed (auto simp: loop_Nil)

lemma loop_succeeds:
  assumes "distinct is"
    and "\<And>i n. i \<in> set is \<Longrightarrow> \<exists>e c. lookup s i = Some e \<and> grant e n = Some c"
  shows "\<exists>cs s'. loop is acc s = (Inr (acc @ cs), s')"
  using assms
proof (induction "is" arbitrary: acc s)
  case (Cons i "is")
  from Cons.prems(2) [of i "saturating_inc (seq s)"] obtain e c where
    "lookup s i = Some e" "grant e (saturating_inc (seq s)) = Some c" by auto
  from step_grants [OF this] obtain s1 where s1: "step i s = (Inr c, s1)"
    "lookup s1 = (lookup s)(i \<mapsto> after e c)" by blast
  have "\<exists>cs s'. loop is (acc @ [c]) s1 = (Inr ((acc @ [c]) @ cs), s')"
  proof (rule Cons.IH)
    fix j n
    assume "j \<in> set is"
    then show "\<exists>e c. lookup s1 j = Some e \<and> grant e n = Some c"
      using Cons.prems s1(2) by (metis distinct.simps(2) fun_upd_other list.set_intros(2))
  qed (use Cons.prems in simp)
  then show ?case by (auto simp: loop_Cons s1(1))
qed (simp add: loop_Nil)

text \<open>A batch that fails has claimed a prefix of the items and nothing else.\<close>

lemma loop_fails:
  assumes "loop is acc s = (Inl err, s')"
  shows "rest s' = rest s \<and> (\<forall>i. i \<notin> set is \<longrightarrow> lookup s' i = lookup s i)"
  using assms
proof (induction "is" arbitrary: acc s)
  case (Cons i "is")
  show ?case
  proof (cases "step i s")
    case (Pair res s1)
    show ?thesis
    proof (cases res)
      case (Inl e)
      have "\<not> (\<exists>e c. lookup s i = Some e \<and> grant e (saturating_inc (seq s)) = Some c)"
        using Pair Inl step_grants by fastforce
      from step_refuses [OF this] Cons.prems Pair Inl show ?thesis by (auto simp: loop_Cons)
    next
      case (Inr c)
      with Cons Pair step_ok [of i s c s1] show ?thesis by (fastforce simp: loop_Cons)
    qed
  qed
qed (simp add: loop_Nil)

lemma loop_frame:
  assumes "distinct is" and "loop is acc s = (res, s')"
  shows "rest s' = rest s \<and> (\<forall>i. i \<notin> set is \<longrightarrow> lookup s' i = lookup s i)"
proof (cases res)
  case (Inl e)
  with assms(2) show ?thesis using loop_fails by blast
next
  case (Inr r)
  with assms(2) loop_ok [OF _ assms(1)] show ?thesis by blast
qed

end

section \<open>Resolving claimed work\<close>

locale leased_work =
  fixes lookup :: "'s \<Rightarrow> 'i \<Rightarrow> 'e option"
    and held :: "'e \<Rightarrow> lease_id option"
    and revision :: "'e \<Rightarrow> revision_token"
    and resolve :: "'q \<Rightarrow> 's \<Rightarrow> (app_error + unit) \<times> 's"
    and target :: "'q \<Rightarrow> 'i"
    and presented :: "'q \<Rightarrow> lease_id"
    and expected :: "'q \<Rightarrow> revision_token option"
    and outcome :: "'q \<Rightarrow> 'e \<Rightarrow> 'e"
  assumes resolve_accepts:
      "lookup s (target q) = Some e \<Longrightarrow> held e = Some (presented q)
         \<Longrightarrow> expected q \<in> {None, Some (revision e)}
         \<Longrightarrow> \<exists>s'. resolve q s = (Inr (), s') \<and> lookup s' = (lookup s)(target q \<mapsto> outcome q e)"
    and resolve_refuses:
      "\<not> (\<exists>e. lookup s (target q) = Some e \<and> held e = Some (presented q)
             \<and> expected q \<in> {None, Some (revision e)})
         \<Longrightarrow> \<exists>err. resolve q s = (Inl err, s)"
    and outcome_released: "held (outcome q e) = None"
begin

lemma accepted_iff:
  "(\<exists>s'. resolve q s = (Inr (), s')) \<longleftrightarrow>
     (\<exists>e. lookup s (target q) = Some e \<and> held e = Some (presented q)
        \<and> expected q \<in> {None, Some (revision e)})"
  using resolve_refuses [of s q] resolve_accepts [of s q] by fastforce

lemma resolve_result:
  assumes "resolve q s = (Inr (), s')"
  obtains e where "lookup s (target q) = Some e" and "held e = Some (presented q)"
    and "expected q \<in> {None, Some (revision e)}"
    and "lookup s' = (lookup s)(target q \<mapsto> outcome q e)"
  using assms accepted_iff [of q s] resolve_accepts [of s q] by fastforce

text \<open>A refused resolution changes nothing.\<close>

lemma refused_unchanged: "fst (resolve q s) = Inl err \<Longrightarrow> snd (resolve q s) = s"
  using resolve_accepts [of s q] resolve_refuses [of s q] by fastforce

text \<open>Work is resolved at most once per claim.\<close>

lemma resolved_once:
  assumes "resolve q s = (Inr (), s')" and "target q' = target q"
  shows "\<exists>err. resolve q' s' = (Inl err, s')"
proof (rule resolve_refuses)
  from assms(1) obtain e where "lookup s' = (lookup s)(target q \<mapsto> outcome q e)"
    by (rule resolve_result)
  then show "\<not> (\<exists>e. lookup s' (target q') = Some e \<and> held e = Some (presented q')
      \<and> expected q' \<in> {None, Some (revision e)})"
    using assms(2) by (auto simp: outcome_released)
qed

text \<open>A worker that presents another lease than the current one is fenced off.\<close>

lemma fenced:
  assumes "\<And>e. lookup s (target q) = Some e \<Longrightarrow> held e \<noteq> Some (presented q)"
  shows "\<exists>err. resolve q s = (Inl err, s)"
  by (rule resolve_refuses) (use assms in blast)

end

end
