(* ===== verification/Memory_Facts.thy ===== *)
theory Memory_Facts
  imports Memory_Store Lease_Contracts
begin

text \<open>
  Facts about the in-memory store shared by the theorems: lease identifiers are valid and fresh, the
  store's claim loops and resolutions satisfy the contracts of \<open>Lease_Contracts\<close>, selection is a
  sorted prefix of the due work, and the store invariant with its preservation by every method.
\<close>

section \<open>Lease identifiers\<close>

lemma lease_text_trim: "trim (lease_text n) = lease_text n"
proof -
  obtain p d where "hex_string (unat n) = p @ [hex_digit d]" and "d < 16"
    using hex_string_snoc by blast
  moreover have "plain_char CHR ''l''" by code_simp
  ultimately show ?thesis
    using trim_plain_word [of "CHR ''l''" "hex_digit d" "''ease_exec_mem_'' @ p"]
    by (simp add: lease_text_def hex_digit_plain)
qed

lemma lease_text_not_blank: "\<not> is_blank (lease_text n)"
  by (simp add: is_blank_def lease_text_trim) (simp add: lease_text_def)

lemma lease_text_inj [simp]: "lease_text m = lease_text n \<longleftrightarrow> m = n"
  by (simp add: lease_text_def hex_string_inj word_unat_eq_iff)

text \<open>The \<open>expect\<close> in \<open>LeaseId::new\<close> never fires.\<close>

lemma next_lease_id_eq:
  "next_lease_id s =
     (LeaseId (lease_text (saturating_inc (ms_next_lease_sequence s))),
      s\<lparr>ms_next_lease_sequence := saturating_inc (ms_next_lease_sequence s)\<rparr>)"
  by (simp add: next_lease_id_def Let_def lease_id_try_new_def id_try_new_def lease_text_trim)
     (simp add: lease_text_def)

section \<open>Field updates\<close>

lemma put_execution_simps [simp, hm_simps]:
  "ms_records (put_execution i e s) = hm_insert i e (ms_records s)"
  "ms_outbox (put_execution i e s) = ms_outbox s"
  "ms_heartbeats (put_execution i e s) = ms_heartbeats s"
  "ms_next_lease_sequence (put_execution i e s) = ms_next_lease_sequence s"
  by (simp_all add: put_execution_def)

lemma put_outbox_simps [simp, hm_simps]:
  "ms_outbox (put_outbox i e s) = hm_insert i e (ms_outbox s)"
  "ms_records (put_outbox i e s) = ms_records s"
  "ms_heartbeats (put_outbox i e s) = ms_heartbeats s"
  "ms_next_lease_sequence (put_outbox i e s) = ms_next_lease_sequence s"
  by (simp_all add: put_outbox_def)

lemma hm_get_insert_fun: "hm_get (hm_insert k v m) = (hm_get m)(k \<mapsto> v)"
  by (rule ext) simp

lemma require_revision_ok [simp]:
  "require_revision expected actual ctx code = Inr u \<longleftrightarrow> expected \<in> {None, Some actual}"
  by (auto simp: require_revision_def split: option.splits)

section \<open>The batch claims meet \<open>lease_batch\<close>\<close>

definition claim_one_execution ::
    "execution_lease_request \<Rightarrow> execution_context \<Rightarrow> execution_id \<Rightarrow> (mem_state, claimed_execution) app_op" where
  "claim_one_execution q ctx i s =
     (let (lease_id, s1) = next_lease_id s;
          lease = el_from_now lease_id (elr_leased_by q) (elr_lease_ttl q) (elr_now q)
      in case hm_get (ms_records s1) i of
           None \<Rightarrow> (Inl (execution_not_found i ctx), s1)
         | Some entry \<Rightarrow>
             (case ce_claim (sx_materialize_due_record entry (elr_now q)) lease of
                Inl e \<Rightarrow> (Inl e, s1)
              | Inr c \<Rightarrow>
                  (Inr c, put_execution i \<lparr>sx_record = ce_record c, sx_lease = Some lease\<rparr> s1)))"

definition grant_execution ::
    "execution_lease_request \<Rightarrow> stored_execution \<Rightarrow> u64 \<Rightarrow> claimed_execution option" where
  "grant_execution q e n =
     (case ce_claim (sx_materialize_due_record e (elr_now q))
             (el_from_now (LeaseId (lease_text n)) (elr_leased_by q) (elr_lease_ttl q) (elr_now q)) of
        Inl _ \<Rightarrow> None | Inr c \<Rightarrow> Some c)"

definition claim_one_message ::
    "outbox_delivery_lease_request \<Rightarrow> execution_context \<Rightarrow> correlation_id \<Rightarrow> outbox_message_id
     \<Rightarrow> (mem_state, claimed_outbox_delivery) app_op" where
  "claim_one_message q ctx gen i s =
     (let (lease_id, s1) = next_lease_id s;
          lease = ol_from_now lease_id (olr_leased_by q) (olr_lease_ttl q) (olr_now q)
      in case hm_get (ms_outbox s1) i of
           None \<Rightarrow> (Inl (message_not_found i ctx), s1)
         | Some entry \<Rightarrow>
             (case co_claim (so_materialize_due_message entry) lease gen of
                Inl e \<Rightarrow> (Inl e, s1)
              | Inr c \<Rightarrow>
                  (Inr c, put_outbox i
                     (entry\<lparr>so_message := co_message c, so_lease := Some lease,
                            so_status := OutboxInFlight\<rparr>) s1)))"

definition grant_message ::
    "outbox_delivery_lease_request \<Rightarrow> stored_outbox_message \<Rightarrow> u64 \<Rightarrow> claimed_outbox_delivery option" where
  "grant_message q e n =
     (case co_claim (so_materialize_due_message e)
             (ol_from_now (LeaseId (lease_text n)) (olr_leased_by q) (olr_lease_ttl q) (olr_now q))
             (CorrelationId []) of
        Inl _ \<Rightarrow> None | Inr c \<Rightarrow> Some c)"

lemma grant_execution_Some:
  "grant_execution q e n = Some c \<longleftrightarrow>
     \<not> is_blank (elr_leased_by q)
   \<and> er_available_at (sx_materialize_due_record e (elr_now q)) \<le> elr_now q
   \<and> er_status (sx_materialize_due_record e (elr_now q)) \<in> {Pending, Failed}
   \<and> c = \<lparr>ce_record = er_mark_claimed (sx_materialize_due_record e (elr_now q)) (elr_now q),
           ce_lease = el_from_now (LeaseId (lease_text n)) (elr_leased_by q) (elr_lease_ttl q)
                        (elr_now q)\<rparr>"
  by (auto simp: grant_execution_def ce_claim_ok_iff split: sum.splits)
     (auto simp: ce_claim_def split: if_splits execution_record_status.splits)

lemma grant_message_Some:
  "grant_message q e n = Some c \<longleftrightarrow>
     \<not> is_blank (olr_leased_by q) \<and> om_available_at (so_message e) \<le> olr_now q
   \<and> c = \<lparr>co_lease = ol_from_now (LeaseId (lease_text n)) (olr_leased_by q) (olr_lease_ttl q) (olr_now q),
           co_message = om_mark_claimed (so_message e)\<rparr>"
  by (auto simp: grant_message_def co_claim_def so_materialize_due_message_def split: sum.splits if_splits)

lemma co_claim_gen: "co_claim m l gen = Inr c \<longleftrightarrow> co_claim m l gen' = Inr c"
  by (simp add: co_claim_ok_iff)

interpretation ex_batch: lease_batch
  "claim_executions q ctx" "claim_one_execution q ctx" "\<lambda>s i. hm_get (ms_records s) i"
  ms_next_lease_sequence "\<lambda>s. (ms_outbox s, ms_heartbeats s)" "grant_execution q"
  "\<lambda>e c. \<lparr>sx_record = ce_record c, sx_lease = Some (ce_lease c)\<rparr>"
  for q ctx
proof unfold_locales
  fix s :: mem_state and i e c
  assume "hm_get (ms_records s) i = Some e"
    and "grant_execution q e (saturating_inc (ms_next_lease_sequence s)) = Some c"
  then show "\<exists>s'. claim_one_execution q ctx i s = (Inr c, s')
      \<and> (\<lambda>i. hm_get (ms_records s') i) =
          (\<lambda>i. hm_get (ms_records s) i)(i \<mapsto> \<lparr>sx_record = ce_record c, sx_lease = Some (ce_lease c)\<rparr>)
      \<and> ms_next_lease_sequence s' = saturating_inc (ms_next_lease_sequence s)
      \<and> (ms_outbox s', ms_heartbeats s') = (ms_outbox s, ms_heartbeats s)"
    by (auto simp: claim_one_execution_def next_lease_id_eq Let_def grant_execution_Some ce_claim_def
        hm_get_insert_fun)
next
  fix s :: mem_state and i
  assume "\<not> (\<exists>e c. hm_get (ms_records s) i = Some e
      \<and> grant_execution q e (saturating_inc (ms_next_lease_sequence s)) = Some c)"
  then show "\<exists>err s'. claim_one_execution q ctx i s = (Inl err, s')
      \<and> (\<lambda>i. hm_get (ms_records s') i) = (\<lambda>i. hm_get (ms_records s) i)
      \<and> (ms_outbox s', ms_heartbeats s') = (ms_outbox s, ms_heartbeats s)"
    by (auto simp: claim_one_execution_def next_lease_id_eq Let_def grant_execution_def
        split: sum.splits option.splits)
qed (auto simp: claim_one_execution_def Let_def split: prod.splits option.splits sum.splits)

interpretation ob_batch: lease_batch
  "lease_messages q ctx gen" "claim_one_message q ctx gen" "\<lambda>s i. hm_get (ms_outbox s) i"
  ms_next_lease_sequence "\<lambda>s. (ms_records s, ms_heartbeats s)" "grant_message q"
  "\<lambda>e c. e\<lparr>so_message := co_message c, so_lease := Some (co_lease c), so_status := OutboxInFlight\<rparr>"
  for q ctx gen
proof unfold_locales
  fix s :: mem_state and i e c
  assume "hm_get (ms_outbox s) i = Some e"
    and "grant_message q e (saturating_inc (ms_next_lease_sequence s)) = Some c"
  then show "\<exists>s'. claim_one_message q ctx gen i s = (Inr c, s')
      \<and> (\<lambda>i. hm_get (ms_outbox s') i) =
          (\<lambda>i. hm_get (ms_outbox s) i)
            (i \<mapsto> e\<lparr>so_message := co_message c, so_lease := Some (co_lease c),
                    so_status := OutboxInFlight\<rparr>)
      \<and> ms_next_lease_sequence s' = saturating_inc (ms_next_lease_sequence s)
      \<and> (ms_records s', ms_heartbeats s') = (ms_records s, ms_heartbeats s)"
    by (auto simp: claim_one_message_def next_lease_id_eq Let_def grant_message_Some co_claim_def
        so_materialize_due_message_def hm_get_insert_fun)
next
  fix s :: mem_state and i
  assume "\<not> (\<exists>e c. hm_get (ms_outbox s) i = Some e
      \<and> grant_message q e (saturating_inc (ms_next_lease_sequence s)) = Some c)"
  then show "\<exists>err s'. claim_one_message q ctx gen i s = (Inl err, s')
      \<and> (\<lambda>i. hm_get (ms_outbox s') i) = (\<lambda>i. hm_get (ms_outbox s) i)
      \<and> (ms_records s', ms_heartbeats s') = (ms_records s, ms_heartbeats s)"
    by (auto simp: claim_one_message_def next_lease_id_eq Let_def grant_message_Some co_claim_def
        so_materialize_due_message_def split: option.splits)
qed (auto simp: claim_one_message_def Let_def split: prod.splits option.splits sum.splits)

section \<open>Resolutions meet \<open>leased_work\<close>\<close>

text \<open>One view of both queues: a work identifier and the stored entry it names.\<close>

datatype work_id = ExecWork execution_id | OutboxWork outbox_message_id

datatype work_entry = ExecEntry stored_execution | OutboxEntry stored_outbox_message

fun work_lookup :: "mem_state \<Rightarrow> work_id \<Rightarrow> work_entry option" where
  "work_lookup s (ExecWork i) = map_option ExecEntry (hm_get (ms_records s) i)"
| "work_lookup s (OutboxWork i) = map_option OutboxEntry (hm_get (ms_outbox s) i)"

fun entry_lease :: "work_entry \<Rightarrow> dispatch_lease option" where
  "entry_lease (ExecEntry e) = map_option ExecutionLease (sx_lease e)"
| "entry_lease (OutboxEntry e) = map_option OutboxLease (so_lease e)"

fun entry_revision :: "work_entry \<Rightarrow> revision_token" where
  "entry_revision (ExecEntry e) = er_revision (sx_record e)"
| "entry_revision (OutboxEntry e) = om_revision (so_message e)"

definition work_lease :: "mem_state \<Rightarrow> work_id \<Rightarrow> dispatch_lease option" where
  "work_lease s w = Option.bind (work_lookup s w) entry_lease"

fun resolution_target :: "dispatch_resolution \<Rightarrow> work_id" where
  "resolution_target (ExecutionCompleted r q) = ExecWork (es_execution_id q)"
| "resolution_target (ExecutionRetried r q) = ExecWork (ey_execution_id q)"
| "resolution_target (ExecutionDeadLettered r q) = ExecWork (ed_execution_id q)"
| "resolution_target (OutboxCompleted m q) = OutboxWork (os_message_id q)"
| "resolution_target (OutboxRetried m q) = OutboxWork (oy_message_id q)"
| "resolution_target (OutboxDeadLetteredWork m q) = OutboxWork (od_message_id q)"

fun resolution_revision :: "dispatch_resolution \<Rightarrow> revision_token option" where
  "resolution_revision (ExecutionCompleted r q) = es_expected_revision q"
| "resolution_revision (ExecutionRetried r q) = ey_expected_revision q"
| "resolution_revision (ExecutionDeadLettered r q) = ed_expected_revision q"
| "resolution_revision (OutboxCompleted m q) = os_expected_revision q"
| "resolution_revision (OutboxRetried m q) = oy_expected_revision q"
| "resolution_revision (OutboxDeadLetteredWork m q) = od_expected_revision q"

text \<open>What an accepted resolution makes of the stored entry.\<close>

fun resolution_outcome :: "dispatch_resolution \<Rightarrow> work_entry \<Rightarrow> work_entry" where
  "resolution_outcome (ExecutionCompleted r q) (ExecEntry e) =
     ExecEntry \<lparr>sx_record = er_mark_succeeded (sx_record e) (es_finished_at q), sx_lease = None\<rparr>"
| "resolution_outcome (ExecutionRetried r q) (ExecEntry e) =
     ExecEntry \<lparr>sx_record = er_schedule_retry (sx_record e) (ey_attempted_at q)
                              (ey_next_available_at q) (ey_error q), sx_lease = None\<rparr>"
| "resolution_outcome (ExecutionDeadLettered r q) (ExecEntry e) =
     ExecEntry \<lparr>sx_record = er_mark_dead_lettered (sx_record e) (ed_dead_lettered_at q) (ed_error q),
                sx_lease = None\<rparr>"
| "resolution_outcome (OutboxCompleted m q) (OutboxEntry e) =
     OutboxEntry (e\<lparr>so_message := om_mark_attempted (so_message e) (os_delivered_at q) None,
                    so_status := OutboxDelivered, so_delivered_at := Some (os_delivered_at q),
                    so_last_error := None, so_lease := None\<rparr>)"
| "resolution_outcome (OutboxRetried m q) (OutboxEntry e) =
     OutboxEntry (e\<lparr>so_message := om_mark_attempted (so_message e) (oy_attempted_at q)
                                    (Some (oy_next_available_at q)),
                    so_status := OutboxPending, so_last_error := Some (oy_error q),
                    so_lease := None\<rparr>)"
| "resolution_outcome (OutboxDeadLetteredWork m q) (OutboxEntry e) =
     OutboxEntry (e\<lparr>so_message := om_mark_attempted (so_message e) (od_dead_lettered_at q) None,
                    so_status := OutboxDeadLettered,
                    so_dead_lettered_at := Some (od_dead_lettered_at q),
                    so_last_error := Some (od_error q), so_lease := None\<rparr>)"
| "resolution_outcome _ (ExecEntry e) = ExecEntry (e\<lparr>sx_lease := None\<rparr>)"
| "resolution_outcome _ (OutboxEntry e) = OutboxEntry (e\<lparr>so_lease := None\<rparr>)"

lemma work_lookup_put [simp]:
  "work_lookup (put_execution i e s) = (work_lookup s)(ExecWork i \<mapsto> ExecEntry e)"
  "work_lookup (put_outbox j m s) = (work_lookup s)(OutboxWork j \<mapsto> OutboxEntry m)"
  by (rule ext, case_tac x; simp)+

lemma work_lookup_Some:
  "work_lookup s (ExecWork i) = Some w \<longleftrightarrow> (\<exists>e. hm_get (ms_records s) i = Some e \<and> w = ExecEntry e)"
  "work_lookup s (OutboxWork j) = Some w \<longleftrightarrow> (\<exists>e. hm_get (ms_outbox s) j = Some e \<and> w = OutboxEntry e)"
  by auto

lemma resolve_execution_cases:
  obtains e where "hm_get (ms_records s) i = Some e"
      and "map_option el_lease_id (sx_lease e) = Some lid"
      and "expected \<in> {None, Some (er_revision (sx_record e))}"
      and "resolve_execution what noun i lid expected f ctx s =
             (Inr (), put_execution i \<lparr>sx_record = f (sx_record e), sx_lease = None\<rparr> s)"
  | err where "\<not> (\<exists>e. hm_get (ms_records s) i = Some e
                    \<and> map_option el_lease_id (sx_lease e) = Some lid
                    \<and> expected \<in> {None, Some (er_revision (sx_record e))})"
      and "resolve_execution what noun i lid expected f ctx s = (Inl err, s)"
  by (fastforce simp: resolve_execution_def require_revision_def split: option.splits if_splits)

lemma resolve_outbox_cases:
  obtains e where "hm_get (ms_outbox s) i = Some e"
      and "map_option ol_lease_id (so_lease e) = Some lid"
      and "expected \<in> {None, Some (om_revision (so_message e))}"
      and "resolve_outbox what noun i lid expected f ctx s =
             (Inr (), put_outbox i ((f e)\<lparr>so_lease := None\<rparr>) s)"
  | err where "\<not> (\<exists>e. hm_get (ms_outbox s) i = Some e
                    \<and> map_option ol_lease_id (so_lease e) = Some lid
                    \<and> expected \<in> {None, Some (om_revision (so_message e))})"
      and "resolve_outbox what noun i lid expected f ctx s = (Inl err, s)"
  by (fastforce simp: resolve_outbox_def require_revision_def split: option.splits if_splits)

lemmas mem_resolve_defs = mem_acknowledge_completion_def mem_retry_execution_def
  mem_dead_letter_execution_def mem_acknowledge_delivery_def mem_retry_delivery_def
  mem_dead_letter_delivery_def

lemma resolve_execution_iff:
  "resolve_execution what noun i lid expected f ctx s = (Inr (), s') \<longleftrightarrow>
     (\<exists>e. hm_get (ms_records s) i = Some e \<and> map_option el_lease_id (sx_lease e) = Some lid
        \<and> expected \<in> {None, Some (er_revision (sx_record e))}
        \<and> s' = put_execution i \<lparr>sx_record = f (sx_record e), sx_lease = None\<rparr> s)"
  by (rule resolve_execution_cases [of s i lid expected what noun f ctx]) auto

lemma resolve_outbox_iff:
  "resolve_outbox what noun i lid expected f ctx s = (Inr (), s') \<longleftrightarrow>
     (\<exists>e. hm_get (ms_outbox s) i = Some e \<and> map_option ol_lease_id (so_lease e) = Some lid
        \<and> expected \<in> {None, Some (om_revision (so_message e))}
        \<and> s' = put_outbox i ((f e)\<lparr>so_lease := None\<rparr>) s)"
  by (rule resolve_outbox_cases [of s i lid expected what noun f ctx]) auto

lemma resolve_execution_refused:
  assumes "\<And>e. hm_get (ms_records s) i = Some e \<Longrightarrow> map_option el_lease_id (sx_lease e) = Some lid
             \<Longrightarrow> expected \<in> {None, Some (er_revision (sx_record e))} \<Longrightarrow> False"
  shows "\<exists>err. resolve_execution what noun i lid expected f ctx s = (Inl err, s)"
  using assms by (rule_tac resolve_execution_cases [of s i lid expected what noun f ctx]) blast+

lemma resolve_outbox_refused:
  assumes "\<And>e. hm_get (ms_outbox s) i = Some e \<Longrightarrow> map_option ol_lease_id (so_lease e) = Some lid
             \<Longrightarrow> expected \<in> {None, Some (om_revision (so_message e))} \<Longrightarrow> False"
  shows "\<exists>err. resolve_outbox what noun i lid expected f ctx s = (Inl err, s)"
  using assms by (rule_tac resolve_outbox_cases [of s i lid expected what noun f ctx]) blast+

interpretation work: leased_work
  work_lookup "\<lambda>e. map_option dl_lease_id (entry_lease e)" entry_revision
  "\<lambda>res. mem_finalize res ctx" resolution_target dr_lease_id resolution_revision resolution_outcome
  for ctx
proof unfold_locales
  fix s res e
  assume "work_lookup s (resolution_target res) = Some e"
    and "map_option dl_lease_id (entry_lease e) = Some (dr_lease_id res)"
    and "resolution_revision res \<in> {None, Some (entry_revision e)}"
  then show "\<exists>s'. mem_finalize res ctx s = (Inr (), s')
      \<and> work_lookup s' = (work_lookup s)(resolution_target res \<mapsto> resolution_outcome res e)"
    by (cases res) (auto simp: mem_resolve_defs resolve_execution_iff resolve_outbox_iff)
next
  fix s res
  assume "\<not> (\<exists>e. work_lookup s (resolution_target res) = Some e
      \<and> map_option dl_lease_id (entry_lease e) = Some (dr_lease_id res)
      \<and> resolution_revision res \<in> {None, Some (entry_revision e)})"
  then show "\<exists>err. mem_finalize res ctx s = (Inl err, s)"
    by (cases res) (auto simp: mem_resolve_defs intro!: resolve_execution_refused resolve_outbox_refused)
next
  fix res e
  show "map_option dl_lease_id (entry_lease (resolution_outcome res e)) = None"
    by (cases res; cases e) simp_all
qed

end
