(* ===== verification/Memory_Invariant.thy ===== *)
theory Memory_Invariant
  imports Memory_Facts
begin

text \<open>
  The invariant of the in-memory store and its preservation by every method, as a step relation with
  one rule per mutating trait method and reachability from the empty store. Every entry is stored under
  its own identifier; only in-flight work is leased; lease owners are named; lease identifiers were
  issued by the store's counter and, until the 64-bit counter saturates, no two work items hold the
  same one; an outbox message is in flight exactly while it is leased, and delivered or dead-lettered
  exactly when the corresponding time is set.
\<close>

section \<open>The invariant\<close>

definition lease_issued :: "u64 \<Rightarrow> lease_id \<Rightarrow> bool" where
  "lease_issued seq l \<longleftrightarrow> (\<exists>k. 0 < k \<and> k \<le> seq \<and> l = LeaseId (lease_text k))"

definition lease_ok :: "u64 \<Rightarrow> dispatch_lease \<Rightarrow> bool" where
  "lease_ok seq l \<longleftrightarrow>
     \<not> is_blank (dl_leased_by l) \<and> dl_leased_at l \<le> dl_lease_expires_at l
   \<and> lease_issued seq (dl_lease_id l)"

fun entry_ok :: "work_id \<Rightarrow> work_entry \<Rightarrow> bool" where
  "entry_ok (ExecWork i) (ExecEntry e) \<longleftrightarrow>
     er_id (sx_record e) = i \<and> (sx_lease e \<noteq> None \<longrightarrow> er_status (sx_record e) = InFlight)"
| "entry_ok (OutboxWork i) (OutboxEntry e) \<longleftrightarrow>
     om_id (so_message e) = i
   \<and> (so_status e = OutboxInFlight \<longleftrightarrow> so_lease e \<noteq> None)
   \<and> (so_status e = OutboxDelivered \<longleftrightarrow> so_delivered_at e \<noteq> None)
   \<and> (so_status e = OutboxDeadLettered \<longleftrightarrow> so_dead_lettered_at e \<noteq> None)"
| "entry_ok _ _ \<longleftrightarrow> False"

definition leases_distinct :: "mem_state \<Rightarrow> bool" where
  "leases_distinct s \<longleftrightarrow>
     (\<forall>w w' l l'. work_lease s w = Some l \<longrightarrow> work_lease s w' = Some l'
        \<longrightarrow> dl_lease_id l = dl_lease_id l' \<longrightarrow> w = w')"

definition mem_inv :: "mem_state \<Rightarrow> bool" where
  "mem_inv s \<longleftrightarrow>
     hm_wf (ms_records s) \<and> hm_wf (ms_outbox s) \<and> hm_wf (ms_heartbeats s)
   \<and> (\<forall>w e. work_lookup s w = Some e \<longrightarrow> entry_ok w e)
   \<and> (\<forall>w l. work_lease s w = Some l \<longrightarrow> lease_ok (ms_next_lease_sequence s) l)
   \<and> (\<forall>k h. hm_get (ms_heartbeats s) k = Some h \<longrightarrow>
        k = (wh_scope h, wh_worker_id h) \<and> wh_recorded_at h \<le> wh_visible_until h)
   \<and> (ms_next_lease_sequence s \<noteq> - 1 \<longrightarrow> leases_distinct s)"

lemma work_lease_put [simp]:
  "work_lease (put_execution i e s) =
     (work_lease s)(ExecWork i := map_option ExecutionLease (sx_lease e))"
  "work_lease (put_outbox j m s) =
     (work_lease s)(OutboxWork j := map_option OutboxLease (so_lease m))"
  by (auto simp: work_lease_def)

lemma mem_inv_new: "mem_inv mem_new"
proof -
  have "work_lookup mem_new w = None" for w by (cases w) (simp_all add: mem_new_def)
  then show ?thesis by (simp add: mem_inv_def work_lease_def leases_distinct_def)
    (simp add: mem_new_def)
qed

lemma leases_distinctD:
  "leases_distinct s \<Longrightarrow> work_lease s w = Some l \<Longrightarrow> work_lease s w' = Some l'
     \<Longrightarrow> dl_lease_id l = dl_lease_id l' \<Longrightarrow> w = w'"
  unfolding leases_distinct_def by blast

lemma leases_distinct_upd:
  assumes "leases_distinct s" and s': "work_lease s' = (work_lease s)(w := x)"
    and new: "\<And>l w' l'. x = Some l \<Longrightarrow> w' \<noteq> w \<Longrightarrow> work_lease s w' = Some l'
                \<Longrightarrow> dl_lease_id l' \<noteq> dl_lease_id l"
  shows "leases_distinct s'"
  unfolding leases_distinct_def
proof (intro allI impI)
  fix u u' l l'
  assume ul: "work_lease s' u = Some l" "work_lease s' u' = Some l'" "dl_lease_id l = dl_lease_id l'"
  show "u = u'"
  proof (cases "u = w \<or> u' = w")
    case True
    with ul new [of l u' l'] new [of l' u l] s' show ?thesis by (auto split: if_splits)
  next
    case False
    with ul s' leases_distinctD [OF assms(1), of u l u' l'] show ?thesis by simp
  qed
qed

text \<open>Replacing one entry keeps the invariant when the new entry is sound and brings no foreign lease.\<close>

lemma mem_inv_put:
  assumes inv: "mem_inv s"
    and maps: "hm_wf (ms_records s')" "hm_wf (ms_outbox s')" "ms_heartbeats s' = ms_heartbeats s"
      "ms_next_lease_sequence s' = ms_next_lease_sequence s"
    and lk: "work_lookup s' = (work_lookup s)(w \<mapsto> e)"
    and ok: "entry_ok w e"
    and lease: "\<And>l. entry_lease e = Some l \<Longrightarrow> lease_ok (ms_next_lease_sequence s) l"
    and new: "\<And>l w' l'. entry_lease e = Some l \<Longrightarrow> ms_next_lease_sequence s \<noteq> - 1 \<Longrightarrow> w' \<noteq> w
                \<Longrightarrow> work_lease s w' = Some l' \<Longrightarrow> dl_lease_id l' \<noteq> dl_lease_id l"
  shows "mem_inv s'"
proof -
  have wl: "work_lease s' = (work_lease s)(w := entry_lease e)"
    using lk by (auto simp: work_lease_def)
  have "ms_next_lease_sequence s \<noteq> - 1 \<Longrightarrow> leases_distinct s'"
    using inv leases_distinct_upd [OF _ wl] new by (simp add: mem_inv_def)
  moreover have "\<forall>u l. work_lease s' u = Some l \<longrightarrow> lease_ok (ms_next_lease_sequence s) l"
    using inv lease by (simp add: wl mem_inv_def)
  ultimately show ?thesis
    using inv maps ok by (simp add: mem_inv_def lk)
qed

lemma mem_inv_entry:
  assumes "mem_inv s" and "work_lookup s w = Some e"
  shows "entry_ok w e"
    and "entry_lease e = Some l \<Longrightarrow> lease_ok (ms_next_lease_sequence s) l"
    and "entry_lease e = Some l \<Longrightarrow> ms_next_lease_sequence s \<noteq> - 1 \<Longrightarrow> w' \<noteq> w
           \<Longrightarrow> work_lease s w' = Some l' \<Longrightarrow> dl_lease_id l' \<noteq> dl_lease_id l"
proof -
  have wl: "work_lease s w = entry_lease e" using assms(2) by (simp add: work_lease_def)
  show "entry_ok w e" using assms by (simp add: mem_inv_def)
  show "lease_ok (ms_next_lease_sequence s) l" if "entry_lease e = Some l"
    using assms(1) that by (simp add: mem_inv_def wl [symmetric])
  show "dl_lease_id l' \<noteq> dl_lease_id l" if "entry_lease e = Some l" "ms_next_lease_sequence s \<noteq> - 1"
    "w' \<noteq> w" "work_lease s w' = Some l'"
    using assms(1) that wl leases_distinctD [of s w' l' w l] by (auto simp: mem_inv_def)
qed

lemma mem_inv_put_execution:
  assumes "mem_inv s" and "entry_ok (ExecWork i) (ExecEntry e)"
    and "\<And>l. sx_lease e = Some l \<Longrightarrow> lease_ok (ms_next_lease_sequence s) (ExecutionLease l)"
    and "\<And>l w l'. sx_lease e = Some l \<Longrightarrow> ms_next_lease_sequence s \<noteq> - 1 \<Longrightarrow> w \<noteq> ExecWork i
           \<Longrightarrow> work_lease s w = Some l' \<Longrightarrow> dl_lease_id l' \<noteq> el_lease_id l"
  shows "mem_inv (put_execution i e s)"
  by (rule mem_inv_put [OF assms(1), where w = "ExecWork i" and e = "ExecEntry e"])
     (use assms in \<open>auto simp: mem_inv_def\<close>)

lemma mem_inv_put_outbox:
  assumes "mem_inv s" and "entry_ok (OutboxWork i) (OutboxEntry e)"
    and "\<And>l. so_lease e = Some l \<Longrightarrow> lease_ok (ms_next_lease_sequence s) (OutboxLease l)"
    and "\<And>l w l'. so_lease e = Some l \<Longrightarrow> ms_next_lease_sequence s \<noteq> - 1 \<Longrightarrow> w \<noteq> OutboxWork i
           \<Longrightarrow> work_lease s w = Some l' \<Longrightarrow> dl_lease_id l' \<noteq> ol_lease_id l"
  shows "mem_inv (put_outbox i e s)"
  by (rule mem_inv_put [OF assms(1), where w = "OutboxWork i" and e = "OutboxEntry e"])
     (use assms in \<open>auto simp: mem_inv_def\<close>)

lemma mem_inv_execution:
  assumes "mem_inv s" and "hm_get (ms_records s) i = Some e"
  shows "entry_ok (ExecWork i) (ExecEntry e)"
    and "sx_lease e = Some l \<Longrightarrow> lease_ok (ms_next_lease_sequence s) (ExecutionLease l)"
    and "sx_lease e = Some l \<Longrightarrow> ms_next_lease_sequence s \<noteq> - 1 \<Longrightarrow> w \<noteq> ExecWork i
           \<Longrightarrow> work_lease s w = Some l' \<Longrightarrow> dl_lease_id l' \<noteq> el_lease_id l"
proof -
  have lk: "work_lookup s (ExecWork i) = Some (ExecEntry e)" using assms(2) by simp
  note facts = mem_inv_entry [OF assms(1) lk]
  show "entry_ok (ExecWork i) (ExecEntry e)" by (rule facts(1))
  show "lease_ok (ms_next_lease_sequence s) (ExecutionLease l)" if "sx_lease e = Some l"
    using facts(2) that by simp
  show "dl_lease_id l' \<noteq> el_lease_id l" if "sx_lease e = Some l" "ms_next_lease_sequence s \<noteq> - 1"
    "w \<noteq> ExecWork i" "work_lease s w = Some l'"
    using facts(3) [of "ExecutionLease l" w l'] that by simp
qed

lemma mem_inv_outbox:
  assumes "mem_inv s" and "hm_get (ms_outbox s) i = Some e"
  shows "entry_ok (OutboxWork i) (OutboxEntry e)"
    and "so_lease e = Some l \<Longrightarrow> lease_ok (ms_next_lease_sequence s) (OutboxLease l)"
    and "so_lease e = Some l \<Longrightarrow> ms_next_lease_sequence s \<noteq> - 1 \<Longrightarrow> w \<noteq> OutboxWork i
           \<Longrightarrow> work_lease s w = Some l' \<Longrightarrow> dl_lease_id l' \<noteq> ol_lease_id l"
proof -
  have lk: "work_lookup s (OutboxWork i) = Some (OutboxEntry e)" using assms(2) by simp
  note facts = mem_inv_entry [OF assms(1) lk]
  show "entry_ok (OutboxWork i) (OutboxEntry e)" by (rule facts(1))
  show "lease_ok (ms_next_lease_sequence s) (OutboxLease l)" if "so_lease e = Some l"
    using facts(2) that by simp
  show "dl_lease_id l' \<noteq> ol_lease_id l" if "so_lease e = Some l" "ms_next_lease_sequence s \<noteq> - 1"
    "w \<noteq> OutboxWork i" "work_lease s w = Some l'"
    using facts(3) [of "OutboxLease l" w l'] that by simp
qed

section \<open>Drawing a lease\<close>

lemma lease_issued_mono: "lease_issued n l \<Longrightarrow> lease_issued (saturating_inc n) l"
  unfolding lease_issued_def using saturating_inc_mono order_trans by blast

lemma lease_issued_new: "lease_issued (saturating_inc n) (LeaseId (lease_text (saturating_inc n)))"
proof -
  have "0 < unat (saturating_inc n)"
    by (cases "n = - 1") (auto simp: unat_saturating_inc unat_gt_0)
  then show ?thesis by (auto simp: lease_issued_def word_less_nat_alt)
qed

lemma lease_issued_fresh:
  assumes "saturating_inc n \<noteq> - 1" and "lease_issued n l"
  shows "l \<noteq> LeaseId (lease_text (saturating_inc n))"
proof -
  from assms(1) have "n \<noteq> - 1" by (auto simp: saturating_inc_def)
  then have "unat (saturating_inc n) = Suc (unat n)" by (simp add: unat_saturating_inc)
  with assms(2) show ?thesis by (auto simp: lease_issued_def word_le_nat_alt)
qed

lemma work_lookup_seq [simp]:
  "work_lookup (s\<lparr>ms_next_lease_sequence := n\<rparr>) = work_lookup s"
  "work_lease (s\<lparr>ms_next_lease_sequence := n\<rparr>) = work_lease s"
proof -
  show "work_lookup (s\<lparr>ms_next_lease_sequence := n\<rparr>) = work_lookup s"
    by (rule ext, case_tac x) simp_all
  then show "work_lease (s\<lparr>ms_next_lease_sequence := n\<rparr>) = work_lease s"
    by (simp add: work_lease_def fun_eq_iff)
qed

lemma mem_inv_next_lease:
  assumes "mem_inv s"
  shows "mem_inv (s\<lparr>ms_next_lease_sequence := saturating_inc (ms_next_lease_sequence s)\<rparr>)"
  using assms unfolding mem_inv_def leases_distinct_def
  by (auto simp: lease_ok_def intro: lease_issued_mono) (auto simp: saturating_inc_def split: if_splits)

lemma fresh_lease:
  assumes "mem_inv s" and "saturating_inc (ms_next_lease_sequence s) \<noteq> - 1"
    and "work_lease s w = Some l"
  shows "dl_lease_id l \<noteq> LeaseId (lease_text (saturating_inc (ms_next_lease_sequence s)))"
  using assms by (intro lease_issued_fresh) (auto simp: mem_inv_def lease_ok_def)

section \<open>Every method preserves the invariant\<close>

lemma claim_one_execution_inv:
  assumes inv: "mem_inv s"
  shows "mem_inv (snd (claim_one_execution q ctx i s))"
proof -
  let ?n = "saturating_inc (ms_next_lease_sequence s)"
  let ?s1 = "s\<lparr>ms_next_lease_sequence := ?n\<rparr>"
  let ?l = "el_from_now (LeaseId (lease_text ?n)) (elr_leased_by q) (elr_lease_ttl q) (elr_now q)"
  have inv1: "mem_inv ?s1" by (rule mem_inv_next_lease [OF inv])
  have "mem_inv (put_execution i \<lparr>sx_record = ce_record c, sx_lease = Some ?l\<rparr> ?s1)"
    if e: "hm_get (ms_records s) i = Some e"
      and c: "ce_claim (sx_materialize_due_record e (elr_now q)) ?l = Inr c" for e c
  proof (rule mem_inv_put_execution [OF inv1])
    show "entry_ok (ExecWork i) (ExecEntry \<lparr>sx_record = ce_record c, sx_lease = Some ?l\<rparr>)"
      using mem_inv_execution(1) [OF inv e] c
      by (auto simp: ce_claim_ok_iff sx_materialize_due_record_def er_with_status_def split: option.splits)
    show "lease_ok (ms_next_lease_sequence ?s1) (ExecutionLease l)"
      if "sx_lease \<lparr>sx_record = ce_record c, sx_lease = Some ?l\<rparr> = Some l" for l
      using that c by (auto simp: lease_ok_def ce_claim_ok_iff lease_issued_new)
    show "dl_lease_id l' \<noteq> el_lease_id l"
      if "sx_lease \<lparr>sx_record = ce_record c, sx_lease = Some ?l\<rparr> = Some l"
        and "ms_next_lease_sequence ?s1 \<noteq> - 1" and "work_lease ?s1 w = Some l'" for l w l'
      using that fresh_lease [OF inv] by auto
  qed
  with inv1 show ?thesis
    by (auto simp: claim_one_execution_def next_lease_id_eq Let_def split: option.splits sum.splits)
qed

lemma claim_one_message_inv:
  assumes inv: "mem_inv s" and due: "\<And>e. hm_get (ms_outbox s) i = Some e
      \<Longrightarrow> so_status e \<in> {OutboxPending, OutboxInFlight}"
  shows "mem_inv (snd (claim_one_message q ctx gen i s))"
proof -
  let ?n = "saturating_inc (ms_next_lease_sequence s)"
  let ?s1 = "s\<lparr>ms_next_lease_sequence := ?n\<rparr>"
  let ?l = "ol_from_now (LeaseId (lease_text ?n)) (olr_leased_by q) (olr_lease_ttl q) (olr_now q)"
  let ?e = "\<lambda>e c. e\<lparr>so_message := co_message c, so_lease := Some ?l, so_status := OutboxInFlight\<rparr>"
  have inv1: "mem_inv ?s1" by (rule mem_inv_next_lease [OF inv])
  have "mem_inv (put_outbox i (?e e c) ?s1)"
    if e: "hm_get (ms_outbox s) i = Some e"
      and c: "co_claim (so_materialize_due_message e) ?l gen = Inr c" for e c
  proof (rule mem_inv_put_outbox [OF inv1])
    show "entry_ok (OutboxWork i) (OutboxEntry (?e e c))"
      using mem_inv_outbox(1) [OF inv e] c due [OF e]
      by (auto simp: co_claim_ok_iff so_materialize_due_message_def)
    show "lease_ok (ms_next_lease_sequence ?s1) (OutboxLease l)" if "so_lease (?e e c) = Some l" for l
      using that c by (auto simp: lease_ok_def co_claim_ok_iff lease_issued_new)
    show "dl_lease_id l' \<noteq> ol_lease_id l"
      if "so_lease (?e e c) = Some l" and "ms_next_lease_sequence ?s1 \<noteq> - 1"
        and "work_lease ?s1 w = Some l'" for l w l'
      using that fresh_lease [OF inv] by auto
  qed
  with inv1 show ?thesis
    by (auto simp: claim_one_message_def next_lease_id_eq Let_def split: option.splits sum.splits)
qed

lemma claim_executions_inv: "mem_inv s \<Longrightarrow> mem_inv (snd (claim_executions q ctx is acc s))"
proof (induction "is" arbitrary: acc s)
  case (Cons i "is")
  from claim_one_execution_inv [OF Cons.prems, of q ctx i] show ?case
    unfolding ex_batch.loop_Cons by (auto split: prod.splits sum.splits intro: Cons.IH)
qed simp

lemma lease_messages_inv:
  assumes "mem_inv s" and "distinct is"
    and "\<And>i e. i \<in> set is \<Longrightarrow> hm_get (ms_outbox s) i = Some e
           \<Longrightarrow> so_status e \<in> {OutboxPending, OutboxInFlight}"
  shows "mem_inv (snd (lease_messages q ctx gen is acc s))"
  using assms
proof (induction "is" arbitrary: acc s)
  case (Cons i "is")
  obtain res s1 where st: "claim_one_message q ctx gen i s = (res, s1)" by fastforce
  have inv1: "mem_inv s1"
    using claim_one_message_inv [of s i q ctx gen] Cons.prems st by auto
  show ?case
  proof (cases res)
    case (Inr c)
    from ob_batch.step_ok [OF st [unfolded Inr]]
    have "j \<noteq> i \<Longrightarrow> hm_get (ms_outbox s1) j = hm_get (ms_outbox s) j" for j
      by (auto simp: fun_eq_iff)
    then have "so_status e \<in> {OutboxPending, OutboxInFlight}"
      if "j \<in> set is" "hm_get (ms_outbox s1) j = Some e" for j e
      using that Cons.prems(2) Cons.prems(3) [of j e] by (cases "j = i") auto
    with Cons.prems inv1 have "mem_inv (snd (lease_messages q ctx gen is (acc @ [c]) s1))"
      by (intro Cons.IH) auto
    then show ?thesis unfolding ob_batch.loop_Cons by (simp add: st Inr)
  qed (unfold ob_batch.loop_Cons, simp add: st inv1)
qed simp

section \<open>Selection\<close>

lemma selectable_due_messages_subset:
  assumes "mem_inv s" and "m \<in> set (selectable_due_messages s q)"
  obtains e where "hm_get (ms_outbox s) (om_id m) = Some e" and "so_message e = m"
    and "so_is_due_at e (dor_due_before q) (dor_include_expired_leases q)"
proof -
  from assms(2) take_sort_subset obtain i e where "(i, e) \<in> set (ms_outbox s)" and m: "so_message e = m"
    and "so_is_due_at e (dor_due_before q) (dor_include_expired_leases q)"
    unfolding selectable_due_messages_def so_materialize_due_message_def by fastforce
  moreover from this have g: "hm_get (ms_outbox s) i = Some e"
    using assms(1) by (simp add: mem_inv_def hm_get_iff)
  moreover have "i = om_id m" using mem_inv_outbox(1) [OF assms(1) g] m by simp
  ultimately show ?thesis using that by blast
qed

lemma materialize_id [simp]:
  "er_id (sx_materialize_due_record e t) = er_id (sx_record e)"
  "er_available_at (sx_materialize_due_record e t) = er_available_at (sx_record e)"
  "er_attempt (sx_materialize_due_record e t) = er_attempt (sx_record e)"
  "er_recorded_at (sx_materialize_due_record e t) = er_recorded_at (sx_record e)"
  "er_revision (sx_materialize_due_record e t) = er_revision (sx_record e)"
  by (simp_all add: sx_materialize_due_record_def er_with_status_def split: option.split)

lemma selectable_due_records_subset:
  assumes "mem_inv s" and "r \<in> set (selectable_due_records s q)"
  obtains e where "hm_get (ms_records s) (er_id r) = Some e"
    and "r = sx_materialize_due_record e (der_due_before q)"
    and "sx_is_due_at e (der_due_before q) (der_include_expired_leases q)"
proof -
  from assms(2) take_sort_subset obtain i e where "(i, e) \<in> set (ms_records s)"
    and m: "r = sx_materialize_due_record e (der_due_before q)"
    and "sx_is_due_at e (der_due_before q) (der_include_expired_leases q)"
    unfolding selectable_due_records_def by fastforce
  moreover from this have g: "hm_get (ms_records s) i = Some e"
    using assms(1) by (simp add: mem_inv_def hm_get_iff)
  moreover have "i = er_id r" using mem_inv_execution(1) [OF assms(1) g] m by simp
  ultimately show ?thesis using that by blast
qed

lemma record_keys:
  assumes "mem_inv s"
  shows "map (er_id \<circ> sx_record) (hm_values (ms_records s)) = map fst (ms_records s)"
    and "map (om_id \<circ> so_message) (hm_values (ms_outbox s)) = map fst (ms_outbox s)"
proof -
  have "er_id (sx_record e) = i" if "(i, e) \<in> set (ms_records s)" for i e
    using mem_inv_execution(1) [OF assms, of i e] that assms by (simp add: mem_inv_def hm_get_iff)
  then show "map (er_id \<circ> sx_record) (hm_values (ms_records s)) = map fst (ms_records s)" by auto
  have "om_id (so_message e) = i" if "(i, e) \<in> set (ms_outbox s)" for i e
    using mem_inv_outbox(1) [OF assms, of i e] that assms by (simp add: mem_inv_def hm_get_iff)
  then show "map (om_id \<circ> so_message) (hm_values (ms_outbox s)) = map fst (ms_outbox s)" by auto
qed

lemma distinct_take_sort:
  assumes "distinct (map f xs)"
  shows "distinct (map f (take n (sort_key g xs)))"
proof -
  have "distinct (map f (sort_key g xs))"
    using assms by (simp add: distinct_map)
  then show ?thesis by (simp add: take_map [symmetric])
qed

lemma selectable_distinct:
  assumes "mem_inv s"
  shows "distinct (map er_id (selectable_due_records s q))"
    and "distinct (map om_id (selectable_due_messages s q'))"
proof -
  have "distinct (map (er_id \<circ> sx_record) (hm_values (ms_records s)))"
    and "distinct (map (om_id \<circ> so_message) (hm_values (ms_outbox s)))"
    using assms record_keys [OF assms] by (simp_all add: mem_inv_def hm_wf_def del: map_map)
  then show "distinct (map er_id (selectable_due_records s q))"
    "distinct (map om_id (selectable_due_messages s q'))"
    unfolding selectable_due_records_def selectable_due_messages_def so_materialize_due_message_def
    by (intro distinct_take_sort; simp add: distinct_map_filter comp_def)+
qed

lemma find_claimable_facts:
  assumes "mem_inv s"
  shows "distinct (find_claimable_ids s q)" and "distinct (find_claimable_message_ids s q')"
    and "i \<in> set (find_claimable_ids s q) \<Longrightarrow>
           \<exists>e. hm_get (ms_records s) i = Some e \<and> sx_is_due_at e (elr_now q) True"
    and "j \<in> set (find_claimable_message_ids s q') \<Longrightarrow>
           \<exists>e. hm_get (ms_outbox s) j = Some e \<and> so_is_due_at e (olr_now q') True"
  using selectable_distinct [OF assms]
  by (auto simp: find_claimable_ids_def find_claimable_message_ids_def Let_def
      der_at_def der_with_expired_leases_def dor_at_def dor_with_expired_leases_def
      elim!: selectable_due_records_subset [OF assms] selectable_due_messages_subset [OF assms])

lemma so_is_due_status:
  "so_is_due_at e t b \<Longrightarrow> so_status e \<in> {OutboxPending, OutboxInFlight}"
  by (auto simp: so_is_due_at_def split: if_splits)

lemma mem_lease_available_inv:
  assumes "mem_inv s"
  shows "mem_inv (snd (mem_lease_available q ctx gen s))"
  unfolding mem_lease_available_def
proof (rule lease_messages_inv [OF assms])
  show "distinct (find_claimable_message_ids s q)" by (rule find_claimable_facts [OF assms])
  show "so_status e \<in> {OutboxPending, OutboxInFlight}"
    if "i \<in> set (find_claimable_message_ids s q)" "hm_get (ms_outbox s) i = Some e" for i e
    using find_claimable_facts(4) [OF assms that(1)] that(2) so_is_due_status by fastforce
qed

lemma resolve_execution_inv:
  assumes "mem_inv s" and "\<And>r. er_id (f r) = er_id r"
  shows "mem_inv (snd (resolve_execution what noun i lid expected f ctx s))"
proof (rule resolve_execution_cases [of s i lid expected what noun f ctx])
  fix e
  assume e: "hm_get (ms_records s) i = Some e" and
    eq: "resolve_execution what noun i lid expected f ctx s =
      (Inr (), put_execution i \<lparr>sx_record = f (sx_record e), sx_lease = None\<rparr> s)"
  show ?thesis
    unfolding eq snd_conv
    by (rule mem_inv_put_execution [OF assms(1)]) (use mem_inv_execution [OF assms(1) e] assms(2) in auto)
qed (use assms in simp)

lemma resolve_outbox_inv:
  assumes "mem_inv s"
    and "\<And>e. so_lease e \<noteq> None \<Longrightarrow> entry_ok (OutboxWork i) (OutboxEntry e)
           \<Longrightarrow> entry_ok (OutboxWork i) (OutboxEntry ((f e)\<lparr>so_lease := None\<rparr>))"
  shows "mem_inv (snd (resolve_outbox what noun i lid expected f ctx s))"
proof (rule resolve_outbox_cases [of s i lid expected what noun f ctx])
  fix e
  assume e: "hm_get (ms_outbox s) i = Some e" and l: "map_option ol_lease_id (so_lease e) = Some lid"
    and eq: "resolve_outbox what noun i lid expected f ctx s =
      (Inr (), put_outbox i ((f e)\<lparr>so_lease := None\<rparr>) s)"
  have ok: "entry_ok (OutboxWork i) (OutboxEntry ((f e)\<lparr>so_lease := None\<rparr>))"
    using l by (intro assms(2) mem_inv_outbox(1) [OF assms(1) e]) auto
  show ?thesis
    unfolding eq snd_conv by (rule mem_inv_put_outbox [OF assms(1) ok]) simp_all
qed (use assms in simp)

lemma mem_finalize_inv: "mem_inv s \<Longrightarrow> mem_inv (snd (mem_finalize res ctx s))"
  by (cases res)
     (auto simp: mem_resolve_defs er_transition_defs
       intro!: resolve_execution_inv resolve_outbox_inv)

lemma eln_renewed_lease_simps [simp]:
  "el_lease_id (eln_renewed_lease q) = eln_lease_id q"
  "el_leased_by (eln_renewed_lease q) = eln_leased_by q"
  "el_leased_at (eln_renewed_lease q) \<le> el_lease_expires_at (eln_renewed_lease q)"
  "ol_lease_id (oln_renewed_lease q') = oln_lease_id q'"
  "ol_leased_by (oln_renewed_lease q') = oln_leased_by q'"
  "ol_leased_at (oln_renewed_lease q') \<le> ol_lease_expires_at (oln_renewed_lease q')"
  by (simp_all add: eln_renewed_lease_def oln_renewed_lease_def)

lemma mem_renew_execution_iff:
  "mem_renew_execution_lease q ctx s = (Inr l', s') \<longleftrightarrow>
     \<not> is_blank (eln_leased_by q) \<and> eln_lease_ttl q \<noteq> 0
   \<and> (\<exists>e l. hm_get (ms_records s) (eln_execution_id q) = Some e \<and> sx_lease e = Some l
        \<and> el_lease_id l = eln_lease_id q \<and> el_leased_by l = eln_leased_by q
        \<and> \<not> el_is_expired_at l (eln_renewed_at q) \<and> l' = eln_renewed_lease q
        \<and> s' = put_execution (eln_execution_id q) (e\<lparr>sx_lease := Some l'\<rparr>) s)"
  by (auto simp: mem_renew_execution_lease_def eln_validate_def split: option.splits)

lemma mem_renew_outbox_iff:
  "mem_renew_outbox_lease q ctx s = (Inr l', s') \<longleftrightarrow>
     \<not> is_blank (oln_leased_by q) \<and> oln_lease_ttl q \<noteq> 0
   \<and> (\<exists>e l. hm_get (ms_outbox s) (oln_message_id q) = Some e \<and> so_lease e = Some l
        \<and> ol_lease_id l = oln_lease_id q \<and> ol_leased_by l = oln_leased_by q
        \<and> \<not> ol_is_expired_at l (oln_renewed_at q) \<and> l' = oln_renewed_lease q
        \<and> s' = put_outbox (oln_message_id q) (e\<lparr>so_lease := Some l'\<rparr>) s)"
  by (auto simp: mem_renew_outbox_lease_def oln_validate_def split: option.splits)

lemma mem_renew_refused:
  "mem_renew_execution_lease q ctx s = (Inl err, s') \<Longrightarrow> s' = s"
  "mem_renew_outbox_lease q' ctx s = (Inl err, s') \<Longrightarrow> s' = s"
  by (auto simp: mem_renew_execution_lease_def mem_renew_outbox_lease_def
      split: option.splits sum.splits if_splits)

lemma mem_renew_execution_inv:
  assumes inv: "mem_inv s"
  shows "mem_inv (snd (mem_renew_execution_lease q ctx s))"
proof (cases "mem_renew_execution_lease q ctx s")
  case (Pair res s')
  show ?thesis
  proof (cases res)
    case (Inl err)
    with Pair mem_renew_refused(1) [of q ctx s err s'] inv show ?thesis by simp
  next
    case (Inr l')
    with Pair mem_renew_execution_iff [of q ctx s l' s'] obtain e l where
      ok: "\<not> is_blank (eln_leased_by q)" and e: "hm_get (ms_records s) (eln_execution_id q) = Some e"
      and l: "sx_lease e = Some l" "el_lease_id l = eln_lease_id q"
      and s': "l' = eln_renewed_lease q" "s' = put_execution (eln_execution_id q) (e\<lparr>sx_lease := Some l'\<rparr>) s"
      by blast
    show ?thesis
      unfolding Pair snd_conv s'(2)
      by (rule mem_inv_put_execution [OF inv])
         (use mem_inv_execution(1) [OF inv e] mem_inv_execution(2,3) [OF inv e l(1)] l s'(1) ok
           in \<open>auto simp: lease_ok_def\<close>)
  qed
qed

lemma mem_renew_outbox_inv:
  assumes inv: "mem_inv s"
  shows "mem_inv (snd (mem_renew_outbox_lease q ctx s))"
proof (cases "mem_renew_outbox_lease q ctx s")
  case (Pair res s')
  show ?thesis
  proof (cases res)
    case (Inl err)
    with Pair mem_renew_refused(2) [of q ctx s err s'] inv show ?thesis by simp
  next
    case (Inr l')
    with Pair mem_renew_outbox_iff [of q ctx s l' s'] obtain e l where
      ok: "\<not> is_blank (oln_leased_by q)" and e: "hm_get (ms_outbox s) (oln_message_id q) = Some e"
      and l: "so_lease e = Some l" "ol_lease_id l = oln_lease_id q"
      and s': "l' = oln_renewed_lease q" "s' = put_outbox (oln_message_id q) (e\<lparr>so_lease := Some l'\<rparr>) s"
      by blast
    show ?thesis
      unfolding Pair snd_conv s'(2)
      by (rule mem_inv_put_outbox [OF inv])
         (use mem_inv_outbox(1) [OF inv e] mem_inv_outbox(2,3) [OF inv e l(1)] l s'(1) ok
           in \<open>auto simp: lease_ok_def\<close>)
  qed
qed

lemma mem_append_inv:
  assumes "mem_inv s"
  shows "mem_inv (snd (mem_append r ctx s))"
  unfolding mem_append_def
  by (simp add: assms) (intro impI mem_inv_put_execution [OF assms]; simp)

lemma mem_append_outbox_inv:
  assumes "mem_inv s"
  shows "mem_inv (snd (mem_append_outbox m ctx s))"
  unfolding mem_append_outbox_def
  by (simp add: assms) (intro impI mem_inv_put_outbox [OF assms]; simp)

lemma mem_update_inv:
  assumes inv: "mem_inv s"
  shows "mem_inv (snd (mem_update r ctx s))"
proof (cases "hm_get (ms_records s) (er_id r)")
  case (Some e)
  have "mem_inv (put_execution (er_id r)
      \<lparr>sx_record = r, sx_lease = (if er_status r \<noteq> InFlight then None else sx_lease e)\<rparr> s)"
    by (rule mem_inv_put_execution [OF inv])
       (use mem_inv_execution [OF inv Some] in \<open>auto split: if_splits\<close>)
  with Some show ?thesis by (simp add: mem_update_def)
qed (simp add: mem_update_def inv)

lemma recover_execution_inv:
  assumes inv: "mem_inv s"
  shows "mem_inv (fst (recover_execution q i (s, smry)))"
proof (cases "hm_get (ms_records s) i")
  case (Some e)
  have "mem_inv (put_execution i \<lparr>sx_record = r, sx_lease = None\<rparr> s)" if "er_id r = i" for r
    by (rule mem_inv_put_execution [OF inv]) (use that in auto)
  with Some mem_inv_execution(1) [OF inv Some] show ?thesis
    by (auto simp: recover_execution_def er_transition_defs)
qed (simp add: recover_execution_def inv)

definition outbox_leased :: "mem_state \<Rightarrow> outbox_message_id \<Rightarrow> bool" where
  "outbox_leased s i \<longleftrightarrow> (\<exists>e l. hm_get (ms_outbox s) i = Some e \<and> so_lease e = Some l)"

lemma recover_message_inv:
  assumes inv: "mem_inv s" and leased: "outbox_leased s i"
  shows "mem_inv (fst (recover_message q i (s, smry)))"
proof -
  from leased obtain e l where e: "hm_get (ms_outbox s) i = Some e" "so_lease e = Some l"
    by (auto simp: outbox_leased_def)
  have put: "mem_inv (put_outbox i e' s)"
    if "entry_ok (OutboxWork i) (OutboxEntry e')" "so_lease e' = None" for e'
    by (rule mem_inv_put_outbox [OF inv that(1)]) (simp_all add: that(2))
  have "om_id (so_message e) = i" "so_delivered_at e = None" "so_dead_lettered_at e = None"
    using mem_inv_outbox(1) [OF inv e(1)] e(2) by auto
  with e show ?thesis
    by (cases "om_attempts (so_message e) \<ge> xr_max_attempts q")
       (simp_all add: recover_message_def put)
qed

lemma recover_message_frame:
  "j \<noteq> i \<Longrightarrow> hm_get (ms_outbox (fst (recover_message q i (s, smry)))) j = hm_get (ms_outbox s) j"
  by (auto simp: recover_message_def split: option.split)

lemma recover_execution_frame:
  "j \<noteq> i \<Longrightarrow> hm_get (ms_records (fst (recover_execution q i (s, smry)))) j = hm_get (ms_records s) j"
  by (auto simp: recover_execution_def split: option.split)

lemma fold_recover_execution_inv:
  "mem_inv (fst x) \<Longrightarrow> mem_inv (fst (fold (recover_execution q) is x))"
proof (induction "is" arbitrary: x)
  case (Cons i "is")
  then have "mem_inv (fst (recover_execution q i x))" by (cases x) (simp add: recover_execution_inv)
  with Cons.IH show ?case by simp
qed simp

lemma fold_recover_message_inv:
  "mem_inv (fst x) \<Longrightarrow> distinct is \<Longrightarrow> (\<forall>i \<in> set is. outbox_leased (fst x) i)
     \<Longrightarrow> mem_inv (fst (fold (recover_message q) is x))"
proof (induction "is" arbitrary: x)
  case (Cons i "is")
  obtain s smry where x: "x = (s, smry)" by (cases x)
  have "outbox_leased (fst (recover_message q i x)) j" if "j \<in> set is" for j
  proof -
    from that Cons.prems(2) have "j \<noteq> i" by auto
    from recover_message_frame [OF this, of q s smry] Cons.prems(3) that show ?thesis
      by (simp add: outbox_leased_def x)
  qed
  then have "mem_inv (fst (fold (recover_message q) is (recover_message q i x)))"
    using Cons.prems x by (intro Cons.IH) (auto intro: recover_message_inv)
  then show ?case by simp
qed simp

lemma hm_wf_distinct_keys:
  "hm_wf m \<Longrightarrow> distinct (map snd (map (\<lambda>(i, e). (f e, i)) (filter P m)))"
  by (simp add: hm_wf_def comp_def case_prod_unfold distinct_map_filter)

lemma expired_ids_facts:
  assumes "mem_inv s"
  shows "distinct (expired_execution_ids s q)" and "distinct (expired_outbox_ids s q)"
    and "i \<in> set (expired_execution_ids s q) \<Longrightarrow>
      \<exists>e l. hm_get (ms_records s) i = Some e \<and> sx_lease e = Some l \<and> el_is_expired_at l (xr_now q)"
    and "j \<in> set (expired_outbox_ids s q) \<Longrightarrow>
      \<exists>e l. hm_get (ms_outbox s) j = Some e \<and> so_lease e = Some l \<and> ol_is_expired_at l (xr_now q)"
proof -
  have wf: "hm_wf (ms_records s)" "hm_wf (ms_outbox s)" using assms by (simp_all add: mem_inv_def)
  show "distinct (expired_execution_ids s q)"
    unfolding expired_execution_ids_def by (intro distinct_take_sort hm_wf_distinct_keys wf)
  show "distinct (expired_outbox_ids s q)"
    unfolding expired_outbox_ids_def by (intro distinct_take_sort hm_wf_distinct_keys wf)
  show "\<exists>e l. hm_get (ms_records s) i = Some e \<and> sx_lease e = Some l \<and> el_is_expired_at l (xr_now q)"
    if "i \<in> set (expired_execution_ids s q)"
    using that take_sort_subset wf(1) unfolding expired_execution_ids_def
    by (fastforce simp: hm_get_iff split: option.splits)
  show "\<exists>e l. hm_get (ms_outbox s) j = Some e \<and> so_lease e = Some l \<and> ol_is_expired_at l (xr_now q)"
    if "j \<in> set (expired_outbox_ids s q)"
    using that take_sort_subset wf(2) unfolding expired_outbox_ids_def
    by (fastforce simp: hm_get_iff split: option.splits)
qed

lemma mem_recover_inv:
  assumes inv: "mem_inv s"
  shows "mem_inv (snd (mem_recover_expired_leases q ctx s))"
proof (cases "xr_queue q")
  case Execution
  with inv fold_recover_execution_inv [of "(s, xs_default)" q "expired_execution_ids s q"]
  show ?thesis by (auto simp: mem_recover_expired_leases_def split: prod.splits)
next
  case Outbox
  have "\<forall>i \<in> set (expired_outbox_ids s q). outbox_leased s i"
    using expired_ids_facts(4) [OF inv] by (fastforce simp: outbox_leased_def)
  with Outbox inv expired_ids_facts(2) [OF inv]
    fold_recover_message_inv [of "(s, xs_default)" "expired_outbox_ids s q" q]
  show ?thesis by (auto simp: mem_recover_expired_leases_def split: prod.splits)
qed

lemma work_lookup_heartbeats [simp]:
  "work_lookup (s\<lparr>ms_heartbeats := h\<rparr>) = work_lookup s"
  "work_lease (s\<lparr>ms_heartbeats := h\<rparr>) = work_lease s"
proof -
  show "work_lookup (s\<lparr>ms_heartbeats := h\<rparr>) = work_lookup s"
    by (rule ext, case_tac x) simp_all
  then show "work_lease (s\<lparr>ms_heartbeats := h\<rparr>) = work_lease s"
    by (simp add: work_lease_def fun_eq_iff)
qed

lemma mem_record_heartbeat_inv:
  "mem_inv s \<Longrightarrow> mem_inv (snd (mem_record_heartbeat h ctx s))"
  by (auto simp: mem_record_heartbeat_def mem_inv_def leases_distinct_def wh_with_active_leases_def
      Let_def wh_validate_ok_iff split: sum.splits)

section \<open>Reachable states\<close>

inductive mem_step :: "mem_state \<Rightarrow> mem_state \<Rightarrow> bool" where
  Append: "mem_step s (snd (mem_append r ctx s))"
| Update: "mem_step s (snd (mem_update r ctx s))"
| AppendOutbox: "mem_step s (snd (mem_append_outbox m ctx s))"
| ClaimAvailable: "mem_step s (snd (mem_claim_available q ctx s))"
| LeaseAvailable: "mem_step s (snd (mem_lease_available lq ctx gen s))"
| RenewExecution: "mem_step s (snd (mem_renew_execution_lease eq ctx s))"
| RenewOutbox: "mem_step s (snd (mem_renew_outbox_lease oq ctx s))"
| Finalize: "mem_step s (snd (mem_finalize res ctx s))"
| Recover: "mem_step s (snd (mem_recover_expired_leases xq ctx s))"
| Heartbeat: "mem_step s (snd (mem_record_heartbeat h ctx s))"

inductive_cases mem_step_cases: "mem_step s s'"

inductive mem_reachable :: "mem_state \<Rightarrow> bool" where
  init: "mem_reachable mem_new"
| step: "mem_reachable s \<Longrightarrow> mem_step s s' \<Longrightarrow> mem_reachable s'"

lemma mem_step_inv: "mem_step s s' \<Longrightarrow> mem_inv s \<Longrightarrow> mem_inv s'"
  by (induction rule: mem_step.induct)
     (simp_all add: mem_append_inv mem_update_inv mem_append_outbox_inv mem_claim_available_def
       claim_executions_inv mem_lease_available_inv mem_renew_execution_inv mem_renew_outbox_inv
       mem_finalize_inv mem_recover_inv mem_record_heartbeat_inv)

lemma mem_reachable_inv: "mem_reachable s \<Longrightarrow> mem_inv s"
  by (induction rule: mem_reachable.induct) (auto intro: mem_inv_new mem_step_inv)

end
