(* ===== verification/Memory_Claims.thy ===== *)
theory Memory_Claims
  imports Memory_Invariant
begin

text \<open>
  What a claim does on the in-memory store, for both queues at once: which work it hands out, that a
  live lease shields its work, that the claimed work can be resolved by its holder, and that a holder
  whose lease was given away is fenced off.
\<close>

section \<open>Claimed work and its place in the store\<close>

fun claimed_target :: "claimed_dispatch_work \<Rightarrow> work_id" where
  "claimed_target (ClaimedExecutionWork c) = ExecWork (er_id (ce_record c))"
| "claimed_target (ClaimedOutboxWork c) = OutboxWork (om_id (co_message c))"

text \<open>The stored entry of freshly claimed work.\<close>

fun claimed_entry :: "claimed_dispatch_work \<Rightarrow> work_entry \<Rightarrow> work_entry" where
  "claimed_entry (ClaimedExecutionWork c) e =
     ExecEntry \<lparr>sx_record = ce_record c, sx_lease = Some (ce_lease c)\<rparr>"
| "claimed_entry (ClaimedOutboxWork c) (OutboxEntry e) =
     OutboxEntry (e\<lparr>so_message := co_message c, so_lease := Some (co_lease c),
                    so_status := OutboxInFlight\<rparr>)"
| "claimed_entry (ClaimedOutboxWork c) e = e"

text \<open>Due at \<open>now\<close>: open, available, and not under a live lease.\<close>

fun entry_due :: "work_entry \<Rightarrow> system_time \<Rightarrow> bool" where
  "entry_due (ExecEntry e) now = sx_is_due_at e now True"
| "entry_due (OutboxEntry e) now = so_is_due_at e now True"

definition lease_granted :: "dispatch_claim_request \<Rightarrow> u64 \<Rightarrow> dispatch_lease \<Rightarrow> bool" where
  "lease_granted q n l \<longleftrightarrow>
     dl_queue l = dc_queue q \<and> dl_lease_id l = LeaseId (lease_text n)
   \<and> dl_leased_by l = dc_worker_id q \<and> dl_leased_at l = dc_now q
   \<and> dl_lease_expires_at l = add_or_keep (dc_now q) (dc_lease_ttl q)"

lemma list_all2_zip_each:
  "list_all2 P (zip xs ys) zs \<Longrightarrow> length ys = length xs \<Longrightarrow> z \<in> set zs
     \<Longrightarrow> \<exists>x y. x \<in> set xs \<and> y \<in> set ys \<and> P (x, y) z"
  by (metis fst_conv in_set_zipE list_all2_conv_all_nth nth_mem in_set_conv_nth prod.collapse)

lemma list_all2_zip_map:
  assumes "list_all2 P (zip xs ys) zs" and "length ys = length xs"
    and "\<And>x y z. P (x, y) z \<Longrightarrow> x \<in> set xs \<Longrightarrow> f z = x"
  shows "map f zs = xs"
proof (rule nth_equalityI)
  show len: "length (map f zs) = length xs"
    using assms(1,2) by (simp add: list_all2_conv_all_nth)
  fix k
  assume "k < length (map f zs)"
  then show "map f zs ! k = xs ! k"
    using assms len by (auto simp: list_all2_conv_all_nth)
qed

lemma mem_claim_available_ok:
  assumes inv: "mem_inv s" and ok: "mem_claim_available q ctx s = (Inr cs, s')"
  defines "nums \<equiv> lease_numbers (ms_next_lease_sequence s) (length (find_claimable_ids s q))"
  shows "map (er_id \<circ> ce_record) cs = find_claimable_ids s q"
    and "c \<in> set cs \<Longrightarrow> \<exists>n e. n \<in> set nums \<and> hm_get (ms_records s) (er_id (ce_record c)) = Some e
           \<and> sx_is_due_at e (elr_now q) True \<and> grant_execution q e n = Some c
           \<and> hm_get (ms_records s') (er_id (ce_record c)) =
               Some \<lparr>sx_record = ce_record c, sx_lease = Some (ce_lease c)\<rparr>"
proof -
  note d = find_claimable_facts(1) [OF inv, of q] find_claimable_facts(3) [OF inv, of _ q]
  from ex_batch.loop_ok [OF ok [unfolded mem_claim_available_def] d(1)]
  have rel: "list_all2 (ex_batch.granted q s s') (zip (find_claimable_ids s q) nums) cs"
    by (auto simp: nums_def)
  have len: "length nums = length (find_claimable_ids s q)" by (simp add: nums_def)
  have ids: "er_id (ce_record c) = i" if "ex_batch.granted q s s' (i, n) c" for i n c
  proof -
    from that obtain e where e: "hm_get (ms_records s) i = Some e" "grant_execution q e n = Some c"
      by (auto simp: ex_batch.granted_def)
    from mem_inv_execution(1) [OF inv e(1)] e(2) show ?thesis by (auto simp: grant_execution_Some)
  qed
  from list_all2_zip_map [OF rel len, of "er_id \<circ> ce_record"] ids
  show "map (er_id \<circ> ce_record) cs = find_claimable_ids s q" by fastforce
  show "\<exists>n e. n \<in> set nums \<and> hm_get (ms_records s) (er_id (ce_record c)) = Some e
      \<and> sx_is_due_at e (elr_now q) True \<and> grant_execution q e n = Some c
      \<and> hm_get (ms_records s') (er_id (ce_record c)) =
          Some \<lparr>sx_record = ce_record c, sx_lease = Some (ce_lease c)\<rparr>" if "c \<in> set cs"
  proof -
    from list_all2_zip_each [OF rel len that] obtain i n where i: "i \<in> set (find_claimable_ids s q)"
      and n: "n \<in> set nums" and g: "ex_batch.granted q s s' (i, n) c" by blast
    from d(2) [OF i] g ids [OF g] n show ?thesis by (auto simp: ex_batch.granted_def)
  qed
qed

lemma mem_lease_available_ok:
  assumes inv: "mem_inv s" and ok: "mem_lease_available q ctx gen s = (Inr cs, s')"
  defines "nums \<equiv> lease_numbers (ms_next_lease_sequence s) (length (find_claimable_message_ids s q))"
  shows "map (om_id \<circ> co_message) cs = find_claimable_message_ids s q"
    and "c \<in> set cs \<Longrightarrow> \<exists>n e. n \<in> set nums \<and> hm_get (ms_outbox s) (om_id (co_message c)) = Some e
           \<and> so_is_due_at e (olr_now q) True \<and> grant_message q e n = Some c
           \<and> hm_get (ms_outbox s') (om_id (co_message c)) =
               Some (e\<lparr>so_message := co_message c, so_lease := Some (co_lease c),
                      so_status := OutboxInFlight\<rparr>)"
proof -
  note d = find_claimable_facts(2) [OF inv, of q] find_claimable_facts(4) [OF inv, of _ q]
  from ob_batch.loop_ok [OF ok [unfolded mem_lease_available_def] d(1)]
  have rel: "list_all2 (ob_batch.granted q s s') (zip (find_claimable_message_ids s q) nums) cs"
    by (auto simp: nums_def)
  have len: "length nums = length (find_claimable_message_ids s q)" by (simp add: nums_def)
  have ids: "om_id (co_message c) = i" if "ob_batch.granted q s s' (i, n) c" for i n c
  proof -
    from that obtain e where e: "hm_get (ms_outbox s) i = Some e" "grant_message q e n = Some c"
      by (auto simp: ob_batch.granted_def)
    from mem_inv_outbox(1) [OF inv e(1)] e(2) show ?thesis by (auto simp: grant_message_Some)
  qed
  from list_all2_zip_map [OF rel len, of "om_id \<circ> co_message"] ids
  show "map (om_id \<circ> co_message) cs = find_claimable_message_ids s q" by fastforce
  show "\<exists>n e. n \<in> set nums \<and> hm_get (ms_outbox s) (om_id (co_message c)) = Some e
      \<and> so_is_due_at e (olr_now q) True \<and> grant_message q e n = Some c
      \<and> hm_get (ms_outbox s') (om_id (co_message c)) =
          Some (e\<lparr>so_message := co_message c, so_lease := Some (co_lease c),
                 so_status := OutboxInFlight\<rparr>)" if "c \<in> set cs"
  proof -
    from list_all2_zip_each [OF rel len that] obtain i n where
      i: "i \<in> set (find_claimable_message_ids s q)"
      and n: "n \<in> set nums" and g: "ob_batch.granted q s s' (i, n) c" by blast
    from d(2) [OF i] g ids [OF g] n show ?thesis by (auto simp: ob_batch.granted_def)
  qed
qed

section \<open>Claims through the dispatch interface\<close>

definition claim_exec_request :: "dispatch_claim_request \<Rightarrow> execution_lease_request" where
  "claim_exec_request q =
     \<lparr>elr_leased_by = dc_worker_id q, elr_batch_size = max (dc_batch_size q) 1,
      elr_lease_ttl = dc_lease_ttl q, elr_now = dc_now q\<rparr>"

definition claim_outbox_request :: "dispatch_claim_request \<Rightarrow> outbox_delivery_lease_request" where
  "claim_outbox_request q =
     \<lparr>olr_leased_by = dc_worker_id q, olr_batch_size = max (dc_batch_size q) 1,
      olr_lease_ttl = dc_lease_ttl q, olr_now = dc_now q\<rparr>"

lemma mem_claim_due_execution:
  "dc_queue q = Execution \<Longrightarrow>
   mem_claim_due q ctx gen s =
     op_map (map ClaimedExecutionWork) (mem_claim_available (claim_exec_request q) ctx) s"
  by (simp add: mem_claim_due_def dispatch_request_defs claim_exec_request_def)

lemma mem_claim_due_outbox:
  "dc_queue q = Outbox \<Longrightarrow>
   mem_claim_due q ctx gen s =
     op_map (map ClaimedOutboxWork) (mem_lease_available (claim_outbox_request q) ctx gen) s"
  by (simp add: mem_claim_due_def dispatch_request_defs claim_outbox_request_def)

lemma op_map_Inr_map:
  "op_map (map f) m s = (Inr ys, s') \<longleftrightarrow> (\<exists>xs. m s = (Inr xs, s') \<and> ys = map f xs)"
  by (rule op_map_Inr_iff)

lemma claim_due_each:
  assumes inv: "mem_inv s" and ok: "mem_claim_due q ctx gen s = (Inr cs, s')" and c: "c \<in> set cs"
  shows "\<exists>n e. n \<in> set (lease_numbers (ms_next_lease_sequence s) (length cs))
           \<and> work_lookup s (claimed_target c) = Some e \<and> entry_due e (dc_now q)
           \<and> lease_granted q n (cw_lease c) \<and> \<not> is_blank (dc_worker_id q)
           \<and> work_lookup s' (claimed_target c) = Some (claimed_entry c e)
           \<and> entry_revision (claimed_entry c e) = entry_revision e + 1"
proof (cases "dc_queue q")
  case Execution
  with ok obtain xs where xs: "mem_claim_available (claim_exec_request q) ctx s = (Inr xs, s')"
    and cs: "cs = map ClaimedExecutionWork xs" by (auto simp: mem_claim_due_execution op_map_Inr_map)
  from c cs obtain x where x: "x \<in> set xs" "c = ClaimedExecutionWork x" by auto
  have "length (find_claimable_ids s (claim_exec_request q)) = length cs"
    by (metis cs length_map mem_claim_available_ok(1) [OF inv xs])
  with mem_claim_available_ok(2) [OF inv xs x(1)] x(2) Execution show ?thesis
    by (fastforce simp: grant_execution_Some lease_granted_def claim_exec_request_def)
next
  case Outbox
  with ok obtain xs where xs: "mem_lease_available (claim_outbox_request q) ctx gen s = (Inr xs, s')"
    and cs: "cs = map ClaimedOutboxWork xs" by (auto simp: mem_claim_due_outbox op_map_Inr_map)
  from c cs obtain x where x: "x \<in> set xs" "c = ClaimedOutboxWork x" by auto
  have "length (find_claimable_message_ids s (claim_outbox_request q)) = length cs"
    by (metis cs length_map mem_lease_available_ok(1) [OF inv xs])
  with mem_lease_available_ok(2) [OF inv xs x(1)] x(2) Outbox show ?thesis
    by (fastforce simp: grant_message_Some lease_granted_def claim_outbox_request_def
        om_transition_defs)
qed

lemma claim_due_frame:
  assumes inv: "mem_inv s" and run: "mem_claim_due q ctx gen s = (res, s')"
    and w: "\<And>e. work_lookup s w = Some e \<Longrightarrow> \<not> entry_due e (dc_now q)"
  shows "work_lookup s' w = work_lookup s w"
proof (cases "dc_queue q")
  case Execution
  let ?q = "claim_exec_request q"
  obtain r where r: "claim_executions ?q ctx (find_claimable_ids s ?q) [] s = (r, s')"
    using run Execution
    by (auto simp: mem_claim_due_execution op_map_def mem_claim_available_def split: prod.splits)
  note fr = ex_batch.loop_frame [OF find_claimable_facts(1) [OF inv] r]
  show ?thesis
  proof (cases w)
    case (ExecWork i)
    have "i \<notin> set (find_claimable_ids s ?q)"
      using find_claimable_facts(3) [OF inv, of i ?q] w ExecWork
      by (auto simp: claim_exec_request_def)
    with fr ExecWork show ?thesis by simp
  qed (use fr in simp)
next
  case Outbox
  let ?q = "claim_outbox_request q"
  obtain r where r: "lease_messages ?q ctx gen (find_claimable_message_ids s ?q) [] s = (r, s')"
    using run Outbox
    by (auto simp: mem_claim_due_outbox op_map_def mem_lease_available_def split: prod.splits)
  note fr = ob_batch.loop_frame [OF find_claimable_facts(2) [OF inv] r]
  show ?thesis
  proof (cases w)
    case (OutboxWork i)
    have "i \<notin> set (find_claimable_message_ids s ?q)"
      using find_claimable_facts(4) [OF inv, of i ?q] w OutboxWork
      by (auto simp: claim_outbox_request_def)
    with fr OutboxWork show ?thesis by simp
  qed (use fr in simp)
qed

lemma claim_due_targets:
  assumes inv: "mem_inv s" and ok: "mem_claim_due q ctx gen s = (Inr cs, s')"
  shows "map claimed_target cs =
           (case dc_queue q of
              Execution \<Rightarrow> map ExecWork (find_claimable_ids s (claim_exec_request q))
            | Outbox \<Rightarrow> map OutboxWork (find_claimable_message_ids s (claim_outbox_request q)))"
    and "distinct (map claimed_target cs)"
    and "w \<notin> claimed_target ` set cs \<Longrightarrow> work_lookup s' w = work_lookup s w"
proof -
  have "map claimed_target cs =
           (case dc_queue q of
              Execution \<Rightarrow> map ExecWork (find_claimable_ids s (claim_exec_request q))
            | Outbox \<Rightarrow> map OutboxWork (find_claimable_message_ids s (claim_outbox_request q)))
      \<and> distinct (map claimed_target cs)
      \<and> (w \<notin> claimed_target ` set cs \<longrightarrow> work_lookup s' w = work_lookup s w)"
  proof (cases "dc_queue q")
    case Execution
    with ok obtain xs where xs: "mem_claim_available (claim_exec_request q) ctx s = (Inr xs, s')"
      and cs: "cs = map ClaimedExecutionWork xs" by (auto simp: mem_claim_due_execution op_map_Inr_map)
    note fr = ex_batch.loop_frame [OF find_claimable_facts(1) [OF inv]
        xs [unfolded mem_claim_available_def]]
    have m: "map claimed_target cs = map ExecWork (find_claimable_ids s (claim_exec_request q))"
      unfolding cs mem_claim_available_ok(1) [OF inv xs, symmetric] by simp
    then have "claimed_target ` set cs = ExecWork ` set (find_claimable_ids s (claim_exec_request q))"
      by (metis list.set_map)
    moreover have "distinct (map claimed_target cs)"
      unfolding m using find_claimable_facts(1) [OF inv] by (simp add: distinct_map inj_on_def)
    ultimately show ?thesis using fr m Execution by (cases w) auto
  next
    case Outbox
    with ok obtain xs where xs: "mem_lease_available (claim_outbox_request q) ctx gen s = (Inr xs, s')"
      and cs: "cs = map ClaimedOutboxWork xs" by (auto simp: mem_claim_due_outbox op_map_Inr_map)
    note fr = ob_batch.loop_frame [OF find_claimable_facts(2) [OF inv]
        xs [unfolded mem_lease_available_def]]
    have m: "map claimed_target cs = map OutboxWork (find_claimable_message_ids s (claim_outbox_request q))"
      unfolding cs mem_lease_available_ok(1) [OF inv xs, symmetric] by simp
    then have "claimed_target ` set cs =
        OutboxWork ` set (find_claimable_message_ids s (claim_outbox_request q))"
      by (metis list.set_map)
    moreover have "distinct (map claimed_target cs)"
      unfolding m using find_claimable_facts(2) [OF inv] by (simp add: distinct_map inj_on_def)
    ultimately show ?thesis using fr m Outbox by (cases w) auto
  qed
  then show "map claimed_target cs =
           (case dc_queue q of
              Execution \<Rightarrow> map ExecWork (find_claimable_ids s (claim_exec_request q))
            | Outbox \<Rightarrow> map OutboxWork (find_claimable_message_ids s (claim_outbox_request q)))"
    and "distinct (map claimed_target cs)"
    and "w \<notin> claimed_target ` set cs \<Longrightarrow> work_lookup s' w = work_lookup s w" by blast+
qed

lemma entry_due_lease:
  "entry_due e now \<Longrightarrow> entry_lease e = Some l \<Longrightarrow> dl_is_expired_at l now"
  by (cases e) (auto simp: sx_is_due_at_def so_is_due_at_def split: if_splits)

lemma claimed_entry_lease:
  assumes "entry_due e t" and "mem_inv s" and "work_lookup s (claimed_target c) = Some e"
  shows "entry_lease (claimed_entry c e) = Some (cw_lease c)"
  using assms mem_inv_entry(1) [OF assms(2,3)] by (cases c; cases e) auto

end
