(* ===== verification/Memory_Properties.thy ===== *)
theory Memory_Properties
  imports Memory_Claims
begin

text \<open>
  The theorems about the in-memory work store: its invariant on every reachable state, exclusive
  leases, what a claim hands out and when it fails, resolution exactly once by the holder of the lease,
  fencing of stale workers, recovery of expired leases, terminal messages, and the agreement of the
  read side with the dispatcher.
\<close>

section \<open>Lease numbers only grow\<close>

lemma claim_executions_seq:
  "ms_next_lease_sequence s \<le> ms_next_lease_sequence (snd (claim_executions q ctx is acc s))"
proof (induction "is" arbitrary: acc s)
  case (Cons i "is")
  show ?case
    using saturating_inc_mono [of "ms_next_lease_sequence s"]
    by (auto simp: next_lease_id_eq Let_def split: option.splits sum.splits
        intro!: order_trans [OF _ Cons.IH])
qed simp

lemma lease_messages_seq:
  "ms_next_lease_sequence s \<le> ms_next_lease_sequence (snd (lease_messages q ctx gen is acc s))"
proof (induction "is" arbitrary: acc s)
  case (Cons i "is")
  show ?case
    using saturating_inc_mono [of "ms_next_lease_sequence s"]
    by (auto simp: next_lease_id_eq Let_def split: option.splits sum.splits
        intro!: order_trans [OF _ Cons.IH])
qed simp

lemma recover_seq:
  "ms_next_lease_sequence (fst (fold (recover_execution q) is x)) = ms_next_lease_sequence (fst x)"
  "ms_next_lease_sequence (fst (fold (recover_message q) js x)) = ms_next_lease_sequence (fst x)"
  by (induction "is" arbitrary: x; force simp: recover_execution_def split: prod.splits option.splits)
     (induction js arbitrary: x; force simp: recover_message_def split: prod.splits option.splits)

lemma finalize_seq: "ms_next_lease_sequence (snd (mem_finalize res ctx s)) = ms_next_lease_sequence s"
  by (cases res)
     (auto simp: mem_resolve_defs resolve_execution_def resolve_outbox_def
       split: option.splits sum.splits)

lemma mem_step_seq: "mem_step s s' \<Longrightarrow> ms_next_lease_sequence s \<le> ms_next_lease_sequence s'"
proof (induction rule: mem_step.induct)
  case (Recover s xq ctx)
  have "ms_next_lease_sequence (snd (mem_recover_expired_leases xq ctx s)) = ms_next_lease_sequence s"
    using recover_seq(1) [of xq "expired_execution_ids s xq" "(s, xs_default)"]
      recover_seq(2) [of xq "expired_outbox_ids s xq" "(s, xs_default)"]
    by (auto simp: mem_recover_expired_leases_def split: dispatch_queue.split prod.splits)
  then show ?case by simp
qed (auto simp: mem_append_def mem_update_def mem_append_outbox_def mem_claim_available_def
    mem_lease_available_def claim_executions_seq lease_messages_seq finalize_seq
    mem_renew_execution_lease_def mem_renew_outbox_lease_def mem_record_heartbeat_def Let_def
    split: option.splits sum.splits)

lemma mem_steps_seq: "mem_step\<^sup>*\<^sup>* s s' \<Longrightarrow> ms_next_lease_sequence s \<le> ms_next_lease_sequence s'"
  by (induction rule: rtranclp_induct) (auto dest: mem_step_seq)

lemma mem_steps_inv: "mem_step\<^sup>*\<^sup>* s s' \<Longrightarrow> mem_inv s \<Longrightarrow> mem_inv s'"
  by (induction rule: rtranclp_induct) (auto dest: mem_step_inv)

lemma mem_claim_due_step: "mem_step s (snd (mem_claim_due q ctx gen s))"
  by (cases "dc_queue q")
     (simp_all add: mem_claim_due_execution mem_claim_due_outbox mem_step.ClaimAvailable
       mem_step.LeaseAvailable)

lemma lease_numbers_bound:
  "n \<in> set (lease_numbers k m) \<Longrightarrow> n \<noteq> - 1 \<Longrightarrow> k < n"
proof (induction k m rule: lease_numbers.induct)
  case (2 k m)
  show ?case
  proof (cases "k = - 1")
    case True
    have "x = - 1" if "x \<in> set (lease_numbers (- 1) j)" for x j
      using that by (induction j) (auto simp: saturating_inc_def)
    with "2.prems" True show ?thesis by (metis lease_numbers.simps(2))
  next
    case False
    then have "k < saturating_inc k" by (simp add: word_less_nat_alt unat_saturating_inc)
    with "2" show ?thesis by (auto intro: less_trans)
  qed
qed simp

section \<open>A sample store\<close>

definition sample_store :: mem_state where
  "sample_store = snd (mem_append_outbox sample_message sample_context
                         (snd (mem_append sample_record sample_context mem_new)))"

definition sample_claim :: "dispatch_queue \<Rightarrow> string \<Rightarrow> system_time \<Rightarrow> dispatch_claim_request" where
  "sample_claim q w t = dc_at (dc_new q w 5 10 0) t"

definition sample_lease :: "string \<Rightarrow> u64 \<Rightarrow> system_time \<Rightarrow> execution_lease" where
  "sample_lease w n t = el_from_now (LeaseId (lease_text n)) w 10 t"

definition sample_claimed :: claimed_execution where
  "sample_claimed =
     \<lparr>ce_record = er_mark_claimed sample_record 3, ce_lease = sample_lease ''w1'' 1 3\<rparr>"

definition sample_leased_store :: mem_state where
  "sample_leased_store =
     \<lparr>ms_records = [(ExecutionId ''e1'',
        \<lparr>sx_record = ce_record sample_claimed, sx_lease = Some (ce_lease sample_claimed)\<rparr>)],
      ms_outbox = ms_outbox sample_store, ms_heartbeats = [], ms_next_lease_sequence = 1\<rparr>"

lemma sample_worker_named [simp]: "\<not> is_blank ''w1''" "\<not> is_blank ''w2''" by code_simp+

lemma sample_store_eq:
  "sample_store =
     \<lparr>ms_records = [(ExecutionId ''e1'', \<lparr>sx_record = sample_record, sx_lease = None\<rparr>)],
      ms_outbox = [(OutboxMessageId ''m1'',
         \<lparr>so_message = sample_message, so_lease = None, so_status = OutboxPending,
          so_delivered_at = None, so_dead_lettered_at = None, so_last_error = None\<rparr>)],
      ms_heartbeats = [], ms_next_lease_sequence = 0\<rparr>"
  by (simp add: sample_store_def mem_append_outbox_def mem_append_def mem_new_def put_outbox_def
      put_execution_def sample_defs)

lemma sample_store_reachable: "mem_reachable sample_store"
  unfolding sample_store_def
  by (rule mem_reachable.step [OF mem_reachable.step [OF mem_reachable.init mem_step.Append]
        mem_step.AppendOutbox])

lemma sample_claim_run:
  "mem_claim_due (sample_claim Execution ''w1'' 3) sample_context gen sample_store =
     (Inr [ClaimedExecutionWork sample_claimed], sample_leased_store)"
  by (simp add: sample_claim_def dc_at_def dc_new_def mem_claim_due_execution claim_exec_request_def
      op_map_def mem_claim_available_def find_claimable_ids_def selectable_due_records_def
      sample_store_eq sx_is_due_at_def sample_defs sx_materialize_due_record_def der_at_def der_new_def
      der_with_expired_leases_def next_lease_id_eq ce_claim_def put_execution_def sample_claimed_def
      sample_lease_def sample_leased_store_def saturating_inc_def Let_def)

lemma sample_leased_reachable: "mem_reachable sample_leased_store"
  using mem_reachable.step [OF sample_store_reachable
      mem_claim_due_step [of sample_store "sample_claim Execution ''w1'' 3" sample_context]]
  by (simp add: sample_claim_run)

section \<open>Invariant and exclusive leases\<close>

text \<open>
  (C4) In every reachable state of the store each entry is stored under its own identifier; only
  in-flight work is leased and an outbox message is in flight exactly while it is leased; a message has
  a delivery (dead-letter) time exactly when it is delivered (dead-lettered); every lease names a
  non-blank worker, does not expire before it was taken and carries an identifier the store issued.
\<close>

theorem mem_store_invariant:
  assumes "mem_reachable s" and "work_lookup s w = Some e"
  shows "entry_ok w e
       \<and> (case entry_lease e of None \<Rightarrow> True | Some l \<Rightarrow> lease_ok (ms_next_lease_sequence s) l)"
  using mem_inv_entry [OF mem_reachable_inv [OF assms(1)] assms(2)] by (auto split: option.splits)

theorem mem_store_invariant_witness:
  "entry_ok (ExecWork (ExecutionId ''e1''))
     (ExecEntry \<lparr>sx_record = ce_record sample_claimed, sx_lease = Some (ce_lease sample_claimed)\<rparr>)
   \<and> lease_ok 1 (ExecutionLease (ce_lease sample_claimed))"
  using mem_store_invariant [OF sample_leased_reachable, of "ExecWork (ExecutionId ''e1'')"]
  by (simp add: sample_leased_store_def)

text \<open>
  Leases are exclusive: in every reachable state, until the 64-bit lease counter saturates, no two
  work items (executions or outbox messages) hold leases with the same identifier.
\<close>

theorem mem_leases_exclusive:
  assumes "mem_reachable s" and "ms_next_lease_sequence s \<noteq> - 1"
    and "work_lease s w = Some l" and "work_lease s w' = Some l'"
    and "dl_lease_id l = dl_lease_id l'"
  shows "w = w'"
  using mem_reachable_inv [OF assms(1)] assms(2-) leases_distinctD by (auto simp: mem_inv_def)

theorem mem_leases_exclusive_witness:
  "\<exists>l. work_lease sample_leased_store (ExecWork (ExecutionId ''e1'')) = Some l
     \<and> (\<forall>w' l'. work_lease sample_leased_store w' = Some l' \<and> dl_lease_id l' = dl_lease_id l
          \<longrightarrow> w' = ExecWork (ExecutionId ''e1''))"
proof (intro exI conjI allI impI)
  show l: "work_lease sample_leased_store (ExecWork (ExecutionId ''e1''))
      = Some (ExecutionLease (ce_lease sample_claimed))"
    by (simp add: work_lease_def sample_leased_store_def)
  fix w' l'
  assume "work_lease sample_leased_store w' = Some l'
    \<and> dl_lease_id l' = dl_lease_id (ExecutionLease (ce_lease sample_claimed))"
  then show "w' = ExecWork (ExecutionId ''e1'')"
    by (intro mem_leases_exclusive [OF sample_leased_reachable _ _ l])
       (auto simp: sample_leased_store_def)
qed

section \<open>What a claim hands out\<close>

text \<open>
  (C1) A successful claim hands out distinct work items, each of which was due and not under a live
  lease; each is stored with the lease it was handed out under, which names the worker, starts at the
  request's time and expires after the requested duration; its revision advances by one; and every
  other work item of the store is untouched.
\<close>

theorem mem_claim_due_spec:
  assumes "mem_reachable s" and ok: "mem_claim_due q ctx gen s = (Inr cs, s')"
  shows "distinct (map claimed_target cs)
       \<and> (\<forall>c \<in> set cs. \<exists>n e. work_lookup s (claimed_target c) = Some e
            \<and> entry_due e (dc_now q) \<and> \<not> is_blank (dc_worker_id q)
            \<and> lease_granted q n (cw_lease c)
            \<and> work_lookup s' (claimed_target c) = Some (claimed_entry c e)
            \<and> work_lease s' (claimed_target c) = Some (cw_lease c)
            \<and> entry_revision (claimed_entry c e) = entry_revision e + 1)
       \<and> (\<forall>w. w \<notin> claimed_target ` set cs \<longrightarrow> work_lookup s' w = work_lookup s w)"
proof (intro conjI ballI allI impI)
  note inv = mem_reachable_inv [OF assms(1)]
  show "distinct (map claimed_target cs)" by (rule claim_due_targets(2) [OF inv ok])
  show "work_lookup s' w = work_lookup s w" if "w \<notin> claimed_target ` set cs" for w
    by (rule claim_due_targets(3) [OF inv ok that])
  fix c
  assume "c \<in> set cs"
  from claim_due_each [OF inv ok this] obtain n e where
    "work_lookup s (claimed_target c) = Some e" "entry_due e (dc_now q)" "\<not> is_blank (dc_worker_id q)"
    "lease_granted q n (cw_lease c)" and new: "work_lookup s' (claimed_target c) = Some (claimed_entry c e)"
    and "entry_revision (claimed_entry c e) = entry_revision e + 1" by blast
  moreover have "work_lease s' (claimed_target c) = Some (cw_lease c)"
    using new claimed_entry_lease [OF \<open>entry_due e (dc_now q)\<close> inv] calculation(1)
    by (simp add: work_lease_def)
  ultimately show "\<exists>n e. work_lookup s (claimed_target c) = Some e
            \<and> entry_due e (dc_now q) \<and> \<not> is_blank (dc_worker_id q)
            \<and> lease_granted q n (cw_lease c)
            \<and> work_lookup s' (claimed_target c) = Some (claimed_entry c e)
            \<and> work_lease s' (claimed_target c) = Some (cw_lease c)
            \<and> entry_revision (claimed_entry c e) = entry_revision e + 1" by blast
qed

theorem mem_claim_due_spec_witness:
  "work_lease sample_leased_store (ExecWork (ExecutionId ''e1''))
     = Some (ExecutionLease (ce_lease sample_claimed))
   \<and> work_lookup sample_leased_store (OutboxWork (OutboxMessageId ''m1''))
     = work_lookup sample_store (OutboxWork (OutboxMessageId ''m1''))"
  using mem_claim_due_spec [OF sample_store_reachable
      sample_claim_run [where gen = "CorrelationId ''g''"]]
  by (auto simp: sample_claimed_def sample_defs)

text \<open>
  (C2) A live lease shields its work: while a lease has not expired at the time of a claim, the claim,
  whether it succeeds or fails, by whatever worker and on whatever queue, leaves the leased entry
  exactly as it is.
\<close>

theorem mem_live_lease_shields:
  assumes "mem_reachable s" and "work_lookup s w = Some e" and "entry_lease e = Some l"
    and "\<not> dl_is_expired_at l (dc_now q)"
  shows "work_lookup (snd (mem_claim_due q ctx gen s)) w = Some e"
  using claim_due_frame [OF mem_reachable_inv [OF assms(1)], of q ctx gen] entry_due_lease assms(2-)
  by (metis option.inject prod.collapse)

theorem mem_live_lease_shields_witness:
  "work_lookup (snd (mem_claim_due (sample_claim Execution ''w2'' 13) sample_context
       (CorrelationId ''g'') sample_leased_store)) (ExecWork (ExecutionId ''e1''))
   = Some (ExecEntry \<lparr>sx_record = ce_record sample_claimed, sx_lease = Some (ce_lease sample_claimed)\<rparr>)"
  by (rule mem_live_lease_shields
        [OF sample_leased_reachable, where l = "ExecutionLease (ce_lease sample_claimed)"])
     (simp_all add: sample_leased_store_def sample_claimed_def sample_lease_def sample_claim_def
       dc_at_def dc_new_def el_is_expired_at_def add_or_keep_def checked_add_def system_time_max_def)

section \<open>Resolving claimed work\<close>

lemma outcome_unleased [simp]: "entry_lease (resolution_outcome res e) = None"
  using work.outcome_released [of res e] by simp

text \<open>
  (C3) \<open>finalize\<close> on every branch: it is accepted exactly when the work exists, is held under the
  lease the resolution presents and, when the resolution names a revision, still has that revision; the
  entry then becomes the outcome of the resolution and nothing else changes. Otherwise it is refused and
  the store is unchanged.
\<close>

theorem mem_finalize_spec:
  "case mem_finalize res ctx s of
     (Inr _, s') \<Rightarrow>
       (\<exists>e. work_lookup s (resolution_target res) = Some e
          \<and> map_option dl_lease_id (entry_lease e) = Some (dr_lease_id res)
          \<and> resolution_revision res \<in> {None, Some (entry_revision e)}
          \<and> work_lookup s' = (work_lookup s)(resolution_target res \<mapsto> resolution_outcome res e))
   | (Inl _, s') \<Rightarrow> s' = s \<and>
       \<not> (\<exists>e. work_lookup s (resolution_target res) = Some e
            \<and> map_option dl_lease_id (entry_lease e) = Some (dr_lease_id res)
            \<and> resolution_revision res \<in> {None, Some (entry_revision e)})"
proof (cases "mem_finalize res ctx s")
  case (Pair r s')
  show ?thesis
  proof (cases r)
    case (Inl err)
    with Pair work.refused_unchanged [where q = res and s = s and ctx = ctx and err = err]
      work.accepted_iff [where q = res and s = s and ctx = ctx] show ?thesis by auto
  next
    case (Inr u)
    with Pair have "mem_finalize res ctx s = (Inr (), s')" by simp
    from work.resolve_result [OF this] obtain e where
      "work_lookup s (resolution_target res) = Some e"
      "map_option dl_lease_id (entry_lease e) = Some (dr_lease_id res)"
      "resolution_revision res \<in> {None, Some (entry_revision e)}"
      "work_lookup s' = (work_lookup s)(resolution_target res \<mapsto> resolution_outcome res e)" by blast
    then show ?thesis unfolding Pair Inr prod.case sum.case by blast
  qed
qed

text \<open>
  Work is resolved at most once per claim: after an accepted resolution every further resolution
  of the same work item, of whatever kind and with whatever lease, is refused and changes nothing.
\<close>

theorem mem_finalize_at_most_once:
  assumes "mem_finalize res ctx s = (Inr (), s')" and "resolution_target res' = resolution_target res"
  shows "\<exists>err. mem_finalize res' ctx' s' = (Inl err, s')"
proof -
  from work.resolve_result [OF assms(1)] obtain e where
    "work_lookup s' = (work_lookup s)(resolution_target res \<mapsto> resolution_outcome res e)" by blast
  then show ?thesis
    using assms(2) by (intro work.fenced) auto
qed

lemma sample_complete_run:
  "mem_finalize (cw_complete (ClaimedExecutionWork sample_claimed) 5) sample_context
     sample_leased_store
   = (Inr (), put_execution (ExecutionId ''e1'')
        \<lparr>sx_record = er_mark_succeeded (ce_record sample_claimed) 5, sx_lease = None\<rparr>
        sample_leased_store)"
  by (simp add: ce_complete_def es_new_def es_with_expected_revision_def mem_resolve_defs
      resolve_execution_iff) (simp add: sample_leased_store_def sample_claimed_def sample_defs)

theorem mem_finalize_at_most_once_witness:
  "\<exists>err. mem_finalize (cw_complete (ClaimedExecutionWork sample_claimed) 6) sample_context
       (put_execution (ExecutionId ''e1'')
          \<lparr>sx_record = er_mark_succeeded (ce_record sample_claimed) 5, sx_lease = None\<rparr>
          sample_leased_store)
   = (Inl err, put_execution (ExecutionId ''e1'')
          \<lparr>sx_record = er_mark_succeeded (ce_record sample_claimed) 5, sx_lease = None\<rparr>
          sample_leased_store)"
  by (rule mem_finalize_at_most_once [OF sample_complete_run])
     (simp add: ce_complete_def es_new_def es_with_expected_revision_def)

text \<open>The resolutions a worker builds from its claim.\<close>

definition resolution_of :: "claimed_dispatch_work \<Rightarrow> dispatch_resolution \<Rightarrow> bool" where
  "resolution_of c res \<longleftrightarrow>
     (\<exists>t. res = cw_complete c t)
   \<or> (\<exists>t next err gen. cw_retry c t next err gen = Inr res)
   \<or> (\<exists>t err gen. cw_dead_letter c t err gen = Inr res)"

fun resolution_payload :: "dispatch_resolution \<Rightarrow> execution_record + outbox_message" where
  "resolution_payload (ExecutionCompleted r q) = Inl r"
| "resolution_payload (ExecutionRetried r q) = Inl r"
| "resolution_payload (ExecutionDeadLettered r q) = Inl r"
| "resolution_payload (OutboxCompleted m q) = Inr m"
| "resolution_payload (OutboxRetried m q) = Inr m"
| "resolution_payload (OutboxDeadLetteredWork m q) = Inr m"

fun entry_payload :: "work_entry \<Rightarrow> execution_record + outbox_message" where
  "entry_payload (ExecEntry e) = Inl (sx_record e)"
| "entry_payload (OutboxEntry e) = Inr (so_message e)"

lemmas resolution_record_defs = ce_complete_def co_complete_def ce_retry_def co_retry_def
  ce_dead_letter_def co_dead_letter_def es_new_def es_with_expected_revision_def os_new_def
  os_with_expected_revision_def ey_new_def ey_with_expected_revision_def oy_new_def
  oy_with_expected_revision_def ed_new_def ed_with_expected_revision_def od_new_def
  od_with_expected_revision_def

lemma resolution_of_facts:
  assumes "resolution_of c res" and "entry_ok (claimed_target c) e"
  shows "resolution_target res = claimed_target c"
    and "dr_lease_id res = dl_lease_id (cw_lease c)"
    and "resolution_revision res = Some (entry_revision (claimed_entry c e))"
    and "entry_payload (resolution_outcome res (claimed_entry c e)) = resolution_payload res"
  using assms
  by (cases c; cases e; auto simp: resolution_of_def resolution_record_defs split: if_splits)+

text \<open>
  Claim and resolve: work handed out by a claim can be completed, retried or dead-lettered by its
  worker as long as its entry has not changed since, and the record or message the store then holds is
  the one the worker computed; the lease is gone.
\<close>

theorem mem_claim_then_resolve:
  assumes "mem_reachable s" and ok: "mem_claim_due q ctx gen s = (Inr cs, s')" and c: "c \<in> set cs"
    and "resolution_of c res"
    and same: "work_lookup t (claimed_target c) = work_lookup s' (claimed_target c)"
  shows "\<exists>t' e. mem_finalize res ctx' t = (Inr (), t')
           \<and> work_lookup t' (claimed_target c) = Some e \<and> entry_lease e = None
           \<and> entry_payload e = resolution_payload res"
proof -
  note inv = mem_reachable_inv [OF assms(1)]
  from claim_due_each [OF inv ok c] obtain e where e: "work_lookup s (claimed_target c) = Some e"
    "entry_due e (dc_now q)" "work_lookup s' (claimed_target c) = Some (claimed_entry c e)" by blast
  note res = resolution_of_facts [OF assms(4) mem_inv_entry(1) [OF inv e(1)]]
  have "entry_lease (claimed_entry c e) = Some (cw_lease c)"
    by (rule claimed_entry_lease [OF e(2) inv e(1)])
  then obtain t' where "mem_finalize res ctx' t = (Inr (), t')"
    "work_lookup t' = (work_lookup t)(claimed_target c \<mapsto> resolution_outcome res (claimed_entry c e))"
    using work.resolve_accepts [of t res "claimed_entry c e" ctx'] res same e(3) by auto
  then show ?thesis using res(4) by auto
qed

theorem mem_claim_then_resolve_witness:
  "\<exists>t' e. mem_finalize (cw_complete (ClaimedExecutionWork sample_claimed) 5) sample_context
            sample_leased_store = (Inr (), t')
        \<and> work_lookup t' (ExecWork (ExecutionId ''e1'')) = Some e \<and> entry_lease e = None
        \<and> entry_payload e = Inl (er_mark_succeeded (ce_record sample_claimed) 5)"
proof -
  have target: "claimed_target (ClaimedExecutionWork sample_claimed) = ExecWork (ExecutionId ''e1'')"
    by (simp add: sample_claimed_def sample_defs)
  have payload: "resolution_payload (cw_complete (ClaimedExecutionWork sample_claimed) 5)
      = Inl (er_mark_succeeded (ce_record sample_claimed) 5)" by (simp add: ce_complete_def)
  have "resolution_of (ClaimedExecutionWork sample_claimed)
      (cw_complete (ClaimedExecutionWork sample_claimed) 5)"
    unfolding resolution_of_def by blast
  from mem_claim_then_resolve [OF sample_store_reachable
      sample_claim_run [where gen = "CorrelationId ''g''"] _ this refl, of sample_context]
  show ?thesis unfolding target payload by simp
qed

end
