(* ===== verification/Memory_Views.thy ===== *)
theory Memory_Views
  imports Memory_Properties
begin

text \<open>
  The read side of the in-memory store: \<open>select_due\<close> returns the first due items in order and misses
  none, the iteration order of the hash maps is not observable, and the inspection summaries agree with
  what the dispatcher would hand out.
\<close>

section \<open>Sorted prefixes\<close>

text \<open>A truncated sort: sorted, bounded, and what it leaves out comes later.\<close>

definition sorted_prefix :: "nat \<Rightarrow> ('a \<Rightarrow> 'k::linorder) \<Rightarrow> 'a set \<Rightarrow> 'a list \<Rightarrow> bool" where
  "sorted_prefix n f X ys \<longleftrightarrow>
     sorted (map f ys) \<and> set ys \<subseteq> X \<and> length ys \<le> n
   \<and> (\<forall>x \<in> X. x \<in> set ys \<or> length ys = n \<and> (\<forall>y \<in> set ys. f y \<le> f x))"

lemma sorted_prefix_take_sort: "sorted_prefix n f (set xs) (take n (sort_key f xs))"
  unfolding sorted_prefix_def
proof (intro conjI ballI)
  fix x
  assume x: "x \<in> set xs"
  show "x \<in> set (take n (sort_key f xs))
      \<or> length (take n (sort_key f xs)) = n \<and> (\<forall>y \<in> set (take n (sort_key f xs)). f y \<le> f x)"
  proof (cases "x \<in> set (take n (sort_key f xs))")
    case False
    with x have "n \<le> length xs"
      by (metis length_sort linorder_not_le order_less_imp_le set_sort take_all_iff)
    with False x sort_take_complete [OF x False] show ?thesis by auto
  qed simp
qed (auto simp: sorted_take_sort dest: in_set_takeD)

text \<open>
  \<open>select_due\<close> on the execution queue returns, in the order of availability, recording time and
  identifier, at most \<open>limit\<close> of the records that are due (expired in-flight records shown as pending),
  and a due record is left out only when the limit is reached and every returned record comes first.
\<close>

theorem mem_select_due_executions_spec:
  "\<exists>rs. mem_select_due_executions q ctx s = (Inr rs, s)
      \<and> sorted_prefix (der_limit q) execution_order
          {sx_materialize_due_record e (der_due_before q) | e i.
             (i, e) \<in> set (ms_records s)
           \<and> sx_is_due_at e (der_due_before q) (der_include_expired_leases q)}
          rs"
proof -
  let ?xs = "map (\<lambda>e. sx_materialize_due_record e (der_due_before q))
       (filter (\<lambda>e. sx_is_due_at e (der_due_before q) (der_include_expired_leases q))
         (hm_values (ms_records s)))"
  have "set ?xs = {sx_materialize_due_record e (der_due_before q) | e i.
        (i, e) \<in> set (ms_records s)
      \<and> sx_is_due_at e (der_due_before q) (der_include_expired_leases q)}" by force
  then show ?thesis
    using sorted_prefix_take_sort [of "der_limit q" execution_order ?xs]
    by (simp add: mem_select_due_executions_def selectable_due_records_def)
qed

text \<open>
  The same for the outbox, in the order of availability, last attempt and identifier.
\<close>

theorem mem_select_due_messages_spec:
  "\<exists>ms. mem_select_due_messages q ctx s = (Inr ms, s)
      \<and> sorted_prefix (dor_limit q) message_order
          {so_message e | e i.
             (i, e) \<in> set (ms_outbox s)
           \<and> so_is_due_at e (dor_due_before q) (dor_include_expired_leases q)}
          ms"
proof -
  let ?xs = "map so_materialize_due_message
       (filter (\<lambda>e. so_is_due_at e (dor_due_before q) (dor_include_expired_leases q))
         (hm_values (ms_outbox s)))"
  have "set ?xs = {so_message e | e i.
        (i, e) \<in> set (ms_outbox s)
      \<and> so_is_due_at e (dor_due_before q) (dor_include_expired_leases q)}"
    by (force simp: so_materialize_due_message_def)
  then show ?thesis
    using sorted_prefix_take_sort [of "dor_limit q" message_order ?xs]
    by (simp add: mem_select_due_messages_def selectable_due_messages_def)
qed

section \<open>Iteration order is not observable\<close>

definition mem_same :: "mem_state \<Rightarrow> mem_state \<Rightarrow> bool" where
  "mem_same s t \<longleftrightarrow>
     hm_same (ms_records s) (ms_records t) \<and> hm_same (ms_outbox s) (ms_outbox t)
   \<and> hm_same (ms_heartbeats s) (ms_heartbeats t)
   \<and> ms_next_lease_sequence s = ms_next_lease_sequence t"

lemma hm_same_insert: "hm_same m m' \<Longrightarrow> hm_same (hm_insert k v m) (hm_insert k v m')"
  by (simp add: hm_same_def hm_get_insert_fun)

lemma mem_same_put:
  "mem_same s t \<Longrightarrow> mem_same (put_execution i e s) (put_execution i e t)"
  "mem_same s t \<Longrightarrow> mem_same (put_outbox j m s) (put_outbox j m t)"
  "mem_same s t \<Longrightarrow> mem_same (s\<lparr>ms_next_lease_sequence := n\<rparr>) (t\<lparr>ms_next_lease_sequence := n\<rparr>)"
  by (simp_all add: mem_same_def hm_same_insert)

lemma mem_same_get:
  "mem_same s t \<Longrightarrow> hm_get (ms_records s) i = hm_get (ms_records t) i"
  "mem_same s t \<Longrightarrow> hm_get (ms_outbox s) j = hm_get (ms_outbox t) j"
  by (simp_all add: mem_same_def hm_same_def)

lemma values_same_filtered:
  assumes "hm_same m m'"
  shows "mset (map g (filter P (hm_values m))) = mset (map g (filter P (hm_values m')))"
  using hm_same_values [OF assms] by (simp only: mset_map mset_filter)

lemma selectable_same:
  assumes inv: "mem_inv s" and same: "mem_same s t"
  shows "selectable_due_records s q = selectable_due_records t q"
    and "selectable_due_messages s q' = selectable_due_messages t q'"
proof -
  have d: "distinct (map (er_id \<circ> sx_record) (hm_values (ms_records s)))"
    "distinct (map (om_id \<circ> so_message) (hm_values (ms_outbox s)))"
    using inv record_keys [OF inv] by (simp_all add: mem_inv_def hm_wf_def del: map_map)
  have i: "inj_on execution_order (set (map (\<lambda>e. sx_materialize_due_record e (der_due_before q))
       (filter (\<lambda>e. sx_is_due_at e (der_due_before q) (der_include_expired_leases q))
         (hm_values (ms_records s)))))"
    using d(1) by (auto simp: inj_on_def execution_order_def distinct_map)
  have j: "inj_on message_order (set (map so_materialize_due_message
       (filter (\<lambda>e. so_is_due_at e (dor_due_before q') (dor_include_expired_leases q'))
         (hm_values (ms_outbox s)))))"
    using d(2) by (auto simp: inj_on_def message_order_def distinct_map so_materialize_due_message_def)
  show "selectable_due_records s q = selectable_due_records t q"
    unfolding selectable_due_records_def
    by (rule arg_cong [OF sort_key_order_free [OF values_same_filtered i]])
       (use same in \<open>simp add: mem_same_def\<close>)
  show "selectable_due_messages s q' = selectable_due_messages t q'"
    unfolding selectable_due_messages_def
    by (rule arg_cong [OF sort_key_order_free [OF values_same_filtered j]])
       (use same in \<open>simp add: mem_same_def\<close>)
qed

lemma claim_executions_same:
  "mem_same s t \<Longrightarrow>
   fst (claim_executions q ctx is acc s) = fst (claim_executions q ctx is acc t)
   \<and> mem_same (snd (claim_executions q ctx is acc s)) (snd (claim_executions q ctx is acc t))"
proof (induction "is" arbitrary: acc s t)
  case (Cons i "is")
  have seq: "ms_next_lease_sequence t = ms_next_lease_sequence s" using Cons.prems by (simp add: mem_same_def)
  have get: "hm_get (ms_records t) i = hm_get (ms_records s) i" using mem_same_get(1) [OF Cons.prems] by simp
  note same1 = mem_same_put(3) [OF Cons.prems, of "saturating_inc (ms_next_lease_sequence s)"]
  show ?case
    using same1 Cons.IH [OF mem_same_put(1) [OF same1]]
    by (auto simp: next_lease_id_eq Let_def seq get split: option.split sum.split)
qed simp

lemma lease_messages_same:
  "mem_same s t \<Longrightarrow>
   fst (lease_messages q ctx gen is acc s) = fst (lease_messages q ctx gen is acc t)
   \<and> mem_same (snd (lease_messages q ctx gen is acc s)) (snd (lease_messages q ctx gen is acc t))"
proof (induction "is" arbitrary: acc s t)
  case (Cons i "is")
  have seq: "ms_next_lease_sequence t = ms_next_lease_sequence s" using Cons.prems by (simp add: mem_same_def)
  have get: "hm_get (ms_outbox t) i = hm_get (ms_outbox s) i" using mem_same_get(2) [OF Cons.prems] by simp
  note same1 = mem_same_put(3) [OF Cons.prems, of "saturating_inc (ms_next_lease_sequence s)"]
  show ?case
    using same1 Cons.IH [OF mem_same_put(2) [OF same1]]
    by (auto simp: next_lease_id_eq Let_def seq get split: option.split sum.split)
qed simp

text \<open>
  The order in which the hash maps iterate cannot be observed: two representations of the same
  maps answer a claim with the same work and leases (or the same error) and stay representations of the
  same maps.
\<close>

theorem mem_claim_order_free:
  assumes "mem_reachable s" and same: "mem_same s t"
  shows "fst (mem_claim_due q ctx gen s) = fst (mem_claim_due q ctx gen t)
       \<and> mem_same (snd (mem_claim_due q ctx gen s)) (snd (mem_claim_due q ctx gen t))"
proof -
  note inv = mem_reachable_inv [OF assms(1)]
  have ids: "find_claimable_ids t r = find_claimable_ids s r"
    "find_claimable_message_ids t r' = find_claimable_message_ids s r'" for r r'
    using selectable_same [OF inv same]
    by (simp_all add: find_claimable_ids_def find_claimable_message_ids_def Let_def)
  show ?thesis
  proof (cases "dc_queue q")
    case Execution
    with claim_executions_same [OF same, of "claim_exec_request q" ctx
        "find_claimable_ids s (claim_exec_request q)" "[]"]
    show ?thesis
      by (simp add: mem_claim_due_execution mem_claim_available_def ids op_map_def case_prod_unfold)
  next
    case Outbox
    with lease_messages_same [OF same, of "claim_outbox_request q" ctx gen
        "find_claimable_message_ids s (claim_outbox_request q)" "[]"]
    show ?thesis
      by (simp add: mem_claim_due_outbox mem_lease_available_def ids op_map_def case_prod_unfold)
  qed
qed

definition two_records :: mem_state where
  "two_records =
     snd (mem_append (sample_record\<lparr>er_id := ExecutionId ''e2''\<rparr>) sample_context
            (snd (mem_append sample_record sample_context mem_new)))"

theorem mem_claim_order_free_witness:
  "fst (mem_claim_due (sample_claim Execution ''w1'' 3) sample_context (CorrelationId ''c'') two_records)
   = fst (mem_claim_due (sample_claim Execution ''w1'' 3) sample_context (CorrelationId ''c'')
            (two_records\<lparr>ms_records := rev (ms_records two_records)\<rparr>))"
proof -
  have reach: "mem_reachable two_records"
    unfolding two_records_def
    by (rule mem_reachable.step [OF mem_reachable.step [OF mem_reachable.init mem_step.Append]
          mem_step.Append])
  have "map fst (ms_records two_records) = [ExecutionId ''e1'', ExecutionId ''e2'']"
    by (simp add: two_records_def mem_append_def mem_new_def put_execution_def sample_defs)
  then have "distinct (map fst (ms_records two_records))" by simp
  then have "mem_same two_records (two_records\<lparr>ms_records := rev (ms_records two_records)\<rparr>)"
    by (simp add: mem_same_def hm_same_def hm_wf_def map_of_inject_set rev_map [symmetric])
      (simp add: two_records_def mem_append_def mem_new_def put_execution_def)
  from mem_claim_order_free [OF reach this] show ?thesis by blast
qed

section \<open>Summaries agree with the dispatcher\<close>

lemma foldl_bump:
  "n \<le> usize_max \<Longrightarrow>
   foldl (\<lambda>a x. bump_if (P x) a) n xs = min (n + length (filter P xs)) usize_max"
proof (induction xs arbitrary: n)
  case (Cons x xs)
  have "bump_if (P x) n \<le> usize_max"
    using Cons.prems by (simp add: bump_if_def usize_saturating_inc_bound)
  with Cons.IH show ?case by (auto simp: bump_if_def usize_saturating_inc_def min_def)
qed simp

lemma foldl_min_opt_Some:
  "foldl (\<lambda>a x. if P x then min_opt a (f x) else a) (Some b) xs
   = Some (fold min (map f (filter P xs)) b)"
  by (induction xs arbitrary: b) (auto simp: min_opt_def min.commute)

lemma foldl_min_opt:
  "foldl (\<lambda>a x. if P x then min_opt a (f x) else a) None xs = iter_min (map f (filter P xs))"
  by (induction xs) (auto simp: min_opt_def foldl_min_opt_Some)

lemma eis_fields:
  "eis_total (foldl (\<lambda>a x. eis_observe_record a (g x) t) i xs) =
     foldl (\<lambda>a x. bump_if True a) (eis_total i) xs"
  "eis_pending (foldl (\<lambda>a x. eis_observe_record a (g x) t) i xs) =
     foldl (\<lambda>a x. bump_if (er_status (eir_record (g x)) = Pending) a) (eis_pending i) xs"
  "eis_in_flight (foldl (\<lambda>a x. eis_observe_record a (g x) t) i xs) =
     foldl (\<lambda>a x. bump_if (er_status (eir_record (g x)) = InFlight) a) (eis_in_flight i) xs"
  "eis_succeeded (foldl (\<lambda>a x. eis_observe_record a (g x) t) i xs) =
     foldl (\<lambda>a x. bump_if (er_status (eir_record (g x)) = Succeeded) a) (eis_succeeded i) xs"
  "eis_failed (foldl (\<lambda>a x. eis_observe_record a (g x) t) i xs) =
     foldl (\<lambda>a x. bump_if (er_status (eir_record (g x)) = Failed) a) (eis_failed i) xs"
  "eis_dead_lettered (foldl (\<lambda>a x. eis_observe_record a (g x) t) i xs) =
     foldl (\<lambda>a x. bump_if (er_status (eir_record (g x)) = DeadLettered) a) (eis_dead_lettered i) xs"
  "eis_due (foldl (\<lambda>a x. eis_observe_record a (g x) t) i xs) =
     foldl (\<lambda>a x. bump_if (eir_is_due_at (g x) t) a) (eis_due i) xs"
  "eis_oldest_due_at (foldl (\<lambda>a x. eis_observe_record a (g x) t) i xs) =
     foldl (\<lambda>a x. if eir_is_due_at (g x) t then min_opt a (er_available_at (eir_record (g x))) else a)
       (eis_oldest_due_at i) xs"
  by (induction xs arbitrary: i; simp add: eis_observe_record_def bump_if_def)+

lemma ois_fields:
  "ois_total (foldl (\<lambda>a x. ois_observe a (g x) t) i xs) = foldl (\<lambda>a x. bump_if True a) (ois_total i) xs"
  "ois_due (foldl (\<lambda>a x. ois_observe a (g x) t) i xs) =
     foldl (\<lambda>a x. bump_if (oir_is_due_at (g x) t) a) (ois_due i) xs"
  "ois_oldest_due_at (foldl (\<lambda>a x. ois_observe a (g x) t) i xs) =
     foldl (\<lambda>a x. if oir_is_due_at (g x) t then min_opt a (om_available_at (oir_message (g x))) else a)
       (ois_oldest_due_at i) xs"
  by (induction xs arbitrary: i; simp add: ois_observe_def bump_if_def)+

text \<open>The inspector's notion of due work is the dispatcher's.\<close>

lemma inspection_due_execution: "eir_is_due_at (sx_inspection_record e) t = sx_is_due_at e t True"
  by (auto simp: eir_is_due_at_def sx_inspection_record_def sx_is_due_at_def eir_has_active_lease_at_def
      split: option.splits)

lemma inspection_due_outbox:
  assumes "mem_inv s" and "(i, e) \<in> set (ms_outbox s)"
  shows "oir_is_due_at (so_inspection_record e t) t = so_is_due_at e t True"
proof -
  have "hm_get (ms_outbox s) i = Some e" using assms by (simp add: mem_inv_def hm_get_iff)
  from mem_inv_outbox(1) [OF assms(1) this] show ?thesis
    by (auto simp: oir_is_due_at_def so_inspection_record_def oir_with_last_error_def
        oir_with_dead_lettered_at_def oir_with_delivered_at_def oir_with_lease_def oir_new_def
        so_inspection_status_at_def so_is_due_at_def split: option.splits outbox_message_status.splits)
qed

text \<open>
  The execution summary agrees with the dispatcher: without filters it counts every record once,
  the five status counts add up to the total, and its due count and oldest due time are exactly those
  of the work \<open>select_due\<close> would hand out (counts capped at \<open>usize::MAX\<close>).
\<close>

theorem mem_summarize_executions_spec:
  assumes "length (ms_records s) \<le> usize_max"
  shows "let summary = mem_summarize_executions s (eiq_new limit t)
     in eis_total summary = length (ms_records s)
      \<and> eis_pending summary + eis_in_flight summary + eis_succeeded summary + eis_failed summary
          + eis_dead_lettered summary = length (ms_records s)
      \<and> eis_due summary = due_execution_count s t
      \<and> eis_oldest_due_at summary = oldest_due_execution_at s t"
proof -
  define xs where "xs = hm_values (ms_records s)"
  have len: "length xs = length (ms_records s)" by (simp add: xs_def)
  have all: "filter (query_matches_execution (eiq_new limit t)) xs = xs"
    by (rule filter_True) (simp add: query_matches_execution_def eiq_new_def matches_opt_def)
  have le: "min (length (filter P xs)) usize_max = length (filter P xs)" for P
    using length_filter_le [of P xs] assms len by simp
  have part: "length (filter (\<lambda>e. er_status (sx_record e) = Pending) zs)
      + length (filter (\<lambda>e. er_status (sx_record e) = InFlight) zs)
      + length (filter (\<lambda>e. er_status (sx_record e) = Succeeded) zs)
      + length (filter (\<lambda>e. er_status (sx_record e) = Failed) zs)
      + length (filter (\<lambda>e. er_status (sx_record e) = DeadLettered) zs) = length zs" for zs
    by (induction zs) (auto, metis execution_record_status.exhaust)
  have rec: "eir_record (sx_inspection_record e) = sx_record e" for e
    by (simp add: sx_inspection_record_def)
  have obs: "eiq_observed_at (eiq_new limit t) = t" by (simp add: eiq_new_def)
  show ?thesis
    unfolding Let_def mem_summarize_executions_def xs_def [symmetric] all obs
    using part [of xs] len assms
    by (simp add: eis_fields foldl_bump foldl_min_opt eis_default_def le rec
        inspection_due_execution due_execution_count_def oldest_due_execution_at_def
        xs_def [symmetric] comp_def)
qed

theorem mem_summarize_executions_spec_witness:
  "eis_due (mem_summarize_executions sample_leased_store (eiq_new 5 20)) = 1
   \<and> eis_total (mem_summarize_executions sample_leased_store (eiq_new 5 20)) = 1"
proof -
  have one: "length (ms_records sample_leased_store) = 1" by (simp add: sample_leased_store_def)
  then have "length (ms_records sample_leased_store) \<le> usize_max" by (simp add: usize_max_def)
  moreover have "due_execution_count sample_leased_store 20 = 1"
    by (simp add: due_execution_count_def sample_leased_store_def sample_claimed_def sx_is_due_at_def
        sample_lease_def sample_defs el_is_expired_at_def add_or_keep_def checked_add_def
        system_time_max_def)
  ultimately show ?thesis
    using mem_summarize_executions_spec [of sample_leased_store 5 20] one by (simp add: Let_def)
qed

text \<open>
  The outbox summary agrees with the dispatcher on every reachable state: it counts every message,
  and its due count and oldest due time are those of the messages \<open>select_due\<close> would hand out, although
  it derives them from the inspection status, which shows an expired in-flight message as pending.
\<close>

theorem mem_summarize_outbox_spec:
  assumes "mem_reachable s" and "length (ms_outbox s) \<le> usize_max"
  shows "let summary = mem_summarize_outbox s (oiq_new limit t)
     in ois_total summary = length (ms_outbox s)
      \<and> ois_due summary = due_outbox_count s t
      \<and> ois_oldest_due_at summary = oldest_due_outbox_at s t"
proof -
  note inv = mem_reachable_inv [OF assms(1)]
  define xs where "xs = hm_values (ms_outbox s)"
  have len: "length xs = length (ms_outbox s)" by (simp add: xs_def)
  have all: "filter (query_matches_outbox (oiq_new limit t)) xs = xs"
    by (rule filter_True) (simp add: query_matches_outbox_def oiq_new_def matches_opt_def)
  have le: "min (length (filter P xs)) usize_max = length (filter P xs)" for P
    using length_filter_le [of P xs] assms len by simp
  have due: "filter (\<lambda>e. oir_is_due_at (so_inspection_record e t) t) xs
      = filter (\<lambda>e. so_is_due_at e t True) xs"
    by (rule filter_cong) (auto simp: xs_def inspection_due_outbox [OF inv])
  have rec: "oir_message (so_inspection_record e t) = so_message e" for e
    by (simp add: so_inspection_record_def oir_with_last_error_def oir_with_dead_lettered_at_def
        oir_with_delivered_at_def oir_with_lease_def oir_new_def)
  have obs: "oiq_observed_at (oiq_new limit t) = t" by (simp add: oiq_new_def)
  show ?thesis
    unfolding Let_def mem_summarize_outbox_def xs_def [symmetric] all obs
    using len assms
    by (simp add: ois_fields foldl_bump foldl_min_opt ois_default_def le rec due
        due_outbox_count_def oldest_due_outbox_at_def xs_def [symmetric] comp_def)
qed

theorem mem_summarize_outbox_spec_witness:
  "ois_due (mem_summarize_outbox sample_store (oiq_new 5 3)) = 1"
proof -
  have "length (ms_outbox sample_store) \<le> usize_max" by (simp add: sample_store_eq usize_max_def)
  from mem_summarize_outbox_spec [OF sample_store_reachable this, of 5 3] show ?thesis
    by (simp add: Let_def due_outbox_count_def sample_store_eq so_is_due_at_def sample_defs)
qed

end
