(* ===== verification/Memory_Recovery.thy ===== *)
theory Memory_Recovery
  imports Memory_Properties
begin

text \<open>
  Losing, renewing and recovering leases on the in-memory store: fencing of a worker whose work was
  given to another, renewal on every branch, recovery of expired leases with its counts, when a claim
  is guaranteed to succeed and what a failing batch leaves behind, terminal outbox messages, and the
  attempt counter under worker crashes.
\<close>

section \<open>Stale workers\<close>

lemma claimed_lease_stored:
  assumes "mem_inv s" and "mem_claim_due q ctx gen s = (Inr cs, s')" and "c \<in> set cs"
  shows "work_lease s' (claimed_target c) = Some (cw_lease c)"
proof -
  from claim_due_each [OF assms] obtain e where "work_lookup s (claimed_target c) = Some e"
    "entry_due e (dc_now q)" "work_lookup s' (claimed_target c) = Some (claimed_entry c e)" by blast
  with claimed_entry_lease [OF _ assms(1)] show ?thesis by (simp add: work_lease_def)
qed

lemma reclaimed_lease_differs:
  assumes inv: "mem_inv s" and a: "mem_claim_due qa ctxa ga s = (Inr as, s1)" "a \<in> set as"
    and steps: "mem_step\<^sup>*\<^sup>* s1 s2"
    and b: "mem_claim_due qb ctxb gb s2 = (Inr bs, s3)" "b \<in> set bs"
    and sat: "ms_next_lease_sequence s3 \<noteq> - 1"
  shows "dl_lease_id (cw_lease b) \<noteq> dl_lease_id (cw_lease a)"
proof -
  have inv1: "mem_inv s1" using mem_step_inv [OF mem_claim_due_step inv] a(1) by (metis snd_conv)
  have inv2: "mem_inv s2" by (rule mem_steps_inv [OF steps inv1])
  have inv3: "mem_inv s3" using mem_step_inv [OF mem_claim_due_step inv2] b(1) by (metis snd_conv)
  have "lease_ok (ms_next_lease_sequence s1) (cw_lease a)"
    "lease_ok (ms_next_lease_sequence s3) (cw_lease b)"
    using claimed_lease_stored [OF inv a] claimed_lease_stored [OF inv2 b] inv1 inv3
    by (auto simp: mem_inv_def)
  then obtain ka kb where
    ka: "ka \<le> ms_next_lease_sequence s1" "dl_lease_id (cw_lease a) = LeaseId (lease_text ka)"
    and kb: "kb \<le> ms_next_lease_sequence s3" "dl_lease_id (cw_lease b) = LeaseId (lease_text kb)"
    by (auto simp: lease_ok_def lease_issued_def)
  from claim_due_each [OF inv2 b] obtain n where
    n: "n \<in> set (lease_numbers (ms_next_lease_sequence s2) (length bs))" "lease_granted qb n (cw_lease b)"
    by blast
  with kb have "n = kb" by (simp add: lease_granted_def)
  moreover have "kb \<noteq> - 1" using kb(1) sat by (metis word_order.extremum_unique)
  ultimately have "ms_next_lease_sequence s2 < kb" using lease_numbers_bound n(1) by blast
  with ka(1) mem_steps_seq [OF steps] have "ka < kb" by simp
  with ka(2) kb(2) show ?thesis by simp
qed

text \<open>
  (C6) A stale worker is fenced: when worker A's work is later claimed again by B, after whatever
  happened in between, any resolution A presents under its old lease is refused and changes nothing
  (until the 64-bit lease counter saturates).
\<close>

theorem mem_stale_worker_fenced:
  assumes "mem_reachable s" and a: "mem_claim_due qa ctxa ga s = (Inr as, s1)" "a \<in> set as"
    and "mem_step\<^sup>*\<^sup>* s1 s2"
    and b: "mem_claim_due qb ctxb gb s2 = (Inr bs, s3)" "b \<in> set bs"
    and "claimed_target b = claimed_target a" and "ms_next_lease_sequence s3 \<noteq> - 1"
    and "resolution_target res = claimed_target a" and "dr_lease_id res = dl_lease_id (cw_lease a)"
  shows "\<exists>err. mem_finalize res ctx s3 = (Inl err, s3)"
proof (rule work.fenced)
  note inv = mem_reachable_inv [OF assms(1)]
  have inv2: "mem_inv s2"
    using mem_steps_inv [OF assms(4)] mem_step_inv [OF mem_claim_due_step inv] a(1) by (metis snd_conv)
  fix e
  assume "work_lookup s3 (resolution_target res) = Some e"
  then have "entry_lease e = Some (cw_lease b)"
    using claimed_lease_stored [OF inv2 b] assms(7,9) by (simp add: work_lease_def)
  then show "map_option dl_lease_id (entry_lease e) \<noteq> Some (dr_lease_id res)"
    using reclaimed_lease_differs [OF inv a assms(4) b assms(8)] assms(10) by simp
qed

definition sample_reclaimed :: claimed_execution where
  "sample_reclaimed =
     \<lparr>ce_record = er_mark_claimed (er_with_status (er_mark_claimed sample_record 3) Pending) 20,
      ce_lease = sample_lease ''w2'' 2 20\<rparr>"

definition sample_reclaimed_store :: mem_state where
  "sample_reclaimed_store =
     \<lparr>ms_records = [(ExecutionId ''e1'',
        \<lparr>sx_record = ce_record sample_reclaimed, sx_lease = Some (ce_lease sample_reclaimed)\<rparr>)],
      ms_outbox = ms_outbox sample_store, ms_heartbeats = [], ms_next_lease_sequence = 2\<rparr>"

lemma sample_reclaim_run:
  "mem_claim_due (sample_claim Execution ''w2'' 20) sample_context gen sample_leased_store =
     (Inr [ClaimedExecutionWork sample_reclaimed], sample_reclaimed_store)"
  by (simp add: sample_claim_def dc_at_def dc_new_def mem_claim_due_execution claim_exec_request_def
      op_map_def mem_claim_available_def find_claimable_ids_def selectable_due_records_def
      sample_leased_store_def sample_claimed_def sample_store_eq sx_is_due_at_def
      sx_materialize_due_record_def der_at_def der_new_def der_with_expired_leases_def
      next_lease_id_eq ce_claim_def put_execution_def sample_reclaimed_def er_with_status_def
      er_mark_claimed_def sample_lease_def sample_defs el_is_expired_at_def add_or_keep_def
      checked_add_def system_time_max_def sample_reclaimed_store_def saturating_inc_def Let_def)

theorem mem_stale_worker_fenced_witness:
  "\<exists>err. mem_finalize (cw_complete (ClaimedExecutionWork sample_claimed) 21) sample_context
       sample_reclaimed_store = (Inl err, sample_reclaimed_store)"
  by (rule mem_stale_worker_fenced [OF sample_store_reachable sample_claim_run _ rtranclp.rtrancl_refl
        sample_reclaim_run, of "ClaimedExecutionWork sample_claimed"
        "ClaimedExecutionWork sample_reclaimed"])
     (simp_all add: ce_complete_def es_new_def es_with_expected_revision_def sample_reclaimed_store_def
       sample_reclaimed_def sample_claimed_def er_with_status_def er_mark_claimed_def)

section \<open>When a claim succeeds\<close>

text \<open>
  A journal entry that is in flight without a lease, as \<open>append\<close> and \<open>update\<close> can store one: it is
  selected as due but cannot be claimed.
\<close>

definition orphaned :: "stored_execution \<Rightarrow> bool" where
  "orphaned e \<longleftrightarrow> er_status (sx_record e) = InFlight \<and> sx_lease e = None"

lemma due_claimable:
  assumes "sx_is_due_at e now True"
  shows "er_available_at (sx_record e) \<le> now"
    and "\<not> orphaned e \<Longrightarrow> er_status (sx_materialize_due_record e now) \<in> {Pending, Failed}"
    and "orphaned e \<Longrightarrow> er_status (sx_materialize_due_record e now) = InFlight"
  using assms
  by (auto simp: sx_is_due_at_def sx_materialize_due_record_def orphaned_def er_with_status_def
      split: if_splits option.splits)

text \<open>
  (C7) Progress: on every reachable state a claim with a named worker succeeds on the outbox, and it
  succeeds on the execution queue whenever no stored execution is in flight without a lease.
\<close>

theorem mem_claim_succeeds:
  assumes "mem_reachable s" and named: "\<not> is_blank (dc_worker_id q)"
    and clean: "dc_queue q = Outbox
                \<or> (\<forall>i e. hm_get (ms_records s) i = Some e \<longrightarrow> \<not> orphaned e)"
  shows "\<exists>cs s'. mem_claim_due q ctx gen s = (Inr cs, s')"
proof (cases "dc_queue q")
  case Execution
  note inv = mem_reachable_inv [OF assms(1)]
  let ?q = "claim_exec_request q"
  have "\<exists>cs s'. claim_executions ?q ctx (find_claimable_ids s ?q) [] s = (Inr ([] @ cs), s')"
  proof (rule ex_batch.loop_succeeds [OF find_claimable_facts(1) [OF inv]])
    fix i n
    assume "i \<in> set (find_claimable_ids s ?q)"
    from find_claimable_facts(3) [OF inv this] obtain e where
      e: "hm_get (ms_records s) i = Some e" "sx_is_due_at e (dc_now q) True"
      by (auto simp: claim_exec_request_def)
    with clean Execution have "\<not> orphaned e" by auto
    with due_claimable [OF e(2)] named e(1)
    show "\<exists>e c. hm_get (ms_records s) i = Some e \<and> grant_execution ?q e n = Some c"
      by (auto simp: grant_execution_Some claim_exec_request_def)
  qed
  with Execution show ?thesis
    by (auto simp: mem_claim_due_execution op_map_def mem_claim_available_def)
next
  case Outbox
  note inv = mem_reachable_inv [OF assms(1)]
  let ?q = "claim_outbox_request q"
  have "\<exists>cs s'. lease_messages ?q ctx gen (find_claimable_message_ids s ?q) [] s = (Inr ([] @ cs), s')"
  proof (rule ob_batch.loop_succeeds [OF find_claimable_facts(2) [OF inv]])
    fix i n
    assume "i \<in> set (find_claimable_message_ids s ?q)"
    from find_claimable_facts(4) [OF inv this] named
    show "\<exists>e c. hm_get (ms_outbox s) i = Some e \<and> grant_message ?q e n = Some c"
      by (auto simp: grant_message_Some claim_outbox_request_def so_is_due_at_def split: if_splits)
  qed
  with Outbox show ?thesis
    by (auto simp: mem_claim_due_outbox op_map_def mem_lease_available_def)
qed

theorem mem_claim_succeeds_witness:
  "\<exists>cs s'. mem_claim_due (sample_claim Execution ''w1'' 3) sample_context (CorrelationId ''g'')
     sample_store = (Inr cs, s')"
  by (rule mem_claim_succeeds [OF sample_store_reachable])
     (auto simp: sample_claim_def dc_at_def dc_new_def sample_store_eq orphaned_def sample_defs)

definition orphan_record :: execution_record where
  "orphan_record = sample_record\<lparr>er_id := ExecutionId ''e2'', er_status := InFlight\<rparr>"

definition orphan_store :: mem_state where
  "orphan_store = snd (mem_append orphan_record sample_context
                         (snd (mem_append sample_record sample_context mem_new)))"

lemma orphan_store_eq:
  "orphan_store =
     \<lparr>ms_records = [(ExecutionId ''e1'', \<lparr>sx_record = sample_record, sx_lease = None\<rparr>),
                    (ExecutionId ''e2'', \<lparr>sx_record = orphan_record, sx_lease = None\<rparr>)],
      ms_outbox = [], ms_heartbeats = [], ms_next_lease_sequence = 0\<rparr>"
  by (simp add: orphan_store_def mem_append_def mem_new_def put_execution_def orphan_record_def
      sample_defs)

lemma orphan_order: "ExecutionId ''e1'' \<le> ExecutionId ''e2''"
  by (simp add: less_eq_execution_id_def)

text \<open>
  A failing batch is not rolled back: on a reachable store with one pending record and one
  in-flight record without a lease, the claim reports \<open>execution_already_claimed\<close>, yet the pending
  record is left leased to the worker, which never learns of it.
\<close>

theorem mem_claim_batch_not_atomic:
  "mem_reachable orphan_store
   \<and> work_lease orphan_store (ExecWork (ExecutionId ''e1'')) = None
   \<and> (\<exists>err s'. mem_claim_due (sample_claim Execution ''w1'' 3) sample_context gen orphan_store
                = (Inl err, s')
        \<and> ae_code err = ''execution_already_claimed''
        \<and> work_lease s' (ExecWork (ExecutionId ''e1''))
            = Some (ExecutionLease (sample_lease ''w1'' 1 3)))"
proof (intro conjI)
  show "mem_reachable orphan_store"
    unfolding orphan_store_def
    by (rule mem_reachable.step [OF mem_reachable.step [OF mem_reachable.init mem_step.Append]
          mem_step.Append])
  show "work_lease orphan_store (ExecWork (ExecutionId ''e1'')) = None"
    by (simp add: work_lease_def orphan_store_eq)
  have "find_claimable_ids orphan_store (claim_exec_request (sample_claim Execution ''w1'' 3))
      = [ExecutionId ''e1'', ExecutionId ''e2'']"
    by (simp add: find_claimable_ids_def selectable_due_records_def orphan_store_eq
        claim_exec_request_def sample_claim_def dc_at_def dc_new_def sx_is_due_at_def
        sx_materialize_due_record_def der_at_def der_new_def der_with_expired_leases_def
        execution_order_def orphan_record_def sample_defs orphan_order)
  then show "\<exists>err s'. mem_claim_due (sample_claim Execution ''w1'' 3) sample_context gen orphan_store
                = (Inl err, s')
        \<and> ae_code err = ''execution_already_claimed''
        \<and> work_lease s' (ExecWork (ExecutionId ''e1''))
            = Some (ExecutionLease (sample_lease ''w1'' 1 3))"
    by (simp add: mem_claim_due_execution mem_claim_available_def op_map_def orphan_store_eq
        next_lease_id_eq Let_def claim_exec_request_def sample_claim_def dc_at_def dc_new_def
        sx_materialize_due_record_def ce_claim_def orphan_record_def sample_defs put_execution_def
        saturating_inc_def app_error_defs work_lease_def sample_lease_def)
qed

section \<open>Renewal\<close>

fun renewal_target :: "dispatch_lease_renewal \<Rightarrow> work_id" where
  "renewal_target (ExecutionRenewal q) = ExecWork (eln_execution_id q)"
| "renewal_target (OutboxRenewal q) = OutboxWork (oln_message_id q)"

fun with_lease :: "dispatch_lease \<Rightarrow> work_entry \<Rightarrow> work_entry" where
  "with_lease (ExecutionLease l) (ExecEntry e) = ExecEntry (e\<lparr>sx_lease := Some l\<rparr>)"
| "with_lease (OutboxLease l) (OutboxEntry e) = OutboxEntry (e\<lparr>so_lease := Some l\<rparr>)"
| "with_lease _ e = e"

definition renewable :: "dispatch_lease_renewal \<Rightarrow> work_entry \<Rightarrow> bool" where
  "renewable q e \<longleftrightarrow>
     \<not> is_blank (dn_leased_by q) \<and> dn_lease_ttl q \<noteq> 0
   \<and> (case entry_lease e of None \<Rightarrow> False
      | Some l \<Rightarrow> dl_lease_id l = dn_lease_id q \<and> dl_leased_by l = dn_leased_by q
                \<and> \<not> dl_is_expired_at l (dn_renewed_at q))"

text \<open>
  Renewal on every branch: it succeeds exactly when a named owner with a positive duration
  presents the identifier of its own lease before that lease has expired; the new lease keeps
  identifier and owner and runs from the renewal time, and only that entry's lease changes. Otherwise
  the store is unchanged.
\<close>

theorem mem_renew_claim_spec:
  "case mem_renew_claim q ctx s of
     (Inr l', s') \<Rightarrow>
       (\<exists>e. work_lookup s (renewal_target q) = Some e \<and> renewable q e
          \<and> l' = dn_renewed_lease q
          \<and> work_lookup s' = (work_lookup s)(renewal_target q \<mapsto> with_lease l' e))
   | (Inl _, s') \<Rightarrow> s' = s
       \<and> \<not> (\<exists>e. work_lookup s (renewal_target q) = Some e \<and> renewable q e)"
proof (cases q)
  case (ExecutionRenewal x)
  then show ?thesis
    by (auto simp: op_map_def mem_renew_execution_lease_def eln_validate_def renewable_def
        split: option.splits)
next
  case (OutboxRenewal x)
  then show ?thesis
    by (auto simp: op_map_def mem_renew_outbox_lease_def oln_validate_def renewable_def
        split: option.splits)
qed

section \<open>Recovery of expired leases\<close>

definition recovery_targets :: "mem_state \<Rightarrow> expired_lease_recovery_request \<Rightarrow> work_id list" where
  "recovery_targets s q =
     (case xr_queue q of
        Execution \<Rightarrow> map ExecWork (expired_execution_ids s q)
      | Outbox \<Rightarrow> map OutboxWork (expired_outbox_ids s q))"

fun entry_attempts :: "work_entry \<Rightarrow> u32" where
  "entry_attempts (ExecEntry e) = er_attempt (sx_record e)"
| "entry_attempts (OutboxEntry e) = om_attempts (so_message e)"

definition exhausted :: "expired_lease_recovery_request \<Rightarrow> work_entry \<Rightarrow> bool" where
  "exhausted q e \<longleftrightarrow> xr_max_attempts q \<le> entry_attempts e"

text \<open>What recovery makes of an entry whose lease has expired.\<close>

fun recovered_entry :: "expired_lease_recovery_request \<Rightarrow> work_entry \<Rightarrow> work_entry" where
  "recovered_entry q (ExecEntry e) =
     ExecEntry \<lparr>sx_record =
       (if exhausted q (ExecEntry e)
        then er_mark_dead_lettered (sx_record e) (xr_now q) ''lease expired beyond retry limit''
        else er_release_claim (sx_record e) (xr_now q)), sx_lease = None\<rparr>"
| "recovered_entry q (OutboxEntry e) =
     OutboxEntry
       (if exhausted q (OutboxEntry e)
        then e\<lparr>so_status := OutboxDeadLettered, so_dead_lettered_at := Some (xr_now q),
               so_last_error := Some ''lease expired beyond retry limit'',
               so_message := om_mark_attempted (so_message e) (xr_now q) None, so_lease := None\<rparr>
        else e\<lparr>so_status := OutboxPending,
               so_message := om_release_claim (so_message e) (xr_now q), so_lease := None\<rparr>)"

definition recover_one ::
    "expired_lease_recovery_request \<Rightarrow> work_id
     \<Rightarrow> mem_state \<times> expired_lease_recovery_summary \<Rightarrow> mem_state \<times> expired_lease_recovery_summary" where
  "recover_one q w = (case w of ExecWork i \<Rightarrow> recover_execution q i | OutboxWork i \<Rightarrow> recover_message q i)"

lemma mem_recover_fold:
  "mem_recover_expired_leases q ctx s =
     (let (s', summary) = fold (recover_one q) (recovery_targets s q) (s, xs_default)
      in (Inr summary, s'))"
proof -
  have e: "recover_one q \<circ> ExecWork = recover_execution q" and
    o: "recover_one q \<circ> OutboxWork = recover_message q"
    by (auto simp: recover_one_def)
  show ?thesis
    by (cases "xr_queue q")
       (simp_all add: mem_recover_expired_leases_def recovery_targets_def fold_map e o)
qed

lemma recover_one_present:
  assumes "work_lookup s w = Some e"
  shows "work_lookup (fst (recover_one q w (s, smry))) = (work_lookup s)(w \<mapsto> recovered_entry q e)"
    and "snd (recover_one q w (s, smry)) =
           (if exhausted q e then xs_observe_dead_lettered smry else xs_observe_recovered smry)"
  using assms
  by (cases w; auto simp: recover_one_def recover_execution_def recover_message_def exhausted_def)+

lemma xs_observe_simps [simp]:
  "xs_recovered (xs_observe_dead_lettered x) = xs_recovered x"
  "xs_dead_lettered (xs_observe_dead_lettered x) = usize_saturating_inc (xs_dead_lettered x)"
  "xs_recovered (xs_observe_recovered x) = usize_saturating_inc (xs_recovered x)"
  "xs_dead_lettered (xs_observe_recovered x) = xs_dead_lettered x"
  by (simp_all add: xs_observe_dead_lettered_def xs_observe_recovered_def)

lemma usize_inc_min: "min (usize_saturating_inc a + b) usize_max = min (a + Suc b) usize_max"
  by (auto simp: usize_saturating_inc_def min_def)

definition exhausted_count ::
    "expired_lease_recovery_request \<Rightarrow> mem_state \<Rightarrow> work_id list \<Rightarrow> nat" where
  "exhausted_count q s ws =
     length (filter (\<lambda>w. case work_lookup s w of None \<Rightarrow> False | Some e \<Rightarrow> exhausted q e) ws)"

lemma recover_fold_spec:
  assumes "distinct ws" and "\<And>w. w \<in> set ws \<Longrightarrow> work_lookup s w \<noteq> None"
    and "xs_recovered x \<le> usize_max" and "xs_dead_lettered x \<le> usize_max"
  shows "work_lookup (fst (fold (recover_one q) ws (s, x))) =
           (\<lambda>w. if w \<in> set ws then map_option (recovered_entry q) (work_lookup s w) else work_lookup s w)
       \<and> xs_dead_lettered (snd (fold (recover_one q) ws (s, x))) =
           min (xs_dead_lettered x + exhausted_count q s ws) usize_max
       \<and> xs_recovered (snd (fold (recover_one q) ws (s, x))) =
           min (xs_recovered x + (length ws - exhausted_count q s ws)) usize_max"
  using assms
proof (induction ws arbitrary: s x)
  case (Cons w ws)
  obtain e where e: "work_lookup s w = Some e" using Cons.prems(2) [of w] by auto
  obtain s1 x1 where st: "recover_one q w (s, x) = (s1, x1)" by fastforce
  note one = recover_one_present [OF e, of q x, unfolded st fst_conv snd_conv]
  have same: "work_lookup s1 u = work_lookup s u" if "u \<in> set ws" for u
    using that Cons.prems(1) one(1) by auto
  have filt: "exhausted_count q s1 ws = exhausted_count q s ws"
    unfolding exhausted_count_def by (rule arg_cong [OF filter_cong]) (simp_all add: same)
  have "xs_recovered x1 \<le> usize_max" "xs_dead_lettered x1 \<le> usize_max"
    using Cons.prems(3,4) one(2) by (simp_all add: usize_saturating_inc_def)
  with Cons.IH [of s1 x1] Cons.prems same have IH:
    "work_lookup (fst (fold (recover_one q) ws (s1, x1))) =
       (\<lambda>w. if w \<in> set ws then map_option (recovered_entry q) (work_lookup s1 w) else work_lookup s1 w)"
    "xs_dead_lettered (snd (fold (recover_one q) ws (s1, x1))) =
       min (xs_dead_lettered x1 + exhausted_count q s ws) usize_max"
    "xs_recovered (snd (fold (recover_one q) ws (s1, x1))) =
       min (xs_recovered x1 + (length ws - exhausted_count q s ws)) usize_max"
    by (simp_all add: filt)
  have len: "exhausted_count q s ws \<le> length ws" by (simp add: exhausted_count_def)
  have cons: "exhausted_count q s (w # ws) =
      (if exhausted q e then Suc (exhausted_count q s ws) else exhausted_count q s ws)"
    by (simp add: exhausted_count_def e)
  have x1: "xs_dead_lettered x1 =
      (if exhausted q e then usize_saturating_inc (xs_dead_lettered x) else xs_dead_lettered x)"
    "xs_recovered x1 =
      (if exhausted q e then xs_recovered x else usize_saturating_inc (xs_recovered x))"
    by (simp_all add: one(2))
  show ?case
  proof (intro conjI)
    show "work_lookup (fst (fold (recover_one q) (w # ws) (s, x))) =
        (\<lambda>u. if u \<in> set (w # ws) then map_option (recovered_entry q) (work_lookup s u)
             else work_lookup s u)"
      using Cons.prems(1) e one(1) by (auto simp: st IH(1) fun_eq_iff same)
    show "xs_dead_lettered (snd (fold (recover_one q) (w # ws) (s, x))) =
        min (xs_dead_lettered x + exhausted_count q s (w # ws)) usize_max"
      by (simp add: st IH(2) x1 usize_inc_min cons)
    show "xs_recovered (snd (fold (recover_one q) (w # ws) (s, x))) =
        min (xs_recovered x + (length (w # ws) - exhausted_count q s (w # ws))) usize_max"
      using len usize_inc_min [of "xs_recovered x" "length ws - exhausted_count q s ws"]
      by (simp add: st IH(3) x1 Suc_diff_le cons)
  qed
qed (auto simp: fun_eq_iff exhausted_count_def)

lemma recovery_targets_facts:
  assumes "mem_inv s"
  shows "distinct (recovery_targets s q)"
    and "w \<in> set (recovery_targets s q) \<Longrightarrow>
           \<exists>e l. work_lookup s w = Some e \<and> entry_lease e = Some l \<and> dl_is_expired_at l (xr_now q)"
    and "length (recovery_targets s q) \<le> xr_limit q"
proof -
  note f = expired_ids_facts [OF assms, where q = q]
  show "distinct (recovery_targets s q)"
    using f(1,2) by (simp add: recovery_targets_def distinct_map inj_on_def split: dispatch_queue.split)
  show "length (recovery_targets s q) \<le> xr_limit q"
    by (simp add: recovery_targets_def expired_execution_ids_def expired_outbox_ids_def
        split: dispatch_queue.split)
  show "\<exists>e l. work_lookup s w = Some e \<and> entry_lease e = Some l \<and> dl_is_expired_at l (xr_now q)"
    if "w \<in> set (recovery_targets s q)"
  proof (cases "xr_queue q")
    case Execution
    with that obtain i where w: "w = ExecWork i" and "i \<in> set (expired_execution_ids s q)"
      by (auto simp: recovery_targets_def)
    from f(3) [OF this(2)] w show ?thesis by auto
  next
    case Outbox
    with that obtain i where w: "w = OutboxWork i" and "i \<in> set (expired_outbox_ids s q)"
      by (auto simp: recovery_targets_def)
    from f(4) [OF this(2)] w show ?thesis by auto
  qed
qed

lemma mem_recover_lookup:
  assumes "mem_inv s"
  shows "\<exists>summary s'. mem_recover_expired_leases q ctx s = (Inr summary, s')
     \<and> work_lookup s' = (\<lambda>w. if w \<in> set (recovery_targets s q)
          then map_option (recovered_entry q) (work_lookup s w) else work_lookup s w)
     \<and> xs_dead_lettered summary = min (exhausted_count q s (recovery_targets s q)) usize_max
     \<and> xs_recovered summary =
         min (length (recovery_targets s q) - exhausted_count q s (recovery_targets s q)) usize_max"
proof -
  obtain s' x where f: "fold (recover_one q) (recovery_targets s q) (s, xs_default) = (s', x)"
    by fastforce
  have "work_lookup s w \<noteq> None" if "w \<in> set (recovery_targets s q)" for w
    using recovery_targets_facts(2) [OF assms that] by auto
  from recover_fold_spec [OF recovery_targets_facts(1) [OF assms, of q] this, where x = xs_default and q = q] f
  show ?thesis by (simp add: mem_recover_fold xs_default_def)
qed

text \<open>
  Recovery takes back at most \<open>limit\<close> leases, each of them expired: the work becomes pending
  again, or dead-lettered once its attempts have reached the limit, and loses its lease; every other
  entry is untouched; and the summary counts both outcomes.
\<close>

theorem mem_recover_spec:
  assumes "mem_reachable s"
  shows "\<exists>summary s'. mem_recover_expired_leases q ctx s = (Inr summary, s')
     \<and> length (recovery_targets s q) \<le> xr_limit q
     \<and> (\<forall>w \<in> set (recovery_targets s q).
          \<exists>e l. work_lookup s w = Some e \<and> entry_lease e = Some l \<and> dl_is_expired_at l (xr_now q)
              \<and> work_lookup s' w = Some (recovered_entry q e))
     \<and> (\<forall>w. w \<notin> set (recovery_targets s q) \<longrightarrow> work_lookup s' w = work_lookup s w)
     \<and> xs_dead_lettered summary = min (exhausted_count q s (recovery_targets s q)) usize_max
     \<and> xs_recovered summary =
         min (length (recovery_targets s q) - exhausted_count q s (recovery_targets s q)) usize_max"
proof -
  note inv = mem_reachable_inv [OF assms]
  from mem_recover_lookup [OF inv, of q ctx] obtain x s' where
    run: "mem_recover_expired_leases q ctx s = (Inr x, s')"
    and lk: "work_lookup s' = (\<lambda>w. if w \<in> set (recovery_targets s q)
        then map_option (recovered_entry q) (work_lookup s w) else work_lookup s w)"
    and counts: "xs_dead_lettered x = min (exhausted_count q s (recovery_targets s q)) usize_max"
      "xs_recovered x =
         min (length (recovery_targets s q) - exhausted_count q s (recovery_targets s q)) usize_max"
    by blast
  show ?thesis
  proof (rule exI [of _ x], rule exI [of _ s'], intro conjI ballI)
    show "mem_recover_expired_leases q ctx s = (Inr x, s')" by (rule run)
    show "\<exists>e l. work_lookup s w = Some e \<and> entry_lease e = Some l \<and> dl_is_expired_at l (xr_now q)
        \<and> work_lookup s' w = Some (recovered_entry q e)" if "w \<in> set (recovery_targets s q)" for w
      using recovery_targets_facts(2) [OF inv that] that by (auto simp: lk)
  qed (use recovery_targets_facts(3) [OF inv] lk counts in auto)
qed

definition sample_recovery :: expired_lease_recovery_request where
  "sample_recovery = xr_at (xr_new Execution 10 3 0) 20"

theorem mem_recover_spec_witness:
  "\<exists>summary s'. mem_recover_expired_leases sample_recovery sample_context sample_leased_store
       = (Inr summary, s')
     \<and> work_lookup s' (ExecWork (ExecutionId ''e1''))
         = Some (ExecEntry \<lparr>sx_record = er_release_claim (ce_record sample_claimed) 20, sx_lease = None\<rparr>)
     \<and> xs_recovered summary = 1 \<and> xs_dead_lettered summary = 0"
proof -
  let ?e = "\<lparr>sx_record = ce_record sample_claimed, sx_lease = Some (ce_lease sample_claimed)\<rparr>"
  have lk: "work_lookup sample_leased_store (ExecWork (ExecutionId ''e1'')) = Some (ExecEntry ?e)"
    by (simp add: sample_leased_store_def)
  have t: "recovery_targets sample_leased_store sample_recovery = [ExecWork (ExecutionId ''e1'')]"
    by (simp add: recovery_targets_def sample_recovery_def xr_at_def xr_new_def
        expired_execution_ids_def sample_leased_store_def sample_claimed_def sample_lease_def
        el_is_expired_at_def add_or_keep_def checked_add_def system_time_max_def)
  have att: "\<not> exhausted sample_recovery (ExecEntry ?e)"
    by (simp add: exhausted_def sample_recovery_def xr_at_def xr_new_def sample_claimed_def sample_defs word_le_nat_alt)
  have cnt: "exhausted_count sample_recovery sample_leased_store [ExecWork (ExecutionId ''e1'')] = 0"
    using lk att by (simp add: exhausted_count_def)
  have now: "xr_now sample_recovery = 20" by (simp add: sample_recovery_def xr_at_def)
  from mem_recover_spec [OF sample_leased_reachable, of sample_recovery sample_context] lk
  show ?thesis unfolding t cnt by (auto simp: att now usize_max_def)
qed

section \<open>Delivered and dead-lettered messages stay\<close>

definition settled :: "stored_outbox_message \<Rightarrow> bool" where
  "settled e \<longleftrightarrow> so_status e \<in> {OutboxDelivered, OutboxDeadLettered}"

lemma settled_unleased:
  assumes "mem_inv s" and "hm_get (ms_outbox s) i = Some e" and "settled e"
  shows "so_lease e = None" and "\<not> so_is_due_at e t b"
  using mem_inv_outbox(1) [OF assms(1,2)] assms(3) by (auto simp: settled_def so_is_due_at_def)

lemma mem_finalize_frame:
  assumes "work_lookup s w = Some e" and "entry_lease e = None"
  shows "work_lookup (snd (mem_finalize res ctx s)) w = Some e"
proof (cases "fst (mem_finalize res ctx s)")
  case (Inl err)
  with work.refused_unchanged assms(1) show ?thesis by metis
next
  case (Inr u)
  then have "mem_finalize res ctx s = (Inr (), snd (mem_finalize res ctx s))" by (simp add: prod_eq_iff)
  from work.resolve_result [OF this] assms show ?thesis by (metis fun_upd_other map_option_is_None
        option.distinct(1) option.inject)
qed

lemma mem_recover_frame:
  assumes "mem_inv s" and "work_lookup s w = Some e" and "entry_lease e = None"
  shows "work_lookup (snd (mem_recover_expired_leases q ctx s)) w = Some e"
  using mem_recover_lookup [OF assms(1), of q ctx] recovery_targets_facts(2) [OF assms(1), of w q]
    assms(2,3) by fastforce

lemma mem_step_settled:
  assumes "mem_step s s'" and inv: "mem_inv s" and e: "hm_get (ms_outbox s) i = Some e" "settled e"
  shows "hm_get (ms_outbox s') i = Some e"
proof -
  note u = settled_unleased [OF inv e]
  from assms(1) show ?thesis
  proof cases
    case (ClaimAvailable q ctx)
    then have "claim_executions q ctx (find_claimable_ids s q) [] s
        = (fst (mem_claim_available q ctx s), s')"
      by (simp add: mem_claim_available_def)
    from ex_batch.loop_frame [OF find_claimable_facts(1) [OF inv] this] e(1) show ?thesis by simp
  next
    case (LeaseAvailable q ctx gen)
    have "i \<notin> set (find_claimable_message_ids s q)"
      using find_claimable_facts(4) [OF inv, of i q] u(2) e(1) by auto
    moreover have r: "lease_messages q ctx gen (find_claimable_message_ids s q) [] s
        = (fst (mem_lease_available q ctx gen s), s')"
      using LeaseAvailable by (simp add: mem_lease_available_def)
    ultimately show ?thesis
      using ob_batch.loop_frame [OF find_claimable_facts(2) [OF inv] r] e(1) by simp
  next
    case (Finalize res ctx)
    then show ?thesis
      using mem_finalize_frame [of s "OutboxWork i" "OutboxEntry e" res ctx] e(1) u(1)
      by auto
  next
    case (Recover q ctx)
    then show ?thesis
      using mem_recover_frame [OF inv, of "OutboxWork i" "OutboxEntry e" q ctx] e(1) u(1)
      by auto
  qed (use e(1) u(1) in \<open>auto simp: mem_append_def mem_update_def mem_append_outbox_def
      mem_renew_execution_lease_def mem_renew_outbox_lease_def mem_record_heartbeat_def Let_def
      split: option.splits sum.splits\<close>)
qed

text \<open>
  Delivered and dead-lettered outbox messages are final: whatever methods are called afterwards,
  in whatever order, the stored entry stays exactly as it is.
\<close>

theorem mem_settled_message_is_final:
  assumes "mem_reachable s" and "hm_get (ms_outbox s) i = Some e" and "settled e"
    and "mem_step\<^sup>*\<^sup>* s s'"
  shows "hm_get (ms_outbox s') i = Some e"
  using assms(4)
proof (induction rule: rtranclp_induct)
  case (step t u)
  from step.hyps(1) mem_reachable_inv [OF assms(1)] have "mem_inv t" by (rule mem_steps_inv)
  with step mem_step_settled assms(3) show ?case by blast
qed (rule assms(2))

definition settled_store :: mem_state where
  "settled_store =
     snd (mem_finalize
       (OutboxCompleted sample_message
          (os_new (OutboxMessageId ''m1'') (LeaseId (lease_text 1)) 7)) sample_context
       (snd (mem_claim_due (sample_claim Outbox ''w1'' 3) sample_context (CorrelationId ''g'')
               sample_store)))"

definition settled_entry :: stored_outbox_message where
  "settled_entry =
     \<lparr>so_message = om_mark_attempted (om_mark_claimed sample_message) 7 None, so_lease = None,
      so_status = OutboxDelivered, so_delivered_at = Some 7, so_dead_lettered_at = None,
      so_last_error = None\<rparr>"

lemma settled_store_reachable: "mem_reachable settled_store"
  unfolding settled_store_def
  by (rule mem_reachable.step [OF mem_reachable.step [OF sample_store_reachable mem_claim_due_step]
        mem_step.Finalize])

lemma settled_store_entry: "hm_get (ms_outbox settled_store) (OutboxMessageId ''m1'') = Some settled_entry"
  by (simp add: settled_store_def settled_entry_def mem_resolve_defs resolve_outbox_def os_new_def
      require_revision_def mem_claim_due_outbox sample_claim_def dc_at_def dc_new_def
      claim_outbox_request_def op_map_def mem_lease_available_def find_claimable_message_ids_def
      selectable_due_messages_def sample_store_eq so_is_due_at_def so_materialize_due_message_def
      dor_at_def dor_new_def dor_with_expired_leases_def next_lease_id_eq Let_def co_claim_def
      saturating_inc_def sample_defs om_transition_defs)

theorem mem_settled_message_is_final_witness:
  "hm_get (ms_outbox (snd (mem_claim_due (sample_claim Outbox ''w2'' 99) sample_context
       (CorrelationId ''g'') settled_store))) (OutboxMessageId ''m1'') = Some settled_entry"
  by (rule mem_settled_message_is_final
        [OF settled_store_reachable settled_store_entry _ r_into_rtranclp [of mem_step, OF mem_claim_due_step]])
     (simp add: settled_def settled_entry_def)

section \<open>Crashing workers\<close>

text \<open>
  A worker that crashes claims work and never resolves it; the store then sees only claims, renewals,
  heartbeats and recoveries. \<open>limit\<close> is the attempt limit the recoveries are called with.
\<close>

inductive crash_step :: "u32 \<Rightarrow> mem_state \<Rightarrow> mem_state \<Rightarrow> bool" for limit :: u32 where
  CrashClaim: "crash_step limit s (snd (mem_claim_due q ctx gen s))"
| CrashRenew: "crash_step limit s (snd (mem_renew_claim rq ctx s))"
| CrashHeartbeat: "crash_step limit s (snd (mem_record_heartbeat h ctx s))"
| CrashRecover: "xr_max_attempts xq = limit
    \<Longrightarrow> crash_step limit s (snd (mem_recover_expired_leases xq ctx s))"

fun entry_dead :: "work_entry \<Rightarrow> bool" where
  "entry_dead (ExecEntry e) \<longleftrightarrow> er_status (sx_record e) = DeadLettered"
| "entry_dead (OutboxEntry e) \<longleftrightarrow> so_status e = OutboxDeadLettered"

text \<open>No entry disappears, changes its attempt counter or becomes dead-lettered.\<close>

definition uncounted :: "mem_state \<Rightarrow> mem_state \<Rightarrow> bool" where
  "uncounted s s' \<longleftrightarrow>
     (\<forall>w e. work_lookup s w = Some e \<longrightarrow>
        (\<exists>e'. work_lookup s' w = Some e' \<and> entry_attempts e' = entry_attempts e
            \<and> (entry_dead e' \<longrightarrow> entry_dead e)))"

lemma uncounted_refl: "work_lookup s' = work_lookup s \<Longrightarrow> uncounted s s'"
  by (simp add: uncounted_def)

lemma uncounted_trans: "uncounted s t \<Longrightarrow> uncounted t u \<Longrightarrow> uncounted s u"
  unfolding uncounted_def by metis

lemma uncounted_upd:
  assumes "work_lookup s w = Some e" and "work_lookup s' = (work_lookup s)(w \<mapsto> e')"
    and "entry_attempts e' = entry_attempts e" and "entry_dead e' \<Longrightarrow> entry_dead e"
  shows "uncounted s s'"
  using assms by (auto simp: uncounted_def)

lemma claim_one_execution_uncounted: "uncounted s (snd (claim_one_execution q ctx i s))"
proof (cases "hm_get (ms_records s) i")
  case (Some e)
  let ?l = "el_from_now (LeaseId (lease_text (saturating_inc (ms_next_lease_sequence s))))
              (elr_leased_by q) (elr_lease_ttl q) (elr_now q)"
  show ?thesis
  proof (cases "ce_claim (sx_materialize_due_record e (elr_now q)) ?l")
    case (Inr c)
    from Inr have c: "er_attempt (ce_record c) = er_attempt (sx_record e)"
      "er_status (ce_record c) = InFlight" by (auto simp: ce_claim_ok_iff)
    show ?thesis
      by (rule uncounted_upd [where w = "ExecWork i" and e = "ExecEntry e"
            and e' = "ExecEntry \<lparr>sx_record = ce_record c, sx_lease = Some ?l\<rparr>"])
         (use Some c in \<open>simp_all add: claim_one_execution_def next_lease_id_eq Let_def Inr\<close>)
  qed (use Some in \<open>simp add: claim_one_execution_def next_lease_id_eq Let_def uncounted_refl\<close>)
qed (simp add: claim_one_execution_def next_lease_id_eq Let_def uncounted_refl)

lemma claim_one_message_uncounted: "uncounted s (snd (claim_one_message q ctx gen i s))"
proof (cases "hm_get (ms_outbox s) i")
  case (Some e)
  let ?l = "ol_from_now (LeaseId (lease_text (saturating_inc (ms_next_lease_sequence s))))
              (olr_leased_by q) (olr_lease_ttl q) (olr_now q)"
  show ?thesis
  proof (cases "co_claim (so_materialize_due_message e) ?l gen")
    case (Inr c)
    from Inr have c: "om_attempts (co_message c) = om_attempts (so_message e)"
      by (auto simp: co_claim_ok_iff so_materialize_due_message_def om_mark_claimed_def)
    show ?thesis
      by (rule uncounted_upd [where w = "OutboxWork i" and e = "OutboxEntry e"
            and e' = "OutboxEntry (e\<lparr>so_message := co_message c, so_lease := Some ?l,
                                     so_status := OutboxInFlight\<rparr>)"])
         (use Some c in \<open>simp_all add: claim_one_message_def next_lease_id_eq Let_def Inr\<close>)
  qed (use Some in \<open>simp add: claim_one_message_def next_lease_id_eq Let_def uncounted_refl\<close>)
qed (simp add: claim_one_message_def next_lease_id_eq Let_def uncounted_refl)

lemma claim_executions_uncounted: "uncounted s (snd (claim_executions q ctx is acc s))"
proof (induction "is" arbitrary: acc s)
  case (Cons i "is")
  from claim_one_execution_uncounted [of s q ctx i] show ?case
    unfolding ex_batch.loop_Cons
    by (auto split: prod.splits sum.splits intro: uncounted_trans [OF _ Cons.IH])
qed (simp add: uncounted_refl)

lemma lease_messages_uncounted: "uncounted s (snd (lease_messages q ctx gen is acc s))"
proof (induction "is" arbitrary: acc s)
  case (Cons i "is")
  from claim_one_message_uncounted [of s q ctx gen i] show ?case
    unfolding ob_batch.loop_Cons
    by (auto split: prod.splits sum.splits intro: uncounted_trans [OF _ Cons.IH])
qed (simp add: uncounted_refl)

lemma mem_claim_due_uncounted: "uncounted s (snd (mem_claim_due q ctx gen s))"
  by (cases "dc_queue q")
     (simp_all add: mem_claim_due_execution mem_claim_due_outbox mem_claim_available_def
       mem_lease_available_def claim_executions_uncounted lease_messages_uncounted)

lemma mem_renew_uncounted: "uncounted s (snd (mem_renew_claim rq ctx s))"
proof (cases rq)
  case (ExecutionRenewal q)
  show ?thesis
  proof (cases "fst (mem_renew_execution_lease q ctx s)")
    case (Inr l)
    then have "mem_renew_execution_lease q ctx s = (Inr l, snd (mem_renew_execution_lease q ctx s))"
      by (simp add: prod_eq_iff)
    then show ?thesis
      unfolding mem_renew_execution_iff ExecutionRenewal
      by (auto intro: uncounted_upd [where w = "ExecWork (eln_execution_id q)"])
  qed (use ExecutionRenewal mem_renew_refused(1) in
      \<open>metis mem_renew_claim.simps(1) op_map_state prod.collapse uncounted_refl\<close>)
next
  case (OutboxRenewal q)
  show ?thesis
  proof (cases "fst (mem_renew_outbox_lease q ctx s)")
    case (Inr l)
    then have "mem_renew_outbox_lease q ctx s = (Inr l, snd (mem_renew_outbox_lease q ctx s))"
      by (simp add: prod_eq_iff)
    then show ?thesis
      unfolding mem_renew_outbox_iff OutboxRenewal
      by (auto intro: uncounted_upd [where w = "OutboxWork (oln_message_id q)"])
  qed (use OutboxRenewal mem_renew_refused(2) in
      \<open>metis mem_renew_claim.simps(2) op_map_state prod.collapse uncounted_refl\<close>)
qed

lemma recovered_uncounted:
  "\<not> exhausted q e \<Longrightarrow> entry_attempts (recovered_entry q e) = entry_attempts e"
  "\<not> exhausted q e \<Longrightarrow> \<not> entry_dead (recovered_entry q e)"
  by (cases e; simp add: er_release_claim_def om_release_claim_def)+

text \<open>
  Crashes are never counted: along any sequence of claims, renewals, heartbeats and recoveries
  (no resolution), work whose attempts are below the recovery limit keeps its attempt counter and is
  never dead-lettered, however often its lease expires and is recovered.
\<close>

theorem mem_crashes_never_exhaust:
  assumes "mem_reachable s" and "(crash_step limit)\<^sup>*\<^sup>* s s'"
    and "work_lookup s w = Some e" and "entry_attempts e < limit" and "\<not> entry_dead e"
  shows "\<exists>e'. work_lookup s' w = Some e' \<and> entry_attempts e' = entry_attempts e \<and> \<not> entry_dead e'"
proof -
  have one: "mem_inv u \<and> (\<exists>e'. work_lookup u w = Some e' \<and> entry_attempts e' = entry_attempts e
      \<and> \<not> entry_dead e')"
    if "crash_step limit t u" and inv: "mem_inv t" and lk: "work_lookup t w = Some e0"
      "entry_attempts e0 = entry_attempts e" "\<not> entry_dead e0" for t u e0
    using that(1)
  proof cases
    case (CrashClaim q ctx gen)
    with mem_claim_due_uncounted [of t q ctx gen] mem_step_inv [OF mem_claim_due_step inv] lk
    show ?thesis unfolding uncounted_def by metis
  next
    case (CrashRenew rq ctx)
    have "mem_inv (snd (mem_renew_claim rq ctx t))"
      by (cases rq) (simp_all add: mem_renew_execution_inv mem_renew_outbox_inv inv)
    with CrashRenew mem_renew_uncounted [of t rq ctx] lk show ?thesis
      unfolding uncounted_def by metis
  next
    case (CrashHeartbeat h ctx)
    have "work_lookup u = work_lookup t"
      using CrashHeartbeat by (auto simp: mem_record_heartbeat_def Let_def split: sum.splits)
    with CrashHeartbeat mem_record_heartbeat_inv [OF inv, of h ctx] lk show ?thesis by auto
  next
    case (CrashRecover xq ctx)
    have "\<not> exhausted xq e0" using CrashRecover(2) assms(4) lk(2) by (simp add: exhausted_def)
    with CrashRecover mem_recover_lookup [OF inv, of xq ctx] mem_recover_inv [OF inv, of xq ctx] lk
      recovered_uncounted [of xq e0]
    show ?thesis by fastforce
  qed
  have "mem_inv s' \<and> (\<exists>e'. work_lookup s' w = Some e' \<and> entry_attempts e' = entry_attempts e
      \<and> \<not> entry_dead e')"
    using assms(2)
  proof (induction rule: rtranclp_induct)
    case base
    show ?case using mem_reachable_inv [OF assms(1)] assms(3,5) by blast
  next
    case (step t u)
    then show ?case using one by metis
  qed
  then show ?thesis by blast
qed

theorem mem_crashes_never_exhaust_witness:
  "\<exists>e'. work_lookup (snd (mem_recover_expired_leases sample_recovery sample_context
           (snd (mem_claim_due (sample_claim Execution ''w1'' 3) sample_context (CorrelationId ''g'')
              sample_store)))) (ExecWork (ExecutionId ''e1'')) = Some e'
      \<and> entry_attempts e' = 1 \<and> \<not> entry_dead e'"
proof -
  have steps: "(crash_step 3)\<^sup>*\<^sup>* sample_store
      (snd (mem_recover_expired_leases sample_recovery sample_context
        (snd (mem_claim_due (sample_claim Execution ''w1'' 3) sample_context (CorrelationId ''g'')
           sample_store))))"
    by (rule rtranclp.rtrancl_into_rtrancl [OF r_into_rtranclp [of "crash_step 3", OF CrashClaim]
          CrashRecover])
       (simp add: sample_recovery_def xr_at_def xr_new_def max_def word_le_nat_alt)
  let ?e = "ExecEntry \<lparr>sx_record = sample_record, sx_lease = None\<rparr>"
  have e: "work_lookup sample_store (ExecWork (ExecutionId ''e1'')) = Some ?e" "entry_attempts ?e = 1"
    "entry_attempts ?e < 3" "\<not> entry_dead ?e"
    by (simp_all add: sample_store_eq sample_defs word_less_nat_alt)
  from mem_crashes_never_exhaust [OF sample_store_reachable steps e(1,3,4)] e(2) show ?thesis by simp
qed

end
