(* ===== verification/Scheduler.thy ===== *)
theory Scheduler
  imports Memory_Recovery
begin

text \<open>
  \<open>scheduler.rs\<close>: the worker dispatch coordinator over the three stores it borrows as trait objects.
  The trait objects are a record of operations on one shared state; the telemetry sink is the list of
  the events it was given (no sink: the list never grows). A locale states what the coordinator needs of
  its stores, and it is interpreted on the in-memory store.
\<close>

section \<open>Configuration and requests\<close>

definition require_positive_duration ::
    "duration \<Rightarrow> string \<Rightarrow> string \<Rightarrow> execution_context \<Rightarrow> unit app_result" where
  "require_positive_duration d field_name code ctx =
     (if d = 0
      then Inl (app_error_from_context InvalidInput code (field_name @ '' must be positive'') ctx)
      else Inr ())"

lemma require_positive_duration_ok [simp]:
  "require_positive_duration d f c ctx = Inr u \<longleftrightarrow> d \<noteq> 0"
  by (simp add: require_positive_duration_def)

record coordinator_config =
  cc_queue :: dispatch_queue
  cc_scope :: string
  cc_visibility_ttl :: duration

definition cc_new :: "dispatch_queue \<Rightarrow> string \<Rightarrow> duration \<Rightarrow> coordinator_config" where
  "cc_new queue scope ttl = \<lparr>cc_queue = queue, cc_scope = scope, cc_visibility_ttl = ttl\<rparr>"

definition cc_validate :: "coordinator_config \<Rightarrow> execution_context \<Rightarrow> unit app_result" where
  "cc_validate c ctx =
     res_bind (require_non_empty (cc_scope c) ''worker dispatch scope''
                 ''worker_dispatch_scope_required'' ctx) (\<lambda>_.
     res_bind (require_positive_duration (cc_visibility_ttl c) ''worker dispatch visibility ttl''
                 ''worker_dispatch_visibility_ttl_required'' ctx) (\<lambda>_. Inr ()))"

record worker_heartbeat_request =
  hr_worker_id :: string
  hr_observed_at :: system_time

definition hr_new :: "string \<Rightarrow> system_time \<Rightarrow> worker_heartbeat_request" where
  "hr_new worker_id now = \<lparr>hr_worker_id = worker_id, hr_observed_at = now\<rparr>"

definition hr_at :: "worker_heartbeat_request \<Rightarrow> system_time \<Rightarrow> worker_heartbeat_request" where
  "hr_at q t = q\<lparr>hr_observed_at := t\<rparr>"

definition hr_validate :: "worker_heartbeat_request \<Rightarrow> execution_context \<Rightarrow> unit app_result" where
  "hr_validate q ctx =
     require_non_empty (hr_worker_id q) ''worker id'' ''worker_dispatch_worker_id_required'' ctx"

record worker_dispatch_cycle_request =
  yr_worker_id :: string
  yr_batch_size :: usize
  yr_lease_ttl :: duration
  yr_observed_at :: system_time

definition yr_new :: "string \<Rightarrow> usize \<Rightarrow> duration \<Rightarrow> system_time \<Rightarrow> worker_dispatch_cycle_request" where
  "yr_new worker_id batch_size lease_ttl now =
     \<lparr>yr_worker_id = worker_id, yr_batch_size = max batch_size 1, yr_lease_ttl = lease_ttl,
      yr_observed_at = now\<rparr>"

definition yr_at :: "worker_dispatch_cycle_request \<Rightarrow> system_time \<Rightarrow> worker_dispatch_cycle_request" where
  "yr_at q t = q\<lparr>yr_observed_at := t\<rparr>"

definition yr_validate :: "worker_dispatch_cycle_request \<Rightarrow> execution_context \<Rightarrow> unit app_result" where
  "yr_validate q ctx =
     res_bind (require_non_empty (yr_worker_id q) ''worker id''
                 ''worker_dispatch_worker_id_required'' ctx) (\<lambda>_.
     res_bind (require_positive_duration (yr_lease_ttl q) ''worker lease ttl''
                 ''worker_dispatch_lease_ttl_required'' ctx) (\<lambda>_. Inr ()))"

record worker_snapshot_query =
  sq_worker_id :: string
  sq_observed_at :: system_time

definition sq_new :: "string \<Rightarrow> system_time \<Rightarrow> worker_snapshot_query" where
  "sq_new worker_id now = \<lparr>sq_worker_id = worker_id, sq_observed_at = now\<rparr>"

definition sq_at :: "worker_snapshot_query \<Rightarrow> system_time \<Rightarrow> worker_snapshot_query" where
  "sq_at q t = q\<lparr>sq_observed_at := t\<rparr>"

definition sq_validate :: "worker_snapshot_query \<Rightarrow> execution_context \<Rightarrow> unit app_result" where
  "sq_validate q ctx =
     require_non_empty (sq_worker_id q) ''worker id'' ''worker_dispatch_worker_id_required'' ctx"

record worker_snapshot_list_query =
  sl_observed_at :: system_time
  sl_limit :: usize
  sl_include_expired_workers :: bool

definition sl_new :: "system_time \<Rightarrow> worker_snapshot_list_query" where
  "sl_new now =
     \<lparr>sl_observed_at = now, sl_limit = usize_max, sl_include_expired_workers = True\<rparr>"

definition sl_at :: "worker_snapshot_list_query \<Rightarrow> system_time \<Rightarrow> worker_snapshot_list_query" where
  "sl_at q t = q\<lparr>sl_observed_at := t\<rparr>"

definition sl_with_limit :: "worker_snapshot_list_query \<Rightarrow> usize \<Rightarrow> worker_snapshot_list_query" where
  "sl_with_limit q n = q\<lparr>sl_limit := max n 1\<rparr>"

definition sl_with_expired_workers ::
    "worker_snapshot_list_query \<Rightarrow> bool \<Rightarrow> worker_snapshot_list_query" where
  "sl_with_expired_workers q b = q\<lparr>sl_include_expired_workers := b\<rparr>"

record visible_worker_list_query =
  vl_observed_at :: system_time
  vl_limit :: usize

definition vl_new :: "system_time \<Rightarrow> visible_worker_list_query" where
  "vl_new now = \<lparr>vl_observed_at = now, vl_limit = usize_max\<rparr>"

definition vl_at :: "visible_worker_list_query \<Rightarrow> system_time \<Rightarrow> visible_worker_list_query" where
  "vl_at q t = q\<lparr>vl_observed_at := t\<rparr>"

definition vl_with_limit :: "visible_worker_list_query \<Rightarrow> usize \<Rightarrow> visible_worker_list_query" where
  "vl_with_limit q n = q\<lparr>vl_limit := max n 1\<rparr>"

record worker_observation =
  wo_worker_id :: string
  wo_scope :: string
  wo_observed_at :: system_time
  wo_heartbeat :: worker_heartbeat
  wo_snapshot :: "worker_dispatch_snapshot option"

record worker_dispatch_cycle =
  wy_observation :: worker_observation
  wy_claimed :: "claimed_dispatch_work list"

record worker_stored_lease_renewal =
  wl_observation :: worker_observation
  wl_lease :: dispatch_lease

lemma cc_validate_ok:
  "cc_validate c ctx = Inr u \<longleftrightarrow> \<not> is_blank (cc_scope c) \<and> cc_visibility_ttl c \<noteq> 0"
  by (auto simp: cc_validate_def res_bind_Inr_iff)

lemma yr_validate_ok:
  "yr_validate q ctx = Inr u \<longleftrightarrow> \<not> is_blank (yr_worker_id q) \<and> yr_lease_ttl q \<noteq> 0"
  by (auto simp: yr_validate_def res_bind_Inr_iff)

section \<open>The coordinator\<close>

record 's coordinator_stores =
  dv_claim_due :: "dispatch_claim_request \<Rightarrow> execution_context \<Rightarrow> ('s, claimed_dispatch_work list) app_op"
  dv_renew_claim :: "dispatch_lease_renewal \<Rightarrow> execution_context \<Rightarrow> ('s, dispatch_lease) app_op"
  dv_finalize :: "dispatch_resolution \<Rightarrow> execution_context \<Rightarrow> ('s, unit) app_op"
  dv_record_heartbeat :: "worker_heartbeat \<Rightarrow> execution_context \<Rightarrow> ('s, unit) app_op"
  dv_lookup_worker :: "worker_visibility_ref \<Rightarrow> execution_context \<Rightarrow> ('s, worker_heartbeat option) app_op"
  dv_list_visible_workers ::
    "visible_workers_query \<Rightarrow> execution_context \<Rightarrow> ('s, worker_heartbeat list) app_op"
  dv_lookup_worker_snapshot ::
    "worker_dispatch_snapshot_ref \<Rightarrow> execution_context \<Rightarrow> ('s, worker_dispatch_snapshot option) app_op"
  dv_list_worker_snapshots ::
    "worker_dispatch_snapshots_query \<Rightarrow> execution_context \<Rightarrow> ('s, worker_dispatch_snapshot list) app_op"

record 's coordinator =
  wc_stores :: "'s coordinator_stores"
  wc_telemetry :: bool
  wc_config :: coordinator_config

definition wc_new :: "'s coordinator_stores \<Rightarrow> coordinator_config \<Rightarrow> 's coordinator" where
  "wc_new stores config = \<lparr>wc_stores = stores, wc_telemetry = False, wc_config = config\<rparr>"

definition wc_with_telemetry :: "'s coordinator \<Rightarrow> 's coordinator" where
  "wc_with_telemetry wc = wc\<lparr>wc_telemetry := True\<rparr>"

text \<open>The world a coordinator acts on: the stores' state and what the telemetry sink received.\<close>

type_synonym 's world = "'s \<times> telemetry_event list"

definition on_store :: "('s, 'a) app_op \<Rightarrow> ('s world, 'a) app_op" where
  "on_store m = (\<lambda>(s, log). case m s of (r, s') \<Rightarrow> (r, (s', log)))"

definition record_event :: "'s coordinator \<Rightarrow> telemetry_event \<Rightarrow> ('s world, unit) app_op" where
  "record_event wc ev = (\<lambda>(s, log). (Inr (), (s, if wc_telemetry wc then log @ [ev] else log)))"

definition observe_worker ::
    "'s coordinator \<Rightarrow> string \<Rightarrow> system_time \<Rightarrow> execution_context \<Rightarrow> ('s world, worker_observation) app_op" where
  "observe_worker wc worker_id observed_at ctx =
     op_bind (on_store (dv_record_heartbeat (wc_stores wc)
        (wh_from_ttl worker_id (cc_scope (wc_config wc)) observed_at
           (cc_visibility_ttl (wc_config wc))) ctx)) (\<lambda>_.
     op_bind (on_store (dv_lookup_worker (wc_stores wc)
        (wv_at (wv_new worker_id (cc_scope (wc_config wc)) observed_at) observed_at) ctx)) (\<lambda>found.
     op_bind (op_lift (ok_or
        (app_error_from_context Unexpected ''worker_heartbeat_lookup_missing''
           ''worker heartbeat store could not read back a recorded heartbeat'' ctx) found)) (\<lambda>heartbeat.
     op_bind (on_store (dv_lookup_worker_snapshot (wc_stores wc)
        (wr_at (wr_new worker_id (cc_scope (wc_config wc)) observed_at) observed_at) ctx)) (\<lambda>snapshot.
     op_lift (Inr
        \<lparr>wo_worker_id = worker_id, wo_scope = cc_scope (wc_config wc), wo_observed_at = observed_at,
         wo_heartbeat = heartbeat, wo_snapshot = snapshot\<rparr>)))))"

definition worker_event :: "'s coordinator \<Rightarrow> string \<Rightarrow> string \<Rightarrow> system_time \<Rightarrow> telemetry_event" where
  "worker_event wc name worker_id now =
     te_with_attribute (te_with_attribute (te_with_attribute
       (telemetry_event_new name now) ''scope'' (cc_scope (wc_config wc)))
       ''queue'' (dispatch_queue_as_str (cc_queue (wc_config wc))))
       ''worker_id'' worker_id"

definition wc_record_heartbeat ::
    "'s coordinator \<Rightarrow> worker_heartbeat_request \<Rightarrow> execution_context \<Rightarrow> system_time
     \<Rightarrow> ('s world, worker_observation) app_op" where
  "wc_record_heartbeat wc q ctx now =
     op_bind (op_lift (cc_validate (wc_config wc) ctx)) (\<lambda>_.
     op_bind (op_lift (hr_validate q ctx)) (\<lambda>_.
     op_bind (observe_worker wc (hr_worker_id q) (hr_observed_at q) ctx) (\<lambda>observation.
     op_bind (record_event wc (worker_event wc ''worker.heartbeat'' (hr_worker_id q) now)) (\<lambda>_.
     op_lift (Inr observation)))))"

definition wc_dispatch_cycle ::
    "'s coordinator \<Rightarrow> worker_dispatch_cycle_request \<Rightarrow> execution_context \<Rightarrow> system_time
     \<Rightarrow> ('s world, worker_dispatch_cycle) app_op" where
  "wc_dispatch_cycle wc q ctx now =
     op_bind (op_lift (cc_validate (wc_config wc) ctx)) (\<lambda>_.
     op_bind (op_lift (yr_validate q ctx)) (\<lambda>_.
     op_bind (on_store (dv_claim_due (wc_stores wc)
        (dc_at (dc_new (cc_queue (wc_config wc)) (yr_worker_id q) (yr_batch_size q) (yr_lease_ttl q)
           now) (yr_observed_at q)) ctx)) (\<lambda>claimed.
     op_bind (observe_worker wc (yr_worker_id q) (yr_observed_at q) ctx) (\<lambda>observation.
     op_bind (record_event wc
        (te_with_attribute (worker_event wc ''worker.dispatch_cycle'' (yr_worker_id q) now)
           ''claimed_count'' (dec_string (length claimed)))) (\<lambda>_.
     op_lift (Inr \<lparr>wy_observation = observation, wy_claimed = claimed\<rparr>))))))"

fun claim_renewal ::
    "claimed_dispatch_work \<Rightarrow> string \<Rightarrow> duration \<Rightarrow> system_time \<Rightarrow> dispatch_lease_renewal" where
  "claim_renewal (ClaimedExecutionWork c) worker_id lease_ttl renewed_at =
     ExecutionRenewal (eln_at (eln_new (er_id (ce_record c)) (el_lease_id (ce_lease c)) worker_id
       lease_ttl renewed_at) renewed_at)"
| "claim_renewal (ClaimedOutboxWork c) worker_id lease_ttl renewed_at =
     OutboxRenewal (oln_at (oln_new (om_id (co_message c)) (ol_lease_id (co_lease c)) worker_id
       lease_ttl renewed_at) renewed_at)"

definition wc_renew_claim ::
    "'s coordinator \<Rightarrow> claimed_dispatch_work \<Rightarrow> system_time \<Rightarrow> duration \<Rightarrow> execution_context \<Rightarrow> system_time
     \<Rightarrow> ('s world, worker_stored_lease_renewal) app_op" where
  "wc_renew_claim wc claimed renewed_at lease_ttl ctx now =
     op_bind (op_lift (cc_validate (wc_config wc) ctx)) (\<lambda>_.
     op_bind (op_lift (require_positive_duration lease_ttl ''worker lease ttl''
                         ''worker_dispatch_lease_ttl_required'' ctx)) (\<lambda>_.
     let worker_id = dl_leased_by (cw_lease claimed) in
     op_bind (on_store (dv_renew_claim (wc_stores wc)
        (claim_renewal claimed worker_id lease_ttl renewed_at) ctx)) (\<lambda>lease.
     op_bind (observe_worker wc worker_id renewed_at ctx) (\<lambda>observation.
     op_bind (record_event wc
        (te_with_attribute (worker_event wc ''worker.lease_renewed'' worker_id now)
           ''lease_id'' (lease_id_str (dl_lease_id lease)))) (\<lambda>_.
     op_lift (Inr \<lparr>wl_observation = observation, wl_lease = lease\<rparr>))))))"

definition finalize_resolution ::
    "'s coordinator \<Rightarrow> string \<Rightarrow> dispatch_resolution \<Rightarrow> system_time \<Rightarrow> execution_context \<Rightarrow> system_time
     \<Rightarrow> ('s world, worker_observation) app_op" where
  "finalize_resolution wc worker_id resolution observed_at ctx now =
     op_bind (op_lift (cc_validate (wc_config wc) ctx)) (\<lambda>_.
     op_bind (on_store (dv_finalize (wc_stores wc) resolution ctx)) (\<lambda>_.
     op_bind (observe_worker wc worker_id observed_at ctx) (\<lambda>observation.
     op_bind (record_event wc
        (te_with_attribute (te_with_attribute
           (worker_event wc ''worker.dispatch_finalized'' worker_id now)
           ''resolution_queue'' (dispatch_queue_as_str (dr_queue resolution)))
           ''lease_id'' (lease_id_str (dr_lease_id resolution)))) (\<lambda>_.
     op_lift (Inr observation)))))"

definition wc_complete_claim ::
    "'s coordinator \<Rightarrow> claimed_dispatch_work \<Rightarrow> system_time \<Rightarrow> execution_context \<Rightarrow> system_time
     \<Rightarrow> ('s world, worker_observation) app_op" where
  "wc_complete_claim wc claimed completed_at ctx now =
     finalize_resolution wc (dl_leased_by (cw_lease claimed)) (cw_complete claimed completed_at)
       completed_at ctx now"

definition wc_retry_claim ::
    "'s coordinator \<Rightarrow> claimed_dispatch_work \<Rightarrow> system_time \<Rightarrow> system_time \<Rightarrow> string
     \<Rightarrow> execution_context \<Rightarrow> system_time \<Rightarrow> correlation_id \<Rightarrow> ('s world, worker_observation) app_op" where
  "wc_retry_claim wc claimed attempted_at next_available_at err ctx now gen =
     op_bind (op_lift (cw_retry claimed attempted_at next_available_at err gen)) (\<lambda>resolution.
       finalize_resolution wc (dl_leased_by (cw_lease claimed)) resolution attempted_at ctx now)"

definition wc_dead_letter_claim ::
    "'s coordinator \<Rightarrow> claimed_dispatch_work \<Rightarrow> system_time \<Rightarrow> string \<Rightarrow> execution_context \<Rightarrow> system_time
     \<Rightarrow> correlation_id \<Rightarrow> ('s world, worker_observation) app_op" where
  "wc_dead_letter_claim wc claimed dead_lettered_at err ctx now gen =
     op_bind (op_lift (cw_dead_letter claimed dead_lettered_at err gen)) (\<lambda>resolution.
       finalize_resolution wc (dl_leased_by (cw_lease claimed)) resolution dead_lettered_at ctx now)"

definition wc_snapshot_worker ::
    "'s coordinator \<Rightarrow> worker_snapshot_query \<Rightarrow> execution_context
     \<Rightarrow> ('s world, worker_dispatch_snapshot option) app_op" where
  "wc_snapshot_worker wc q ctx =
     op_bind (op_lift (cc_validate (wc_config wc) ctx)) (\<lambda>_.
     op_bind (op_lift (sq_validate q ctx)) (\<lambda>_.
     on_store (dv_lookup_worker_snapshot (wc_stores wc)
        (wr_at (wr_new (sq_worker_id q) (cc_scope (wc_config wc)) (sq_observed_at q))
           (sq_observed_at q)) ctx)))"

definition wc_list_worker_snapshots ::
    "'s coordinator \<Rightarrow> worker_snapshot_list_query \<Rightarrow> execution_context
     \<Rightarrow> ('s world, worker_dispatch_snapshot list) app_op" where
  "wc_list_worker_snapshots wc q ctx =
     op_bind (op_lift (cc_validate (wc_config wc) ctx)) (\<lambda>_.
     on_store (dv_list_worker_snapshots (wc_stores wc)
        (wq_with_expired_workers
          (wq_with_limit (wq_at (wq_new (cc_scope (wc_config wc)) (sl_observed_at q))
             (sl_observed_at q)) (sl_limit q))
          (sl_include_expired_workers q)) ctx))"

definition wc_list_visible_workers ::
    "'s coordinator \<Rightarrow> visible_worker_list_query \<Rightarrow> execution_context
     \<Rightarrow> ('s world, worker_heartbeat list) app_op" where
  "wc_list_visible_workers wc q ctx =
     op_bind (op_lift (cc_validate (wc_config wc) ctx)) (\<lambda>_.
     on_store (dv_list_visible_workers (wc_stores wc)
        (vw_with_limit (vw_at (vw_new (cc_scope (wc_config wc)) (vl_observed_at q)) (vl_observed_at q))
           (vl_limit q)) ctx))"

section \<open>What the coordinator needs of its stores\<close>

text \<open>
  \<open>worker_registry\<close>: a valid heartbeat is recorded, can be read back while it is visible, and leaves the
  work alone; snapshots never fail and read only. \<open>coordinator_store\<close> adds that a refused resolution
  changes nothing.
\<close>

locale worker_registry =
  fixes V :: "'s coordinator_stores"
    and work :: "'s \<Rightarrow> 'w"
  assumes heartbeat_recorded:
      "wh_validate h ctx = Inr () \<Longrightarrow>
         \<exists>s'. dv_record_heartbeat V h ctx s = (Inr (), s') \<and> work s' = work s
           \<and> (\<forall>t n ctx'. t \<le> wh_visible_until h \<longrightarrow>
                (\<exists>k. dv_lookup_worker V (wv_at (wv_new (wh_worker_id h) (wh_scope h) n) t) ctx' s'
                   = (Inr (Some (wh_with_active_leases h k)), s')))"
    and snapshot_total: "\<exists>snap. dv_lookup_worker_snapshot V r ctx s = (Inr snap, s)"
begin

lemma observe_worker_ok:
  assumes "wc_stores wc = V" and "cc_validate (wc_config wc) ctx = Inr ()" and "\<not> is_blank worker_id"
  shows "\<exists>s' obs k. observe_worker wc worker_id t ctx (s, log) = (Inr obs, (s', log))
           \<and> work s' = work s \<and> wo_worker_id obs = worker_id
           \<and> wo_heartbeat obs = wh_with_active_leases
               (wh_from_ttl worker_id (cc_scope (wc_config wc)) t (cc_visibility_ttl (wc_config wc))) k"
proof -
  let ?h = "wh_from_ttl worker_id (cc_scope (wc_config wc)) t (cc_visibility_ttl (wc_config wc))"
  have "wh_validate ?h ctx = Inr ()"
    using assms(2,3) by (simp add: wh_validate_ok_iff cc_validate_ok)
  from heartbeat_recorded [OF this, of s] obtain s' where
    s': "dv_record_heartbeat V ?h ctx s = (Inr (), s')" "work s' = work s"
    and "\<forall>u n ctx'. u \<le> add_or_keep t (cc_visibility_ttl (wc_config wc)) \<longrightarrow>
           (\<exists>k. dv_lookup_worker V (wv_at (wv_new worker_id (cc_scope (wc_config wc)) n) u) ctx' s'
              = (Inr (Some (wh_with_active_leases ?h k)), s'))" by auto
  then obtain k where
    k: "dv_lookup_worker V (wv_at (wv_new worker_id (cc_scope (wc_config wc)) t) t) ctx s'
      = (Inr (Some (wh_with_active_leases ?h k)), s')" by (metis add_or_keep_ge)
  from snapshot_total obtain snap where
    "dv_lookup_worker_snapshot V
       (wr_at (wr_new worker_id (cc_scope (wc_config wc)) t) t) ctx s' = (Inr snap, s')" by blast
  with s' k show ?thesis
    by (auto simp: observe_worker_def assms(1) on_store_def op_bind_def)
qed

end

locale coordinator_store = worker_registry +
  assumes finalize_refused: "dv_finalize V res ctx s = (Inl err, s') \<Longrightarrow> s' = s"
begin

text \<open>
  An operation of the coordinator is the store's operation followed by one observation and one event:
  it fails exactly when the store's operation fails, with its error and its state.
\<close>

lemma cycle_result:
  assumes wc: "wc_stores wc = V" and cc: "cc_validate (wc_config wc) ctx = Inr ()"
    and yr: "yr_validate q ctx = Inr ()"
    and claim: "dv_claim_due V (dc_at (dc_new (cc_queue (wc_config wc)) (yr_worker_id q) (yr_batch_size q)
                  (yr_lease_ttl q) now) (yr_observed_at q)) ctx s = (r, s1)"
  shows "case r of
      Inl err \<Rightarrow> wc_dispatch_cycle wc q ctx now (s, log) = (Inl err, (s1, log))
    | Inr cs \<Rightarrow> \<exists>y s2 evs. wc_dispatch_cycle wc q ctx now (s, log) = (Inr y, (s2, log @ evs))
        \<and> wy_claimed y = cs \<and> wo_worker_id (wy_observation y) = yr_worker_id q
        \<and> work s2 = work s1 \<and> length evs = (if wc_telemetry wc then 1 else 0)"
proof (cases r)
  case (Inl err)
  with claim wc cc yr show ?thesis
    by (simp add: wc_dispatch_cycle_def on_store_def op_bind_def)
next
  case (Inr cs)
  from yr have "\<not> is_blank (yr_worker_id q)" by (simp add: yr_validate_ok)
  from observe_worker_ok [OF wc cc this, of "yr_observed_at q" s1 log] obtain s2 obs where
    "observe_worker wc (yr_worker_id q) (yr_observed_at q) ctx (s1, log) = (Inr obs, (s2, log))"
    "work s2 = work s1" "wo_worker_id obs = yr_worker_id q" by blast
  with Inr claim wc cc yr show ?thesis
    by (simp add: wc_dispatch_cycle_def on_store_def op_bind_def record_event_def)
qed

lemma finalize_result:
  assumes wc: "wc_stores wc = V" and cc: "cc_validate (wc_config wc) ctx = Inr ()"
    and named: "\<not> is_blank worker_id" and fin: "dv_finalize V res ctx s = (r, s1)"
  shows "case r of
      Inl err \<Rightarrow> finalize_resolution wc worker_id res t ctx now (s, log) = (Inl err, (s, log))
    | Inr _ \<Rightarrow> \<exists>obs s2 evs. finalize_resolution wc worker_id res t ctx now (s, log)
          = (Inr obs, (s2, log @ evs))
        \<and> wo_worker_id obs = worker_id \<and> work s2 = work s1
        \<and> length evs = (if wc_telemetry wc then 1 else 0)"
proof (cases r)
  case (Inl err)
  with finalize_refused fin wc cc show ?thesis
    by (fastforce simp: finalize_resolution_def on_store_def op_bind_def)
next
  case (Inr u)
  from observe_worker_ok [OF wc cc named, of t s1 log] obtain s2 obs where
    "observe_worker wc worker_id t ctx (s1, log) = (Inr obs, (s2, log))"
    "work s2 = work s1" "wo_worker_id obs = worker_id" by blast
  with Inr fin wc cc show ?thesis
    by (simp add: finalize_resolution_def on_store_def op_bind_def record_event_def)
qed

end

section \<open>The coordinator on the in-memory store\<close>

definition mem_stores :: "correlation_id \<Rightarrow> mem_state coordinator_stores" where
  "mem_stores gen =
     \<lparr>dv_claim_due = (\<lambda>q ctx. mem_claim_due q ctx gen), dv_renew_claim = mem_renew_claim,
      dv_finalize = mem_finalize, dv_record_heartbeat = mem_record_heartbeat,
      dv_lookup_worker = mem_lookup_worker, dv_list_visible_workers = mem_list_visible_workers,
      dv_lookup_worker_snapshot = mem_lookup_worker_snapshot,
      dv_list_worker_snapshots = mem_list_worker_snapshots\<rparr>"

lemma mem_stores_simps [simp]:
  "dv_claim_due (mem_stores gen) q ctx = mem_claim_due q ctx gen"
  "dv_renew_claim (mem_stores gen) = mem_renew_claim"
  "dv_finalize (mem_stores gen) = mem_finalize"
  "dv_record_heartbeat (mem_stores gen) = mem_record_heartbeat"
  "dv_lookup_worker (mem_stores gen) = mem_lookup_worker"
  "dv_lookup_worker_snapshot (mem_stores gen) = mem_lookup_worker_snapshot"
  by (simp_all add: mem_stores_def)

text \<open>Everything in the store but the heartbeats.\<close>

definition mem_work :: "mem_state \<Rightarrow> mem_state" where
  "mem_work s = s\<lparr>ms_heartbeats := []\<rparr>"

lemma mem_work_lookup: "mem_work s' = mem_work s \<Longrightarrow> work_lookup s' = work_lookup s"
  unfolding mem_work_def by (metis work_lookup_heartbeats(1))

interpretation mem_coordinator: coordinator_store "mem_stores gen" mem_work for gen
proof
  fix h ctx s
  assume "wh_validate h ctx = Inr ()"
  then show "\<exists>s'. dv_record_heartbeat (mem_stores gen) h ctx s = (Inr (), s') \<and> mem_work s' = mem_work s
      \<and> (\<forall>t n ctx'. t \<le> wh_visible_until h \<longrightarrow>
           (\<exists>k. dv_lookup_worker (mem_stores gen)
                  (wv_at (wv_new (wh_worker_id h) (wh_scope h) n) t) ctx' s'
              = (Inr (Some (wh_with_active_leases h k)), s')))"
    by (auto simp: mem_record_heartbeat_def mem_work_def mem_lookup_worker_def visible_heartbeat_def
        snapshot_heartbeat_def wv_at_def wv_new_def wh_with_active_leases_def Let_def)
next
  show "\<exists>snap. dv_lookup_worker_snapshot (mem_stores gen) r ctx s = (Inr snap, s)" for r ctx s
    by (simp add: mem_lookup_worker_snapshot_def Let_def)
next
  show "dv_finalize (mem_stores gen) res ctx s = (Inl err, s') \<Longrightarrow> s' = s" for res ctx s err s'
    using work.refused_unchanged [where q = res and s = s and ctx = ctx and err = err] by simp
qed

section \<open>Held claims\<close>

text \<open>
  A claim is held while the store's entry is the one the claim left there: it can then be resolved and,
  before it expires, renewed.
\<close>

definition claim_held :: "mem_state \<Rightarrow> claimed_dispatch_work \<Rightarrow> bool" where
  "claim_held s c \<longleftrightarrow> \<not> is_blank (dl_leased_by (cw_lease c))
     \<and> (\<exists>e. entry_ok (claimed_target c) e \<and> work_lookup s (claimed_target c) = Some (claimed_entry c e))"

lemma claim_held_cong: "work_lookup s' = work_lookup s \<Longrightarrow> claim_held s' c = claim_held s c"
  by (simp add: claim_held_def)

lemma claimed_entry_held:
  "entry_ok (claimed_target c) e \<Longrightarrow> entry_lease (claimed_entry c e) = Some (cw_lease c)"
  by (cases c; cases e) auto

lemma claim_due_held:
  assumes inv: "mem_inv s" and ok: "mem_claim_due q ctx gen s = (Inr cs, s')" and c: "c \<in> set cs"
  shows "claim_held s' c" and "dl_leased_by (cw_lease c) = dc_worker_id q"
    and "dl_lease_expires_at (cw_lease c) = add_or_keep (dc_now q) (dc_lease_ttl q)"
  using claim_due_each [OF inv ok c] mem_inv_entry(1) [OF inv]
  by (auto simp: claim_held_def lease_granted_def)

lemma claim_held_resolves:
  assumes "claim_held s c" and res: "resolution_of c res"
  obtains t' e where "mem_finalize res ctx s = (Inr (), t')"
    and "work_lookup t' = (work_lookup s)(claimed_target c \<mapsto> e)"
    and "entry_lease e = None" and "entry_payload e = resolution_payload res"
proof -
  from assms(1) obtain e where ok: "entry_ok (claimed_target c) e"
    and e: "work_lookup s (claimed_target c) = Some (claimed_entry c e)" by (auto simp: claim_held_def)
  note facts = resolution_of_facts [OF res ok]
  from work.resolve_accepts [of s res "claimed_entry c e" ctx] facts e claimed_entry_held [OF ok]
  obtain t' where "mem_finalize res ctx s = (Inr (), t')"
    "work_lookup t' = (work_lookup s)(claimed_target c \<mapsto> resolution_outcome res (claimed_entry c e))"
    by auto
  then show ?thesis using that facts(4) outcome_unleased by blast
qed

section \<open>Properties\<close>

text \<open>The claim a dispatch cycle makes.\<close>

definition cycle_claim ::
    "'s coordinator \<Rightarrow> worker_dispatch_cycle_request \<Rightarrow> system_time \<Rightarrow> dispatch_claim_request" where
  "cycle_claim wc q now =
     dc_at (dc_new (cc_queue (wc_config wc)) (yr_worker_id q) (yr_batch_size q) (yr_lease_ttl q) now)
       (yr_observed_at q)"

definition event_count :: "'s coordinator \<Rightarrow> nat" where
  "event_count wc = (if wc_telemetry wc then 1 else 0)"

text \<open>
  With a valid configuration and request, a dispatch cycle over the in-memory store is the store's
  claim followed by a heartbeat: it fails exactly when the claim fails, with the claim's error and state
  and no event; otherwise it returns exactly the claimed work and an observation of the claiming worker,
  changes nothing of the store beyond the claim but the heartbeats, and emits one event if and only if
  the coordinator has a telemetry sink. In particular the recorded heartbeat is always read back.
\<close>

theorem wc_dispatch_cycle_is_claim:
  assumes "wc_stores wc = mem_stores gen" and "cc_validate (wc_config wc) ctx = Inr ()"
    and "yr_validate q ctx = Inr ()"
  shows "case mem_claim_due (cycle_claim wc q now) ctx gen s of
      (Inl err, s1) \<Rightarrow> wc_dispatch_cycle wc q ctx now (s, log) = (Inl err, (s1, log))
    | (Inr cs, s1) \<Rightarrow> \<exists>y s2 evs. wc_dispatch_cycle wc q ctx now (s, log) = (Inr y, (s2, log @ evs))
        \<and> wy_claimed y = cs \<and> wo_worker_id (wy_observation y) = yr_worker_id q
        \<and> mem_work s2 = mem_work s1 \<and> length evs = event_count wc"
proof (cases "mem_claim_due (cycle_claim wc q now) ctx gen s")
  case (Pair r s1)
  with mem_coordinator.cycle_result [OF assms, of now s r s1 log]
  show ?thesis by (cases r) (auto simp: cycle_claim_def event_count_def)
qed

definition sample_coordinator :: "mem_state coordinator" where
  "sample_coordinator =
     wc_with_telemetry (wc_new (mem_stores (CorrelationId ''g'')) (cc_new Execution ''ops'' 60))"

definition sample_cycle :: worker_dispatch_cycle_request where
  "sample_cycle = yr_at (yr_new ''w1'' 5 10 0) 3"

lemma sample_coordinator_valid:
  "wc_stores sample_coordinator = mem_stores (CorrelationId ''g'')"
  "cc_validate (wc_config sample_coordinator) sample_context = Inr ()"
  "yr_validate sample_cycle sample_context = Inr ()"
  by (simp add: sample_coordinator_def wc_with_telemetry_def wc_new_def) (code_simp+)

lemma sample_cycle_claim: "cycle_claim sample_coordinator sample_cycle 0 = sample_claim Execution ''w1'' 3"
  by (simp add: cycle_claim_def sample_coordinator_def wc_with_telemetry_def wc_new_def sample_cycle_def cc_new_def yr_new_def yr_at_def
      sample_claim_def)

lemma sample_counts: "event_count sample_coordinator = 1" "yr_worker_id sample_cycle = ''w1''"
  by (simp_all add: event_count_def sample_coordinator_def wc_with_telemetry_def sample_cycle_def yr_at_def yr_new_def)

theorem wc_dispatch_cycle_is_claim_witness:
  "\<exists>y s2 evs. wc_dispatch_cycle sample_coordinator sample_cycle sample_context 0 (sample_store, [])
       = (Inr y, (s2, evs))
     \<and> wy_claimed y = [ClaimedExecutionWork sample_claimed] \<and> wo_worker_id (wy_observation y) = ''w1''
     \<and> length evs = 1"
  using wc_dispatch_cycle_is_claim [OF sample_coordinator_valid, of 0 sample_store "[]"]
  by (auto simp: sample_cycle_claim sample_claim_run sample_counts)

lemma cc_validate_any: "cc_validate c ctx = Inr () \<Longrightarrow> cc_validate c ctx' = Inr ()"
  by (simp add: cc_validate_ok)

lemma cycle_ok:
  assumes "wc_stores wc = mem_stores gen"
    and "wc_dispatch_cycle wc q ctx now (s, log) = (Inr y, (s2, log2))"
  obtains s1 where "cc_validate (wc_config wc) ctx = Inr ()" and "yr_validate q ctx = Inr ()"
    and "mem_claim_due (cycle_claim wc q now) ctx gen s = (Inr (wy_claimed y), s1)"
    and "mem_work s2 = mem_work s1"
proof -
  from assms(2) have v: "cc_validate (wc_config wc) ctx = Inr ()" "yr_validate q ctx = Inr ()"
    by (auto simp: wc_dispatch_cycle_def op_bind_Inr_iff)
  obtain r s1 where c: "mem_claim_due (cycle_claim wc q now) ctx gen s = (r, s1)" by fastforce
  from mem_coordinator.cycle_result [OF assms(1) v, of now s r s1 log] c assms(2) v that
  show ?thesis by (cases r) (auto simp: cycle_claim_def)
qed

text \<open>
  The coordinator's round trip: on every reachable store, work that a dispatch cycle claimed is
  completed by its worker through the same coordinator, which succeeds; the store then holds the record
  or message the claim computed, without a lease, and nothing else of the store changed but the
  heartbeats.
\<close>

theorem wc_cycle_then_complete:
  assumes "mem_reachable s" and wc: "wc_stores wc = mem_stores gen"
    and cyc: "wc_dispatch_cycle wc q ctx now (s, log) = (Inr y, (s2, log2))"
    and c: "c \<in> set (wy_claimed y)"
  shows "\<exists>obs s3 evs e. wc_complete_claim wc c t ctx' now' (s2, log2) = (Inr obs, (s3, log2 @ evs))
           \<and> wo_worker_id obs = yr_worker_id q \<and> length evs = event_count wc
           \<and> entry_lease e = None \<and> entry_payload e = resolution_payload (cw_complete c t)
           \<and> work_lookup s3 = (work_lookup s2)(claimed_target c \<mapsto> e)"
proof -
  from cycle_ok [OF wc cyc] obtain s1 where v: "cc_validate (wc_config wc) ctx = Inr ()"
    and cl: "mem_claim_due (cycle_claim wc q now) ctx gen s = (Inr (wy_claimed y), s1)"
    and same: "mem_work s2 = mem_work s1" by blast
  note held = claim_due_held [OF mem_reachable_inv [OF assms(1)] cl c]
  have holder: "dl_leased_by (cw_lease c) = yr_worker_id q"
    using held(2) by (simp add: cycle_claim_def dc_at_def dc_new_def)
  have named: "\<not> is_blank (yr_worker_id q)" using held(1) holder by (simp add: claim_held_def)
  have "resolution_of c (cw_complete c t)" unfolding resolution_of_def by blast
  with held(1) claim_held_cong [OF mem_work_lookup [OF same]]
  obtain t' e where fin: "mem_finalize (cw_complete c t) ctx' s2 = (Inr (), t')"
    "work_lookup t' = (work_lookup s2)(claimed_target c \<mapsto> e)"
    and e: "entry_lease e = None" "entry_payload e = resolution_payload (cw_complete c t)"
    by (metis claim_held_resolves)
  from mem_coordinator.finalize_result [OF wc cc_validate_any [OF v, of ctx'] named,
      of "cw_complete c t" s2 "Inr ()" t' t now' log2] fin(1)
  obtain obs s3 evs where
    "wc_complete_claim wc c t ctx' now' (s2, log2) = (Inr obs, (s3, log2 @ evs))"
    "wo_worker_id obs = yr_worker_id q" "mem_work s3 = mem_work t'" "length evs = event_count wc"
    by (auto simp: wc_complete_claim_def holder event_count_def)
  moreover have "work_lookup s3 = (work_lookup s2)(claimed_target c \<mapsto> e)"
    using mem_work_lookup [of s3 t'] calculation(3) fin(2) by simp
  ultimately show ?thesis using e by blast
qed

theorem wc_cycle_then_complete_witness:
  "\<exists>y s2 log2 obs s3 log3.
     wc_dispatch_cycle sample_coordinator sample_cycle sample_context 0 (sample_store, [])
       = (Inr y, (s2, log2))
   \<and> wc_complete_claim sample_coordinator (ClaimedExecutionWork sample_claimed) 5 sample_context 0
       (s2, log2) = (Inr obs, (s3, log3))
   \<and> wo_worker_id obs = ''w1''"
proof -
  obtain y s2 evs where y:
    "wc_dispatch_cycle sample_coordinator sample_cycle sample_context 0 (sample_store, [])
      = (Inr y, (s2, evs))" "wy_claimed y = [ClaimedExecutionWork sample_claimed]"
    using mem_coordinator.cycle_result [OF sample_coordinator_valid, of 0 sample_store
        "Inr [ClaimedExecutionWork sample_claimed]" sample_leased_store "[]"]
      sample_claim_run sample_cycle_claim
    by (auto simp: cycle_claim_def)
  moreover have "yr_worker_id sample_cycle = ''w1''"
    by (simp add: sample_cycle_def yr_at_def yr_new_def)
  ultimately show ?thesis
    using wc_cycle_then_complete [OF sample_store_reachable sample_coordinator_valid(1) y(1),
        of "ClaimedExecutionWork sample_claimed" 5 sample_context 0] by fastforce
qed

text \<open>
  Retrying or dead-lettering claimed work through the coordinator is all or nothing: an error, be it
  the transition's or the store's, leaves store and telemetry exactly as they were; otherwise the store
  accepted the resolution and only the heartbeats changed besides.
\<close>

theorem wc_resolve_all_or_nothing:
  assumes wc: "wc_stores wc = mem_stores gen" and cc: "cc_validate (wc_config wc) ctx = Inr ()"
    and named: "\<not> is_blank (dl_leased_by (cw_lease c))"
    and m: "m \<in> {(wc_retry_claim wc c t nxt err ctx now g, cw_retry c t nxt err g),
                (wc_dead_letter_claim wc c t err ctx now g, cw_dead_letter c t err g)}"
  shows "case fst m (s, log) of
      (Inl _, w) \<Rightarrow> w = (s, log)
    | (Inr obs, (s', log')) \<Rightarrow> \<exists>res s1. snd m = Inr res \<and> mem_finalize res ctx s = (Inr (), s1)
        \<and> mem_work s' = mem_work s1 \<and> length log' = length log + event_count wc"
proof (cases "snd m")
  case (Inl e)
  with m show ?thesis by (auto simp: wc_retry_claim_def wc_dead_letter_claim_def)
next
  case (Inr res)
  with m have eq: "fst m (s, log)
      = finalize_resolution wc (dl_leased_by (cw_lease c)) res t ctx now (s, log)"
    by (auto simp: wc_retry_claim_def wc_dead_letter_claim_def)
  obtain r s1 where f: "mem_finalize res ctx s = (r, s1)" by fastforce
  from mem_coordinator.finalize_result [OF wc cc named, of res s r s1 t now log] f Inr
  show ?thesis unfolding eq by (cases r) (auto simp: event_count_def)
qed

theorem wc_resolve_all_or_nothing_witness:
  "case wc_dead_letter_claim sample_coordinator (ClaimedExecutionWork sample_claimed) 5 ''boom''
       sample_context 0 (CorrelationId ''g'') (sample_store, []) of
      (Inl _, w) \<Rightarrow> w = (sample_store, [])
    | (Inr obs, (s', log')) \<Rightarrow> \<exists>res s1.
          cw_dead_letter (ClaimedExecutionWork sample_claimed) 5 ''boom'' (CorrelationId ''g'') = Inr res
        \<and> mem_finalize res sample_context sample_store = (Inr (), s1)
        \<and> mem_work s' = mem_work s1 \<and> length log' = 0 + event_count sample_coordinator"
proof -
  have "\<not> is_blank (dl_leased_by (cw_lease (ClaimedExecutionWork sample_claimed)))"
    by (simp add: sample_claimed_def sample_lease_def)
  from wc_resolve_all_or_nothing [OF sample_coordinator_valid(1,2) this,
      of "(wc_dead_letter_claim sample_coordinator (ClaimedExecutionWork sample_claimed) 5 ''boom''
            sample_context 0 (CorrelationId ''g''),
           cw_dead_letter (ClaimedExecutionWork sample_claimed) 5 ''boom'' (CorrelationId ''g''))"
         5 undefined "''boom''" 0 "CorrelationId ''g''" sample_store "[]"]
  show ?thesis unfolding fst_conv snd_conv list.size by simp
qed

end
