(* ===== verification/Runner.thy ===== *)
theory Runner
  imports Scheduler
begin

text \<open>
  \<open>runner/dispatch_runner.rs\<close> with the types of \<open>runner/types/types_core.rs\<close> it uses: the reference
  dispatch runner, a registry of active claims in front of the coordinator. A worker refers to a claim by
  its name and lease identifier; the runner checks the owner, asks the coordinator and keeps the registry
  in step with the answer. The registry is a hash map keyed by lease identifier; its mutex is never
  poisoned in the model.
\<close>

section \<open>Claims and outcomes\<close>

record reference_active_claim_ref =
  ar_worker_id :: string
  ar_lease_id :: lease_id

definition ar_new :: "string \<Rightarrow> lease_id \<Rightarrow> reference_active_claim_ref" where
  "ar_new worker_id lease_id = \<lparr>ar_worker_id = worker_id, ar_lease_id = lease_id\<rparr>"

record reference_work_claim =
  rk_queue :: dispatch_queue
  rk_worker_id :: string
  rk_lease_id :: lease_id
  rk_leased_at :: system_time
  rk_lease_expires_at :: system_time
  rk_work_id :: string
  rk_available_at :: system_time

fun rk_from_claimed :: "claimed_dispatch_work \<Rightarrow> reference_work_claim" where
  "rk_from_claimed (ClaimedExecutionWork c) =
     \<lparr>rk_queue = Execution, rk_worker_id = el_leased_by (ce_lease c),
      rk_lease_id = el_lease_id (ce_lease c), rk_leased_at = el_leased_at (ce_lease c),
      rk_lease_expires_at = el_lease_expires_at (ce_lease c),
      rk_work_id = execution_id_str (er_id (ce_record c)),
      rk_available_at = er_available_at (ce_record c)\<rparr>"
| "rk_from_claimed (ClaimedOutboxWork c) =
     \<lparr>rk_queue = Outbox, rk_worker_id = ol_leased_by (co_lease c),
      rk_lease_id = ol_lease_id (co_lease c), rk_leased_at = ol_leased_at (co_lease c),
      rk_lease_expires_at = ol_lease_expires_at (co_lease c),
      rk_work_id = outbox_message_id_str (om_id (co_message c)),
      rk_available_at = om_available_at (co_message c)\<rparr>"

record reference_dispatch_cycle =
  ry_observation :: worker_observation
  ry_claims :: "reference_work_claim list"

record reference_lease_renewal =
  rn_observation :: worker_observation
  rn_previous_claim :: reference_work_claim
  rn_renewed_claim :: reference_work_claim

datatype reference_claim_disposition = ClaimCompleted | ClaimRetried | ClaimDeadLettered

record reference_claim_outcome =
  ro_observation :: worker_observation
  ro_claim :: reference_work_claim
  ro_disposition :: reference_claim_disposition

record reference_worker_snapshot =
  rw_worker_id :: string
  rw_snapshot :: "worker_dispatch_snapshot option"
  rw_active_claims :: "reference_work_claim list"

definition rw_visibility :: "reference_worker_snapshot \<Rightarrow> worker_visibility" where
  "rw_visibility w = (case rw_snapshot w of None \<Rightarrow> Expired | Some snap \<Rightarrow> ws_visibility snap)"

definition rw_active_claim_count :: "reference_worker_snapshot \<Rightarrow> usize" where
  "rw_active_claim_count w = length (rw_active_claims w)"

definition rw_claimed_work :: "reference_worker_snapshot \<Rightarrow> usize" where
  "rw_claimed_work w =
     (case rw_snapshot w of None \<Rightarrow> length (rw_active_claims w) | Some snap \<Rightarrow> ws_claimed_work snap)"

definition rw_stale_claims :: "reference_worker_snapshot \<Rightarrow> usize" where
  "rw_stale_claims w = (case rw_snapshot w of None \<Rightarrow> 0 | Some snap \<Rightarrow> ws_stale_claims snap)"

definition rw_due_work :: "reference_worker_snapshot \<Rightarrow> usize" where
  "rw_due_work w =
     (case rw_snapshot w of None \<Rightarrow> 0 | Some snap \<Rightarrow> sum_list (map qs_due_count (ws_queues snap)))"

definition rw_queue ::
    "reference_worker_snapshot \<Rightarrow> dispatch_queue \<Rightarrow> dispatch_queue_status_snapshot option" where
  "rw_queue w queue = Option.bind (rw_snapshot w) (\<lambda>snap. ws_queue snap queue)"

section \<open>The runner\<close>

record registered_claim =
  rg_claimed :: claimed_dispatch_work

type_synonym registry = "(lease_id, registered_claim) hash_map"

type_synonym 's runner_world = "registry \<times> 's world"

record 's runner =
  rr_coordinator :: "'s coordinator"

definition rr_new :: "'s coordinator_stores \<Rightarrow> coordinator_config \<Rightarrow> 's runner" where
  "rr_new stores config = \<lparr>rr_coordinator = wc_new stores config\<rparr>"

definition rr_with_telemetry :: "'s runner \<Rightarrow> 's runner" where
  "rr_with_telemetry r = r\<lparr>rr_coordinator := wc_with_telemetry (rr_coordinator r)\<rparr>"

definition rr_config :: "'s runner \<Rightarrow> coordinator_config" where
  "rr_config r = wc_config (rr_coordinator r)"

definition on_coordinator :: "('s world, 'a) app_op \<Rightarrow> ('s runner_world, 'a) app_op" where
  "on_coordinator m = (\<lambda>(reg, w). case m w of (r, w') \<Rightarrow> (r, (reg, w')))"

definition on_registry :: "(registry \<Rightarrow> registry) \<Rightarrow> ('s runner_world, unit) app_op" where
  "on_registry f = (\<lambda>(reg, w). (Inr (), (f reg, w)))"

definition rr_heartbeat ::
    "'s runner \<Rightarrow> worker_heartbeat_request \<Rightarrow> execution_context \<Rightarrow> system_time
     \<Rightarrow> ('s runner_world, worker_observation) app_op" where
  "rr_heartbeat r q ctx now = on_coordinator (wc_record_heartbeat (rr_coordinator r) q ctx now)"

fun register_claims :: "claimed_dispatch_work list \<Rightarrow> registry \<Rightarrow> registry" where
  "register_claims [] reg = reg"
| "register_claims (c # cs) reg =
     register_claims cs (hm_insert (dl_lease_id (cw_lease c)) \<lparr>rg_claimed = c\<rparr> reg)"

definition rr_claim ::
    "'s runner \<Rightarrow> worker_dispatch_cycle_request \<Rightarrow> execution_context \<Rightarrow> system_time
     \<Rightarrow> ('s runner_world, reference_dispatch_cycle) app_op" where
  "rr_claim r q ctx now =
     op_bind (on_coordinator (wc_dispatch_cycle (rr_coordinator r) q ctx now)) (\<lambda>cycle.
     op_bind (on_registry (register_claims (wy_claimed cycle))) (\<lambda>_.
     op_lift (Inr \<lparr>ry_observation = wy_observation cycle,
                   ry_claims = map rk_from_claimed (wy_claimed cycle)\<rparr>)))"

definition rr_lookup_claim ::
    "reference_active_claim_ref \<Rightarrow> execution_context \<Rightarrow> ('s runner_world, registered_claim) app_op" where
  "rr_lookup_claim claim ctx = (\<lambda>(reg, w).
     (case hm_get reg (ar_lease_id claim) of
        None \<Rightarrow>
          Inl (app_error_not_found ''reference_runner_claim_not_found''
                 (''active claim '' @ lease_id_str (ar_lease_id claim) @ '' was not found'')
                 (cx_correlation_id ctx))
      | Some registered \<Rightarrow>
          if dl_leased_by (cw_lease (rg_claimed registered)) \<noteq> ar_worker_id claim
          then Inl (app_error_new ConcurrentModification ''reference_runner_claim_owner_mismatch''
                      ''active claim does not belong to the requested worker'' (cx_correlation_id ctx))
          else Inr registered,
      (reg, w)))"

fun rebuild_claimed_with_lease ::
    "claimed_dispatch_work \<Rightarrow> dispatch_lease \<Rightarrow> correlation_id \<Rightarrow> claimed_dispatch_work app_result" where
  "rebuild_claimed_with_lease (ClaimedExecutionWork c) (ExecutionLease l) gen =
     res_bind (ce_replace_lease c l) (\<lambda>c'. Inr (ClaimedExecutionWork c'))"
| "rebuild_claimed_with_lease (ClaimedOutboxWork c) (OutboxLease l) gen =
     res_bind (co_replace_lease c l gen) (\<lambda>c'. Inr (ClaimedOutboxWork c'))"
| "rebuild_claimed_with_lease (ClaimedExecutionWork c) (OutboxLease l) gen =
     Inl (app_error_new InvalidInput ''reference_runner_lease_queue_mismatch''
            ''execution claims require execution lease renewals'' gen)"
| "rebuild_claimed_with_lease (ClaimedOutboxWork c) (ExecutionLease l) gen =
     Inl (app_error_new InvalidInput ''reference_runner_lease_queue_mismatch''
            ''outbox claims require outbox lease renewals'' gen)"

definition rr_renew ::
    "'s runner \<Rightarrow> reference_active_claim_ref \<Rightarrow> system_time \<Rightarrow> duration \<Rightarrow> execution_context
     \<Rightarrow> system_time \<Rightarrow> correlation_id \<Rightarrow> ('s runner_world, reference_lease_renewal) app_op" where
  "rr_renew r claim renewed_at lease_ttl ctx now gen =
     op_bind (rr_lookup_claim claim ctx) (\<lambda>previous.
     op_bind (on_coordinator (wc_renew_claim (rr_coordinator r) (rg_claimed previous) renewed_at
                                lease_ttl ctx now)) (\<lambda>renewal.
     op_bind (op_lift (rebuild_claimed_with_lease (rg_claimed previous) (wl_lease renewal) gen))
       (\<lambda>renewed_claim.
     op_bind (on_registry (\<lambda>reg.
        hm_insert (rk_lease_id (rk_from_claimed renewed_claim)) \<lparr>rg_claimed = renewed_claim\<rparr>
          (hm_remove (ar_lease_id claim) reg))) (\<lambda>_.
     op_lift (Inr \<lparr>rn_observation = wl_observation renewal,
                   rn_previous_claim = rk_from_claimed (rg_claimed previous),
                   rn_renewed_claim = rk_from_claimed renewed_claim\<rparr>)))))"

text \<open>
  The three resolutions: find the claim, resolve it through the coordinator, drop it from the registry.
\<close>

definition rr_resolve ::
    "reference_active_claim_ref \<Rightarrow> (claimed_dispatch_work \<Rightarrow> ('s world, worker_observation) app_op)
     \<Rightarrow> reference_claim_disposition \<Rightarrow> execution_context
     \<Rightarrow> ('s runner_world, reference_claim_outcome) app_op" where
  "rr_resolve claim act disposition ctx =
     op_bind (rr_lookup_claim claim ctx) (\<lambda>registered.
     op_bind (on_coordinator (act (rg_claimed registered))) (\<lambda>observation.
     op_bind (on_registry (hm_remove (ar_lease_id claim))) (\<lambda>_.
     op_lift (Inr \<lparr>ro_observation = observation,
                   ro_claim = rk_from_claimed (rg_claimed registered),
                   ro_disposition = disposition\<rparr>))))"

definition rr_complete ::
    "'s runner \<Rightarrow> reference_active_claim_ref \<Rightarrow> system_time \<Rightarrow> execution_context \<Rightarrow> system_time
     \<Rightarrow> ('s runner_world, reference_claim_outcome) app_op" where
  "rr_complete r claim completed_at ctx now =
     rr_resolve claim (\<lambda>c. wc_complete_claim (rr_coordinator r) c completed_at ctx now)
       ClaimCompleted ctx"

definition rr_retry ::
    "'s runner \<Rightarrow> reference_active_claim_ref \<Rightarrow> system_time \<Rightarrow> system_time \<Rightarrow> string
     \<Rightarrow> execution_context \<Rightarrow> system_time \<Rightarrow> correlation_id
     \<Rightarrow> ('s runner_world, reference_claim_outcome) app_op" where
  "rr_retry r claim attempted_at next_available_at err ctx now gen =
     rr_resolve claim
       (\<lambda>c. wc_retry_claim (rr_coordinator r) c attempted_at next_available_at err ctx now gen)
       ClaimRetried ctx"

definition rr_dead_letter ::
    "'s runner \<Rightarrow> reference_active_claim_ref \<Rightarrow> system_time \<Rightarrow> string \<Rightarrow> execution_context
     \<Rightarrow> system_time \<Rightarrow> correlation_id \<Rightarrow> ('s runner_world, reference_claim_outcome) app_op" where
  "rr_dead_letter r claim dead_lettered_at err ctx now gen =
     rr_resolve claim (\<lambda>c. wc_dead_letter_claim (rr_coordinator r) c dead_lettered_at err ctx now gen)
       ClaimDeadLettered ctx"

definition list_active_claims_inner :: "string option \<Rightarrow> registry \<Rightarrow> reference_work_claim list" where
  "list_active_claims_inner worker reg =
     sort_key (\<lambda>k. (rk_leased_at k, rk_lease_id k))
       (map (\<lambda>g. rk_from_claimed (rg_claimed g))
         (filter (\<lambda>g. case worker of None \<Rightarrow> True
                        | Some w \<Rightarrow> dl_leased_by (cw_lease (rg_claimed g)) = w) (hm_values reg)))"

definition rr_list_active_claims :: "('s runner_world, reference_work_claim list) app_op" where
  "rr_list_active_claims = (\<lambda>(reg, w). (Inr (list_active_claims_inner None reg), (reg, w)))"

definition rr_list_active_claims_for_worker ::
    "string \<Rightarrow> ('s runner_world, reference_work_claim list) app_op" where
  "rr_list_active_claims_for_worker worker =
     (\<lambda>(reg, w). (Inr (list_active_claims_inner (Some worker) reg), (reg, w)))"

definition rr_snapshot_worker ::
    "'s runner \<Rightarrow> worker_snapshot_query \<Rightarrow> execution_context
     \<Rightarrow> ('s runner_world, reference_worker_snapshot option) app_op" where
  "rr_snapshot_worker r q ctx =
     op_bind (on_coordinator (wc_snapshot_worker (rr_coordinator r) q ctx)) (\<lambda>snapshot.
     op_bind (rr_list_active_claims_for_worker (sq_worker_id q)) (\<lambda>claims.
     op_lift (Inr (if snapshot = None \<and> claims = [] then None
                   else Some \<lparr>rw_worker_id = sq_worker_id q, rw_snapshot = snapshot,
                              rw_active_claims = claims\<rparr>))))"

definition rr_list_worker_snapshots ::
    "'s runner \<Rightarrow> worker_snapshot_list_query \<Rightarrow> execution_context
     \<Rightarrow> ('s runner_world, worker_dispatch_snapshot list) app_op" where
  "rr_list_worker_snapshots r q ctx =
     on_coordinator (wc_list_worker_snapshots (rr_coordinator r) q ctx)"

definition rr_list_worker_details ::
    "'s runner \<Rightarrow> worker_snapshot_list_query \<Rightarrow> execution_context
     \<Rightarrow> ('s runner_world, reference_worker_snapshot list) app_op" where
  "rr_list_worker_details r q ctx =
     op_bind (on_coordinator (wc_list_worker_snapshots (rr_coordinator r) q ctx)) (\<lambda>snapshots.
     \<lambda>(reg, w). (Inr (map (\<lambda>snap. \<lparr>rw_worker_id = ws_worker_id snap, rw_snapshot = Some snap,
                    rw_active_claims = list_active_claims_inner (Some (ws_worker_id snap)) reg\<rparr>)
                    snapshots), (reg, w)))"

definition rr_list_visible_workers ::
    "'s runner \<Rightarrow> visible_worker_list_query \<Rightarrow> execution_context
     \<Rightarrow> ('s runner_world, worker_heartbeat list) app_op" where
  "rr_list_visible_workers r q ctx =
     on_coordinator (wc_list_visible_workers (rr_coordinator r) q ctx)"

section \<open>Steps of the runner on the in-memory store\<close>

text \<open>
  \<open>keeps P m\<close>: the operation preserves a property of the state, whether it succeeds or fails.
\<close>

definition keeps :: "('s \<Rightarrow> bool) \<Rightarrow> ('s, 'a) app_op \<Rightarrow> bool" where
  "keeps P m \<longleftrightarrow> (\<forall>s. P s \<longrightarrow> P (snd (m s)))"

lemma keeps_bind: "keeps P m \<Longrightarrow> (\<And>a. keeps P (f a)) \<Longrightarrow> keeps P (op_bind m f)"
  unfolding keeps_def op_bind_def by (auto split: prod.split sum.split)

lemma keepsD: "keeps P m \<Longrightarrow> P s \<Longrightarrow> P (snd (m s))"
  unfolding keeps_def by blast

lemma keeps_bind_lift: "(\<And>a. res = Inr a \<Longrightarrow> keeps P (f a)) \<Longrightarrow> keeps P (op_bind (op_lift res) f)"
  unfolding keeps_def op_bind_def by (auto split: sum.split)

lemma keeps_lift [simp]: "keeps P (op_lift r)"
  by (simp add: keeps_def)

definition store_reachable :: "mem_state world \<Rightarrow> bool" where
  "store_reachable w \<longleftrightarrow> mem_reachable (fst w)"

lemma keeps_on_store:
  assumes "\<And>s. mem_step\<^sup>*\<^sup>* s (snd (m s))"
  shows "keeps store_reachable (on_store m)"
proof -
  have "mem_reachable s \<Longrightarrow> mem_reachable s'" if "mem_step\<^sup>*\<^sup>* s s'" for s s'
    using that by (induction rule: rtranclp_induct) (auto intro: mem_reachable.step)
  with assms show ?thesis
    by (auto simp: keeps_def store_reachable_def on_store_def split: prod.splits) (metis snd_conv)
qed

lemma keeps_record_event [simp]: "keeps store_reachable (record_event wc ev)"
  by (auto simp: keeps_def store_reachable_def record_event_def)

lemma keeps_observe:
  "wc_stores wc = mem_stores gen \<Longrightarrow> keeps store_reachable (observe_worker wc w t ctx)"
  unfolding observe_worker_def
  by (intro keeps_bind keeps_on_store keeps_lift)
     (auto intro: mem_step.Heartbeat simp: mem_lookup_worker_def mem_lookup_worker_snapshot_def Let_def)

lemma mem_renew_claim_step: "mem_step s (snd (mem_renew_claim q ctx s))"
  by (cases q) (simp_all add: mem_step.RenewExecution mem_step.RenewOutbox)

lemma keeps_coordinator:
  assumes "wc_stores wc = mem_stores gen"
  shows "keeps store_reachable (wc_record_heartbeat wc hq ctx now)"
    and "keeps store_reachable (wc_dispatch_cycle wc q ctx now)"
    and "keeps store_reachable (wc_renew_claim wc c t ttl ctx now)"
    and "keeps store_reachable (finalize_resolution wc w res t ctx now)"
  unfolding wc_record_heartbeat_def wc_dispatch_cycle_def wc_renew_claim_def finalize_resolution_def
    Let_def
  by (intro keeps_bind keeps_on_store keeps_lift keeps_observe [OF assms] keeps_record_event;
      auto simp: assms intro: mem_claim_due_step mem_step.Finalize mem_renew_claim_step)+

lemma keeps_resolutions:
  assumes "wc_stores wc = mem_stores gen"
  shows "keeps store_reachable (wc_complete_claim wc c t ctx now)"
    and "keeps store_reachable (wc_retry_claim wc c t nxt err ctx now g)"
    and "keeps store_reachable (wc_dead_letter_claim wc c t err ctx now g)"
  unfolding wc_complete_claim_def wc_retry_claim_def wc_dead_letter_claim_def
  by (intro keeps_bind keeps_lift keeps_coordinator [OF assms])+

text \<open>One rule per mutating method of the runner, and one for the other users of the store.\<close>

inductive rr_step :: "mem_state runner \<Rightarrow> mem_state runner_world \<Rightarrow> mem_state runner_world \<Rightarrow> bool"
  for r where
  RHeartbeat: "rr_step r w (snd (rr_heartbeat r hq ctx now w))"
| RClaim: "rr_step r w (snd (rr_claim r q ctx now w))"
| RRenew: "rr_step r w (snd (rr_renew r claim t ttl ctx now g w))"
| RComplete: "rr_step r w (snd (rr_complete r claim t ctx now w))"
| RRetry: "rr_step r w (snd (rr_retry r claim t nxt err ctx now g w))"
| RDeadLetter: "rr_step r w (snd (rr_dead_letter r claim t err ctx now g w))"
| RStore: "mem_step s s' \<Longrightarrow> rr_step r (reg, (s, log)) (reg, (s', log))"

inductive rr_reachable :: "mem_state runner \<Rightarrow> mem_state runner_world \<Rightarrow> bool" for r where
  start: "rr_reachable r ([], (mem_new, []))"
| step: "rr_reachable r w \<Longrightarrow> rr_step r w w' \<Longrightarrow> rr_reachable r w'"

text \<open>The registry files every claim under its own lease identifier, and its holder is named.\<close>

definition registry_ok :: "registry \<Rightarrow> bool" where
  "registry_ok reg \<longleftrightarrow> hm_wf reg
     \<and> (\<forall>k g. hm_get reg k = Some g \<longrightarrow> dl_lease_id (cw_lease (rg_claimed g)) = k
          \<and> \<not> is_blank (dl_leased_by (cw_lease (rg_claimed g))))"

definition runner_ok :: "mem_state runner_world \<Rightarrow> bool" where
  "runner_ok w \<longleftrightarrow> registry_ok (fst w) \<and> store_reachable (snd w)"

lemma registry_okD:
  assumes "registry_ok reg" and "hm_get reg k = Some \<lparr>rg_claimed = c\<rparr>"
  shows "dl_lease_id (cw_lease c) = k" and "\<not> is_blank (dl_leased_by (cw_lease c))"
  using assms unfolding registry_ok_def by (metis registered_claim.select_convs(1))+

lemma registry_ok_insert:
  "registry_ok reg \<Longrightarrow> \<not> is_blank (dl_leased_by (cw_lease c))
     \<Longrightarrow> registry_ok (hm_insert (dl_lease_id (cw_lease c)) \<lparr>rg_claimed = c\<rparr> reg)"
  by (simp add: registry_ok_def)

lemma registry_ok_remove: "registry_ok reg \<Longrightarrow> registry_ok (hm_remove k reg)"
  by (simp add: registry_ok_def)

lemma registry_ok_register:
  "registry_ok reg \<Longrightarrow> (\<And>c. c \<in> set cs \<Longrightarrow> \<not> is_blank (dl_leased_by (cw_lease c)))
     \<Longrightarrow> registry_ok (register_claims cs reg)"
  by (induction cs arbitrary: reg) (auto intro: registry_ok_insert)

lemma rk_lease_id_from [simp]: "rk_lease_id (rk_from_claimed c) = dl_lease_id (cw_lease c)"
  and rk_leased_at_from [simp]: "rk_leased_at (rk_from_claimed c) = dl_leased_at (cw_lease c)"
  and rk_worker_id_from [simp]: "rk_worker_id (rk_from_claimed c) = dl_leased_by (cw_lease c)"
  by (cases c; simp)+

lemma keeps_on_coordinator: "keeps store_reachable m \<Longrightarrow> keeps runner_ok (on_coordinator m)"
  by (auto simp: keeps_def runner_ok_def on_coordinator_def split: prod.splits) (metis snd_conv)

lemma keeps_on_registry:
  "(\<And>reg. registry_ok reg \<Longrightarrow> registry_ok (f reg)) \<Longrightarrow> keeps runner_ok (on_registry f)"
  by (auto simp: keeps_def runner_ok_def on_registry_def)

lemma keeps_lookup: "keeps runner_ok (rr_lookup_claim claim ctx)"
  by (auto simp: keeps_def runner_ok_def rr_lookup_claim_def)

lemma keeps_rr_resolve:
  "(\<And>c. keeps store_reachable (act c)) \<Longrightarrow> keeps runner_ok (rr_resolve claim act d ctx)"
  unfolding rr_resolve_def
  by (intro keeps_bind keeps_lookup keeps_on_coordinator keeps_on_registry registry_ok_remove keeps_lift)

lemma rebuild_facts:
  "rebuild_claimed_with_lease c l g = Inr c' \<Longrightarrow>
     cw_lease c' = l \<and> \<not> is_blank (dl_leased_by l) \<and> claimed_target c' = claimed_target c"
  by (cases c; cases l) (auto simp: ce_replace_lease_def co_replace_lease_def split: if_splits)

lemma keeps_rr_renew:
  assumes "wc_stores (rr_coordinator r) = mem_stores gen"
  shows "keeps runner_ok (rr_renew r claim t ttl ctx now g)"
proof -
  have "keeps runner_ok (on_registry (\<lambda>reg.
      hm_insert (rk_lease_id (rk_from_claimed c')) \<lparr>rg_claimed = c'\<rparr> (hm_remove k reg)))"
    if "rebuild_claimed_with_lease p l g = Inr c'" for p l c' k
    using rebuild_facts [OF that]
    by (intro keeps_on_registry) (auto simp: registry_ok_def)
  then show ?thesis
    unfolding rr_renew_def
    by (intro keeps_bind [OF keeps_lookup] keeps_bind [OF keeps_on_coordinator] keeps_bind_lift
        keeps_coordinator(3) [OF assms] keeps_bind [OF _ keeps_lift]) blast
qed

lemma keeps_rr_claim:
  assumes wc: "wc_stores (rr_coordinator r) = mem_stores gen"
  shows "keeps runner_ok (rr_claim r q ctx now)"
  unfolding keeps_def
proof (intro allI impI)
  fix w
  assume ok: "runner_ok w"
  obtain reg s log where w: "w = (reg, (s, log))" by (metis prod.collapse)
  obtain res w' where cyc: "wc_dispatch_cycle (rr_coordinator r) q ctx now (s, log) = (res, w')"
    by (metis surj_pair)
  have kept: "store_reachable w'"
    using keepsD [OF keeps_coordinator(2) [OF wc, of q ctx now], of "(s, log)"] ok cyc w
    by (simp add: runner_ok_def)
  show "runner_ok (snd (rr_claim r q ctx now w))"
  proof (cases res)
    case (Inl err)
    with cyc ok kept w show ?thesis
      by (simp add: rr_claim_def on_coordinator_def op_bind_def runner_ok_def)
  next
    case (Inr y)
    with cyc obtain s2 log2 where w': "w' = (s2, log2)"
      and c: "wc_dispatch_cycle (rr_coordinator r) q ctx now (s, log) = (Inr y, (s2, log2))"
      by (cases w') auto
    from cycle_ok [OF wc c] obtain s1 where
      "mem_claim_due (cycle_claim (rr_coordinator r) q now) ctx gen s = (Inr (wy_claimed y), s1)"
      by blast
    from claim_due_held(1) [OF _ this] ok w mem_reachable_inv
    have "\<not> is_blank (dl_leased_by (cw_lease x))" if "x \<in> set (wy_claimed y)" for x
      using that by (auto simp: claim_held_def runner_ok_def store_reachable_def)
    with ok w have "registry_ok (register_claims (wy_claimed y) reg)"
      by (intro registry_ok_register) (auto simp: runner_ok_def)
    with Inr cyc kept w show ?thesis
      by (simp add: rr_claim_def on_coordinator_def on_registry_def op_bind_def runner_ok_def)
  qed
qed

lemma rr_step_ok:
  assumes "rr_step r w w'" and wc: "wc_stores (rr_coordinator r) = mem_stores gen" and "runner_ok w"
  shows "runner_ok w'"
  using assms(1)
proof cases
  case (RStore s s' reg log)
  with assms(3) show ?thesis
    by (auto simp: runner_ok_def store_reachable_def intro: mem_reachable.step)
qed (use assms(3) keepsD [OF keeps_rr_claim [OF wc]] keepsD [OF keeps_rr_renew [OF wc]]
    keepsD [OF keeps_rr_resolve [OF keeps_resolutions(1) [OF wc]]]
    keepsD [OF keeps_rr_resolve [OF keeps_resolutions(2) [OF wc]]]
    keepsD [OF keeps_rr_resolve [OF keeps_resolutions(3) [OF wc]]]
    keepsD [OF keeps_on_coordinator [OF keeps_coordinator(1) [OF wc]]]
  in \<open>simp_all add: rr_heartbeat_def rr_complete_def rr_retry_def rr_dead_letter_def\<close>)

lemma rr_reachable_ok:
  assumes "rr_reachable r w" and wc: "wc_stores (rr_coordinator r) = mem_stores gen"
  shows "runner_ok w"
  using assms(1)
proof (induction rule: rr_reachable.induct)
  case start
  show ?case by (simp add: runner_ok_def registry_ok_def store_reachable_def mem_reachable.init)
next
  case (step w w')
  then show ?case using rr_step_ok [OF _ wc] by blast
qed

section \<open>Held claims through the runner\<close>

context coordinator_store
begin

lemma renew_result:
  assumes wc: "wc_stores wc = V" and cc: "cc_validate (wc_config wc) ctx = Inr ()" and "ttl \<noteq> 0"
    and named: "\<not> is_blank (dl_leased_by (cw_lease c))"
    and ok: "dv_renew_claim V (claim_renewal c (dl_leased_by (cw_lease c)) ttl t) ctx s = (Inr l, s1)"
  shows "\<exists>x s2 evs. wc_renew_claim wc c t ttl ctx now (s, log) = (Inr x, (s2, log @ evs))
           \<and> wl_lease x = l \<and> work s2 = work s1"
proof -
  from observe_worker_ok [OF wc cc named, of t s1 log] obtain s2 obs where
    "observe_worker wc (dl_leased_by (cw_lease c)) t ctx (s1, log) = (Inr obs, (s2, log))"
    "work s2 = work s1" by blast
  with assms show ?thesis
    by (simp add: wc_renew_claim_def on_store_def op_bind_def record_event_def
        require_positive_duration_def Let_def)
qed

end

lemma so_lease_status_commute:
  "e\<lparr>so_status := st, so_lease := l\<rparr> = (e :: stored_outbox_message)\<lparr>so_lease := l, so_status := st\<rparr>"
  by (cases e) simp

lemma claim_held_renews:
  assumes "claim_held s c" and "\<not> dl_is_expired_at (cw_lease c) t" and "ttl \<noteq> 0"
  obtains l s1 c' where
    "mem_renew_claim (claim_renewal c (dl_leased_by (cw_lease c)) ttl t) ctx s = (Inr l, s1)"
    and "rebuild_claimed_with_lease c l g = Inr c'" and "claim_held s1 c'"
    and "dl_lease_id l = dl_lease_id (cw_lease c)" and "dl_leased_by l = dl_leased_by (cw_lease c)"
    and "dl_lease_expires_at l = add_or_keep t ttl"
proof (cases c)
  case (ClaimedExecutionWork x)
  let ?q = "eln_at (eln_new (er_id (ce_record x)) (el_lease_id (ce_lease x)) (el_leased_by (ce_lease x))
    ttl t) t"
  have "mem_renew_execution_lease ?q ctx s = (Inr (eln_renewed_lease ?q),
      put_execution (er_id (ce_record x))
        \<lparr>sx_record = ce_record x, sx_lease = Some (eln_renewed_lease ?q)\<rparr> s)"
    using assms ClaimedExecutionWork
    by (auto simp: mem_renew_execution_iff claim_held_def eln_at_def eln_new_def)
  then show ?thesis
    using assms(1) ClaimedExecutionWork
    by (intro that [of "ExecutionLease (eln_renewed_lease ?q)" _
          "ClaimedExecutionWork (x\<lparr>ce_lease := eln_renewed_lease ?q\<rparr>)"])
       (auto simp: op_map_def ce_replace_lease_def claim_held_def eln_renewed_lease_def eln_at_def
         eln_new_def el_from_now_def)
next
  case (ClaimedOutboxWork x)
  let ?q = "oln_at (oln_new (om_id (co_message x)) (ol_lease_id (co_lease x)) (ol_leased_by (co_lease x))
    ttl t) t"
  from assms(1) ClaimedOutboxWork obtain e0 where
    e0: "entry_ok (OutboxWork (om_id (co_message x))) e0"
    "work_lookup s (OutboxWork (om_id (co_message x))) = Some (claimed_entry c e0)"
    by (auto simp: claim_held_def)
  then obtain e where e: "entry_ok (OutboxWork (om_id (co_message x))) (OutboxEntry e)"
    "hm_get (ms_outbox s) (om_id (co_message x)) = Some (e\<lparr>so_message := co_message x,
       so_lease := Some (co_lease x), so_status := OutboxInFlight\<rparr>)"
    using ClaimedOutboxWork by (cases e0) auto
  then have "mem_renew_outbox_lease ?q ctx s = (Inr (oln_renewed_lease ?q),
      put_outbox (om_id (co_message x)) (e\<lparr>so_message := co_message x,
        so_lease := Some (oln_renewed_lease ?q), so_status := OutboxInFlight\<rparr>) s)"
    using assms ClaimedOutboxWork
    by (auto simp: mem_renew_outbox_iff claim_held_def oln_at_def oln_new_def so_lease_status_commute)
  then show ?thesis
    using assms(1) ClaimedOutboxWork e(1)
    by (intro that [of "OutboxLease (oln_renewed_lease ?q)" _
          "ClaimedOutboxWork (x\<lparr>co_lease := oln_renewed_lease ?q\<rparr>)"])
       (auto simp: op_map_def co_replace_lease_def claim_held_def oln_renewed_lease_def oln_at_def
         oln_new_def ol_from_now_def intro!: exI [of _ "OutboxEntry e"])
qed

lemma rr_complete_held:
  assumes wc: "wc_stores (rr_coordinator r) = mem_stores gen"
    and cc: "cc_validate (rr_config r) ctx = Inr ()"
    and g: "hm_get reg k = Some \<lparr>rg_claimed = c\<rparr>" and held: "claim_held s c"
    and holder: "dl_leased_by (cw_lease c) = w"
  shows "\<exists>out s' evs e. rr_complete r (ar_new w k) t ctx now (reg, (s, log))
             = (Inr out, (hm_remove k reg, (s', log @ evs)))
           \<and> ro_claim out = rk_from_claimed c \<and> ro_disposition out = ClaimCompleted
           \<and> work_lookup s' = (work_lookup s)(claimed_target c \<mapsto> e)
           \<and> entry_lease e = None \<and> entry_payload e = resolution_payload (cw_complete c t)"
proof -
  have "resolution_of c (cw_complete c t)" unfolding resolution_of_def by blast
  from claim_held_resolves [OF held this, of ctx] obtain s1 e where
    fin: "mem_finalize (cw_complete c t) ctx s = (Inr (), s1)"
    and e: "work_lookup s1 = (work_lookup s)(claimed_target c \<mapsto> e)" "entry_lease e = None"
      "entry_payload e = resolution_payload (cw_complete c t)" by blast
  from mem_coordinator.finalize_result [OF wc cc [unfolded rr_config_def], of w "cw_complete c t" s
      "Inr ()" s1 t now log] held holder fin
  obtain obs s2 evs where
    "finalize_resolution (rr_coordinator r) w (cw_complete c t) t ctx now (s, log)
       = (Inr obs, (s2, log @ evs))" "mem_work s2 = mem_work s1" by (auto simp: claim_held_def)
  with g holder e mem_work_lookup [of s2 s1] show ?thesis
    by (auto simp: rr_complete_def rr_resolve_def rr_lookup_claim_def ar_new_def on_coordinator_def
        on_registry_def op_bind_def wc_complete_claim_def)
qed

lemma rr_renew_held:
  assumes wc: "wc_stores (rr_coordinator r) = mem_stores gen"
    and cc: "cc_validate (rr_config r) ctx = Inr ()"
    and g: "hm_get reg k = Some \<lparr>rg_claimed = c\<rparr>" and held: "claim_held s c"
    and holder: "dl_leased_by (cw_lease c) = w" and key: "dl_lease_id (cw_lease c) = k"
    and live: "\<not> dl_is_expired_at (cw_lease c) t" and ttl: "ttl \<noteq> 0"
  shows "\<exists>v c' s' evs. rr_renew r (ar_new w k) t ttl ctx now h (reg, (s, log))
             = (Inr v, (hm_insert k \<lparr>rg_claimed = c'\<rparr> (hm_remove k reg), (s', log @ evs)))
           \<and> rn_previous_claim v = rk_from_claimed c \<and> rn_renewed_claim v = rk_from_claimed c'
           \<and> claim_held s' c' \<and> claimed_target c' = claimed_target c
           \<and> dl_lease_id (cw_lease c') = k \<and> dl_leased_by (cw_lease c') = w
           \<and> dl_lease_expires_at (cw_lease c') = add_or_keep t ttl"
proof -
  from claim_held_renews [OF held live ttl, of ctx h] obtain l s1 c' where
    ok: "mem_renew_claim (claim_renewal c w ttl t) ctx s = (Inr l, s1)"
    and rb: "rebuild_claimed_with_lease c l h = Inr c'" and held': "claim_held s1 c'"
    and l: "dl_lease_id l = k" "dl_leased_by l = w" "dl_lease_expires_at l = add_or_keep t ttl"
    using holder key by metis
  have "\<not> is_blank (dl_leased_by (cw_lease c))" using held by (simp add: claim_held_def)
  from mem_coordinator.renew_result [OF wc cc [unfolded rr_config_def] ttl this, of t s l s1 now log]
    ok holder obtain x s2 evs where
    "wc_renew_claim (rr_coordinator r) c t ttl ctx now (s, log) = (Inr x, (s2, log @ evs))"
    "wl_lease x = l" "mem_work s2 = mem_work s1" by auto
  moreover have "claim_held s2 c'"
    using held' claim_held_cong [OF mem_work_lookup] calculation(3) by blast
  ultimately show ?thesis
    using g holder key rb l rebuild_facts [OF rb]
    by (auto simp: rr_renew_def rr_lookup_claim_def ar_new_def on_coordinator_def on_registry_def
        op_bind_def)
qed

lemma register_claims_other:
  "k \<notin> (dl_lease_id \<circ> cw_lease) ` set cs \<Longrightarrow> hm_get (register_claims cs reg) k = hm_get reg k"
  by (induction cs arbitrary: reg) auto

lemma register_claims_get:
  assumes "distinct (map (dl_lease_id \<circ> cw_lease) cs)" and "c \<in> set cs"
  shows "hm_get (register_claims cs reg) (dl_lease_id (cw_lease c)) = Some \<lparr>rg_claimed = c\<rparr>"
  using assms
proof (induction cs arbitrary: reg)
  case (Cons x cs)
  then show ?case by (cases "c = x") (simp_all add: register_claims_other)
qed simp

lemma claimed_leases_distinct:
  assumes "mem_inv s" and ok: "mem_claim_due q ctx gen s = (Inr cs, s')"
    and "ms_next_lease_sequence s' \<noteq> - 1"
  shows "distinct (map (dl_lease_id \<circ> cw_lease) cs)"
proof -
  have inv': "mem_inv s'" using mem_step_inv [OF mem_claim_due_step assms(1), of q ctx gen] ok by simp
  have lease: "work_lease s' (claimed_target c) = Some (cw_lease c)" if "c \<in> set cs" for c
    using claim_due_held(1) [OF assms(1) ok that] claimed_entry_held
    by (auto simp: claim_held_def work_lease_def)
  note d = claim_due_targets(2) [OF assms(1) ok]
  have "inj_on (dl_lease_id \<circ> cw_lease) (set cs)"
  proof (rule inj_onI)
    fix c c'
    assume c: "c \<in> set cs" "c' \<in> set cs" "(dl_lease_id \<circ> cw_lease) c = (dl_lease_id \<circ> cw_lease) c'"
    then have "claimed_target c = claimed_target c'"
      using lease assms(3) inv' leases_distinctD [of s'] by (auto simp: mem_inv_def)
    with d c(1,2) show "c = c'" by (simp add: distinct_map inj_on_def)
  qed
  with d show ?thesis by (simp add: distinct_map)
qed

section \<open>Properties\<close>

text \<open>
  In every reachable state of the runner, whatever the workers and the other users of the store do,
  the registry files every active claim under its own lease identifier with a named holder; hence the
  listing of active claims holds exactly the registered claims, in order of lease time and identifier,
  without repetition, and does not depend on the iteration order of the hash map.
\<close>

theorem rr_active_claims_listing:
  assumes "rr_reachable r (reg, w)" and "wc_stores (rr_coordinator r) = mem_stores gen"
    and "hm_same reg reg'"
  shows "registry_ok reg
       \<and> list_active_claims_inner None reg' = list_active_claims_inner None reg
       \<and> sorted (map (\<lambda>k. (rk_leased_at k, rk_lease_id k)) (list_active_claims_inner None reg))
       \<and> distinct (map rk_lease_id (list_active_claims_inner None reg))
       \<and> set (list_active_claims_inner None reg)
           = {rk_from_claimed (rg_claimed g) | k g. hm_get reg k = Some g}"
proof (intro conjI)
  show ok: "registry_ok reg"
    using rr_reachable_ok [OF assms(1,2)] by (simp add: runner_ok_def)
  let ?f = "\<lambda>g. rk_from_claimed (rg_claimed g)"
  have keys: "map (rk_lease_id \<circ> ?f) (hm_values reg) = map fst reg"
    using ok by (auto simp: registry_ok_def hm_get_iff)
  then have inj: "inj_on rk_lease_id (set (map ?f (hm_values reg)))"
    using ok by (metis distinct_map hm_wf_def map_map registry_ok_def)
  have "mset (map ?f (hm_values reg)) = mset (map ?f (hm_values reg'))"
    using hm_same_values [OF assms(3)] by (metis mset_map)
  moreover have "inj_on (\<lambda>k. (rk_leased_at k, rk_lease_id k)) (set (map ?f (hm_values reg)))"
    using inj unfolding inj_on_def by blast
  ultimately show "list_active_claims_inner None reg' = list_active_claims_inner None reg"
    using sort_key_order_free by (fastforce simp: list_active_claims_inner_def)
  show "sorted (map (\<lambda>k. (rk_leased_at k, rk_lease_id k)) (list_active_claims_inner None reg))"
    by (simp add: list_active_claims_inner_def)
  have "mset (map rk_lease_id (list_active_claims_inner None reg)) = mset (map fst reg)"
    unfolding list_active_claims_inner_def keys [symmetric] by (simp add: multiset.map_comp o_assoc)
  then show "distinct (map rk_lease_id (list_active_claims_inner None reg))"
    using ok by (metis hm_wf_def mset_eq_imp_distinct_iff registry_ok_def)
  show "set (list_active_claims_inner None reg)
      = {rk_from_claimed (rg_claimed g) | k g. hm_get reg k = Some g}"
  proof -
    have "set (list_active_claims_inner None reg) = ?f ` set (hm_values reg)"
      by (simp add: list_active_claims_inner_def image_image)
    also have "\<dots> = {?f g | k g. hm_get reg k = Some g}"
      using ok hm_value_iff [of reg] unfolding registry_ok_def by blast
    finally show ?thesis .
  qed
qed


definition sample_runner :: "mem_state runner" where
  "sample_runner = rr_with_telemetry (rr_new (mem_stores (CorrelationId ''g'')) (cc_new Execution ''ops'' 60))"

lemma sample_runner_coordinator:
  "rr_coordinator sample_runner = sample_coordinator" "rr_config sample_runner = wc_config sample_coordinator"
  by (simp_all add: sample_runner_def rr_with_telemetry_def rr_new_def sample_coordinator_def rr_config_def)

lemma sample_runner_stores: "wc_stores (rr_coordinator sample_runner) = mem_stores (CorrelationId ''g'')"
  by (simp add: sample_runner_coordinator sample_coordinator_valid)

lemma sample_runner_start: "rr_reachable sample_runner ([], (sample_store, []))"
  unfolding sample_store_def
  by (rule rr_reachable.step [OF rr_reachable.step [OF rr_reachable.start
        rr_step.RStore [OF mem_step.Append]] rr_step.RStore [OF mem_step.AppendOutbox]])

definition sample_registry :: registry where
  "sample_registry =
     [(LeaseId (lease_text 1), \<lparr>rg_claimed = ClaimedExecutionWork sample_claimed\<rparr>)]"

lemma sample_runner_claim:
  "\<exists>y s2 log. rr_claim sample_runner sample_cycle sample_context 0 ([], (sample_store, []))
       = (Inr y, (sample_registry, (s2, log)))
     \<and> ry_claims y = [rk_from_claimed (ClaimedExecutionWork sample_claimed)]
     \<and> mem_work s2 = mem_work sample_leased_store"
proof -
  obtain y s2 evs where
    "wc_dispatch_cycle sample_coordinator sample_cycle sample_context 0 (sample_store, [])
      = (Inr y, (s2, evs))" "wy_claimed y = [ClaimedExecutionWork sample_claimed]"
    "mem_work s2 = mem_work sample_leased_store"
    using mem_coordinator.cycle_result [OF sample_coordinator_valid, of 0 sample_store
        "Inr [ClaimedExecutionWork sample_claimed]" sample_leased_store "[]"]
      sample_claim_run sample_cycle_claim
    by (auto simp: cycle_claim_def)
  moreover have "dl_lease_id (cw_lease (ClaimedExecutionWork sample_claimed)) = LeaseId (lease_text 1)"
    by (simp add: sample_claimed_def sample_lease_def)
  ultimately show ?thesis
    by (simp add: rr_claim_def sample_runner_coordinator on_coordinator_def on_registry_def op_bind_def
        sample_registry_def)
qed

theorem rr_active_claims_listing_witness:
  "set (list_active_claims_inner None sample_registry)
     = {rk_from_claimed (rg_claimed g) | k g. hm_get sample_registry k = Some g}
   \<and> distinct (map rk_lease_id (list_active_claims_inner None sample_registry))"
proof -
  obtain s2 log where "rr_reachable sample_runner (sample_registry, (s2, log))"
    using rr_reachable.step [OF sample_runner_start rr_step.RClaim [of _ _ sample_cycle sample_context 0]]
      sample_runner_claim by (metis snd_conv)
  moreover have "hm_same sample_registry sample_registry"
    by (simp add: hm_same_def hm_wf_def sample_registry_def)
  ultimately show ?thesis using rr_active_claims_listing sample_runner_stores by blast
qed

lemma rr_claim_ok:
  assumes reach: "rr_reachable r (reg, (s, log))" and wc: "wc_stores (rr_coordinator r) = mem_stores gen"
    and claim: "rr_claim r q ctx now (reg, (s, log)) = (Inr y, (reg1, (s1, log1)))"
    and seq: "ms_next_lease_sequence s1 \<noteq> - 1" and k: "k \<in> set (ry_claims y)"
  obtains c where "cc_validate (rr_config r) ctx = Inr ()" and "k = rk_from_claimed c"
    and "hm_get reg1 (rk_lease_id k) = Some \<lparr>rg_claimed = c\<rparr>" and "claim_held s1 c"
    and "dl_leased_by (cw_lease c) = yr_worker_id q"
proof -
  have inv: "mem_inv s"
    using rr_reachable_ok [OF reach wc] by (simp add: runner_ok_def store_reachable_def mem_reachable_inv)
  from claim obtain cyc where cyc:
    "wc_dispatch_cycle (rr_coordinator r) q ctx now (s, log) = (Inr cyc, (s1, log1))"
    and reg1: "reg1 = register_claims (wy_claimed cyc) reg"
    and claims: "ry_claims y = map rk_from_claimed (wy_claimed cyc)"
    by (auto simp: rr_claim_def op_bind_Inr_iff on_coordinator_def on_registry_def split: prod.splits)
  from cycle_ok [OF wc cyc] obtain s0 where cc: "cc_validate (wc_config (rr_coordinator r)) ctx = Inr ()"
    and cl: "mem_claim_due (cycle_claim (rr_coordinator r) q now) ctx gen s = (Inr (wy_claimed cyc), s0)"
    and same: "mem_work s1 = mem_work s0" by blast
  have "ms_next_lease_sequence s0 \<noteq> - 1"
    using seq arg_cong [OF same, of ms_next_lease_sequence] by (simp add: mem_work_def)
  note d = claimed_leases_distinct [OF inv cl this]
  from k claims obtain c where c: "c \<in> set (wy_claimed cyc)" "k = rk_from_claimed c" by auto
  show ?thesis
  proof (rule that [of c])
    show "cc_validate (rr_config r) ctx = Inr ()" using cc by (simp add: rr_config_def)
    show "hm_get reg1 (rk_lease_id k) = Some \<lparr>rg_claimed = c\<rparr>"
      using register_claims_get [OF d c(1)] reg1 c(2) by simp
    show "claim_held s1 c"
      using claim_due_held(1) [OF inv cl c(1)] claim_held_cong [OF mem_work_lookup [OF same]] by blast
    show "dl_leased_by (cw_lease c) = yr_worker_id q"
      using claim_due_held(2) [OF inv cl c(1)] by (simp add: cycle_claim_def dc_at_def dc_new_def)
  qed (rule c(2))
qed

text \<open>
  A worker's whole cycle through the runner: every claim handed out can be renewed by its worker at
  any time until it expires, which extends the lease from the time of renewal, and can then be completed
  under the same lease identifier; completion removes it from the registry and leaves the resolved work
  unleased in the store with the payload the claim computed.
\<close>

theorem rr_claim_renew_complete:
  assumes "rr_reachable r (reg, (s, log))" and wc: "wc_stores (rr_coordinator r) = mem_stores gen"
    and "rr_claim r q ctx now (reg, (s, log)) = (Inr y, (reg1, (s1, log1)))"
    and "ms_next_lease_sequence s1 \<noteq> - 1" and "k \<in> set (ry_claims y)"
    and live: "t1 \<le> rk_lease_expires_at k" and ttl: "ttl \<noteq> 0"
    and claim: "claim = ar_new (yr_worker_id q) (rk_lease_id k)"
  shows "\<exists>v w2 out reg3 s3 log3 c e.
       rr_renew r claim t1 ttl ctx1 now1 g (reg1, (s1, log1)) = (Inr v, w2)
     \<and> rk_lease_expires_at (rn_renewed_claim v) = add_or_keep t1 ttl
     \<and> rr_complete r claim t2 ctx2 now2 w2 = (Inr out, (reg3, (s3, log3)))
     \<and> ro_disposition out = ClaimCompleted \<and> ro_claim out = rn_renewed_claim v
     \<and> hm_get reg3 (rk_lease_id k) = None
     \<and> work_lookup s3 (claimed_target c) = Some e \<and> rk_from_claimed c = k
     \<and> entry_lease e = None"
proof -
  from rr_claim_ok [OF assms(1-5)] obtain c where cc: "cc_validate (rr_config r) ctx = Inr ()"
    and c: "k = rk_from_claimed c" "hm_get reg1 (rk_lease_id k) = Some \<lparr>rg_claimed = c\<rparr>"
      "claim_held s1 c" "dl_leased_by (cw_lease c) = yr_worker_id q" .
  have key: "dl_lease_id (cw_lease c) = rk_lease_id k" using c(1) by simp
  have "\<not> dl_is_expired_at (cw_lease c) t1"
    using live c(1) by (cases c) (simp_all add: el_is_expired_at_def ol_is_expired_at_def)
  from rr_renew_held [OF wc cc_validate_any [OF cc, of ctx1] c(2-4) key this ttl, of now1 g log1]
  obtain v c' s2 evs where
    v: "rr_renew r claim t1 ttl ctx1 now1 g (reg1, (s1, log1))
          = (Inr v, (hm_insert (rk_lease_id k) \<lparr>rg_claimed = c'\<rparr> (hm_remove (rk_lease_id k) reg1),
               (s2, log1 @ evs)))"
    and c': "rn_renewed_claim v = rk_from_claimed c'" "claim_held s2 c'"
      "claimed_target c' = claimed_target c" "dl_leased_by (cw_lease c') = yr_worker_id q"
      "dl_lease_expires_at (cw_lease c') = add_or_keep t1 ttl"
    unfolding claim by blast
  from rr_complete_held [OF wc cc_validate_any [OF cc, of ctx2] _ c'(2,4),
      of "hm_insert (rk_lease_id k) \<lparr>rg_claimed = c'\<rparr> (hm_remove (rk_lease_id k) reg1)" "rk_lease_id k"
         t2 now2 "log1 @ evs"]
  obtain out s3 evs' e where
    out: "rr_complete r claim t2 ctx2 now2
            (hm_insert (rk_lease_id k) \<lparr>rg_claimed = c'\<rparr> (hm_remove (rk_lease_id k) reg1), (s2, log1 @ evs))
          = (Inr out, (hm_remove (rk_lease_id k)
               (hm_insert (rk_lease_id k) \<lparr>rg_claimed = c'\<rparr> (hm_remove (rk_lease_id k) reg1)),
               (s3, (log1 @ evs) @ evs')))"
    and e: "ro_claim out = rk_from_claimed c'" "ro_disposition out = ClaimCompleted"
      "work_lookup s3 = (work_lookup s2)(claimed_target c' \<mapsto> e)" "entry_lease e = None"
    unfolding claim by auto
  have until: "rk_lease_expires_at (rn_renewed_claim v) = add_or_keep t1 ttl"
    using c'(1,5) by (cases c') auto
  have same: "ro_claim out = rn_renewed_claim v" using e(1) c'(1) by simp
  have gone: "hm_get (hm_remove (rk_lease_id k)
      (hm_insert (rk_lease_id k) \<lparr>rg_claimed = c'\<rparr> (hm_remove (rk_lease_id k) reg1))) (rk_lease_id k) = None"
    by simp
  have stored: "work_lookup s3 (claimed_target c) = Some e" using e(3) c'(3) by simp
  show ?thesis
    by (intro exI conjI; (rule v | rule until | rule out | rule e(2) | rule same | rule gone
          | rule stored | rule c(1) [symmetric] | rule e(4)))
qed

theorem rr_claim_renew_complete_witness:
  "\<exists>y w1 v w2 out w3. rr_claim sample_runner sample_cycle sample_context 0 ([], (sample_store, []))
       = (Inr y, w1)
     \<and> rr_renew sample_runner (ar_new ''w1'' (LeaseId (lease_text 1))) 10 20 sample_context 0
         (CorrelationId ''h'') w1 = (Inr v, w2)
     \<and> rr_complete sample_runner (ar_new ''w1'' (LeaseId (lease_text 1))) 25 sample_context 0 w2
         = (Inr out, w3)
     \<and> ro_disposition out = ClaimCompleted"
proof -
  let ?k = "rk_from_claimed (ClaimedExecutionWork sample_claimed)"
  obtain y s2 log where c: "rr_claim sample_runner sample_cycle sample_context 0 ([], (sample_store, []))
       = (Inr y, (sample_registry, (s2, log)))" and y: "ry_claims y = [?k]"
    and s2: "mem_work s2 = mem_work sample_leased_store" using sample_runner_claim by blast
  have "ms_next_lease_sequence s2 \<noteq> - 1"
    using arg_cong [OF s2, of ms_next_lease_sequence] by (simp add: mem_work_def sample_leased_store_def)
  moreover have "(10 :: system_time) \<le> rk_lease_expires_at ?k" "rk_lease_id ?k = LeaseId (lease_text 1)"
    by (simp_all add: sample_claimed_def sample_lease_def el_from_now_def add_or_keep_def checked_add_def
        system_time_max_def)
  ultimately show ?thesis
    using rr_claim_renew_complete [OF sample_runner_start sample_runner_stores c, of ?k 10 20 _
        sample_context 0 "CorrelationId ''h''" 25 sample_context 0] y c sample_counts(2)
    by fastforce
qed

text \<open>What a resolution through the runner may do, for each of the three of them.\<close>

lemma rr_resolve_result:
  assumes ok: "runner_ok (reg, (s, log))" and wc: "wc_stores (rr_coordinator r) = mem_stores gen"
    and cc: "cc_validate (rr_config r) ctx = Inr ()"
    and act: "\<And>c. act c = op_bind (op_lift (mk c)) (\<lambda>res.
                finalize_resolution (rr_coordinator r) (dl_leased_by (cw_lease c)) res t ctx now)"
  shows "case rr_resolve claim act d ctx (reg, (s, log)) of
      (Inl _, w') \<Rightarrow> w' = (reg, (s, log))
    | (Inr out, (reg', (s', log'))) \<Rightarrow> \<exists>c res s1.
          hm_get reg (ar_lease_id claim) = Some \<lparr>rg_claimed = c\<rparr>
        \<and> dl_leased_by (cw_lease c) = ar_worker_id claim \<and> ro_claim out = rk_from_claimed c
        \<and> mk c = Inr res \<and> mem_finalize res ctx s = (Inr (), s1) \<and> mem_work s' = mem_work s1
        \<and> reg' = hm_remove (ar_lease_id claim) reg"
proof (cases "fst (rr_lookup_claim claim ctx (reg, (s, log)))")
  case (Inl err)
  then have "rr_resolve claim act d ctx (reg, (s, log)) = (Inl err, (reg, (s, log)))"
    by (simp add: rr_resolve_def op_bind_def rr_lookup_claim_def)
  then show ?thesis by simp
next
  case (Inr g)
  obtain c where g: "g = \<lparr>rg_claimed = c\<rparr>" by (cases g) auto
  with Inr have c: "hm_get reg (ar_lease_id claim) = Some \<lparr>rg_claimed = c\<rparr>"
    "dl_leased_by (cw_lease c) = ar_worker_id claim"
    by (auto simp: rr_lookup_claim_def split: option.splits if_splits)
  have "registry_ok reg" using ok by (simp add: runner_ok_def)
  note named = registry_okD(2) [OF this c(1)]
  show ?thesis
  proof (cases "mk c")
    case (Inl err)
    with c have "rr_resolve claim act d ctx (reg, (s, log)) = (Inl err, (reg, (s, log)))"
      by (simp add: rr_resolve_def rr_lookup_claim_def act on_coordinator_def op_bind_def)
    then show ?thesis by simp
  next
    case (Inr res)
    obtain x s1 where f: "mem_finalize res ctx s = (x, s1)" by fastforce
    with mem_coordinator.finalize_result [OF wc cc [unfolded rr_config_def] named, of res s x s1 t now log]
      c Inr show ?thesis
      by (cases x) (auto simp: rr_resolve_def rr_lookup_claim_def act on_coordinator_def on_registry_def
          op_bind_def)
  qed
qed

lemma rr_complete_resolve:
  "rr_complete r claim t ctx now = rr_resolve claim (\<lambda>c. op_bind (op_lift (Inr (cw_complete c t)))
     (\<lambda>res. finalize_resolution (rr_coordinator r) (dl_leased_by (cw_lease c)) res t ctx now))
     ClaimCompleted ctx"
  by (simp add: rr_complete_def wc_complete_claim_def op_bind_def op_lift_def)

text \<open>
  Only the owner of an active claim resolves it, and a resolution through the runner is all or
  nothing: completing, retrying or dead-lettering either fails and leaves registry, store and telemetry
  exactly as they were, or the claim was registered under the presented lease for the presented worker,
  the store accepted the resolution, and exactly that claim left the registry.
\<close>

theorem rr_resolution_owned:
  assumes "rr_reachable r (reg, (s, log))" and wc: "wc_stores (rr_coordinator r) = mem_stores gen"
    and cc: "cc_validate (rr_config r) ctx = Inr ()"
    and m: "m \<in> {(rr_complete r claim t ctx now, \<lambda>c. Inr (cw_complete c t)),
                (rr_retry r claim t nxt err ctx now g, \<lambda>c. cw_retry c t nxt err g),
                (rr_dead_letter r claim t err ctx now g, \<lambda>c. cw_dead_letter c t err g)}"
  shows "case fst m (reg, (s, log)) of
      (Inl _, w') \<Rightarrow> w' = (reg, (s, log))
    | (Inr out, (reg', (s', log'))) \<Rightarrow> \<exists>c res s1.
          hm_get reg (ar_lease_id claim) = Some \<lparr>rg_claimed = c\<rparr>
        \<and> dl_leased_by (cw_lease c) = ar_worker_id claim \<and> ro_claim out = rk_from_claimed c
        \<and> snd m c = Inr res \<and> mem_finalize res ctx s = (Inr (), s1) \<and> mem_work s' = mem_work s1
        \<and> reg' = hm_remove (ar_lease_id claim) reg"
proof -
  note result = rr_resolve_result [OF rr_reachable_ok [OF assms(1) wc] wc cc]
  from m consider "m = (rr_complete r claim t ctx now, \<lambda>c. Inr (cw_complete c t))"
    | "m = (rr_retry r claim t nxt err ctx now g, \<lambda>c. cw_retry c t nxt err g)"
    | "m = (rr_dead_letter r claim t err ctx now g, \<lambda>c. cw_dead_letter c t err g)" by blast
  then show ?thesis
  proof cases
    case 1
    show ?thesis unfolding 1 fst_conv snd_conv rr_complete_resolve by (rule result) (rule refl)
  next
    case 2
    show ?thesis unfolding 2 fst_conv snd_conv rr_retry_def
      by (rule result) (rule wc_retry_claim_def)
  next
    case 3
    show ?thesis unfolding 3 fst_conv snd_conv rr_dead_letter_def
      by (rule result) (rule wc_dead_letter_claim_def)
  qed
qed

theorem rr_resolution_owned_witness:
  "snd (rr_complete sample_runner (ar_new ''w2'' (LeaseId (lease_text 1))) 25 sample_context 0
     ([], (sample_store, []))) = ([], (sample_store, []))"
proof -
  have "cc_validate (rr_config sample_runner) sample_context = Inr ()"
    by (simp add: sample_runner_coordinator sample_coordinator_valid)
  from rr_resolution_owned [OF sample_runner_start sample_runner_stores this,
      of "(rr_complete sample_runner (ar_new ''w2'' (LeaseId (lease_text 1))) 25 sample_context 0,
           \<lambda>c. Inr (cw_complete c 25))" "ar_new ''w2'' (LeaseId (lease_text 1))" 25 0 0 "''x''"
         "CorrelationId ''h''"]
  show ?thesis by (auto split: prod.splits sum.splits)
qed

text \<open>
  A claim whose lease the store has since given up or handed to another worker cannot be removed
  from the registry: renewing, completing, retrying and dead-lettering it all fail and leave registry,
  store and telemetry as they were, so the claim stays listed as active.
\<close>

theorem rr_lost_claim_stays_registered:
  assumes "rr_reachable r (reg, (s, log))" and wc: "wc_stores (rr_coordinator r) = mem_stores gen"
    and "cc_validate (rr_config r) ctx = Inr ()"
    and c: "hm_get reg k = Some \<lparr>rg_claimed = c\<rparr>"
    and lost: "map_option dl_lease_id (work_lease s (claimed_target c)) \<noteq> Some k"
  shows "(\<exists>e. rr_renew r (ar_new w k) t ttl ctx now g (reg, (s, log)) = (Inl e, (reg, (s, log))))
       \<and> (\<exists>e. rr_complete r (ar_new w k) t ctx now (reg, (s, log)) = (Inl e, (reg, (s, log))))
       \<and> (\<exists>e. rr_retry r (ar_new w k) t nxt err ctx now g (reg, (s, log)) = (Inl e, (reg, (s, log))))
       \<and> (\<exists>e. rr_dead_letter r (ar_new w k) t err ctx now g (reg, (s, log)) = (Inl e, (reg, (s, log))))"
proof -
  note ok = rr_reachable_ok [OF assms(1) wc]
  then have key: "dl_lease_id (cw_lease c) = k" using c registry_okD(1) by (auto simp: runner_ok_def)
  have fenced: "\<exists>e. mem_finalize res ctx s = (Inl e, s)" if "resolution_of c res" for res
  proof -
    have "resolution_target res = claimed_target c" "dr_lease_id res = k"
      using that key
      by (cases c; auto simp: resolution_of_def resolution_record_defs split: if_splits)+
    with lost show ?thesis by (intro work.fenced) (auto simp: work_lease_def)
  qed
  have stuck: "\<exists>e. rr_resolve (ar_new w k) act d ctx (reg, (s, log)) = (Inl e, (reg, (s, log)))"
    if act: "\<And>c. act c = op_bind (op_lift (mk c)) (\<lambda>res.
                finalize_resolution (rr_coordinator r) (dl_leased_by (cw_lease c)) res t ctx now)"
      and mk: "\<And>res. mk c = Inr res \<Longrightarrow> resolution_of c res" for act mk d
  proof -
    note res = rr_resolve_result [OF ok wc assms(3) act, of "ar_new w k" d]
    obtain x reg' s' log' where run:
      "rr_resolve (ar_new w k) act d ctx (reg, (s, log)) = (x, (reg', (s', log')))"
      by (metis prod.collapse)
    with res c mk fenced show ?thesis by (cases x) (fastforce simp: ar_new_def)+
  qed
  have "\<exists>e. mem_renew_claim (claim_renewal c (dl_leased_by (cw_lease c)) ttl t) ctx s = (Inl e, s)"
    using lost key
    by (cases c; auto simp: op_map_def mem_renew_execution_lease_def mem_renew_outbox_lease_def
        work_lease_def eln_new_def eln_at_def oln_new_def oln_at_def split: option.splits sum.splits)
  then obtain e0 where
    "mem_renew_claim (claim_renewal c (dl_leased_by (cw_lease c)) ttl t) ctx s = (Inl e0, s)" by blast
  then have "\<exists>e. rr_renew r (ar_new w k) t ttl ctx now g (reg, (s, log)) = (Inl e, (reg, (s, log)))"
    using c wc assms(3)
    by (auto simp: rr_renew_def rr_lookup_claim_def ar_new_def on_coordinator_def op_bind_def
        wc_renew_claim_def on_store_def Let_def rr_config_def require_positive_duration_def)
  moreover have mk: "Inr (cw_complete c t) = Inr res \<Longrightarrow> resolution_of c res"
    "cw_retry c t nxt err g = Inr res \<Longrightarrow> resolution_of c res"
    "cw_dead_letter c t err g = Inr res \<Longrightarrow> resolution_of c res" for res
    unfolding resolution_of_def by blast+
  ultimately show ?thesis
    unfolding rr_complete_resolve rr_retry_def rr_dead_letter_def
    using stuck [of _ "\<lambda>c. Inr (cw_complete c t)" ClaimCompleted, OF refl mk(1)]
      stuck [of _ "\<lambda>c. cw_retry c t nxt err g" ClaimRetried, OF wc_retry_claim_def mk(2)]
      stuck [of _ "\<lambda>c. cw_dead_letter c t err g" ClaimDeadLettered, OF wc_dead_letter_claim_def mk(3)]
    by (intro conjI) assumption+
qed

theorem rr_lost_claim_stays_registered_witness:
  "\<exists>s log. rr_reachable sample_runner (sample_registry, (s, log))
     \<and> (\<exists>e. rr_complete sample_runner (ar_new ''w1'' (LeaseId (lease_text 1))) 30 sample_context 0
            (sample_registry, (s, log)) = (Inl e, (sample_registry, (s, log))))"
proof -
  let ?c = "ClaimedExecutionWork sample_claimed"
  obtain y s2 log where claim: "rr_claim sample_runner sample_cycle sample_context 0 ([], (sample_store, []))
       = (Inr y, (sample_registry, (s2, log)))" and s2: "mem_work s2 = mem_work sample_leased_store"
    using sample_runner_claim by blast
  have "claim_held sample_leased_store ?c"
    by (rule claim_due_held(1) [OF mem_reachable_inv [OF sample_store_reachable] sample_claim_run]) simp
  then have "claim_held s2 ?c" using claim_held_cong [OF mem_work_lookup [OF s2]] by blast
  moreover have "resolution_of ?c (cw_complete ?c 20)" unfolding resolution_of_def by blast
  ultimately obtain s3 e where fin: "mem_finalize (cw_complete ?c 20) sample_context s2 = (Inr (), s3)"
    and s3: "work_lookup s3 = (work_lookup s2)(claimed_target ?c \<mapsto> e)" "entry_lease e = None"
    by (metis claim_held_resolves)
  have "rr_reachable sample_runner (sample_registry, (s2, log))"
    using rr_reachable.step [OF sample_runner_start rr_step.RClaim [of _ _ sample_cycle sample_context 0]]
      claim by simp
  then have reach: "rr_reachable sample_runner (sample_registry, (s3, log))"
    using rr_reachable.step [OF _ rr_step.RStore [OF mem_step.Finalize]] fin by (metis snd_conv)
  have "cc_validate (rr_config sample_runner) sample_context = Inr ()"
    by (simp add: sample_runner_coordinator sample_coordinator_valid)
  moreover have "hm_get sample_registry (LeaseId (lease_text 1)) = Some \<lparr>rg_claimed = ?c\<rparr>"
    by (simp add: sample_registry_def)
  moreover have "map_option dl_lease_id (work_lease s3 (claimed_target ?c)) \<noteq> Some (LeaseId (lease_text 1))"
    using s3 by (simp add: work_lease_def)
  ultimately show ?thesis
    using rr_lost_claim_stays_registered [OF reach sample_runner_stores, of sample_context _ ?c "''w1''" 30]
      reach by blast
qed

end
