(* ===== verification/Receipt_Store.thy ===== *)
theory Receipt_Store
  imports Rust_Text
begin

text \<open>
  \<open>bos-app/src/store_core.rs\<close>: the receipt spine, the one path for mutations. The database is a record
  of the two spine tables (\<open>receipts\<close>, \<open>entity_revisions\<close>) and the slices' own tables as a type
  parameter; a transaction that fails leaves the database it started from. SQL statements are list and
  map operations with the constraints of migration \<open>0001_receipt_spine.sql\<close> (the primary key of
  \<open>receipts\<close> and the unique index on applied idempotency keys). I/O failures of SQLite are not modelled.
  Millisecond times and revisions are \<open>u64\<close> values stored as \<open>i64\<close>: the cast keeps the bits and the
  database compares them as signed integers.
\<close>

section \<open>Requests, outcomes and errors\<close>

datatype actor_kind = Operator | System | Agent

fun actor_kind_str :: "actor_kind \<Rightarrow> string" where
  "actor_kind_str Operator = ''operator''"
| "actor_kind_str System = ''system''"
| "actor_kind_str Agent = ''agent''"

definition actor_kind_from_str :: "string \<Rightarrow> actor_kind" where
  "actor_kind_from_str raw =
     (if raw = ''operator'' then Operator else if raw = ''agent'' then Agent else System)"

datatype receipt_outcome = Applied | ReplayedIdempotent | RevisionConflict | FailedOutcome

fun outcome_str :: "receipt_outcome \<Rightarrow> string" where
  "outcome_str Applied = ''applied''"
| "outcome_str ReplayedIdempotent = ''replayed_idempotent''"
| "outcome_str RevisionConflict = ''revision_conflict''"
| "outcome_str FailedOutcome = ''failed''"

definition outcome_from_str :: "string \<Rightarrow> receipt_outcome" where
  "outcome_from_str raw =
     (if raw = ''applied'' then Applied
      else if raw = ''replayed_idempotent'' then ReplayedIdempotent
      else if raw = ''revision_conflict'' then RevisionConflict
      else FailedOutcome)"

record mutation_request =
  mq_client_id :: string
  mq_entity_kind :: string
  mq_entity_id :: string
  mq_change_kind :: string
  mq_actor_id :: string
  mq_actor_kind :: actor_kind
  mq_expected_revision :: "u64 option"
  mq_idempotency_key :: string
  mq_correlation_id :: "string option"
  mq_causation_id :: "string option"
  mq_before_json :: "string option"
  mq_after_json :: "string option"
  mq_now_ms :: u64

datatype mutation_outcome =
  MutationApplied string u64
| MutationReplayed string "u64 option"
| MutationConflict string "u64 option"

datatype store_error = Sqlite string | Domain string

fun store_error_display :: "store_error \<Rightarrow> string" where
  "store_error_display (Sqlite msg) = ''store sqlite error: '' @ msg"
| "store_error_display (Domain msg) = ''store domain error: '' @ msg"

fun contains_str :: "string \<Rightarrow> string \<Rightarrow> bool" where
  "contains_str [] p \<longleftrightarrow> p = []"
| "contains_str (c # cs) p \<longleftrightarrow> take (length p) (c # cs) = p \<or> contains_str cs p"

definition sqlite_busy_message :: "string \<Rightarrow> bool" where
  "sqlite_busy_message message =
     (let lower = to_ascii_lowercase message
      in contains_str lower ''database is locked'' \<or> contains_str lower ''database is busy''
       \<or> contains_str lower ''sqlite_busy'' \<or> contains_str lower ''sqlite_locked''
       \<or> contains_str lower ''database schema is locked'')"

fun is_sqlite_busy :: "store_error \<Rightarrow> bool" where
  "is_sqlite_busy (Sqlite message) = sqlite_busy_message message"
| "is_sqlite_busy (Domain message) = False"

fun error_class :: "store_error \<Rightarrow> string" where
  "error_class (Sqlite message) = ''sqlite''"
| "error_class (Domain message) = ''domain''"

section \<open>The tables\<close>

record receipt_row =
  rx_receipt_id :: string
  rx_client_id :: string
  rx_entity_kind :: string
  rx_entity_id :: string
  rx_change_kind :: string
  rx_actor_id :: string
  rx_actor_kind :: string
  rx_outcome :: string
  rx_error_class :: "string option"
  rx_before_json :: "string option"
  rx_after_json :: "string option"
  rx_revision_before :: "u64 option"
  rx_revision_after :: "u64 option"
  rx_idempotency_key :: string
  rx_correlation_id :: "string option"
  rx_causation_id :: "string option"
  rx_created_at_ms :: u64

type_synonym entity_key = "string \<times> string \<times> string"

record 'd db =
  db_receipts :: "receipt_row list"
  db_revisions :: "(entity_key, u64 \<times> u64) hash_map"
  db_domain :: 'd

type_synonym ('d, 'a) db_op = "('d db, store_error, 'a) op"

text \<open>A transaction rolls back when it ends with an error.\<close>

definition transaction :: "('d, 'a) db_op \<Rightarrow> ('d, 'a) db_op" where
  "transaction m db = (case m db of (Inl e, _) \<Rightarrow> (Inl e, db) | (Inr a, db') \<Rightarrow> (Inr a, db'))"

definition receipt_text :: "nat \<Rightarrow> string" where
  "receipt_text n = ''rcpt_'' @ dec_pad 12 n"

definition next_receipt_id :: "'d db \<Rightarrow> string" where
  "next_receipt_id db = receipt_text (length (db_receipts db) + 1)"

definition applied_key_taken :: "'d db \<Rightarrow> string \<Rightarrow> string \<Rightarrow> bool" where
  "applied_key_taken db client key \<longleftrightarrow>
     (\<exists>r \<in> set (db_receipts db).
        rx_client_id r = client \<and> rx_idempotency_key r = key \<and> rx_outcome r = ''applied'')"

definition receipt_of ::
    "mutation_request \<Rightarrow> receipt_outcome \<Rightarrow> string option \<Rightarrow> u64 option \<Rightarrow> u64 option \<Rightarrow> string \<Rightarrow> receipt_row" where
  "receipt_of req outcome cls before after receipt_id =
     \<lparr>rx_receipt_id = receipt_id, rx_client_id = mq_client_id req, rx_entity_kind = mq_entity_kind req,
      rx_entity_id = mq_entity_id req, rx_change_kind = mq_change_kind req,
      rx_actor_id = mq_actor_id req, rx_actor_kind = actor_kind_str (mq_actor_kind req),
      rx_outcome = outcome_str outcome, rx_error_class = cls,
      rx_before_json = mq_before_json req, rx_after_json = mq_after_json req,
      rx_revision_before = before, rx_revision_after = after,
      rx_idempotency_key = mq_idempotency_key req, rx_correlation_id = mq_correlation_id req,
      rx_causation_id = mq_causation_id req, rx_created_at_ms = mq_now_ms req\<rparr>"

definition insert_receipt ::
    "mutation_request \<Rightarrow> receipt_outcome \<Rightarrow> string option \<Rightarrow> u64 option \<Rightarrow> u64 option \<Rightarrow> ('d, string) db_op" where
  "insert_receipt req outcome cls before after db =
     (let receipt_id = next_receipt_id db;
          row = receipt_of req outcome cls before after receipt_id
      in if receipt_id \<in> set (map rx_receipt_id (db_receipts db))
         then (Inl (Sqlite ''UNIQUE constraint failed: receipts.receipt_id''), db)
         else if outcome = Applied \<and> applied_key_taken db (mq_client_id req) (mq_idempotency_key req)
         then (Inl (Sqlite ''UNIQUE constraint failed: receipts.client_id, receipts.idempotency_key''), db)
         else (Inr receipt_id, db\<lparr>db_receipts := db_receipts db @ [row]\<rparr>))"

definition find_applied_receipt :: "'d db \<Rightarrow> string \<Rightarrow> string \<Rightarrow> (string \<times> u64 option) option" where
  "find_applied_receipt db client key =
     map_option (\<lambda>r. (rx_receipt_id r, rx_revision_after r))
       (find (\<lambda>r. rx_client_id r = client \<and> rx_idempotency_key r = key \<and> rx_outcome r = ''applied'')
         (db_receipts db))"

definition read_revision :: "'d db \<Rightarrow> entity_key \<Rightarrow> u64 option" where
  "read_revision db k = map_option fst (hm_get (db_revisions db) k)"

definition current_revision :: "'d db \<Rightarrow> string \<Rightarrow> string \<Rightarrow> string \<Rightarrow> u64 option" where
  "current_revision db client kind entity = read_revision db (client, kind, entity)"

definition write_revision :: "entity_key \<Rightarrow> u64 \<Rightarrow> u64 \<Rightarrow> 'd db \<Rightarrow> 'd db" where
  "write_revision k revision now_ms db =
     db\<lparr>db_revisions := hm_insert k (revision, now_ms) (db_revisions db)\<rparr>"

definition advance_revision_within :: "entity_key \<Rightarrow> u64 \<Rightarrow> u64 \<Rightarrow> ('d, u64) db_op" where
  "advance_revision_within k expected now_ms db =
     (if read_revision db k \<noteq> Some expected
      then (Inl (Domain ''entity_revision_changed''), db)
      else (Inr (expected + 1), write_revision k (expected + 1) now_ms db))"

definition initialize_revision_within :: "entity_key \<Rightarrow> u64 \<Rightarrow> u64 \<Rightarrow> ('d, unit) db_op" where
  "initialize_revision_within k revision now_ms db =
     (if hm_get (db_revisions db) k \<noteq> None
      then (Inl (Sqlite ''UNIQUE constraint failed: entity_revisions.client_id, entity_revisions.entity_kind, entity_revisions.entity_id''), db)
      else (Inr (), write_revision k revision now_ms db))"

section \<open>Mutations\<close>

definition request_entity :: "mutation_request \<Rightarrow> entity_key" where
  "request_entity req = (mq_client_id req, mq_entity_kind req, mq_entity_id req)"

type_synonym 'd domain_write = "string \<Rightarrow> ('d, unit) db_op"

definition mutate_with_receipt_id ::
    "mutation_request \<Rightarrow> 'd domain_write \<Rightarrow> ('d, mutation_outcome) db_op" where
  "mutate_with_receipt_id req domain_write db =
     (case find_applied_receipt db (mq_client_id req) (mq_idempotency_key req) of
        Some (_, revision) \<Rightarrow>
          transaction
            (op_map (\<lambda>receipt_id. MutationReplayed receipt_id revision)
              (insert_receipt req ReplayedIdempotent None revision revision)) db
      | None \<Rightarrow>
          let current = read_revision db (request_entity req) in
          if (case mq_expected_revision req of None \<Rightarrow> False | Some expected \<Rightarrow> current \<noteq> Some expected)
          then transaction
                 (op_map (\<lambda>receipt_id. MutationConflict receipt_id current)
                   (insert_receipt req RevisionConflict (Some ''revision_conflict'') current current)) db
          else
            (case domain_write (next_receipt_id db) db of
               (Inr _, db1) \<Rightarrow>
                 let next_revision = (case current of None \<Rightarrow> 0 | Some n \<Rightarrow> n) + 1 in
                 (case insert_receipt req Applied None current (Some next_revision)
                         (write_revision (request_entity req) next_revision (mq_now_ms req) db1) of
                    (Inr receipt_id, db2) \<Rightarrow> (Inr (MutationApplied receipt_id next_revision), db2)
                  | (Inl e, _) \<Rightarrow> (Inl e, db))
             | (Inl err, _) \<Rightarrow>
                 (case transaction
                         (insert_receipt req FailedOutcome (Some (error_class err)) current current) db of
                    (Inr _, db') \<Rightarrow> (Inl err, db')
                  | (Inl e, db') \<Rightarrow> (Inl e, db'))))"

definition mutate :: "mutation_request \<Rightarrow> ('d, unit) db_op \<Rightarrow> ('d, mutation_outcome) db_op" where
  "mutate req domain_write = mutate_with_receipt_id req (\<lambda>_. domain_write)"

definition record_failed_receipt :: "mutation_request \<Rightarrow> string \<Rightarrow> ('d, string) db_op" where
  "record_failed_receipt req cls db =
     (let current = read_revision db (request_entity req)
      in transaction (insert_receipt req FailedOutcome (Some cls) current current) db)"

section \<open>Reading receipts\<close>

record receipt_dto =
  rd_receipt_id :: string
  rd_client_id :: string
  rd_entity_kind :: string
  rd_entity_id :: string
  rd_change_kind :: string
  rd_actor_id :: string
  rd_actor_kind :: actor_kind
  rd_outcome :: receipt_outcome
  rd_error_class :: "string option"
  rd_revision_before :: "u64 option"
  rd_revision_after :: "u64 option"
  rd_idempotency_key :: string
  rd_correlation_id :: "string option"
  rd_causation_id :: "string option"
  rd_created_at_ms :: u64

definition receipt_from_row :: "receipt_row \<Rightarrow> receipt_dto" where
  "receipt_from_row r =
     \<lparr>rd_receipt_id = rx_receipt_id r, rd_client_id = rx_client_id r,
      rd_entity_kind = rx_entity_kind r, rd_entity_id = rx_entity_id r,
      rd_change_kind = rx_change_kind r, rd_actor_id = rx_actor_id r,
      rd_actor_kind = actor_kind_from_str (rx_actor_kind r),
      rd_outcome = outcome_from_str (rx_outcome r), rd_error_class = rx_error_class r,
      rd_revision_before = rx_revision_before r, rd_revision_after = rx_revision_after r,
      rd_idempotency_key = rx_idempotency_key r, rd_correlation_id = rx_correlation_id r,
      rd_causation_id = rx_causation_id r, rd_created_at_ms = rx_created_at_ms r\<rparr>"

text \<open>\<open>ORDER BY created_at_ms DESC, receipt_id DESC\<close> (receipt identifiers are unique).\<close>

definition newest_first :: "receipt_row list \<Rightarrow> receipt_row list" where
  "newest_first rs = rev (sort_key (\<lambda>r. (sint (rx_created_at_ms r), rx_receipt_id r)) rs)"

definition entity_receipts :: "'d db \<Rightarrow> string \<Rightarrow> string \<Rightarrow> string \<Rightarrow> receipt_row list" where
  "entity_receipts db client kind entity =
     filter (\<lambda>r. rx_client_id r = client \<and> rx_entity_kind r = kind \<and> rx_entity_id r = entity)
       (db_receipts db)"

definition receipts_for_entity :: "'d db \<Rightarrow> string \<Rightarrow> string \<Rightarrow> string \<Rightarrow> usize \<Rightarrow> receipt_dto list" where
  "receipts_for_entity db client kind entity limit =
     map receipt_from_row (take limit (newest_first (entity_receipts db client kind entity)))"

definition receipts_by_correlation :: "'d db \<Rightarrow> string \<Rightarrow> string list \<Rightarrow> usize \<Rightarrow> receipt_dto list" where
  "receipts_by_correlation db client correlation_ids limit =
     (if correlation_ids = [] then []
      else map receipt_from_row (take limit (newest_first
             (filter (\<lambda>r. rx_client_id r = client
                \<and> (\<exists>c \<in> set correlation_ids. rx_correlation_id r = Some c)) (db_receipts db)))))"

definition first_of :: "'a list \<Rightarrow> 'a option" where
  "first_of xs = (case xs of [] \<Rightarrow> None | x # _ \<Rightarrow> Some x)"

definition latest_applied_receipt_actor :: "'d db \<Rightarrow> string \<Rightarrow> string \<Rightarrow> string \<Rightarrow> string option" where
  "latest_applied_receipt_actor db client kind entity =
     map_option rx_actor_id (first_of (newest_first
       (filter (\<lambda>r. rx_outcome r = ''applied'') (entity_receipts db client kind entity))))"

definition applied_revision_for_idempotency :: "'d db \<Rightarrow> string \<Rightarrow> string \<Rightarrow> u64 option" where
  "applied_revision_for_idempotency db client key =
     Option.bind (first_of (newest_first
       (filter (\<lambda>r. rx_client_id r = client \<and> rx_idempotency_key r = key \<and> rx_outcome r = ''applied'')
         (db_receipts db)))) rx_revision_after"

section \<open>Compaction of receipt payloads\<close>

definition compactable ::
    "string \<Rightarrow> u64 \<Rightarrow> string list \<Rightarrow> (string \<times> string list) list \<Rightarrow> receipt_row \<Rightarrow> bool" where
  "compactable client cutoff kinds restrictions r \<longleftrightarrow>
     rx_client_id r = client \<and> rx_outcome r = ''applied'' \<and> sint (rx_created_at_ms r) < sint cutoff
   \<and> (rx_before_json r \<noteq> None \<or> rx_after_json r \<noteq> None)
   \<and> rx_entity_kind r \<in> set kinds
   \<and> (\<forall>(kind, changes) \<in> set restrictions. rx_entity_kind r \<noteq> kind \<or> rx_change_kind r \<in> set changes)"

definition receipt_payload_compaction_candidates ::
    "'d db \<Rightarrow> string \<Rightarrow> u64 \<Rightarrow> string list \<Rightarrow> (string \<times> string list) list \<Rightarrow> usize \<Rightarrow> string list" where
  "receipt_payload_compaction_candidates db client cutoff kinds restrictions limit =
     (if kinds = [] \<or> limit = 0 then []
      else take limit (map rx_receipt_id
             (sort_key (\<lambda>r. (sint (rx_created_at_ms r), rx_receipt_id r))
               (filter (compactable client cutoff kinds restrictions) (db_receipts db)))))"

definition eligible_receipt_payload_count ::
    "'d db \<Rightarrow> string \<Rightarrow> u64 \<Rightarrow> string list \<Rightarrow> (string \<times> string list) list \<Rightarrow> nat" where
  "eligible_receipt_payload_count db client cutoff kinds restrictions =
     (if kinds = [] then 0
      else length (filter (compactable client cutoff kinds restrictions) (db_receipts db)))"

record compaction_batch =
  cb_client_id :: string
  cb_actor_id :: string
  cb_actor_kind :: actor_kind
  cb_cutoff_ms :: u64
  cb_allowlisted_entity_kinds :: "string list"
  cb_restricted_change_kinds :: "(string \<times> string list) list"
  cb_receipt_ids :: "string list"
  cb_mutation_entity_kind :: string
  cb_mutation_change_kind :: string
  cb_entity_id :: string
  cb_idempotency_key :: string
  cb_correlation_id :: "string option"
  cb_causation_id :: "string option"
  cb_now_ms :: u64

definition compaction_hits :: "compaction_batch \<Rightarrow> receipt_row \<Rightarrow> bool" where
  "compaction_hits b r \<longleftrightarrow>
     compactable (cb_client_id b) (cb_cutoff_ms b) (cb_allowlisted_entity_kinds b)
       (cb_restricted_change_kinds b) r
   \<and> rx_receipt_id r \<in> set (cb_receipt_ids b)"

definition compaction_write :: "compaction_batch \<Rightarrow> ('d, unit) db_op" where
  "compaction_write b db =
     (let changed = length (filter (compaction_hits b) (db_receipts db));
          expected = length (cb_receipt_ids b);
          db' = db\<lparr>db_receipts := map (\<lambda>r. if compaction_hits b r
                    then r\<lparr>rx_before_json := None, rx_after_json := None\<rparr> else r) (db_receipts db)\<rparr>
      in if changed \<noteq> expected
         then (Inl (Domain (''receipt_payload_compaction_race:expected='' @ dec_string expected
                            @ '':changed='' @ dec_string changed)), db')
         else (Inr (), db'))"

text \<open>\<open>render\<close> is the rendering of the summary by \<open>serde_json\<close>.\<close>

definition compaction_request ::
    "(u64 \<Rightarrow> nat \<Rightarrow> string \<Rightarrow> string \<Rightarrow> string) \<Rightarrow> compaction_batch \<Rightarrow> mutation_request" where
  "compaction_request render b =
     \<lparr>mq_client_id = cb_client_id b, mq_entity_kind = cb_mutation_entity_kind b,
      mq_entity_id = cb_entity_id b, mq_change_kind = cb_mutation_change_kind b,
      mq_actor_id = cb_actor_id b, mq_actor_kind = cb_actor_kind b, mq_expected_revision = None,
      mq_idempotency_key = cb_idempotency_key b, mq_correlation_id = cb_correlation_id b,
      mq_causation_id = cb_causation_id b, mq_before_json = None,
      mq_after_json = Some (render (cb_cutoff_ms b) (length (cb_receipt_ids b))
                              (hd (cb_receipt_ids b)) (last (cb_receipt_ids b))),
      mq_now_ms = cb_now_ms b\<rparr>"

definition compact_receipt_payloads ::
    "(u64 \<Rightarrow> nat \<Rightarrow> string \<Rightarrow> string \<Rightarrow> string) \<Rightarrow> compaction_batch \<Rightarrow> ('d, mutation_outcome) db_op" where
  "compact_receipt_payloads render b db =
     (if cb_receipt_ids b = [] \<or> cb_allowlisted_entity_kinds b = []
      then (Inl (Domain ''receipt_payload_compaction_batch_empty''), db)
      else mutate (compaction_request render b) (compaction_write b) db)"

section \<open>The spine invariant\<close>

text \<open>What of a receipt is permanent: everything but the payloads.\<close>

definition rx_identity :: "receipt_row \<Rightarrow> receipt_row" where
  "rx_identity r = r\<lparr>rx_before_json := None, rx_after_json := None\<rparr>"

lemma rx_identity_simps [simp]:
  "rx_receipt_id (rx_identity r) = rx_receipt_id r" "rx_client_id (rx_identity r) = rx_client_id r"
  "rx_entity_kind (rx_identity r) = rx_entity_kind r" "rx_entity_id (rx_identity r) = rx_entity_id r"
  "rx_outcome (rx_identity r) = rx_outcome r" "rx_idempotency_key (rx_identity r) = rx_idempotency_key r"
  "rx_revision_after (rx_identity r) = rx_revision_after r"
  by (simp_all add: rx_identity_def)

abbreviation identities :: "'d db \<Rightarrow> receipt_row list" where
  "identities db \<equiv> map rx_identity (db_receipts db)"

definition applied :: "receipt_row \<Rightarrow> bool" where
  "applied r \<longleftrightarrow> rx_outcome r = ''applied''"

lemma applied_identity [simp]: "applied (rx_identity r) = applied r"
  by (simp add: applied_def)

definition spine_key :: "receipt_row \<Rightarrow> string \<times> string" where
  "spine_key r = (rx_client_id r, rx_idempotency_key r)"

lemma spine_key_identity [simp]: "spine_key (rx_identity r) = spine_key r"
  by (simp add: spine_key_def)

text \<open>
  The invariant of the receipt table: receipts are numbered without gaps in the order they were
  written, at most one applied receipt exists per client and idempotency key, and an applied receipt
  names the revision it produced.
\<close>

definition spine_ok :: "receipt_row list \<Rightarrow> bool" where
  "spine_ok rs \<longleftrightarrow>
     map rx_receipt_id rs = map (\<lambda>i. receipt_text (Suc i)) [0..<length rs]
   \<and> distinct (map spine_key (filter applied rs))
   \<and> (\<forall>r \<in> set rs. applied r \<longrightarrow> rx_revision_after r \<noteq> None)"

lemma receipt_text_inj [simp]: "receipt_text m = receipt_text n \<longleftrightarrow> m = n"
  by (simp add: receipt_text_def)

lemma filter_map_key: "map f (filter P (map g xs)) = map (f \<circ> g) (filter (P \<circ> g) xs)"
  by (simp add: filter_map)

lemma spine_ok_identity: "spine_ok (map rx_identity rs) = spine_ok rs"
  unfolding spine_ok_def by (simp add: filter_map_key comp_def)

lemma spine_ok_cong: "map rx_identity rs = map rx_identity rs' \<Longrightarrow> spine_ok rs = spine_ok rs'"
  by (metis spine_ok_identity)

lemma spine_ok_Nil [simp]: "spine_ok []"
  by (simp add: spine_ok_def)

lemma spine_ok_append:
  "spine_ok rs \<Longrightarrow> rx_receipt_id r = receipt_text (Suc (length rs))
     \<Longrightarrow> (applied r \<Longrightarrow> spine_key r \<notin> spine_key ` {x \<in> set rs. applied x})
     \<Longrightarrow> (applied r \<Longrightarrow> rx_revision_after r \<noteq> None) \<Longrightarrow> spine_ok (rs @ [r])"
  by (auto simp: spine_ok_def)

lemma key_taken_iff:
  "applied_key_taken db client key \<longleftrightarrow> (client, key) \<in> spine_key ` {x \<in> set (db_receipts db). applied x}"
  by (force simp: applied_key_taken_def spine_key_def applied_def)

lemma key_taken_identities:
  "applied_key_taken db client key \<longleftrightarrow>
     (\<exists>r \<in> set (identities db). applied r \<and> spine_key r = (client, key))"
  by (auto simp: applied_key_taken_def applied_def spine_key_def)

lemma find_applied_None:
  "find_applied_receipt db client key = None \<longleftrightarrow> \<not> applied_key_taken db client key"
  by (auto simp: find_applied_receipt_def find_None_iff applied_key_taken_def)

lemma find_applied_Some:
  assumes "spine_ok (db_receipts db)" and r: "r \<in> set (db_receipts db)" "applied r"
    and "spine_key r = (client, key)"
  shows "find_applied_receipt db client key = Some (rx_receipt_id r, rx_revision_after r)"
proof -
  let ?P = "\<lambda>r. rx_client_id r = client \<and> rx_idempotency_key r = key \<and> rx_outcome r = ''applied''"
  have "find ?P (db_receipts db) \<noteq> None"
    using r assms(4) by (auto simp: find_None_iff applied_def spine_key_def)
  then obtain x where x: "find ?P (db_receipts db) = Some x" by blast
  then have "x \<in> set (db_receipts db)" "?P x" by (auto simp: find_Some_iff)
  then have "x \<in> set (filter applied (db_receipts db))" "spine_key x = spine_key r"
    using assms(4) by (auto simp: applied_def spine_key_def)
  moreover have "r \<in> set (filter applied (db_receipts db))" using r by simp
  ultimately have "x = r" using assms(1) by (auto simp: spine_ok_def distinct_map inj_on_def)
  with x show ?thesis by (simp add: find_applied_receipt_def)
qed

lemma applied_outcome [simp]:
  "applied (receipt_of req out cls b a i) \<longleftrightarrow> out = Applied"
  "spine_key (receipt_of req out cls b a i) = (mq_client_id req, mq_idempotency_key req)"
  "rx_receipt_id (receipt_of req out cls b a i) = i"
  "rx_revision_after (receipt_of req out cls b a i) = a"
  by (cases out; simp add: applied_def receipt_of_def spine_key_def)+

lemma insert_receipt_ok:
  assumes wf: "spine_ok (db_receipts db)"
    and fresh: "out = Applied \<Longrightarrow> \<not> applied_key_taken db (mq_client_id req) (mq_idempotency_key req)"
  shows "insert_receipt req out cls b a db
           = (Inr (next_receipt_id db),
              db\<lparr>db_receipts := db_receipts db @ [receipt_of req out cls b a (next_receipt_id db)]\<rparr>)"
    and "(out = Applied \<Longrightarrow> a \<noteq> None)
           \<Longrightarrow> spine_ok (db_receipts db @ [receipt_of req out cls b a (next_receipt_id db)])"
proof -
  have "set (map rx_receipt_id (db_receipts db)) = (\<lambda>i. receipt_text (Suc i)) ` {..<length (db_receipts db)}"
    using wf unfolding spine_ok_def by (metis atLeast_upt set_map)
  then have "next_receipt_id db \<notin> set (map rx_receipt_id (db_receipts db))"
    by (auto simp: next_receipt_id_def)
  with fresh show "insert_receipt req out cls b a db
           = (Inr (next_receipt_id db),
              db\<lparr>db_receipts := db_receipts db @ [receipt_of req out cls b a (next_receipt_id db)]\<rparr>)"
    by (auto simp: insert_receipt_def Let_def)
  show "(out = Applied \<Longrightarrow> a \<noteq> None)
      \<Longrightarrow> spine_ok (db_receipts db @ [receipt_of req out cls b a (next_receipt_id db)])"
    using fresh
    by (intro spine_ok_append [OF wf]) (auto simp: next_receipt_id_def key_taken_iff)
qed

section \<open>What a domain write owes the spine\<close>

text \<open>
  A domain write may touch the slices' tables, and through \<open>advance_revision_within\<close> and compaction the
  revisions and payloads, but it neither adds nor rewrites receipts (\<open>spine_safe\<close>). Most writes leave
  the revisions alone too (\<open>revision_safe\<close>).
\<close>

definition spine_safe :: "'d domain_write \<Rightarrow> bool" where
  "spine_safe dw \<longleftrightarrow> (\<forall>i db db'. dw i db = (Inr (), db') \<longrightarrow> identities db' = identities db)"

definition revision_safe :: "'d domain_write \<Rightarrow> bool" where
  "revision_safe dw \<longleftrightarrow> (\<forall>i db db'. dw i db = (Inr (), db') \<longrightarrow> db_revisions db' = db_revisions db)"

text \<open>The outcome of a mutation, branch by branch, as the contract a slice relies on.\<close>

definition conflicting :: "mutation_request \<Rightarrow> 'd db \<Rightarrow> bool" where
  "conflicting req db \<longleftrightarrow>
     (case mq_expected_revision req of None \<Rightarrow> False
      | Some expected \<Rightarrow> read_revision db (request_entity req) \<noteq> Some expected)"

definition next_revision :: "mutation_request \<Rightarrow> 'd db \<Rightarrow> u64" where
  "next_revision req db =
     (case read_revision db (request_entity req) of None \<Rightarrow> 0 | Some n \<Rightarrow> n) + 1"

locale spine_write =
  fixes dw :: "'d domain_write"
  assumes safe: "spine_safe dw"
begin

lemma write_keeps:
  "dw i db = (Inr (), db') \<Longrightarrow> identities db' = identities db"
  "dw i db = (Inr (), db') \<Longrightarrow> spine_ok (db_receipts db') = spine_ok (db_receipts db)"
  "dw i db = (Inr (), db') \<Longrightarrow> next_receipt_id db' = next_receipt_id db"
  "dw i db = (Inr (), db') \<Longrightarrow> applied_key_taken db' c k = applied_key_taken db c k"
proof -
  show id: "identities db' = identities db" if "dw i db = (Inr (), db')" for i db db'
    using safe that by (auto simp: spine_safe_def)
  show "spine_ok (db_receipts db') = spine_ok (db_receipts db)" if "dw i db = (Inr (), db')" for i db db'
    using spine_ok_cong [OF id [OF that]] .
  show "next_receipt_id db' = next_receipt_id db" if "dw i db = (Inr (), db')" for i db db'
    using arg_cong [OF id [OF that], of length] by (simp add: next_receipt_id_def)
  show "applied_key_taken db' c k = applied_key_taken db c k" if "dw i db = (Inr (), db')"
    by (simp only: key_taken_identities id [OF that])
qed

lemma mutate_replayed:
  assumes "spine_ok (db_receipts db)"
    and "find_applied_receipt db (mq_client_id req) (mq_idempotency_key req) = Some (i, revision)"
  shows "mutate_with_receipt_id req dw db
      = (Inr (MutationReplayed (next_receipt_id db) revision),
         db\<lparr>db_receipts := db_receipts db
           @ [receipt_of req ReplayedIdempotent None revision revision (next_receipt_id db)]\<rparr>)"
  using assms insert_receipt_ok(1) [OF assms(1), of ReplayedIdempotent req None revision revision]
  by (simp add: mutate_with_receipt_id_def transaction_def op_map_def)

lemma mutate_conflict:
  assumes "spine_ok (db_receipts db)"
    and "find_applied_receipt db (mq_client_id req) (mq_idempotency_key req) = None"
    and "conflicting req db"
  shows "mutate_with_receipt_id req dw db
      = (Inr (MutationConflict (next_receipt_id db) (read_revision db (request_entity req))),
         db\<lparr>db_receipts := db_receipts db
           @ [receipt_of req RevisionConflict (Some ''revision_conflict'')
                (read_revision db (request_entity req)) (read_revision db (request_entity req))
                (next_receipt_id db)]\<rparr>)"
  using assms insert_receipt_ok(1) [OF assms(1), of RevisionConflict req]
  by (simp add: mutate_with_receipt_id_def transaction_def op_map_def conflicting_def Let_def)

lemma mutate_failed:
  assumes "spine_ok (db_receipts db)"
    and "find_applied_receipt db (mq_client_id req) (mq_idempotency_key req) = None"
    and "\<not> conflicting req db" and "dw (next_receipt_id db) db = (Inl err, db1)"
  shows "mutate_with_receipt_id req dw db
      = (Inl err, db\<lparr>db_receipts := db_receipts db
           @ [receipt_of req FailedOutcome (Some (error_class err))
                (read_revision db (request_entity req)) (read_revision db (request_entity req))
                (next_receipt_id db)]\<rparr>)"
  using assms insert_receipt_ok(1) [OF assms(1), of FailedOutcome req]
  by (simp add: mutate_with_receipt_id_def transaction_def conflicting_def Let_def)

lemma mutate_applied:
  assumes "spine_ok (db_receipts db)"
    and "find_applied_receipt db (mq_client_id req) (mq_idempotency_key req) = None"
    and "\<not> conflicting req db" and dw: "dw (next_receipt_id db) db = (Inr (), db1)"
  shows "mutate_with_receipt_id req dw db
      = (Inr (MutationApplied (next_receipt_id db) (next_revision req db)),
         (write_revision (request_entity req) (next_revision req db) (mq_now_ms req) db1)
           \<lparr>db_receipts := db_receipts db1
              @ [receipt_of req Applied None (read_revision db (request_entity req))
                   (Some (next_revision req db)) (next_receipt_id db)]\<rparr>)"
proof -
  let ?db = "write_revision (request_entity req) (next_revision req db) (mq_now_ms req) db1"
  have keep: "db_receipts ?db = db_receipts db1" "next_receipt_id ?db = next_receipt_id db"
    "applied_key_taken ?db c k = applied_key_taken db c k" for c k
    using write_keeps [OF dw]
    by (simp_all add: write_revision_def next_receipt_id_def applied_key_taken_def)
  have "insert_receipt req Applied None (read_revision db (request_entity req))
      (Some (next_revision req db)) ?db
    = (Inr (next_receipt_id db), ?db\<lparr>db_receipts := db_receipts db1
         @ [receipt_of req Applied None (read_revision db (request_entity req))
              (Some (next_revision req db)) (next_receipt_id db)]\<rparr>)"
    using insert_receipt_ok(1) [of ?db Applied req] keep assms(1,2) write_keeps(2) [OF dw]
    by (simp add: find_applied_None)
  with assms show ?thesis
    by (simp add: mutate_with_receipt_id_def conflicting_def Let_def next_revision_def)
qed

lemmas mutate_branches = mutate_replayed mutate_conflict mutate_failed mutate_applied

end

section \<open>Reachable databases\<close>

inductive spine_step :: "'d db \<Rightarrow> 'd db \<Rightarrow> bool" where
  Mutate: "spine_safe dw \<Longrightarrow> spine_step db (snd (mutate_with_receipt_id req dw db))"
| FailedReceipt: "spine_step db (snd (record_failed_receipt req cls db))"
| SliceOnly: "spine_step db (db\<lparr>db_domain := d\<rparr>)"

lemma mutate_cases:
  assumes "spine_safe dw" and ok: "spine_ok (db_receipts db)"
  obtains (replayed) i revision where
      "find_applied_receipt db (mq_client_id req) (mq_idempotency_key req) = Some (i, revision)"
      "mutate_with_receipt_id req dw db
      = (Inr (MutationReplayed (next_receipt_id db) revision),
         db\<lparr>db_receipts := db_receipts db
           @ [receipt_of req ReplayedIdempotent None revision revision (next_receipt_id db)]\<rparr>)"
  | (conflict) "\<not> applied_key_taken db (mq_client_id req) (mq_idempotency_key req)" "conflicting req db"
      "mutate_with_receipt_id req dw db
      = (Inr (MutationConflict (next_receipt_id db) (read_revision db (request_entity req))),
         db\<lparr>db_receipts := db_receipts db
           @ [receipt_of req RevisionConflict (Some ''revision_conflict'')
                (read_revision db (request_entity req)) (read_revision db (request_entity req))
                (next_receipt_id db)]\<rparr>)"
  | (failed) err db1 where "\<not> applied_key_taken db (mq_client_id req) (mq_idempotency_key req)"
      "\<not> conflicting req db" "dw (next_receipt_id db) db = (Inl err, db1)"
      "mutate_with_receipt_id req dw db
      = (Inl err, db\<lparr>db_receipts := db_receipts db
           @ [receipt_of req FailedOutcome (Some (error_class err))
                (read_revision db (request_entity req)) (read_revision db (request_entity req))
                (next_receipt_id db)]\<rparr>)"
  | (applied) db1 where "\<not> applied_key_taken db (mq_client_id req) (mq_idempotency_key req)"
      "\<not> conflicting req db" "dw (next_receipt_id db) db = (Inr (), db1)"
      "identities db1 = identities db"
      "mutate_with_receipt_id req dw db
      = (Inr (MutationApplied (next_receipt_id db) (next_revision req db)),
         (write_revision (request_entity req) (next_revision req db) (mq_now_ms req) db1)
           \<lparr>db_receipts := db_receipts db1
              @ [receipt_of req Applied None (read_revision db (request_entity req))
                   (Some (next_revision req db)) (next_receipt_id db)]\<rparr>)"
proof -
  note spine = spine_write.intro [OF assms(1)]
  show ?thesis
  proof (cases "find_applied_receipt db (mq_client_id req) (mq_idempotency_key req)")
    case (Some x)
    then obtain i revision where
      f: "find_applied_receipt db (mq_client_id req) (mq_idempotency_key req) = Some (i, revision)"
      by (metis surj_pair)
    show ?thesis by (rule replayed [OF f spine_write.mutate_replayed [OF spine ok f]])
  next
    case None
    note free = None [unfolded find_applied_None]
    show ?thesis
    proof (cases "conflicting req db")
      case True
      show ?thesis by (rule conflict [OF free True spine_write.mutate_conflict [OF spine ok None True]])
    next
      case False
      obtain r db1 where r: "dw (next_receipt_id db) db = (r, db1)" by fastforce
      show ?thesis
      proof (cases r)
        case (Inl err)
        note w = r [unfolded Inl]
        show ?thesis by (rule failed [OF free False w spine_write.mutate_failed [OF spine ok None False w]])
      next
        case (Inr u)
        then have w: "dw (next_receipt_id db) db = (Inr (), db1)" using r by simp
        show ?thesis
          by (rule applied [OF free False w spine_write.write_keeps(1) [OF spine w]
                spine_write.mutate_applied [OF spine ok None False w]])
      qed
    qed
  qed
qed

text \<open>Every step keeps the invariant and what was written.\<close>

fun outcome_receipt :: "mutation_outcome \<Rightarrow> string" where
  "outcome_receipt (MutationApplied i _) = i"
| "outcome_receipt (MutationReplayed i _) = i"
| "outcome_receipt (MutationConflict i _) = i"

lemma mutate_receipts:
  assumes "spine_safe dw" and ok: "spine_ok (db_receipts db)"
  obtains out cls b a where
    "identities (snd (mutate_with_receipt_id req dw db))
       = identities db @ [rx_identity (receipt_of req out cls b a (next_receipt_id db))]"
    and "out = (case fst (mutate_with_receipt_id req dw db) of
           Inl _ \<Rightarrow> FailedOutcome
         | Inr (MutationApplied _ _) \<Rightarrow> Applied
         | Inr (MutationReplayed _ _) \<Rightarrow> ReplayedIdempotent
         | Inr (MutationConflict _ _) \<Rightarrow> RevisionConflict)"
    and "out = Applied \<longrightarrow> a \<noteq> None"
    and "out = Applied \<longrightarrow> \<not> applied_key_taken db (mq_client_id req) (mq_idempotency_key req)"
    and "\<forall>x. fst (mutate_with_receipt_id req dw db) = Inr x \<longrightarrow> outcome_receipt x = next_receipt_id db"
  using assms by (cases rule: mutate_cases [of dw db req]) (auto simp: write_revision_def)

lemma spine_ok_snoc:
  assumes "spine_ok (db_receipts db)"
    and "out = Applied \<Longrightarrow> a \<noteq> None"
    and "out = Applied \<Longrightarrow> \<not> applied_key_taken db (mq_client_id req) (mq_idempotency_key req)"
    and "map rx_identity rs = identities db @ [rx_identity (receipt_of req out cls b a (next_receipt_id db))]"
  shows "spine_ok rs"
proof -
  have "spine_ok (db_receipts db @ [receipt_of req out cls b a (next_receipt_id db)])"
    using insert_receipt_ok(2) [OF assms(1)] assms(2,3) by blast
  with assms(4) spine_ok_cong show ?thesis by (metis map_append list.simps(8,9))
qed

lemma spine_step_ok:
  assumes "spine_step db db'" and ok: "spine_ok (db_receipts db)"
  shows "spine_ok (db_receipts db') \<and> (\<exists>rs. identities db' = identities db @ rs)"
  using assms(1)
proof cases
  case (Mutate dw req)
  from mutate_receipts [OF Mutate(2) ok, of req] obtain out cls b a where
    "identities db' = identities db @ [rx_identity (receipt_of req out cls b a (next_receipt_id db))]"
    "out = Applied \<Longrightarrow> a \<noteq> None"
    "out = Applied \<Longrightarrow> \<not> applied_key_taken db (mq_client_id req) (mq_idempotency_key req)"
    unfolding Mutate(1) by metis
  with spine_ok_snoc [OF ok] show ?thesis by blast
next
  case (FailedReceipt req cls)
  then show ?thesis
    using insert_receipt_ok [OF ok, of FailedOutcome req]
    by (simp add: record_failed_receipt_def transaction_def Let_def)
qed (use ok in simp)

lemma spine_steps_ok:
  assumes "spine_step\<^sup>*\<^sup>* db db'" and "spine_ok (db_receipts db)"
  shows "spine_ok (db_receipts db')" and "\<exists>rs. identities db' = identities db @ rs"
proof -
  have "spine_ok (db_receipts db') \<and> (\<exists>rs. identities db' = identities db @ rs)"
    using assms(1)
  proof (induction rule: rtranclp_induct)
    case (step y z)
    then show ?case using spine_step_ok [OF step(2)] by fastforce
  qed (use assms(2) in simp)
  then show "spine_ok (db_receipts db')" and "\<exists>rs. identities db' = identities db @ rs" by blast+
qed

definition empty_db :: "'d \<Rightarrow> 'd db" where
  "empty_db d = \<lparr>db_receipts = [], db_revisions = [], db_domain = d\<rparr>"

definition spine_reachable :: "'d db \<Rightarrow> bool" where
  "spine_reachable db \<longleftrightarrow> (\<exists>d. spine_step\<^sup>*\<^sup>* (empty_db d) db)"

lemma spine_reachable_ok: "spine_reachable db \<Longrightarrow> spine_ok (db_receipts db)"
  unfolding spine_reachable_def using spine_steps_ok(1) by (force simp: empty_db_def)

lemma spine_reachable_empty [simp]: "spine_reachable (empty_db d)"
  by (auto simp: spine_reachable_def)

lemma spine_reachable_step: "spine_reachable db \<Longrightarrow> spine_step db db' \<Longrightarrow> spine_reachable db'"
  unfolding spine_reachable_def by (meson rtranclp.rtrancl_into_rtrancl)

section \<open>Properties\<close>

text \<open>
  No mutation without a receipt: on every reachable database, every call of \<open>mutate\<close>, whether it
  applies, replays, conflicts or fails, appends exactly one receipt and rewrites no earlier one. The
  receipt has a fresh identifier, carries the request's client, entity, actor and key, and its outcome
  is the one the caller sees; the caller gets the identifier of that very receipt.
\<close>

theorem mutate_appends_one_receipt:
  assumes "spine_reachable db" and "spine_safe dw"
  shows "\<exists>row. identities (snd (mutate_with_receipt_id req dw db)) = identities db @ [rx_identity row]
       \<and> rx_receipt_id row = receipt_text (length (db_receipts db) + 1)
       \<and> rx_receipt_id row \<notin> rx_receipt_id ` set (db_receipts db)
       \<and> rx_client_id row = mq_client_id req \<and> rx_entity_kind row = mq_entity_kind req
       \<and> rx_entity_id row = mq_entity_id req \<and> rx_actor_id row = mq_actor_id req
       \<and> rx_idempotency_key row = mq_idempotency_key req
       \<and> (case fst (mutate_with_receipt_id req dw db) of
            Inl _ \<Rightarrow> rx_outcome row = ''failed''
          | Inr (MutationApplied i _) \<Rightarrow> rx_outcome row = ''applied'' \<and> i = rx_receipt_id row
          | Inr (MutationReplayed i _) \<Rightarrow> rx_outcome row = ''replayed_idempotent'' \<and> i = rx_receipt_id row
          | Inr (MutationConflict i _) \<Rightarrow> rx_outcome row = ''revision_conflict'' \<and> i = rx_receipt_id row)"
proof -
  note ok = spine_reachable_ok [OF assms(1)]
  have "rx_receipt_id ` set (db_receipts db) = (\<lambda>i. receipt_text (Suc i)) ` {..<length (db_receipts db)}"
    using ok unfolding spine_ok_def by (metis atLeast_upt list.set_map)
  then have fresh: "receipt_text (Suc (length (db_receipts db))) \<notin> rx_receipt_id ` set (db_receipts db)"
    by auto
  obtain out cls b a where
    row: "identities (snd (mutate_with_receipt_id req dw db))
       = identities db @ [rx_identity (receipt_of req out cls b a (next_receipt_id db))]"
    and out: "out = (case fst (mutate_with_receipt_id req dw db) of
           Inl _ \<Rightarrow> FailedOutcome
         | Inr (MutationApplied _ _) \<Rightarrow> Applied
         | Inr (MutationReplayed _ _) \<Rightarrow> ReplayedIdempotent
         | Inr (MutationConflict _ _) \<Rightarrow> RevisionConflict)"
    and "out = Applied \<longrightarrow> a \<noteq> None"
    and "out = Applied \<longrightarrow> \<not> applied_key_taken db (mq_client_id req) (mq_idempotency_key req)"
    and i: "\<forall>x. fst (mutate_with_receipt_id req dw db) = Inr x \<longrightarrow> outcome_receipt x = next_receipt_id db"
    using mutate_receipts [OF assms(2) ok, of req] .
  define row where "row = receipt_of req out cls b a (next_receipt_id db)"
  have fields: "rx_client_id row = mq_client_id req" "rx_entity_kind row = mq_entity_kind req"
    "rx_entity_id row = mq_entity_id req" "rx_actor_id row = mq_actor_id req"
    "rx_idempotency_key row = mq_idempotency_key req" "rx_outcome row = outcome_str out"
    "rx_receipt_id row = next_receipt_id db"
    by (simp_all add: row_def receipt_of_def)
  have "case fst (mutate_with_receipt_id req dw db) of
            Inl _ \<Rightarrow> rx_outcome row = ''failed''
          | Inr (MutationApplied i _) \<Rightarrow> rx_outcome row = ''applied'' \<and> i = rx_receipt_id row
          | Inr (MutationReplayed i _) \<Rightarrow> rx_outcome row = ''replayed_idempotent'' \<and> i = rx_receipt_id row
          | Inr (MutationConflict i _) \<Rightarrow> rx_outcome row = ''revision_conflict'' \<and> i = rx_receipt_id row"
  proof (cases "fst (mutate_with_receipt_id req dw db)")
    case (Inr x)
    with out i fields(6,7) show ?thesis by (cases x) simp_all
  qed (use out fields(6) in simp)
  with row fields fresh show ?thesis
    unfolding row_def [symmetric] by (intro exI [of _ row]) (simp add: next_receipt_id_def)
qed

definition sample_request :: "string \<Rightarrow> u64 option \<Rightarrow> mutation_request" where
  "sample_request key expected =
     \<lparr>mq_client_id = ''acme'', mq_entity_kind = ''rule'', mq_entity_id = ''r1'', mq_change_kind = ''upsert'',
      mq_actor_id = ''op'', mq_actor_kind = Operator, mq_expected_revision = expected,
      mq_idempotency_key = key, mq_correlation_id = None, mq_causation_id = None,
      mq_before_json = None, mq_after_json = Some ''{}'', mq_now_ms = 1000\<rparr>"

definition sample_write :: "nat domain_write" where
  "sample_write i db = (Inr (), db\<lparr>db_domain := db_domain db + 1\<rparr>)"

lemma sample_write_safe: "spine_safe sample_write" "revision_safe sample_write"
  by (auto simp: spine_safe_def revision_safe_def sample_write_def)

definition sample_db :: "nat db" where
  "sample_db = snd (mutate_with_receipt_id (sample_request ''k1'' None) sample_write (empty_db 0))"

lemma sample_db_reachable: "spine_reachable sample_db"
  unfolding sample_db_def
  by (rule spine_reachable_step [OF _ spine_step.Mutate [OF sample_write_safe(1)]]) simp

lemma sample_db_eq:
  "sample_db = \<lparr>db_receipts = [receipt_of (sample_request ''k1'' None) Applied None None (Some 1)
                (receipt_text 1)],
       db_revisions = [((''acme'', ''rule'', ''r1''), (1, 1000))], db_domain = 1\<rparr>"
  by (simp add: sample_db_def mutate_with_receipt_id_def find_applied_receipt_def empty_db_def
      sample_write_def sample_request_def read_revision_def insert_receipt_def next_receipt_id_def
      write_revision_def applied_key_taken_def Let_def request_entity_def)

theorem mutate_appends_one_receipt_witness:
  "\<exists>row. identities (snd (mutate_with_receipt_id (sample_request ''k2'' (Some 7)) sample_write sample_db))
       = identities sample_db @ [rx_identity row]
     \<and> rx_receipt_id row = receipt_text (length (db_receipts sample_db) + 1)"
  using mutate_appends_one_receipt [OF sample_db_reachable sample_write_safe(1)] by blast

text \<open>
  (C12) The mutation contract, branch by branch: a key already applied is replayed and a stale expected
  revision is refused, both without touching slice tables or revisions and without running the domain
  write; a failing domain write is rolled back completely and its error returned; otherwise the slice
  tables are what the domain write made of them and the entity's revision advances by exactly one.
\<close>

theorem mutate_contract:
  assumes "spine_reachable db" and "spine_safe dw"
  shows "case mutate_with_receipt_id req dw db of
      (Inr (MutationReplayed _ revision), db') \<Rightarrow>
        (\<exists>i. find_applied_receipt db (mq_client_id req) (mq_idempotency_key req) = Some (i, revision))
        \<and> db_domain db' = db_domain db \<and> db_revisions db' = db_revisions db
    | (Inr (MutationConflict _ current), db') \<Rightarrow>
        \<not> applied_key_taken db (mq_client_id req) (mq_idempotency_key req) \<and> conflicting req db
        \<and> current = read_revision db (request_entity req)
        \<and> db_domain db' = db_domain db \<and> db_revisions db' = db_revisions db
    | (Inl err, db') \<Rightarrow>
        \<not> applied_key_taken db (mq_client_id req) (mq_idempotency_key req) \<and> \<not> conflicting req db
        \<and> fst (dw (next_receipt_id db) db) = Inl err
        \<and> db_domain db' = db_domain db \<and> db_revisions db' = db_revisions db
    | (Inr (MutationApplied _ revision), db') \<Rightarrow>
        \<not> applied_key_taken db (mq_client_id req) (mq_idempotency_key req) \<and> \<not> conflicting req db
        \<and> (\<exists>db1. dw (next_receipt_id db) db = (Inr (), db1) \<and> db_domain db' = db_domain db1
             \<and> db_revisions db' = hm_insert (request_entity req) (revision, mq_now_ms req) (db_revisions db1))
        \<and> revision = (case read_revision db (request_entity req) of None \<Rightarrow> 0 | Some n \<Rightarrow> n) + 1"
  using assms(2) spine_reachable_ok [OF assms(1)]
  by (cases rule: mutate_cases [of dw db req]) (simp_all add: write_revision_def next_revision_def)

theorem mutate_contract_witness:
  "case mutate_with_receipt_id (sample_request ''k2'' (Some 7)) sample_write sample_db of
     (Inr (MutationConflict _ current), db') \<Rightarrow> db_domain db' = db_domain sample_db | _ \<Rightarrow> True"
  using mutate_contract [OF sample_db_reachable sample_write_safe(1), of "sample_request ''k2'' (Some 7)"]
  by (auto split: prod.splits sum.splits mutation_outcome.splits)

text \<open>
  (C13) Mutations are applied exactly once per client and idempotency key: once a request has been applied,
  whatever mutations, failures and slice writes follow, every later request with the same client and key,
  for whatever entity and with whatever domain write, is answered as a replay with the revision of the
  first, and neither slice tables nor revisions change.
\<close>

theorem mutate_exactly_once:
  assumes "spine_reachable db" and "spine_safe dw" and "spine_safe dw'"
    and ok: "mutate_with_receipt_id req dw db = (Inr (MutationApplied i revision), db1)"
    and later: "spine_step\<^sup>*\<^sup>* db1 db2"
    and same: "mq_client_id req' = mq_client_id req" "mq_idempotency_key req' = mq_idempotency_key req"
  shows "\<exists>i' db3. mutate_with_receipt_id req' dw' db2 = (Inr (MutationReplayed i' (Some revision)), db3)
           \<and> db_domain db3 = db_domain db2 \<and> db_revisions db3 = db_revisions db2"
proof -
  note ok0 = spine_reachable_ok [OF assms(1)]
  have ok1: "spine_ok (db_receipts db1)"
    using spine_step_ok [OF spine_step.Mutate [OF assms(2), of db req] ok0] ok by simp
  note ok2 = spine_steps_ok [OF later ok1]
  have "\<exists>r \<in> set (db_receipts db1). applied r \<and> spine_key r = (mq_client_id req, mq_idempotency_key req)
      \<and> rx_revision_after r = Some revision"
    using assms(2) ok0 by (cases rule: mutate_cases [of dw db req]) (use ok in auto)
  then have "\<exists>r \<in> set (identities db1). applied r
      \<and> spine_key r = (mq_client_id req, mq_idempotency_key req) \<and> rx_revision_after r = Some revision"
    by auto
  with ok2(2) have "\<exists>r \<in> set (identities db2). applied r
      \<and> spine_key r = (mq_client_id req, mq_idempotency_key req) \<and> rx_revision_after r = Some revision"
    by (metis Un_iff set_append)
  then obtain r where "r \<in> set (db_receipts db2)" "applied r" "rx_revision_after r = Some revision"
    "spine_key r = (mq_client_id req', mq_idempotency_key req')" using same by auto
  from find_applied_Some [OF ok2(1) this(1,2,4)] this(3)
  have "find_applied_receipt db2 (mq_client_id req') (mq_idempotency_key req')
      = Some (rx_receipt_id r, Some revision)" by simp
  from spine_write.mutate_replayed [OF spine_write.intro [OF assms(3)] ok2(1) this]
  show ?thesis by simp
qed

theorem mutate_exactly_once_witness:
  "\<exists>i' db3. mutate_with_receipt_id (sample_request ''k1'' (Some 9)) sample_write sample_db
       = (Inr (MutationReplayed i' (Some 1)), db3)
     \<and> db_domain db3 = db_domain sample_db \<and> db_revisions db3 = db_revisions sample_db"
proof -
  have "mutate_with_receipt_id (sample_request ''k1'' None) sample_write (empty_db 0)
      = (Inr (MutationApplied (receipt_text 1) 1), sample_db)"
    unfolding sample_db_def
    by (simp add: mutate_with_receipt_id_def find_applied_receipt_def empty_db_def sample_write_def
        sample_request_def read_revision_def insert_receipt_def next_receipt_id_def write_revision_def
        applied_key_taken_def Let_def)
  from mutate_exactly_once [OF spine_reachable_empty sample_write_safe(1) sample_write_safe(1) this
      rtranclp.rtrancl_refl, of "sample_request ''k1'' (Some 9)"]
  show ?thesis by (simp add: sample_request_def)
qed

text \<open>
  Optimistic concurrency: of two requests with different keys that expect the same revision of the
  same entity, once the first is applied the second is refused as a conflict that reports the new
  revision, and changes neither slice tables nor revisions.
\<close>

theorem mutate_second_writer_conflicts:
  assumes "spine_reachable db" and "spine_safe dw" and "revision_safe dw" and "spine_safe dw'"
    and ok: "mutate_with_receipt_id req dw db = (Inr (MutationApplied i revision), db1)"
    and "mq_expected_revision req = Some n" and "mq_expected_revision req' = Some n"
    and "request_entity req' = request_entity req"
    and "\<not> applied_key_taken db1 (mq_client_id req') (mq_idempotency_key req')"
  shows "\<exists>i' db2. mutate_with_receipt_id req' dw' db1 = (Inr (MutationConflict i' (Some (n + 1))), db2)
           \<and> db_domain db2 = db_domain db1 \<and> db_revisions db2 = db_revisions db1"
proof -
  note ok0 = spine_reachable_ok [OF assms(1)]
  have ok1: "spine_ok (db_receipts db1)"
    using spine_step_ok [OF spine_step.Mutate [OF assms(2), of db req] ok0] ok by simp
  have rev: "read_revision db1 (request_entity req) = Some (n + 1)"
    using assms(2) ok0
    by (cases rule: mutate_cases [of dw db req])
       (use ok assms(6) in \<open>auto simp: write_revision_def read_revision_def next_revision_def
          conflicting_def\<close>)
  then have "conflicting req' db1" using assms(7,8) by (simp add: conflicting_def)
  moreover have "find_applied_receipt db1 (mq_client_id req') (mq_idempotency_key req') = None"
    using assms(9) by (simp add: find_applied_None)
  ultimately show ?thesis
    using spine_write.mutate_conflict [OF spine_write.intro [OF assms(4)] ok1, of req'] rev assms(8) by simp
qed

theorem mutate_second_writer_conflicts_witness:
  "\<exists>i' db2. mutate_with_receipt_id (sample_request ''k3'' (Some 1)) sample_write
        (snd (mutate_with_receipt_id (sample_request ''k2'' (Some 1)) sample_write sample_db))
       = (Inr (MutationConflict i' (Some 2)), db2)"
proof -
  have run: "mutate_with_receipt_id (sample_request ''k2'' (Some 1)) sample_write sample_db
      = (Inr (MutationApplied (receipt_text 2) 2),
         snd (mutate_with_receipt_id (sample_request ''k2'' (Some 1)) sample_write sample_db))"
    by (simp add: sample_db_eq mutate_with_receipt_id_def find_applied_receipt_def receipt_of_def sample_write_def
        sample_request_def read_revision_def insert_receipt_def next_receipt_id_def write_revision_def
        applied_key_taken_def Let_def request_entity_def numeral_2_eq_2)
  have "\<not> applied_key_taken (snd (mutate_with_receipt_id (sample_request ''k2'' (Some 1)) sample_write sample_db))
      ''acme'' ''k3''"
    by (simp add: sample_db_eq mutate_with_receipt_id_def find_applied_receipt_def receipt_of_def sample_write_def
        sample_request_def read_revision_def insert_receipt_def next_receipt_id_def write_revision_def
        applied_key_taken_def Let_def request_entity_def numeral_2_eq_2)
  then show ?thesis
    using mutate_second_writer_conflicts [OF sample_db_reachable sample_write_safe(1,2,1) run,
        of 1 "sample_request ''k3'' (Some 1)"]
    by (auto simp: sample_request_def request_entity_def)
qed

section \<open>Revisions count the applied receipts\<close>

definition entity_of :: "receipt_row \<Rightarrow> entity_key" where
  "entity_of r = (rx_client_id r, rx_entity_kind r, rx_entity_id r)"

definition applied_count :: "'d db \<Rightarrow> entity_key \<Rightarrow> nat" where
  "applied_count db k = length (filter (\<lambda>r. applied r \<and> entity_of r = k) (db_receipts db))"

lemma applied_count_identities:
  "applied_count db k = length (filter (\<lambda>r. applied r \<and> entity_of r = k) (identities db))"
  by (simp add: applied_count_def filter_map comp_def entity_of_def)

lemma entity_of_receipt [simp]: "entity_of (receipt_of req out cls b a i) = request_entity req"
  by (simp add: entity_of_def receipt_of_def request_entity_def)

text \<open>
  What a domain write may do to a revision besides leaving it alone: start it at one or raise it by one, as
  \<open>initialize_revision_within\<close> does for the child rows a mutation creates (tasks, work items, follow-ups, inventory) and
  \<open>advance_revision_within\<close> for the second entity a mutation changes.
\<close>

definition one_up :: "u64 option \<Rightarrow> u64" where
  "one_up current = (case current of None \<Rightarrow> 0 | Some n \<Rightarrow> n) + 1"

definition counts_up :: "entity_key \<Rightarrow> 'd domain_write \<Rightarrow> bool" where
  "counts_up k dw \<longleftrightarrow> (\<forall>i db db'. dw i db = (Inr (), db')
     \<longrightarrow> read_revision db' k = read_revision db k \<or> read_revision db' k = Some (one_up (read_revision db k)))"

lemma counts_up_writes:
  "revision_safe dw \<Longrightarrow> counts_up k dw"
  "counts_up k (\<lambda>_. initialize_revision_within k' 1 t)"
  "counts_up k (\<lambda>_. op_map (\<lambda>_. ()) (advance_revision_within k' expected t))"
  by (auto simp: counts_up_def revision_safe_def read_revision_def one_up_def initialize_revision_within_def
      advance_revision_within_def op_map_def write_revision_def
      split: if_splits sum.splits prod.splits option.splits)

text \<open>
  A history with the number of mutations of other entities that changed the revision of \<open>k\<close>. It starts from the
  tables as the migrations create them; what migrations 0051 and 0088 do to the revisions of older databases is left out.
\<close>

inductive audited_run :: "entity_key \<Rightarrow> 'd db \<Rightarrow> nat \<Rightarrow> bool" for k where
  AuditedStart: "audited_run k (empty_db d) 0"
| AuditedMutate: "audited_run k db n \<Longrightarrow> spine_safe dw \<Longrightarrow> counts_up k dw
     \<Longrightarrow> db' = snd (mutate_with_receipt_id req dw db)
     \<Longrightarrow> audited_run k db' (n + of_bool (request_entity req \<noteq> k \<and> read_revision db' k \<noteq> read_revision db k))"
| AuditedFailure: "audited_run k db n \<Longrightarrow> audited_run k (snd (record_failed_receipt req cls db)) n"
| AuditedSlice: "audited_run k db n \<Longrightarrow> audited_run k (db\<lparr>db_domain := d\<rparr>) n"

definition revision_of_count :: "nat \<Rightarrow> u64 option" where
  "revision_of_count n = (if n = 0 then None else Some (of_nat n))"

lemma one_up_of_count: "Some (one_up (revision_of_count n)) = revision_of_count (Suc n)"
  by (simp add: one_up_def revision_of_count_def add.commute)

lemma applied_count_snoc:
  "applied_count (db\<lparr>db_receipts := db_receipts db @ [receipt_of req out cls b a i]\<rparr>) k
     = applied_count db k + of_bool (out = Applied \<and> request_entity req = k)"
  by (simp add: applied_count_def)

lemma audited_run_ok:
  "audited_run k db n
     \<Longrightarrow> spine_ok (db_receipts db) \<and> read_revision db k = revision_of_count (applied_count db k + n)"
proof (induction rule: audited_run.induct)
  case (AuditedMutate db n dw db' req)
  then have ok: "spine_ok (db_receipts db)" and rev: "read_revision db k = revision_of_count (applied_count db k + n)"
    by blast+
  have "spine_step db db'" unfolding AuditedMutate(4) by (rule spine_step.Mutate [OF AuditedMutate(2)])
  moreover have "read_revision db' k = revision_of_count (applied_count db' k
      + (n + of_bool (request_entity req \<noteq> k \<and> read_revision db' k \<noteq> read_revision db k)))"
  proof (cases rule: mutate_cases [OF AuditedMutate(2) ok, of req])
    case (4 db1)
    have count: "applied_count db1 k = applied_count db k" by (simp only: applied_count_identities 4(4))
    have "applied_count db' k = applied_count db k + of_bool (request_entity req = k)"
      unfolding AuditedMutate(4) 4(5) using count by (simp add: applied_count_def)
    moreover have "read_revision db' k = (if request_entity req = k then Some (one_up (read_revision db k))
        else read_revision db1 k)"
      unfolding AuditedMutate(4) 4(5) by (auto simp: read_revision_def write_revision_def next_revision_def one_up_def)
    moreover have "read_revision db1 k = read_revision db k \<or> read_revision db1 k = Some (one_up (read_revision db k))"
      using AuditedMutate(3) 4(3) unfolding counts_up_def by blast
    ultimately show ?thesis using rev one_up_of_count [of "applied_count db k + n"] by auto
  qed (use rev in \<open>simp_all add: AuditedMutate(4) applied_count_snoc read_revision_def\<close>)
  ultimately show ?case using spine_step_ok [OF _ ok] by blast
next
  case (AuditedFailure db n req cls)
  then have ok: "spine_ok (db_receipts db)" by blast
  have "spine_ok (db_receipts (snd (record_failed_receipt req cls db)))"
    using spine_step_ok [OF _ ok] spine_step.intros by blast
  moreover have "read_revision (snd (record_failed_receipt req cls db)) k = read_revision db k
      \<and> applied_count (snd (record_failed_receipt req cls db)) k = applied_count db k"
    using insert_receipt_ok(1) [OF ok, of FailedOutcome req]
    by (simp add: record_failed_receipt_def transaction_def Let_def applied_count_snoc read_revision_def)
  ultimately show ?case using AuditedFailure.IH by simp
next
  case (AuditedSlice db n d)
  then show ?case by (simp add: applied_count_def read_revision_def)
qed (simp add: empty_db_def applied_count_def read_revision_def revision_of_count_def)

text \<open>
  (C14) The audit trail is complete: the revision of an entity is the number of its applied receipts plus the number of
  mutations of other entities that started or advanced it (modulo the 64-bit width), and an entity with neither has no
  revision. In particular the revision of an entity that only its own mutations write is the number of its applied receipts.
\<close>

theorem revision_counts_applied_receipts:
  assumes "audited_run (client, kind, entity) db n"
  shows "current_revision db client kind entity =
      (let m = length (filter (\<lambda>r. rx_outcome r = ''applied'' \<and> rx_client_id r = client
                 \<and> rx_entity_kind r = kind \<and> rx_entity_id r = entity) (db_receipts db)) + n
       in if m = 0 then None else Some (of_nat m))"
  using audited_run_ok [OF assms]
  by (simp add: current_revision_def applied_count_def applied_def entity_of_def Let_def revision_of_count_def)

definition child_write :: "nat domain_write" where
  "child_write _ = initialize_revision_within (''acme'', ''task'', ''t1'') 1 1000"

lemma child_write_safe: "spine_safe child_write" "counts_up k child_write"
  unfolding child_write_def [abs_def]
  by (rule counts_up_writes | auto simp: spine_safe_def initialize_revision_within_def write_revision_def split: if_splits)+

theorem revision_counts_applied_receipts_witness:
  "(let db = snd (mutate_with_receipt_id (sample_request ''k2'' None) child_write sample_db)
    in current_revision db ''acme'' ''task'' ''t1'' = Some 1
     \<and> filter (\<lambda>r. rx_entity_kind r = ''task'') (db_receipts db) = [])"
proof -
  let ?k = "(''acme'', ''task'', ''t1'')"
  let ?db = "snd (mutate_with_receipt_id (sample_request ''k2'' None) child_write sample_db)"
  have facts: "read_revision sample_db ?k = None" "read_revision ?db ?k = Some 1"
    "filter (\<lambda>r. rx_entity_kind r = ''task'') (db_receipts ?db) = []"
    "request_entity (sample_request key e) \<noteq> ?k" for key e
    by (simp_all add: sample_db_eq mutate_with_receipt_id_def find_applied_receipt_def child_write_def sample_request_def
        read_revision_def insert_receipt_def next_receipt_id_def write_revision_def applied_key_taken_def Let_def
        request_entity_def initialize_revision_within_def receipt_of_def numeral_2_eq_2)
  have "audited_run ?k sample_db 0"
    using AuditedMutate [OF AuditedStart [of ?k 0] sample_write_safe(1) counts_up_writes(1) [OF sample_write_safe(2)] refl,
        of "sample_request ''k1'' None", folded sample_db_def] facts(1)
    by (simp add: empty_db_def read_revision_def)
  from AuditedMutate [OF this child_write_safe refl, of "sample_request ''k2'' None"]
  have "audited_run ?k ?db 1" using facts by simp
  from revision_counts_applied_receipts [OF this] facts(3) show ?thesis
    by (simp add: Let_def filter_empty_conv)
qed

section \<open>Compaction\<close>

interpretation compaction: spine_write "\<lambda>_. compaction_write b" for b
proof
  have "rx_identity (if P r then r\<lparr>rx_before_json := None, rx_after_json := None\<rparr> else r) = rx_identity r"
    for P and r :: receipt_row
    by (simp add: rx_identity_def)
  then show "spine_safe (\<lambda>_. compaction_write b)"
    by (auto simp: spine_safe_def compaction_write_def Let_def split: if_splits)
qed

lemma select_all_listed:
  assumes d: "distinct (map f xs)" and ys: "ys = take n (map f (sort_key g (filter P xs)))"
  shows "length (filter (\<lambda>x. P x \<and> f x \<in> set ys) xs) = length ys"
proof -
  let ?Q = "\<lambda>x. P x \<and> f x \<in> set ys"
  have "distinct (map f (filter P xs))" using d by (rule distinct_map_filter)
  then have "distinct (map f (sort_key g (filter P xs)))"
    by (simp add: distinct_map)
  then have dys: "distinct ys" unfolding ys by (rule distinct_take)
  have "set ys \<subseteq> f ` set (filter P xs)"
    unfolding ys by (auto dest!: in_set_takeD)
  then have "f ` set (filter ?Q xs) = set ys" by auto
  moreover have "length (filter ?Q xs) = card (f ` set (filter ?Q xs))"
    using distinct_card [OF distinct_map_filter [OF d, of ?Q]] by simp
  ultimately show ?thesis using distinct_card [OF dys] by simp
qed

lemma spine_ids_distinct: "spine_ok rs \<Longrightarrow> distinct (map rx_receipt_id rs)"
  by (simp add: spine_ok_def distinct_map inj_on_def)

text \<open>
  Compacting a batch of receipt payloads that \<open>receipt_payload_compaction_candidates\<close> selected
  succeeds under a fresh key: exactly the listed receipts lose their payloads, every other receipt is
  unchanged, no receipt loses its identity, outcome, revision or key, and the compaction leaves an
  applied receipt of its own.
\<close>

theorem compaction_of_candidates:
  assumes "spine_reachable db"
    and ids: "cb_receipt_ids b = receipt_payload_compaction_candidates db (cb_client_id b)
           (cb_cutoff_ms b) (cb_allowlisted_entity_kinds b) (cb_restricted_change_kinds b) limit"
    and "cb_receipt_ids b \<noteq> []"
    and "\<not> applied_key_taken db (cb_client_id b) (cb_idempotency_key b)"
  shows "\<exists>i revision db' row.
       compact_receipt_payloads render b db = (Inr (MutationApplied i revision), db')
     \<and> db_receipts db' = map (\<lambda>r. if rx_receipt_id r \<in> set (cb_receipt_ids b)
          then r\<lparr>rx_before_json := None, rx_after_json := None\<rparr> else r) (db_receipts db) @ [row]
     \<and> rx_receipt_id row = i \<and> identities db' = identities db @ [rx_identity row]
     \<and> db_domain db' = db_domain db"
proof -
  note ok = spine_reachable_ok [OF assms(1)]
  note d = spine_ids_distinct [OF ok]
  let ?P = "compactable (cb_client_id b) (cb_cutoff_ms b) (cb_allowlisted_entity_kinds b)
    (cb_restricted_change_kinds b)"
  have kinds: "cb_allowlisted_entity_kinds b \<noteq> []" and
    ids': "cb_receipt_ids b = take limit (map rx_receipt_id
      (sort_key (\<lambda>r. (sint (rx_created_at_ms r), rx_receipt_id r)) (filter ?P (db_receipts db))))"
    using ids assms(3) by (auto simp: receipt_payload_compaction_candidates_def split: if_splits)
  have hits: "compaction_hits b r \<longleftrightarrow> rx_receipt_id r \<in> set (cb_receipt_ids b)"
    if "r \<in> set (db_receipts db)" for r
  proof -
    have "rx_receipt_id r \<in> rx_receipt_id ` set (filter ?P (db_receipts db))"
      if "rx_receipt_id r \<in> set (cb_receipt_ids b)"
      using that unfolding ids' by (auto dest!: in_set_takeD)
    then have "?P r" if "rx_receipt_id r \<in> set (cb_receipt_ids b)"
      using that d \<open>r \<in> set (db_receipts db)\<close> by (auto simp: distinct_map dest: inj_onD)
    then show ?thesis unfolding compaction_hits_def by blast
  qed
  have "length (filter (compaction_hits b) (db_receipts db)) = length (cb_receipt_ids b)"
    unfolding compaction_hits_def by (rule select_all_listed [OF d ids'])
  moreover have eq: "map (\<lambda>r. if compaction_hits b r
          then r\<lparr>rx_before_json := None, rx_after_json := None\<rparr> else r) (db_receipts db)
      = map (\<lambda>r. if rx_receipt_id r \<in> set (cb_receipt_ids b)
          then r\<lparr>rx_before_json := None, rx_after_json := None\<rparr> else r) (db_receipts db)"
    by (rule map_cong [OF refl]) (simp only: hits)
  ultimately have w: "compaction_write b db = (Inr (), db\<lparr>db_receipts :=
      map (\<lambda>r. if rx_receipt_id r \<in> set (cb_receipt_ids b)
          then r\<lparr>rx_before_json := None, rx_after_json := None\<rparr> else r) (db_receipts db)\<rparr>)"
    unfolding compaction_write_def Let_def eq by simp
  let ?req = "compaction_request render b"
  have free: "find_applied_receipt db (mq_client_id ?req) (mq_idempotency_key ?req) = None"
    using assms(4) by (simp add: find_applied_None compaction_request_def)
  have calm: "\<not> conflicting ?req db" by (simp add: conflicting_def compaction_request_def)
  have run: "compact_receipt_payloads render b db = mutate_with_receipt_id ?req (\<lambda>_. compaction_write b) db"
    using kinds assms(3) by (simp add: compact_receipt_payloads_def mutate_def)
  show ?thesis
    unfolding run compaction.mutate_applied [OF ok free calm w]
    using compaction.write_keeps(1) [OF w]
    by (intro exI conjI) (rule refl | simp add: write_revision_def)+
qed

definition sample_batch :: compaction_batch where
  "sample_batch =
     \<lparr>cb_client_id = ''acme'', cb_actor_id = ''sys'', cb_actor_kind = System, cb_cutoff_ms = 2000,
      cb_allowlisted_entity_kinds = [''rule''], cb_restricted_change_kinds = [],
      cb_receipt_ids = [receipt_text 1], cb_mutation_entity_kind = ''retention'',
      cb_mutation_change_kind = ''compact'', cb_entity_id = ''batch'', cb_idempotency_key = ''c1'',
      cb_correlation_id = None, cb_causation_id = None, cb_now_ms = 3000\<rparr>"

theorem compaction_of_candidates_witness:
  "\<exists>i revision db' row.
       compact_receipt_payloads (\<lambda>_ _ _ _. ''{}'') sample_batch sample_db
         = (Inr (MutationApplied i revision), db')
     \<and> db_receipts db' = map (\<lambda>r. if rx_receipt_id r \<in> set (cb_receipt_ids sample_batch)
          then r\<lparr>rx_before_json := None, rx_after_json := None\<rparr> else r) (db_receipts sample_db) @ [row]"
proof -
  have "cb_receipt_ids sample_batch = receipt_payload_compaction_candidates sample_db
      (cb_client_id sample_batch) (cb_cutoff_ms sample_batch) (cb_allowlisted_entity_kinds sample_batch)
      (cb_restricted_change_kinds sample_batch) 10"
    by (simp add: sample_batch_def sample_db_eq receipt_payload_compaction_candidates_def
        compactable_def receipt_of_def sample_request_def)
  moreover have "cb_receipt_ids sample_batch \<noteq> []" by (simp add: sample_batch_def)
  moreover have "\<not> applied_key_taken sample_db (cb_client_id sample_batch) (cb_idempotency_key sample_batch)"
    by (simp add: sample_batch_def sample_db_eq applied_key_taken_def receipt_of_def sample_request_def)
  ultimately show ?thesis
    using compaction_of_candidates [OF sample_db_reachable, of sample_batch 10 "\<lambda>_ _ _ _. ''{}''"] by blast
qed

end
