(* ===== verification/Outbox_Jobs.thy ===== *)
theory Outbox_Jobs
  imports Receipt_Store
begin

text \<open>
  \<open>bos-app/src/outbox.rs\<close>: the job outbox, the one path for effects at external providers. Jobs are
  rows of the table \<open>outbox_jobs\<close> (migration \<open>0008_outbox_jobs.sql\<close>), keyed by client and job; they are
  enqueued inside a mutation of the receipt spine, claimed under a lease, delivered outside the database
  and recorded again through the spine. The executors of the slices, the JSON renderings and the JSON
  parser are parameters. The table is a field of an extensible record, so that the slices that keep
  tables of their own extend it.
\<close>

section \<open>Jobs\<close>

definition JOB_ENTITY_KIND :: string where "JOB_ENTITY_KIND = ''outbox_job''"
definition STATUS_PENDING :: string where "STATUS_PENDING = ''pending''"
definition STATUS_DELIVERED :: string where "STATUS_DELIVERED = ''delivered''"
definition STATUS_FAILED_TERMINAL :: string where "STATUS_FAILED_TERMINAL = ''failed_terminal''"
definition STATUS_DELIVERY_OUTCOME_UNKNOWN :: string where
  "STATUS_DELIVERY_OUTCOME_UNKNOWN = ''delivery_outcome_unknown''"

lemmas status_defs =
  STATUS_PENDING_def STATUS_DELIVERED_def STATUS_FAILED_TERMINAL_def STATUS_DELIVERY_OUTCOME_UNKNOWN_def

definition MAX_ATTEMPTS :: u32 where "MAX_ATTEMPTS = 8"

record new_outbox_job =
  nj_job_id :: string
  nj_provider :: string
  nj_capability :: string
  nj_payload_json :: string
  nj_source_entity_kind :: string
  nj_source_entity_id :: string
  nj_correlation_id :: "string option"
  nj_causation_id :: "string option"
  nj_idempotency_key :: string

record claimed_job =
  cj_job_id :: string
  cj_provider :: string
  cj_capability :: string
  cj_payload_json :: string
  cj_attempts :: u32
  cj_source_entity_kind :: string
  cj_source_entity_id :: string
  cj_correlation_id :: "string option"
  cj_idempotency_key :: string

text \<open>A row of \<open>outbox_jobs\<close> without its primary key; times are \<open>u64\<close> stored as \<open>i64\<close>.\<close>

record outbox_job =
  oj_provider :: string
  oj_capability :: string
  oj_payload_json :: string
  oj_status :: string
  oj_attempts :: u32
  oj_next_attempt_at_ms :: u64
  oj_leased_until_ms :: "u64 option"
  oj_last_error :: "string option"
  oj_result_json :: "string option"
  oj_source_entity_kind :: string
  oj_source_entity_id :: string
  oj_correlation_id :: "string option"
  oj_causation_id :: "string option"
  oj_idempotency_key :: string
  oj_created_at_ms :: u64
  oj_updated_at_ms :: u64

type_synonym job_key = "string \<times> string"

record outbox_tables =
  ot_jobs :: "(job_key, outbox_job) hash_map"

abbreviation jobs_of :: "'x outbox_tables_scheme db \<Rightarrow> (job_key, outbox_job) hash_map" where
  "jobs_of db \<equiv> ot_jobs (db_domain db)"

definition put_job :: "job_key \<Rightarrow> outbox_job \<Rightarrow> 'x outbox_tables_scheme db \<Rightarrow> 'x outbox_tables_scheme db" where
  "put_job k j db = db\<lparr>db_domain := (db_domain db)\<lparr>ot_jobs := hm_insert k j (jobs_of db)\<rparr>\<rparr>"

definition new_row :: "new_outbox_job \<Rightarrow> u64 \<Rightarrow> outbox_job" where
  "new_row job now_ms =
     \<lparr>oj_provider = nj_provider job, oj_capability = nj_capability job,
      oj_payload_json = nj_payload_json job, oj_status = STATUS_PENDING, oj_attempts = 0,
      oj_next_attempt_at_ms = now_ms, oj_leased_until_ms = None, oj_last_error = None,
      oj_result_json = None, oj_source_entity_kind = nj_source_entity_kind job,
      oj_source_entity_id = nj_source_entity_id job, oj_correlation_id = nj_correlation_id job,
      oj_causation_id = nj_causation_id job, oj_idempotency_key = nj_idempotency_key job,
      oj_created_at_ms = now_ms, oj_updated_at_ms = now_ms\<rparr>"

definition enqueue_within :: "string \<Rightarrow> new_outbox_job \<Rightarrow> u64 \<Rightarrow> ('x outbox_tables_scheme, unit) db_op" where
  "enqueue_within client job now_ms db =
     (if hm_get (jobs_of db) (client, nj_job_id job) \<noteq> None
      then (Inl (Sqlite ''UNIQUE constraint failed: outbox_jobs.client_id, outbox_jobs.job_id''), db)
      else (Inr (), put_job (client, nj_job_id job) (new_row job now_ms) db))"

section \<open>Claims\<close>

definition job_due :: "outbox_job \<Rightarrow> u64 \<Rightarrow> bool" where
  "job_due j now_ms \<longleftrightarrow>
     oj_status j = STATUS_PENDING \<and> sint (oj_next_attempt_at_ms j) \<le> sint now_ms
   \<and> (case oj_leased_until_ms j of None \<Rightarrow> True | Some l \<Rightarrow> sint l \<le> sint now_ms)"

definition claimed_of :: "job_key \<Rightarrow> outbox_job \<Rightarrow> claimed_job" where
  "claimed_of k j =
     \<lparr>cj_job_id = snd k, cj_provider = oj_provider j, cj_capability = oj_capability j,
      cj_payload_json = oj_payload_json j, cj_attempts = oj_attempts j,
      cj_source_entity_kind = oj_source_entity_kind j, cj_source_entity_id = oj_source_entity_id j,
      cj_correlation_id = oj_correlation_id j, cj_idempotency_key = oj_idempotency_key j\<rparr>"

definition lease_row :: "u64 \<Rightarrow> u64 \<Rightarrow> outbox_job \<Rightarrow> outbox_job" where
  "lease_row lease_ms now_ms j = j\<lparr>oj_leased_until_ms := Some (now_ms + lease_ms), oj_updated_at_ms := now_ms\<rparr>"

text \<open>\<open>UPDATE outbox_jobs ... WHERE client_id = ?1 AND job_id = ?2\<close>: a missing row changes nothing.\<close>

definition update_job ::
    "job_key \<Rightarrow> (outbox_job \<Rightarrow> outbox_job) \<Rightarrow> 'x outbox_tables_scheme db \<Rightarrow> 'x outbox_tables_scheme db" where
  "update_job k f db = (case hm_get (jobs_of db) k of None \<Rightarrow> db | Some j \<Rightarrow> put_job k (f j) db)"

definition update_jobs ::
    "string \<Rightarrow> (outbox_job \<Rightarrow> outbox_job) \<Rightarrow> claimed_job list
       \<Rightarrow> 'x outbox_tables_scheme db \<Rightarrow> 'x outbox_tables_scheme db" where
  "update_jobs client f jobs = fold (\<lambda>job. update_job (client, cj_job_id job) f) jobs"

definition job_order :: "job_key \<times> outbox_job \<Rightarrow> int \<times> string" where
  "job_order e = (sint (oj_next_attempt_at_ms (snd e)), snd (fst e))"

definition due_jobs ::
    "'x outbox_tables_scheme db \<Rightarrow> string \<Rightarrow> string option \<Rightarrow> usize \<Rightarrow> u64 \<Rightarrow> (job_key \<times> outbox_job) list" where
  "due_jobs db client provider limit now_ms =
     take limit (sort_key job_order
       (filter (\<lambda>(k, j). fst k = client \<and> (case provider of None \<Rightarrow> True | Some p \<Rightarrow> oj_provider j = p)
                 \<and> job_due j now_ms) (jobs_of db)))"

definition claim_due_jobs ::
    "string \<Rightarrow> string option \<Rightarrow> u64 \<Rightarrow> usize \<Rightarrow> u64 \<Rightarrow> ('x outbox_tables_scheme, claimed_job list) db_op" where
  "claim_due_jobs client provider lease_ms limit now_ms =
     transaction (\<lambda>db.
       let jobs = map (\<lambda>(k, j). claimed_of k j) (due_jobs db client provider limit now_ms)
       in (Inr jobs,
           update_jobs client (lease_row lease_ms now_ms) jobs db))"

definition claim_due_job_by_id ::
    "string \<Rightarrow> string \<Rightarrow> u64 \<Rightarrow> u64 \<Rightarrow> ('x outbox_tables_scheme, claimed_job option) db_op" where
  "claim_due_job_by_id client job_id lease_ms now_ms =
     transaction (\<lambda>db.
       let job = (case hm_get (jobs_of db) (client, job_id) of
                    None \<Rightarrow> None
                  | Some j \<Rightarrow> if job_due j now_ms then Some (claimed_of (client, job_id) j) else None)
       in (Inr job,
           (case job of None \<Rightarrow> db
            | Some job \<Rightarrow> update_job (client, cj_job_id job) (lease_row lease_ms now_ms) db)))"

definition job_result_json :: "'x outbox_tables_scheme db \<Rightarrow> string \<Rightarrow> string \<Rightarrow> string option" where
  "job_result_json db client job_id =
     (case hm_get (jobs_of db) (client, job_id) of
        None \<Rightarrow> None
      | Some j \<Rightarrow> if oj_status j = STATUS_DELIVERED then oj_result_json j else None)"

definition job_exists :: "'x outbox_tables_scheme db \<Rightarrow> string \<Rightarrow> string \<Rightarrow> bool" where
  "job_exists db client job_id \<longleftrightarrow> hm_get (jobs_of db) (client, job_id) \<noteq> None"

section \<open>Attempts\<close>

datatype attempt_outcome =
  Delivered string
| Retry string u64
| Terminal string "string option"
| OutcomeUnknown string "string option"

definition PROVIDER_ERROR_DETAIL_MAX_CHARS :: nat where "PROVIDER_ERROR_DETAIL_MAX_CHARS = 500"

definition join_words :: "string list \<Rightarrow> string" where
  "join_words ws = foldr (\<lambda>w acc. if acc = [] then w else w @ '' '' @ acc) ws []"

definition provider_error_detail :: "string \<Rightarrow> string \<Rightarrow> string" where
  "provider_error_detail code message =
     (let normalized = join_words (split_whitespace message)
      in if normalized = [] then code
         else let detail = code @ '': '' @ normalized
              in if length (utf8_chars detail) > PROVIDER_ERROR_DETAIL_MAX_CHARS
                 then concat (take PROVIDER_ERROR_DETAIL_MAX_CHARS (utf8_chars detail)) @ ''...''
                 else detail)"

text \<open>The columns an attempt writes: status, receipt kind, error, result and next attempt time.\<close>

fun attempt_columns ::
    "u32 \<Rightarrow> attempt_outcome \<Rightarrow> string \<times> string \<times> string option \<times> string option \<times> u64 option" where
  "attempt_columns attempts (Delivered result) =
     (STATUS_DELIVERED, ''deliver_succeeded'', None, Some result, None)"
| "attempt_columns attempts (Retry error retry_at) =
     (if attempts \<ge> MAX_ATTEMPTS
      then (STATUS_FAILED_TERMINAL, ''deliver_attempts_exhausted'', Some error, None, None)
      else (STATUS_PENDING, ''deliver_retry_scheduled'', Some error, None, Some retry_at))"
| "attempt_columns attempts (Terminal error result) =
     (STATUS_FAILED_TERMINAL, ''deliver_failed_terminal'', Some error, result, None)"
| "attempt_columns attempts (OutcomeUnknown error result) =
     (STATUS_DELIVERY_OUTCOME_UNKNOWN, ''deliver_outcome_unknown'', Some error, result, None)"

definition retry_cycle :: "'d db \<Rightarrow> string \<Rightarrow> string \<Rightarrow> string option" where
  "retry_cycle db client job_id =
     map_option rx_receipt_id (first_of (newest_first
       (filter (\<lambda>r. rx_change_kind r = ''retry_requested'' \<and> rx_outcome r = ''applied'')
         (entity_receipts db client JOB_ENTITY_KIND job_id))))"

definition attempt_key :: "string \<Rightarrow> string option \<Rightarrow> u32 \<Rightarrow> string" where
  "attempt_key job_id cycle attempts =
     ''outbox_attempt:'' @ job_id @ '':'' @ (case cycle of None \<Rightarrow> ''initial'' | Some c \<Rightarrow> c)
       @ '':'' @ dec_string (unat attempts)"

definition attempt_row :: "u32 \<Rightarrow> attempt_outcome \<Rightarrow> u64 \<Rightarrow> outbox_job \<Rightarrow> outbox_job" where
  "attempt_row attempts outcome now_ms j =
     (case attempt_columns attempts outcome of (status, _, error, result, next_attempt) \<Rightarrow>
        j\<lparr>oj_status := status, oj_attempts := attempts, oj_leased_until_ms := None,
          oj_last_error := error,
          oj_result_json := (case result of None \<Rightarrow> oj_result_json j | Some r \<Rightarrow> Some r),
          oj_next_attempt_at_ms :=
            (case next_attempt of None \<Rightarrow> oj_next_attempt_at_ms j | Some t \<Rightarrow> t),
          oj_updated_at_ms := now_ms\<rparr>)"

definition attempt_write ::
    "string \<Rightarrow> claimed_job \<Rightarrow> attempt_outcome \<Rightarrow> u64 \<Rightarrow> ('x outbox_tables_scheme, unit) db_op" where
  "attempt_write client job outcome now_ms db =
     (Inr (), update_job (client, cj_job_id job) (attempt_row (cj_attempts job + 1) outcome now_ms) db)"

text \<open>\<open>render\<close> is the JSON rendering of status, attempts and error of the receipt.\<close>

definition attempt_request ::
    "(string \<Rightarrow> u32 \<Rightarrow> string option \<Rightarrow> string) \<Rightarrow> string \<Rightarrow> claimed_job \<Rightarrow> attempt_outcome \<Rightarrow> u64
       \<Rightarrow> 'd db \<Rightarrow> mutation_request" where
  "attempt_request render client job outcome now_ms db =
     (let attempts = cj_attempts job + 1 in
      case attempt_columns attempts outcome of (status, change_kind, error, _, _) \<Rightarrow>
        \<lparr>mq_client_id = client, mq_entity_kind = JOB_ENTITY_KIND, mq_entity_id = cj_job_id job,
         mq_change_kind = change_kind, mq_actor_id = ''outbox_delivery_worker'',
         mq_actor_kind = System, mq_expected_revision = None,
         mq_idempotency_key = attempt_key (cj_job_id job) (retry_cycle db client (cj_job_id job)) attempts,
         mq_correlation_id = cj_correlation_id job, mq_causation_id = None, mq_before_json = None,
         mq_after_json = Some (render status attempts error), mq_now_ms = now_ms\<rparr>)"

definition record_attempt ::
    "(string \<Rightarrow> u32 \<Rightarrow> string option \<Rightarrow> string) \<Rightarrow> string \<Rightarrow> claimed_job \<Rightarrow> attempt_outcome \<Rightarrow> u64
       \<Rightarrow> ('x outbox_tables_scheme, string) db_op" where
  "record_attempt render client job outcome now_ms db =
     op_map (\<lambda>_. fst (attempt_columns (cj_attempts job + 1) outcome))
       (mutate (attempt_request render client job outcome now_ms db)
         (attempt_write client job outcome now_ms)) db"

definition retry_backoff_ms :: "u32 \<Rightarrow> u64" where
  "retry_backoff_ms attempts = min (push_bit (unat (min attempts 5)) 30000) 900000"

section \<open>Operator retry\<close>

definition retry_row :: "u64 \<Rightarrow> outbox_job \<Rightarrow> outbox_job" where
  "retry_row now_ms j =
     j\<lparr>oj_status := STATUS_PENDING, oj_attempts := 0, oj_leased_until_ms := None, oj_last_error := None,
       oj_result_json := None, oj_next_attempt_at_ms := now_ms, oj_updated_at_ms := now_ms\<rparr>"

definition retry_write :: "string \<Rightarrow> string \<Rightarrow> u64 \<Rightarrow> ('x outbox_tables_scheme, unit) db_op" where
  "retry_write client job_id now_ms db =
     (case hm_get (jobs_of db) (client, job_id) of
        None \<Rightarrow> (Inl (Domain ''outbox_job_not_found''), db)
      | Some j \<Rightarrow>
          if oj_status j = STATUS_FAILED_TERMINAL
          then (Inr (), put_job (client, job_id) (retry_row now_ms j) db)
          else (Inl (Domain (''outbox_retry_not_failed:'' @ oj_status j)), db))"

definition retry_request ::
    "(string \<Rightarrow> u32 \<Rightarrow> string) \<Rightarrow> string \<Rightarrow> string \<Rightarrow> string \<Rightarrow> string \<Rightarrow> u64
       \<Rightarrow> 'x outbox_tables_scheme db \<Rightarrow> mutation_request" where
  "retry_request render client job_id actor key now_ms db =
     \<lparr>mq_client_id = client, mq_entity_kind = JOB_ENTITY_KIND, mq_entity_id = job_id,
      mq_change_kind = ''retry_requested'', mq_actor_id = actor, mq_actor_kind = Operator,
      mq_expected_revision = None, mq_idempotency_key = key, mq_correlation_id = Some job_id,
      mq_causation_id = None,
      mq_before_json = map_option (\<lambda>j. render (oj_status j) (oj_attempts j))
                         (hm_get (jobs_of db) (client, job_id)),
      mq_after_json = Some (render STATUS_PENDING 0), mq_now_ms = now_ms\<rparr>"

definition retry_terminal_job ::
    "(string \<Rightarrow> u32 \<Rightarrow> string) \<Rightarrow> string \<Rightarrow> string \<Rightarrow> string \<Rightarrow> string \<Rightarrow> u64
       \<Rightarrow> ('x outbox_tables_scheme, mutation_outcome) db_op" where
  "retry_terminal_job render client job_id actor key now_ms db =
     mutate (retry_request render client job_id actor key now_ms db)
       (retry_write client job_id now_ms) db"

section \<open>The delivery cycle\<close>

text \<open>
  The executors the slices contribute. What an executor does at the provider, and what other threads do
  to the database while the persistence lock is released, is the parameter \<open>deliver\<close>.
\<close>

datatype executor =
  CalendarDeliver | CrmNoteHubspot | CrmRecordsHubspot | CrmRecordsEspocrm | CrmLeadEspocrm
| CrmNoteEspocrm | InvoiceNinjaInvoice | InvoiceNinjaLedger | StripeInvoice | QboLedger | ShopifyTier
| GmailTrash | GmailDraft | AgentLaunch | QuoteWorkflow | ContentPublish | BufferPublish

definition route_provider :: "string \<Rightarrow> string \<Rightarrow> executor option" where
  "route_provider provider capability =
     (if provider = ''google_calendar'' then Some CalendarDeliver
      else if provider = ''hubspot'' then
        Some (if capability = ''create_records'' then CrmRecordsHubspot else CrmNoteHubspot)
      else if provider = ''espocrm'' then
        Some (if capability = ''create_records'' then CrmRecordsEspocrm
              else if capability = ''create_lead'' then CrmLeadEspocrm else CrmNoteEspocrm)
      else if provider = ''invoice_ninja'' then
        Some (if capability = ''create_invoice_draft'' then InvoiceNinjaInvoice else InvoiceNinjaLedger)
      else if provider = ''stripe'' then Some StripeInvoice
      else if provider = ''qbo'' then Some QboLedger
      else if provider = ''shopify'' then Some ShopifyTier
      else if provider = ''gmail'' then
        Some (if capability = ''trash_message'' then GmailTrash else GmailDraft)
      else if provider = ''agent_monitor'' then Some AgentLaunch
      else if provider = ''quote_workflow'' then Some QuoteWorkflow
      else if provider = ''content_publish_adapter'' then Some ContentPublish
      else if provider = ''buffer'' then Some BufferPublish
      else None)"

type_synonym 'd deliver = "executor \<Rightarrow> claimed_job \<Rightarrow> u64 \<Rightarrow> 'd db \<Rightarrow> attempt_outcome \<times> 'd db"

definition dispatch :: "'d deliver \<Rightarrow> claimed_job \<Rightarrow> u64 \<Rightarrow> 'd db \<Rightarrow> attempt_outcome \<times> 'd db" where
  "dispatch deliver job now_ms db =
     (case route_provider (cj_provider job) (cj_capability job) of
        Some e \<Rightarrow> deliver e job now_ms db
      | None \<Rightarrow> (Terminal (''outbox_unsupported_provider:'' @ cj_provider job) None, db))"

definition LEASE_MS :: u64 where "LEASE_MS = 120000"
definition CLAIM_BATCH :: usize where "CLAIM_BATCH = 5"

text \<open>\<open>clock n\<close> is the n-th reading of \<open>now_ms()\<close> in the cycle.\<close>

fun deliver_jobs ::
    "'x outbox_tables_scheme deliver \<Rightarrow> (string \<Rightarrow> u32 \<Rightarrow> string option \<Rightarrow> string) \<Rightarrow> string \<Rightarrow> (nat \<Rightarrow> u64)
       \<Rightarrow> nat \<Rightarrow> claimed_job list \<Rightarrow> 'x outbox_tables_scheme db \<Rightarrow> 'x outbox_tables_scheme db" where
  "deliver_jobs deliver render client clock n [] db = db"
| "deliver_jobs deliver render client clock n (job # jobs) db =
     (case dispatch deliver job (clock n) db of
        (outcome, db1) \<Rightarrow>
          deliver_jobs deliver render client clock (n + 2) jobs
            (snd (record_attempt render client job outcome (clock (n + 1)) db1)))"

definition run_delivery_cycle ::
    "'x outbox_tables_scheme deliver \<Rightarrow> (u64 \<Rightarrow> ('x outbox_tables_scheme, nat) db_op)
       \<Rightarrow> (string \<Rightarrow> u32 \<Rightarrow> string option \<Rightarrow> string) \<Rightarrow> string \<Rightarrow> (nat \<Rightarrow> u64)
       \<Rightarrow> 'x outbox_tables_scheme db \<Rightarrow> 'x outbox_tables_scheme db" where
  "run_delivery_cycle deliver reconcile render client clock db =
     (case claim_due_jobs client None LEASE_MS CLAIM_BATCH (clock 0) db of
        (Inl err, db1) \<Rightarrow> db1
      | (Inr claimed, db1) \<Rightarrow>
          snd (reconcile (clock (2 * length claimed + 1))
                (deliver_jobs deliver render client clock 1 claimed db1)))"

section \<open>Read models\<close>

text \<open>What the summaries use of \<open>serde_json::Value\<close>.\<close>

record 'j json_reader =
  jr_from_str :: "string \<Rightarrow> 'j option"
  jr_get :: "'j \<Rightarrow> string \<Rightarrow> 'j option"
  jr_as_bool :: "'j \<Rightarrow> bool option"
  jr_as_str :: "'j \<Rightarrow> string option"

record outbox_job_summary =
  js_job_id :: string
  js_status :: string
  js_attempts :: u32
  js_last_error :: "string option"
  js_dry_run :: "bool option"
  js_provider_object_id :: "string option"

definition summary_of_row :: "'j json_reader \<Rightarrow> job_key \<Rightarrow> outbox_job \<Rightarrow> outbox_job_summary" where
  "summary_of_row json k j =
     (let result = Option.bind (oj_result_json j) (jr_from_str json)
      in \<lparr>js_job_id = snd k, js_status = oj_status j, js_attempts = oj_attempts j,
          js_last_error = oj_last_error j,
          js_dry_run = Option.bind (Option.bind result (\<lambda>v. jr_get json v ''dry_run'')) (jr_as_bool json),
          js_provider_object_id =
            Option.bind (Option.bind result (\<lambda>v. jr_get json v ''provider_object_id'')) (jr_as_str json)\<rparr>)"

definition job_summary ::
    "'j json_reader \<Rightarrow> 'x outbox_tables_scheme db \<Rightarrow> string \<Rightarrow> string \<Rightarrow> outbox_job_summary option" where
  "job_summary json db client job_id =
     map_option (summary_of_row json (client, job_id)) (hm_get (jobs_of db) (client, job_id))"

definition jobs_by_correlation ::
    "'j json_reader \<Rightarrow> 'x outbox_tables_scheme db \<Rightarrow> string \<Rightarrow> string list \<Rightarrow> usize
       \<Rightarrow> outbox_job_summary list" where
  "jobs_by_correlation json db client correlation_ids limit =
     (if correlation_ids = [] then []
      else map (\<lambda>(k, j). summary_of_row json k j) (take limit
             (rev (sort_key (\<lambda>(k, j). (sint (oj_created_at_ms j), snd k))
               (filter (\<lambda>(k, j). fst k = client \<and> (\<exists>c \<in> set correlation_ids. oj_correlation_id j = Some c))
                 (jobs_of db))))))"

section \<open>The tables under the operations\<close>

lemma put_job_simps [simp]:
  "jobs_of (put_job k j db) = hm_insert k j (jobs_of db)"
  "db_receipts (put_job k j db) = db_receipts db" "db_revisions (put_job k j db) = db_revisions db"
  by (simp_all add: put_job_def)

lemma update_job_simps [simp]:
  "db_receipts (update_job k f db) = db_receipts db" "db_revisions (update_job k f db) = db_revisions db"
  "hm_get (jobs_of (update_job k f db)) k'
     = (if k' = k then map_option f (hm_get (jobs_of db) k) else hm_get (jobs_of db) k')"
  "hm_wf (jobs_of db) \<Longrightarrow> hm_wf (jobs_of (update_job k f db))"
  by (auto simp: update_job_def split: option.splits)

lemma fold_update_jobs:
  assumes "distinct (map cj_job_id cs)"
  shows "db_receipts (update_jobs client f cs db) = db_receipts db"
    and "db_revisions (update_jobs client f cs db) = db_revisions db"
    and "hm_wf (jobs_of db) \<Longrightarrow> hm_wf (jobs_of (update_jobs client f cs db))"
    and "hm_get (jobs_of (update_jobs client f cs db)) k
       = (if fst k = client \<and> snd k \<in> cj_job_id ` set cs then map_option f (hm_get (jobs_of db) k)
          else hm_get (jobs_of db) k)"
proof -
  have "db_receipts (update_jobs client f cs db) = db_receipts db \<and> db_revisions (update_jobs client f cs db) = db_revisions db
      \<and> (hm_wf (jobs_of db) \<longrightarrow> hm_wf (jobs_of (update_jobs client f cs db)))
      \<and> hm_get (jobs_of (update_jobs client f cs db)) k
       = (if fst k = client \<and> snd k \<in> cj_job_id ` set cs then map_option f (hm_get (jobs_of db) k)
          else hm_get (jobs_of db) k)"
    using assms unfolding update_jobs_def
  proof (induction cs arbitrary: db)
    case (Cons c cs)
    show ?case
    proof (cases "k = (client, cj_job_id c)")
      case True
      with Cons show ?thesis by (simp add: True)
    next
      case False
      then have "fst k = client \<Longrightarrow> snd k \<noteq> cj_job_id c" by (cases k) auto
      with Cons False show ?thesis by auto
    qed
  qed simp
  then show "db_receipts (update_jobs client f cs db) = db_receipts db" "db_revisions (update_jobs client f cs db) = db_revisions db"
    "hm_wf (jobs_of db) \<Longrightarrow> hm_wf (jobs_of (update_jobs client f cs db))"
    "hm_get (jobs_of (update_jobs client f cs db)) k
       = (if fst k = client \<and> snd k \<in> cj_job_id ` set cs then map_option f (hm_get (jobs_of db) k)
          else hm_get (jobs_of db) k)"
    by blast+
qed

lemma claimed_of_id [simp]: "cj_job_id (claimed_of k j) = snd k"
  by (simp add: claimed_of_def)

lemma due_jobs_sub:
  "(k, j) \<in> set (due_jobs db client provider limit now_ms)
     \<Longrightarrow> (k, j) \<in> set (jobs_of db) \<and> fst k = client \<and> job_due j now_ms
       \<and> (\<forall>p. provider = Some p \<longrightarrow> oj_provider j = p)"
  unfolding due_jobs_def by (auto dest!: in_set_takeD)

lemma due_jobs_distinct:
  assumes "hm_wf (jobs_of db)"
  shows "distinct (map (snd \<circ> fst) (due_jobs db client provider limit now_ms))"
proof -
  let ?xs = "filter (\<lambda>(k, j). fst k = client \<and> (case provider of None \<Rightarrow> True | Some p \<Rightarrow> oj_provider j = p)
                 \<and> job_due j now_ms) (jobs_of db)"
  have "distinct (map fst ?xs)" using assms by (simp add: hm_wf_def distinct_map_filter)
  moreover have "inj_on snd (fst ` set ?xs)"
    by (auto simp: inj_on_def)
  ultimately have "distinct (map (snd \<circ> fst) ?xs)"
    by (simp add: distinct_map comp_inj_on)
  then have "distinct (map (snd \<circ> fst) (sort_key job_order ?xs))"
    by (simp add: distinct_map)
  then show ?thesis unfolding due_jobs_def take_map [symmetric] by (rule distinct_take)
qed

text \<open>A claim changes exactly the rows it hands out, and only their lease and update time.\<close>

lemma claim_due_jobs_effect:
  assumes wf: "hm_wf (jobs_of db)" and "claim_due_jobs client provider lease_ms limit now_ms db = (r, db')"
  shows "r = Inr (map (\<lambda>(k, j). claimed_of k j) (due_jobs db client provider limit now_ms))"
    and "db_receipts db' = db_receipts db" "db_revisions db' = db_revisions db" "hm_wf (jobs_of db')"
    and "hm_get (jobs_of db') k
       = (if \<exists>j. (k, j) \<in> set (due_jobs db client provider limit now_ms)
          then map_option (lease_row lease_ms now_ms) (hm_get (jobs_of db) k) else hm_get (jobs_of db) k)"
proof -
  let ?due = "due_jobs db client provider limit now_ms"
  let ?cs = "map (\<lambda>(k, j). claimed_of k j) ?due"
  have ids: "map cj_job_id ?cs = map (snd \<circ> fst) ?due" by (simp add: comp_def case_prod_beta)
  have d: "distinct (map cj_job_id ?cs)" unfolding ids by (rule due_jobs_distinct [OF wf])
  have run: "r = Inr ?cs"
    "db' = update_jobs client (lease_row lease_ms now_ms) ?cs db"
    using assms(2) by (simp_all add: claim_due_jobs_def transaction_def Let_def)
  then show "r = Inr ?cs" by simp
  show "db_receipts db' = db_receipts db" "db_revisions db' = db_revisions db" "hm_wf (jobs_of db')"
    unfolding run(2) by (simp_all only: fold_update_jobs(1,2) [OF d] fold_update_jobs(3) [OF d wf])
  have "fst k = client \<and> snd k \<in> cj_job_id ` set ?cs \<longleftrightarrow> (\<exists>j. (k, j) \<in> set ?due)"
  proof -
    have "cj_job_id ` set ?cs = (snd \<circ> fst) ` set ?due" by (metis ids list.set_map)
    then show ?thesis using due_jobs_sub [of _ _ db client provider limit now_ms]
      by (cases k) (force simp: image_iff)
  qed
  then show "hm_get (jobs_of db') k
       = (if \<exists>j. (k, j) \<in> set ?due
          then map_option (lease_row lease_ms now_ms) (hm_get (jobs_of db) k) else hm_get (jobs_of db) k)"
    unfolding run(2) fold_update_jobs(4) [OF d] by presburger
qed

lemma claim_by_id_effect:
  assumes "claim_due_job_by_id client job_id lease_ms now_ms db = (r, db')"
  shows "db_receipts db' = db_receipts db" "db_revisions db' = db_revisions db"
    and "hm_wf (jobs_of db) \<Longrightarrow> hm_wf (jobs_of db')"
    and "r = Inr (case hm_get (jobs_of db) (client, job_id) of
              None \<Rightarrow> None
            | Some j \<Rightarrow> if job_due j now_ms then Some (claimed_of (client, job_id) j) else None)"
    and "hm_get (jobs_of db') k
       = (case hm_get (jobs_of db) k of
            None \<Rightarrow> None
          | Some j \<Rightarrow> Some (if k = (client, job_id) \<and> job_due j now_ms then lease_row lease_ms now_ms j else j))"
  using assms
  by (auto simp: claim_due_job_by_id_def transaction_def Let_def split: option.splits if_splits)

text \<open>The three writes of the module honour the contract of the spine.\<close>

interpretation enqueue: spine_write "\<lambda>_. enqueue_within client job now_ms" for client job now_ms
  by unfold_locales (auto simp: spine_safe_def enqueue_within_def split: if_splits)

interpretation attempt: spine_write "\<lambda>_. attempt_write client job outcome now_ms"
  for client job outcome now_ms
  by unfold_locales (auto simp: spine_safe_def attempt_write_def)

interpretation retry: spine_write "\<lambda>_. retry_write client job_id now_ms" for client job_id now_ms
  by unfold_locales (auto simp: spine_safe_def retry_write_def split: option.splits if_splits)

end
