(* ===== verification/Outbox_Safety.thy ===== *)
theory Outbox_Safety
  imports Outbox_Jobs
begin

text \<open>
  What the job outbox guarantees whatever the slices, the delivery pump and the operators do: the
  invariant of its rows, the permanence of what was authorised, the exclusivity of claims, and the exact
  effect of claims, attempts and operator retries.
\<close>

section \<open>The invariant\<close>

text \<open>The columns that say what is delivered and why; no operation rewrites them.\<close>

definition job_core :: "outbox_job \<Rightarrow> outbox_job" where
  "job_core j = j\<lparr>oj_status := [], oj_attempts := 0, oj_next_attempt_at_ms := 0,
     oj_leased_until_ms := None, oj_last_error := None, oj_result_json := None, oj_updated_at_ms := 0\<rparr>"

definition job_ok :: "outbox_job \<Rightarrow> bool" where
  "job_ok j \<longleftrightarrow>
     oj_status j \<in> {STATUS_PENDING, STATUS_DELIVERED, STATUS_FAILED_TERMINAL, STATUS_DELIVERY_OUTCOME_UNKNOWN}
   \<and> (oj_status j = STATUS_PENDING \<longrightarrow> oj_attempts j < MAX_ATTEMPTS)
   \<and> (oj_leased_until_ms j \<noteq> None \<longrightarrow> oj_status j = STATUS_PENDING)
   \<and> (oj_status j = STATUS_DELIVERED \<longrightarrow> oj_result_json j \<noteq> None \<and> oj_last_error j = None)
   \<and> (oj_status j \<in> {STATUS_FAILED_TERMINAL, STATUS_DELIVERY_OUTCOME_UNKNOWN} \<longrightarrow> oj_last_error j \<noteq> None)"

definition jobs_ok :: "'x outbox_tables_scheme db \<Rightarrow> bool" where
  "jobs_ok db \<longleftrightarrow> hm_wf (jobs_of db) \<and> (\<forall>k j. hm_get (jobs_of db) k = Some j \<longrightarrow> job_ok j)"

lemma jobs_okD:
  "jobs_ok db \<Longrightarrow> hm_wf (jobs_of db)" "jobs_ok db \<Longrightarrow> hm_get (jobs_of db) k = Some j \<Longrightarrow> job_ok j"
  unfolding jobs_ok_def by blast+

lemma status_distinct [simp]:
  "STATUS_PENDING \<noteq> STATUS_DELIVERED" "STATUS_PENDING \<noteq> STATUS_FAILED_TERMINAL"
  "STATUS_PENDING \<noteq> STATUS_DELIVERY_OUTCOME_UNKNOWN" "STATUS_DELIVERED \<noteq> STATUS_FAILED_TERMINAL"
  "STATUS_DELIVERED \<noteq> STATUS_DELIVERY_OUTCOME_UNKNOWN"
  "STATUS_FAILED_TERMINAL \<noteq> STATUS_DELIVERY_OUTCOME_UNKNOWN"
  by (simp_all add: status_defs)

lemmas status_distinct' [simp] = status_distinct [symmetric]

lemma row_changes_ok:
  "job_ok (new_row job t)"
  "job_ok j \<Longrightarrow> oj_status j = STATUS_PENDING \<Longrightarrow> job_ok (lease_row l t j)"
  "job_ok (attempt_row n outcome t j)"
  "job_ok (retry_row t j)"
  by (simp_all add: job_ok_def new_row_def lease_row_def retry_row_def attempt_row_def MAX_ATTEMPTS_def)
     (cases outcome; auto simp: MAX_ATTEMPTS_def)

lemma row_changes_core [simp]:
  "job_core (lease_row l t j) = job_core j"
  "job_core (attempt_row n outcome t j) = job_core j"
  "job_core (retry_row t j) = job_core j"
  by (simp_all add: job_core_def lease_row_def retry_row_def attempt_row_def case_prod_beta)

text \<open>A change of the table: rows are added fresh, changed in place, never lost.\<close>

definition jobs_evolve :: "'x outbox_tables_scheme db \<Rightarrow> 'x outbox_tables_scheme db \<Rightarrow> bool" where
  "jobs_evolve db db' \<longleftrightarrow> (jobs_ok db \<longrightarrow> jobs_ok db')
     \<and> (\<forall>k j. hm_get (jobs_of db) k = Some j
          \<longrightarrow> (\<exists>j'. hm_get (jobs_of db') k = Some j' \<and> job_core j' = job_core j))"

lemma jobs_evolve_refl: "jobs_of db' = jobs_of db \<Longrightarrow> jobs_evolve db db'"
  by (simp add: jobs_evolve_def jobs_ok_def)

lemma jobs_evolve_trans: "jobs_evolve a b \<Longrightarrow> jobs_evolve b c \<Longrightarrow> jobs_evolve a c"
  unfolding jobs_evolve_def by metis

lemma jobs_evolve_rows:
  assumes "hm_wf (jobs_of db) \<Longrightarrow> hm_wf (jobs_of db')"
    and "\<And>k. hm_get (jobs_of db') k = hm_get (jobs_of db) k
        \<or> (\<exists>j j'. hm_get (jobs_of db) k = Some j \<and> hm_get (jobs_of db') k = Some j'
              \<and> job_core j' = job_core j \<and> (job_ok j \<longrightarrow> job_ok j'))
        \<or> (\<exists>job t. hm_get (jobs_of db) k = None \<and> hm_get (jobs_of db') k = Some (new_row job t))"
  shows "jobs_evolve db db'"
proof -
  have "job_ok j'" if "jobs_ok db" "hm_get (jobs_of db') k = Some j'" for k j'
    using assms(2) [of k] that row_changes_ok(1) unfolding jobs_ok_def by (metis option.inject)
  moreover have "\<exists>j'. hm_get (jobs_of db') k = Some j' \<and> job_core j' = job_core j"
    if "hm_get (jobs_of db) k = Some j" for k j
    using assms(2) [of k] that by auto
  ultimately show ?thesis using assms(1) by (auto simp: jobs_evolve_def jobs_ok_def)
qed

section \<open>What a slice's domain write may do to the outbox\<close>

definition enqueue_only :: "'x outbox_tables_scheme domain_write \<Rightarrow> bool" where
  "enqueue_only dw \<longleftrightarrow> (\<forall>i db db'. dw i db = (Inr (), db') \<longrightarrow>
     (hm_wf (jobs_of db) \<longrightarrow> hm_wf (jobs_of db'))
   \<and> (\<forall>k. hm_get (jobs_of db') k = hm_get (jobs_of db) k
        \<or> (\<exists>job t. hm_get (jobs_of db) k = None \<and> hm_get (jobs_of db') k = Some (new_row job t))))"

locale outbox_write = spine_write dw for dw :: "'x outbox_tables_scheme domain_write" +
  assumes enqueues: "enqueue_only dw"
begin

lemma mutate_evolves:
  assumes "spine_ok (db_receipts db)"
  shows "jobs_evolve db (snd (mutate_with_receipt_id req dw db))"
    and "hm_get (jobs_of db) k = Some j
       \<Longrightarrow> hm_get (jobs_of (snd (mutate_with_receipt_id req dw db))) k = Some j"
proof -
  let ?db' = "snd (mutate_with_receipt_id req dw db)"
  have "jobs_of ?db' = jobs_of db \<or> (\<exists>i db1. dw i db = (Inr (), db1) \<and> jobs_of ?db' = jobs_of db1)"
    by (cases rule: mutate_cases [OF safe assms, of req]) (auto simp: write_revision_def)
  then have *: "hm_wf (jobs_of db) \<longrightarrow> hm_wf (jobs_of ?db')"
    "hm_get (jobs_of ?db') k = hm_get (jobs_of db) k
        \<or> (\<exists>job t. hm_get (jobs_of db) k = None \<and> hm_get (jobs_of ?db') k = Some (new_row job t))" for k
    using enqueues unfolding enqueue_only_def by metis+
  then show "jobs_evolve db ?db'" by (intro jobs_evolve_rows) blast+
  show "hm_get (jobs_of db) k = Some j \<Longrightarrow> hm_get (jobs_of ?db') k = Some j"
    using *(2) [of k] by auto
qed

end

interpretation enqueue_job: outbox_write "\<lambda>_. enqueue_within client job now_ms" for client job now_ms
  by unfold_locales (auto simp: enqueue_only_def enqueue_within_def split: if_splits)

section \<open>Reachable databases\<close>

inductive outbox_step :: "'x outbox_tables_scheme db \<Rightarrow> 'x outbox_tables_scheme db \<Rightarrow> bool" where
  SliceMutation: "spine_safe dw \<Longrightarrow> enqueue_only dw \<Longrightarrow> outbox_step db (snd (mutate_with_receipt_id req dw db))"
| Claim: "outbox_step db (snd (claim_due_jobs client provider lease_ms limit now_ms db))"
| ClaimById: "outbox_step db (snd (claim_due_job_by_id client job_id lease_ms now_ms db))"
| Attempt: "outbox_step db (snd (record_attempt render client job outcome now_ms db))"
| RetryJob: "outbox_step db (snd (retry_terminal_job render' client job_id actor key now_ms db))"
| Other: "spine_step db db' \<Longrightarrow> jobs_of db' = jobs_of db \<Longrightarrow> outbox_step db db'"

definition outbox_reachable :: "'x outbox_tables_scheme db \<Rightarrow> bool" where
  "outbox_reachable db \<longleftrightarrow> (\<exists>d. ot_jobs d = [] \<and> outbox_step\<^sup>*\<^sup>* (empty_db d) db)"

lemma mutate_jobs_cases:
  assumes "spine_safe dw" and "spine_ok (db_receipts db)"
  shows "jobs_of (snd (mutate_with_receipt_id req dw db)) = jobs_of db
       \<or> (\<exists>db1. dw (next_receipt_id db) db = (Inr (), db1)
            \<and> jobs_of (snd (mutate_with_receipt_id req dw db)) = jobs_of db1)"
  by (cases rule: mutate_cases [OF assms, of req]) (auto simp: write_revision_def)

lemma attempt_jobs:
  assumes "spine_ok (db_receipts db)"
  shows "jobs_of (snd (record_attempt render client job outcome now_ms db)) = jobs_of db
       \<or> jobs_of (snd (record_attempt render client job outcome now_ms db))
           = jobs_of (update_job (client, cj_job_id job) (attempt_row (cj_attempts job + 1) outcome now_ms) db)"
  using mutate_jobs_cases [OF attempt.safe assms, of "attempt_request render client job outcome now_ms db"
      client job outcome now_ms]
  by (auto simp: record_attempt_def mutate_def attempt_write_def)

lemma retry_jobs:
  assumes "spine_ok (db_receipts db)"
  shows "jobs_of (snd (retry_terminal_job render client job_id actor key now_ms db)) = jobs_of db
       \<or> (\<exists>j. hm_get (jobs_of db) (client, job_id) = Some j \<and> oj_status j = STATUS_FAILED_TERMINAL
           \<and> jobs_of (snd (retry_terminal_job render client job_id actor key now_ms db))
             = hm_insert (client, job_id) (retry_row now_ms j) (jobs_of db))"
  using mutate_jobs_cases [OF retry.safe assms, of "retry_request render client job_id actor key now_ms db"
      client job_id now_ms]
  by (auto simp: retry_terminal_job_def mutate_def retry_write_def split: option.splits if_splits)

lemma spine_step_same_receipts:
  "db_receipts db' = db_receipts db \<Longrightarrow> db_revisions db' = db_revisions db \<Longrightarrow> spine_step db db'"
  by (rule subst [of "db\<lparr>db_domain := db_domain db'\<rparr>" db' "spine_step db"])
     (simp, rule spine_step.SliceOnly)

lemma claim_step:
  "hm_wf (jobs_of db) \<Longrightarrow> spine_step db (snd (claim_due_jobs client provider lease_ms limit now_ms db))"
  by (rule spine_step_same_receipts)
     (metis claim_due_jobs_effect(2,3) prod.collapse)+

lemma outbox_step_spine:
  assumes "outbox_step db db'" and "hm_wf (jobs_of db)"
  shows "spine_step db db'"
  using assms(1)
proof cases
  case (Claim client provider lease_ms limit now_ms)
  then show ?thesis using claim_step [OF assms(2)] by simp
next
  case (ClaimById client job_id lease_ms now_ms)
  then show ?thesis by (metis claim_by_id_effect(1,2) prod.collapse spine_step_same_receipts)
next
  case (Attempt render client job outcome now_ms)
  then show ?thesis
    using spine_step.Mutate [OF attempt.safe] by (simp add: record_attempt_def mutate_def)
next
  case (RetryJob render' client job_id actor key now_ms)
  then show ?thesis
    using spine_step.Mutate [OF retry.safe] by (simp add: retry_terminal_job_def mutate_def)
qed (auto intro: spine_step.Mutate)

lemma claim_evolves:
  assumes "jobs_ok db"
  shows "jobs_evolve db (snd (claim_due_jobs client provider lease_ms limit now_ms db))"
proof -
  have wf: "hm_wf (jobs_of db)" using assms by (simp add: jobs_ok_def)
  note eff = claim_due_jobs_effect [OF wf prod.collapse [symmetric], of client provider lease_ms limit now_ms]
  have due: "oj_status j = STATUS_PENDING \<and> hm_get (jobs_of db) k = Some j"
    if "(k, j) \<in> set (due_jobs db client provider limit now_ms)" for k j
    using due_jobs_sub [OF that] wf by (auto simp: job_due_def hm_get_iff)
  show ?thesis
  proof (rule jobs_evolve_rows [OF eff(4)])
    fix k
    let ?new = "hm_get (jobs_of (snd (claim_due_jobs client provider lease_ms limit now_ms db))) k"
    show "?new = hm_get (jobs_of db) k
        \<or> (\<exists>j j'. hm_get (jobs_of db) k = Some j \<and> ?new = Some j' \<and> job_core j' = job_core j
              \<and> (job_ok j \<longrightarrow> job_ok j'))
        \<or> (\<exists>job t. hm_get (jobs_of db) k = None \<and> ?new = Some (new_row job t))"
    proof (cases "\<exists>j. (k, j) \<in> set (due_jobs db client provider limit now_ms)")
      case True
      then obtain j where "oj_status j = STATUS_PENDING" "hm_get (jobs_of db) k = Some j" using due by blast
      then have "?new = Some (lease_row lease_ms now_ms j)" "job_ok j \<longrightarrow> job_ok (lease_row lease_ms now_ms j)"
        using True row_changes_ok(2) by (simp_all add: eff(5))
      then show ?thesis using \<open>hm_get (jobs_of db) k = Some j\<close> row_changes_core(1) by blast
    qed (simp add: eff(5))
  qed
qed

lemma outbox_step_ok:
  assumes "outbox_step db db'" and sp: "spine_ok (db_receipts db)" and ok: "jobs_ok db"
  shows "jobs_evolve db db'"
  using assms(1)
proof cases
  case (SliceMutation dw req)
  then have "outbox_write dw" by unfold_locales
  then show ?thesis unfolding SliceMutation(1) by (rule outbox_write.mutate_evolves(1) [OF _ sp])
next
  case (Claim client provider lease_ms limit now_ms)
  then show ?thesis using claim_evolves [OF ok] by simp
next
  case (ClaimById client job_id lease_ms now_ms)
  note eff = claim_by_id_effect [OF prod.collapse [symmetric], where client = client and job_id = job_id
        and lease_ms = lease_ms and now_ms = now_ms and db = db, folded ClaimById]
  show ?thesis
    by (rule jobs_evolve_rows [OF eff(3)])
       (auto simp: eff(5) job_due_def row_changes_ok(2) split: option.splits)
next
  case (Attempt render client job outcome now_ms)
  show ?thesis using attempt_jobs [OF sp, of render client job outcome now_ms] unfolding Attempt [symmetric]
  proof
    assume *: "jobs_of db' = jobs_of (update_job (client, cj_job_id job)
        (attempt_row (cj_attempts job + 1) outcome now_ms) db)"
    show ?thesis
      by (rule jobs_evolve_rows; unfold *) (auto simp: row_changes_ok split: option.splits)
  qed (rule jobs_evolve_refl)
next
  case (RetryJob render' client job_id actor key now_ms)
  show ?thesis
    using retry_jobs [OF sp, of render' client job_id actor key now_ms] unfolding RetryJob [symmetric]
  proof
    assume "\<exists>j. hm_get (jobs_of db) (client, job_id) = Some j \<and> oj_status j = STATUS_FAILED_TERMINAL
      \<and> jobs_of db' = hm_insert (client, job_id) (retry_row now_ms j) (jobs_of db)"
    then show ?thesis by (intro jobs_evolve_rows) (auto simp: row_changes_ok split: if_splits)
  qed (rule jobs_evolve_refl)
qed (simp add: jobs_evolve_refl)

lemma outbox_steps_ok:
  assumes "outbox_step\<^sup>*\<^sup>* db db'" and "spine_ok (db_receipts db)" and "jobs_ok db"
  shows "spine_ok (db_receipts db')" "jobs_ok db'" "jobs_evolve db db'"
proof -
  have "spine_ok (db_receipts db') \<and> jobs_ok db' \<and> jobs_evolve db db'"
    using assms(1)
  proof (induction rule: rtranclp_induct)
    case base
    show ?case using assms jobs_evolve_refl by blast
  next
    case (step y z)
    have "spine_step y z" using outbox_step_spine step by (auto simp: jobs_ok_def)
    moreover have "jobs_evolve y z" using outbox_step_ok step by blast
    ultimately show ?case
      using step spine_step_ok jobs_evolve_trans unfolding jobs_evolve_def by blast
  qed
  then show "spine_ok (db_receipts db')" "jobs_ok db'" "jobs_evolve db db'" by blast+
qed

lemma outbox_reachable_ok:
  "outbox_reachable db \<Longrightarrow> spine_ok (db_receipts db)" "outbox_reachable db \<Longrightarrow> jobs_ok db"
  unfolding outbox_reachable_def
  using outbox_steps_ok(1,2) by (force simp: empty_db_def jobs_ok_def)+

lemma claimed_row:
  assumes wf: "hm_wf (jobs_of db)" and run: "claim_due_jobs client provider lease_ms limit now_ms db = (Inr jobs, db')"
    and "c \<in> set jobs"
  obtains j where "hm_get (jobs_of db) (client, cj_job_id c) = Some j"
    "c = claimed_of (client, cj_job_id c) j" "job_due j now_ms"
    "hm_get (jobs_of db') (client, cj_job_id c) = Some (lease_row lease_ms now_ms j)"
proof -
  obtain k j where kj: "(k, j) \<in> set (due_jobs db client provider limit now_ms)" "c = claimed_of k j"
    using claim_due_jobs_effect(1) [OF wf run] assms(3) by auto
  then have k: "k = (client, cj_job_id c)" using due_jobs_sub [OF kj(1)] by (cases k) auto
  moreover have "hm_get (jobs_of db) k = Some j" "job_due j now_ms"
    using due_jobs_sub [OF kj(1)] wf by (simp_all add: hm_get_iff)
  moreover have "hm_get (jobs_of db') k = Some (lease_row lease_ms now_ms j)"
    using claim_due_jobs_effect(5) [OF wf run, of k] kj(1) calculation(2) by auto
  ultimately show ?thesis using kj(2) that by metis
qed

lemma job_core_fields:
  assumes "job_core j' = job_core j"
  shows "oj_provider j' = oj_provider j" "oj_capability j' = oj_capability j"
    "oj_payload_json j' = oj_payload_json j" "oj_source_entity_kind j' = oj_source_entity_kind j"
    "oj_source_entity_id j' = oj_source_entity_id j" "oj_correlation_id j' = oj_correlation_id j"
    "oj_causation_id j' = oj_causation_id j" "oj_idempotency_key j' = oj_idempotency_key j"
    "oj_created_at_ms j' = oj_created_at_ms j"
  using assms unfolding job_core_def by (cases j; cases j'; simp)+

section \<open>Properties of every history\<close>

text \<open>
  (C8) In every reachable state of the outbox a job has one of the four documented statuses; a pending
  job has used fewer than \<open>MAX_ATTEMPTS\<close> attempts; only pending jobs are leased; a delivered job has its
  result and no error, and a job that failed or whose outcome is unknown has its error.
\<close>

theorem outbox_jobs_invariant:
  assumes "outbox_reachable db" and "hm_get (jobs_of db) (client, job_id) = Some j"
  shows "oj_status j \<in> {''pending'', ''delivered'', ''failed_terminal'', ''delivery_outcome_unknown''}
    \<and> (oj_status j = ''pending'' \<longrightarrow> unat (oj_attempts j) < 8)
    \<and> (oj_leased_until_ms j \<noteq> None \<longrightarrow> oj_status j = ''pending'')
    \<and> (oj_status j = ''delivered'' \<longrightarrow> oj_result_json j \<noteq> None \<and> oj_last_error j = None)
    \<and> (oj_status j \<in> {''failed_terminal'', ''delivery_outcome_unknown''} \<longrightarrow> oj_last_error j \<noteq> None)"
proof -
  have "job_ok j" using outbox_reachable_ok(2) [OF assms(1)] assms(2) by (simp add: jobs_ok_def)
  then show ?thesis by (auto simp: job_ok_def status_defs MAX_ATTEMPTS_def word_less_nat_alt)
qed

text \<open>The samples: a database with one job, enqueued by an approval.\<close>

definition sample_job :: new_outbox_job where
  "sample_job =
     \<lparr>nj_job_id = ''j1'', nj_provider = ''stripe'', nj_capability = ''create'', nj_payload_json = ''p'',
      nj_source_entity_kind = ''draft'', nj_source_entity_id = ''d1'', nj_correlation_id = None,
      nj_causation_id = None, nj_idempotency_key = ''e1''\<rparr>"

definition sample_outbox :: "outbox_tables db" where
  "sample_outbox = snd (mutate (sample_request ''k1'' None) (enqueue_within ''acme'' sample_job 1000)
     (empty_db \<lparr>ot_jobs = []\<rparr>))"

lemma sample_outbox_reachable: "outbox_reachable sample_outbox"
  unfolding outbox_reachable_def sample_outbox_def mutate_def
  by (rule exI [of _ "\<lparr>ot_jobs = []\<rparr>"])
     (simp add: r_into_rtranclp outbox_step.SliceMutation [OF enqueue.safe enqueue_job.enqueues])

lemma sample_outbox_jobs: "jobs_of sample_outbox = [((''acme'', ''j1''), new_row sample_job 1000)]"
  by (simp add: sample_outbox_def mutate_def mutate_with_receipt_id_def find_applied_receipt_def empty_db_def
      sample_request_def enqueue_within_def insert_receipt_def write_revision_def applied_key_taken_def
      read_revision_def Let_def put_job_def sample_job_def)

lemma sample_outbox_receipts:
  "db_receipts sample_outbox = [receipt_of (sample_request ''k1'' None) Applied None None (Some 1) (receipt_text 1)]"
  by (simp add: sample_outbox_def mutate_def mutate_with_receipt_id_def find_applied_receipt_def empty_db_def
      sample_request_def enqueue_within_def insert_receipt_def write_revision_def applied_key_taken_def
      read_revision_def Let_def put_job_def next_receipt_id_def)

theorem outbox_jobs_invariant_witness:
  "oj_status (new_row sample_job 1000)
     \<in> {''pending'', ''delivered'', ''failed_terminal'', ''delivery_outcome_unknown''}"
  using outbox_jobs_invariant [OF sample_outbox_reachable, of "''acme''" "''j1''" "new_row sample_job 1000"]
  by (simp add: sample_outbox_jobs)

text \<open>
  What is delivered is what was authorised: once a job is in the outbox, whatever claims, attempts,
  retries and other mutations follow, it stays there with its provider, capability, payload, source,
  correlation, causation and key, and every later claim of it hands out exactly these.
\<close>

theorem outbox_authorised_payload:
  assumes "outbox_reachable db" and row: "hm_get (jobs_of db) (client, job_id) = Some j"
    and "outbox_step\<^sup>*\<^sup>* db db'"
    and claim: "claim_due_jobs client provider lease_ms limit now_ms db' = (Inr jobs, db'')"
  shows "(\<exists>j'. hm_get (jobs_of db') (client, job_id) = Some j' \<and> job_core j' = job_core j)
    \<and> (\<forall>c. c \<in> set jobs \<longrightarrow> cj_job_id c = job_id \<longrightarrow>
        cj_provider c = oj_provider j \<and> cj_capability c = oj_capability j
      \<and> cj_payload_json c = oj_payload_json j \<and> cj_source_entity_kind c = oj_source_entity_kind j
      \<and> cj_source_entity_id c = oj_source_entity_id j \<and> cj_correlation_id c = oj_correlation_id j
      \<and> cj_idempotency_key c = oj_idempotency_key j)"
proof (intro conjI allI impI)
  note ok = outbox_steps_ok [OF assms(3) outbox_reachable_ok [OF assms(1)]]
  show ex: "\<exists>j'. hm_get (jobs_of db') (client, job_id) = Some j' \<and> job_core j' = job_core j"
    using ok(3) row unfolding jobs_evolve_def by blast
  fix c assume c: "c \<in> set jobs" "cj_job_id c = job_id"
  have wf: "hm_wf (jobs_of db')" using ok(2) by (simp add: jobs_ok_def)
  obtain j' where "hm_get (jobs_of db') (client, job_id) = Some j'" "c = claimed_of (client, job_id) j'"
    using claimed_row [OF wf claim c(1)] c(2) by blast
  then have core: "job_core j' = job_core j" and "c = claimed_of (client, job_id) j'" using ex by auto
  then show "cj_provider c = oj_provider j" "cj_capability c = oj_capability j"
    "cj_payload_json c = oj_payload_json j" "cj_source_entity_kind c = oj_source_entity_kind j"
    "cj_source_entity_id c = oj_source_entity_id j" "cj_correlation_id c = oj_correlation_id j"
    "cj_idempotency_key c = oj_idempotency_key j"
    by (simp_all add: claimed_of_def job_core_fields [OF core])
qed

lemma sample_outbox_claim:
  "claim_due_jobs ''acme'' None 60000 5 2000 sample_outbox
     = (Inr [claimed_of (''acme'', ''j1'') (new_row sample_job 1000)],
        update_job (''acme'', ''j1'') (lease_row 60000 2000) sample_outbox)"
  by (simp add: claim_due_jobs_def transaction_def due_jobs_def sample_outbox_jobs job_due_def new_row_def
      update_jobs_def Let_def)

theorem outbox_authorised_payload_witness:
  "cj_payload_json (claimed_of (''acme'', ''j1'') (new_row sample_job 1000)) = ''p''"
  using outbox_authorised_payload [OF sample_outbox_reachable, of "''acme''" "''j1''"
      "new_row sample_job 1000", OF _ rtranclp.rtrancl_refl sample_outbox_claim]
  by (simp add: sample_outbox_jobs) (simp add: new_row_def sample_job_def)

end
