(* ===== verification/Outbox_Delivery.thy ===== *)
theory Outbox_Delivery
  imports Outbox_Safety
begin

text \<open>
  The operations of the job outbox, one by one: what a claim hands out, that a claim excludes others
  until its lease expires, what a recorded attempt and an operator retry do on every branch, the retry
  curve, and the delivery cycle as a whole.
\<close>

section \<open>Claims\<close>

text \<open>
  A claim hands out, in the order of attempt time and identifier, at most \<open>limit\<close> jobs of the client
  and provider that are pending, due and not under a live lease; such a job is left out only when the
  limit is reached and every job handed out comes first. Each job handed out is leased until
  \<open>now + lease\<close>, nothing else of its row changes but the update time, and every other row, every receipt
  and every revision is untouched.
\<close>

theorem claim_due_jobs_spec:
  assumes "outbox_reachable db" and run: "claim_due_jobs client provider lease_ms limit now_ms db = (r, db')"
  shows "\<exists>due. r = Inr (map (\<lambda>(k, j). claimed_of k j) due) \<and> length due \<le> limit \<and> distinct (map fst due)
     \<and> sorted (map (\<lambda>(k, j). (sint (oj_next_attempt_at_ms j), snd k)) due)
     \<and> (\<forall>k j. (k, j) \<in> set due \<longrightarrow> hm_get (jobs_of db) k = Some j \<and> fst k = client
          \<and> (\<forall>p. provider = Some p \<longrightarrow> oj_provider j = p) \<and> job_due j now_ms)
     \<and> (\<forall>k j. hm_get (jobs_of db) k = Some j \<longrightarrow> fst k = client \<longrightarrow> (\<forall>p. provider = Some p \<longrightarrow> oj_provider j = p)
          \<longrightarrow> job_due j now_ms \<longrightarrow> (k, j) \<notin> set due
          \<longrightarrow> length due = limit \<and> (\<forall>e \<in> set due. job_order e \<le> job_order (k, j)))
     \<and> (\<forall>k. hm_get (jobs_of db') k
          = (if k \<in> fst ` set due
             then map_option (\<lambda>j. j\<lparr>oj_leased_until_ms := Some (now_ms + lease_ms), oj_updated_at_ms := now_ms\<rparr>)
                    (hm_get (jobs_of db) k)
             else hm_get (jobs_of db) k))
     \<and> db_receipts db' = db_receipts db \<and> db_revisions db' = db_revisions db"
proof -
  have wf: "hm_wf (jobs_of db)" using outbox_reachable_ok(2) [OF assms(1)] by (simp add: jobs_ok_def)
  note eff = claim_due_jobs_effect [OF wf run]
  let ?due = "due_jobs db client provider limit now_ms"
  let ?xs = "filter (\<lambda>(k, j). fst k = client \<and> (case provider of None \<Rightarrow> True | Some p \<Rightarrow> oj_provider j = p)
                 \<and> job_due j now_ms) (jobs_of db)"
  have due: "?due = take limit (sort_key job_order ?xs)" by (simp add: due_jobs_def)
  have "distinct (map fst ?due)"
    using due_jobs_distinct [OF wf] by (metis distinct_map map_map)
  moreover have "sorted (map (\<lambda>(k, j). (sint (oj_next_attempt_at_ms j), snd k)) ?due)"
    using sorted_take_sort [of job_order limit ?xs]
    by (simp add: due job_order_def [abs_def] case_prod_beta')
  moreover have "hm_get (jobs_of db) k = Some j \<and> fst k = client
      \<and> (\<forall>p. provider = Some p \<longrightarrow> oj_provider j = p) \<and> job_due j now_ms" if "(k, j) \<in> set ?due" for k j
    using due_jobs_sub [OF that] wf by (simp add: hm_get_iff)
  moreover have "length ?due = limit \<and> (\<forall>e \<in> set ?due. job_order e \<le> job_order (k, j))"
    if "hm_get (jobs_of db) k = Some j" "fst k = client" "\<forall>p. provider = Some p \<longrightarrow> oj_provider j = p"
      "job_due j now_ms" "(k, j) \<notin> set ?due" for k j
  proof -
    have x: "(k, j) \<in> set ?xs" using that wf by (auto simp: hm_get_iff split: option.split)
    then have "limit < length ?xs"
      using that(5) unfolding due by (cases "length ?xs \<le> limit") simp_all
    then show ?thesis using sort_take_complete [OF x, of limit job_order] that(5) unfolding due by force
  qed
  moreover have "hm_get (jobs_of db') k
          = (if k \<in> fst ` set ?due
             then map_option (\<lambda>j. j\<lparr>oj_leased_until_ms := Some (now_ms + lease_ms), oj_updated_at_ms := now_ms\<rparr>)
                    (hm_get (jobs_of db) k)
             else hm_get (jobs_of db) k)" for k
    unfolding eff(5) by (force simp: lease_row_def [abs_def])
  moreover have "length ?due \<le> limit" by (simp add: due)
  ultimately show ?thesis using eff(1-3) by (intro exI [of _ ?due]) blast
qed

theorem claim_due_jobs_spec_witness:
  "\<exists>due. fst (claim_due_jobs ''acme'' None 60000 5 2000 sample_outbox) = Inr (map (\<lambda>(k, j). claimed_of k j) due)
     \<and> length due \<le> 5"
  using claim_due_jobs_spec [OF sample_outbox_reachable prod.collapse [symmetric],
      of "''acme''" None 60000 5 2000] by (elim exE conjE) (rule exI conjI | assumption)+

section \<open>Attempts\<close>

lemma attempt_request_simps [simp]:
  "mq_client_id (attempt_request render client job outcome now_ms db) = client"
  "mq_expected_revision (attempt_request render client job outcome now_ms db) = None"
  "mq_idempotency_key (attempt_request render client job outcome now_ms db)
     = attempt_key (cj_job_id job) (retry_cycle db client (cj_job_id job)) (cj_attempts job + 1)"
  "mq_entity_id (attempt_request render client job outcome now_ms db) = cj_job_id job"
  "mq_entity_kind (attempt_request render client job outcome now_ms db) = JOB_ENTITY_KIND"
  "mq_change_kind (attempt_request render client job outcome now_ms db)
     = fst (snd (attempt_columns (cj_attempts job + 1) outcome))"
  by (simp_all add: attempt_request_def Let_def case_prod_beta)

lemma attempt_not_conflicting [simp]:
  "\<not> conflicting (attempt_request render client job outcome now_ms db) db'"
  by (simp add: conflicting_def)

lemma record_attempt_applied:
  assumes ok: "spine_ok (db_receipts db)"
    and fresh: "\<not> applied_key_taken db client
       (attempt_key (cj_job_id job) (retry_cycle db client (cj_job_id job)) (cj_attempts job + 1))"
  shows "\<exists>row. fst (record_attempt render client job outcome now_ms db)
           = Inr (fst (attempt_columns (cj_attempts job + 1) outcome))
       \<and> jobs_of (snd (record_attempt render client job outcome now_ms db))
           = jobs_of (update_job (client, cj_job_id job) (attempt_row (cj_attempts job + 1) outcome now_ms) db)
       \<and> db_receipts (snd (record_attempt render client job outcome now_ms db)) = db_receipts db @ [row]
       \<and> applied row \<and> spine_key row = (client, attempt_key (cj_job_id job)
            (retry_cycle db client (cj_job_id job)) (cj_attempts job + 1))
       \<and> rx_change_kind row \<noteq> ''retry_requested''"
proof -
  let ?req = "attempt_request render client job outcome now_ms db"
  have kind: "rx_change_kind (receipt_of ?req Applied None b a i) \<noteq> ''retry_requested''" for b a i
    by (cases outcome) (simp_all add: receipt_of_def)
  show ?thesis
    using attempt.mutate_applied [OF ok _ attempt_not_conflicting, of render client job outcome now_ms db
        client job outcome now_ms, unfolded attempt_write_def, OF _ refl] fresh kind
    by (simp add: record_attempt_def mutate_def op_map_def find_applied_None write_revision_def
        attempt_write_def [abs_def])
qed

lemma record_attempt_replayed:
  assumes ok: "spine_ok (db_receipts db)"
    and "applied_key_taken db client
       (attempt_key (cj_job_id job) (retry_cycle db client (cj_job_id job)) (cj_attempts job + 1))"
  shows "fst (record_attempt render client job outcome now_ms db)
           = Inr (fst (attempt_columns (cj_attempts job + 1) outcome))
       \<and> db_domain (snd (record_attempt render client job outcome now_ms db)) = db_domain db"
proof -
  let ?req = "attempt_request render client job outcome now_ms db"
  obtain i revision where
    "find_applied_receipt db (mq_client_id ?req) (mq_idempotency_key ?req) = Some (i, revision)"
    using assms(2) find_applied_None [of db client] by fastforce
  from attempt.mutate_replayed [OF ok this, of client job outcome now_ms] show ?thesis
    by (simp add: record_attempt_def mutate_def op_map_def)
qed

section \<open>Exclusion\<close>

text \<open>
  Steps that leave a claimed job to its holder: anything but an attempt that is applied to that job, with every clock
  reading before the lease expires. An attempt of the job whose number was recorded before is answered from the receipt
  and is one of these steps.
\<close>

inductive quiet_step :: "job_key \<Rightarrow> u64 \<Rightarrow> 'x outbox_tables_scheme db \<Rightarrow> 'x outbox_tables_scheme db \<Rightarrow> bool"
  for k expiry where
  "spine_safe dw \<Longrightarrow> enqueue_only dw \<Longrightarrow> quiet_step k expiry db (snd (mutate_with_receipt_id req dw db))"
| "sint now_ms < sint expiry
     \<Longrightarrow> quiet_step k expiry db (snd (claim_due_jobs client provider lease_ms limit now_ms db))"
| "sint now_ms < sint expiry
     \<Longrightarrow> quiet_step k expiry db (snd (claim_due_job_by_id client job_id lease_ms now_ms db))"
| "(client, cj_job_id job) \<noteq> k \<or> applied_key_taken db client
       (attempt_key (cj_job_id job) (retry_cycle db client (cj_job_id job)) (cj_attempts job + 1))
     \<Longrightarrow> quiet_step k expiry db (snd (record_attempt render client job outcome now_ms db))"
| "quiet_step k expiry db (snd (retry_terminal_job render' client job_id actor key now_ms db))"
| "spine_step db db' \<Longrightarrow> jobs_of db' = jobs_of db \<Longrightarrow> quiet_step k expiry db db'"

lemma quiet_step_outbox: "quiet_step k expiry db db' \<Longrightarrow> outbox_step db db'"
  by (induction rule: quiet_step.induct) (auto intro: outbox_step.intros)

lemma held_not_due:
  "oj_leased_until_ms j = Some expiry \<Longrightarrow> sint now_ms < sint expiry \<Longrightarrow> \<not> job_due j now_ms"
  by (simp add: job_due_def)

lemma quiet_step_keeps:
  assumes "quiet_step k expiry db db'" and ok: "spine_ok (db_receipts db)" "jobs_ok db"
    and row: "hm_get (jobs_of db) k = Some j" "oj_leased_until_ms j = Some expiry"
  shows "hm_get (jobs_of db') k = Some j"
proof -
  have wf: "hm_wf (jobs_of db)" using ok(2) by (simp add: jobs_ok_def)
  have "job_ok j" using jobs_okD(2) [OF ok(2) row(1)] .
  then have pending: "oj_status j = STATUS_PENDING" using row(2) by (simp add: job_ok_def)
  show ?thesis using assms(1)
  proof cases
    case (1 dw req)
    then show ?thesis
      using outbox_write.mutate_evolves(2) [OF outbox_write.intro [OF spine_write.intro] ok(1) row(1)]
      by (simp add: outbox_write_axioms.intro)
  next
    case (2 now_ms client provider lease_ms limit)
    have "(k, j') \<notin> set (due_jobs db client provider limit now_ms)" for j'
    proof
      assume "(k, j') \<in> set (due_jobs db client provider limit now_ms)"
      from due_jobs_sub [OF this] wf have "hm_get (jobs_of db) k = Some j'" "job_due j' now_ms"
        by (simp_all add: hm_get_iff)
      with row held_not_due [OF row(2) 2(2)] show False by simp
    qed
    then show ?thesis
      using claim_due_jobs_effect(5) [OF wf prod.collapse [symmetric]] row(1) unfolding 2(1) by metis
  next
    case (3 now_ms client job_id lease_ms)
    have "\<not> job_due j now_ms" using held_not_due [OF row(2) 3(2)] .
    then show ?thesis
      using claim_by_id_effect(5) [OF prod.collapse [symmetric], of client job_id lease_ms now_ms db k] row(1)
      unfolding 3(1) by simp
  next
    case (4 client job render outcome now_ms)
    then show ?thesis
      using attempt_jobs [OF ok(1), of render client job outcome now_ms]
        record_attempt_replayed [OF ok(1), of client job render outcome now_ms] row(1) by auto
  next
    case (5 render' client job_id actor key now_ms)
    then show ?thesis
      using retry_jobs [OF ok(1), of render' client job_id actor key now_ms] row(1) pending
      by (auto split: if_splits)
  next
    case 6
    then show ?thesis using row(1) by simp
  qed
qed

text \<open>
  (C9) A claim excludes every other claim until its lease expires or an attempt of the job is applied: whatever enqueues,
  claims, retries, attempts of other jobs and replayed attempts of this one happen in between, a claim at an earlier time
  than the expiry, by batch or by identifier, does not hand the job out again.
\<close>

theorem claim_excludes_until_expiry:
  assumes "outbox_reachable db"
    and claim: "claim_due_jobs client provider lease_ms limit now_ms db = (Inr jobs, db1)" "c \<in> set jobs"
    and "(quiet_step (client, cj_job_id c) (now_ms + lease_ms))\<^sup>*\<^sup>* db1 db2"
    and early: "sint t < sint (now_ms + lease_ms)"
    and again: "claim_due_jobs client provider' lease_ms' limit' t db2 = (Inr jobs', db3)"
  shows "cj_job_id c \<notin> cj_job_id ` set jobs'
     \<and> fst (claim_due_job_by_id client (cj_job_id c) lease_ms'' t db2) = Inr None"
proof -
  let ?k = "(client, cj_job_id c)" and ?expiry = "now_ms + lease_ms"
  note ok = outbox_reachable_ok [OF assms(1)]
  have wf: "hm_wf (jobs_of db)" using ok(2) by (simp add: jobs_ok_def)
  have "outbox_step db db1" using outbox_step.Claim [of db client provider lease_ms limit now_ms] claim(1) by simp
  note ok1 = outbox_steps_ok [OF r_into_rtranclp [of outbox_step, OF this] ok]
  obtain j where j: "hm_get (jobs_of db1) ?k = Some (lease_row lease_ms now_ms j)"
    using claimed_row [OF wf claim] by blast
  have "spine_ok (db_receipts db2) \<and> jobs_ok db2 \<and> hm_get (jobs_of db2) ?k = Some (lease_row lease_ms now_ms j)"
    using assms(4)
  proof (induction rule: rtranclp_induct)
    case (step y z)
    then show ?case
      using outbox_steps_ok(1,2) [OF r_into_rtranclp [of outbox_step, OF quiet_step_outbox [OF step(2)]]]
        quiet_step_keeps [OF step(2)] by (simp add: lease_row_def)
  qed (use ok1 j in blast)
  then have wf2: "hm_wf (jobs_of db2)" and row: "hm_get (jobs_of db2) ?k = Some (lease_row lease_ms now_ms j)"
    by (simp_all add: jobs_ok_def)
  have nd: "\<not> job_due (lease_row lease_ms now_ms j) t"
    by (rule held_not_due [OF _ early]) (simp add: lease_row_def)
  have "cj_job_id c' \<noteq> cj_job_id c" if c': "c' \<in> set jobs'" for c'
  proof -
    obtain j' where "hm_get (jobs_of db2) (client, cj_job_id c') = Some j'" "job_due j' t"
      using claimed_row [OF wf2 again c'] by blast
    then show ?thesis using row nd by (auto simp del: not_less)
  qed
  then have "cj_job_id c \<notin> cj_job_id ` set jobs'" by (metis imageE)
  moreover have "fst (claim_due_job_by_id client (cj_job_id c) lease_ms'' t db2) = Inr None"
    using claim_by_id_effect(4) [OF prod.collapse [symmetric], of client "cj_job_id c" lease_ms'' t db2] row nd
    by simp
  ultimately show ?thesis by blast
qed

theorem claim_excludes_until_expiry_witness:
  "fst (claim_due_job_by_id ''acme'' ''j1'' 60000 3000 (update_job (''acme'', ''j1'') (lease_row 60000 2000) sample_outbox))
     = Inr None"
proof -
  let ?db = "update_job (''acme'', ''j1'') (lease_row 60000 2000) sample_outbox"
  obtain jobs db3 where "claim_due_jobs ''acme'' None 60000 5 3000 ?db = (Inr jobs, db3)"
    by (simp add: claim_due_jobs_def transaction_def Let_def)
  then show ?thesis
    using claim_excludes_until_expiry [OF sample_outbox_reachable sample_outbox_claim, of _ ?db 3000 None 60000 5]
    by simp
qed

text \<open>
  The exception is real: recording an attempt does not look at the lease. A worker whose own lease has expired and whose
  attempt number is still free ends the lease of the worker that holds the job now, and the job is due again.
\<close>

lemma late_attempt_frees_job:
  assumes "outbox_reachable db" and row: "hm_get (jobs_of db) (client, cj_job_id job) = Some j"
    and fresh: "\<not> applied_key_taken db client
       (attempt_key (cj_job_id job) (retry_cycle db client (cj_job_id job)) (cj_attempts job + 1))"
    and few: "cj_attempts job + 1 < MAX_ATTEMPTS" and "sint retry_at \<le> sint t'"
  shows "\<exists>j'. hm_get (jobs_of (snd (record_attempt render client job (Retry error retry_at) t db))) (client, cj_job_id job)
       = Some j' \<and> job_due j' t'"
proof -
  have "\<not> MAX_ATTEMPTS \<le> cj_attempts job + 1" using few by simp
  then show ?thesis
    using record_attempt_applied [OF outbox_reachable_ok(1) [OF assms(1)] fresh, of render "Retry error retry_at" t] row assms(5)
    by (auto simp: attempt_row_def job_due_def)
qed

section \<open>Recorded attempts\<close>

text \<open>
  Recording an attempt never fails on a reachable database and always answers with the status the
  outcome stands for. If the attempt number was not recorded yet in the current retry cycle, the job's
  row gets exactly that status, the attempt count, the error and result, the time of the next attempt
  for a retry, and no lease, and one applied receipt is appended; otherwise the row is left as it was,
  whatever the outcome.
\<close>

theorem record_attempt_spec:
  assumes "outbox_reachable db"
  shows "\<exists>db'. record_attempt render client job outcome now_ms db
            = (Inr (fst (attempt_columns (cj_attempts job + 1) outcome)), db')
       \<and> (let key = attempt_key (cj_job_id job) (retry_cycle db client (cj_job_id job)) (cj_attempts job + 1) in
          if applied_key_taken db client key then db_domain db' = db_domain db
          else (\<forall>k. hm_get (jobs_of db') k
                 = (if k = (client, cj_job_id job)
                    then map_option (attempt_row (cj_attempts job + 1) outcome now_ms) (hm_get (jobs_of db) k)
                    else hm_get (jobs_of db) k))
             \<and> (\<exists>row. db_receipts db' = db_receipts db @ [row] \<and> rx_outcome row = ''applied''
                    \<and> rx_client_id row = client \<and> rx_idempotency_key row = key))"
proof -
  note ok = outbox_reachable_ok(1) [OF assms]
  show ?thesis
    using record_attempt_applied [OF ok, of client job render outcome now_ms]
      record_attempt_replayed [OF ok, of client job render outcome now_ms]
    by (cases "record_attempt render client job outcome now_ms db")
       (auto simp: Let_def applied_def spine_key_def)
qed

theorem record_attempt_spec_witness:
  "\<exists>db'. record_attempt (\<lambda>_ _ _. ''{}'') ''acme'' (claimed_of (''acme'', ''j1'') (new_row sample_job 1000))
       (Delivered ''ok'') 3000 sample_outbox
     = (Inr (fst (attempt_columns (cj_attempts (claimed_of (''acme'', ''j1'') (new_row sample_job 1000)) + 1)
             (Delivered ''ok''))), db')"
  using record_attempt_spec [OF sample_outbox_reachable] by blast

text \<open>The retry cycle of a job changes only with an applied retry request.\<close>

lemma retry_cycle_append:
  assumes "db_receipts db' = db_receipts db @ [row]" and "rx_change_kind row \<noteq> ''retry_requested''"
  shows "retry_cycle db' client job_id = retry_cycle db client job_id"
  using assms by (simp add: retry_cycle_def entity_receipts_def)

lemma key_taken_ex:
  "applied_key_taken db client key
     \<longleftrightarrow> (\<exists>r \<in> set (db_receipts db). applied r \<and> spine_key r = (client, key))"
  by (auto simp: applied_key_taken_def applied_def spine_key_def)

lemma record_attempt_cycle:
  assumes "spine_ok (db_receipts db)"
    and "\<not> applied_key_taken db client
       (attempt_key (cj_job_id job) (retry_cycle db client (cj_job_id job)) (cj_attempts job + 1))"
  shows "retry_cycle (snd (record_attempt render client job outcome now_ms db)) client' job_id
       = retry_cycle db client' job_id"
    and "applied_key_taken (snd (record_attempt render client job outcome now_ms db)) client' key
       \<longleftrightarrow> applied_key_taken db client' key \<or> (client', key) = (client, attempt_key (cj_job_id job)
            (retry_cycle db client (cj_job_id job)) (cj_attempts job + 1))"
proof -
  obtain row where row: "db_receipts (snd (record_attempt render client job outcome now_ms db)) = db_receipts db @ [row]"
    "applied row" "spine_key row = (client, attempt_key (cj_job_id job)
            (retry_cycle db client (cj_job_id job)) (cj_attempts job + 1))"
    "rx_change_kind row \<noteq> ''retry_requested''"
    using record_attempt_applied [OF assms, of render outcome now_ms] by blast
  show "retry_cycle (snd (record_attempt render client job outcome now_ms db)) client' job_id
       = retry_cycle db client' job_id"
    by (rule retry_cycle_append [OF row(1,4)])
  show "applied_key_taken (snd (record_attempt render client job outcome now_ms db)) client' key
       \<longleftrightarrow> applied_key_taken db client' key \<or> (client', key) = (client, attempt_key (cj_job_id job)
            (retry_cycle db client (cj_job_id job)) (cj_attempts job + 1))"
    using row(1-3) by (auto simp: key_taken_ex)
qed

text \<open>
  (C10) A late outcome is lost: when two workers hold claims of the same attempt (the first claim's lease
  expired while it was still delivering) and the first records a retryable failure, whatever the second
  then records, even a successful delivery, is answered with its own status but leaves the job pending
  with the time of the retry, so the job is delivered again.
\<close>

theorem late_outcome_is_lost:
  assumes "outbox_reachable db" and row: "hm_get (jobs_of db) (client, cj_job_id job) = Some j"
    and fresh: "\<not> applied_key_taken db client
       (attempt_key (cj_job_id job) (retry_cycle db client (cj_job_id job)) (cj_attempts job + 1))"
    and few: "cj_attempts job + 1 < MAX_ATTEMPTS"
    and same: "cj_job_id job' = cj_job_id job" "cj_attempts job' = cj_attempts job"
    and db1: "db1 = snd (record_attempt render client job (Retry error retry_at) t db)"
  shows "\<exists>db2 j2. record_attempt render client job' outcome t' db1
             = (Inr (fst (attempt_columns (cj_attempts job + 1) outcome)), db2)
       \<and> hm_get (jobs_of db2) (client, cj_job_id job) = Some j2
       \<and> oj_status j2 = ''pending'' \<and> oj_next_attempt_at_ms j2 = retry_at \<and> oj_leased_until_ms j2 = None
       \<and> oj_result_json j2 = oj_result_json j"
proof -
  note ok = outbox_reachable_ok(1) [OF assms(1)]
  have "outbox_step\<^sup>*\<^sup>* db db1" unfolding db1 by (rule r_into_rtranclp) (rule outbox_step.Attempt)
  from outbox_steps_ok(1) [OF this outbox_reachable_ok [OF assms(1)]] have ok1: "spine_ok (db_receipts db1)" .
  have taken: "applied_key_taken db1 client
      (attempt_key (cj_job_id job') (retry_cycle db1 client (cj_job_id job')) (cj_attempts job' + 1))"
    unfolding db1 same using record_attempt_cycle [OF ok fresh] by simp
  have "hm_get (jobs_of db1) (client, cj_job_id job)
      = Some (attempt_row (cj_attempts job + 1) (Retry error retry_at) t j)"
    unfolding db1 using record_attempt_applied [OF ok fresh] row by auto
  moreover have "\<not> MAX_ATTEMPTS \<le> cj_attempts job + 1" using few by simp
  ultimately show ?thesis
    using record_attempt_replayed [OF ok1 taken, of render outcome t'] same
    by (cases "record_attempt render client job' outcome t' db1")
       (simp add: attempt_row_def STATUS_PENDING_def)
qed

theorem late_outcome_is_lost_witness:
  "\<exists>db2 j2. record_attempt (\<lambda>_ _ _. ''{}'') ''acme'' (claimed_of (''acme'', ''j1'') (new_row sample_job 1000))
       (Delivered ''ok'') 63000 (snd (record_attempt (\<lambda>_ _ _. ''{}'') ''acme''
          (claimed_of (''acme'', ''j1'') (new_row sample_job 1000)) (Retry ''timeout'' 62000) 62000 sample_outbox))
      = (Inr ''delivered'', db2)
     \<and> hm_get (jobs_of db2) (''acme'', ''j1'') = Some j2 \<and> oj_status j2 = ''pending''"
proof -
  let ?c = "claimed_of (''acme'', ''j1'') (new_row sample_job 1000)"
  have "hm_get (jobs_of sample_outbox) (''acme'', cj_job_id ?c) = Some (new_row sample_job 1000)"
    by (simp add: sample_outbox_jobs)
  moreover have "\<not> applied_key_taken sample_outbox ''acme''
      (attempt_key (cj_job_id ?c) (retry_cycle sample_outbox ''acme'' (cj_job_id ?c)) (cj_attempts ?c + 1))"
    by (simp add: sample_outbox_receipts applied_key_taken_def receipt_of_def sample_request_def attempt_key_def)
  moreover have "cj_attempts ?c + 1 < MAX_ATTEMPTS"
    by (simp add: claimed_of_def new_row_def MAX_ATTEMPTS_def)
  ultimately show ?thesis
    using late_outcome_is_lost [OF sample_outbox_reachable, of "''acme''" ?c "new_row sample_job 1000" ?c _
        "\<lambda>_ _ _. ''{}''" "''timeout''" 62000 62000 "Delivered ''ok''" 63000]
    by (auto simp: STATUS_DELIVERED_def)
qed

section \<open>Operator retry\<close>

text \<open>
  An operator retry under a fresh key is applied exactly when the job has failed terminally: the job
  becomes pending and due at once, with no attempts, lease, error or result, and nothing else of the
  outbox changes. For a job in any other status, in particular one whose delivery outcome is unknown, and
  for an unknown job it is refused with the error that says so, and the outbox is unchanged.
\<close>

theorem retry_terminal_job_spec:
  assumes "outbox_reachable db" and fresh: "\<not> applied_key_taken db client key"
    and run: "retry_terminal_job render client job_id actor key now_ms db = (r, db')"
  shows "case hm_get (jobs_of db) (client, job_id) of
       None \<Rightarrow> r = Inl (Domain ''outbox_job_not_found'') \<and> db_domain db' = db_domain db
     | Some j \<Rightarrow>
         if oj_status j = ''failed_terminal''
         then (\<exists>i revision. r = Inr (MutationApplied i revision))
            \<and> (\<forall>k. hm_get (jobs_of db') k
                 = (if k = (client, job_id)
                    then Some (j\<lparr>oj_status := ''pending'', oj_attempts := 0, oj_leased_until_ms := None,
                                 oj_last_error := None, oj_result_json := None,
                                 oj_next_attempt_at_ms := now_ms, oj_updated_at_ms := now_ms\<rparr>)
                    else hm_get (jobs_of db) k))
         else r = Inl (Domain (''outbox_retry_not_failed:'' @ oj_status j)) \<and> db_domain db' = db_domain db"
proof -
  let ?req = "retry_request render client job_id actor key now_ms db"
  note ok = outbox_reachable_ok(1) [OF assms(1)]
  have free: "find_applied_receipt db (mq_client_id ?req) (mq_idempotency_key ?req) = None"
    using fresh by (simp add: find_applied_None retry_request_def)
  have calm: "\<not> conflicting ?req db" by (simp add: conflicting_def retry_request_def)
  have failed: "retry_write client job_id now_ms db = (Inl e, db) \<Longrightarrow> r = Inl e \<and> db_domain db' = db_domain db" for e
    using retry.mutate_failed [OF ok free calm, of client job_id now_ms e db] run
    by (auto simp: retry_terminal_job_def mutate_def)
  show ?thesis
  proof (cases "hm_get (jobs_of db) (client, job_id)")
    case None
    then show ?thesis using failed by (simp add: retry_write_def)
  next
    case (Some j)
    show ?thesis
    proof (cases "oj_status j = ''failed_terminal''")
      case True
      then have "retry_write client job_id now_ms db
          = (Inr (), put_job (client, job_id) (retry_row now_ms j) db)"
        using Some by (simp add: retry_write_def STATUS_FAILED_TERMINAL_def)
      from retry.mutate_applied [OF ok free calm this] show ?thesis
        using run Some True
        by (auto simp: retry_terminal_job_def mutate_def write_revision_def retry_row_def STATUS_PENDING_def)
    next
      case False
      then show ?thesis
        using failed Some by (simp add: retry_write_def STATUS_FAILED_TERMINAL_def)
    qed
  qed
qed

theorem retry_terminal_job_spec_witness:
  "fst (retry_terminal_job (\<lambda>_ _. ''{}'') ''acme'' ''j1'' ''op'' ''r1'' 5000 sample_outbox)
     = Inl (Domain ''outbox_retry_not_failed:pending'')"
proof -
  have "\<not> applied_key_taken sample_outbox ''acme'' ''r1''"
    by (simp add: sample_outbox_receipts applied_key_taken_def receipt_of_def sample_request_def)
  from retry_terminal_job_spec [OF sample_outbox_reachable this prod.collapse [symmetric],
      of "\<lambda>_ _. ''{}''" "''j1''" "''op''" 5000]
  show ?thesis by (simp add: sample_outbox_jobs new_row_def STATUS_PENDING_def)
qed

section \<open>The retry curve\<close>

text \<open>
  The retry curve is 30 seconds doubled per attempt up to the fifth and capped at 15 minutes: the
  shift never overflows, the delay lies between 30 seconds and 15 minutes and never decreases with the
  number of attempts.
\<close>

theorem retry_backoff_bounds:
  shows "unat (retry_backoff_ms attempts) = min (30000 * 2 ^ min (unat attempts) 5) 900000
     \<and> 30000 \<le> retry_backoff_ms attempts \<and> retry_backoff_ms attempts \<le> 900000
     \<and> (attempts \<le> attempts' \<longrightarrow> retry_backoff_ms attempts \<le> retry_backoff_ms attempts')"
proof -
  have unat_min: "unat (min a (5 :: u32)) = min (unat a) 5" for a
    by (simp add: min_def word_le_nat_alt)
  have curve: "unat (retry_backoff_ms a) = min (30000 * 2 ^ min (unat a) 5) 900000" for a
  proof -
    have "min (unat a) 5 \<in> {0, 1, 2, 3, 4, 5}" by (cases "unat a \<ge> 5") auto
    then show ?thesis
      unfolding retry_backoff_ms_def unat_min by (elim insertE) (simp_all add: min_def push_bit_eq_mult)
  qed
  have mono: "min (30000 * 2 ^ min (unat attempts) 5) 900000 \<le> min (30000 * 2 ^ min (unat attempts') 5) (900000::nat)"
    if "attempts \<le> attempts'"
    using that by (intro min.mono mult_left_mono power_increasing) (auto simp: word_le_nat_alt)
  have "30000 \<le> retry_backoff_ms attempts" "retry_backoff_ms attempts \<le> 900000"
    by (simp_all add: word_le_nat_alt curve)
  moreover have "retry_backoff_ms attempts \<le> retry_backoff_ms attempts'" if "attempts \<le> attempts'"
    using mono [OF that] unfolding word_le_nat_alt curve .
  ultimately show ?thesis using curve by blast
qed

theorem retry_backoff_bounds_witness:
  "retry_backoff_ms 2 \<le> retry_backoff_ms 3"
  using retry_backoff_bounds [of 2 3] by simp

section \<open>The delivery cycle\<close>

text \<open>Attempt keys name job, cycle and attempt unambiguously, although job identifiers may contain colons.\<close>

lemma last_separator:
  "s \<notin> set d \<Longrightarrow> s \<notin> set d' \<Longrightarrow> x @ s # d = x' @ s # d' \<longleftrightarrow> x = x' \<and> d = d'"
  by (auto simp: append_eq_append_conv2 Cons_eq_append_conv append_eq_Cons_conv)

lemma dec_string_no_colon: "CHR '':'' \<notin> set (dec_string n)"
proof (induction n rule: dec_string.induct)
  case (1 n)
  have digit: "char_of (48 + d) \<noteq> CHR '':''" if "d < 10" for d :: nat
  proof -
    have "\<forall>d \<in> set [0..<10]. char_of (48 + d :: nat) \<noteq> CHR '':''" by code_simp
    then show ?thesis using that by simp
  qed
  show ?case using "1" digit [of n] digit [of "n mod 10"] by (subst dec_string.simps) auto
qed

lemma receipt_text_no_colon: "CHR '':'' \<notin> set (receipt_text n)"
  using dec_string_no_colon by (simp add: receipt_text_def dec_pad_def)

lemma first_of_set: "first_of xs = Some x \<Longrightarrow> x \<in> set xs"
  by (cases xs) (simp_all add: first_of_def)

lemma retry_cycle_no_colon:
  assumes "spine_ok (db_receipts db)" and "retry_cycle db client job_id = Some c"
  shows "CHR '':'' \<notin> set c"
proof -
  obtain r where "r \<in> set (db_receipts db)" "c = rx_receipt_id r"
    using assms(2) by (auto simp: retry_cycle_def newest_first_def entity_receipts_def dest!: first_of_set)
  moreover have "rx_receipt_id ` set (db_receipts db) \<subseteq> range receipt_text"
    using arg_cong [OF conjunct1 [OF assms(1) [unfolded spine_ok_def]], of set] by auto
  ultimately obtain n where "c = receipt_text n" by blast
  then show ?thesis using receipt_text_no_colon by simp
qed

lemma attempt_key_inj:
  assumes "\<And>x. c = Some x \<Longrightarrow> CHR '':'' \<notin> set x" "\<And>x. c' = Some x \<Longrightarrow> CHR '':'' \<notin> set x"
    and "attempt_key i c n = attempt_key i' c' n'"
  shows "i = i'"
proof -
  let ?t = "\<lambda>c. case c of None \<Rightarrow> ''initial'' | Some x \<Rightarrow> x"
  have no: "CHR '':'' \<notin> set (?t c)" "CHR '':'' \<notin> set (?t c')"
    using assms(1,2) by (auto split: option.splits)
  have "(i @ CHR '':'' # ?t c) @ CHR '':'' # dec_string (unat n)
      = (i' @ CHR '':'' # ?t c') @ CHR '':'' # dec_string (unat n')"
    using assms(3) by (simp add: attempt_key_def)
  then have "i @ CHR '':'' # ?t c = i' @ CHR '':'' # ?t c'"
    using last_separator [OF dec_string_no_colon dec_string_no_colon] by blast
  then show "i = i'" using last_separator [OF no] by blast
qed

definition unrecorded :: "'d db \<Rightarrow> string \<Rightarrow> claimed_job \<Rightarrow> bool" where
  "unrecorded db client job \<longleftrightarrow> \<not> applied_key_taken db client
     (attempt_key (cj_job_id job) (retry_cycle db client (cj_job_id job)) (cj_attempts job + 1))"

lemma record_attempt_spine_ok:
  "spine_ok (db_receipts db) \<Longrightarrow> spine_ok (db_receipts (snd (record_attempt render client job outcome now_ms db)))"
  unfolding record_attempt_def mutate_def op_map_state
  by (rule conjunct1 [OF spine_step_ok [OF spine_step.Mutate [OF attempt.safe]]])

lemma record_keeps_unrecorded:
  assumes ok: "spine_ok (db_receipts db)" and "unrecorded db client job" "unrecorded db client job'"
    and "cj_job_id job' \<noteq> cj_job_id job"
  shows "unrecorded (snd (record_attempt render client job outcome now_ms db)) client job'"
proof -
  note fresh = assms(2) [unfolded unrecorded_def]
  have "attempt_key (cj_job_id job') (retry_cycle db client (cj_job_id job')) (cj_attempts job' + 1)
      \<noteq> attempt_key (cj_job_id job) (retry_cycle db client (cj_job_id job)) (cj_attempts job + 1)"
    using attempt_key_inj retry_cycle_no_colon [OF ok] assms(4) by metis
  then show ?thesis
    using assms(3) unfolding unrecorded_def record_attempt_cycle [OF ok fresh] by simp
qed

text \<open>
  What executors, the reconciliation of campaigns and the other threads that get the persistence lock in between may do to
  the database: mutations of the slices, which may enqueue jobs but leave the jobs there are and do not speak of outbox
  jobs themselves (the rotation of a token by the QuickBooks executor, the settlement of a campaign that enqueues its
  posts, an approval), and writes besides the receipts.
\<close>

inductive slice_step :: "'x outbox_tables_scheme db \<Rightarrow> 'x outbox_tables_scheme db \<Rightarrow> bool" where
  SliceWrites: "spine_safe dw \<Longrightarrow> enqueue_only dw \<Longrightarrow> mq_entity_kind req \<noteq> JOB_ENTITY_KIND
     \<Longrightarrow> take 15 (mq_idempotency_key req) \<noteq> ''outbox_attempt:''
     \<Longrightarrow> slice_step db (snd (mutate_with_receipt_id req dw db))"
| SliceTables: "jobs_of (db\<lparr>db_domain := d\<rparr>) = jobs_of db \<Longrightarrow> slice_step db (db\<lparr>db_domain := d\<rparr>)"

lemma slice_step_outbox: "slice_step db db' \<Longrightarrow> outbox_step db db'"
  by (induction rule: slice_step.induct) (auto intro: outbox_step.intros spine_step.intros)

lemma slice_steps_outbox: "slice_step\<^sup>*\<^sup>* db db' \<Longrightarrow> outbox_step\<^sup>*\<^sup>* db db'"
  by (induction rule: rtranclp_induct) (auto intro: rtranclp.rtrancl_into_rtrancl slice_step_outbox)

text \<open>The retry cycle of a job can be read off the receipts without their payloads.\<close>

lemma insort_key_map: "insort_key k (f x) (map f xs) = map f (insort_key (\<lambda>y. k (f y)) x xs)"
  by (induction xs) simp_all

lemma sort_key_map: "sort_key k (map f xs) = map f (sort_key (\<lambda>y. k (f y)) xs)"
  by (induction xs) (simp_all add: insort_key_map)

lemma retry_cycle_identities:
  "retry_cycle db client job_id = map_option rx_receipt_id (first_of (newest_first
     (filter (\<lambda>r. rx_change_kind r = ''retry_requested'' \<and> rx_outcome r = ''applied'')
       (filter (\<lambda>r. rx_client_id r = client \<and> rx_entity_kind r = JOB_ENTITY_KIND \<and> rx_entity_id r = job_id) (identities db)))))"
proof -
  have "map_option rx_receipt_id (first_of (map rx_identity xs)) = map_option rx_receipt_id (first_of xs)" for xs
    by (cases xs) (simp_all add: first_of_def)
  moreover have "rx_change_kind (rx_identity r) = rx_change_kind r" "rx_created_at_ms (rx_identity r) = rx_created_at_ms r" for r
    by (simp_all add: rx_identity_def)
  ultimately show ?thesis
    by (simp add: retry_cycle_def entity_receipts_def newest_first_def sort_key_map filter_map comp_def rev_map)
qed

definition row_kept :: "outbox_job option \<Rightarrow> outbox_job option \<Rightarrow> bool" where
  "row_kept old new \<longleftrightarrow> new = old \<or> old = None \<and> (\<exists>job t. new = Some (new_row job t))"

lemma row_kept_simps [simp]: "row_kept r r" "row_kept (Some j) r \<longleftrightarrow> r = Some j"
  by (auto simp: row_kept_def)

lemma row_kept_trans: "row_kept a b \<Longrightarrow> row_kept b c \<Longrightarrow> row_kept a c"
  by (auto simp: row_kept_def)

definition calm :: "'x outbox_tables_scheme db \<Rightarrow> 'x outbox_tables_scheme db \<Rightarrow> bool" where
  "calm db db' \<longleftrightarrow> spine_ok (db_receipts db')
   \<and> (\<forall>k. row_kept (hm_get (jobs_of db) k) (hm_get (jobs_of db') k))
   \<and> (\<forall>client job. unrecorded db client job \<longrightarrow> unrecorded db' client job)"

lemma calmD:
  assumes "calm db db'"
  shows "spine_ok (db_receipts db')" "row_kept (hm_get (jobs_of db) k) (hm_get (jobs_of db') k)"
    "unrecorded db client job \<Longrightarrow> unrecorded db' client job"
  using assms unfolding calm_def by blast+

lemma calm_trans: "calm a b \<Longrightarrow> calm b c \<Longrightarrow> calm a c"
  unfolding calm_def using row_kept_trans by blast

lemma slice_step_calm:
  assumes "slice_step db db'" and ok: "spine_ok (db_receipts db)"
  shows "calm db db'"
  using assms(1)
proof cases
  case (SliceWrites dw req)
  obtain out cls b a where ids: "identities db' = identities db @ [rx_identity (receipt_of req out cls b a (next_receipt_id db))]"
    using mutate_receipts [OF SliceWrites(2) ok, of req] unfolding SliceWrites(1) [symmetric] by metis
  have cycle: "retry_cycle db' client job_id = retry_cycle db client job_id" for client job_id
    unfolding retry_cycle_identities ids using SliceWrites(4) by (simp add: receipt_of_def)
  have "applied_key_taken db' client (attempt_key i c n) \<longleftrightarrow> applied_key_taken db client (attempt_key i c n)" for client i c n
  proof -
    have "mq_idempotency_key req \<noteq> attempt_key i c n" using SliceWrites(5) by (auto simp: attempt_key_def)
    then show ?thesis unfolding key_taken_identities ids by (simp add: spine_key_def receipt_of_def bex_Un)
  qed
  then have "unrecorded db' client job \<longleftrightarrow> unrecorded db client job" for client job
    by (simp add: unrecorded_def cycle)
  moreover have "spine_ok (db_receipts db')"
    using spine_step_ok [OF spine_step.Mutate [OF SliceWrites(2)] ok] SliceWrites(1) by blast
  moreover have "row_kept (hm_get (jobs_of db) k) (hm_get (jobs_of db') k)" for k
  proof -
    consider "jobs_of db' = jobs_of db" | db1 where "dw (next_receipt_id db) db = (Inr (), db1)" "jobs_of db' = jobs_of db1"
      using mutate_jobs_cases [OF SliceWrites(2) ok, of req] unfolding SliceWrites(1) by blast
    then show ?thesis
    proof cases
      case 2
      from SliceWrites(3) [unfolded enqueue_only_def, rule_format, OF 2(1), THEN conjunct2] 2(2)
      show ?thesis unfolding row_kept_def by metis
    qed simp
  qed
  ultimately show ?thesis unfolding calm_def by simp
next
  case (SliceTables d)
  have same: "jobs_of db' = jobs_of db" "db_receipts db' = db_receipts db"
    unfolding SliceTables(1) by (rule SliceTables(2)) simp
  show ?thesis
    unfolding calm_def unrecorded_def retry_cycle_def entity_receipts_def applied_key_taken_def same
    using ok by (intro conjI allI impI) (assumption | rule row_kept_simps(1))+
qed

lemma slice_steps_calm:
  assumes "slice_step\<^sup>*\<^sup>* db db'" and ok: "spine_ok (db_receipts db)"
  shows "calm db db'"
  using assms(1)
proof (induction rule: rtranclp_induct)
  case base
  show ?case using ok by (simp add: calm_def)
next
  case (step y z)
  then show ?case using slice_step_calm [OF step(2) calmD(1)] calm_trans by blast
qed

text \<open>One delivery: the executor runs, its outcome is recorded, every other row stays.\<close>

lemma one_delivery:
  fixes db :: "'x outbox_tables_scheme db"
  assumes ok: "spine_ok (db_receipts db)" and quiet: "slice_step\<^sup>*\<^sup>* db db1"
    and u: "unrecorded db client job" and j: "hm_get (jobs_of db) (client, cj_job_id job) = Some j"
    and db2: "db2 = snd (record_attempt render client job out t db1)"
  shows "outbox_step\<^sup>*\<^sup>* db db2" "spine_ok (db_receipts db2)"
    "hm_get (jobs_of db2) (client, cj_job_id job) = Some (attempt_row (cj_attempts job + 1) out t j)"
    "k \<noteq> (client, cj_job_id job) \<Longrightarrow> row_kept (hm_get (jobs_of db) k) (hm_get (jobs_of db2) k)"
    "cj_job_id job' \<noteq> cj_job_id job \<Longrightarrow> unrecorded db client job' \<Longrightarrow> unrecorded db2 client job'"
proof -
  note c = slice_steps_calm [OF quiet ok]
  note u1 = calmD(3) [OF c u]
  have "outbox_step db1 db2" unfolding db2 by (rule outbox_step.Attempt)
  with slice_steps_outbox [OF quiet] show "outbox_step\<^sup>*\<^sup>* db db2" by (rule rtranclp.rtrancl_into_rtrancl)
  show "spine_ok (db_receipts db2)" unfolding db2 by (rule record_attempt_spine_ok [OF calmD(1) [OF c]])
  have row: "jobs_of db2 = jobs_of (update_job (client, cj_job_id job) (attempt_row (cj_attempts job + 1) out t) db1)"
    using record_attempt_applied [OF calmD(1) [OF c] u1 [unfolded unrecorded_def], of render out t] unfolding db2 by blast
  have kept: "row_kept (hm_get (jobs_of db) k) (hm_get (jobs_of db1) k)" for k using calmD(2) [OF c] .
  show "hm_get (jobs_of db2) (client, cj_job_id job) = Some (attempt_row (cj_attempts job + 1) out t j)"
    using kept [of "(client, cj_job_id job)"] j row by simp
  show "row_kept (hm_get (jobs_of db) k) (hm_get (jobs_of db2) k)" if "k \<noteq> (client, cj_job_id job)"
    using kept [of k] row that by simp
  show "unrecorded db2 client job'" if "cj_job_id job' \<noteq> cj_job_id job" "unrecorded db client job'"
    unfolding db2 by (rule record_keeps_unrecorded [OF calmD(1) [OF c] u1 calmD(3) [OF c that(2)] that(1)])
qed

lemma dispatch_steps:
  assumes "\<And>e job t db. slice_step\<^sup>*\<^sup>* db (snd (deliver e job t db))"
  shows "slice_step\<^sup>*\<^sup>* db (snd (dispatch deliver job t db))"
  using assms by (simp add: dispatch_def split: option.split)

lemma deliver_jobs_effect:
  fixes db :: "'x outbox_tables_scheme db"
  assumes quiet: "\<And>e job t db. slice_step\<^sup>*\<^sup>* db (snd (deliver e job t db))"
    and "spine_ok (db_receipts db)" and "distinct (map cj_job_id jobs)"
    and "\<forall>job \<in> set jobs. unrecorded db client job \<and> hm_get (jobs_of db) (client, cj_job_id job) \<noteq> None"
    and "after = deliver_jobs deliver render client clock n jobs db"
  shows "(\<forall>i < length jobs. \<exists>seen. outbox_step\<^sup>*\<^sup>* db seen
       \<and> hm_get (jobs_of after) (client, cj_job_id (jobs ! i))
         = map_option (attempt_row (cj_attempts (jobs ! i) + 1)
             (fst (dispatch deliver (jobs ! i) (clock (n + 2 * i)) seen)) (clock (n + 2 * i + 1)))
           (hm_get (jobs_of db) (client, cj_job_id (jobs ! i))))
     \<and> (\<forall>k. k \<notin> (\<lambda>job. (client, cj_job_id job)) ` set jobs \<longrightarrow> row_kept (hm_get (jobs_of db) k) (hm_get (jobs_of after) k))
     \<and> spine_ok (db_receipts after)"
  using assms(2-5)
proof (induction jobs arbitrary: db n)
  case (Cons job jobs)
  let ?out = "fst (dispatch deliver job (clock n) db)" and ?db1 = "snd (dispatch deliver job (clock n) db)"
  define db2 where "db2 = snd (record_attempt render client job ?out (clock (n + 1)) ?db1)"
  obtain j where j: "hm_get (jobs_of db) (client, cj_job_id job) = Some j" and u: "unrecorded db client job"
    using Cons.prems(3) by auto
  note one = one_delivery [OF Cons.prems(1) dispatch_steps [OF quiet] u j db2_def]
  have ne: "cj_job_id job' \<noteq> cj_job_id job" if "job' \<in> set jobs" for job'
    using Cons.prems(2) that by (metis distinct.simps(2) image_eqI list.set_map list.simps(9))
  have row2: "hm_get (jobs_of db2) (client, cj_job_id job') = hm_get (jobs_of db) (client, cj_job_id job')"
    if "job' \<in> set jobs" for job'
    using one(4) [of "(client, cj_job_id job')"] ne [OF that] Cons.prems(3) that by auto
  have d: "distinct (map cj_job_id jobs)" using Cons.prems(2) by simp
  have u2: "\<forall>job' \<in> set jobs. unrecorded db2 client job' \<and> hm_get (jobs_of db2) (client, cj_job_id job') \<noteq> None"
    using one(5) ne row2 Cons.prems(3) by simp
  have "after = deliver_jobs deliver render client clock (n + 2) jobs db2"
    using Cons.prems(4) by (simp add: db2_def case_prod_beta')
  note IH = Cons.IH [OF one(2) d u2 this]
  note rest = IH [THEN conjunct2, THEN conjunct1, rule_format] and sp = IH [THEN conjunct2, THEN conjunct2]
  have "(client, cj_job_id job) \<notin> (\<lambda>job. (client, cj_job_id job)) ` set jobs"
    using ne by (metis (no_types, lifting) imageE prod.inject)
  from rest [OF this] one(3) have head: "hm_get (jobs_of after) (client, cj_job_id job)
      = Some (attempt_row (cj_attempts job + 1) ?out (clock (n + 1)) j)" by simp
  have settled: "\<exists>seen. outbox_step\<^sup>*\<^sup>* db seen
       \<and> hm_get (jobs_of after) (client, cj_job_id ((job # jobs) ! i))
         = map_option (attempt_row (cj_attempts ((job # jobs) ! i) + 1)
             (fst (dispatch deliver ((job # jobs) ! i) (clock (n + 2 * i)) seen)) (clock (n + 2 * i + 1)))
           (hm_get (jobs_of db) (client, cj_job_id ((job # jobs) ! i)))" if i: "i < length (job # jobs)" for i
  proof (cases i)
    case 0
    then show ?thesis using head j by (intro exI [of _ db]) simp
  next
    case (Suc i')
    then have i': "i' < length jobs" using i by simp
    obtain seen where "outbox_step\<^sup>*\<^sup>* db2 seen"
      "hm_get (jobs_of after) (client, cj_job_id (jobs ! i'))
         = map_option (attempt_row (cj_attempts (jobs ! i') + 1)
             (fst (dispatch deliver (jobs ! i') (clock (n + 2 + 2 * i')) seen)) (clock (n + 2 + 2 * i' + 1)))
           (hm_get (jobs_of db2) (client, cj_job_id (jobs ! i')))"
      using IH i' by blast
    then show ?thesis using row2 [OF nth_mem [OF i']] one(1) Suc by (intro exI [of _ seen]) simp
  qed
  have other: "row_kept (hm_get (jobs_of db) k) (hm_get (jobs_of after) k)"
    if "k \<notin> (\<lambda>job. (client, cj_job_id job)) ` set (job # jobs)" for k
    using row_kept_trans [OF one(4) rest] that by simp
  show ?case using settled other sp by blast
qed simp

text \<open>
  (C11) A delivery cycle settles everything it claims. The first five due jobs are claimed, each is handed to the executor
  of its provider (an unknown provider is a terminal failure), and each of them ends with the row that the outcome of this
  executor stands for, with one attempt more and no lease. The jobs that were there and were not claimed are as before, and
  new rows are freshly enqueued jobs. This holds provided that the number of the attempt was not recorded before in the
  retry cycle of the job, and that executors, reconciliation and the threads in between do no more to the outbox than
  enqueue.
\<close>

theorem delivery_cycle_settles_claims:
  assumes "outbox_reachable db"
    and due: "due = due_jobs db client None 5 (clock 0)"
    and fresh: "\<forall>(k, j) \<in> set due. \<not> applied_key_taken db client
           (attempt_key (snd k) (retry_cycle db client (snd k)) (oj_attempts j + 1))"
    and executors: "\<And>e job t db. slice_step\<^sup>*\<^sup>* db (snd (deliver e job t db))"
    and reconciles: "\<And>t db. slice_step\<^sup>*\<^sup>* db (snd (reconcile t db))"
    and after: "after = run_delivery_cycle deliver reconcile render client clock db"
  shows "(\<forall>i < length due. \<exists>k j seen. due ! i = (k, j) \<and> hm_get (jobs_of db) k = Some j \<and> outbox_step\<^sup>*\<^sup>* db seen
           \<and> hm_get (jobs_of after) k = Some (attempt_row (oj_attempts j + 1)
               (fst (dispatch deliver (claimed_of k j) (clock (2 * i + 1)) seen)) (clock (2 * i + 2))
               (j\<lparr>oj_leased_until_ms := Some (clock 0 + 120000), oj_updated_at_ms := clock 0\<rparr>)))
     \<and> (\<forall>k. k \<notin> fst ` set due \<longrightarrow> hm_get (jobs_of after) k = hm_get (jobs_of db) k
           \<or> hm_get (jobs_of db) k = None \<and> (\<exists>job t. hm_get (jobs_of after) k = Some (new_row job t)))"
proof -
  note ok = outbox_reachable_ok [OF assms(1)]
  note wf = jobs_okD(1) [OF ok(2)]
  define jobs where "jobs = map (\<lambda>(k, j). claimed_of k j) due"
  obtain db1 where claim: "claim_due_jobs client None LEASE_MS CLAIM_BATCH (clock 0) db = (Inr jobs, db1)"
    using claim_due_jobs_effect(1) [OF wf prod.collapse [symmetric]]
    by (metis CLAIM_BATCH_def due jobs_def prod.collapse)
  note eff = claim_due_jobs_effect [OF wf claim, folded CLAIM_BATCH_def, unfolded CLAIM_BATCH_def, folded due]
  have claimed: "outbox_step db db1" using outbox_step.Claim [of db client None LEASE_MS CLAIM_BATCH "clock 0"] claim by simp
  have keys: "fst k = client \<and> hm_get (jobs_of db) k = Some j" if "(k, j) \<in> set due" for k j
    using due_jobs_sub that wf unfolding due by (metis hm_get_iff)
  have leased: "hm_get (jobs_of db1) k = Some (lease_row LEASE_MS (clock 0) j)" if "(k, j) \<in> set due" for k j
    using eff(5) [of k] that keys [OF that] by auto
  have d: "distinct (map cj_job_id jobs)"
    using due_jobs_distinct [OF wf] unfolding jobs_def due by (simp add: comp_def case_prod_beta')
  have same: "retry_cycle db1 c i = retry_cycle db c i" "applied_key_taken db1 c key = applied_key_taken db c key"
    for c i key
    using eff(2) by (simp_all add: retry_cycle_def entity_receipts_def applied_key_taken_def)
  have key: "(client, cj_job_id (claimed_of k j)) = k" if "(k, j) \<in> set due" for k j
    using keys [OF that] by (cases k) simp
  have u: "\<forall>job \<in> set jobs. unrecorded db1 client job \<and> hm_get (jobs_of db1) (client, cj_job_id job) \<noteq> None"
    using fresh leased key unfolding jobs_def unrecorded_def same by (fastforce simp: claimed_of_def)
  have sp1: "spine_ok (db_receipts db1)" using eff(2) ok(1) by simp
  define db2 where "db2 = deliver_jobs deliver render client clock 1 jobs db1"
  note run = deliver_jobs_effect [OF executors sp1 d u db2_def]
  have "after = snd (reconcile (clock (2 * length jobs + 1)) db2)"
    unfolding after run_delivery_cycle_def claim db2_def by simp
  with slice_steps_calm [OF reconciles run [THEN conjunct2, THEN conjunct2]]
  have kept: "row_kept (hm_get (jobs_of db2) k) (hm_get (jobs_of after) k)" for k using calmD(2) by blast
  have settled: "\<exists>k j seen. due ! i = (k, j) \<and> hm_get (jobs_of db) k = Some j \<and> outbox_step\<^sup>*\<^sup>* db seen
           \<and> hm_get (jobs_of after) k = Some (attempt_row (oj_attempts j + 1)
               (fst (dispatch deliver (claimed_of k j) (clock (2 * i + 1)) seen)) (clock (2 * i + 2))
               (j\<lparr>oj_leased_until_ms := Some (clock 0 + 120000), oj_updated_at_ms := clock 0\<rparr>))"
    if i: "i < length due" for i
  proof -
    obtain k j where kj: "due ! i = (k, j)" by fastforce
    then have mem: "(k, j) \<in> set due" using i nth_mem by metis
    have job: "jobs ! i = claimed_of k j" "i < length jobs" using i kj by (simp_all add: jobs_def)
    obtain seen where "outbox_step\<^sup>*\<^sup>* db1 seen"
      "hm_get (jobs_of db2) k = Some (attempt_row (cj_attempts (claimed_of k j) + 1)
         (fst (dispatch deliver (claimed_of k j) (clock (1 + 2 * i)) seen)) (clock (1 + 2 * i + 1))
         (lease_row LEASE_MS (clock 0) j))"
      using run [THEN conjunct1, rule_format, OF job(2)] unfolding job(1) key [OF mem] leased [OF mem] by auto
    then show ?thesis
      using kj keys [OF mem] kept [of k] claimed
      by (intro exI [of _ k] exI [of _ j] exI [of _ seen])
         (simp add: lease_row_def LEASE_MS_def claimed_of_def converse_rtranclp_into_rtranclp)
  qed
  have other: "row_kept (hm_get (jobs_of db) k) (hm_get (jobs_of after) k)" if k: "k \<notin> fst ` set due" for k
  proof -
    have "k \<notin> (\<lambda>job. (client, cj_job_id job)) ` set jobs" using k key by (force simp: jobs_def)
    from run [THEN conjunct2, THEN conjunct1, rule_format, OF this]
    have "row_kept (hm_get (jobs_of db1) k) (hm_get (jobs_of after) k)" using row_kept_trans [OF _ kept] by blast
    moreover have "hm_get (jobs_of db1) k = hm_get (jobs_of db) k" using eff(5) [of k] k by force
    ultimately show ?thesis by simp
  qed
  show ?thesis
  proof (intro conjI allI impI, goal_cases)
    case (1 i)
    then show ?case by (rule settled)
  next
    case (2 k)
    then show ?case by (rule other [unfolded row_kept_def])
  qed
qed

text \<open>A cycle whose reconciliation enqueues the posts of a campaign.\<close>

definition sample_reconcile :: "u64 \<Rightarrow> (outbox_tables, nat) db_op" where
  "sample_reconcile t = op_map (\<lambda>_. 1) (mutate (sample_request ''campaign-settle:p1'' None)
     (enqueue_within ''acme'' (sample_job\<lparr>nj_job_id := ''post1'', nj_idempotency_key := ''post1''\<rparr>) t))"

lemma sample_reconcile_steps: "slice_step\<^sup>*\<^sup>* db (snd (sample_reconcile t db))"
  unfolding sample_reconcile_def mutate_def op_map_state
  by (rule r_into_rtranclp, rule SliceWrites [OF enqueue.safe enqueue_job.enqueues])
     (simp_all add: sample_request_def JOB_ENTITY_KIND_def)

theorem delivery_cycle_settles_claims_witness:
  "map_option oj_status (hm_get (jobs_of (run_delivery_cycle (\<lambda>e job t db. (Delivered ''ok'', db))
     sample_reconcile (\<lambda>_ _ _. ''{}'') ''acme'' (\<lambda>n. 2000) sample_outbox)) (''acme'', ''j1''))
   = Some ''delivered''"
proof -
  let ?due = "[((''acme'', ''j1''), new_row sample_job 1000)]"
  have due: "?due = due_jobs sample_outbox ''acme'' None 5 ((\<lambda>n. 2000) 0)"
    by (simp add: due_jobs_def sample_outbox_jobs job_due_def new_row_def)
  have fresh: "\<forall>(k, j) \<in> set ?due. \<not> applied_key_taken sample_outbox ''acme''
      (attempt_key (snd k) (retry_cycle sample_outbox ''acme'' (snd k)) (oj_attempts j + 1))"
    by (simp add: sample_outbox_receipts applied_key_taken_def receipt_of_def sample_request_def attempt_key_def)
  have "slice_step\<^sup>*\<^sup>* db (snd (Delivered ''ok'', db))" for db :: "outbox_tables db" by simp
  from delivery_cycle_settles_claims [where clock = "\<lambda>n. 2000" and deliver = "\<lambda>e job t db. (Delivered ''ok'', db)"
      and render = "\<lambda>_ _ _. ''{}''", OF sample_outbox_reachable due fresh this sample_reconcile_steps refl]
  show ?thesis
    by (auto simp: claimed_of_def new_row_def sample_job_def route_provider_def attempt_row_def dispatch_def
        STATUS_DELIVERED_def)
qed

end
