(* ===== verification/Operator_Users.thy ===== *)
theory Operator_Users
  imports Outbox_Safety
begin

text \<open>
  \<open>slices/operator_users/store.rs\<close> and \<open>slices/operator_api_tokens/store.rs\<close>: the two credential tables.
  A personal token belongs to a named operator and is stored as it is; a scoped API token is stored as a
  hash with the capabilities it grants. Every change goes through the mutation spine. The SHA-256 hash of
  the \<open>sha2\<close> crate and the JSON renderings of receipts are parameters; the list of capabilities is
  kept decoded. \<open>archive_user\<close> also reads which users have Google or QuickBooks credentials.
\<close>

section \<open>Operator users\<close>

definition USER_ENTITY_KIND :: string where "USER_ENTITY_KIND = ''operator_user''"

record operator_user_row =
  ur_display_name :: string
  ur_token :: string
  ur_active :: bool
  ur_archived_at_ms :: "u64 option"
  ur_default_calendar_id :: "string option"
  ur_created_at_ms :: u64
  ur_updated_at_ms :: u64

record api_token_row =
  tr_label :: string
  tr_token_hash :: string
  tr_capabilities :: "string list"
  tr_active :: bool
  tr_created_by :: string
  tr_created_at_ms :: u64
  tr_updated_at_ms :: u64
  tr_revoked_at_ms :: "u64 option"

text \<open>A row of \<open>google_oauth_credentials\<close>, keyed by client, user and Google service.\<close>

record google_credential_row =
  gc_refresh_token :: string
  gc_scopes :: "string list"
  gc_connected_at_ms :: u64

record auth_tables = outbox_tables +
  at_users :: "(string \<times> string, operator_user_row) hash_map"
  at_api_tokens :: "(string \<times> string, api_token_row) hash_map"
  at_google_credentials :: "(string \<times> string \<times> string, google_credential_row) hash_map"
  at_qbo_credentials :: "(string \<times> string) list"

abbreviation users_of :: "'x auth_tables_scheme db \<Rightarrow> (string \<times> string, operator_user_row) hash_map" where
  "users_of db \<equiv> at_users (db_domain db)"

abbreviation api_tokens_of :: "'x auth_tables_scheme db \<Rightarrow> (string \<times> string, api_token_row) hash_map" where
  "api_tokens_of db \<equiv> at_api_tokens (db_domain db)"

record operator_user =
  us_user_id :: string
  us_display_name :: string
  us_active :: bool
  us_archived_at_ms :: "u64 option"
  us_default_calendar_id :: "string option"
  us_created_at_ms :: u64
  us_updated_at_ms :: u64

text \<open>\<open>u64::try_from\<close> of a stored \<open>i64\<close>: negative values are dropped.\<close>

definition unsigned_column :: "u64 option \<Rightarrow> u64 option" where
  "unsigned_column v = (case v of None \<Rightarrow> None | Some w \<Rightarrow> if sint w < 0 then None else Some w)"

definition user_from_row :: "string \<times> string \<Rightarrow> operator_user_row \<Rightarrow> operator_user" where
  "user_from_row k r =
     \<lparr>us_user_id = snd k, us_display_name = ur_display_name r, us_active = ur_active r,
      us_archived_at_ms = unsigned_column (ur_archived_at_ms r),
      us_default_calendar_id = ur_default_calendar_id r, us_created_at_ms = ur_created_at_ms r,
      us_updated_at_ms = ur_updated_at_ms r\<rparr>"

definition list_users :: "'x auth_tables_scheme db \<Rightarrow> string \<Rightarrow> bool \<Rightarrow> operator_user list" where
  "list_users db client include_archived =
     map (\<lambda>(k, r). user_from_row k r)
       (sort_key (\<lambda>(k, r). sint (ur_created_at_ms r))
         (filter (\<lambda>(k, r). fst k = client \<and> (include_archived \<or> ur_archived_at_ms r = None)) (users_of db)))"

definition get_user :: "'x auth_tables_scheme db \<Rightarrow> string \<Rightarrow> string \<Rightarrow> operator_user option" where
  "get_user db client user_id =
     map_option (user_from_row (client, user_id)) (hm_get (users_of db) (client, user_id))"

definition user_live :: "operator_user_row \<Rightarrow> bool" where
  "user_live r \<longleftrightarrow> ur_active r \<and> ur_archived_at_ms r = None"

definition find_active_by_token :: "'x auth_tables_scheme db \<Rightarrow> string \<Rightarrow> string \<Rightarrow> operator_user option" where
  "find_active_by_token db client token =
     map_option (\<lambda>(k, r). user_from_row k r)
       (find (\<lambda>(k, r). fst k = client \<and> ur_token r = token \<and> user_live r) (users_of db))"

definition any_active_user_token :: "'x auth_tables_scheme db \<Rightarrow> string \<Rightarrow> bool" where
  "any_active_user_token db client \<longleftrightarrow>
     length (filter (\<lambda>(k, r). fst k = client \<and> user_live r) (users_of db)) > 0"

definition session_token_fingerprint :: "(string \<Rightarrow> string) \<Rightarrow> string \<Rightarrow> string" where
  "session_token_fingerprint sha token = sha (''bos.operator_session.token.v1'' @ [CHR 0x00] @ token)"

definition session_token_proof :: "(string \<Rightarrow> string) \<Rightarrow> string \<Rightarrow> string \<Rightarrow> string \<Rightarrow> string" where
  "session_token_proof sha token fingerprint material =
     sha (''bos.operator_session.proof.v1'' @ [CHR 0x00] @ material @ [CHR 0x00] @ fingerprint
          @ [CHR 0x00] @ token)"

definition find_active_token_by_session_proof ::
    "(string \<Rightarrow> string) \<Rightarrow> 'x auth_tables_scheme db \<Rightarrow> string \<Rightarrow> string \<Rightarrow> string \<Rightarrow> string \<Rightarrow> string option" where
  "find_active_token_by_session_proof sha db client fingerprint proof_value material =
     map_option (\<lambda>(k, r). ur_token r)
       (find (\<lambda>(k, r). fst k = client \<and> user_live r
               \<and> session_token_fingerprint sha (ur_token r) = fingerprint
               \<and> session_token_proof sha (ur_token r) fingerprint material = proof_value) (users_of db))"

definition put_user :: "string \<times> string \<Rightarrow> operator_user_row \<Rightarrow> 'x auth_tables_scheme db \<Rightarrow> 'x auth_tables_scheme db" where
  "put_user k r db = db\<lparr>db_domain := (db_domain db)\<lparr>at_users := hm_insert k r (users_of db)\<rparr>\<rparr>"

text \<open>The unique index on the token of a client, for a row other than \<open>k\<close>.\<close>

definition user_token_taken :: "'x auth_tables_scheme db \<Rightarrow> string \<times> string \<Rightarrow> string \<Rightarrow> bool" where
  "user_token_taken db k token \<longleftrightarrow>
     list_ex (\<lambda>(k', r). fst k' = fst k \<and> k' \<noteq> k \<and> ur_token r = token) (users_of db)"

definition create_user_write ::
    "string \<Rightarrow> operator_user \<Rightarrow> string \<Rightarrow> ('x auth_tables_scheme, unit) db_op" where
  "create_user_write client user token db =
     (let k = (client, us_user_id user) in
      if hm_get (users_of db) k \<noteq> None \<or> user_token_taken db k token
      then (Inl (Domain ''operator_user_exists''), db)
      else (Inr (), put_user k
             \<lparr>ur_display_name = us_display_name user, ur_token = token, ur_active = True,
              ur_archived_at_ms = None, ur_default_calendar_id = None,
              ur_created_at_ms = us_created_at_ms user, ur_updated_at_ms = us_created_at_ms user\<rparr> db))"

definition create_user ::
    "(operator_user \<Rightarrow> string) \<Rightarrow> string \<Rightarrow> string \<Rightarrow> operator_user \<Rightarrow> string \<Rightarrow> string
       \<Rightarrow> ('x auth_tables_scheme, mutation_outcome) db_op" where
  "create_user render client actor user token key =
     mutate \<lparr>mq_client_id = client, mq_entity_kind = USER_ENTITY_KIND, mq_entity_id = us_user_id user,
             mq_change_kind = ''create'', mq_actor_id = actor, mq_actor_kind = Operator,
             mq_expected_revision = None, mq_idempotency_key = key, mq_correlation_id = None,
             mq_causation_id = None, mq_before_json = None, mq_after_json = Some (render user),
             mq_now_ms = us_created_at_ms user\<rparr>
       (create_user_write client user token)"

definition has_google_credentials :: "'x auth_tables_scheme db \<Rightarrow> string \<Rightarrow> string \<Rightarrow> bool" where
  "has_google_credentials db client user_id \<longleftrightarrow>
     list_ex (\<lambda>((c, u, _), _). c = client \<and> u = user_id) (at_google_credentials (db_domain db))"

definition has_qbo_credential_connected_by :: "'x auth_tables_scheme db \<Rightarrow> string \<Rightarrow> string \<Rightarrow> bool" where
  "has_qbo_credential_connected_by db client user_id \<longleftrightarrow>
     (client, user_id) \<in> set (at_qbo_credentials (db_domain db))"

record action_context =
  ac_client_id :: string
  ac_actor_id :: string
  ac_expected_revision :: "u64 option"
  ac_idempotency_key :: string
  ac_now_ms :: u64

text \<open>The request of an action on an existing entity, and \<open>UPDATE ... WHERE\<close> on a user row.\<close>

definition action_request ::
    "action_context \<Rightarrow> string \<Rightarrow> string \<Rightarrow> string \<Rightarrow> string option \<Rightarrow> string option \<Rightarrow> mutation_request" where
  "action_request ctx entity_kind entity_id change before after =
     \<lparr>mq_client_id = ac_client_id ctx, mq_entity_kind = entity_kind, mq_entity_id = entity_id,
      mq_change_kind = change, mq_actor_id = ac_actor_id ctx, mq_actor_kind = Operator,
      mq_expected_revision = ac_expected_revision ctx, mq_idempotency_key = ac_idempotency_key ctx,
      mq_correlation_id = None, mq_causation_id = None, mq_before_json = before, mq_after_json = after,
      mq_now_ms = ac_now_ms ctx\<rparr>"

definition update_user ::
    "string \<times> string \<Rightarrow> (operator_user_row \<Rightarrow> operator_user_row) \<Rightarrow> ('x auth_tables_scheme, unit) db_op" where
  "update_user k f db =
     (case hm_get (users_of db) k of None \<Rightarrow> (Inr (), db) | Some r \<Rightarrow> (Inr (), put_user k (f r) db))"

definition bool_json :: "bool \<Rightarrow> string" where
  "bool_json b = ''{\"active\":'' @ (if b then ''true'' else ''false'') @ ''}''"

text \<open>\<open>render active archived_at_ms\<close> is the JSON object of these two fields.\<close>

definition archive_user ::
    "(bool \<Rightarrow> u64 option \<Rightarrow> string) \<Rightarrow> action_context \<Rightarrow> string \<Rightarrow> ('x auth_tables_scheme, mutation_outcome) db_op" where
  "archive_user render ctx user_id db =
     (case get_user db (ac_client_id ctx) user_id of
        None \<Rightarrow> (Inl (Domain ''operator_user_not_found''), db)
      | Some current \<Rightarrow>
          if us_active current then (Inl (Domain ''operator_user_archive_requires_disabled''), db)
          else if us_archived_at_ms current \<noteq> None then (Inl (Domain ''operator_user_already_archived''), db)
          else if has_google_credentials db (ac_client_id ctx) user_id
          then (Inl (Domain ''operator_user_has_google_credentials''), db)
          else if has_qbo_credential_connected_by db (ac_client_id ctx) user_id
          then (Inl (Domain ''operator_user_has_qbo_credential''), db)
          else mutate (action_request ctx USER_ENTITY_KIND user_id ''archive''
                   (Some (render (us_active current) (us_archived_at_ms current)))
                   (Some (render False (Some (ac_now_ms ctx)))))
                 (update_user (ac_client_id ctx, user_id)
                   (\<lambda>r. r\<lparr>ur_active := False, ur_archived_at_ms := Some (ac_now_ms ctx),
                          ur_updated_at_ms := ac_now_ms ctx\<rparr>)) db)"

text \<open>The guard the other three actions share: the user exists and is not archived.\<close>

definition require_user ::
    "action_context \<Rightarrow> string \<Rightarrow> (operator_user \<Rightarrow> ('x auth_tables_scheme, mutation_outcome) db_op)
       \<Rightarrow> ('x auth_tables_scheme, mutation_outcome) db_op" where
  "require_user ctx user_id action db =
     (case get_user db (ac_client_id ctx) user_id of
        None \<Rightarrow> (Inl (Domain ''operator_user_not_found''), db)
      | Some current \<Rightarrow>
          if us_archived_at_ms current \<noteq> None then (Inl (Domain ''operator_user_archived''), db)
          else action current db)"

definition user_set_active ::
    "action_context \<Rightarrow> string \<Rightarrow> bool \<Rightarrow> ('x auth_tables_scheme, mutation_outcome) db_op" where
  "user_set_active ctx user_id active =
     require_user ctx user_id (\<lambda>current.
       mutate (action_request ctx USER_ENTITY_KIND user_id (if active then ''enable'' else ''disable'')
                (Some (bool_json (us_active current))) (Some (bool_json active)))
         (update_user (ac_client_id ctx, user_id)
           (\<lambda>r. r\<lparr>ur_active := active, ur_updated_at_ms := ac_now_ms ctx\<rparr>)))"

definition rotate_user_write :: "string \<times> string \<Rightarrow> string \<Rightarrow> u64 \<Rightarrow> ('x auth_tables_scheme, unit) db_op" where
  "rotate_user_write k new_token now_ms db =
     (if hm_get (users_of db) k \<noteq> None \<and> user_token_taken db k new_token
      then (Inl (Sqlite ''UNIQUE constraint failed: operator_users.client_id, operator_users.token''), db)
      else update_user k (\<lambda>r. r\<lparr>ur_token := new_token, ur_updated_at_ms := now_ms\<rparr>) db)"

definition user_rotate_token ::
    "action_context \<Rightarrow> string \<Rightarrow> string \<Rightarrow> ('x auth_tables_scheme, mutation_outcome) db_op" where
  "user_rotate_token ctx user_id new_token =
     require_user ctx user_id (\<lambda>current.
       mutate (action_request ctx USER_ENTITY_KIND user_id ''rotate_token'' None
                (Some ''{\"token_rotated\":true}''))
         (rotate_user_write (ac_client_id ctx, user_id) new_token (ac_now_ms ctx)))"

definition set_default_calendar ::
    "(string option \<Rightarrow> string) \<Rightarrow> action_context \<Rightarrow> string \<Rightarrow> string option
       \<Rightarrow> ('x auth_tables_scheme, mutation_outcome) db_op" where
  "set_default_calendar render ctx user_id calendar_id =
     require_user ctx user_id (\<lambda>current.
       mutate (action_request ctx USER_ENTITY_KIND user_id ''set_default_calendar''
                (Some (render (us_default_calendar_id current))) (Some (render calendar_id)))
         (update_user (ac_client_id ctx, user_id)
           (\<lambda>r. r\<lparr>ur_default_calendar_id := calendar_id, ur_updated_at_ms := ac_now_ms ctx\<rparr>)))"

section \<open>Scoped API tokens\<close>

definition TOKEN_ENTITY_KIND :: string where "TOKEN_ENTITY_KIND = ''operator_api_token''"

definition token_hash :: "(string \<Rightarrow> string) \<Rightarrow> string \<Rightarrow> string" where
  "token_hash sha token = sha (''bos.operator_api_token.v1'' @ [CHR 0x00] @ token)"

record operator_api_token =
  ot_token_id :: string
  ot_label :: string
  ot_capabilities :: "string list"
  ot_active :: bool
  ot_revoked_at_ms :: "u64 option"
  ot_created_by :: string
  ot_created_at_ms :: u64
  ot_updated_at_ms :: u64

definition token_from_row :: "string \<times> string \<Rightarrow> api_token_row \<Rightarrow> operator_api_token" where
  "token_from_row k r =
     \<lparr>ot_token_id = snd k, ot_label = tr_label r, ot_capabilities = tr_capabilities r,
      ot_active = tr_active r, ot_revoked_at_ms = unsigned_column (tr_revoked_at_ms r),
      ot_created_by = tr_created_by r, ot_created_at_ms = tr_created_at_ms r,
      ot_updated_at_ms = tr_updated_at_ms r\<rparr>"

definition list_tokens :: "'x auth_tables_scheme db \<Rightarrow> string \<Rightarrow> operator_api_token list" where
  "list_tokens db client =
     map (\<lambda>(k, r). token_from_row k r)
       (sort_key (\<lambda>(k, r). sint (tr_created_at_ms r)) (filter (\<lambda>(k, r). fst k = client) (api_tokens_of db)))"

definition get_token :: "'x auth_tables_scheme db \<Rightarrow> string \<Rightarrow> string \<Rightarrow> operator_api_token option" where
  "get_token db client token_id =
     map_option (token_from_row (client, token_id)) (hm_get (api_tokens_of db) (client, token_id))"

definition token_live :: "api_token_row \<Rightarrow> bool" where
  "token_live r \<longleftrightarrow> tr_active r \<and> tr_revoked_at_ms r = None"

definition find_active_by_token_hash ::
    "'x auth_tables_scheme db \<Rightarrow> string \<Rightarrow> string \<Rightarrow> operator_api_token option" where
  "find_active_by_token_hash db client hash =
     map_option (\<lambda>(k, r). token_from_row k r)
       (find (\<lambda>(k, r). fst k = client \<and> tr_token_hash r = hash \<and> token_live r) (api_tokens_of db))"

definition any_active_api_token :: "'x auth_tables_scheme db \<Rightarrow> string \<Rightarrow> bool" where
  "any_active_api_token db client \<longleftrightarrow>
     length (filter (\<lambda>(k, r). fst k = client \<and> token_live r) (api_tokens_of db)) > 0"

definition put_api_token :: "string \<times> string \<Rightarrow> api_token_row \<Rightarrow> 'x auth_tables_scheme db \<Rightarrow> 'x auth_tables_scheme db" where
  "put_api_token k r db = db\<lparr>db_domain := (db_domain db)\<lparr>at_api_tokens := hm_insert k r (api_tokens_of db)\<rparr>\<rparr>"

definition api_hash_taken :: "'x auth_tables_scheme db \<Rightarrow> string \<times> string \<Rightarrow> string \<Rightarrow> bool" where
  "api_hash_taken db k hash \<longleftrightarrow>
     list_ex (\<lambda>(k', r). fst k' = fst k \<and> k' \<noteq> k \<and> tr_token_hash r = hash) (api_tokens_of db)"

definition create_token_write ::
    "string \<Rightarrow> operator_api_token \<Rightarrow> string \<Rightarrow> ('x auth_tables_scheme, unit) db_op" where
  "create_token_write client token hash db =
     (let k = (client, ot_token_id token) in
      if hm_get (api_tokens_of db) k \<noteq> None \<or> api_hash_taken db k hash
      then (Inl (Domain ''operator_api_token_exists''), db)
      else (Inr (), put_api_token k
             \<lparr>tr_label = ot_label token, tr_token_hash = hash, tr_capabilities = ot_capabilities token,
              tr_active = True, tr_created_by = ot_created_by token,
              tr_created_at_ms = ot_created_at_ms token, tr_updated_at_ms = ot_created_at_ms token,
              tr_revoked_at_ms = None\<rparr> db))"

definition create_token ::
    "(operator_api_token \<Rightarrow> string) \<Rightarrow> string \<Rightarrow> string \<Rightarrow> operator_api_token \<Rightarrow> string \<Rightarrow> string
       \<Rightarrow> ('x auth_tables_scheme, mutation_outcome) db_op" where
  "create_token metadata_json client actor token hash key =
     mutate \<lparr>mq_client_id = client, mq_entity_kind = TOKEN_ENTITY_KIND, mq_entity_id = ot_token_id token,
             mq_change_kind = ''create'', mq_actor_id = actor, mq_actor_kind = Operator,
             mq_expected_revision = None, mq_idempotency_key = key, mq_correlation_id = None,
             mq_causation_id = None, mq_before_json = None, mq_after_json = Some (metadata_json token),
             mq_now_ms = ot_created_at_ms token\<rparr>
       (create_token_write client token hash)"

definition require_live :: "operator_api_token \<Rightarrow> store_error + unit" where
  "require_live token =
     (if ot_revoked_at_ms token \<noteq> None then Inl (Domain ''operator_api_token_revoked'') else Inr ())"

definition require_token ::
    "action_context \<Rightarrow> string \<Rightarrow> (operator_api_token \<Rightarrow> ('x auth_tables_scheme, mutation_outcome) db_op)
       \<Rightarrow> ('x auth_tables_scheme, mutation_outcome) db_op" where
  "require_token ctx token_id action db =
     (case get_token db (ac_client_id ctx) token_id of
        None \<Rightarrow> (Inl (Domain ''operator_api_token_not_found''), db)
      | Some current \<Rightarrow>
          (case require_live current of Inl e \<Rightarrow> (Inl e, db) | Inr _ \<Rightarrow> action current db))"

definition update_api_token ::
    "string \<times> string \<Rightarrow> (api_token_row \<Rightarrow> api_token_row) \<Rightarrow> ('x auth_tables_scheme, unit) db_op" where
  "update_api_token k f db =
     (case hm_get (api_tokens_of db) k of None \<Rightarrow> (Inr (), db) | Some r \<Rightarrow> (Inr (), put_api_token k (f r) db))"

definition token_set_active ::
    "action_context \<Rightarrow> string \<Rightarrow> bool \<Rightarrow> ('x auth_tables_scheme, mutation_outcome) db_op" where
  "token_set_active ctx token_id active =
     require_token ctx token_id (\<lambda>current.
       mutate (action_request ctx TOKEN_ENTITY_KIND token_id (if active then ''enable'' else ''disable'')
                (Some (bool_json (ot_active current))) (Some (bool_json active)))
         (update_api_token (ac_client_id ctx, token_id)
           (\<lambda>r. r\<lparr>tr_active := active, tr_updated_at_ms := ac_now_ms ctx\<rparr>)))"

definition revoke_token ::
    "(operator_api_token \<Rightarrow> string) \<Rightarrow> action_context \<Rightarrow> string \<Rightarrow> ('x auth_tables_scheme, mutation_outcome) db_op" where
  "revoke_token metadata_json ctx token_id =
     require_token ctx token_id (\<lambda>current.
       mutate (action_request ctx TOKEN_ENTITY_KIND token_id ''revoke'' (Some (metadata_json current))
                (Some (''{\"active\":false,\"revoked_at_ms\":'' @ dec_string (unat (ac_now_ms ctx)) @ ''}'')))
         (update_api_token (ac_client_id ctx, token_id)
           (\<lambda>r. r\<lparr>tr_active := False, tr_revoked_at_ms := Some (ac_now_ms ctx),
                  tr_updated_at_ms := ac_now_ms ctx\<rparr>)))"

definition rotate_token_write :: "string \<times> string \<Rightarrow> string \<Rightarrow> u64 \<Rightarrow> ('x auth_tables_scheme, unit) db_op" where
  "rotate_token_write k hash now_ms db =
     (if hm_get (api_tokens_of db) k \<noteq> None \<and> api_hash_taken db k hash
      then (Inl (Domain ''operator_api_token_exists''), db)
      else update_api_token k (\<lambda>r. r\<lparr>tr_token_hash := hash, tr_updated_at_ms := now_ms\<rparr>) db)"

definition token_rotate_token ::
    "action_context \<Rightarrow> string \<Rightarrow> string \<Rightarrow> ('x auth_tables_scheme, mutation_outcome) db_op" where
  "token_rotate_token ctx token_id new_hash =
     require_token ctx token_id (\<lambda>current.
       mutate (action_request ctx TOKEN_ENTITY_KIND token_id ''rotate_token''
                (Some ''{\"token_rotated\":false}'') (Some ''{\"token_rotated\":true}''))
         (rotate_token_write (ac_client_id ctx, token_id) new_hash (ac_now_ms ctx)))"

end
