(* ===== verification/Operator_Auth.thy ===== *)
theory Operator_Auth
  imports Operator_Users
begin

text \<open>
  The authentication of \<open>bos-app/src/http.rs\<close>: who a request acts as. A credential is a bearer token or a
  session cookie; the shared operator token, the personal tokens and the scoped API tokens are tried in
  this order, and without any credential the request is anonymous, which is allowed only when no shared
  token is configured. Handlers ask for an unscoped identity, for a capability, or for the all-scope of
  the shared operator. An HTTP answer that refuses is its status and error code. Exhaustion of the
  connection pool and failing lookups (status 503 and 500) are not modelled; reading the clock is an
  argument.
\<close>

section \<open>Capabilities, identities and scopes\<close>

record http_error =
  he_status :: nat
  he_code :: string

type_synonym 'a http_result = "http_error + 'a"

definition SHARED_OPERATOR_ACTOR :: string where "SHARED_OPERATOR_ACTOR = ''operator''"

datatype operator_capability =
  SocialPublishingRead | SocialPublishingUpdate | SocialPublishingApprove | SocialPublishingStage
| SocialPublishingGenerate | AgentMcpIngest

fun capability_as_str :: "operator_capability \<Rightarrow> string" where
  "capability_as_str SocialPublishingRead = ''social_publishing:read''"
| "capability_as_str SocialPublishingUpdate = ''social_publishing:update''"
| "capability_as_str SocialPublishingApprove = ''social_publishing:approve''"
| "capability_as_str SocialPublishingStage = ''social_publishing:stage''"
| "capability_as_str SocialPublishingGenerate = ''social_publishing:generate''"
| "capability_as_str AgentMcpIngest = ''agent_mcp:ingest''"

definition capability_parse :: "string \<Rightarrow> operator_capability option" where
  "capability_parse value =
     (if value = ''social_publishing:read'' then Some SocialPublishingRead
      else if value = ''social_publishing:update'' then Some SocialPublishingUpdate
      else if value = ''social_publishing:approve'' then Some SocialPublishingApprove
      else if value = ''social_publishing:stage'' then Some SocialPublishingStage
      else if value = ''social_publishing:generate'' then Some SocialPublishingGenerate
      else if value = ''agent_mcp:ingest'' then Some AgentMcpIngest
      else None)"

datatype token_capabilities = Unscoped | Scoped "operator_capability set"

fun tc_allows :: "token_capabilities \<Rightarrow> operator_capability \<Rightarrow> bool" where
  "tc_allows Unscoped capability = True"
| "tc_allows (Scoped caps) capability = (capability \<in> caps)"

definition tc_allows_mcp_endpoint :: "token_capabilities \<Rightarrow> bool" where
  "tc_allows_mcp_endpoint c = tc_allows c AgentMcpIngest"

fun tc_is_unscoped :: "token_capabilities \<Rightarrow> bool" where
  "tc_is_unscoped Unscoped = True"
| "tc_is_unscoped (Scoped _) = False"

record operator_identity =
  id_actor_id :: string
  id_display_name :: string
  id_capabilities :: token_capabilities

definition identity_shared :: operator_identity where
  "identity_shared = \<lparr>id_actor_id = SHARED_OPERATOR_ACTOR, id_display_name = ''Operator'', id_capabilities = Unscoped\<rparr>"

definition capability_denied :: http_error where
  "capability_denied = \<lparr>he_status = 403, he_code = ''operator_capability_denied''\<rparr>"

definition scope_forbidden :: http_error where
  "scope_forbidden = \<lparr>he_status = 422, he_code = ''scope_forbidden''\<rparr>"

fun parse_all :: "string list \<Rightarrow> operator_capability set \<Rightarrow> operator_capability set option" where
  "parse_all [] caps = Some caps"
| "parse_all (raw # raws) caps =
     (case capability_parse raw of None \<Rightarrow> None | Some c \<Rightarrow> parse_all raws (insert c caps))"

definition identity_scoped :: "string \<Rightarrow> string \<Rightarrow> string list \<Rightarrow> operator_identity http_result" where
  "identity_scoped token_id label capabilities =
     (case parse_all capabilities {} of
        None \<Rightarrow> Inl capability_denied
      | Some caps \<Rightarrow> Inr \<lparr>id_actor_id = token_id, id_display_name = label, id_capabilities = Scoped caps\<rparr>)"

datatype operator_scope = ScopeAll | ScopeUser string

definition identity_scope :: "operator_identity \<Rightarrow> operator_scope" where
  "identity_scope i =
     (case id_capabilities i of
        Scoped _ \<Rightarrow> ScopeAll
      | Unscoped \<Rightarrow> if id_actor_id i = SHARED_OPERATOR_ACTOR then ScopeAll else ScopeUser (id_actor_id i))"

definition identity_require_unscoped :: "operator_identity \<Rightarrow> unit http_result" where
  "identity_require_unscoped i =
     (if tc_is_unscoped (id_capabilities i) then Inr () else Inl capability_denied)"

definition identity_require_capability :: "operator_identity \<Rightarrow> operator_capability \<Rightarrow> unit http_result" where
  "identity_require_capability i capability =
     (if tc_allows (id_capabilities i) capability then Inr () else Inl capability_denied)"

record auth_context =
  au_identity :: operator_identity
  au_scope :: operator_scope
  au_actor_id :: string

definition auth_context_of :: "operator_identity \<Rightarrow> auth_context" where
  "auth_context_of i = \<lparr>au_identity = i, au_scope = identity_scope i, au_actor_id = id_actor_id i\<rparr>"

definition requested_actor :: "string option \<Rightarrow> string" where
  "requested_actor requested =
     (case requested of
        None \<Rightarrow> SHARED_OPERATOR_ACTOR
      | Some value \<Rightarrow> if trim value = [] then SHARED_OPERATOR_ACTOR else trim value)"

definition actor_or :: "auth_context \<Rightarrow> string option \<Rightarrow> string" where
  "actor_or auth requested =
     (if au_actor_id auth \<noteq> SHARED_OPERATOR_ACTOR then au_actor_id auth else requested_actor requested)"

definition auth_require_all_scope :: "auth_context \<Rightarrow> unit http_result" where
  "auth_require_all_scope auth =
     res_bind (identity_require_unscoped (au_identity auth)) (\<lambda>_.
       case au_scope auth of ScopeAll \<Rightarrow> Inr () | ScopeUser _ \<Rightarrow> Inl scope_forbidden)"

definition auth_require_all_scope_or_self :: "auth_context \<Rightarrow> string \<Rightarrow> unit http_result" where
  "auth_require_all_scope_or_self auth user_id =
     res_bind (identity_require_unscoped (au_identity auth)) (\<lambda>_.
       case au_scope auth of
         ScopeAll \<Rightarrow> Inr ()
       | ScopeUser actor \<Rightarrow> if actor = user_id then Inr () else Inl scope_forbidden)"

text \<open>
  The scope as a filter of rows: as the two parameters of the SQL predicate
  \<open>(?all = 1 OR col = ?user)\<close> (a \<open>NULL\<close> column equals nothing) and as a function.
\<close>

fun scope_sql_params :: "operator_scope \<Rightarrow> int \<times> string" where
  "scope_sql_params ScopeAll = (1, [])"
| "scope_sql_params (ScopeUser user_id) = (0, user_id)"

definition scope_sql_filter :: "operator_scope \<Rightarrow> string option \<Rightarrow> bool" where
  "scope_sql_filter scope col = (case scope_sql_params scope of (all, user) \<Rightarrow> all = 1 \<or> col = Some user)"

fun matches_source_user :: "operator_scope \<Rightarrow> string option \<Rightarrow> bool" where
  "matches_source_user ScopeAll source_user = True"
| "matches_source_user (ScopeUser user_id) source_user = (source_user = Some user_id)"

definition require_source_user :: "operator_scope \<Rightarrow> string option \<Rightarrow> store_error + unit" where
  "require_source_user scope source_user =
     (if matches_source_user scope source_user then Inr () else Inl (Domain ''scope_forbidden''))"

lemma scope_filters_agree: "scope_sql_filter scope col = matches_source_user scope col"
  by (cases scope) (simp_all add: scope_sql_filter_def)

section \<open>Session cookies\<close>

definition OPERATOR_SESSION_COOKIE :: string where "OPERATOR_SESSION_COOKIE = ''bos_operator_session''"
definition OPERATOR_SESSION_COOKIE_PREFIX :: string where "OPERATOR_SESSION_COOKIE_PREFIX = ''boss2''"
definition OPERATOR_SESSION_ABSOLUTE_TTL_MS :: u64 where "OPERATOR_SESSION_ABSOLUTE_TTL_MS = 604800000"
definition OPERATOR_SESSION_IDLE_TTL_MS :: u64 where "OPERATOR_SESSION_IDLE_TTL_MS = 43200000"

text \<open>The two headers the gate reads (already decoded with \<open>to_str\<close>).\<close>

record headers =
  hd_authorization :: "string option"
  hd_cookie :: "string option"

fun find_cookie :: "string \<Rightarrow> string list \<Rightarrow> string option" where
  "find_cookie name [] = None"
| "find_cookie name (part # parts) =
     (case split_once (CHR ''='') (trim part) of
        Some (key, v) \<Rightarrow> if key = name then Some v else find_cookie name parts
      | None \<Rightarrow> find_cookie name parts)"

definition cookie_value :: "headers \<Rightarrow> string \<Rightarrow> string option" where
  "cookie_value hs name = Option.bind (hd_cookie hs) (\<lambda>cookie. find_cookie name (split_on (CHR '';'') cookie))"

definition is_hex_256 :: "string \<Rightarrow> bool" where
  "is_hex_256 value \<longleftrightarrow> length value = 64 \<and> list_all is_hexdigit value"

record signed_cookie =
  sg_issued_at_ms :: u64
  sg_token_fingerprint :: string
  sg_proof :: string

definition session_proof_material :: "string \<Rightarrow> u64 \<Rightarrow> string" where
  "session_proof_material client_id issued_at_ms = client_id @ '':'' @ dec_string (unat issued_at_ms)"

definition signed_session_cookie_value :: "(string \<Rightarrow> string) \<Rightarrow> string \<Rightarrow> string \<Rightarrow> u64 \<Rightarrow> string" where
  "signed_session_cookie_value sha client_id token issued_at_ms =
     (let fingerprint = session_token_fingerprint sha token;
          prf = session_token_proof sha token fingerprint (session_proof_material client_id issued_at_ms)
      in OPERATOR_SESSION_COOKIE_PREFIX @ ''_'' @ dec_string (unat issued_at_ms) @ ''_'' @ fingerprint
         @ ''_'' @ prf)"

definition parse_signed_session_cookie_value :: "string \<Rightarrow> signed_cookie option" where
  "parse_signed_session_cookie_value value =
     Option.bind (strip_prefix OPERATOR_SESSION_COOKIE_PREFIX value) (\<lambda>rest.
     Option.bind (strip_prefix ''_'' rest) (\<lambda>rest.
       case split_on (CHR ''_'') rest of
         [issued, fingerprint, prf] \<Rightarrow>
           Option.bind (parse_u64 issued) (\<lambda>issued_at.
             if is_hex_256 fingerprint \<and> is_hex_256 prf
             then Some \<lparr>sg_issued_at_ms = issued_at, sg_token_fingerprint = fingerprint, sg_proof = prf\<rparr>
             else None)
       | _ \<Rightarrow> None))"

section \<open>The gate\<close>

record operator_session =
  se_token :: string
  se_issued_at_ms :: u64
  se_last_seen_at_ms :: u64

record app_state =
  as_client_id :: string
  as_operator_token :: "string option"
  as_operator_sessions :: "(string, operator_session) hash_map"
  as_revoked_operator_sessions :: "string list"

definition saturating_sub :: "u64 \<Rightarrow> u64 \<Rightarrow> u64" where
  "saturating_sub a b = (if b \<le> a then a - b else 0)"

definition http_denied :: "string \<Rightarrow> http_error" where
  "http_denied code = \<lparr>he_status = 401, he_code = code\<rparr>"

definition user_identity :: "operator_user \<Rightarrow> operator_identity" where
  "user_identity user = \<lparr>id_actor_id = us_user_id user, id_display_name = us_display_name user, id_capabilities = Unscoped\<rparr>"

definition authenticate_presented_token ::
    "(string \<Rightarrow> string) \<Rightarrow> app_state \<Rightarrow> 'x auth_tables_scheme db \<Rightarrow> string option \<Rightarrow> operator_identity http_result" where
  "authenticate_presented_token sha st db presented =
     (case presented of
        None \<Rightarrow>
          if as_operator_token st = None then Inr identity_shared
          else Inl (http_denied ''operator_token_invalid'')
      | Some token \<Rightarrow>
          if as_operator_token st = Some token then Inr identity_shared
          else (case find_active_by_token db (as_client_id st) token of
                  Some user \<Rightarrow> Inr (user_identity user)
                | None \<Rightarrow>
                    (case find_active_by_token_hash db (as_client_id st) (token_hash sha token) of
                       Some t \<Rightarrow> identity_scoped (ot_token_id t) (ot_label t) (ot_capabilities t)
                     | None \<Rightarrow> Inl (http_denied ''operator_token_invalid''))))"

definition signed_session_token ::
    "(string \<Rightarrow> string) \<Rightarrow> app_state \<Rightarrow> 'x auth_tables_scheme db \<Rightarrow> u64 \<Rightarrow> string \<Rightarrow> string option http_result" where
  "signed_session_token sha st db now_ms session_id =
     (case parse_signed_session_cookie_value session_id of
        None \<Rightarrow> Inr None
      | Some ck \<Rightarrow>
          if session_id \<in> set (as_revoked_operator_sessions st)
          then Inl (http_denied ''operator_session_invalid'')
          else if saturating_sub now_ms (sg_issued_at_ms ck) > OPERATOR_SESSION_ABSOLUTE_TTL_MS
          then Inl (http_denied ''operator_session_expired'')
          else
            let material = session_proof_material (as_client_id st) (sg_issued_at_ms ck) in
            (case (case as_operator_token st of
                     None \<Rightarrow> None
                   | Some token \<Rightarrow>
                       if session_token_fingerprint sha token = sg_token_fingerprint ck
                        \<and> session_token_proof sha token (sg_token_fingerprint ck) material = sg_proof ck
                       then Some token else None) of
               Some token \<Rightarrow> Inr (Some token)
             | None \<Rightarrow>
                 (case find_active_token_by_session_proof sha db (as_client_id st)
                         (sg_token_fingerprint ck) (sg_proof ck) material of
                    Some token \<Rightarrow> Inr (Some token)
                  | None \<Rightarrow> Inl (http_denied ''operator_session_invalid''))))"

definition session_token_from_headers ::
    "(string \<Rightarrow> string) \<Rightarrow> 'x auth_tables_scheme db \<Rightarrow> u64 \<Rightarrow> headers \<Rightarrow> (app_state, http_error, string option) op" where
  "session_token_from_headers sha db now_ms hs st =
     (case cookie_value hs OPERATOR_SESSION_COOKIE of
        None \<Rightarrow> (Inr None, st)
      | Some session_id \<Rightarrow>
          (case signed_session_token sha st db now_ms session_id of
             Inl e \<Rightarrow> (Inl e, st)
           | Inr (Some token) \<Rightarrow> (Inr (Some token), st)
           | Inr None \<Rightarrow>
               (case hm_get (as_operator_sessions st) session_id of
                  None \<Rightarrow> (Inl (http_denied ''operator_session_invalid''), st)
                | Some session \<Rightarrow>
                    if saturating_sub now_ms (se_last_seen_at_ms session) > OPERATOR_SESSION_IDLE_TTL_MS
                     \<or> saturating_sub now_ms (se_issued_at_ms session) > OPERATOR_SESSION_ABSOLUTE_TTL_MS
                    then (Inl (http_denied ''operator_session_expired''),
                          st\<lparr>as_operator_sessions := hm_remove session_id (as_operator_sessions st)\<rparr>)
                    else (Inr (Some (se_token session)),
                          st\<lparr>as_operator_sessions :=
                               hm_insert session_id (session\<lparr>se_last_seen_at_ms := now_ms\<rparr>)
                                 (as_operator_sessions st)\<rparr>))))"

definition bearer_token :: "headers \<Rightarrow> string option" where
  "bearer_token hs = Option.bind (hd_authorization hs) (strip_prefix ''Bearer '')"

definition resolve_operator ::
    "(string \<Rightarrow> string) \<Rightarrow> 'x auth_tables_scheme db \<Rightarrow> u64 \<Rightarrow> headers \<Rightarrow> (app_state, http_error, operator_identity) op" where
  "resolve_operator sha db now_ms hs st =
     (case bearer_token hs of
        Some token \<Rightarrow> (authenticate_presented_token sha st db (Some token), st)
      | None \<Rightarrow>
          (case session_token_from_headers sha db now_ms hs st of
             (Inl e, st') \<Rightarrow> (Inl e, st')
           | (Inr token, st') \<Rightarrow> (authenticate_presented_token sha st' db token, st')))"

definition authenticate_operator ::
    "(string \<Rightarrow> string) \<Rightarrow> 'x auth_tables_scheme db \<Rightarrow> u64 \<Rightarrow> headers \<Rightarrow> (app_state, http_error, operator_identity) op" where
  "authenticate_operator sha db now_ms hs =
     op_bind (resolve_operator sha db now_ms hs) (\<lambda>i.
       op_lift (res_bind (identity_require_unscoped i) (\<lambda>_. Inr i)))"

definition authenticate ::
    "(string \<Rightarrow> string) \<Rightarrow> 'x auth_tables_scheme db \<Rightarrow> u64 \<Rightarrow> headers \<Rightarrow> (app_state, http_error, auth_context) op" where
  "authenticate sha db now_ms hs = op_map auth_context_of (authenticate_operator sha db now_ms hs)"

definition require_scope ::
    "(string \<Rightarrow> string) \<Rightarrow> 'x auth_tables_scheme db \<Rightarrow> u64 \<Rightarrow> headers \<Rightarrow> (app_state, http_error, operator_scope) op" where
  "require_scope sha db now_ms hs = op_map au_scope (authenticate sha db now_ms hs)"

definition require_all_scope ::
    "(string \<Rightarrow> string) \<Rightarrow> 'x auth_tables_scheme db \<Rightarrow> u64 \<Rightarrow> headers \<Rightarrow> (app_state, http_error, unit) op" where
  "require_all_scope sha db now_ms hs =
     op_bind (require_scope sha db now_ms hs) (\<lambda>s.
       op_lift (case s of ScopeAll \<Rightarrow> Inr () | ScopeUser _ \<Rightarrow> Inl scope_forbidden))"

definition require_capability ::
    "(string \<Rightarrow> string) \<Rightarrow> 'x auth_tables_scheme db \<Rightarrow> u64 \<Rightarrow> headers \<Rightarrow> operator_capability
       \<Rightarrow> (app_state, http_error, auth_context) op" where
  "require_capability sha db now_ms hs capability =
     op_bind (resolve_operator sha db now_ms hs) (\<lambda>i.
       op_lift (res_bind (identity_require_capability i capability) (\<lambda>_. Inr (auth_context_of i))))"

definition operator_credentials_configured :: "app_state \<Rightarrow> 'x auth_tables_scheme db \<Rightarrow> bool" where
  "operator_credentials_configured st db \<longleftrightarrow>
     as_operator_token st \<noteq> None \<or> any_active_user_token db (as_client_id st)
   \<or> any_active_api_token db (as_client_id st)"

definition authenticate_agent_mcp ::
    "(string \<Rightarrow> string) \<Rightarrow> 'x auth_tables_scheme db \<Rightarrow> u64 \<Rightarrow> headers \<Rightarrow> (app_state, http_error, auth_context) op" where
  "authenticate_agent_mcp sha db now_ms hs st =
     (let resolve = op_bind (resolve_operator sha db now_ms hs) (\<lambda>i.
            op_lift (if tc_allows_mcp_endpoint (id_capabilities i) then Inr (auth_context_of i)
                     else Inl capability_denied))
      in if \<not> operator_credentials_configured st db then (Inl (http_denied ''operator_token_invalid''), st)
         else if bearer_token hs \<noteq> None then resolve st
         else (case session_token_from_headers sha db now_ms hs st of
                 (Inl e, st') \<Rightarrow> (Inl e, st')
               | (Inr None, st') \<Rightarrow> (Inl (http_denied ''operator_token_invalid''), st')
               | (Inr (Some _), st') \<Rightarrow> resolve st'))"

definition create_operator_session_for_token ::
    "(string \<Rightarrow> string) \<Rightarrow> app_state \<Rightarrow> 'x auth_tables_scheme db \<Rightarrow> u64 \<Rightarrow> string \<Rightarrow> string http_result" where
  "create_operator_session_for_token sha st db now_ms token =
     res_bind (authenticate_presented_token sha st db (Some token)) (\<lambda>i.
     res_bind (identity_require_unscoped i) (\<lambda>_.
       Inr (signed_session_cookie_value sha (as_client_id st) token now_ms)))"

definition clear_operator_session :: "headers \<Rightarrow> app_state \<Rightarrow> app_state" where
  "clear_operator_session hs st =
     (case cookie_value hs OPERATOR_SESSION_COOKIE of
        None \<Rightarrow> st
      | Some session_id \<Rightarrow>
          if parse_signed_session_cookie_value session_id \<noteq> None
          then st\<lparr>as_revoked_operator_sessions := List.insert session_id (as_revoked_operator_sessions st)\<rparr>
          else st\<lparr>as_operator_sessions := hm_remove session_id (as_operator_sessions st)\<rparr>)"

definition resolve_actor ::
    "(string \<Rightarrow> string) \<Rightarrow> 'x auth_tables_scheme db \<Rightarrow> u64 \<Rightarrow> headers \<Rightarrow> string option \<Rightarrow> app_state \<Rightarrow> string \<times> app_state" where
  "resolve_actor sha db now_ms hs requested st =
     (case authenticate sha db now_ms hs st of
        (Inr auth, st') \<Rightarrow> (actor_or auth requested, st')
      | (Inl _, st') \<Rightarrow> (requested_actor requested, st'))"

definition authenticate_operator_or_query_token ::
    "(string \<Rightarrow> string) \<Rightarrow> 'x auth_tables_scheme db \<Rightarrow> u64 \<Rightarrow> headers \<Rightarrow> string option
       \<Rightarrow> (app_state, http_error, operator_identity) op" where
  "authenticate_operator_or_query_token sha db now_ms hs query_token st =
     (case (case query_token of
              None \<Rightarrow> authenticate_operator sha db now_ms hs st
            | Some raw \<Rightarrow>
                if trim raw = [] then authenticate_operator sha db now_ms hs st
                else if as_operator_token st = Some (trim raw) then (Inr identity_shared, st)
                else (case find_active_by_token db (as_client_id st) (trim raw) of
                        Some user \<Rightarrow> (Inr (user_identity user), st)
                      | None \<Rightarrow> (Inl (http_denied ''operator_token_invalid''), st))) of
        (Inl e, st') \<Rightarrow> (Inl e, st')
      | (Inr i, st') \<Rightarrow> (res_bind (identity_require_unscoped i) (\<lambda>_. Inr i), st'))"

definition login_session ::
    "(string \<Rightarrow> string) \<Rightarrow> app_state \<Rightarrow> 'x auth_tables_scheme db \<Rightarrow> u64 \<Rightarrow> string \<Rightarrow> string http_result" where
  "login_session sha st db now_ms body_token =
     (if trim body_token = [] then Inl (http_denied ''operator_token_invalid'')
      else create_operator_session_for_token sha st db now_ms (trim body_token))"

end
