(* ===== verification/Operator_Admin.thy ===== *)
theory Operator_Admin
  imports Operator_Auth
begin

text \<open>
  The administration of operators: the services and HTTP handlers of \<open>slices/operator_users\<close> and
  \<open>slices/operator_api_tokens\<close>, and the job-retry route of the outbox, over the gate of
  \<open>Operator_Auth\<close>. A handler maps the process state and the database to an answer and the new states.
  Secrets come from the operating system: they are arguments, \<open>None\<close> when the read fails.
\<close>

section \<open>Services\<close>

text \<open>
  The slug replaces each character by a dash, the model each byte of it: runs of dashes are merged, so the
  result is the same.
\<close>

definition user_id_from_display_name :: "string \<Rightarrow> string + string" where
  "user_id_from_display_name display_name =
     (let dashed = map (\<lambda>c. if is_ascii_alphanumeric c then c else CHR ''-'')
                     (to_ascii_lowercase (trim display_name));
          slug = join_with ''-'' (filter (\<lambda>part. part \<noteq> []) (split_on (CHR ''-'') dashed))
      in if slug = [] then Inl ''operator_user_name_required''
         else Inr (''user_'' @ take (min (length slug) 48) slug))"

definition parse_label :: "string \<Rightarrow> string + string" where
  "parse_label label =
     (if trim label = [] then Inl ''operator_api_token_label_required''
      else if length (trim label) > 80 then Inl ''operator_api_token_label_too_long''
      else Inr (trim label))"

text \<open>The derived order of the capabilities is their declaration order.\<close>

fun capability_rank :: "operator_capability \<Rightarrow> nat" where
  "capability_rank SocialPublishingRead = 0"
| "capability_rank SocialPublishingUpdate = 1"
| "capability_rank SocialPublishingApprove = 2"
| "capability_rank SocialPublishingStage = 3"
| "capability_rank SocialPublishingGenerate = 4"
| "capability_rank AgentMcpIngest = 5"

fun collect_capabilities :: "string list \<Rightarrow> operator_capability list \<Rightarrow> string + operator_capability list" where
  "collect_capabilities [] parsed = Inr parsed"
| "collect_capabilities (value # values) parsed =
     (case capability_parse (trim value) of
        None \<Rightarrow> Inl ''operator_capability_unknown''
      | Some cap \<Rightarrow> collect_capabilities values (if cap \<in> set parsed then parsed else parsed @ [cap]))"

definition parse_capabilities :: "string list \<Rightarrow> string + operator_capability list" where
  "parse_capabilities raw =
     (if raw = [] then Inl ''operator_capabilities_required''
      else res_bind (collect_capabilities raw []) (\<lambda>parsed. Inr (sort_key capability_rank parsed)))"

section \<open>Answers\<close>

datatype http_response =
  Refused http_error
| Mutated nat mutation_outcome
| UserCreated operator_user string
| UserTokenRotated string
| ApiTokenCreated operator_api_token string
| ApiTokenRotated string
| UsersListed "operator_user list"
| ApiTokensListed "operator_api_token list"

definition error_response :: "nat \<Rightarrow> string \<Rightarrow> http_response" where
  "error_response status code = Refused \<lparr>he_status = status, he_code = code\<rparr>"

fun mutation_response :: "mutation_outcome \<Rightarrow> http_response" where
  "mutation_response (MutationApplied i revision) = Mutated 200 (MutationApplied i revision)"
| "mutation_response (MutationReplayed i revision) = Mutated 200 (MutationReplayed i revision)"
| "mutation_response (MutationConflict i current) = Mutated 409 (MutationConflict i current)"

fun store_error_response :: "store_error \<Rightarrow> http_response" where
  "store_error_response (Domain code) = error_response 422 code"
| "store_error_response (Sqlite message) = error_response 500 ''storage_failure''"

definition mutation_result :: "store_error + mutation_outcome \<Rightarrow> http_response" where
  "mutation_result r = (case r of Inr outcome \<Rightarrow> mutation_response outcome | Inl err \<Rightarrow> store_error_response err)"

section \<open>Handlers\<close>

type_synonym 'x web_state = "app_state \<times> 'x auth_tables_scheme db"
type_synonym 'x web_handler = "'x web_state \<Rightarrow> http_response \<times> 'x web_state"

text \<open>
  What every handler starts with: authenticate, check the scope with \<open>gate\<close>, require an idempotency key.
\<close>

definition guarded ::
    "(string \<Rightarrow> string) \<Rightarrow> u64 \<Rightarrow> headers \<Rightarrow> (auth_context \<Rightarrow> unit http_result) \<Rightarrow> string
       \<Rightarrow> (auth_context \<Rightarrow> 'x web_handler) \<Rightarrow> 'x web_handler" where
  "guarded sha now_ms hs gate key act w =
     (case authenticate sha (snd w) now_ms hs (fst w) of
        (Inl e, st) \<Rightarrow> (Refused e, (st, snd w))
      | (Inr auth, st) \<Rightarrow>
          (case gate auth of
             Inl e \<Rightarrow> (Refused e, (st, snd w))
           | Inr _ \<Rightarrow>
               if trim key = [] then (error_response 400 ''idempotency_key_required'', (st, snd w))
               else act auth (st, snd w)))"

definition on_db :: "('x auth_tables_scheme, 'a) db_op \<Rightarrow> (store_error + 'a \<Rightarrow> http_response) \<Rightarrow> 'x web_handler" where
  "on_db m answer w = (case m (snd w) of (r, db') \<Rightarrow> (answer r, (fst w, db')))"

definition users_list :: "(string \<Rightarrow> string) \<Rightarrow> u64 \<Rightarrow> headers \<Rightarrow> bool \<Rightarrow> 'x web_handler" where
  "users_list sha now_ms hs include_archived w =
     (case require_all_scope sha (snd w) now_ms hs (fst w) of
        (Inl e, st) \<Rightarrow> (Refused e, (st, snd w))
      | (Inr _, st) \<Rightarrow> (UsersListed (list_users (snd w) (as_client_id st) include_archived), (st, snd w)))"

definition user_create ::
    "(string \<Rightarrow> string) \<Rightarrow> (operator_user \<Rightarrow> string) \<Rightarrow> u64 \<Rightarrow> headers \<Rightarrow> string \<Rightarrow> string option \<Rightarrow> string
       \<Rightarrow> string option \<Rightarrow> u64 \<Rightarrow> 'x web_handler" where
  "user_create sha render auth_ms hs key requested display_name generated now_ms =
     guarded sha auth_ms hs auth_require_all_scope key (\<lambda>auth w.
       (case user_id_from_display_name display_name of
          Inl code \<Rightarrow> (error_response 422 code, w)
        | Inr user_id \<Rightarrow>
            (case generated of
               None \<Rightarrow> (error_response 500 ''token_generation_failed'', w)
             | Some token \<Rightarrow>
                 let user = \<lparr>us_user_id = user_id, us_display_name = trim display_name, us_active = True,
                             us_archived_at_ms = None, us_default_calendar_id = None,
                             us_created_at_ms = now_ms, us_updated_at_ms = now_ms\<rparr>
                 in on_db (create_user render (as_client_id (fst w)) (actor_or auth requested) user token key)
                      (\<lambda>r. case r of Inr _ \<Rightarrow> UserCreated user token | Inl err \<Rightarrow> store_error_response err) w)))"

datatype user_action_kind = UserEnable | UserDisable | UserArchive

definition action_context_of ::
    "app_state \<Rightarrow> auth_context \<Rightarrow> string option \<Rightarrow> u64 option \<Rightarrow> string \<Rightarrow> u64 \<Rightarrow> action_context" where
  "action_context_of st auth requested expected key now_ms =
     \<lparr>ac_client_id = as_client_id st, ac_actor_id = actor_or auth requested,
      ac_expected_revision = expected, ac_idempotency_key = key, ac_now_ms = now_ms\<rparr>"

definition user_action ::
    "(string \<Rightarrow> string) \<Rightarrow> (bool \<Rightarrow> u64 option \<Rightarrow> string) \<Rightarrow> u64 \<Rightarrow> headers \<Rightarrow> string \<Rightarrow> string option
       \<Rightarrow> u64 option \<Rightarrow> string \<Rightarrow> user_action_kind \<Rightarrow> u64 \<Rightarrow> 'x web_handler" where
  "user_action sha render auth_ms hs key requested expected user_id kind now_ms =
     guarded sha auth_ms hs auth_require_all_scope key (\<lambda>auth w.
       let ctx = action_context_of (fst w) auth requested expected key now_ms in
       case kind of
         UserEnable \<Rightarrow> on_db (user_set_active ctx user_id True) mutation_result w
       | UserDisable \<Rightarrow> on_db (user_set_active ctx user_id False) mutation_result w
       | UserArchive \<Rightarrow>
           if actor_or auth requested = user_id
           then (error_response 422 ''operator_user_self_archive'', w)
           else on_db (archive_user render ctx user_id) mutation_result w)"

definition user_rotate ::
    "(string \<Rightarrow> string) \<Rightarrow> u64 \<Rightarrow> headers \<Rightarrow> string \<Rightarrow> string option \<Rightarrow> string \<Rightarrow> string option \<Rightarrow> u64
       \<Rightarrow> 'x web_handler" where
  "user_rotate sha auth_ms hs key requested user_id generated now_ms =
     guarded sha auth_ms hs (\<lambda>auth. auth_require_all_scope_or_self auth user_id) key (\<lambda>auth w.
       (case generated of
          None \<Rightarrow> (error_response 500 ''token_generation_failed'', w)
        | Some token \<Rightarrow>
            on_db (user_rotate_token (action_context_of (fst w) auth requested None key now_ms) user_id token)
              (\<lambda>r. case r of Inr _ \<Rightarrow> UserTokenRotated token | Inl err \<Rightarrow> store_error_response err) w))"

definition user_default_calendar ::
    "(string \<Rightarrow> string) \<Rightarrow> (string option \<Rightarrow> string) \<Rightarrow> u64 \<Rightarrow> headers \<Rightarrow> string \<Rightarrow> string option \<Rightarrow> u64 option
       \<Rightarrow> string \<Rightarrow> string option \<Rightarrow> u64 \<Rightarrow> 'x web_handler" where
  "user_default_calendar sha render auth_ms hs key requested expected user_id calendar now_ms =
     guarded sha auth_ms hs (\<lambda>auth. auth_require_all_scope_or_self auth user_id) key (\<lambda>auth w.
       let calendar_id = (case calendar of None \<Rightarrow> None | Some raw \<Rightarrow> if trim raw = [] then None else Some (trim raw))
       in on_db (set_default_calendar render (action_context_of (fst w) auth requested expected key now_ms)
                  user_id calendar_id) mutation_result w)"

definition tokens_list :: "(string \<Rightarrow> string) \<Rightarrow> u64 \<Rightarrow> headers \<Rightarrow> 'x web_handler" where
  "tokens_list sha now_ms hs w =
     (case require_all_scope sha (snd w) now_ms hs (fst w) of
        (Inl e, st) \<Rightarrow> (Refused e, (st, snd w))
      | (Inr _, st) \<Rightarrow> (ApiTokensListed (list_tokens (snd w) (as_client_id st)), (st, snd w)))"

definition token_create ::
    "(string \<Rightarrow> string) \<Rightarrow> (operator_api_token \<Rightarrow> string) \<Rightarrow> u64 \<Rightarrow> headers \<Rightarrow> string \<Rightarrow> string option \<Rightarrow> string
       \<Rightarrow> string list \<Rightarrow> string option \<Rightarrow> string option \<Rightarrow> u64 \<Rightarrow> 'x web_handler" where
  "token_create sha metadata_json auth_ms hs key requested label capabilities generated_id generated now_ms =
     guarded sha auth_ms hs auth_require_all_scope key (\<lambda>auth w.
       (case parse_label label of
          Inl code \<Rightarrow> (error_response 422 code, w)
        | Inr label \<Rightarrow>
            (case parse_capabilities capabilities of
               Inl code \<Rightarrow> (error_response 422 code, w)
             | Inr caps \<Rightarrow>
                 (case (generated_id, generated) of
                    (Some token_id, Some secret) \<Rightarrow>
                      let actor = actor_or auth requested;
                          api_token = \<lparr>ot_token_id = token_id, ot_label = label,
                            ot_capabilities = map capability_as_str caps, ot_active = True,
                            ot_revoked_at_ms = None, ot_created_by = actor,
                            ot_created_at_ms = now_ms, ot_updated_at_ms = now_ms\<rparr>
                      in on_db (create_token metadata_json (as_client_id (fst w)) actor api_token
                                 (token_hash sha secret) key)
                           (\<lambda>r. case r of
                                  Inr (MutationApplied _ _) \<Rightarrow> ApiTokenCreated api_token secret
                                | Inr other \<Rightarrow> mutation_response other
                                | Inl err \<Rightarrow> store_error_response err) w
                  | _ \<Rightarrow> (error_response 500 ''token_generation_failed'', w)))))"

datatype token_action_kind = TokenEnable | TokenDisable | TokenRevoke

definition token_action ::
    "(string \<Rightarrow> string) \<Rightarrow> (operator_api_token \<Rightarrow> string) \<Rightarrow> u64 \<Rightarrow> headers \<Rightarrow> string \<Rightarrow> string option
       \<Rightarrow> u64 option \<Rightarrow> string \<Rightarrow> token_action_kind \<Rightarrow> u64 \<Rightarrow> 'x web_handler" where
  "token_action sha metadata_json auth_ms hs key requested expected token_id kind now_ms =
     guarded sha auth_ms hs auth_require_all_scope key (\<lambda>auth w.
       let ctx = action_context_of (fst w) auth requested expected key now_ms in
       on_db (case kind of
                TokenEnable \<Rightarrow> token_set_active ctx token_id True
              | TokenDisable \<Rightarrow> token_set_active ctx token_id False
              | TokenRevoke \<Rightarrow> revoke_token metadata_json ctx token_id) mutation_result w)"

definition token_rotate ::
    "(string \<Rightarrow> string) \<Rightarrow> u64 \<Rightarrow> headers \<Rightarrow> string \<Rightarrow> string option \<Rightarrow> string \<Rightarrow> string option \<Rightarrow> u64
       \<Rightarrow> 'x web_handler" where
  "token_rotate sha auth_ms hs key requested token_id generated now_ms =
     guarded sha auth_ms hs auth_require_all_scope key (\<lambda>auth w.
       (case generated of
          None \<Rightarrow> (error_response 500 ''token_generation_failed'', w)
        | Some secret \<Rightarrow>
            on_db (token_rotate_token (action_context_of (fst w) auth requested None key now_ms) token_id
                     (token_hash sha secret))
              (\<lambda>r. case r of
                     Inr (MutationApplied _ _) \<Rightarrow> ApiTokenRotated secret
                   | Inr other \<Rightarrow> mutation_response other
                   | Inl err \<Rightarrow> store_error_response err) w))"

definition retry_job ::
    "(string \<Rightarrow> string) \<Rightarrow> (string \<Rightarrow> u32 \<Rightarrow> string) \<Rightarrow> u64 \<Rightarrow> headers \<Rightarrow> string \<Rightarrow> string option \<Rightarrow> string
       \<Rightarrow> u64 \<Rightarrow> 'x web_handler" where
  "retry_job sha render auth_ms hs key requested job_id now_ms =
     guarded sha auth_ms hs auth_require_all_scope key (\<lambda>auth w.
       on_db (retry_terminal_job render (as_client_id (fst w)) job_id (actor_or auth requested) key now_ms)
         mutation_result w)"

section \<open>Who am I\<close>

record who_am_i =
  wa_actor_id :: string
  wa_display_name :: string
  wa_capabilities :: "string list option"

text \<open>A \<open>BTreeSet\<close> of capabilities is read in their declaration order.\<close>

fun tc_as_strings :: "token_capabilities \<Rightarrow> string list option" where
  "tc_as_strings Unscoped = None"
| "tc_as_strings (Scoped caps) = Some (map capability_as_str (filter (\<lambda>c. c \<in> caps)
     [SocialPublishingRead, SocialPublishingUpdate, SocialPublishingApprove, SocialPublishingStage,
      SocialPublishingGenerate, AgentMcpIngest]))"

definition whoami ::
    "(string \<Rightarrow> string) \<Rightarrow> 'x auth_tables_scheme db \<Rightarrow> u64 \<Rightarrow> headers \<Rightarrow> (app_state, http_error, who_am_i) op" where
  "whoami sha db now_ms hs =
     op_map (\<lambda>i. \<lparr>wa_actor_id = id_actor_id i, wa_display_name = id_display_name i,
                   wa_capabilities = tc_as_strings (id_capabilities i)\<rparr>)
       (resolve_operator sha db now_ms hs)"

end
