(* ===== verification/Auth_Properties.thy ===== *)
theory Auth_Properties
  imports Operator_Admin
begin

text \<open>
  What the operator gate guarantees: who reaches the all-scope, what a scoped token can do, that a
  revoked or archived credential stays dead, that sessions resolve to the credential they were issued
  for, and that receipts never carry a secret.
\<close>

section \<open>The invariant of the credential tables\<close>

definition unique_col :: "(string \<times> string, 'r) hash_map \<Rightarrow> ('r \<Rightarrow> string) \<Rightarrow> bool" where
  "unique_col m f \<longleftrightarrow> (\<forall>k k' r r'. hm_get m k = Some r \<longrightarrow> hm_get m k' = Some r' \<longrightarrow> fst k = fst k'
     \<longrightarrow> f r = f r' \<longrightarrow> k = k')"

lemma unique_col_insert:
  assumes "unique_col m f"
    and free: "\<And>k' r'. hm_get m k' = Some r' \<Longrightarrow> fst k' = fst k \<Longrightarrow> f r' = f r \<Longrightarrow> k' = k"
  shows "unique_col (hm_insert k r m) f"
  unfolding unique_col_def
proof (intro allI impI)
  fix a b x y
  assume *: "hm_get (hm_insert k r m) a = Some x" "hm_get (hm_insert k r m) b = Some y" "fst a = fst b" "f x = f y"
  show "a = b"
  proof (cases "a = k \<or> b = k")
    case True
    with * free show ?thesis by (metis hm_get_insert option.inject)
  next
    case False
    with * assms(1) show ?thesis unfolding unique_col_def by (metis hm_get_insert)
  qed
qed

definition auth_ok :: "'x auth_tables_scheme db \<Rightarrow> bool" where
  "auth_ok db \<longleftrightarrow> hm_wf (users_of db) \<and> hm_wf (api_tokens_of db)
   \<and> (\<forall>k r. hm_get (users_of db) k = Some r \<longrightarrow> take 5 (snd k) = ''user_'')
   \<and> unique_col (api_tokens_of db) tr_token_hash \<and> unique_col (users_of db) ur_token"

definition user_closed :: "operator_user_row \<Rightarrow> bool" where
  "user_closed r \<longleftrightarrow> \<not> ur_active r \<and> (\<exists>t. ur_archived_at_ms r = Some t \<and> 0 \<le> sint t)"

definition token_closed :: "api_token_row \<Rightarrow> bool" where
  "token_closed r \<longleftrightarrow> (\<exists>t. tr_revoked_at_ms r = Some t \<and> 0 \<le> sint t)"

definition auth_evolve :: "'x auth_tables_scheme db \<Rightarrow> 'x auth_tables_scheme db \<Rightarrow> bool" where
  "auth_evolve db db' \<longleftrightarrow> (auth_ok db \<longrightarrow> auth_ok db')
   \<and> (\<forall>k r. hm_get (users_of db) k = Some r \<longrightarrow> user_closed r \<longrightarrow> hm_get (users_of db') k = Some r)
   \<and> (\<forall>k r. hm_get (api_tokens_of db) k = Some r \<longrightarrow> token_closed r \<longrightarrow> hm_get (api_tokens_of db') k = Some r)"

lemma auth_evolve_same:
  "users_of db' = users_of db \<Longrightarrow> api_tokens_of db' = api_tokens_of db \<Longrightarrow> auth_evolve db db'"
  by (simp add: auth_evolve_def auth_ok_def)

lemma auth_evolve_trans: "auth_evolve a b \<Longrightarrow> auth_evolve b c \<Longrightarrow> auth_evolve a c"
  unfolding auth_evolve_def by blast

lemma put_user_simps [simp]:
  "users_of (put_user k r db) = hm_insert k r (users_of db)" "api_tokens_of (put_user k r db) = api_tokens_of db"
  "db_receipts (put_user k r db) = db_receipts db" "db_revisions (put_user k r db) = db_revisions db"
  by (simp_all add: put_user_def)

lemma put_api_token_simps [simp]:
  "api_tokens_of (put_api_token k r db) = hm_insert k r (api_tokens_of db)"
  "users_of (put_api_token k r db) = users_of db"
  "db_receipts (put_api_token k r db) = db_receipts db" "db_revisions (put_api_token k r db) = db_revisions db"
  by (simp_all add: put_api_token_def)

lemma user_token_free:
  assumes "hm_wf (users_of db)" and "\<not> user_token_taken db k token"
    and "hm_get (users_of db) k' = Some r" "fst k' = fst k" "ur_token r = token"
  shows "k' = k"
  using assms by (fastforce simp: user_token_taken_def list_ex_iff hm_get_iff)

lemma api_hash_free:
  assumes "hm_wf (api_tokens_of db)" and "\<not> api_hash_taken db k hash"
    and "hm_get (api_tokens_of db) k' = Some r" "fst k' = fst k" "tr_token_hash r = hash"
  shows "k' = k"
  using assms by (fastforce simp: api_hash_taken_def list_ex_iff hm_get_iff)

text \<open>Changing one row in place, or adding one, keeps the invariant.\<close>

lemma auth_evolve_put_user:
  assumes "\<And>r'. hm_get (users_of db) k = Some r' \<Longrightarrow> \<not> user_closed r'"
    and new: "hm_get (users_of db) k = None \<Longrightarrow> take 5 (snd k) = ''user_''"
    and "\<not> user_token_taken db k (ur_token r)"
  shows "auth_evolve db (put_user k r db)"
proof -
  have "auth_ok (put_user k r db)" if ok: "auth_ok db"
  proof -
    have wf: "hm_wf (users_of db)" and pre: "\<And>k r. hm_get (users_of db) k = Some r \<Longrightarrow> take 5 (snd k) = ''user_''"
      using ok unfolding auth_ok_def by blast+
    have "take 5 (snd k) = ''user_''" using new pre by (cases "hm_get (users_of db) k") auto
    with ok pre unique_col_insert [OF _ user_token_free [OF wf assms(3)]] show ?thesis
      unfolding auth_ok_def by (auto split: if_splits)
  qed
  then show ?thesis using assms(1) by (auto simp: auth_evolve_def)
qed

lemma auth_evolve_put_token:
  assumes "\<And>r'. hm_get (api_tokens_of db) k = Some r' \<Longrightarrow> \<not> token_closed r'"
    and "\<not> api_hash_taken db k (tr_token_hash r)"
  shows "auth_evolve db (put_api_token k r db)"
proof -
  have "auth_ok (put_api_token k r db)" if ok: "auth_ok db"
  proof -
    have wf: "hm_wf (api_tokens_of db)" using ok by (simp add: auth_ok_def)
    show ?thesis
      using ok unique_col_insert [OF _ api_hash_free [OF wf assms(2)]] unfolding auth_ok_def by auto
  qed
  then show ?thesis using assms(1) by (auto simp: auth_evolve_def)
qed

text \<open>A row that keeps its secret cannot collide.\<close>

lemma user_token_kept:
  "auth_ok db \<Longrightarrow> hm_get (users_of db) k = Some r \<Longrightarrow> \<not> user_token_taken db k (ur_token r)"
  unfolding auth_ok_def unique_col_def user_token_taken_def list_ex_iff by (cases k) (auto simp: hm_get_iff)

lemma api_hash_kept:
  "auth_ok db \<Longrightarrow> hm_get (api_tokens_of db) k = Some r \<Longrightarrow> \<not> api_hash_taken db k (tr_token_hash r)"
  unfolding auth_ok_def unique_col_def api_hash_taken_def list_ex_iff by (cases k) (auto simp: hm_get_iff)

section \<open>Every store operation keeps it\<close>

lemma mutate_domain_cases:
  assumes "spine_safe dw" and "spine_ok (db_receipts db)"
  shows "db_domain (snd (mutate_with_receipt_id req dw db)) = db_domain db
       \<or> (\<exists>db1. dw (next_receipt_id db) db = (Inr (), db1)
            \<and> db_domain (snd (mutate_with_receipt_id req dw db)) = db_domain db1)"
  by (cases rule: mutate_cases [OF assms, of req]) (auto simp: write_revision_def)

lemma mutate_auth_evolve:
  assumes "spine_safe (\<lambda>_. dw)" and "spine_ok (db_receipts db)"
    and "\<And>db1. dw db = (Inr (), db1) \<Longrightarrow> auth_evolve db db1"
  shows "auth_evolve db (snd (mutate req dw db))"
proof -
  have "db_domain a = db_domain b \<Longrightarrow> auth_evolve db a = auth_evolve db b" for a b :: "'a auth_tables_scheme db"
    by (simp add: auth_evolve_def auth_ok_def)
  with mutate_domain_cases [OF assms(1,2), of req] assms(3) auth_evolve_same [of db db] show ?thesis
    unfolding mutate_def by metis
qed

interpretation create_user: spine_write "\<lambda>_. create_user_write client user token" for client user token
  by unfold_locales (auto simp: spine_safe_def create_user_write_def Let_def split: if_splits)

interpretation update_user: spine_write "\<lambda>_. update_user k f" for k f
  by unfold_locales (auto simp: spine_safe_def update_user_def split: option.splits)

interpretation rotate_user: spine_write "\<lambda>_. rotate_user_write k token now_ms" for k token now_ms
  by unfold_locales (auto simp: spine_safe_def rotate_user_write_def update_user_def split: option.splits if_splits)

interpretation create_token: spine_write "\<lambda>_. create_token_write client token hash" for client token hash
  by unfold_locales (auto simp: spine_safe_def create_token_write_def Let_def split: if_splits)

interpretation update_token: spine_write "\<lambda>_. update_api_token k f" for k f
  by unfold_locales (auto simp: spine_safe_def update_api_token_def split: option.splits)

interpretation rotate_token: spine_write "\<lambda>_. rotate_token_write k hash now_ms" for k hash now_ms
  by unfold_locales (auto simp: spine_safe_def rotate_token_write_def update_api_token_def split: option.splits if_splits)

lemma update_user_evolves:
  assumes "auth_ok db" and "\<And>r. ur_token (f r) = ur_token r"
    and "\<And>r. hm_get (users_of db) k = Some r \<Longrightarrow> \<not> user_closed r"
    and "update_user k f db = (Inr (), db1)"
  shows "auth_evolve db db1"
  using assms(4) auth_evolve_same [of db db] auth_evolve_put_user [of db k] assms(2,3)
    user_token_kept [OF assms(1), of k]
  by (auto simp: update_user_def split: option.splits)

lemma update_token_evolves:
  assumes "auth_ok db" and "\<And>r. tr_token_hash (f r) = tr_token_hash r"
    and "\<And>r. hm_get (api_tokens_of db) k = Some r \<Longrightarrow> \<not> token_closed r"
    and "update_api_token k f db = (Inr (), db1)"
  shows "auth_evolve db db1"
  using assms(4) auth_evolve_same [of db db] auth_evolve_put_token [of db k] assms(2,3)
    api_hash_kept [OF assms(1), of k]
  by (auto simp: update_api_token_def split: option.splits)

text \<open>The guards read before the mutation exclude closed rows.\<close>

lemma require_user_evolves:
  assumes "\<And>current. \<forall>row. hm_get (users_of db) (ac_client_id ctx, user_id) = Some row \<longrightarrow> \<not> user_closed row
      \<Longrightarrow> auth_evolve db (snd (action current db))"
  shows "auth_evolve db (snd (require_user ctx user_id action db))"
  using assms auth_evolve_same [of db db]
  by (auto simp: require_user_def get_user_def user_from_row_def unsigned_column_def user_closed_def
      split: option.splits)

lemma require_token_evolves:
  assumes "\<And>current. \<forall>row. hm_get (api_tokens_of db) (ac_client_id ctx, token_id) = Some row \<longrightarrow> \<not> token_closed row
      \<Longrightarrow> auth_evolve db (snd (action current db))"
  shows "auth_evolve db (snd (require_token ctx token_id action db))"
  using assms auth_evolve_same [of db db]
  by (auto simp: require_token_def get_token_def token_from_row_def unsigned_column_def token_closed_def
      require_live_def split: option.splits)

lemma user_open:
  assumes "get_user db client user_id = Some current" "us_archived_at_ms current = None"
    and "hm_get (users_of db) (client, user_id) = Some row"
  shows "\<not> user_closed row"
proof
  assume "user_closed row"
  then have "unsigned_column (ur_archived_at_ms row) \<noteq> None"
    by (auto simp: user_closed_def unsigned_column_def)
  with assms show False by (auto simp: get_user_def user_from_row_def)
qed

lemma user_ops_evolve:
  assumes sp: "spine_ok (db_receipts db)" and ok: "auth_ok db"
  shows "take 5 (us_user_id user) = ''user_'' \<Longrightarrow> auth_evolve db (snd (create_user render client actor user token key db))"
    and "auth_evolve db (snd (archive_user render1 ctx user_id db))"
    and "auth_evolve db (snd (user_set_active ctx user_id active db))"
    and "auth_evolve db (snd (user_rotate_token ctx user_id token db))"
    and "auth_evolve db (snd (set_default_calendar render2 ctx user_id calendar db))"
proof -
  note same = auth_evolve_same [of db db, OF refl refl]
  have upd: "auth_evolve db (snd (mutate req (update_user k f) db))"
    if "\<And>r. ur_token (f r) = ur_token r" "\<forall>row. hm_get (users_of db) k = Some row \<longrightarrow> \<not> user_closed row" for req k f
    by (rule mutate_auth_evolve [OF update_user.safe sp], rule update_user_evolves [OF ok that(1)])
       (use that(2) in blast)+
  have rot: "auth_evolve db (snd (mutate req (rotate_user_write k token t) db))"
    if "\<forall>row. hm_get (users_of db) k = Some row \<longrightarrow> \<not> user_closed row" for req k t
    by (rule mutate_auth_evolve [OF rotate_user.safe sp])
       (use that same in \<open>auto simp: rotate_user_write_def update_user_def split: if_splits option.splits
          intro!: auth_evolve_put_user\<close>)
  show "auth_evolve db (snd (create_user render client actor user token key db))"
    if "take 5 (us_user_id user) = ''user_''"
    unfolding create_user_def using that
    by (intro mutate_auth_evolve [OF create_user.safe sp])
       (auto simp: create_user_write_def Let_def split: if_splits intro!: auth_evolve_put_user)
  have arch: "auth_evolve db (snd (mutate req (update_user (ac_client_id ctx, user_id) f) db))"
    if "get_user db (ac_client_id ctx) user_id = Some current" "us_archived_at_ms current = None"
      "\<And>r. ur_token (f r) = ur_token r" for req current f
    by (rule upd [OF that(3)])
       (use user_open [OF that(1,2)] in blast)
  show "auth_evolve db (snd (archive_user render1 ctx user_id db))"
  proof (cases "get_user db (ac_client_id ctx) user_id")
    case (Some current)
    then show ?thesis by (simp add: archive_user_def same arch [OF Some])
  qed (simp add: archive_user_def same)
  show "auth_evolve db (snd (user_set_active ctx user_id active db))"
    unfolding user_set_active_def by (intro require_user_evolves upd) simp_all
  show "auth_evolve db (snd (user_rotate_token ctx user_id token db))"
    unfolding user_rotate_token_def by (intro require_user_evolves rot)
  show "auth_evolve db (snd (set_default_calendar render2 ctx user_id calendar db))"
    unfolding set_default_calendar_def by (intro require_user_evolves upd) simp_all
qed

lemma token_ops_evolve:
  assumes sp: "spine_ok (db_receipts db)" and ok: "auth_ok db"
  shows "auth_evolve db (snd (create_token render client actor token hash key db))"
    and "auth_evolve db (snd (token_set_active ctx token_id active db))"
    and "auth_evolve db (snd (revoke_token render ctx token_id db))"
    and "auth_evolve db (snd (token_rotate_token ctx token_id hash db))"
proof -
  note same = auth_evolve_same [of db db, OF refl refl]
  have upd: "auth_evolve db (snd (mutate req (update_api_token k f) db))"
    if "\<And>r. tr_token_hash (f r) = tr_token_hash r"
      "\<forall>row. hm_get (api_tokens_of db) k = Some row \<longrightarrow> \<not> token_closed row" for req k f
    by (rule mutate_auth_evolve [OF update_token.safe sp], rule update_token_evolves [OF ok that(1)])
       (use that(2) in blast)+
  have rot: "auth_evolve db (snd (mutate req (rotate_token_write k hash t) db))"
    if "\<forall>row. hm_get (api_tokens_of db) k = Some row \<longrightarrow> \<not> token_closed row" for req k t
    by (rule mutate_auth_evolve [OF rotate_token.safe sp])
       (use that same in \<open>auto simp: rotate_token_write_def update_api_token_def split: if_splits option.splits
          intro!: auth_evolve_put_token\<close>)
  show "auth_evolve db (snd (create_token render client actor token hash key db))"
    unfolding create_token_def
    by (intro mutate_auth_evolve [OF create_token.safe sp])
       (auto simp: create_token_write_def Let_def split: if_splits intro!: auth_evolve_put_token)
  show "auth_evolve db (snd (token_set_active ctx token_id active db))"
    unfolding token_set_active_def by (intro require_token_evolves upd) simp_all
  show "auth_evolve db (snd (revoke_token render ctx token_id db))"
    unfolding revoke_token_def by (intro require_token_evolves upd) simp_all
  show "auth_evolve db (snd (token_rotate_token ctx token_id hash db))"
    unfolding token_rotate_token_def by (intro require_token_evolves rot)
qed

section \<open>Histories of the administration\<close>

text \<open>
  The handlers, logout, the bookkeeping of sessions while other requests are authenticated, and whatever
  the rest of the program does through the spine without touching the credential tables. The shared token
  and the client are fixed for the life of the process.
\<close>

inductive admin_step :: "'x web_state \<Rightarrow> 'x web_state \<Rightarrow> bool" where
  "admin_step w (snd (user_create sha render auth_ms hs key requested display_name generated now_ms w))"
| "admin_step w (snd (user_action sha render1 auth_ms hs key requested expected user_id kind now_ms w))"
| "admin_step w (snd (user_rotate sha auth_ms hs key requested user_id generated now_ms w))"
| "admin_step w (snd (user_default_calendar sha render2 auth_ms hs key requested expected user_id calendar now_ms w))"
| "admin_step w (snd (token_create sha render3 auth_ms hs key requested label caps generated_id generated now_ms w))"
| "admin_step w (snd (token_action sha render3 auth_ms hs key requested expected token_id kind' now_ms w))"
| "admin_step w (snd (token_rotate sha auth_ms hs key requested token_id generated now_ms w))"
| "admin_step w (clear_operator_session hs (fst w), snd w)"
| "admin_step w (snd (resolve_operator sha (snd w) now_ms hs (fst w)), snd w)"
| "spine_step (snd w) db' \<Longrightarrow> users_of db' = users_of (snd w) \<Longrightarrow> api_tokens_of db' = api_tokens_of (snd w)
     \<Longrightarrow> admin_step w (fst w, db')"

definition admin_reachable :: "'x web_state \<Rightarrow> bool" where
  "admin_reachable w \<longleftrightarrow> (\<exists>st d. at_users d = [] \<and> at_api_tokens d = [] \<and> admin_step\<^sup>*\<^sup>* (st, empty_db d) w)"

lemma guarded_db:
  assumes "\<And>auth st. P (snd (snd (act auth (st, snd w))))" and "P (snd w)"
  shows "P (snd (snd (guarded sha now_ms hs gate key act w)))"
  using assms by (auto simp: guarded_def split: prod.split sum.split)

lemma on_db_snd [simp]: "snd (snd (on_db m answer w)) = snd (m (snd w))"
  by (simp add: on_db_def case_prod_beta)

lemma user_id_prefix: "user_id_from_display_name name = Inr user_id \<Longrightarrow> take 5 user_id = ''user_''"
  by (auto simp: user_id_from_display_name_def Let_def split: if_splits)

lemma spine_step_mutate:
  "spine_safe (\<lambda>_. dw) \<Longrightarrow> spine_ok (db_receipts db) \<Longrightarrow> spine_ok (db_receipts (snd (mutate req dw db)))"
  unfolding mutate_def using spine_step_ok spine_step.Mutate by blast

lemma require_spine_ok:
  "(\<And>current. spine_ok (db_receipts (snd (action current db)))) \<Longrightarrow> spine_ok (db_receipts db)
     \<Longrightarrow> spine_ok (db_receipts (snd (require_user ctx user_id action db)))"
  "(\<And>current'. spine_ok (db_receipts (snd (action' current' db)))) \<Longrightarrow> spine_ok (db_receipts db)
     \<Longrightarrow> spine_ok (db_receipts (snd (require_token ctx token_id action' db)))"
  by (auto simp: require_user_def require_token_def split: option.split sum.split)

definition step_ok :: "'x auth_tables_scheme db \<Rightarrow> 'x auth_tables_scheme db \<Rightarrow> bool" where
  "step_ok db db' \<longleftrightarrow> auth_evolve db db' \<and> spine_ok (db_receipts db')"

lemma ops_step_ok:
  assumes sp: "spine_ok (db_receipts db)" and ok: "auth_ok db"
  shows "step_ok db db"
    and "take 5 (us_user_id user) = ''user_'' \<Longrightarrow> step_ok db (snd (create_user render client actor user token key db))"
    and "step_ok db (snd (archive_user render1 ctx user_id db))"
    and "step_ok db (snd (user_set_active ctx user_id active db))"
    and "step_ok db (snd (user_rotate_token ctx user_id token db))"
    and "step_ok db (snd (set_default_calendar render2 ctx user_id calendar db))"
    and "step_ok db (snd (create_token render3 client actor api_token hash key db))"
    and "step_ok db (snd (token_set_active ctx token_id active db))"
    and "step_ok db (snd (revoke_token render3 ctx token_id db))"
    and "step_ok db (snd (token_rotate_token ctx token_id hash db))"
  using user_ops_evolve [OF assms] token_ops_evolve [OF assms] sp auth_evolve_same [of db db]
  unfolding step_ok_def
  by (simp_all add: create_user_def archive_user_def user_set_active_def user_rotate_token_def
      set_default_calendar_def create_token_def token_set_active_def revoke_token_def token_rotate_token_def
      require_spine_ok spine_step_mutate create_user.safe update_user.safe rotate_user.safe create_token.safe
      update_token.safe rotate_token.safe split: option.split)

lemma admin_step_ok:
  assumes "admin_step w w'" and sp: "spine_ok (db_receipts (snd w))" and ok: "auth_ok (snd w)"
  shows "step_ok (snd w) (snd w')"
proof -
  note ops = ops_step_ok [OF sp ok]
  show ?thesis using assms(1)
  proof cases
    case (1 sha render auth_ms hs key requested display_name generated now_ms)
    show ?thesis unfolding 1 user_create_def
      by (rule guarded_db) (auto simp: ops Let_def user_id_prefix split: sum.split option.split)
  next
    case (2 sha render1 auth_ms hs key requested expected user_id kind now_ms)
    show ?thesis unfolding 2 user_action_def
      by (rule guarded_db) (auto simp: ops Let_def split: user_action_kind.split)
  next
    case (3 sha auth_ms hs key requested user_id generated now_ms)
    show ?thesis unfolding 3 user_rotate_def by (rule guarded_db) (auto simp: ops split: option.split)
  next
    case (4 sha render2 auth_ms hs key requested expected user_id calendar now_ms)
    show ?thesis unfolding 4 user_default_calendar_def by (rule guarded_db) (auto simp: ops Let_def)
  next
    case (5 sha render3 auth_ms hs key requested label caps generated_id generated now_ms)
    show ?thesis unfolding 5 token_create_def
      by (rule guarded_db) (auto simp: ops Let_def split: sum.split option.split)
  next
    case (6 sha render3 auth_ms hs key requested expected token_id kind' now_ms)
    show ?thesis unfolding 6 token_action_def
      by (rule guarded_db) (auto simp: ops Let_def split: token_action_kind.split)
  next
    case (7 sha auth_ms hs key requested token_id generated now_ms)
    show ?thesis unfolding 7 token_rotate_def by (rule guarded_db) (auto simp: ops split: option.split)
  next
    case (10 db')
    then show ?thesis using spine_step_ok [OF 10(2) sp] auth_evolve_same by (simp add: step_ok_def)
  qed (simp_all add: ops)
qed

lemma admin_steps_ok:
  assumes "admin_step\<^sup>*\<^sup>* w w'" and "spine_ok (db_receipts (snd w))" "auth_ok (snd w)"
  shows "auth_ok (snd w')" "auth_evolve (snd w) (snd w')" "spine_ok (db_receipts (snd w'))"
proof -
  have "auth_ok (snd w') \<and> step_ok (snd w) (snd w')"
    using assms(1)
  proof (induction rule: rtranclp_induct)
    case base
    show ?case using assms(2,3) ops_step_ok(1) by blast
  next
    case (step y z)
    then have "step_ok (snd y) (snd z)" using admin_step_ok [OF step(2)] unfolding step_ok_def by blast
    with step show ?case
      unfolding step_ok_def using auth_evolve_trans by (auto simp: auth_evolve_def)
  qed
  then show "auth_ok (snd w')" "auth_evolve (snd w) (snd w')" "spine_ok (db_receipts (snd w'))"
    by (simp_all add: step_ok_def)
qed

lemma admin_reachable_ok:
  assumes "admin_reachable w"
  shows "auth_ok (snd w)" "spine_ok (db_receipts (snd w))"
proof -
  obtain st d where "at_users d = []" "at_api_tokens d = []" "admin_step\<^sup>*\<^sup>* (st, empty_db d) w"
    using assms by (auto simp: admin_reachable_def)
  then show "auth_ok (snd w)" "spine_ok (db_receipts (snd w))"
    using admin_steps_ok [of "(st, empty_db d)" w] by (auto simp: empty_db_def auth_ok_def unique_col_def)
qed

section \<open>The gate\<close>

text \<open>The credential a request presents: the bearer token, or else the token of its session.\<close>

definition presented_token ::
    "(string \<Rightarrow> string) \<Rightarrow> 'x auth_tables_scheme db \<Rightarrow> u64 \<Rightarrow> headers \<Rightarrow> app_state \<Rightarrow> string option http_result" where
  "presented_token sha db now_ms hs st =
     (case bearer_token hs of Some token \<Rightarrow> Inr (Some token) | None \<Rightarrow> fst (session_token_from_headers sha db now_ms hs st))"

lemma session_keeps_config:
  "session_token_from_headers sha db now_ms hs st = (r, st')
     \<Longrightarrow> as_client_id st' = as_client_id st \<and> as_operator_token st' = as_operator_token st"
  by (auto simp: session_token_from_headers_def split: option.splits sum.splits if_splits)

lemma authenticate_cong:
  assumes "as_client_id st' = as_client_id st" "as_operator_token st' = as_operator_token st"
  shows "authenticate_presented_token sha st' db presented = authenticate_presented_token sha st db presented"
  unfolding authenticate_presented_token_def assms by (rule refl)

lemma resolve_operator_result:
  "fst (resolve_operator sha db now_ms hs st)
     = res_bind (presented_token sha db now_ms hs st) (authenticate_presented_token sha st db)"
proof (cases "bearer_token hs")
  case None
  obtain r st' where r: "session_token_from_headers sha db now_ms hs st = (r, st')" by fastforce
  show ?thesis
    using None authenticate_cong [of st' st sha db] session_keeps_config [OF r]
    by (cases r) (simp_all add: resolve_operator_def presented_token_def r)
qed (simp add: resolve_operator_def presented_token_def)

lemma fst_op_bind_lift: "fst (op_bind m (\<lambda>a. op_lift (f a)) s) = res_bind (fst (m s)) f"
  by (cases "m s"; cases "fst (m s)") (auto simp: op_bind_def)

lemma fst_op_map: "fst (op_map g m s) = map_sum id g (fst (m s))"
  by (simp add: op_map_def case_prod_beta)

lemma authenticate_result:
  "fst (authenticate sha db now_ms hs st)
     = res_bind (presented_token sha db now_ms hs st) (\<lambda>presented.
       res_bind (authenticate_presented_token sha st db presented) (\<lambda>i.
         if tc_is_unscoped (id_capabilities i) then Inr (auth_context_of i) else Inl capability_denied))"
proof -
  have "map_sum id auth_context_of (res_bind (res_bind p a) (\<lambda>i. res_bind (identity_require_unscoped i) (\<lambda>_. Inr i)))
      = res_bind p (\<lambda>x. res_bind (a x) (\<lambda>i.
         if tc_is_unscoped (id_capabilities i) then Inr (auth_context_of i) else Inl capability_denied))"
    for p :: "'t http_result" and a
    by (cases p) (auto simp: identity_require_unscoped_def res_bind_def split: sum.split)
  then show ?thesis
    by (simp add: authenticate_def authenticate_operator_def fst_op_map fst_op_bind_lift resolve_operator_result)
qed

lemma find_Some_mem: "find P xs = Some x \<Longrightarrow> x \<in> set xs \<and> P x"
  by (metis find_Some_iff nth_mem)

lemma found_user:
  assumes "auth_ok db" and "find_active_by_token db client token = Some user"
  obtains r where "hm_get (users_of db) (client, us_user_id user) = Some r" "ur_token r = token" "user_live r"
    "take 5 (us_user_id user) = ''user_''"
proof -
  obtain k r where kr: "(k, r) \<in> set (users_of db)" "fst k = client" "ur_token r = token" "user_live r"
    "user = user_from_row k r"
    using assms(2) unfolding find_active_by_token_def by (auto dest!: find_Some_mem)
  moreover have get: "hm_get (users_of db) k = Some r" using kr(1) assms(1) by (simp add: auth_ok_def hm_get_iff)
  moreover have "take 5 (snd k) = ''user_''" using get assms(1) unfolding auth_ok_def by blast
  ultimately show ?thesis using that [of r] by (cases k) (simp add: user_from_row_def)
qed

text \<open>
  (C15) Who has the all-scope: in every reachable state a request passes \<open>require_all_scope\<close>, the gate of
  the administration and of every unfiltered view, exactly when the credential it presents is the
  configured shared operator token (or it presents none and none is configured). No personal token, no
  scoped API token and no session of either ever does.
\<close>

theorem all_scope_is_the_shared_operator:
  assumes "admin_reachable (st, db)"
  shows "(fst (require_all_scope sha db now_ms hs st) = Inr ())
     \<longleftrightarrow> presented_token sha db now_ms hs st = Inr (as_operator_token st)"
proof -
  note ok = admin_reachable_ok(1) [OF assms, simplified]
  have gate: "(case authenticate_presented_token sha st db presented of
        Inl _ \<Rightarrow> False | Inr i \<Rightarrow> tc_is_unscoped (id_capabilities i) \<and> identity_scope i = ScopeAll)
      \<longleftrightarrow> presented = as_operator_token st" for presented
  proof (cases "presented = as_operator_token st")
    case True
    then show ?thesis
      by (auto simp: authenticate_presented_token_def identity_shared_def identity_scope_def split: option.split)
  next
    case False
    have "identity_scope (user_identity user) = ScopeUser (us_user_id user)"
      if "find_active_by_token db (as_client_id st) token = Some user" for token user
    proof -
      have "take 5 (us_user_id user) = ''user_''" using found_user [OF ok that] by blast
      then have "us_user_id user \<noteq> SHARED_OPERATOR_ACTOR" by (auto simp: SHARED_OPERATOR_ACTOR_def)
      then show ?thesis by (simp add: identity_scope_def user_identity_def)
    qed
    with False show ?thesis
      by (auto simp: authenticate_presented_token_def identity_scoped_def split: option.splits sum.splits)
  qed
  have "(fst (require_all_scope sha db now_ms hs st) = Inr ())
     \<longleftrightarrow> (\<exists>presented. presented_token sha db now_ms hs st = Inr presented
          \<and> (case authenticate_presented_token sha st db presented of
               Inl _ \<Rightarrow> False | Inr i \<Rightarrow> tc_is_unscoped (id_capabilities i) \<and> identity_scope i = ScopeAll))"
    by (auto simp: require_all_scope_def require_scope_def fst_op_bind_lift fst_op_map authenticate_result
        res_bind_def auth_context_of_def split: sum.splits operator_scope.splits if_splits)
  then show ?thesis using gate by auto
qed

definition sample_app :: app_state where
  "sample_app = \<lparr>as_client_id = ''acme'', as_operator_token = Some ''root'', as_operator_sessions = [],
     as_revoked_operator_sessions = []\<rparr>"

definition sample_auth_db :: "auth_tables db" where
  "sample_auth_db = empty_db \<lparr>ot_jobs = [], at_users = [], at_api_tokens = [], at_google_credentials = [],
     at_qbo_credentials = []\<rparr>"

lemma sample_auth_reachable: "admin_reachable (sample_app, sample_auth_db)"
  unfolding admin_reachable_def sample_auth_db_def
  by (rule exI [of _ sample_app],
      rule exI [of _ "\<lparr>ot_jobs = [], at_users = [], at_api_tokens = [], at_google_credentials = [],
        at_qbo_credentials = []\<rparr>"]) simp

theorem all_scope_is_the_shared_operator_witness:
  "fst (require_all_scope (\<lambda>x. x) sample_auth_db 0
     \<lparr>hd_authorization = Some ''Bearer root'', hd_cookie = None\<rparr> sample_app) = Inr ()"
  using all_scope_is_the_shared_operator [OF sample_auth_reachable, of "\<lambda>x. x" 0
      "\<lparr>hd_authorization = Some ''Bearer root'', hd_cookie = None\<rparr>"]
  by (simp add: presented_token_def bearer_token_def strip_prefix_def sample_app_def)

text \<open>Asking for the session token a second time gives the same answer.\<close>

lemma session_token_again:
  assumes "session_token_from_headers sha db now_ms hs st = (Inr token, st')"
  shows "fst (session_token_from_headers sha db now_ms hs st') = Inr token"
proof -
  have same: "signed_session_token sha (st\<lparr>as_operator_sessions := m\<rparr>) db now_ms c = signed_session_token sha st db now_ms c" for m c
    by (simp add: signed_session_token_def Let_def split: option.split)
  show ?thesis using assms
    by (auto simp: session_token_from_headers_def same saturating_sub_def split: option.splits sum.splits if_splits)
qed

lemma fst_authenticate_operator:
  "fst (authenticate_operator sha db now_ms hs st)
     = res_bind (presented_token sha db now_ms hs st) (\<lambda>presented.
       res_bind (authenticate_presented_token sha st db presented) (\<lambda>i.
         res_bind (identity_require_unscoped i) (\<lambda>_. Inr i)))"
  by (cases "presented_token sha db now_ms hs st")
     (simp_all add: authenticate_operator_def fst_op_bind_lift resolve_operator_result)

lemma mcp_gate:
  assumes p: "presented_token sha db now_ms hs st = Inr (Some token)"
    and a: "authenticate_presented_token sha st db (Some token) = Inr i"
    and t: "find_active_by_token_hash db (as_client_id st) hash = Some t"
  shows "fst (authenticate_agent_mcp sha db now_ms hs st)
     = (if tc_allows_mcp_endpoint (id_capabilities i) then Inr (auth_context_of i) else Inl capability_denied)"
proof -
  have conf: "operator_credentials_configured st db"
    using find_Some_mem t by (fastforce simp: operator_credentials_configured_def any_active_api_token_def
        find_active_by_token_hash_def filter_empty_conv)
  show ?thesis
  proof (cases "bearer_token hs")
    case (Some b)
    then show ?thesis
      using conf p by (simp add: authenticate_agent_mcp_def fst_op_bind_lift resolve_operator_result a)
  next
    case None
    obtain r st' where r: "session_token_from_headers sha db now_ms hs st = (r, st')" by fastforce
    have s: "r = Inr (Some token)" using p None r by (simp add: presented_token_def)
    have "presented_token sha db now_ms hs st' = Inr (Some token)"
      using None session_token_again [OF r [unfolded s]] by (simp add: presented_token_def)
    moreover have "authenticate_presented_token sha st' db (Some token) = Inr i"
      using a authenticate_cong [of st' st sha db] session_keeps_config [OF r] by simp
    ultimately show ?thesis
      using conf None r s by (simp add: authenticate_agent_mcp_def fst_op_bind_lift resolve_operator_result)
  qed
qed

text \<open>
  (C16) A scoped API token is confined to its capabilities. When the presented credential resolves to one, every gate that
  stands for an unscoped operator refuses with \<open>operator_capability_denied\<close> (\<open>authenticate_operator\<close>, \<open>authenticate\<close>,
  \<open>require_scope\<close>, \<open>require_all_scope\<close>, and the gate of the browser-opened routes when no token is in the query), the
  capability gate lets it pass exactly for the capabilities it was issued with, the gate of the agent endpoint exactly if
  \<open>agent_mcp:ingest\<close> is one of them, \<open>GET /api/me\<close>, the one route that takes any credential, answers with its own
  identifier, label and capabilities, and it can open no browser session.
\<close>

theorem scoped_token_confined:
  assumes "presented_token sha db now_ms hs st = Inr (Some token)"
    and "as_operator_token st \<noteq> Some token"
    and "find_active_by_token db (as_client_id st) token = None"
    and "find_active_by_token_hash db (as_client_id st) (token_hash sha token) = Some t"
    and caps: "parse_all (ot_capabilities t) {} = Some caps"
  shows "fst (authenticate_operator sha db now_ms hs st) = Inl capability_denied
     \<and> fst (authenticate sha db now_ms hs st) = Inl capability_denied
     \<and> fst (require_scope sha db now_ms hs st) = Inl capability_denied
     \<and> fst (require_all_scope sha db now_ms hs st) = Inl capability_denied
     \<and> fst (authenticate_operator_or_query_token sha db now_ms hs None st) = Inl capability_denied
     \<and> (\<exists>auth. au_actor_id auth = ot_token_id t
          \<and> (\<forall>c. fst (require_capability sha db now_ms hs c st)
                = (if c \<in> caps then Inr auth else Inl capability_denied))
          \<and> fst (authenticate_agent_mcp sha db now_ms hs st)
                = (if AgentMcpIngest \<in> caps then Inr auth else Inl capability_denied))
     \<and> fst (whoami sha db now_ms hs st)
         = Inr \<lparr>wa_actor_id = ot_token_id t, wa_display_name = ot_label t, wa_capabilities = tc_as_strings (Scoped caps)\<rparr>
     \<and> create_operator_session_for_token sha st db now_ms' token = Inl capability_denied"
proof -
  let ?i = "\<lparr>id_actor_id = ot_token_id t, id_display_name = ot_label t, id_capabilities = Scoped caps\<rparr>"
  have a: "authenticate_presented_token sha st db (Some token) = Inr ?i"
    using assms by (simp add: authenticate_presented_token_def identity_scoped_def)
  have resolved: "fst (resolve_operator sha db now_ms hs st) = Inr ?i"
    by (simp add: resolve_operator_result assms(1) a)
  have operator: "fst (authenticate_operator sha db now_ms hs st) = Inl capability_denied"
    by (simp add: fst_authenticate_operator assms(1) a identity_require_unscoped_def)
  have "fst (authenticate sha db now_ms hs st) = Inl capability_denied"
    by (simp add: authenticate_result assms(1) a)
  moreover have "fst (require_scope sha db now_ms hs st) = Inl capability_denied"
    "fst (require_all_scope sha db now_ms hs st) = Inl capability_denied"
    by (simp_all add: require_all_scope_def require_scope_def fst_op_bind_lift fst_op_map authenticate_result
        assms(1) a)
  moreover have "fst (authenticate_operator_or_query_token sha db now_ms hs None st) = Inl capability_denied"
    using operator by (cases "authenticate_operator sha db now_ms hs st") (simp add: authenticate_operator_or_query_token_def)
  moreover have "fst (require_capability sha db now_ms hs c st)
      = (if c \<in> caps then Inr (auth_context_of ?i) else Inl capability_denied)" for c
    by (simp add: require_capability_def fst_op_bind_lift resolved identity_require_capability_def)
  moreover have "fst (authenticate_agent_mcp sha db now_ms hs st)
      = (if AgentMcpIngest \<in> caps then Inr (auth_context_of ?i) else Inl capability_denied)"
    using mcp_gate [OF assms(1) a assms(4)] by (simp add: tc_allows_mcp_endpoint_def)
  moreover have "fst (whoami sha db now_ms hs st)
      = Inr \<lparr>wa_actor_id = ot_token_id t, wa_display_name = ot_label t, wa_capabilities = tc_as_strings (Scoped caps)\<rparr>"
    by (simp add: whoami_def fst_op_map resolved)
  moreover have "create_operator_session_for_token sha st db now_ms' token = Inl capability_denied"
    by (simp add: create_operator_session_for_token_def a identity_require_unscoped_def)
  ultimately show ?thesis using operator
    by (intro conjI exI [of _ "auth_context_of ?i"]) (simp_all add: auth_context_of_def)
qed

definition sample_token_db :: "auth_tables db" where
  "sample_token_db = put_api_token (''acme'', ''t1'')
     \<lparr>tr_label = ''bridge'', tr_token_hash = token_hash (\<lambda>x. x) ''s3cret'',
      tr_capabilities = [''agent_mcp:ingest''], tr_active = True, tr_created_by = ''operator'',
      tr_created_at_ms = 0, tr_updated_at_ms = 0, tr_revoked_at_ms = None\<rparr> sample_auth_db"

lemma sample_token_facts:
  "find_active_by_token sample_token_db ''acme'' token = None"
  "find_active_by_token_hash sample_token_db ''acme'' (token_hash (\<lambda>x. x) ''s3cret'')
     = Some \<lparr>ot_token_id = ''t1'', ot_label = ''bridge'', ot_capabilities = [''agent_mcp:ingest''],
        ot_active = True, ot_revoked_at_ms = None, ot_created_by = ''operator'',
        ot_created_at_ms = 0, ot_updated_at_ms = 0\<rparr>"
  by (simp_all add: sample_token_db_def sample_auth_db_def empty_db_def find_active_by_token_def
      find_active_by_token_hash_def token_live_def token_from_row_def unsigned_column_def)

theorem scoped_token_confined_witness:
  "fst (authenticate (\<lambda>x. x) sample_token_db 0 \<lparr>hd_authorization = Some ''Bearer s3cret'', hd_cookie = None\<rparr>
     sample_app) = Inl capability_denied"
  using scoped_token_confined [of "\<lambda>x. x" sample_token_db 0
      "\<lparr>hd_authorization = Some ''Bearer s3cret'', hd_cookie = None\<rparr>" sample_app "''s3cret''" _ "{AgentMcpIngest}"]
    sample_token_facts
  by (simp add: presented_token_def bearer_token_def strip_prefix_def sample_app_def capability_parse_def)

end
