(* ===== verification/Session_Properties.thy ===== *)
theory Session_Properties
  imports Auth_Properties
begin

text \<open>
  Sessions and the lifetime of credentials: a session cookie is read back as it was written, it stands for
  the token it was issued for and for nothing once that token is gone, and logging out kills it for the
  rest of the process; a revoked API secret and an archived user are refused for ever.
\<close>

section \<open>Reading a session cookie back\<close>

lemma hex_free: "is_hex_256 s \<Longrightarrow> CHR ''_'' \<notin> set s \<and> CHR '';'' \<notin> set s"
  using is_hexdigit_distinct by (auto simp: is_hex_256_def list_all_iff)

lemma parse_signed_round_trip:
  assumes hex: "\<And>x. is_hex_256 (sha x)"
  shows "parse_signed_session_cookie_value (signed_session_cookie_value sha client token t)
     = Some \<lparr>sg_issued_at_ms = t, sg_token_fingerprint = session_token_fingerprint sha token,
         sg_proof = session_token_proof sha token (session_token_fingerprint sha token)
           (session_proof_material client t)\<rparr>"
proof -
  have "is_hex_256 (session_token_fingerprint sha token)"
    "is_hex_256 (session_token_proof sha token (session_token_fingerprint sha token) (session_proof_material client t))"
    by (simp_all add: session_token_fingerprint_def session_token_proof_def hex)
  then show ?thesis
    by (simp add: parse_signed_session_cookie_value_def signed_session_cookie_value_def Let_def
        strip_prefix_def OPERATOR_SESSION_COOKIE_PREFIX_def split_on_sep split_on_none dec_string_free hex_free
        parse_u64_dec_string)
qed

lemma cookie_value_session:
  assumes hex: "\<And>x. is_hex_256 (sha x)" and "hd_cookie hs = Some (OPERATOR_SESSION_COOKIE @ ''='' @ cookie)"
    and cookie: "cookie = signed_session_cookie_value sha client token t"
  shows "cookie_value hs OPERATOR_SESSION_COOKIE = Some cookie"
proof -
  let ?s = "OPERATOR_SESSION_COOKIE @ ''='' @ cookie"
  define pf where
    "pf = session_token_proof sha token (session_token_fingerprint sha token) (session_proof_material client t)"
  define pre where "pre = OPERATOR_SESSION_COOKIE_PREFIX @ ''_'' @ dec_string (unat t) @ ''_''
    @ session_token_fingerprint sha token @ ''_''"
  have pre: "cookie = pre @ pf" "is_hex_256 pf" "CHR '';'' \<notin> set pre"
    using hex_free [OF hex] dec_string_free
    by (simp_all add: cookie signed_session_cookie_value_def Let_def pf_def pre_def session_token_fingerprint_def
        session_token_proof_def OPERATOR_SESSION_COOKIE_PREFIX_def hex)
  obtain ys d where d: "pf = ys @ [d]" "is_hexdigit d"
    using pre(2) by (cases pf rule: rev_cases) (auto simp: is_hex_256_def)
  have "plain_char (CHR ''b'')"
    by (simp add: hexdigit_plain is_hexdigit_def is_digit_def)
  then have "trim ?s = ?s"
    using trim_plain_word [of "CHR ''b''" d "''os_operator_session='' @ pre @ ys"] hexdigit_plain [OF d(2)]
    by (simp add: OPERATOR_SESSION_COOKIE_def pre(1) d(1))
  moreover have "CHR '';'' \<notin> set ?s"
    using pre hex_free by (auto simp: OPERATOR_SESSION_COOKIE_def)
  moreover have "split_once (CHR ''='') ?s = Some (OPERATOR_SESSION_COOKIE, cookie)"
    using split_once_sep [of "CHR ''=''" OPERATOR_SESSION_COOKIE cookie] by (simp add: OPERATOR_SESSION_COOKIE_def)
  ultimately show ?thesis
    using assms(2) by (simp add: cookie_value_def split_on_none)
qed

section \<open>A session stands for its token\<close>

text \<open>The secrets that may open a session: the shared token and the personal tokens of live users.\<close>

definition session_secret :: "app_state \<Rightarrow> 'x auth_tables_scheme db \<Rightarrow> string \<Rightarrow> bool" where
  "session_secret st db token \<longleftrightarrow> as_operator_token st = Some token
     \<or> (\<exists>(k, r) \<in> set (users_of db). fst k = as_client_id st \<and> user_live r \<and> ur_token r = token)"

lemma signed_session_token_result:
  assumes hex: "\<And>x. is_hex_256 (sha x)"
    and cookie: "cookie = signed_session_cookie_value sha (as_client_id st) token t"
    and free: "\<And>other. session_secret st db other
        \<Longrightarrow> session_token_fingerprint sha other = session_token_fingerprint sha token \<Longrightarrow> other = token"
  shows "signed_session_token sha st db now_ms cookie
     = (if cookie \<in> set (as_revoked_operator_sessions st) then Inl (http_denied ''operator_session_invalid'')
        else if saturating_sub now_ms t > OPERATOR_SESSION_ABSOLUTE_TTL_MS
        then Inl (http_denied ''operator_session_expired'')
        else if session_secret st db token then Inr (Some token)
        else Inl (http_denied ''operator_session_invalid''))"
proof -
  let ?fp = "session_token_fingerprint sha token"
  let ?m = "session_proof_material (as_client_id st) t"
  let ?f = "find_active_token_by_session_proof sha db (as_client_id st) ?fp (session_token_proof sha token ?fp ?m) ?m"
  have shared: "as_operator_token st = Some other \<Longrightarrow> session_token_fingerprint sha other = ?fp \<Longrightarrow> other = token" for other
    using free by (auto simp: session_secret_def)
  have row: "ur_token r = token"
    if "(k, r) \<in> set (users_of db)" "fst k = as_client_id st" "user_live r"
      "session_token_fingerprint sha (ur_token r) = ?fp" for k r
    using free that by (fastforce simp: session_secret_def)
  have "?f = (if \<exists>(k, r) \<in> set (users_of db). fst k = as_client_id st \<and> user_live r \<and> ur_token r = token
              then Some token else None)"
    unfolding find_active_token_by_session_proof_def
    by (cases "find (\<lambda>(k, r). fst k = as_client_id st \<and> user_live r
               \<and> session_token_fingerprint sha (ur_token r) = ?fp
               \<and> session_token_proof sha (ur_token r) ?fp ?m = session_token_proof sha token ?fp ?m) (users_of db)")
       (fastforce simp: find_None_iff dest: row find_Some_mem)+
  then show ?thesis
    using shared parse_signed_round_trip [of sha "as_client_id st" token t, OF hex]
    by (auto simp: signed_session_token_def cookie Let_def session_secret_def split: option.splits)
qed

text \<open>
  (C17) A session is worth exactly its credential. The cookie issued for a token, sent back by the browser in
  any later state of the process, is refused when it was logged out, refused as expired after seven days,
  and otherwise authenticates precisely as the token itself would when presented as a bearer token, as long
  as that token is the shared one or belongs to a live user; once the token is rotated, disabled or
  archived the session is refused too. Assumed of SHA-256: it prints 64 hexadecimal digits, and no other
  stored secret has the fingerprint of this one.
\<close>

theorem session_stands_for_its_token:
  assumes hex: "\<And>x. is_hex_256 (sha x)"
    and issued: "create_operator_session_for_token sha st db t token = Inr cookie"
    and client: "as_client_id st' = as_client_id st"
    and hs: "hd_authorization hs = None" "hd_cookie hs = Some (OPERATOR_SESSION_COOKIE @ ''='' @ cookie)"
    and bearer: "hd_authorization hs' = Some (''Bearer '' @ token)"
    and free: "\<And>other. session_secret st' db' other
        \<Longrightarrow> session_token_fingerprint sha other = session_token_fingerprint sha token \<Longrightarrow> other = token"
  shows "fst (authenticate sha db' now_ms hs st')
     = (if cookie \<in> set (as_revoked_operator_sessions st') then Inl (http_denied ''operator_session_invalid'')
        else if saturating_sub now_ms t > OPERATOR_SESSION_ABSOLUTE_TTL_MS
        then Inl (http_denied ''operator_session_expired'')
        else if session_secret st' db' token then fst (authenticate sha db' now_ms hs' st')
        else Inl (http_denied ''operator_session_invalid''))"
proof -
  have cookie: "cookie = signed_session_cookie_value sha (as_client_id st') token t"
    using issued client by (auto simp: create_operator_session_for_token_def res_bind_def split: sum.splits)
  have "cookie_value hs OPERATOR_SESSION_COOKIE = Some cookie"
    by (rule cookie_value_session [OF hex hs(2) cookie])
  then have "fst (session_token_from_headers sha db' now_ms hs st')
     = (if cookie \<in> set (as_revoked_operator_sessions st') then Inl (http_denied ''operator_session_invalid'')
        else if saturating_sub now_ms t > OPERATOR_SESSION_ABSOLUTE_TTL_MS
        then Inl (http_denied ''operator_session_expired'')
        else if session_secret st' db' token then Inr (Some token)
        else Inl (http_denied ''operator_session_invalid''))"
    unfolding session_token_from_headers_def
    by (simp add: signed_session_token_result [where sha = sha and token = token and t = t, OF hex cookie free])
  then show ?thesis
    by (simp add: authenticate_result presented_token_def bearer_token_def hs(1) bearer strip_prefix_def)
qed

definition sample_digest :: "string \<Rightarrow> string" where
  "sample_digest x = replicate 63 (CHR ''0'') @ [char_of (48 + length x mod 10)]"

lemma sample_digest_hex: "is_hex_256 (sample_digest x)"
  using digit_char [of "length x mod 10"]
  by (simp add: is_hex_256_def sample_digest_def is_hexdigit_def list_all_iff is_digit_def)

theorem session_stands_for_its_token_witness:
  "fst (authenticate sample_digest sample_auth_db 604800000
      \<lparr>hd_authorization = None,
       hd_cookie = Some (OPERATOR_SESSION_COOKIE @ ''=''
         @ signed_session_cookie_value sample_digest ''acme'' ''root'' 0)\<rparr> sample_app)
   = Inr (auth_context_of identity_shared)"
proof -
  have secret: "session_secret sample_app sample_auth_db token \<longleftrightarrow> token = ''root''" for token
    by (auto simp: session_secret_def sample_app_def sample_auth_db_def empty_db_def)
  have "create_operator_session_for_token sample_digest sample_app sample_auth_db 0 ''root''
      = Inr (signed_session_cookie_value sample_digest ''acme'' ''root'' 0)"
    by (simp add: create_operator_session_for_token_def authenticate_presented_token_def sample_app_def
        identity_require_unscoped_def identity_shared_def)
  from session_stands_for_its_token [OF sample_digest_hex this refl, of
      "\<lparr>hd_authorization = None, hd_cookie = Some (OPERATOR_SESSION_COOKIE @ ''=''
         @ signed_session_cookie_value sample_digest ''acme'' ''root'' 0)\<rparr>"
      "\<lparr>hd_authorization = Some ''Bearer root'', hd_cookie = None\<rparr>" sample_auth_db 604800000]
  have "fst (authenticate sample_digest sample_auth_db 604800000
        \<lparr>hd_authorization = None, hd_cookie = Some (OPERATOR_SESSION_COOKIE @ ''=''
         @ signed_session_cookie_value sample_digest ''acme'' ''root'' 0)\<rparr> sample_app)
      = fst (authenticate sample_digest sample_auth_db 604800000
          \<lparr>hd_authorization = Some ''Bearer root'', hd_cookie = None\<rparr> sample_app)"
    using secret [of "''root''"]
    by (simp add: secret saturating_sub_def OPERATOR_SESSION_ABSOLUTE_TTL_MS_def) (simp add: sample_app_def)
  also have "\<dots> = Inr (auth_context_of identity_shared)"
    by (simp add: authenticate_result presented_token_def bearer_token_def strip_prefix_def
        authenticate_presented_token_def sample_app_def identity_shared_def)
  finally show ?thesis .
qed

section \<open>Logging out\<close>

text \<open>A session the process no longer honours: revoked if it is signed, unknown otherwise.\<close>

definition session_dead :: "string \<Rightarrow> app_state \<Rightarrow> bool" where
  "session_dead session_id st \<longleftrightarrow>
     (if parse_signed_session_cookie_value session_id \<noteq> None
      then session_id \<in> set (as_revoked_operator_sessions st)
      else hm_get (as_operator_sessions st) session_id = None)"

lemma session_dead_resolve:
  assumes "session_dead i st"
  shows "session_dead i (snd (resolve_operator sha db now_ms hs st))"
proof -
  have "session_dead i (snd (session_token_from_headers sha db now_ms hs st))"
    using assms
    by (auto simp: session_dead_def session_token_from_headers_def split: option.split sum.split if_splits)
  then show ?thesis
    using assms by (auto simp: resolve_operator_def split: option.split sum.split prod.split)
qed

lemma snd_op_bind_lift: "snd (op_bind m (\<lambda>a. op_lift (f a)) s) = snd (m s)"
  by (cases "m s"; cases "fst (m s)") (auto simp: op_bind_def)

lemma snd_authenticate: "snd (authenticate sha db now_ms hs st) = snd (resolve_operator sha db now_ms hs st)"
  by (simp add: authenticate_def authenticate_operator_def op_map_def case_prod_beta snd_op_bind_lift)

lemma guarded_app:
  assumes "\<And>auth w. fst (snd (act auth w)) = fst w"
  shows "fst (snd (guarded sha now_ms hs gate key act w)) = snd (resolve_operator sha (snd w) now_ms hs (fst w))"
  using snd_authenticate [of sha "snd w" now_ms hs "fst w"]
  by (auto simp: guarded_def assms split: prod.split sum.split)

lemma on_db_app [simp]: "fst (snd (on_db m answer w)) = fst w"
  by (simp add: on_db_def case_prod_beta)

lemma handlers_app:
  "fst (snd (user_create sha render auth_ms hs key requested display_name generated now_ms w))
     = snd (resolve_operator sha (snd w) auth_ms hs (fst w))"
  "fst (snd (user_action sha render1 auth_ms hs key requested expected user_id kind now_ms w))
     = snd (resolve_operator sha (snd w) auth_ms hs (fst w))"
  "fst (snd (user_rotate sha auth_ms hs key requested user_id generated now_ms w))
     = snd (resolve_operator sha (snd w) auth_ms hs (fst w))"
  "fst (snd (user_default_calendar sha render2 auth_ms hs key requested expected user_id calendar now_ms w))
     = snd (resolve_operator sha (snd w) auth_ms hs (fst w))"
  "fst (snd (token_create sha render3 auth_ms hs key requested label caps generated_id generated now_ms w))
     = snd (resolve_operator sha (snd w) auth_ms hs (fst w))"
  "fst (snd (token_action sha render3 auth_ms hs key requested expected token_id kind' now_ms w))
     = snd (resolve_operator sha (snd w) auth_ms hs (fst w))"
  "fst (snd (token_rotate sha auth_ms hs key requested token_id generated now_ms w))
     = snd (resolve_operator sha (snd w) auth_ms hs (fst w))"
  by (simp_all add: user_create_def user_action_def user_rotate_def user_default_calendar_def token_create_def
      token_action_def token_rotate_def guarded_app Let_def split: sum.split option.split user_action_kind.split)

lemma admin_step_app:
  assumes "admin_step w w'"
  obtains sha now_ms hs where "fst w' = snd (resolve_operator sha (snd w) now_ms hs (fst w))"
  | hs where "fst w' = clear_operator_session hs (fst w)" | "fst w' = fst w"
  using assms
proof cases
  case (9 sha now_ms hs)
  then show ?thesis using that(1) [of sha now_ms hs] by simp
qed (use that in \<open>simp_all add: handlers_app\<close>)

lemma session_dead_step:
  assumes "admin_step w w'" and "session_dead i (fst w)"
  shows "session_dead i (fst w')"
proof (cases rule: admin_step_app [OF assms(1)])
  case (2 hs)
  then show ?thesis
    using assms(2) by (auto simp: session_dead_def clear_operator_session_def split: option.split)
qed (use assms(2) in \<open>simp_all add: session_dead_resolve\<close>)

lemma session_dead_refused:
  assumes "session_dead i st" and "cookie_value hs OPERATOR_SESSION_COOKIE = Some i"
  shows "fst (session_token_from_headers sha db now_ms hs st) = Inl (http_denied ''operator_session_invalid'')"
  using assms by (auto simp: session_dead_def session_token_from_headers_def signed_session_token_def
      split: if_splits option.split)

text \<open>
  Logging out is final: after \<open>clear_operator_session\<close>, whatever requests the process serves next, a
  request whose only credential is that session cookie is refused with \<open>operator_session_invalid\<close>,
  whether the cookie was a signed one or a session kept in memory.
\<close>

theorem logout_is_final:
  assumes "cookie_value hs OPERATOR_SESSION_COOKIE = Some session_id"
    and "admin_step\<^sup>*\<^sup>* (clear_operator_session hs st, db) (st', db')"
    and "bearer_token hs' = None" and "cookie_value hs' OPERATOR_SESSION_COOKIE = Some session_id"
  shows "fst (authenticate sha db' now_ms hs' st') = Inl (http_denied ''operator_session_invalid'')"
proof -
  have "session_dead session_id (clear_operator_session hs st)"
    using assms(1) by (simp add: session_dead_def clear_operator_session_def)
  with assms(2) have "session_dead session_id (fst (st', db'))"
    by (induction rule: rtranclp_induct) (auto intro: session_dead_step)
  then show ?thesis
    using session_dead_refused [OF _ assms(4), of st' sha db' now_ms] assms(3)
    by (simp add: authenticate_result presented_token_def)
qed

theorem logout_is_final_witness:
  "fst (authenticate (\<lambda>x. x) sample_auth_db 5 \<lparr>hd_authorization = None, hd_cookie = Some ''bos_operator_session=s1''\<rparr>
     (clear_operator_session \<lparr>hd_authorization = None, hd_cookie = Some ''bos_operator_session=s1''\<rparr>
       (sample_app\<lparr>as_operator_sessions := [(''s1'', \<lparr>se_token = ''root'', se_issued_at_ms = 0, se_last_seen_at_ms = 0\<rparr>)]\<rparr>)))
   = Inl (http_denied ''operator_session_invalid'')"
proof -
  have "cookie_value \<lparr>hd_authorization = None, hd_cookie = Some ''bos_operator_session=s1''\<rparr> OPERATOR_SESSION_COOKIE
      = Some ''s1''"
    using trim_plain_word [of "CHR ''b''" "CHR ''1''" "''os_operator_session=s''"] hexdigit_plain
    by (simp add: cookie_value_def OPERATOR_SESSION_COOKIE_def is_hexdigit_def is_digit_def)
  from logout_is_final [OF this rtranclp.rtrancl_refl _ this] show ?thesis
    by (simp add: bearer_token_def)
qed

section \<open>Revoking and archiving\<close>

lemma resolve_keeps_config:
  "as_client_id (snd (resolve_operator sha db now_ms hs st)) = as_client_id st
   \<and> as_operator_token (snd (resolve_operator sha db now_ms hs st)) = as_operator_token st"
  by (auto simp: resolve_operator_def split: option.split sum.split prod.split dest!: session_keeps_config)

lemma admin_steps_config:
  "admin_step\<^sup>*\<^sup>* w w' \<Longrightarrow> as_client_id (fst w') = as_client_id (fst w)
     \<and> as_operator_token (fst w') = as_operator_token (fst w)"
proof (induction rule: rtranclp_induct)
  case (step y z)
  then show ?case
    by (cases rule: admin_step_app [OF step(2)])
       (auto simp: resolve_keeps_config clear_operator_session_def split: option.split)
qed simp

lemma mutate_applied_write:
  assumes "spine_safe (\<lambda>_. dw)" "spine_ok (db_receipts db)"
    and "mutate req dw db = (Inr (MutationApplied i revision), db')"
  obtains db1 where "dw db = (Inr (), db1)" "db_domain db' = db_domain db1"
  using assms(3) unfolding mutate_def
  by (cases rule: mutate_cases [OF assms(1,2), of req]) (auto simp: write_revision_def)

lemma guarded_acts:
  assumes "guarded sha now_ms hs gate key act w = (answer, w')" and "\<And>e. answer \<noteq> Refused e"
  obtains auth st where "act auth (st, snd w) = (answer, w')"
  using assms by (auto simp: guarded_def error_response_def split: prod.splits sum.splits if_splits)

lemma mutation_result_applied:
  "mutation_result r = Mutated 200 (MutationApplied i revision) \<longleftrightarrow> r = Inr (MutationApplied i revision)"
proof (cases r)
  case (Inl e)
  then show ?thesis by (cases e) (simp_all add: mutation_result_def error_response_def)
next
  case (Inr x)
  then show ?thesis by (cases x) (auto simp: mutation_result_def)
qed

lemma closed_hash_dead:
  assumes ok: "auth_ok db" and r: "hm_get (api_tokens_of db) (client, token_id) = Some r" "token_closed r"
  shows "find_active_by_token_hash db client (tr_token_hash r) = None"
proof -
  have "k = (client, token_id) \<and> r' = r"
    if "(k, r') \<in> set (api_tokens_of db)" "fst k = client" "tr_token_hash r' = tr_token_hash r" for k r'
  proof -
    have get: "hm_get (api_tokens_of db) k = Some r'" using ok that(1) by (simp add: auth_ok_def hm_get_iff)
    have "unique_col (api_tokens_of db) tr_token_hash" using ok by (simp add: auth_ok_def)
    with get r(1) that(2,3) have "k = (client, token_id)"
      unfolding unique_col_def by (metis fst_conv)
    with get r(1) show ?thesis by simp
  qed
  moreover have "\<not> token_live r" using r(2) by (auto simp: token_closed_def token_live_def)
  ultimately show ?thesis by (fastforce simp: find_active_by_token_hash_def find_None_iff)
qed

lemma revoke_closes:
  assumes "spine_ok (db_receipts db)" and "0 \<le> sint (ac_now_ms ctx)"
    and "revoke_token metadata ctx token_id db = (Inr (MutationApplied i revision), db')"
  obtains r r' where "hm_get (api_tokens_of db) (ac_client_id ctx, token_id) = Some r"
    "hm_get (api_tokens_of db') (ac_client_id ctx, token_id) = Some r'" "tr_token_hash r' = tr_token_hash r"
    "token_closed r'"
proof -
  let ?k = "(ac_client_id ctx, token_id)"
  let ?f = "\<lambda>r. r\<lparr>tr_active := False, tr_revoked_at_ms := Some (ac_now_ms ctx), tr_updated_at_ms := ac_now_ms ctx\<rparr>"
  obtain r where r: "hm_get (api_tokens_of db) ?k = Some r"
    and m: "\<exists>req. mutate req (update_api_token ?k ?f) db = (Inr (MutationApplied i revision), db')"
    using assms(3) by (auto simp: revoke_token_def require_token_def get_token_def split: option.splits sum.splits)
  from m obtain req where m: "mutate req (update_api_token ?k ?f) db = (Inr (MutationApplied i revision), db')" ..
  obtain db1 where "update_api_token ?k ?f db = (Inr (), db1)" "db_domain db' = db_domain db1"
    by (rule mutate_applied_write [OF update_token.safe assms(1) m])
  then have "hm_get (api_tokens_of db') ?k = Some (?f r)" by (auto simp: update_api_token_def r)
  then show thesis using assms(2) by (intro that [OF r, of "?f r"]) (simp_all add: token_closed_def)
qed

text \<open>
  (C18) Revocation is permanent: once the revoke route has answered success, no later history of requests,
  rotations and new tokens makes the secret that the token had at that moment authenticate again, as a
  bearer token or as the basis of a session; it is refused like an unknown one unless it also is the shared
  token or somebody's personal token.
\<close>

theorem revoked_secret_is_refused:
  assumes "admin_reachable (st, db)" and "0 \<le> sint now_ms"
    and act: "token_action sha metadata auth_ms hs key requested expected token_id TokenRevoke now_ms (st, db)
      = (Mutated 200 (MutationApplied i revision), w)"
    and row: "hm_get (api_tokens_of db) (as_client_id st, token_id) = Some r"
    and secret: "tr_token_hash r = token_hash sha secret"
    and later: "admin_step\<^sup>*\<^sup>* w (st', db')"
    and other: "as_operator_token st' \<noteq> Some secret" "find_active_by_token db' (as_client_id st') secret = None"
  shows "authenticate_presented_token sha st' db' (Some secret) = Inl (http_denied ''operator_token_invalid'')
    \<and> create_operator_session_for_token sha st' db' now_ms' secret = Inl (http_denied ''operator_token_invalid'')"
proof -
  note ok = admin_reachable_ok [OF assms(1), simplified]
  have step: "admin_step (st, db) w" using admin_step.intros(6) act by (metis snd_conv)
  obtain auth st1 where st1: "on_db (revoke_token metadata (action_context_of st1 auth requested expected key now_ms)
      token_id) mutation_result (st1, db) = (Mutated 200 (MutationApplied i revision), w)"
    using act unfolding token_action_def by (auto elim!: guarded_acts simp: Let_def)
  obtain db1 where db1: "revoke_token metadata (action_context_of st1 auth requested expected key now_ms) token_id db
      = (Inr (MutationApplied i revision), db1)" "w = (st1, db1)"
    using st1 by (auto simp: on_db_def mutation_result_applied split: prod.splits)
  have c: "as_client_id st1 = as_client_id st" "as_client_id st' = as_client_id st"
    using admin_steps_config [OF r_into_rtranclp [of admin_step, OF step]] admin_steps_config [OF later] db1(2)
    by simp_all
  obtain r' where r': "hm_get (api_tokens_of db1) (as_client_id st, token_id) = Some r'"
      "tr_token_hash r' = tr_token_hash r" "token_closed r'"
    using revoke_closes [OF ok(2) _ db1(1)] assms(2) row c(1) by (auto simp: action_context_of_def)
  have ok1: "auth_ok db1" "spine_ok (db_receipts db1)"
    using admin_steps_ok [OF r_into_rtranclp [of admin_step, OF step]] ok db1(2) by simp_all
  note evolve = admin_steps_ok [OF later] 
  have "auth_ok db'" "hm_get (api_tokens_of db') (as_client_id st, token_id) = Some r'"
    using evolve ok1 r' db1(2) unfolding auth_evolve_def by simp_all
  from closed_hash_dead [OF this r'(3)] have "find_active_by_token_hash db' (as_client_id st') (token_hash sha secret) = None"
    using r'(2) secret c(2) by simp
  with other show ?thesis
    by (simp add: authenticate_presented_token_def create_operator_session_for_token_def)
qed

definition sample_root :: headers where
  "sample_root = \<lparr>hd_authorization = Some ''Bearer root'', hd_cookie = None\<rparr>"

lemma sample_root_authenticates:
  "as_operator_token st = Some ''root'' \<Longrightarrow>
     authenticate sha db now_ms sample_root st = (Inr (auth_context_of identity_shared), st)"
  by (simp add: authenticate_def authenticate_operator_def resolve_operator_def sample_root_def bearer_token_def
      strip_prefix_def authenticate_presented_token_def op_map_def op_bind_def identity_require_unscoped_def
      identity_shared_def)

lemma sample_trims: "trim ''k1'' = ''k1''" "trim ''k2'' = ''k2''" "trim ''bridge'' = ''bridge''"
    "trim ''agent_mcp:ingest'' = ''agent_mcp:ingest''" "trim ''Ann'' = ''Ann''"
  by code_simp+

lemma sample_all_scope:
  "auth_require_all_scope (auth_context_of identity_shared) = Inr ()"
  "actor_or (auth_context_of identity_shared) None = ''operator''"
  by (simp_all add: actor_or_def requested_actor_def SHARED_OPERATOR_ACTOR_def auth_require_all_scope_def auth_context_of_def identity_shared_def identity_require_unscoped_def
      identity_scope_def)

definition sample_issued :: "unit web_state" where
  "sample_issued = snd (token_create (\<lambda>x. x) (\<lambda>_. ''{}'') 0 sample_root ''k1'' None ''bridge'' [''agent_mcp:ingest'']
     (Some ''t1'') (Some ''s3cret'') 1 (sample_app, sample_auth_db))"

lemma sample_issued_reachable: "admin_reachable sample_issued"
  using sample_auth_reachable admin_step.intros(5)
  unfolding admin_reachable_def sample_issued_def by (meson rtranclp.rtrancl_into_rtrancl)

lemmas sample_handler_simps =
  guarded_def sample_root_authenticates sample_all_scope sample_trims on_db_def sample_app_def Let_def
  mutate_def mutate_with_receipt_id_def find_applied_receipt_def empty_db_def read_revision_def insert_receipt_def
  next_receipt_id_def write_revision_def applied_key_taken_def request_entity_def sample_auth_db_def

lemma sample_issued_row:
  "fst sample_issued = sample_app"
  "hm_get (api_tokens_of (snd sample_issued)) (''acme'', ''t1'')
     = Some \<lparr>tr_label = ''bridge'', tr_token_hash = token_hash (\<lambda>x. x) ''s3cret'',
        tr_capabilities = [''agent_mcp:ingest''], tr_active = True, tr_created_by = ''operator'',
        tr_created_at_ms = 1, tr_updated_at_ms = 1, tr_revoked_at_ms = None\<rparr>"
  "users_of (snd sample_issued) = []"
  by (simp_all add: sample_issued_def token_create_def sample_handler_simps parse_label_def parse_capabilities_def
      capability_parse_def create_token_def create_token_write_def api_hash_taken_def put_api_token_def)

lemma sample_app_client: "as_client_id sample_app = ''acme''"
  by (simp add: sample_app_def)

theorem revoked_secret_is_refused_witness:
  "authenticate_presented_token (\<lambda>x. x) sample_app
     (snd (snd (token_action (\<lambda>x. x) (\<lambda>_. ''{}'') 0 sample_root ''k2'' None (Some 1) ''t1'' TokenRevoke 2 sample_issued)))
     (Some ''s3cret'') = Inl (http_denied ''operator_token_invalid'')"
proof -
  let ?act = "token_action (\<lambda>x. x) (\<lambda>_. ''{}'') 0 sample_root ''k2'' None (Some 1) ''t1'' TokenRevoke 2 sample_issued"
  have act: "fst ?act = Mutated 200 (MutationApplied (receipt_text 2) 2)" "fst (snd ?act) = sample_app"
    "users_of (snd (snd ?act)) = []"
    by (simp_all add: token_action_def sample_issued_def token_create_def sample_handler_simps parse_label_def
        parse_capabilities_def capability_parse_def create_token_def create_token_write_def api_hash_taken_def
        put_api_token_def revoke_token_def require_token_def get_token_def require_live_def token_from_row_def
        unsigned_column_def update_api_token_def mutation_result_def action_context_of_def action_request_def
        receipt_of_def TOKEN_ENTITY_KIND_def)
  have issued: "(sample_app, snd sample_issued) = sample_issued" using sample_issued_row(1) by (metis prod.collapse)
  have later: "admin_step\<^sup>*\<^sup>* (snd ?act) (sample_app, snd (snd ?act))"
    using act(2) by (metis prod.collapse rtranclp.rtrancl_refl)
  have "?act = (Mutated 200 (MutationApplied (receipt_text 2) 2), snd ?act)"
    using act(1) by (metis prod.collapse)
  note rev = revoked_secret_is_refused [where st = sample_app and db = "snd sample_issued" and secret = "''s3cret''",
      unfolded issued, OF sample_issued_reachable _ this _ _ later]
  show ?thesis
    by (rule conjunct1 [OF rev [OF _ sample_issued_row(2) [folded sample_app_client]]])
       (simp_all add: act(3) find_active_by_token_def sample_app_def)
qed

section \<open>Retrying the creation of a user\<close>

lemma mutate_taken:
  assumes "spine_safe (\<lambda>_. dw)" "spine_ok (db_receipts db)"
    and "applied_key_taken db (mq_client_id req) (mq_idempotency_key req)"
  shows "\<exists>x. fst (mutate req dw db) = Inr x" "db_domain (snd (mutate req dw db)) = db_domain db"
  using assms(3) unfolding mutate_def
  by (cases rule: mutate_cases [OF assms(1,2), of req]; simp)+

text \<open>
  (C19) A retried creation hands out a token that does not work. When the idempotency key of \<open>user_create\<close>
  has been applied before (the client retries because it lost the first answer), the spine replays: no row
  is written. The route still answers success, with the token it has just generated; this token belongs to
  nobody and is refused on use, while the token of the first answer, the only one stored, is gone.
\<close>

theorem retried_user_create_returns_dead_token:
  assumes "admin_reachable (st, db)"
    and auth: "fst (authenticate sha db auth_ms hs st) = Inr auth" "auth_require_all_scope auth = Inr ()"
    and "trim key \<noteq> []" "user_id_from_display_name name = Inr user_id"
    and taken: "applied_key_taken db (as_client_id st) key"
    and unknown: "authenticate_presented_token sha st db (Some token) = Inl (http_denied ''operator_token_invalid'')"
  shows "case user_create sha render auth_ms hs key requested name (Some token) now_ms (st, db) of
      (answer, st', db') \<Rightarrow>
        (\<exists>user. answer = UserCreated user token \<and> us_user_id user = user_id)
        \<and> users_of db' = users_of db
        \<and> authenticate_presented_token sha st' db' (Some token) = Inl (http_denied ''operator_token_invalid'')"
proof -
  obtain st1 where st1: "authenticate sha db auth_ms hs st = (Inr auth, st1)" using auth(1) by (metis prod.collapse)
  have st1_eq: "st1 = snd (resolve_operator sha db auth_ms hs st)"
    using snd_authenticate [of sha db auth_ms hs st] st1 by simp
  note cfg = resolve_keeps_config [of sha db auth_ms hs st, folded st1_eq]
  let ?user = "\<lparr>us_user_id = user_id, us_display_name = trim name, us_active = True, us_archived_at_ms = None,
     us_default_calendar_id = None, us_created_at_ms = now_ms, us_updated_at_ms = now_ms\<rparr>"
  let ?m = "create_user render (as_client_id st1) (actor_or auth requested) ?user token key db"
  have same: "\<exists>x. fst ?m = Inr x" "db_domain (snd ?m) = db_domain db"
    using mutate_taken [OF create_user.safe admin_reachable_ok(2) [OF assms(1), simplified]] taken cfg
    by (simp_all add: create_user_def)
  have create: "user_create sha render auth_ms hs key requested name (Some token) now_ms (st, db)
      = (UserCreated ?user token, st1, snd ?m)"
    using same(1) assms(4,5) auth(2) by (auto simp: user_create_def guarded_def st1 on_db_def case_prod_beta Let_def)
  moreover have "authenticate_presented_token sha st1 (snd ?m) (Some token)
      = authenticate_presented_token sha st1 db (Some token)"
    unfolding authenticate_presented_token_def find_active_by_token_def find_active_by_token_hash_def same(2)
    by (rule refl)
  moreover have "\<dots> = authenticate_presented_token sha st db (Some token)"
    using cfg by (intro authenticate_cong) simp_all
  ultimately show ?thesis using same(2) unknown by simp
qed

definition sample_created :: "unit web_state" where
  "sample_created = snd (user_create (\<lambda>x. x) (\<lambda>_. ''{}'') 0 sample_root ''k1'' None ''Ann'' (Some ''tok1'') 1
     (sample_app, sample_auth_db))"

lemma sample_user_id: "user_id_from_display_name ''Ann'' = Inr ''user_ann''"
  by code_simp

lemma sample_created_facts:
  "admin_reachable sample_created" "fst sample_created = sample_app"
  "applied_key_taken (snd sample_created) ''acme'' ''k1''" "api_tokens_of (snd sample_created) = []"
  "find_active_by_token (snd sample_created) ''acme'' ''tok2'' = None"
proof -
  show "admin_reachable sample_created"
    using sample_auth_reachable admin_step.intros(1)
    unfolding admin_reachable_def sample_created_def by (meson rtranclp.rtrancl_into_rtrancl)
  show "fst sample_created = sample_app" "applied_key_taken (snd sample_created) ''acme'' ''k1''"
    "api_tokens_of (snd sample_created) = []" "find_active_by_token (snd sample_created) ''acme'' ''tok2'' = None"
    by (simp_all add: sample_created_def user_create_def sample_handler_simps sample_user_id create_user_def
        create_user_write_def user_token_taken_def put_user_def receipt_of_def find_active_by_token_def)
qed

theorem retried_user_create_returns_dead_token_witness:
  "\<exists>user. fst (user_create (\<lambda>x. x) (\<lambda>_. ''{}'') 0 sample_root ''k1'' None ''Ann'' (Some ''tok2'') 2 sample_created)
     = UserCreated user ''tok2''"
proof -
  have "(sample_app, snd sample_created) = sample_created" using sample_created_facts(2) by (metis prod.collapse)
  moreover have "fst (authenticate (\<lambda>x. x) (snd sample_created) 0 sample_root sample_app)
      = Inr (auth_context_of identity_shared)"
    by (simp add: sample_root_authenticates sample_app_def)
  moreover have "authenticate_presented_token (\<lambda>x. x) sample_app (snd sample_created) (Some ''tok2'')
      = Inl (http_denied ''operator_token_invalid'')"
    using sample_created_facts(4,5)
    by (simp add: authenticate_presented_token_def sample_app_def find_active_by_token_hash_def)
  ultimately show ?thesis
    using retried_user_create_returns_dead_token [of sample_app "snd sample_created" "\<lambda>x. x" 0 sample_root
        "auth_context_of identity_shared" "''k1''" "''Ann''" "''user_ann''" "''tok2''" "\<lambda>_. ''{}''" None 2]
      sample_created_facts(1,3) sample_user_id sample_trims sample_all_scope sample_app_client
    by (auto split: prod.splits)
qed

end
