(* ===== verification/Datetime_Input.thy ===== *)
theory Datetime_Input
  imports Rust_Text "HOL-Library.Signed_Division"
begin

text \<open>
  \<open>slices/datetime_input.rs\<close>: the calendar arithmetic and the parsers of dates that operators and models
  write. Strings are UTF-8 bytes; the slices of the code are taken behind checks that the bytes are ASCII.
  Years are \<open>int\<close> and months and days \<open>nat\<close>: every value the code computes lies far inside \<open>i64\<close> and
  \<open>u32\<close>, whose parsers bound what comes in. Rust's \<open>/\<close> truncates: \<open>sdiv\<close> where an operand can be
  negative; \<open>div_euclid\<close> and \<open>rem_euclid\<close> by a positive divisor are \<open>div\<close> and \<open>mod\<close>.
\<close>

section \<open>The civil calendar\<close>

definition is_leap_year :: "int \<Rightarrow> bool" where
  "is_leap_year year \<longleftrightarrow> (year mod 4 = 0 \<and> year mod 100 \<noteq> 0) \<or> year mod 400 = 0"

definition days_in_month :: "int \<Rightarrow> nat \<Rightarrow> nat" where
  "days_in_month year month =
     (if month \<in> {1, 3, 5, 7, 8, 10, 12} then 31
      else if month \<in> {4, 6, 9, 11} then 30
      else if month = 2 then (if is_leap_year year then 29 else 28)
      else 0)"

definition days_from_civil :: "int \<Rightarrow> nat \<Rightarrow> nat \<Rightarrow> int" where
  "days_from_civil year month day =
     (let month = int month; day = int day;
          shifted_year = (if month \<le> 2 then year - 1 else year);
          era = (if shifted_year \<ge> 0 then shifted_year else shifted_year - 399) sdiv 400;
          year_of_era = shifted_year - era * 400;
          day_of_year = (153 * ((month + 9) mod 12) + 2) div 5 + day - 1;
          day_of_era = year_of_era * 365 + year_of_era div 4 - year_of_era div 100 + day_of_year
      in era * 146097 + day_of_era - 719468)"

definition civil_from_days :: "int \<Rightarrow> int \<times> nat \<times> nat" where
  "civil_from_days days =
     (let z = days + 719468;
          era = z div 146097;
          doe = z mod 146097;
          yoe = (doe - doe div 1460 + doe div 36524 - doe div 146096) div 365;
          year = yoe + era * 400;
          doy = doe - (365 * yoe + yoe div 4 - yoe div 100);
          mp = (5 * doy + 2) div 153;
          day = doy - (153 * mp + 2) div 5 + 1;
          month = (if mp < 10 then mp + 3 else mp - 9);
          year = (if month \<le> 2 then year + 1 else year)
      in (year, nat month, nat day))"

definition weekday_for_days :: "int \<Rightarrow> nat" where
  "weekday_for_days days = nat ((days + 3) mod 7)"

section \<open>Canonical dates\<close>

text \<open>\<open>{:04}\<close> of a signed integer: the sign counts.\<close>

definition pad_int :: "nat \<Rightarrow> int \<Rightarrow> string" where
  "pad_int w n = (if n < 0 then CHR ''-'' # dec_pad (w - 1) (nat (- n)) else dec_pad w (nat n))"

definition canonical_date :: "int \<Rightarrow> nat \<Rightarrow> nat \<Rightarrow> string option" where
  "canonical_date year month day =
     (if \<not> (1 \<le> month \<and> month \<le> 12) \<or> day = 0 \<or> day > days_in_month year month then None
      else Some (pad_int 4 year @ ''-'' @ dec_pad 2 month @ ''-'' @ dec_pad 2 day))"

definition parse_ymd :: "string \<Rightarrow> (int \<times> nat \<times> nat) option" where
  "parse_ymd raw =
     (if length raw \<noteq> 10 then None
      else Option.bind (parse_i64 (take 4 raw)) (\<lambda>year.
           Option.bind (parse_u32 (take 2 (drop 5 raw))) (\<lambda>month.
           Option.bind (parse_u32 (take 2 (drop 8 raw))) (\<lambda>day. Some (year, month, day)))))"

definition strict_civil_date :: "string \<Rightarrow> string option" where
  "strict_civil_date raw =
     (if length raw \<noteq> 10 then None
      else if raw ! 4 \<noteq> CHR ''-'' \<or> raw ! 7 \<noteq> CHR ''-''
            \<or> \<not> list_all (\<lambda>(i, b). i = 4 \<or> i = 7 \<or> is_digit b) (List.enumerate 0 raw)
      then None
      else Option.bind (parse_ymd raw) (\<lambda>(year, month, day). canonical_date year month day))"

definition is_civil_date :: "string \<Rightarrow> bool" where
  "is_civil_date raw \<longleftrightarrow> strict_civil_date raw \<noteq> None"

definition civil_day_number :: "string \<Rightarrow> int option" where
  "civil_day_number date =
     Option.bind (strict_civil_date date) (\<lambda>canonical.
     Option.bind (parse_ymd canonical) (\<lambda>(year, month, day). Some (days_from_civil year month day)))"

definition weekday_for_date :: "string \<Rightarrow> nat option" where
  "weekday_for_date date = map_option weekday_for_days (civil_day_number date)"

section \<open>Timestamps\<close>

definition epoch_ms_to_rfc3339_utc :: "u64 \<Rightarrow> string" where
  "epoch_ms_to_rfc3339_utc epoch_ms =
     (let secs = uint epoch_ms div 1000;
          days = secs div 86400;
          secs_of_day = secs mod 86400;
          hour = secs_of_day div 3600;
          minute = (secs_of_day mod 3600) div 60;
          second = secs_of_day mod 60
      in (case civil_from_days days of (year, month, day) \<Rightarrow>
            pad_int 4 year @ ''-'' @ dec_pad 2 month @ ''-'' @ dec_pad 2 day @ ''T''
            @ pad_int 2 hour @ '':'' @ pad_int 2 minute @ '':'' @ pad_int 2 second @ ''Z''))"

definition epoch_ms_to_utc_date :: "u64 \<Rightarrow> string" where
  "epoch_ms_to_utc_date epoch_ms = take 10 (epoch_ms_to_rfc3339_utc epoch_ms)"

definition fits_below :: "string \<Rightarrow> nat \<Rightarrow> bool" where
  "fits_below s bound \<longleftrightarrow> (case parse_u32 s of None \<Rightarrow> False | Some n \<Rightarrow> n \<le> bound)"

text \<open>The zone of a timestamp: \<open>Z\<close> or an offset.\<close>

definition zone_ok :: "string \<Rightarrow> bool" where
  "zone_ok rest \<longleftrightarrow> rest = ''Z'' \<or> rest = ''z''
     \<or> (length rest = 6 \<and> (rest ! 0 = CHR ''+'' \<or> rest ! 0 = CHR ''-'') \<and> is_digit (rest ! 1) \<and> is_digit (rest ! 2)
        \<and> rest ! 3 = CHR '':'' \<and> is_digit (rest ! 4) \<and> is_digit (rest ! 5)
        \<and> fits_below (take 2 (drop 1 rest)) 23 \<and> fits_below (take 2 (drop 4 rest)) 59)"

definition fraction_zone_ok :: "string \<Rightarrow> bool" where
  "fraction_zone_ok rest \<longleftrightarrow>
     (case strip_prefix ''.'' rest of
        None \<Rightarrow> zone_ok rest
      | Some stripped \<Rightarrow> takeWhile is_digit stripped \<noteq> [] \<and> zone_ok (dropWhile is_digit stripped))"

definition is_rfc3339_with_offset :: "string \<Rightarrow> bool" where
  "is_rfc3339_with_offset raw \<longleftrightarrow>
     length raw \<ge> 20
   \<and> list_all (\<lambda>i. is_digit (raw ! i)) [0, 1, 2, 3, 5, 6, 8, 9] \<and> raw ! 4 = CHR ''-'' \<and> raw ! 7 = CHR ''-''
   \<and> strict_civil_date (take 10 raw) \<noteq> None
   \<and> (raw ! 10 = CHR ''T'' \<or> raw ! 10 = CHR ''t'')
   \<and> list_all (\<lambda>i. is_digit (raw ! i)) [11, 12, 14, 15, 17, 18] \<and> raw ! 13 = CHR '':'' \<and> raw ! 16 = CHR '':''
   \<and> fits_below (take 2 (drop 11 raw)) 23 \<and> fits_below (take 2 (drop 14 raw)) 59
   \<and> fits_below (take 2 (drop 17 raw)) 60
   \<and> fraction_zone_ok (drop 19 raw)"

datatype date_input_error = ContextRequired | InvalidDate

definition normalize_rfc3339_datetime :: "string \<Rightarrow> date_input_error + string" where
  "normalize_rfc3339_datetime raw =
     (let trimmed = trim raw
      in if is_rfc3339_with_offset trimmed
         then let canonical = (if trimmed ! 10 = CHR ''t'' then trimmed[10 := CHR ''T''] else trimmed)
              in Inr (if last canonical = CHR ''z'' then butlast canonical @ ''Z'' else canonical)
         else Inl InvalidDate)"

definition rfc3339_date_part :: "string \<Rightarrow> string option" where
  "rfc3339_date_part raw = (if length raw \<ge> 20 \<and> is_rfc3339_with_offset raw then Some (take 10 raw) else None)"

section \<open>Dates relative to an anchor\<close>

record date_input_context =
  dx_anchor_date :: string
  dx_anchor_datetime_utc :: string
  dx_timezone_hint :: string

definition from_epoch_ms :: "u64 \<Rightarrow> string \<Rightarrow> date_input_context" where
  "from_epoch_ms epoch_ms timezone_hint =
     \<lparr>dx_anchor_date = epoch_ms_to_utc_date epoch_ms,
      dx_anchor_datetime_utc = epoch_ms_to_rfc3339_utc epoch_ms, dx_timezone_hint = timezone_hint\<rparr>"

definition context_from_now_ms :: "u64 \<Rightarrow> date_input_context" where
  "context_from_now_ms now_ms = from_epoch_ms now_ms ''UTC''"

text \<open>The two time fields of an inbound message: \<open>i64\<close> and \<open>u64\<close> are words.\<close>

definition context_from_email :: "u64 option \<Rightarrow> u64 \<Rightarrow> date_input_context" where
  "context_from_email internal_date_ms ingested_at_ms =
     (let ms = (case internal_date_ms of None \<Rightarrow> ingested_at_ms | Some t \<Rightarrow> t)
      in from_epoch_ms (if sint ms < 0 then 0 else ms) ''UTC'')"

definition parse_day_token :: "string \<Rightarrow> nat option" where
  "parse_day_token raw =
     Option.bind (parse_u32 (trim_end_matches ''th'' (trim_end_matches ''rd''
        (trim_end_matches ''nd'' (trim_end_matches ''st'' raw))))) (\<lambda>day.
       if 1 \<le> day \<and> day \<le> 31 then Some day else None)"

definition month_names :: "(string \<times> nat) list" where
  "month_names =
     [(''jan'', 1), (''january'', 1), (''feb'', 2), (''february'', 2), (''mar'', 3), (''march'', 3), (''apr'', 4),
      (''april'', 4), (''may'', 5), (''jun'', 6), (''june'', 6), (''jul'', 7), (''july'', 7), (''aug'', 8),
      (''august'', 8), (''sep'', 9), (''sept'', 9), (''september'', 9), (''oct'', 10), (''october'', 10),
      (''nov'', 11), (''november'', 11), (''dec'', 12), (''december'', 12)]"

definition month_index :: "string \<Rightarrow> nat option" where
  "month_index raw = map_of month_names (trim_end_matches ''.'' raw)"

definition weekday_names :: "(string \<times> nat) list" where
  "weekday_names =
     [(''mon'', 0), (''monday'', 0), (''tue'', 1), (''tues'', 1), (''tuesday'', 1), (''wed'', 2), (''wednesday'', 2),
      (''thu'', 3), (''thur'', 3), (''thurs'', 3), (''thursday'', 3), (''fri'', 4), (''friday'', 4), (''sat'', 5),
      (''saturday'', 5), (''sun'', 6), (''sunday'', 6)]"

definition weekday_index :: "string \<Rightarrow> nat option" where
  "weekday_index raw = map_of weekday_names (trim_end_matches ''.'' raw)"

definition nearest_date_on_or_after :: "string \<Rightarrow> nat \<Rightarrow> nat \<Rightarrow> string option" where
  "nearest_date_on_or_after anchor_date month day =
     Option.bind (parse_ymd anchor_date) (\<lambda>(anchor_year, _, _).
       case canonical_date anchor_year month day of
         Some date \<Rightarrow> if anchor_date \<le> date then Some date else canonical_date (anchor_year + 1) month day
       | None \<Rightarrow> canonical_date (anchor_year + 1) month day)"

text \<open>The loop over thirteen months: it stops at the first month whose date exists and is not past.\<close>

fun search_months :: "string \<Rightarrow> nat \<Rightarrow> nat option \<Rightarrow> int list \<Rightarrow> string option" where
  "search_months anchor_date day weekday [] = None"
| "search_months anchor_date day weekday (index # months) =
     (case canonical_date (index div 12) (nat (index mod 12) + 1) day of
        None \<Rightarrow> search_months anchor_date day weekday months
      | Some date \<Rightarrow>
          if date < anchor_date then search_months anchor_date day weekday months
          else if (case weekday of None \<Rightarrow> True | Some expected \<Rightarrow> weekday_for_date date = Some expected)
          then Some date else None)"

definition nearest_day_of_month_on_or_after :: "string \<Rightarrow> nat \<Rightarrow> nat option \<Rightarrow> string option" where
  "nearest_day_of_month_on_or_after anchor_date day weekday =
     Option.bind (parse_ymd anchor_date) (\<lambda>(anchor_year, anchor_month, _).
       let anchor_month_index = anchor_year * 12 + int anchor_month - 1
       in search_months anchor_date day weekday (map (\<lambda>offset. anchor_month_index + offset) [0..12]))"

definition parse_relative_date :: "string list \<Rightarrow> string \<Rightarrow> string option" where
  "parse_relative_date tokens anchor_date =
     (case tokens of
        [token] \<Rightarrow>
          if token = ''today'' then Some anchor_date
          else if token = ''tomorrow''
          then Option.bind (civil_day_number anchor_date) (\<lambda>day.
                 case civil_from_days (day + 1) of (year, month, date_day) \<Rightarrow> canonical_date year month date_day)
          else None
      | _ \<Rightarrow> None)"

definition parse_numeric_date :: "string list \<Rightarrow> string \<Rightarrow> string option" where
  "parse_numeric_date tokens anchor_date =
     (case tokens of
        [token] \<Rightarrow>
          if CHR ''/'' \<notin> set token \<and> CHR ''.'' \<notin> set token then None
          else
            let parts = split_on (if CHR ''/'' \<in> set token then CHR ''/'' else CHR ''.'') token in
            if length parts \<noteq> 2 \<and> length parts \<noteq> 3 then None
            else
              Option.bind (parse_u32 (parts ! 0)) (\<lambda>month.
              Option.bind (parse_u32 (parts ! 1)) (\<lambda>day.
                if month > 12 then None
                else
                  Option.bind (parse_ymd anchor_date) (\<lambda>(anchor_year, _, _).
                    if length parts = 2 then nearest_date_on_or_after anchor_date month day
                    else
                      let raw = parts ! 2 in
                      Option.bind (if length raw = 4 then parse_i64 raw
                                   else if length raw = 2 then map_option (\<lambda>y. 2000 + y) (parse_i64 raw)
                                   else None) (\<lambda>year.
                        Option.bind (canonical_date year month day) (\<lambda>date.
                          if length parts = 3 \<or> anchor_date \<le> date then Some date
                          else canonical_date (anchor_year + 1) month day)))))
      | _ \<Rightarrow> None)"

definition parse_month_name_date :: "string list \<Rightarrow> int \<Rightarrow> string \<Rightarrow> string option" where
  "parse_month_name_date tokens anchor_year anchor_date =
     (let weekday = weekday_index (case tokens of [] \<Rightarrow> [] | token # _ \<Rightarrow> token);
          index = (if weekday \<noteq> None then 1 else 0 :: nat)
      in if length tokens \<noteq> index + 2 \<and> length tokens \<noteq> index + 3 then None
         else
           Option.bind (month_index (tokens ! index)) (\<lambda>month.
           Option.bind (parse_day_token (tokens ! (index + 1))) (\<lambda>day.
           Option.bind
             (if length tokens = index + 3
              then (let year_token = tokens ! (index + 2)
                    in if length year_token \<noteq> 4 then None
                       else Option.bind (parse_i64 year_token) (\<lambda>year. canonical_date year month day))
              else (case nearest_date_on_or_after anchor_date month day of
                      Some date \<Rightarrow> Some date
                    | None \<Rightarrow> canonical_date anchor_year month day)) (\<lambda>date.
             case weekday of
               None \<Rightarrow> Some date
             | Some expected_weekday \<Rightarrow>
                 Option.bind (weekday_for_date date) (\<lambda>actual.
                   if actual \<noteq> expected_weekday then None else Some date)))))"

text \<open>The loop over the seven days after the anchor.\<close>

definition next_weekday :: "int \<Rightarrow> nat \<Rightarrow> string option" where
  "next_weekday anchor_day weekday =
     (case find (\<lambda>offset. weekday_for_days (anchor_day + offset) = weekday) [1..7] of
        None \<Rightarrow> None
      | Some offset \<Rightarrow>
          (case civil_from_days (anchor_day + offset) of (year, month, day) \<Rightarrow> canonical_date year month day))"

definition parse_day_or_weekday_date :: "string list \<Rightarrow> string \<Rightarrow> string option" where
  "parse_day_or_weekday_date tokens anchor_date =
     Option.bind (civil_day_number anchor_date) (\<lambda>anchor_day.
       case tokens of
         [token] \<Rightarrow>
           (case weekday_index token of
              Some weekday \<Rightarrow> next_weekday anchor_day weekday
            | None \<Rightarrow> Option.bind (parse_day_token token) (\<lambda>day.
                nearest_day_of_month_on_or_after anchor_date day None))
       | [first, second] \<Rightarrow>
           Option.bind (weekday_index first) (\<lambda>weekday.
           Option.bind (parse_day_token second) (\<lambda>day.
             nearest_day_of_month_on_or_after anchor_date day (Some weekday)))
       | _ \<Rightarrow> None)"

definition normalize_spaces :: "string \<Rightarrow> string" where
  "normalize_spaces raw = join_with '' '' (split_whitespace raw)"

definition date_tokens :: "string \<Rightarrow> string list" where
  "date_tokens normalized =
     filter (\<lambda>token. token \<noteq> ''the'' \<and> token \<noteq> ''on'')
       (split_whitespace (map (\<lambda>c. if c = CHR '','' then CHR '' '' else c) (to_ascii_lowercase normalized)))"

definition parse_contextual_date :: "string \<Rightarrow> date_input_context \<Rightarrow> date_input_error + string" where
  "parse_contextual_date normalized cx =
     (case parse_ymd (dx_anchor_date cx) of
        None \<Rightarrow> Inl InvalidDate
      | Some (anchor_year, _, _) \<Rightarrow>
          let tokens = date_tokens normalized; anchor_date = dx_anchor_date cx in
          (case parse_relative_date tokens anchor_date of
             Some date \<Rightarrow> Inr date
           | None \<Rightarrow>
          (case parse_numeric_date tokens anchor_date of
             Some date \<Rightarrow> Inr date
           | None \<Rightarrow>
          (case parse_month_name_date tokens anchor_year anchor_date of
             Some date \<Rightarrow> Inr date
           | None \<Rightarrow>
          (case parse_day_or_weekday_date tokens anchor_date of
             Some date \<Rightarrow> Inr date
           | None \<Rightarrow> Inl InvalidDate)))))"

definition normalize_civil_date :: "string \<Rightarrow> date_input_context option \<Rightarrow> date_input_error + string" where
  "normalize_civil_date raw cx =
     (let normalized = normalize_spaces raw
      in if normalized = [] then Inl InvalidDate
         else (case strict_civil_date normalized of
                 Some date \<Rightarrow> Inr date
               | None \<Rightarrow>
                   (case rfc3339_date_part normalized of
                      Some date \<Rightarrow> Inr date
                    | None \<Rightarrow>
                        res_bind (ok_or ContextRequired cx) (parse_contextual_date normalized))))"

end
