(* ===== verification/Calendar_Facts.thy ===== *)
theory Calendar_Facts
  imports Datetime_Input
begin

text \<open>
  The calendar arithmetic is correct: \<open>days_from_civil\<close> and \<open>civil_from_days\<close> are inverse bijections
  between the valid dates of the proleptic Gregorian calendar and the integers.
\<close>

section \<open>Years inside a 400-year era\<close>

text \<open>Years of the algorithm start in March, so the leap day ends the year before a leap year.\<close>

definition year_start :: "int \<Rightarrow> int" where
  "year_start y = 365 * y + y div 4 - y div 100"

definition year_days :: "int \<Rightarrow> int" where
  "year_days y = (if is_leap_year (y + 1) then 366 else 365)"

lemma year_parts:
  assumes y: "y = 100 * c + 4 * q + s"
    and b: "0 \<le> c" "c \<le> 3" "0 \<le> q" "q \<le> 24" "0 \<le> s" "s \<le> 3"
  shows "year_start y = 36524 * c + 1461 * q + 365 * s"
    and "is_leap_year (y + 1) \<longleftrightarrow> s = 3 \<and> (q \<noteq> 24 \<or> c = 3)"
proof -
  have "y div 4 = 25 * c + q" using int_div_pos_eq [of y 4 "25 * c + q" s] y b by simp
  moreover have "y div 100 = c" using int_div_pos_eq [of y 100 c "4 * q + s"] y b by simp
  ultimately show "year_start y = 36524 * c + 1461 * q + 365 * s" unfolding year_start_def using y by linarith
  have "(y + 1) mod 4 = (s + 1) mod 4" using mod_mult_self4 [of 4 "25 * c + q" "s + 1"] y by (simp add: ac_simps)
  also have "\<dots> = 0 \<longleftrightarrow> s = 3" using b by (cases "s = 3") (simp_all add: mod_pos_pos_trivial)
  finally have m4: "(y + 1) mod 4 = 0 \<longleftrightarrow> s = 3" .
  have "(y + 1) mod 100 = (4 * q + s + 1) mod 100" using mod_mult_self4 [of 100 c "4 * q + s + 1"] y by (simp add: ac_simps)
  also have "\<dots> = 0 \<longleftrightarrow> 4 * q + s = 99"
    using b by (cases "4 * q + s = 99") (simp_all add: mod_pos_pos_trivial)
  also have n99: "\<dots> \<longleftrightarrow> s = 3 \<and> q = 24" using b by presburger
  finally have m100: "(y + 1) mod 100 = 0 \<longleftrightarrow> s = 3 \<and> q = 24" .
  have "(y + 1) mod 400 = 0 \<longleftrightarrow> y = 399"
    using y b by (cases "y = 399") (simp_all add: mod_pos_pos_trivial)
  moreover have "y = 399 \<longleftrightarrow> c = 3 \<and> 4 * q + s = 99" using y b by linarith
  ultimately have m400: "(y + 1) mod 400 = 0 \<longleftrightarrow> s = 3 \<and> q = 24 \<and> c = 3" using n99 by auto
  show "is_leap_year (y + 1) \<longleftrightarrow> s = 3 \<and> (q \<noteq> 24 \<or> c = 3)"
    unfolding is_leap_year_def m4 m100 m400 by blast
qed

lemma year_digits:
  assumes "0 \<le> y" "y < 400"
  obtains c q s :: int where "y = 100 * c + 4 * q + s" "0 \<le> c" "c \<le> 3" "0 \<le> q" "q \<le> 24" "0 \<le> s" "s \<le> 3"
proof -
  have "y = 100 * (y div 100) + 4 * (y mod 100 div 4) + y mod 100 mod 4"
    by (metis add.assoc div_mult_mod_eq mult.commute)
  moreover have "y div 100 \<le> 3" "y mod 100 div 4 \<le> 24" using assms by presburger+
  moreover have "0 \<le> y div 100" "0 \<le> y mod 100 div 4" "0 \<le> y mod 100 mod 4" "y mod 100 mod 4 \<le> 3"
    using assms(1) by (simp_all add: pos_imp_zdiv_nonneg_iff)
  ultimately show ?thesis by (intro that [of "y div 100" "y mod 100 div 4" "y mod 100 mod 4"])
qed

lemma year_of_era:
  assumes y: "0 \<le> y" "y < 400" and doy: "0 \<le> doy" "doy < year_days y"
    and doe: "doe = year_start y + doy"
  shows "(doe - doe div 1460 + doe div 36524 - doe div 146096) div 365 = y" and "0 \<le> doe" "doe < 146097"
proof -
  obtain c q s where p1: "y = 100 * c + 4 * q + s" "0 \<le> c" "c \<le> 3" "0 \<le> q" "q \<le> 24" "0 \<le> s" "s \<le> 3"
    using year_digits [OF y] by blast
  note p = p1 year_parts [OF p1]
  have d: "doe = 36524 * c + 1461 * q + 365 * s + doy" using doe p(8) by simp
  have doy': "doy \<le> 364 \<or> doy = 365 \<and> s = 3 \<and> (q \<le> 23 \<or> c = 3)"
    using doy p(5,9) by (auto simp: year_days_def split: if_splits)
  show "0 \<le> doe" "doe < 146097" using d doy doy' p by linarith+
  have century: "doe div 36524 - doe div 146096 = c"
  proof (cases "doe = 146096")
    case True
    then have "c = 3" using d doy' p by linarith
    with True show ?thesis by simp
  next
    case False
    have "doe - 36524 * c < 36524" using False d doy' p by auto
    then have "doe div 36524 = c" using d doy p by (intro int_div_pos_eq [of _ _ _ "doe - 36524 * c"]) simp_all
    moreover have "doe div 146096 = 0" using False \<open>doe < 146097\<close> \<open>0 \<le> doe\<close> by simp
    ultimately show ?thesis by simp
  qed
  define e where "e = (24 * c + q + 365 * s + doy) div 1460"
  have "doe = (24 * c + q + 365 * s + doy) + 1460 * (25 * c + q)" using d by simp
  then have fours: "doe div 1460 = 25 * c + q + e" by (simp add: e_def)
  have e: "0 \<le> doy - e" "doy - e < 365"
  proof -
    let ?R = "24 * c + q + 365 * s + doy"
    have "0 \<le> ?R" "?R < 2920" using p doy doy' by linarith+
    then have "e = (if ?R < 1460 then 0 else 1)"
      using int_div_pos_eq [of ?R 1460 1 "?R - 1460"] by (simp add: e_def)
    then show "0 \<le> doy - e" "doy - e < 365" using p doy doy' by (auto split: if_splits)
  qed
  have "doe - doe div 1460 + doe div 36524 - doe div 146096 = 365 * y + (doy - e)"
    using d p(1) century fours by linarith
  then show "(doe - doe div 1460 + doe div 36524 - doe div 146096) div 365 = y"
    using e by simp
qed

lemma year_exists:
  assumes "0 \<le> doe" "doe < 146097"
  obtains y doy where "0 \<le> y" "y < 400" "0 \<le> doy" "doy < year_days y" "doe = year_start y + doy"
proof -
  define c where "c = min 3 (doe div 36524)"
  define r where "r = doe - 36524 * c"
  define q where "q = min 24 (r div 1461)"
  define t where "t = r - 1461 * q"
  define s where "s = min 3 (t div 365)"
  define doy where "doy = t - 365 * s"
  have c: "0 \<le> c" "c \<le> 3" using assms by (auto simp: c_def)
  have r: "0 \<le> r" "c < 3 \<Longrightarrow> r < 36524" "r \<le> 36524"
    using assms unfolding r_def c_def by (auto simp: min_def split: if_splits)
  have q: "0 \<le> q" "q \<le> 24" using r by (auto simp: q_def)
  have t: "0 \<le> t" "q < 24 \<Longrightarrow> t < 1461" "q = 24 \<Longrightarrow> t \<le> 1460" "q = 24 \<Longrightarrow> c < 3 \<Longrightarrow> t < 1460"
    using r c unfolding t_def q_def by (auto simp: min_def split: if_splits)
  have s: "0 \<le> s" "s \<le> 3" using t(1) by (auto simp: s_def)
  have doy: "0 \<le> doy" "s < 3 \<Longrightarrow> doy < 365" "s = 3 \<Longrightarrow> doy \<le> t - 1095"
    using t unfolding doy_def s_def by (auto simp: min_def split: if_splits)
  let ?y = "100 * c + 4 * q + s"
  have y: "0 \<le> ?y" "?y < 400" using c q s by linarith+
  note p = year_parts [OF refl c q s]
  have "doy < year_days ?y"
  proof (cases "s = 3")
    case True
    then have "doy \<le> 365" "q = 24 \<and> c < 3 \<Longrightarrow> doy < 365" using doy(3) t q by (auto simp: order_le_less)
    with c p(2) True show ?thesis unfolding year_days_def by (cases "q = 24 \<and> c < 3") auto
  next
    case False
    with s doy(2) show ?thesis by (auto simp: year_days_def)
  qed
  moreover have "doe = year_start ?y + doy" using p(1) by (simp add: doy_def t_def r_def)
  ultimately show ?thesis using that [OF y doy(1)] by blast
qed

section \<open>Months inside a year\<close>

definition month_length :: "int \<Rightarrow> int" where
  "month_length m = (if m = 2 then 29 else if m \<in> {4, 6, 9, 11} then 30 else 31)"

definition day_of_march_year :: "int \<Rightarrow> int \<Rightarrow> int" where
  "day_of_march_year m d = (153 * ((m + 9) mod 12) + 2) div 5 + d - 1"

lemma month_table:
  assumes "1 \<le> m" "m \<le> 12" "1 \<le> d" "d \<le> month_length m"
  shows "0 \<le> day_of_march_year m d" "day_of_march_year m d \<le> 365"
    "day_of_march_year m d = 365 \<longleftrightarrow> m = 2 \<and> d = 29"
    "(5 * day_of_march_year m d + 2) div 153 = (m + 9) mod 12"
    "(if (m + 9) mod 12 < 10 then (m + 9) mod 12 + 3 else (m + 9) mod 12 - 9) = m"
proof -
  have table: "\<forall>m \<in> set [1..12]. \<forall>d \<in> set [1..month_length m].
      0 \<le> day_of_march_year m d \<and> day_of_march_year m d \<le> 365
    \<and> (day_of_march_year m d = 365 \<longleftrightarrow> m = 2 \<and> d = 29)
    \<and> (5 * day_of_march_year m d + 2) div 153 = (m + 9) mod 12
    \<and> (if (m + 9) mod 12 < 10 then (m + 9) mod 12 + 3 else (m + 9) mod 12 - 9) = m"
    by code_simp
  have "m \<in> set [1..12]" "d \<in> set [1..month_length m]" using assms by simp_all
  with table show "0 \<le> day_of_march_year m d" "day_of_march_year m d \<le> 365"
    "day_of_march_year m d = 365 \<longleftrightarrow> m = 2 \<and> d = 29"
    "(5 * day_of_march_year m d + 2) div 153 = (m + 9) mod 12"
    "(if (m + 9) mod 12 < 10 then (m + 9) mod 12 + 3 else (m + 9) mod 12 - 9) = m"
    by blast+
qed

definition month_of_day :: "int \<Rightarrow> int" where
  "month_of_day doy = (let mp = (5 * doy + 2) div 153 in if mp < 10 then mp + 3 else mp - 9)"

definition day_in_month :: "int \<Rightarrow> int" where
  "day_in_month doy = doy - (153 * ((5 * doy + 2) div 153) + 2) div 5 + 1"

lemma day_table:
  assumes "0 \<le> doy" "doy \<le> 365"
  shows "1 \<le> month_of_day doy" "month_of_day doy \<le> 12" "1 \<le> day_in_month doy"
    "day_in_month doy \<le> month_length (month_of_day doy)"
    "day_of_march_year (month_of_day doy) (day_in_month doy) = doy"
proof -
  have table: "\<forall>doy \<in> set [0..365]. 1 \<le> month_of_day doy \<and> month_of_day doy \<le> 12 \<and> 1 \<le> day_in_month doy
    \<and> day_in_month doy \<le> month_length (month_of_day doy)
    \<and> day_of_march_year (month_of_day doy) (day_in_month doy) = doy"
    by code_simp
  have "doy \<in> set [0..365]" using assms by simp
  with table show "1 \<le> month_of_day doy" "month_of_day doy \<le> 12" "1 \<le> day_in_month doy"
    "day_in_month doy \<le> month_length (month_of_day doy)"
    "day_of_march_year (month_of_day doy) (day_in_month doy) = doy"
    by blast+
qed

section \<open>The two conversions\<close>

definition valid_date :: "int \<Rightarrow> nat \<Rightarrow> nat \<Rightarrow> bool" where
  "valid_date year month day \<longleftrightarrow> 1 \<le> month \<and> month \<le> 12 \<and> 1 \<le> day \<and> day \<le> days_in_month year month"

lemma leap_mod: "is_leap_year (y mod 400 + 1) = is_leap_year (y + 1)"
proof -
  have "(y mod 400 + 1) mod n = (y + 1) mod n" if "n dvd 400" for n :: int
    using that by (metis mod_add_left_eq mod_mod_cancel)
  then show ?thesis by (simp add: is_leap_year_def)
qed

lemma month_cases: "1 \<le> m \<Longrightarrow> m \<le> 12 \<Longrightarrow> m \<in> {1, 2, 3, 4, 5, 6, 7, 8, 9, 10, 11, 12 :: nat}"
  by (simp only: insert_iff empty_iff) presburger

lemma valid_month_length:
  "valid_date y m d \<longleftrightarrow> 1 \<le> int m \<and> int m \<le> 12 \<and> 1 \<le> int d \<and> int d \<le> month_length (int m)
     \<and> (m = 2 \<and> d = 29 \<longrightarrow> is_leap_year y)"
proof (cases "1 \<le> m \<and> m \<le> 12")
  case True
  then have "m \<in> {1, 2, 3, 4, 5, 6, 7, 8, 9, 10, 11, 12}" using month_cases by blast
  then show ?thesis by (auto simp: valid_date_def days_in_month_def month_length_def)
qed (auto simp: valid_date_def)

lemma era_floor: "(if y \<ge> 0 then y else y - 399) sdiv 400 = (y :: int) div 400"
proof (cases "y \<ge> 0")
  case True
  then show ?thesis by (cases "y = 0") (simp_all add: signed_divide_int_def)
next
  case False
  then have "(y - 399) sdiv 400 = - ((399 - y) div 400)"
    by (simp add: signed_divide_int_def sgn_if abs_if)
  also have "(399 - y) div 400 = - (y div 400)"
  proof (rule int_div_pos_eq [of _ _ _ "399 - y mod 400"])
    show "399 - y = 400 * - (y div 400) + (399 - y mod 400)" using div_mult_mod_eq [of y 400] by linarith
  qed simp_all
  finally show ?thesis using False by simp
qed

lemma days_from_civil_eq:
  "days_from_civil y m d =
     (let sy = (if m \<le> 2 then y - 1 else y)
      in sy div 400 * 146097 + year_start (sy mod 400) + day_of_march_year (int m) (int d) - 719468)"
proof -
  define sy where "sy = (if m \<le> 2 then y - 1 else y)"
  have sy: "(if int m \<le> 2 then y - 1 else y) = sy" by (simp add: sy_def)
  show ?thesis
    unfolding days_from_civil_def Let_def sy sy_def [symmetric] era_floor minus_div_mult_eq_mod year_start_def
      day_of_march_year_def
    by simp
qed

lemma civil_from_days_eq:
  assumes "0 \<le> y" "y < 400" and "0 \<le> doy" "doy < year_days y"
  shows "civil_from_days (era * 146097 + year_start y + doy - 719468)
     = (era * 400 + y + (if month_of_day doy \<le> 2 then 1 else 0), nat (month_of_day doy), nat (day_in_month doy))"
proof -
  let ?doe = "year_start y + doy"
  note yoe = year_of_era [OF assms refl]
  have "(?doe + era * 146097) div 146097 = era" "(?doe + era * 146097) mod 146097 = ?doe"
    using yoe(2,3) by (simp_all add: mod_pos_pos_trivial div_pos_pos_trivial)
  then have split: "(era * 146097 + year_start y + doy) div 146097 = era"
    "(era * 146097 + year_start y + doy) mod 146097 = ?doe"
    by (simp_all add: ac_simps)
  have start: "365 * y + y div 4 - y div 100 = year_start y" by (simp add: year_start_def)
  show ?thesis
    unfolding civil_from_days_def Let_def
    by (simp add: split yoe(1) start month_of_day_def day_in_month_def Let_def)
qed

lemma shift_year_days:
  assumes "valid_date y m d"
  shows "day_of_march_year (int m) (int d) < year_days ((if m \<le> 2 then y - 1 else y) mod 400)"
proof -
  note v = assms [unfolded valid_month_length]
  note t = month_table [of "int m" "int d"]
  show ?thesis
  proof (cases "m = 2 \<and> d = 29")
    case True
    then show ?thesis using v leap_mod [of "y - 1"] t(2) by (simp add: year_days_def)
  next
    case False
    then have "day_of_march_year (int m) (int d) \<noteq> 365" using v t(3) by auto
    then show ?thesis using v t(2) by (auto simp: year_days_def)
  qed
qed

lemma civil_of_days_of_civil:
  assumes "valid_date y m d"
  shows "civil_from_days (days_from_civil y m d) = (y, m, d)"
proof -
  let ?sy = "if m \<le> 2 then y - 1 else y"
  let ?doy = "day_of_march_year (int m) (int d)"
  note v = assms [unfolded valid_month_length]
  have t: "0 \<le> ?doy" "(5 * ?doy + 2) div 153 = (int m + 9) mod 12"
    "(if (int m + 9) mod 12 < 10 then (int m + 9) mod 12 + 3 else (int m + 9) mod 12 - 9) = int m"
    using v month_table [of "int m" "int d"] by blast+
  have month: "month_of_day ?doy = int m" unfolding month_of_day_def Let_def t(2) t(3) by (rule refl)
  have day: "day_in_month ?doy = int d" unfolding day_in_month_def t(2) by (simp add: day_of_march_year_def)
  have "civil_from_days (?sy div 400 * 146097 + year_start (?sy mod 400) + ?doy - 719468)
      = (?sy div 400 * 400 + ?sy mod 400 + (if month_of_day ?doy \<le> 2 then 1 else 0), nat (month_of_day ?doy),
         nat (day_in_month ?doy))"
    by (intro civil_from_days_eq t(1) shift_year_days [OF assms]) simp_all
  then show ?thesis
    by (simp add: days_from_civil_eq Let_def month day div_mult_mod_eq)
qed

lemma days_of_civil_of_days:
  assumes "civil_from_days z = (y, m, d)"
  shows "valid_date y m d" "days_from_civil y m d = z"
proof -
  let ?era = "(z + 719468) div 146097"
  obtain yoe doy where p: "0 \<le> yoe" "yoe < 400" "0 \<le> doy" "doy < year_days yoe"
    "(z + 719468) mod 146097 = year_start yoe + doy"
    using year_exists [of "(z + 719468) mod 146097"] by auto
  have z: "z = ?era * 146097 + year_start yoe + doy - 719468"
    using p(5) div_mult_mod_eq [of "z + 719468" 146097] by linarith
  have doy: "doy \<le> 365" using p(4) by (auto simp: year_days_def split: if_splits)
  note t = day_table [OF p(3) doy]
  have ymd: "y = ?era * 400 + yoe + (if month_of_day doy \<le> 2 then 1 else 0)" "int m = month_of_day doy"
    "int d = day_in_month doy"
    using civil_from_days_eq [OF p(1-4), of ?era] assms z t by auto
  let ?sy = "if m \<le> 2 then y - 1 else y"
  have "m \<le> 2 \<longleftrightarrow> month_of_day doy \<le> 2" using ymd(2) by linarith
  then have sy: "?sy = ?era * 400 + yoe" using ymd(1) by simp
  have "?sy div 400 = ?era" "?sy mod 400 = yoe" unfolding sy using p(1,2) by simp_all
  then show "days_from_civil y m d = z"
    using z by (simp add: days_from_civil_eq Let_def ymd(2,3) t(5))
  have "is_leap_year y" if "m = 2 \<and> d = 29"
  proof -
    have "doy = 365" using that t(5) ymd(2,3) month_table(3) [of 2 29] by (simp add: month_length_def)
    then have "is_leap_year (yoe + 1)" using p(4) by (simp add: year_days_def split: if_splits)
    with that \<open>?sy mod 400 = yoe\<close> leap_mod [of "y - 1"] show ?thesis by simp
  qed
  with t ymd show "valid_date y m d" unfolding valid_month_length by simp
qed

end
