(* ===== verification/Calendar_Order.thy ===== *)
theory Calendar_Order
  imports Calendar_Facts
begin

text \<open>
  Successive days: \<open>civil_from_days\<close> steps through the calendar one date at a time, so the order of day
  numbers is the order of dates.
\<close>

section \<open>Successive days\<close>

definition era_start :: "int \<Rightarrow> int" where
  "era_start y = y div 400 * 146097 + year_start (y mod 400)"

lemma div_step: "0 < n \<Longrightarrow> (y + 1) div n = y div n + (if n dvd y + 1 then 1 else 0 :: int)"
proof -
  assume n: "0 < n"
  show ?thesis
  proof (cases "n dvd y + 1")
    case True
    then obtain k where k: "y + 1 = n * k" ..
    then have "y = n * (k - 1) + (n - 1)" by (simp add: algebra_simps)
    then have "y div n = k - 1" using n int_div_pos_eq [of y n "k - 1" "n - 1"] by simp
    then show ?thesis using k n by simp
  next
    case False
    then have "y mod n \<noteq> n - 1"
      by (metis add.commute diff_add_cancel dvd_eq_mod_eq_0 mod_add_left_eq mod_self)
    then have "y mod n + 1 < n" using n pos_mod_bound [of n y] by linarith
    moreover have "y + 1 = n * (y div n) + (y mod n + 1)" by simp
    ultimately have "(y + 1) div n = y div n" using n by (intro int_div_pos_eq) simp_all
    then show ?thesis using False by simp
  qed
qed

lemma era_start_eq: "era_start y = 365 * y + y div 4 - y div 100 + y div 400"
proof -
  have sum: "era_start y = 146097 * e + (365 * r + a - b)" "365 * y + y div 4 - y div 100 + y div 400 = 146097 * e + (365 * r + a - b)"
    if "e = y div 400" "r = y mod 400" "a = r div 4" "b = r div 100" for e r a b
  proof -
    show "era_start y = 146097 * e + (365 * r + a - b)" by (simp add: era_start_def year_start_def that)
    have y: "y = r + 400 * e" unfolding that by simp
    have "(r + 4 * (100 * e)) div 4 = 100 * e + r div 4" "(r + 100 * (4 * e)) div 100 = 4 * e + r div 100"
      by (rule div_mult_self2, simp)+
    then have "y div 4 = 100 * e + a" "y div 100 = 4 * e + b" by (simp_all add: y that(3,4))
    then show "365 * y + y div 4 - y div 100 + y div 400 = 146097 * e + (365 * r + a - b)"
      unfolding that(1) [symmetric] by (simp add: y)
  qed
  show ?thesis using sum [OF refl refl refl refl] by simp
qed

lemma era_start_step: "era_start (y + 1) = era_start y + year_days (y mod 400)"
proof -
  have dvd: "100 dvd y + 1 \<Longrightarrow> 4 dvd y + 1" "400 dvd y + 1 \<Longrightarrow> 100 dvd y + 1"
    by (rule dvd_trans; simp)+
  have "is_leap_year (y + 1) \<longleftrightarrow> 4 dvd y + 1 \<and> \<not> 100 dvd y + 1 \<or> 400 dvd y + 1"
    by (simp add: is_leap_year_def dvd_eq_mod_eq_0)
  then have "year_days (y mod 400) = 365 + (if 4 dvd y + 1 then 1 else 0) - (if 100 dvd y + 1 then 1 else 0)
      + (if 400 dvd y + 1 then 1 else 0)"
    using dvd unfolding year_days_def leap_mod by (auto simp del: dvd_add_left_iff)
  then show ?thesis
    unfolding era_start_eq div_step [of 4, simplified] div_step [of 100, simplified] div_step [of 400, simplified]
    by simp
qed

lemma days_from_civil_start:
  "days_from_civil y m d
     = era_start (if m \<le> 2 then y - 1 else y) + day_of_march_year (int m) (int d) - 719468"
  unfolding days_from_civil_eq Let_def era_start_def by (rule refl)

definition next_date :: "int \<Rightarrow> nat \<Rightarrow> nat \<Rightarrow> int \<times> nat \<times> nat" where
  "next_date y m d =
     (if d < days_in_month y m then (y, m, d + 1) else if m < 12 then (y, m + 1, 1) else (y + 1, 1, 1))"

lemma month_step:
  assumes "1 \<le> m" "m \<le> 12" "m \<noteq> (2 :: nat)"
  shows "day_of_march_year (if m = 12 then 1 else int m + 1) 1 = day_of_march_year (int m) (int (days_in_month y m)) + 1"
proof -
  have table: "\<forall>m \<in> set [1, 3, 4, 5, 6, 7, 8, 9, 10, 11, 12].
      day_of_march_year (if m = 12 then 1 else m + 1) 1 = day_of_march_year m (month_length m) + 1"
    by code_simp
  have "int m \<in> set [1, 3, 4, 5, 6, 7, 8, 9, 10, 11, 12]" using month_cases [OF assms(1,2)] assms(3) by auto
  moreover have "int (days_in_month y m) = month_length (int m)"
    using month_cases [OF assms(1,2)] assms(3) by (auto simp: days_in_month_def month_length_def)
  moreover have "(int m = 12) = (m = 12)" by simp
  ultimately show ?thesis using bspec [OF table, of "int m"] by metis
qed

lemma days_next:
  assumes "valid_date y m d" "next_date y m d = (y', m', d')"
  shows "valid_date y' m' d'" "days_from_civil y' m' d' = days_from_civil y m d + 1"
proof -
  have m: "1 \<le> m" "m \<le> 12" "1 \<le> d" "d \<le> days_in_month y m" using assms(1) by (simp_all add: valid_date_def)
  have first: "1 \<le> days_in_month y m" if "1 \<le> m" "m \<le> 12" for y m
    using month_cases [OF that] by (auto simp: days_in_month_def)
  show "valid_date y' m' d'"
    using assms m first [of "m + 1"] first [of 1] by (auto simp: next_date_def valid_date_def split: if_splits)
  consider (day) "d < days_in_month y m" | (feb) "d = days_in_month y m" "m = 2"
    | (month) "d = days_in_month y m" "m \<noteq> 2"
    using m(4) by linarith
  then show "days_from_civil y' m' d' = days_from_civil y m d + 1"
  proof cases
    case day
    then show ?thesis using assms(2) by (auto simp: next_date_def days_from_civil_start day_of_march_year_def)
  next
    case feb
    have "year_days ((y - 1) mod 400) = (if is_leap_year y then 366 else 365)"
      using leap_mod [of "y - 1"] by (simp add: year_days_def)
    then have "era_start y = era_start (y - 1) + int (days_in_month y 2) + 337"
      using era_start_step [of "y - 1"] by (simp add: days_in_month_def)
    moreover have "day_of_march_year 2 x = 336 + x" "day_of_march_year 3 1 = 0" for x
      by (simp_all add: day_of_march_year_def)
    ultimately show ?thesis using feb assms(2) by (auto simp: next_date_def days_from_civil_start)
  next
    case month
    show ?thesis
      using month_step [OF m(1,2) month(2), of y] assms(2) month m(2)
      by (auto simp: next_date_def days_from_civil_start add.commute split: if_splits)
  qed
qed

lemma civil_next: "civil_from_days z = (y, m, d) \<Longrightarrow> civil_from_days (z + 1) = next_date y m d"
  using days_of_civil_of_days [of z y m d] days_next [of y m d] civil_of_days_of_civil
  by (metis prod_cases3)

text \<open>Days are ordered as their dates.\<close>

definition date_rank :: "int \<times> nat \<times> nat \<Rightarrow> int" where
  "date_rank t = (case t of (y, m, d) \<Rightarrow> (y * 12 + int m - 1) * 31 + int d - 1)"

lemma date_rank_next: "valid_date y m d \<Longrightarrow> date_rank (y, m, d) < date_rank (next_date y m d)"
  by (auto simp: date_rank_def next_date_def valid_date_def days_in_month_def algebra_simps split: if_splits)

lemma rank_strict: "date_rank (civil_from_days z) < date_rank (civil_from_days (z + 1 + int n))"
proof (induction n)
  case 0
  obtain y m d where "civil_from_days z = (y, m, d)" by (metis prod_cases3)
  then show ?case using civil_next date_rank_next days_of_civil_of_days(1) by simp
next
  case (Suc n)
  obtain y m d where t: "civil_from_days (z + 1 + int n) = (y, m, d)" by (metis prod_cases3)
  have "z + 1 + int (Suc n) = (z + 1 + int n) + 1" by simp
  then have "date_rank (civil_from_days (z + 1 + int n)) < date_rank (civil_from_days (z + 1 + int (Suc n)))"
    using t civil_next date_rank_next days_of_civil_of_days(1) by metis
  with Suc show ?case by simp
qed

lemma rank_less_iff: "date_rank (civil_from_days a) < date_rank (civil_from_days b) \<longleftrightarrow> a < b"
proof -
  have less: "date_rank (civil_from_days a) < date_rank (civil_from_days b)" if "a < b" for a b
    using rank_strict [of a "nat (b - a - 1)"] that by simp
  show ?thesis using less [of a b] less [of b a] by (cases a b rule: linorder_cases) auto
qed

lemma rank_lex:
  assumes "valid_date y m d" "valid_date y' m' d'" and "y < y' \<or> y = y' \<and> (m < m' \<or> m = m' \<and> d < d')"
  shows "date_rank (y, m, d) < date_rank (y', m', d')"
proof -
  have "1 \<le> m" "m \<le> 12" "1 \<le> d" "d \<le> 31" "1 \<le> m'" "m' \<le> 12" "1 \<le> d'" "d' \<le> 31"
    using assms by (auto simp: valid_date_def days_in_month_def split: if_splits)
  with assms(3) show ?thesis unfolding date_rank_def prod.case by (elim disjE conjE) (simp_all add: algebra_simps)
qed

lemma days_order:
  assumes "valid_date y m d" "valid_date y' m' d'"
  shows "days_from_civil y m d < days_from_civil y' m' d'
     \<longleftrightarrow> y < y' \<or> y = y' \<and> (m < m' \<or> m = m' \<and> d < d')"
proof -
  have "days_from_civil y m d < days_from_civil y' m' d' \<longleftrightarrow> date_rank (y, m, d) < date_rank (y', m', d')"
    using rank_less_iff [of "days_from_civil y m d" "days_from_civil y' m' d'"] civil_of_days_of_civil assms by simp
  also have "\<dots> \<longleftrightarrow> y < y' \<or> y = y' \<and> (m < m' \<or> m = m' \<and> d < d')"
    using rank_lex [OF assms] rank_lex [OF assms(2,1)]
    by (metis less_asym less_irrefl linorder_less_linear)
  finally show ?thesis .
qed

end
