(* ===== verification/Datetime_Properties.thy ===== *)
theory Datetime_Properties
  imports Calendar_Order
begin

text \<open>
  What the date parser guarantees: canonical dates and timestamps are read back as they were printed,
  the order of canonical dates as strings is the order of the days, and accepted input is canonical.
\<close>

section \<open>Fixed-width decimals\<close>

lemma length_dec_string: "length (dec_string n) \<le> Suc k \<longleftrightarrow> n < 10 ^ Suc k"
proof (induction k arbitrary: n)
  case 0
  then show ?case by (cases "n < 10") (simp_all add: dec_string.simps [of n])
next
  case (Suc k)
  have "n div 10 < 10 ^ Suc k \<longleftrightarrow> n < 10 ^ Suc (Suc k)" by (simp add: less_mult_imp_div_less div_less_iff_less_mult ac_simps)
  then show ?case using Suc [of "n div 10"] by (cases "n < 10") (simp_all add: dec_string.simps [of n])
qed

lemma dec_pad_shape:
  assumes "n < 10 ^ w" "0 < w"
  shows "length (dec_pad w n) = w" "list_all is_digit (dec_pad w n)" "dec_value (dec_pad w n) = n" "dec_pad w n \<noteq> []"
proof -
  have "length (dec_string n) \<le> w" using assms length_dec_string [of n "w - 1"] by simp
  then show len: "length (dec_pad w n) = w" by (simp add: dec_pad_def)
  show "list_all is_digit (dec_pad w n)"
    using dec_string_digits [of n] by (auto simp: dec_pad_def list_all_iff is_digit_def)
  show "dec_value (dec_pad w n) = n" by (rule dec_value_pad)
  show "dec_pad w n \<noteq> []" using len assms(2) by auto
qed

text \<open>Strings of digits of one length are ordered as numbers.\<close>

lemma dec_value_Cons: "dec_value (c # s) = (of_char c - 48) * 10 ^ length s + dec_value s"
proof (induction s rule: rev_induct)
  case (snoc d s)
  have "dec_value (c # s @ [d]) = 10 * dec_value (c # s) + (of_char d - 48)"
    using dec_value_snoc [of "c # s" d] by simp
  then show ?case using snoc by (simp add: dec_value_snoc algebra_simps)
qed (simp add: dec_value_def)

lemma radix_less:
  assumes "x < b" "y < (b :: nat)"
  shows "i * b + x < j * b + y \<longleftrightarrow> i < j \<or> i = j \<and> x < y"
proof -
  have less: "i * b + x < j * b + y" if "i < j" "x < b" for i j x y
    using mult_le_mono1 [of "Suc i" j b] that by simp
  show ?thesis using less [of i j x y] less [of j i y x] assms by (cases i j rule: linorder_cases) auto
qed

lemma digits_less:
  "list_all is_digit s \<Longrightarrow> list_all is_digit t \<Longrightarrow> length s = length t \<Longrightarrow> s < t \<longleftrightarrow> dec_value s < dec_value t"
proof (induction s t rule: list_induct2')
  case (4 c s d t)
  then have b: "dec_value s < 10 ^ length s" "dec_value t < 10 ^ length s"
    using dec_value_bound [of s] dec_value_bound [of t] by auto
  have "48 \<le> (of_char c :: nat)" "48 \<le> (of_char d :: nat)" using 4(2,3) by (simp_all add: is_digit_def)
  then have cd: "c < d \<longleftrightarrow> (of_char c - 48 :: nat) < of_char d - 48" "c = d \<longleftrightarrow> (of_char c - 48 :: nat) = of_char d - 48"
    by (simp_all add: less_char_def less_diff_iff) (metis eq_diff_iff of_char_eq_iff)
  show ?case
    using 4 radix_less [OF b] by (simp add: dec_value_Cons Cons_less_Cons cd)
qed simp_all

lemma dec_pad_value:
  assumes "list_all is_digit s" "s \<noteq> []"
  shows "dec_pad (length s) (dec_value s) = s"
proof -
  note shape = dec_pad_shape [OF dec_value_bound [OF assms(1)]]
  have "\<not> dec_pad (length s) (dec_value s) < s" "\<not> s < dec_pad (length s) (dec_value s)"
    using digits_less [of "dec_pad (length s) (dec_value s)" s] digits_less [of s "dec_pad (length s) (dec_value s)"]
      shape assms by simp_all
  then show ?thesis by simp
qed

section \<open>Canonical dates\<close>

text \<open>The text of a date: four, two and two digits.\<close>

definition date_text :: "string \<Rightarrow> string \<Rightarrow> string \<Rightarrow> string" where
  "date_text a b c = a @ ''-'' @ b @ ''-'' @ c"

lemma two_chars: "length s = 2 \<longleftrightarrow> (\<exists>a b. s = [a, b])"
  by (auto simp: numeral_eq_Suc length_Suc_conv)

lemma four_chars: "length s = 4 \<longleftrightarrow> (\<exists>a b c d. s = [a, b, c, d])"
  by (auto simp: numeral_eq_Suc length_Suc_conv)

lemma date_text_parse:
  assumes "length a = 4" "length b = 2" "length c = 2"
    and "list_all is_digit a" "list_all is_digit b" "list_all is_digit c"
  shows "length (date_text a b c) = 10"
    and "parse_ymd (date_text a b c) = Some (int (dec_value a), dec_value b, dec_value c)"
    and "strict_civil_date (date_text a b c) = canonical_date (int (dec_value a)) (dec_value b) (dec_value c)"
proof -
  show len: "length (date_text a b c) = 10" using assms by (simp add: date_text_def)
  have slices: "take 4 (date_text a b c) = a" "take 2 (drop 5 (date_text a b c)) = b"
    "take 2 (drop 8 (date_text a b c)) = c"
    using assms(1-3) unfolding two_chars four_chars by (auto simp: date_text_def)
  have "dec_value a < 10 ^ 4" "dec_value b < 10 ^ 2" "dec_value c < 10 ^ 2"
    using dec_value_bound assms by metis+
  moreover have "a \<noteq> []" "b \<noteq> []" "c \<noteq> []" using assms(1-3) by auto
  ultimately show ymd: "parse_ymd (date_text a b c) = Some (int (dec_value a), dec_value b, dec_value c)"
    using assms by (simp add: parse_ymd_def len slices parse_i64_digits parse_u32_def parse_unsigned_digits)
  have "date_text a b c ! 4 = CHR ''-''" "date_text a b c ! 7 = CHR ''-''"
    "list_all (\<lambda>(i, x). i = 4 \<or> i = 7 \<or> is_digit x) (List.enumerate 0 (date_text a b c))"
    using assms unfolding two_chars four_chars by (auto simp: date_text_def enumerate_simps)
  then show "strict_civil_date (date_text a b c) = canonical_date (int (dec_value a)) (dec_value b) (dec_value c)"
    by (simp add: strict_civil_date_def len ymd)
qed

lemma canonical_date_text:
  assumes "0 \<le> y" "y \<le> 9999" "valid_date y m d"
  shows "canonical_date y m d = Some (date_text (dec_pad 4 (nat y)) (dec_pad 2 m) (dec_pad 2 d))"
  using assms by (auto simp: canonical_date_def valid_date_def pad_int_def date_text_def)

lemma valid_date_bounds: "valid_date y m d \<Longrightarrow> m < 100 \<and> d < 100"
  by (auto simp: valid_date_def days_in_month_def split: if_splits)

lemma canonical_date_parse:
  assumes "0 \<le> y" "y \<le> 9999" "canonical_date y m d = Some s"
  shows "valid_date y m d" "length s = 10" "parse_ymd s = Some (y, m, d)" "strict_civil_date s = Some s"
    "civil_day_number s = Some (days_from_civil y m d)"
proof -
  show v: "valid_date y m d"
    using assms(3) by (auto simp: canonical_date_def valid_date_def split: if_splits)
  let ?a = "dec_pad 4 (nat y)" and ?b = "dec_pad 2 m" and ?c = "dec_pad 2 d"
  have s: "s = date_text ?a ?b ?c" using canonical_date_text [OF assms(1,2) v] assms(3) by simp
  have "nat y < 10 ^ 4" "m < 10 ^ 2" "d < 10 ^ 2" using assms(1,2) valid_date_bounds [OF v] by simp_all
  note t = date_text_parse [of ?a ?b ?c, folded s] dec_pad_shape [OF this(1)] dec_pad_shape [OF this(2)]
    dec_pad_shape [OF this(3)]
  show "length s = 10" using t by simp
  show ymd: "parse_ymd s = Some (y, m, d)" using t assms(1) by simp
  show strict: "strict_civil_date s = Some s" using t assms by simp
  show "civil_day_number s = Some (days_from_civil y m d)" by (simp add: civil_day_number_def strict ymd)
qed

text \<open>Conversely every civil date is the canonical text of a valid date.\<close>

lemma civil_date_canonical:
  assumes "strict_civil_date s = Some t"
  obtains y m d where "t = s" "0 \<le> y" "y \<le> 9999" "valid_date y m d" "canonical_date y m d = Some s"
proof -
  have len: "length s = 10" and sep: "s ! 4 = CHR ''-''" "s ! 7 = CHR ''-''"
    and digits: "list_all (\<lambda>(i, x). i = 4 \<or> i = 7 \<or> is_digit x) (List.enumerate 0 s)"
    using assms by (auto simp: strict_civil_date_def split: if_splits)
  obtain a0 a1 a2 a3 x b0 b1 z c0 c1 where "s = [a0, a1, a2, a3, x, b0, b1, z, c0, c1]"
    using len by (auto simp: numeral_eq_Suc length_Suc_conv)
  then have s: "s = date_text [a0, a1, a2, a3] [b0, b1] [c0, c1]"
    and dig: "list_all is_digit [a0, a1, a2, a3]" "list_all is_digit [b0, b1]" "list_all is_digit [c0, c1]"
    using sep digits by (auto simp: date_text_def enumerate_simps)
  let ?a = "[a0, a1, a2, a3]" and ?b = "[b0, b1]" and ?c = "[c0, c1]"
  have t: "canonical_date (int (dec_value ?a)) (dec_value ?b) (dec_value ?c) = Some t"
    using date_text_parse(3) [OF _ _ _ dig] assms s by simp
  have ya: "int (dec_value ?a) \<le> 9999" using dec_value_bound [OF dig(1)] by simp
  have v: "valid_date (int (dec_value ?a)) (dec_value ?b) (dec_value ?c)"
    using t by (auto simp: canonical_date_def valid_date_def split: if_splits)
  have "dec_pad 4 (dec_value ?a) = ?a" "dec_pad 2 (dec_value ?b) = ?b" "dec_pad 2 (dec_value ?c) = ?c"
    using dec_pad_value [OF dig(1)] dec_pad_value [OF dig(2)] dec_pad_value [OF dig(3)] by (simp_all add: numeral_eq_Suc)
  then have "canonical_date (int (dec_value ?a)) (dec_value ?b) (dec_value ?c) = Some s"
    using canonical_date_text [OF _ ya v] s by simp
  with t v ya show ?thesis by (intro that) simp_all
qed

section \<open>Order\<close>

lemma append_less:
  fixes a b :: "'a :: linorder list"
  shows "length a = length b \<Longrightarrow> a @ x < b @ y \<longleftrightarrow> a < b \<or> a = b \<and> x < y"
  by (induction a b rule: list_induct2) (auto simp: Cons_less_Cons)

lemma canonical_order:
  assumes "0 \<le> y" "y \<le> 9999" "canonical_date y m d = Some s"
    and "0 \<le> y'" "y' \<le> 9999" "canonical_date y' m' d' = Some s'"
  shows "s < s' \<longleftrightarrow> days_from_civil y m d < days_from_civil y' m' d'"
proof -
  note v = canonical_date_parse(1) [OF assms(1-3)] canonical_date_parse(1) [OF assms(4-6)]
  have s: "s = date_text (dec_pad 4 (nat y)) (dec_pad 2 m) (dec_pad 2 d)"
    "s' = date_text (dec_pad 4 (nat y')) (dec_pad 2 m') (dec_pad 2 d')"
    using canonical_date_text v assms by force+
  have b: "nat y < 10 ^ 4" "m < 10 ^ 2" "d < 10 ^ 2" "nat y' < 10 ^ 4" "m' < 10 ^ 2" "d' < 10 ^ 2"
    using assms valid_date_bounds v by force+
  have pad: "dec_pad w i < dec_pad w j \<longleftrightarrow> i < j" if "i < 10 ^ w" "j < 10 ^ w" "0 < w" for w i j
    using digits_less [of "dec_pad w i" "dec_pad w j"] dec_pad_shape that by simp
  have "s < s' \<longleftrightarrow> nat y < nat y' \<or> nat y = nat y' \<and> (m < m' \<or> m = m' \<and> d < d')"
    unfolding s date_text_def using b
    by (simp add: append_less dec_pad_shape(1) pad Cons_less_Cons)
  also have "\<dots> \<longleftrightarrow> days_from_civil y m d < days_from_civil y' m' d'"
    using days_order [OF v] assms(1,4) by (auto simp: nat_less_eq_zless)
  finally show ?thesis .
qed

lemma civil_order:
  assumes "civil_day_number s = Some i" "civil_day_number t = Some j"
  shows "s < t \<longleftrightarrow> i < j" "s \<le> t \<longleftrightarrow> i \<le> j"
proof -
  have less: "s < t \<longleftrightarrow> i < j" if s: "civil_day_number s = Some i" and t: "civil_day_number t = Some j" for s t i j
  proof -
    obtain y m d where a: "0 \<le> y" "y \<le> 9999" "canonical_date y m d = Some s"
      using s by (auto simp: civil_day_number_def bind_eq_Some_conv elim: civil_date_canonical)
    obtain y' m' d' where b: "0 \<le> y'" "y' \<le> 9999" "canonical_date y' m' d' = Some t"
      using t by (auto simp: civil_day_number_def bind_eq_Some_conv elim: civil_date_canonical)
    show ?thesis
      using canonical_order [OF a b] canonical_date_parse(5) [OF a] canonical_date_parse(5) [OF b] s t by simp
  qed
  show "s < t \<longleftrightarrow> i < j" by (rule less [OF assms])
  show "s \<le> t \<longleftrightarrow> i \<le> j" using less [OF assms(2,1)] by (simp add: not_less [symmetric])
qed

section \<open>Timestamps\<close>

lemma date_of_day:
  assumes "days_from_civil 0 1 1 \<le> z" "z < days_from_civil 10000 1 1" "civil_from_days z = (y, m, d)"
  shows "0 \<le> y" "y \<le> 9999" "valid_date y m d" "days_from_civil y m d = z"
proof -
  note v = days_of_civil_of_days [OF assms(3)]
  show "valid_date y m d" "days_from_civil y m d = z" by (rule v)+
  have e: "valid_date 0 1 1" "valid_date 10000 1 1" by (simp_all add: valid_date_def days_in_month_def)
  show "y \<le> 9999" using days_order [OF v(1) e(2)] v assms(2) by (auto simp: valid_date_def)
  show "0 \<le> y"
    using days_order [OF v(1) e(1)] v assms(1) by (auto simp: valid_date_def)
qed

lemma day_bounds: "days_from_civil 0 1 1 = - 719528" "days_from_civil 10000 1 1 = 2932897"
  by code_simp+

lemma fits_below_pad: "n < 100 \<Longrightarrow> fits_below (dec_pad 2 n) b \<longleftrightarrow> n \<le> b"
  using dec_pad_shape [of n 2] by (simp add: fits_below_def parse_u32_def parse_unsigned_digits)

definition time_text :: "string \<Rightarrow> string \<Rightarrow> string \<Rightarrow> string \<Rightarrow> string" where
  "time_text date h m s = date @ ''T'' @ h @ '':'' @ m @ '':'' @ s @ ''Z''"

lemma time_text_valid:
  assumes "strict_civil_date date = Some date" and "h < 24" "m < 60" "s < 60"
  shows "is_rfc3339_with_offset (time_text date (dec_pad 2 h) (dec_pad 2 m) (dec_pad 2 s))"
    and "take 10 (time_text date h' m' s') = date"
proof -
  have len: "length date = 10" and sep: "date ! 4 = CHR ''-''" "date ! 7 = CHR ''-''"
    and digits: "list_all (\<lambda>(i, x). i = 4 \<or> i = 7 \<or> is_digit x) (List.enumerate 0 date)"
    using assms(1) by (auto simp: strict_civil_date_def split: if_splits)
  show take: "take 10 (time_text date h' m' s') = date" for h' m' s' by (simp add: time_text_def len)
  obtain a0 a1 a2 a3 x b0 b1 z c0 c1 where date: "date = [a0, a1, a2, a3, x, b0, b1, z, c0, c1]"
    using len by (auto simp: numeral_eq_Suc length_Suc_conv)
  obtain h0 h1 m0 m1 s0 s1 where t: "dec_pad 2 h = [h0, h1]" "dec_pad 2 m = [m0, m1]" "dec_pad 2 s = [s0, s1]"
    using dec_pad_shape(1) [of h 2] dec_pad_shape(1) [of m 2] dec_pad_shape(1) [of s 2] assms
    by (auto simp: two_chars)
  have dig: "is_digit h0" "is_digit h1" "is_digit m0" "is_digit m1" "is_digit s0" "is_digit s1"
    using dec_pad_shape(2) [of h 2] dec_pad_shape(2) [of m 2] dec_pad_shape(2) [of s 2] assms t by simp_all
  have fits: "fits_below [h0, h1] 23" "fits_below [m0, m1] 59" "fits_below [s0, s1] 60"
    using fits_below_pad [of h 23] fits_below_pad [of m 59] fits_below_pad [of s 60] assms t by simp_all
  have "fraction_zone_ok ''Z''" by (simp add: fraction_zone_ok_def strip_prefix_def zone_ok_def)
  moreover have "strict_civil_date [a0, a1, a2, a3, x, b0, b1, z, c0, c1] \<noteq> None" using assms(1) date by simp
  ultimately show "is_rfc3339_with_offset (time_text date (dec_pad 2 h) (dec_pad 2 m) (dec_pad 2 s))"
    using sep digits dig fits unfolding is_rfc3339_with_offset_def t time_text_def date
    by (simp add: enumerate_simps)
qed

lemma pad_int_nonneg: "0 \<le> n \<Longrightarrow> pad_int w n = dec_pad w (nat n)"
  by (simp add: pad_int_def)

lemma epoch_text:
  assumes "uint ms < 253402300800000"
  obtains date h m s where "epoch_ms_to_rfc3339_utc ms = time_text date (dec_pad 2 h) (dec_pad 2 m) (dec_pad 2 s)"
    "strict_civil_date date = Some date" "civil_day_number date = Some (uint ms div 86400000)"
    "h < 24" "m < 60" "s < 60"
proof -
  let ?secs = "uint ms div 1000"
  have day: "?secs div 86400 = uint ms div 86400000" by (simp add: zdiv_zmult2_eq [symmetric])
  obtain y mo d where c: "civil_from_days (uint ms div 86400000) = (y, mo, d)" by (metis prod_cases3)
  have "0 \<le> uint ms" by simp
  then have "0 \<le> uint ms div 86400000" "uint ms div 86400000 < 2932897" using assms by linarith+
  then have v: "0 \<le> y" "y \<le> 9999" "valid_date y mo d" "days_from_civil y mo d = uint ms div 86400000"
    using date_of_day [OF _ _ c] day_bounds by simp_all
  let ?date = "date_text (dec_pad 4 (nat y)) (dec_pad 2 mo) (dec_pad 2 d)"
  note p = canonical_date_parse [OF v(1,2) canonical_date_text [OF v(1-3)]]
  let ?sod = "?secs mod 86400"
  have b: "0 \<le> ?sod" "?sod < 86400" by simp_all
  then have hms: "0 \<le> ?sod div 3600" "?sod div 3600 < 24" "0 \<le> ?sod mod 3600 div 60" "?sod mod 3600 div 60 < 60"
    "0 \<le> ?sod mod 60" "?sod mod 60 < 60"
    using pos_mod_bound [of 3600 ?sod] pos_mod_sign [of 3600 ?sod] by (simp_all del: mod_mod_cancel)
  define hour minute second where hms_def: "hour = ?sod div 3600" "minute = ?sod mod 3600 div 60" "second = ?sod mod 60"
  note hms = hms [folded hms_def]
  have "epoch_ms_to_rfc3339_utc ms
      = time_text ?date (dec_pad 2 (nat hour)) (dec_pad 2 (nat minute)) (dec_pad 2 (nat second))"
    unfolding epoch_ms_to_rfc3339_utc_def Let_def day c prod.case time_text_def date_text_def hms_def [symmetric]
      pad_int_nonneg [OF hms(1)] pad_int_nonneg [OF hms(3)] pad_int_nonneg [OF hms(5)] pad_int_nonneg [OF v(1)]
    by (simp only: append_assoc append_Cons append_Nil)
  moreover have "nat hour < 24" "nat minute < 60" "nat second < 60" using hms by (simp_all add: nat_less_iff)
  ultimately show ?thesis using p(4,5) v(4) that by metis
qed

text \<open>
  A timestamp of any time before the year 10000 is printed as an RFC 3339 timestamp that the parser
  accepts and leaves unchanged, and its date part is a civil date whose day number is the number of whole
  days since the epoch.
\<close>

theorem utc_timestamp_round_trip:
  assumes "uint ms < 253402300800000"
  shows "is_rfc3339_with_offset (epoch_ms_to_rfc3339_utc ms)
     \<and> normalize_rfc3339_datetime (epoch_ms_to_rfc3339_utc ms) = Inr (epoch_ms_to_rfc3339_utc ms)
     \<and> rfc3339_date_part (epoch_ms_to_rfc3339_utc ms) = Some (epoch_ms_to_utc_date ms)
     \<and> civil_day_number (epoch_ms_to_utc_date ms) = Some (uint ms div 86400000)"
proof -
  obtain date h m s where t: "epoch_ms_to_rfc3339_utc ms = time_text date (dec_pad 2 h) (dec_pad 2 m) (dec_pad 2 s)"
    "strict_civil_date date = Some date" "civil_day_number date = Some (uint ms div 86400000)"
    "h < 24" "m < 60" "s < 60"
    using epoch_text [OF assms] .
  let ?t = "epoch_ms_to_rfc3339_utc ms"
  note ok = time_text_valid [OF t(2,4-6), folded t(1)]
  have date: "take 10 ?t = date" using time_text_valid(2) [OF t(2,4-6)] by (simp add: t(1))
  have len: "length date = 10" and d0: "is_digit (date ! 0)"
    using t(2) by (cases date; auto simp: strict_civil_date_def enumerate_simps split: if_splits)+
  then obtain c cs where c: "date = c # cs" "is_digit c" by (cases date) auto
  have "plain_char c" "plain_char (CHR ''Z'')"
    using c(2) hexdigit_plain by (simp_all add: is_hexdigit_def) code_simp
  then have trim: "trim ?t = ?t"
    using trim_plain_word [of c "CHR ''Z''" "cs @ ''T'' @ dec_pad 2 h @ '':'' @ dec_pad 2 m @ '':'' @ dec_pad 2 s"]
    by (simp add: t(1) time_text_def c(1))
  have "?t ! 10 = CHR ''T''" "last ?t = CHR ''Z''" using len by (simp_all add: t(1) time_text_def nth_append)
  then have norm: "normalize_rfc3339_datetime ?t = Inr ?t"
    using ok by (simp add: normalize_rfc3339_datetime_def trim)
  have "length ?t \<ge> 20" using ok by (simp add: is_rfc3339_with_offset_def)
  with ok norm date t(3) show ?thesis by (simp add: rfc3339_date_part_def epoch_ms_to_utc_date_def)
qed

theorem utc_timestamp_round_trip_witness:
  "civil_day_number (epoch_ms_to_utc_date 1781000000000) = Some 20613"
  using utc_timestamp_round_trip [of 1781000000000] by simp

section \<open>Dates relative to an anchor\<close>

lemma parse_digits_less: "parse_digits b s = Some n \<Longrightarrow> n < 10 ^ length s"
  using dec_value_bound by (auto simp: parse_digits_def split: if_splits)

lemma parse_i64_less: "parse_i64 s = Some y \<Longrightarrow> y < 10 ^ length s"
proof (cases s)
  case (Cons c cs)
  have mono: "n < 10 ^ length cs \<Longrightarrow> int n < 10 ^ length s" for n
    using power_increasing [of "length cs" "length s" "10 :: int"] Cons
    by (metis le_SucI length_Cons less_le_trans of_nat_less_iff of_nat_numeral of_nat_power one_le_numeral order_refl)
  assume y: "parse_i64 s = Some y"
  show ?thesis
  proof (cases "c = CHR ''-''")
    case True
    then show ?thesis using y Cons by (auto simp: parse_i64_def intro: le_less_trans [of _ 0])
  next
    case False
    then obtain n where n: "y = int n" "parse_unsigned (2 ^ 63) s = Some n" using y Cons by (auto simp: parse_i64_def)
    then have "n < 10 ^ length cs \<or> n < 10 ^ length s"
      using parse_digits_less [of _ "c # cs" n] parse_digits_less [of _ cs n] Cons
      by (auto simp: parse_unsigned_def split: if_splits)
    then show ?thesis using mono n(1) by (metis of_nat_less_iff of_nat_numeral of_nat_power)
  qed
qed (simp add: parse_i64_def)

text \<open>What the parser can produce: a civil date, or one of the years before zero.\<close>

definition civil_or_bc :: "string \<Rightarrow> bool" where
  "civil_or_bc date \<longleftrightarrow> is_civil_date date \<or> take 1 date = ''-''"

lemma canonical_civil:
  assumes "canonical_date y m d = Some s" "y \<le> 9999"
  shows "civil_or_bc s"
proof (cases "0 \<le> y")
  case True
  then show ?thesis using canonical_date_parse(4) [OF _ assms(2,1)] by (simp add: civil_or_bc_def is_civil_date_def)
next
  case False
  then show ?thesis using assms(1) by (auto simp: civil_or_bc_def canonical_date_def pad_int_def split: if_splits)
qed

text \<open>An anchor the application builds: a civil date before the year 9999.\<close>

definition anchor_ok :: "string \<Rightarrow> int \<Rightarrow> nat \<Rightarrow> nat \<Rightarrow> bool" where
  "anchor_ok anchor y m d \<longleftrightarrow> canonical_date y m d = Some anchor \<and> 0 \<le> y \<and> y \<le> 9998"

lemma anchor_facts:
  assumes "anchor_ok anchor y m d"
  shows "parse_ymd anchor = Some (y, m, d)" "civil_day_number anchor = Some (days_from_civil y m d)"
    "is_civil_date anchor" "valid_date y m d" "days_from_civil y m d < 2932532" "- 719528 \<le> days_from_civil y m d"
proof -
  have a: "0 \<le> y" "y \<le> 9999" "canonical_date y m d = Some anchor" using assms by (auto simp: anchor_ok_def)
  note p = canonical_date_parse [OF a]
  show "parse_ymd anchor = Some (y, m, d)" "civil_day_number anchor = Some (days_from_civil y m d)"
    "is_civil_date anchor" "valid_date y m d"
    using p by (simp_all add: is_civil_date_def)
  have e: "valid_date 9999 1 1" "valid_date 0 1 1" by (simp_all add: valid_date_def days_in_month_def)
  have n: "days_from_civil 9999 1 1 = 2932532" by code_simp
  show "days_from_civil y m d < 2932532" "- 719528 \<le> days_from_civil y m d"
    using days_order [OF p(1) e(1)] days_order [OF p(1) e(2)] assms p(1) n day_bounds(1)
    by (auto simp: anchor_ok_def valid_date_def)
qed

lemma day_civil:
  assumes "- 719528 \<le> z" "z < 2932897" "civil_from_days z = (y, m, d)" "canonical_date y m d = Some s"
  shows "civil_or_bc s" "civil_day_number s = Some z"
proof -
  note v = date_of_day [OF _ _ assms(3), unfolded day_bounds, OF assms(1,2)]
  show "civil_or_bc s" by (rule canonical_civil [OF assms(4) v(2)])
  show "civil_day_number s = Some z" using canonical_date_parse(5) [OF v(1,2) assms(4)] v(4) by simp
qed

lemma nearest_date_civil:
  "anchor_ok anchor y m d \<Longrightarrow> nearest_date_on_or_after anchor month day = Some s \<Longrightarrow> civil_or_bc s"
  using canonical_civil
  by (auto simp: nearest_date_on_or_after_def anchor_facts(1) anchor_ok_def split: option.splits if_splits)

lemma search_months_civil:
  assumes "search_months anchor day weekday months = Some s" and "\<forall>i \<in> set months. i div 12 \<le> 9999"
  shows "civil_or_bc s"
  using assms
proof (induction months)
  case (Cons i months)
  then show ?case using canonical_civil by (auto split: option.splits if_splits)
qed simp

lemma nearest_day_civil:
  assumes "anchor_ok anchor y m d" "nearest_day_of_month_on_or_after anchor day weekday = Some s"
  shows "civil_or_bc s"
proof (rule search_months_civil)
  show "search_months anchor day weekday (map (\<lambda>offset. y * 12 + int m - 1 + offset) [0..12]) = Some s"
    using assms(2) by (simp add: nearest_day_of_month_on_or_after_def anchor_facts(1) [OF assms(1)] Let_def)
  have "m \<le> 12" "y \<le> 9998" using anchor_facts(4) [OF assms(1)] assms(1) by (auto simp: valid_date_def anchor_ok_def)
  then show "\<forall>i \<in> set (map (\<lambda>offset. y * 12 + int m - 1 + offset) [0..12]). i div 12 \<le> 9999" by auto
qed

lemma parsers_civil:
  assumes a: "anchor_ok anchor y m d"
  shows "parse_relative_date tokens anchor = Some s \<Longrightarrow> civil_or_bc s"
    and "parse_numeric_date tokens anchor = Some s \<Longrightarrow> civil_or_bc s"
    and "parse_month_name_date tokens y anchor = Some s \<Longrightarrow> civil_or_bc s"
    and "parse_day_or_weekday_date tokens anchor = Some s \<Longrightarrow> civil_or_bc s"
proof -
  note f = anchor_facts [OF a]
  have day: "civil_or_bc s" if "civil_from_days (days_from_civil y m d + i) = (y', m', d')"
      "canonical_date y' m' d' = Some s" "0 \<le> i" "i \<le> 7" for i y' m' d' s
    using day_civil(1) [OF _ _ that(1,2)] f(5,6) that(3,4) by simp
  have year4: "parse_i64 t = Some n \<Longrightarrow> length t = 4 \<Longrightarrow> n \<le> 9999" for t n using parse_i64_less [of t n] by simp
  have year2: "parse_i64 t = Some n \<Longrightarrow> length t = 2 \<Longrightarrow> 2000 + n \<le> 9999" for t n using parse_i64_less [of t n] by simp
  show "parse_relative_date tokens anchor = Some s \<Longrightarrow> civil_or_bc s"
    using day [of 1] f(2,3)
    by (auto simp: parse_relative_date_def civil_or_bc_def split: list.splits if_splits prod.splits)
  show "parse_numeric_date tokens anchor = Some s \<Longrightarrow> civil_or_bc s"
    using canonical_civil year4 year2 nearest_date_civil [OF a]
    by (auto simp: parse_numeric_date_def f(1) Let_def bind_eq_Some_conv split: list.splits if_splits)
  show "parse_month_name_date tokens y anchor = Some s \<Longrightarrow> civil_or_bc s"
    using canonical_civil year4 nearest_date_civil [OF a] a
    by (auto simp: parse_month_name_date_def Let_def bind_eq_Some_conv anchor_ok_def split: if_splits option.splits)
  have "civil_or_bc s" if "next_weekday (days_from_civil y m d) w = Some s" for w
    using day that by (auto simp: next_weekday_def find_Some_iff split: option.splits prod.splits)
  then show "parse_day_or_weekday_date tokens anchor = Some s \<Longrightarrow> civil_or_bc s"
    using nearest_day_civil [OF a]
    by (auto simp: parse_day_or_weekday_date_def f(2) bind_eq_Some_conv split: list.splits option.splits)
qed

lemma epoch_anchor:
  assumes "uint ms < 253370764800000"
  obtains y m d where "anchor_ok (epoch_ms_to_utc_date ms) y m d" "days_from_civil y m d = uint ms div 86400000"
proof -
  have ms: "uint ms < 253402300800000" using assms by simp
  obtain date h mi s where t: "epoch_ms_to_rfc3339_utc ms = time_text date (dec_pad 2 h) (dec_pad 2 mi) (dec_pad 2 s)"
    "strict_civil_date date = Some date" "civil_day_number date = Some (uint ms div 86400000)"
    "h < 24" "mi < 60" "s < 60"
    using epoch_text [OF ms] .
  have date: "epoch_ms_to_utc_date ms = date"
    using time_text_valid(2) [OF t(2,4-6)] by (simp add: epoch_ms_to_utc_date_def t(1))
  obtain y m d where c: "0 \<le> y" "y \<le> 9999" "valid_date y m d" "canonical_date y m d = Some date"
    using civil_date_canonical [OF t(2)] by blast
  have day: "days_from_civil y m d = uint ms div 86400000"
    using canonical_date_parse(5) [OF c(1,2,4)] t(3) by simp
  have e: "valid_date 9999 1 1" by (simp add: valid_date_def days_in_month_def)
  have n: "days_from_civil 9999 1 1 = 2932532" by code_simp
  have "uint ms div 86400000 < 2932532" using assms by linarith
  then have "y \<le> 9998" using days_order [OF c(3) e] c(3) unfolding day n by (auto simp: valid_date_def)
  with c day date show ?thesis by (intro that) (simp_all add: anchor_ok_def)
qed

lemma contextual_civil:
  assumes "uint ms < 253370764800000" "normalize_civil_date raw (Some (from_epoch_ms ms hint)) = Inr date"
  shows "civil_or_bc date"
proof -
  obtain y m d where a: "anchor_ok (epoch_ms_to_utc_date ms) y m d" using epoch_anchor [OF assms(1)] by blast
  have strict: "strict_civil_date t = Some s \<Longrightarrow> civil_or_bc s" for t s
    using civil_date_canonical [of t s] by (auto simp: civil_or_bc_def is_civil_date_def)
  have part: "rfc3339_date_part t = Some s \<Longrightarrow> civil_or_bc s" for t s
    by (auto simp: rfc3339_date_part_def is_rfc3339_with_offset_def civil_or_bc_def is_civil_date_def split: if_splits)
  show ?thesis
    using assms(2) strict part parsers_civil [OF a] anchor_facts(1) [OF a]
    by (auto simp: normalize_civil_date_def Let_def parse_contextual_date_def from_epoch_ms_def
        split: if_splits option.splits)
qed

text \<open>
  What the date parser accepts is a civil date, with one exception. For every context the application
  builds before the year 9999, an accepted input yields a date that passes \<open>is_civil_date\<close>, or a text that
  starts with a minus sign: a year written with a minus sign is parsed as a negative number and printed
  into a date that every strict parser of the program refuses (the second part gives such an input).
\<close>

theorem accepted_dates_are_civil:
  "(\<forall>raw ms hint date. uint ms < 253370764800000
      \<longrightarrow> normalize_civil_date raw (Some (from_epoch_ms ms hint)) = Inr date
      \<longrightarrow> is_civil_date date \<or> take 1 date = ''-'')
   \<and> (\<exists>date. normalize_civil_date ''7/7/-999'' (Some (from_epoch_ms 1781000000000 ''UTC'')) = Inr date
        \<and> \<not> is_civil_date date)"
proof (intro conjI allI impI)
  fix raw ms hint date
  assume "uint (ms :: u64) < 253370764800000" "normalize_civil_date raw (Some (from_epoch_ms ms hint)) = Inr date"
  then show "is_civil_date date \<or> take 1 date = ''-''" using contextual_civil civil_or_bc_def by blast
next
  have split: "split_whitespace ''7/7/-999'' = [''7/7/-999'']" by code_simp
  obtain y m d where a: "anchor_ok (epoch_ms_to_utc_date 1781000000000) y m d"
    by (rule epoch_anchor [of 1781000000000]) simp_all
  have tokens: "normalize_spaces ''7/7/-999'' = ''7/7/-999''" "date_tokens ''7/7/-999'' = [''7/7/-999'']"
    using split by (simp_all add: normalize_spaces_def date_tokens_def to_ascii_lowercase_def)
  have "parse_u32 ''7'' = Some 7" "parse_i64 ''-999'' = Some (- 999)"
    by (simp_all add: parse_u32_def parse_unsigned_def parse_i64_def parse_digits_def is_digit_def dec_value_def)
  moreover have "split_on (CHR ''/'') ''7/7/-999'' = [''7'', ''7'', ''-999'']" by code_simp
  moreover have "canonical_date (- 999) 7 7 = Some ''-999-07-07''" by code_simp
  ultimately have "parse_numeric_date [''7/7/-999''] (epoch_ms_to_utc_date 1781000000000) = Some ''-999-07-07''"
    by (simp add: parse_numeric_date_def Let_def anchor_facts(1) [OF a])
  then have "normalize_civil_date ''7/7/-999'' (Some (from_epoch_ms 1781000000000 ''UTC'')) = Inr ''-999-07-07''"
    by (simp add: normalize_civil_date_def tokens Let_def parse_contextual_date_def from_epoch_ms_def
        anchor_facts(1) [OF a] parse_relative_date_def strict_civil_date_def rfc3339_date_part_def)
  moreover have "\<not> is_civil_date ''-999-07-07''"
    by (simp add: is_civil_date_def strict_civil_date_def is_digit_def enumerate_simps)
  ultimately show "\<exists>date. normalize_civil_date ''7/7/-999'' (Some (from_epoch_ms 1781000000000 ''UTC'')) = Inr date
      \<and> \<not> is_civil_date date" by blast
qed

theorem accepted_dates_are_civil_witness:
  "\<exists>date. normalize_civil_date ''7/7/-999'' (Some (from_epoch_ms 1781000000000 ''UTC'')) = Inr date
     \<and> take 1 date = ''-''"
proof -
  obtain date where d: "normalize_civil_date ''7/7/-999'' (Some (from_epoch_ms 1781000000000 ''UTC'')) = Inr date"
      "\<not> is_civil_date date"
    using accepted_dates_are_civil by blast
  have "uint (1781000000000 :: u64) < 253370764800000" by simp
  with accepted_dates_are_civil d show ?thesis by blast
qed

lemma print_day:
  assumes "civil_from_days z = (y, m, d)" "- 719528 \<le> z" "z < 2932897"
  shows "\<exists>s. canonical_date y m d = Some s \<and> civil_day_number s = Some z"
proof -
  note v = date_of_day [OF _ _ assms(1), unfolded day_bounds, OF assms(2,3)]
  show ?thesis using canonical_date_text [OF v(1-3)] day_civil(2) [OF assms(2,3,1)] by auto
qed

lemma nearest_is_first:
  assumes a: "anchor_ok anchor y m d" and s: "nearest_date_on_or_after anchor month day = Some s"
  shows "\<exists>n. civil_day_number s = Some n \<and> days_from_civil y m d \<le> n \<and> snd (civil_from_days n) = (month, day)
      \<and> (\<forall>k. days_from_civil y m d \<le> k \<and> k < n \<longrightarrow> snd (civil_from_days k) \<noteq> (month, day))"
proof -
  let ?a = "days_from_civil y m d"
  have y: "0 \<le> y" "y \<le> 9998" "canonical_date y m d = Some anchor" using a by (auto simp: anchor_ok_def)
  note v = anchor_facts(4) [OF a]
  obtain y' where y': "canonical_date y' month day = Some s" "y' = y \<and> anchor \<le> s
      \<or> y' = y + 1 \<and> (\<forall>date. canonical_date y month day = Some date \<longrightarrow> \<not> anchor \<le> date)"
    using s by (auto simp: nearest_date_on_or_after_def anchor_facts(1) [OF a] split: option.splits if_splits)
  have b: "0 \<le> y'" "y' \<le> 9999" using y' y by auto
  note p = canonical_date_parse [OF b y'(1)]
  let ?n = "days_from_civil y' month day"
  have after: "?a \<le> ?n"
    using y'(2) canonical_order [OF b y'(1) y(1) _ y(3)] days_order [OF p(1) v] y(2) by (auto simp: not_less)
  have first: "snd (civil_from_days k) \<noteq> (month, day)" if "?a \<le> k" "k < ?n" for k
  proof
    assume "snd (civil_from_days k) = (month, day)"
    then obtain x where c: "civil_from_days k = (x, month, day)" by (metis prod.collapse)
    note k = days_of_civil_of_days [OF c]
    have "x < y'" using that(2) days_order [OF k(1) p(1)] k(2) by auto
    moreover have "y \<le> x" using that(1) days_order [OF k(1) v] k(2) by auto
    ultimately have x: "x = y" "y' = y + 1" using y'(2) by auto
    obtain date where date: "canonical_date y month day = Some date"
      using canonical_date_text [OF y(1) _ k(1) [unfolded x(1)]] y(2) by auto
    then have "date < anchor" using y'(2) x(2) by auto
    then have "k < ?a" using canonical_order [OF y(1) _ date y(1) _ y(3)] y(2) k(2) x(1) by simp
    with that(1) show False by simp
  qed
  show ?thesis
    using p(5) after first civil_of_days_of_civil [OF p(1)] by (intro exI [of _ ?n]) auto
qed

lemma next_weekday_spec:
  assumes a: "anchor_ok anchor y m d" and w: "w < 7"
  shows "\<exists>s n. next_weekday (days_from_civil y m d) w = Some s \<and> civil_day_number s = Some n
      \<and> days_from_civil y m d < n \<and> n \<le> days_from_civil y m d + 7 \<and> weekday_for_days n = w"
proof -
  let ?a = "days_from_civil y m d"
  define i where "i = (int w - ?a - 4) mod 7 + 1"
  have i: "1 \<le> i" "i \<le> 7" by (simp_all add: i_def)
  have "(?a + 4 + (int w - ?a - 4) mod 7) mod 7 = (?a + 4 + (int w - ?a - 4)) mod 7" by (rule mod_add_right_eq)
  then have "(?a + i + 3) mod 7 = int w" using w by (simp add: i_def algebra_simps)
  then have "weekday_for_days (?a + i) = w" by (simp add: weekday_for_days_def algebra_simps)
  then have "find (\<lambda>offset. weekday_for_days (?a + offset) = w) [1..7] \<noteq> None"
    using i by (auto simp: find_None_iff)
  then obtain j where j: "find (\<lambda>offset. weekday_for_days (?a + offset) = w) [1..7] = Some j" by blast
  then have jb: "1 \<le> j" "j \<le> 7" "weekday_for_days (?a + j) = w"
    by (auto simp: find_Some_iff dest!: nth_mem)
  obtain y' m' d' where c: "civil_from_days (?a + j) = (y', m', d')" by (metis prod_cases3)
  show ?thesis
    using print_day [OF c] anchor_facts(5,6) [OF a] jb by (auto simp: next_weekday_def j c)
qed

text \<open>
  Dates without a year are read as upcoming ones. Seen from an anchor date before the year 9999: a month
  and day give the first day on or after the anchor with this month and day; a weekday gives the first day
  strictly after the anchor with this weekday, at most a week away; tomorrow is the day after the anchor,
  across the ends of months and years.
\<close>

theorem dates_without_year_are_upcoming:
  assumes "canonical_date y m d = Some anchor" "0 \<le> y" "y \<le> 9998"
  shows "(\<forall>month day s. nearest_date_on_or_after anchor month day = Some s \<longrightarrow>
      (\<exists>n. civil_day_number s = Some n \<and> days_from_civil y m d \<le> n \<and> snd (civil_from_days n) = (month, day)
         \<and> (\<forall>k. days_from_civil y m d \<le> k \<and> k < n \<longrightarrow> snd (civil_from_days k) \<noteq> (month, day))))
    \<and> (\<forall>weekday < 7. \<exists>s n. next_weekday (days_from_civil y m d) weekday = Some s \<and> civil_day_number s = Some n
         \<and> days_from_civil y m d < n \<and> n \<le> days_from_civil y m d + 7 \<and> weekday_for_days n = weekday)
    \<and> (\<exists>s. parse_relative_date [''tomorrow''] anchor = Some s
         \<and> civil_day_number s = Some (days_from_civil y m d + 1))"
proof -
  let ?a = "days_from_civil y m d"
  have a: "anchor_ok anchor y m d" using assms by (simp add: anchor_ok_def)
  note f = anchor_facts [OF a]
  have "\<exists>n. civil_day_number s = Some n \<and> ?a \<le> n \<and> snd (civil_from_days n) = (month, day)
      \<and> (\<forall>k. ?a \<le> k \<and> k < n \<longrightarrow> snd (civil_from_days k) \<noteq> (month, day))"
    if "nearest_date_on_or_after anchor month day = Some s" for month day s
    by (rule nearest_is_first [OF a that])
  moreover have "\<exists>s n. next_weekday ?a w = Some s \<and> civil_day_number s = Some n \<and> ?a < n \<and> n \<le> ?a + 7
      \<and> weekday_for_days n = w" if "w < 7" for w
    by (rule next_weekday_spec [OF a that])
  moreover have "\<exists>s. parse_relative_date [''tomorrow''] anchor = Some s \<and> civil_day_number s = Some (?a + 1)"
  proof -
    obtain y' m' d' where c: "civil_from_days (?a + 1) = (y', m', d')" by (metis prod_cases3)
    show ?thesis using print_day [OF c] f(2,5,6) by (auto simp: parse_relative_date_def c)
  qed
  ultimately show ?thesis by blast
qed

theorem dates_without_year_are_upcoming_witness:
  "(\<exists>s n. next_weekday (days_from_civil 2026 12 31) 3 = Some s \<and> civil_day_number s = Some n
      \<and> days_from_civil 2026 12 31 < n \<and> weekday_for_days n = 3)
   \<and> (\<exists>s. parse_relative_date [''tomorrow''] ''2026-12-31'' = Some s
      \<and> civil_day_number s = Some (days_from_civil 2026 12 31 + 1))"
proof -
  have "canonical_date 2026 12 31 = Some ''2026-12-31''" by code_simp
  then have "2026 \<ge> (0 :: int)" "2026 \<le> (9998 :: int)" "canonical_date 2026 12 31 = Some ''2026-12-31''" by simp_all
  note u = dates_without_year_are_upcoming [OF this(3,1,2), THEN conjunct2]
  have "(3 :: nat) < 7" by simp
  with u [THEN conjunct1] u [THEN conjunct2] show ?thesis by blast
qed

text \<open>
  (C20) The day numbers and the civil dates are in bijection: every date the parsers accept is given back by the
  day number computed from it, in every year before and after the epoch; every day number stands for an
  accepted date with this day number; and the next day number is the next date of the calendar, in the order
  of the dates.
\<close>

theorem civil_calendar_bijection:
  "(canonical_date y m d \<noteq> None \<longrightarrow> civil_from_days (days_from_civil y m d) = (y, m, d))
   \<and> (case civil_from_days z of (y', m', d') \<Rightarrow> canonical_date y' m' d' \<noteq> None \<and> days_from_civil y' m' d' = z
        \<and> civil_from_days (z + 1) = next_date y' m' d')"
proof -
  obtain y' m' d' where c: "civil_from_days z = (y', m', d')" by (metis prod_cases3)
  note k = days_of_civil_of_days [OF c]
  have v: "canonical_date a b e \<noteq> None \<longleftrightarrow> valid_date a b e" for a b e
    by (auto simp: canonical_date_def valid_date_def)
  show ?thesis unfolding v c prod.case using civil_of_days_of_civil k civil_next [OF c] by blast
qed

theorem civil_calendar_bijection_witness:
  "canonical_date 2024 2 29 \<noteq> None \<and> civil_from_days (days_from_civil 2024 2 29) = (2024, 2, 29)"
proof -
  have "canonical_date 2024 2 29 \<noteq> None" by code_simp
  then show ?thesis using civil_calendar_bijection [of 2024 2 29 0] by simp
qed

end
