(* ===== verification/Env_Registry.thy ===== *)
theory Env_Registry
  imports Rust_Text
begin

text \<open>
  \<open>bos-app/src/env_registry.rs\<close>: the registry of every environment variable the process reads. One constant
  per registered variable, the list of all of them and the readers. The process environment is an argument, a
  map from names to values; the descriptions of the variables are display text and left out.
\<close>

section \<open>Variables\<close>

datatype env_var_group =
  AgentMcp | AiDrafting | CallsTranscription | ConnectorsSync | ContentPublishing | Crm | CustomerTier
| DataRetention | DriveCorpus | EmailTriage | InfraServer | InventoryClaims | InvoicingAccounting
| LlmBackend | Reporting | SecurityWebhooks | WebEnrichmentSearch

fun group_as_str :: "env_var_group \<Rightarrow> string" where
  "group_as_str AgentMcp = ''Agent / MCP''"
| "group_as_str AiDrafting = ''AI usage and drafting''"
| "group_as_str CallsTranscription = ''Calls and transcription''"
| "group_as_str ConnectorsSync = ''Connectors and sync''"
| "group_as_str ContentPublishing = ''Content publishing''"
| "group_as_str Crm = ''CRM''"
| "group_as_str CustomerTier = ''Customer tier''"
| "group_as_str DataRetention = ''Data retention''"
| "group_as_str DriveCorpus = ''Drive corpus''"
| "group_as_str EmailTriage = ''Email and triage''"
| "group_as_str InfraServer = ''Infra / server''"
| "group_as_str InventoryClaims = ''Inventory and claims''"
| "group_as_str InvoicingAccounting = ''Invoicing and accounting''"
| "group_as_str LlmBackend = ''LLM backend''"
| "group_as_str Reporting = ''Reporting''"
| "group_as_str SecurityWebhooks = ''Security and webhooks''"
| "group_as_str WebEnrichmentSearch = ''Web enrichment and search''"

record env_var =
  ev_name :: string
  ev_group :: env_var_group
  ev_secret :: bool
  ev_default :: "string option"
  ev_aliases :: "string list"

definition env_var_of :: "string \<Rightarrow> env_var_group \<Rightarrow> bool \<Rightarrow> string option \<Rightarrow> string list \<Rightarrow> env_var" where
  "env_var_of name grp secret dflt aliases =
     \<lparr>ev_name = name, ev_group = grp, ev_secret = secret, ev_default = dflt, ev_aliases = aliases\<rparr>"

definition BOS_AGENT_LAUNCH_ENABLED :: env_var where
  "BOS_AGENT_LAUNCH_ENABLED = env_var_of ''BOS_AGENT_LAUNCH_ENABLED'' AgentMcp False None []"

definition BOS_AGENT_MCP_ENABLED :: env_var where
  "BOS_AGENT_MCP_ENABLED = env_var_of ''BOS_AGENT_MCP_ENABLED'' AgentMcp False None []"

definition BOS_AGENTIC_WEB_RESEARCH_COST_BUDGET_MICROS :: env_var where
  "BOS_AGENTIC_WEB_RESEARCH_COST_BUDGET_MICROS = env_var_of ''BOS_AGENTIC_WEB_RESEARCH_COST_BUDGET_MICROS'' WebEnrichmentSearch False (Some ''0'') []"

definition BOS_AGENTIC_WEB_RESEARCH_ENABLED :: env_var where
  "BOS_AGENTIC_WEB_RESEARCH_ENABLED = env_var_of ''BOS_AGENTIC_WEB_RESEARCH_ENABLED'' WebEnrichmentSearch False None []"

definition BOS_AGENTIC_WEB_RESEARCH_MAX_CONCURRENT_RUNS :: env_var where
  "BOS_AGENTIC_WEB_RESEARCH_MAX_CONCURRENT_RUNS = env_var_of ''BOS_AGENTIC_WEB_RESEARCH_MAX_CONCURRENT_RUNS'' WebEnrichmentSearch False (Some ''1'') []"

definition BOS_AGENTIC_WEB_RESEARCH_MAX_FETCHED_PAGES :: env_var where
  "BOS_AGENTIC_WEB_RESEARCH_MAX_FETCHED_PAGES = env_var_of ''BOS_AGENTIC_WEB_RESEARCH_MAX_FETCHED_PAGES'' WebEnrichmentSearch False (Some ''4'') []"

definition BOS_AGENTIC_WEB_RESEARCH_MAX_OUTPUT_TOKENS :: env_var where
  "BOS_AGENTIC_WEB_RESEARCH_MAX_OUTPUT_TOKENS = env_var_of ''BOS_AGENTIC_WEB_RESEARCH_MAX_OUTPUT_TOKENS'' WebEnrichmentSearch False (Some ''4096'') []"

definition BOS_AGENTIC_WEB_RESEARCH_MAX_PAGE_BYTES :: env_var where
  "BOS_AGENTIC_WEB_RESEARCH_MAX_PAGE_BYTES = env_var_of ''BOS_AGENTIC_WEB_RESEARCH_MAX_PAGE_BYTES'' WebEnrichmentSearch False (Some ''524288'') []"

definition BOS_AGENTIC_WEB_RESEARCH_MAX_RESULTS :: env_var where
  "BOS_AGENTIC_WEB_RESEARCH_MAX_RESULTS = env_var_of ''BOS_AGENTIC_WEB_RESEARCH_MAX_RESULTS'' WebEnrichmentSearch False (Some ''10'') []"

definition BOS_AGENTIC_WEB_RESEARCH_MAX_SEARCHES :: env_var where
  "BOS_AGENTIC_WEB_RESEARCH_MAX_SEARCHES = env_var_of ''BOS_AGENTIC_WEB_RESEARCH_MAX_SEARCHES'' WebEnrichmentSearch False (Some ''2'') []"

definition BOS_AGENTIC_WEB_RESEARCH_MAX_STEPS :: env_var where
  "BOS_AGENTIC_WEB_RESEARCH_MAX_STEPS = env_var_of ''BOS_AGENTIC_WEB_RESEARCH_MAX_STEPS'' WebEnrichmentSearch False (Some ''8'') []"

definition BOS_AGENTIC_WEB_RESEARCH_TIMEOUT_MS :: env_var where
  "BOS_AGENTIC_WEB_RESEARCH_TIMEOUT_MS = env_var_of ''BOS_AGENTIC_WEB_RESEARCH_TIMEOUT_MS'' WebEnrichmentSearch False (Some ''90000'') []"

definition BOS_AGENT_EVIDENCE_CLEANUP_ENABLED :: env_var where
  "BOS_AGENT_EVIDENCE_CLEANUP_ENABLED = env_var_of ''BOS_AGENT_EVIDENCE_CLEANUP_ENABLED'' AgentMcp False (Some ''1'') []"

definition BOS_AGENT_EVIDENCE_CLEANUP_INTERVAL_SECS :: env_var where
  "BOS_AGENT_EVIDENCE_CLEANUP_INTERVAL_SECS = env_var_of ''BOS_AGENT_EVIDENCE_CLEANUP_INTERVAL_SECS'' AgentMcp False (Some ''3600'') []"

definition BOS_AGENT_EVIDENCE_MAX_BYTES :: env_var where
  "BOS_AGENT_EVIDENCE_MAX_BYTES = env_var_of ''BOS_AGENT_EVIDENCE_MAX_BYTES'' AgentMcp False (Some ''10485760'') []"

definition BOS_AGENT_EVIDENCE_RETENTION_DAYS :: env_var where
  "BOS_AGENT_EVIDENCE_RETENTION_DAYS = env_var_of ''BOS_AGENT_EVIDENCE_RETENTION_DAYS'' AgentMcp False (Some ''30'') []"

definition BOS_AGENT_EVIDENCE_ROOT_DIR :: env_var where
  "BOS_AGENT_EVIDENCE_ROOT_DIR = env_var_of ''BOS_AGENT_EVIDENCE_ROOT_DIR'' AgentMcp False (Some ''var/agent-evidence'') []"

definition BOS_BUFFER_ACCESS_TOKEN :: env_var where
  "BOS_BUFFER_ACCESS_TOKEN = env_var_of ''BOS_BUFFER_ACCESS_TOKEN'' ContentPublishing True None []"

definition BOS_BUFFER_API_URL :: env_var where
  "BOS_BUFFER_API_URL = env_var_of ''BOS_BUFFER_API_URL'' ContentPublishing False (Some ''https://api.buffer.com'') []"

definition BOS_BUFFER_CHANNELS_JSON :: env_var where
  "BOS_BUFFER_CHANNELS_JSON = env_var_of ''BOS_BUFFER_CHANNELS_JSON'' ContentPublishing False None []"

definition BOS_BUFFER_WRITE_ENABLED :: env_var where
  "BOS_BUFFER_WRITE_ENABLED = env_var_of ''BOS_BUFFER_WRITE_ENABLED'' ContentPublishing False None []"

definition BOS_AI_TRIAGE_ENABLED :: env_var where
  "BOS_AI_TRIAGE_ENABLED = env_var_of ''BOS_AI_TRIAGE_ENABLED'' EmailTriage False None []"

definition BOS_AI_TRIAGE_MAX_LLM_CALLS_PER_CYCLE :: env_var where
  "BOS_AI_TRIAGE_MAX_LLM_CALLS_PER_CYCLE = env_var_of ''BOS_AI_TRIAGE_MAX_LLM_CALLS_PER_CYCLE'' EmailTriage False (Some ''5'') []"

definition BOS_AI_TRIAGE_MIN_CONFIDENCE :: env_var where
  "BOS_AI_TRIAGE_MIN_CONFIDENCE = env_var_of ''BOS_AI_TRIAGE_MIN_CONFIDENCE'' EmailTriage False (Some ''high'') []"

definition BOS_AI_TRIAGE_PACKET_PROPOSALS_ENABLED :: env_var where
  "BOS_AI_TRIAGE_PACKET_PROPOSALS_ENABLED = env_var_of ''BOS_AI_TRIAGE_PACKET_PROPOSALS_ENABLED'' EmailTriage False None []"

definition BOS_PACKET_PROPOSAL_RUNNING_STALE_AFTER_MS :: env_var where
  "BOS_PACKET_PROPOSAL_RUNNING_STALE_AFTER_MS = env_var_of ''BOS_PACKET_PROPOSAL_RUNNING_STALE_AFTER_MS'' AiDrafting False (Some ''3600000'') []"

definition BOS_PACKET_PROPOSAL_TOOL_LOOP_ENABLED :: env_var where
  "BOS_PACKET_PROPOSAL_TOOL_LOOP_ENABLED = env_var_of ''BOS_PACKET_PROPOSAL_TOOL_LOOP_ENABLED'' AiDrafting False None []"

definition BOS_AUTO_PRODUCE_ENABLED :: env_var where
  "BOS_AUTO_PRODUCE_ENABLED = env_var_of ''BOS_AUTO_PRODUCE_ENABLED'' AiDrafting False None []"

definition BOS_AUTO_PRODUCE_INTERVAL_SECS :: env_var where
  "BOS_AUTO_PRODUCE_INTERVAL_SECS = env_var_of ''BOS_AUTO_PRODUCE_INTERVAL_SECS'' AiDrafting False (Some ''30'') []"

definition BOS_AUTO_PRODUCE_MAX_PER_CYCLE :: env_var where
  "BOS_AUTO_PRODUCE_MAX_PER_CYCLE = env_var_of ''BOS_AUTO_PRODUCE_MAX_PER_CYCLE'' AiDrafting False (Some ''3'') []"

definition BOS_BUILD_SHA :: env_var where
  "BOS_BUILD_SHA = env_var_of ''BOS_BUILD_SHA'' InfraServer False None []"

definition BOS_CALL_INPUTS_AUDIO_TRANSCRIPTION_ENABLED :: env_var where
  "BOS_CALL_INPUTS_AUDIO_TRANSCRIPTION_ENABLED = env_var_of ''BOS_CALL_INPUTS_AUDIO_TRANSCRIPTION_ENABLED'' CallsTranscription False None []"

definition BOS_CALL_INPUTS_MAX_AUDIO_BYTES :: env_var where
  "BOS_CALL_INPUTS_MAX_AUDIO_BYTES = env_var_of ''BOS_CALL_INPUTS_MAX_AUDIO_BYTES'' CallsTranscription False (Some ''52428800'') []"

definition BOS_CALL_INPUTS_SYNC_ENABLED :: env_var where
  "BOS_CALL_INPUTS_SYNC_ENABLED = env_var_of ''BOS_CALL_INPUTS_SYNC_ENABLED'' CallsTranscription False None []"

definition BOS_CALL_INPUTS_SYNC_INTERVAL_SECS :: env_var where
  "BOS_CALL_INPUTS_SYNC_INTERVAL_SECS = env_var_of ''BOS_CALL_INPUTS_SYNC_INTERVAL_SECS'' CallsTranscription False (Some ''300'') []"

definition BOS_CALL_INPUTS_TRANSCRIPTION_INTAKE_DIR :: env_var where
  "BOS_CALL_INPUTS_TRANSCRIPTION_INTAKE_DIR = env_var_of ''BOS_CALL_INPUTS_TRANSCRIPTION_INTAKE_DIR'' CallsTranscription False None []"

definition BOS_CALL_INPUTS_TRANSCRIPTION_MAX_CONCURRENCY :: env_var where
  "BOS_CALL_INPUTS_TRANSCRIPTION_MAX_CONCURRENCY = env_var_of ''BOS_CALL_INPUTS_TRANSCRIPTION_MAX_CONCURRENCY'' CallsTranscription False (Some ''1'') []"

definition BOS_CALL_INPUTS_TRANSCRIPTION_TMP_DIR :: env_var where
  "BOS_CALL_INPUTS_TRANSCRIPTION_TMP_DIR = env_var_of ''BOS_CALL_INPUTS_TRANSCRIPTION_TMP_DIR'' CallsTranscription False (Some ''var/call-inputs-transcription'') []"

definition BOS_CALL_INPUTS_TRANSCRIPTION_TIMEOUT_MS :: env_var where
  "BOS_CALL_INPUTS_TRANSCRIPTION_TIMEOUT_MS = env_var_of ''BOS_CALL_INPUTS_TRANSCRIPTION_TIMEOUT_MS'' CallsTranscription False (Some ''300000'') []"

definition BOS_CALL_INPUTS_WHISPER_BIN :: env_var where
  "BOS_CALL_INPUTS_WHISPER_BIN = env_var_of ''BOS_CALL_INPUTS_WHISPER_BIN'' CallsTranscription False None []"

definition BOS_CALL_INPUTS_WHISPER_MODEL :: env_var where
  "BOS_CALL_INPUTS_WHISPER_MODEL = env_var_of ''BOS_CALL_INPUTS_WHISPER_MODEL'' CallsTranscription False None []"

definition BOS_CLAIM_DRAFT_TO_ADDR :: env_var where
  "BOS_CLAIM_DRAFT_TO_ADDR = env_var_of ''BOS_CLAIM_DRAFT_TO_ADDR'' InventoryClaims False None []"

definition BOS_CLAIMS_MAX_REQUESTS_PER_CYCLE :: env_var where
  "BOS_CLAIMS_MAX_REQUESTS_PER_CYCLE = env_var_of ''BOS_CLAIMS_MAX_REQUESTS_PER_CYCLE'' InventoryClaims False (Some ''5'') []"

definition BOS_CLAIMS_SYNC_ENABLED :: env_var where
  "BOS_CLAIMS_SYNC_ENABLED = env_var_of ''BOS_CLAIMS_SYNC_ENABLED'' InventoryClaims False None []"

definition BOS_CLAIMS_SYNC_INTERVAL_SECS :: env_var where
  "BOS_CLAIMS_SYNC_INTERVAL_SECS = env_var_of ''BOS_CLAIMS_SYNC_INTERVAL_SECS'' InventoryClaims False (Some ''1800'') []"

definition BOS_CLIENT_ID :: env_var where
  "BOS_CLIENT_ID = env_var_of ''BOS_CLIENT_ID'' InfraServer False (Some ''dev'') []"

definition BOS_CLIENT_OVERLAY_DIR :: env_var where
  "BOS_CLIENT_OVERLAY_DIR = env_var_of ''BOS_CLIENT_OVERLAY_DIR'' InfraServer False None []"

definition BOS_CONTENT_WEB_FACTS_ENABLED :: env_var where
  "BOS_CONTENT_WEB_FACTS_ENABLED = env_var_of ''BOS_CONTENT_WEB_FACTS_ENABLED'' WebEnrichmentSearch False None []"

definition BOS_CONTENT_PUBLISH_ADAPTER_URL :: env_var where
  "BOS_CONTENT_PUBLISH_ADAPTER_URL = env_var_of ''BOS_CONTENT_PUBLISH_ADAPTER_URL'' ContentPublishing False None []"

definition BOS_CONTENT_PUBLISH_ADAPTER_TOKEN :: env_var where
  "BOS_CONTENT_PUBLISH_ADAPTER_TOKEN = env_var_of ''BOS_CONTENT_PUBLISH_ADAPTER_TOKEN'' ContentPublishing True None []"

definition BOS_CONTENT_PUBLISH_WRITE_ENABLED :: env_var where
  "BOS_CONTENT_PUBLISH_WRITE_ENABLED = env_var_of ''BOS_CONTENT_PUBLISH_WRITE_ENABLED'' ContentPublishing False None []"

definition BOS_EMAIL_ENRICHMENT_BACKFILL_BATCH :: env_var where
  "BOS_EMAIL_ENRICHMENT_BACKFILL_BATCH = env_var_of ''BOS_EMAIL_ENRICHMENT_BACKFILL_BATCH'' EmailTriage False (Some ''200'') []"

definition BOS_EMAIL_ENRICHMENT_BACKFILL_ENABLED :: env_var where
  "BOS_EMAIL_ENRICHMENT_BACKFILL_ENABLED = env_var_of ''BOS_EMAIL_ENRICHMENT_BACKFILL_ENABLED'' EmailTriage False None []"

definition BOS_EMAIL_INGRESS_WEBHOOK_SECRET :: env_var where
  "BOS_EMAIL_INGRESS_WEBHOOK_SECRET = env_var_of ''BOS_EMAIL_INGRESS_WEBHOOK_SECRET'' SecurityWebhooks True None []"

definition BOS_EMAIL_TRIAGE_FACT_CACHE_TTL_SECS :: env_var where
  "BOS_EMAIL_TRIAGE_FACT_CACHE_TTL_SECS = env_var_of ''BOS_EMAIL_TRIAGE_FACT_CACHE_TTL_SECS'' EmailTriage False (Some ''21600'') []"

definition BOS_EMAIL_TRIAGE_FACT_PROVIDER_BUDGET_PER_MESSAGE :: env_var where
  "BOS_EMAIL_TRIAGE_FACT_PROVIDER_BUDGET_PER_MESSAGE = env_var_of ''BOS_EMAIL_TRIAGE_FACT_PROVIDER_BUDGET_PER_MESSAGE'' EmailTriage False (Some ''2'') []"

definition BOS_CRM_DEAL_VISIBILITY_POLICY :: env_var where
  "BOS_CRM_DEAL_VISIBILITY_POLICY = env_var_of ''BOS_CRM_DEAL_VISIBILITY_POLICY'' Crm False (Some ''authorizer_only'') []"

definition BOS_CRM_CONTEXT_NEUTRAL_SENDER_DOMAINS :: env_var where
  "BOS_CRM_CONTEXT_NEUTRAL_SENDER_DOMAINS = env_var_of ''BOS_CRM_CONTEXT_NEUTRAL_SENDER_DOMAINS'' Crm False (Some ''amazonses.com,hubspotemail.net,intuit.com,mailchimp.com,mandrillapp.com,myshopify.com,paypal.com,quickbooks.intuit.com,sendgrid.net,shopify.com,shopifyemail.com,squareup.com,stripe.com,zendesk.com'') []"

definition BOS_CRM_PROVIDER :: env_var where
  "BOS_CRM_PROVIDER = env_var_of ''BOS_CRM_PROVIDER'' Crm False (Some ''hubspot'') []"

definition BOS_CRM_READ_MAX_REQUESTS_PER_CYCLE :: env_var where
  "BOS_CRM_READ_MAX_REQUESTS_PER_CYCLE = env_var_of ''BOS_CRM_READ_MAX_REQUESTS_PER_CYCLE'' Crm False (Some ''8'') []"

definition BOS_CRM_READ_SYNC_ENABLED :: env_var where
  "BOS_CRM_READ_SYNC_ENABLED = env_var_of ''BOS_CRM_READ_SYNC_ENABLED'' Crm False None []"

definition BOS_CRM_READ_SYNC_INTERVAL_SECS :: env_var where
  "BOS_CRM_READ_SYNC_INTERVAL_SECS = env_var_of ''BOS_CRM_READ_SYNC_INTERVAL_SECS'' Crm False (Some ''1800'') []"

definition BOS_DRIVE_CORPUS_EXCLUDE_FILE_IDS :: env_var where
  "BOS_DRIVE_CORPUS_EXCLUDE_FILE_IDS = env_var_of ''BOS_DRIVE_CORPUS_EXCLUDE_FILE_IDS'' DriveCorpus False None []"

definition BOS_DRIVE_CORPUS_EXCLUDE_NAME_PATTERNS :: env_var where
  "BOS_DRIVE_CORPUS_EXCLUDE_NAME_PATTERNS = env_var_of ''BOS_DRIVE_CORPUS_EXCLUDE_NAME_PATTERNS'' DriveCorpus False None []"

definition BOS_DRIVE_CORPUS_FOLDER_IDS :: env_var where
  "BOS_DRIVE_CORPUS_FOLDER_IDS = env_var_of ''BOS_DRIVE_CORPUS_FOLDER_IDS'' DriveCorpus False None []"

definition BOS_DRIVE_CORPUS_INCLUDE_FILE_IDS :: env_var where
  "BOS_DRIVE_CORPUS_INCLUDE_FILE_IDS = env_var_of ''BOS_DRIVE_CORPUS_INCLUDE_FILE_IDS'' DriveCorpus False None []"

definition BOS_DRIVE_CORPUS_USER_ID :: env_var where
  "BOS_DRIVE_CORPUS_USER_ID = env_var_of ''BOS_DRIVE_CORPUS_USER_ID'' DriveCorpus False None []"

definition BOS_DRIVE_MAX_REQUESTS_PER_CYCLE :: env_var where
  "BOS_DRIVE_MAX_REQUESTS_PER_CYCLE = env_var_of ''BOS_DRIVE_MAX_REQUESTS_PER_CYCLE'' DriveCorpus False (Some ''8'') []"

definition BOS_DRIVE_SYNC_ENABLED :: env_var where
  "BOS_DRIVE_SYNC_ENABLED = env_var_of ''BOS_DRIVE_SYNC_ENABLED'' DriveCorpus False None []"

definition BOS_DRIVE_SYNC_INTERVAL_SECS :: env_var where
  "BOS_DRIVE_SYNC_INTERVAL_SECS = env_var_of ''BOS_DRIVE_SYNC_INTERVAL_SECS'' DriveCorpus False (Some ''1800'') []"

definition BOS_ENRICHMENT_FRESHNESS_ENABLED :: env_var where
  "BOS_ENRICHMENT_FRESHNESS_ENABLED = env_var_of ''BOS_ENRICHMENT_FRESHNESS_ENABLED'' WebEnrichmentSearch False None []"

definition BOS_ENRICHMENT_FRESHNESS_INTERVAL_SECS :: env_var where
  "BOS_ENRICHMENT_FRESHNESS_INTERVAL_SECS = env_var_of ''BOS_ENRICHMENT_FRESHNESS_INTERVAL_SECS'' WebEnrichmentSearch False (Some ''1800'') []"

definition BOS_ENRICHMENT_FRESHNESS_MAX_ENRICHMENTS_PER_CYCLE :: env_var where
  "BOS_ENRICHMENT_FRESHNESS_MAX_ENRICHMENTS_PER_CYCLE = env_var_of ''BOS_ENRICHMENT_FRESHNESS_MAX_ENRICHMENTS_PER_CYCLE'' WebEnrichmentSearch False (Some ''3'') []"

definition BOS_ENRICHMENT_FRESHNESS_STALE_AFTER_SECS :: env_var where
  "BOS_ENRICHMENT_FRESHNESS_STALE_AFTER_SECS = env_var_of ''BOS_ENRICHMENT_FRESHNESS_STALE_AFTER_SECS'' WebEnrichmentSearch False (Some ''2592000'') []"

definition BOS_ESPOCRM_API_KEY :: env_var where
  "BOS_ESPOCRM_API_KEY = env_var_of ''BOS_ESPOCRM_API_KEY'' Crm True None []"

definition BOS_ESPOCRM_BASE_URL :: env_var where
  "BOS_ESPOCRM_BASE_URL = env_var_of ''BOS_ESPOCRM_BASE_URL'' Crm False None []"

definition BOS_ESPOCRM_WRITE_ENABLED :: env_var where
  "BOS_ESPOCRM_WRITE_ENABLED = env_var_of ''BOS_ESPOCRM_WRITE_ENABLED'' Crm False None []"

definition BOS_GMAIL_INGEST_ENABLED :: env_var where
  "BOS_GMAIL_INGEST_ENABLED = env_var_of ''BOS_GMAIL_INGEST_ENABLED'' EmailTriage False None []"

definition BOS_GMAIL_INGEST_INTERVAL_SECS :: env_var where
  "BOS_GMAIL_INGEST_INTERVAL_SECS = env_var_of ''BOS_GMAIL_INGEST_INTERVAL_SECS'' EmailTriage False (Some ''120'') []"

definition BOS_GMAIL_INGEST_QUERY :: env_var where
  "BOS_GMAIL_INGEST_QUERY = env_var_of ''BOS_GMAIL_INGEST_QUERY'' EmailTriage False (Some ''in:inbox newer_than:14d'') []"

definition BOS_GMAIL_OAUTH_CLIENT_ID :: env_var where
  "BOS_GMAIL_OAUTH_CLIENT_ID = env_var_of ''BOS_GMAIL_OAUTH_CLIENT_ID'' EmailTriage False None [''GOOGLE_OAUTH_CLIENT_ID'']"

definition BOS_GMAIL_OAUTH_CLIENT_SECRET :: env_var where
  "BOS_GMAIL_OAUTH_CLIENT_SECRET = env_var_of ''BOS_GMAIL_OAUTH_CLIENT_SECRET'' EmailTriage True None [''GOOGLE_OAUTH_CLIENT_SECRET'']"

definition BOS_GMAIL_OAUTH_REFRESH_TOKEN :: env_var where
  "BOS_GMAIL_OAUTH_REFRESH_TOKEN = env_var_of ''BOS_GMAIL_OAUTH_REFRESH_TOKEN'' EmailTriage True None []"

definition BOS_GMAIL_OAUTH_SCOPES :: env_var where
  "BOS_GMAIL_OAUTH_SCOPES = env_var_of ''BOS_GMAIL_OAUTH_SCOPES'' EmailTriage False None []"

definition BOS_GMAIL_WRITE_ENABLED :: env_var where
  "BOS_GMAIL_WRITE_ENABLED = env_var_of ''BOS_GMAIL_WRITE_ENABLED'' EmailTriage False None []"

definition BOS_GMAIL_TRASH_ENABLED :: env_var where
  "BOS_GMAIL_TRASH_ENABLED = env_var_of ''BOS_GMAIL_TRASH_ENABLED'' EmailTriage False None []"

definition BOS_GOOGLE_CALENDAR_ID :: env_var where
  "BOS_GOOGLE_CALENDAR_ID = env_var_of ''BOS_GOOGLE_CALENDAR_ID'' ConnectorsSync False (Some ''primary'') []"

definition BOS_GOOGLE_CALENDAR_WRITE_ENABLED :: env_var where
  "BOS_GOOGLE_CALENDAR_WRITE_ENABLED = env_var_of ''BOS_GOOGLE_CALENDAR_WRITE_ENABLED'' ConnectorsSync False None []"

definition BOS_HUBSPOT_ACCESS_TOKEN :: env_var where
  "BOS_HUBSPOT_ACCESS_TOKEN = env_var_of ''BOS_HUBSPOT_ACCESS_TOKEN'' Crm True None [''HUBSPOT_PRIVATE_APP_TOKEN'']"

definition BOS_HUBSPOT_PORTAL_ID :: env_var where
  "BOS_HUBSPOT_PORTAL_ID = env_var_of ''BOS_HUBSPOT_PORTAL_ID'' Crm False None []"

definition BOS_HUBSPOT_DEALS_CLOSED_DATE_PROPERTY :: env_var where
  "BOS_HUBSPOT_DEALS_CLOSED_DATE_PROPERTY = env_var_of ''BOS_HUBSPOT_DEALS_CLOSED_DATE_PROPERTY'' Crm False (Some ''closedate'') []"

definition BOS_HUBSPOT_DEALS_LOST_STAGE_IDS :: env_var where
  "BOS_HUBSPOT_DEALS_LOST_STAGE_IDS = env_var_of ''BOS_HUBSPOT_DEALS_LOST_STAGE_IDS'' Crm False None []"

definition BOS_HUBSPOT_DEALS_OPEN_STAGE_IDS :: env_var where
  "BOS_HUBSPOT_DEALS_OPEN_STAGE_IDS = env_var_of ''BOS_HUBSPOT_DEALS_OPEN_STAGE_IDS'' Crm False None []"

definition BOS_HUBSPOT_DEALS_PIPELINE_ID :: env_var where
  "BOS_HUBSPOT_DEALS_PIPELINE_ID = env_var_of ''BOS_HUBSPOT_DEALS_PIPELINE_ID'' Crm False None []"

definition BOS_HUBSPOT_DEALS_SEGMENT_PROPERTIES :: env_var where
  "BOS_HUBSPOT_DEALS_SEGMENT_PROPERTIES = env_var_of ''BOS_HUBSPOT_DEALS_SEGMENT_PROPERTIES'' Crm False None []"

definition BOS_HUBSPOT_DEALS_STARTED_DATE_PROPERTY :: env_var where
  "BOS_HUBSPOT_DEALS_STARTED_DATE_PROPERTY = env_var_of ''BOS_HUBSPOT_DEALS_STARTED_DATE_PROPERTY'' Crm False (Some ''createdate'') []"

definition BOS_HUBSPOT_DEALS_WON_STAGE_IDS :: env_var where
  "BOS_HUBSPOT_DEALS_WON_STAGE_IDS = env_var_of ''BOS_HUBSPOT_DEALS_WON_STAGE_IDS'' Crm False None []"

definition BOS_HUBSPOT_WRITE_ENABLED :: env_var where
  "BOS_HUBSPOT_WRITE_ENABLED = env_var_of ''BOS_HUBSPOT_WRITE_ENABLED'' Crm False None []"

definition BOS_INVOICE_NINJA_API_TOKEN :: env_var where
  "BOS_INVOICE_NINJA_API_TOKEN = env_var_of ''BOS_INVOICE_NINJA_API_TOKEN'' InvoicingAccounting True None []"

definition BOS_INVOICE_NINJA_BASE_URL :: env_var where
  "BOS_INVOICE_NINJA_BASE_URL = env_var_of ''BOS_INVOICE_NINJA_BASE_URL'' InvoicingAccounting False None []"

definition BOS_INVOICE_NINJA_WRITE_ENABLED :: env_var where
  "BOS_INVOICE_NINJA_WRITE_ENABLED = env_var_of ''BOS_INVOICE_NINJA_WRITE_ENABLED'' InvoicingAccounting False None []"

definition BOS_LEAD_DISCOVERY_AUTOSCRAPE_ENABLED :: env_var where
  "BOS_LEAD_DISCOVERY_AUTOSCRAPE_ENABLED = env_var_of ''BOS_LEAD_DISCOVERY_AUTOSCRAPE_ENABLED'' ConnectorsSync False None []"

definition BOS_LEAD_DISCOVERY_AUTOSCRAPE_INTERVAL_SECS :: env_var where
  "BOS_LEAD_DISCOVERY_AUTOSCRAPE_INTERVAL_SECS = env_var_of ''BOS_LEAD_DISCOVERY_AUTOSCRAPE_INTERVAL_SECS'' ConnectorsSync False (Some ''1800'') []"

definition BOS_LEAD_DISCOVERY_AUTOSCRAPE_MAX_FINDINGS_PER_CYCLE :: env_var where
  "BOS_LEAD_DISCOVERY_AUTOSCRAPE_MAX_FINDINGS_PER_CYCLE = env_var_of ''BOS_LEAD_DISCOVERY_AUTOSCRAPE_MAX_FINDINGS_PER_CYCLE'' ConnectorsSync False (Some ''10'') []"

definition BOS_QBO_WRITE_ENABLED :: env_var where
  "BOS_QBO_WRITE_ENABLED = env_var_of ''BOS_QBO_WRITE_ENABLED'' InvoicingAccounting False None []"

definition BOS_STRIPE_SECRET_KEY :: env_var where
  "BOS_STRIPE_SECRET_KEY = env_var_of ''BOS_STRIPE_SECRET_KEY'' InvoicingAccounting True None []"

definition BOS_STRIPE_WRITE_ENABLED :: env_var where
  "BOS_STRIPE_WRITE_ENABLED = env_var_of ''BOS_STRIPE_WRITE_ENABLED'' InvoicingAccounting False None []"

definition BOS_REPORT_DIGEST_ENABLED :: env_var where
  "BOS_REPORT_DIGEST_ENABLED = env_var_of ''BOS_REPORT_DIGEST_ENABLED'' Reporting False None []"

definition BOS_REPORT_DIGEST_INTERVAL_SECS :: env_var where
  "BOS_REPORT_DIGEST_INTERVAL_SECS = env_var_of ''BOS_REPORT_DIGEST_INTERVAL_SECS'' Reporting False (Some ''21600'') []"

definition BOS_REPORT_DIGEST_DELIVERY_ENABLED :: env_var where
  "BOS_REPORT_DIGEST_DELIVERY_ENABLED = env_var_of ''BOS_REPORT_DIGEST_DELIVERY_ENABLED'' Reporting False None []"

definition BOS_REPORT_DIGEST_TO_ADDR :: env_var where
  "BOS_REPORT_DIGEST_TO_ADDR = env_var_of ''BOS_REPORT_DIGEST_TO_ADDR'' Reporting False None []"

definition BOS_REPORT_DIGEST_WEEKLY_WEEKDAY :: env_var where
  "BOS_REPORT_DIGEST_WEEKLY_WEEKDAY = env_var_of ''BOS_REPORT_DIGEST_WEEKLY_WEEKDAY'' Reporting False None []"

definition BOS_REPORT_DIGEST_MTD_DAY :: env_var where
  "BOS_REPORT_DIGEST_MTD_DAY = env_var_of ''BOS_REPORT_DIGEST_MTD_DAY'' Reporting False None []"

definition BOS_REPORT_DIGEST_METRICS :: env_var where
  "BOS_REPORT_DIGEST_METRICS = env_var_of ''BOS_REPORT_DIGEST_METRICS'' Reporting False None []"

definition BOS_REPORT_DIGEST_REDACT_FINANCIALS_FOR :: env_var where
  "BOS_REPORT_DIGEST_REDACT_FINANCIALS_FOR = env_var_of ''BOS_REPORT_DIGEST_REDACT_FINANCIALS_FOR'' Reporting False None []"

definition BOS_REPORT_DIGEST_SUBJECT_PREFIX :: env_var where
  "BOS_REPORT_DIGEST_SUBJECT_PREFIX = env_var_of ''BOS_REPORT_DIGEST_SUBJECT_PREFIX'' Reporting False None []"

definition BOS_SEARCH_CONSOLE_BRANDED_QUERY_PATTERNS :: env_var where
  "BOS_SEARCH_CONSOLE_BRANDED_QUERY_PATTERNS = env_var_of ''BOS_SEARCH_CONSOLE_BRANDED_QUERY_PATTERNS'' WebEnrichmentSearch False None []"

definition BOS_SEARCH_CONSOLE_ANALYTICS_EXCLUDED_REFERRER_DOMAINS :: env_var where
  "BOS_SEARCH_CONSOLE_ANALYTICS_EXCLUDED_REFERRER_DOMAINS = env_var_of ''BOS_SEARCH_CONSOLE_ANALYTICS_EXCLUDED_REFERRER_DOMAINS'' WebEnrichmentSearch False None []"

definition BOS_SEARCH_CONSOLE_GA4_PROPERTY_ID :: env_var where
  "BOS_SEARCH_CONSOLE_GA4_PROPERTY_ID = env_var_of ''BOS_SEARCH_CONSOLE_GA4_PROPERTY_ID'' WebEnrichmentSearch False None []"

definition BOS_SEARCH_CONSOLE_MAX_REQUESTS_PER_CYCLE :: env_var where
  "BOS_SEARCH_CONSOLE_MAX_REQUESTS_PER_CYCLE = env_var_of ''BOS_SEARCH_CONSOLE_MAX_REQUESTS_PER_CYCLE'' WebEnrichmentSearch False (Some ''8'') []"

definition BOS_SEARCH_CONSOLE_PROPERTY_URL :: env_var where
  "BOS_SEARCH_CONSOLE_PROPERTY_URL = env_var_of ''BOS_SEARCH_CONSOLE_PROPERTY_URL'' WebEnrichmentSearch False None []"

definition BOS_SEARCH_CONSOLE_SYNC_DAYS :: env_var where
  "BOS_SEARCH_CONSOLE_SYNC_DAYS = env_var_of ''BOS_SEARCH_CONSOLE_SYNC_DAYS'' WebEnrichmentSearch False (Some ''90'') []"

definition BOS_SEARCH_CONSOLE_SYNC_ENABLED :: env_var where
  "BOS_SEARCH_CONSOLE_SYNC_ENABLED = env_var_of ''BOS_SEARCH_CONSOLE_SYNC_ENABLED'' WebEnrichmentSearch False None []"

definition BOS_SEARCH_CONSOLE_SYNC_INTERVAL_SECS :: env_var where
  "BOS_SEARCH_CONSOLE_SYNC_INTERVAL_SECS = env_var_of ''BOS_SEARCH_CONSOLE_SYNC_INTERVAL_SECS'' WebEnrichmentSearch False (Some ''1800'') []"

definition BOS_SEARCH_CONSOLE_USER_ID :: env_var where
  "BOS_SEARCH_CONSOLE_USER_ID = env_var_of ''BOS_SEARCH_CONSOLE_USER_ID'' WebEnrichmentSearch False None []"

definition BOS_LLM_API_ENDPOINT :: env_var where
  "BOS_LLM_API_ENDPOINT = env_var_of ''BOS_LLM_API_ENDPOINT'' LlmBackend False None []"

definition BOS_LLM_API_KEY :: env_var where
  "BOS_LLM_API_KEY = env_var_of ''BOS_LLM_API_KEY'' LlmBackend True None []"

definition BOS_LLM_API_MODEL :: env_var where
  "BOS_LLM_API_MODEL = env_var_of ''BOS_LLM_API_MODEL'' LlmBackend False None []"

definition BOS_LLM_API_PROVIDER :: env_var where
  "BOS_LLM_API_PROVIDER = env_var_of ''BOS_LLM_API_PROVIDER'' LlmBackend False (Some ''anthropic'') []"

definition BOS_LLM_DEFAULT_BACKEND :: env_var where
  "BOS_LLM_DEFAULT_BACKEND = env_var_of ''BOS_LLM_DEFAULT_BACKEND'' LlmBackend False None []"

definition BOS_LLM_DEFAULT_MODEL :: env_var where
  "BOS_LLM_DEFAULT_MODEL = env_var_of ''BOS_LLM_DEFAULT_MODEL'' LlmBackend False None []"

definition BOS_LLM_HARNESS_MODEL :: env_var where
  "BOS_LLM_HARNESS_MODEL = env_var_of ''BOS_LLM_HARNESS_MODEL'' LlmBackend False None []"

definition BOS_LLM_HARNESS_PROGRAM :: env_var where
  "BOS_LLM_HARNESS_PROGRAM = env_var_of ''BOS_LLM_HARNESS_PROGRAM'' LlmBackend False (Some ''claude'') []"

definition BOS_LLM_HARNESS_THINKING_LEVEL :: env_var where
  "BOS_LLM_HARNESS_THINKING_LEVEL = env_var_of ''BOS_LLM_HARNESS_THINKING_LEVEL'' LlmBackend False None []"

definition BOS_LLM_LOCAL_API_KEY :: env_var where
  "BOS_LLM_LOCAL_API_KEY = env_var_of ''BOS_LLM_LOCAL_API_KEY'' LlmBackend True None []"

definition BOS_LLM_LOCAL_ENDPOINT :: env_var where
  "BOS_LLM_LOCAL_ENDPOINT = env_var_of ''BOS_LLM_LOCAL_ENDPOINT'' LlmBackend False (Some ''http://127.0.0.1:11434/v1/chat/completions'') []"

definition BOS_LLM_LOCAL_MODEL :: env_var where
  "BOS_LLM_LOCAL_MODEL = env_var_of ''BOS_LLM_LOCAL_MODEL'' LlmBackend False None []"

definition BOS_LLM_MAX_TOKENS :: env_var where
  "BOS_LLM_MAX_TOKENS = env_var_of ''BOS_LLM_MAX_TOKENS'' LlmBackend False (Some ''4096'') []"

definition BOS_LLM_ROUTE_OVERRIDES :: env_var where
  "BOS_LLM_ROUTE_OVERRIDES = env_var_of ''BOS_LLM_ROUTE_OVERRIDES'' LlmBackend False None []"

definition BOS_LLM_TIMEOUT_MS :: env_var where
  "BOS_LLM_TIMEOUT_MS = env_var_of ''BOS_LLM_TIMEOUT_MS'' LlmBackend False (Some ''120000'') []"

definition BOS_DATA_RETENTION_BATCH_SIZE :: env_var where
  "BOS_DATA_RETENTION_BATCH_SIZE = env_var_of ''BOS_DATA_RETENTION_BATCH_SIZE'' DataRetention False (Some ''200'') []"

definition BOS_DATA_RETENTION_EMAIL_BODY_DAYS :: env_var where
  "BOS_DATA_RETENTION_EMAIL_BODY_DAYS = env_var_of ''BOS_DATA_RETENTION_EMAIL_BODY_DAYS'' DataRetention False (Some ''90'') []"

definition BOS_DATA_RETENTION_ENABLED :: env_var where
  "BOS_DATA_RETENTION_ENABLED = env_var_of ''BOS_DATA_RETENTION_ENABLED'' DataRetention False (Some ''1'') []"

definition BOS_DATA_RETENTION_INCREMENTAL_VACUUM_PAGES :: env_var where
  "BOS_DATA_RETENTION_INCREMENTAL_VACUUM_PAGES = env_var_of ''BOS_DATA_RETENTION_INCREMENTAL_VACUUM_PAGES'' DataRetention False (Some ''256'') []"

definition BOS_DATA_RETENTION_INTERVAL_SECS :: env_var where
  "BOS_DATA_RETENTION_INTERVAL_SECS = env_var_of ''BOS_DATA_RETENTION_INTERVAL_SECS'' DataRetention False (Some ''21600'') []"

definition BOS_DATA_RETENTION_MAX_ROWS_PER_CYCLE :: env_var where
  "BOS_DATA_RETENTION_MAX_ROWS_PER_CYCLE = env_var_of ''BOS_DATA_RETENTION_MAX_ROWS_PER_CYCLE'' DataRetention False (Some ''5000'') []"

definition BOS_DATA_RETENTION_RECEIPT_PAYLOAD_DAYS :: env_var where
  "BOS_DATA_RETENTION_RECEIPT_PAYLOAD_DAYS = env_var_of ''BOS_DATA_RETENTION_RECEIPT_PAYLOAD_DAYS'' DataRetention False (Some ''90'') []"

definition BOS_DEBUG_ENABLED :: env_var where
  "BOS_DEBUG_ENABLED = env_var_of ''BOS_DEBUG_ENABLED'' InfraServer False None []"

definition BOS_DEBUG_AGENT_MONITOR_TOKEN :: env_var where
  "BOS_DEBUG_AGENT_MONITOR_TOKEN = env_var_of ''BOS_DEBUG_AGENT_MONITOR_TOKEN'' InfraServer True None []"

definition BOS_DEBUG_AGENT_MONITOR_URL :: env_var where
  "BOS_DEBUG_AGENT_MONITOR_URL = env_var_of ''BOS_DEBUG_AGENT_MONITOR_URL'' InfraServer False None []"

definition BOS_LOG_LEVEL :: env_var where
  "BOS_LOG_LEVEL = env_var_of ''BOS_LOG_LEVEL'' InfraServer False (Some ''info'') []"

definition BOS_OUTBOX_DELIVERY_ENABLED :: env_var where
  "BOS_OUTBOX_DELIVERY_ENABLED = env_var_of ''BOS_OUTBOX_DELIVERY_ENABLED'' ConnectorsSync False (Some ''1'') []"

definition BOS_OUTBOX_DELIVERY_INTERVAL_SECS :: env_var where
  "BOS_OUTBOX_DELIVERY_INTERVAL_SECS = env_var_of ''BOS_OUTBOX_DELIVERY_INTERVAL_SECS'' ConnectorsSync False (Some ''15'') []"

definition BOS_PUBLIC_BASE_URL :: env_var where
  "BOS_PUBLIC_BASE_URL = env_var_of ''BOS_PUBLIC_BASE_URL'' ConnectorsSync False (Some ''http://127.0.0.1:4400'') []"

definition BOS_QBO_CLIENT_ID :: env_var where
  "BOS_QBO_CLIENT_ID = env_var_of ''BOS_QBO_CLIENT_ID'' InvoicingAccounting False None [''QUICKBOOKS_CLIENT_ID'']"

definition BOS_QBO_CLIENT_SECRET :: env_var where
  "BOS_QBO_CLIENT_SECRET = env_var_of ''BOS_QBO_CLIENT_SECRET'' InvoicingAccounting True None [''QUICKBOOKS_CLIENT_SECRET'']"

definition BOS_QBO_ENVIRONMENT :: env_var where
  "BOS_QBO_ENVIRONMENT = env_var_of ''BOS_QBO_ENVIRONMENT'' InvoicingAccounting False (Some ''sandbox'') [''QUICKBOOKS_ENVIRONMENT'']"

definition BOS_ACCOUNTING_MAX_REQUESTS_PER_CYCLE :: env_var where
  "BOS_ACCOUNTING_MAX_REQUESTS_PER_CYCLE = env_var_of ''BOS_ACCOUNTING_MAX_REQUESTS_PER_CYCLE'' InvoicingAccounting False (Some ''8'') [''BOS_QBO_MAX_REQUESTS_PER_CYCLE'']"

definition BOS_ACCOUNTING_METRIC_ADJUSTED_FREIGHT_CENTS :: env_var where
  "BOS_ACCOUNTING_METRIC_ADJUSTED_FREIGHT_CENTS = env_var_of ''BOS_ACCOUNTING_METRIC_ADJUSTED_FREIGHT_CENTS'' InvoicingAccounting False None []"

definition BOS_ACCOUNTING_METRIC_ADJUSTED_INSURANCE_CENTS :: env_var where
  "BOS_ACCOUNTING_METRIC_ADJUSTED_INSURANCE_CENTS = env_var_of ''BOS_ACCOUNTING_METRIC_ADJUSTED_INSURANCE_CENTS'' InvoicingAccounting False None []"

definition BOS_ACCOUNTING_METRIC_ADJUSTED_TAXES_CENTS :: env_var where
  "BOS_ACCOUNTING_METRIC_ADJUSTED_TAXES_CENTS = env_var_of ''BOS_ACCOUNTING_METRIC_ADJUSTED_TAXES_CENTS'' InvoicingAccounting False None []"

definition BOS_ACCOUNTING_METRIC_BASELINE_CENTS :: env_var where
  "BOS_ACCOUNTING_METRIC_BASELINE_CENTS = env_var_of ''BOS_ACCOUNTING_METRIC_BASELINE_CENTS'' InvoicingAccounting False None []"

definition BOS_ACCOUNTING_METRIC_BASIS :: env_var where
  "BOS_ACCOUNTING_METRIC_BASIS = env_var_of ''BOS_ACCOUNTING_METRIC_BASIS'' InvoicingAccounting False None []"

definition BOS_ACCOUNTING_METRIC_LABEL :: env_var where
  "BOS_ACCOUNTING_METRIC_LABEL = env_var_of ''BOS_ACCOUNTING_METRIC_LABEL'' InvoicingAccounting False None []"

definition BOS_ACCOUNTING_PROVIDER :: env_var where
  "BOS_ACCOUNTING_PROVIDER = env_var_of ''BOS_ACCOUNTING_PROVIDER'' InvoicingAccounting False (Some ''qbo'') []"

definition BOS_ACCOUNTING_SYNC_ENABLED :: env_var where
  "BOS_ACCOUNTING_SYNC_ENABLED = env_var_of ''BOS_ACCOUNTING_SYNC_ENABLED'' InvoicingAccounting False None [''BOS_QBO_SYNC_ENABLED'']"

definition BOS_ACCOUNTING_SYNC_INTERVAL_SECS :: env_var where
  "BOS_ACCOUNTING_SYNC_INTERVAL_SECS = env_var_of ''BOS_ACCOUNTING_SYNC_INTERVAL_SECS'' InvoicingAccounting False (Some ''1800'') [''BOS_QBO_SYNC_INTERVAL_SECS'']"

definition BOS_ACCOUNTING_VISIBILITY_POLICY :: env_var where
  "BOS_ACCOUNTING_VISIBILITY_POLICY = env_var_of ''BOS_ACCOUNTING_VISIBILITY_POLICY'' InvoicingAccounting False None []"

definition BOS_OPERATOR_TOKEN :: env_var where
  "BOS_OPERATOR_TOKEN = env_var_of ''BOS_OPERATOR_TOKEN'' InfraServer True None [''DM_OPERATOR_TOKEN'']"

definition BOS_RELEASE_NOTES_WEBHOOK_SECRET :: env_var where
  "BOS_RELEASE_NOTES_WEBHOOK_SECRET = env_var_of ''BOS_RELEASE_NOTES_WEBHOOK_SECRET'' SecurityWebhooks True None []"

definition BOS_OWNER_REPORT_ALLOWED_OPERATOR_USER_IDS :: env_var where
  "BOS_OWNER_REPORT_ALLOWED_OPERATOR_USER_IDS = env_var_of ''BOS_OWNER_REPORT_ALLOWED_OPERATOR_USER_IDS'' Reporting False None []"

definition BOS_OWNER_REPORT_CALL_VOLUME_CATEGORY_ID :: env_var where
  "BOS_OWNER_REPORT_CALL_VOLUME_CATEGORY_ID = env_var_of ''BOS_OWNER_REPORT_CALL_VOLUME_CATEGORY_ID'' Reporting False None []"

definition BOS_OWNER_REPORT_CALL_VOLUME_GMAIL_LABEL :: env_var where
  "BOS_OWNER_REPORT_CALL_VOLUME_GMAIL_LABEL = env_var_of ''BOS_OWNER_REPORT_CALL_VOLUME_GMAIL_LABEL'' Reporting False None []"

definition BOS_OWNER_REPORT_CALL_VOLUME_GMAIL_QUERY :: env_var where
  "BOS_OWNER_REPORT_CALL_VOLUME_GMAIL_QUERY = env_var_of ''BOS_OWNER_REPORT_CALL_VOLUME_GMAIL_QUERY'' Reporting False None []"

definition BOS_OWNER_REPORT_CALL_VOLUME_LABEL :: env_var where
  "BOS_OWNER_REPORT_CALL_VOLUME_LABEL = env_var_of ''BOS_OWNER_REPORT_CALL_VOLUME_LABEL'' Reporting False None []"

definition BOS_OWNER_REPORT_CALL_VOLUME_SOURCE_LABEL :: env_var where
  "BOS_OWNER_REPORT_CALL_VOLUME_SOURCE_LABEL = env_var_of ''BOS_OWNER_REPORT_CALL_VOLUME_SOURCE_LABEL'' Reporting False None []"

definition BOS_SERVER_BIND :: env_var where
  "BOS_SERVER_BIND = env_var_of ''BOS_SERVER_BIND'' InfraServer False (Some ''127.0.0.1:4400'') []"

definition BOS_SHOPIFY_ACCESS_TOKEN :: env_var where
  "BOS_SHOPIFY_ACCESS_TOKEN = env_var_of ''BOS_SHOPIFY_ACCESS_TOKEN'' CustomerTier True None []"

definition BOS_SHOPIFY_API_VERSION :: env_var where
  "BOS_SHOPIFY_API_VERSION = env_var_of ''BOS_SHOPIFY_API_VERSION'' CustomerTier False (Some ''2026-01'') []"

definition BOS_SHOPIFY_CLIENT_ID :: env_var where
  "BOS_SHOPIFY_CLIENT_ID = env_var_of ''BOS_SHOPIFY_CLIENT_ID'' CustomerTier False None [''SHOPIFY_CLIENT_ID'', ''SHOPIFY_API_KEY'']"

definition BOS_SHOPIFY_CLIENT_SECRET :: env_var where
  "BOS_SHOPIFY_CLIENT_SECRET = env_var_of ''BOS_SHOPIFY_CLIENT_SECRET'' CustomerTier True None [''SHOPIFY_CLIENT_SECRET'', ''SHOPIFY_API_SECRET_KEY'']"

definition BOS_SHOPIFY_READ_SYNC_ENABLED :: env_var where
  "BOS_SHOPIFY_READ_SYNC_ENABLED = env_var_of ''BOS_SHOPIFY_READ_SYNC_ENABLED'' ConnectorsSync False None []"

definition BOS_SHOPIFY_READ_SYNC_INTERVAL_SECS :: env_var where
  "BOS_SHOPIFY_READ_SYNC_INTERVAL_SECS = env_var_of ''BOS_SHOPIFY_READ_SYNC_INTERVAL_SECS'' ConnectorsSync False (Some ''1800'') []"

definition BOS_SHOPIFY_READ_SYNC_MAX_ORDERS_PER_CYCLE :: env_var where
  "BOS_SHOPIFY_READ_SYNC_MAX_ORDERS_PER_CYCLE = env_var_of ''BOS_SHOPIFY_READ_SYNC_MAX_ORDERS_PER_CYCLE'' ConnectorsSync False (Some ''250'') []"

definition BOS_SHOPIFY_SALES_VISIBILITY_POLICY :: env_var where
  "BOS_SHOPIFY_SALES_VISIBILITY_POLICY = env_var_of ''BOS_SHOPIFY_SALES_VISIBILITY_POLICY'' CustomerTier False (Some ''authorizer_only'') []"

definition BOS_SHOPIFY_SHOP_DOMAIN :: env_var where
  "BOS_SHOPIFY_SHOP_DOMAIN = env_var_of ''BOS_SHOPIFY_SHOP_DOMAIN'' CustomerTier False None []"

definition BOS_SHOPIFY_TIER_MAPPING_JSON :: env_var where
  "BOS_SHOPIFY_TIER_MAPPING_JSON = env_var_of ''BOS_SHOPIFY_TIER_MAPPING_JSON'' CustomerTier False None []"

definition BOS_SHOPIFY_WRITE_ENABLED :: env_var where
  "BOS_SHOPIFY_WRITE_ENABLED = env_var_of ''BOS_SHOPIFY_WRITE_ENABLED'' CustomerTier False None []"

definition BOS_STATE_DIR :: env_var where
  "BOS_STATE_DIR = env_var_of ''BOS_STATE_DIR'' InfraServer False (Some ''./state'') []"

definition BOS_STOCKFORGE_API_KEY :: env_var where
  "BOS_STOCKFORGE_API_KEY = env_var_of ''BOS_STOCKFORGE_API_KEY'' InventoryClaims True None []"

definition BOS_STOCKFORGE_BASE_URL :: env_var where
  "BOS_STOCKFORGE_BASE_URL = env_var_of ''BOS_STOCKFORGE_BASE_URL'' InventoryClaims False None []"

definition BOS_STOCKFORGE_APP_URL :: env_var where
  "BOS_STOCKFORGE_APP_URL = env_var_of ''BOS_STOCKFORGE_APP_URL'' InventoryClaims False None []"

definition BOS_STOCKFORGE_MAX_REQUESTS_PER_CYCLE :: env_var where
  "BOS_STOCKFORGE_MAX_REQUESTS_PER_CYCLE = env_var_of ''BOS_STOCKFORGE_MAX_REQUESTS_PER_CYCLE'' InventoryClaims False (Some ''10'') []"

definition BOS_STOCKFORGE_SYNC_ENABLED :: env_var where
  "BOS_STOCKFORGE_SYNC_ENABLED = env_var_of ''BOS_STOCKFORGE_SYNC_ENABLED'' InventoryClaims False None []"

definition BOS_STOCKFORGE_SYNC_INTERVAL_SECS :: env_var where
  "BOS_STOCKFORGE_SYNC_INTERVAL_SECS = env_var_of ''BOS_STOCKFORGE_SYNC_INTERVAL_SECS'' InventoryClaims False (Some ''900'') []"

definition BOS_STOCKFORGE_WEBHOOK_SECRET :: env_var where
  "BOS_STOCKFORGE_WEBHOOK_SECRET = env_var_of ''BOS_STOCKFORGE_WEBHOOK_SECRET'' InventoryClaims True None []"

definition BOS_WEB_ENRICHMENT_ENABLED :: env_var where
  "BOS_WEB_ENRICHMENT_ENABLED = env_var_of ''BOS_WEB_ENRICHMENT_ENABLED'' WebEnrichmentSearch False (Some ''1'') []"

definition BOS_WEB_SEARCH_ENRICHMENT_API_KEY :: env_var where
  "BOS_WEB_SEARCH_ENRICHMENT_API_KEY = env_var_of ''BOS_WEB_SEARCH_ENRICHMENT_API_KEY'' WebEnrichmentSearch True None []"

definition BOS_WEB_SEARCH_ENRICHMENT_COST_BUDGET_MICROS :: env_var where
  "BOS_WEB_SEARCH_ENRICHMENT_COST_BUDGET_MICROS = env_var_of ''BOS_WEB_SEARCH_ENRICHMENT_COST_BUDGET_MICROS'' WebEnrichmentSearch False (Some ''100000'') []"

definition BOS_WEB_SEARCH_ENRICHMENT_ENABLED :: env_var where
  "BOS_WEB_SEARCH_ENRICHMENT_ENABLED = env_var_of ''BOS_WEB_SEARCH_ENRICHMENT_ENABLED'' WebEnrichmentSearch False None []"

definition BOS_WEB_SEARCH_ENRICHMENT_ENDPOINT :: env_var where
  "BOS_WEB_SEARCH_ENRICHMENT_ENDPOINT = env_var_of ''BOS_WEB_SEARCH_ENRICHMENT_ENDPOINT'' WebEnrichmentSearch False None []"

definition BOS_WEB_SEARCH_ENRICHMENT_FALLBACK_ENDPOINT :: env_var where
  "BOS_WEB_SEARCH_ENRICHMENT_FALLBACK_ENDPOINT = env_var_of ''BOS_WEB_SEARCH_ENRICHMENT_FALLBACK_ENDPOINT'' WebEnrichmentSearch False None []"

definition BOS_WEB_SEARCH_ENRICHMENT_MAX_FETCHED_PAGES :: env_var where
  "BOS_WEB_SEARCH_ENRICHMENT_MAX_FETCHED_PAGES = env_var_of ''BOS_WEB_SEARCH_ENRICHMENT_MAX_FETCHED_PAGES'' WebEnrichmentSearch False (Some ''2'') []"

definition BOS_WEB_SEARCH_ENRICHMENT_MAX_QUERIES :: env_var where
  "BOS_WEB_SEARCH_ENRICHMENT_MAX_QUERIES = env_var_of ''BOS_WEB_SEARCH_ENRICHMENT_MAX_QUERIES'' WebEnrichmentSearch False (Some ''1'') []"

definition BOS_WEB_SEARCH_ENRICHMENT_MAX_RESULTS :: env_var where
  "BOS_WEB_SEARCH_ENRICHMENT_MAX_RESULTS = env_var_of ''BOS_WEB_SEARCH_ENRICHMENT_MAX_RESULTS'' WebEnrichmentSearch False (Some ''3'') []"

definition BOS_WEB_SEARCH_ENRICHMENT_PROVIDER :: env_var where
  "BOS_WEB_SEARCH_ENRICHMENT_PROVIDER = env_var_of ''BOS_WEB_SEARCH_ENRICHMENT_PROVIDER'' WebEnrichmentSearch False None []"

definition BOS_WEB_SEARCH_ENRICHMENT_TIMEOUT_MS :: env_var where
  "BOS_WEB_SEARCH_ENRICHMENT_TIMEOUT_MS = env_var_of ''BOS_WEB_SEARCH_ENRICHMENT_TIMEOUT_MS'' WebEnrichmentSearch False (Some ''10000'') []"

section \<open>The registry\<close>

definition ALL_VARS :: "env_var list" where
  "ALL_VARS =
     [BOS_ACCOUNTING_MAX_REQUESTS_PER_CYCLE, BOS_ACCOUNTING_METRIC_ADJUSTED_FREIGHT_CENTS,
      BOS_ACCOUNTING_METRIC_ADJUSTED_INSURANCE_CENTS, BOS_ACCOUNTING_METRIC_ADJUSTED_TAXES_CENTS,
      BOS_ACCOUNTING_METRIC_BASELINE_CENTS, BOS_ACCOUNTING_METRIC_BASIS, BOS_ACCOUNTING_METRIC_LABEL,
      BOS_ACCOUNTING_PROVIDER, BOS_ACCOUNTING_SYNC_ENABLED, BOS_ACCOUNTING_SYNC_INTERVAL_SECS,
      BOS_ACCOUNTING_VISIBILITY_POLICY, BOS_AGENTIC_WEB_RESEARCH_COST_BUDGET_MICROS,
      BOS_AGENTIC_WEB_RESEARCH_ENABLED, BOS_AGENTIC_WEB_RESEARCH_MAX_CONCURRENT_RUNS,
      BOS_AGENTIC_WEB_RESEARCH_MAX_FETCHED_PAGES, BOS_AGENTIC_WEB_RESEARCH_MAX_OUTPUT_TOKENS,
      BOS_AGENTIC_WEB_RESEARCH_MAX_PAGE_BYTES, BOS_AGENTIC_WEB_RESEARCH_MAX_RESULTS,
      BOS_AGENTIC_WEB_RESEARCH_MAX_SEARCHES, BOS_AGENTIC_WEB_RESEARCH_MAX_STEPS,
      BOS_AGENTIC_WEB_RESEARCH_TIMEOUT_MS, BOS_AGENT_EVIDENCE_CLEANUP_ENABLED,
      BOS_AGENT_EVIDENCE_CLEANUP_INTERVAL_SECS, BOS_AGENT_EVIDENCE_MAX_BYTES,
      BOS_AGENT_EVIDENCE_RETENTION_DAYS, BOS_AGENT_EVIDENCE_ROOT_DIR, BOS_AGENT_LAUNCH_ENABLED,
      BOS_AGENT_MCP_ENABLED, BOS_AI_TRIAGE_ENABLED, BOS_AI_TRIAGE_MAX_LLM_CALLS_PER_CYCLE,
      BOS_AI_TRIAGE_MIN_CONFIDENCE, BOS_AI_TRIAGE_PACKET_PROPOSALS_ENABLED, BOS_AUTO_PRODUCE_ENABLED,
      BOS_AUTO_PRODUCE_INTERVAL_SECS, BOS_AUTO_PRODUCE_MAX_PER_CYCLE, BOS_BUFFER_ACCESS_TOKEN,
      BOS_BUFFER_API_URL, BOS_BUFFER_CHANNELS_JSON, BOS_BUFFER_WRITE_ENABLED, BOS_BUILD_SHA,
      BOS_CALL_INPUTS_AUDIO_TRANSCRIPTION_ENABLED, BOS_CALL_INPUTS_MAX_AUDIO_BYTES,
      BOS_CALL_INPUTS_SYNC_ENABLED, BOS_CALL_INPUTS_SYNC_INTERVAL_SECS,
      BOS_CALL_INPUTS_TRANSCRIPTION_INTAKE_DIR, BOS_CALL_INPUTS_TRANSCRIPTION_MAX_CONCURRENCY,
      BOS_CALL_INPUTS_TRANSCRIPTION_TIMEOUT_MS, BOS_CALL_INPUTS_TRANSCRIPTION_TMP_DIR,
      BOS_CALL_INPUTS_WHISPER_BIN, BOS_CALL_INPUTS_WHISPER_MODEL, BOS_CLAIMS_MAX_REQUESTS_PER_CYCLE,
      BOS_CLAIMS_SYNC_ENABLED, BOS_CLAIMS_SYNC_INTERVAL_SECS, BOS_CLAIM_DRAFT_TO_ADDR, BOS_CLIENT_ID,
      BOS_CLIENT_OVERLAY_DIR, BOS_CONTENT_PUBLISH_ADAPTER_TOKEN, BOS_CONTENT_PUBLISH_ADAPTER_URL,
      BOS_CONTENT_PUBLISH_WRITE_ENABLED, BOS_CONTENT_WEB_FACTS_ENABLED,
      BOS_CRM_CONTEXT_NEUTRAL_SENDER_DOMAINS, BOS_CRM_DEAL_VISIBILITY_POLICY, BOS_CRM_PROVIDER,
      BOS_CRM_READ_MAX_REQUESTS_PER_CYCLE, BOS_CRM_READ_SYNC_ENABLED, BOS_CRM_READ_SYNC_INTERVAL_SECS,
      BOS_DATA_RETENTION_BATCH_SIZE, BOS_DATA_RETENTION_EMAIL_BODY_DAYS, BOS_DATA_RETENTION_ENABLED,
      BOS_DATA_RETENTION_INCREMENTAL_VACUUM_PAGES, BOS_DATA_RETENTION_INTERVAL_SECS,
      BOS_DATA_RETENTION_MAX_ROWS_PER_CYCLE, BOS_DATA_RETENTION_RECEIPT_PAYLOAD_DAYS,
      BOS_DEBUG_AGENT_MONITOR_TOKEN, BOS_DEBUG_AGENT_MONITOR_URL, BOS_DEBUG_ENABLED,
      BOS_DRIVE_CORPUS_EXCLUDE_FILE_IDS, BOS_DRIVE_CORPUS_EXCLUDE_NAME_PATTERNS,
      BOS_DRIVE_CORPUS_FOLDER_IDS, BOS_DRIVE_CORPUS_INCLUDE_FILE_IDS, BOS_DRIVE_CORPUS_USER_ID,
      BOS_DRIVE_MAX_REQUESTS_PER_CYCLE, BOS_DRIVE_SYNC_ENABLED, BOS_DRIVE_SYNC_INTERVAL_SECS,
      BOS_EMAIL_ENRICHMENT_BACKFILL_BATCH, BOS_EMAIL_ENRICHMENT_BACKFILL_ENABLED,
      BOS_EMAIL_INGRESS_WEBHOOK_SECRET, BOS_EMAIL_TRIAGE_FACT_CACHE_TTL_SECS,
      BOS_EMAIL_TRIAGE_FACT_PROVIDER_BUDGET_PER_MESSAGE, BOS_ENRICHMENT_FRESHNESS_ENABLED,
      BOS_ENRICHMENT_FRESHNESS_INTERVAL_SECS, BOS_ENRICHMENT_FRESHNESS_MAX_ENRICHMENTS_PER_CYCLE,
      BOS_ENRICHMENT_FRESHNESS_STALE_AFTER_SECS, BOS_ESPOCRM_API_KEY, BOS_ESPOCRM_BASE_URL,
      BOS_ESPOCRM_WRITE_ENABLED, BOS_GMAIL_INGEST_ENABLED, BOS_GMAIL_INGEST_INTERVAL_SECS,
      BOS_GMAIL_INGEST_QUERY, BOS_GMAIL_OAUTH_CLIENT_ID, BOS_GMAIL_OAUTH_CLIENT_SECRET,
      BOS_GMAIL_OAUTH_REFRESH_TOKEN, BOS_GMAIL_OAUTH_SCOPES, BOS_GMAIL_TRASH_ENABLED,
      BOS_GMAIL_WRITE_ENABLED, BOS_GOOGLE_CALENDAR_ID, BOS_GOOGLE_CALENDAR_WRITE_ENABLED,
      BOS_HUBSPOT_ACCESS_TOKEN, BOS_HUBSPOT_DEALS_CLOSED_DATE_PROPERTY, BOS_HUBSPOT_DEALS_LOST_STAGE_IDS,
      BOS_HUBSPOT_DEALS_OPEN_STAGE_IDS, BOS_HUBSPOT_DEALS_PIPELINE_ID,
      BOS_HUBSPOT_DEALS_SEGMENT_PROPERTIES, BOS_HUBSPOT_DEALS_STARTED_DATE_PROPERTY,
      BOS_HUBSPOT_DEALS_WON_STAGE_IDS, BOS_HUBSPOT_PORTAL_ID, BOS_HUBSPOT_WRITE_ENABLED,
      BOS_INVOICE_NINJA_API_TOKEN, BOS_INVOICE_NINJA_BASE_URL, BOS_INVOICE_NINJA_WRITE_ENABLED,
      BOS_LEAD_DISCOVERY_AUTOSCRAPE_ENABLED, BOS_LEAD_DISCOVERY_AUTOSCRAPE_INTERVAL_SECS,
      BOS_LEAD_DISCOVERY_AUTOSCRAPE_MAX_FINDINGS_PER_CYCLE, BOS_LLM_API_ENDPOINT, BOS_LLM_API_KEY,
      BOS_LLM_API_MODEL, BOS_LLM_API_PROVIDER, BOS_LLM_DEFAULT_BACKEND, BOS_LLM_DEFAULT_MODEL,
      BOS_LLM_HARNESS_MODEL, BOS_LLM_HARNESS_PROGRAM, BOS_LLM_HARNESS_THINKING_LEVEL,
      BOS_LLM_LOCAL_API_KEY, BOS_LLM_LOCAL_ENDPOINT, BOS_LLM_LOCAL_MODEL, BOS_LLM_MAX_TOKENS,
      BOS_LLM_ROUTE_OVERRIDES, BOS_LLM_TIMEOUT_MS, BOS_LOG_LEVEL, BOS_OPERATOR_TOKEN,
      BOS_OUTBOX_DELIVERY_ENABLED, BOS_OUTBOX_DELIVERY_INTERVAL_SECS,
      BOS_OWNER_REPORT_ALLOWED_OPERATOR_USER_IDS, BOS_OWNER_REPORT_CALL_VOLUME_CATEGORY_ID,
      BOS_OWNER_REPORT_CALL_VOLUME_GMAIL_LABEL, BOS_OWNER_REPORT_CALL_VOLUME_GMAIL_QUERY,
      BOS_OWNER_REPORT_CALL_VOLUME_LABEL, BOS_OWNER_REPORT_CALL_VOLUME_SOURCE_LABEL,
      BOS_PACKET_PROPOSAL_RUNNING_STALE_AFTER_MS, BOS_PACKET_PROPOSAL_TOOL_LOOP_ENABLED,
      BOS_PUBLIC_BASE_URL, BOS_QBO_CLIENT_ID, BOS_QBO_CLIENT_SECRET, BOS_QBO_ENVIRONMENT,
      BOS_QBO_WRITE_ENABLED, BOS_RELEASE_NOTES_WEBHOOK_SECRET, BOS_REPORT_DIGEST_DELIVERY_ENABLED,
      BOS_REPORT_DIGEST_ENABLED, BOS_REPORT_DIGEST_INTERVAL_SECS, BOS_REPORT_DIGEST_METRICS,
      BOS_REPORT_DIGEST_MTD_DAY, BOS_REPORT_DIGEST_REDACT_FINANCIALS_FOR,
      BOS_REPORT_DIGEST_SUBJECT_PREFIX, BOS_REPORT_DIGEST_TO_ADDR, BOS_REPORT_DIGEST_WEEKLY_WEEKDAY,
      BOS_SEARCH_CONSOLE_ANALYTICS_EXCLUDED_REFERRER_DOMAINS, BOS_SEARCH_CONSOLE_BRANDED_QUERY_PATTERNS,
      BOS_SEARCH_CONSOLE_GA4_PROPERTY_ID, BOS_SEARCH_CONSOLE_MAX_REQUESTS_PER_CYCLE,
      BOS_SEARCH_CONSOLE_PROPERTY_URL, BOS_SEARCH_CONSOLE_SYNC_DAYS, BOS_SEARCH_CONSOLE_SYNC_ENABLED,
      BOS_SEARCH_CONSOLE_SYNC_INTERVAL_SECS, BOS_SEARCH_CONSOLE_USER_ID, BOS_SERVER_BIND,
      BOS_SHOPIFY_ACCESS_TOKEN, BOS_SHOPIFY_API_VERSION, BOS_SHOPIFY_CLIENT_ID,
      BOS_SHOPIFY_CLIENT_SECRET, BOS_SHOPIFY_READ_SYNC_ENABLED, BOS_SHOPIFY_READ_SYNC_INTERVAL_SECS,
      BOS_SHOPIFY_READ_SYNC_MAX_ORDERS_PER_CYCLE, BOS_SHOPIFY_SALES_VISIBILITY_POLICY,
      BOS_SHOPIFY_SHOP_DOMAIN, BOS_SHOPIFY_TIER_MAPPING_JSON, BOS_SHOPIFY_WRITE_ENABLED, BOS_STATE_DIR,
      BOS_STOCKFORGE_API_KEY, BOS_STOCKFORGE_APP_URL, BOS_STOCKFORGE_BASE_URL,
      BOS_STOCKFORGE_MAX_REQUESTS_PER_CYCLE, BOS_STOCKFORGE_SYNC_ENABLED,
      BOS_STOCKFORGE_SYNC_INTERVAL_SECS, BOS_STOCKFORGE_WEBHOOK_SECRET, BOS_STRIPE_SECRET_KEY,
      BOS_STRIPE_WRITE_ENABLED, BOS_WEB_ENRICHMENT_ENABLED, BOS_WEB_SEARCH_ENRICHMENT_API_KEY,
      BOS_WEB_SEARCH_ENRICHMENT_COST_BUDGET_MICROS, BOS_WEB_SEARCH_ENRICHMENT_ENABLED,
      BOS_WEB_SEARCH_ENRICHMENT_ENDPOINT, BOS_WEB_SEARCH_ENRICHMENT_FALLBACK_ENDPOINT,
      BOS_WEB_SEARCH_ENRICHMENT_MAX_FETCHED_PAGES, BOS_WEB_SEARCH_ENRICHMENT_MAX_QUERIES,
      BOS_WEB_SEARCH_ENRICHMENT_MAX_RESULTS, BOS_WEB_SEARCH_ENRICHMENT_PROVIDER,
      BOS_WEB_SEARCH_ENRICHMENT_TIMEOUT_MS]"

lemmas env_var_defs =
  BOS_ACCOUNTING_MAX_REQUESTS_PER_CYCLE_def BOS_ACCOUNTING_METRIC_ADJUSTED_FREIGHT_CENTS_def
  BOS_ACCOUNTING_METRIC_ADJUSTED_INSURANCE_CENTS_def BOS_ACCOUNTING_METRIC_ADJUSTED_TAXES_CENTS_def
  BOS_ACCOUNTING_METRIC_BASELINE_CENTS_def BOS_ACCOUNTING_METRIC_BASIS_def
  BOS_ACCOUNTING_METRIC_LABEL_def BOS_ACCOUNTING_PROVIDER_def BOS_ACCOUNTING_SYNC_ENABLED_def
  BOS_ACCOUNTING_SYNC_INTERVAL_SECS_def BOS_ACCOUNTING_VISIBILITY_POLICY_def
  BOS_AGENTIC_WEB_RESEARCH_COST_BUDGET_MICROS_def BOS_AGENTIC_WEB_RESEARCH_ENABLED_def
  BOS_AGENTIC_WEB_RESEARCH_MAX_CONCURRENT_RUNS_def BOS_AGENTIC_WEB_RESEARCH_MAX_FETCHED_PAGES_def
  BOS_AGENTIC_WEB_RESEARCH_MAX_OUTPUT_TOKENS_def BOS_AGENTIC_WEB_RESEARCH_MAX_PAGE_BYTES_def
  BOS_AGENTIC_WEB_RESEARCH_MAX_RESULTS_def BOS_AGENTIC_WEB_RESEARCH_MAX_SEARCHES_def
  BOS_AGENTIC_WEB_RESEARCH_MAX_STEPS_def BOS_AGENTIC_WEB_RESEARCH_TIMEOUT_MS_def
  BOS_AGENT_EVIDENCE_CLEANUP_ENABLED_def BOS_AGENT_EVIDENCE_CLEANUP_INTERVAL_SECS_def
  BOS_AGENT_EVIDENCE_MAX_BYTES_def BOS_AGENT_EVIDENCE_RETENTION_DAYS_def
  BOS_AGENT_EVIDENCE_ROOT_DIR_def BOS_AGENT_LAUNCH_ENABLED_def BOS_AGENT_MCP_ENABLED_def
  BOS_AI_TRIAGE_ENABLED_def BOS_AI_TRIAGE_MAX_LLM_CALLS_PER_CYCLE_def
  BOS_AI_TRIAGE_MIN_CONFIDENCE_def BOS_AI_TRIAGE_PACKET_PROPOSALS_ENABLED_def
  BOS_AUTO_PRODUCE_ENABLED_def BOS_AUTO_PRODUCE_INTERVAL_SECS_def BOS_AUTO_PRODUCE_MAX_PER_CYCLE_def
  BOS_BUFFER_ACCESS_TOKEN_def BOS_BUFFER_API_URL_def BOS_BUFFER_CHANNELS_JSON_def
  BOS_BUFFER_WRITE_ENABLED_def BOS_BUILD_SHA_def BOS_CALL_INPUTS_AUDIO_TRANSCRIPTION_ENABLED_def
  BOS_CALL_INPUTS_MAX_AUDIO_BYTES_def BOS_CALL_INPUTS_SYNC_ENABLED_def
  BOS_CALL_INPUTS_SYNC_INTERVAL_SECS_def BOS_CALL_INPUTS_TRANSCRIPTION_INTAKE_DIR_def
  BOS_CALL_INPUTS_TRANSCRIPTION_MAX_CONCURRENCY_def BOS_CALL_INPUTS_TRANSCRIPTION_TIMEOUT_MS_def
  BOS_CALL_INPUTS_TRANSCRIPTION_TMP_DIR_def BOS_CALL_INPUTS_WHISPER_BIN_def
  BOS_CALL_INPUTS_WHISPER_MODEL_def BOS_CLAIMS_MAX_REQUESTS_PER_CYCLE_def BOS_CLAIMS_SYNC_ENABLED_def
  BOS_CLAIMS_SYNC_INTERVAL_SECS_def BOS_CLAIM_DRAFT_TO_ADDR_def BOS_CLIENT_ID_def
  BOS_CLIENT_OVERLAY_DIR_def BOS_CONTENT_PUBLISH_ADAPTER_TOKEN_def
  BOS_CONTENT_PUBLISH_ADAPTER_URL_def BOS_CONTENT_PUBLISH_WRITE_ENABLED_def
  BOS_CONTENT_WEB_FACTS_ENABLED_def BOS_CRM_CONTEXT_NEUTRAL_SENDER_DOMAINS_def
  BOS_CRM_DEAL_VISIBILITY_POLICY_def BOS_CRM_PROVIDER_def BOS_CRM_READ_MAX_REQUESTS_PER_CYCLE_def
  BOS_CRM_READ_SYNC_ENABLED_def BOS_CRM_READ_SYNC_INTERVAL_SECS_def BOS_DATA_RETENTION_BATCH_SIZE_def
  BOS_DATA_RETENTION_EMAIL_BODY_DAYS_def BOS_DATA_RETENTION_ENABLED_def
  BOS_DATA_RETENTION_INCREMENTAL_VACUUM_PAGES_def BOS_DATA_RETENTION_INTERVAL_SECS_def
  BOS_DATA_RETENTION_MAX_ROWS_PER_CYCLE_def BOS_DATA_RETENTION_RECEIPT_PAYLOAD_DAYS_def
  BOS_DEBUG_AGENT_MONITOR_TOKEN_def BOS_DEBUG_AGENT_MONITOR_URL_def BOS_DEBUG_ENABLED_def
  BOS_DRIVE_CORPUS_EXCLUDE_FILE_IDS_def BOS_DRIVE_CORPUS_EXCLUDE_NAME_PATTERNS_def
  BOS_DRIVE_CORPUS_FOLDER_IDS_def BOS_DRIVE_CORPUS_INCLUDE_FILE_IDS_def BOS_DRIVE_CORPUS_USER_ID_def
  BOS_DRIVE_MAX_REQUESTS_PER_CYCLE_def BOS_DRIVE_SYNC_ENABLED_def BOS_DRIVE_SYNC_INTERVAL_SECS_def
  BOS_EMAIL_ENRICHMENT_BACKFILL_BATCH_def BOS_EMAIL_ENRICHMENT_BACKFILL_ENABLED_def
  BOS_EMAIL_INGRESS_WEBHOOK_SECRET_def BOS_EMAIL_TRIAGE_FACT_CACHE_TTL_SECS_def
  BOS_EMAIL_TRIAGE_FACT_PROVIDER_BUDGET_PER_MESSAGE_def BOS_ENRICHMENT_FRESHNESS_ENABLED_def
  BOS_ENRICHMENT_FRESHNESS_INTERVAL_SECS_def BOS_ENRICHMENT_FRESHNESS_MAX_ENRICHMENTS_PER_CYCLE_def
  BOS_ENRICHMENT_FRESHNESS_STALE_AFTER_SECS_def BOS_ESPOCRM_API_KEY_def BOS_ESPOCRM_BASE_URL_def
  BOS_ESPOCRM_WRITE_ENABLED_def BOS_GMAIL_INGEST_ENABLED_def BOS_GMAIL_INGEST_INTERVAL_SECS_def
  BOS_GMAIL_INGEST_QUERY_def BOS_GMAIL_OAUTH_CLIENT_ID_def BOS_GMAIL_OAUTH_CLIENT_SECRET_def
  BOS_GMAIL_OAUTH_REFRESH_TOKEN_def BOS_GMAIL_OAUTH_SCOPES_def BOS_GMAIL_TRASH_ENABLED_def
  BOS_GMAIL_WRITE_ENABLED_def BOS_GOOGLE_CALENDAR_ID_def BOS_GOOGLE_CALENDAR_WRITE_ENABLED_def
  BOS_HUBSPOT_ACCESS_TOKEN_def BOS_HUBSPOT_DEALS_CLOSED_DATE_PROPERTY_def
  BOS_HUBSPOT_DEALS_LOST_STAGE_IDS_def BOS_HUBSPOT_DEALS_OPEN_STAGE_IDS_def
  BOS_HUBSPOT_DEALS_PIPELINE_ID_def BOS_HUBSPOT_DEALS_SEGMENT_PROPERTIES_def
  BOS_HUBSPOT_DEALS_STARTED_DATE_PROPERTY_def BOS_HUBSPOT_DEALS_WON_STAGE_IDS_def
  BOS_HUBSPOT_PORTAL_ID_def BOS_HUBSPOT_WRITE_ENABLED_def BOS_INVOICE_NINJA_API_TOKEN_def
  BOS_INVOICE_NINJA_BASE_URL_def BOS_INVOICE_NINJA_WRITE_ENABLED_def
  BOS_LEAD_DISCOVERY_AUTOSCRAPE_ENABLED_def BOS_LEAD_DISCOVERY_AUTOSCRAPE_INTERVAL_SECS_def
  BOS_LEAD_DISCOVERY_AUTOSCRAPE_MAX_FINDINGS_PER_CYCLE_def BOS_LLM_API_ENDPOINT_def
  BOS_LLM_API_KEY_def BOS_LLM_API_MODEL_def BOS_LLM_API_PROVIDER_def BOS_LLM_DEFAULT_BACKEND_def
  BOS_LLM_DEFAULT_MODEL_def BOS_LLM_HARNESS_MODEL_def BOS_LLM_HARNESS_PROGRAM_def
  BOS_LLM_HARNESS_THINKING_LEVEL_def BOS_LLM_LOCAL_API_KEY_def BOS_LLM_LOCAL_ENDPOINT_def
  BOS_LLM_LOCAL_MODEL_def BOS_LLM_MAX_TOKENS_def BOS_LLM_ROUTE_OVERRIDES_def BOS_LLM_TIMEOUT_MS_def
  BOS_LOG_LEVEL_def BOS_OPERATOR_TOKEN_def BOS_OUTBOX_DELIVERY_ENABLED_def
  BOS_OUTBOX_DELIVERY_INTERVAL_SECS_def BOS_OWNER_REPORT_ALLOWED_OPERATOR_USER_IDS_def
  BOS_OWNER_REPORT_CALL_VOLUME_CATEGORY_ID_def BOS_OWNER_REPORT_CALL_VOLUME_GMAIL_LABEL_def
  BOS_OWNER_REPORT_CALL_VOLUME_GMAIL_QUERY_def BOS_OWNER_REPORT_CALL_VOLUME_LABEL_def
  BOS_OWNER_REPORT_CALL_VOLUME_SOURCE_LABEL_def BOS_PACKET_PROPOSAL_RUNNING_STALE_AFTER_MS_def
  BOS_PACKET_PROPOSAL_TOOL_LOOP_ENABLED_def BOS_PUBLIC_BASE_URL_def BOS_QBO_CLIENT_ID_def
  BOS_QBO_CLIENT_SECRET_def BOS_QBO_ENVIRONMENT_def BOS_QBO_WRITE_ENABLED_def
  BOS_RELEASE_NOTES_WEBHOOK_SECRET_def BOS_REPORT_DIGEST_DELIVERY_ENABLED_def
  BOS_REPORT_DIGEST_ENABLED_def BOS_REPORT_DIGEST_INTERVAL_SECS_def BOS_REPORT_DIGEST_METRICS_def
  BOS_REPORT_DIGEST_MTD_DAY_def BOS_REPORT_DIGEST_REDACT_FINANCIALS_FOR_def
  BOS_REPORT_DIGEST_SUBJECT_PREFIX_def BOS_REPORT_DIGEST_TO_ADDR_def
  BOS_REPORT_DIGEST_WEEKLY_WEEKDAY_def BOS_SEARCH_CONSOLE_ANALYTICS_EXCLUDED_REFERRER_DOMAINS_def
  BOS_SEARCH_CONSOLE_BRANDED_QUERY_PATTERNS_def BOS_SEARCH_CONSOLE_GA4_PROPERTY_ID_def
  BOS_SEARCH_CONSOLE_MAX_REQUESTS_PER_CYCLE_def BOS_SEARCH_CONSOLE_PROPERTY_URL_def
  BOS_SEARCH_CONSOLE_SYNC_DAYS_def BOS_SEARCH_CONSOLE_SYNC_ENABLED_def
  BOS_SEARCH_CONSOLE_SYNC_INTERVAL_SECS_def BOS_SEARCH_CONSOLE_USER_ID_def BOS_SERVER_BIND_def
  BOS_SHOPIFY_ACCESS_TOKEN_def BOS_SHOPIFY_API_VERSION_def BOS_SHOPIFY_CLIENT_ID_def
  BOS_SHOPIFY_CLIENT_SECRET_def BOS_SHOPIFY_READ_SYNC_ENABLED_def
  BOS_SHOPIFY_READ_SYNC_INTERVAL_SECS_def BOS_SHOPIFY_READ_SYNC_MAX_ORDERS_PER_CYCLE_def
  BOS_SHOPIFY_SALES_VISIBILITY_POLICY_def BOS_SHOPIFY_SHOP_DOMAIN_def
  BOS_SHOPIFY_TIER_MAPPING_JSON_def BOS_SHOPIFY_WRITE_ENABLED_def BOS_STATE_DIR_def
  BOS_STOCKFORGE_API_KEY_def BOS_STOCKFORGE_APP_URL_def BOS_STOCKFORGE_BASE_URL_def
  BOS_STOCKFORGE_MAX_REQUESTS_PER_CYCLE_def BOS_STOCKFORGE_SYNC_ENABLED_def
  BOS_STOCKFORGE_SYNC_INTERVAL_SECS_def BOS_STOCKFORGE_WEBHOOK_SECRET_def BOS_STRIPE_SECRET_KEY_def
  BOS_STRIPE_WRITE_ENABLED_def BOS_WEB_ENRICHMENT_ENABLED_def BOS_WEB_SEARCH_ENRICHMENT_API_KEY_def
  BOS_WEB_SEARCH_ENRICHMENT_COST_BUDGET_MICROS_def BOS_WEB_SEARCH_ENRICHMENT_ENABLED_def
  BOS_WEB_SEARCH_ENRICHMENT_ENDPOINT_def BOS_WEB_SEARCH_ENRICHMENT_FALLBACK_ENDPOINT_def
  BOS_WEB_SEARCH_ENRICHMENT_MAX_FETCHED_PAGES_def BOS_WEB_SEARCH_ENRICHMENT_MAX_QUERIES_def
  BOS_WEB_SEARCH_ENRICHMENT_MAX_RESULTS_def BOS_WEB_SEARCH_ENRICHMENT_PROVIDER_def
  BOS_WEB_SEARCH_ENRICHMENT_TIMEOUT_MS_def

section \<open>Readers\<close>

type_synonym environment = "string \<Rightarrow> string option"

definition env_string :: "environment \<Rightarrow> env_var \<Rightarrow> string option" where
  "env_string env var =
     (case find (\<lambda>name. case env name of None \<Rightarrow> False | Some v \<Rightarrow> trim v \<noteq> []) (ev_name var # ev_aliases var) of
        Some name \<Rightarrow> env name
      | None \<Rightarrow> ev_default var)"

definition truthy :: "string \<Rightarrow> bool" where
  "truthy v \<longleftrightarrow> to_ascii_lowercase (trim v) \<in> set [''1'', ''true'', ''yes'']"

definition env_flag :: "environment \<Rightarrow> env_var \<Rightarrow> bool" where
  "env_flag env var = (case env_string env var of None \<Rightarrow> False | Some v \<Rightarrow> truthy v)"

definition parse_usize :: "string \<Rightarrow> usize option" where
  "parse_usize s = parse_unsigned (2 ^ 64) s"

definition env_usize_or :: "environment \<Rightarrow> env_var \<Rightarrow> usize \<Rightarrow> usize" where
  "env_usize_or env var dflt =
     (case Option.bind (env_string env var) (\<lambda>raw. parse_usize (trim raw)) of None \<Rightarrow> dflt | Some n \<Rightarrow> n)"

definition env_u64_or :: "environment \<Rightarrow> env_var \<Rightarrow> u64 \<Rightarrow> u64" where
  "env_u64_or env var dflt =
     (case Option.bind (env_string env var) (\<lambda>raw. parse_u64 (trim raw)) of None \<Rightarrow> dflt | Some n \<Rightarrow> n)"

record agentic_web_research_config =
  aw_enabled :: bool
  aw_max_steps :: usize
  aw_max_searches :: usize
  aw_max_results :: usize
  aw_max_fetched_pages :: usize
  aw_max_page_bytes :: usize
  aw_timeout_ms :: u64
  aw_cost_budget_micros :: u64
  aw_max_output_tokens :: u64
  aw_max_concurrent_runs :: usize

definition agentic_web_research_config_of :: "environment \<Rightarrow> agentic_web_research_config" where
  "agentic_web_research_config_of env =
     \<lparr>aw_enabled = env_flag env BOS_AGENTIC_WEB_RESEARCH_ENABLED,
      aw_max_steps = env_usize_or env BOS_AGENTIC_WEB_RESEARCH_MAX_STEPS 8,
      aw_max_searches = env_usize_or env BOS_AGENTIC_WEB_RESEARCH_MAX_SEARCHES 2,
      aw_max_results = env_usize_or env BOS_AGENTIC_WEB_RESEARCH_MAX_RESULTS 10,
      aw_max_fetched_pages = env_usize_or env BOS_AGENTIC_WEB_RESEARCH_MAX_FETCHED_PAGES 4,
      aw_max_page_bytes = env_usize_or env BOS_AGENTIC_WEB_RESEARCH_MAX_PAGE_BYTES (512 * 1024),
      aw_timeout_ms = env_u64_or env BOS_AGENTIC_WEB_RESEARCH_TIMEOUT_MS 90000,
      aw_cost_budget_micros = env_u64_or env BOS_AGENTIC_WEB_RESEARCH_COST_BUDGET_MICROS 0,
      aw_max_output_tokens = env_u64_or env BOS_AGENTIC_WEB_RESEARCH_MAX_OUTPUT_TOKENS 4096,
      aw_max_concurrent_runs = env_usize_or env BOS_AGENTIC_WEB_RESEARCH_MAX_CONCURRENT_RUNS 1\<rparr>"

datatype web_search_provider = Generic | Tavily

definition eq_ignore_ascii_case :: "string \<Rightarrow> string \<Rightarrow> bool" where
  "eq_ignore_ascii_case a b \<longleftrightarrow> to_ascii_lowercase a = to_ascii_lowercase b"

definition provider_from_name :: "string option \<Rightarrow> web_search_provider option" where
  "provider_from_name raw =
     (case raw of
        None \<Rightarrow> None
      | Some value \<Rightarrow>
          let value = trim value in
          if value = [] then None
          else if eq_ignore_ascii_case value ''generic'' \<or> eq_ignore_ascii_case value ''searxng'' then Some Generic
          else if eq_ignore_ascii_case value ''tavily'' then Some Tavily
          else None)"

record web_search_config =
  wc_enabled :: bool
  wc_provider :: "web_search_provider option"
  wc_endpoint_url :: "string option"
  wc_api_key :: "string option"
  wc_fallback_endpoint_url :: "string option"
  wc_max_queries :: usize
  wc_max_results_per_query :: usize
  wc_max_fetched_pages :: usize
  wc_timeout_ms :: u64
  wc_cost_budget_micros :: u64

definition web_search_enrichment_config :: "environment \<Rightarrow> web_search_config" where
  "web_search_enrichment_config env =
     \<lparr>wc_enabled = env_flag env BOS_WEB_SEARCH_ENRICHMENT_ENABLED,
      wc_provider = provider_from_name (env_string env BOS_WEB_SEARCH_ENRICHMENT_PROVIDER),
      wc_endpoint_url = env_string env BOS_WEB_SEARCH_ENRICHMENT_ENDPOINT,
      wc_api_key = env_string env BOS_WEB_SEARCH_ENRICHMENT_API_KEY,
      wc_fallback_endpoint_url = env_string env BOS_WEB_SEARCH_ENRICHMENT_FALLBACK_ENDPOINT,
      wc_max_queries = env_usize_or env BOS_WEB_SEARCH_ENRICHMENT_MAX_QUERIES 1,
      wc_max_results_per_query = env_usize_or env BOS_WEB_SEARCH_ENRICHMENT_MAX_RESULTS 3,
      wc_max_fetched_pages = env_usize_or env BOS_WEB_SEARCH_ENRICHMENT_MAX_FETCHED_PAGES 2,
      wc_timeout_ms = env_u64_or env BOS_WEB_SEARCH_ENRICHMENT_TIMEOUT_MS 10000,
      wc_cost_budget_micros = env_u64_or env BOS_WEB_SEARCH_ENRICHMENT_COST_BUDGET_MICROS 100000\<rparr>"

section \<open>The registry is a table\<close>

text \<open>The names are strictly ascending, as the unit test of the registry demands; so no name occurs twice.\<close>

fun ascending :: "string list \<Rightarrow> bool" where
  "ascending [] \<longleftrightarrow> True"
| "ascending [a] \<longleftrightarrow> True"
| "ascending (a # b # xs) \<longleftrightarrow> a < b \<and> ascending (b # xs)"

lemma ascending_distinct: "ascending xs \<Longrightarrow> sorted_wrt (<) xs"
  by (induction xs rule: ascending.induct) (auto simp: sorted_wrt_append dest: less_trans)

lemma registry_names_ascending: "ascending (map ev_name ALL_VARS)"
  by code_simp

end
