(* ===== verification/Runtime_Settings.thy ===== *)
theory Runtime_Settings
  imports Env_Registry Operator_Admin
begin

text \<open>
  \<open>slices/admin_settings\<close>: the settings an administrator may override at run time. An override is a row of
  \<open>runtime_setting_overrides\<close>, written through the mutation spine; it takes precedence over the process
  environment, but only for the variables of a fixed table that are neither secrets nor read at start-up.
  The JSON rendering of a string is a parameter; the defaults of the client overlay are arguments.
\<close>

section \<open>Overrides\<close>

definition RUNTIME_SETTING_ENTITY_KIND :: string where
  "RUNTIME_SETTING_ENTITY_KIND = ''runtime_setting_override''"

record settings_tables = auth_tables +
  st_overrides :: "(string \<times> string, string \<times> u64) hash_map"

abbreviation overrides_of :: "'x settings_tables_scheme db \<Rightarrow> (string \<times> string, string \<times> u64) hash_map" where
  "overrides_of db \<equiv> st_overrides (db_domain db)"

record runtime_setting_override =
  so_var_name :: string
  so_value :: string
  so_revision :: "u64 option"

record override_write =
  ow_client_id :: string
  ow_actor_id :: string
  ow_var_name :: string
  ow_value :: string
  ow_expected_revision :: "u64 option"
  ow_idempotency_key :: string
  ow_now_ms :: u64

record override_delete =
  od_client_id :: string
  od_actor_id :: string
  od_var_name :: string
  od_expected_revision :: "u64 option"
  od_idempotency_key :: string
  od_now_ms :: u64

definition setting_revision :: "'d db \<Rightarrow> string \<Rightarrow> string \<Rightarrow> u64 option" where
  "setting_revision db client var_name = current_revision db client RUNTIME_SETTING_ENTITY_KIND var_name"

definition list_overrides :: "'x settings_tables_scheme db \<Rightarrow> string \<Rightarrow> runtime_setting_override list" where
  "list_overrides db client =
     map (\<lambda>((_, var_name), (value, _)). \<lparr>so_var_name = var_name, so_value = value,
            so_revision = setting_revision db client var_name\<rparr>)
       (sort_key (\<lambda>((_, var_name), _). var_name) (filter (\<lambda>((c, _), _). c = client) (overrides_of db)))"

definition get_override :: "'x settings_tables_scheme db \<Rightarrow> string \<Rightarrow> string \<Rightarrow> runtime_setting_override option" where
  "get_override db client var_name =
     map_option (\<lambda>(value, _). \<lparr>so_var_name = var_name, so_value = value,
         so_revision = setting_revision db client var_name\<rparr>) (hm_get (overrides_of db) (client, var_name))"

definition put_overrides ::
    "(string \<times> string, string \<times> u64) hash_map \<Rightarrow> 'x settings_tables_scheme db \<Rightarrow> 'x settings_tables_scheme db" where
  "put_overrides m db = db\<lparr>db_domain := (db_domain db)\<lparr>st_overrides := m\<rparr>\<rparr>"

definition upsert_write :: "string \<times> string \<Rightarrow> string \<Rightarrow> u64 \<Rightarrow> ('x settings_tables_scheme, unit) db_op" where
  "upsert_write k value now_ms db = (Inr (), put_overrides (hm_insert k (value, now_ms) (overrides_of db)) db)"

definition delete_write :: "string \<times> string \<Rightarrow> ('x settings_tables_scheme, unit) db_op" where
  "delete_write k db = (Inr (), put_overrides (hm_remove k (overrides_of db)) db)"

definition upsert_override ::
    "(string \<Rightarrow> string) \<Rightarrow> override_write \<Rightarrow> ('x settings_tables_scheme, mutation_outcome) db_op" where
  "upsert_override render w db =
     mutate \<lparr>mq_client_id = ow_client_id w, mq_entity_kind = RUNTIME_SETTING_ENTITY_KIND,
             mq_entity_id = ow_var_name w, mq_change_kind = ''upsert'', mq_actor_id = ow_actor_id w,
             mq_actor_kind = Operator, mq_expected_revision = ow_expected_revision w,
             mq_idempotency_key = ow_idempotency_key w, mq_correlation_id = None, mq_causation_id = None,
             mq_before_json = map_option (render \<circ> so_value) (get_override db (ow_client_id w) (ow_var_name w)),
             mq_after_json = Some (render (ow_value w)), mq_now_ms = ow_now_ms w\<rparr>
       (upsert_write (ow_client_id w, ow_var_name w) (ow_value w) (ow_now_ms w)) db"

definition delete_override ::
    "(string \<Rightarrow> string) \<Rightarrow> override_delete \<Rightarrow> ('x settings_tables_scheme, mutation_outcome) db_op" where
  "delete_override render w db =
     mutate \<lparr>mq_client_id = od_client_id w, mq_entity_kind = RUNTIME_SETTING_ENTITY_KIND,
             mq_entity_id = od_var_name w, mq_change_kind = ''delete'', mq_actor_id = od_actor_id w,
             mq_actor_kind = Operator, mq_expected_revision = od_expected_revision w,
             mq_idempotency_key = od_idempotency_key w, mq_correlation_id = None, mq_causation_id = None,
             mq_before_json = map_option (render \<circ> so_value) (get_override db (od_client_id w) (od_var_name w)),
             mq_after_json = None, mq_now_ms = od_now_ms w\<rparr>
       (delete_write (od_client_id w, od_var_name w)) db"

section \<open>Which variables are editable\<close>

datatype editable_value_kind = ValueBool | ValueUint | ValueString | ValueEnum "string list"

definition AI_CONFIDENCE_VALUES :: "string list" where
  "AI_CONFIDENCE_VALUES = [''high'', ''medium'', ''low'']"

definition VISIBILITY_POLICY_VALUES :: "string list" where
  "VISIBILITY_POLICY_VALUES = [''shared'', ''admin_only'', ''authorizer_only'']"

definition RUNTIME_EDITABLE_VARS :: "(env_var \<times> editable_value_kind) list" where
  "RUNTIME_EDITABLE_VARS =
     [(BOS_ACCOUNTING_MAX_REQUESTS_PER_CYCLE, ValueUint), (BOS_ACCOUNTING_SYNC_ENABLED, ValueBool),
      (BOS_ACCOUNTING_SYNC_INTERVAL_SECS, ValueUint),
      (BOS_ACCOUNTING_VISIBILITY_POLICY, ValueEnum VISIBILITY_POLICY_VALUES),
      (BOS_AGENT_EVIDENCE_CLEANUP_ENABLED, ValueBool), (BOS_AGENT_EVIDENCE_CLEANUP_INTERVAL_SECS, ValueUint),
      (BOS_AGENT_EVIDENCE_MAX_BYTES, ValueUint), (BOS_AGENT_EVIDENCE_RETENTION_DAYS, ValueUint),
      (BOS_AI_TRIAGE_ENABLED, ValueBool), (BOS_AI_TRIAGE_MAX_LLM_CALLS_PER_CYCLE, ValueUint),
      (BOS_AI_TRIAGE_MIN_CONFIDENCE, ValueEnum AI_CONFIDENCE_VALUES),
      (BOS_AI_TRIAGE_PACKET_PROPOSALS_ENABLED, ValueBool), (BOS_AUTO_PRODUCE_ENABLED, ValueBool),
      (BOS_AUTO_PRODUCE_INTERVAL_SECS, ValueUint), (BOS_AUTO_PRODUCE_MAX_PER_CYCLE, ValueUint),
      (BOS_BUFFER_WRITE_ENABLED, ValueBool), (BOS_CALL_INPUTS_AUDIO_TRANSCRIPTION_ENABLED, ValueBool),
      (BOS_CALL_INPUTS_SYNC_ENABLED, ValueBool), (BOS_CALL_INPUTS_SYNC_INTERVAL_SECS, ValueUint),
      (BOS_CLAIMS_MAX_REQUESTS_PER_CYCLE, ValueUint), (BOS_CLAIMS_SYNC_ENABLED, ValueBool),
      (BOS_CLAIMS_SYNC_INTERVAL_SECS, ValueUint), (BOS_CONTENT_PUBLISH_WRITE_ENABLED, ValueBool),
      (BOS_CONTENT_WEB_FACTS_ENABLED, ValueBool), (BOS_CRM_CONTEXT_NEUTRAL_SENDER_DOMAINS, ValueString),
      (BOS_CRM_DEAL_VISIBILITY_POLICY, ValueEnum VISIBILITY_POLICY_VALUES),
      (BOS_CRM_READ_MAX_REQUESTS_PER_CYCLE, ValueUint), (BOS_CRM_READ_SYNC_ENABLED, ValueBool),
      (BOS_CRM_READ_SYNC_INTERVAL_SECS, ValueUint), (BOS_DATA_RETENTION_BATCH_SIZE, ValueUint),
      (BOS_DATA_RETENTION_EMAIL_BODY_DAYS, ValueUint), (BOS_DATA_RETENTION_ENABLED, ValueBool),
      (BOS_DATA_RETENTION_INCREMENTAL_VACUUM_PAGES, ValueUint), (BOS_DATA_RETENTION_INTERVAL_SECS, ValueUint),
      (BOS_DATA_RETENTION_MAX_ROWS_PER_CYCLE, ValueUint),
      (BOS_DATA_RETENTION_RECEIPT_PAYLOAD_DAYS, ValueUint), (BOS_DRIVE_MAX_REQUESTS_PER_CYCLE, ValueUint),
      (BOS_DRIVE_SYNC_ENABLED, ValueBool), (BOS_DRIVE_SYNC_INTERVAL_SECS, ValueUint),
      (BOS_EMAIL_ENRICHMENT_BACKFILL_BATCH, ValueUint), (BOS_EMAIL_ENRICHMENT_BACKFILL_ENABLED, ValueBool),
      (BOS_ENRICHMENT_FRESHNESS_ENABLED, ValueBool), (BOS_ENRICHMENT_FRESHNESS_INTERVAL_SECS, ValueUint),
      (BOS_ENRICHMENT_FRESHNESS_MAX_ENRICHMENTS_PER_CYCLE, ValueUint),
      (BOS_ENRICHMENT_FRESHNESS_STALE_AFTER_SECS, ValueUint), (BOS_ESPOCRM_WRITE_ENABLED, ValueBool),
      (BOS_GMAIL_INGEST_ENABLED, ValueBool), (BOS_GMAIL_INGEST_INTERVAL_SECS, ValueUint),
      (BOS_GMAIL_WRITE_ENABLED, ValueBool), (BOS_GOOGLE_CALENDAR_WRITE_ENABLED, ValueBool),
      (BOS_HUBSPOT_WRITE_ENABLED, ValueBool), (BOS_INVOICE_NINJA_WRITE_ENABLED, ValueBool),
      (BOS_LEAD_DISCOVERY_AUTOSCRAPE_ENABLED, ValueBool),
      (BOS_LEAD_DISCOVERY_AUTOSCRAPE_INTERVAL_SECS, ValueUint),
      (BOS_LEAD_DISCOVERY_AUTOSCRAPE_MAX_FINDINGS_PER_CYCLE, ValueUint),
      (BOS_OUTBOX_DELIVERY_ENABLED, ValueBool), (BOS_OUTBOX_DELIVERY_INTERVAL_SECS, ValueUint),
      (BOS_PACKET_PROPOSAL_TOOL_LOOP_ENABLED, ValueBool), (BOS_QBO_WRITE_ENABLED, ValueBool),
      (BOS_REPORT_DIGEST_DELIVERY_ENABLED, ValueBool), (BOS_REPORT_DIGEST_ENABLED, ValueBool),
      (BOS_REPORT_DIGEST_INTERVAL_SECS, ValueUint), (BOS_REPORT_DIGEST_TO_ADDR, ValueString),
      (BOS_SEARCH_CONSOLE_MAX_REQUESTS_PER_CYCLE, ValueUint), (BOS_SEARCH_CONSOLE_SYNC_ENABLED, ValueBool),
      (BOS_SEARCH_CONSOLE_SYNC_INTERVAL_SECS, ValueUint), (BOS_SHOPIFY_READ_SYNC_ENABLED, ValueBool),
      (BOS_SHOPIFY_READ_SYNC_INTERVAL_SECS, ValueUint),
      (BOS_SHOPIFY_READ_SYNC_MAX_ORDERS_PER_CYCLE, ValueUint),
      (BOS_SHOPIFY_SALES_VISIBILITY_POLICY, ValueEnum VISIBILITY_POLICY_VALUES),
      (BOS_SHOPIFY_WRITE_ENABLED, ValueBool), (BOS_STOCKFORGE_MAX_REQUESTS_PER_CYCLE, ValueUint),
      (BOS_STOCKFORGE_SYNC_ENABLED, ValueBool), (BOS_STOCKFORGE_SYNC_INTERVAL_SECS, ValueUint),
      (BOS_STRIPE_WRITE_ENABLED, ValueBool), (BOS_WEB_ENRICHMENT_ENABLED, ValueBool)]"

definition runtime_editable :: "env_var \<Rightarrow> (env_var \<times> editable_value_kind) option" where
  "runtime_editable var = find (\<lambda>(v, _). ev_name v = ev_name var) RUNTIME_EDITABLE_VARS"

definition is_runtime_editable :: "env_var \<Rightarrow> bool" where
  "is_runtime_editable var \<longleftrightarrow> runtime_editable var \<noteq> None"

definition secret_name_pattern :: "string \<Rightarrow> bool" where
  "secret_name_pattern name \<longleftrightarrow>
     list_ex (\<lambda>part. part \<in> set [''KEY'', ''TOKEN'', ''SECRET'', ''PASSWORD'']) (split_on (CHR ''_'') name)
   \<or> contains_str name ''CLIENT_SECRET''"

definition is_secret :: "env_var \<Rightarrow> bool" where
  "is_secret var \<longleftrightarrow> ev_secret var \<or> secret_name_pattern (ev_name var)"

definition is_infra :: "env_var \<Rightarrow> bool" where
  "is_infra var \<longleftrightarrow> ev_group var = InfraServer"

definition is_security_gate :: "env_var \<Rightarrow> bool" where
  "is_security_gate var \<longleftrightarrow> ev_name var \<in> set [''BOS_AGENT_LAUNCH_ENABLED'', ''BOS_AGENT_MCP_ENABLED'']"

definition read_only_reason :: "env_var \<Rightarrow> bool \<Rightarrow> string option" where
  "read_only_reason var editable =
     (if editable then None
      else if is_secret var then Some ''secret''
      else if is_security_gate var
      then Some (''security gate '' @ [CHR 0xE2, CHR 0x80, CHR 0x94] @ '' env-only by policy'')
      else if is_infra var
      then Some (''applied at startup '' @ [CHR 0xE2, CHR 0x80, CHR 0x94] @ '' restart to change'')
      else if is_runtime_editable var then Some ''not editable''
      else Some (''wireable '' @ [CHR 0xE2, CHR 0x80, CHR 0x94] @ '' pending follow-up''))"

definition editable_var :: "string \<Rightarrow> store_error + env_var" where
  "editable_var var_name =
     (case find (\<lambda>var. ev_name var = var_name) ALL_VARS of
        None \<Rightarrow> Inl (Domain ''runtime_setting_unknown_var'')
      | Some var \<Rightarrow>
          if \<not> is_runtime_editable var \<or> is_secret var \<or> is_infra var
          then Inl (Domain ''runtime_setting_not_editable'') else Inr var)"

fun value_valid :: "editable_value_kind \<Rightarrow> string \<Rightarrow> bool" where
  "value_valid ValueBool value \<longleftrightarrow>
     to_ascii_lowercase (trim value) \<in> set [''1'', ''true'', ''yes'', ''0'', ''false'', ''no'']"
| "value_valid ValueUint value \<longleftrightarrow> parse_u64 (trim value) \<noteq> None"
| "value_valid ValueString value \<longleftrightarrow> True"
| "value_valid (ValueEnum allowed) value \<longleftrightarrow> value \<in> set allowed"

definition validate_value :: "env_var \<Rightarrow> string \<Rightarrow> store_error + unit" where
  "validate_value var value =
     (case runtime_editable var of
        None \<Rightarrow> Inl (Domain ''runtime_setting_not_editable'')
      | Some (_, kind) \<Rightarrow>
          if value_valid kind value then Inr () else Inl (Domain ''runtime_setting_invalid_value''))"

section \<open>Reading and writing settings\<close>

definition setting_value :: "environment \<Rightarrow> 'x settings_tables_scheme db \<Rightarrow> string \<Rightarrow> env_var \<Rightarrow> string option" where
  "setting_value env db client var =
     (if \<not> is_runtime_editable var then env_string env var
      else case get_override db client (ev_name var) of
             Some stored \<Rightarrow> Some (so_value stored)
           | None \<Rightarrow> env_string env var)"

definition setting_flag :: "environment \<Rightarrow> 'x settings_tables_scheme db \<Rightarrow> string \<Rightarrow> env_var \<Rightarrow> bool" where
  "setting_flag env db client var =
     (case setting_value env db client var of None \<Rightarrow> False | Some raw \<Rightarrow> truthy raw)"

definition setting_usize_or ::
    "environment \<Rightarrow> 'x settings_tables_scheme db \<Rightarrow> string \<Rightarrow> env_var \<Rightarrow> usize \<Rightarrow> usize" where
  "setting_usize_or env db client var dflt =
     (case Option.bind (setting_value env db client var) (\<lambda>raw. parse_usize (trim raw)) of
        None \<Rightarrow> dflt | Some n \<Rightarrow> n)"

record setting_update_request =
  su_expected_revision :: "u64 option"
  su_idempotency_key :: string
  su_actor_id :: "string option"
  su_value :: string

definition upsert_setting ::
    "(string \<Rightarrow> string) \<Rightarrow> string \<Rightarrow> string \<Rightarrow> string \<Rightarrow> setting_update_request \<Rightarrow> u64
       \<Rightarrow> ('x settings_tables_scheme, mutation_outcome) db_op" where
  "upsert_setting render client actor var_name request now_ms db =
     (case editable_var var_name of
        Inl e \<Rightarrow> (Inl e, db)
      | Inr var \<Rightarrow>
          let value = trim (su_value request) in
          if value = [] then (Inl (Domain ''runtime_setting_value_required''), db)
          else (case validate_value var value of
                  Inl e \<Rightarrow> (Inl e, db)
                | Inr _ \<Rightarrow>
                    upsert_override render
                      \<lparr>ow_client_id = client, ow_actor_id = actor, ow_var_name = ev_name var, ow_value = value,
                       ow_expected_revision = su_expected_revision request,
                       ow_idempotency_key = su_idempotency_key request, ow_now_ms = now_ms\<rparr> db))"

record setting_clear_request =
  sc_expected_revision :: "u64 option"
  sc_idempotency_key :: string
  sc_actor_id :: "string option"

definition clear_setting ::
    "(string \<Rightarrow> string) \<Rightarrow> string \<Rightarrow> string \<Rightarrow> string \<Rightarrow> setting_clear_request \<Rightarrow> u64
       \<Rightarrow> ('x settings_tables_scheme, mutation_outcome) db_op" where
  "clear_setting render client actor var_name request now_ms db =
     (case editable_var var_name of
        Inl e \<Rightarrow> (Inl e, db)
      | Inr var \<Rightarrow>
          delete_override render
            \<lparr>od_client_id = client, od_actor_id = actor, od_var_name = ev_name var,
             od_expected_revision = sc_expected_revision request,
             od_idempotency_key = sc_idempotency_key request, od_now_ms = now_ms\<rparr> db)"

section \<open>The settings page\<close>

datatype setting_source = EnvDefault | OverlayDefault | StoredOverride | Unset
datatype setting_value_kind = KindBool | KindUint | KindString | KindEnum

fun contract_kind :: "editable_value_kind \<Rightarrow> setting_value_kind" where
  "contract_kind ValueBool = KindBool"
| "contract_kind ValueUint = KindUint"
| "contract_kind ValueString = KindString"
| "contract_kind (ValueEnum _) = KindEnum"

fun allowed_values :: "editable_value_kind \<Rightarrow> string list option" where
  "allowed_values (ValueEnum allowed) = Some allowed"
| "allowed_values ValueBool = None"
| "allowed_values ValueUint = None"
| "allowed_values ValueString = None"

record admin_setting_row =
  sr_name :: string
  sr_group :: string
  sr_secret :: bool
  sr_editable :: bool
  sr_value_kind :: "setting_value_kind option"
  sr_allowed_values :: "string list option"
  sr_read_only_reason :: "string option"
  sr_default_value :: "string option"
  sr_effective_value :: "string option"
  sr_source :: setting_source
  sr_revision :: "u64 option"

type_synonym overlay_value = "string \<times> string"

definition setting_row ::
    "environment \<Rightarrow> 'd db \<Rightarrow> string \<Rightarrow> (string, runtime_setting_override) hash_map \<Rightarrow> overlay_value list
       \<Rightarrow> env_var \<Rightarrow> admin_setting_row" where
  "setting_row env db client overrides overlay_values var =
     (let stored = hm_get overrides (ev_name var);
          overlay_value = map_option snd (find (\<lambda>v. fst v = ev_name var) overlay_values);
          env_value = env_string env var;
          source = (if stored \<noteq> None then StoredOverride else if env_value \<noteq> None then EnvDefault
                    else if overlay_value \<noteq> None then OverlayDefault else Unset);
          effective_value =
            (if is_secret var then None
             else case stored of
                    Some s \<Rightarrow> Some (so_value s)
                  | None \<Rightarrow> (case env_value of Some v \<Rightarrow> Some v | None \<Rightarrow> overlay_value));
          default_value = (if is_secret var then None else ev_default var);
          revision = (case stored of
                        Some s \<Rightarrow> so_revision s
                      | None \<Rightarrow> setting_revision db client (ev_name var));
          editable = (runtime_editable var \<noteq> None \<and> \<not> is_secret var \<and> \<not> is_infra var);
          value_kind = (if editable then map_option (contract_kind \<circ> snd) (runtime_editable var) else None);
          allowed = (if editable then Option.bind (runtime_editable var) (allowed_values \<circ> snd) else None)
      in \<lparr>sr_name = ev_name var, sr_group = group_as_str (ev_group var), sr_secret = is_secret var,
          sr_editable = editable, sr_value_kind = value_kind, sr_allowed_values = allowed,
          sr_read_only_reason = read_only_reason var editable, sr_default_value = default_value,
          sr_effective_value = effective_value, sr_source = source, sr_revision = revision\<rparr>)"

definition settings_response_with_overlay ::
    "environment \<Rightarrow> 'x settings_tables_scheme db \<Rightarrow> string \<Rightarrow> overlay_value list \<Rightarrow> admin_setting_row list" where
  "settings_response_with_overlay env db client overlay_values =
     (let overrides = fold (\<lambda>stored m. hm_insert (so_var_name stored) stored m) (list_overrides db client) []
      in map (setting_row env db client overrides overlay_values) ALL_VARS)"

definition settings_response ::
    "environment \<Rightarrow> 'x settings_tables_scheme db \<Rightarrow> string \<Rightarrow> admin_setting_row list" where
  "settings_response env db client = settings_response_with_overlay env db client []"

section \<open>Handlers\<close>

definition settings_route ::
    "(string \<Rightarrow> string) \<Rightarrow> environment \<Rightarrow> u64 \<Rightarrow> headers \<Rightarrow> string \<Rightarrow> string option
       \<Rightarrow> app_state \<times> 'x settings_tables_scheme db
       \<Rightarrow> (http_error + admin_setting_row list) \<times> (app_state \<times> 'x settings_tables_scheme db)" where
  "settings_route sha env now_ms hs policy mapping_json w =
     (case require_all_scope sha (snd w) now_ms hs (fst w) of
        (Inl e, st) \<Rightarrow> (Inl e, (st, snd w))
      | (Inr _, st) \<Rightarrow>
          let overlay_values = (ev_name BOS_ACCOUNTING_VISIBILITY_POLICY, policy)
                # (case mapping_json of None \<Rightarrow> [] | Some m \<Rightarrow> [(ev_name BOS_SHOPIFY_TIER_MAPPING_JSON, m)])
          in (Inr (settings_response_with_overlay env (snd w) (as_client_id st) overlay_values), (st, snd w)))"

definition update_setting ::
    "(string \<Rightarrow> string) \<Rightarrow> (string \<Rightarrow> string) \<Rightarrow> u64 \<Rightarrow> headers \<Rightarrow> string \<Rightarrow> setting_update_request \<Rightarrow> u64
       \<Rightarrow> app_state \<times> 'x settings_tables_scheme db
       \<Rightarrow> http_response \<times> (app_state \<times> 'x settings_tables_scheme db)" where
  "update_setting sha render auth_ms hs var_name request now_ms =
     guarded sha auth_ms hs auth_require_all_scope (su_idempotency_key request) (\<lambda>auth w.
       on_db (upsert_setting render (as_client_id (fst w)) (actor_or auth (su_actor_id request)) var_name
                request now_ms) mutation_result w)"

definition clear_setting_route ::
    "(string \<Rightarrow> string) \<Rightarrow> (string \<Rightarrow> string) \<Rightarrow> u64 \<Rightarrow> headers \<Rightarrow> string \<Rightarrow> setting_clear_request \<Rightarrow> u64
       \<Rightarrow> app_state \<times> 'x settings_tables_scheme db
       \<Rightarrow> http_response \<times> (app_state \<times> 'x settings_tables_scheme db)" where
  "clear_setting_route sha render auth_ms hs var_name request now_ms =
     guarded sha auth_ms hs auth_require_all_scope (sc_idempotency_key request) (\<lambda>auth w.
       on_db (clear_setting render (as_client_id (fst w)) (actor_or auth (sc_actor_id request)) var_name
                request now_ms) mutation_result w)"

end
