(* ===== verification/Settings_Properties.thy ===== *)
theory Settings_Properties
  imports Runtime_Settings Auth_Properties
begin

text \<open>
  What the run-time settings guarantee: stored overrides are well typed, and the settings page depends on no
  secret.
\<close>

section \<open>What a mutation does to the slices' tables\<close>

lemma insert_receipt_domain:
  "insert_receipt req out cls b a db = (r, db') \<Longrightarrow> db_domain db' = db_domain db \<and> db_revisions db' = db_revisions db"
  by (auto simp: insert_receipt_def Let_def split: if_splits)

lemma transaction_receipt:
  "transaction (insert_receipt req out cls b a) db = (r, db') \<Longrightarrow> db_domain db' = db_domain db"
  "transaction (op_map g (insert_receipt req out cls b a)) db = (r', db')
     \<Longrightarrow> db_domain db' = db_domain db \<and> (\<forall>y. r' = Inr y \<longrightarrow> (\<exists>x. y = g x))"
  by (auto simp: transaction_def op_map_def map_sum_def dest: insert_receipt_domain split: prod.splits sum.splits)

text \<open>A mutation leaves the slices' tables alone, unless its write succeeds and it is reported as applied.\<close>

lemma mutate_domain:
  assumes "mutate req dw db = (r, db')"
  shows "(\<exists>db1 i n. dw db = (Inr (), db1) \<and> db_domain db' = db_domain db1 \<and> r = Inr (MutationApplied i n))
       \<or> db_domain db' = db_domain db \<and> (\<forall>i n. r \<noteq> Inr (MutationApplied i n))"
proof (cases "find_applied_receipt db (mq_client_id req) (mq_idempotency_key req)")
  case (Some x)
  then show ?thesis using assms
    by (cases x) (auto simp: mutate_def mutate_with_receipt_id_def dest!: transaction_receipt(2))
next
  case None
  show ?thesis
  proof (cases "conflicting req db")
    case True
    then show ?thesis using assms None
      by (auto simp: mutate_def mutate_with_receipt_id_def conflicting_def Let_def dest!: transaction_receipt(2))
  next
    case False
    then have c: "\<not> (case mq_expected_revision req of None \<Rightarrow> False
        | Some expected \<Rightarrow> read_revision db (request_entity req) \<noteq> Some expected)"
      by (simp add: conflicting_def)
    obtain x db1 where d: "dw db = (x, db1)" by fastforce
    show ?thesis
    proof (cases x)
      case (Inl e)
      then show ?thesis using assms None c d
        by (auto simp: mutate_def mutate_with_receipt_id_def Let_def dest: transaction_receipt(1)
            split: prod.splits sum.splits)
    next
      case (Inr u)
      then show ?thesis using assms None c d
        by (auto simp: mutate_def mutate_with_receipt_id_def Let_def write_revision_def
            dest: insert_receipt_domain split: prod.splits sum.splits)
    qed
  qed
qed

section \<open>Stored overrides are well typed\<close>

definition override_ok :: "string \<Rightarrow> string \<Rightarrow> bool" where
  "override_ok var_name value \<longleftrightarrow>
     (\<exists>var kind. find (\<lambda>v. ev_name v = var_name) ALL_VARS = Some var \<and> \<not> is_secret var \<and> \<not> is_infra var
        \<and> map_option snd (runtime_editable var) = Some kind \<and> value_valid kind value
        \<and> value \<noteq> [] \<and> trim value = value)"

definition overrides_ok :: "'x settings_tables_scheme db \<Rightarrow> bool" where
  "overrides_ok db \<longleftrightarrow>
     (\<forall>client var_name value t. hm_get (overrides_of db) (client, var_name) = Some (value, t) \<longrightarrow> override_ok var_name value)"

text \<open>
  The two routes, and whatever else goes through the spine without writing the table of overrides.
\<close>

inductive settings_step :: "app_state \<times> 'x settings_tables_scheme db \<Rightarrow> app_state \<times> 'x settings_tables_scheme db \<Rightarrow> bool" where
  Update: "settings_step w (snd (update_setting sha render auth_ms hs var_name request now_ms w))"
| Clear: "settings_step w (snd (clear_setting_route sha render auth_ms hs var_name request' now_ms w))"
| Other: "overrides_of db' = overrides_of (snd w) \<Longrightarrow> settings_step w (st', db')"

definition settings_reachable :: "app_state \<times> 'x settings_tables_scheme db \<Rightarrow> bool" where
  "settings_reachable w \<longleftrightarrow> (\<exists>st d. st_overrides d = [] \<and> settings_step\<^sup>*\<^sup>* (st, empty_db d) w)"

lemma overrides_ok_put:
  "overrides_ok db \<Longrightarrow> override_ok (snd k) v \<Longrightarrow> overrides_ok (put_overrides (hm_insert k (v, t) (overrides_of db)) db)"
  "overrides_ok db \<Longrightarrow> overrides_ok (put_overrides (hm_remove k (overrides_of db)) db)"
  by (auto simp: overrides_ok_def put_overrides_def split: if_splits)

lemma overrides_ok_domain: "db_domain db' = db_domain db \<Longrightarrow> overrides_ok db' = overrides_ok db"
  by (simp add: overrides_ok_def)

lemma editable_varD:
  "editable_var name = Inr var \<Longrightarrow> find (\<lambda>v. ev_name v = name) ALL_VARS = Some var \<and> ev_name var = name
     \<and> is_runtime_editable var \<and> \<not> is_secret var \<and> \<not> is_infra var"
  by (auto simp: editable_var_def find_Some_iff split: option.splits if_splits)

lemma upsert_setting_ok:
  assumes ok: "overrides_ok db"
  shows "overrides_ok (snd (upsert_setting render client actor name request now_ms db))"
proof (cases "\<exists>var. editable_var name = Inr var \<and> trim (su_value request) \<noteq> []
    \<and> validate_value var (trim (su_value request)) = Inr ()")
  case True
  then obtain var where v: "editable_var name = Inr var" "trim (su_value request) \<noteq> []"
    "validate_value var (trim (su_value request)) = Inr ()" by blast
  note e = editable_varD [OF v(1)]
  have typed: "override_ok name (trim (su_value request))"
    using e v(2,3) by (auto simp: override_ok_def validate_value_def split: option.splits if_splits)
  obtain r db' where m: "upsert_setting render client actor name request now_ms db = (r, db')" by fastforce
  from mutate_domain [OF m [unfolded upsert_setting_def v(1) sum.case Let_def if_not_P [OF v(2)] v(3)
        upsert_override_def]]
  show ?thesis
    using ok overrides_ok_put(1) [OF ok, of "(client, name)"] typed e overrides_ok_domain
    by (auto simp: m upsert_write_def)
next
  case False
  then have "snd (upsert_setting render client actor name request now_ms db) = db"
    by (auto simp: upsert_setting_def Let_def split: sum.splits)
  with ok show ?thesis by simp
qed

lemma clear_setting_ok:
  assumes ok: "overrides_ok db"
  shows "overrides_ok (snd (clear_setting render client actor name request now_ms db))"
proof (cases "editable_var name")
  case (Inr var)
  obtain r db' where m: "clear_setting render client actor name request now_ms db = (r, db')" by fastforce
  from mutate_domain [OF m [unfolded clear_setting_def Inr sum.case delete_override_def]]
  show ?thesis
    using ok overrides_ok_put(2) [OF ok] overrides_ok_domain by (auto simp: m delete_write_def)
qed (simp add: clear_setting_def ok)

lemma settings_step_ok: "settings_step w w' \<Longrightarrow> overrides_ok (snd w) \<Longrightarrow> overrides_ok (snd w')"
proof (induction rule: settings_step.induct)
  case (Update w sha render auth_ms hs var_name request now_ms)
  then show ?case unfolding update_setting_def
    by (intro guarded_db [where P = overrides_ok]) (simp_all add: upsert_setting_ok)
next
  case (Clear w sha render auth_ms hs var_name request' now_ms)
  then show ?case unfolding clear_setting_route_def
    by (intro guarded_db [where P = overrides_ok]) (simp_all add: clear_setting_ok)
qed (simp add: overrides_ok_def)

lemma settings_reachable_ok: "settings_reachable w \<Longrightarrow> overrides_ok (snd w)"
proof -
  assume "settings_reachable w"
  then obtain st d where d: "st_overrides d = []" "settings_step\<^sup>*\<^sup>* (st, empty_db d) w"
    unfolding settings_reachable_def by blast
  from d(2) show ?thesis
  proof (induction rule: rtranclp_induct)
    case base
    then show ?case using d(1) by (simp add: overrides_ok_def empty_db_def)
  qed (rule settings_step_ok)
qed

lemma parse_u64_usize: "parse_u64 s \<noteq> None \<Longrightarrow> parse_usize s \<noteq> None"
  by (simp add: parse_u64_def parse_usize_def)

text \<open>
  (C21) Stored overrides are well typed. Whatever settings requests an administration has seen, every stored
  override belongs to a registered variable that is listed as editable and is neither a secret nor read at
  start-up, is trimmed and not empty, and is a value of the declared kind: a numeric setting is read back as
  the number that was written and never falls back to its default, a switch is on exactly when the
  stored text is one of the accepted spellings, and an enumerated setting has one of its allowed values.
\<close>

theorem runtime_overrides_typed:
  assumes "settings_reachable w" and "hm_get (overrides_of (snd w)) (client, name) = Some (value, t)"
  shows "\<exists>var kind. find (\<lambda>v. ev_name v = name) ALL_VARS = Some var \<and> \<not> is_secret var \<and> \<not> is_infra var
     \<and> map_option snd (runtime_editable var) = Some kind \<and> setting_value env (snd w) client var = Some value
     \<and> (kind = ValueUint \<longrightarrow> (\<exists>n. parse_usize value = Some n \<and> setting_usize_or env (snd w) client var d = n))
     \<and> (kind = ValueBool \<longrightarrow> to_ascii_lowercase value \<in> set [''1'', ''true'', ''yes'', ''0'', ''false'', ''no''])
     \<and> (\<forall>allowed. kind = ValueEnum allowed \<longrightarrow> value \<in> set allowed)"
proof -
  have "override_ok name value"
    using settings_reachable_ok [OF assms(1)] assms(2) unfolding overrides_ok_def by blast
  then obtain var kind where v: "find (\<lambda>v. ev_name v = name) ALL_VARS = Some var" "\<not> is_secret var" "\<not> is_infra var"
    "map_option snd (runtime_editable var) = Some kind" "value_valid kind value" "trim value = value"
    unfolding override_ok_def by blast
  have n: "ev_name var = name" using v(1) by (auto simp: find_Some_iff)
  have e: "setting_value env (snd w) client var = Some value"
    using v(4) assms(2) by (auto simp: setting_value_def is_runtime_editable_def get_override_def n)
  have "kind = ValueUint \<Longrightarrow> \<exists>n. parse_usize value = Some n \<and> setting_usize_or env (snd w) client var d = n"
    using v(5,6) parse_u64_usize [of "value"] e by (auto simp: setting_usize_or_def)
  then show ?thesis using v e by (intro exI [of _ var] exI [of _ kind]) auto
qed

definition sample_settings_db :: "settings_tables db" where
  "sample_settings_db = empty_db \<lparr>ot_jobs = [], at_users = [], at_api_tokens = [], at_google_credentials = [],
     at_qbo_credentials = [], st_overrides = []\<rparr>"

definition sample_root_headers :: headers where
  "sample_root_headers = \<lparr>hd_authorization = Some ''Bearer root'', hd_cookie = None\<rparr>"

definition sample_settings :: "app_state \<times> settings_tables db" where
  "sample_settings = snd (update_setting (\<lambda>x. x) (\<lambda>x. x) 0 sample_root_headers ''BOS_AI_TRIAGE_ENABLED''
     \<lparr>su_expected_revision = None, su_idempotency_key = ''k'', su_actor_id = None, su_value = '' Yes''\<rparr> 7
     (sample_app, sample_settings_db))"

lemma sample_settings_reachable: "settings_reachable sample_settings"
  unfolding settings_reachable_def sample_settings_def sample_settings_db_def
  by (rule exI [of _ sample_app], rule exI, rule conjI [rotated], rule r_into_rtranclp, rule settings_step.Update) simp

theorem runtime_overrides_typed_witness:
  "\<exists>var. setting_value (\<lambda>_. None) (snd sample_settings) ''acme'' var = Some ''Yes''"
proof -
  have "hm_get (overrides_of (snd sample_settings)) (''acme'', ''BOS_AI_TRIAGE_ENABLED'') = Some (''Yes'', 7)"
    by code_simp
  from runtime_overrides_typed [OF sample_settings_reachable this, of "\<lambda>_. None" 0] show ?thesis by blast
qed

section \<open>The settings page\<close>

text \<open>
  (C22) The settings page reveals no secret. The answer shows for a secret variable neither a value nor a
  default, whatever the environment, the stored overrides and the overlay hold, and does not offer it for
  editing; and two environments that differ only in the values of secrets give the same answer.
\<close>

theorem settings_page_hides_secrets:
  assumes "\<forall>var \<in> set ALL_VARS.
     if is_secret var then (env_string env var = None) = (env_string env' var = None)
     else env_string env var = env_string env' var"
  shows "settings_response_with_overlay env db client overlay = settings_response_with_overlay env' db client overlay
     \<and> (\<forall>row \<in> set (settings_response_with_overlay env db client overlay). sr_secret row \<longrightarrow>
          sr_effective_value row = None \<and> sr_default_value row = None \<and> \<not> sr_editable row)"
proof
  have "setting_row env db client overrides overlay var = setting_row env' db client overrides overlay var"
    if "var \<in> set ALL_VARS" for var overrides
    using assms that by (cases "is_secret var") (auto simp: setting_row_def Let_def)
  then show "settings_response_with_overlay env db client overlay = settings_response_with_overlay env' db client overlay"
    by (simp add: settings_response_with_overlay_def Let_def)
  show "\<forall>row \<in> set (settings_response_with_overlay env db client overlay). sr_secret row \<longrightarrow>
          sr_effective_value row = None \<and> sr_default_value row = None \<and> \<not> sr_editable row"
    by (auto simp: settings_response_with_overlay_def setting_row_def Let_def)
qed

theorem settings_page_hides_secrets_witness:
  "settings_response_with_overlay [''BOS_OPERATOR_TOKEN'' \<mapsto> ''a''] sample_settings_db ''acme'' []
     = settings_response_with_overlay [''BOS_OPERATOR_TOKEN'' \<mapsto> ''b''] sample_settings_db ''acme'' []"
proof -
  have "\<forall>var \<in> set ALL_VARS.
     if is_secret var
     then (env_string [''BOS_OPERATOR_TOKEN'' \<mapsto> ''a''] var = None) = (env_string [''BOS_OPERATOR_TOKEN'' \<mapsto> ''b''] var = None)
     else env_string [''BOS_OPERATOR_TOKEN'' \<mapsto> ''a''] var = env_string [''BOS_OPERATOR_TOKEN'' \<mapsto> ''b''] var"
    by code_simp
  from settings_page_hides_secrets [OF this] show ?thesis by blast
qed

lemma registry_find: "var \<in> set ALL_VARS \<Longrightarrow> find (\<lambda>v. ev_name v = ev_name var) ALL_VARS = Some var"
proof -
  assume v: "var \<in> set ALL_VARS"
  have "distinct (map ev_name ALL_VARS)"
    using ascending_distinct [OF registry_names_ascending] strict_sorted_iff by blast
  then have inj: "u \<in> set ALL_VARS \<Longrightarrow> ev_name u = ev_name var \<Longrightarrow> u = var" for u
    using v by (metis distinct_map inj_onD)
  have "find (\<lambda>v. ev_name v = ev_name var) ALL_VARS \<noteq> None" using v by (auto simp: find_None_iff)
  then obtain u where u: "find (\<lambda>v. ev_name v = ev_name var) ALL_VARS = Some u" by blast
  then have "u \<in> set ALL_VARS" "ev_name u = ev_name var" by (auto simp: find_Some_iff)
  with inj u show ?thesis by simp
qed

lemma editable_registered: "fst ` set RUNTIME_EDITABLE_VARS \<subseteq> set ALL_VARS"
  by (simp add: RUNTIME_EDITABLE_VARS_def ALL_VARS_def)

lemma parse_u64_short:
  assumes "s \<noteq> []" "list_all is_digit s" "length s \<le> 19"
  shows "parse_u64 s \<noteq> None"
proof -
  obtain c cs where c: "s = c # cs" using assms(1) by (cases s) auto
  have "c \<noteq> CHR ''+''" using assms(2) by (auto simp: c is_digit_def)
  moreover have "dec_value s < 10 ^ length s" using dec_value_bound assms(2) by blast
  then have "dec_value s < 10 ^ 19" by (rule order_less_le_trans) (rule power_increasing, use assms(3) in simp_all)
  then have "dec_value s < 2 ^ 64" by simp
  ultimately show ?thesis using assms(2) by (simp add: parse_u64_def parse_unsigned_def parse_digits_def c)
qed

definition default_short :: "env_var \<times> editable_value_kind \<Rightarrow> bool" where
  "default_short e \<longleftrightarrow>
     (case (ev_default (fst e), snd e) of
        (None, _) \<Rightarrow> True
      | (Some v, ValueUint) \<Rightarrow> v \<noteq> [] \<and> list_all is_digit v \<and> length v \<le> 19 \<and> trim v = v
      | (Some v, kind) \<Rightarrow> value_valid kind v)"

lemma editable_table_checked:
  "list_all (\<lambda>e. \<not> is_secret (fst e) \<and> \<not> is_infra (fst e) \<and> \<not> is_security_gate (fst e) \<and> default_short e)
     RUNTIME_EDITABLE_VARS"
  by code_simp

lemma default_short_valid: "default_short e \<Longrightarrow> ev_default (fst e) = Some v \<Longrightarrow> value_valid (snd e) v"
  by (cases "snd e") (auto simp: default_short_def parse_u64_short simp del: not_None_eq)

text \<open>
  The table of editable variables is sound. Each of its entries is a registered variable that is neither a
  secret nor read at start-up nor one of the two gates of the agent interface, and its own default is a value
  of the declared kind; so every entry is accepted by \<open>editable_var\<close>, and no request can switch on
  the agent interface.
\<close>

theorem editable_table_sound:
  "list_all (\<lambda>(var, kind). editable_var (ev_name var) = Inr var \<and> \<not> is_security_gate var
     \<and> (case ev_default var of None \<Rightarrow> True | Some v \<Rightarrow> value_valid kind v)) RUNTIME_EDITABLE_VARS"
proof (unfold list_all_iff, rule)
  fix e
  assume e: "e \<in> set RUNTIME_EDITABLE_VARS"
  then have c: "\<not> is_secret (fst e)" "\<not> is_infra (fst e)" "\<not> is_security_gate (fst e)" "default_short e"
    using editable_table_checked unfolding list_all_iff by blast+
  have "find (\<lambda>v. ev_name v = ev_name (fst e)) ALL_VARS = Some (fst e)"
    using registry_find editable_registered e by blast
  moreover have "(fst e, snd e) \<in> set RUNTIME_EDITABLE_VARS" using e by simp
  then have "is_runtime_editable (fst e)"
    unfolding is_runtime_editable_def runtime_editable_def find_None_iff by blast
  ultimately have "editable_var (ev_name (fst e)) = Inr (fst e)" using c by (simp add: editable_var_def)
  then show "case e of (var, kind) \<Rightarrow> editable_var (ev_name var) = Inr var \<and> \<not> is_security_gate var
     \<and> (case ev_default var of None \<Rightarrow> True | Some v \<Rightarrow> value_valid kind v)"
    using c(3) default_short_valid [OF c(4)] by (cases e) (auto split: option.split)
qed

end
