(* ===== verification/Google_Connector.thy ===== *)
theory Google_Connector
  imports Settings_Properties
begin

text \<open>
  \<open>slices/oauth_state.rs\<close> and \<open>slices/google_connector\<close>: the consent flow that connects an operator's Google
  account, the credential table and the choice of the credential an action runs with. The random state token,
  the hash, the percent encoding and the code exchange with Google are parameters; so are the slices the
  deployment has enabled and the request headers other than the two the gate reads.
\<close>

section \<open>Pending consent states\<close>

definition OAUTH_STATE_ENTITY_KIND :: string where "OAUTH_STATE_ENTITY_KIND = ''connector_oauth_state''"
definition OAUTH_STATE_TTL_MS :: u64 where "OAUTH_STATE_TTL_MS = 10 * 60 * 1000"

record pending_oauth_state =
  po_user_id :: string
  po_issued_at_ms :: u64
  po_expires_at_ms :: u64

type_synonym oauth_state_key = "string \<times> string \<times> string"

record connector_tables = settings_tables +
  ct_oauth_states :: "(oauth_state_key, pending_oauth_state) hash_map"

abbreviation states_of :: "'x connector_tables_scheme db \<Rightarrow> (oauth_state_key, pending_oauth_state) hash_map" where
  "states_of db \<equiv> ct_oauth_states (db_domain db)"

definition put_states ::
    "(oauth_state_key, pending_oauth_state) hash_map \<Rightarrow> 'x connector_tables_scheme db \<Rightarrow> 'x connector_tables_scheme db" where
  "put_states m db = db\<lparr>db_domain := (db_domain db)\<lparr>ct_oauth_states := m\<rparr>\<rparr>"

definition oauth_entity_id :: "string \<Rightarrow> string \<Rightarrow> string" where
  "oauth_entity_id connector state_hash = connector @ '':'' @ state_hash"

definition issue_key :: "string \<Rightarrow> string \<Rightarrow> string" where
  "issue_key connector state_hash = ''oauth_state_issue:'' @ oauth_entity_id connector state_hash"

text \<open>\<open>DELETE ... WHERE expires_at_ms <= ?2\<close>, then \<open>INSERT\<close> with the constraints of the table.\<close>

definition issue_write ::
    "oauth_state_key \<Rightarrow> pending_oauth_state \<Rightarrow> ('x connector_tables_scheme, unit) db_op" where
  "issue_write k row db =
     (let kept = filter (\<lambda>((c, _), p). \<not> (c = fst k \<and> sint (po_expires_at_ms p) \<le> sint (po_issued_at_ms row)))
                   (states_of db)
      in if fst (snd k) = [] \<or> snd (snd k) = [] \<or> po_user_id row = [] \<or> sint (po_issued_at_ms row) < 0
            \<or> \<not> sint (po_issued_at_ms row) < sint (po_expires_at_ms row)
         then (Inl (Sqlite ''CHECK constraint failed: connector_oauth_states''), db)
         else if hm_get kept k \<noteq> None
         then (Inl (Sqlite ''UNIQUE constraint failed: connector_oauth_states.client_id, connector_oauth_states.connector, connector_oauth_states.state_hash''), db)
         else (Inr (), put_states (hm_insert k row kept) db))"

definition u64_checked_add :: "u64 \<Rightarrow> u64 \<Rightarrow> u64 option" where
  "u64_checked_add a b = (if uint a + uint b < 2 ^ 64 then Some (a + b) else None)"

definition register_oauth_state ::
    "(string \<Rightarrow> string) \<Rightarrow> (string \<Rightarrow> string \<Rightarrow> u64 \<Rightarrow> u64 \<Rightarrow> string) \<Rightarrow> string \<Rightarrow> string \<Rightarrow> string \<Rightarrow> string \<Rightarrow> u64 \<Rightarrow> u64
       \<Rightarrow> ('x connector_tables_scheme, mutation_outcome) db_op" where
  "register_oauth_state sha render client connector state user_id issued_at_ms ttl_ms db =
     (case u64_checked_add issued_at_ms ttl_ms of
        None \<Rightarrow> (Inl (Domain ''invalid OAuth state expiry''), db)
      | Some expires_at_ms \<Rightarrow>
          if \<not> expires_at_ms > issued_at_ms then (Inl (Domain ''invalid OAuth state expiry''), db)
          else
            mutate \<lparr>mq_client_id = client, mq_entity_kind = OAUTH_STATE_ENTITY_KIND,
                    mq_entity_id = oauth_entity_id connector (sha state), mq_change_kind = ''issue'',
                    mq_actor_id = user_id, mq_actor_kind = Operator, mq_expected_revision = None,
                    mq_idempotency_key = issue_key connector (sha state),
                    mq_correlation_id = None, mq_causation_id = None, mq_before_json = None,
                    mq_after_json = Some (render connector user_id issued_at_ms expires_at_ms),
                    mq_now_ms = issued_at_ms\<rparr>
              (issue_write (client, connector, sha state)
                 \<lparr>po_user_id = user_id, po_issued_at_ms = issued_at_ms, po_expires_at_ms = expires_at_ms\<rparr>) db)"

definition consume_write ::
    "oauth_state_key \<Rightarrow> u64 \<Rightarrow> ('x connector_tables_scheme, unit) db_op" where
  "consume_write k issued_at_ms db =
     (case hm_get (states_of db) k of
        None \<Rightarrow> (Inl (Domain ''oauth_state_invalid''), db)
      | Some p \<Rightarrow>
          if po_issued_at_ms p = issued_at_ms then (Inr (), put_states (hm_remove k (states_of db)) db)
          else (Inl (Domain ''oauth_state_invalid''), db))"

definition consume_oauth_state ::
    "(string \<Rightarrow> string) \<Rightarrow> string \<Rightarrow> string \<Rightarrow> string \<Rightarrow> string \<Rightarrow> u64
       \<Rightarrow> ('x connector_tables_scheme, string option) db_op" where
  "consume_oauth_state sha client connector state attempt_id now_ms db =
     (case hm_get (states_of db) (client, connector, sha state) of
        None \<Rightarrow> (Inr None, db)
      | Some pending \<Rightarrow>
          let expired = (now_ms \<ge> po_expires_at_ms pending);
              entity_id = oauth_entity_id connector (sha state);
              change_kind = (if expired then ''expire'' else ''consume'')
          in (case mutate \<lparr>mq_client_id = client, mq_entity_kind = OAUTH_STATE_ENTITY_KIND,
                           mq_entity_id = entity_id, mq_change_kind = change_kind,
                           mq_actor_id = po_user_id pending, mq_actor_kind = Operator,
                           mq_expected_revision = None,
                           mq_idempotency_key = ''oauth_state_'' @ change_kind @ '':'' @ entity_id @ '':'' @ attempt_id,
                           mq_correlation_id = None, mq_causation_id = None, mq_before_json = None,
                           mq_after_json = None, mq_now_ms = now_ms\<rparr>
                     (consume_write (client, connector, sha state) (po_issued_at_ms pending)) db of
                (Inr _, db') \<Rightarrow> (Inr (if expired then None else Some (po_user_id pending)), db')
              | (Inl err, db') \<Rightarrow>
                  if err = Domain ''oauth_state_invalid'' then (Inr None, db') else (Inl err, db')))"

section \<open>Credentials\<close>

definition CREDENTIAL_ENTITY_KIND :: string where "CREDENTIAL_ENTITY_KIND = ''google_oauth_credential''"
definition SERVICE_GMAIL :: string where "SERVICE_GMAIL = ''gmail''"

abbreviation credentials_of ::
    "'x auth_tables_scheme db \<Rightarrow> (string \<times> string \<times> string, google_credential_row) hash_map" where
  "credentials_of db \<equiv> at_google_credentials (db_domain db)"

record stored_credential =
  cr_user_id :: string
  cr_refresh_token :: string
  cr_scopes :: "string list"
  cr_connected_at_ms :: u64

definition credential_from_row :: "string \<Rightarrow> google_credential_row \<Rightarrow> stored_credential" where
  "credential_from_row user_id r =
     \<lparr>cr_user_id = user_id, cr_refresh_token = gc_refresh_token r, cr_scopes = gc_scopes r,
      cr_connected_at_ms = gc_connected_at_ms r\<rparr>"

definition get_credential ::
    "'x auth_tables_scheme db \<Rightarrow> string \<Rightarrow> string \<Rightarrow> string \<Rightarrow> stored_credential option" where
  "get_credential db client user_id service =
     map_option (credential_from_row user_id) (hm_get (credentials_of db) (client, user_id, service))"

definition list_credentials :: "'x auth_tables_scheme db \<Rightarrow> string \<Rightarrow> string \<Rightarrow> stored_credential list" where
  "list_credentials db client service =
     map (\<lambda>((_, user_id, _), r). credential_from_row user_id r)
       (sort_key (\<lambda>((_, user_id, _), r). (sint (gc_connected_at_ms r), user_id))
         (filter (\<lambda>((c, _, s), _). c = client \<and> s = service) (credentials_of db)))"

definition put_credentials ::
    "(string \<times> string \<times> string, google_credential_row) hash_map \<Rightarrow> 'x auth_tables_scheme db \<Rightarrow> 'x auth_tables_scheme db" where
  "put_credentials m db = db\<lparr>db_domain := (db_domain db)\<lparr>at_google_credentials := m\<rparr>\<rparr>"

definition credential_request ::
    "string \<Rightarrow> string \<Rightarrow> string \<Rightarrow> string \<Rightarrow> string \<Rightarrow> actor_kind \<Rightarrow> string \<Rightarrow> string option \<Rightarrow> u64 \<Rightarrow> mutation_request" where
  "credential_request client user_id service change actor kind key_prefix after now_ms =
     \<lparr>mq_client_id = client, mq_entity_kind = CREDENTIAL_ENTITY_KIND, mq_entity_id = service @ '':'' @ user_id,
      mq_change_kind = change, mq_actor_id = actor, mq_actor_kind = kind, mq_expected_revision = None,
      mq_idempotency_key = key_prefix @ '':'' @ service @ '':'' @ user_id @ '':'' @ dec_string (unat now_ms),
      mq_correlation_id = None, mq_causation_id = None, mq_before_json = None, mq_after_json = after,
      mq_now_ms = now_ms\<rparr>"

text \<open>\<open>render user_id scopes\<close> is the receipt payload; it has no access to the refresh token.\<close>

definition store_credential ::
    "(string \<Rightarrow> string list \<Rightarrow> string) \<Rightarrow> string \<Rightarrow> string \<Rightarrow> string \<Rightarrow> string \<Rightarrow> string list \<Rightarrow> u64
       \<Rightarrow> ('x auth_tables_scheme, mutation_outcome) db_op" where
  "store_credential render client user_id service refresh_token scopes now_ms =
     mutate (credential_request client user_id service ''connect'' user_id Operator ''connect''
               (Some (render user_id scopes)) now_ms)
       (\<lambda>db. (Inr (), put_credentials
          (hm_insert (client, user_id, service)
             \<lparr>gc_refresh_token = refresh_token, gc_scopes = scopes, gc_connected_at_ms = now_ms\<rparr>
             (credentials_of db)) db))"

definition delete_credential ::
    "string \<Rightarrow> string \<Rightarrow> string \<Rightarrow> u64 \<Rightarrow> ('x auth_tables_scheme, mutation_outcome) db_op" where
  "delete_credential client user_id service now_ms =
     mutate (credential_request client user_id service ''disconnect'' user_id Operator ''disconnect'' None now_ms)
       (\<lambda>db. (Inr (), put_credentials (hm_remove (client, user_id, service) (credentials_of db)) db))"

definition mark_credential_revoked ::
    "(string \<Rightarrow> string \<Rightarrow> string \<Rightarrow> string) \<Rightarrow> string \<Rightarrow> string \<Rightarrow> string \<Rightarrow> string \<Rightarrow> u64
       \<Rightarrow> ('x auth_tables_scheme, mutation_outcome) db_op" where
  "mark_credential_revoked render client user_id service reason now_ms =
     mutate (credential_request client user_id service ''oauth_revoked'' ''gmail_ingest_pump'' System ''oauth_revoked''
               (Some (render user_id service reason)) now_ms)
       (\<lambda>db. (Inr (), put_credentials (hm_remove (client, user_id, service) (credentials_of db)) db))"

section \<open>Which credential an action runs with\<close>

definition GMAIL_READONLY_SCOPE :: string where
  "GMAIL_READONLY_SCOPE = ''https://www.googleapis.com/auth/gmail.readonly''"
definition GMAIL_COMPOSE_SCOPE :: string where
  "GMAIL_COMPOSE_SCOPE = ''https://www.googleapis.com/auth/gmail.compose''"
definition GMAIL_MODIFY_SCOPE :: string where
  "GMAIL_MODIFY_SCOPE = ''https://www.googleapis.com/auth/gmail.modify''"
definition CALENDAR_EVENTS_SCOPE :: string where
  "CALENDAR_EVENTS_SCOPE = ''https://www.googleapis.com/auth/calendar.events''"
definition CALENDAR_LIST_READONLY_SCOPE :: string where
  "CALENDAR_LIST_READONLY_SCOPE = ''https://www.googleapis.com/auth/calendar.calendarlist.readonly''"
definition DRIVE_READONLY_SCOPE :: string where
  "DRIVE_READONLY_SCOPE = ''https://www.googleapis.com/auth/drive.readonly''"
definition SEARCH_CONSOLE_READONLY_SCOPE :: string where
  "SEARCH_CONSOLE_READONLY_SCOPE = ''https://www.googleapis.com/auth/webmasters.readonly''"
definition ANALYTICS_READONLY_SCOPE :: string where
  "ANALYTICS_READONLY_SCOPE = ''https://www.googleapis.com/auth/analytics.readonly''"

record oauth_app =
  oa_client_id :: string
  oa_client_secret :: string

record google_oauth_config =
  go_client_id :: string
  go_client_secret :: string
  go_refresh_token :: string
  go_scopes :: "string list"
  go_token_url :: "string option"

definition oauth_app_from_env :: "environment \<Rightarrow> oauth_app option" where
  "oauth_app_from_env env =
     (case (env_string env BOS_GMAIL_OAUTH_CLIENT_ID, env_string env BOS_GMAIL_OAUTH_CLIENT_SECRET) of
        (Some client_id, Some client_secret) \<Rightarrow> Some \<lparr>oa_client_id = client_id, oa_client_secret = client_secret\<rparr>
      | _ \<Rightarrow> None)"

definition config_with_token :: "oauth_app \<Rightarrow> string \<Rightarrow> string list \<Rightarrow> google_oauth_config" where
  "config_with_token app refresh_token scopes =
     \<lparr>go_client_id = oa_client_id app, go_client_secret = oa_client_secret app,
      go_refresh_token = refresh_token, go_scopes = scopes, go_token_url = None\<rparr>"

text \<open>Splitting at commas and spaces: every space is read as a comma.\<close>

definition parse_scope_list :: "string \<Rightarrow> string list" where
  "parse_scope_list raw =
     filter (\<lambda>scope. scope \<noteq> [])
       (map trim (split_on (CHR '','') (map (\<lambda>c. if c = CHR '' '' then CHR '','' else c) raw)))"

definition env_scopes :: "environment \<Rightarrow> string list" where
  "env_scopes env = (case env_string env BOS_GMAIL_OAUTH_SCOPES of None \<Rightarrow> [] | Some raw \<Rightarrow> parse_scope_list raw)"

definition env_oauth_config :: "environment \<Rightarrow> oauth_app \<Rightarrow> google_oauth_config option" where
  "env_oauth_config env app =
     map_option (\<lambda>refresh_token. config_with_token app refresh_token (env_scopes env))
       (env_string env BOS_GMAIL_OAUTH_REFRESH_TOKEN)"

definition stored_config :: "oauth_app \<Rightarrow> stored_credential \<Rightarrow> google_oauth_config" where
  "stored_config app stored = config_with_token app (cr_refresh_token stored) (cr_scopes stored)"

definition resolve_google_oauth ::
    "environment \<Rightarrow> 'x auth_tables_scheme db \<Rightarrow> string \<Rightarrow> string option \<Rightarrow> google_oauth_config option" where
  "resolve_google_oauth env db client user_id =
     (case oauth_app_from_env env of
        None \<Rightarrow> None
      | Some app \<Rightarrow>
          (case Option.bind user_id (\<lambda>user. get_credential db client user SERVICE_GMAIL) of
             Some stored \<Rightarrow> Some (stored_config app stored)
           | None \<Rightarrow>
               (case env_oauth_config env app of
                  Some config \<Rightarrow> Some config
                | None \<Rightarrow>
                    (case list_credentials db client SERVICE_GMAIL of
                       [only] \<Rightarrow> Some (stored_config app only)
                     | _ \<Rightarrow> None))))"

definition resolve_bound_google_oauth ::
    "environment \<Rightarrow> 'x auth_tables_scheme db \<Rightarrow> string \<Rightarrow> string \<Rightarrow> google_oauth_config option" where
  "resolve_bound_google_oauth env db client user_id =
     (case oauth_app_from_env env of
        None \<Rightarrow> None
      | Some app \<Rightarrow>
          (case get_credential db client user_id SERVICE_GMAIL of
             Some stored \<Rightarrow> Some (stored_config app stored)
           | None \<Rightarrow> env_oauth_config env app))"

definition resolve_google_oauth_for_owner ::
    "environment \<Rightarrow> 'x auth_tables_scheme db \<Rightarrow> string \<Rightarrow> string option \<Rightarrow> google_oauth_config option" where
  "resolve_google_oauth_for_owner env db client owner_user_id =
     (case owner_user_id of
        None \<Rightarrow> resolve_google_oauth env db client None
      | Some owner \<Rightarrow>
          (case oauth_app_from_env env of
             None \<Rightarrow> None
           | Some app \<Rightarrow> map_option (stored_config app) (get_credential db client owner SERVICE_GMAIL)))"

definition google_oauth_owner :: "environment \<Rightarrow> 'x auth_tables_scheme db \<Rightarrow> string \<Rightarrow> string \<Rightarrow> string option" where
  "google_oauth_owner env db client user_id =
     (case oauth_app_from_env env of
        None \<Rightarrow> None
      | Some app \<Rightarrow>
          if get_credential db client user_id SERVICE_GMAIL \<noteq> None then Some user_id
          else if env_oauth_config env app \<noteq> None then None
          else (case list_credentials db client SERVICE_GMAIL of [only] \<Rightarrow> Some (cr_user_id only) | _ \<Rightarrow> None))"

record gmail_account =
  ga_user_id :: "string option"
  ga_oauth :: google_oauth_config

definition list_gmail_accounts :: "environment \<Rightarrow> 'x auth_tables_scheme db \<Rightarrow> string \<Rightarrow> gmail_account list" where
  "list_gmail_accounts env db client =
     (case oauth_app_from_env env of
        None \<Rightarrow> []
      | Some app \<Rightarrow>
          (case list_credentials db client SERVICE_GMAIL of
             [] \<Rightarrow> (case env_oauth_config env app of
                     None \<Rightarrow> []
                   | Some oauth \<Rightarrow> [\<lparr>ga_user_id = None, ga_oauth = oauth\<rparr>])
           | stored \<Rightarrow> map (\<lambda>c. \<lparr>ga_user_id = Some (cr_user_id c), ga_oauth = stored_config app c\<rparr>) stored))"

definition has_scope :: "google_oauth_config \<Rightarrow> string \<Rightarrow> bool" where
  "has_scope creds scope \<longleftrightarrow> scope \<in> set (go_scopes creds)"

section \<open>Connecting\<close>

definition requested_scopes_for_enabled_slices :: "(string \<Rightarrow> bool) \<Rightarrow> string list" where
  "requested_scopes_for_enabled_slices slice_enabled =
     (let scopes = (if slice_enabled ''email_triage'' then [GMAIL_MODIFY_SCOPE] else [GMAIL_READONLY_SCOPE]);
          scopes = (if (slice_enabled ''email_drafts'' \<or> slice_enabled ''claim_drafts'' \<or> slice_enabled ''owner_reports'')
                       \<and> GMAIL_MODIFY_SCOPE \<notin> set scopes
                    then scopes @ [GMAIL_COMPOSE_SCOPE] else scopes);
          scopes = (if slice_enabled ''calendar_drafts''
                    then scopes @ [CALENDAR_EVENTS_SCOPE, CALENDAR_LIST_READONLY_SCOPE] else scopes);
          scopes = (if slice_enabled ''drive_corpus'' \<or> slice_enabled ''content_drafts'' \<or> slice_enabled ''call_inputs''
                    then scopes @ [DRIVE_READONLY_SCOPE] else scopes);
          scopes = (if slice_enabled ''search_console'' \<or> slice_enabled ''owner_reports''
                    then scopes @ [SEARCH_CONSOLE_READONLY_SCOPE] else scopes)
      in if slice_enabled ''search_console'' \<or> slice_enabled ''owner_reports''
         then scopes @ [ANALYTICS_READONLY_SCOPE] else scopes)"

definition missing_scopes :: "string list \<Rightarrow> string list \<Rightarrow> string list" where
  "missing_scopes granted requested =
     (if granted = [] then [] else filter (\<lambda>needed. needed \<notin> set granted) requested)"

record connector_status =
  co_service :: string
  co_connected :: bool
  co_source :: "string option"
  co_scopes :: "string list"
  co_missing_scopes :: "string list"
  co_connect_url :: "string option"
  co_blocked_reason :: "string option"

definition gmail_status ::
    "environment \<Rightarrow> 'x auth_tables_scheme db \<Rightarrow> string \<Rightarrow> string \<Rightarrow> string list \<Rightarrow> connector_status" where
  "gmail_status env db client user_id requested =
     (case get_credential db client user_id SERVICE_GMAIL of
        Some stored \<Rightarrow>
          let missing = missing_scopes (cr_scopes stored) requested in
          \<lparr>co_service = SERVICE_GMAIL, co_connected = True, co_source = Some ''stored'',
           co_scopes = cr_scopes stored, co_missing_scopes = missing,
           co_connect_url = (if missing \<noteq> [] \<and> oauth_app_from_env env \<noteq> None
                             then Some ''/api/connectors/google/connect'' else None),
           co_blocked_reason = None\<rparr>
      | None \<Rightarrow>
          if env_string env BOS_GMAIL_OAUTH_REFRESH_TOKEN \<noteq> None
          then \<lparr>co_service = SERVICE_GMAIL, co_connected = True, co_source = Some ''env'',
                co_scopes = env_scopes env, co_missing_scopes = missing_scopes (env_scopes env) requested,
                co_connect_url = None, co_blocked_reason = None\<rparr>
          else \<lparr>co_service = SERVICE_GMAIL, co_connected = False, co_source = None, co_scopes = [],
                co_missing_scopes = [],
                co_connect_url = (if oauth_app_from_env env \<noteq> None
                                  then Some ''/api/connectors/google/connect'' else None),
                co_blocked_reason = (if oauth_app_from_env env \<noteq> None then None
                  else Some ''oauth_app_unconfigured: set BOS_GMAIL_OAUTH_CLIENT_ID and BOS_GMAIL_OAUTH_CLIENT_SECRET'')\<rparr>)"

definition redirect_uri_for_base :: "string \<Rightarrow> string" where
  "redirect_uri_for_base base = trim_end_matches ''/'' base @ ''/api/connectors/google/callback''"

definition default_proto_for_host :: "string \<Rightarrow> string" where
  "default_proto_for_host host =
     (if strip_prefix ''127.0.0.1'' host \<noteq> None \<or> strip_prefix ''localhost'' host \<noteq> None
         \<or> strip_prefix ''[::1]'' host \<noteq> None
      then ''http'' else ''https'')"

definition redirect_uri_from_base_or_headers ::
    "string option \<Rightarrow> string option \<Rightarrow> string option \<Rightarrow> string option \<Rightarrow> string" where
  "redirect_uri_from_base_or_headers public_base forwarded_proto forwarded_host host_header =
     (case public_base of
        Some base \<Rightarrow> redirect_uri_for_base base
      | None \<Rightarrow>
          (case (case forwarded_host of Some h \<Rightarrow> Some h | None \<Rightarrow> host_header) of
             None \<Rightarrow> redirect_uri_for_base ''http://127.0.0.1:4400''
           | Some host \<Rightarrow>
               let proto = (case forwarded_proto of Some p \<Rightarrow> p | None \<Rightarrow> default_proto_for_host host)
               in redirect_uri_for_base (proto @ ''://'' @ host)))"

definition first_header_value :: "(string \<Rightarrow> string option) \<Rightarrow> string \<Rightarrow> string option" where
  "first_header_value header name =
     Option.bind (header name) (\<lambda>raw.
       let first = trim (hd (split_on (CHR '','') raw)) in if first = [] then None else Some first)"

definition redirect_uri_for_request :: "environment \<Rightarrow> (string \<Rightarrow> string option) \<Rightarrow> string" where
  "redirect_uri_for_request env header =
     redirect_uri_from_base_or_headers (env_string env BOS_PUBLIC_BASE_URL)
       (first_header_value header ''x-forwarded-proto'') (first_header_value header ''x-forwarded-host'')
       (first_header_value header ''host'')"

definition consent_url :: "(string \<Rightarrow> string) \<Rightarrow> oauth_app \<Rightarrow> string \<Rightarrow> string list \<Rightarrow> string \<Rightarrow> string" where
  "consent_url encode app redirect_uri scopes state =
     ''https://accounts.google.com/o/oauth2/v2/auth?response_type=code&client_id='' @ encode (oa_client_id app)
     @ ''&redirect_uri='' @ encode redirect_uri @ ''&scope='' @ encode (join_with '' '' scopes)
     @ ''&state='' @ encode state @ ''&access_type=offline&prompt='' @ encode ''select_account consent''"

section \<open>Handlers\<close>

datatype connector_response =
  ConnectorRefused http_error
| ConnectorShown connector_status
| RedirectTo string
| ConnectFailedPage string
| ConnectedPage
| Disconnected

type_synonym 'x connector_handler =
  "app_state \<times> 'x connector_tables_scheme db \<Rightarrow> connector_response \<times> (app_state \<times> 'x connector_tables_scheme db)"

fun connector_store_error :: "store_error \<Rightarrow> http_error" where
  "connector_store_error (Domain code) = \<lparr>he_status = 422, he_code = code\<rparr>"
| "connector_store_error (Sqlite message) = \<lparr>he_status = 500, he_code = ''storage_failure''\<rparr>"

definition connector_refused :: "nat \<Rightarrow> string \<Rightarrow> connector_response" where
  "connector_refused status code = ConnectorRefused \<lparr>he_status = status, he_code = code\<rparr>"

definition status_route ::
    "(string \<Rightarrow> string) \<Rightarrow> environment \<Rightarrow> (string \<Rightarrow> bool) \<Rightarrow> u64 \<Rightarrow> headers \<Rightarrow> 'x connector_handler" where
  "status_route sha env slice_enabled auth_ms hs w =
     (case authenticate_operator sha (snd w) auth_ms hs (fst w) of
        (Inl e, st) \<Rightarrow> (ConnectorRefused e, (st, snd w))
      | (Inr i, st) \<Rightarrow>
          (ConnectorShown (gmail_status env (snd w) (as_client_id st) (id_actor_id i)
             (requested_scopes_for_enabled_slices slice_enabled)), (st, snd w)))"

definition connect_route ::
    "(string \<Rightarrow> string) \<Rightarrow> (string \<Rightarrow> string \<Rightarrow> u64 \<Rightarrow> u64 \<Rightarrow> string) \<Rightarrow> (string \<Rightarrow> string) \<Rightarrow> environment \<Rightarrow> (string \<Rightarrow> bool)
       \<Rightarrow> u64 \<Rightarrow> headers \<Rightarrow> (string \<Rightarrow> string option) \<Rightarrow> string option \<Rightarrow> string \<Rightarrow> u64 \<Rightarrow> 'x connector_handler" where
  "connect_route sha render encode env slice_enabled auth_ms hs header query_token csrf_state now_ms w =
     (case authenticate_operator_or_query_token sha (snd w) auth_ms hs query_token (fst w) of
        (Inl e, st) \<Rightarrow> (ConnectorRefused e, (st, snd w))
      | (Inr i, st) \<Rightarrow>
          (case oauth_app_from_env env of
             None \<Rightarrow> (connector_refused 409 ''oauth_app_unconfigured'', (st, snd w))
           | Some app \<Rightarrow>
               (case register_oauth_state sha render (as_client_id st) ''google'' csrf_state (id_actor_id i)
                       now_ms OAUTH_STATE_TTL_MS (snd w) of
                  (Inl err, db') \<Rightarrow> (ConnectorRefused (connector_store_error err), (st, db'))
                | (Inr _, db') \<Rightarrow>
                    (RedirectTo (consent_url encode app (redirect_uri_for_request env header)
                       (requested_scopes_for_enabled_slices slice_enabled) csrf_state), (st, db')))))"

record authorization_code_grant =
  gr_refresh_token :: string
  gr_scopes :: "string list"

text \<open>
  \<open>exchange\<close> is the code exchange with Google, \<open>None\<close> when it fails; \<open>attempt\<close> is the fresh identifier the
  consumption is recorded under.
\<close>

definition callback_route ::
    "(string \<Rightarrow> string) \<Rightarrow> (string \<Rightarrow> string list \<Rightarrow> string) \<Rightarrow> environment \<Rightarrow> (string \<Rightarrow> string option)
       \<Rightarrow> (oauth_app \<Rightarrow> string \<Rightarrow> string \<Rightarrow> authorization_code_grant option)
       \<Rightarrow> string option \<Rightarrow> string option \<Rightarrow> string option \<Rightarrow> string \<Rightarrow> u64 \<Rightarrow> u64 \<Rightarrow> 'x connector_handler" where
  "callback_route sha render env header exchange code state error attempt consume_ms now_ms w =
     (case error of
        Some err \<Rightarrow> (ConnectFailedPage (concat (map (\<lambda>c. if c = CHR ''<'' then ''&lt;'' else [c]) err)), w)
      | None \<Rightarrow>
          (case (code, state) of
             (Some code, Some csrf_state) \<Rightarrow>
               (case consume_oauth_state sha (as_client_id (fst w)) ''google'' csrf_state attempt consume_ms (snd w) of
                  (Inl err, db') \<Rightarrow> (ConnectorRefused (connector_store_error err), (fst w, db'))
                | (Inr None, db') \<Rightarrow> (connector_refused 400 ''oauth_state_invalid'', (fst w, db'))
                | (Inr (Some user_id), db') \<Rightarrow>
                    (case oauth_app_from_env env of
                       None \<Rightarrow> (connector_refused 409 ''oauth_app_unconfigured'', (fst w, db'))
                     | Some app \<Rightarrow>
                         (case exchange app (redirect_uri_for_request env header) code of
                            None \<Rightarrow> (connector_refused 502 ''oauth_code_exchange_failed'', (fst w, db'))
                          | Some grant \<Rightarrow>
                              (case store_credential render (as_client_id (fst w)) user_id SERVICE_GMAIL
                                      (gr_refresh_token grant) (gr_scopes grant) now_ms db' of
                                 (Inr _, db'') \<Rightarrow> (ConnectedPage, (fst w, db''))
                               | (Inl err, db'') \<Rightarrow> (ConnectorRefused (connector_store_error err), (fst w, db''))))))
           | _ \<Rightarrow> (connector_refused 400 ''oauth_callback_missing_params'', w)))"

definition disconnect_route :: "(string \<Rightarrow> string) \<Rightarrow> u64 \<Rightarrow> headers \<Rightarrow> u64 \<Rightarrow> 'x connector_handler" where
  "disconnect_route sha auth_ms hs now_ms w =
     (case authenticate_operator sha (snd w) auth_ms hs (fst w) of
        (Inl e, st) \<Rightarrow> (ConnectorRefused e, (st, snd w))
      | (Inr i, st) \<Rightarrow>
          (case delete_credential (as_client_id st) (id_actor_id i) SERVICE_GMAIL now_ms (snd w) of
             (Inr _, db') \<Rightarrow> (Disconnected, (st, db'))
           | (Inl err, db') \<Rightarrow> (ConnectorRefused (connector_store_error err), (st, db'))))"

end
