(* ===== verification/Connector_Properties.thy ===== *)
theory Connector_Properties
  imports Google_Connector Session_Properties
begin

text \<open>
  The consent flow as a protocol: a state token is accepted at most once in the life of the database, and the
  credential it yields is stored for the operator who asked for it.
\<close>

section \<open>Mutations and idempotency keys\<close>

lemma mutate_spine:
  assumes safe: "spine_safe (\<lambda>_. dw)" and ok: "spine_ok (db_receipts db)" and m: "mutate req dw db = (r, db')"
  shows "spine_ok (db_receipts db')"
    and "applied_key_taken db c k \<Longrightarrow> applied_key_taken db' c k"
    and "r = Inr (MutationApplied i n) \<Longrightarrow> applied_key_taken db' (mq_client_id req) (mq_idempotency_key req)"
    and "r = Inr (MutationApplied i n) \<Longrightarrow> \<not> applied_key_taken db (mq_client_id req) (mq_idempotency_key req)"
    and "applied_key_taken db' c k \<Longrightarrow> applied_key_taken db c k \<or> (c, k) = (mq_client_id req, mq_idempotency_key req)"
proof -
  have m': "mutate_with_receipt_id req (\<lambda>_. dw) db = (r, db')" using m by (simp add: mutate_def)
  obtain out cls b a where h: "identities db' = identities db @ [rx_identity (receipt_of req out cls b a (next_receipt_id db))]"
    "out = (case r of Inl _ \<Rightarrow> FailedOutcome | Inr (MutationApplied _ _) \<Rightarrow> Applied
         | Inr (MutationReplayed _ _) \<Rightarrow> ReplayedIdempotent | Inr (MutationConflict _ _) \<Rightarrow> RevisionConflict)"
    "out = Applied \<longrightarrow> a \<noteq> None" "out = Applied \<longrightarrow> \<not> applied_key_taken db (mq_client_id req) (mq_idempotency_key req)"
    using mutate_receipts [OF safe ok, of req] unfolding m' fst_conv snd_conv by metis
  show "spine_ok (db_receipts db')" using spine_ok_snoc [OF ok _ _ h(1)] h(3,4) by blast
  show "applied_key_taken db' c k" if "applied_key_taken db c k"
    using that by (auto simp: key_taken_identities h(1))
  show "applied_key_taken db' (mq_client_id req) (mq_idempotency_key req)" if "r = Inr (MutationApplied i n)"
    using that h(2) by (simp add: key_taken_identities h(1) spine_key_def receipt_of_def applied_def)
  show "\<not> applied_key_taken db (mq_client_id req) (mq_idempotency_key req)" if "r = Inr (MutationApplied i n)"
    using that h(2,4) by simp
  show "applied_key_taken db c k \<or> (c, k) = (mq_client_id req, mq_idempotency_key req)" if "applied_key_taken db' c k"
    using that by (auto simp: key_taken_identities h(1) spine_key_def receipt_of_def)
qed

text \<open>A write that succeeds is applied when the key is new and no revision is expected.\<close>

lemma mutate_fresh:
  assumes "spine_safe (\<lambda>_. dw)" "spine_ok (db_receipts db)" "mq_expected_revision req = None"
    and "\<not> applied_key_taken db (mq_client_id req) (mq_idempotency_key req)" "dw db = (Inr (), db1)"
  shows "\<exists>i n db'. mutate req dw db = (Inr (MutationApplied i n), db') \<and> db_domain db' = db_domain db1"
proof -
  have f: "find_applied_receipt db (mq_client_id req) (mq_idempotency_key req) = None"
    using assms(4) by (simp add: find_applied_None)
  have c: "\<not> conflicting req db" using assms(3) by (simp add: conflicting_def)
  from spine_write.mutate_applied [OF spine_write.intro [OF assms(1)] assms(2) f c assms(5)]
  show ?thesis by (simp add: mutate_def write_revision_def)
qed

section \<open>How the pending states evolve\<close>

definition key_issued :: "'d db \<Rightarrow> oauth_state_key \<Rightarrow> bool" where
  "key_issued db k \<longleftrightarrow> applied_key_taken db (fst k) (issue_key (fst (snd k)) (snd (snd k)))"

definition states_ok :: "'x connector_tables_scheme db \<Rightarrow> bool" where
  "states_ok db \<longleftrightarrow> spine_ok (db_receipts db) \<and> (\<forall>k. hm_get (states_of db) k \<noteq> None \<longrightarrow> key_issued db k)"

definition states_evolve :: "'x connector_tables_scheme db \<Rightarrow> 'x connector_tables_scheme db \<Rightarrow> bool" where
  "states_evolve db db' \<longleftrightarrow> states_ok db' \<and> (\<forall>k. key_issued db k \<longrightarrow> key_issued db' k)
     \<and> (\<forall>k. key_issued db k \<longrightarrow> hm_get (states_of db) k = None \<longrightarrow> hm_get (states_of db') k = None)"

lemma states_evolve_refl: "states_ok db \<Longrightarrow> states_evolve db db"
  by (simp add: states_evolve_def)

lemma states_evolve_trans: "states_evolve a b \<Longrightarrow> states_evolve b c \<Longrightarrow> states_evolve a c"
  unfolding states_evolve_def by blast

lemma states_evolve_keep:
  assumes "states_ok db" "spine_ok (db_receipts db')" "\<And>k. key_issued db k \<Longrightarrow> key_issued db' k"
    and "\<And>k. hm_get (states_of db') k \<noteq> None \<Longrightarrow> hm_get (states_of db) k \<noteq> None"
  shows "states_evolve db db'"
  using assms unfolding states_evolve_def states_ok_def by blast

lemma mutate_states_keep:
  assumes ok: "states_ok db" and safe: "spine_safe (\<lambda>_. dw)" and m: "mutate req dw db = (r, db')"
    and keep: "\<And>db1 k. dw db = (Inr (), db1) \<Longrightarrow> hm_get (states_of db1) k \<noteq> None \<Longrightarrow> hm_get (states_of db) k \<noteq> None"
  shows "states_evolve db db'"
proof (rule states_evolve_keep [OF ok])
  have sp: "spine_ok (db_receipts db)" using ok by (simp add: states_ok_def)
  show "spine_ok (db_receipts db')" by (rule mutate_spine(1) [OF safe sp m])
  show "key_issued db' k" if "key_issued db k" for k
    using that mutate_spine(2) [OF safe sp m] by (simp add: key_issued_def)
  show "hm_get (states_of db) k \<noteq> None" if "hm_get (states_of db') k \<noteq> None" for k
    using mutate_domain [OF m] that keep [of _ k] by metis
qed

lemma put_states_simps [simp]:
  "states_of (put_states m db) = m" "db_receipts (put_states m db) = db_receipts db"
  "credentials_of (put_states m db) = credentials_of db"
  by (simp_all add: put_states_def)

lemma put_credentials_simps [simp]:
  "credentials_of (put_credentials m db) = m" "db_receipts (put_credentials m db) = db_receipts db"
  "states_of (put_credentials m db') = states_of db'"
  by (simp_all add: put_credentials_def)

lemma connector_writes_safe [simp]:
  "spine_safe (\<lambda>_. issue_write k row)" "spine_safe (\<lambda>_. consume_write k t)"
  "spine_safe (\<lambda>_ db. (Inr (), put_credentials (f db) db))"
  by (auto simp: spine_safe_def issue_write_def consume_write_def Let_def split: if_splits option.splits)

lemma map_of_filter_None: "map_of m k = None \<Longrightarrow> map_of (filter P m) k = None"
  by (induction m) (auto split: if_splits)

lemma register_evolves:
  assumes ok: "states_ok db"
    and m: "register_oauth_state sha render client connector state user_id issued ttl db = (r, db')"
  shows "states_evolve db db'"
proof (cases "\<exists>e. u64_checked_add issued ttl = Some e \<and> e > issued")
  case False
  then have "db' = db" using m by (auto simp: register_oauth_state_def split: option.splits if_splits)
  with ok show ?thesis by (simp add: states_evolve_refl)
next
  case True
  then obtain e where e: "u64_checked_add issued ttl = Some e" "e > issued" by blast
  let ?k = "(client, connector, sha state)"
  let ?row = "\<lparr>po_user_id = user_id, po_issued_at_ms = issued, po_expires_at_ms = e\<rparr>"
  obtain req where m': "mutate req (issue_write ?k ?row) db = (r, db')"
    and q: "mq_client_id req = client" "mq_idempotency_key req = issue_key connector (sha state)"
    using m e by (auto simp: register_oauth_state_def)
  have sp: "spine_ok (db_receipts db)" using ok by (simp add: states_ok_def)
  note s = mutate_spine [OF connector_writes_safe(1) sp m']
  show ?thesis
  proof (cases "\<exists>i n. r = Inr (MutationApplied i n)")
    case False
    then have "db_domain db' = db_domain db" using mutate_domain [OF m'] by blast
    then show ?thesis using s(1,2) by (intro states_evolve_keep [OF ok]) (auto simp: key_issued_def)
  next
    case True
    then obtain i n where r: "r = Inr (MutationApplied i n)" by blast
    obtain db1 where w: "issue_write ?k ?row db = (Inr (), db1)" "db_domain db' = db_domain db1"
      using mutate_domain [OF m'] r by blast
    have get: "hm_get (states_of db') k \<noteq> None \<Longrightarrow> k = ?k \<or> hm_get (states_of db) k \<noteq> None" for k
      using w map_of_filter_None [of "states_of db" k] by (auto simp: issue_write_def Let_def split: if_splits)
    have issued: "key_issued db' ?k" "\<not> key_issued db ?k" using s(3,4) [OF r] q by (simp_all add: key_issued_def)
    have up: "key_issued db k \<Longrightarrow> key_issued db' k" for k using s(2) by (simp add: key_issued_def)
    have "states_ok db'"
      using s(1) get issued(1) up ok unfolding states_ok_def by blast
    then show ?thesis using up get issued(2) unfolding states_evolve_def by blast
  qed
qed

lemma consume_evolves:
  assumes ok: "states_ok db"
    and m: "consume_oauth_state sha client connector state attempt now_ms db = (r, db')"
  shows "states_evolve db db'"
proof (cases "hm_get (states_of db) (client, connector, sha state)")
  case None
  then show ?thesis using m states_evolve_refl [OF ok] by (simp add: consume_oauth_state_def)
next
  case (Some p)
  then obtain req r' where "mutate req (consume_write (client, connector, sha state) (po_issued_at_ms p)) db = (r', db')"
    using m by (auto simp: consume_oauth_state_def Let_def split: prod.splits sum.splits if_splits)
  then show ?thesis
    by (rule mutate_states_keep [OF ok connector_writes_safe(2)])
       (auto simp: consume_write_def Some split: if_splits)
qed

text \<open>A state that was accepted is gone, and its issue stays on record.\<close>

lemma consume_accepts:
  assumes ok: "states_ok db"
    and m: "consume_oauth_state sha client connector state attempt now_ms db = (Inr (Some user), db')"
    and fresh: "\<not> applied_key_taken db client
        (''oauth_state_consume:'' @ oauth_entity_id connector (sha state) @ '':'' @ attempt)"
  shows "key_issued db' (client, connector, sha state)" "hm_get (states_of db') (client, connector, sha state) = None"
    "\<exists>p. hm_get (states_of db) (client, connector, sha state) = Some p \<and> po_user_id p = user \<and> now_ms < po_expires_at_ms p"
    "credentials_of db' = credentials_of db"
proof -
  let ?k = "(client, connector, sha state)"
  obtain p where p: "hm_get (states_of db) ?k = Some p" "po_user_id p = user" "now_ms < po_expires_at_ms p"
    using m by (auto simp: consume_oauth_state_def Let_def not_le split: option.splits prod.splits sum.splits if_splits)
  then obtain req o' where q: "mutate req (consume_write ?k (po_issued_at_ms p)) db = (Inr o', db')"
    "mq_client_id req = client" "mq_expected_revision req = None"
    "mq_idempotency_key req = ''oauth_state_consume:'' @ oauth_entity_id connector (sha state) @ '':'' @ attempt"
    using m by (auto simp: consume_oauth_state_def Let_def split: prod.splits sum.splits if_splits)
  have sp: "spine_ok (db_receipts db)" using ok by (simp add: states_ok_def)
  have "\<exists>i n. o' = MutationApplied i n"
  proof (cases rule: mutate_cases [OF connector_writes_safe(2) sp, of req ?k "po_issued_at_ms p"])
    case (1 i revision)
    then have "applied_key_taken db client (mq_idempotency_key req)"
      using q(2) find_applied_None [of db "mq_client_id req" "mq_idempotency_key req"] by auto
    with fresh q(4) show ?thesis by simp
  qed (use q in \<open>auto simp: mutate_def conflicting_def\<close>)
  then obtain db1 where w: "consume_write ?k (po_issued_at_ms p) db = (Inr (), db1)" "db_domain db' = db_domain db1"
    using mutate_domain [OF q(1)] by blast
  show "hm_get (states_of db') ?k = None" "credentials_of db' = credentials_of db"
    using w p(1) by (auto simp: consume_write_def split: if_splits)
  have "key_issued db ?k" using ok p(1) by (auto simp: states_ok_def)
  then show "key_issued db' ?k" using consume_evolves [OF ok m] by (simp add: states_evolve_def)
  show "\<exists>p. hm_get (states_of db) ?k = Some p \<and> po_user_id p = user \<and> now_ms < po_expires_at_ms p"
    using p by blast
qed

section \<open>Histories\<close>

text \<open>
  Requests to the Google connector, the operations on pending states of any connector by themselves (the connect and
  callback routes of QuickBooks touch the states only through them), and whatever leaves the states alone.
\<close>

inductive connector_step ::
    "app_state \<times> 'x connector_tables_scheme db \<Rightarrow> app_state \<times> 'x connector_tables_scheme db \<Rightarrow> bool" where
  Connect: "connector_step w
     (snd (connect_route sha render encode env slice_enabled auth_ms hs header query_token csrf_state now_ms w))"
| Callback: "connector_step w
     (snd (callback_route sha render' env header exchange code state error attempt consume_ms now_ms w))"
| Disconnect: "connector_step w (snd (disconnect_route sha auth_ms hs now_ms w))"
| Register: "connector_step w
     (fst w, snd (register_oauth_state sha render (as_client_id (fst w)) connector state user_id issued ttl (snd w)))"
| Consume: "connector_step w
     (fst w, snd (consume_oauth_state sha (as_client_id (fst w)) connector state attempt now_ms (snd w)))"
| Other: "spine_step (snd w) db' \<Longrightarrow> states_of db' = states_of (snd w) \<Longrightarrow> as_client_id st' = as_client_id (fst w)
     \<Longrightarrow> connector_step w (st', db')"

definition connector_reachable :: "app_state \<times> 'x connector_tables_scheme db \<Rightarrow> bool" where
  "connector_reachable w \<longleftrightarrow> (\<exists>st d. ct_oauth_states d = [] \<and> connector_step\<^sup>*\<^sup>* (st, empty_db d) w)"

definition web_evolve :: "app_state \<times> 'x connector_tables_scheme db \<Rightarrow> app_state \<times> 'x connector_tables_scheme db \<Rightarrow> bool" where
  "web_evolve w w' \<longleftrightarrow> states_evolve (snd w) (snd w') \<and> as_client_id (fst w') = as_client_id (fst w)"

lemma gate_client:
  "authenticate_operator sha db now_ms hs st = (r, st') \<Longrightarrow> as_client_id st' = as_client_id st"
  "authenticate_operator_or_query_token sha db now_ms hs q st = (r', st') \<Longrightarrow> as_client_id st' = as_client_id st"
proof -
  show a: "as_client_id st' = as_client_id st" if "authenticate_operator sha db now_ms hs st = (r, st')" for st st' r
    using that resolve_keeps_config [of sha db now_ms hs st]
    by (auto simp: authenticate_operator_def op_bind_def split: prod.splits sum.splits)
  show "as_client_id st' = as_client_id st" if "authenticate_operator_or_query_token sha db now_ms hs q st = (r', st')"
    using that a by (auto simp: authenticate_operator_or_query_token_def split: option.splits if_splits prod.splits sum.splits)
qed

lemma credential_evolves:
  "states_ok db \<Longrightarrow> store_credential render client user service token scopes now_ms db = (r, db') \<Longrightarrow> states_evolve db db'"
  "states_ok db \<Longrightarrow> delete_credential client user service now_ms db = (r', db') \<Longrightarrow> states_evolve db db'"
  unfolding store_credential_def delete_credential_def
  by (erule mutate_states_keep, rule connector_writes_safe, assumption, auto)+

lemma connector_step_evolves:
  assumes "connector_step w w'" and ok: "states_ok (snd w)"
  shows "web_evolve w w'"
  using assms(1)
proof cases
  case (Connect sha render encode env slice_enabled auth_ms hs header query_token csrf_state now_ms)
  then show ?thesis using register_evolves [OF ok] states_evolve_refl [OF ok] gate_client
    by (auto simp: connect_route_def web_evolve_def connector_refused_def
        split: prod.splits sum.splits option.splits)
next
  case (Callback sha render' env header exchange code state error attempt consume_ms now_ms)
  show ?thesis
  proof (cases "error = None \<and> code \<noteq> None \<and> state \<noteq> None")
    case False
    then show ?thesis using Callback states_evolve_refl [OF ok]
      by (auto simp: callback_route_def web_evolve_def split: option.splits)
  next
    case True
    then obtain cd sd where cd: "code = Some cd" "state = Some sd" by blast
    obtain r db1 where c: "consume_oauth_state sha (as_client_id (fst w)) ''google'' sd attempt consume_ms (snd w) = (r, db1)"
      by fastforce
    note e1 = consume_evolves [OF ok c]
    have ok1: "states_ok db1" using e1 by (simp add: states_evolve_def)
    have "states_evolve db1 (snd w') \<and> fst w' = fst w"
      using True Callback states_evolve_refl [OF ok1] credential_evolves(1) [OF ok1]
      by (auto simp: callback_route_def cd c split: sum.splits option.splits prod.splits)
    then show ?thesis using states_evolve_trans [OF e1] by (auto simp: web_evolve_def)
  qed
next
  case (Disconnect sha auth_ms hs now_ms)
  then show ?thesis using credential_evolves(2) [OF ok] states_evolve_refl [OF ok] gate_client(1)
    by (auto simp: disconnect_route_def web_evolve_def split: prod.splits sum.splits)
next
  case (Register sha render connector state user_id issued ttl)
  then show ?thesis using register_evolves [OF ok prod.collapse [symmetric]] by (simp add: web_evolve_def)
next
  case (Consume sha connector state attempt now_ms)
  then show ?thesis using consume_evolves [OF ok prod.collapse [symmetric]] by (simp add: web_evolve_def)
next
  case (Other db' st')
  have sp: "spine_ok (db_receipts (snd w))" using ok by (simp add: states_ok_def)
  note s = spine_step_ok [OF Other(2) sp]
  have "key_issued (snd w) k \<Longrightarrow> key_issued db' k" for k
    using s unfolding key_issued_def key_taken_identities by (metis Un_iff set_append)
  then show ?thesis using Other s
    by (auto simp: web_evolve_def intro!: states_evolve_keep [OF ok])
qed

lemma connector_steps_evolve:
  "connector_step\<^sup>*\<^sup>* w w' \<Longrightarrow> states_ok (snd w) \<Longrightarrow> web_evolve w w'"
proof (induction rule: rtranclp_induct)
  case base
  then show ?case by (simp add: web_evolve_def states_evolve_refl)
next
  case (step y z)
  then have "web_evolve w y" "web_evolve y z"
    using connector_step_evolves [OF step(2)] by (auto simp: web_evolve_def states_evolve_def)
  then show ?case using states_evolve_trans by (auto simp: web_evolve_def)
qed

lemma connector_reachable_ok: "connector_reachable w \<Longrightarrow> states_ok (snd w)"
  unfolding connector_reachable_def
  using connector_steps_evolve by (fastforce simp: web_evolve_def states_evolve_def states_ok_def empty_db_def)

section \<open>Properties\<close>

lemma callback_connected:
  assumes "callback_route sha render env header exchange (Some code) (Some state) None attempt t1 t2 (st, db) = (ConnectedPage, w1)"
  obtains user db1 app grant out where
    "consume_oauth_state sha (as_client_id st) ''google'' state attempt t1 db = (Inr (Some user), db1)"
    "oauth_app_from_env env = Some app" "exchange app (redirect_uri_for_request env header) code = Some grant"
    "store_credential render (as_client_id st) user SERVICE_GMAIL (gr_refresh_token grant) (gr_scopes grant) t2 db1
       = (Inr out, snd w1)" "fst w1 = st"
  using assms by (auto simp: callback_route_def connector_refused_def split: prod.splits sum.splits option.splits)

text \<open>
  (C23) A consent state is accepted at most once, and only before it expires. When a callback of the consent flow has
  connected an account (with a fresh attempt identifier), the state was pending and its expiry lay ahead; and whatever
  requests follow, of this connector or of QuickBooks, every later callback that presents the same state is refused with
  \<open>oauth_state_invalid\<close> and changes nothing: the state is deleted, and it cannot be issued again because its issue is on
  record.
\<close>

theorem oauth_state_single_use:
  assumes "connector_reachable (st, db)"
    and "callback_route sha render env header exchange (Some code) (Some state) None attempt t1 t2 (st, db) = (ConnectedPage, w1)"
    and "\<not> applied_key_taken db (as_client_id st)
        (''oauth_state_consume:'' @ oauth_entity_id ''google'' (sha state) @ '':'' @ attempt)"
    and "connector_step\<^sup>*\<^sup>* w1 w2"
  shows "(\<exists>p. hm_get (states_of db) (as_client_id st, ''google'', sha state) = Some p \<and> t1 < po_expires_at_ms p)
     \<and> callback_route sha render' env' header' exchange' (Some code') (Some state) None attempt' t3 t4 w2
         = (connector_refused 400 ''oauth_state_invalid'', w2)"
proof -
  have ok: "states_ok db" using connector_reachable_ok [OF assms(1)] by simp
  let ?k = "(as_client_id st, ''google'', sha state)"
  obtain user db1 app grant out where
    c: "consume_oauth_state sha (as_client_id st) ''google'' state attempt t1 db = (Inr (Some user), db1)"
    and "oauth_app_from_env env = Some app" "exchange app (redirect_uri_for_request env header) code = Some grant"
    and g: "store_credential render (as_client_id st) user SERVICE_GMAIL (gr_refresh_token grant) (gr_scopes grant) t2 db1
       = (Inr out, snd w1)" "fst w1 = st"
    by (rule callback_connected [OF assms(2)])
  note a = consume_accepts [OF ok c assms(3)]
  have ok1: "states_ok db1" using consume_evolves [OF ok c] by (simp add: states_evolve_def)
  note e = credential_evolves(1) [OF ok1 g(1)]
  then have ok': "states_ok (snd w1)" by (simp add: states_evolve_def)
  note e2 = connector_steps_evolve [OF assms(4) ok']
  have "hm_get (states_of (snd w2)) ?k = None" "as_client_id (fst w2) = as_client_id st"
    using a(1,2) e e2 g(2) unfolding web_evolve_def states_evolve_def by simp_all
  then have "callback_route sha render' env' header' exchange' (Some code') (Some state) None attempt' t3 t4 w2
      = (connector_refused 400 ''oauth_state_invalid'', w2)"
    by (cases w2) (simp add: callback_route_def consume_oauth_state_def)
  with a(3) show ?thesis by blast
qed

lemma consume_credentials:
  "consume_oauth_state sha client connector state attempt now_ms db = (r, db') \<Longrightarrow> credentials_of db' = credentials_of db"
  by (auto simp: consume_oauth_state_def consume_write_def Let_def
      split: option.splits prod.splits sum.splits if_splits dest!: mutate_domain)

lemma store_credential_refused:
  "store_credential render client user service token scopes now_ms db = (Inl e, db') \<Longrightarrow> credentials_of db' = credentials_of db"
  by (auto simp: store_credential_def dest!: mutate_domain)

lemma connect_key_fresh:
  assumes ok: "states_ok db" and m: "consume_oauth_state sha client connector state attempt now_ms db = (r, db')"
    and f: "\<not> applied_key_taken db client (''connect:'' @ x)"
  shows "\<not> applied_key_taken db' client (''connect:'' @ x)"
proof (cases "hm_get (states_of db) (client, connector, sha state)")
  case None
  then show ?thesis using m f by (simp add: consume_oauth_state_def)
next
  case (Some p)
  have sp: "spine_ok (db_receipts db)" using ok by (simp add: states_ok_def)
  obtain req r' tl where q: "mutate req (consume_write (client, connector, sha state) (po_issued_at_ms p)) db = (r', db')"
    "mq_idempotency_key req = ''oauth_state_'' @ tl"
    using m by (auto simp: consume_oauth_state_def Some Let_def split: prod.splits sum.splits if_splits)
  from mutate_spine(5) [OF connector_writes_safe(2) sp q(1)] f q(2) show ?thesis by fastforce
qed

text \<open>
  The credential belongs to the operator who asked for it. A callback connects an account exactly for a
  pending state that has not expired, issued for some operator; it stores the tokens Google granted as the
  credential of this operator and touches no other operator's credential; every other answer of the callback
  leaves the credentials as they were.
\<close>

theorem callback_binds_initiator:
  assumes "connector_reachable (st, db)"
    and "callback_route sha render env header exchange (Some code) (Some state) None attempt t1 t2 (st, db) = (ans, w1)"
    and "\<not> applied_key_taken db (as_client_id st)
        (''oauth_state_consume:'' @ oauth_entity_id ''google'' (sha state) @ '':'' @ attempt)"
    and "\<forall>user. \<not> applied_key_taken db (as_client_id st)
        (''connect:'' @ SERVICE_GMAIL @ '':'' @ user @ '':'' @ dec_string (unat t2))"
  shows "if ans = ConnectedPage
    then \<exists>p app grant. hm_get (states_of db) (as_client_id st, ''google'', sha state) = Some p \<and> t1 < po_expires_at_ms p
       \<and> oauth_app_from_env env = Some app \<and> exchange app (redirect_uri_for_request env header) code = Some grant
       \<and> get_credential (snd w1) (as_client_id st) (po_user_id p) SERVICE_GMAIL
           = Some \<lparr>cr_user_id = po_user_id p, cr_refresh_token = gr_refresh_token grant, cr_scopes = gr_scopes grant,
                   cr_connected_at_ms = t2\<rparr>
       \<and> (\<forall>k. k \<noteq> (as_client_id st, po_user_id p, SERVICE_GMAIL)
             \<longrightarrow> hm_get (credentials_of (snd w1)) k = hm_get (credentials_of db) k)
    else credentials_of (snd w1) = credentials_of db"
proof (cases "ans = ConnectedPage")
  case True
  have ok: "states_ok db" using connector_reachable_ok [OF assms(1)] by simp
  let ?c = "as_client_id st"
  obtain user db1 app grant out where
    c: "consume_oauth_state sha ?c ''google'' state attempt t1 db = (Inr (Some user), db1)"
    and x: "oauth_app_from_env env = Some app" "exchange app (redirect_uri_for_request env header) code = Some grant"
    and g: "store_credential render ?c user SERVICE_GMAIL (gr_refresh_token grant) (gr_scopes grant) t2 db1 = (Inr out, snd w1)"
    by (rule callback_connected [OF assms(2) [unfolded True]])
  note a = consume_accepts [OF ok c assms(3)]
  have "states_ok db1" using consume_evolves [OF ok c] by (simp add: states_evolve_def)
  then have sp: "spine_ok (db_receipts db1)" by (simp add: states_ok_def)
  let ?row = "\<lparr>gc_refresh_token = gr_refresh_token grant, gc_scopes = gr_scopes grant, gc_connected_at_ms = t2\<rparr>"
  have "credentials_of (snd w1) = hm_insert (?c, user, SERVICE_GMAIL) ?row (credentials_of db1)"
    using mutate_fresh [OF connector_writes_safe(3) sp _ _ refl, of "credential_request ?c user SERVICE_GMAIL ''connect''
        user Operator ''connect'' (Some (render user (gr_scopes grant))) t2"
        "\<lambda>db. hm_insert (?c, user, SERVICE_GMAIL) ?row (credentials_of db)"]
      g connect_key_fresh [OF ok c assms(4) [THEN spec, of user]]
    by (auto simp: store_credential_def credential_request_def)
  then show ?thesis using True x a(3,4) by (auto simp: get_credential_def credential_from_row_def)
next
  case False
  then show ?thesis using assms(2)
    by (auto simp: callback_route_def connector_refused_def dest!: consume_credentials store_credential_refused
        split: prod.splits sum.splits option.splits)
qed

section \<open>A concrete history\<close>

definition sample_google_env :: environment where
  "sample_google_env = [''BOS_GMAIL_OAUTH_CLIENT_ID'' \<mapsto> ''id'', ''BOS_GMAIL_OAUTH_CLIENT_SECRET'' \<mapsto> ''secret'']"

definition sample_connector_start :: "app_state \<times> connector_tables db" where
  "sample_connector_start = (sample_app, empty_db \<lparr>ot_jobs = [], at_users = [], at_api_tokens = [],
     at_google_credentials = [], at_qbo_credentials = [], st_overrides = [], ct_oauth_states = []\<rparr>)"

definition sample_consent :: "app_state \<times> connector_tables db" where
  "sample_consent = snd (connect_route (\<lambda>x. x) (\<lambda>_ _ _ _. []) (\<lambda>x. x) sample_google_env (\<lambda>_. True) 0
     sample_root_headers (\<lambda>_. None) None ''st_1'' 1000 sample_connector_start)"

abbreviation sample_callback ::
    "string \<Rightarrow> string \<Rightarrow> app_state \<times> connector_tables db \<Rightarrow> connector_response \<times> (app_state \<times> connector_tables db)" where
  "sample_callback attempt code \<equiv> callback_route (\<lambda>x. x) (\<lambda>_ _. []) sample_google_env (\<lambda>_. None)
     (\<lambda>_ _ _. Some \<lparr>gr_refresh_token = ''rt'', gr_scopes = []\<rparr>) (Some code) (Some ''st_1'') None attempt 2000 2001"

lemma sample_consent_reachable: "connector_reachable (fst sample_consent, snd sample_consent)"
  unfolding connector_reachable_def sample_consent_def sample_connector_start_def prod.collapse
  by (intro exI conjI) (rule connector_tables.select_convs, rule r_into_rtranclp, rule connector_step.Connect)

text \<open>One evaluation of the consent answers every question the examples below ask of it.\<close>

definition sample_consent_facts ::
    "app_state \<times> connector_tables db \<Rightarrow> connector_response \<times> bool \<times> bool \<times> string option \<times> string" where
  "sample_consent_facts s =
     (fst (sample_callback ''a'' ''code'' s),
      applied_key_taken (snd s) (as_client_id (fst s))
        (''oauth_state_consume:'' @ oauth_entity_id ''google'' ((\<lambda>x. x) ''st_1'') @ '':'' @ ''a''),
      list_all (\<lambda>r. take 8 (rx_idempotency_key r) \<noteq> ''connect:'') (db_receipts (snd s)),
      map_option po_user_id (hm_get (states_of (snd s)) (''acme'', ''google'', ''st_1'')),
      as_client_id (fst s))"

lemma sample_consent_evaluated:
  "sample_consent_facts sample_consent = (ConnectedPage, False, True, Some ''operator'', ''acme'')"
  by code_simp

lemmas sample_consent_facts = sample_consent_evaluated [unfolded sample_consent_facts_def prod.inject]

theorem oauth_state_single_use_witness:
  "fst (sample_callback ''b'' ''other'' (snd (sample_callback ''a'' ''code'' sample_consent)))
     = connector_refused 400 ''oauth_state_invalid''"
proof -
  have c: "fst (sample_callback ''a'' ''code'' sample_consent) = ConnectedPage"
    and k: "\<not> applied_key_taken (snd sample_consent) (as_client_id (fst sample_consent))
        (''oauth_state_consume:'' @ oauth_entity_id ''google'' ((\<lambda>x. x) ''st_1'') @ '':'' @ ''a'')"
    using sample_consent_facts by blast+
  have "sample_callback ''a'' ''code'' (fst sample_consent, snd sample_consent)
      = (ConnectedPage, snd (sample_callback ''a'' ''code'' sample_consent))"
    using c by (metis prod.collapse)
  from oauth_state_single_use [OF sample_consent_reachable this k rtranclp.rtrancl_refl] show ?thesis by simp
qed

theorem callback_binds_initiator_witness:
  "\<exists>cred. get_credential (snd (snd (sample_callback ''a'' ''code'' sample_consent))) ''acme'' ''operator'' SERVICE_GMAIL
     = Some cred \<and> cr_refresh_token cred = ''rt''"
proof -
  have c: "fst (sample_callback ''a'' ''code'' sample_consent) = ConnectedPage"
    and k: "\<not> applied_key_taken (snd sample_consent) (as_client_id (fst sample_consent))
        (''oauth_state_consume:'' @ oauth_entity_id ''google'' ((\<lambda>x. x) ''st_1'') @ '':'' @ ''a'')"
    and r: "list_all (\<lambda>r. take 8 (rx_idempotency_key r) \<noteq> ''connect:'') (db_receipts (snd sample_consent))"
    and u: "map_option po_user_id (hm_get (states_of (snd sample_consent)) (''acme'', ''google'', ''st_1'')) = Some ''operator''"
    and a: "as_client_id (fst sample_consent) = ''acme''"
    using sample_consent_facts by blast+
  have f: "\<forall>user. \<not> applied_key_taken (snd sample_consent) (as_client_id (fst sample_consent))
        (''connect:'' @ SERVICE_GMAIL @ '':'' @ user @ '':'' @ dec_string (unat (2001 :: u64)))"
    using r by (auto simp: applied_key_taken_def list_all_iff)
  have "sample_callback ''a'' ''code'' (fst sample_consent, snd sample_consent)
      = (ConnectedPage, snd (sample_callback ''a'' ''code'' sample_consent))"
    using c by (metis prod.collapse)
  from callback_binds_initiator [OF sample_consent_reachable this k f] u a show ?thesis by auto
qed

end
