(* ===== verification/Draft_Store.thy ===== *)
theory Draft_Store
  imports Connector_Properties
begin

text \<open>
  \<open>slices/draft_store.rs\<close> and \<open>slices/mutation_context.rs\<close>: what the draft slices share. A draft is staged by the
  produce pipeline, edited and then approved or rejected by an operator; approval flips the status and enqueues
  the provider write in one mutation. The columns every draft table has are an extensible record, the slices
  add theirs. \<open>DraftTableSpec\<close> names a table and two SQL statements: here the access functions of the
  table and the row updates the statements perform. A statement that is executed with the wrong number of
  parameters is refused by the database driver. Reading SQL columns is total (I/O failures are not modelled).
\<close>

section \<open>Rows, tables and contexts\<close>

record draft_row =
  dr_item_id :: string
  dr_source_kind :: string
  dr_source_ref :: string
  dr_source_user_id :: "string option"
  dr_status :: string
  dr_outbox_job_id :: "string option"
  dr_created_at_ms :: u64
  dr_updated_at_ms :: u64

type_synonym draft_key = "string \<times> string"

datatype 'r approve_sql =
  WithJob "string \<Rightarrow> u64 \<Rightarrow> 'r \<Rightarrow> 'r"
| WithoutJob "u64 \<Rightarrow> 'r \<Rightarrow> 'r"

record ('d, 'r) draft_table_spec =
  ts_table :: "'d \<Rightarrow> (draft_key, 'r) hash_map"
  ts_store :: "(draft_key, 'r) hash_map \<Rightarrow> 'd \<Rightarrow> 'd"
  ts_entity_kind :: string
  ts_not_found_code :: string
  ts_not_staged_code :: string
  ts_approve_sql :: "'r approve_sql"
  ts_reject_sql :: "u64 \<Rightarrow> 'r \<Rightarrow> 'r"

record mutation_context =
  mc_client_id :: string
  mc_actor_id :: string
  mc_expected_revision :: "u64 option"
  mc_idempotency_key :: string
  mc_now_ms :: u64

record scoped_mutation_context =
  sm_client_id :: string
  sm_actor_id :: string
  sm_scope :: operator_scope
  sm_expected_revision :: "u64 option"
  sm_idempotency_key :: string
  sm_now_ms :: u64

record draft_mutation_context =
  dm_client_id :: string
  dm_actor_id :: string
  dm_scope :: "operator_scope option"
  dm_expected_revision :: "u64 option"
  dm_idempotency_key :: string
  dm_now_ms :: u64

definition from_mutation_context :: "mutation_context \<Rightarrow> draft_mutation_context" where
  "from_mutation_context ctx =
     \<lparr>dm_client_id = mc_client_id ctx, dm_actor_id = mc_actor_id ctx, dm_scope = None,
      dm_expected_revision = mc_expected_revision ctx, dm_idempotency_key = mc_idempotency_key ctx,
      dm_now_ms = mc_now_ms ctx\<rparr>"

definition from_scoped_context :: "scoped_mutation_context \<Rightarrow> draft_mutation_context" where
  "from_scoped_context ctx =
     \<lparr>dm_client_id = sm_client_id ctx, dm_actor_id = sm_actor_id ctx, dm_scope = Some (sm_scope ctx),
      dm_expected_revision = sm_expected_revision ctx, dm_idempotency_key = sm_idempotency_key ctx,
      dm_now_ms = sm_now_ms ctx\<rparr>"

abbreviation rows_of :: "('d, 'r) draft_table_spec \<Rightarrow> 'd db \<Rightarrow> (draft_key, 'r) hash_map" where
  "rows_of spec db \<equiv> ts_table spec (db_domain db)"

definition put_rows :: "('d, 'r) draft_table_spec \<Rightarrow> (draft_key, 'r) hash_map \<Rightarrow> 'd db \<Rightarrow> 'd db" where
  "put_rows spec rows db = db\<lparr>db_domain := ts_store spec rows (db_domain db)\<rparr>"

text \<open>\<open>UPDATE ... WHERE client_id = ?1 AND draft_id = ?2\<close>: no row, no change.\<close>

definition update_draft_row :: "('d, 'r) draft_table_spec \<Rightarrow> draft_key \<Rightarrow> ('r \<Rightarrow> 'r) \<Rightarrow> 'd db \<Rightarrow> 'd db" where
  "update_draft_row spec k f db =
     (case hm_get (rows_of spec db) k of
        None \<Rightarrow> db
      | Some r \<Rightarrow> put_rows spec (hm_insert k (f r) (rows_of spec db)) db)"

section \<open>Reading drafts\<close>

text \<open>
  The trait \<open>DraftStore\<close>: \<open>st_map_row\<close> builds the answer from a row and its revision, \<open>st_attach\<close> adds what other
  tables hold.
\<close>

record ('d, 'r, 'w) draft_store =
  st_table :: "'d \<Rightarrow> (draft_key, 'r) hash_map"
  st_entity_kind :: string
  st_not_found :: string
  st_map_row :: "draft_key \<Rightarrow> 'r \<Rightarrow> u64 \<Rightarrow> 'w"
  st_attach :: "'d db \<Rightarrow> string \<Rightarrow> 'w \<Rightarrow> 'w"
  st_source_user_id :: "'w \<Rightarrow> string option"

definition row_revision :: "'d db \<Rightarrow> string \<Rightarrow> draft_key \<Rightarrow> u64" where
  "row_revision db entity_kind k =
     (case read_revision db (fst k, entity_kind, snd k) of None \<Rightarrow> 0 | Some revision \<Rightarrow> revision)"

definition mapped_row :: "('d, 'r, 'w) draft_store \<Rightarrow> 'd db \<Rightarrow> draft_key \<times> 'r \<Rightarrow> 'w" where
  "mapped_row S db e = st_map_row S (fst e) (snd e) (row_revision db (st_entity_kind S) (fst e))"

definition newest_drafts :: "(draft_key \<times> 'z draft_row_scheme) list \<Rightarrow> (draft_key \<times> 'z draft_row_scheme) list" where
  "newest_drafts es = rev (sort_key (\<lambda>(k, r). (sint (dr_created_at_ms r), snd k)) es)"

definition active_draft_for_item ::
    "('d, 'z draft_row_scheme, 'w) draft_store \<Rightarrow> 'd db \<Rightarrow> string \<Rightarrow> string \<Rightarrow> 'w option" where
  "active_draft_for_item S db client item_id =
     map_option (\<lambda>e. st_attach S db client (mapped_row S db e))
       (first_of (newest_drafts
         (filter (\<lambda>(k, r). fst k = client \<and> dr_item_id r = item_id \<and> dr_status r \<noteq> ''rejected'')
           (st_table S (db_domain db)))))"

definition get_draft_unscoped ::
    "('d, 'r, 'w) draft_store \<Rightarrow> 'd db \<Rightarrow> string \<Rightarrow> string \<Rightarrow> 'w option" where
  "get_draft_unscoped S db client draft_id =
     map_option (\<lambda>r. st_attach S db client (mapped_row S db ((client, draft_id), r)))
       (hm_get (st_table S (db_domain db)) (client, draft_id))"

definition get_draft_scoped ::
    "('d, 'r, 'w) draft_store \<Rightarrow> 'd db \<Rightarrow> string \<Rightarrow> string \<Rightarrow> operator_scope \<Rightarrow> 'w option" where
  "get_draft_scoped S db client draft_id scope =
     (case map_option (\<lambda>r. mapped_row S db ((client, draft_id), r))
             (hm_get (st_table S (db_domain db)) (client, draft_id)) of
        None \<Rightarrow> None
      | Some entry \<Rightarrow>
          if matches_source_user scope (st_source_user_id S entry) then Some (st_attach S db client entry) else None)"

definition list_drafts_where ::
    "('d, 'z draft_row_scheme, 'w) draft_store \<Rightarrow> 'd db \<Rightarrow> string \<Rightarrow> string option \<Rightarrow> usize
       \<Rightarrow> ('z draft_row_scheme \<Rightarrow> bool) \<Rightarrow> 'w list" where
  "list_drafts_where S db client item_id limit P =
     map (\<lambda>e. st_attach S db client (mapped_row S db e))
       (take limit (newest_drafts
         (filter (\<lambda>(k, r). fst k = client \<and> (case item_id of None \<Rightarrow> True | Some i \<Rightarrow> dr_item_id r = i) \<and> P r)
           (st_table S (db_domain db)))))"

definition list_drafts_scoped ::
    "('d, 'z draft_row_scheme, 'w) draft_store \<Rightarrow> 'd db \<Rightarrow> string \<Rightarrow> string option \<Rightarrow> usize \<Rightarrow> operator_scope
       \<Rightarrow> 'w list" where
  "list_drafts_scoped S db client item_id limit scope =
     list_drafts_where S db client item_id limit (\<lambda>r. scope_sql_filter scope (dr_source_user_id r))"

definition list_drafts_unscoped ::
    "('d, 'z draft_row_scheme, 'w) draft_store \<Rightarrow> 'd db \<Rightarrow> string \<Rightarrow> string option \<Rightarrow> usize \<Rightarrow> 'w list" where
  "list_drafts_unscoped S db client item_id limit = list_drafts_where S db client item_id limit (\<lambda>_. True)"

definition count_drafts_for_item ::
    "('d, 'z draft_row_scheme, 'w) draft_store \<Rightarrow> 'd db \<Rightarrow> string \<Rightarrow> string \<Rightarrow> u64" where
  "count_drafts_for_item S db client item_id =
     of_nat (length (filter (\<lambda>(k, r). fst k = client \<and> dr_item_id r = item_id) (st_table S (db_domain db))))"

definition staged_item_ids :: "('d, 'z draft_row_scheme, 'w) draft_store \<Rightarrow> 'd db \<Rightarrow> string \<Rightarrow> string list" where
  "staged_item_ids S db client =
     remdups (map (\<lambda>(k, r). dr_item_id r)
       (filter (\<lambda>(k, r). fst k = client \<and> dr_status r = ''staged'') (st_table S (db_domain db))))"

definition require_status_scoped ::
    "('d, 'z draft_row_scheme, 'w) draft_store \<Rightarrow> 'd db \<Rightarrow> string \<Rightarrow> string \<Rightarrow> store_error + string \<times> string option" where
  "require_status_scoped S db client draft_id =
     ok_or (Domain (st_not_found S))
       (map_option (\<lambda>r. (dr_status r, dr_source_user_id r)) (hm_get (st_table S (db_domain db)) (client, draft_id)))"

section \<open>Deciding drafts\<close>

definition require_staged ::
    "'d db \<Rightarrow> draft_mutation_context \<Rightarrow> ('d, 'z draft_row_scheme) draft_table_spec \<Rightarrow> string \<Rightarrow> store_error + unit" where
  "require_staged db ctx spec draft_id =
     res_bind
       (case dm_scope ctx of
          Some scope \<Rightarrow>
            res_bind (ok_or (Domain (ts_not_found_code spec)) (hm_get (rows_of spec db) (dm_client_id ctx, draft_id))) (\<lambda>r.
            res_bind (require_source_user scope (dr_source_user_id r)) (\<lambda>_. Inr (dr_status r)))
        | None \<Rightarrow>
            res_bind (ok_or (Domain (ts_not_found_code spec)) (hm_get (rows_of spec db) (dm_client_id ctx, draft_id))) (\<lambda>r.
            Inr (dr_status r)))
       (\<lambda>current. if current \<noteq> ''staged'' then Inl (Domain (ts_not_staged_code spec @ '':'' @ current)) else Inr ())"

definition decide_request ::
    "draft_mutation_context \<Rightarrow> string \<Rightarrow> string \<Rightarrow> string \<Rightarrow> string option \<Rightarrow> string \<Rightarrow> mutation_request" where
  "decide_request ctx entity_kind draft_id change correlation after =
     \<lparr>mq_client_id = dm_client_id ctx, mq_entity_kind = entity_kind, mq_entity_id = draft_id,
      mq_change_kind = change, mq_actor_id = dm_actor_id ctx, mq_actor_kind = Operator,
      mq_expected_revision = dm_expected_revision ctx, mq_idempotency_key = dm_idempotency_key ctx,
      mq_correlation_id = correlation, mq_causation_id = None,
      mq_before_json = Some ''{\"status\":\"staged\"}'', mq_after_json = Some after, mq_now_ms = dm_now_ms ctx\<rparr>"

definition approve_write ::
    "('x outbox_tables_scheme, 'r) draft_table_spec \<Rightarrow> string \<Rightarrow> string \<Rightarrow> new_outbox_job option \<Rightarrow> u64
       \<Rightarrow> ('x outbox_tables_scheme, unit) db_op" where
  "approve_write spec client draft_id job now_ms db =
     (case (job, ts_approve_sql spec) of
        (Some job, WithJob f) \<Rightarrow>
          enqueue_within client job now_ms (update_draft_row spec (client, draft_id) (f (nj_job_id job) now_ms) db)
      | (None, WithoutJob f) \<Rightarrow> (Inr (), update_draft_row spec (client, draft_id) (f now_ms) db)
      | _ \<Rightarrow> (Inl (Sqlite ''Wrong number of parameters passed to query''), db))"

definition approved_json :: "new_outbox_job option \<Rightarrow> string" where
  "approved_json job =
     (case job of
        None \<Rightarrow> ''{\"status\":\"approved\"}''
      | Some job \<Rightarrow> ''{\"status\":\"approved\",\"outbox_job_id\":\"'' @ nj_job_id job @ ''\"}'')"

definition approve ::
    "draft_mutation_context \<Rightarrow> ('x outbox_tables_scheme, 'z draft_row_scheme) draft_table_spec \<Rightarrow> string
       \<Rightarrow> new_outbox_job option \<Rightarrow> ('x outbox_tables_scheme, mutation_outcome) db_op" where
  "approve ctx spec draft_id job db =
     (case require_staged db ctx spec draft_id of
        Inl e \<Rightarrow> (Inl e, db)
      | Inr _ \<Rightarrow>
          mutate (decide_request ctx (ts_entity_kind spec) draft_id ''approve'' (map_option nj_job_id job) (approved_json job))
            (approve_write spec (dm_client_id ctx) draft_id job (dm_now_ms ctx)) db)"

definition reject_write ::
    "('d, 'r) draft_table_spec \<Rightarrow> string \<Rightarrow> string \<Rightarrow> u64 \<Rightarrow> ('d, unit) db_op" where
  "reject_write spec client draft_id now_ms db =
     (Inr (), update_draft_row spec (client, draft_id) (ts_reject_sql spec now_ms) db)"

definition reject ::
    "draft_mutation_context \<Rightarrow> ('d, 'z draft_row_scheme) draft_table_spec \<Rightarrow> string \<Rightarrow> ('d, mutation_outcome) db_op" where
  "reject ctx spec draft_id db =
     (case require_staged db ctx spec draft_id of
        Inl e \<Rightarrow> (Inl e, db)
      | Inr _ \<Rightarrow>
          mutate (decide_request ctx (ts_entity_kind spec) draft_id ''reject'' None ''{\"status\":\"rejected\"}'')
            (reject_write spec (dm_client_id ctx) draft_id (dm_now_ms ctx)) db)"

section \<open>What the slices write\<close>

text \<open>
  \<open>INSERT\<close> of a staged draft: the primary key and the unique index on the items with a draft that is not
  rejected; the slices report a violation with a code of their own.
\<close>

definition active_item_taken :: "(draft_key, 'z draft_row_scheme) hash_map \<Rightarrow> string \<Rightarrow> string \<Rightarrow> bool" where
  "active_item_taken rows client item_id \<longleftrightarrow>
     list_ex (\<lambda>(k, r). fst k = client \<and> dr_item_id r = item_id \<and> dr_status r \<noteq> ''rejected'') rows"

definition stage_write ::
    "('d, 'z draft_row_scheme) draft_table_spec \<Rightarrow> string \<Rightarrow> draft_key \<Rightarrow> 'z draft_row_scheme \<Rightarrow> ('d, unit) db_op" where
  "stage_write spec already_active_code k row db =
     (if hm_get (rows_of spec db) k \<noteq> None \<or> active_item_taken (rows_of spec db) (fst k) (dr_item_id row)
      then (Inl (Domain already_active_code), db)
      else (Inr (), put_rows spec (hm_insert k row (rows_of spec db)) db))"

definition stage_request ::
    "string \<Rightarrow> string \<Rightarrow> string \<Rightarrow> string \<Rightarrow> string \<Rightarrow> string \<Rightarrow> string \<Rightarrow> u64 \<Rightarrow> mutation_request" where
  "stage_request client entity_kind draft_id actor key item_id after now_ms =
     \<lparr>mq_client_id = client, mq_entity_kind = entity_kind, mq_entity_id = draft_id, mq_change_kind = ''stage'',
      mq_actor_id = actor, mq_actor_kind = Operator, mq_expected_revision = None, mq_idempotency_key = key,
      mq_correlation_id = Some item_id, mq_causation_id = None, mq_before_json = None,
      mq_after_json = Some after, mq_now_ms = now_ms\<rparr>"

definition edit_request ::
    "scoped_mutation_context \<Rightarrow> string \<Rightarrow> string \<Rightarrow> string \<Rightarrow> string \<Rightarrow> mutation_request" where
  "edit_request ctx entity_kind draft_id before after =
     \<lparr>mq_client_id = sm_client_id ctx, mq_entity_kind = entity_kind, mq_entity_id = draft_id,
      mq_change_kind = ''edit'', mq_actor_id = sm_actor_id ctx, mq_actor_kind = Operator,
      mq_expected_revision = sm_expected_revision ctx, mq_idempotency_key = sm_idempotency_key ctx,
      mq_correlation_id = None, mq_causation_id = None, mq_before_json = Some before,
      mq_after_json = Some after, mq_now_ms = sm_now_ms ctx\<rparr>"

text \<open>The check at the start of an edit: the draft exists, is in the scope of the operator and is staged.\<close>

definition require_editable ::
    "('d, 'z draft_row_scheme, 'w) draft_store \<Rightarrow> 'd db \<Rightarrow> scoped_mutation_context \<Rightarrow> string \<Rightarrow> string \<Rightarrow> store_error + unit" where
  "require_editable S db ctx not_staged_code draft_id =
     res_bind (require_status_scoped S db (sm_client_id ctx) draft_id) (\<lambda>(current, source_user_id).
     res_bind (require_source_user (sm_scope ctx) source_user_id) (\<lambda>_.
       if current \<noteq> ''staged'' then Inl (Domain (not_staged_code @ '':'' @ current)) else Inr ()))"

definition edit_write :: "('d, 'r) draft_table_spec \<Rightarrow> draft_key \<Rightarrow> ('r \<Rightarrow> 'r) \<Rightarrow> ('d, unit) db_op" where
  "edit_write spec k f db = (Inr (), update_draft_row spec k f db)"

end
