(* ===== verification/Draft_Contract.thy ===== *)
theory Draft_Contract
  imports Draft_Store
begin

text \<open>
  The contract of the draft store with the slices that use it, proved once: drafts and provider writes correspond
  one to one. A slice provides its table, the two status updates and the job an approval enqueues
  (\<open>provider_drafts\<close>); it obtains that in every history exactly the approved drafts have a job in the
  outbox, built from the draft as it was approved, and that decisions are final.
\<close>

section \<open>The delivery side of the outbox\<close>

text \<open>Claims, recorded attempts and operator retries change rows of the job table, and nothing else.\<close>

inductive delivery_step :: "'x outbox_tables_scheme db \<Rightarrow> 'x outbox_tables_scheme db \<Rightarrow> bool" where
  Claim: "delivery_step db (snd (claim_due_jobs client provider lease_ms limit now_ms db))"
| ClaimById: "delivery_step db (snd (claim_due_job_by_id client job_id lease_ms now_ms db))"
| Attempt: "delivery_step db (snd (record_attempt render client job outcome now_ms db))"
| RetryJob: "delivery_step db (snd (retry_terminal_job render' client job_id actor key now_ms db))"

definition only_jobs :: "'x outbox_tables_scheme db \<Rightarrow> 'x outbox_tables_scheme db \<Rightarrow> bool" where
  "only_jobs db db' \<longleftrightarrow> (\<exists>js. db_domain db' = (db_domain db)\<lparr>ot_jobs := js\<rparr>)"

lemma only_jobs_refl: "db_domain db' = db_domain db \<Longrightarrow> only_jobs db db'"
  unfolding only_jobs_def by (intro exI [of _ "jobs_of db"]) simp

lemma only_jobs_put: "only_jobs db db1 \<Longrightarrow> only_jobs db (put_job k j db1)"
  by (auto simp: only_jobs_def put_job_def)

lemma only_jobs_update: "only_jobs db db1 \<Longrightarrow> only_jobs db (update_job k f db1)"
  by (simp add: update_job_def only_jobs_put split: option.split)

lemma only_jobs_updates: "only_jobs db db1 \<Longrightarrow> only_jobs db (update_jobs client f jobs db1)"
  unfolding update_jobs_def by (induction jobs arbitrary: db1) (simp_all add: only_jobs_update)

lemma only_jobs_mutate:
  assumes "\<And>db1. dw db = (Inr (), db1) \<Longrightarrow> only_jobs db db1"
  shows "only_jobs db (snd (mutate req dw db))"
  using mutate_domain [OF prod.collapse [symmetric], where req = req and dw = dw and db = db] assms only_jobs_refl
  unfolding only_jobs_def by metis

lemma delivery_only_jobs:
  assumes "delivery_step db db'"
  shows "only_jobs db db'"
  using assms
proof cases
  case (Claim client provider lease_ms limit now_ms)
  then show ?thesis
    by (simp add: claim_due_jobs_def transaction_def Let_def only_jobs_updates only_jobs_refl)
next
  case (ClaimById client job_id lease_ms now_ms)
  then show ?thesis
    by (simp add: claim_due_job_by_id_def transaction_def Let_def only_jobs_update only_jobs_refl split: option.split)
next
  case (Attempt render client job outcome now_ms)
  then show ?thesis
    by (auto simp: record_attempt_def attempt_write_def only_jobs_update only_jobs_refl intro!: only_jobs_mutate)
next
  case (RetryJob render' client job_id actor key now_ms)
  then show ?thesis
    by (auto simp: retry_terminal_job_def retry_write_def only_jobs_put only_jobs_refl intro!: only_jobs_mutate
        split: option.splits if_splits)
qed

lemma delivery_outbox_step: "delivery_step db db' \<Longrightarrow> outbox_step db db'"
  by (cases rule: delivery_step.cases) (auto intro: outbox_step.intros)

lemma delivery_no_new:
  assumes "delivery_step db db'" and sp: "spine_ok (db_receipts db)" and wf: "hm_wf (jobs_of db)"
    and none: "hm_get (jobs_of db) k = None"
  shows "hm_get (jobs_of db') k = None"
  using assms(1)
proof cases
  case (Claim client provider lease_ms limit now_ms)
  then show ?thesis using claim_due_jobs_effect(5) [OF wf prod.collapse [symmetric]] none by simp
next
  case (ClaimById client job_id lease_ms now_ms)
  then show ?thesis using claim_by_id_effect(5) [OF prod.collapse [symmetric], of client job_id lease_ms now_ms db k] none
    by simp
next
  case (Attempt render client job outcome now_ms)
  then show ?thesis using attempt_jobs [OF sp, of render client job outcome now_ms] none by (auto split: if_splits)
next
  case (RetryJob render' client job_id actor key now_ms)
  then show ?thesis using retry_jobs [OF sp, of render' client job_id actor key now_ms] none by auto
qed

section \<open>Histories\<close>

text \<open>The columns an edit must not touch, and those a decision changes.\<close>

definition draft_base :: "'z draft_row_scheme \<Rightarrow> string \<times> string \<times> string \<times> string option \<times> string \<times> string option \<times> u64" where
  "draft_base r = (dr_item_id r, dr_source_kind r, dr_source_ref r, dr_source_user_id r, dr_status r,
     dr_outbox_job_id r, dr_created_at_ms r)"

definition undecided :: "'z draft_row_scheme \<Rightarrow> 'z draft_row_scheme" where
  "undecided r = r\<lparr>dr_status := [], dr_outbox_job_id := None, dr_updated_at_ms := 0\<rparr>"

text \<open>Jobs of this kind are neither added nor lost, and keep what they deliver.\<close>

definition jobs_kept :: "string \<Rightarrow> 'x outbox_tables_scheme db \<Rightarrow> 'x outbox_tables_scheme db \<Rightarrow> bool" where
  "jobs_kept kind db db' \<longleftrightarrow>
     (\<forall>k j. hm_get (jobs_of db) k = Some j \<longrightarrow> (\<exists>j'. hm_get (jobs_of db') k = Some j' \<and> job_core j' = job_core j))
   \<and> (\<forall>k j'. hm_get (jobs_of db') k = Some j' \<longrightarrow> oj_source_entity_kind j' = kind
        \<longrightarrow> (\<exists>j. hm_get (jobs_of db) k = Some j \<and> job_core j' = job_core j))"

lemma jobs_keptD:
  "jobs_kept kind db db' \<Longrightarrow> hm_get (jobs_of db) k = Some j \<Longrightarrow> \<exists>j'. hm_get (jobs_of db') k = Some j' \<and> job_core j' = job_core j"
  unfolding jobs_kept_def by blast

inductive draft_step ::
    "('x outbox_tables_scheme, 'z draft_row_scheme) draft_table_spec
       \<Rightarrow> (draft_key \<Rightarrow> 'z draft_row_scheme \<Rightarrow> 'e \<Rightarrow> new_outbox_job)
       \<Rightarrow> ('z draft_row_scheme \<Rightarrow> bool) \<Rightarrow> 'x outbox_tables_scheme db \<Rightarrow> 'x outbox_tables_scheme db \<Rightarrow> bool"
  for spec build valid where
  Stage: "dr_status row = ''staged'' \<Longrightarrow> dr_outbox_job_id row = None \<Longrightarrow> valid row
     \<Longrightarrow> draft_step spec build valid db (snd (mutate req (stage_write spec code k row) db))"
| Edit: "hm_get (rows_of spec db) k = Some r \<Longrightarrow> dr_status r = ''staged'' \<Longrightarrow> (\<And>r. draft_base (f r) = draft_base r \<and> valid (f r))
     \<Longrightarrow> draft_step spec build valid db (snd (mutate req (edit_write spec k f) db))"
| Approve: "hm_get (rows_of spec db) (dm_client_id ctx, draft_id) = Some r
     \<Longrightarrow> draft_step spec build valid db (snd (approve ctx spec draft_id (Some (build (dm_client_id ctx, draft_id) r e)) db))"
| Reject: "draft_step spec build valid db (snd (reject ctx spec draft_id db))"
| Deliver: "delivery_step db db' \<Longrightarrow> draft_step spec build valid db db'"
| Other: "spine_step db db' \<Longrightarrow> rows_of spec db' = rows_of spec db \<Longrightarrow> jobs_kept (ts_entity_kind spec) db db'
     \<Longrightarrow> jobs_evolve db db'
     \<Longrightarrow> draft_step spec build valid db db'"

definition draft_reachable where
  "draft_reachable spec build valid db \<longleftrightarrow>
     (\<exists>d. ts_table spec d = [] \<and> ot_jobs d = [] \<and> (draft_step spec build valid)\<^sup>*\<^sup>* (empty_db d) db)"

section \<open>The invariant\<close>

text \<open>What a row and the outbox owe each other.\<close>

definition row_ok :: "('x outbox_tables_scheme) db \<Rightarrow> string \<Rightarrow> draft_key \<Rightarrow> 'z draft_row_scheme \<Rightarrow> bool" where
  "row_ok db kind k r \<longleftrightarrow>
     dr_status r = ''staged'' \<and> dr_outbox_job_id r = None
   \<or> dr_status r = ''rejected'' \<and> dr_outbox_job_id r = None
   \<or> dr_status r = ''approved''
     \<and> (\<exists>i j. dr_outbox_job_id r = Some i \<and> hm_get (jobs_of db) (fst k, i) = Some j
          \<and> oj_source_entity_kind j = kind \<and> oj_source_entity_id j = snd k)"

definition job_authorised where
  "job_authorised spec build db k j \<longleftrightarrow>
     (\<exists>r e t. hm_get (rows_of spec db) (fst k, oj_source_entity_id j) = Some r \<and> dr_status r = ''approved''
        \<and> dr_outbox_job_id r = Some (snd k)
        \<and> job_core j = job_core (new_row (build (fst k, oj_source_entity_id j) (undecided r) e) t))"

definition drafts_ok where
  "drafts_ok spec build valid db \<longleftrightarrow> spine_ok (db_receipts db) \<and> jobs_ok db \<and> hm_wf (rows_of spec db)
     \<and> (\<forall>k r. hm_get (rows_of spec db) k = Some r \<longrightarrow> row_ok db (ts_entity_kind spec) k r)
     \<and> (\<forall>k j. hm_get (jobs_of db) k = Some j \<longrightarrow> oj_source_entity_kind j = ts_entity_kind spec
          \<longrightarrow> job_authorised spec build db k j)
     \<and> (\<forall>k k' r r'. hm_get (rows_of spec db) k = Some r \<longrightarrow> hm_get (rows_of spec db) k' = Some r' \<longrightarrow> fst k = fst k'
          \<longrightarrow> dr_item_id r = dr_item_id r' \<longrightarrow> dr_status r \<noteq> ''rejected'' \<longrightarrow> dr_status r' \<noteq> ''rejected'' \<longrightarrow> k = k')
     \<and> (\<forall>k r. hm_get (rows_of spec db) k = Some r \<longrightarrow> valid r)"

lemma drafts_okD:
  assumes "drafts_ok spec build valid db"
  shows "spine_ok (db_receipts db)" "jobs_ok db" "hm_wf (rows_of spec db)"
    and "\<And>k r. hm_get (rows_of spec db) k = Some r \<Longrightarrow> row_ok db (ts_entity_kind spec) k r"
    and "\<And>k j. hm_get (jobs_of db) k = Some j \<Longrightarrow> oj_source_entity_kind j = ts_entity_kind spec
          \<Longrightarrow> job_authorised spec build db k j"
    and "\<And>k k' r r'. hm_get (rows_of spec db) k = Some r \<Longrightarrow> hm_get (rows_of spec db) k' = Some r' \<Longrightarrow> fst k = fst k'
          \<Longrightarrow> dr_item_id r = dr_item_id r' \<Longrightarrow> dr_status r \<noteq> ''rejected'' \<Longrightarrow> dr_status r' \<noteq> ''rejected'' \<Longrightarrow> k = k'"
    and "\<And>k r. hm_get (rows_of spec db) k = Some r \<Longrightarrow> valid r"
  using assms unfolding drafts_ok_def by blast+

lemma drafts_okI:
  assumes "spine_ok (db_receipts db)" "jobs_ok db" "hm_wf (rows_of spec db)"
    and "\<And>k r. hm_get (rows_of spec db) k = Some r \<Longrightarrow> row_ok db (ts_entity_kind spec) k r"
    and "\<And>k j. hm_get (jobs_of db) k = Some j \<Longrightarrow> oj_source_entity_kind j = ts_entity_kind spec
          \<Longrightarrow> job_authorised spec build db k j"
    and "\<And>k k' r r'. hm_get (rows_of spec db) k = Some r \<Longrightarrow> hm_get (rows_of spec db) k' = Some r' \<Longrightarrow> fst k = fst k'
          \<Longrightarrow> dr_item_id r = dr_item_id r' \<Longrightarrow> dr_status r \<noteq> ''rejected'' \<Longrightarrow> dr_status r' \<noteq> ''rejected'' \<Longrightarrow> k = k'"
    and "\<And>k r. hm_get (rows_of spec db) k = Some r \<Longrightarrow> valid r"
  shows "drafts_ok spec build valid db"
  using assms unfolding drafts_ok_def by blast

lemma row_ok_evolve:
  assumes ok: "row_ok db kind k r"
    and "\<And>k j. hm_get (jobs_of db) k = Some j \<Longrightarrow> \<exists>j'. hm_get (jobs_of db') k = Some j' \<and> job_core j' = job_core j"
  shows "row_ok db' kind k r"
proof (cases "dr_status r = ''approved''")
  case True
  then obtain i j where ij: "dr_outbox_job_id r = Some i" "hm_get (jobs_of db) (fst k, i) = Some j"
    "oj_source_entity_kind j = kind" "oj_source_entity_id j = snd k"
    using ok unfolding row_ok_def by auto
  obtain j' where j': "hm_get (jobs_of db') (fst k, i) = Some j'" "job_core j' = job_core j" using assms(2) [OF ij(2)] by blast
  note f = job_core_fields(4,5) [OF j'(2)]
  show ?thesis unfolding row_ok_def using True ij j'(1) f by (intro disjI2 conjI exI [of _ i] exI [of _ j']) simp_all
next
  case False
  then show ?thesis using ok unfolding row_ok_def by blast
qed

lemma job_authorised_key:
  assumes "job_authorised spec build db k0 j" and "\<And>r. hm_get (rows_of spec db) k = Some r \<Longrightarrow> dr_status r = ''staged''"
  shows "(fst k0, oj_source_entity_id j) \<noteq> k"
  using assms unfolding job_authorised_def by force

text \<open>A decided draft stays as it is.\<close>

definition decided_kept where
  "decided_kept spec db db' \<longleftrightarrow>
     (\<forall>k r. hm_get (rows_of spec db) k = Some r \<longrightarrow> dr_status r \<noteq> ''staged'' \<longrightarrow> hm_get (rows_of spec db') k = Some r)"

text \<open>A write of one row: its item has no other active draft.\<close>

definition slot_free where
  "slot_free spec db k r' \<longleftrightarrow> (\<forall>k' r. hm_get (rows_of spec db) k' = Some r \<longrightarrow> fst k' = fst k \<longrightarrow> dr_item_id r = dr_item_id r'
     \<longrightarrow> dr_status r \<noteq> ''rejected'' \<longrightarrow> dr_status r' \<noteq> ''rejected'' \<longrightarrow> k' = k)"

definition row_written where
  "row_written spec valid k db db1 \<longleftrightarrow> (\<exists>r'. rows_of spec db1 = hm_insert k r' (rows_of spec db) \<and> jobs_of db1 = jobs_of db
     \<and> dr_status r' \<in> {''staged'', ''rejected''} \<and> dr_outbox_job_id r' = None \<and> slot_free spec db k r' \<and> valid r')"

locale provider_drafts =
  fixes spec :: "('x outbox_tables_scheme, 'z draft_row_scheme) draft_table_spec"
    and build :: "draft_key \<Rightarrow> 'z draft_row_scheme \<Rightarrow> 'e \<Rightarrow> new_outbox_job"
    and valid :: "'z draft_row_scheme \<Rightarrow> bool"
  assumes table_store: "ts_table spec (ts_store spec rows d) = rows"
    and store_jobs: "ot_jobs (ts_store spec rows d) = ot_jobs d"
    and table_jobs: "ts_table spec (d\<lparr>ot_jobs := js\<rparr>) = ts_table spec d"
    and approve_row: "\<exists>f. ts_approve_sql spec = WithJob f
       \<and> (\<forall>job t r. f job t r = r\<lparr>dr_status := ''approved'', dr_outbox_job_id := Some job, dr_updated_at_ms := t\<rparr>)"
    and reject_row: "ts_reject_sql spec t r = r\<lparr>dr_status := ''rejected'', dr_updated_at_ms := t\<rparr>"
    and build_source: "nj_source_entity_kind (build k r e) = ts_entity_kind spec" "nj_source_entity_id (build k r e) = snd k"
    and build_content: "build k (undecided r) e = build k r e"
    and valid_content: "valid (undecided r) = valid r"
begin

lemma put_rows_simps [simp]:
  "rows_of spec (put_rows spec rows db) = rows" "jobs_of (put_rows spec rows db) = jobs_of db"
  "db_receipts (put_rows spec rows db) = db_receipts db"
  by (simp_all add: put_rows_def table_store store_jobs)

lemma update_row_simps [simp]:
  "jobs_of (update_draft_row spec k f db) = jobs_of db"
  "db_receipts (update_draft_row spec k f db) = db_receipts db"
  by (simp_all add: update_draft_row_def split: option.split)

lemma put_job_rows [simp]: "rows_of spec (put_job k j db) = rows_of spec db"
  by (simp add: put_job_def table_jobs)

lemma undecided_r [simp]:
  "undecided (r\<lparr>dr_status := a, dr_outbox_job_id := b, dr_updated_at_ms := c\<rparr>) = undecided r"
  by (simp add: undecided_def)

lemma writes_safe:
  "spine_safe (\<lambda>_. stage_write spec code k row)" "spine_safe (\<lambda>_. edit_write spec k f)"
  "spine_safe (\<lambda>_. approve_write spec client draft_id job t)" "spine_safe (\<lambda>_. reject_write spec client draft_id t)"
  by (auto simp: spine_safe_def stage_write_def edit_write_def approve_write_def reject_write_def enqueue_within_def
      split: if_splits option.splits approve_sql.splits)

text \<open>Steps that leave the table alone.\<close>

lemma ok_when_kept:
  assumes ok: "drafts_ok spec build valid db" and sp: "spine_ok (db_receipts db')" "jobs_ok db'"
    and rows: "rows_of spec db' = rows_of spec db" and kept: "jobs_kept (ts_entity_kind spec) db db'"
  shows "drafts_ok spec build valid db' \<and> decided_kept spec db db'"
proof
  note okD = drafts_okD [OF ok]
  show "decided_kept spec db db'" by (simp add: decided_kept_def rows)
  show "drafts_ok spec build valid db'"
  proof (rule drafts_okI [OF sp])
    show "hm_wf (rows_of spec db')" using okD(3) rows by simp
    show "row_ok db' (ts_entity_kind spec) k r" if "hm_get (rows_of spec db') k = Some r" for k r
      by (rule row_ok_evolve [OF okD(4) [OF that [unfolded rows]]]) (rule jobs_keptD [OF kept])
    show "job_authorised spec build db' k j"
      if j: "hm_get (jobs_of db') k = Some j" "oj_source_entity_kind j = ts_entity_kind spec" for k j
    proof -
      obtain j0 where j0: "hm_get (jobs_of db) k = Some j0" "job_core j = job_core j0"
        using kept j unfolding jobs_kept_def by meson
      note f = job_core_fields(4,5) [OF j0(2)]
      have "job_authorised spec build db k j0" using okD(5) [OF j0(1)] j(2) f(1) by simp
      then show ?thesis unfolding job_authorised_def rows j0(2) f(2) .
    qed
    show "k = k'" if "hm_get (rows_of spec db') k = Some r" "hm_get (rows_of spec db') k' = Some r'" "fst k = fst k'"
      "dr_item_id r = dr_item_id r'" "dr_status r \<noteq> ''rejected''" "dr_status r' \<noteq> ''rejected''" for k k' r r'
      using okD(6) that unfolding rows by blast
    show "valid r" if "hm_get (rows_of spec db') k = Some r" for k r using okD(7) that rows by simp
  qed
qed

lemma jobs_kept_same: "jobs_of db' = jobs_of db \<Longrightarrow> jobs_kept kind db db'"
  by (auto simp: jobs_kept_def)

lemma jobs_ok_same: "jobs_of db' = jobs_of db \<Longrightarrow> jobs_ok db' = jobs_ok db"
  by (simp add: jobs_ok_def)

text \<open>Steps that write the row of a draft that is not decided yet.\<close>

lemma ok_when_row_changes:
  assumes ok: "drafts_ok spec build valid db" and sp: "spine_ok (db_receipts db')" and jobs: "jobs_of db' = jobs_of db"
    and rows: "rows_of spec db' = hm_insert k r' (rows_of spec db)"
    and undec: "\<And>r. hm_get (rows_of spec db) k = Some r \<Longrightarrow> dr_status r = ''staged''"
    and new: "dr_status r' \<in> {''staged'', ''rejected''}" "dr_outbox_job_id r' = None" and valid: "valid r'"
    and uniq: "\<And>k' r. hm_get (rows_of spec db) k' = Some r \<Longrightarrow> fst k' = fst k \<Longrightarrow> dr_item_id r = dr_item_id r'
        \<Longrightarrow> dr_status r \<noteq> ''rejected'' \<Longrightarrow> dr_status r' \<noteq> ''rejected'' \<Longrightarrow> k' = k"
  shows "drafts_ok spec build valid db' \<and> decided_kept spec db db'"
proof
  note okD = drafts_okD [OF ok]
  show "decided_kept spec db db'" using undec unfolding decided_kept_def rows by auto
  show "drafts_ok spec build valid db'"
  proof (rule drafts_okI [OF sp])
    show "jobs_ok db'" using okD(2) jobs_ok_same [OF jobs] by simp
    show "hm_wf (rows_of spec db')" using okD(3) rows by simp
    show "row_ok db' (ts_entity_kind spec) k0 r0" if "hm_get (rows_of spec db') k0 = Some r0" for k0 r0
    proof (cases "k0 = k")
      case True
      then show ?thesis using that new by (auto simp: rows row_ok_def)
    next
      case False
      then have "row_ok db (ts_entity_kind spec) k0 r0" using that okD(4) [of k0 r0] by (simp add: rows)
      then show ?thesis by (simp add: row_ok_def jobs)
    qed
    show "job_authorised spec build db' k0 j"
      if "hm_get (jobs_of db') k0 = Some j" "oj_source_entity_kind j = ts_entity_kind spec" for k0 j
    proof -
      have "job_authorised spec build db k0 j" using okD(5) that unfolding jobs by blast
      moreover from this have "(fst k0, oj_source_entity_id j) \<noteq> k" 
        using job_authorised_key [where k = k] undec by blast
      ultimately show ?thesis unfolding job_authorised_def rows by simp
    qed
    show "k1 = k2" if "hm_get (rows_of spec db') k1 = Some r1" "hm_get (rows_of spec db') k2 = Some r2"
      "fst k1 = fst k2" "dr_item_id r1 = dr_item_id r2" "dr_status r1 \<noteq> ''rejected''" "dr_status r2 \<noteq> ''rejected''" for k1 k2 r1 r2
      using that uniq [of k1 r1] uniq [of k2 r2] okD(6) [of k1 r1 k2 r2]
      by (auto simp: rows split: if_splits)
    show "valid r0" if "hm_get (rows_of spec db') k0 = Some r0" for k0 r0
      using that valid okD(7) [of k0 r0] by (auto simp: rows split: if_splits)
  qed
qed

lemma ok_when_approved:
  assumes ok: "drafts_ok spec build valid db" and sp: "spine_ok (db_receipts db')"
    and r: "hm_get (rows_of spec db) k = Some r" "dr_status r = ''staged''"
    and rows: "rows_of spec db' = hm_insert k (r\<lparr>dr_status := ''approved'', dr_outbox_job_id := Some i, dr_updated_at_ms := t\<rparr>)
        (rows_of spec db)"
    and jobs: "jobs_of db' = hm_insert (fst k, i) (new_row (build k r e) t) (jobs_of db)"
    and fresh: "hm_get (jobs_of db) (fst k, i) = None"
  shows "drafts_ok spec build valid db' \<and> decided_kept spec db db'"
proof
  let ?r = "r\<lparr>dr_status := ''approved'', dr_outbox_job_id := Some i, dr_updated_at_ms := t\<rparr>"
  note okD = drafts_okD [OF ok]
  show "decided_kept spec db db'" using r unfolding decided_kept_def rows by auto
  show "drafts_ok spec build valid db'"
  proof (rule drafts_okI [OF sp])
    have evolve: "jobs_evolve db db'"
      by (rule jobs_evolve_rows) (use fresh in \<open>auto simp: jobs\<close>)
    then show "jobs_ok db'" using okD(2) unfolding jobs_evolve_def by blast
    show "hm_wf (rows_of spec db')" using okD(3) rows by simp
    show "row_ok db' (ts_entity_kind spec) k0 r0" if "hm_get (rows_of spec db') k0 = Some r0" for k0 r0
    proof (cases "k0 = k")
      case True
      then show ?thesis using that by (auto simp: rows jobs row_ok_def new_row_def build_source)
    next
      case False
      then have "row_ok db (ts_entity_kind spec) k0 r0" using that okD(4) [of k0 r0] by (simp add: rows)
      then show ?thesis by (rule row_ok_evolve) (use evolve in \<open>auto simp: jobs_evolve_def\<close>)
    qed
    show "job_authorised spec build db' k0 j"
      if j: "hm_get (jobs_of db') k0 = Some j" "oj_source_entity_kind j = ts_entity_kind spec" for k0 j
    proof (cases "k0 = (fst k, i)")
      case True
      then have n: "j = new_row (build k r e) t" using j(1) by (simp add: jobs)
      then have "oj_source_entity_id j = snd k" by (simp add: new_row_def build_source)
      then show ?thesis unfolding job_authorised_def rows True
        by (intro exI [of _ ?r] exI [of _ e] exI [of _ t]) (simp add: n undecided_r build_content)
    next
      case False
      then have "job_authorised spec build db k0 j" using j okD(5) [of k0 j] by (simp add: jobs)
      moreover from this have "(fst k0, oj_source_entity_id j) \<noteq> k" 
        by (rule job_authorised_key) (use r in simp)
      ultimately show ?thesis unfolding job_authorised_def rows by simp
    qed
    have old: "\<exists>r0. hm_get (rows_of spec db) k1 = Some r0 \<and> dr_item_id r0 = dr_item_id r1 \<and> dr_status r0 \<noteq> ''rejected''"
      if "hm_get (rows_of spec db') k1 = Some r1" "dr_status r1 \<noteq> ''rejected''" for k1 r1
    proof (cases "k1 = k")
      case True
      then have "r1 = ?r" using that by (simp add: rows)
      then show ?thesis using True r by simp
    qed (use that in \<open>simp add: rows\<close>)
    show "k1 = k2" if "hm_get (rows_of spec db') k1 = Some r1" "hm_get (rows_of spec db') k2 = Some r2"
      "fst k1 = fst k2" "dr_item_id r1 = dr_item_id r2" "dr_status r1 \<noteq> ''rejected''" "dr_status r2 \<noteq> ''rejected''" for k1 k2 r1 r2
      using old [OF that(1,5)] old [OF that(2,6)] okD(6) [of k1 _ k2] that(3,4) by metis
    have "valid ?r" using okD(7) [OF r(1)] valid_content [of r] valid_content [of ?r] by simp
    then show "valid r0" if "hm_get (rows_of spec db') k0 = Some r0" for k0 r0
      using that okD(7) [of k0 r0] by (auto simp: rows split: if_splits)
  qed
qed

lemma delivery_ok:
  assumes ok: "drafts_ok spec build valid db" and d: "delivery_step db db'"
  shows "drafts_ok spec build valid db' \<and> decided_kept spec db db'"
proof -
  note okD = drafts_okD [OF ok]
  have wf: "hm_wf (jobs_of db)" using jobs_okD(1) okD(2) .
  note st = delivery_outbox_step [OF d]
  have ev: "jobs_evolve db db'" using outbox_step_ok [OF st okD(1,2)] .
  have sp: "spine_ok (db_receipts db')" using spine_step_ok [OF outbox_step_spine [OF st wf] okD(1)] by blast
  have rows: "rows_of spec db' = rows_of spec db"
    using delivery_only_jobs [OF d] table_jobs unfolding only_jobs_def by metis
  have "jobs_kept (ts_entity_kind spec) db db'"
    unfolding jobs_kept_def
  proof (intro conjI allI impI)
    show "\<exists>j'. hm_get (jobs_of db') k = Some j' \<and> job_core j' = job_core j" if "hm_get (jobs_of db) k = Some j" for k j
      using ev that unfolding jobs_evolve_def by blast
    show "\<exists>j. hm_get (jobs_of db) k = Some j \<and> job_core j' = job_core j" if "hm_get (jobs_of db') k = Some j'" for k j'
      using ev that delivery_no_new [OF d okD(1) wf, of k] unfolding jobs_evolve_def
      by (cases "hm_get (jobs_of db) k") (simp, metis option.inject)
  qed
  moreover have "jobs_ok db'" using ev okD(2) unfolding jobs_evolve_def by blast
  ultimately show ?thesis using ok_when_kept [OF ok sp _ rows] by blast
qed

lemma mutate_unchanged:
  assumes ok: "drafts_ok spec build valid db" and sp: "spine_ok (db_receipts db')" and d: "db_domain db' = db_domain db"
  shows "drafts_ok spec build valid db' \<and> decided_kept spec db db'"
  using ok_when_kept [OF ok sp] jobs_kept_same jobs_ok_same drafts_okD(2) [OF ok] d by metis

lemma row_write_ok:
  assumes ok: "drafts_ok spec build valid db" and safe: "spine_safe (\<lambda>_. dw)"
    and w: "\<And>db1. dw db = (Inr (), db1) \<Longrightarrow> db_domain db1 = db_domain db \<or> row_written spec valid k db db1"
    and undec: "\<And>r. hm_get (rows_of spec db) k = Some r \<Longrightarrow> dr_status r = ''staged''"
  shows "drafts_ok spec build valid (snd (mutate req dw db)) \<and> decided_kept spec db (snd (mutate req dw db))"
proof -
  let ?db' = "snd (mutate req dw db)"
  have sp: "spine_ok (db_receipts ?db')"
    using mutate_spine(1) [OF safe drafts_okD(1) [OF ok] prod.collapse [symmetric]] .
  from mutate_domain [OF prod.collapse [symmetric], where req = req and dw = dw and db = db] w
  consider "db_domain ?db' = db_domain db" | db1 where "row_written spec valid k db db1" "db_domain ?db' = db_domain db1" by metis
  then show ?thesis
  proof cases
    case 1
    then show ?thesis by (rule mutate_unchanged [OF ok sp])
  next
    case 2
    then obtain r' where r': "rows_of spec ?db' = hm_insert k r' (rows_of spec db)" "jobs_of ?db' = jobs_of db"
      "dr_status r' \<in> {''staged'', ''rejected''}" "dr_outbox_job_id r' = None" and u: "slot_free spec db k r'" "valid r'"
      unfolding row_written_def by metis
    show ?thesis
      by (rule ok_when_row_changes [OF ok sp r'(2,1) undec r'(3,4) u(2)]) (use u(1) in \<open>unfold slot_free_def, blast+\<close>)
  qed
qed

lemma stage_ok:
  assumes ok: "drafts_ok spec build valid db" and new: "dr_status row = ''staged''" "dr_outbox_job_id row = None" "valid row"
  shows "drafts_ok spec build valid (snd (mutate req (stage_write spec code k row) db))
       \<and> decided_kept spec db (snd (mutate req (stage_write spec code k row) db))"
proof (cases "hm_get (rows_of spec db) k = None \<and> \<not> active_item_taken (rows_of spec db) (fst k) (dr_item_id row)")
  case True
  have "slot_free spec db k row"
    unfolding slot_free_def using True by (auto simp: active_item_taken_def list_ex_iff dest!: map_of_SomeD)
  then have "row_written spec valid k db (put_rows spec (hm_insert k row (rows_of spec db)) db)"
    unfolding row_written_def using new by (intro exI [of _ row]) simp
  with True show ?thesis by (intro row_write_ok [OF ok writes_safe(1), where k = k]) (auto simp: stage_write_def)
next
  case False
  then have "stage_write spec code k row db = (Inl (Domain code), db)" by (auto simp: stage_write_def)
  then have "db_domain (snd (mutate req (stage_write spec code k row) db)) = db_domain db"
    using mutate_domain [OF prod.collapse [symmetric], where req = req and dw = "stage_write spec code k row" and db = db] by auto
  then show ?thesis
    by (rule mutate_unchanged [OF ok mutate_spine(1) [OF writes_safe(1) drafts_okD(1) [OF ok] prod.collapse [symmetric]]])
qed

lemma staged_row_free:
  assumes ok: "drafts_ok spec build valid db" and r: "hm_get (rows_of spec db) k = Some r" "dr_status r = ''staged''"
    and "dr_item_id r' = dr_item_id r"
  shows "slot_free spec db k r'" "dr_outbox_job_id r = None"
proof -
  show "slot_free spec db k r'" unfolding slot_free_def
    by (intro allI impI, rule drafts_okD(6) [OF ok _ r(1)]) (use r(2) assms(4) in simp_all)
  show "dr_outbox_job_id r = None" using drafts_okD(4) [OF ok r(1)] r(2) by (auto simp: row_ok_def)
qed

lemma edit_ok:
  assumes ok: "drafts_ok spec build valid db" and r: "hm_get (rows_of spec db) k = Some r" "dr_status r = ''staged''"
    and f: "\<And>r. draft_base (f r) = draft_base r \<and> valid (f r)"
  shows "drafts_ok spec build valid (snd (mutate req (edit_write spec k f) db))
       \<and> decided_kept spec db (snd (mutate req (edit_write spec k f) db))"
proof (rule row_write_ok [OF ok writes_safe(2)])
  show "dr_status r' = ''staged''" if "hm_get (rows_of spec db) k = Some r'" for r' using that r by simp
  have b: "dr_item_id (f r) = dr_item_id r" "dr_status (f r) = ''staged''" "dr_outbox_job_id (f r) = dr_outbox_job_id r"
    using f [of r] r by (simp_all add: draft_base_def)
  show "db_domain db1 = db_domain db \<or> row_written spec valid k db db1" if "edit_write spec k f db = (Inr (), db1)" for db1
    using that staged_row_free [OF ok r b(1)] b r(1) f [of r]
    by (intro disjI2, unfold row_written_def, intro exI [of _ "f r"]) (auto simp: edit_write_def update_draft_row_def)
qed

lemma require_staged_row:
  "require_staged db ctx spec draft_id = Inr u
     \<Longrightarrow> \<exists>r. hm_get (rows_of spec db) (dm_client_id ctx, draft_id) = Some r \<and> dr_status r = ''staged''"
  by (auto simp: require_staged_def ok_or_def res_bind_def split: option.splits sum.splits if_splits)

lemma reject_ok:
  assumes ok: "drafts_ok spec build valid db"
  shows "drafts_ok spec build valid (snd (reject ctx spec draft_id db)) \<and> decided_kept spec db (snd (reject ctx spec draft_id db))"
proof (cases "require_staged db ctx spec draft_id")
  case (Inl e)
  then show ?thesis using ok by (simp add: reject_def decided_kept_def)
next
  case (Inr u)
  then obtain r where r: "hm_get (rows_of spec db) (dm_client_id ctx, draft_id) = Some r" "dr_status r = ''staged''"
    using require_staged_row by blast
  have "drafts_ok spec build valid (snd (mutate req (reject_write spec (dm_client_id ctx) draft_id t) db))
      \<and> decided_kept spec db (snd (mutate req (reject_write spec (dm_client_id ctx) draft_id t) db))" for req t
  proof (rule row_write_ok [OF ok writes_safe(4)])
    show "dr_status r' = ''staged''" if "hm_get (rows_of spec db) (dm_client_id ctx, draft_id) = Some r'" for r'
      using that r by simp
    show "db_domain db1 = db_domain db \<or> row_written spec valid (dm_client_id ctx, draft_id) db db1"
      if "reject_write spec (dm_client_id ctx) draft_id t db = (Inr (), db1)" for db1
      using that staged_row_free(2) [OF ok r refl] r(1) drafts_okD(7) [OF ok r(1)] valid_content [of r]
        valid_content [of "r\<lparr>dr_status := ''rejected'', dr_updated_at_ms := t\<rparr>"]
      by (intro disjI2, unfold row_written_def, intro exI [of _ "ts_reject_sql spec t r"])
        (auto simp: reject_write_def update_draft_row_def reject_row slot_free_def undecided_def)
  qed
  then show ?thesis using Inr by (simp add: reject_def)
qed

lemma approve_ok:
  fixes e
  assumes ok: "drafts_ok spec build valid db" and r: "hm_get (rows_of spec db) (dm_client_id ctx, draft_id) = Some r"
  defines "job \<equiv> build (dm_client_id ctx, draft_id) r e"
  defines "db' \<equiv> snd (approve ctx spec draft_id (Some job) db)"
  shows "drafts_ok spec build valid db' \<and> decided_kept spec db db'"
proof (cases "require_staged db ctx spec draft_id")
  case (Inl e)
  then show ?thesis using ok by (simp add: db'_def approve_def decided_kept_def)
next
  case (Inr u)
  let ?k = "(dm_client_id ctx, draft_id)" and ?t = "dm_now_ms ctx"
  let ?dw = "approve_write spec (dm_client_id ctx) draft_id (Some job) ?t"
  have staged: "dr_status r = ''staged''" using require_staged_row [OF Inr] r by auto
  obtain req where db': "db' = snd (mutate req ?dw db)" using Inr by (auto simp: db'_def approve_def)
  have sp: "spine_ok (db_receipts db')" unfolding db'
    by (rule mutate_spine(1) [OF writes_safe(3) drafts_okD(1) [OF ok] prod.collapse [symmetric]])
  from mutate_domain [OF prod.collapse [symmetric], where req = req and dw = ?dw and db = db]
  consider "db_domain db' = db_domain db" | db1 where "?dw db = (Inr (), db1)" "db_domain db' = db_domain db1"
    unfolding db' by blast
  then show ?thesis
  proof cases
    case 1
    then show ?thesis by (rule mutate_unchanged [OF ok sp])
  next
    case 2
    obtain f where f: "ts_approve_sql spec = WithJob f"
      "\<And>job t r. f job t r = r\<lparr>dr_status := ''approved'', dr_outbox_job_id := Some job, dr_updated_at_ms := t\<rparr>"
      using approve_row by blast
    have fresh: "hm_get (jobs_of db) (dm_client_id ctx, nj_job_id job) = None"
      and rows: "rows_of spec db1 = hm_insert ?k (f (nj_job_id job) ?t r) (rows_of spec db)"
      and jobs: "jobs_of db1 = hm_insert (dm_client_id ctx, nj_job_id job) (new_row job ?t) (jobs_of db)"
      using 2(1) r by (auto simp: approve_write_def f(1) enqueue_within_def update_draft_row_def split: if_splits)
    show ?thesis
      by (rule ok_when_approved [OF ok sp r staged, where i = "nj_job_id job" and t = ?t and e = e])
        (use rows jobs fresh 2(2) f(2) in \<open>simp_all add: job_def\<close>)
  qed
qed

lemma step_ok:
  assumes "draft_step spec build valid db db'" and ok: "drafts_ok spec build valid db"
  shows "drafts_ok spec build valid db' \<and> decided_kept spec db db'"
  using assms(1)
proof cases
  case (Other)
  have "spine_ok (db_receipts db')" using spine_step_ok [OF Other(1) drafts_okD(1) [OF ok]] by blast
  then show ?thesis using ok_when_kept [OF ok _ _ Other(2,3)] Other(4) drafts_okD(2) [OF ok]
    unfolding jobs_evolve_def by blast
qed (use stage_ok edit_ok approve_ok reject_ok delivery_ok ok in simp_all)

lemma reachable_ok:
  assumes "draft_reachable spec build valid db"
  shows "drafts_ok spec build valid db"
proof -
  from assms obtain d where d: "ts_table spec d = []" "ot_jobs d = []" "(draft_step spec build valid)\<^sup>*\<^sup>* (empty_db d) db"
    by (auto simp: draft_reachable_def)
  have "drafts_ok spec build valid (empty_db d)"
    using d(1,2) by (simp add: drafts_ok_def empty_db_def jobs_ok_def)
  with d(3) show ?thesis by (induction rule: rtranclp_induct) (use step_ok in blast)+
qed

lemma decided_forever:
  assumes "draft_reachable spec build valid db" and "(draft_step spec build valid)\<^sup>*\<^sup>* db db'"
  shows "decided_kept spec db db'"
proof -
  have "drafts_ok spec build valid db' \<and> decided_kept spec db db'" using assms(2)
  proof (induction rule: rtranclp_induct)
    case base
    then show ?case using reachable_ok [OF assms(1)] by (simp add: decided_kept_def)
  next
    case (step y z)
    then show ?case using step_ok [OF step(2)] unfolding decided_kept_def by blast
  qed
  then show ?thesis by blast
qed

end

end
