(* ===== verification/Mail_Address.thy ===== *)
theory Mail_Address
  imports Rust_Text
begin

text \<open>
  Small functions on optional texts that the slices share, comparison without ASCII case, and the address parser of
  \<open>email_triage/subjects.rs\<close>, which reads the addresses off a mail header.
\<close>

section \<open>Texts\<close>

definition non_empty :: "string \<Rightarrow> string option" where
  "non_empty s = (if s = [] then None else Some s)"

definition unwrap_text :: "string option \<Rightarrow> string \<Rightarrow> string" where
  "unwrap_text v dflt = (case v of None \<Rightarrow> dflt | Some s \<Rightarrow> s)"

definition non_blank :: "string option \<Rightarrow> string option" where
  "non_blank v = Option.bind (map_option trim v) non_empty"

definition eq_ignore_ascii_case :: "string \<Rightarrow> string \<Rightarrow> bool" where
  "eq_ignore_ascii_case a b \<longleftrightarrow> to_ascii_lowercase a = to_ascii_lowercase b"

fun str_contains :: "string \<Rightarrow> string \<Rightarrow> bool" where
  "str_contains [] pat \<longleftrightarrow> pat = []"
| "str_contains (c # s) pat \<longleftrightarrow> strip_prefix pat (c # s) \<noteq> None \<or> str_contains s pat"

lemma str_contains_iff: "str_contains s pat \<longleftrightarrow> (\<exists>a b. s = a @ pat @ b)"
proof (induction s)
  case (Cons c s)
  have "(\<exists>a b. c # s = a @ pat @ b) \<longleftrightarrow> (\<exists>b. c # s = pat @ b) \<or> (\<exists>a b. s = a @ pat @ b)"
    by (metis append_Cons append_Nil list.exhaust list.inject)
  moreover have "strip_prefix pat t \<noteq> None \<longleftrightarrow> (\<exists>b. t = pat @ b)" for t :: string
    unfolding strip_prefix_def by (metis append_eq_conv_conj append_take_drop_id option.distinct(1))
  ultimately show ?case using Cons by simp
qed simp

section \<open>Addresses\<close>

definition rsplit_once :: "char \<Rightarrow> string \<Rightarrow> (string \<times> string) option" where
  "rsplit_once c s = map_option (\<lambda>(a, b). (rev b, rev a)) (split_once c (rev s))"

definition trim_matches :: "char \<Rightarrow> string \<Rightarrow> string" where
  "trim_matches c s = rev (dropWhile (\<lambda>x. x = c) (rev (dropWhile (\<lambda>x. x = c) s)))"

definition is_plausible_email :: "string \<Rightarrow> bool" where
  "is_plausible_email v \<longleftrightarrow>
     (case split_once (CHR ''@'') v of
        None \<Rightarrow> False
      | Some (local_part, domain) \<Rightarrow>
          trim local_part \<noteq> [] \<and> trim domain \<noteq> [] \<and> CHR ''.'' \<in> set domain \<and> CHR '' '' \<notin> set domain)"

definition angle_address :: "string \<Rightarrow> string option" where
  "angle_address s =
     Option.bind (rsplit_once (CHR ''<'') s) (\<lambda>(_, rest). map_option fst (split_once (CHR ''>'') rest))"

definition normalized_address :: "string \<Rightarrow> string option" where
  "normalized_address part =
     (if trim part = [] then None
      else
        let candidate = to_ascii_lowercase (trim_matches (CHR 0x27) (trim_matches (CHR 0x22) (trim
               (unwrap_text (angle_address (trim part)) (trim part)))))
        in if is_plausible_email candidate then Some candidate else None)"

definition normalized_email_addresses :: "string option \<Rightarrow> string list" where
  "normalized_email_addresses raw =
     List.map_filter normalized_address
       (concat (map (split_on (CHR '';'')) (split_on (CHR '','') (unwrap_text raw []))))"

end
