(* ===== verification/Source_Input.thy ===== *)
theory Source_Input
  imports Draft_Contract Datetime_Input Mail_Address
begin

text \<open>
  What the produce slices read: \<open>serde_json\<close> values as the typed tasks answer with them, inbound messages and work
  items (the fields the draft slices use), the text of a message that the model is given, and
  \<open>slices/operator_notes/store.rs\<close>. Integers of JSON keep their decimal text; reading a key of a value that is not
  an object answers \<open>None\<close>.
\<close>

section \<open>JSON values\<close>

datatype json =
  JNull
| JBool bool
| JNumber string
| JString string
| JArray "json list"
| JObject "(string \<times> json) list"

fun json_get :: "json \<Rightarrow> string \<Rightarrow> json option" where
  "json_get (JObject obj) key = map_of obj key"
| "json_get _ key = None"

fun as_bool :: "json \<Rightarrow> bool option" where
  "as_bool (JBool b) = Some b"
| "as_bool _ = None"

fun as_str :: "json \<Rightarrow> string option" where
  "as_str (JString s) = Some s"
| "as_str _ = None"

fun as_array :: "json \<Rightarrow> json list option" where
  "as_array (JArray xs) = Some xs"
| "as_array _ = None"

definition get_str :: "json \<Rightarrow> string \<Rightarrow> string option" where
  "get_str v key = Option.bind (json_get v key) as_str"

definition array_items :: "json \<Rightarrow> string \<Rightarrow> json list" where
  "array_items v key = (case Option.bind (json_get v key) as_array of None \<Rightarrow> [] | Some xs \<Rightarrow> xs)"

text \<open>\<open>.chars().take(n)\<close>\<close>

fun take_count :: "int \<Rightarrow> 'a list \<Rightarrow> 'a list" where
  "take_count n [] = []"
| "take_count n (x # xs) = (if n \<le> 0 then [] else x # take_count (n - 1) xs)"

lemma take_count_take: "take_count n xs = take (nat n) xs"
proof (induction n xs rule: take_count.induct)
  case (2 n x xs)
  then show ?case by (cases "n \<le> 0") (auto simp: take_Cons' nat_diff_distrib')
qed simp

definition take_chars :: "int \<Rightarrow> string \<Rightarrow> string" where
  "take_chars n s = concat (take_count n (utf8_chars s))"

definition string_field :: "json \<Rightarrow> string \<Rightarrow> string option" where
  "string_field v key =
     Option.bind (get_str v key) (\<lambda>raw. if trim raw \<noteq> [] \<and> trim raw \<noteq> ''null'' then Some (trim raw) else None)"

text \<open>Code equations for the number parsers that compute with binary integers.\<close>

definition digits_value :: "string \<Rightarrow> int" where
  "digits_value s = foldl (\<lambda>a c. a * 10 + (of_char c - 48)) 0 s"

definition parse_digits_int :: "int \<Rightarrow> string \<Rightarrow> int option" where
  "parse_digits_int bound ds = (if ds \<noteq> [] \<and> list_all is_digit ds \<and> digits_value ds < bound then Some (digits_value ds) else None)"

lemma digits_value: "list_all is_digit s \<Longrightarrow> digits_value s = int (dec_value s)"
proof (induction s rule: rev_induct)
  case (snoc c s)
  then have "48 \<le> (of_char c :: nat)" by (simp add: is_digit_def)
  then show ?case using snoc by (simp add: digits_value_def dec_value_def of_nat_diff of_nat_of_char)
qed (simp add: digits_value_def dec_value_def)

lemma parse_digits_int: "map_option int (parse_digits (nat b) ds) = parse_digits_int b ds"
  by (auto simp: parse_digits_def parse_digits_int_def digits_value)

lemma parse_u32_code [code]:
  "parse_u32 s = map_option nat (parse_digits_int (2 ^ 32) (case s of [] \<Rightarrow> [] | c # cs \<Rightarrow> if c = CHR ''+'' then cs else s))"
  unfolding parse_u32_def parse_unsigned_def parse_digits_int [symmetric] option.map_comp
  by (simp add: comp_def nat_power_eq option.map_id [unfolded id_def])

lemma parse_i64_code [code]:
  "parse_i64 s =
     (case s of
        [] \<Rightarrow> None
      | c # cs \<Rightarrow>
          if c = CHR ''-'' then map_option uminus (parse_digits_int (2 ^ 63 + 1) cs)
          else parse_digits_int (2 ^ 63) (if c = CHR ''+'' then cs else s))"
proof -
  have "nat (2 ^ 63 + 1) = 2 ^ 63 + 1" "nat (2 ^ 63) = 2 ^ 63" by simp_all
  then show ?thesis
    unfolding parse_i64_def parse_unsigned_def parse_digits_int [symmetric] option.map_comp
    by (simp add: comp_def split: list.split)
qed

section \<open>Messages and work items\<close>

text \<open>\<open>internal_date_ms\<close> is an \<open>i64\<close>, kept as a word.\<close>

record inbound_message =
  im_internal_date_ms :: "u64 option"
  im_from_addr :: "string option"
  im_to_addr :: "string option"
  im_subject :: "string option"
  im_body_excerpt :: string
  im_body_full :: string
  im_headers :: "(string \<times> string) list"
  im_ingested_at_ms :: u64

record work_item =
  wi_item_id :: string
  wi_source_kind :: string
  wi_source_ref :: string
  wi_source_user_id :: "string option"

definition MODEL_BODY_MAX_BYTES :: int where "MODEL_BODY_MAX_BYTES = 48 * 1024"

definition truncate_utf8_bytes :: "string \<Rightarrow> int \<Rightarrow> string" where
  "truncate_utf8_bytes v max_bytes =
     (if int (length v) \<le> max_bytes then v else take (floor_boundary v (nat max_bytes)) v)"

definition body_for_ai_with_byte_limit :: "inbound_message \<Rightarrow> int \<Rightarrow> string" where
  "body_for_ai_with_byte_limit message max_body_bytes =
     truncate_utf8_bytes
       (if trim (im_body_full message) = [] then im_body_excerpt message else im_body_full message) max_body_bytes"

definition body_for_ai :: "inbound_message \<Rightarrow> string" where
  "body_for_ai message = body_for_ai_with_byte_limit message MODEL_BODY_MAX_BYTES"

definition int_string :: "int \<Rightarrow> string" where
  "int_string i = (if i < 0 then ''-'' @ dec_string (nat (- i)) else dec_string (nat i))"

abbreviation NL :: string where "NL \<equiv> [CHR 0x0A]"

definition date_block :: "string \<Rightarrow> string \<Rightarrow> string \<Rightarrow> string" where
  "date_block epoch date datetime =
     ''Date (epoch ms): '' @ epoch @ NL @ ''Email date (UTC): '' @ date @ NL
     @ ''Email datetime (UTC): '' @ datetime @ NL
     @ ''Date output format: YYYY-MM-DD. Datetime output format: RFC3339 with explicit offset or Z.''"

definition email_source_date_block :: "u64 option \<Rightarrow> string" where
  "email_source_date_block internal_date_ms =
     (case internal_date_ms of
        None \<Rightarrow> date_block ''(unknown)'' ''(unknown)'' ''(unknown)''
      | Some epoch_ms \<Rightarrow>
          let context = from_epoch_ms (if sint epoch_ms < 0 then 0 else epoch_ms) ''UTC''
          in date_block (int_string (sint epoch_ms)) (dx_anchor_date context) (dx_anchor_datetime_utc context))"

definition email_prompt_datetime_context :: "inbound_message \<Rightarrow> string" where
  "email_prompt_datetime_context message =
     (if im_internal_date_ms message \<noteq> None then email_source_date_block (im_internal_date_ms message)
      else let context = context_from_email (im_internal_date_ms message) (im_ingested_at_ms message)
           in date_block ''(unknown)'' (dx_anchor_date context) (dx_anchor_datetime_utc context))"

section \<open>Operator notes\<close>

definition NOTE_ENTITY_KIND :: string where "NOTE_ENTITY_KIND = ''operator_note''"
definition SOURCE_KIND_OPERATOR_NOTE :: string where "SOURCE_KIND_OPERATOR_NOTE = ''operator_note''"

record operator_note =
  no_note_id :: string
  no_body :: string
  no_category_id :: string
  no_created_by :: string
  no_created_at_ms :: u64

record note_row =
  nr_body :: string
  nr_category_id :: string
  nr_created_by :: string
  nr_created_at_ms :: u64

record note_tables = connector_tables +
  nt_notes :: "(string \<times> string, note_row) hash_map"

abbreviation notes_of :: "'x note_tables_scheme db \<Rightarrow> (string \<times> string, note_row) hash_map" where
  "notes_of db \<equiv> nt_notes (db_domain db)"

definition note_from_row :: "string \<times> string \<Rightarrow> note_row \<Rightarrow> operator_note" where
  "note_from_row k r =
     \<lparr>no_note_id = snd k, no_body = nr_body r, no_category_id = nr_category_id r,
      no_created_by = nr_created_by r, no_created_at_ms = nr_created_at_ms r\<rparr>"

definition note_write :: "string \<Rightarrow> operator_note \<Rightarrow> ('x note_tables_scheme, unit) db_op" where
  "note_write client note db =
     (Inr (),
      if hm_get (notes_of db) (client, no_note_id note) \<noteq> None then db
      else db\<lparr>db_domain := (db_domain db)\<lparr>nt_notes :=
             hm_insert (client, no_note_id note)
               \<lparr>nr_body = no_body note, nr_category_id = no_category_id note, nr_created_by = no_created_by note,
                nr_created_at_ms = no_created_at_ms note\<rparr> (notes_of db)\<rparr>\<rparr>)"

definition insert_note ::
    "(operator_note \<Rightarrow> string) \<Rightarrow> string \<Rightarrow> operator_note \<Rightarrow> string \<Rightarrow> ('x note_tables_scheme, mutation_outcome) db_op" where
  "insert_note render client note key db =
     (if trim (no_body note) = [] then (Inl (Domain ''operator_note_body_empty''), db)
      else mutate
             \<lparr>mq_client_id = client, mq_entity_kind = NOTE_ENTITY_KIND, mq_entity_id = no_note_id note,
              mq_change_kind = ''create'', mq_actor_id = no_created_by note, mq_actor_kind = Operator,
              mq_expected_revision = None, mq_idempotency_key = key, mq_correlation_id = None,
              mq_causation_id = None, mq_before_json = None, mq_after_json = Some (render note),
              mq_now_ms = no_created_at_ms note\<rparr>
             (note_write client note) db)"

definition get_note :: "'x note_tables_scheme db \<Rightarrow> string \<Rightarrow> string \<Rightarrow> operator_note option" where
  "get_note db client note_id =
     map_option (note_from_row (client, note_id)) (hm_get (notes_of db) (client, note_id))"

definition list_recent_notes :: "'x note_tables_scheme db \<Rightarrow> string \<Rightarrow> usize \<Rightarrow> operator_note list" where
  "list_recent_notes db client limit =
     map (\<lambda>(k, r). note_from_row k r)
       (take limit (rev (sort_key (\<lambda>(k, r). (sint (nr_created_at_ms r), snd k))
         (filter (\<lambda>(k, r). fst k = client) (notes_of db)))))"

definition note_title :: "string \<Rightarrow> string" where
  "note_title body =
     (let first_line = trim (hd (split_on (CHR 0x0A) body))
      in if first_line = [] then ''Operator note'' else take_chars 80 first_line)"

text \<open>The author of a note as a source user; \<open>mcp:\<close> marks notes an agent recorded for an operator.\<close>

definition personal_user :: "string \<Rightarrow> string option" where
  "personal_user created_by =
     (let actor = (case strip_prefix ''mcp:'' created_by of None \<Rightarrow> created_by | Some rest \<Rightarrow> rest)
      in if actor \<noteq> SHARED_OPERATOR_ACTOR then Some actor else None)"

definition produce_source_view :: "operator_note \<Rightarrow> inbound_message" where
  "produce_source_view note =
     \<lparr>im_internal_date_ms = Some (no_created_at_ms note), im_from_addr = None, im_to_addr = None,
      im_subject = Some (note_title (no_body note)), im_body_excerpt = no_body note, im_body_full = no_body note,
      im_headers = [], im_ingested_at_ms = no_created_at_ms note\<rparr>"

end
