(* ===== verification/Calendar_Drafts.thy ===== *)
theory Calendar_Drafts
  imports Source_Input
begin

text \<open>
  \<open>slices/calendar_drafts\<close> and the attendee rules of \<open>bos-integrations/google_calendar.rs\<close>: an event the model
  extracts from a message is validated and staged, the operator edits it, approval enqueues the calendar write.
  The answer of the model is an argument, JSON renderings are parameters. The produce flow that calls the
  model, the live list of calendars and the delivery adapter are not modelled.
\<close>

section \<open>Attendees\<close>

definition MAX_CALENDAR_ATTENDEES :: nat where "MAX_CALENDAR_ATTENDEES = 25"

definition valid_label :: "string \<Rightarrow> bool" where
  "valid_label label \<longleftrightarrow>
     label \<noteq> [] \<and> hd label \<noteq> CHR ''-'' \<and> last label \<noteq> CHR ''-''
   \<and> list_all (\<lambda>b. is_ascii_alphanumeric b \<or> b = CHR ''-'') label"

definition valid_calendar_attendee :: "string \<Rightarrow> bool" where
  "valid_calendar_attendee address \<longleftrightarrow>
     \<not> (address = [] \<or> int (length address) > 254
        \<or> list_ex (\<lambda>ch. ch \<in> set ws_seqs) (utf8_chars address)
        \<or> list_ex (\<lambda>c. c \<in> set ''<>,;'') address)
   \<and> (case split_on (CHR ''@'') address of
        [local_part, domain] \<Rightarrow>
          local_part \<noteq> [] \<and> int (length local_part) \<le> 64 \<and> domain \<noteq> [] \<and> CHR ''.'' \<in> set domain
        \<and> hd domain \<noteq> CHR ''.'' \<and> last domain \<noteq> CHR ''.''
        \<and> list_all valid_label (split_on (CHR ''.'') domain)
      | _ \<Rightarrow> False)"

fun collect_attendees :: "string list \<Rightarrow> string list \<Rightarrow> string list \<Rightarrow> string + string list" where
  "collect_attendees [] seen normalized = Inr normalized"
| "collect_attendees (raw # rest) seen normalized =
     (let address = trim raw; key = to_ascii_lowercase address
      in if \<not> valid_calendar_attendee address then Inl ''google_calendar_attendee_invalid''
         else if key \<in> set seen then collect_attendees rest seen normalized
         else collect_attendees rest (key # seen) (normalized @ [address]))"

definition normalize_calendar_attendees :: "string list \<Rightarrow> string + string list" where
  "normalize_calendar_attendees attendees =
     res_bind (collect_attendees attendees [] []) (\<lambda>normalized.
       if length normalized > MAX_CALENDAR_ATTENDEES then Inl ''google_calendar_attendee_limit_exceeded''
       else Inr normalized)"

definition CALENDAR_FULL_SCOPE :: string where
  "CALENDAR_FULL_SCOPE = ''https://www.googleapis.com/auth/calendar''"

definition has_calendar_scope :: "google_oauth_config \<Rightarrow> bool" where
  "has_calendar_scope creds \<longleftrightarrow> has_scope creds CALENDAR_EVENTS_SCOPE \<or> has_scope creds CALENDAR_FULL_SCOPE"

section \<open>The table\<close>

record field_provenance =
  fp_field :: string
  fp_quote :: string

record calendar_draft_row = draft_row +
  cd_title :: string
  cd_start_at :: string
  cd_end_at :: string
  cd_timezone :: "string option"
  cd_location :: "string option"
  cd_description :: "string option"
  cd_calendar_id :: "string option"
  cd_attendees :: "string list"
  cd_send_invitations :: bool
  cd_provenance :: "field_provenance list"
  cd_model :: string
  cd_confidence :: string

record calendar_tables = note_tables +
  kt_calendar_drafts :: "(draft_key, calendar_draft_row) hash_map"

definition CALENDAR_ENTITY_KIND :: string where "CALENDAR_ENTITY_KIND = ''calendar_event_draft''"

definition sql_approve_with_job :: "string \<Rightarrow> u64 \<Rightarrow> 'z draft_row_scheme \<Rightarrow> 'z draft_row_scheme" where
  "sql_approve_with_job job_id now_ms r =
     r\<lparr>dr_status := ''approved'', dr_outbox_job_id := Some job_id, dr_updated_at_ms := now_ms\<rparr>"

definition sql_reject :: "u64 \<Rightarrow> 'z draft_row_scheme \<Rightarrow> 'z draft_row_scheme" where
  "sql_reject now_ms r = r\<lparr>dr_status := ''rejected'', dr_updated_at_ms := now_ms\<rparr>"

definition CALENDAR_TABLE :: "('x calendar_tables_scheme, calendar_draft_row) draft_table_spec" where
  "CALENDAR_TABLE =
     \<lparr>ts_table = kt_calendar_drafts, ts_store = (\<lambda>rows d. d\<lparr>kt_calendar_drafts := rows\<rparr>),
      ts_entity_kind = CALENDAR_ENTITY_KIND, ts_not_found_code = ''calendar_draft_not_found'',
      ts_not_staged_code = ''calendar_draft_not_staged'', ts_approve_sql = WithJob sql_approve_with_job,
      ts_reject_sql = sql_reject\<rparr>"

datatype calendar_draft_status = CalStaged | CalApproved | CalRejected

definition calendar_status_from_str :: "string \<Rightarrow> calendar_draft_status" where
  "calendar_status_from_str raw =
     (if raw = ''approved'' then CalApproved else if raw = ''rejected'' then CalRejected else CalStaged)"

record calendar_event_draft =
  ce_draft_id :: string
  ce_item_id :: string
  ce_source_kind :: string
  ce_source_ref :: string
  ce_status :: calendar_draft_status
  ce_source_user_id :: "string option"
  ce_title :: string
  ce_start_at :: string
  ce_end_at :: string
  ce_timezone :: "string option"
  ce_location :: "string option"
  ce_description :: "string option"
  ce_calendar_id :: "string option"
  ce_attendees :: "string list"
  ce_send_invitations :: bool
  ce_provenance :: "field_provenance list"
  ce_model :: string
  ce_confidence :: string
  ce_outbox_job_id :: "string option"
  ce_created_at_ms :: u64
  ce_updated_at_ms :: u64

record calendar_draft_with_revision =
  cw_draft :: calendar_event_draft
  cw_revision :: u64
  cw_outbox_job :: "outbox_job_summary option"

definition calendar_draft_from_row :: "draft_key \<Rightarrow> calendar_draft_row \<Rightarrow> calendar_event_draft" where
  "calendar_draft_from_row k r =
     \<lparr>ce_draft_id = snd k, ce_item_id = dr_item_id r, ce_source_kind = dr_source_kind r,
      ce_source_ref = dr_source_ref r, ce_status = calendar_status_from_str (dr_status r),
      ce_source_user_id = dr_source_user_id r, ce_title = cd_title r, ce_start_at = cd_start_at r,
      ce_end_at = cd_end_at r, ce_timezone = cd_timezone r, ce_location = cd_location r,
      ce_description = cd_description r, ce_calendar_id = cd_calendar_id r, ce_attendees = cd_attendees r,
      ce_send_invitations = cd_send_invitations r, ce_provenance = cd_provenance r, ce_model = cd_model r,
      ce_confidence = cd_confidence r, ce_outbox_job_id = dr_outbox_job_id r,
      ce_created_at_ms = dr_created_at_ms r, ce_updated_at_ms = dr_updated_at_ms r\<rparr>"

definition calendar_attach_job_summary ::
    "'j json_reader \<Rightarrow> 'x calendar_tables_scheme db \<Rightarrow> string \<Rightarrow> calendar_draft_with_revision \<Rightarrow> calendar_draft_with_revision" where
  "calendar_attach_job_summary json db client entry =
     (case ce_outbox_job_id (cw_draft entry) of
        None \<Rightarrow> entry
      | Some job_id \<Rightarrow> entry\<lparr>cw_outbox_job := job_summary json db client job_id\<rparr>)"

definition CALENDAR_STORE ::
    "'j json_reader \<Rightarrow> ('x calendar_tables_scheme, calendar_draft_row, calendar_draft_with_revision) draft_store" where
  "CALENDAR_STORE json =
     \<lparr>st_table = kt_calendar_drafts, st_entity_kind = CALENDAR_ENTITY_KIND, st_not_found = ''calendar_draft_not_found'',
      st_map_row = (\<lambda>k r revision. \<lparr>cw_draft = calendar_draft_from_row k r, cw_revision = revision, cw_outbox_job = None\<rparr>),
      st_attach = calendar_attach_job_summary json,
      st_source_user_id = (\<lambda>entry. ce_source_user_id (cw_draft entry))\<rparr>"

definition calendar_row_of :: "calendar_event_draft \<Rightarrow> calendar_draft_row" where
  "calendar_row_of d =
     \<lparr>dr_item_id = ce_item_id d, dr_source_kind = ce_source_kind d, dr_source_ref = ce_source_ref d,
      dr_source_user_id = ce_source_user_id d, dr_status = ''staged'', dr_outbox_job_id = None,
      dr_created_at_ms = ce_created_at_ms d, dr_updated_at_ms = ce_created_at_ms d, cd_title = ce_title d,
      cd_start_at = ce_start_at d, cd_end_at = ce_end_at d, cd_timezone = ce_timezone d,
      cd_location = ce_location d, cd_description = ce_description d, cd_calendar_id = ce_calendar_id d,
      cd_attendees = ce_attendees d, cd_send_invitations = ce_send_invitations d,
      cd_provenance = ce_provenance d, cd_model = ce_model d, cd_confidence = ce_confidence d\<rparr>"

definition calendar_insert_draft ::
    "(calendar_event_draft \<Rightarrow> string) \<Rightarrow> string \<Rightarrow> string \<Rightarrow> calendar_event_draft \<Rightarrow> string
       \<Rightarrow> ('x calendar_tables_scheme, mutation_outcome) db_op" where
  "calendar_insert_draft render client actor draft key =
     mutate (stage_request client CALENDAR_ENTITY_KIND (ce_draft_id draft) actor key (ce_item_id draft) (render draft)
               (ce_created_at_ms draft))
       (stage_write CALENDAR_TABLE ''calendar_draft_already_active'' (client, ce_draft_id draft) (calendar_row_of draft))"

definition calendar_approve_draft ::
    "scoped_mutation_context \<Rightarrow> string \<Rightarrow> new_outbox_job \<Rightarrow> ('x calendar_tables_scheme, mutation_outcome) db_op" where
  "calendar_approve_draft ctx draft_id job = approve (from_scoped_context ctx) CALENDAR_TABLE draft_id (Some job)"

definition calendar_reject_draft ::
    "scoped_mutation_context \<Rightarrow> string \<Rightarrow> ('x calendar_tables_scheme, mutation_outcome) db_op" where
  "calendar_reject_draft ctx draft_id = reject (from_scoped_context ctx) CALENDAR_TABLE draft_id"

section \<open>Edits\<close>

record calendar_draft_edit =
  ed_title :: string
  ed_start_at :: string
  ed_end_at :: string
  ed_timezone :: "string option"
  ed_location :: "string option"
  ed_description :: "string option"
  ed_calendar_id :: "string option"
  ed_attendees :: "string list"
  ed_send_invitations :: bool

definition clean_option :: "int \<Rightarrow> string option \<Rightarrow> string option" where
  "clean_option n raw = map_option (take_chars n) (Option.bind (map_option trim raw) non_empty)"

definition normalize_edit :: "calendar_draft_edit \<Rightarrow> store_error + calendar_draft_edit" where
  "normalize_edit edit =
     (let title = take_chars 200 (trim (ed_title edit))
      in if title = [] then Inl (Domain ''calendar_draft_title_required'')
         else case normalize_rfc3339_datetime (ed_start_at edit) of
           Inl _ \<Rightarrow> Inl (Domain ''calendar_draft_start_invalid'')
         | Inr start_at \<Rightarrow>
             (case normalize_rfc3339_datetime (ed_end_at edit) of
                Inl _ \<Rightarrow> Inl (Domain ''calendar_draft_end_invalid'')
              | Inr end_at \<Rightarrow>
                  (case normalize_calendar_attendees (ed_attendees edit) of
                     Inl code \<Rightarrow> Inl (Domain code)
                   | Inr attendees \<Rightarrow>
                       if ed_send_invitations edit \<and> attendees = []
                       then Inl (Domain ''google_calendar_invitation_attendees_required'')
                       else Inr \<lparr>ed_title = title, ed_start_at = start_at, ed_end_at = end_at,
                                 ed_timezone = clean_option 1000 (ed_timezone edit),
                                 ed_location = clean_option 1000 (ed_location edit),
                                 ed_description = clean_option 1000 (ed_description edit),
                                 ed_calendar_id = clean_option 1000 (ed_calendar_id edit),
                                 ed_attendees = attendees, ed_send_invitations = ed_send_invitations edit\<rparr>)))"

definition edit_of_row :: "calendar_draft_row \<Rightarrow> calendar_draft_edit" where
  "edit_of_row r =
     \<lparr>ed_title = cd_title r, ed_start_at = cd_start_at r, ed_end_at = cd_end_at r, ed_timezone = cd_timezone r,
      ed_location = cd_location r, ed_description = cd_description r, ed_calendar_id = cd_calendar_id r,
      ed_attendees = cd_attendees r, ed_send_invitations = cd_send_invitations r\<rparr>"

definition set_edited :: "calendar_draft_edit \<Rightarrow> u64 \<Rightarrow> calendar_draft_row \<Rightarrow> calendar_draft_row" where
  "set_edited e now_ms r =
     r\<lparr>cd_title := ed_title e, cd_start_at := ed_start_at e, cd_end_at := ed_end_at e, cd_timezone := ed_timezone e,
       cd_location := ed_location e, cd_description := ed_description e, cd_calendar_id := ed_calendar_id e,
       cd_attendees := ed_attendees e, cd_send_invitations := ed_send_invitations e, dr_updated_at_ms := now_ms\<rparr>"

text \<open>\<open>render\<close> is the JSON of the edited fields in the receipt.\<close>

definition calendar_update_draft ::
    "'j json_reader \<Rightarrow> (calendar_draft_edit \<Rightarrow> string) \<Rightarrow> scoped_mutation_context \<Rightarrow> string \<Rightarrow> calendar_draft_edit
       \<Rightarrow> ('x calendar_tables_scheme, mutation_outcome) db_op" where
  "calendar_update_draft json render ctx draft_id edit db =
     (case require_editable (CALENDAR_STORE json) db ctx ''calendar_draft_not_staged'' draft_id of
        Inl e \<Rightarrow> (Inl e, db)
      | Inr _ \<Rightarrow>
          (case normalize_edit edit of
             Inl e \<Rightarrow> (Inl e, db)
           | Inr e \<Rightarrow>
               (case hm_get (kt_calendar_drafts (db_domain db)) (sm_client_id ctx, draft_id) of
                  None \<Rightarrow> (Inl (Sqlite ''Query returned no rows''), db)
                | Some row \<Rightarrow>
                    mutate (edit_request ctx CALENDAR_ENTITY_KIND draft_id (render (edit_of_row row)) (render e))
                      (edit_write CALENDAR_TABLE (sm_client_id ctx, draft_id) (set_edited e (sm_now_ms ctx))) db)))"

section \<open>Extraction\<close>

definition PROVENANCE_FIELDS :: "string list" where
  "PROVENANCE_FIELDS = [''title'', ''start_at'', ''end_at'', ''timezone'', ''location'', ''description'']"

record event_extract =
  ee_title :: string
  ee_start_at :: string
  ee_end_at :: string
  ee_timezone :: "string option"
  ee_location :: "string option"
  ee_description :: "string option"
  ee_attendees :: "string list"
  ee_confidence :: string
  ee_provenance :: "field_provenance list"

datatype extract_outcome = Event event_extract | NoEvent string

definition is_email_address_character :: "char \<Rightarrow> bool" where
  "is_email_address_character c \<longleftrightarrow> is_ascii_alphanumeric c \<or> c \<in> set ''._%+-@''"

text \<open>\<open>match_indices\<close>: the matches from the left that do not overlap; an empty pattern matches at every character.\<close>

fun match_indices_from :: "string \<Rightarrow> nat \<Rightarrow> nat \<Rightarrow> string \<Rightarrow> nat list" where
  "match_indices_from pat i skip [] = (if pat = [] \<and> skip = 0 then [i] else [])"
| "match_indices_from pat i (Suc skip) (c # s) = match_indices_from pat (Suc i) skip s"
| "match_indices_from pat i 0 (c # s) =
     (if strip_prefix pat (c # s) \<noteq> None \<and> (pat \<noteq> [] \<or> \<not> utf8_cont c)
      then i # match_indices_from pat (Suc i) (length pat - 1) s
      else match_indices_from pat (Suc i) 0 s)"

definition quote_contains_exact_email :: "string \<Rightarrow> string \<Rightarrow> bool" where
  "quote_contains_exact_email raw_quote raw_email =
     (let quote = to_ascii_lowercase raw_quote; email = to_ascii_lowercase raw_email
      in list_ex (\<lambda>start.
           let stop = start + length email
           in \<not> (start > 0 \<and> is_email_address_character (quote ! (start - 1)))
            \<and> \<not> (stop < length quote \<and> is_email_address_character (quote ! stop)))
         (match_indices_from email 0 0 quote))"

definition field_provenance_of :: "json \<Rightarrow> field_provenance option" where
  "field_provenance_of entry =
     Option.bind (get_str entry ''field'') (\<lambda>raw.
       if trim raw \<notin> set PROVENANCE_FIELDS then None
       else Some \<lparr>fp_field = trim raw,
                  fp_quote = take_chars 300 (trim (unwrap_text (get_str entry ''quote'') []))\<rparr>)"

definition proposed_attendee :: "string option \<Rightarrow> json \<Rightarrow> (string \<times> string) option" where
  "proposed_attendee evidence entry =
     Option.bind (get_str entry ''email'') (\<lambda>email.
     Option.bind (get_str entry ''quote'') (\<lambda>quote.
     Option.bind evidence (\<lambda>source.
       if trim quote = [] \<or> \<not> str_contains source (trim quote)
          \<or> \<not> quote_contains_exact_email (trim quote) (trim email)
       then None else Some (trim email, trim quote))))"

fun keep_attendees :: "(string \<times> string) list \<Rightarrow> string list \<Rightarrow> string list" where
  "keep_attendees [] kept = kept"
| "keep_attendees ((email, _) # rest) kept =
     (if isl (normalize_calendar_attendees [email]) \<or> list_ex (\<lambda>k. eq_ignore_ascii_case k email) kept
      then keep_attendees rest kept
      else if length kept = MAX_CALENDAR_ATTENDEES then kept
      else keep_attendees rest (kept @ [email]))"

definition attendee_provenance :: "(string \<times> string) list \<Rightarrow> string \<Rightarrow> field_provenance option" where
  "attendee_provenance proposed attendee =
     map_option (\<lambda>(_, quote). \<lparr>fp_field = ''attendee:'' @ attendee, fp_quote = take_chars 300 quote\<rparr>)
       (find (\<lambda>(email, _). eq_ignore_ascii_case email attendee) proposed)"

definition parse_event_extract_response_with_evidence :: "json \<Rightarrow> string option \<Rightarrow> string + extract_outcome" where
  "parse_event_extract_response_with_evidence response evidence =
     res_bind (ok_or ''extractable missing or not a boolean'' (Option.bind (json_get response ''extractable'') as_bool)) (\<lambda>extractable.
     if \<not> extractable
     then Inr (NoEvent (unwrap_text (string_field response ''reason'') ''no concrete dated event found''))
     else
       res_bind (ok_or ''title missing or empty'' (string_field response ''title'')) (\<lambda>title.
       res_bind (ok_or ''start_at missing or empty'' (string_field response ''start_at'')) (\<lambda>raw_start_at.
       res_bind (ok_or ''end_at missing or empty'' (string_field response ''end_at'')) (\<lambda>raw_end_at.
       case normalize_rfc3339_datetime raw_start_at of
         Inl _ \<Rightarrow> Inl (''start_at is not RFC3339 with offset: '' @ raw_start_at)
       | Inr start_at \<Rightarrow>
       (case normalize_rfc3339_datetime raw_end_at of
         Inl _ \<Rightarrow> Inl (''end_at is not RFC3339 with offset: '' @ raw_end_at)
       | Inr end_at \<Rightarrow>
       (case string_field response ''confidence'' of
         None \<Rightarrow> Inl ''confidence missing or invalid''
       | Some confidence \<Rightarrow>
          if confidence \<notin> {''high'', ''medium'', ''low''} then Inl ''confidence missing or invalid''
          else
            let provenance = List.map_filter field_provenance_of (array_items response ''provenance'');
                proposed = List.map_filter (proposed_attendee evidence) (array_items response ''attendees'');
                attendees = keep_attendees proposed []
            in Inr (Event
                 \<lparr>ee_title = take_chars 200 title, ee_start_at = start_at, ee_end_at = end_at,
                  ee_timezone = string_field response ''timezone'',
                  ee_location = map_option (take_chars 300) (string_field response ''location''),
                  ee_description = map_option (take_chars 1000) (string_field response ''description''),
                  ee_attendees = attendees, ee_confidence = confidence,
                  ee_provenance = provenance @ List.map_filter (attendee_provenance proposed) attendees\<rparr>)))))))"

definition event_email_evidence :: "inbound_message \<Rightarrow> string" where
  "event_email_evidence message =
     (let cc = join_with '', '' (filter (\<lambda>v. v \<noteq> []) (map (\<lambda>(_, v). trim v)
                 (filter (\<lambda>(name, _). eq_ignore_ascii_case name ''cc'') (im_headers message))))
      in ''From: '' @ unwrap_text (im_from_addr message) ''(unknown)'' @ NL
       @ ''To: '' @ unwrap_text (im_to_addr message) ''(unknown)'' @ NL
       @ ''Cc: '' @ (if cc = [] then ''(none)'' else cc) @ NL
       @ ''Subject: '' @ unwrap_text (im_subject message) ''(no subject)'' @ NL
       @ email_prompt_datetime_context message @ NL @ NL @ body_for_ai message)"

definition calendar_draft_from_extract ::
    "work_item \<Rightarrow> event_extract \<Rightarrow> u64 \<Rightarrow> string \<Rightarrow> u64 \<Rightarrow> calendar_event_draft" where
  "calendar_draft_from_extract item extract attempt model now_ms =
     \<lparr>ce_draft_id = ''ced_'' @ wi_item_id item @ ''_'' @ dec_string (unat attempt), ce_item_id = wi_item_id item,
      ce_source_kind = wi_source_kind item, ce_source_ref = wi_source_ref item, ce_status = CalStaged,
      ce_source_user_id = wi_source_user_id item, ce_title = ee_title extract, ce_start_at = ee_start_at extract,
      ce_end_at = ee_end_at extract, ce_timezone = ee_timezone extract, ce_location = ee_location extract,
      ce_description = ee_description extract, ce_calendar_id = None, ce_attendees = ee_attendees extract,
      ce_send_invitations = False, ce_provenance = ee_provenance extract, ce_model = model,
      ce_confidence = ee_confidence extract, ce_outbox_job_id = None, ce_created_at_ms = now_ms,
      ce_updated_at_ms = now_ms\<rparr>"

definition calendar_stage ::
    "(calendar_event_draft \<Rightarrow> string) \<Rightarrow> string \<Rightarrow> string \<Rightarrow> work_item \<Rightarrow> inbound_message \<Rightarrow> json \<Rightarrow> string \<Rightarrow> u64
       \<Rightarrow> string \<Rightarrow> u64 \<Rightarrow> ('x calendar_tables_scheme, unit) db_op" where
  "calendar_stage render client actor item message response model attempt key now_ms db =
     (case parse_event_extract_response_with_evidence response (Some (event_email_evidence message)) of
        Inl _ \<Rightarrow> (Inl (Domain ''calendar_extract_invalid_response''), db)
      | Inr (NoEvent _) \<Rightarrow> (Inl (Domain ''calendar_extract_no_event''), db)
      | Inr (Event extract) \<Rightarrow>
          op_map (\<lambda>_. ())
            (calendar_insert_draft render client actor (calendar_draft_from_extract item extract attempt model now_ms) key) db)"

section \<open>Approval\<close>

record calendar_payload =
  cp_calendar_id :: string
  cp_idempotency_key :: string
  cp_credential_user_id :: "string option"
  cp_approval_id :: string
  cp_approved_by :: string
  cp_approved_at :: string
  cp_summary :: string
  cp_description :: "string option"
  cp_start_at :: string
  cp_end_at :: string
  cp_timezone :: "string option"
  cp_attendees :: "string list"
  cp_send_invitations :: bool
  cp_expected_revision :: "u64 option"

fun folded_description :: "string option \<Rightarrow> string option \<Rightarrow> string option" where
  "folded_description (Some location) (Some description) = Some (''Location: '' @ location @ NL @ NL @ description)"
| "folded_description (Some location) None = Some (''Location: '' @ location)"
| "folded_description None description = description"

definition calendar_payload_of ::
    "calendar_event_draft \<Rightarrow> string \<Rightarrow> string \<Rightarrow> u64 \<Rightarrow> string \<Rightarrow> calendar_payload" where
  "calendar_payload_of draft credential_user_id approved_by now_ms default_calendar_id =
     \<lparr>cp_calendar_id = (case Option.bind (map_option trim (ce_calendar_id draft)) non_empty of
                          None \<Rightarrow> default_calendar_id | Some i \<Rightarrow> i),
      cp_idempotency_key = ''caldraft:'' @ ce_draft_id draft, cp_credential_user_id = Some credential_user_id,
      cp_approval_id = ''appr_'' @ ce_draft_id draft, cp_approved_by = approved_by,
      cp_approved_at = epoch_ms_to_rfc3339_utc now_ms, cp_summary = ce_title draft,
      cp_description = folded_description (ce_location draft) (ce_description draft),
      cp_start_at = ce_start_at draft, cp_end_at = ce_end_at draft, cp_timezone = ce_timezone draft,
      cp_attendees = ce_attendees draft, cp_send_invitations = ce_send_invitations draft,
      cp_expected_revision = None\<rparr>"

definition calendar_build_approval_job ::
    "(calendar_payload \<Rightarrow> string) \<Rightarrow> calendar_event_draft \<Rightarrow> string \<Rightarrow> string \<Rightarrow> u64 \<Rightarrow> string \<Rightarrow> new_outbox_job" where
  "calendar_build_approval_job render draft credential_user_id approved_by now_ms default_calendar_id =
     \<lparr>nj_job_id = ''obj_'' @ ce_draft_id draft, nj_provider = ''google_calendar'', nj_capability = ''create_event'',
      nj_payload_json = render (calendar_payload_of draft credential_user_id approved_by now_ms default_calendar_id),
      nj_source_entity_kind = CALENDAR_ENTITY_KIND, nj_source_entity_id = ce_draft_id draft,
      nj_correlation_id = Some (ce_item_id draft), nj_causation_id = None,
      nj_idempotency_key = ''caldraft:'' @ ce_draft_id draft\<rparr>"

section \<open>Handlers\<close>

definition default_calendar_id :: "environment \<Rightarrow> string" where
  "default_calendar_id env = unwrap_text (env_string env BOS_GOOGLE_CALENDAR_ID) ''primary''"

definition default_calendar_for :: "environment \<Rightarrow> 'x auth_tables_scheme db \<Rightarrow> string \<Rightarrow> string \<Rightarrow> string" where
  "default_calendar_for env db client actor =
     (case Option.bind (get_user db client actor) us_default_calendar_id of
        None \<Rightarrow> default_calendar_id env | Some i \<Rightarrow> i)"

definition is_mcp_operator_note :: "'x note_tables_scheme db \<Rightarrow> string \<Rightarrow> calendar_event_draft \<Rightarrow> bool" where
  "is_mcp_operator_note db client draft \<longleftrightarrow>
     ce_source_kind draft = SOURCE_KIND_OPERATOR_NOTE
   \<and> (case get_note db client (ce_source_ref draft) of
        None \<Rightarrow> False | Some note \<Rightarrow> strip_prefix ''mcp:'' (no_created_by note) \<noteq> None)"

definition approval_credential ::
    "environment \<Rightarrow> 'x note_tables_scheme db \<Rightarrow> string \<Rightarrow> string \<Rightarrow> calendar_event_draft \<Rightarrow> string + string \<times> string" where
  "approval_credential env db client actor draft =
     (if is_mcp_operator_note db client draft
      then if resolve_bound_google_oauth env db client actor = None then Inl ''google_credential_unavailable''
           else Inr (actor, default_calendar_for env db client actor)
      else case ce_source_user_id draft of
             Some source_user_id \<Rightarrow>
               if get_credential db client source_user_id SERVICE_GMAIL = None then Inl ''source_user_credential_unavailable''
               else Inr (source_user_id, default_calendar_for env db client source_user_id)
           | None \<Rightarrow> Inr (actor, default_calendar_for env db client actor))"

definition calendar_scope_missing :: "environment \<Rightarrow> 'x settings_tables_scheme db \<Rightarrow> string \<Rightarrow> string \<Rightarrow> bool" where
  "calendar_scope_missing env db client credential_user_id \<longleftrightarrow>
     setting_flag env db client BOS_GOOGLE_CALENDAR_WRITE_ENABLED
   \<and> (case resolve_google_oauth env db client (Some credential_user_id) of
        None \<Rightarrow> False
      | Some oauth \<Rightarrow> go_scopes oauth \<noteq> [] \<and> \<not> has_calendar_scope oauth)"

datatype draft_action_kind = ApproveDraft | RejectDraft

definition calendar_approve_action ::
    "'j json_reader \<Rightarrow> (calendar_payload \<Rightarrow> string) \<Rightarrow> environment \<Rightarrow> scoped_mutation_context \<Rightarrow> string
       \<Rightarrow> 'x calendar_tables_scheme db \<Rightarrow> http_response \<times> 'x calendar_tables_scheme db" where
  "calendar_approve_action json render env ctx draft_id db =
     (let client = sm_client_id ctx; actor = sm_actor_id ctx in
      case get_draft_scoped (CALENDAR_STORE json) db client draft_id (sm_scope ctx) of
        None \<Rightarrow> (error_response 422 ''calendar_draft_not_found'', db)
      | Some found \<Rightarrow>
          (case approval_credential env db client actor (cw_draft found) of
             Inl code \<Rightarrow> (error_response 422 code, db)
           | Inr (credential_user_id, default_calendar) \<Rightarrow>
               if calendar_scope_missing env db client credential_user_id
               then (error_response 422 ''google_calendar_scope_missing'', db)
               else
                 (case calendar_approve_draft ctx draft_id
                         (calendar_build_approval_job render (cw_draft found) credential_user_id actor (sm_now_ms ctx)
                            default_calendar) db of
                    (r, db') \<Rightarrow> (mutation_result r, db'))))"

definition calendar_draft_action ::
    "(string \<Rightarrow> string) \<Rightarrow> 'j json_reader \<Rightarrow> (calendar_payload \<Rightarrow> string) \<Rightarrow> environment \<Rightarrow> u64 \<Rightarrow> headers \<Rightarrow> string
       \<Rightarrow> string option \<Rightarrow> u64 option \<Rightarrow> string \<Rightarrow> draft_action_kind \<Rightarrow> u64
       \<Rightarrow> app_state \<times> 'x calendar_tables_scheme db \<Rightarrow> http_response \<times> (app_state \<times> 'x calendar_tables_scheme db)" where
  "calendar_draft_action sha json render env auth_ms hs key requested expected draft_id action now_ms =
     guarded sha auth_ms hs (\<lambda>_. Inr ()) key (\<lambda>auth w.
       let ctx = \<lparr>sm_client_id = as_client_id (fst w), sm_actor_id = actor_or auth requested,
                  sm_scope = au_scope auth, sm_expected_revision = expected, sm_idempotency_key = key,
                  sm_now_ms = now_ms\<rparr>
       in case action of
            ApproveDraft \<Rightarrow>
              (case calendar_approve_action json render env ctx draft_id (snd w) of (resp, db') \<Rightarrow> (resp, (fst w, db')))
          | RejectDraft \<Rightarrow> on_db (calendar_reject_draft ctx draft_id) mutation_result w)"

definition calendar_draft_update ::
    "(string \<Rightarrow> string) \<Rightarrow> 'j json_reader \<Rightarrow> (calendar_draft_edit \<Rightarrow> string) \<Rightarrow> u64 \<Rightarrow> headers \<Rightarrow> string
       \<Rightarrow> string option \<Rightarrow> u64 option \<Rightarrow> string \<Rightarrow> calendar_draft_edit \<Rightarrow> u64
       \<Rightarrow> app_state \<times> 'x calendar_tables_scheme db \<Rightarrow> http_response \<times> (app_state \<times> 'x calendar_tables_scheme db)" where
  "calendar_draft_update sha json render auth_ms hs key requested expected draft_id edit now_ms =
     guarded sha auth_ms hs (\<lambda>_. Inr ()) key (\<lambda>auth w.
       on_db (calendar_update_draft json render
                \<lparr>sm_client_id = as_client_id (fst w), sm_actor_id = actor_or auth requested,
                 sm_scope = au_scope auth, sm_expected_revision = expected, sm_idempotency_key = key,
                 sm_now_ms = now_ms\<rparr> draft_id edit) mutation_result w)"

definition calendar_drafts_list ::
    "(string \<Rightarrow> string) \<Rightarrow> 'j json_reader \<Rightarrow> u64 \<Rightarrow> headers \<Rightarrow> string option
       \<Rightarrow> app_state \<times> 'x calendar_tables_scheme db \<Rightarrow> (http_error + calendar_draft_with_revision list) \<times> app_state" where
  "calendar_drafts_list sha json auth_ms hs item_id w =
     (case require_scope sha (snd w) auth_ms hs (fst w) of
        (Inl e, st) \<Rightarrow> (Inl e, st)
      | (Inr scope, st) \<Rightarrow>
          (Inr (list_drafts_scoped (CALENDAR_STORE json) (snd w) (as_client_id st) item_id 100 scope), st))"

end
