(* ===== verification/Calendar_Properties.thy ===== *)
theory Calendar_Properties
  imports Calendar_Drafts
begin

text \<open>
  What the calendar slice guarantees: the events it stores are well formed, attendees come from the message or
  the operator, and a calendar write is enqueued for exactly the drafts an operator approved, with the content
  that was approved.
\<close>

section \<open>Normalised input\<close>

lemma zone_ends_z: "zone_ok (v @ ''z'') \<Longrightarrow> v = []"
proof -
  assume z: "zone_ok (v @ ''z'')"
  show "v = []"
  proof (rule ccontr)
    assume "v \<noteq> []"
    with z have "length v = 5" "is_digit ((v @ ''z'') ! 5)" by (auto simp: zone_ok_def)
    then show False by (simp add: nth_append is_digit_def)
  qed
qed

lemma fraction_zone_upper: "fraction_zone_ok (v @ ''z'') \<Longrightarrow> fraction_zone_ok (v @ ''Z'')"
proof (cases "strip_prefix ''.'' v")
  case None
  assume z: "fraction_zone_ok (v @ ''z'')"
  have p: "strip_prefix ''.'' (v @ [c]) = None" if "c \<noteq> CHR ''.''" for c
    using None that by (cases v) (auto simp: strip_prefix_def split: if_splits)
  then have "zone_ok (v @ ''z'')" using z by (simp add: fraction_zone_ok_def)
  then have "v = []" by (rule zone_ends_z)
  then show ?thesis by (simp add: fraction_zone_ok_def zone_ok_def strip_prefix_def)
next
  case (Some v')
  then have v: "v = ''.'' @ v'" by (cases v) (auto simp: strip_prefix_def split: if_splits)
  assume "fraction_zone_ok (v @ ''z'')"
  then have t: "takeWhile is_digit (v' @ ''z'') \<noteq> []" and z: "zone_ok (dropWhile is_digit (v' @ ''z''))"
    by (simp_all add: fraction_zone_ok_def v strip_prefix_def)
  have nd: "\<not> is_digit (CHR ''z'')" "\<not> is_digit (CHR ''Z'')" by (simp_all add: is_digit_def)
  have all: "list_all is_digit v'"
  proof (rule ccontr)
    assume "\<not> list_all is_digit v'"
    then have "dropWhile is_digit (v' @ ''z'') = dropWhile is_digit v' @ ''z''" "dropWhile is_digit v' \<noteq> []"
      by (auto simp: dropWhile_append list_all_iff)
    with z zone_ends_z show False by metis
  qed
  then have "dropWhile is_digit (v' @ ''Z'') = ''Z''" "takeWhile is_digit (v' @ ''Z'') = v'" "takeWhile is_digit (v' @ ''z'') = v'"
    using nd by (simp_all add: dropWhile_append takeWhile_append list_all_iff)
  then show ?thesis using t by (simp add: fraction_zone_ok_def v strip_prefix_def zone_ok_def)
qed

lemma nth_snoc: "i < length u \<Longrightarrow> (u @ [c]) ! i = u ! i"
  by (simp add: nth_append)

lemma normalized_rfc3339:
  assumes "normalize_rfc3339_datetime raw = Inr s"
  shows "is_rfc3339_with_offset s"
proof -
  define c where "c = (if trim raw ! 10 = CHR ''t'' then (trim raw)[10 := CHR ''T''] else trim raw)"
  have t: "is_rfc3339_with_offset (trim raw)" and s: "s = (if last c = CHR ''z'' then butlast c @ ''Z'' else c)"
    using assms by (auto simp: normalize_rfc3339_datetime_def Let_def c_def split: if_splits)
  have c: "is_rfc3339_with_offset c"
    using t unfolding c_def by (cases "trim raw ! 10 = CHR ''t''") (simp_all add: is_rfc3339_with_offset_def)
  show ?thesis
  proof (cases "last c = CHR ''z''")
    case True
    have len: "length c \<ge> 20" using c by (simp add: is_rfc3339_with_offset_def)
    define u where "u = butlast c"
    have u: "c = u @ ''z''" using True len append_butlast_last_id [of c] unfolding u_def by fastforce
    then have lu: "length u \<ge> 19" "u \<noteq> []" using len by auto
    have "is_rfc3339_with_offset (u @ ''Z'')"
      using c lu fraction_zone_upper [of "drop 19 u"] unfolding u is_rfc3339_with_offset_def
      by (simp add: nth_append)
    then show ?thesis using s True by (simp add: u)
  qed (use c s in simp)
qed

definition attendees_ok :: "string list \<Rightarrow> bool" where
  "attendees_ok xs \<longleftrightarrow> list_all valid_calendar_attendee xs \<and> distinct (map to_ascii_lowercase xs)
     \<and> length xs \<le> MAX_CALENDAR_ATTENDEES"

lemma collect_attendees_ok:
  assumes "collect_attendees raws seen acc = Inr xs" and "list_all valid_calendar_attendee acc"
    and "distinct (map to_ascii_lowercase acc)" and "set seen = to_ascii_lowercase ` set acc"
  shows "list_all valid_calendar_attendee xs \<and> distinct (map to_ascii_lowercase xs) \<and> set xs \<subseteq> set acc \<union> trim ` set raws"
  using assms
proof (induction raws seen acc rule: collect_attendees.induct)
  case (2 raw rest seen acc)
  let ?a = "trim raw"
  have v: "valid_calendar_attendee ?a" using 2(3) by (auto simp: Let_def split: if_splits)
  show ?case
  proof (cases "to_ascii_lowercase ?a \<in> set seen")
    case True
    then have "collect_attendees rest seen acc = Inr xs" using 2(3) v by (simp add: Let_def)
    from 2(1) [OF refl refl _ True this 2(4-6)] v show ?thesis by auto
  next
    case False
    then have "collect_attendees rest (to_ascii_lowercase ?a # seen) (acc @ [?a]) = Inr xs"
      using 2(3) v by (simp add: Let_def)
    from 2(2) [OF refl refl _ False this] v 2(4-6) False show ?thesis by auto
  qed
qed auto

lemma normalize_attendees_ok:
  assumes "normalize_calendar_attendees raws = Inr xs"
  shows "attendees_ok xs" "set xs \<subseteq> trim ` set raws"
  using assms collect_attendees_ok [of raws "[]" "[]"]
  by (auto simp: normalize_calendar_attendees_def attendees_ok_def res_bind_def split: sum.splits if_splits)

lemma single_attendee: "\<not> isl (normalize_calendar_attendees [a]) \<longleftrightarrow> valid_calendar_attendee (trim a)"
  by (simp add: normalize_calendar_attendees_def MAX_CALENDAR_ATTENDEES_def Let_def)

section \<open>Extraction\<close>

text \<open>An address stands in a text when it occurs there up to case.\<close>

definition stands_in :: "string \<Rightarrow> string \<Rightarrow> bool" where
  "stands_in a source \<longleftrightarrow> (\<exists>p q. to_ascii_lowercase source = p @ to_ascii_lowercase a @ q)"

lemma match_indices_at:
  "i \<in> set (match_indices_from pat n skip s) \<Longrightarrow> n \<le> i \<and> (\<exists>q. drop (i - n) s = pat @ q)"
proof (induction pat n skip s rule: match_indices_from.induct)
  case (1 pat i skip)
  then show ?case by (auto split: if_splits)
next
  case (2 pat n skip c s)
  then show ?case by (auto simp: Suc_diff_le drop_Cons' Suc_diff_Suc dest: Suc_le_lessD)
next
  case (3 pat n c s)
  then show ?case
    by (auto simp: strip_prefix_def Suc_diff_le drop_Cons' split: if_splits dest!: Suc_le_lessD)
       (metis append_take_drop_id)+
qed

lemma lowercase_append [simp]: "to_ascii_lowercase (a @ b) = to_ascii_lowercase a @ to_ascii_lowercase b"
  by (simp add: to_ascii_lowercase_def)

lemma exact_email_stands: "quote_contains_exact_email quote email \<Longrightarrow> stands_in email quote"
  unfolding quote_contains_exact_email_def Let_def stands_in_def list_ex_iff
  by (metis append_take_drop_id match_indices_at diff_zero)

lemma stands_in_mono: "stands_in a quote \<Longrightarrow> str_contains source quote \<Longrightarrow> stands_in a source"
  unfolding stands_in_def str_contains_iff by (metis append.assoc lowercase_append)

lemma proposed_stands: "proposed_attendee (Some source) entry = Some (email, quote) \<Longrightarrow> stands_in email source \<and> trim email = email"
  by (auto simp: proposed_attendee_def bind_eq_Some_conv split: if_splits dest: exact_email_stands stands_in_mono)

lemma keep_attendees_ok:
  assumes "\<forall>(e, q) \<in> set proposed. trim e = e" and "attendees_ok kept"
  shows "attendees_ok (keep_attendees proposed kept) \<and> set (keep_attendees proposed kept) \<subseteq> set kept \<union> fst ` set proposed"
  using assms
proof (induction proposed kept rule: keep_attendees.induct)
  case (2 email q rest kept)
  show ?case
  proof (cases "isl (normalize_calendar_attendees [email]) \<or> list_ex (\<lambda>k. eq_ignore_ascii_case k email) kept")
    case True
    with 2 show ?thesis by auto
  next
    case new: False
    then have v: "valid_calendar_attendee email" using single_attendee [of email] 2(3) by auto
    show ?thesis
    proof (cases "length kept = MAX_CALENDAR_ATTENDEES")
      case True
      with new 2(4) show ?thesis by auto
    next
      case False
      have "attendees_ok (kept @ [email])"
        using new v 2(4) False by (auto simp: attendees_ok_def list_ex_iff eq_ignore_ascii_case_def)
      with 2(2) [OF new False] 2(3) new False show ?thesis by auto
    qed
  qed
qed simp

lemma set_map_filter: "set (List.map_filter f xs) = {y. \<exists>x \<in> set xs. f x = Some y}"
  by (auto simp: map_filter_def image_iff) (metis option.sel)

lemma map_filter_proposed:
  "\<forall>(e, q) \<in> set (List.map_filter (proposed_attendee (Some source)) xs). trim e = e \<and> stands_in e source"
  using proposed_stands by (fastforce simp: set_map_filter)

lemma extracted_attendees:
  assumes "parse_event_extract_response_with_evidence response (Some source) = Inr (Event e)"
  shows "attendees_ok (ee_attendees e) \<and> (\<forall>a \<in> set (ee_attendees e). stands_in a source)"
proof -
  let ?p = "List.map_filter (proposed_attendee (Some source)) (array_items response ''attendees'')"
  have a: "ee_attendees e = keep_attendees ?p []"
    using assms unfolding parse_event_extract_response_with_evidence_def
    by (auto simp: res_bind_def ok_or_def Let_def split: sum.splits option.splits if_splits)
  have "attendees_ok []" by (simp add: attendees_ok_def)
  from keep_attendees_ok [OF _ this, of ?p] map_filter_proposed [of source "array_items response ''attendees''"]
  show ?thesis unfolding a by fastforce
qed

lemma take_chars_Nil: "0 < n \<Longrightarrow> take_chars n s = [] \<longleftrightarrow> s = []"
proof -
  assume "0 < n"
  then have "take_chars n (c # t) \<noteq> []" for c t by (auto simp: take_chars_def split: list.split)
  then show ?thesis by (cases s) (auto simp: take_chars_def)
qed

text \<open>The shape every stored event has.\<close>

definition event_ok :: "calendar_draft_row \<Rightarrow> bool" where
  "event_ok r \<longleftrightarrow> cd_title r \<noteq> [] \<and> is_rfc3339_with_offset (cd_start_at r) \<and> is_rfc3339_with_offset (cd_end_at r)
     \<and> attendees_ok (cd_attendees r) \<and> (cd_send_invitations r \<longrightarrow> cd_attendees r \<noteq> [])"

lemma extracted_event_ok:
  assumes "parse_event_extract_response_with_evidence response (Some source) = Inr (Event e)"
  shows "event_ok (calendar_row_of (calendar_draft_from_extract item e attempt model now_ms))"
proof -
  have "ee_title e \<noteq> [] \<and> is_rfc3339_with_offset (ee_start_at e) \<and> is_rfc3339_with_offset (ee_end_at e)"
    using assms unfolding parse_event_extract_response_with_evidence_def
    by (auto simp: res_bind_def ok_or_def Let_def string_field_def bind_eq_Some_conv take_chars_Nil normalized_rfc3339
        split: sum.splits option.splits if_splits)
  with extracted_attendees [OF assms] show ?thesis
    by (simp add: event_ok_def calendar_row_of_def calendar_draft_from_extract_def)
qed

lemma edited_event_ok:
  assumes "normalize_edit edit = Inr e"
  shows "event_ok (set_edited e now_ms r)"
  using assms
  by (auto simp: normalize_edit_def Let_def event_ok_def set_edited_def normalized_rfc3339 normalize_attendees_ok(1)
      split: if_splits sum.splits)

section \<open>The slice honours the contract\<close>

definition calendar_job ::
    "(calendar_payload \<Rightarrow> string) \<Rightarrow> draft_key \<Rightarrow> calendar_draft_row \<Rightarrow> string \<times> string \<times> u64 \<times> string \<Rightarrow> new_outbox_job" where
  "calendar_job render k r e = (case e of (credential_user, approver, now_ms, default_calendar) \<Rightarrow>
     calendar_build_approval_job render (calendar_draft_from_row k r) credential_user approver now_ms default_calendar)"

interpretation calendar: provider_drafts CALENDAR_TABLE "calendar_job render" event_ok for render
  by unfold_locales
    (auto simp: CALENDAR_TABLE_def sql_approve_with_job_def sql_reject_def calendar_job_def calendar_build_approval_job_def
      calendar_draft_from_row_def undecided_def calendar_payload_of_def event_ok_def case_prod_beta)

inductive calendar_step ::
    "'j json_reader \<Rightarrow> (calendar_payload \<Rightarrow> string) \<Rightarrow> 'x calendar_tables_scheme db \<Rightarrow> 'x calendar_tables_scheme db \<Rightarrow> bool"
  for json render where
  Produced: "calendar_step json render db (snd (calendar_stage render' client actor item message response model attempt key now_ms db))"
| Edited: "calendar_step json render db
     (snd (snd (calendar_draft_update sha json render' auth_ms hs key requested expected draft_id edit now_ms (st, db))))"
| Decided: "calendar_step json render db
     (snd (snd (calendar_draft_action sha json render env auth_ms hs key requested expected draft_id action now_ms (st, db))))"
| Delivered: "delivery_step db db' \<Longrightarrow> calendar_step json render db db'"
| Elsewhere: "spine_step db db' \<Longrightarrow> kt_calendar_drafts (db_domain db') = kt_calendar_drafts (db_domain db)
     \<Longrightarrow> jobs_kept CALENDAR_ENTITY_KIND db db' \<Longrightarrow> jobs_evolve db db' \<Longrightarrow> calendar_step json render db db'"

definition calendar_reachable where
  "calendar_reachable json render db \<longleftrightarrow>
     (\<exists>d. kt_calendar_drafts d = [] \<and> ot_jobs d = [] \<and> (calendar_step json render)\<^sup>*\<^sup>* (empty_db d) db)"

lemma calendar_table [simp]:
  "ts_table CALENDAR_TABLE = kt_calendar_drafts" "ts_entity_kind CALENDAR_TABLE = CALENDAR_ENTITY_KIND"
  by (simp_all add: CALENDAR_TABLE_def)

lemma stage_steps:
  "snd (calendar_stage render' client actor item message response model attempt key now_ms db) = db
   \<or> draft_step CALENDAR_TABLE (calendar_job render) event_ok db
       (snd (calendar_stage render' client actor item message response model attempt key now_ms db))"
proof -
  have "dr_status (calendar_row_of d) = ''staged''" "dr_outbox_job_id (calendar_row_of d) = None" for d
    by (simp_all add: calendar_row_of_def)
  then show ?thesis
    by (auto simp: calendar_stage_def calendar_insert_draft_def split: sum.split extract_outcome.split
        intro!: draft_step.Stage extracted_event_ok)
qed

lemma update_steps:
  "snd (calendar_update_draft json render' ctx draft_id edit db) = db
   \<or> draft_step CALENDAR_TABLE (calendar_job render) event_ok db (snd (calendar_update_draft json render' ctx draft_id edit db))"
proof (cases "require_editable (CALENDAR_STORE json) db ctx ''calendar_draft_not_staged'' draft_id")
  case (Inr u)
  then obtain r where r: "hm_get (kt_calendar_drafts (db_domain db)) (sm_client_id ctx, draft_id) = Some r" "dr_status r = ''staged''"
    by (auto simp: require_editable_def require_status_scoped_def CALENDAR_STORE_def ok_or_def res_bind_def
        split: option.splits sum.splits if_splits)
  have "draft_base (set_edited e t r) = draft_base r" for e t r by (simp add: draft_base_def set_edited_def)
  then show ?thesis using r Inr
    by (auto simp: calendar_update_draft_def split: sum.split intro!: draft_step.Edit edited_event_ok)
qed (simp add: calendar_update_draft_def)

lemma get_calendar_draft:
  assumes "get_draft_scoped (CALENDAR_STORE json) db client draft_id scope = Some found"
  obtains r where "hm_get (kt_calendar_drafts (db_domain db)) (client, draft_id) = Some r"
    "cw_draft found = calendar_draft_from_row (client, draft_id) r"
  using assms that
  by (auto simp: get_draft_scoped_def CALENDAR_STORE_def mapped_row_def calendar_attach_job_summary_def
      split: option.splits if_splits)

lemma approve_steps:
  "snd (calendar_approve_action json render env ctx draft_id db) = db
   \<or> draft_step CALENDAR_TABLE (calendar_job render) event_ok db (snd (calendar_approve_action json render env ctx draft_id db))"
proof (cases "get_draft_scoped (CALENDAR_STORE json) db (sm_client_id ctx) draft_id (sm_scope ctx)")
  case (Some found)
  then obtain r where r: "hm_get (kt_calendar_drafts (db_domain db)) (sm_client_id ctx, draft_id) = Some r"
    "cw_draft found = calendar_draft_from_row (sm_client_id ctx, draft_id) r" by (rule get_calendar_draft)
  have "draft_step CALENDAR_TABLE (calendar_job render) event_ok db
      (snd (calendar_approve_draft ctx draft_id
        (calendar_build_approval_job render (cw_draft found) user actor (sm_now_ms ctx) cal) db))" for user actor cal
    using draft_step.Approve [of CALENDAR_TABLE db "from_scoped_context ctx" draft_id r "calendar_job render"
        event_ok "(user, actor, sm_now_ms ctx, cal)"] r
    by (simp add: calendar_job_def calendar_approve_draft_def from_scoped_context_def)
  then show ?thesis using Some
    by (auto simp: calendar_approve_action_def Let_def split: sum.split prod.split) (metis snd_conv)
qed (simp add: calendar_approve_action_def Let_def)

lemma calendar_is_draft_step:
  assumes "calendar_step json render db db'"
  shows "db' = db \<or> draft_step CALENDAR_TABLE (calendar_job render) event_ok db db'"
  using assms
proof cases
  case Produced
  then show ?thesis using stage_steps by blast
next
  case (Edited sha render' auth_ms hs key requested expected draft_id edit now_ms st)
  show ?thesis unfolding Edited calendar_draft_update_def
    by (rule guarded_db) (simp_all, rule update_steps)
next
  case (Decided sha env auth_ms hs key requested expected draft_id action now_ms st)
  show ?thesis unfolding Decided calendar_draft_action_def
    by (rule guarded_db)
      (auto simp: Let_def calendar_reject_draft_def case_prod_beta draft_step.Reject
        split: draft_action_kind.split intro: disjE [OF approve_steps])
next
  case Delivered
  then show ?thesis using draft_step.Deliver by blast
next
  case Elsewhere
  then show ?thesis by (intro disjI2 draft_step.Other) simp_all
qed

lemma calendar_steps_draft:
  "(calendar_step json render)\<^sup>*\<^sup>* db db' \<Longrightarrow> (draft_step CALENDAR_TABLE (calendar_job render) event_ok)\<^sup>*\<^sup>* db db'"
proof (induction rule: rtranclp_induct)
  case (step y z)
  show ?case using calendar_is_draft_step [OF step(2)] step(3) by (metis rtranclp.rtrancl_into_rtrancl)
qed simp

lemma calendar_reachable_draft:
  assumes "calendar_reachable json render db"
  shows "draft_reachable CALENDAR_TABLE (calendar_job render) event_ok db"
proof -
  obtain d where "kt_calendar_drafts d = []" "ot_jobs d = []" "(calendar_step json render)\<^sup>*\<^sup>* (empty_db d) db"
    using assms unfolding calendar_reachable_def by blast
  then show ?thesis using calendar_steps_draft unfolding draft_reachable_def calendar_table by blast
qed

lemmas calendar_ok = drafts_okD [OF calendar.reachable_ok [OF calendar_reachable_draft], unfolded calendar_table]

section \<open>Properties\<close>

text \<open>
  (C24) Exactly the approved drafts reach the outbox: in every history of the slice (produced drafts, edits and
  decisions over HTTP, the delivery pump, anything else the application does), each calendar job belongs to an
  approved draft that names it, and its payload is the event of that draft as it stands in the table; each approved
  draft has its job; and an item never has two drafts that are not rejected.
\<close>

theorem calendar_writes_are_approved:
  assumes "calendar_reachable json render db"
  shows "(\<forall>client i j. hm_get (jobs_of db) (client, i) = Some j \<longrightarrow> oj_source_entity_kind j = CALENDAR_ENTITY_KIND
       \<longrightarrow> (\<exists>r user approver t cal.
             hm_get (kt_calendar_drafts (db_domain db)) (client, oj_source_entity_id j) = Some r
           \<and> dr_status r = ''approved'' \<and> dr_outbox_job_id r = Some i
           \<and> oj_provider j = ''google_calendar'' \<and> oj_capability j = ''create_event''
           \<and> oj_payload_json j = render (calendar_payload_of
                (calendar_draft_from_row (client, oj_source_entity_id j) r) user approver t cal)))
     \<and> (\<forall>client draft_id r. hm_get (kt_calendar_drafts (db_domain db)) (client, draft_id) = Some r
       \<longrightarrow> dr_status r = ''approved''
       \<longrightarrow> (\<exists>i j. dr_outbox_job_id r = Some i \<and> hm_get (jobs_of db) (client, i) = Some j
             \<and> oj_source_entity_kind j = CALENDAR_ENTITY_KIND \<and> oj_source_entity_id j = draft_id))
     \<and> (\<forall>client a b r s. hm_get (kt_calendar_drafts (db_domain db)) (client, a) = Some r
       \<longrightarrow> hm_get (kt_calendar_drafts (db_domain db)) (client, b) = Some s \<longrightarrow> dr_item_id r = dr_item_id s
       \<longrightarrow> dr_status r \<noteq> ''rejected'' \<longrightarrow> dr_status s \<noteq> ''rejected'' \<longrightarrow> a = b)"
proof (intro conjI allI impI)
  note ok = calendar_ok [OF assms]
  fix client i j
  assume j: "hm_get (jobs_of db) (client, i) = Some j" "oj_source_entity_kind j = CALENDAR_ENTITY_KIND"
  obtain r e t where r: "hm_get (kt_calendar_drafts (db_domain db)) (client, oj_source_entity_id j) = Some r"
    "dr_status r = ''approved''" "dr_outbox_job_id r = Some i"
    "job_core j = job_core (new_row (calendar_job render (client, oj_source_entity_id j) (undecided r) e) t)"
    using ok(5) [OF j] unfolding job_authorised_def by auto
  obtain user approver at cal where e: "e = (user, approver, at, cal)" by (cases e) auto
  note f = job_core_fields(1-3) [OF r(4)]
  show "\<exists>r user approver t cal.
             hm_get (kt_calendar_drafts (db_domain db)) (client, oj_source_entity_id j) = Some r
           \<and> dr_status r = ''approved'' \<and> dr_outbox_job_id r = Some i
           \<and> oj_provider j = ''google_calendar'' \<and> oj_capability j = ''create_event''
           \<and> oj_payload_json j = render (calendar_payload_of
                (calendar_draft_from_row (client, oj_source_entity_id j) r) user approver t cal)"
    using r(1-3) f unfolding calendar.build_content
    by (intro exI [of _ r] exI [of _ user] exI [of _ approver] exI [of _ at] exI [of _ cal])
       (simp add: new_row_def calendar_job_def e calendar_build_approval_job_def)
next
  note ok = calendar_ok [OF assms]
  fix client draft_id r
  assume r: "hm_get (kt_calendar_drafts (db_domain db)) (client, draft_id) = Some r" "dr_status r = ''approved''"
  show "\<exists>i j. dr_outbox_job_id r = Some i \<and> hm_get (jobs_of db) (client, i) = Some j
             \<and> oj_source_entity_kind j = CALENDAR_ENTITY_KIND \<and> oj_source_entity_id j = draft_id"
    using ok(4) [OF r(1)] r(2) by (auto simp: row_ok_def)
next
  fix client a b r s
  assume "hm_get (kt_calendar_drafts (db_domain db)) (client, a) = Some r"
    "hm_get (kt_calendar_drafts (db_domain db)) (client, b) = Some s" "dr_item_id r = dr_item_id s"
    "dr_status r \<noteq> ''rejected''" "dr_status s \<noteq> ''rejected''"
  then show "a = b" using calendar_ok(6) [OF assms, of "(client, a)" r "(client, b)" s] by simp
qed

text \<open>(C28) A decision is final: whatever happens later, an approved or rejected calendar draft keeps every column.\<close>

theorem calendar_decisions_final:
  assumes "calendar_reachable json render db" and "(calendar_step json render)\<^sup>*\<^sup>* db db'"
    and "hm_get (kt_calendar_drafts (db_domain db)) k = Some r" and "dr_status r \<noteq> ''staged''"
  shows "hm_get (kt_calendar_drafts (db_domain db')) k = Some r"
  using calendar.decided_forever [OF calendar_reachable_draft [OF assms(1)] calendar_steps_draft [OF assms(2)]] assms(3,4)
  unfolding decided_kept_def calendar_table by blast

text \<open>
  (C25) What can be written to a calendar is well formed: every stored draft has a title, both times are RFC 3339 with an
  explicit offset, the attendees are at most 25 valid addresses without repetition up to case, and invitations
  are sent only when there is somebody to invite.
\<close>

theorem calendar_events_well_formed:
  assumes "calendar_reachable json render db" and "hm_get (kt_calendar_drafts (db_domain db)) k = Some r"
  shows "cd_title r \<noteq> [] \<and> is_rfc3339_with_offset (cd_start_at r) \<and> is_rfc3339_with_offset (cd_end_at r)
     \<and> list_all valid_calendar_attendee (cd_attendees r) \<and> distinct (map to_ascii_lowercase (cd_attendees r))
     \<and> length (cd_attendees r) \<le> 25 \<and> (cd_send_invitations r \<longrightarrow> cd_attendees r \<noteq> [])"
  using calendar_ok(7) [OF assms(1) assms(2)] by (simp add: event_ok_def attendees_ok_def MAX_CALENDAR_ATTENDEES_def)

text \<open>
  (C26) The model cannot invent an attendee: every address the extraction keeps occurs, up to the case of ASCII letters, in
  the text of the message, whatever the model answered.
\<close>

theorem extracted_attendees_occur_in_message:
  assumes "parse_event_extract_response_with_evidence response (Some (event_email_evidence message)) = Inr (Event e)"
    and "a \<in> set (ee_attendees e)"
  shows "\<exists>before after. to_ascii_lowercase (event_email_evidence message) = before @ to_ascii_lowercase a @ after"
  using extracted_attendees [OF assms(1)] assms(2) unfolding stands_in_def by blast

section \<open>A concrete history\<close>

definition sample_event_response :: json where
  "sample_event_response = JObject
     [(''extractable'', JBool True), (''title'', JString ''Site visit''), (''start_at'', JString ''2026-06-12t16:00:00z''),
      (''end_at'', JString ''2026-06-12T17:00:00-04:00''), (''timezone'', JNull), (''confidence'', JString ''high''),
      (''attendees'', JArray [JObject [(''email'', JString ''bob@x.io''), (''quote'', JString ''Bob@x.io'')]])]"

definition sample_event_message :: "string \<Rightarrow> inbound_message" where
  "sample_event_message sender = \<lparr>im_internal_date_ms = Some 1000, im_from_addr = Some sender, im_to_addr = None, im_subject = None,
     im_body_excerpt = [], im_body_full = ''Visit on Friday?'', im_headers = [], im_ingested_at_ms = 2000\<rparr>"

definition sample_item :: work_item where
  "sample_item = \<lparr>wi_item_id = ''wi1'', wi_source_kind = ''email'', wi_source_ref = ''m1'', wi_source_user_id = None\<rparr>"

definition sample_event_text :: "string \<Rightarrow> string" where
  "sample_event_text sender = ''From: '' @ sender @ NL @ ''To: (unknown)'' @ NL @ ''Cc: (none)'' @ NL @ ''Subject: (no subject)'' @ NL
     @ ''Date (epoch ms): 1000'' @ NL @ ''Email date (UTC): 1970-01-01'' @ NL @ ''Email datetime (UTC): 1970-01-01T00:00:01Z'' @ NL
     @ ''Date output format: YYYY-MM-DD. Datetime output format: RFC3339 with explicit offset or Z.'' @ NL @ NL @ ''Visit on Friday?''"

lemma sample_event_text:
  "event_email_evidence (sample_event_message sender) = sample_event_text sender"
proof -
  have "body_for_ai (sample_event_message []) = ''Visit on Friday?''"
    "email_prompt_datetime_context (sample_event_message []) = date_block ''1000'' ''1970-01-01'' ''1970-01-01T00:00:01Z''"
    by code_simp+
  moreover have "body_for_ai (sample_event_message sender) = body_for_ai (sample_event_message [])"
    "email_prompt_datetime_context (sample_event_message sender) = email_prompt_datetime_context (sample_event_message [])"
    by (simp_all add: sample_event_message_def body_for_ai_def body_for_ai_with_byte_limit_def email_prompt_datetime_context_def)
  ultimately show ?thesis
    by (simp add: event_email_evidence_def sample_event_text_def date_block_def unwrap_text_def sample_event_message_def)
qed

definition sample_extract :: event_extract where
  "sample_extract = \<lparr>ee_title = ''Site visit'', ee_start_at = ''2026-06-12T16:00:00Z'', ee_end_at = ''2026-06-12T17:00:00-04:00'',
     ee_timezone = None, ee_location = None, ee_description = None, ee_attendees = [''bob@x.io''], ee_confidence = ''high'',
     ee_provenance = [\<lparr>fp_field = ''attendee:bob@x.io'', fp_quote = ''Bob@x.io''\<rparr>]\<rparr>"

lemma sample_parsed:
  "parse_event_extract_response_with_evidence sample_event_response (Some (sample_event_text ''Bob@x.io'')) = Inr (Event sample_extract)"
  by code_simp

definition sample_json :: "unit json_reader" where
  "sample_json = \<lparr>jr_from_str = (\<lambda>_. None), jr_get = (\<lambda>_ _. None), jr_as_bool = (\<lambda>_. None), jr_as_str = (\<lambda>_. None)\<rparr>"

definition sample_calendar_start :: "calendar_tables db" where
  "sample_calendar_start = empty_db \<lparr>ot_jobs = [], at_users = [], at_api_tokens = [], at_google_credentials = [],
     at_qbo_credentials = [], st_overrides = [], ct_oauth_states = [], nt_notes = [], kt_calendar_drafts = []\<rparr>"

definition sample_event_staged :: "calendar_tables db" where
  "sample_event_staged = snd (calendar_stage (\<lambda>_. []) ''acme'' ''producer'' sample_item (sample_event_message ''Bob@x.io'')
     sample_event_response ''m'' 1 ''k1'' 3000 sample_calendar_start)"

abbreviation sample_event_action :: "string \<Rightarrow> draft_action_kind \<Rightarrow> calendar_tables db \<Rightarrow> http_response \<times> (app_state \<times> calendar_tables db)" where
  "sample_event_action key action db \<equiv> calendar_draft_action (\<lambda>x. x) sample_json cp_summary (\<lambda>_. None) 0 sample_root_headers key None None
     ''ced_wi1_1'' action 4000 (sample_app, db)"

definition sample_event_approved :: "calendar_tables db" where
  "sample_event_approved = snd (snd (sample_event_action ''k2'' ApproveDraft sample_event_staged))"

lemma sample_event_reachable:
  "calendar_reachable sample_json cp_summary sample_event_staged" "calendar_reachable sample_json cp_summary sample_event_approved"
proof -
  have a: "calendar_step sample_json cp_summary sample_calendar_start sample_event_staged"
    unfolding sample_event_staged_def by (rule calendar_step.Produced)
  have b: "calendar_step sample_json cp_summary sample_event_staged sample_event_approved"
    unfolding sample_event_approved_def by (rule calendar_step.Decided)
  have s: "calendar_reachable sample_json cp_summary sample_calendar_start"
    unfolding calendar_reachable_def sample_calendar_start_def
    by (intro exI conjI) (rule calendar_tables.select_convs outbox_tables.select_convs rtranclp.rtrancl_refl)+
  have "calendar_reachable json render z" if "calendar_reachable json render y" "calendar_step json render y z" for json render y z
    using that unfolding calendar_reachable_def by (meson rtranclp.rtrancl_into_rtrancl)
  with s a b show "calendar_reachable sample_json cp_summary sample_event_staged" "calendar_reachable sample_json cp_summary sample_event_approved"
    by blast+
qed

lemma sample_event_staged [code]:
  "sample_event_staged = snd (calendar_insert_draft (\<lambda>_. []) ''acme'' ''producer''
     (calendar_draft_from_extract sample_item sample_extract 1 ''m'' 3000) ''k1'' sample_calendar_start)"
  by (simp add: sample_event_staged_def calendar_stage_def sample_event_text sample_parsed)

text \<open>One evaluation of the approval answers every question the examples below ask of it.\<close>

definition sample_event_outcome :: "calendar_tables db \<Rightarrow> string option \<times> string option \<times> http_response" where
  "sample_event_outcome db =
     (map_option oj_source_entity_kind (hm_get (jobs_of db) (''acme'', ''obj_ced_wi1_1'')),
      map_option dr_status (hm_get (kt_calendar_drafts (db_domain db)) (''acme'', ''ced_wi1_1'')),
      fst (sample_event_action ''k2'' ApproveDraft db))"

lemma sample_event_outcome:
  "sample_event_outcome sample_event_approved
     = (Some CALENDAR_ENTITY_KIND, Some ''approved'', error_response 422 ''calendar_draft_not_staged:approved'')"
  by code_simp

lemmas sample_event_outcomes = sample_event_outcome [unfolded sample_event_outcome_def prod.inject]

theorem calendar_writes_are_approved_witness:
  "\<exists>j r user approver t cal. hm_get (jobs_of sample_event_approved) (''acme'', ''obj_ced_wi1_1'') = Some j
     \<and> hm_get (kt_calendar_drafts (db_domain sample_event_approved)) (''acme'', oj_source_entity_id j) = Some r
     \<and> dr_status r = ''approved'' \<and> oj_payload_json j = cp_summary (calendar_payload_of
           (calendar_draft_from_row (''acme'', oj_source_entity_id j) r) user approver t cal)"
proof -
  have "map_option oj_source_entity_kind (hm_get (jobs_of sample_event_approved) (''acme'', ''obj_ced_wi1_1'')) = Some CALENDAR_ENTITY_KIND"
    using sample_event_outcomes by blast
  then obtain j where j: "hm_get (jobs_of sample_event_approved) (''acme'', ''obj_ced_wi1_1'') = Some j"
    "oj_source_entity_kind j = CALENDAR_ENTITY_KIND" by auto
  from calendar_writes_are_approved [OF sample_event_reachable(2)] j show ?thesis by blast
qed

theorem calendar_decisions_final_witness:
  "\<exists>r. hm_get (kt_calendar_drafts (db_domain (snd (snd (sample_event_action ''k3'' RejectDraft sample_event_approved))))) (''acme'', ''ced_wi1_1'')
       = Some r \<and> dr_status r = ''approved''"
proof -
  have "map_option dr_status (hm_get (kt_calendar_drafts (db_domain sample_event_approved)) (''acme'', ''ced_wi1_1'')) = Some ''approved''"
    using sample_event_outcomes by blast
  then obtain r where r: "hm_get (kt_calendar_drafts (db_domain sample_event_approved)) (''acme'', ''ced_wi1_1'') = Some r"
    "dr_status r = ''approved''" by auto
  show ?thesis
    using calendar_decisions_final [OF sample_event_reachable(2) r_into_rtranclp [where r = "calendar_step sample_json cp_summary",
          OF calendar_step.Decided] r(1)] r(2) by auto
qed

theorem calendar_events_well_formed_witness:
  "\<exists>r. hm_get (kt_calendar_drafts (db_domain sample_event_staged)) (''acme'', ''ced_wi1_1'') = Some r
     \<and> is_rfc3339_with_offset (cd_start_at r) \<and> cd_attendees r = [''bob@x.io'']"
proof -
  have "map_option cd_attendees (hm_get (kt_calendar_drafts (db_domain sample_event_staged)) (''acme'', ''ced_wi1_1'')) = Some [''bob@x.io'']"
    by code_simp
  then obtain r where r: "hm_get (kt_calendar_drafts (db_domain sample_event_staged)) (''acme'', ''ced_wi1_1'') = Some r"
    "cd_attendees r = [''bob@x.io'']" by auto
  from calendar_events_well_formed [OF sample_event_reachable(1) r(1)] r show ?thesis by blast
qed

theorem extracted_attendees_occur_in_message_witness:
  "\<exists>before after. to_ascii_lowercase (event_email_evidence (sample_event_message ''Bob@x.io'')) = before @ ''bob@x.io'' @ after"
proof -
  have p: "parse_event_extract_response_with_evidence sample_event_response
      (Some (event_email_evidence (sample_event_message ''Bob@x.io''))) = Inr (Event sample_extract)"
    by (simp only: sample_event_text sample_parsed)
  have "''bob@x.io'' \<in> set (ee_attendees sample_extract)" "to_ascii_lowercase ''bob@x.io'' = ''bob@x.io''" by code_simp+
  with extracted_attendees_occur_in_message [OF p] show ?thesis by metis
qed

text \<open>
  The check that an address is not part of a longer one looks at the characters around it in the quote the model gives,
  not in the message: a quote that starts inside an address passes.
\<close>

lemma partial_address_accepted:
  "parse_event_extract_response_with_evidence sample_event_response
     (Some (event_email_evidence (sample_event_message ''jimBob@x.io''))) = Inr (Event sample_extract)"
  unfolding sample_event_text by code_simp

text \<open>
  The status is read before the mutation looks for the idempotency key: an approval that is sent again with its key is
  answered with an error, not with the receipt of the first call.
\<close>

lemma approval_retry_is_refused:
  "fst (sample_event_action ''k2'' ApproveDraft sample_event_approved) = error_response 422 ''calendar_draft_not_staged:approved''"
  using sample_event_outcomes by blast

end
