(* ===== verification/Crm_Drafts.thy ===== *)
theory Crm_Drafts
  imports Calendar_Properties
begin

text \<open>
  \<open>slices/crm_drafts\<close>: CRM notes the model fills from a message, with the two providers a note can be delivered to. The search of
  existing contacts in EspoCRM, the parsing of payloads and the live clients are parameters; the dry-run clients and the
  choice between live and dry run (\<open>bos-integrations/hubspot.rs\<close>, \<open>espocrm.rs\<close>) are modelled. The automatic request for record
  drafts after staging is not.
\<close>

section \<open>The table\<close>

record crm_draft_row = draft_row +
  nd_note_body :: string
  nd_contact_email :: "string option"
  nd_occurred_at :: string
  nd_provenance :: "field_provenance list"
  nd_model :: string
  nd_confidence :: string

record crm_tables = calendar_tables +
  kt_crm_drafts :: "(draft_key, crm_draft_row) hash_map"

definition CRM_ENTITY_KIND :: string where "CRM_ENTITY_KIND = ''crm_note_draft''"

definition CRM_TABLE :: "('x crm_tables_scheme, crm_draft_row) draft_table_spec" where
  "CRM_TABLE =
     \<lparr>ts_table = kt_crm_drafts, ts_store = (\<lambda>rows d. d\<lparr>kt_crm_drafts := rows\<rparr>), ts_entity_kind = CRM_ENTITY_KIND,
      ts_not_found_code = ''crm_draft_not_found'', ts_not_staged_code = ''crm_draft_not_staged'',
      ts_approve_sql = WithJob sql_approve_with_job, ts_reject_sql = sql_reject\<rparr>"

datatype crm_draft_status = CrmStaged | CrmApproved | CrmRejected

definition crm_status_from_str :: "string \<Rightarrow> crm_draft_status" where
  "crm_status_from_str raw =
     (if raw = ''approved'' then CrmApproved else if raw = ''rejected'' then CrmRejected else CrmStaged)"

record crm_note_draft =
  cn_draft_id :: string
  cn_item_id :: string
  cn_source_kind :: string
  cn_source_ref :: string
  cn_status :: crm_draft_status
  cn_source_user_id :: "string option"
  cn_note_body :: string
  cn_contact_email :: "string option"
  cn_occurred_at :: string
  cn_provenance :: "field_provenance list"
  cn_model :: string
  cn_confidence :: string
  cn_outbox_job_id :: "string option"
  cn_created_at_ms :: u64
  cn_updated_at_ms :: u64

record crm_draft_with_revision =
  nw_draft :: crm_note_draft
  nw_revision :: u64
  nw_outbox_job :: "outbox_job_summary option"

definition crm_draft_from_row :: "draft_key \<Rightarrow> crm_draft_row \<Rightarrow> crm_note_draft" where
  "crm_draft_from_row k r =
     \<lparr>cn_draft_id = snd k, cn_item_id = dr_item_id r, cn_source_kind = dr_source_kind r, cn_source_ref = dr_source_ref r,
      cn_status = crm_status_from_str (dr_status r), cn_source_user_id = dr_source_user_id r,
      cn_note_body = nd_note_body r, cn_contact_email = nd_contact_email r, cn_occurred_at = nd_occurred_at r,
      cn_provenance = nd_provenance r, cn_model = nd_model r, cn_confidence = nd_confidence r,
      cn_outbox_job_id = dr_outbox_job_id r, cn_created_at_ms = dr_created_at_ms r, cn_updated_at_ms = dr_updated_at_ms r\<rparr>"

definition crm_attach_job_summary ::
    "'j json_reader \<Rightarrow> 'x crm_tables_scheme db \<Rightarrow> string \<Rightarrow> crm_draft_with_revision \<Rightarrow> crm_draft_with_revision" where
  "crm_attach_job_summary json db client entry =
     (case cn_outbox_job_id (nw_draft entry) of
        None \<Rightarrow> entry
      | Some job_id \<Rightarrow> entry\<lparr>nw_outbox_job := job_summary json db client job_id\<rparr>)"

definition CRM_STORE :: "'j json_reader \<Rightarrow> ('x crm_tables_scheme, crm_draft_row, crm_draft_with_revision) draft_store" where
  "CRM_STORE json =
     \<lparr>st_table = kt_crm_drafts, st_entity_kind = CRM_ENTITY_KIND, st_not_found = ''crm_draft_not_found'',
      st_map_row = (\<lambda>k r revision. \<lparr>nw_draft = crm_draft_from_row k r, nw_revision = revision, nw_outbox_job = None\<rparr>),
      st_attach = crm_attach_job_summary json, st_source_user_id = (\<lambda>entry. cn_source_user_id (nw_draft entry))\<rparr>"

definition crm_row_of :: "crm_note_draft \<Rightarrow> crm_draft_row" where
  "crm_row_of d =
     \<lparr>dr_item_id = cn_item_id d, dr_source_kind = cn_source_kind d, dr_source_ref = cn_source_ref d,
      dr_source_user_id = cn_source_user_id d, dr_status = ''staged'', dr_outbox_job_id = None,
      dr_created_at_ms = cn_created_at_ms d, dr_updated_at_ms = cn_created_at_ms d, nd_note_body = cn_note_body d,
      nd_contact_email = cn_contact_email d, nd_occurred_at = cn_occurred_at d, nd_provenance = cn_provenance d,
      nd_model = cn_model d, nd_confidence = cn_confidence d\<rparr>"

definition crm_insert_draft ::
    "(crm_note_draft \<Rightarrow> string) \<Rightarrow> string \<Rightarrow> string \<Rightarrow> crm_note_draft \<Rightarrow> string \<Rightarrow> ('x crm_tables_scheme, mutation_outcome) db_op" where
  "crm_insert_draft render client actor draft key =
     mutate (stage_request client CRM_ENTITY_KIND (cn_draft_id draft) actor key (cn_item_id draft) (render draft)
               (cn_created_at_ms draft))
       (stage_write CRM_TABLE ''crm_draft_already_active'' (client, cn_draft_id draft) (crm_row_of draft))"

definition crm_approve_draft ::
    "scoped_mutation_context \<Rightarrow> string \<Rightarrow> new_outbox_job \<Rightarrow> ('x crm_tables_scheme, mutation_outcome) db_op" where
  "crm_approve_draft ctx draft_id job = approve (from_scoped_context ctx) CRM_TABLE draft_id (Some job)"

definition crm_reject_draft :: "scoped_mutation_context \<Rightarrow> string \<Rightarrow> ('x crm_tables_scheme, mutation_outcome) db_op" where
  "crm_reject_draft ctx draft_id = reject (from_scoped_context ctx) CRM_TABLE draft_id"

definition normalize_note :: "string \<Rightarrow> string option \<Rightarrow> store_error + string \<times> string option" where
  "normalize_note note_body_raw contact_email_raw =
     (let note_body = take_chars 2000 (trim note_body_raw);
          contact_email = Option.bind (map_option trim contact_email_raw) non_empty
      in if note_body = [] then Inl (Domain ''crm_draft_body_required'')
         else case contact_email of
           None \<Rightarrow> Inr (note_body, None)
         | Some email \<Rightarrow>
             if CHR ''@'' \<notin> set email then Inl (Domain ''crm_draft_contact_email_invalid'') else Inr (note_body, Some email))"

definition set_note :: "string \<times> string option \<Rightarrow> u64 \<Rightarrow> crm_draft_row \<Rightarrow> crm_draft_row" where
  "set_note e now_ms r = r\<lparr>nd_note_body := fst e, nd_contact_email := snd e, dr_updated_at_ms := now_ms\<rparr>"

definition crm_update_draft ::
    "'j json_reader \<Rightarrow> (string \<times> string option \<Rightarrow> string) \<Rightarrow> scoped_mutation_context \<Rightarrow> string \<Rightarrow> string \<Rightarrow> string option
       \<Rightarrow> ('x crm_tables_scheme, mutation_outcome) db_op" where
  "crm_update_draft json render ctx draft_id note_body_raw contact_email_raw db =
     (case require_editable (CRM_STORE json) db ctx ''crm_draft_not_staged'' draft_id of
        Inl e \<Rightarrow> (Inl e, db)
      | Inr _ \<Rightarrow>
          (case normalize_note note_body_raw contact_email_raw of
             Inl e \<Rightarrow> (Inl e, db)
           | Inr e \<Rightarrow>
               (case hm_get (kt_crm_drafts (db_domain db)) (sm_client_id ctx, draft_id) of
                  None \<Rightarrow> (Inl (Sqlite ''Query returned no rows''), db)
                | Some row \<Rightarrow>
                    mutate (edit_request ctx CRM_ENTITY_KIND draft_id (render (nd_note_body row, nd_contact_email row)) (render e))
                      (edit_write CRM_TABLE (sm_client_id ctx, draft_id) (set_note e (sm_now_ms ctx))) db)))"

section \<open>The fill\<close>

definition CRM_PROVENANCE_FIELDS :: "string list" where "CRM_PROVENANCE_FIELDS = [''note_body'', ''contact_email'']"

record note_fill =
  nf_note_body :: string
  nf_contact_email :: "string option"
  nf_confidence :: string
  nf_provenance :: "field_provenance list"

text \<open>The loop over the provenance entries, for the fields a slice allows.\<close>

definition provenance_entry :: "string list \<Rightarrow> json \<Rightarrow> field_provenance option" where
  "provenance_entry allowed entry =
     Option.bind (get_str entry ''field'') (\<lambda>raw.
       if trim raw \<notin> set allowed then None
       else Some \<lparr>fp_field = trim raw,
                  fp_quote = take_chars 300 (trim (unwrap_text (get_str entry ''quote'') []))\<rparr>)"

definition has_whitespace :: "string \<Rightarrow> bool" where
  "has_whitespace s \<longleftrightarrow> list_ex (\<lambda>ch. ch \<in> set ws_seqs) (utf8_chars s)"

definition email_field :: "json \<Rightarrow> string \<Rightarrow> string option" where
  "email_field response key =
     Option.bind (string_field response key) (\<lambda>raw. if CHR ''@'' \<in> set raw \<and> \<not> has_whitespace raw then Some raw else None)"

definition confidence_field :: "json \<Rightarrow> string option" where
  "confidence_field response =
     Option.bind (string_field response ''confidence'') (\<lambda>raw.
       if raw \<in> {''high'', ''medium'', ''low''} then Some raw else None)"

definition parse_note_fill_response :: "json \<Rightarrow> string + note_fill" where
  "parse_note_fill_response response =
     res_bind (ok_or ''note_body missing or empty'' (string_field response ''note_body'')) (\<lambda>note_body.
     res_bind (ok_or ''confidence missing or invalid'' (confidence_field response)) (\<lambda>confidence.
       Inr \<lparr>nf_note_body = take_chars 4000 note_body, nf_contact_email = email_field response ''contact_email'',
            nf_confidence = confidence,
            nf_provenance = List.map_filter (provenance_entry CRM_PROVENANCE_FIELDS) (array_items response ''provenance'')\<rparr>))"

definition source_ms :: "inbound_message \<Rightarrow> u64" where
  "source_ms message =
     (let ms = (case im_internal_date_ms message of None \<Rightarrow> im_ingested_at_ms message | Some t \<Rightarrow> t)
      in if sint ms < 0 then 0 else ms)"

definition crm_draft_from_fill ::
    "work_item \<Rightarrow> inbound_message \<Rightarrow> note_fill \<Rightarrow> u64 \<Rightarrow> string \<Rightarrow> u64 \<Rightarrow> crm_note_draft" where
  "crm_draft_from_fill item message fill attempt model now_ms =
     \<lparr>cn_draft_id = ''cnd_'' @ wi_item_id item @ ''_'' @ dec_string (unat attempt), cn_item_id = wi_item_id item,
      cn_source_kind = wi_source_kind item, cn_source_ref = wi_source_ref item, cn_status = CrmStaged,
      cn_source_user_id = wi_source_user_id item, cn_note_body = nf_note_body fill,
      cn_contact_email = nf_contact_email fill, cn_occurred_at = epoch_ms_to_rfc3339_utc (source_ms message),
      cn_provenance = nf_provenance fill, cn_model = model, cn_confidence = nf_confidence fill,
      cn_outbox_job_id = None, cn_created_at_ms = now_ms, cn_updated_at_ms = now_ms\<rparr>"

definition crm_stage ::
    "(crm_note_draft \<Rightarrow> string) \<Rightarrow> string \<Rightarrow> string \<Rightarrow> work_item \<Rightarrow> inbound_message \<Rightarrow> json \<Rightarrow> string \<Rightarrow> u64 \<Rightarrow> string \<Rightarrow> u64
       \<Rightarrow> ('x crm_tables_scheme, unit) db_op" where
  "crm_stage render client actor item message response model attempt key now_ms db =
     (case parse_note_fill_response response of
        Inl _ \<Rightarrow> (Inl (Domain ''crm_fill_invalid_response''), db)
      | Inr fill \<Rightarrow>
          op_map (\<lambda>_. ()) (crm_insert_draft render client actor (crm_draft_from_fill item message fill attempt model now_ms) key) db)"

section \<open>Approval\<close>

datatype crm_provider = Hubspot | Espocrm

fun provider_name :: "crm_provider \<Rightarrow> string" where
  "provider_name Hubspot = ''hubspot''"
| "provider_name Espocrm = ''espocrm''"

definition configured_crm_provider :: "environment \<Rightarrow> string + crm_provider" where
  "configured_crm_provider env =
     (let raw = to_ascii_lowercase (trim (unwrap_text (env_string env BOS_CRM_PROVIDER) ''hubspot''))
      in if raw = ''hubspot'' then Inr Hubspot
         else if raw = ''espocrm'' then Inr Espocrm
         else Inl (''unknown BOS_CRM_PROVIDER: '' @ raw))"

record approval_metadata =
  ap_approval_id :: string
  ap_approved_by :: string
  ap_approved_at :: string

record note_payload =
  np_idempotency_key :: string
  np_approval :: approval_metadata
  np_note_body :: string
  np_occurred_at :: string
  np_contact_email :: "string option"

definition note_text :: "crm_note_draft \<Rightarrow> string" where
  "note_text draft =
     cn_note_body draft
     @ (case cn_contact_email draft of None \<Rightarrow> [] | Some email \<Rightarrow> NL @ NL @ ''Contact: '' @ email)
     @ NL @ ''Source: '' @ cn_source_kind draft @ '' '' @ cn_source_ref draft @ '' (via BusinessOS, draft ''
     @ cn_draft_id draft @ '')''"

text \<open>HubSpot payloads have no contact field.\<close>

definition note_payload_of :: "crm_note_draft \<Rightarrow> string \<Rightarrow> u64 \<Rightarrow> crm_provider \<Rightarrow> note_payload" where
  "note_payload_of draft actor now_ms provider =
     \<lparr>np_idempotency_key = ''crmdraft:'' @ cn_draft_id draft,
      np_approval = \<lparr>ap_approval_id = ''appr_'' @ cn_draft_id draft, ap_approved_by = actor,
                     ap_approved_at = epoch_ms_to_rfc3339_utc now_ms\<rparr>,
      np_note_body = note_text draft, np_occurred_at = cn_occurred_at draft,
      np_contact_email = (case provider of Hubspot \<Rightarrow> None | Espocrm \<Rightarrow> cn_contact_email draft)\<rparr>"

definition crm_build_approval_job ::
    "(note_payload \<Rightarrow> string) \<Rightarrow> crm_note_draft \<Rightarrow> string \<Rightarrow> u64 \<Rightarrow> crm_provider \<Rightarrow> new_outbox_job" where
  "crm_build_approval_job render draft actor now_ms provider =
     \<lparr>nj_job_id = ''obj_'' @ cn_draft_id draft, nj_provider = provider_name provider, nj_capability = ''create_note'',
      nj_payload_json = render (note_payload_of draft actor now_ms provider), nj_source_entity_kind = CRM_ENTITY_KIND,
      nj_source_entity_id = cn_draft_id draft, nj_correlation_id = Some (cn_item_id draft), nj_causation_id = None,
      nj_idempotency_key = ''crmdraft:'' @ cn_draft_id draft\<rparr>"

text \<open>\<open>find_contact\<close> is the EspoCRM search: the identifier of the contact with that address.\<close>

definition crm_approve_action ::
    "'j json_reader \<Rightarrow> (note_payload \<Rightarrow> string) \<Rightarrow> environment \<Rightarrow> (string \<Rightarrow> string option) \<Rightarrow> scoped_mutation_context \<Rightarrow> string
       \<Rightarrow> 'x crm_tables_scheme db \<Rightarrow> http_response \<times> 'x crm_tables_scheme db" where
  "crm_approve_action json render env find_contact ctx draft_id db =
     (case get_draft_scoped (CRM_STORE json) db (sm_client_id ctx) draft_id (sm_scope ctx) of
        None \<Rightarrow> (error_response 422 ''crm_draft_not_found'', db)
      | Some found \<Rightarrow>
          (case configured_crm_provider env of
             Inl _ \<Rightarrow> (error_response 500 ''crm_provider_invalid'', db)
           | Inr provider \<Rightarrow>
               if provider = Espocrm
                  \<and> (case cn_contact_email (nw_draft found) of None \<Rightarrow> False | Some email \<Rightarrow> find_contact email = None)
               then (error_response 422 ''crm_note_records_first'', db)
               else
                 (case crm_approve_draft ctx draft_id
                         (crm_build_approval_job render (nw_draft found) (sm_actor_id ctx) (sm_now_ms ctx) provider) db of
                    (r, db') \<Rightarrow> (mutation_result r, db'))))"

definition crm_draft_action ::
    "(string \<Rightarrow> string) \<Rightarrow> 'j json_reader \<Rightarrow> (note_payload \<Rightarrow> string) \<Rightarrow> environment \<Rightarrow> (string \<Rightarrow> string option) \<Rightarrow> u64 \<Rightarrow> headers
       \<Rightarrow> string \<Rightarrow> string option \<Rightarrow> u64 option \<Rightarrow> string \<Rightarrow> draft_action_kind \<Rightarrow> u64
       \<Rightarrow> app_state \<times> 'x crm_tables_scheme db \<Rightarrow> http_response \<times> (app_state \<times> 'x crm_tables_scheme db)" where
  "crm_draft_action sha json render env find_contact auth_ms hs key requested expected draft_id action now_ms =
     guarded sha auth_ms hs (\<lambda>_. Inr ()) key (\<lambda>auth w.
       let ctx = \<lparr>sm_client_id = as_client_id (fst w), sm_actor_id = actor_or auth requested,
                  sm_scope = au_scope auth, sm_expected_revision = expected, sm_idempotency_key = key,
                  sm_now_ms = now_ms\<rparr>
       in case action of
            ApproveDraft \<Rightarrow>
              (case crm_approve_action json render env find_contact ctx draft_id (snd w) of (resp, db') \<Rightarrow> (resp, (fst w, db')))
          | RejectDraft \<Rightarrow> on_db (crm_reject_draft ctx draft_id) mutation_result w)"

definition crm_draft_update ::
    "(string \<Rightarrow> string) \<Rightarrow> 'j json_reader \<Rightarrow> (string \<times> string option \<Rightarrow> string) \<Rightarrow> u64 \<Rightarrow> headers \<Rightarrow> string
       \<Rightarrow> string option \<Rightarrow> u64 option \<Rightarrow> string \<Rightarrow> string \<Rightarrow> string option \<Rightarrow> u64
       \<Rightarrow> app_state \<times> 'x crm_tables_scheme db \<Rightarrow> http_response \<times> (app_state \<times> 'x crm_tables_scheme db)" where
  "crm_draft_update sha json render auth_ms hs key requested expected draft_id note_body contact_email now_ms =
     guarded sha auth_ms hs (\<lambda>_. Inr ()) key (\<lambda>auth w.
       on_db (crm_update_draft json render
                \<lparr>sm_client_id = as_client_id (fst w), sm_actor_id = actor_or auth requested,
                 sm_scope = au_scope auth, sm_expected_revision = expected, sm_idempotency_key = key,
                 sm_now_ms = now_ms\<rparr> draft_id note_body contact_email) mutation_result w)"

definition crm_drafts_list ::
    "(string \<Rightarrow> string) \<Rightarrow> 'j json_reader \<Rightarrow> u64 \<Rightarrow> headers \<Rightarrow> string option
       \<Rightarrow> app_state \<times> 'x crm_tables_scheme db \<Rightarrow> (http_error + crm_draft_with_revision list) \<times> app_state" where
  "crm_drafts_list sha json auth_ms hs item_id w =
     (case require_scope sha (snd w) auth_ms hs (fst w) of
        (Inl e, st) \<Rightarrow> (Inl e, st)
      | (Inr scope, st) \<Rightarrow>
          (Inr (list_drafts_scoped (CRM_STORE json) (snd w) (as_client_id st) item_id 100 scope), st))"

section \<open>Delivery\<close>

datatype 'r write_result = Written 'r | WriteRetryable string string | WritePermanent string string

record note_response =
  ns_dry_run :: bool
  ns_reason :: "string option"
  ns_note_id :: string

definition approval_complete :: "approval_metadata \<Rightarrow> bool" where
  "approval_complete a \<longleftrightarrow> trim (ap_approval_id a) \<noteq> [] \<and> trim (ap_approved_by a) \<noteq> [] \<and> trim (ap_approved_at a) \<noteq> []"

text \<open>Both providers validate a note the same way, with their name in front of the codes.\<close>

definition validate_note :: "string \<Rightarrow> note_payload \<Rightarrow> (string \<times> string) option" where
  "validate_note name p =
     (if \<not> approval_complete (np_approval p) then Some (name @ ''_approval_missing'', name @ '' write approval metadata is incomplete'')
      else if trim (np_idempotency_key p) = [] then Some (name @ ''_idempotency_key_missing'', name @ '' write idempotency key is required'')
      else if trim (np_note_body p) = [] then Some (name @ ''_note_body_empty'', name @ '' note body is empty'')
      else None)"

definition dry_run_note :: "string \<Rightarrow> note_payload \<Rightarrow> note_response write_result" where
  "dry_run_note name p =
     (case validate_note name p of
        Some (code, message) \<Rightarrow> WritePermanent code message
      | None \<Rightarrow> Written \<lparr>ns_dry_run = True, ns_reason = Some (name @ ''_write_disabled_dry_run''), ns_note_id = ''dry-run''\<rparr>)"

definition present :: "string option \<Rightarrow> string option" where
  "present v = Option.bind (map_option trim v) non_empty"

text \<open>\<open>live\<close> creates the note at the provider with the given credentials.\<close>

definition hubspot_execution_client ::
    "(string \<Rightarrow> note_payload \<Rightarrow> note_response write_result) \<Rightarrow> string option \<Rightarrow> bool \<Rightarrow> note_payload \<Rightarrow> note_response write_result" where
  "hubspot_execution_client live access_token write_enabled =
     (if \<not> write_enabled then dry_run_note ''hubspot''
      else case present access_token of None \<Rightarrow> dry_run_note ''hubspot'' | Some token \<Rightarrow> live token)"

definition espocrm_execution_client ::
    "(string \<Rightarrow> string \<Rightarrow> note_payload \<Rightarrow> note_response write_result) \<Rightarrow> string option \<Rightarrow> string option \<Rightarrow> bool
       \<Rightarrow> note_payload \<Rightarrow> note_response write_result" where
  "espocrm_execution_client live base_url api_key write_enabled =
     (if \<not> write_enabled then dry_run_note ''espocrm''
      else case (present base_url, present api_key) of
             (Some url, Some key) \<Rightarrow> live url key
           | _ \<Rightarrow> dry_run_note ''espocrm'')"

text \<open>What an executor makes of an answer of its client; \<open>render\<close> is the JSON of the result.\<close>

definition attempt_of_write ::
    "('r \<Rightarrow> string) \<Rightarrow> (string \<Rightarrow> string) \<Rightarrow> claimed_job \<Rightarrow> u64 \<Rightarrow> 'r write_result \<Rightarrow> attempt_outcome" where
  "attempt_of_write render render_message job now_ms r =
     (case r of
        Written response \<Rightarrow> Delivered (render response)
      | WriteRetryable code message \<Rightarrow> Retry code (now_ms + retry_backoff_ms (cj_attempts job))
      | WritePermanent code message \<Rightarrow> Terminal (provider_error_detail code message) (Some (render_message message)))"

definition unsupported_job :: "claimed_job \<Rightarrow> attempt_outcome" where
  "unsupported_job job = Terminal (''outbox_unsupported_job:'' @ cj_provider job @ '':'' @ cj_capability job) None"

definition execute_note_job ::
    "string \<Rightarrow> (string \<Rightarrow> string + note_payload) \<Rightarrow> (note_response \<Rightarrow> string) \<Rightarrow> (string \<Rightarrow> string)
       \<Rightarrow> (note_payload \<Rightarrow> note_response write_result) \<Rightarrow> claimed_job \<Rightarrow> u64 \<Rightarrow> attempt_outcome" where
  "execute_note_job name from_str render render_message client job now_ms =
     (if cj_provider job \<noteq> name \<or> cj_capability job \<noteq> ''create_note'' then unsupported_job job
      else case from_str (cj_payload_json job) of
             Inl err \<Rightarrow> Terminal (name @ ''_payload_invalid:'' @ err) None
           | Inr payload \<Rightarrow> attempt_of_write render render_message job now_ms (client payload))"

definition deliver_hubspot ::
    "(string \<Rightarrow> note_payload \<Rightarrow> note_response write_result) \<Rightarrow> (string \<Rightarrow> string + note_payload) \<Rightarrow> (note_response \<Rightarrow> string)
       \<Rightarrow> (string \<Rightarrow> string) \<Rightarrow> environment \<Rightarrow> 'x settings_tables_scheme db \<Rightarrow> string \<Rightarrow> claimed_job \<Rightarrow> u64 \<Rightarrow> attempt_outcome" where
  "deliver_hubspot live from_str render render_message env db client job now_ms =
     execute_note_job ''hubspot'' from_str render render_message
       (hubspot_execution_client live (env_string env BOS_HUBSPOT_ACCESS_TOKEN)
          (setting_flag env db client BOS_HUBSPOT_WRITE_ENABLED)) job now_ms"

text \<open>
  Before an EspoCRM write the contact is looked up with \<open>lookup\<close>, when the instance is configured; its identifier goes to the live
  client.
\<close>

definition deliver_espocrm ::
    "(string \<Rightarrow> string \<Rightarrow> string option \<Rightarrow> note_payload \<Rightarrow> note_response write_result) \<Rightarrow> (string \<Rightarrow> string option)
       \<Rightarrow> (string \<Rightarrow> string + note_payload) \<Rightarrow> (note_response \<Rightarrow> string) \<Rightarrow> (string \<Rightarrow> string) \<Rightarrow> environment
       \<Rightarrow> 'x settings_tables_scheme db \<Rightarrow> string \<Rightarrow> claimed_job \<Rightarrow> u64 \<Rightarrow> attempt_outcome" where
  "deliver_espocrm live lookup from_str render render_message env db client job now_ms =
     execute_note_job ''espocrm'' from_str render render_message
       (\<lambda>payload. espocrm_execution_client (\<lambda>url key. live url key (Option.bind (np_contact_email payload) lookup))
          (env_string env BOS_ESPOCRM_BASE_URL) (env_string env BOS_ESPOCRM_API_KEY)
          (setting_flag env db client BOS_ESPOCRM_WRITE_ENABLED) payload) job now_ms"

section \<open>The slice honours the contract\<close>

text \<open>A stored note has a body, and a contact address has an at sign.\<close>

definition note_ok :: "crm_draft_row \<Rightarrow> bool" where
  "note_ok r \<longleftrightarrow> nd_note_body r \<noteq> [] \<and> (\<forall>email. nd_contact_email r = Some email \<longrightarrow> CHR ''@'' \<in> set email)"

definition crm_job ::
    "(note_payload \<Rightarrow> string) \<Rightarrow> draft_key \<Rightarrow> crm_draft_row \<Rightarrow> string \<times> u64 \<times> crm_provider \<Rightarrow> new_outbox_job" where
  "crm_job render k r e = (case e of (actor, now_ms, provider) \<Rightarrow>
     crm_build_approval_job render (crm_draft_from_row k r) actor now_ms provider)"

lemma crm_job_content: "crm_job render k (undecided r) e = crm_job render k r e"
  by (cases e)
    (simp add: crm_job_def crm_build_approval_job_def crm_draft_from_row_def undecided_def note_payload_of_def note_text_def
      cong: crm_provider.case_cong option.case_cong)

interpretation crm: provider_drafts CRM_TABLE "crm_job render" note_ok for render
  by unfold_locales
    (auto simp: CRM_TABLE_def sql_approve_with_job_def sql_reject_def crm_job_content, auto simp: crm_job_def
      crm_build_approval_job_def crm_draft_from_row_def undecided_def note_ok_def)

inductive crm_step :: "'j json_reader \<Rightarrow> (note_payload \<Rightarrow> string) \<Rightarrow> 'x crm_tables_scheme db \<Rightarrow> 'x crm_tables_scheme db \<Rightarrow> bool"
  for json render where
  Produced: "crm_step json render db (snd (crm_stage render' client actor item message response model attempt key now_ms db))"
| Edited: "crm_step json render db
     (snd (snd (crm_draft_update sha json render'' auth_ms hs key requested expected draft_id body email now_ms (st, db))))"
| Decided: "crm_step json render db
     (snd (snd (crm_draft_action sha json render env lookup auth_ms hs key requested expected draft_id action now_ms (st, db))))"
| Delivered: "delivery_step db db' \<Longrightarrow> crm_step json render db db'"
| Elsewhere: "spine_step db db' \<Longrightarrow> kt_crm_drafts (db_domain db') = kt_crm_drafts (db_domain db)
     \<Longrightarrow> jobs_kept CRM_ENTITY_KIND db db' \<Longrightarrow> jobs_evolve db db' \<Longrightarrow> crm_step json render db db'"

definition crm_reachable where
  "crm_reachable json render db \<longleftrightarrow>
     (\<exists>d. kt_crm_drafts d = [] \<and> ot_jobs d = [] \<and> (crm_step json render)\<^sup>*\<^sup>* (empty_db d) db)"

lemma crm_table [simp]: "ts_table CRM_TABLE = kt_crm_drafts" "ts_entity_kind CRM_TABLE = CRM_ENTITY_KIND"
  by (simp_all add: CRM_TABLE_def)

lemma filled_note_ok: "parse_note_fill_response response = Inr fill
    \<Longrightarrow> note_ok (crm_row_of (crm_draft_from_fill item message fill attempt model now_ms))"
  by (auto simp: parse_note_fill_response_def res_bind_Inr_iff ok_or_def string_field_def email_field_def bind_eq_Some_conv
      take_chars_Nil note_ok_def crm_row_of_def crm_draft_from_fill_def split: option.splits if_splits)

lemma edited_note_ok: "normalize_note body email = Inr e \<Longrightarrow> note_ok (set_note e now_ms r)"
  by (auto simp: normalize_note_def Let_def note_ok_def set_note_def split: option.splits if_splits)

lemma crm_stage_steps:
  "snd (crm_stage render' client actor item message response model attempt key now_ms db) = db
   \<or> draft_step CRM_TABLE (crm_job render) note_ok db
       (snd (crm_stage render' client actor item message response model attempt key now_ms db))"
proof -
  have "dr_status (crm_row_of d) = ''staged''" "dr_outbox_job_id (crm_row_of d) = None" for d
    by (simp_all add: crm_row_of_def)
  then show ?thesis
    by (auto simp: crm_stage_def crm_insert_draft_def split: sum.split intro!: draft_step.Stage filled_note_ok)
qed

lemma crm_update_steps:
  "snd (crm_update_draft json render' ctx draft_id body email db) = db
   \<or> draft_step CRM_TABLE (crm_job render) note_ok db (snd (crm_update_draft json render' ctx draft_id body email db))"
proof (cases "require_editable (CRM_STORE json) db ctx ''crm_draft_not_staged'' draft_id")
  case (Inr u)
  then obtain r where r: "hm_get (kt_crm_drafts (db_domain db)) (sm_client_id ctx, draft_id) = Some r" "dr_status r = ''staged''"
    by (auto simp: require_editable_def require_status_scoped_def CRM_STORE_def ok_or_def res_bind_def
        split: option.splits sum.splits if_splits)
  have "draft_base (set_note e t r) = draft_base r" for e t r by (simp add: draft_base_def set_note_def)
  then show ?thesis using r Inr
    by (auto simp: crm_update_draft_def split: sum.split intro!: draft_step.Edit edited_note_ok)
qed (simp add: crm_update_draft_def)

lemma crm_approve_steps:
  "snd (crm_approve_action json render env lookup ctx draft_id db) = db
   \<or> draft_step CRM_TABLE (crm_job render) note_ok db (snd (crm_approve_action json render env lookup ctx draft_id db))"
proof (cases "get_draft_scoped (CRM_STORE json) db (sm_client_id ctx) draft_id (sm_scope ctx)")
  case (Some found)
  then obtain r where r: "hm_get (kt_crm_drafts (db_domain db)) (sm_client_id ctx, draft_id) = Some r"
    "nw_draft found = crm_draft_from_row (sm_client_id ctx, draft_id) r"
    by (auto simp: get_draft_scoped_def CRM_STORE_def mapped_row_def crm_attach_job_summary_def split: option.splits if_splits)
  have "draft_step CRM_TABLE (crm_job render) note_ok db
      (snd (crm_approve_draft ctx draft_id (crm_build_approval_job render (nw_draft found) actor (sm_now_ms ctx) provider) db))"
    for actor provider
    using draft_step.Approve [of CRM_TABLE db "from_scoped_context ctx" draft_id r "crm_job render"
        note_ok "(actor, sm_now_ms ctx, provider)"] r
    by (simp add: crm_job_def crm_approve_draft_def from_scoped_context_def)
  then show ?thesis using Some
    by (auto simp: crm_approve_action_def split: sum.split prod.split option.split) (metis snd_conv)+
qed (simp add: crm_approve_action_def)

lemma crm_is_draft_step:
  assumes "crm_step json render db db'"
  shows "db' = db \<or> draft_step CRM_TABLE (crm_job render) note_ok db db'"
  using assms
proof cases
  case Produced
  then show ?thesis using crm_stage_steps by blast
next
  case (Edited sha render'' auth_ms hs key requested expected draft_id body email now_ms st)
  show ?thesis unfolding Edited crm_draft_update_def by (rule guarded_db) (simp_all, rule crm_update_steps)
next
  case (Decided sha env lookup auth_ms hs key requested expected draft_id action now_ms st)
  show ?thesis unfolding Decided crm_draft_action_def
    by (rule guarded_db)
      (auto simp: Let_def crm_reject_draft_def case_prod_beta draft_step.Reject
        split: draft_action_kind.split intro: disjE [OF crm_approve_steps])
next
  case Delivered
  then show ?thesis using draft_step.Deliver by blast
next
  case Elsewhere
  then show ?thesis by (intro disjI2 draft_step.Other) simp_all
qed

lemma crm_reachable_draft:
  assumes "crm_reachable json render db"
  shows "draft_reachable CRM_TABLE (crm_job render) note_ok db"
proof -
  obtain d where d: "kt_crm_drafts d = []" "ot_jobs d = []" "(crm_step json render)\<^sup>*\<^sup>* (empty_db d) db"
    using assms unfolding crm_reachable_def by blast
  from d(3) have "(draft_step CRM_TABLE (crm_job render) note_ok)\<^sup>*\<^sup>* (empty_db d) db"
  proof (induction rule: rtranclp_induct)
    case (step y z)
    show ?case using crm_is_draft_step [OF step(2)] step(3) by (metis rtranclp.rtrancl_into_rtrancl)
  qed simp
  with d(1,2) show ?thesis unfolding draft_reachable_def crm_table by blast
qed

lemmas crm_ok = drafts_okD [OF crm.reachable_ok [OF crm_reachable_draft], unfolded crm_table]

end
