(* ===== verification/Crm_Properties.thy ===== *)
theory Crm_Properties
  imports Crm_Drafts
begin

text \<open>
  From the approval of a CRM note to the call of its provider: the jobs of the notes are the approved drafts, and a delivery hands
  the provider exactly the approved note, or nothing at all while the write switch of the provider is off.
\<close>

section \<open>Clients\<close>

lemma hubspot_client:
  "hubspot_execution_client live token enabled p =
     (case if enabled then present token else None of None \<Rightarrow> dry_run_note ''hubspot'' p | Some tok \<Rightarrow> live tok p)"
  by (simp add: hubspot_execution_client_def split: option.split)

lemma espocrm_client:
  "espocrm_execution_client live url key enabled p =
     (case if enabled then (present url, present key) else (None, None) of
        (Some u, Some k) \<Rightarrow> live u k p | _ \<Rightarrow> dry_run_note ''espocrm'' p)"
  by (simp add: espocrm_execution_client_def split: option.split)

lemma hubspot_delivery:
  assumes "cj_provider job = ''hubspot''" "cj_capability job = ''create_note''" "from_str (cj_payload_json job) = Inr p"
  shows "deliver_hubspot live from_str rr rm env db client job now = attempt_of_write rr rm job now
     (case if setting_flag env db client BOS_HUBSPOT_WRITE_ENABLED then present (env_string env BOS_HUBSPOT_ACCESS_TOKEN) else None of
        None \<Rightarrow> dry_run_note ''hubspot'' p | Some token \<Rightarrow> live token p)"
  by (simp only: deliver_hubspot_def execute_note_job_def hubspot_client assms sum.case if_False simp_thms)

lemma espocrm_delivery:
  assumes "cj_provider job = ''espocrm''" "cj_capability job = ''create_note''" "from_str (cj_payload_json job) = Inr p"
  shows "deliver_espocrm live lookup from_str rr rm env db client job now = attempt_of_write rr rm job now
     (case if setting_flag env db client BOS_ESPOCRM_WRITE_ENABLED
           then (present (env_string env BOS_ESPOCRM_BASE_URL), present (env_string env BOS_ESPOCRM_API_KEY)) else (None, None) of
        (Some url, Some key) \<Rightarrow> live url key (Option.bind (np_contact_email p) lookup) p
      | _ \<Rightarrow> dry_run_note ''espocrm'' p)"
  by (simp only: deliver_espocrm_def execute_note_job_def espocrm_client assms sum.case if_False simp_thms)

section \<open>Properties\<close>

text \<open>
  (C27) The provider sees the approved note and nothing else: in every history of the slice a CRM job belongs to an approved draft
  that names it, it is a note for one of the two configured providers, and a delivery of it hands the live client the
  note of that draft; when the write switch of the provider is off at that moment, or its credentials are missing, the live
  client is not consulted and the outcome is that of the dry run.
\<close>

theorem crm_provider_sees_approved_note:
  assumes "crm_reachable json render db" and "\<And>p. from_str (render p) = Inr p"
    and "hm_get (jobs_of db) (client, i) = Some j" and "oj_source_entity_kind j = CRM_ENTITY_KIND"
  shows "\<exists>r approver t provider p.
       hm_get (kt_crm_drafts (db_domain db)) (client, oj_source_entity_id j) = Some r
     \<and> dr_status r = ''approved'' \<and> dr_outbox_job_id r = Some i \<and> nd_note_body r \<noteq> []
     \<and> oj_provider j = provider_name provider
     \<and> p = note_payload_of (crm_draft_from_row (client, oj_source_entity_id j) r) approver t provider
     \<and> (\<forall>live live_espo lookup env now rr rm.
          (provider = Hubspot \<longrightarrow>
             deliver_hubspot live from_str rr rm env db client (claimed_of (client, i) j) now
             = attempt_of_write rr rm (claimed_of (client, i) j) now
                 (case if setting_flag env db client BOS_HUBSPOT_WRITE_ENABLED then present (env_string env BOS_HUBSPOT_ACCESS_TOKEN) else None of
                    None \<Rightarrow> dry_run_note ''hubspot'' p | Some token \<Rightarrow> live token p))
        \<and> (provider = Espocrm \<longrightarrow>
             deliver_espocrm live_espo lookup from_str rr rm env db client (claimed_of (client, i) j) now
             = attempt_of_write rr rm (claimed_of (client, i) j) now
                 (case if setting_flag env db client BOS_ESPOCRM_WRITE_ENABLED
                       then (present (env_string env BOS_ESPOCRM_BASE_URL), present (env_string env BOS_ESPOCRM_API_KEY)) else (None, None) of
                    (Some url, Some key) \<Rightarrow> live_espo url key (Option.bind (np_contact_email p) lookup) p
                  | _ \<Rightarrow> dry_run_note ''espocrm'' p)))"
proof -
  note ok = crm_ok [OF assms(1)]
  obtain r e t where r: "hm_get (kt_crm_drafts (db_domain db)) (client, oj_source_entity_id j) = Some r"
    "dr_status r = ''approved''" "dr_outbox_job_id r = Some i"
    "job_core j = job_core (new_row (crm_job render (client, oj_source_entity_id j) (undecided r) e) t)"
    using ok(5) [OF assms(3,4)] unfolding job_authorised_def by auto
  obtain approver at provider where e: "e = (approver, at, provider)" by (cases e) auto
  define p where "p = note_payload_of (crm_draft_from_row (client, oj_source_entity_id j) r) approver at provider"
  note f = job_core_fields(1-3) [OF r(4)]
  have j: "oj_provider j = provider_name provider" "oj_capability j = ''create_note''" "oj_payload_json j = render p"
    using f unfolding crm.build_content by (simp_all add: new_row_def crm_job_def e crm_build_approval_job_def p_def)
  have body: "nd_note_body r \<noteq> []" using ok(7) [OF r(1)] by (simp add: note_ok_def)
  have "cj_provider (claimed_of (client, i) j) = provider_name provider" "cj_capability (claimed_of (client, i) j) = ''create_note''"
    "from_str (cj_payload_json (claimed_of (client, i) j)) = Inr p"
    by (simp_all add: claimed_of_def j assms(2))
  note job = this
  show ?thesis using r(1-3) body j(1) p_def
    by (intro exI [of _ r] exI [of _ approver] exI [of _ at] exI [of _ provider] exI [of _ p] conjI allI impI)
       (assumption | rule hubspot_delivery espocrm_delivery | simp add: job)+
qed

section \<open>A concrete history\<close>

text \<open>An encoding of notes that can be read back, in the place of JSON.\<close>

definition enc_text :: "string \<Rightarrow> string" where
  "enc_text s = concat (map (\<lambda>c. [CHR ''x'', c]) s) @ ''.''"

fun dec_text :: "string \<Rightarrow> string \<times> string" where
  "dec_text (a # s) =
     (if a = CHR ''.'' then ([], s)
      else case s of [] \<Rightarrow> ([], []) | c # u \<Rightarrow> (case dec_text u of (t, rest) \<Rightarrow> (c # t, rest)))"
| "dec_text [] = ([], [])"

lemma dec_enc_text [simp]: "dec_text (enc_text s @ u) = (s, u)"
  by (induction s) (simp_all add: enc_text_def)

definition sample_render_note :: "note_payload \<Rightarrow> string" where
  "sample_render_note p = enc_text (np_idempotency_key p) @ enc_text (ap_approval_id (np_approval p))
     @ enc_text (ap_approved_by (np_approval p)) @ enc_text (ap_approved_at (np_approval p)) @ enc_text (np_note_body p)
     @ enc_text (np_occurred_at p) @ (case np_contact_email p of None \<Rightarrow> [] | Some e \<Rightarrow> enc_text e)"

definition sample_read_note :: "string \<Rightarrow> string + note_payload" where
  "sample_read_note s0 =
     (let (key, s1) = dec_text s0; (id, s2) = dec_text s1; (by, s3) = dec_text s2; (at, s4) = dec_text s3;
          (body, s5) = dec_text s4; (occurred, s6) = dec_text s5
      in Inr \<lparr>np_idempotency_key = key, np_approval = \<lparr>ap_approval_id = id, ap_approved_by = by, ap_approved_at = at\<rparr>,
              np_note_body = body, np_occurred_at = occurred,
              np_contact_email = (if s6 = [] then None else Some (fst (dec_text s6)))\<rparr>)"

lemma sample_note_read_back: "sample_read_note (sample_render_note p) = Inr p"
proof -
  have "dec_text (enc_text e) = (e, [])" "enc_text e \<noteq> []" for e using dec_enc_text [of e "[]"] by (simp_all add: enc_text_def)
  then show ?thesis by (simp add: sample_read_note_def sample_render_note_def split: option.split)
qed

definition sample_note_response :: json where
  "sample_note_response = JObject
     [(''note_body'', JString ''Wants a quote''), (''contact_email'', JString ''bob@x.io''), (''confidence'', JString ''high'')]"

definition sample_crm_start :: "crm_tables db" where
  "sample_crm_start = empty_db \<lparr>ot_jobs = [], at_users = [], at_api_tokens = [], at_google_credentials = [],
     at_qbo_credentials = [], st_overrides = [], ct_oauth_states = [], nt_notes = [], kt_calendar_drafts = [], kt_crm_drafts = []\<rparr>"

definition sample_note_staged :: "crm_tables db" where
  "sample_note_staged = snd (crm_stage (\<lambda>_. []) ''acme'' ''producer'' sample_item (sample_event_message ''Bob@x.io'')
     sample_note_response ''m'' 1 ''k1'' 3000 sample_crm_start)"

definition sample_note_approved :: "crm_tables db" where
  "sample_note_approved = snd (snd (crm_draft_action (\<lambda>x. x) sample_json sample_render_note (\<lambda>_. None) (\<lambda>_. None) 0
     sample_root_headers ''k2'' None None ''cnd_wi1_1'' ApproveDraft 4000 (sample_app, sample_note_staged)))"

lemma sample_note_reachable: "crm_reachable sample_json sample_render_note sample_note_approved"
proof -
  have a: "crm_step sample_json sample_render_note sample_crm_start sample_note_staged"
    unfolding sample_note_staged_def by (rule crm_step.Produced)
  have b: "crm_step sample_json sample_render_note sample_note_staged sample_note_approved"
    unfolding sample_note_approved_def by (rule crm_step.Decided)
  show ?thesis unfolding crm_reachable_def
    by (rule exI, intro conjI, rule crm_tables.select_convs, rule outbox_tables.select_convs,
        rule converse_rtranclp_into_rtranclp [OF a [unfolded sample_crm_start_def] r_into_rtranclp [of "crm_step _ _", OF b]])
qed

definition sample_note_outcome :: "crm_tables db \<Rightarrow> (string \<times> string) option \<times> bool" where
  "sample_note_outcome db =
     (map_option (\<lambda>j. (oj_source_entity_kind j, oj_provider j)) (hm_get (jobs_of db) (''acme'', ''obj_cnd_wi1_1'')),
      setting_flag (\<lambda>_. None) db ''acme'' BOS_HUBSPOT_WRITE_ENABLED)"

lemma sample_note_evaluated: "sample_note_outcome sample_note_approved = (Some (CRM_ENTITY_KIND, ''hubspot''), False)"
  by code_simp

lemmas sample_note_outcome = sample_note_evaluated [unfolded sample_note_outcome_def prod.inject]

theorem crm_provider_sees_approved_note_witness:
  "\<exists>j. hm_get (jobs_of sample_note_approved) (''acme'', ''obj_cnd_wi1_1'') = Some j \<and> oj_provider j = ''hubspot''
     \<and> (\<exists>p. \<forall>live. deliver_hubspot live sample_read_note (\<lambda>_. []) (\<lambda>m. m) (\<lambda>_. None) sample_note_approved ''acme''
              (claimed_of (''acme'', ''obj_cnd_wi1_1'') j) 5000
            = attempt_of_write (\<lambda>_. []) (\<lambda>m. m) (claimed_of (''acme'', ''obj_cnd_wi1_1'') j) 5000 (dry_run_note ''hubspot'' p))"
proof -
  have "map_option (\<lambda>j. (oj_source_entity_kind j, oj_provider j)) (hm_get (jobs_of sample_note_approved) (''acme'', ''obj_cnd_wi1_1''))
      = Some (CRM_ENTITY_KIND, ''hubspot'')" using sample_note_outcome by blast
  then obtain j where j: "hm_get (jobs_of sample_note_approved) (''acme'', ''obj_cnd_wi1_1'') = Some j"
    "oj_source_entity_kind j = CRM_ENTITY_KIND" "oj_provider j = ''hubspot''" by auto
  have off: "\<not> setting_flag (\<lambda>_. None) sample_note_approved ''acme'' BOS_HUBSPOT_WRITE_ENABLED" using sample_note_outcome by blast
  from crm_provider_sees_approved_note [OF sample_note_reachable sample_note_read_back j(1,2)] show ?thesis
  proof (elim exE conjE, goal_cases)
    case (1 r approver t provider p)
    have hubspot: "provider = Hubspot" using 1(5) j(3) by (cases provider) simp_all
    note given = 1(7) [THEN spec, THEN spec, THEN spec, THEN spec [of _ "\<lambda>_. None"], THEN spec [of _ 5000], THEN spec [of _ "\<lambda>_. []"],
        THEN spec [of _ "\<lambda>m. m"], THEN conjunct1, THEN mp [OF _ hubspot], unfolded if_not_P [OF off] option.case]
    show ?thesis by (intro exI conjI allI) (rule j given)+
  qed
qed

end
