(* ===== verification/Drive_Chunks.thy ===== *)
theory Drive_Chunks
  imports Rust_Text
begin

text \<open>
  \<open>slices/drive_corpus/service.rs\<close>: the chunker that cuts a Drive document into the rows of the search index
  (\<open>chunk_document\<close>, \<open>split_long_line\<close>) and the full-text query of a search. Sizes count bytes, as in the code. The
  loop over a long line moves forward only in text whose characters are at most four bytes, which holds of every Rust string;
  it is an optional function here, and returning is proved. The mutable variables of the loop are the
  fields of \<open>chunk_state\<close>.
\<close>

section \<open>Text\<close>

text \<open>What well-formed UTF-8 gives: an ASCII byte is a whole character, and at most three continuation bytes follow each other.\<close>

fun char_widths_ok :: "string \<Rightarrow> bool" where
  "char_widths_ok [] \<longleftrightarrow> True"
| "char_widths_ok (a # s) \<longleftrightarrow>
     ((of_char a :: nat) < 128 \<longrightarrow> s = [] \<or> \<not> utf8_cont (hd s)) \<and> length (takeWhile utf8_cont (a # s)) \<le> 3 \<and> char_widths_ok s"

fun rfind :: "string \<Rightarrow> string \<Rightarrow> nat option" where
  "rfind pat [] = (if pat = [] then Some 0 else None)"
| "rfind pat (c # s) =
     (case rfind pat s of
        Some i \<Rightarrow> Some (Suc i)
      | None \<Rightarrow> if take (length pat) (c # s) = pat then Some 0 else None)"

fun split_inclusive :: "char \<Rightarrow> string \<Rightarrow> string list" where
  "split_inclusive c [] = []"
| "split_inclusive c (x # xs) =
     (if x = c then [c] # split_inclusive c xs
      else (case split_inclusive c xs of [] \<Rightarrow> [[x]] | w # ws \<Rightarrow> (x # w) # ws))"

definition trim_end :: "string \<Rightarrow> string" where
  "trim_end s = rev (trim_with (map rev ws_seqs) (rev s))"

abbreviation newline :: char where "newline \<equiv> CHR 0x0A"

section \<open>Long lines\<close>

definition PIECE_MAX :: nat where "PIECE_MAX = 380"

text \<open>Where the window is cut: after the last period before a space, else before the last space, else at its end.\<close>

definition split_cut :: "string \<Rightarrow> nat option" where
  "split_cut window =
     Option.bind
       (case rfind ''. '' window of Some i \<Rightarrow> Some (i + 1) | None \<Rightarrow> rfind '' '' window)
       (\<lambda>i. if i > 0 then Some i else None)"

definition skip_spaces :: "string \<Rightarrow> nat \<Rightarrow> nat" where
  "skip_spaces line start = start + length (takeWhile (\<lambda>c. c = CHR '' '') (drop start line))"

partial_function (option) split_long_loop :: "string \<Rightarrow> nat \<Rightarrow> (nat \<times> string) list \<Rightarrow> (nat \<times> string) list option" where
  "split_long_loop line start pieces =
     (if PIECE_MAX < length line - start
      then let window_end = floor_boundary line (start + PIECE_MAX);
               window = take (window_end - start) (drop start line);
               cut = (case split_cut window of Some i \<Rightarrow> start + i | None \<Rightarrow> window_end)
           in split_long_loop line (skip_spaces line cut)
                (pieces @ [(start, trim_end (take (cut - start) (drop start line)))])
      else Some (pieces @ [(start, drop start line)]))"

definition split_long_line :: "string \<Rightarrow> (nat \<times> string) list option" where
  "split_long_line line = (if length line \<le> PIECE_MAX then Some [(0, line)] else split_long_loop line 0 [])"

section \<open>Chunks\<close>

definition CHUNK_TARGET_CHARS :: nat where "CHUNK_TARGET_CHARS = 1900"
definition CHUNK_MAX_CHARS :: nat where "CHUNK_MAX_CHARS = 2300"
definition CHUNK_OVERLAP_CHARS :: nat where "CHUNK_OVERLAP_CHARS = 280"
definition CHUNK_MIN_TAIL_CHARS :: nat where "CHUNK_MIN_TAIL_CHARS = 200"

record chunk_row =
  ck_seq :: u32
  ck_heading_path :: "string list"
  ck_start_offset :: u32
  ck_end_offset :: u32
  ck_text :: string

record pending_line =
  pl_start :: nat
  pl_end :: nat
  pl_text :: string

record chunk_state =
  cs_chunks :: "chunk_row list"
  cs_heading_path :: "string list"
  cs_buffer :: "pending_line list"
  cs_buffer_chars :: nat
  cs_section_chunks :: nat
  cs_overlap_only :: bool
  cs_offset :: nat

definition clamp_u32 :: "nat \<Rightarrow> u32" where
  "clamp_u32 n = of_nat (min n (2 ^ 32 - 1))"

definition trim_blank_lines :: "pending_line list \<Rightarrow> pending_line list" where
  "trim_blank_lines buffer =
     rev (dropWhile (\<lambda>l. pl_text l = []) (rev (dropWhile (\<lambda>l. pl_text l = []) buffer)))"

definition body_of :: "pending_line list \<Rightarrow> string" where
  "body_of buffer = join_with [newline] (map pl_text buffer)"

text \<open>The lines that seed the next chunk; the buffer is given from its end.\<close>

fun keep_overlap :: "pending_line list \<Rightarrow> nat \<Rightarrow> pending_line list \<Rightarrow> pending_line list" where
  "keep_overlap [] kept_chars kept = kept"
| "keep_overlap (line # buffer) kept_chars kept =
     (if pl_text line = [] then keep_overlap buffer kept_chars kept
      else if CHUNK_OVERLAP_CHARS < kept_chars + length (pl_text line) \<and> kept \<noteq> [] then kept
      else if CHUNK_OVERLAP_CHARS \<le> kept_chars + length (pl_text line) then line # kept
      else keep_overlap buffer (kept_chars + length (pl_text line)) (line # kept))"

definition buffer_bytes :: "pending_line list \<Rightarrow> nat" where
  "buffer_bytes buffer = sum_list (map (\<lambda>l. length (pl_text l)) buffer)"

definition merges_tail :: "bool \<Rightarrow> chunk_state \<Rightarrow> string \<Rightarrow> bool" where
  "merges_tail overlap s body \<longleftrightarrow>
     \<not> overlap \<and> 0 < cs_section_chunks s \<and> length body < CHUNK_MIN_TAIL_CHARS \<and> cs_chunks s \<noteq> []
     \<and> length (ck_text (last (cs_chunks s))) + 1 + length body \<le> CHUNK_MAX_CHARS"

definition emit :: "bool \<Rightarrow> chunk_state \<Rightarrow> chunk_state" where
  "emit overlap s =
     (let buffer = trim_blank_lines (cs_buffer s) in
      if buffer = [] then s\<lparr>cs_buffer := [], cs_buffer_chars := 0\<rparr>
      else
        let body = body_of buffer; finish = clamp_u32 (pl_end (last buffer)) in
        if merges_tail overlap s body
        then s\<lparr>cs_chunks := butlast (cs_chunks s)
                 @ [(last (cs_chunks s))\<lparr>ck_text := ck_text (last (cs_chunks s)) @ newline # body, ck_end_offset := finish\<rparr>],
               cs_buffer := [], cs_buffer_chars := 0\<rparr>
        else
          let kept = (if overlap then keep_overlap (rev buffer) 0 [] else []) in
          s\<lparr>cs_chunks := cs_chunks s
               @ [\<lparr>ck_seq = of_nat (length (cs_chunks s)), ck_heading_path = cs_heading_path s,
                   ck_start_offset = clamp_u32 (pl_start (hd buffer)), ck_end_offset = finish, ck_text = body\<rparr>],
             cs_section_chunks := cs_section_chunks s + 1, cs_buffer := kept, cs_buffer_chars := buffer_bytes kept\<rparr>)"

text \<open>At a section boundary seed lines alone are dropped, anything else becomes the tail of the section.\<close>

definition flush :: "chunk_state \<Rightarrow> chunk_state" where
  "flush s = emit False (if cs_overlap_only s then s\<lparr>cs_buffer := [], cs_buffer_chars := 0\<rparr> else s)"

section \<open>Lines\<close>

definition line_of_block :: "string \<Rightarrow> string" where
  "line_of_block block = trim (rev (dropWhile (\<lambda>c. c = newline \<or> c = CHR 0x0D) (rev block)))"

definition hashes_of :: "string \<Rightarrow> nat" where
  "hashes_of trimmed = length (takeWhile (\<lambda>c. c = CHR ''#'') trimmed)"

definition is_heading :: "string \<Rightarrow> bool" where
  "is_heading trimmed \<longleftrightarrow>
     1 \<le> hashes_of trimmed \<and> hashes_of trimmed \<le> 6
     \<and> (hashes_of trimmed = length trimmed \<or> trimmed ! hashes_of trimmed = CHR '' '')"

definition heading_path_after :: "string list \<Rightarrow> string \<Rightarrow> string list" where
  "heading_path_after path trimmed =
     (let level = hashes_of trimmed - 1; title = trim (drop (hashes_of trimmed) trimmed); kept = take level path
      in if title = [] then kept else kept @ replicate (level - length kept) [] @ [title])"

definition chunk_heading :: "string \<Rightarrow> chunk_state \<Rightarrow> chunk_state" where
  "chunk_heading trimmed s =
     (flush s)\<lparr>cs_heading_path := heading_path_after (cs_heading_path s) trimmed, cs_section_chunks := 0\<rparr>"

definition chunk_piece :: "nat \<times> string \<Rightarrow> chunk_state \<Rightarrow> chunk_state" where
  "chunk_piece p s =
     (case p of (piece_start, piece) \<Rightarrow>
        if piece = [] \<and> cs_buffer s = [] then s
        else
          let s = s\<lparr>cs_overlap_only := (if piece = [] then cs_overlap_only s else False),
                    cs_buffer_chars := cs_buffer_chars s + length piece,
                    cs_buffer := cs_buffer s @ [\<lparr>pl_start = cs_offset s + piece_start,
                                                pl_end = cs_offset s + piece_start + length piece, pl_text = piece\<rparr>]\<rparr>
          in if CHUNK_TARGET_CHARS \<le> cs_buffer_chars s \<and> \<not> cs_overlap_only s
             then (emit True s)\<lparr>cs_overlap_only := True\<rparr> else s)"

definition chunk_block :: "string \<Rightarrow> chunk_state \<Rightarrow> chunk_state option" where
  "chunk_block block s =
     (let trimmed = line_of_block block;
          advance = (\<lambda>s. s\<lparr>cs_offset := cs_offset s + length block\<rparr>)
      in if is_heading trimmed then Some (advance (chunk_heading trimmed s))
         else map_option (\<lambda>pieces. advance (fold chunk_piece pieces s)) (split_long_line trimmed))"

fun chunk_blocks :: "string list \<Rightarrow> chunk_state \<Rightarrow> chunk_state option" where
  "chunk_blocks [] s = Some s"
| "chunk_blocks (block # blocks) s = Option.bind (chunk_block block s) (chunk_blocks blocks)"

definition chunk_start :: chunk_state where
  "chunk_start = \<lparr>cs_chunks = [], cs_heading_path = [], cs_buffer = [], cs_buffer_chars = 0, cs_section_chunks = 0,
     cs_overlap_only = False, cs_offset = 0\<rparr>"

definition chunk_document :: "string \<Rightarrow> chunk_row list option" where
  "chunk_document text =
     map_option (\<lambda>s. map (\<lambda>(i, c). c\<lparr>ck_seq := of_nat i\<rparr>) (enumerate 0 (cs_chunks (flush s))))
       (chunk_blocks (split_inclusive newline text) chunk_start)"

section \<open>Queries\<close>

fun split_where :: "(char \<Rightarrow> bool) \<Rightarrow> string \<Rightarrow> string list" where
  "split_where sep [] = [[]]"
| "split_where sep (x # xs) =
     (if sep x then [] # split_where sep xs
      else (case split_where sep xs of [] \<Rightarrow> [[x]] | w # ws \<Rightarrow> (x # w) # ws))"

text \<open>
  The bytes of a character that is not ASCII are separators one by one; the empty terms between them are filtered out with the
  short ones.
\<close>

definition fts_terms :: "string \<Rightarrow> string list" where
  "fts_terms query =
     remdups_adj (sort (map to_ascii_lowercase
       (filter (\<lambda>term. 2 < length term) (map trim (split_where (\<lambda>c. \<not> is_ascii_alphanumeric c) query)))))"

definition fts_match_expression :: "string \<Rightarrow> string option" where
  "fts_match_expression query =
     (if fts_terms query = [] then None
      else Some (join_with '' OR '' (map (\<lambda>term. [CHR 0x22] @ term @ [CHR 0x22]) (fts_terms query))))"

end
