(* ===== verification/Chunk_Properties.thy ===== *)
theory Chunk_Properties
  imports Drive_Chunks
begin

text \<open>
  The chunker returns on every text, loses nothing, mixes no sections and keeps its size limit up to line breaks; its
  ceiling in bytes does not hold. Queries are quoted words.
\<close>

section \<open>Character boundaries\<close>

lemma floor_boundary_le: "floor_boundary v n \<le> n"
  by (induction n) auto

lemma floor_boundary_is: "is_char_boundary v (floor_boundary v n)"
  by (induction n) (auto simp: is_char_boundary_def)

lemma floor_boundary_max: "j \<le> n \<Longrightarrow> is_char_boundary v j \<Longrightarrow> j \<le> floor_boundary v n"
  by (induction n) (auto simp: le_Suc_eq)

lemma char_widths_suffix: "char_widths_ok (a @ b) \<Longrightarrow> char_widths_ok b"
  by (induction a) auto

lemma char_widths_prefix: "char_widths_ok (b @ c) \<Longrightarrow> char_widths_ok b"
proof (induction b)
  case (Cons x b)
  have "length (takeWhile utf8_cont u) \<le> length (takeWhile utf8_cont (u @ v))" for u v :: string
    by (induction u) auto
  from this [of "x # b" c] Cons show ?case by (cases b) auto
qed simp

lemma char_widths_infix: "char_widths_ok (a @ b @ c) \<Longrightarrow> char_widths_ok b"
  using char_widths_prefix char_widths_suffix by blast

lemma floor_boundary_progress:
  assumes "char_widths_ok line" and "start + PIECE_MAX < length line"
  shows "start < floor_boundary line (start + PIECE_MAX)"
proof -
  let ?u = "drop (start + 377) line"
  have l: "start + 380 < length line" using assms(2) by (simp add: PIECE_MAX_def)
  have "char_widths_ok ?u" using assms(1) char_widths_suffix [of "take (start + 377) line"] by simp
  moreover have "?u \<noteq> []" using l by simp
  ultimately have n: "length (takeWhile utf8_cont ?u) \<le> 3" by (cases ?u) simp_all
  moreover have "length (takeWhile utf8_cont ?u) < length ?u" using n l by simp
  ultimately have "\<not> utf8_cont (?u ! length (takeWhile utf8_cont ?u))" using nth_length_takeWhile [of utf8_cont ?u] by blast
  then have "is_char_boundary line (start + 377 + length (takeWhile utf8_cont ?u))"
    using n l by (simp add: is_char_boundary_def)
  from floor_boundary_max [OF _ this, of "start + PIECE_MAX"] n show ?thesis by (simp add: PIECE_MAX_def)
qed

section \<open>Whitespace and cuts\<close>

definition whitespace :: "string \<Rightarrow> bool" where
  "whitespace g \<longleftrightarrow> (\<exists>ws. set ws \<subseteq> set ws_seqs \<and> g = concat ws)"

lemma whitespace_append: "whitespace a \<Longrightarrow> whitespace b \<Longrightarrow> whitespace (a @ b)"
  unfolding whitespace_def by (metis concat_append le_sup_iff set_append)

lemma whitespace_Nil [simp]: "whitespace []"
  unfolding whitespace_def by (rule exI [of _ "[]"]) simp

lemma whitespace_spaces: "\<forall>c \<in> set s. c = CHR '' '' \<Longrightarrow> whitespace s"
proof -
  assume "\<forall>c \<in> set s. c = CHR '' ''"
  then have "s = concat (map (\<lambda>c. '' '') s)" by (induction s) auto
  moreover have "'' '' \<in> set ws_seqs" by (simp add: ws_seqs_def ascii_ws_def)
  ultimately show ?thesis unfolding whitespace_def by (intro exI [of _ "map (\<lambda>c. '' '') s"]) auto
qed

lemma strip_one_prefix: "strip_one seqs s = Some r \<Longrightarrow> \<exists>w \<in> set seqs. s = w @ r"
  by (induction seqs) (auto split: if_splits, metis append_take_drop_id)

lemma trim_with_removed: "\<exists>ws. set ws \<subseteq> set seqs \<and> s = concat ws @ trim_with seqs s"
proof (induction seqs s rule: trim_with.induct)
  case (1 seqs s)
  show ?case
  proof (cases "strip_one seqs s")
    case None
    then show ?thesis by (intro exI [of _ "[]"]) (simp add: trim_with_None)
  next
    case (Some r)
    then obtain w where w: "w \<in> set seqs" "s = w @ r" using strip_one_prefix by blast
    from 1 Some obtain ws where "set ws \<subseteq> set seqs" "r = concat ws @ trim_with seqs r" by blast
    moreover have "trim_with seqs s = trim_with seqs r" using Some by (subst trim_with.simps) simp
    ultimately show ?thesis using w by (intro exI [of _ "w # ws"]) simp
  qed
qed

lemma trim_end_removed: "\<exists>g. whitespace g \<and> s = trim_end s @ g"
proof -
  obtain ws where ws: "set ws \<subseteq> set (map rev ws_seqs)" "rev s = concat ws @ trim_with (map rev ws_seqs) (rev s)"
    using trim_with_removed by blast
  have "s = trim_end s @ concat (rev (map rev ws))"
    using arg_cong [OF ws(2), of rev] by (simp add: trim_end_def rev_concat rev_map)
  moreover have "whitespace (concat (rev (map rev ws)))"
    unfolding whitespace_def using ws(1) by (intro exI [of _ "rev (map rev ws)"]) auto
  ultimately show ?thesis by blast
qed

lemma trim_infix: "\<exists>a b. s = a @ trim s @ b"
  by (metis append_assoc rev_append rev_rev_ident trim_def trim_with_suffix)

lemma rfind_at: "rfind pat s = Some i \<Longrightarrow> take (length pat) (drop i s) = pat"
  by (induction pat s arbitrary: i rule: rfind.induct) (auto split: option.splits if_splits)

lemma split_cut_at: "split_cut w = Some i \<Longrightarrow> 0 < i \<and> i < length w \<and> w ! i = CHR '' ''"
proof -
  assume c: "split_cut w = Some i"
  show ?thesis
  proof (cases "rfind ''. '' w")
    case (Some k)
    then have t: "take (length ''. '') (drop k w) = ''. ''" by (rule rfind_at)
    then obtain u where u: "drop k w = CHR ''.'' # CHR '' '' # u"
      by (cases "drop k w"; cases "tl (drop k w)") auto
    have "k + 1 < length w" using arg_cong [OF u, of length] by simp
    moreover have "w ! (k + 1) = CHR '' ''"
      using nth_drop [of k w 1] u \<open>k + 1 < length w\<close> by simp
    ultimately have "k + 1 < length w" "w ! (k + 1) = CHR '' ''" by simp_all
    then show ?thesis using c Some by (simp add: split_cut_def)
  next
    case None
    then have r: "rfind '' '' w = Some i" "0 < i" using c by (auto simp: split_cut_def bind_eq_Some_conv split: if_splits)
    then have "take 1 (drop i w) = '' ''" using rfind_at [OF r(1)] by simp
    then have "drop i w \<noteq> []" "hd (drop i w) = CHR '' ''" by (cases "drop i w"; simp)+
    then show ?thesis using r(2) by (simp add: hd_drop_conv_nth)
  qed
qed

section \<open>Long lines\<close>

text \<open>The pieces lie in the line, in this order, with whitespace between them.\<close>

definition covers :: "string \<Rightarrow> (nat \<times> string) list \<Rightarrow> bool" where
  "covers s pieces \<longleftrightarrow> (\<exists>gaps. length gaps = length pieces \<and> list_all whitespace gaps
     \<and> s = concat (map (\<lambda>(p, gap). snd p @ gap) (zip pieces gaps)))"

definition piece_ok :: "string \<Rightarrow> nat \<times> string \<Rightarrow> bool" where
  "piece_ok line p \<longleftrightarrow> is_char_boundary line (fst p) \<and> length (snd p) \<le> PIECE_MAX
     \<and> fst p + length (snd p) \<le> length line \<and> take (length (snd p)) (drop (fst p) line) = snd p"

lemma covers_single: "covers s [(i, s)]"
  unfolding covers_def by (intro exI [of _ "[[]]"]) simp

lemma covers_Cons: "whitespace g \<Longrightarrow> covers s ps \<Longrightarrow> covers (p @ g @ s) ((i, p) # ps)"
  unfolding covers_def by (elim exE conjE, rule_tac x = "g # gaps" in exI) simp

lemma skip_spaces_le: "cp \<le> length line \<Longrightarrow> cp \<le> skip_spaces line cp \<and> skip_spaces line cp \<le> length line"
  using length_takeWhile_le [of "\<lambda>c. c = CHR '' ''" "drop cp line"] by (simp add: skip_spaces_def)

lemma skipped_spaces: "whitespace (takeWhile (\<lambda>c. c = CHR '' '') s)"
  by (rule whitespace_spaces) (auto dest: set_takeWhileD)

lemma space_boundary: "i < length line \<Longrightarrow> line ! i = CHR '' '' \<Longrightarrow> is_char_boundary line i"
  by (simp add: is_char_boundary_def utf8_cont_def)

lemma skip_spaces_boundary:
  assumes "char_widths_ok line" and "is_char_boundary line cp" and "cp \<le> length line"
  shows "is_char_boundary line (skip_spaces line cp)"
proof -
  let ?k = "length (takeWhile (\<lambda>c. c = CHR '' '') (drop cp line))"
  show ?thesis
  proof (cases "?k = 0 \<or> cp + ?k = length line")
    case True
    then show ?thesis using assms by (auto simp: skip_spaces_def is_char_boundary_def)
  next
    case False
    then have k: "0 < ?k" "cp + ?k < length line" using skip_spaces_le [OF assms(3)] by (simp_all add: skip_spaces_def)
    then obtain m where m: "?k = Suc m" by (cases ?k) simp_all
    have "takeWhile (\<lambda>c. c = CHR '' '') (drop cp line) ! m \<in> set (takeWhile (\<lambda>c. c = CHR '' '') (drop cp line))"
      by (rule nth_mem) (simp add: m)
    then have "takeWhile (\<lambda>c. c = CHR '' '') (drop cp line) ! m = CHR '' ''" by (rule set_takeWhileD [THEN conjunct2])
    then have sp: "line ! (cp + m) = CHR '' ''" using m k by (simp add: takeWhile_nth)
    have d: "drop (cp + m) line = line ! (cp + m) # line ! (cp + ?k) # drop (Suc (cp + ?k)) line"
      using k m by (simp add: Cons_nth_drop_Suc)
    have "char_widths_ok (drop (cp + m) line)" using assms(1) char_widths_suffix [of "take (cp + m) line"] by simp
    then have "\<not> utf8_cont (line ! (cp + ?k))" unfolding d sp by simp
    then show ?thesis using k by (simp add: skip_spaces_def is_char_boundary_def)
  qed
qed

lemma split_long_loop_returns:
  assumes "char_widths_ok line" and "start \<le> length line" and "is_char_boundary line start"
  shows "\<exists>ps. split_long_loop line start acc = Some (acc @ ps) \<and> covers (drop start line) ps \<and> list_all (piece_ok line) ps"
  using assms(2,3)
proof (induction "length line - start" arbitrary: start acc rule: less_induct)
  case less
  show ?case
  proof (cases "PIECE_MAX < length line - start")
    case False
    then have "piece_ok line (start, drop start line)" using less.prems by (simp add: piece_ok_def)
    then show ?thesis using False
      by (intro exI [of _ "[(start, drop start line)]"]) (simp add: split_long_loop.simps [of line start] covers_single)
  next
    case True
    define we where "we = floor_boundary line (start + PIECE_MAX)"
    define w where "w = take (we - start) (drop start line)"
    define cp where "cp = (case split_cut w of Some i \<Rightarrow> start + i | None \<Rightarrow> we)"
    define p where "p = trim_end (take (cp - start) (drop start line))"
    have we: "start < we" "we \<le> start + PIECE_MAX" "is_char_boundary line we"
      using floor_boundary_progress [OF assms(1), of start] floor_boundary_le [of line "start + PIECE_MAX"]
        floor_boundary_is [of line "start + PIECE_MAX"] True by (simp_all add: we_def)
    have lw: "length w = we - start" using we True by (simp add: w_def)
    have cp: "start < cp" "cp \<le> we" "is_char_boundary line cp"
    proof -
      have "start < cp \<and> cp \<le> we \<and> is_char_boundary line cp"
      proof (cases "split_cut w")
        case None
        then show ?thesis using we by (simp add: cp_def)
      next
        case (Some i)
        note i = split_cut_at [OF Some]
        have lt: "i < we - start" using i lw by simp
        then have "start + i < we" by linarith
        then have a: "start + i < length line" using we(2) True by linarith
        have "w ! i = line ! (start + i)" unfolding w_def nth_take [OF lt] by (rule nth_drop) (use less.prems(1) in simp)
        with a i have "line ! (start + i) = CHR '' ''" "start + i < length line" by simp_all
        then show ?thesis using i \<open>start + i < we\<close> Some space_boundary by (simp add: cp_def)
      qed
      then show "start < cp" "cp \<le> we" "is_char_boundary line cp" by blast+
    qed
    have len: "cp \<le> length line" using cp we True by simp
    define rest where "rest = skip_spaces line cp"
    have rest: "cp \<le> rest" "rest \<le> length line" using skip_spaces_le [OF len] by (simp_all add: rest_def)
    have "length line - rest < length line - start" using rest cp True by simp
    from less.hyps [OF this rest(2), of "acc @ [(start, p)]"] skip_spaces_boundary [OF assms(1) cp(3) len]
    obtain ps where ps: "split_long_loop line rest (acc @ [(start, p)]) = Some ((acc @ [(start, p)]) @ ps)"
      "covers (drop rest line) ps" "list_all (piece_ok line) ps" unfolding rest_def by blast
    obtain g where g: "whitespace g" "take (cp - start) (drop start line) = p @ g"
      using trim_end_removed unfolding p_def by blast
    have "drop start line = (p @ g) @ drop cp line"
      using g(2) cp(1) by (metis append_take_drop_id drop_drop le_add_diff_inverse2 less_imp_le)
    moreover have "drop cp line = takeWhile (\<lambda>c. c = CHR '' '') (drop cp line) @ drop rest line"
      by (metis (no_types, lifting) append_take_drop_id drop_drop rest_def skip_spaces_def takeWhile_eq_take add.commute)
    ultimately have "drop start line = p @ (g @ takeWhile (\<lambda>c. c = CHR '' '') (drop cp line)) @ drop rest line"
      by simp
    then have c: "covers (drop start line) ((start, p) # ps)"
      using covers_Cons [OF whitespace_append [OF g(1) skipped_spaces] ps(2)] by metis
    have "length p \<le> cp - start" "length p + length g = cp - start" using arg_cong [OF g(2), of length] len by simp_all
    moreover have "take (length p) (drop start line) = p"
      using g(2) by (metis append_eq_conv_conj take_take min.absorb2 append_take_drop_id append_eq_append_conv_if calculation(1) min_def)
    moreover have "length p \<le> PIECE_MAX \<and> start + length p \<le> length line" using calculation(2) we(2) cp(1,2) len by linarith
    ultimately have "piece_ok line (start, p)" using less.prems(2) by (simp add: piece_ok_def)
    then show ?thesis
      using True ps c
      by (intro exI [of _ "(start, p) # ps"])
        (simp add: split_long_loop.simps [of line start] Let_def flip: we_def w_def cp_def p_def rest_def)
  qed
qed

lemma split_long_line_total:
  assumes "char_widths_ok line"
  obtains ps where "split_long_line line = Some ps" "covers line ps" "list_all (piece_ok line) ps"
proof (cases "length line \<le> PIECE_MAX")
  case True
  then show thesis
    by (intro that [of "[(0, line)]"]) (simp_all add: split_long_line_def covers_single piece_ok_def is_char_boundary_def)
next
  case False
  obtain ps where "split_long_loop line 0 [] = Some ([] @ ps)" "covers (drop 0 line) ps" "list_all (piece_ok line) ps"
    using split_long_loop_returns [OF assms, of 0 "[]"] by (auto simp: is_char_boundary_def)
  then show thesis using False by (intro that [of ps]) (simp_all add: split_long_line_def)
qed

text \<open>
  (C37) A long line is always cut up, and nothing of it is lost: on every well-formed text the loop returns, its pieces are slices at
  character boundaries of at most 380 bytes, and the line is the pieces in order with nothing but whitespace between them.
\<close>

theorem split_long_line_returns:
  assumes "char_widths_ok line"
  shows "\<exists>ps. split_long_line line = Some ps \<and> covers line ps
     \<and> list_all (\<lambda>(i, p). is_char_boundary line i \<and> length p \<le> 380 \<and> take (length p) (drop i line) = p) ps"
proof -
  obtain ps where "split_long_line line = Some ps" "covers line ps" "list_all (piece_ok line) ps"
    using split_long_line_total [OF assms] .
  then show ?thesis by (intro exI [of _ ps]) (auto simp: list_all_iff piece_ok_def PIECE_MAX_def)
qed

theorem split_long_line_returns_witness:
  "\<exists>ps. split_long_line (replicate 1000 CHR ''a'') = Some ps \<and> covers (replicate 1000 CHR ''a'') ps"
proof -
  have "char_widths_ok (replicate n CHR ''a'')" for n by (induction n) (auto simp: utf8_cont_def hd_replicate)
  from split_long_line_returns [OF this] show ?thesis by blast
qed

section \<open>Lines of chunks\<close>

lemma split_on_append: "split_on c (a @ c # b) = split_on c a @ split_on c b"
proof (induction a)
  case (Cons x a)
  have "split_on c a \<noteq> []" by (cases a) (auto split: list.split)
  then show ?case using Cons by (auto split: list.split)
qed simp

lemma split_on_join: "ls \<noteq> [] \<Longrightarrow> \<forall>l \<in> set ls. c \<notin> set l \<Longrightarrow> split_on c (join_with [c] ls) = ls"
  by (induction "[c]" ls rule: join_with.induct) (simp_all add: split_on_none split_on_append)

lemma filter_join: "\<forall>l \<in> set ls. c \<notin> set l \<Longrightarrow> length (filter (\<lambda>x. x \<noteq> c) (join_with [c] ls)) = sum_list (map length ls)"
proof (induction "[c]" ls rule: join_with.induct)
  case (2 w)
  then have "filter (\<lambda>x. x \<noteq> c) w = w" by (auto simp: filter_id_conv)
  then show ?case by simp
next
  case (3 w v vs)
  then have "filter (\<lambda>x. x \<noteq> c) w = w" by (auto simp: filter_id_conv)
  then show ?case using 3 by simp
qed simp

text \<open>The lines with text, each with the headings above it: of a list of chunks, and of lines in the buffer.\<close>

definition chunk_lines :: "chunk_row list \<Rightarrow> (string list \<times> string) set" where
  "chunk_lines chunks = (\<Union>c \<in> set chunks. Pair (ck_heading_path c) ` (set (split_on newline (ck_text c)) - {[]}))"

definition buffer_lines :: "chunk_state \<Rightarrow> (string list \<times> string) set" where
  "buffer_lines s = Pair (cs_heading_path s) ` (pl_text ` set (cs_buffer s) - {[]})"

definition text_bytes :: "string \<Rightarrow> nat" where
  "text_bytes text = length (filter (\<lambda>c. c \<noteq> newline) text)"

definition state_ok :: "chunk_state \<Rightarrow> bool" where
  "state_ok s \<longleftrightarrow>
     (\<forall>l \<in> set (cs_buffer s). newline \<notin> set (pl_text l))
   \<and> (cs_overlap_only s \<longrightarrow> buffer_lines s \<subseteq> chunk_lines (cs_chunks s))
   \<and> (0 < cs_section_chunks s \<longrightarrow> cs_chunks s \<noteq> [] \<and> ck_heading_path (last (cs_chunks s)) = cs_heading_path s)
   \<and> cs_buffer_chars s = buffer_bytes (cs_buffer s)
   \<and> (\<forall>l \<in> set (cs_buffer s). length (pl_text l) \<le> PIECE_MAX)
   \<and> (\<forall>c \<in> set (cs_chunks s). text_bytes (ck_text c) \<le> CHUNK_MAX_CHARS)"

lemma chunk_lines_append [simp]: "chunk_lines (a @ b) = chunk_lines a \<union> chunk_lines b"
  by (simp add: chunk_lines_def)

lemma trim_blank_set: "set (trim_blank_lines b) \<subseteq> set b"
  unfolding trim_blank_lines_def by (auto dest!: set_dropWhileD)

lemma dropWhile_text: "pl_text ` set (dropWhile (\<lambda>l. pl_text l = []) b) - {[]} = pl_text ` set b - {[]}"
  by (induction b) auto

lemma trim_blank_text: "pl_text ` set (trim_blank_lines b) - {[]} = pl_text ` set b - {[]}"
  unfolding trim_blank_lines_def set_rev dropWhile_text by (simp add: dropWhile_text)

lemma dropWhile_bytes: "buffer_bytes (dropWhile (\<lambda>l. pl_text l = []) b) = buffer_bytes b"
  by (induction b) (auto simp: buffer_bytes_def)

lemma buffer_bytes_rev: "buffer_bytes (rev b) = buffer_bytes b"
  by (induction b) (simp_all add: buffer_bytes_def)

lemma trim_blank_bytes: "buffer_bytes (trim_blank_lines b) = buffer_bytes b"
  by (simp add: trim_blank_lines_def buffer_bytes_rev dropWhile_bytes)

lemma keep_overlap_set: "set (keep_overlap b n kept) \<subseteq> set b \<union> set kept"
  by (induction b n kept rule: keep_overlap.induct) auto

lemma keep_overlap_bytes:
  "(kept = [] \<longrightarrow> n = 0) \<Longrightarrow> buffer_bytes kept = n \<Longrightarrow> n \<le> PIECE_MAX \<Longrightarrow> \<forall>l \<in> set b. length (pl_text l) \<le> PIECE_MAX
    \<Longrightarrow> buffer_bytes (keep_overlap b n kept) \<le> PIECE_MAX"
proof (induction b n kept rule: keep_overlap.induct)
  case (2 line buffer n kept)
  let ?len = "length (pl_text line)"
  have len: "?len \<le> PIECE_MAX" using "2.prems"(4) by simp
  have b: "buffer_bytes (line # kept) = n + ?len" using "2.prems"(2) by (simp add: buffer_bytes_def)
  consider (blank) "pl_text line = []" | (full) "pl_text line \<noteq> []" "CHUNK_OVERLAP_CHARS < n + ?len" "kept \<noteq> []"
    | (last) "pl_text line \<noteq> []" "CHUNK_OVERLAP_CHARS \<le> n + ?len" "CHUNK_OVERLAP_CHARS < n + ?len \<longrightarrow> kept = []"
    | (more) "pl_text line \<noteq> []" "n + ?len < CHUNK_OVERLAP_CHARS" by linarith
  then show ?case
  proof cases
    case blank
    then show ?thesis using "2.IH"(1) "2.prems" by simp
  next
    case full
    then show ?thesis using "2.prems"(2,3) by simp
  next
    case last
    have "n + ?len \<le> PIECE_MAX" using last(2,3) "2.prems"(1) len by (cases "kept = []") (simp_all add: PIECE_MAX_def CHUNK_OVERLAP_CHARS_def)
    then show ?thesis using last b by auto
  next
    case more
    then have "n + ?len \<le> PIECE_MAX" by (simp add: PIECE_MAX_def CHUNK_OVERLAP_CHARS_def)
    then show ?thesis using "2.IH"(2) "2.prems"(4) more b by simp
  qed
qed (simp add: buffer_bytes_def)

lemma state_okD:
  assumes "state_ok s"
  shows "\<And>l. l \<in> set (cs_buffer s) \<Longrightarrow> newline \<notin> set (pl_text l) \<and> length (pl_text l) \<le> PIECE_MAX"
    and "cs_overlap_only s \<Longrightarrow> buffer_lines s \<subseteq> chunk_lines (cs_chunks s)"
    and "0 < cs_section_chunks s \<Longrightarrow> cs_chunks s \<noteq> [] \<and> ck_heading_path (last (cs_chunks s)) = cs_heading_path s"
    and "cs_buffer_chars s = buffer_bytes (cs_buffer s)"
    and "\<And>c. c \<in> set (cs_chunks s) \<Longrightarrow> text_bytes (ck_text c) \<le> CHUNK_MAX_CHARS"
  using assms unfolding state_ok_def by blast+

lemma body_lines:
  assumes "b \<noteq> []" and "\<forall>l \<in> set b. newline \<notin> set (pl_text l)"
  shows "split_on newline (body_of b) = map pl_text b" "text_bytes (body_of b) = buffer_bytes b"
  using assms by (simp_all add: body_of_def split_on_join text_bytes_def filter_join buffer_bytes_def comp_def)

lemma text_bytes_le: "text_bytes t \<le> length t"
  by (simp add: text_bytes_def)

text \<open>What a call of \<open>emit\<close> does, by its three outcomes.\<close>

lemma emit_cases:
  assumes "state_ok s" and "buffer_bytes (cs_buffer s) \<le> CHUNK_MAX_CHARS"
    and b_def: "b = trim_blank_lines (cs_buffer s)"
  obtains (Nothing) "emit overlap s = s\<lparr>cs_buffer := [], cs_buffer_chars := 0\<rparr>" "buffer_lines s = {}"
  | (Merged) earlier prev finish where "emit overlap s = s\<lparr>cs_chunks := earlier @ [prev\<lparr>ck_text := ck_text prev @ newline # body_of b, ck_end_offset := finish\<rparr>],
        cs_buffer := [], cs_buffer_chars := 0\<rparr>" "cs_chunks s = earlier @ [prev]" "ck_heading_path prev = cs_heading_path s"
      "text_bytes (ck_text prev) + text_bytes (body_of b) \<le> CHUNK_MAX_CHARS" "b \<noteq> []"
  | (Pushed) c kept where "emit overlap s = s\<lparr>cs_chunks := cs_chunks s @ [c], cs_section_chunks := cs_section_chunks s + 1,
        cs_buffer := kept, cs_buffer_chars := buffer_bytes kept\<rparr>" "ck_heading_path c = cs_heading_path s" "ck_text c = body_of b" "b \<noteq> []"
      "set kept \<subseteq> set (cs_buffer s)" "buffer_bytes kept \<le> PIECE_MAX" "\<not> overlap \<longrightarrow> kept = []"
proof (cases "b = []")
  case True
  moreover have "buffer_lines s = {}" using trim_blank_text [of "cs_buffer s"] True by (auto simp: buffer_lines_def b_def)
  ultimately show thesis by (intro Nothing) (simp_all add: emit_def Let_def flip: b_def)
next
  case False
  show thesis
  proof (cases "merges_tail overlap s (body_of b)")
    case True
    note m = True [unfolded merges_tail_def]
    have prev: "cs_chunks s = butlast (cs_chunks s) @ [last (cs_chunks s)]" using m by simp
    have "text_bytes (ck_text (last (cs_chunks s))) + text_bytes (body_of b) \<le> CHUNK_MAX_CHARS"
      using m text_bytes_le [of "body_of b"] text_bytes_le [of "ck_text (last (cs_chunks s))"] by linarith
    with state_okD(3) [OF assms(1)] m prev show thesis
      using True False by (intro Merged [OF _ prev]) (simp_all add: emit_def Let_def flip: b_def)
  next
    case no: False
    define kept where "kept = (if overlap then keep_overlap (rev b) 0 [] else [])"
    have sub: "set b \<subseteq> set (cs_buffer s)" unfolding b_def by (rule trim_blank_set)
    have "set kept \<subseteq> set (cs_buffer s)" using keep_overlap_set [of "rev b" 0 "[]"] sub by (auto simp: kept_def)
    moreover have "buffer_bytes kept \<le> PIECE_MAX"
      using keep_overlap_bytes [of "[]" 0 "rev b"] state_okD(1) [OF assms(1)] sub by (auto simp: kept_def buffer_bytes_def)
    ultimately show thesis
      using no False by (intro Pushed [where kept = kept and c = "\<lparr>ck_seq = of_nat (length (cs_chunks s)), ck_heading_path = cs_heading_path s,
          ck_start_offset = clamp_u32 (pl_start (hd b)), ck_end_offset = clamp_u32 (pl_end (last b)), ck_text = body_of b\<rparr>"]) (simp_all add: emit_def Let_def kept_def flip: b_def)
  qed
qed

lemma buffer_lines_Nil: "cs_buffer s = [] \<Longrightarrow> buffer_lines s = {}"
  by (simp add: buffer_lines_def)

lemma emit_ok:
  assumes ok: "state_ok s" and size: "buffer_bytes (cs_buffer s) \<le> CHUNK_MAX_CHARS"
  shows "chunk_lines (cs_chunks (emit overlap s)) = chunk_lines (cs_chunks s) \<union> buffer_lines s"
    and "buffer_lines (emit overlap s) \<subseteq> buffer_lines s"
    and "cs_heading_path (emit overlap s) = cs_heading_path s"
    and "cs_buffer_chars (emit overlap s) \<le> PIECE_MAX"
    and "\<not> overlap \<Longrightarrow> cs_buffer (emit overlap s) = []"
    and "state_ok (emit overlap s)"
proof -
  let ?b = "trim_blank_lines (cs_buffer s)"
  have plain: "\<forall>l \<in> set ?b. newline \<notin> set (pl_text l)" using state_okD(1) [OF ok] trim_blank_set by blast
  have lines: "Pair (cs_heading_path s) ` (set (split_on newline (body_of ?b)) - {[]}) = buffer_lines s" if "?b \<noteq> []"
    using body_lines(1) [OF that plain] trim_blank_text [of "cs_buffer s"] by (simp add: buffer_lines_def)
  have bytes: "text_bytes (body_of ?b) \<le> CHUNK_MAX_CHARS" if "?b \<noteq> []"
    using body_lines(2) [OF that plain] size by (simp add: trim_blank_bytes)
  note okD = state_okD [OF ok]
  have "chunk_lines (cs_chunks (emit overlap s)) = chunk_lines (cs_chunks s) \<union> buffer_lines s
     \<and> buffer_lines (emit overlap s) \<subseteq> buffer_lines s \<and> cs_heading_path (emit overlap s) = cs_heading_path s
     \<and> cs_buffer_chars (emit overlap s) \<le> PIECE_MAX \<and> (\<not> overlap \<longrightarrow> cs_buffer (emit overlap s) = [])
     \<and> state_ok (emit overlap s)"
  proof (rule emit_cases [OF ok size refl, where overlap = overlap], goal_cases Nothing Merged Pushed)
    case Nothing
    then show ?thesis using okD(3,5) by (auto simp: buffer_lines_Nil state_ok_def buffer_bytes_def)
  next
    case (Merged earlier prev finish)
    have "chunk_lines (cs_chunks (emit overlap s)) = chunk_lines (cs_chunks s) \<union> buffer_lines s"
      unfolding lines [OF Merged(5), symmetric] using Merged by (auto simp: chunk_lines_def split_on_append)
    moreover have "text_bytes (ck_text prev @ newline # body_of ?b) \<le> CHUNK_MAX_CHARS"
      using Merged(4) by (simp add: text_bytes_def)
    ultimately show ?thesis using Merged okD(3,5) by (auto simp: buffer_lines_Nil state_ok_def buffer_bytes_def)
  next
    case (Pushed c kept)
    have l: "chunk_lines (cs_chunks (emit overlap s)) = chunk_lines (cs_chunks s) \<union> buffer_lines s"
      unfolding lines [OF Pushed(4), symmetric] using Pushed by (simp add: chunk_lines_def Un_commute)
    moreover have "buffer_lines (emit overlap s) \<subseteq> buffer_lines s" using Pushed by (auto simp: buffer_lines_def)
    moreover have "state_ok (emit overlap s)"
      using l calculation(2) Pushed okD bytes unfolding state_ok_def by auto
    ultimately show ?thesis using Pushed by auto
  qed
  then show "chunk_lines (cs_chunks (emit overlap s)) = chunk_lines (cs_chunks s) \<union> buffer_lines s"
    "buffer_lines (emit overlap s) \<subseteq> buffer_lines s" "cs_heading_path (emit overlap s) = cs_heading_path s"
    "cs_buffer_chars (emit overlap s) \<le> PIECE_MAX" "\<not> overlap \<Longrightarrow> cs_buffer (emit overlap s) = []" "state_ok (emit overlap s)"
    by blast+
qed

section \<open>The loop\<close>

definition all_lines :: "chunk_state \<Rightarrow> (string list \<times> string) set" where
  "all_lines s = chunk_lines (cs_chunks s) \<union> buffer_lines s"

definition between_pieces :: "chunk_state \<Rightarrow> bool" where
  "between_pieces s \<longleftrightarrow> state_ok s \<and> cs_buffer_chars s < CHUNK_TARGET_CHARS"

lemma chunk_piece_ok:
  assumes "between_pieces s" and "newline \<notin> set p" and "length p \<le> PIECE_MAX"
  shows "between_pieces (chunk_piece (i, p) s)"
    and "all_lines (chunk_piece (i, p) s) = all_lines s \<union> Pair (cs_heading_path s) ` ({p} - {[]})"
    and "cs_heading_path (chunk_piece (i, p) s) = cs_heading_path s"
proof -
  have ok: "state_ok s" and less: "cs_buffer_chars s < CHUNK_TARGET_CHARS" using assms(1) by (simp_all add: between_pieces_def)
  note okD = state_okD [OF ok]
  define s1 where "s1 = s\<lparr>cs_overlap_only := (if p = [] then cs_overlap_only s else False),
      cs_buffer_chars := cs_buffer_chars s + length p,
      cs_buffer := cs_buffer s @ [\<lparr>pl_start = cs_offset s + i, pl_end = cs_offset s + i + length p, pl_text = p\<rparr>]\<rparr>"
  have lines: "buffer_lines s1 = buffer_lines s \<union> Pair (cs_heading_path s) ` ({p} - {[]})" by (auto simp: buffer_lines_def s1_def)
  have bytes: "buffer_bytes (cs_buffer s1) = cs_buffer_chars s + length p"
    using okD(4) by (simp add: s1_def buffer_bytes_def)
  have ok1: "state_ok s1"
  proof -
    have "buffer_lines s1 \<subseteq> chunk_lines (cs_chunks s1)" if "cs_overlap_only s1"
      using that lines okD(2) by (auto simp: s1_def split: if_splits)
    then show ?thesis using okD assms(2,3) bytes unfolding state_ok_def by (auto simp: s1_def)
  qed
  have size: "buffer_bytes (cs_buffer s1) \<le> CHUNK_MAX_CHARS"
    using bytes less assms(3) by (simp add: CHUNK_TARGET_CHARS_def CHUNK_MAX_CHARS_def PIECE_MAX_def)
  have piece: "chunk_piece (i, p) s = (if p = [] \<and> cs_buffer s = [] then s
      else if CHUNK_TARGET_CHARS \<le> cs_buffer_chars s1 \<and> \<not> cs_overlap_only s1 then (emit True s1)\<lparr>cs_overlap_only := True\<rparr> else s1)"
    by (simp add: chunk_piece_def s1_def Let_def)
  have path: "cs_heading_path s1 = cs_heading_path s" and chunks: "cs_chunks s1 = cs_chunks s" by (simp_all add: s1_def)
  have target: "PIECE_MAX < CHUNK_TARGET_CHARS" by (simp add: PIECE_MAX_def CHUNK_TARGET_CHARS_def)
  note e = emit_ok [OF ok1 size, of True]
  have after: "state_ok ((emit True s1)\<lparr>cs_overlap_only := True\<rparr>)"
  proof -
    have "buffer_lines (emit True s1) \<subseteq> chunk_lines (cs_chunks (emit True s1))" using e(1,2) by blast
    then show ?thesis using state_okD [OF e(6)] unfolding state_ok_def by (simp add: buffer_lines_def)
  qed
  have full: "cs_buffer_chars s1 < CHUNK_TARGET_CHARS" if "p = []" using that less by (simp add: s1_def)
  show "between_pieces (chunk_piece (i, p) s)"
    unfolding piece between_pieces_def using ok less ok1 after e(4) full target
    by (cases "p = []") (auto simp: s1_def not_le)
  show "all_lines (chunk_piece (i, p) s) = all_lines s \<union> Pair (cs_heading_path s) ` ({p} - {[]})"
  proof -
    have "buffer_lines ((emit True s1)\<lparr>cs_overlap_only := True\<rparr>) = buffer_lines (emit True s1)" by (simp add: buffer_lines_def)
    then show ?thesis using e(1,2) lines chunks unfolding piece all_lines_def by auto
  qed
  show "cs_heading_path (chunk_piece (i, p) s) = cs_heading_path s"
    using e(3) path unfolding piece by simp
qed

lemma flush_ok:
  assumes "between_pieces s"
  shows "chunk_lines (cs_chunks (flush s)) = all_lines s" "cs_buffer (flush s) = []" "state_ok (flush s)"
    "cs_heading_path (flush s) = cs_heading_path s"
proof -
  define s1 where "s1 = (if cs_overlap_only s then s\<lparr>cs_buffer := [], cs_buffer_chars := 0\<rparr> else s)"
  have ok: "state_ok s" "cs_buffer_chars s < CHUNK_TARGET_CHARS" using assms by (simp_all add: between_pieces_def)
  have s1: "state_ok s1" "buffer_bytes (cs_buffer s1) \<le> CHUNK_MAX_CHARS" "cs_heading_path s1 = cs_heading_path s"
    "chunk_lines (cs_chunks s1) \<union> buffer_lines s1 = all_lines s"
    using state_okD [OF ok(1)] ok
    by (auto simp: s1_def state_ok_def buffer_bytes_def buffer_lines_Nil all_lines_def CHUNK_TARGET_CHARS_def CHUNK_MAX_CHARS_def)
  note e = emit_ok [OF s1(1,2), of False]
  show "chunk_lines (cs_chunks (flush s)) = all_lines s" "cs_buffer (flush s) = []" "state_ok (flush s)"
    "cs_heading_path (flush s) = cs_heading_path s"
    using e(1,3,5,6) s1(3,4) by (simp_all add: flush_def flip: s1_def)
qed

lemma chunk_heading_ok:
  assumes "between_pieces s"
  shows "between_pieces (chunk_heading t s)" "all_lines (chunk_heading t s) = all_lines s"
    "cs_heading_path (chunk_heading t s) = heading_path_after (cs_heading_path s) t"
proof -
  note f = flush_ok [OF assms]
  have "cs_buffer_chars (flush s) = 0" using state_okD(4) [OF f(3)] f(2) by (simp add: buffer_bytes_def)
  then show "between_pieces (chunk_heading t s)" "all_lines (chunk_heading t s) = all_lines s"
    "cs_heading_path (chunk_heading t s) = heading_path_after (cs_heading_path s) t"
    using f state_okD(5) [OF f(3)]
    by (simp_all add: chunk_heading_def between_pieces_def all_lines_def state_ok_def buffer_lines_Nil buffer_bytes_def CHUNK_TARGET_CHARS_def)
qed

lemma chunk_pieces_ok:
  assumes "between_pieces s" and "\<forall>(i, p) \<in> set ps. newline \<notin> set p \<and> length p \<le> PIECE_MAX"
  shows "between_pieces (fold chunk_piece ps s)
     \<and> all_lines (fold chunk_piece ps s) = all_lines s \<union> Pair (cs_heading_path s) ` (snd ` set ps - {[]})
     \<and> cs_heading_path (fold chunk_piece ps s) = cs_heading_path s"
  using assms
proof (induction ps arbitrary: s)
  case (Cons ip ps)
  obtain i p where ip: "ip = (i, p)" by (cases ip)
  then have p: "newline \<notin> set p" "length p \<le> PIECE_MAX" using Cons.prems(2) by auto
  note c = chunk_piece_ok [OF Cons.prems(1) p, of i]
  show ?case using Cons.IH [OF c(1)] Cons.prems(2) c(2,3) by (auto simp: ip)
qed simp

text \<open>
  What a document consists of: the lines that are no headings under the headings above them, and the pieces with text these
  lines are cut into.
\<close>

fun section_lines :: "string list \<Rightarrow> string list \<Rightarrow> (string list \<times> string) list" where
  "section_lines path [] = []"
| "section_lines path (block # blocks) =
     (let t = line_of_block block
      in if is_heading t then section_lines (heading_path_after path t) blocks else (path, t) # section_lines path blocks)"

definition document_lines :: "string list \<Rightarrow> string list \<Rightarrow> (string list \<times> string) set" where
  "document_lines path blocks =
     {(above, p). p \<noteq> [] \<and> (\<exists>t ps. (above, t) \<in> set (section_lines path blocks) \<and> split_long_line t = Some ps \<and> p \<in> snd ` set ps)}"

lemma document_lines_Cons:
  "document_lines path (block # blocks) =
     (if is_heading (line_of_block block) then document_lines (heading_path_after path (line_of_block block)) blocks
      else {(path, p) | p ps. p \<noteq> [] \<and> split_long_line (line_of_block block) = Some ps \<and> p \<in> snd ` set ps} \<union> document_lines path blocks)"
  by (auto simp: document_lines_def Let_def)

lemma split_inclusive_block: "b \<in> set (split_inclusive c s) \<Longrightarrow> \<exists>u. c \<notin> set u \<and> (b = u \<or> b = u @ [c])"
proof (induction c s arbitrary: b rule: split_inclusive.induct)
  case (2 c x xs)
  show ?case
  proof (cases "x = c")
    case True
    then have "b = [c] \<or> b \<in> set (split_inclusive c xs)" using 2 by auto
    then show ?thesis
    proof
      assume "b = [c]"
      then show ?thesis by (intro exI [of _ "[]"]) simp
    qed (use "2.IH"(1) [OF True] in blast)
  next
    case False
    show ?thesis
    proof (cases "split_inclusive c xs")
      case Nil
      then show ?thesis using 2 False by (intro exI [of _ b]) auto
    next
      case (Cons w ws)
      then consider "b = x # w" | "b \<in> set ws" using 2 False by auto
      then show ?thesis
      proof cases
        case 1
        obtain u where "c \<notin> set u" "w = u \<or> w = u @ [c]" using "2.IH"(2) [OF False, of w] Cons by auto
        then show ?thesis using 1 False by (intro exI [of _ "x # u"]) auto
      next
        case 2
        then show ?thesis using "2.IH"(2) [OF False, of b] Cons by auto
      qed
    qed
  qed
qed simp

lemma concat_split_inclusive: "concat (split_inclusive c s) = s"
  by (induction c s rule: split_inclusive.induct) (auto split: list.splits)

lemma line_of_block_plain:
  assumes "b \<in> set (split_inclusive newline text)"
  shows "newline \<notin> set (line_of_block b)"
proof -
  obtain u where u: "newline \<notin> set u" "b = u \<or> b = u @ [newline]" using split_inclusive_block [OF assms] by blast
  define v where "v = rev (dropWhile (\<lambda>c. c = newline \<or> c = CHR 0x0D) (rev b))"
  have "v = rev (dropWhile (\<lambda>c. c = newline \<or> c = CHR 0x0D) (rev u))" using u(2) by (auto simp: v_def)
  then have "set v \<subseteq> set u" by (auto dest!: set_dropWhileD)
  moreover obtain x y where "v = x @ trim v @ y" using trim_infix by blast
  then have "set (trim v) \<subseteq> set v" by (metis Un_upper1 Un_upper2 order_trans set_append)
  ultimately show ?thesis using u(1) unfolding line_of_block_def v_def by blast
qed

lemma line_of_block_widths: "char_widths_ok b \<Longrightarrow> char_widths_ok (line_of_block b)"
proof -
  assume b: "char_widths_ok b"
  define v where "v = rev (dropWhile (\<lambda>c. c = newline \<or> c = CHR 0x0D) (rev b))"
  have "b = v @ rev (takeWhile (\<lambda>c. c = newline \<or> c = CHR 0x0D) (rev b))"
    unfolding v_def by (metis rev_append rev_rev_ident takeWhile_dropWhile_id)
  then have "char_widths_ok v" using b char_widths_prefix by metis
  moreover obtain x y where "v = x @ trim v @ y" using trim_infix by blast
  ultimately show ?thesis unfolding line_of_block_def v_def [symmetric] using char_widths_infix by metis
qed

lemma chunk_blocks_ok:
  assumes "between_pieces s" and "\<forall>b \<in> set blocks. char_widths_ok b \<and> newline \<notin> set (line_of_block b)"
  shows "\<exists>s'. chunk_blocks blocks s = Some s' \<and> between_pieces s'
     \<and> all_lines s' = all_lines s \<union> document_lines (cs_heading_path s) blocks"
  using assms
proof (induction blocks arbitrary: s)
  case Nil
  then show ?case by (simp add: document_lines_def)
next
  case (Cons b blocks)
  let ?t = "line_of_block b"
  define advance :: "chunk_state \<Rightarrow> chunk_state" where "advance = (\<lambda>s. s\<lparr>cs_offset := cs_offset s + length b\<rparr>)"
  have advance: "between_pieces (advance s) = between_pieces s" "all_lines (advance s) = all_lines s"
    "cs_heading_path (advance s) = cs_heading_path s" for s
    by (simp_all add: advance_def between_pieces_def state_ok_def all_lines_def buffer_lines_def)
  have "\<exists>s1. chunk_block b s = Some s1 \<and> between_pieces s1
      \<and> all_lines s1 \<union> document_lines (cs_heading_path s1) blocks = all_lines s \<union> document_lines (cs_heading_path s) (b # blocks)"
  proof (cases "is_heading ?t")
    case True
    then have "chunk_block b s = Some (advance (chunk_heading ?t s))" by (simp add: chunk_block_def advance_def Let_def)
    then show ?thesis using chunk_heading_ok [OF Cons.prems(1), of ?t] True by (simp add: advance document_lines_Cons)
  next
    case False
    have "char_widths_ok ?t" using line_of_block_widths Cons.prems(2) by simp
    then obtain ps where ps: "split_long_line ?t = Some ps" "list_all (piece_ok ?t) ps" using split_long_line_total by metis
    have "newline \<notin> set p \<and> length p \<le> PIECE_MAX" if "(i, p) \<in> set ps" for i p
    proof -
      have "piece_ok ?t (i, p)" using ps(2) that by (auto simp: list_all_iff)
      then have "p = take (length p) (drop i ?t)" "length p \<le> PIECE_MAX" by (simp_all add: piece_ok_def)
      then show ?thesis using Cons.prems(2) by (metis in_set_dropD in_set_takeD list.set_intros(1))
    qed
    then have c: "between_pieces (fold chunk_piece ps s)"
      "all_lines (fold chunk_piece ps s) = all_lines s \<union> Pair (cs_heading_path s) ` (snd ` set ps - {[]})"
      "cs_heading_path (fold chunk_piece ps s) = cs_heading_path s"
      using chunk_pieces_ok [OF Cons.prems(1), of ps] by auto
    have "chunk_block b s = Some (advance (fold chunk_piece ps s))"
      using False ps(1) by (simp add: chunk_block_def advance_def Let_def)
    moreover have "document_lines (cs_heading_path s) (b # blocks)
        = Pair (cs_heading_path s) ` (snd ` set ps - {[]}) \<union> document_lines (cs_heading_path s) blocks"
      using False ps(1) by (auto simp: document_lines_Cons)
    ultimately show ?thesis using c by (simp add: advance Un_assoc)
  qed
  then obtain s1 where s1: "chunk_block b s = Some s1" "between_pieces s1"
    "all_lines s1 \<union> document_lines (cs_heading_path s1) blocks = all_lines s \<union> document_lines (cs_heading_path s) (b # blocks)" by blast
  from Cons.IH [OF s1(2)] Cons.prems(2) s1 show ?case by auto
qed

section \<open>Documents\<close>

lemma chunk_start_ok: "between_pieces chunk_start" "all_lines chunk_start = {}" "cs_heading_path chunk_start = []"
  by (simp_all add: between_pieces_def state_ok_def chunk_start_def all_lines_def buffer_lines_def chunk_lines_def
      buffer_bytes_def CHUNK_TARGET_CHARS_def)

abbreviation renumbered :: "nat \<Rightarrow> chunk_row list \<Rightarrow> chunk_row list" where
  "renumbered n chunks \<equiv> map (\<lambda>(i, c). c\<lparr>ck_seq := of_nat i\<rparr>) (enumerate n chunks)"

lemma renumbered_same:
  "chunk_lines (renumbered n chunks) = chunk_lines chunks" "map ck_text (renumbered n chunks) = map ck_text chunks"
  by (induction chunks arbitrary: n) (simp_all add: chunk_lines_def)

lemma renumbered_seq: "map ck_seq (renumbered n chunks) = map of_nat [n..<n + length chunks]"
proof (induction chunks arbitrary: n)
  case (Cons c chunks)
  have "[n..<n + length (c # chunks)] = n # [Suc n..<Suc n + length chunks]" by (simp add: upt_conv_Cons del: upt_Suc)
  then show ?case using Cons [of "Suc n"] by simp
qed simp

lemma chunk_document_total:
  assumes "char_widths_ok text"
  obtains s chunks where "chunk_document text = Some chunks" "chunks = renumbered 0 (cs_chunks s)" "state_ok s"
    "chunk_lines chunks = document_lines [] (split_inclusive newline text)"
proof -
  have "char_widths_ok b \<and> newline \<notin> set (line_of_block b)" if b: "b \<in> set (split_inclusive newline text)" for b
  proof -
    obtain x y where "split_inclusive newline text = x @ b # y" using split_list [OF b] by blast
    then have "concat x @ b @ concat y = text"
      using concat_split_inclusive [of newline "text"] by (metis concat.simps(2) concat_append)
    then show ?thesis using assms char_widths_infix line_of_block_plain [OF b] by metis
  qed
  then obtain s where s: "chunk_blocks (split_inclusive newline text) chunk_start = Some s" "between_pieces s"
    "all_lines s = document_lines [] (split_inclusive newline text)"
    using chunk_blocks_ok [OF chunk_start_ok(1), of "split_inclusive newline text"] chunk_start_ok(2,3) by auto
  have "chunk_lines (renumbered 0 (cs_chunks (flush s))) = document_lines [] (split_inclusive newline text)"
    unfolding renumbered_same(1) flush_ok(1) [OF s(2)] s(3) ..
  moreover have "chunk_document text = Some (renumbered 0 (cs_chunks (flush s)))" by (simp add: chunk_document_def s(1))
  ultimately show thesis using that flush_ok(3) [OF s(2)] by blast
qed

text \<open>
  (C38) The chunks are the document: the chunker returns on every well-formed text, and the lines with text of its chunks, each
  with the headings of its chunk, are exactly the pieces of the lines of the document, each with the headings it stands under.
  So no text is lost or invented, and no chunk mixes sections.
\<close>

theorem chunks_are_the_document:
  assumes "char_widths_ok text"
  shows "\<exists>chunks. chunk_document text = Some chunks \<and> chunk_lines chunks = document_lines [] (split_inclusive newline text)"
  using chunk_document_total [OF assms] by metis

text \<open>
  (C39) Without its line breaks no chunk is longer than the ceiling of 2300 bytes, and the chunks are numbered from 0 in the order of the
  document.
\<close>

theorem chunks_within_ceiling:
  assumes "chunk_document text = Some chunks" and "char_widths_ok text"
  shows "(\<forall>c \<in> set chunks. text_bytes (ck_text c) \<le> 2300) \<and> map ck_seq chunks = map of_nat [0..<length chunks]"
proof -
  obtain s where s: "chunks = renumbered 0 (cs_chunks s)" "state_ok s"
    using chunk_document_total [OF assms(2)] assms(1) by (metis option.inject)
  have "ck_text ` set chunks = ck_text ` set (cs_chunks s)"
    using renumbered_same(2) [of 0 "cs_chunks s"] s(1) by (metis list.set_map)
  then have "text_bytes (ck_text c) \<le> 2300" if "c \<in> set chunks" for c
    using that state_okD(5) [OF s(2)] unfolding CHUNK_MAX_CHARS_def by (metis (no_types, lifting) image_iff)
  moreover have "map ck_seq chunks = map of_nat [0..<length chunks]"
    using renumbered_seq [of 0 "cs_chunks s"] s(1) by simp
  ultimately show ?thesis by blast
qed

lemma spaced_widths: "char_widths_ok (''a'' @ [newline] @ replicate n newline @ ''b'')"
proof -
  have "char_widths_ok (replicate n newline @ ''b'')" by (induction n) (auto simp: utf8_cont_def hd_append)
  then show ?thesis by (cases n) (simp_all add: utf8_cont_def)
qed

section \<open>The ceiling in bytes\<close>

text \<open>Two short lines with blank lines between them are one chunk, however many blank lines there are.\<close>

definition spaced_text :: "nat \<Rightarrow> string" where
  "spaced_text n = ''a'' @ [newline] @ replicate n newline @ ''b''"

lemma spaced_blocks: "split_inclusive newline (spaced_text n) = [''a'' @ [newline]] @ replicate n [newline] @ [''b'']"
proof -
  have "split_inclusive newline (replicate n newline @ ''b'') = replicate n [newline] @ [''b'']" by (induction n) simp_all
  then show ?thesis by (simp add: spaced_text_def)
qed

lemma plain_lines: "line_of_block (''a'' @ [newline]) = ''a''" "line_of_block [newline] = []" "line_of_block ''b'' = ''b''"
  by code_simp+

definition spaced_state :: "nat \<Rightarrow> pending_line list \<Rightarrow> nat \<Rightarrow> chunk_state" where
  "spaced_state chars buffer offset = \<lparr>cs_chunks = [], cs_heading_path = [], cs_buffer = buffer, cs_buffer_chars = chars,
     cs_section_chunks = 0, cs_overlap_only = False, cs_offset = offset\<rparr>"

lemma spaced_block:
  assumes "line_of_block b = t" and "length t \<le> 1" and "t \<noteq> ''#''" and "buffer \<noteq> [] \<or> t \<noteq> []" and "chars < 10"
  shows "chunk_block b (spaced_state chars buffer offset)
    = Some (spaced_state (chars + length t) (buffer @ [\<lparr>pl_start = offset, pl_end = offset + length t, pl_text = t\<rparr>]) (offset + length b))"
proof -
  have "\<not> is_heading t" using assms(2,3) by (cases t) (auto simp: is_heading_def hashes_of_def)
  moreover have "split_long_line t = Some [(0, t)]" using assms(2) by (simp add: split_long_line_def PIECE_MAX_def)
  ultimately show ?thesis using assms
    by (auto simp: chunk_block_def Let_def chunk_piece_def spaced_state_def CHUNK_TARGET_CHARS_def)
qed

lemma blank_blocks:
  "buffer \<noteq> [] \<Longrightarrow> chars < 10 \<Longrightarrow>
     \<exists>blanks offset'. map pl_text blanks = replicate n [] \<and>
       chunk_blocks (replicate n [newline] @ rest) (spaced_state chars buffer offset)
       = chunk_blocks rest (spaced_state chars (buffer @ blanks) offset')"
proof (induction n arbitrary: buffer offset)
  case 0
  then show ?case by (intro exI [of _ "[]"]) auto
next
  case (Suc n)
  let ?l = "\<lparr>pl_start = offset, pl_end = offset, pl_text = []\<rparr>"
  obtain blanks offset' where b: "map pl_text blanks = replicate n []"
    "chunk_blocks (replicate n [newline] @ rest) (spaced_state chars (buffer @ [?l]) (offset + 1))
       = chunk_blocks rest (spaced_state chars ((buffer @ [?l]) @ blanks) offset')"
    using Suc.IH [of "buffer @ [?l]" "offset + 1"] Suc.prems(2) by auto
  then show ?case
    using spaced_block [OF plain_lines(2), of buffer chars offset] Suc.prems
    by (intro exI [of _ "?l # blanks"] exI [of _ offset']) simp
qed

lemma spaced_document:
  "\<exists>c. chunk_document (spaced_text n) = Some [c] \<and> ck_text c = spaced_text n \<and> length (ck_text c) = n + 3"
proof -
  obtain blanks offset' where b: "map pl_text blanks = replicate n []"
    "chunk_blocks (replicate n [newline] @ [''b'']) (spaced_state 1 [\<lparr>pl_start = 0, pl_end = 1, pl_text = ''a''\<rparr>] 2)
       = chunk_blocks [''b''] (spaced_state 1 ([\<lparr>pl_start = 0, pl_end = 1, pl_text = ''a''\<rparr>] @ blanks) offset')"
    using blank_blocks [of "[\<lparr>pl_start = 0, pl_end = 1, pl_text = ''a''\<rparr>]" 1 n "[''b'']" 2] by auto
  define buffer where "buffer = [\<lparr>pl_start = 0, pl_end = 1, pl_text = ''a''\<rparr>] @ blanks @ [\<lparr>pl_start = offset', pl_end = offset' + 1, pl_text = ''b''\<rparr>]"
  have start: "chunk_start = spaced_state 0 [] 0" by (simp add: chunk_start_def spaced_state_def)
  have "chunk_blocks (split_inclusive newline (spaced_text n)) chunk_start = Some (spaced_state 2 buffer (offset' + 1))"
    unfolding spaced_blocks start using b spaced_block [OF plain_lines(1), of "[]" 0 0] spaced_block [OF plain_lines(3), of _ 1 offset']
    by (simp add: buffer_def numeral_2_eq_2)
  moreover have "trim_blank_lines buffer = buffer" by (simp add: buffer_def trim_blank_lines_def)
  moreover have "body_of buffer = spaced_text n"
  proof -
    have "join_with [newline] (''a'' # replicate n [] @ [''b'']) = ''a'' @ [newline] @ replicate n newline @ ''b''"
    proof -
      have "join_with [newline] (replicate n [] @ [''b'']) = replicate n newline @ ''b''"
        by (induction n) (auto simp: Suc_le_eq neq_Nil_conv split: list.split, (case_tac n; simp)+)
      then show ?thesis by (cases n) simp_all
    qed
    then show ?thesis by (simp add: body_of_def buffer_def b(1) spaced_text_def)
  qed
  ultimately show ?thesis
    by (simp add: chunk_document_def flush_def emit_def Let_def spaced_state_def merges_tail_def buffer_def spaced_text_def)
qed

text \<open>
  (C40) The ceiling of 2300 bytes is not kept: line breaks do not count towards the size at which a chunk is closed, so for every size there
  is a text whose only chunk is larger, two letters with blank lines between them.
\<close>

theorem chunk_ceiling_exceeded:
  "\<exists>text c. char_widths_ok text \<and> text_bytes text = 2 \<and> chunk_document text = Some [c] \<and> bound < length (ck_text c)"
proof -
  obtain c where "chunk_document (spaced_text bound) = Some [c]" "length (ck_text c) = bound + 3" using spaced_document by blast
  moreover have "char_widths_ok (spaced_text bound)" using spaced_widths by (simp add: spaced_text_def)
  moreover have "text_bytes (spaced_text bound) = 2" by (simp add: text_bytes_def spaced_text_def)
  ultimately show ?thesis by (intro exI [of _ "spaced_text bound"] exI [of _ c]) simp
qed

theorem chunks_are_the_document_witness:
  "\<exists>chunks. chunk_document (spaced_text 3) = Some chunks \<and> chunk_lines chunks = document_lines [] (split_inclusive newline (spaced_text 3))"
  using chunks_are_the_document [OF spaced_widths [of 3, folded spaced_text_def]] .

theorem chunks_within_ceiling_witness:
  "\<exists>c. chunk_document (spaced_text 5000) = Some [c] \<and> text_bytes (ck_text c) \<le> 2300"
proof -
  obtain chunks where c: "chunk_document (spaced_text 5000) = Some chunks" "length chunks = 1"
  proof -
    obtain c where "chunk_document (spaced_text 5000) = Some [c]" using spaced_document by blast
    then show thesis using that by simp
  qed
  have "char_widths_ok (spaced_text 5000)" using spaced_widths by (simp add: spaced_text_def)
  from chunks_within_ceiling [OF c(1) this] c show ?thesis by (auto simp: length_Suc_conv)
qed

section \<open>Queries\<close>

lemma lowercase_char:
  fixes c :: char
  defines "d \<equiv> (if 65 \<le> (of_char c :: nat) \<and> (of_char c :: nat) \<le> 90 then char_of (of_char c + 32 :: nat) else c)"
  shows "(of_char d :: nat) = (if 65 \<le> (of_char c :: nat) \<and> (of_char c :: nat) \<le> 90 then of_char c + 32 else of_char c)"
proof (cases "65 \<le> (of_char c :: nat) \<and> (of_char c :: nat) \<le> 90")
  case True
  then have "(of_char c :: nat) + 32 < 256" by linarith
  then show ?thesis unfolding d_def if_P [OF True] of_char_of by (rule mod_less)
next
  case False
  show ?thesis unfolding d_def if_not_P [OF False] ..
qed

lemma sorted_remdups_adj_distinct: "sorted xs \<Longrightarrow> distinct (remdups_adj xs)"
proof (induction xs rule: remdups_adj.induct)
  case (3 x y xs)
  then show ?case by (cases "x = y") (auto dest: antisym)
qed simp_all

lemma lowercase_alphanumeric:
  assumes "list_all is_ascii_alphanumeric w"
  shows "list_all is_ascii_alphanumeric (to_ascii_lowercase w)" "to_ascii_lowercase (to_ascii_lowercase w) = to_ascii_lowercase w"
proof -
  show "list_all is_ascii_alphanumeric (to_ascii_lowercase w)"
    using assms unfolding to_ascii_lowercase_def list_all_iff set_map is_ascii_alphanumeric_def is_digit_def
    by (simp only: ball_simps lowercase_char) auto
  show "to_ascii_lowercase (to_ascii_lowercase w) = to_ascii_lowercase w"
    unfolding to_ascii_lowercase_def map_map comp_def lowercase_char by (rule map_cong [OF refl]) auto
qed

lemma split_where_words: "w \<in> set (split_where sep s) \<Longrightarrow> \<forall>c \<in> set w. \<not> sep c"
proof (induction s arbitrary: w)
  case (Cons x xs)
  show ?case
  proof (cases "sep x")
    case True
    then show ?thesis using Cons by auto
  next
    case False
    show ?thesis
    proof (cases "split_where sep xs")
      case Nil
      then show ?thesis using Cons.prems False by simp
    next
      case vs: (Cons v vs)
      then have "w = x # v \<or> w \<in> set vs" using Cons.prems False by simp
      then show ?thesis using Cons.IH [of v] Cons.IH [of w] vs False by auto
    qed
  qed
qed simp

text \<open>
  A query cannot leave its quotes: whatever the caller typed, the expression handed to the index is a disjunction of quoted words of
  ASCII letters in lower case and digits, longer than two characters, sorted and without repetition.
\<close>

theorem fts_query_is_plain:
  assumes "fts_match_expression query = Some e"
  shows "\<exists>terms. e = join_with '' OR '' (map (\<lambda>term. [CHR 0x22] @ term @ [CHR 0x22]) terms) \<and> terms \<noteq> []
     \<and> (\<forall>term \<in> set terms. 2 < length term \<and> list_all is_ascii_alphanumeric term \<and> to_ascii_lowercase term = term)
     \<and> sorted terms \<and> distinct terms"
proof -
  define words where "words = filter (\<lambda>term. 2 < length term) (map trim (split_where (\<lambda>c. \<not> is_ascii_alphanumeric c) query))"
  have e: "e = join_with '' OR '' (map (\<lambda>term. [CHR 0x22] @ term @ [CHR 0x22]) (fts_terms query))" "fts_terms query \<noteq> []"
    using assms by (auto simp: fts_match_expression_def split: if_splits)
  have "2 < length t \<and> list_all is_ascii_alphanumeric t \<and> to_ascii_lowercase t = t" if t: "t \<in> set (fts_terms query)" for t
  proof -
    obtain w where w: "w \<in> set words" "t = to_ascii_lowercase w" using t by (auto simp: fts_terms_def words_def)
    then obtain u where u: "u \<in> set (split_where (\<lambda>c. \<not> is_ascii_alphanumeric c) query)" "w = trim u" "2 < length w"
      by (auto simp: words_def)
    obtain a b where "u = a @ w @ b" using trim_infix [of u] u(2) by blast
    then have "list_all is_ascii_alphanumeric w" using split_where_words [OF u(1)] by (auto simp: list_all_iff)
    then show ?thesis using u(3) w(2) lowercase_alphanumeric by (simp add: to_ascii_lowercase_def)
  qed
  moreover have "sorted (fts_terms query)" "distinct (fts_terms query)"
    by (simp_all add: fts_terms_def sorted_remdups_adj sorted_remdups_adj_distinct)
  ultimately show ?thesis using e by blast
qed

theorem fts_query_is_plain_witness:
  "\<exists>terms. fts_match_expression ''Epoxy OR floor*'' = Some (join_with '' OR '' (map (\<lambda>term. [CHR 0x22] @ term @ [CHR 0x22]) terms)) \<and> distinct terms"
proof -
  have "fts_match_expression ''Epoxy OR floor*'' \<noteq> None" by code_simp
  then obtain e where e: "fts_match_expression ''Epoxy OR floor*'' = Some e" by blast
  from fts_query_is_plain [OF e] e show ?thesis by blast
qed

end
