(* ===== verification/Work_Queue.thy ===== *)
theory Work_Queue
  imports Source_Input
begin

text \<open>
  \<open>slices/work_queue\<close> (\<open>store.rs\<close>, the emission part of \<open>service.rs\<close>, the handlers of \<open>routes.rs\<close> that read or write the queue):
  the one feed of the operators. A classified input becomes a
  work item when the policy of its category says so; named operators see the items of their own mailbox and the
  items shared with them, and accept, dismiss, reopen, tune or assign what they see. Status, accepting actor and
  Gmail scope are strings in the tables and enums in the answers, as in the code; JSON columns are kept decoded; the JSON
  of receipts is the parameter \<open>render\<close>. An insert checks the primary key before the unique index on the source. Not modelled:
  the decoration of the feed with the state of other slices, the source view of an item, moving a message to the
  trash, and launching agents beyond the receipt and job of a request.
\<close>

section \<open>Items\<close>

datatype work_item_status = ItemOpen | ItemAccepted | ItemDismissed

datatype work_item_accept_actor = AcceptOperator | AcceptSystem

datatype work_item_action_kind = AcceptItem | DismissItem | ReopenItem

datatype work_item_assign_action_kind = AssignToMe | AssignToUser | Unassign

record queue_item = work_item +
  qi_category_id :: string
  qi_title :: string
  qi_summary :: string
  qi_packet_kinds :: "string list"
  qi_status :: work_item_status
  qi_accept_actor :: "work_item_accept_actor option"
  qi_ai_suggested :: bool
  qi_rationale :: string
  qi_produce_guidance :: string
  qi_assignee_user_id :: "string option"
  qi_visible_to_user_ids :: "string list"
  qi_created_at_ms :: u64
  qi_updated_at_ms :: u64

record queue_item_with_revision =
  qr_item :: queue_item
  qr_revision :: u64

record item_row =
  wr_source_kind :: string
  wr_source_ref :: string
  wr_category_id :: string
  wr_title :: string
  wr_summary :: string
  wr_packet_kinds :: "string list"
  wr_status :: string
  wr_accept_actor :: "string option"
  wr_ai_suggested :: bool
  wr_rationale :: string
  wr_produce_guidance :: string
  wr_source_user_id :: "string option"
  wr_assignee_user_id :: "string option"
  wr_created_at_ms :: u64
  wr_updated_at_ms :: u64

text \<open>The policy of a category, and its row.\<close>

datatype gmail_category = Primary | Updates | Social | Promotions | Forums

datatype ai_gmail_scope = ScopeDefault | ScopeAllMail | ScopeSelected

record work_queue_policy =
  qp_category_id :: string
  qp_create_work_item :: bool
  qp_packet_kinds :: "string list"
  qp_ai_suggestible_packet_kinds :: "string list"
  qp_ai_suggestible_gmail_scope :: ai_gmail_scope
  qp_ai_suggestible_gmail_categories :: "gmail_category list"
  qp_auto_produce :: bool

record policy_row =
  pr_create_work_item :: bool
  pr_packet_kinds :: "string list"
  pr_auto_produce :: bool
  pr_ai_suggestible_packet_kinds :: "string list"
  pr_ai_suggestible_gmail_scope :: string
  pr_ai_suggestible_gmail_categories :: "gmail_category list"
  pr_updated_at_ms :: u64

record queue_tables = note_tables +
  qt_items :: "(string \<times> string, item_row) hash_map"
  qt_visibility :: "(string \<times> string \<times> string, u64) hash_map"
  qt_policies :: "(string \<times> string, policy_row) hash_map"

abbreviation items_of :: "'x queue_tables_scheme db \<Rightarrow> (string \<times> string, item_row) hash_map" where
  "items_of db \<equiv> qt_items (db_domain db)"

abbreviation visibility_of :: "'x queue_tables_scheme db \<Rightarrow> (string \<times> string \<times> string, u64) hash_map" where
  "visibility_of db \<equiv> qt_visibility (db_domain db)"

abbreviation policies_of :: "'x queue_tables_scheme db \<Rightarrow> (string \<times> string, policy_row) hash_map" where
  "policies_of db \<equiv> qt_policies (db_domain db)"

definition ITEM_ENTITY_KIND :: string where "ITEM_ENTITY_KIND = ''work_item''"
definition POLICY_ENTITY_KIND :: string where "POLICY_ENTITY_KIND = ''work_queue_policy''"
definition AGENT_LAUNCH_ENTITY_KIND :: string where "AGENT_LAUNCH_ENTITY_KIND = ''work_item_agent_launch''"
definition PRODUCE_GUIDANCE_MAX_CHARS :: int where "PRODUCE_GUIDANCE_MAX_CHARS = 2000"
definition SUMMARY_MAX_CHARS :: int where "SUMMARY_MAX_CHARS = 200"
definition AI_SUGGEST_ALL_SENTINEL :: string where "AI_SUGGEST_ALL_SENTINEL = ''*''"
definition FALLBACK_CATEGORY_ID :: string where "FALLBACK_CATEGORY_ID = ''inbound_email''"
definition SOURCE_KIND_EMAIL :: string where "SOURCE_KIND_EMAIL = ''email''"
definition SOURCE_KIND_STOCKFORGE_DAMAGE :: string where "SOURCE_KIND_STOCKFORGE_DAMAGE = ''stockforge_damage''"

fun status_str :: "work_item_status \<Rightarrow> string" where
  "status_str ItemOpen = ''open''"
| "status_str ItemAccepted = ''accepted''"
| "status_str ItemDismissed = ''dismissed''"

definition status_from_str :: "string \<Rightarrow> work_item_status" where
  "status_from_str raw =
     (if raw = ''accepted'' then ItemAccepted else if raw = ''dismissed'' then ItemDismissed else ItemOpen)"

fun accept_actor_str :: "work_item_accept_actor \<Rightarrow> string" where
  "accept_actor_str AcceptOperator = ''operator''"
| "accept_actor_str AcceptSystem = ''system''"

definition accept_actor_from_str :: "string \<Rightarrow> work_item_accept_actor option" where
  "accept_actor_from_str raw =
     (if raw = ''operator'' then Some AcceptOperator else if raw = ''system'' then Some AcceptSystem else None)"

text \<open>The packet kinds the platform can produce with the slices that own them; titles and descriptions are left out.\<close>

definition PACKET_KIND_SLICE_OWNERS :: "(string \<times> string) list" where
  "PACKET_KIND_SLICE_OWNERS =
     [(''follow_up_task'', ''follow_up_tasks''), (''email_draft_reply'', ''email_drafts''),
      (''calendar_event_draft'', ''calendar_drafts''), (''crm_activity'', ''crm_drafts''),
      (''crm_record_create'', ''crm_record_drafts''), (''crm_sales_intent'', ''crm_sales_intent''),
      (''ledger_entry'', ''ledger_drafts''), (''content_draft'', ''content_drafts''),
      (''invoice_draft'', ''invoice_drafts''), (''claim_draft'', ''claim_drafts'')]"

definition packet_kind_catalog :: "string list" where
  "packet_kind_catalog =
     [''follow_up_task'', ''email_draft_reply'', ''calendar_event_draft'', ''crm_activity'', ''crm_record_create'',
      ''crm_sales_intent'', ''ledger_entry'', ''content_draft'', ''invoice_draft'', ''claim_draft'']"

definition packet_kind_exists :: "string \<Rightarrow> bool" where
  "packet_kind_exists kind_id \<longleftrightarrow> list_ex (\<lambda>k. k = kind_id) packet_kind_catalog"

definition packet_kind_slice :: "string \<Rightarrow> string option" where
  "packet_kind_slice kind_id = map_of PACKET_KIND_SLICE_OWNERS kind_id"

definition packet_kind_catalog_for_enabled :: "(string \<Rightarrow> bool) \<Rightarrow> string list" where
  "packet_kind_catalog_for_enabled slice_enabled =
     filter (\<lambda>kind. case packet_kind_slice kind of None \<Rightarrow> False | Some slice_id \<Rightarrow> slice_enabled slice_id) packet_kind_catalog"

text \<open>\<open>if !xs.contains(x) { xs.push(x) }\<close>, and the loop over a list that does so.\<close>

definition push_new :: "'a list \<Rightarrow> 'a \<Rightarrow> 'a list" where
  "push_new xs x = (if x \<in> set xs then xs else xs @ [x])"

abbreviation push_all :: "'a list \<Rightarrow> 'a list \<Rightarrow> 'a list" where
  "push_all \<equiv> foldl push_new"

section \<open>Who sees an item\<close>

definition visibility_row_exists :: "'x queue_tables_scheme db \<Rightarrow> string \<Rightarrow> string \<Rightarrow> string \<Rightarrow> bool" where
  "visibility_row_exists db client item_id user_id \<longleftrightarrow> hm_get (visibility_of db) (client, item_id, user_id) \<noteq> None"

definition visibility_sql_filter ::
    "'x queue_tables_scheme db \<Rightarrow> operator_scope \<Rightarrow> string \<times> string \<Rightarrow> string option \<Rightarrow> bool" where
  "visibility_sql_filter db scope k source_user_id =
     (case scope_sql_params scope of (all, user) \<Rightarrow>
        all = 1 \<or> source_user_id = Some user
        \<or> list_ex (\<lambda>((c, i, u), _). c = fst k \<and> i = snd k \<and> u = user) (visibility_of db))"

definition item_visible_to_scope :: "'x queue_tables_scheme db \<Rightarrow> string \<Rightarrow> 'y work_item_scheme \<Rightarrow> operator_scope \<Rightarrow> bool" where
  "item_visible_to_scope db client item scope =
     (case scope of
        ScopeAll \<Rightarrow> True
      | ScopeUser user_id \<Rightarrow>
          wi_source_user_id item = Some user_id \<or> visibility_row_exists db client (wi_item_id item) user_id)"

definition require_item_visible ::
    "'x queue_tables_scheme db \<Rightarrow> string \<Rightarrow> string \<Rightarrow> string option \<Rightarrow> operator_scope \<Rightarrow> store_error + unit" where
  "require_item_visible db client item_id source_user_id scope =
     (if (case scope of
            ScopeAll \<Rightarrow> True
          | ScopeUser user_id \<Rightarrow> source_user_id = Some user_id \<or> visibility_row_exists db client item_id user_id)
      then Inr () else Inl (Domain ''scope_forbidden''))"

text \<open>\<open>ORDER BY user_id COLLATE NOCASE\<close>: ASCII letters compare without case.\<close>

definition stored_visible_users :: "'x queue_tables_scheme db \<Rightarrow> string \<Rightarrow> string \<Rightarrow> string list" where
  "stored_visible_users db client item_id =
     push_all [] (sort_key to_ascii_lowercase
       (map (\<lambda>((c, i, u), _). u) (filter (\<lambda>((c, i, u), _). c = client \<and> i = item_id) (visibility_of db))))"

definition item_visible_user_ids_for_source ::
    "'x queue_tables_scheme db \<Rightarrow> string \<Rightarrow> string \<Rightarrow> string option \<Rightarrow> string list" where
  "item_visible_user_ids_for_source db client item_id source_user_id =
     (let user_ids = stored_visible_users db client item_id
      in if user_ids = [] then (case non_blank source_user_id of None \<Rightarrow> [] | Some u \<Rightarrow> [u]) else user_ids)"

definition item_visible_user_ids :: "'x queue_tables_scheme db \<Rightarrow> string \<Rightarrow> 'y work_item_scheme \<Rightarrow> string list" where
  "item_visible_user_ids db client item =
     item_visible_user_ids_for_source db client (wi_item_id item) (wi_source_user_id item)"

definition visibility_by_item_ids :: "'x queue_tables_scheme db \<Rightarrow> string \<Rightarrow> string list \<Rightarrow> (string \<times> string list) list" where
  "visibility_by_item_ids db client item_ids =
     filter (\<lambda>(i, users). users \<noteq> []) (map (\<lambda>i. (i, stored_visible_users db client i)) (remdups item_ids))"

definition effective_visibility_user_ids :: "queue_item \<Rightarrow> string list" where
  "effective_visibility_user_ids item =
     (let user_ids = push_all [] (filter (\<lambda>u. u \<noteq> []) (map trim (qi_visible_to_user_ids item)))
      in if user_ids = [] then (case non_blank (wi_source_user_id item) of None \<Rightarrow> [] | Some u \<Rightarrow> [u]) else user_ids)"

section \<open>Reading items\<close>

definition item_from_row :: "string \<times> string \<Rightarrow> item_row \<Rightarrow> queue_item" where
  "item_from_row k r =
     \<lparr>wi_item_id = snd k, wi_source_kind = wr_source_kind r, wi_source_ref = wr_source_ref r,
      wi_source_user_id = wr_source_user_id r, qi_category_id = wr_category_id r, qi_title = wr_title r,
      qi_summary = wr_summary r, qi_packet_kinds = wr_packet_kinds r, qi_status = status_from_str (wr_status r),
      qi_accept_actor = Option.bind (wr_accept_actor r) accept_actor_from_str, qi_ai_suggested = wr_ai_suggested r,
      qi_rationale = wr_rationale r, qi_produce_guidance = wr_produce_guidance r,
      qi_assignee_user_id = wr_assignee_user_id r, qi_visible_to_user_ids = [],
      qi_created_at_ms = wr_created_at_ms r, qi_updated_at_ms = wr_updated_at_ms r\<rparr>"

definition item_entry :: "'x queue_tables_scheme db \<Rightarrow> string \<times> string \<Rightarrow> item_row \<Rightarrow> queue_item_with_revision" where
  "item_entry db k r =
     \<lparr>qr_item = item_from_row k r,
      qr_revision = (case read_revision db (fst k, ITEM_ENTITY_KIND, snd k) of None \<Rightarrow> 0 | Some revision \<Rightarrow> revision)\<rparr>"

definition set_visible :: "string list \<Rightarrow> queue_item_with_revision \<Rightarrow> queue_item_with_revision" where
  "set_visible users entry = entry\<lparr>qr_item := (qr_item entry)\<lparr>qi_visible_to_user_ids := users\<rparr>\<rparr>"

definition list_items ::
    "'x queue_tables_scheme db \<Rightarrow> string \<Rightarrow> work_item_status option \<Rightarrow> usize \<Rightarrow> operator_scope \<Rightarrow> queue_item_with_revision list" where
  "list_items db client status limit scope =
     (let entries = map (\<lambda>(k, r). item_entry db k r)
            (take limit (rev (sort_key (\<lambda>(k, r). (sint (wr_created_at_ms r), snd k))
              (filter (\<lambda>(k, r). fst k = client \<and> (case status of None \<Rightarrow> True | Some s \<Rightarrow> wr_status r = status_str s)
                         \<and> visibility_sql_filter db scope k (wr_source_user_id r)) (items_of db)))));
          by_item = visibility_by_item_ids db client (map (\<lambda>entry. wi_item_id (qr_item entry)) entries)
      in map (\<lambda>entry. set_visible
            (case map_of by_item (wi_item_id (qr_item entry)) of
               Some users \<Rightarrow> users
             | None \<Rightarrow> (case wi_source_user_id (qr_item entry) of
                          Some user_id \<Rightarrow> if trim user_id = [] then [] else [user_id]
                        | None \<Rightarrow> [])) entry) entries)"

definition get_item_unscoped :: "'x queue_tables_scheme db \<Rightarrow> string \<Rightarrow> string \<Rightarrow> queue_item_with_revision option" where
  "get_item_unscoped db client item_id =
     map_option (\<lambda>r. let entry = item_entry db (client, item_id) r
                      in set_visible (item_visible_user_ids db client (qr_item entry)) entry)
       (hm_get (items_of db) (client, item_id))"

definition get_item_scoped ::
    "'x queue_tables_scheme db \<Rightarrow> string \<Rightarrow> string \<Rightarrow> operator_scope \<Rightarrow> queue_item_with_revision option" where
  "get_item_scoped db client item_id scope =
     (case get_item_unscoped db client item_id of
        Some entry \<Rightarrow> if item_visible_to_scope db client (qr_item entry) scope then Some entry else None
      | None \<Rightarrow> None)"

definition of_source :: "string \<Rightarrow> string \<Rightarrow> string \<Rightarrow> (string \<times> string) \<times> item_row \<Rightarrow> bool" where
  "of_source client source_kind source_ref =
     (\<lambda>(k, r). fst k = client \<and> wr_source_kind r = source_kind \<and> wr_source_ref r = source_ref)"

definition item_exists_for_source :: "'x queue_tables_scheme db \<Rightarrow> string \<Rightarrow> string \<Rightarrow> string \<Rightarrow> bool" where
  "item_exists_for_source db client source_kind source_ref \<longleftrightarrow>
     length (filter (of_source client source_kind source_ref) (items_of db)) > 0"

definition get_item_for_source ::
    "'x queue_tables_scheme db \<Rightarrow> string \<Rightarrow> string \<Rightarrow> string \<Rightarrow> queue_item_with_revision option" where
  "get_item_for_source db client source_kind source_ref =
     (case find (of_source client source_kind source_ref) (items_of db) of
        Some (k, _) \<Rightarrow> get_item_unscoped db client (snd k)
      | None \<Rightarrow> None)"

definition get_item_for_source_user ::
    "'x queue_tables_scheme db \<Rightarrow> string \<Rightarrow> string \<Rightarrow> string \<Rightarrow> string option \<Rightarrow> queue_item_with_revision option" where
  "get_item_for_source_user db client source_kind source_ref source_user_id =
     (case first_of (sort_key (\<lambda>(k, r). (sint (wr_created_at_ms r), snd k))
             (filter (\<lambda>e. of_source client source_kind source_ref e \<and> wr_source_user_id (snd e) = source_user_id)
               (items_of db))) of
        Some (k, _) \<Rightarrow> get_item_unscoped db client (snd k)
      | None \<Rightarrow> None)"

definition count_status :: "(string \<times> u64) list \<Rightarrow> string \<Rightarrow> (string \<times> u64) list" where
  "count_status counts status =
     hm_insert status ((case hm_get counts status of None \<Rightarrow> 0 | Some n \<Rightarrow> n) + 1) counts"

text \<open>The counts come from a \<open>BTreeMap\<close>, sorted by status.\<close>

definition status_counts_for_sources ::
    "'x queue_tables_scheme db \<Rightarrow> string \<Rightarrow> string \<Rightarrow> string list \<Rightarrow> (string \<times> u64) list" where
  "status_counts_for_sources db client source_kind source_refs =
     sort_key fst (foldl (\<lambda>counts source_ref.
         case find (of_source client source_kind source_ref) (items_of db) of
           Some (_, r) \<Rightarrow> count_status counts (wr_status r)
         | None \<Rightarrow> counts) [] source_refs)"

section \<open>Writing items\<close>

text \<open>What the receipts of the queue record, before and after.\<close>

datatype queue_payload =
  ItemPayload queue_item
| StatusPayload string "string option"
| KindsPayload "string list"
| AiKindsPayload "string list" bool string
| GuidancePayload string
| AssigneePayload "string option"
| VisibilityPayload "string list"
| LaunchPayload string nat string
| PolicyPayload work_queue_policy

definition put_item :: "string \<times> string \<Rightarrow> item_row \<Rightarrow> 'x queue_tables_scheme db \<Rightarrow> 'x queue_tables_scheme db" where
  "put_item k r db = db\<lparr>db_domain := (db_domain db)\<lparr>qt_items := hm_insert k r (items_of db)\<rparr>\<rparr>"

definition update_item :: "string \<times> string \<Rightarrow> (item_row \<Rightarrow> item_row) \<Rightarrow> 'x queue_tables_scheme db \<Rightarrow> 'x queue_tables_scheme db" where
  "update_item k f db = (case hm_get (items_of db) k of None \<Rightarrow> db | Some r \<Rightarrow> put_item k (f r) db)"

definition item_write ::
    "string \<Rightarrow> string \<Rightarrow> (item_row \<Rightarrow> item_row) \<Rightarrow> ('x queue_tables_scheme, unit) db_op" where
  "item_write client item_id f db = (Inr (), update_item (client, item_id) f db)"

definition insert_visibility_row :: "string \<Rightarrow> string \<Rightarrow> u64 \<Rightarrow> string \<Rightarrow> 'x queue_tables_scheme db \<Rightarrow> 'x queue_tables_scheme db" where
  "insert_visibility_row client item_id now_ms user_id db =
     (if visibility_row_exists db client item_id user_id then db
      else db\<lparr>db_domain := (db_domain db)\<lparr>qt_visibility :=
             hm_insert (client, item_id, user_id) now_ms (visibility_of db)\<rparr>\<rparr>)"

definition insert_visibility_rows_within ::
    "string \<Rightarrow> string \<Rightarrow> string list \<Rightarrow> u64 \<Rightarrow> ('x queue_tables_scheme, unit) db_op" where
  "insert_visibility_rows_within client item_id user_ids now_ms db =
     (Inr (), fold (insert_visibility_row client item_id now_ms) user_ids db)"

definition row_of_item :: "queue_item \<Rightarrow> item_row" where
  "row_of_item item =
     \<lparr>wr_source_kind = wi_source_kind item, wr_source_ref = wi_source_ref item, wr_category_id = qi_category_id item,
      wr_title = qi_title item, wr_summary = qi_summary item, wr_packet_kinds = qi_packet_kinds item,
      wr_status = status_str (qi_status item), wr_accept_actor = map_option accept_actor_str (qi_accept_actor item),
      wr_ai_suggested = qi_ai_suggested item, wr_rationale = qi_rationale item,
      wr_produce_guidance = qi_produce_guidance item, wr_source_user_id = wi_source_user_id item,
      wr_assignee_user_id = qi_assignee_user_id item, wr_created_at_ms = qi_created_at_ms item,
      wr_updated_at_ms = qi_created_at_ms item\<rparr>"

text \<open>\<open>INSERT ... ON CONFLICT (client_id, item_id) DO NOTHING\<close> with the unique index on the source, then the visibility rows.\<close>

definition insert_item_write :: "string \<Rightarrow> queue_item \<Rightarrow> ('x queue_tables_scheme, unit) db_op" where
  "insert_item_write client item db =
     (let visible = effective_visibility_user_ids item; k = (client, wi_item_id item)
      in if hm_get (items_of db) k \<noteq> None
         then insert_visibility_rows_within client (wi_item_id item) visible (qi_created_at_ms item) db
         else if item_exists_for_source db client (wi_source_kind item) (wi_source_ref item)
         then (Inl (Sqlite ''UNIQUE constraint failed: work_items.client_id, work_items.source_kind, work_items.source_ref''), db)
         else insert_visibility_rows_within client (wi_item_id item) visible (qi_created_at_ms item)
                (put_item k (row_of_item item) db))"

definition insert_item_with_actor ::
    "(queue_payload \<Rightarrow> string) \<Rightarrow> string \<Rightarrow> queue_item \<Rightarrow> string \<Rightarrow> actor_kind \<Rightarrow> string
       \<Rightarrow> ('x queue_tables_scheme, mutation_outcome) db_op" where
  "insert_item_with_actor render client item actor kind key =
     mutate
       \<lparr>mq_client_id = client, mq_entity_kind = ITEM_ENTITY_KIND, mq_entity_id = wi_item_id item,
        mq_change_kind = ''emit'', mq_actor_id = actor, mq_actor_kind = kind, mq_expected_revision = None,
        mq_idempotency_key = key, mq_correlation_id = None, mq_causation_id = None, mq_before_json = None,
        mq_after_json = Some (render (ItemPayload item)), mq_now_ms = qi_created_at_ms item\<rparr>
       (insert_item_write client item)"

definition insert_item ::
    "(queue_payload \<Rightarrow> string) \<Rightarrow> string \<Rightarrow> queue_item \<Rightarrow> ('x queue_tables_scheme, mutation_outcome) db_op" where
  "insert_item render client item =
     insert_item_with_actor render client item ''work_queue_emitter'' System
       (''emit:'' @ wi_source_kind item @ '':'' @ wi_source_ref item)"

definition visibility_additions :: "'x queue_tables_scheme db \<Rightarrow> string \<Rightarrow> string \<Rightarrow> string list \<Rightarrow> string list" where
  "visibility_additions db client item_id user_ids =
     push_all [] (filter (\<lambda>u. u \<noteq> [] \<and> \<not> visibility_row_exists db client item_id u) (map trim user_ids))"

definition ensure_visibility_user_ids ::
    "(queue_payload \<Rightarrow> string) \<Rightarrow> string \<Rightarrow> string \<Rightarrow> string list \<Rightarrow> string \<Rightarrow> string \<Rightarrow> u64
       \<Rightarrow> ('x queue_tables_scheme, bool) db_op" where
  "ensure_visibility_user_ids render client item_id user_ids actor key now_ms db =
     (let additions = visibility_additions db client item_id user_ids
      in if additions = [] then (Inr False, db)
         else
           let before = item_visible_user_ids_for_source db client item_id None;
               after = sort_key to_ascii_lowercase (push_all before additions)
           in op_map (\<lambda>_. True) (mutate
                \<lparr>mq_client_id = client, mq_entity_kind = ITEM_ENTITY_KIND, mq_entity_id = item_id,
                 mq_change_kind = ''set_visibility'', mq_actor_id = actor, mq_actor_kind = System,
                 mq_expected_revision = None, mq_idempotency_key = key, mq_correlation_id = None,
                 mq_causation_id = None, mq_before_json = Some (render (VisibilityPayload before)),
                 mq_after_json = Some (render (VisibilityPayload after)), mq_now_ms = now_ms\<rparr>
                (insert_visibility_rows_within client item_id additions now_ms)) db)"

section \<open>What operators do with an item\<close>

fun action_change_kind :: "work_item_action_kind \<Rightarrow> string" where
  "action_change_kind AcceptItem = ''accept''"
| "action_change_kind DismissItem = ''dismiss''"
| "action_change_kind ReopenItem = ''reopen''"

fun target_status :: "work_item_action_kind \<Rightarrow> string" where
  "target_status AcceptItem = ''accepted''"
| "target_status DismissItem = ''dismissed''"
| "target_status ReopenItem = ''open''"

fun target_accept_actor :: "work_item_action_kind \<Rightarrow> work_item_accept_actor option" where
  "target_accept_actor AcceptItem = Some AcceptOperator"
| "target_accept_actor DismissItem = None"
| "target_accept_actor ReopenItem = None"

definition item_request ::
    "scoped_mutation_context \<Rightarrow> string \<Rightarrow> string \<Rightarrow> string \<Rightarrow> string \<Rightarrow> mutation_request" where
  "item_request ctx item_id change before after =
     \<lparr>mq_client_id = sm_client_id ctx, mq_entity_kind = ITEM_ENTITY_KIND, mq_entity_id = item_id,
      mq_change_kind = change, mq_actor_id = sm_actor_id ctx, mq_actor_kind = Operator,
      mq_expected_revision = sm_expected_revision ctx, mq_idempotency_key = sm_idempotency_key ctx,
      mq_correlation_id = None, mq_causation_id = None, mq_before_json = Some before,
      mq_after_json = Some after, mq_now_ms = sm_now_ms ctx\<rparr>"

text \<open>The item of an operator's request: it exists and the operator sees it.\<close>

definition require_item :: "'x queue_tables_scheme db \<Rightarrow> scoped_mutation_context \<Rightarrow> string \<Rightarrow> store_error + item_row" where
  "require_item db ctx item_id =
     (case hm_get (items_of db) (sm_client_id ctx, item_id) of
        None \<Rightarrow> Inl (Domain ''work_item_not_found'')
      | Some r \<Rightarrow>
          res_bind (require_item_visible db (sm_client_id ctx) item_id (wr_source_user_id r) (sm_scope ctx)) (\<lambda>_. Inr r))"

definition set_status :: "string \<Rightarrow> string option \<Rightarrow> u64 \<Rightarrow> item_row \<Rightarrow> item_row" where
  "set_status status actor now_ms r = r\<lparr>wr_status := status, wr_accept_actor := actor, wr_updated_at_ms := now_ms\<rparr>"

definition apply_item_action ::
    "(queue_payload \<Rightarrow> string) \<Rightarrow> scoped_mutation_context \<Rightarrow> string \<Rightarrow> work_item_action_kind
       \<Rightarrow> ('x queue_tables_scheme, mutation_outcome) db_op" where
  "apply_item_action render ctx item_id action db =
     (case require_item db ctx item_id of
        Inl e \<Rightarrow> (Inl e, db)
      | Inr r \<Rightarrow>
          let actor = map_option accept_actor_str (target_accept_actor action)
          in mutate
               (item_request ctx item_id (action_change_kind action) (render (StatusPayload (wr_status r) (wr_accept_actor r)))
                  (render (StatusPayload (target_status action) actor)))
               (item_write (sm_client_id ctx) item_id (set_status (target_status action) actor (sm_now_ms ctx))) db)"

definition system_accept_item ::
    "(queue_payload \<Rightarrow> string) \<Rightarrow> string \<Rightarrow> string \<Rightarrow> string \<Rightarrow> u64 option \<Rightarrow> string \<Rightarrow> u64
       \<Rightarrow> ('x queue_tables_scheme, mutation_outcome) db_op" where
  "system_accept_item render client item_id actor expected_revision key now_ms db =
     (case hm_get (items_of db) (client, item_id) of
        None \<Rightarrow> (Inl (Domain ''work_item_not_found''), db)
      | Some r \<Rightarrow>
          let next = Some (accept_actor_str AcceptSystem)
          in mutate
               \<lparr>mq_client_id = client, mq_entity_kind = ITEM_ENTITY_KIND, mq_entity_id = item_id,
                mq_change_kind = ''system_accept'', mq_actor_id = actor, mq_actor_kind = System,
                mq_expected_revision = expected_revision, mq_idempotency_key = key, mq_correlation_id = None,
                mq_causation_id = None,
                mq_before_json = Some (render (StatusPayload (wr_status r) (wr_accept_actor r))),
                mq_after_json = Some (render (StatusPayload ''accepted'' next)), mq_now_ms = now_ms\<rparr>
               (item_write client item_id (set_status ''accepted'' next now_ms)) db)"

definition unknown_kind :: "string list \<Rightarrow> string option" where
  "unknown_kind kinds = find (\<lambda>kind. \<not> packet_kind_exists kind) kinds"

definition kind_unknown_error :: "string \<Rightarrow> store_error" where
  "kind_unknown_error kind = Domain (''work_queue_packet_kind_unknown:'' @ kind)"

definition set_packet_kinds :: "string list \<Rightarrow> u64 \<Rightarrow> item_row \<Rightarrow> item_row" where
  "set_packet_kinds kinds now_ms r = r\<lparr>wr_packet_kinds := kinds, wr_updated_at_ms := now_ms\<rparr>"

definition update_packet_kinds ::
    "(queue_payload \<Rightarrow> string) \<Rightarrow> scoped_mutation_context \<Rightarrow> string \<Rightarrow> string list
       \<Rightarrow> ('x queue_tables_scheme, mutation_outcome) db_op" where
  "update_packet_kinds render ctx item_id packet_kinds db =
     (case unknown_kind packet_kinds of
        Some kind \<Rightarrow> (Inl (kind_unknown_error kind), db)
      | None \<Rightarrow>
          let deduped = push_all [] packet_kinds
          in (case require_item db ctx item_id of
                Inl e \<Rightarrow> (Inl e, db)
              | Inr r \<Rightarrow>
                  if wr_status r = ''dismissed'' then (Inl (Domain ''work_item_kinds_not_editable''), db)
                  else mutate
                         (item_request ctx item_id ''set_kinds'' (render (KindsPayload (wr_packet_kinds r)))
                            (render (KindsPayload deduped)))
                         (item_write (sm_client_id ctx) item_id (set_packet_kinds deduped (sm_now_ms ctx))) db))"

definition set_ai_kinds :: "string list \<Rightarrow> string \<Rightarrow> u64 \<Rightarrow> item_row \<Rightarrow> item_row" where
  "set_ai_kinds kinds rationale now_ms r =
     r\<lparr>wr_packet_kinds := kinds, wr_ai_suggested := True, wr_rationale := rationale, wr_updated_at_ms := now_ms\<rparr>"

definition ai_kinds_key :: "string \<Rightarrow> string list \<Rightarrow> string" where
  "ai_kinds_key item_id merged = ''ai_suggest_kinds:'' @ item_id @ '':'' @ join_with '','' merged"

definition ai_kinds_request ::
    "(queue_payload \<Rightarrow> string) \<Rightarrow> string \<Rightarrow> string \<Rightarrow> item_row \<Rightarrow> string list \<Rightarrow> string \<Rightarrow> u64 \<Rightarrow> mutation_request" where
  "ai_kinds_request render client item_id r merged rationale now_ms =
     \<lparr>mq_client_id = client, mq_entity_kind = ITEM_ENTITY_KIND, mq_entity_id = item_id,
      mq_change_kind = ''ai_add_kinds'', mq_actor_id = ''ai_triage_pass'', mq_actor_kind = Agent,
      mq_expected_revision = None, mq_idempotency_key = ai_kinds_key item_id merged,
      mq_correlation_id = Some item_id, mq_causation_id = None,
      mq_before_json = Some (render (AiKindsPayload (wr_packet_kinds r) (wr_ai_suggested r) (wr_rationale r))),
      mq_after_json = Some (render (AiKindsPayload merged True rationale)), mq_now_ms = now_ms\<rparr>"

definition append_ai_packet_kinds ::
    "(queue_payload \<Rightarrow> string) \<Rightarrow> string \<Rightarrow> string \<Rightarrow> string list \<Rightarrow> string \<Rightarrow> u64
       \<Rightarrow> ('x queue_tables_scheme, bool) db_op" where
  "append_ai_packet_kinds render client item_id packet_kinds rationale now_ms db =
     (case unknown_kind packet_kinds of
        Some kind \<Rightarrow> (Inl (kind_unknown_error kind), db)
      | None \<Rightarrow>
          (case hm_get (items_of db) (client, item_id) of
             None \<Rightarrow> (Inl (Domain ''work_item_not_found''), db)
           | Some r \<Rightarrow>
               if wr_status r = ''dismissed'' then (Inr False, db)
               else
                 let merged = push_all (wr_packet_kinds r) packet_kinds
                 in if length merged = length (wr_packet_kinds r) then (Inr False, db)
                    else op_map (\<lambda>_. True) (mutate (ai_kinds_request render client item_id r merged rationale now_ms)
                      (item_write client item_id (set_ai_kinds merged rationale now_ms))) db))"

definition set_guidance :: "string \<Rightarrow> u64 \<Rightarrow> item_row \<Rightarrow> item_row" where
  "set_guidance guidance now_ms r = r\<lparr>wr_produce_guidance := guidance, wr_updated_at_ms := now_ms\<rparr>"

definition update_produce_guidance ::
    "(queue_payload \<Rightarrow> string) \<Rightarrow> scoped_mutation_context \<Rightarrow> string \<Rightarrow> string
       \<Rightarrow> ('x queue_tables_scheme, mutation_outcome) db_op" where
  "update_produce_guidance render ctx item_id produce_guidance db =
     (let guidance = trim produce_guidance
      in if int (length (utf8_chars guidance)) > PRODUCE_GUIDANCE_MAX_CHARS
         then (Inl (Domain ''work_item_guidance_too_long''), db)
         else (case require_item db ctx item_id of
                 Inl e \<Rightarrow> (Inl e, db)
               | Inr r \<Rightarrow>
                   if wr_status r = ''dismissed'' then (Inl (Domain ''work_item_guidance_not_editable''), db)
                   else mutate
                          (item_request ctx item_id ''set_guidance'' (render (GuidancePayload (wr_produce_guidance r)))
                             (render (GuidancePayload guidance)))
                          (item_write (sm_client_id ctx) item_id (set_guidance guidance (sm_now_ms ctx))) db))"

definition require_active_operator_user :: "'x auth_tables_scheme db \<Rightarrow> string \<Rightarrow> string \<Rightarrow> store_error + unit" where
  "require_active_operator_user db client user_id =
     (case hm_get (users_of db) (client, user_id) of
        Some r \<Rightarrow> if user_live r then Inr () else Inl (Domain ''work_queue_assignee_not_active'')
      | None \<Rightarrow> Inl (Domain ''work_queue_assignee_not_active''))"

definition next_assignee ::
    "operator_scope \<Rightarrow> string option \<Rightarrow> work_item_assign_action_kind \<Rightarrow> string option \<Rightarrow> store_error + string option" where
  "next_assignee scope before action requested =
     (case action of
        AssignToMe \<Rightarrow>
          (case scope of
             ScopeUser user_id \<Rightarrow> Inr (Some user_id)
           | ScopeAll \<Rightarrow> Inl (Domain ''work_queue_assignment_named_user_required''))
      | AssignToUser \<Rightarrow>
          (case non_blank requested of
             Some user_id \<Rightarrow> Inr (Some user_id)
           | None \<Rightarrow> Inl (Domain ''work_queue_assignee_required''))
      | Unassign \<Rightarrow>
          (case scope of
             ScopeUser user_id \<Rightarrow>
               if before \<noteq> Some user_id then Inl (Domain ''work_queue_unassign_forbidden'') else Inr None
           | ScopeAll \<Rightarrow> Inr None))"

definition check_assignee ::
    "'x queue_tables_scheme db \<Rightarrow> string \<Rightarrow> work_item_assign_action_kind \<Rightarrow> string list \<Rightarrow> string option \<Rightarrow> store_error + unit" where
  "check_assignee db client action visible_user_ids assignee =
     (case assignee of
        None \<Rightarrow> Inr ()
      | Some user_id \<Rightarrow>
          res_bind (require_active_operator_user db client user_id) (\<lambda>_.
            if action \<noteq> AssignToUser \<or> user_id \<in> set visible_user_ids then Inr ()
            else Inl (Domain ''work_queue_assignee_not_visible'')))"

definition set_assignee :: "string option \<Rightarrow> u64 \<Rightarrow> item_row \<Rightarrow> item_row" where
  "set_assignee assignee now_ms r = r\<lparr>wr_assignee_user_id := assignee, wr_updated_at_ms := now_ms\<rparr>"

definition update_assignment ::
    "(queue_payload \<Rightarrow> string) \<Rightarrow> scoped_mutation_context \<Rightarrow> string \<Rightarrow> work_item_assign_action_kind \<Rightarrow> string option
       \<Rightarrow> ('x queue_tables_scheme, mutation_outcome) db_op" where
  "update_assignment render ctx item_id action requested db =
     (case require_item db ctx item_id of
        Inl e \<Rightarrow> (Inl e, db)
      | Inr r \<Rightarrow>
          let visible = item_visible_user_ids_for_source db (sm_client_id ctx) item_id (wr_source_user_id r)
          in (case next_assignee (sm_scope ctx) (wr_assignee_user_id r) action requested of
                Inl e \<Rightarrow> (Inl e, db)
              | Inr next \<Rightarrow>
                  (case check_assignee db (sm_client_id ctx) action visible next of
                     Inl e \<Rightarrow> (Inl e, db)
                   | Inr _ \<Rightarrow>
                       mutate
                         (item_request ctx item_id ''assign'' (render (AssigneePayload (wr_assignee_user_id r)))
                            (render (AssigneePayload next)))
                         (item_write (sm_client_id ctx) item_id (set_assignee next (sm_now_ms ctx))) db)))"

definition record_agent_launch_request ::
    "(queue_payload \<Rightarrow> string) \<Rightarrow> string \<Rightarrow> string \<Rightarrow> string \<Rightarrow> string \<Rightarrow> new_outbox_job \<Rightarrow> string \<Rightarrow> u64
       \<Rightarrow> ('x queue_tables_scheme, mutation_outcome) db_op" where
  "record_agent_launch_request render client item_id actor operator_context job key now_ms =
     mutate
       \<lparr>mq_client_id = client, mq_entity_kind = AGENT_LAUNCH_ENTITY_KIND, mq_entity_id = item_id,
        mq_change_kind = ''launch_agent'', mq_actor_id = actor, mq_actor_kind = Operator, mq_expected_revision = None,
        mq_idempotency_key = key, mq_correlation_id = Some item_id, mq_causation_id = None, mq_before_json = None,
        mq_after_json = Some (render (LaunchPayload item_id (length (utf8_chars operator_context)) (nj_job_id job))),
        mq_now_ms = now_ms\<rparr>
       (enqueue_within client job now_ms)"

section \<open>Policies\<close>

fun gmail_scope_str :: "ai_gmail_scope \<Rightarrow> string" where
  "gmail_scope_str ScopeDefault = ''default''"
| "gmail_scope_str ScopeAllMail = ''all''"
| "gmail_scope_str ScopeSelected = ''selected''"

definition policy_from_parts :: "string \<Rightarrow> policy_row \<Rightarrow> work_queue_policy" where
  "policy_from_parts category_id r =
     \<lparr>qp_category_id = category_id, qp_create_work_item = pr_create_work_item r, qp_packet_kinds = pr_packet_kinds r,
      qp_ai_suggestible_packet_kinds = pr_ai_suggestible_packet_kinds r,
      qp_ai_suggestible_gmail_scope =
        (if pr_ai_suggestible_gmail_scope r = ''all'' then ScopeAllMail
         else if pr_ai_suggestible_gmail_scope r = ''selected'' then ScopeSelected else ScopeDefault),
      qp_ai_suggestible_gmail_categories = pr_ai_suggestible_gmail_categories r,
      qp_auto_produce = pr_auto_produce r\<rparr>"

definition list_policies :: "'x queue_tables_scheme db \<Rightarrow> string \<Rightarrow> work_queue_policy list" where
  "list_policies db client =
     map (\<lambda>(k, r). policy_from_parts (snd k) r)
       (sort_key (\<lambda>(k, r). snd k) (filter (\<lambda>(k, r). fst k = client) (policies_of db)))"

definition policy_for_category :: "'x queue_tables_scheme db \<Rightarrow> string \<Rightarrow> string \<Rightarrow> work_queue_policy option" where
  "policy_for_category db client category_id =
     map_option (policy_from_parts category_id) (hm_get (policies_of db) (client, category_id))"

definition clear_ai_gmail :: "work_queue_policy \<Rightarrow> work_queue_policy" where
  "clear_ai_gmail p = p\<lparr>qp_ai_suggestible_gmail_categories := [], qp_ai_suggestible_gmail_scope := ScopeDefault\<rparr>"

definition sanitize_policy :: "work_queue_policy \<Rightarrow> store_error + work_queue_policy" where
  "sanitize_policy policy =
     (if trim (qp_category_id policy) = [] then Inl (Domain ''work_queue_category_required'')
      else case unknown_kind (qp_packet_kinds policy) of Some kind \<Rightarrow> Inl (kind_unknown_error kind)
      | None \<Rightarrow>
      if list_ex (\<lambda>kind. kind = AI_SUGGEST_ALL_SENTINEL) (qp_ai_suggestible_packet_kinds policy)
         \<and> length (qp_ai_suggestible_packet_kinds policy) \<noteq> 1
      then Inl (Domain ''work_queue_ai_suggest_all_exclusive'')
      else case unknown_kind (filter (\<lambda>kind. kind \<noteq> AI_SUGGEST_ALL_SENTINEL) (qp_ai_suggestible_packet_kinds policy)) of
        Some kind \<Rightarrow> Inl (kind_unknown_error kind)
      | None \<Rightarrow>
          let p = (if qp_create_work_item policy then policy
                   else (clear_ai_gmail policy)\<lparr>qp_packet_kinds := [], qp_ai_suggestible_packet_kinds := [],
                          qp_auto_produce := False\<rparr>)
          in res_bind
               (if qp_ai_suggestible_packet_kinds p = [] then Inr (clear_ai_gmail p)
                else if qp_category_id p = FALLBACK_CATEGORY_ID
                then (case qp_ai_suggestible_gmail_scope p of
                        ScopeDefault \<Rightarrow> Inr (p\<lparr>qp_ai_suggestible_gmail_categories := [Primary, Updates]\<rparr>)
                      | ScopeAllMail \<Rightarrow> Inr (p\<lparr>qp_ai_suggestible_gmail_categories := []\<rparr>)
                      | ScopeSelected \<Rightarrow>
                          if qp_ai_suggestible_gmail_categories p = []
                          then Inl (Domain ''work_queue_ai_gmail_scope_selected_empty'') else Inr p)
                else Inr p)
               (\<lambda>p. if qp_category_id p \<noteq> FALLBACK_CATEGORY_ID
                       \<and> (qp_ai_suggestible_gmail_scope p \<noteq> ScopeDefault \<or> qp_ai_suggestible_gmail_categories p \<noteq> [])
                    then Inl (Domain ''work_queue_ai_gmail_scope_fallback_only'') else Inr p))"

definition policy_row_of :: "work_queue_policy \<Rightarrow> u64 \<Rightarrow> policy_row" where
  "policy_row_of policy now_ms =
     \<lparr>pr_create_work_item = qp_create_work_item policy, pr_packet_kinds = qp_packet_kinds policy,
      pr_auto_produce = qp_auto_produce policy,
      pr_ai_suggestible_packet_kinds = qp_ai_suggestible_packet_kinds policy,
      pr_ai_suggestible_gmail_scope = gmail_scope_str (qp_ai_suggestible_gmail_scope policy),
      pr_ai_suggestible_gmail_categories = qp_ai_suggestible_gmail_categories policy, pr_updated_at_ms = now_ms\<rparr>"

definition write_policy_tx :: "string \<Rightarrow> work_queue_policy \<Rightarrow> u64 \<Rightarrow> ('x queue_tables_scheme, unit) db_op" where
  "write_policy_tx client policy now_ms db =
     (Inr (), db\<lparr>db_domain := (db_domain db)\<lparr>qt_policies :=
        hm_insert (client, qp_category_id policy) (policy_row_of policy now_ms) (policies_of db)\<rparr>\<rparr>)"

definition upsert_policy ::
    "(queue_payload \<Rightarrow> string) \<Rightarrow> string \<Rightarrow> string \<Rightarrow> work_queue_policy \<Rightarrow> string \<Rightarrow> u64
       \<Rightarrow> ('x queue_tables_scheme, mutation_outcome) db_op" where
  "upsert_policy render client actor policy key now_ms db =
     (case sanitize_policy policy of
        Inl e \<Rightarrow> (Inl e, db)
      | Inr p \<Rightarrow>
          mutate
            \<lparr>mq_client_id = client, mq_entity_kind = POLICY_ENTITY_KIND, mq_entity_id = qp_category_id p,
             mq_change_kind = ''upsert'', mq_actor_id = actor, mq_actor_kind = Operator, mq_expected_revision = None,
             mq_idempotency_key = key, mq_correlation_id = None, mq_causation_id = None, mq_before_json = None,
             mq_after_json = Some (render (PolicyPayload p)), mq_now_ms = now_ms\<rparr>
            (write_policy_tx client p now_ms) db)"

end
