(* ===== verification/Work_Emission.thy ===== *)
theory Work_Emission
  imports Work_Queue
begin

text \<open>
  How items enter the queue (the emission part of \<open>slices/work_queue/service.rs\<close> and \<open>emit_item_for_note\<close> of \<open>slices/operator_notes/service.rs\<close>) and the handlers of
  \<open>routes.rs\<close> through which operators change it. What the triage stored of a message (the hints for title and
  summary, the strongest attention signal) and the shared inboxes of the overlay file are arguments.
\<close>

section \<open>Messages\<close>

record queue_message = inbound_message +
  qm_source_key :: string
  qm_message_id :: string
  qm_resolved_category :: string
  qm_source_user_id :: "string option"

record shared_inbox =
  si_match_to :: "string list"
  si_visible_to_user_ids :: "string list"

datatype attention_level = AttentionLower | AttentionNormal | AttentionHigher

text \<open>The shared inboxes of the overlay, in the order of their names.\<close>

type_synonym work_queue_overlay = "shared_inbox list"

definition inbox_matches :: "string list \<Rightarrow> shared_inbox \<Rightarrow> bool" where
  "inbox_matches to_addresses shared \<longleftrightarrow>
     list_ex (\<lambda>candidate. list_ex (\<lambda>addr. addr = candidate) to_addresses)
       (concat (map (\<lambda>raw. normalized_email_addresses (Some raw)) (si_match_to shared)))"

definition visible_users_for_message :: "queue_message \<Rightarrow> work_queue_overlay \<Rightarrow> string list" where
  "visible_users_for_message message overlay =
     (let to_addresses = normalized_email_addresses (im_to_addr message);
          visible = push_all [] (filter (\<lambda>u. u \<noteq> []) (map trim (concat (map si_visible_to_user_ids
                      (filter (inbox_matches to_addresses) overlay)))))
      in if visible = [] then (case non_blank (qm_source_user_id message) of None \<Rightarrow> [] | Some u \<Rightarrow> [u]) else visible)"

definition stable_visibility_key :: "string list \<Rightarrow> string" where
  "stable_visibility_key user_ids =
     join_with '','' (remdups_adj (sort_key to_ascii_lowercase (filter (\<lambda>u. u \<noteq> []) (map trim user_ids))))"

definition LOWER_ATTENTION_DEFER_KINDS :: "string list" where
  "LOWER_ATTENTION_DEFER_KINDS = [''follow_up_task'', ''calendar_event_draft'']"

definition gate_packet_kinds_for_attention :: "string list \<Rightarrow> attention_level option \<Rightarrow> string list" where
  "gate_packet_kinds_for_attention kinds attention =
     (case attention of
        Some AttentionLower \<Rightarrow> filter (\<lambda>kind. kind \<notin> set LOWER_ATTENTION_DEFER_KINDS) kinds
      | _ \<Rightarrow> kinds)"

definition item_title :: "queue_message \<Rightarrow> string" where
  "item_title message =
     (case Option.bind (map_option trim (im_subject message)) non_empty of
        Some subject \<Rightarrow> subject
      | None \<Rightarrow> ''Email from '' @ unwrap_text (im_from_addr message) ''unknown sender'')"

text \<open>The separator after the sender is a dash of three bytes.\<close>

definition EM_DASH :: string where "EM_DASH = [CHR 0xE2, CHR 0x80, CHR 0x94]"

definition item_summary :: "queue_message \<Rightarrow> string" where
  "item_summary message =
     (case im_from_addr message of None \<Rightarrow> [] | Some from \<Rightarrow> ''From '' @ from @ '' '' @ EM_DASH @ '' '')
     @ take_chars SUMMARY_MAX_CHARS (im_body_excerpt message)"

section \<open>Emission\<close>

definition email_item ::
    "queue_message \<Rightarrow> work_queue_overlay \<Rightarrow> string \<Rightarrow> string \<Rightarrow> string list \<Rightarrow> bool \<Rightarrow> string \<Rightarrow> u64 \<Rightarrow> queue_item" where
  "email_item message overlay title summary kinds ai_suggested rationale now_ms =
     \<lparr>wi_item_id = ''wi_email_'' @ qm_source_key message, wi_source_kind = SOURCE_KIND_EMAIL,
      wi_source_ref = qm_source_key message, wi_source_user_id = qm_source_user_id message,
      qi_category_id = qm_resolved_category message, qi_title = title, qi_summary = summary,
      qi_packet_kinds = kinds, qi_status = ItemOpen, qi_accept_actor = None, qi_ai_suggested = ai_suggested,
      qi_rationale = rationale, qi_produce_guidance = [], qi_assignee_user_id = None,
      qi_visible_to_user_ids = visible_users_for_message message overlay, qi_created_at_ms = now_ms,
      qi_updated_at_ms = now_ms\<rparr>"

definition existing_for_message ::
    "'x queue_tables_scheme db \<Rightarrow> string \<Rightarrow> queue_message \<Rightarrow> queue_item_with_revision option" where
  "existing_for_message db client message =
     (case get_item_for_source db client SOURCE_KIND_EMAIL (qm_source_key message) of
        Some existing \<Rightarrow> Some existing
      | None \<Rightarrow>
          if qm_source_key message \<noteq> qm_message_id message
          then get_item_for_source_user db client SOURCE_KIND_EMAIL (qm_message_id message) (qm_source_user_id message)
          else None)"

definition emit_for_inbound_message_with_overlay ::
    "(queue_payload \<Rightarrow> string) \<Rightarrow> string \<Rightarrow> queue_message \<Rightarrow> work_queue_overlay \<Rightarrow> string option \<times> string option
       \<Rightarrow> attention_level option \<Rightarrow> u64 \<Rightarrow> ('x queue_tables_scheme, bool) db_op" where
  "emit_for_inbound_message_with_overlay render client message overlay hints attention now_ms db =
     (case existing_for_message db client message of
        Some existing \<Rightarrow>
          let visible = visible_users_for_message message overlay
          in op_map (\<lambda>_. False)
               (ensure_visibility_user_ids render client (wi_item_id (qr_item existing)) visible ''work_queue_visibility_sync''
                  (''visibility:'' @ wi_source_kind (qr_item existing) @ '':'' @ wi_source_ref (qr_item existing) @ '':''
                     @ stable_visibility_key visible) now_ms) db
      | None \<Rightarrow>
          (case policy_for_category db client (qm_resolved_category message) of
             None \<Rightarrow> (Inr False, db)
           | Some policy \<Rightarrow>
               if \<not> qp_create_work_item policy then (Inr False, db)
               else
                 let title = unwrap_text (fst hints) (item_title message);
                     summary = unwrap_text (snd hints) (item_summary message);
                     packet_kinds = gate_packet_kinds_for_attention (qp_packet_kinds policy) attention
                 in if packet_kinds = [] then (Inr False, db)
                    else op_map (\<lambda>_. True)
                           (insert_item render client
                              (email_item message overlay title summary packet_kinds False [] now_ms)) db))"

definition emit_for_inbound_message ::
    "(queue_payload \<Rightarrow> string) \<Rightarrow> string \<Rightarrow> queue_message \<Rightarrow> string option \<times> string option \<Rightarrow> attention_level option
       \<Rightarrow> u64 \<Rightarrow> ('x queue_tables_scheme, bool) db_op" where
  "emit_for_inbound_message render client message hints attention now_ms =
     emit_for_inbound_message_with_overlay render client message [] hints attention now_ms"

record unconditional_emit =
  ue_source_kind :: string
  ue_source_ref :: string
  ue_category_id :: string
  ue_title :: string
  ue_summary :: string
  ue_default_kinds :: "string list"
  ue_allow_policy_kinds :: bool
  ue_source_user_id :: "string option"
  ue_status :: work_item_status

definition unconditional_kinds :: "'x queue_tables_scheme db \<Rightarrow> string \<Rightarrow> unconditional_emit \<Rightarrow> string list" where
  "unconditional_kinds db client spec =
     (if ue_allow_policy_kinds spec
      then (case policy_for_category db client (ue_category_id spec) of
              Some policy \<Rightarrow> if qp_packet_kinds policy = [] then ue_default_kinds spec else qp_packet_kinds policy
            | None \<Rightarrow> ue_default_kinds spec)
      else ue_default_kinds spec)"

definition unconditional_item :: "unconditional_emit \<Rightarrow> string list \<Rightarrow> u64 \<Rightarrow> queue_item" where
  "unconditional_item spec kinds now_ms =
     \<lparr>wi_item_id = ''wi_'' @ ue_source_kind spec @ ''_'' @ ue_source_ref spec, wi_source_kind = ue_source_kind spec,
      wi_source_ref = ue_source_ref spec, wi_source_user_id = ue_source_user_id spec,
      qi_category_id = ue_category_id spec, qi_title = ue_title spec,
      qi_summary = take_chars SUMMARY_MAX_CHARS (ue_summary spec), qi_packet_kinds = kinds,
      qi_status = ue_status spec,
      qi_accept_actor = (if ue_status spec = ItemAccepted then Some AcceptOperator else None),
      qi_ai_suggested = False, qi_rationale = [], qi_produce_guidance = [], qi_assignee_user_id = None,
      qi_visible_to_user_ids =
        (case ue_source_user_id spec of Some user_id \<Rightarrow> if trim user_id = [] then [] else [user_id] | None \<Rightarrow> []),
      qi_created_at_ms = now_ms, qi_updated_at_ms = now_ms\<rparr>"

definition emit_unconditional ::
    "(queue_payload \<Rightarrow> string) \<Rightarrow> string \<Rightarrow> unconditional_emit \<Rightarrow> u64 \<Rightarrow> ('x queue_tables_scheme, bool) db_op" where
  "emit_unconditional render client spec now_ms db =
     (if item_exists_for_source db client (ue_source_kind spec) (ue_source_ref spec) then (Inr False, db)
      else op_map (\<lambda>_. True)
             (insert_item render client (unconditional_item spec (unconditional_kinds db client spec) now_ms)) db)"

definition emit_item_for_note ::
    "(queue_payload \<Rightarrow> string) \<Rightarrow> string \<Rightarrow> operator_note \<Rightarrow> string list \<Rightarrow> u64 \<Rightarrow> ('x queue_tables_scheme, bool) db_op" where
  "emit_item_for_note render client note actions now_ms =
     emit_unconditional render client
       \<lparr>ue_source_kind = SOURCE_KIND_OPERATOR_NOTE, ue_source_ref = no_note_id note,
        ue_category_id = no_category_id note, ue_title = note_title (no_body note), ue_summary = no_body note,
        ue_default_kinds = actions, ue_allow_policy_kinds = False,
        ue_source_user_id = personal_user (no_created_by note), ue_status = ItemAccepted\<rparr> now_ms"

definition add_manual_follow_up_for_email ::
    "(queue_payload \<Rightarrow> string) \<Rightarrow> scoped_mutation_context \<Rightarrow> queue_message \<Rightarrow> work_queue_overlay
       \<Rightarrow> ('x queue_tables_scheme, mutation_outcome) db_op" where
  "add_manual_follow_up_for_email render ctx message overlay db =
     (case get_item_for_source db (sm_client_id ctx) SOURCE_KIND_EMAIL (qm_source_key message) of
        Some existing \<Rightarrow>
          update_packet_kinds render ctx (wi_item_id (qr_item existing))
            (push_new (qi_packet_kinds (qr_item existing)) ''follow_up_task'') db
      | None \<Rightarrow>
          insert_item_with_actor render (sm_client_id ctx)
            (email_item message overlay (item_title message) (item_summary message) [''follow_up_task''] False []
               (sm_now_ms ctx))
            (sm_actor_id ctx) Operator (sm_idempotency_key ctx) db)"

definition emit_ai_suggested_item ::
    "(queue_payload \<Rightarrow> string) \<Rightarrow> string \<Rightarrow> queue_message \<Rightarrow> work_queue_overlay \<Rightarrow> string list \<Rightarrow> string \<Rightarrow> u64
       \<Rightarrow> ('x queue_tables_scheme, bool) db_op" where
  "emit_ai_suggested_item render client message overlay packet_kinds rationale now_ms db =
     (case get_item_for_source db client SOURCE_KIND_EMAIL (qm_source_key message) of
        Some existing \<Rightarrow>
          append_ai_packet_kinds render client (wi_item_id (qr_item existing)) packet_kinds rationale now_ms db
      | None \<Rightarrow>
          op_map (\<lambda>_. True)
            (insert_item render client
               (email_item message overlay (item_title message) (item_summary message) packet_kinds True rationale now_ms)) db)"

section \<open>Handlers\<close>

definition item_context ::
    "auth_context \<Rightarrow> app_state \<Rightarrow> string option \<Rightarrow> u64 option \<Rightarrow> string \<Rightarrow> u64 \<Rightarrow> scoped_mutation_context" where
  "item_context auth st requested expected key now_ms =
     \<lparr>sm_client_id = as_client_id st, sm_actor_id = actor_or auth requested, sm_scope = au_scope auth,
      sm_expected_revision = expected, sm_idempotency_key = key, sm_now_ms = now_ms\<rparr>"

type_synonym 'x queue_handler =
  "app_state \<times> 'x queue_tables_scheme db \<Rightarrow> http_response \<times> (app_state \<times> 'x queue_tables_scheme db)"

definition item_action ::
    "(string \<Rightarrow> string) \<Rightarrow> (queue_payload \<Rightarrow> string) \<Rightarrow> u64 \<Rightarrow> headers \<Rightarrow> string \<Rightarrow> string option \<Rightarrow> u64 option
       \<Rightarrow> string \<Rightarrow> work_item_action_kind \<Rightarrow> u64 \<Rightarrow> 'x queue_handler" where
  "item_action sha render auth_ms hs key requested expected item_id action now_ms =
     guarded sha auth_ms hs (\<lambda>_. Inr ()) key (\<lambda>auth w.
       on_db (apply_item_action render (item_context auth (fst w) requested expected key now_ms) item_id action)
         mutation_result w)"

definition item_packet_kinds ::
    "(string \<Rightarrow> string) \<Rightarrow> (queue_payload \<Rightarrow> string) \<Rightarrow> u64 \<Rightarrow> headers \<Rightarrow> string \<Rightarrow> string option \<Rightarrow> u64 option
       \<Rightarrow> string \<Rightarrow> string list \<Rightarrow> u64 \<Rightarrow> 'x queue_handler" where
  "item_packet_kinds sha render auth_ms hs key requested expected item_id kinds now_ms =
     guarded sha auth_ms hs (\<lambda>_. Inr ()) key (\<lambda>auth w.
       on_db (update_packet_kinds render (item_context auth (fst w) requested expected key now_ms) item_id kinds)
         mutation_result w)"

definition item_produce_guidance ::
    "(string \<Rightarrow> string) \<Rightarrow> (queue_payload \<Rightarrow> string) \<Rightarrow> u64 \<Rightarrow> headers \<Rightarrow> string \<Rightarrow> string option \<Rightarrow> u64 option
       \<Rightarrow> string \<Rightarrow> string \<Rightarrow> u64 \<Rightarrow> 'x queue_handler" where
  "item_produce_guidance sha render auth_ms hs key requested expected item_id guidance now_ms =
     guarded sha auth_ms hs (\<lambda>_. Inr ()) key (\<lambda>auth w.
       on_db (update_produce_guidance render (item_context auth (fst w) requested expected key now_ms) item_id guidance)
         mutation_result w)"

definition item_assignment ::
    "(string \<Rightarrow> string) \<Rightarrow> (queue_payload \<Rightarrow> string) \<Rightarrow> u64 \<Rightarrow> headers \<Rightarrow> string \<Rightarrow> string option \<Rightarrow> u64 option
       \<Rightarrow> string \<Rightarrow> work_item_assign_action_kind \<Rightarrow> string option \<Rightarrow> u64 \<Rightarrow> 'x queue_handler" where
  "item_assignment sha render auth_ms hs key requested expected item_id action assignee now_ms =
     guarded sha auth_ms hs (\<lambda>_. Inr ()) key (\<lambda>auth w.
       on_db (update_assignment render (item_context auth (fst w) requested expected key now_ms) item_id action assignee)
         mutation_result w)"

definition policy_upsert ::
    "(string \<Rightarrow> string) \<Rightarrow> (queue_payload \<Rightarrow> string) \<Rightarrow> u64 \<Rightarrow> headers \<Rightarrow> string \<Rightarrow> string option
       \<Rightarrow> work_queue_policy \<Rightarrow> u64 \<Rightarrow> 'x queue_handler" where
  "policy_upsert sha render auth_ms hs key requested policy now_ms =
     guarded sha auth_ms hs (\<lambda>_. Inr ()) key (\<lambda>auth w.
       on_db (upsert_policy render (as_client_id (fst w)) (actor_or auth requested) policy key now_ms)
         mutation_result w)"

definition policies_list ::
    "(string \<Rightarrow> string) \<Rightarrow> u64 \<Rightarrow> headers \<Rightarrow> app_state \<times> 'x queue_tables_scheme db
       \<Rightarrow> (http_error + work_queue_policy list) \<times> app_state" where
  "policies_list sha auth_ms hs w =
     (case authenticate sha (snd w) auth_ms hs (fst w) of
        (Inl e, st) \<Rightarrow> (Inl e, st)
      | (Inr _, st) \<Rightarrow> (Inr (list_policies (snd w) (as_client_id st)), st))"

section \<open>Routes\<close>

text \<open>The routes of \<open>router()\<close> that change one item, with the body of the request.\<close>

datatype item_request_body =
  ItemAction work_item_action_kind
| ItemPacketKinds "string list"
| ItemProduceGuidance string
| ItemAssignment work_item_assign_action_kind "string option"

fun item_route ::
    "(string \<Rightarrow> string) \<Rightarrow> (queue_payload \<Rightarrow> string) \<Rightarrow> u64 \<Rightarrow> headers \<Rightarrow> string \<Rightarrow> string option \<Rightarrow> u64 option
       \<Rightarrow> string \<Rightarrow> item_request_body \<Rightarrow> u64 \<Rightarrow> 'x queue_handler" where
  "item_route sha render auth_ms hs key requested expected item_id (ItemAction action) now_ms =
     item_action sha render auth_ms hs key requested expected item_id action now_ms"
| "item_route sha render auth_ms hs key requested expected item_id (ItemPacketKinds kinds) now_ms =
     item_packet_kinds sha render auth_ms hs key requested expected item_id kinds now_ms"
| "item_route sha render auth_ms hs key requested expected item_id (ItemProduceGuidance guidance) now_ms =
     item_produce_guidance sha render auth_ms hs key requested expected item_id guidance now_ms"
| "item_route sha render auth_ms hs key requested expected item_id (ItemAssignment action assignee) now_ms =
     item_assignment sha render auth_ms hs key requested expected item_id action assignee now_ms"

end
