(* ===== verification/Work_Queue_Invariant.thy ===== *)
theory Work_Queue_Invariant
  imports Work_Emission
begin

text \<open>
  The invariant of the work queue and its preservation by every operation: rows are valid, everyone who sees an item
  is admitted by its source, assignees see their item, and stored policies are canonical.
\<close>

section \<open>The invariant of the tables\<close>

text \<open>The source kinds of the slices. A mail key never starts with \<open>follow_up_\<close>, so that item ids determine sources.\<close>

definition SOURCE_KINDS :: "string list" where
  "SOURCE_KINDS = [''email'', ''operator_note'', ''stockforge_damage'', ''call_input'', ''content_plan_item'',
     ''lead_finding'', ''email_follow_up'']"

definition source_ok :: "string \<Rightarrow> string \<Rightarrow> bool" where
  "source_ok kind ref \<longleftrightarrow> kind \<in> set SOURCE_KINDS \<and> (kind = ''email'' \<longrightarrow> take 10 ref \<noteq> ''follow_up_'')"

definition item_id_of :: "string \<Rightarrow> string \<Rightarrow> string" where
  "item_id_of kind ref = ''wi_'' @ kind @ ''_'' @ ref"

lemma kinds_apart:
  "list_all (\<lambda>k. list_all (\<lambda>k'. k = k' \<or> {k, k'} = {''email'', ''email_follow_up''}
     \<or> take (length k + 1) (k' @ ''_'') \<noteq> k @ ''_'' \<and> take (length k' + 1) (k @ ''_'') \<noteq> k' @ ''_'') SOURCE_KINDS) SOURCE_KINDS"
  by (simp add: SOURCE_KINDS_def insert_commute)

lemma item_id_inj:
  assumes ok: "source_ok k r" "source_ok k' r'" and eq: "item_id_of k r = item_id_of k' r'"
  shows "k = k' \<and> r = r'"
proof -
  have e: "(k @ ''_'') @ r = (k' @ ''_'') @ r'" using eq by (simp add: item_id_of_def)
  then have "take (length k + 1) (k' @ ''_'') = k @ ''_'' \<or> take (length k' + 1) (k @ ''_'') = k' @ ''_''"
    by (metis (no_types, opaque_lifting) append_eq_append_conv_if length_append_singleton Suc_eq_plus1 nat_le_linear take_all append_eq_conv_conj)
  moreover have "{k, k'} \<noteq> {''email'', ''email_follow_up''}"
  proof
    assume "{k, k'} = {''email'', ''email_follow_up''}"
    then have "k = ''email'' \<and> k' = ''email_follow_up'' \<or> k = ''email_follow_up'' \<and> k' = ''email''"
      by (simp add: doubleton_eq_iff)
    then show False using e ok by (auto simp: source_ok_def)
  qed
  ultimately have "k = k'" using kinds_apart ok by (auto simp: source_ok_def list_all_iff)
  then show ?thesis using e by simp
qed

text \<open>
  A policy of visibility says which operators may see the items of a source: client, source kind, source, user.
\<close>

type_synonym admits = "string \<Rightarrow> string \<Rightarrow> string \<Rightarrow> string \<Rightarrow> bool"
type_synonym vis_key = "string \<times> string \<times> string"

definition vis_keys :: "'x queue_tables_scheme db \<Rightarrow> vis_key set" where
  "vis_keys db = {k. hm_get (visibility_of db) k \<noteq> None}"

lemma vis_keys_row: "visibility_row_exists db client item_id u \<longleftrightarrow> (client, item_id, u) \<in> vis_keys db"
  by (simp add: visibility_row_exists_def vis_keys_def)

definition row_sees :: "vis_key set \<Rightarrow> string \<times> string \<Rightarrow> item_row \<Rightarrow> string \<Rightarrow> bool" where
  "row_sees V k r u \<longleftrightarrow> wr_source_user_id r = Some u \<or> (fst k, snd k, u) \<in> V"

text \<open>What a row holds by itself, and what ties it to the visibility table.\<close>

definition row_valid :: "string \<times> string \<Rightarrow> item_row \<Rightarrow> bool" where
  "row_valid k r \<longleftrightarrow>
     snd k = item_id_of (wr_source_kind r) (wr_source_ref r) \<and> source_ok (wr_source_kind r) (wr_source_ref r)
   \<and> wr_status r \<in> {''open'', ''accepted'', ''dismissed''}
   \<and> (wr_status r = ''accepted'' \<longleftrightarrow> wr_accept_actor r \<noteq> None)
   \<and> wr_accept_actor r \<in> {None, Some ''operator'', Some ''system''}
   \<and> list_all packet_kind_exists (wr_packet_kinds r)
   \<and> int (length (utf8_chars (wr_produce_guidance r))) \<le> PRODUCE_GUIDANCE_MAX_CHARS"

definition row_bound :: "admits \<Rightarrow> vis_key set \<Rightarrow> string \<times> string \<Rightarrow> item_row \<Rightarrow> bool" where
  "row_bound P V k r \<longleftrightarrow>
     (\<forall>u. wr_assignee_user_id r = Some u \<longrightarrow> row_sees V k r u)
   \<and> (\<forall>u. row_sees V k r u \<longrightarrow> P (fst k) (wr_source_kind r) (wr_source_ref r) u)
   \<and> (\<forall>u. wr_source_user_id r = Some u \<and> trim u \<noteq> [] \<longrightarrow> (\<exists>v. (fst k, snd k, v) \<in> V))"

definition policy_canonical :: "string \<times> string \<Rightarrow> policy_row \<Rightarrow> bool" where
  "policy_canonical k r \<longleftrightarrow> sanitize_policy (policy_from_parts (snd k) r) = Inr (policy_from_parts (snd k) r)"

definition queue_ok ::
    "admits \<Rightarrow> (string \<times> string, item_row) hash_map \<Rightarrow> vis_key set \<Rightarrow> (string \<times> string, policy_row) hash_map \<Rightarrow> bool" where
  "queue_ok P M V Q \<longleftrightarrow>
     hm_wf M \<and> (\<forall>k r. hm_get M k = Some r \<longrightarrow> row_valid k r \<and> row_bound P V k r)
   \<and> (\<forall>c i u. (c, i, u) \<in> V \<longrightarrow> hm_get M (c, i) \<noteq> None)
   \<and> (\<forall>k r. hm_get Q k = Some r \<longrightarrow> policy_canonical k r)"

abbreviation queue_db_ok :: "admits \<Rightarrow> 'x queue_tables_scheme db \<Rightarrow> bool" where
  "queue_db_ok P db \<equiv> queue_ok P (items_of db) (vis_keys db) (policies_of db)"

lemma queue_okI:
  assumes "hm_wf M" "\<And>k r. hm_get M k = Some r \<Longrightarrow> row_valid k r" "\<And>k r. hm_get M k = Some r \<Longrightarrow> row_bound P V k r"
    "\<And>c i u. (c, i, u) \<in> V \<Longrightarrow> hm_get M (c, i) \<noteq> None" "\<And>k r. hm_get Q k = Some r \<Longrightarrow> policy_canonical k r"
  shows "queue_ok P M V Q"
  using assms unfolding queue_ok_def by blast

lemma queue_okD:
  assumes "queue_ok P M V Q"
  shows "hm_wf M" "hm_get M k = Some r \<Longrightarrow> row_valid k r" "hm_get M k = Some r \<Longrightarrow> row_bound P V k r"
    "hm_get Q k' = Some q \<Longrightarrow> policy_canonical k' q" "(c, i, u) \<in> V \<Longrightarrow> hm_get M (c, i) \<noteq> None"
  using assms unfolding queue_ok_def by blast+

section \<open>The changes of the tables\<close>

lemma update_ok:
  assumes "queue_ok P M V Q" "hm_get M k = Some r" "row_valid k r'" "row_bound P V k r'"
  shows "queue_ok P (hm_insert k r' M) V Q"
  using assms by (auto simp: queue_ok_def)

lemma row_bound_mono:
  assumes "row_bound P V k r" and "\<And>u. (fst k, snd k, u) \<in> V' \<longleftrightarrow> (fst k, snd k, u) \<in> V \<or> u \<in> U"
    and "\<And>u. u \<in> U \<Longrightarrow> P (fst k) (wr_source_kind r) (wr_source_ref r) u"
  shows "row_bound P V' k r"
  using assms unfolding row_bound_def row_sees_def by blast

lemma add_visibility_ok:
  assumes ok: "queue_ok P M V Q" and r: "hm_get M (c, i) = Some r"
    and U: "\<And>u. u \<in> U \<Longrightarrow> P c (wr_source_kind r) (wr_source_ref r) u"
  shows "queue_ok P M (V \<union> (\<lambda>u. (c, i, u)) ` U) Q"
proof -
  have "row_bound P (V \<union> (\<lambda>u. (c, i, u)) ` U) k r'" if "hm_get M k = Some r'" for k r'
    by (rule row_bound_mono [OF queue_okD(3) [OF ok that], where U = "if k = (c, i) then U else {}"])
      (use r U that in \<open>auto split: if_splits\<close>)
  with queue_okD [OF ok] r show ?thesis by (intro queue_okI) auto
qed

lemma insert_row_ok:
  assumes ok: "queue_ok P M V Q" and none: "hm_get M (c, i) = None"
    and r: "row_valid (c, i) r" and b: "row_bound P ((\<lambda>u. (c, i, u)) ` U) (c, i) r"
  shows "queue_ok P (hm_insert (c, i) r M) (V \<union> (\<lambda>u. (c, i, u)) ` U) Q"
proof -
  have fresh: "(c, i, u) \<notin> V" for u using queue_okD(5) [OF ok] none by metis
  have "row_bound P (V \<union> (\<lambda>u. (c, i, u)) ` U) k r'" if "hm_get (hm_insert (c, i) r M) k = Some r'" for k r'
  proof (cases "k = (c, i)")
    case True
    show ?thesis
      by (rule row_bound_mono [where V = "(\<lambda>u. (c, i, u)) ` U" and U = "{}"]) (use True b that fresh in auto)
  next
    case False
    then have k: "hm_get M k = Some r'" using that by simp
    show ?thesis
      by (rule row_bound_mono [OF queue_okD(3) [OF ok k], where U = "{}"]) (use False in auto)
  qed
  with queue_okD [OF ok] r show ?thesis by (intro queue_okI) (auto split: if_splits)
qed

lemma insert_row_state [simp]:
  "items_of (insert_visibility_row c i t u db) = items_of db"
  "policies_of (insert_visibility_row c i t u db) = policies_of db"
  "vis_keys (insert_visibility_row c i t u db) = insert (c, i, u) (vis_keys db)"
  by (auto simp: insert_visibility_row_def visibility_row_exists_def vis_keys_def split: if_splits)

lemma insert_rows_state [simp]:
  "items_of (fold (insert_visibility_row c i t) us db) = items_of db"
  "policies_of (fold (insert_visibility_row c i t) us db) = policies_of db"
  "vis_keys (fold (insert_visibility_row c i t) us db) = vis_keys db \<union> (\<lambda>u. (c, i, u)) ` set us"
  by (induction us arbitrary: db) auto

lemma put_item_state [simp]:
  "items_of (put_item k r db) = hm_insert k r (items_of db)" "policies_of (put_item k r db) = policies_of db"
  "vis_keys (put_item k r db) = vis_keys db"
  by (simp_all add: put_item_def vis_keys_def)

lemma mutate_ok:
  assumes "queue_db_ok P db" and "\<And>db1. w db = (Inr (), db1) \<Longrightarrow> queue_db_ok P db1"
  shows "queue_db_ok P (snd (mutate req w db))"
proof -
  obtain r db' where m: "mutate req w db = (r, db')" by fastforce
  have "\<exists>db1. db_domain db' = db_domain db1 \<and> queue_db_ok P db1"
    using mutate_domain [OF m] assms by blast
  then show ?thesis by (auto simp: m vis_keys_def)
qed

lemma item_write_ok:
  assumes ok: "queue_db_ok P db"
    and f: "\<And>r. hm_get (items_of db) (c, i) = Some r \<Longrightarrow> row_valid (c, i) r \<Longrightarrow> row_bound P (vis_keys db) (c, i) r
       \<Longrightarrow> row_valid (c, i) (f r) \<and> row_bound P (vis_keys db) (c, i) (f r)"
  shows "queue_db_ok P (snd (mutate req (item_write c i f) db))"
proof (rule mutate_ok [OF ok])
  fix db1 assume "item_write c i f db = (Inr (), db1)"
  then have db1: "db1 = update_item (c, i) f db" by (simp add: item_write_def)
  show "queue_db_ok P db1"
  proof (cases "hm_get (items_of db) (c, i)")
    case (Some r)
    then show ?thesis
      using f [OF Some queue_okD(2,3) [OF ok Some]] update_ok [OF ok Some] by (simp add: db1 update_item_def)
  qed (use ok in \<open>simp add: db1 update_item_def\<close>)
qed

section \<open>New items\<close>

lemma set_push_all [simp]: "set (push_all xs ys) = set xs \<union> set ys"
  by (induction ys arbitrary: xs) (auto simp: push_new_def)

lemma non_blank_Some: "non_blank v = Some w \<longleftrightarrow> (\<exists>u. v = Some u \<and> w = trim u \<and> w \<noteq> [])"
  "Some w = non_blank v \<longleftrightarrow> (\<exists>u. v = Some u \<and> w = trim u \<and> w \<noteq> [])"
  by (cases v; force simp: non_blank_def non_empty_def)+

lemma non_blank_None: "non_blank v = None \<longleftrightarrow> (\<forall>u. v = Some u \<longrightarrow> trim u = [])"
  by (cases v) (auto simp: non_blank_def non_empty_def)

text \<open>The users a new item is shown to.\<close>

definition audience :: "queue_item \<Rightarrow> string set" where
  "audience item = set (effective_visibility_user_ids item) \<union> set_option (wi_source_user_id item)"

lemma effective_not_empty: "wi_source_user_id item = Some u \<Longrightarrow> trim u \<noteq> [] \<Longrightarrow> effective_visibility_user_ids item \<noteq> []"
  by (auto simp: effective_visibility_user_ids_def Let_def non_blank_None split: option.split)

definition new_item_ok :: "admits \<Rightarrow> string \<Rightarrow> queue_item \<Rightarrow> bool" where
  "new_item_ok P client item \<longleftrightarrow>
     wi_item_id item = item_id_of (wi_source_kind item) (wi_source_ref item)
   \<and> source_ok (wi_source_kind item) (wi_source_ref item)
   \<and> (qi_status item = ItemAccepted \<longleftrightarrow> qi_accept_actor item \<noteq> None)
   \<and> list_all packet_kind_exists (qi_packet_kinds item) \<and> qi_produce_guidance item = [] \<and> qi_assignee_user_id item = None
   \<and> (\<forall>u \<in> audience item. P client (wi_source_kind item) (wi_source_ref item) u)"

lemma new_row_valid:
  assumes "new_item_ok P client item"
  shows "row_valid (client, wi_item_id item) (row_of_item item)"
proof -
  have "qi_accept_actor item \<in> {None, Some AcceptOperator, Some AcceptSystem}"
    by (cases "qi_accept_actor item"; cases "the (qi_accept_actor item)") auto
  then show ?thesis using assms
    by (cases "qi_status item") (auto simp: new_item_ok_def row_valid_def row_of_item_def PRODUCE_GUIDANCE_MAX_CHARS_def)
qed

lemma new_row_bound:
  assumes "new_item_ok P client item"
  shows "row_bound P ((\<lambda>u. (client, wi_item_id item, u)) ` set (effective_visibility_user_ids item))
      (client, wi_item_id item) (row_of_item item)"
proof -
  have "u \<in> audience item" if "row_sees ((\<lambda>u. (client, wi_item_id item, u)) ` set (effective_visibility_user_ids item))
      (client, wi_item_id item) (row_of_item item) u" for u
    using that by (auto simp: row_sees_def row_of_item_def audience_def)
  moreover have "\<exists>v. (client, wi_item_id item, v) \<in> (\<lambda>u. (client, wi_item_id item, u)) ` set (effective_visibility_user_ids item)"
    if "wi_source_user_id item = Some u" "trim u \<noteq> []" for u
    using imageI [OF last_in_set [OF effective_not_empty [OF that]], of "\<lambda>u. (client, wi_item_id item, u)"] by blast
  moreover have "wr_assignee_user_id (row_of_item item) = None" "wr_source_user_id (row_of_item item) = wi_source_user_id item"
    "wr_source_kind (row_of_item item) = wi_source_kind item" "wr_source_ref (row_of_item item) = wi_source_ref item"
    "\<And>u. u \<in> audience item \<Longrightarrow> P client (wi_source_kind item) (wi_source_ref item) u"
    using assms by (auto simp: row_of_item_def new_item_ok_def)
  ultimately show ?thesis unfolding row_bound_def fst_conv snd_conv by (metis option.distinct(1))
qed

lemma insert_item_write_ok:
  assumes ok: "queue_db_ok P db" and item: "new_item_ok P client item"
    and w: "insert_item_write client item db = (Inr (), db1)"
  shows "queue_db_ok P db1"
proof (cases "hm_get (items_of db) (client, wi_item_id item)")
  case None
  then show ?thesis
    using w insert_row_ok [OF ok None new_row_valid [OF item] new_row_bound [OF item]]
    by (auto simp: insert_item_write_def Let_def insert_visibility_rows_within_def split: if_splits)
next
  case (Some r)
  then have "wi_source_kind item = wr_source_kind r \<and> wi_source_ref item = wr_source_ref r"
    using queue_okD(2) [OF ok Some] item item_id_inj by (auto simp: row_valid_def new_item_ok_def)
  then have "P client (wr_source_kind r) (wr_source_ref r) u" if "u \<in> set (effective_visibility_user_ids item)" for u
    using item that by (simp add: new_item_ok_def audience_def)
  then show ?thesis
    using w Some add_visibility_ok [OF ok Some]
    by (auto simp: insert_item_write_def Let_def insert_visibility_rows_within_def)
qed

lemma insert_item_ok:
  assumes "queue_db_ok P db" "new_item_ok P client item"
  shows "queue_db_ok P (snd (insert_item_with_actor render client item actor kind key db))"
    "queue_db_ok P (snd (insert_item render client item db))"
  unfolding insert_item_def insert_item_with_actor_def
  by (rule mutate_ok [OF assms(1)], erule insert_item_write_ok [OF assms])+

lemma ensure_visibility_ok:
  assumes ok: "queue_db_ok P db" and r: "hm_get (items_of db) (client, item_id) = Some r"
    and u: "\<And>u. u \<in> set users \<Longrightarrow> P client (wr_source_kind r) (wr_source_ref r) (trim u)"
  shows "queue_db_ok P (snd (ensure_visibility_user_ids render client item_id users actor key t db))"
proof -
  have "P client (wr_source_kind r) (wr_source_ref r) v" if "v \<in> set (visibility_additions db client item_id users)" for v
    using u that by (auto simp: visibility_additions_def)
  then have "queue_ok P (items_of db) (vis_keys db \<union> (\<lambda>v. (client, item_id, v)) ` set (visibility_additions db client item_id users))
      (policies_of db)" by (rule add_visibility_ok [OF ok r])
  then show ?thesis
    by (auto simp: ensure_visibility_user_ids_def Let_def ok insert_visibility_rows_within_def intro!: mutate_ok [OF ok])
qed

section \<open>Policies\<close>

lemma policy_row_back [simp]: "policy_from_parts (qp_category_id p) (policy_row_of p t) = p"
  by (cases "qp_ai_suggestible_gmail_scope p") (simp_all add: policy_from_parts_def policy_row_of_def)

text \<open>What a stored policy looks like.\<close>

definition policy_clean :: "work_queue_policy \<Rightarrow> bool" where
  "policy_clean p \<longleftrightarrow>
     trim (qp_category_id p) \<noteq> [] \<and> list_all packet_kind_exists (qp_packet_kinds p)
   \<and> (qp_ai_suggestible_packet_kinds p = [AI_SUGGEST_ALL_SENTINEL]
      \<or> list_all packet_kind_exists (qp_ai_suggestible_packet_kinds p))
   \<and> (qp_create_work_item p
      \<or> qp_packet_kinds p = [] \<and> qp_ai_suggestible_packet_kinds p = [] \<and> \<not> qp_auto_produce p)
   \<and> (if qp_category_id p = FALLBACK_CATEGORY_ID \<and> qp_ai_suggestible_packet_kinds p \<noteq> []
      then case qp_ai_suggestible_gmail_scope p of
             ScopeDefault \<Rightarrow> qp_ai_suggestible_gmail_categories p = [Primary, Updates]
           | ScopeAllMail \<Rightarrow> qp_ai_suggestible_gmail_categories p = []
           | ScopeSelected \<Rightarrow> qp_ai_suggestible_gmail_categories p \<noteq> []
      else qp_ai_suggestible_gmail_scope p = ScopeDefault \<and> qp_ai_suggestible_gmail_categories p = [])"

lemma unknown_kind_None: "unknown_kind kinds = None \<longleftrightarrow> list_all packet_kind_exists kinds"
  by (auto simp: unknown_kind_def find_None_iff list_all_iff)

lemma sentinel_unknown: "\<not> packet_kind_exists AI_SUGGEST_ALL_SENTINEL"
  by (simp add: packet_kind_exists_def packet_kind_catalog_def AI_SUGGEST_ALL_SENTINEL_def)

lemma ai_kinds_checked:
  "\<not> (list_ex (\<lambda>kind. kind = AI_SUGGEST_ALL_SENTINEL) kinds \<and> length kinds \<noteq> 1)
     \<and> unknown_kind (filter (\<lambda>kind. kind \<noteq> AI_SUGGEST_ALL_SENTINEL) kinds) = None
   \<longleftrightarrow> kinds = [AI_SUGGEST_ALL_SENTINEL] \<or> list_all packet_kind_exists kinds"
  using sentinel_unknown
  by (cases "AI_SUGGEST_ALL_SENTINEL \<in> set kinds")
    (auto simp: unknown_kind_None list_ex_iff list_all_iff length_Suc_conv)

text \<open>The second half of the function, after the checks of the kinds.\<close>

definition settle_gmail :: "work_queue_policy \<Rightarrow> store_error + work_queue_policy" where
  "settle_gmail p =
     res_bind
       (if qp_ai_suggestible_packet_kinds p = [] then Inr (clear_ai_gmail p)
        else if qp_category_id p = FALLBACK_CATEGORY_ID
        then (case qp_ai_suggestible_gmail_scope p of
                ScopeDefault \<Rightarrow> Inr (p\<lparr>qp_ai_suggestible_gmail_categories := [Primary, Updates]\<rparr>)
              | ScopeAllMail \<Rightarrow> Inr (p\<lparr>qp_ai_suggestible_gmail_categories := []\<rparr>)
              | ScopeSelected \<Rightarrow>
                  if qp_ai_suggestible_gmail_categories p = []
                  then Inl (Domain ''work_queue_ai_gmail_scope_selected_empty'') else Inr p)
        else Inr p)
       (\<lambda>p. if qp_category_id p \<noteq> FALLBACK_CATEGORY_ID
               \<and> (qp_ai_suggestible_gmail_scope p \<noteq> ScopeDefault \<or> qp_ai_suggestible_gmail_categories p \<noteq> [])
            then Inl (Domain ''work_queue_ai_gmail_scope_fallback_only'') else Inr p)"

definition closed_policy :: "work_queue_policy \<Rightarrow> work_queue_policy" where
  "closed_policy p =
     (if qp_create_work_item p then p
      else (clear_ai_gmail p)\<lparr>qp_packet_kinds := [], qp_ai_suggestible_packet_kinds := [], qp_auto_produce := False\<rparr>)"

lemma sanitize_Inr:
  "sanitize_policy p = Inr q \<longleftrightarrow>
     trim (qp_category_id p) \<noteq> [] \<and> list_all packet_kind_exists (qp_packet_kinds p)
   \<and> (qp_ai_suggestible_packet_kinds p = [AI_SUGGEST_ALL_SENTINEL]
      \<or> list_all packet_kind_exists (qp_ai_suggestible_packet_kinds p))
   \<and> settle_gmail (closed_policy p) = Inr q"
  unfolding sanitize_policy_def Let_def settle_gmail_def [symmetric] closed_policy_def [symmetric]
  using ai_kinds_checked [of "qp_ai_suggestible_packet_kinds p"] unknown_kind_None [of "qp_packet_kinds p"]
  by (auto split: option.split)

lemma settle_clean:
  assumes "settle_gmail p = Inr q"
  shows "(if qp_category_id q = FALLBACK_CATEGORY_ID \<and> qp_ai_suggestible_packet_kinds q \<noteq> []
      then case qp_ai_suggestible_gmail_scope q of
             ScopeDefault \<Rightarrow> qp_ai_suggestible_gmail_categories q = [Primary, Updates]
           | ScopeAllMail \<Rightarrow> qp_ai_suggestible_gmail_categories q = []
           | ScopeSelected \<Rightarrow> qp_ai_suggestible_gmail_categories q \<noteq> []
      else qp_ai_suggestible_gmail_scope q = ScopeDefault \<and> qp_ai_suggestible_gmail_categories q = [])"
    "qp_category_id q = qp_category_id p" "qp_packet_kinds q = qp_packet_kinds p" "qp_auto_produce q = qp_auto_produce p"
    "qp_ai_suggestible_packet_kinds q = qp_ai_suggestible_packet_kinds p" "qp_create_work_item q = qp_create_work_item p"
  using assms
  by (auto simp: settle_gmail_def clear_ai_gmail_def res_bind_def split: if_splits ai_gmail_scope.splits)

lemma sanitize_clean:
  assumes "sanitize_policy p = Inr q"
  shows "policy_clean q" "qp_category_id q = qp_category_id p"
proof -
  have s: "settle_gmail (closed_policy p) = Inr q" using assms by (simp add: sanitize_Inr)
  show "policy_clean q" "qp_category_id q = qp_category_id p"
    using settle_clean [OF s] assms
    by (auto simp: policy_clean_def sanitize_Inr closed_policy_def clear_ai_gmail_def split: if_splits)
qed

lemma settle_kept:
  assumes "if qp_category_id p = FALLBACK_CATEGORY_ID \<and> qp_ai_suggestible_packet_kinds p \<noteq> []
      then case qp_ai_suggestible_gmail_scope p of
             ScopeDefault \<Rightarrow> qp_ai_suggestible_gmail_categories p = [Primary, Updates]
           | ScopeAllMail \<Rightarrow> qp_ai_suggestible_gmail_categories p = []
           | ScopeSelected \<Rightarrow> qp_ai_suggestible_gmail_categories p \<noteq> []
      else qp_ai_suggestible_gmail_scope p = ScopeDefault \<and> qp_ai_suggestible_gmail_categories p = []"
  shows "settle_gmail p = Inr p"
  using assms by (cases p) (auto simp: settle_gmail_def clear_ai_gmail_def res_bind_def split: if_splits ai_gmail_scope.splits)

lemma clean_sanitized: "policy_clean p \<Longrightarrow> sanitize_policy p = Inr p"
proof -
  assume c: "policy_clean p"
  have "closed_policy p = p"
    using c by (cases p) (auto simp: policy_clean_def closed_policy_def clear_ai_gmail_def split: if_splits)
  with c show ?thesis unfolding sanitize_Inr policy_clean_def using settle_kept by auto
qed

lemma policy_write_ok:
  assumes ok: "queue_db_ok P db" and p: "sanitize_policy p = Inr q"
  shows "queue_db_ok P (snd (write_policy_tx client q t db))"
proof -
  have "policy_canonical (client, qp_category_id q) (policy_row_of q t)"
    using clean_sanitized [OF sanitize_clean(1) [OF p]] by (simp add: policy_canonical_def)
  with ok show ?thesis by (auto simp: write_policy_tx_def queue_ok_def vis_keys_def)
qed

lemma upsert_policy_ok: "queue_db_ok P db \<Longrightarrow> queue_db_ok P (snd (upsert_policy render client actor p key t db))"
  by (auto simp: upsert_policy_def write_policy_tx_def split: sum.split intro!: mutate_ok
      dest: policy_write_ok [where client = client and t = t])

lemma stored_policy_kinds:
  assumes "queue_db_ok P db" "policy_for_category db client category = Some p"
  shows "list_all packet_kind_exists (qp_packet_kinds p)"
proof -
  obtain r where "hm_get (policies_of db) (client, category) = Some r" "p = policy_from_parts category r"
    using assms(2) by (auto simp: policy_for_category_def)
  with queue_okD(4) [OF assms(1)] show ?thesis by (fastforce simp: policy_canonical_def sanitize_Inr)
qed

section \<open>Operators\<close>

lemma require_item_Inr:
  "require_item db ctx i = Inr r \<longleftrightarrow> hm_get (items_of db) (sm_client_id ctx, i) = Some r
     \<and> (case sm_scope ctx of ScopeAll \<Rightarrow> True | ScopeUser u \<Rightarrow> row_sees (vis_keys db) (sm_client_id ctx, i) r u)"
  by (auto simp: require_item_def require_item_visible_def res_bind_def row_sees_def vis_keys_row
      split: option.splits operator_scope.splits)

lemma row_bound_same:
  assumes "row_bound P V k r" "wr_source_kind r' = wr_source_kind r" "wr_source_ref r' = wr_source_ref r"
    "wr_source_user_id r' = wr_source_user_id r" "wr_assignee_user_id r' \<in> {None, wr_assignee_user_id r}"
  shows "row_bound P V k r'"
  using assms by (auto simp: row_bound_def row_sees_def)

lemma action_ok:
  assumes "queue_db_ok P db"
  shows "queue_db_ok P (snd (apply_item_action render ctx i action db))"
proof -
  have "row_valid k (set_status (target_status action) (map_option accept_actor_str (target_accept_actor action)) t r)"
    if "row_valid k r" for k t r
    using that by (cases action) (auto simp: row_valid_def set_status_def)
  then show ?thesis
    by (auto simp: apply_item_action_def assms Let_def set_status_def split: sum.split
        intro!: item_write_ok [OF assms] elim: row_bound_same)
qed

lemma system_accept_ok:
  assumes "queue_db_ok P db"
  shows "queue_db_ok P (snd (system_accept_item render client i actor expected key t db))"
  by (auto simp: system_accept_item_def assms Let_def set_status_def row_valid_def split: option.split
      intro!: item_write_ok [OF assms] elim: row_bound_same)

lemma kinds_ok:
  assumes "queue_db_ok P db"
  shows "queue_db_ok P (snd (update_packet_kinds render ctx i kinds db))"
  by (auto simp: update_packet_kinds_def assms Let_def set_packet_kinds_def row_valid_def unknown_kind_None list_all_iff
      split: option.split sum.split intro!: item_write_ok [OF assms] elim: row_bound_same)

lemma ai_kinds_ok:
  assumes "queue_db_ok P db"
  shows "queue_db_ok P (snd (append_ai_packet_kinds render client i kinds rationale t db))"
proof -
  have "row_valid (client, i) (set_ai_kinds (push_all (wr_packet_kinds r) kinds) rationale t r')"
    if "hm_get (items_of db) (client, i) = Some r" "hm_get (items_of db) (client, i) = Some r'"
      "row_valid (client, i) r'" "list_all packet_kind_exists kinds" for r r'
    using that by (auto simp: row_valid_def set_ai_kinds_def list_all_iff)
  then show ?thesis
    by (auto simp: append_ai_packet_kinds_def assms Let_def unknown_kind_None set_ai_kinds_def
        split: option.split intro!: item_write_ok [OF assms] elim: row_bound_same)
qed

lemma guidance_ok:
  assumes "queue_db_ok P db"
  shows "queue_db_ok P (snd (update_produce_guidance render ctx i guidance db))"
  by (auto simp: update_produce_guidance_def assms Let_def set_guidance_def row_valid_def
      split: sum.split intro!: item_write_ok [OF assms] elim: row_bound_same)

lemma stored_visible: "u \<in> set (stored_visible_users db c i) \<longleftrightarrow> (c, i, u) \<in> vis_keys db"
proof -
  have "u \<in> set (stored_visible_users db c i) \<longleftrightarrow> (c, i, u) \<in> fst ` set (visibility_of db)"
    by (force simp: stored_visible_users_def)
  then show ?thesis by (auto simp: vis_keys_def map_of_eq_None_iff simp del: not_None_eq)
qed

lemma assignable_sees:
  assumes bound: "row_bound P (vis_keys db) (c, i) r"
    and u: "u \<in> set (item_visible_user_ids_for_source db c i (wr_source_user_id r))"
  shows "row_sees (vis_keys db) (c, i) r u"
proof (cases "stored_visible_users db c i = []")
  case True
  then obtain w where "wr_source_user_id r = Some w" "trim w \<noteq> []"
    using u by (auto simp: item_visible_user_ids_for_source_def Let_def non_blank_Some split: option.splits)
  then obtain v where "(c, i, v) \<in> vis_keys db" using bound by (auto simp: row_bound_def)
  with stored_visible [of v db c i] True show ?thesis by simp
next
  case False
  with u show ?thesis by (simp add: item_visible_user_ids_for_source_def row_sees_def stored_visible)
qed

lemma assignment_ok:
  assumes ok: "queue_db_ok P db"
  shows "queue_db_ok P (snd (update_assignment render ctx i action requested db))"
proof -
  have written: "queue_db_ok P (snd (mutate req (item_write (sm_client_id ctx) i (set_assignee next_user (sm_now_ms ctx))) db))"
    if r: "require_item db ctx i = Inr r"
      and n: "next_assignee (sm_scope ctx) (wr_assignee_user_id r) action requested = Inr next_user"
      and c: "check_assignee db (sm_client_id ctx) action
         (item_visible_user_ids_for_source db (sm_client_id ctx) i (wr_source_user_id r)) next_user = Inr ()"
    for req r next_user
  proof (rule item_write_ok [OF ok], intro conjI)
    fix r' assume r': "hm_get (items_of db) (sm_client_id ctx, i) = Some r'"
      "row_valid (sm_client_id ctx, i) r'" "row_bound P (vis_keys db) (sm_client_id ctx, i) r'"
    show "row_valid (sm_client_id ctx, i) (set_assignee next_user (sm_now_ms ctx) r')"
      using r'(2) by (auto simp: row_valid_def set_assignee_def)
    have [simp]: "r' = r" using r r'(1) by (simp add: require_item_Inr)
    have "row_sees (vis_keys db) (sm_client_id ctx, i) r u" if "next_user = Some u" for u
    proof (cases action)
      case AssignToMe
      then show ?thesis using n r that by (auto simp: next_assignee_def require_item_Inr split: operator_scope.splits)
    next
      case AssignToUser
      then show ?thesis using c that assignable_sees [of P db "sm_client_id ctx" i r u] r'(3)
        by (auto simp: check_assignee_def res_bind_def split: sum.splits if_splits)
    next
      case Unassign
      then show ?thesis using n that by (auto simp: next_assignee_def split: operator_scope.splits if_splits)
    qed
    then show "row_bound P (vis_keys db) (sm_client_id ctx, i) (set_assignee next_user (sm_now_ms ctx) r')"
      using r'(3) by (auto simp: row_bound_def row_sees_def set_assignee_def)
  qed
  then show ?thesis by (auto simp: update_assignment_def ok Let_def split: sum.split)
qed

section \<open>Emission\<close>

lemma item_id_entry [simp]: "wi_item_id (qr_item (set_visible us (item_entry db k r))) = snd k"
  "qi_packet_kinds (qr_item (set_visible us (item_entry db k r))) = wr_packet_kinds r"
  by (simp_all add: set_visible_def item_entry_def item_from_row_def)

lemma unscoped_row:
  assumes "get_item_unscoped db client i = Some e"
  obtains r where "hm_get (items_of db) (client, i) = Some r" "wi_item_id (qr_item e) = i"
    "qi_packet_kinds (qr_item e) = wr_packet_kinds r"
  using assms by (auto simp: get_item_unscoped_def Let_def)

lemma for_source_row:
  assumes wf: "hm_wf (items_of db)" and e: "get_item_for_source db client kind ref = Some e"
  obtains r where "hm_get (items_of db) (client, wi_item_id (qr_item e)) = Some r" "wr_source_kind r = kind"
    "wr_source_ref r = ref" "qi_packet_kinds (qr_item e) = wr_packet_kinds r"
proof -
  obtain k r where f: "find (of_source client kind ref) (items_of db) = Some (k, r)"
    and u: "get_item_unscoped db client (snd k) = Some e"
    using e by (auto simp: get_item_for_source_def split: option.splits)
  have "(k, r) \<in> set (items_of db)" "of_source client kind ref (k, r)" using f by (auto simp: find_Some_iff)
  then have "hm_get (items_of db) (client, snd k) = Some r" "wr_source_kind r = kind" "wr_source_ref r = ref"
    using hm_get_iff [OF wf] by (auto simp: of_source_def)
  with that unscoped_row [OF u] show ?thesis by (metis option.inject)
qed

lemma for_source_user_row:
  assumes wf: "hm_wf (items_of db)" and e: "get_item_for_source_user db client kind ref user = Some e"
  obtains r where "hm_get (items_of db) (client, wi_item_id (qr_item e)) = Some r" "wr_source_kind r = kind" "wr_source_ref r = ref"
proof -
  obtain k r es where f: "sort_key (\<lambda>(k, r). (sint (wr_created_at_ms r), snd k))
      (filter (\<lambda>e. of_source client kind ref e \<and> wr_source_user_id (snd e) = user) (items_of db)) = (k, r) # es"
    and u: "get_item_unscoped db client (snd k) = Some e"
    using e by (auto simp: get_item_for_source_user_def first_of_def split: option.splits list.splits)
  have "(k, r) \<in> set (items_of db) \<and> of_source client kind ref (k, r)"
    using arg_cong [OF f, of set] by auto
  then have "hm_get (items_of db) (client, snd k) = Some r" "wr_source_kind r = kind" "wr_source_ref r = ref"
    using hm_get_iff [OF wf] by (auto simp: of_source_def)
  with that unscoped_row [OF u] show ?thesis by (metis option.inject)
qed

text \<open>What a message must satisfy: a mail key of its own, and an audience the policy of visibility admits.\<close>

definition message_ok :: "admits \<Rightarrow> string \<Rightarrow> queue_message \<Rightarrow> work_queue_overlay \<Rightarrow> bool" where
  "message_ok P client message overlay \<longleftrightarrow>
     source_ok SOURCE_KIND_EMAIL (qm_source_key message)
   \<and> (\<forall>u \<in> set (visible_users_for_message message overlay) \<union> set_option (qm_source_user_id message).
        P client SOURCE_KIND_EMAIL (qm_source_key message) u \<and> P client SOURCE_KIND_EMAIL (qm_message_id message) u)"

lemma visible_users_trimmed: "u \<in> set (visible_users_for_message message overlay) \<Longrightarrow> trim u = u \<and> u \<noteq> []"
  by (auto simp: visible_users_for_message_def Let_def non_blank_Some split: if_splits option.splits)

lemma email_item_ok:
  assumes m: "message_ok P client message overlay" and k: "list_all packet_kind_exists kinds"
  shows "new_item_ok P client (email_item message overlay title summary kinds ai rationale t)" (is "new_item_ok P client ?item")
proof -
  have "audience ?item \<subseteq> set (visible_users_for_message message overlay) \<union> set_option (qm_source_user_id message)"
  proof -
    have "set (effective_visibility_user_ids ?item) \<subseteq> set (visible_users_for_message message overlay)"
    proof (cases "visible_users_for_message message overlay = []")
      case True
      then have "non_blank (qm_source_user_id message) = None"
        by (auto simp: visible_users_for_message_def Let_def split: if_splits option.splits)
      with True show ?thesis by (simp add: effective_visibility_user_ids_def email_item_def)
    next
      case False
      have "map trim (visible_users_for_message message overlay) = visible_users_for_message message overlay"
        "filter (\<lambda>u. u \<noteq> []) (visible_users_for_message message overlay) = visible_users_for_message message overlay"
        using visible_users_trimmed by (auto simp: map_idI filter_id_conv)
      moreover have "push_all [] (visible_users_for_message message overlay) \<noteq> []"
        using False set_push_all [of "[]" "visible_users_for_message message overlay"] by (metis set_empty sup_bot_left)
      ultimately show ?thesis by (simp add: effective_visibility_user_ids_def email_item_def Let_def)
    qed
    then show ?thesis by (auto simp: audience_def email_item_def)
  qed
  moreover have "wi_source_kind ?item = SOURCE_KIND_EMAIL" "wi_source_ref ?item = qm_source_key message"
    "wi_item_id ?item = item_id_of SOURCE_KIND_EMAIL (qm_source_key message)" "qi_status ?item = ItemOpen"
    "qi_accept_actor ?item = None" "qi_packet_kinds ?item = kinds" "qi_produce_guidance ?item = []" "qi_assignee_user_id ?item = None"
    by (simp_all add: email_item_def item_id_of_def SOURCE_KIND_EMAIL_def)
  ultimately show ?thesis using m k unfolding new_item_ok_def message_ok_def by auto
qed

lemma emit_inbound_ok:
  assumes ok: "queue_db_ok P db" and m: "message_ok P client message overlay"
  shows "queue_db_ok P (snd (emit_for_inbound_message_with_overlay render client message overlay hints attention t db))"
proof (cases "existing_for_message db client message")
  case (Some e)
  then obtain r where r: "hm_get (items_of db) (client, wi_item_id (qr_item e)) = Some r" "wr_source_kind r = SOURCE_KIND_EMAIL"
    "wr_source_ref r \<in> {qm_source_key message, qm_message_id message}"
    by (auto simp: existing_for_message_def split: option.splits if_splits
        elim!: for_source_row [OF queue_okD(1) [OF ok]] for_source_user_row [OF queue_okD(1) [OF ok]])
  have "P client (wr_source_kind r) (wr_source_ref r) (trim u)" if "u \<in> set (visible_users_for_message message overlay)" for u
    using m r(2,3) that visible_users_trimmed [OF that] by (auto simp: message_ok_def)
  from ensure_visibility_ok [OF ok r(1) this] show ?thesis
    by (simp add: emit_for_inbound_message_with_overlay_def Some Let_def)
next
  case None
  have "list_all packet_kind_exists (gate_packet_kinds_for_attention (qp_packet_kinds p) attention)"
    if "policy_for_category db client (qm_resolved_category message) = Some p" for p
    using stored_policy_kinds [OF ok that]
    by (auto simp: gate_packet_kinds_for_attention_def list_all_iff split: option.split attention_level.split)
  then show ?thesis
    by (auto simp: emit_for_inbound_message_with_overlay_def None ok Let_def split: option.split
        intro!: insert_item_ok(2) [OF ok] email_item_ok [OF m])
qed

definition unconditional_ok :: "admits \<Rightarrow> string \<Rightarrow> unconditional_emit \<Rightarrow> bool" where
  "unconditional_ok P client spec \<longleftrightarrow>
     source_ok (ue_source_kind spec) (ue_source_ref spec) \<and> list_all packet_kind_exists (ue_default_kinds spec)
   \<and> (\<forall>u. ue_source_user_id spec = Some u \<longrightarrow>
        P client (ue_source_kind spec) (ue_source_ref spec) u \<and> P client (ue_source_kind spec) (ue_source_ref spec) (trim u))"

lemma emit_unconditional_ok:
  assumes ok: "queue_db_ok P db" and spec: "unconditional_ok P client spec"
  shows "queue_db_ok P (snd (emit_unconditional render client spec t db))"
proof -
  have kinds: "list_all packet_kind_exists (unconditional_kinds db client spec)"
    using spec stored_policy_kinds [OF ok] by (auto simp: unconditional_kinds_def unconditional_ok_def split: option.split)
  have "audience (unconditional_item spec kinds t) \<subseteq> {u. \<exists>v. ue_source_user_id spec = Some v \<and> (u = v \<or> u = trim v)}" for kinds
    by (auto simp: audience_def unconditional_item_def effective_visibility_user_ids_def Let_def non_blank_Some
        split: option.splits if_splits)
  with spec have "\<forall>u \<in> audience (unconditional_item spec kinds t). P client (ue_source_kind spec) (ue_source_ref spec) u" for kinds
    unfolding unconditional_ok_def by blast
  with kinds spec have "new_item_ok P client (unconditional_item spec (unconditional_kinds db client spec) t)"
    by (simp add: new_item_ok_def unconditional_ok_def) (simp add: unconditional_item_def item_id_of_def)
  from insert_item_ok(2) [OF ok this] show ?thesis by (simp add: emit_unconditional_def ok)
qed

lemma follow_up_ok:
  assumes ok: "queue_db_ok P db" and m: "message_ok P (sm_client_id ctx) message overlay"
  shows "queue_db_ok P (snd (add_manual_follow_up_for_email render ctx message overlay db))"
  using insert_item_ok(1) [OF ok email_item_ok [OF m]]
  by (auto simp: add_manual_follow_up_for_email_def packet_kind_exists_def packet_kind_catalog_def
      intro!: kinds_ok [OF ok] split: option.split)

lemma ai_suggest_ok:
  assumes ok: "queue_db_ok P db" and m: "message_ok P client message overlay" and k: "list_all packet_kind_exists kinds"
  shows "queue_db_ok P (snd (emit_ai_suggested_item render client message overlay kinds rationale t db))"
  using insert_item_ok(2) [OF ok email_item_ok [OF m k]]
  by (auto simp: emit_ai_suggested_item_def intro!: ai_kinds_ok [OF ok] split: option.split)

section \<open>Histories\<close>

text \<open>
  The queue in operation. Messages are ingested and triaged, sources emit items, operators act through the routes. Other
  slices insert items in transactions of their own (\<open>Placed\<close>), dismiss an item whose mail goes to the trash, and leave the
  tables of the queue alone otherwise.
\<close>

inductive queue_step :: "admits \<Rightarrow> 'x queue_tables_scheme db \<Rightarrow> 'x queue_tables_scheme db \<Rightarrow> bool" for P where
  Ingested: "message_ok P client message overlay \<Longrightarrow>
     queue_step P db (snd (emit_for_inbound_message_with_overlay render client message overlay hints attention now_ms db))"
| Emitted: "unconditional_ok P client spec \<Longrightarrow> queue_step P db (snd (emit_unconditional render client spec now_ms db))"
| Suggested: "message_ok P client message overlay \<Longrightarrow> list_all packet_kind_exists kinds \<Longrightarrow>
     queue_step P db (snd (emit_ai_suggested_item render client message overlay kinds rationale now_ms db))"
| FollowedUp: "message_ok P (sm_client_id ctx) message overlay \<Longrightarrow>
     queue_step P db (snd (add_manual_follow_up_for_email render ctx message overlay db))"
| Inserted: "new_item_ok P client item \<Longrightarrow>
     queue_step P db (snd (insert_item_with_actor render client item actor kind key db))"
| SystemAccepted: "queue_step P db (snd (system_accept_item render client item_id actor expected key now_ms db))"
| Requested: "queue_step P db
     (snd (snd (item_route sha render auth_ms hs key requested expected item_id body now_ms (st, db))))"
| PolicyRequested: "queue_step P db (snd (snd (policy_upsert sha render auth_ms hs key requested policy now_ms (st, db))))"
| PolicyImported: "queue_step P db (snd (upsert_policy render client actor policy key now_ms db))"
| Placed: "new_item_ok P client item \<Longrightarrow> insert_item_write client item db = (Inr (), db1)
     \<Longrightarrow> items_of db' = items_of db1 \<Longrightarrow> visibility_of db' = visibility_of db1 \<Longrightarrow> policies_of db' = policies_of db1
     \<Longrightarrow> queue_step P db db'"
| Trashed: "items_of db' = items_of (update_item k (set_status ''dismissed'' None now_ms) db)
     \<Longrightarrow> visibility_of db' = visibility_of db \<Longrightarrow> policies_of db' = policies_of db \<Longrightarrow> queue_step P db db'"
| Elsewhere: "items_of db' = items_of db \<Longrightarrow> visibility_of db' = visibility_of db \<Longrightarrow> policies_of db' = policies_of db
     \<Longrightarrow> queue_step P db db'"

definition queue_reachable :: "admits \<Rightarrow> 'x queue_tables_scheme db \<Rightarrow> bool" where
  "queue_reachable P db \<longleftrightarrow>
     (\<exists>d. qt_items d = [] \<and> qt_visibility d = [] \<and> qt_policies d = [] \<and> (queue_step P)\<^sup>*\<^sup>* (empty_db d) db)"

lemma route_ok:
  assumes "queue_db_ok P db"
  shows "queue_db_ok P (snd (snd (item_route sha render auth_ms hs key requested expected i body t (st, db))))"
proof (cases body)
  case (ItemAction action)
  show ?thesis unfolding ItemAction item_route.simps item_action_def
    by (rule guarded_db) (simp_all add: action_ok assms)
next
  case (ItemPacketKinds kinds)
  show ?thesis unfolding ItemPacketKinds item_route.simps item_packet_kinds_def
    by (rule guarded_db) (simp_all add: kinds_ok assms)
next
  case (ItemProduceGuidance guidance)
  show ?thesis unfolding ItemProduceGuidance item_route.simps item_produce_guidance_def
    by (rule guarded_db) (simp_all add: guidance_ok assms)
next
  case (ItemAssignment action assignee)
  show ?thesis unfolding ItemAssignment item_route.simps item_assignment_def
    by (rule guarded_db) (simp_all add: assignment_ok assms)
qed

lemma queue_step_ok:
  assumes "queue_step P db db'" and ok: "queue_db_ok P db"
  shows "queue_db_ok P db'"
  using assms(1)
proof cases
  case (PolicyRequested sha render auth_ms hs key requested policy now_ms st)
  show ?thesis unfolding PolicyRequested policy_upsert_def
    by (rule guarded_db) (simp_all add: upsert_policy_ok ok)
next
  case (Placed client item db1)
  have "vis_keys db' = vis_keys db1" using Placed(4) by (simp add: vis_keys_def)
  with insert_item_write_ok [OF ok Placed(1,2)] Placed(3,5) show ?thesis by simp
next
  case (Trashed k now_ms)
  have v: "vis_keys db' = vis_keys db" using Trashed(2) by (simp add: vis_keys_def)
  show ?thesis
  proof (cases "hm_get (items_of db) k")
    case (Some r)
    have "row_valid k (set_status ''dismissed'' None now_ms r)" "row_bound P (vis_keys db) k (set_status ''dismissed'' None now_ms r)"
      using queue_okD(2,3) [OF ok Some] by (auto simp: row_valid_def set_status_def row_bound_def row_sees_def)
    from update_ok [OF ok Some this] show ?thesis using Trashed v by (simp add: update_item_def Some)
  qed (use Trashed v ok in \<open>simp add: update_item_def\<close>)
next
  case Elsewhere
  then show ?thesis using ok by (simp add: vis_keys_def)
qed (use ok in \<open>simp_all add: emit_inbound_ok emit_unconditional_ok ai_suggest_ok follow_up_ok insert_item_ok system_accept_ok
      route_ok upsert_policy_ok\<close>)

lemma queue_reachable_ok: "queue_reachable P db \<Longrightarrow> queue_db_ok P db"
proof -
  assume "queue_reachable P db"
  then obtain d where d: "qt_items d = []" "qt_visibility d = []" "qt_policies d = []" "(queue_step P)\<^sup>*\<^sup>* (empty_db d) db"
    unfolding queue_reachable_def by blast
  have start: "queue_db_ok P (empty_db d)"
    using d(1-3) by (simp add: queue_ok_def empty_db_def vis_keys_def)
  from d(4) show ?thesis
  proof (induction rule: rtranclp_induct)
    case (step y z)
    then show ?case using queue_step_ok by blast
  qed (rule start)
qed

end
