(* ===== verification/Work_Queue_Properties.thy ===== *)
theory Work_Queue_Properties
  imports Work_Queue_Invariant
begin

text \<open>
  What the work queue guarantees: an item is shown to, changed by and assigned to nobody but the operators its source
  admits; its row stays consistent and unique for its source; stored policies are canonical. An AI suggestion that an
  operator has undone is lost when it is repeated.
\<close>

section \<open>Properties\<close>

lemma scoped_Some:
  "get_item_scoped db client i (ScopeUser u) \<noteq> None
     \<longleftrightarrow> (\<exists>r. hm_get (items_of db) (client, i) = Some r \<and> row_sees (vis_keys db) (client, i) r u)"
  by (auto simp: get_item_scoped_def get_item_unscoped_def Let_def item_visible_to_scope_def set_visible_def item_entry_def
      item_from_row_def row_sees_def vis_keys_row split: option.split)

lemma scoped_all: "get_item_scoped db client i ScopeAll \<noteq> None \<longleftrightarrow> hm_get (items_of db) (client, i) \<noteq> None"
  by (auto simp: get_item_scoped_def get_item_unscoped_def item_visible_to_scope_def split: option.split)

lemma sql_filter_scope:
  "visibility_sql_filter db scope k source
     \<longleftrightarrow> (case scope of ScopeAll \<Rightarrow> True | ScopeUser u \<Rightarrow> source = Some u \<or> (fst k, snd k, u) \<in> vis_keys db)"
proof -
  have "list_ex (\<lambda>((c, i, w), _). c = fst k \<and> i = snd k \<and> w = u) (visibility_of db) \<longleftrightarrow> (fst k, snd k, u) \<in> fst ` set (visibility_of db)" for u
    by (force simp: list_ex_iff)
  then show ?thesis
    by (cases scope) (auto simp: visibility_sql_filter_def vis_keys_def map_of_eq_None_iff simp del: not_None_eq)
qed

text \<open>The ids of a feed.\<close>

abbreviation feed_ids :: "queue_item_with_revision list \<Rightarrow> string set" where
  "feed_ids entries \<equiv> (\<lambda>e. wi_item_id (qr_item e)) ` set entries"

definition feed_rows ::
    "'x queue_tables_scheme db \<Rightarrow> string \<Rightarrow> work_item_status option \<Rightarrow> operator_scope \<Rightarrow> ((string \<times> string) \<times> item_row) list" where
  "feed_rows db client status scope =
     rev (sort_key (\<lambda>(k, r). (sint (wr_created_at_ms r), snd k))
       (filter (\<lambda>(k, r). fst k = client \<and> (case status of None \<Rightarrow> True | Some s \<Rightarrow> wr_status r = status_str s)
          \<and> visibility_sql_filter db scope k (wr_source_user_id r)) (items_of db)))"

lemma feed_ids: "feed_ids (list_items db client status limit scope) = (\<lambda>(k, r). snd k) ` set (take limit (feed_rows db client status scope))"
  unfolding list_items_def feed_rows_def [symmetric] Let_def
  by (force simp: set_visible_def item_entry_def item_from_row_def image_image case_prod_beta)

lemma feed_row:
  assumes wf: "hm_wf (items_of db)"
  shows "(k, r) \<in> set (feed_rows db client status scope) \<longleftrightarrow>
     hm_get (items_of db) k = Some r \<and> fst k = client \<and> (case status of None \<Rightarrow> True | Some s \<Rightarrow> wr_status r = status_str s)
     \<and> (case scope of ScopeAll \<Rightarrow> True | ScopeUser u \<Rightarrow> row_sees (vis_keys db) k r u)"
  by (auto simp: feed_rows_def hm_get_iff [OF wf] sql_filter_scope row_sees_def split: operator_scope.splits)

lemma route_refused:
  assumes auth: "authenticate sha db auth_ms hs st = (Inr auth, st')"
    and req: "\<And>requested expected key. \<exists>e. require_item db (item_context auth st' requested expected key now_ms) item_id = Inl e"
  shows "\<exists>e. item_route sha render auth_ms hs key requested expected item_id body now_ms (st, db) = (Refused e, (st', db))"
proof -
  obtain e where e: "require_item db (item_context auth st' requested expected key now_ms) item_id = Inl e" using req by blast
  have refused: "\<exists>e'. mutation_result (Inl e) = Refused e'" for e by (cases e) (simp_all add: mutation_result_def error_response_def)
  have g: "\<exists>e. guarded sha auth_ms hs (\<lambda>_. Inr ()) key (\<lambda>auth w. on_db (op (item_context auth (fst w) requested expected key now_ms))
       mutation_result w) (st, db) = (Refused e, (st', db))"
    if "\<exists>e. op (item_context auth st' requested expected key now_ms) db = (Inl e, db)" for op
    using that refused by (auto simp: guarded_def auth on_db_def error_response_def)
  show ?thesis
  proof (cases body)
    case (ItemAction action)
    show ?thesis unfolding ItemAction item_route.simps item_action_def by (rule g) (simp add: apply_item_action_def e)
  next
    case (ItemPacketKinds kinds)
    show ?thesis unfolding ItemPacketKinds item_route.simps item_packet_kinds_def
      by (rule g) (simp add: update_packet_kinds_def e split: option.split)
  next
    case (ItemProduceGuidance guidance)
    show ?thesis unfolding ItemProduceGuidance item_route.simps item_produce_guidance_def
      by (rule g) (simp add: update_produce_guidance_def e Let_def)
  next
    case (ItemAssignment action assignee)
    show ?thesis unfolding ItemAssignment item_route.simps item_assignment_def by (rule g) (simp add: update_assignment_def e)
  qed
qed

text \<open>
  (C28) Confinement of work items. Let a policy say which operators each source admits, and let every message and source
  that enters the queue carry only admitted operators. Then in every history an operator who is not admitted by
  the source of an item cannot open it and never finds it in the feed, is never its assignee, and every request to
  act on it, change its packet kinds or guidance, or assign it with that operator's credential is refused and leaves the
  database as it was.
\<close>

theorem work_items_confined:
  assumes reach: "queue_reachable P db"
    and r: "hm_get (items_of db) (client, item_id) = Some r"
    and no: "\<not> P client (wr_source_kind r) (wr_source_ref r) u"
  shows "get_item_scoped db client item_id (ScopeUser u) = None
     \<and> item_id \<notin> feed_ids (list_items db client status limit (ScopeUser u))
     \<and> wr_assignee_user_id r \<noteq> Some u
     \<and> (\<forall>auth st'. authenticate sha db auth_ms hs st = (Inr auth, st') \<and> au_scope auth = ScopeUser u \<and> as_client_id st' = client \<longrightarrow>
          (\<exists>e. item_route sha render auth_ms hs key requested expected item_id body now_ms (st, db) = (Refused e, (st', db))))"
proof (intro conjI allI impI)
  note ok = queue_reachable_ok [OF reach]
  have blind: "\<not> row_sees (vis_keys db) (client, item_id) r u"
    using queue_okD(3) [OF ok r] no by (auto simp: row_bound_def)
  then show "get_item_scoped db client item_id (ScopeUser u) = None" using scoped_Some [of db client item_id u] r by auto
  show "item_id \<notin> feed_ids (list_items db client status limit (ScopeUser u))"
    using blind r feed_row [OF queue_okD(1) [OF ok]] by (auto simp: feed_ids dest!: in_set_takeD)
  show "wr_assignee_user_id r \<noteq> Some u"
    using queue_okD(3) [OF ok r] blind by (auto simp: row_bound_def)
  fix auth st' assume a: "authenticate sha db auth_ms hs st = (Inr auth, st') \<and> au_scope auth = ScopeUser u \<and> as_client_id st' = client"
  have "\<exists>e. require_item db (item_context auth st' requested expected key now_ms) item_id = Inl e" for requested expected key
    using require_item_Inr [of db "item_context auth st' requested expected key now_ms" item_id] a r blind
    by (cases "require_item db (item_context auth st' requested expected key now_ms) item_id") (auto simp: item_context_def)
  from route_refused [OF conjunct1 [OF a] this]
  show "\<exists>e. item_route sha render auth_ms hs key requested expected item_id body now_ms (st, db) = (Refused e, (st', db))" .
qed

text \<open>
  (C29) The rows of the queue in every history: the status is one of the three, an item has an accepting actor exactly
  when it is accepted, its packet kinds exist, the guidance keeps its limit, the assignee can open the item, and no
  other item of the client has the same source.
\<close>

theorem queue_rows_well_formed:
  assumes reach: "queue_reachable P db" and r: "hm_get (items_of db) (client, item_id) = Some r"
  shows "status_str (qi_status (item_from_row (client, item_id) r)) = wr_status r
     \<and> (qi_status (item_from_row (client, item_id) r) = ItemAccepted \<longleftrightarrow> qi_accept_actor (item_from_row (client, item_id) r) \<noteq> None)
     \<and> list_all packet_kind_exists (wr_packet_kinds r)
     \<and> int (length (utf8_chars (wr_produce_guidance r))) \<le> PRODUCE_GUIDANCE_MAX_CHARS
     \<and> (\<forall>u. wr_assignee_user_id r = Some u \<longrightarrow> get_item_scoped db client item_id (ScopeUser u) \<noteq> None)
     \<and> (\<forall>item_id' r'. hm_get (items_of db) (client, item_id') = Some r' \<and> wr_source_kind r' = wr_source_kind r
          \<and> wr_source_ref r' = wr_source_ref r \<longrightarrow> item_id' = item_id)"
proof -
  note ok = queue_reachable_ok [OF reach]
  note valid = queue_okD(2) [OF ok]
  have "get_item_scoped db client item_id (ScopeUser u) \<noteq> None" if "wr_assignee_user_id r = Some u" for u
    using queue_okD(3) [OF ok r] that r unfolding scoped_Some by (auto simp: row_bound_def)
  moreover have "item_id' = item_id" if "hm_get (items_of db) (client, item_id') = Some r'"
    "wr_source_kind r' = wr_source_kind r" "wr_source_ref r' = wr_source_ref r" for item_id' r'
    using valid [OF r] valid [OF that(1)] that(2,3) by (simp add: row_valid_def)
  moreover have "status_str (qi_status (item_from_row (client, item_id) r)) = wr_status r"
    "qi_status (item_from_row (client, item_id) r) = ItemAccepted \<longleftrightarrow> qi_accept_actor (item_from_row (client, item_id) r) \<noteq> None"
    using valid [OF r] by (auto simp: row_valid_def item_from_row_def status_from_str_def accept_actor_from_str_def)
  ultimately show ?thesis using valid [OF r] unfolding row_valid_def by blast
qed

text \<open>
  The SQL filter of the feed and the check in front of a single item agree: a feed without a status filter and with a limit that
  suffices lists exactly the items the operator can open.
\<close>

theorem feed_lists_what_opens:
  assumes reach: "queue_reachable P db" and limit: "length (items_of db) \<le> limit"
  shows "item_id \<in> feed_ids (list_items db client None limit scope) \<longleftrightarrow> get_item_scoped db client item_id scope \<noteq> None"
proof -
  have "length (feed_rows db client None scope) \<le> limit"
    using limit by (simp add: feed_rows_def le_trans [OF length_filter_le])
  then have "take limit (feed_rows db client None scope) = feed_rows db client None scope" by simp
  moreover note row = feed_row [OF queue_okD(1) [OF queue_reachable_ok [OF reach]]]
  moreover have "(item_id \<in> (\<lambda>(k, r). snd k) ` set (feed_rows db client None scope))
      = (\<exists>r. ((client, item_id), r) \<in> set (feed_rows db client None scope))"
  proof
    assume "item_id \<in> (\<lambda>(k, r). snd k) ` set (feed_rows db client None scope)"
    then obtain k r where kr: "(k, r) \<in> set (feed_rows db client None scope)" "snd k = item_id" by auto
    then have "k = (client, item_id)" using row by (metis prod.collapse)
    with kr(1) show "\<exists>r. ((client, item_id), r) \<in> set (feed_rows db client None scope)" by auto
  qed (auto intro: rev_image_eqI)
  ultimately have "item_id \<in> feed_ids (list_items db client None limit scope)
      \<longleftrightarrow> (\<exists>r. hm_get (items_of db) (client, item_id) = Some r
            \<and> (case scope of ScopeAll \<Rightarrow> True | ScopeUser u \<Rightarrow> row_sees (vis_keys db) (client, item_id) r u))"
    by (simp add: feed_ids row)
  then show ?thesis by (cases scope) (simp_all add: scoped_Some scoped_all del: not_None_eq, auto)
qed

text \<open>
  A policy that was saved is read back as its sanitized form, which is clean (known kinds, the sentinel alone, nothing
  configured for a category that makes no items, a Gmail scope for the fallback category only) and a fixed point: saving what
  was read changes nothing more.
\<close>

theorem saved_policy_reads_back:
  assumes "upsert_policy render client actor p key now_ms db = (Inr (MutationApplied i n), db')"
  shows "\<exists>q. sanitize_policy p = Inr q \<and> policy_for_category db' client (qp_category_id p) = Some q
     \<and> policy_clean q \<and> sanitize_policy q = Inr q"
proof -
  obtain q where q: "sanitize_policy p = Inr q" using assms by (auto simp: upsert_policy_def split: sum.splits)
  with assms obtain db1 where "write_policy_tx client q now_ms db = (Inr (), db1)" "db_domain db' = db_domain db1"
    by (auto simp: upsert_policy_def dest!: mutate_domain)
  then have "policies_of db' = hm_insert (client, qp_category_id q) (policy_row_of q now_ms) (policies_of db)"
    by (auto simp: write_policy_tx_def)
  then have "policy_for_category db' client (qp_category_id q) = Some q" by (simp add: policy_for_category_def)
  then have "policy_for_category db' client (qp_category_id p) = Some q" by (simp only: sanitize_clean(2) [OF q])
  with q sanitize_clean(1) [OF q] clean_sanitized show ?thesis by blast
qed

section \<open>A lost suggestion\<close>

lemma taken_append: "applied_key_taken db c k \<Longrightarrow> db_receipts db' = db_receipts db @ rs \<Longrightarrow> applied_key_taken db' c k"
  by (auto simp: applied_key_taken_def list_ex_iff)

lemma mutate_takes_key:
  assumes "spine_safe (\<lambda>_. dw)" and ok: "spine_ok (db_receipts db)" and m: "mutate req dw db = (Inr out, db1)"
    and "mq_expected_revision req = None"
  shows "applied_key_taken db1 (mq_client_id req) (mq_idempotency_key req)" "spine_ok (db_receipts db1)"
proof -
  show "applied_key_taken db1 (mq_client_id req) (mq_idempotency_key req)"
    using assms(1,2)
  proof (cases rule: mutate_cases [where req = req])
    case (replayed i revision)
    then have "applied_key_taken db (mq_client_id req) (mq_idempotency_key req)"
      using find_applied_None by (metis option.distinct(1))
    moreover have "db_receipts db1 = db_receipts db @ [receipt_of req ReplayedIdempotent None revision revision (next_receipt_id db)]"
      using replayed(2) m by (auto simp: mutate_def)
    ultimately show ?thesis by (rule taken_append)
  next
    case (applied db2)
    then show ?thesis using m by (auto simp: mutate_def applied_key_taken_def receipt_of_def)
  qed (use m assms(4) in \<open>simp_all add: mutate_def conflicting_def\<close>)
  show "spine_ok (db_receipts db1)" using spine_step_mutate [OF assms(1) ok, of req] m by simp
qed

lemma key_taken_later:
  assumes "spine_step\<^sup>*\<^sup>* db1 db2" "spine_ok (db_receipts db1)" "applied_key_taken db1 c k"
  shows "applied_key_taken db2 c k"
  using spine_steps_ok(2) [OF assms(1,2)] assms(3) unfolding key_taken_identities by (metis Un_iff set_append)

lemma item_write_safe: "spine_safe (\<lambda>_. item_write client item_id f)"
  by (auto simp: spine_safe_def item_write_def update_item_def put_item_def split: option.splits)

text \<open>
  (C30) The key of an AI suggestion is made of the item and the kinds it results in. When an operator has since removed
  the suggested kinds and the suggestion is made again, its key is taken: the code reports that the kinds were added,
  and the item stays as it was.
\<close>

theorem repeated_suggestion_is_lost:
  assumes reach: "spine_reachable db"
    and r: "hm_get (items_of db) (client, item_id) = Some r"
    and first: "append_ai_packet_kinds render client item_id kinds rationale now_ms db = (Inr True, db1)"
    and later: "spine_step\<^sup>*\<^sup>* db1 db2"
    and r2: "hm_get (items_of db2) (client, item_id) = Some r2" "wr_packet_kinds r2 = wr_packet_kinds r"
      "wr_status r2 \<noteq> ''dismissed''"
  shows "\<exists>db3. append_ai_packet_kinds render client item_id kinds rationale' later_ms db2 = (Inr True, db3)
     \<and> items_of db3 = items_of db2 \<and> \<not> set kinds \<subseteq> set (wr_packet_kinds r2)"
proof -
  let ?merged = "push_all (wr_packet_kinds r) kinds"
  let ?req = "\<lambda>r rationale t. ai_kinds_request render client item_id r ?merged rationale t"
  let ?w = "\<lambda>rationale t. item_write client item_id (set_ai_kinds ?merged rationale t)"
  have grew: "length ?merged \<noteq> length (wr_packet_kinds r)" and known: "unknown_kind kinds = None"
    using first r by (auto simp: append_ai_packet_kinds_def Let_def split: option.splits if_splits)
  obtain out where "mutate (?req r rationale now_ms) (?w rationale now_ms) db = (Inr out, db1)"
    using first r grew known by (auto simp: append_ai_packet_kinds_def Let_def op_map_Inr_iff split: if_splits)
  from mutate_takes_key [OF item_write_safe spine_reachable_ok [OF reach] this]
  have "applied_key_taken db1 client (ai_kinds_key item_id ?merged)" "spine_ok (db_receipts db1)"
    by (simp_all add: ai_kinds_request_def)
  then have "applied_key_taken db2 client (ai_kinds_key item_id ?merged)" "spine_ok (db_receipts db2)"
    using key_taken_later [OF later] spine_steps_ok(1) [OF later] by blast+
  with mutate_taken [OF item_write_safe, of db2 "?req r2 rationale' later_ms"]
  obtain x db3 where "mutate (?req r2 rationale' later_ms) (?w rationale' later_ms) db2 = (Inr x, db3)"
    "db_domain db3 = db_domain db2" by (simp add: ai_kinds_request_def) (metis prod.collapse)
  then have "append_ai_packet_kinds render client item_id kinds rationale' later_ms db2 = (Inr True, db3)"
    "items_of db3 = items_of db2"
    using r2 grew known by (simp_all add: append_ai_packet_kinds_def Let_def op_map_Inr_iff)
  moreover have "\<not> set kinds \<subseteq> set (wr_packet_kinds r2)"
  proof
    assume "set kinds \<subseteq> set (wr_packet_kinds r2)"
    then have "?merged = wr_packet_kinds r" unfolding r2(2) by (induction kinds) (auto simp: push_new_def)
    with grew show False by simp
  qed
  ultimately show ?thesis by blast
qed

text \<open>Emission and the operations of operators as mutations of the spine.\<close>

lemma insert_rows_receipts [simp]: "db_receipts (fold (insert_visibility_row c i t) us db) = db_receipts db"
  by (induction us arbitrary: db) (simp_all add: insert_visibility_row_def)

lemma insert_write_safe: "spine_safe (\<lambda>_. insert_item_write client item)"
  by (auto simp: spine_safe_def insert_item_write_def Let_def insert_visibility_rows_within_def put_item_def split: if_splits)

lemma emission_on_spine: "spine_step\<^sup>*\<^sup>* db (snd (emit_unconditional render client spec t db))"
  using spine_step.Mutate [OF insert_write_safe]
  by (auto simp: emit_unconditional_def insert_item_def insert_item_with_actor_def mutate_def intro!: r_into_rtranclp)

lemma kinds_on_spine: "spine_step\<^sup>*\<^sup>* db (snd (update_packet_kinds render ctx i kinds db))"
  using spine_step.Mutate [OF item_write_safe]
  by (auto simp: update_packet_kinds_def Let_def mutate_def intro!: r_into_rtranclp split: option.split sum.split)

section \<open>A concrete history\<close>

text \<open>Ann writes a note; the item of the note is hers. The triage suggests a reply, Ann removes it, the triage suggests it again.\<close>

definition sample_admits :: admits where
  "sample_admits = (\<lambda>_ _ _ u. u = ''user_ann'')"

definition sample_queue_start :: "queue_tables db" where
  "sample_queue_start = empty_db \<lparr>ot_jobs = [], at_users = [], at_api_tokens = [], at_google_credentials = [],
     at_qbo_credentials = [], st_overrides = [], ct_oauth_states = [], nt_notes = [], qt_items = [], qt_visibility = [],
     qt_policies = []\<rparr>"

definition sample_note_spec :: unconditional_emit where
  "sample_note_spec = \<lparr>ue_source_kind = ''operator_note'', ue_source_ref = ''n1'', ue_category_id = ''notes'', ue_title = ''Call Bob'',
     ue_summary = ''Call Bob'', ue_default_kinds = [''follow_up_task''], ue_allow_policy_kinds = False,
     ue_source_user_id = Some ''user_ann'', ue_status = ItemAccepted\<rparr>"

definition sample_note_queue :: "queue_tables db" where
  "sample_note_queue = snd (emit_unconditional (\<lambda>_. []) ''acme'' sample_note_spec 1000 sample_queue_start)"

lemma sample_queue_empty: "db_domain sample_queue_start = \<lparr>ot_jobs = [], at_users = [], at_api_tokens = [], at_google_credentials = [],
     at_qbo_credentials = [], st_overrides = [], ct_oauth_states = [], nt_notes = [], qt_items = [], qt_visibility = [],
     qt_policies = []\<rparr>" "sample_queue_start = empty_db (db_domain sample_queue_start)"
  by (simp_all add: sample_queue_start_def empty_db_def)

lemma sample_queue_reachable: "queue_reachable sample_admits sample_note_queue"
proof -
  have "source_ok ''operator_note'' ''n1'' \<and> list_all packet_kind_exists [''follow_up_task''] \<and> trim ''user_ann'' = ''user_ann''"
    by code_simp
  then have "unconditional_ok sample_admits ''acme'' sample_note_spec"
    by (simp add: unconditional_ok_def sample_note_spec_def sample_admits_def)
  then have "queue_step sample_admits sample_queue_start sample_note_queue"
    unfolding sample_note_queue_def by (rule queue_step.Emitted)
  then have "(queue_step sample_admits)\<^sup>*\<^sup>* (empty_db (db_domain sample_queue_start)) sample_note_queue"
    using sample_queue_empty(2) by auto
  then show ?thesis
    unfolding queue_reachable_def by (intro exI [of _ "db_domain sample_queue_start"]) (simp add: sample_queue_empty(1))
qed

lemma sample_queue_row:
  obtains r where "hm_get (items_of sample_note_queue) (''acme'', ''wi_operator_note_n1'') = Some r"
    "wr_source_kind r = ''operator_note''" "wr_source_ref r = ''n1''" "wr_packet_kinds r = [''follow_up_task'']"
    "wr_status r = ''accepted''"
proof -
  have "map_option (\<lambda>r. (wr_source_kind r, wr_source_ref r, wr_packet_kinds r, wr_status r))
      (hm_get (items_of sample_note_queue) (''acme'', ''wi_operator_note_n1''))
    = Some (''operator_note'', ''n1'', [''follow_up_task''], ''accepted'')" by code_simp
  with that show ?thesis by auto
qed

theorem work_items_confined_witness:
  "get_item_scoped sample_note_queue ''acme'' ''wi_operator_note_n1'' (ScopeUser ''user_bob'') = None
   \<and> ''wi_operator_note_n1'' \<notin> feed_ids (list_items sample_note_queue ''acme'' None 200 (ScopeUser ''user_bob''))"
proof -
  obtain r where r: "hm_get (items_of sample_note_queue) (''acme'', ''wi_operator_note_n1'') = Some r" by (rule sample_queue_row)
  have "\<not> sample_admits ''acme'' (wr_source_kind r) (wr_source_ref r) ''user_bob''" by (simp add: sample_admits_def)
  from work_items_confined [OF sample_queue_reachable r this] show ?thesis by blast
qed

theorem queue_rows_well_formed_witness:
  "\<exists>r. hm_get (items_of sample_note_queue) (''acme'', ''wi_operator_note_n1'') = Some r
     \<and> list_all packet_kind_exists (wr_packet_kinds r) \<and> wr_packet_kinds r = [''follow_up_task'']
     \<and> qi_accept_actor (item_from_row (''acme'', ''wi_operator_note_n1'') r) \<noteq> None"
proof -
  obtain r where r: "hm_get (items_of sample_note_queue) (''acme'', ''wi_operator_note_n1'') = Some r"
    "wr_packet_kinds r = [''follow_up_task'']" "wr_status r = ''accepted''" by (rule sample_queue_row)
  have "qi_status (item_from_row (''acme'', ''wi_operator_note_n1'') r) = ItemAccepted"
    using r(3) by (simp add: item_from_row_def status_from_str_def)
  with queue_rows_well_formed [OF sample_queue_reachable r(1)] r show ?thesis by blast
qed

theorem feed_lists_what_opens_witness:
  "''wi_operator_note_n1'' \<in> feed_ids (list_items sample_note_queue ''acme'' None 200 (ScopeUser ''user_ann''))"
proof -
  have l: "length (items_of sample_note_queue) \<le> 200" by code_simp
  have "get_item_scoped sample_note_queue ''acme'' ''wi_operator_note_n1'' (ScopeUser ''user_ann'') \<noteq> None" by code_simp
  with feed_lists_what_opens [OF sample_queue_reachable l] show ?thesis by blast
qed

definition sample_policy :: work_queue_policy where
  "sample_policy = \<lparr>qp_category_id = ''inbound_email'', qp_create_work_item = True, qp_packet_kinds = [''follow_up_task''],
     qp_ai_suggestible_packet_kinds = [''*''], qp_ai_suggestible_gmail_scope = ScopeDefault,
     qp_ai_suggestible_gmail_categories = [Forums], qp_auto_produce = False\<rparr>"

definition sample_policy_saved :: "(store_error + mutation_outcome) \<times> queue_tables db" where
  "sample_policy_saved = upsert_policy (\<lambda>_. []) ''acme'' ''operator'' sample_policy ''k1'' 1000 sample_queue_start"

theorem saved_policy_reads_back_witness:
  "\<exists>q. policy_for_category (snd sample_policy_saved) ''acme'' ''inbound_email'' = Some q \<and> policy_clean q \<and> sanitize_policy q = Inr q"
proof -
  have "case fst sample_policy_saved of Inr (MutationApplied _ _) \<Rightarrow> True | _ \<Rightarrow> False" by code_simp
  then obtain i n where "fst sample_policy_saved = Inr (MutationApplied i n)"
    by (auto split: sum.splits mutation_outcome.splits)
  then have "upsert_policy (\<lambda>_. []) ''acme'' ''operator'' sample_policy ''k1'' 1000 sample_queue_start
      = (Inr (MutationApplied i n), snd sample_policy_saved)"
    unfolding sample_policy_saved_def by (metis prod.collapse)
  from saved_policy_reads_back [OF this] show ?thesis by (auto simp: sample_policy_def)
qed

definition suggest :: "u64 \<Rightarrow> queue_tables db \<Rightarrow> (store_error + bool) \<times> queue_tables db" where
  "suggest = append_ai_packet_kinds (\<lambda>_. []) ''acme'' ''wi_operator_note_n1'' [''email_draft_reply''] ''asks for an answer''"

definition sample_suggested :: "queue_tables db" where "sample_suggested = snd (suggest 2000 sample_note_queue)"

definition sample_removed :: "queue_tables db" where
  "sample_removed = snd (update_packet_kinds (\<lambda>_. [])
     \<lparr>sm_client_id = ''acme'', sm_actor_id = ''user_ann'', sm_scope = ScopeUser ''user_ann'', sm_expected_revision = None,
      sm_idempotency_key = ''k2'', sm_now_ms = 3000\<rparr> ''wi_operator_note_n1'' [''follow_up_task''] sample_suggested)"

theorem repeated_suggestion_is_lost_witness:
  "\<exists>db3. suggest 4000 sample_removed = (Inr True, db3) \<and> items_of db3 = items_of sample_removed"
proof -
  have "spine_step\<^sup>*\<^sup>* (empty_db (db_domain sample_queue_start)) sample_note_queue"
    unfolding sample_note_queue_def sample_queue_empty(2) [symmetric] by (rule emission_on_spine)
  then have reach: "spine_reachable sample_note_queue" unfolding spine_reachable_def by blast
  have "fst (suggest 2000 sample_note_queue) = Inr True" by code_simp
  then have first: "suggest 2000 sample_note_queue = (Inr True, sample_suggested)"
    unfolding sample_suggested_def by (metis prod.collapse)
  have later: "spine_step\<^sup>*\<^sup>* sample_suggested sample_removed"
    unfolding sample_removed_def by (rule kinds_on_spine)
  have "map_option (\<lambda>r. (wr_packet_kinds r, wr_status r)) (hm_get (items_of sample_removed) (''acme'', ''wi_operator_note_n1''))
      = Some ([''follow_up_task''], ''accepted'')" by code_simp
  then obtain r2 where r2: "hm_get (items_of sample_removed) (''acme'', ''wi_operator_note_n1'') = Some r2"
    "wr_packet_kinds r2 = [''follow_up_task'']" "wr_status r2 \<noteq> ''dismissed''" by auto
  obtain r where r: "hm_get (items_of sample_note_queue) (''acme'', ''wi_operator_note_n1'') = Some r"
    "wr_packet_kinds r = [''follow_up_task'']" by (rule sample_queue_row)
  from repeated_suggestion_is_lost [OF reach r(1) first [unfolded suggest_def] later r2(1) _ r2(3)] r(2) r2(2)
  show ?thesis unfolding suggest_def by auto
qed

text \<open>
  The ingestion recognises an item that was stored under the message id, before mail keys named their mailbox; the
  triage and the follow-up button look for the mail key only and make a second item for the same mail.
\<close>

definition sample_mail :: "string \<Rightarrow> queue_message" where
  "sample_mail key = \<lparr>im_internal_date_ms = None, im_from_addr = None, im_to_addr = None, im_subject = Some ''Hi'', im_body_excerpt = [],
     im_body_full = [], im_headers = [], im_ingested_at_ms = 0, qm_source_key = key, qm_message_id = ''m1'',
     qm_resolved_category = ''sales'', qm_source_user_id = Some ''user_ann''\<rparr>"

definition sample_legacy_queue :: "queue_tables db" where
  "sample_legacy_queue = snd (insert_item (\<lambda>_. []) ''acme''
     (email_item (sample_mail ''m1'') [] ''Hi'' [] [''follow_up_task''] False [] 1000) sample_queue_start)"

lemma suggestion_ignores_legacy_item:
  "existing_for_message sample_legacy_queue ''acme'' (sample_mail ''gmail:m1'') \<noteq> None"
  "map (snd \<circ> fst) (items_of (snd (emit_ai_suggested_item (\<lambda>_. []) ''acme'' (sample_mail ''gmail:m1'') [] [''email_draft_reply'']
      ''asks for an answer'' 2000 sample_legacy_queue))) = [''wi_email_m1'', ''wi_email_gmail:m1'']"
  by code_simp+

end
