(* ===== verification/Triage_Catalog.thy ===== *)
theory Triage_Catalog
  imports Mail_Address
begin

text \<open>
  The contracts of the triage rules (\<open>bos-contracts/src/email_triage.rs\<close>) with their validation, the closed catalog of conditions
  an operator can pick from (\<open>slices/email_triage/catalog.rs\<close>), and the upgrade of legacy conditions (\<open>legacy.rs\<close>).
  The descriptions of the catalog and the colours of categories' badges carry no behaviour; descriptions are left out.
\<close>

section \<open>Conditions\<close>

datatype condition_id =
  MessageFrom | MessageTo | MessageFromEmail | MessageFromDomain | MessageFromDomainIsBusiness | MessageSubject
| MessageBody | MessageLabel | MessageHeader | SourceAccountUserId | SourceProvider | CrmSenderContactExists
| CrmSenderCompanyExists | CrmSenderDealExists | CrmSenderDealStage | CrmSenderDealPipeline
| AccountingSenderCustomerExists | AccountingSenderHasOpenInvoice | AccountingSenderHasOverdueInvoice
| WorkflowThreadHasOpenItem | QuickKnownCustomer | QuickNewSalesLead | QuickBillingFollowup | QuickExistingWorkThread

datatype condition_operator =
  OpContains | OpEquals | OpStartsWith | OpRegex | OpExists | OpIsTrue | OpIsFalse | OpIn
| OpGreaterThan | OpLessThan | OpAtLeast | OpAtMost

datatype condition_value =
  ValueText string | ValueBoolean bool | ValueStringList "string list" | ValueNumber int | ValueMoneyCents int
| ValueDate string | ValueHeader string string | ValueEmpty

datatype match_mode = MatchAll | MatchAny

record condition_v2 =
  cv_condition_id :: condition_id
  cv_op :: condition_operator
  cv_value :: condition_value

datatype triage_field =
  FieldLabel | FieldFrom | FieldTo | FieldSubject | FieldBody | FieldHeader | FieldSenderInCrmContacts
| FieldSenderDomainInCrmCompanies

datatype triage_operator = LegacyContains | LegacyEquals | LegacyStartsWith | LegacyRegex | LegacyExists

record legacy_condition =
  lc_field :: triage_field
  lc_op :: triage_operator
  lc_value :: string
  lc_header_name :: "string option"

record triage_rule =
  tr_rule_id :: string
  tr_conditions :: "legacy_condition list"
  tr_conditions_v2 :: "condition_v2 list"
  tr_match_mode :: match_mode
  tr_priority :: int
  tr_enabled :: bool
  tr_pinned_category :: string

section \<open>Validation\<close>

datatype rule_validation_error =
  SchemaVersion | BlankRuleId | EmptyConditions | ConditionValueRequired | HeaderNameRequired
| HeaderNameNotAllowed | InvalidCategoryId

fun rule_error_code :: "rule_validation_error \<Rightarrow> string" where
  "rule_error_code SchemaVersion = ''email_triage_rule_set_schema_version_invalid''"
| "rule_error_code BlankRuleId = ''email_triage_rule_id_required''"
| "rule_error_code EmptyConditions = ''email_triage_rule_conditions_required''"
| "rule_error_code ConditionValueRequired = ''email_triage_condition_value_required''"
| "rule_error_code HeaderNameRequired = ''email_triage_header_name_required''"
| "rule_error_code HeaderNameNotAllowed = ''email_triage_header_name_not_allowed''"
| "rule_error_code InvalidCategoryId = ''email_triage_category_id_invalid''"

fun requires_value :: "condition_operator \<Rightarrow> bool" where
  "requires_value OpExists = False"
| "requires_value OpIsTrue = False"
| "requires_value OpIsFalse = False"
| "requires_value _ = True"

fun value_is_empty :: "condition_value \<Rightarrow> bool" where
  "value_is_empty (ValueText v) = (trim v = [])"
| "value_is_empty (ValueDate v) = (trim v = [])"
| "value_is_empty (ValueStringList vs) = list_all (\<lambda>v. trim v = []) vs"
| "value_is_empty (ValueHeader name v) = (trim name = [] \<or> trim v = [])"
| "value_is_empty (ValueBoolean _) = False"
| "value_is_empty (ValueNumber _) = False"
| "value_is_empty (ValueMoneyCents _) = False"
| "value_is_empty ValueEmpty = True"

definition is_header_value :: "condition_value \<Rightarrow> bool" where
  "is_header_value v = (case v of ValueHeader _ _ \<Rightarrow> True | _ \<Rightarrow> False)"

definition validate_condition_v2 :: "condition_v2 \<Rightarrow> rule_validation_error + unit" where
  "validate_condition_v2 c =
     (if requires_value (cv_op c) \<and> value_is_empty (cv_value c) then Inl ConditionValueRequired
      else if cv_condition_id c = MessageHeader \<and> \<not> is_header_value (cv_value c) then Inl HeaderNameRequired
      else Inr ())"

definition validate_legacy_condition :: "legacy_condition \<Rightarrow> rule_validation_error + unit" where
  "validate_legacy_condition c =
     (if lc_op c \<noteq> LegacyExists \<and> trim (lc_value c) = [] then Inl ConditionValueRequired
      else if lc_field c = FieldHeader
      then (if non_blank (lc_header_name c) = None then Inl HeaderNameRequired else Inr ())
      else (if non_blank (lc_header_name c) \<noteq> None then Inl HeaderNameNotAllowed else Inr ()))"

text \<open>\<open>for x in xs { f(x)?; }\<close>\<close>

fun for_each :: "('a \<Rightarrow> 'e + unit) \<Rightarrow> 'a list \<Rightarrow> 'e + unit" where
  "for_each f [] = Inr ()"
| "for_each f (x # xs) = res_bind (f x) (\<lambda>_. for_each f xs)"

definition is_category_char :: "char \<Rightarrow> bool" where
  "is_category_char c \<longleftrightarrow>
     (97 \<le> (of_char c :: nat) \<and> (of_char c :: nat) \<le> 122) \<or> is_digit c \<or> c = CHR ''_''"

definition validate_category_id :: "string \<Rightarrow> bool" where
  "validate_category_id raw \<longleftrightarrow> raw \<noteq> [] \<and> length raw \<le> 64 \<and> list_all is_category_char raw"

definition validate_rule :: "triage_rule \<Rightarrow> rule_validation_error + unit" where
  "validate_rule r =
     (if trim (tr_rule_id r) = [] then Inl BlankRuleId
      else if tr_conditions r = [] \<and> tr_conditions_v2 r = [] then Inl EmptyConditions
      else res_bind (for_each validate_legacy_condition (tr_conditions r)) (\<lambda>_.
           res_bind (for_each validate_condition_v2 (tr_conditions_v2 r)) (\<lambda>_.
             if validate_category_id (tr_pinned_category r) then Inr () else Inl InvalidCategoryId)))"

record triage_rule_set =
  rs_schema_version :: u32
  rs_rules :: "triage_rule list"
  rs_fallback_category :: string

definition validate_rule_set :: "triage_rule_set \<Rightarrow> rule_validation_error + unit" where
  "validate_rule_set s =
     (if rs_schema_version s \<noteq> 1 then Inl SchemaVersion else for_each validate_rule (rs_rules s))"

section \<open>The catalog\<close>

datatype condition_value_kind =
  KindText | KindBool | KindStringList | KindNumber | KindMoneyCents | KindDate | KindHeader | KindEmpty

datatype condition_group_kind = GroupQuick | GroupMessage | GroupSource | GroupCrm | GroupAccounting | GroupWorkflow

datatype provider_dependency = DependsOnCrm

record alias_condition_item =
  al_condition_id :: condition_id
  al_op :: condition_operator
  al_value :: condition_value
  al_label :: string

record alias_expansion =
  ax_match_mode :: match_mode
  ax_conditions :: "alias_condition_item list"

record catalog_item =
  ci_condition_id :: condition_id
  ci_label :: string
  ci_group :: condition_group_kind
  ci_value_kind :: condition_value_kind
  ci_supported_ops :: "condition_operator list"
  ci_fact_dependencies :: "condition_id list"
  ci_provider_dependency :: "provider_dependency option"
  ci_expansion :: "alias_expansion option"

record catalog_group =
  cg_group :: condition_group_kind
  cg_label :: string
  cg_items :: "catalog_item list"

definition text_ops :: "condition_operator list" where
  "text_ops = [OpContains, OpEquals, OpStartsWith, OpRegex, OpExists]"

definition catalog_text :: "condition_id \<Rightarrow> string \<Rightarrow> condition_group_kind \<Rightarrow> catalog_item" where
  "catalog_text cid label g =
     \<lparr>ci_condition_id = cid, ci_label = label, ci_group = g, ci_value_kind = KindText, ci_supported_ops = text_ops,
      ci_fact_dependencies = [], ci_provider_dependency = None, ci_expansion = None\<rparr>"

definition catalog_bool_fact ::
    "condition_id \<Rightarrow> string \<Rightarrow> condition_group_kind \<Rightarrow> provider_dependency option \<Rightarrow> catalog_item" where
  "catalog_bool_fact cid label g dep =
     \<lparr>ci_condition_id = cid, ci_label = label, ci_group = g, ci_value_kind = KindBool,
      ci_supported_ops = [OpIsTrue, OpIsFalse, OpExists], ci_fact_dependencies = [],
      ci_provider_dependency = dep, ci_expansion = None\<rparr>"

definition catalog_alias ::
    "condition_id \<Rightarrow> string \<Rightarrow> match_mode \<Rightarrow> alias_condition_item list \<Rightarrow> catalog_item" where
  "catalog_alias cid label mode conditions =
     \<lparr>ci_condition_id = cid, ci_label = label, ci_group = GroupQuick, ci_value_kind = KindEmpty,
      ci_supported_ops = [OpExists], ci_fact_dependencies = map al_condition_id conditions,
      ci_provider_dependency = None,
      ci_expansion = Some \<lparr>ax_match_mode = mode, ax_conditions = conditions\<rparr>\<rparr>"

definition alias_condition ::
    "condition_id \<Rightarrow> condition_operator \<Rightarrow> condition_value \<Rightarrow> string \<Rightarrow> alias_condition_item" where
  "alias_condition cid op v label =
     \<lparr>al_condition_id = cid, al_op = op, al_value = v, al_label = label\<rparr>"

definition alias_true :: "condition_id \<Rightarrow> string \<Rightarrow> alias_condition_item" where
  "alias_true cid label = alias_condition cid OpIsTrue ValueEmpty label"

definition quick_group :: catalog_group where
  "quick_group =
     \<lparr>cg_group = GroupQuick, cg_label = ''Quick picks'', cg_items =
        [catalog_alias QuickKnownCustomer ''Known customer'' MatchAny
           [alias_true CrmSenderContactExists ''Sender is a saved contact'',
            alias_true CrmSenderCompanyExists ''Sender's company is a known account'',
            alias_true AccountingSenderCustomerExists ''Sender is an accounting customer''],
         catalog_alias QuickNewSalesLead ''New sales lead'' MatchAll
           [alias_true MessageFromDomainIsBusiness ''Sender uses a business email domain'',
            alias_condition CrmSenderContactExists OpIsFalse ValueEmpty ''Sender is not already a saved contact'',
            alias_condition CrmSenderCompanyExists OpIsFalse ValueEmpty ''Sender's company is not already known'',
            alias_condition AccountingSenderCustomerExists OpIsFalse ValueEmpty
              ''Sender is not already an accounting customer'',
            alias_condition MessageBody OpRegex (ValueText ''(?i)(quote|estimate|project|pricing|proposal)'')
              ''Message mentions buying or project interest''],
         catalog_alias QuickBillingFollowup ''Billing follow-up'' MatchAll
           [alias_true AccountingSenderCustomerExists ''Sender is an accounting customer'',
            alias_true AccountingSenderHasOpenInvoice ''Sender has an open invoice'',
            alias_condition MessageBody OpRegex (ValueText ''(?i)(invoice|payment|balance|past due|overdue)'')
              ''Message mentions invoice or payment''],
         catalog_alias QuickExistingWorkThread ''Existing work thread'' MatchAll
           [alias_true WorkflowThreadHasOpenItem ''This email already has open work'']]\<rparr>"

definition message_group :: catalog_group where
  "message_group =
     \<lparr>cg_group = GroupMessage, cg_label = ''Message'', cg_items =
        [catalog_text MessageFrom ''From line'' GroupMessage,
         catalog_text MessageTo ''To line'' GroupMessage,
         catalog_text MessageFromEmail ''Sender email'' GroupMessage,
         catalog_text MessageFromDomain ''Sender domain'' GroupMessage,
         catalog_bool_fact MessageFromDomainIsBusiness ''Sender uses a business email domain'' GroupMessage None,
         catalog_text MessageSubject ''Subject'' GroupMessage,
         catalog_text MessageBody ''Message body'' GroupMessage,
         \<lparr>ci_condition_id = MessageLabel, ci_label = ''Mailbox label'', ci_group = GroupMessage,
          ci_value_kind = KindText, ci_supported_ops = text_ops, ci_fact_dependencies = [],
          ci_provider_dependency = None, ci_expansion = None\<rparr>,
         \<lparr>ci_condition_id = MessageHeader, ci_label = ''Message header'', ci_group = GroupMessage,
          ci_value_kind = KindHeader, ci_supported_ops = text_ops, ci_fact_dependencies = [],
          ci_provider_dependency = None, ci_expansion = None\<rparr>]\<rparr>"

definition source_group :: catalog_group where
  "source_group =
     \<lparr>cg_group = GroupSource, cg_label = ''Source'', cg_items =
        [catalog_text SourceAccountUserId ''Connected mailbox user'' GroupSource,
         \<lparr>ci_condition_id = SourceProvider, ci_label = ''Mail provider'', ci_group = GroupSource,
          ci_value_kind = KindText, ci_supported_ops = [OpEquals, OpIn], ci_fact_dependencies = [],
          ci_provider_dependency = None, ci_expansion = None\<rparr>]\<rparr>"

definition deal_text :: "condition_id \<Rightarrow> string \<Rightarrow> catalog_item" where
  "deal_text cid label =
     \<lparr>ci_condition_id = cid, ci_label = label, ci_group = GroupCrm, ci_value_kind = KindStringList,
      ci_supported_ops = [OpEquals, OpIn, OpContains, OpExists], ci_fact_dependencies = [CrmSenderDealExists],
      ci_provider_dependency = Some DependsOnCrm, ci_expansion = None\<rparr>"

definition crm_group :: catalog_group where
  "crm_group =
     \<lparr>cg_group = GroupCrm, cg_label = ''CRM'', cg_items =
        [catalog_bool_fact CrmSenderContactExists ''Sender is a saved contact'' GroupCrm (Some DependsOnCrm),
         catalog_bool_fact CrmSenderCompanyExists ''Sender's company is a known account'' GroupCrm (Some DependsOnCrm),
         catalog_bool_fact CrmSenderDealExists ''Sender has an associated deal'' GroupCrm (Some DependsOnCrm),
         deal_text CrmSenderDealStage ''Sender deal stage'',
         deal_text CrmSenderDealPipeline ''Sender deal pipeline'']\<rparr>"

definition accounting_group :: catalog_group where
  "accounting_group =
     \<lparr>cg_group = GroupAccounting, cg_label = ''Accounting'', cg_items =
        [catalog_bool_fact AccountingSenderCustomerExists ''Sender is an accounting customer'' GroupAccounting None,
         catalog_bool_fact AccountingSenderHasOpenInvoice ''Sender has an open invoice'' GroupAccounting None,
         catalog_bool_fact AccountingSenderHasOverdueInvoice ''Sender has an overdue invoice'' GroupAccounting None]\<rparr>"

definition workflow_group :: catalog_group where
  "workflow_group =
     \<lparr>cg_group = GroupWorkflow, cg_label = ''Workflow'', cg_items =
        [catalog_bool_fact WorkflowThreadHasOpenItem ''This email already has open work'' GroupWorkflow None]\<rparr>"

definition condition_catalog :: "catalog_group list" where
  "condition_catalog = [quick_group, message_group, source_group, crm_group, accounting_group, workflow_group]"

definition alias_condition_to_v2 :: "alias_condition_item \<Rightarrow> condition_v2" where
  "alias_condition_to_v2 c = \<lparr>cv_condition_id = al_condition_id c, cv_op = al_op c, cv_value = al_value c\<rparr>"

definition alias_conditions :: "condition_id \<Rightarrow> match_mode \<times> condition_v2 list" where
  "alias_conditions cid =
     (case Option.bind (find (\<lambda>item. ci_condition_id item = cid) (concat (map cg_items condition_catalog))) ci_expansion of
        Some expansion \<Rightarrow> (ax_match_mode expansion, map alias_condition_to_v2 (ax_conditions expansion))
      | None \<Rightarrow> (MatchAll, []))"

section \<open>Legacy conditions\<close>

fun upgrade_field :: "triage_field \<Rightarrow> condition_id" where
  "upgrade_field FieldLabel = MessageLabel"
| "upgrade_field FieldFrom = MessageFrom"
| "upgrade_field FieldTo = MessageTo"
| "upgrade_field FieldSubject = MessageSubject"
| "upgrade_field FieldBody = MessageBody"
| "upgrade_field FieldHeader = MessageHeader"
| "upgrade_field FieldSenderInCrmContacts = CrmSenderContactExists"
| "upgrade_field FieldSenderDomainInCrmCompanies = CrmSenderCompanyExists"

definition is_crm_field :: "triage_field \<Rightarrow> bool" where
  "is_crm_field f \<longleftrightarrow> f = FieldSenderInCrmContacts \<or> f = FieldSenderDomainInCrmCompanies"

fun upgrade_plain_op :: "triage_operator \<Rightarrow> condition_operator" where
  "upgrade_plain_op LegacyContains = OpContains"
| "upgrade_plain_op LegacyEquals = OpEquals"
| "upgrade_plain_op LegacyStartsWith = OpStartsWith"
| "upgrade_plain_op LegacyRegex = OpRegex"
| "upgrade_plain_op LegacyExists = OpExists"

definition upgrade_op :: "triage_field \<Rightarrow> triage_operator \<Rightarrow> condition_operator" where
  "upgrade_op f op = (if is_crm_field f \<and> op = LegacyExists then OpIsTrue else upgrade_plain_op op)"

definition upgrade_value :: "legacy_condition \<Rightarrow> condition_value" where
  "upgrade_value c =
     (if lc_field c = FieldHeader then ValueHeader (unwrap_text (lc_header_name c) []) (lc_value c)
      else if is_crm_field (lc_field c)
      then (if lc_op c = LegacyEquals then ValueBoolean (eq_ignore_ascii_case (trim (lc_value c)) ''true'') else ValueEmpty)
      else ValueText (lc_value c))"

definition upgrade_condition :: "legacy_condition \<Rightarrow> condition_v2" where
  "upgrade_condition c =
     \<lparr>cv_condition_id = upgrade_field (lc_field c), cv_op = upgrade_op (lc_field c) (lc_op c), cv_value = upgrade_value c\<rparr>"

definition effective_conditions :: "triage_rule \<Rightarrow> condition_v2 list" where
  "effective_conditions r =
     (if tr_conditions_v2 r \<noteq> [] then tr_conditions_v2 r else map upgrade_condition (tr_conditions r))"

section \<open>Lemmas\<close>

definition is_quick :: "condition_id \<Rightarrow> bool" where
  "is_quick cid \<longleftrightarrow> cid \<in> {QuickKnownCustomer, QuickNewSalesLead, QuickBillingFollowup, QuickExistingWorkThread}"

lemmas catalog_defs = condition_catalog_def quick_group_def message_group_def source_group_def crm_group_def
  accounting_group_def workflow_group_def catalog_text_def catalog_bool_fact_def catalog_alias_def deal_text_def
  alias_true_def alias_condition_def

lemma alias_known_customer:
  "alias_conditions QuickKnownCustomer =
     (MatchAny, [\<lparr>cv_condition_id = CrmSenderContactExists, cv_op = OpIsTrue, cv_value = ValueEmpty\<rparr>,
                 \<lparr>cv_condition_id = CrmSenderCompanyExists, cv_op = OpIsTrue, cv_value = ValueEmpty\<rparr>,
                 \<lparr>cv_condition_id = AccountingSenderCustomerExists, cv_op = OpIsTrue, cv_value = ValueEmpty\<rparr>])"
  by (simp add: alias_conditions_def catalog_defs alias_condition_to_v2_def)

lemma alias_sales_lead:
  "alias_conditions QuickNewSalesLead =
     (MatchAll, [\<lparr>cv_condition_id = MessageFromDomainIsBusiness, cv_op = OpIsTrue, cv_value = ValueEmpty\<rparr>,
                 \<lparr>cv_condition_id = CrmSenderContactExists, cv_op = OpIsFalse, cv_value = ValueEmpty\<rparr>,
                 \<lparr>cv_condition_id = CrmSenderCompanyExists, cv_op = OpIsFalse, cv_value = ValueEmpty\<rparr>,
                 \<lparr>cv_condition_id = AccountingSenderCustomerExists, cv_op = OpIsFalse, cv_value = ValueEmpty\<rparr>,
                 \<lparr>cv_condition_id = MessageBody, cv_op = OpRegex,
                  cv_value = ValueText ''(?i)(quote|estimate|project|pricing|proposal)''\<rparr>])"
  by (simp add: alias_conditions_def catalog_defs alias_condition_to_v2_def)

lemma alias_billing:
  "alias_conditions QuickBillingFollowup =
     (MatchAll, [\<lparr>cv_condition_id = AccountingSenderCustomerExists, cv_op = OpIsTrue, cv_value = ValueEmpty\<rparr>,
                 \<lparr>cv_condition_id = AccountingSenderHasOpenInvoice, cv_op = OpIsTrue, cv_value = ValueEmpty\<rparr>,
                 \<lparr>cv_condition_id = MessageBody, cv_op = OpRegex,
                  cv_value = ValueText ''(?i)(invoice|payment|balance|past due|overdue)''\<rparr>])"
  by (simp add: alias_conditions_def catalog_defs alias_condition_to_v2_def)

lemma alias_work_thread:
  "alias_conditions QuickExistingWorkThread =
     (MatchAll, [\<lparr>cv_condition_id = WorkflowThreadHasOpenItem, cv_op = OpIsTrue, cv_value = ValueEmpty\<rparr>])"
  by (simp add: alias_conditions_def catalog_defs alias_condition_to_v2_def)

lemmas alias_simps = alias_known_customer alias_sales_lead alias_billing alias_work_thread

lemma alias_flat:
  assumes "is_quick cid" and "c \<in> set (snd (alias_conditions cid))"
  shows "\<not> is_quick (cv_condition_id c)"
  using assms by (auto simp: is_quick_def alias_simps)

lemma alias_short: "is_quick cid \<Longrightarrow> length (snd (alias_conditions cid)) \<le> 5"
  by (auto simp: is_quick_def alias_simps)

lemma for_each_ok: "for_each f xs = Inr () \<longleftrightarrow> (\<forall>x\<in>set xs. f x = Inr ())"
  by (induction xs) (auto simp: res_bind_def split: sum.splits)

lemma validate_rule_ok:
  "validate_rule r = Inr () \<longleftrightarrow>
     trim (tr_rule_id r) \<noteq> [] \<and> (tr_conditions r \<noteq> [] \<or> tr_conditions_v2 r \<noteq> [])
     \<and> (\<forall>c\<in>set (tr_conditions r). validate_legacy_condition c = Inr ())
     \<and> (\<forall>c\<in>set (tr_conditions_v2 r). validate_condition_v2 c = Inr ())
     \<and> validate_category_id (tr_pinned_category r)"
proof -
  have "for_each validate_legacy_condition xs = Inr () \<or> (\<exists>e. for_each validate_legacy_condition xs = Inl e)" for xs
    by (metis old.unit.exhaust sum.exhaust)
  moreover have "for_each validate_condition_v2 xs = Inr () \<or> (\<exists>e. for_each validate_condition_v2 xs = Inl e)" for xs
    by (metis old.unit.exhaust sum.exhaust)
  ultimately show ?thesis
    unfolding validate_rule_def for_each_ok [symmetric]
    by (auto simp: res_bind_def split: sum.splits)
qed

text \<open>The legacy conditions that validation accepts and whose upgrade it refuses.\<close>

definition upgrade_refused :: "legacy_condition \<Rightarrow> bool" where
  "upgrade_refused c \<longleftrightarrow> is_crm_field (lc_field c) \<and> lc_op c \<in> {LegacyContains, LegacyStartsWith, LegacyRegex}"

lemma upgraded_condition_valid:
  assumes "validate_legacy_condition c = Inr ()"
  shows "validate_condition_v2 (upgrade_condition c) = Inr () \<longleftrightarrow> \<not> upgrade_refused c"
  using assms
  by (cases "lc_field c"; cases "lc_op c"; cases "lc_header_name c")
     (auto simp: validate_legacy_condition_def validate_condition_v2_def upgrade_condition_def upgrade_op_def
        upgrade_value_def is_crm_field_def upgrade_refused_def is_header_value_def non_blank_def non_empty_def
        unwrap_text_def split: option.splits if_splits)

end
