(* ===== verification/Triage_Facts.thy ===== *)
theory Triage_Facts
  imports Triage_Catalog
begin

text \<open>
  The facts a triage rule can ask about a message (\<open>slices/email_triage/facts.rs\<close> and \<open>public_mailbox_domain\<close> of
  \<open>subjects.rs\<close>). A fact is true, false or not known yet. The bag reads the message, what was looked up in the CRM
  beforehand, and, when it has a connection, the accounting snapshots and the work items; each fact it evaluates
  leaves a trace. The connection answers the queries on the work items (defined over the database in \<open>Triage_Store\<close>) and says
  whether a due date lies before today (SQLite's \<open>date\<close>). A statement that SQLite fails to run is not modelled.
\<close>

section \<open>Three-valued facts\<close>

datatype tri_value = TriTrue | TriFalse | TriUnknown

datatype contract_tri_value = ContractTrue | ContractFalse | ContractUnknown

definition is_unknown :: "tri_value \<Rightarrow> bool" where
  "is_unknown v \<longleftrightarrow> v = TriUnknown"

fun to_contract :: "tri_value \<Rightarrow> contract_tri_value" where
  "to_contract TriTrue = ContractTrue"
| "to_contract TriFalse = ContractFalse"
| "to_contract TriUnknown = ContractUnknown"

definition tri_of :: "bool \<Rightarrow> tri_value" where
  "tri_of b = (if b then TriTrue else TriFalse)"

datatype fact_source =
  FactMessage | FactSource | FactAccountingSnapshot | FactWorkflow | FactCrmCache | FactCrmLive | FactNotChecked

record fact_trace =
  ft_condition_id :: condition_id
  ft_label :: string
  ft_value :: contract_tri_value
  ft_source :: fact_source
  ft_detail :: string

record message_view =
  mv_message_id :: "string option"
  mv_source_user_id :: "string option"
  mv_subject :: "string option"
  mv_from :: "string option"
  mv_to :: "string option"
  mv_body :: "string option"
  mv_labels :: "string list"
  mv_headers :: "(string \<times> string) list"

section \<open>The sender\<close>

record sender_subjects =
  ss_email :: "string option"
  ss_domain :: "string option"
  ss_unresolved :: bool

definition first_normalized_email :: "string option \<Rightarrow> string option" where
  "first_normalized_email raw = (case normalized_email_addresses raw of [] \<Rightarrow> None | email # _ \<Rightarrow> Some email)"

definition email_domain :: "string \<Rightarrow> string option" where
  "email_domain email =
     Option.bind (split_once (CHR ''@'') email)
       (\<lambda>(_, rest). non_empty (to_ascii_lowercase (trim_end_matches ''.'' (trim rest))))"

definition resolve_subjects :: "string option \<Rightarrow> sender_subjects" where
  "resolve_subjects from =
     (case first_normalized_email from of
        None \<Rightarrow> \<lparr>ss_email = None, ss_domain = None, ss_unresolved = True\<rparr>
      | Some email \<Rightarrow> \<lparr>ss_email = Some email, ss_domain = email_domain email, ss_unresolved = False\<rparr>)"

definition public_mailbox_domain :: "string \<Rightarrow> bool" where
  "public_mailbox_domain domain \<longleftrightarrow>
     domain \<in> set [''gmail.com'', ''googlemail.com'', ''outlook.com'', ''hotmail.com'', ''live.com'', ''msn.com'', ''yahoo.com'',
               ''icloud.com'', ''me.com'', ''mac.com'', ''aol.com'', ''proton.me'', ''protonmail.com'']"

section \<open>What was looked up in the CRM\<close>

record crm_fact_value =
  cf_value :: tri_value
  cf_source :: fact_source
  cf_detail :: string

record crm_text_fact_value =
  ctf_values :: "string list"
  ctf_source :: fact_source
  ctf_detail :: string
  ctf_unknown :: bool

record crm_fact_overrides =
  co_sender_contact_exists :: "crm_fact_value option"
  co_sender_company_exists :: "crm_fact_value option"
  co_sender_deal_exists :: "crm_fact_value option"
  co_sender_deal_stages :: "crm_text_fact_value option"
  co_sender_deal_pipelines :: "crm_text_fact_value option"

definition no_crm_facts :: crm_fact_overrides where
  "no_crm_facts = \<lparr>co_sender_contact_exists = None, co_sender_company_exists = None, co_sender_deal_exists = None,
     co_sender_deal_stages = None, co_sender_deal_pipelines = None\<rparr>"

definition crm_fact_live :: "tri_value \<Rightarrow> crm_fact_value" where
  "crm_fact_live v = \<lparr>cf_value = v, cf_source = FactCrmLive, cf_detail = ''checked CRM just now''\<rparr>"

definition crm_fact_cache :: "tri_value \<Rightarrow> string \<Rightarrow> crm_fact_value" where
  "crm_fact_cache v detail = \<lparr>cf_value = v, cf_source = FactCrmCache, cf_detail = detail\<rparr>"

definition crm_fact_unknown :: "string \<Rightarrow> crm_fact_value" where
  "crm_fact_unknown detail = \<lparr>cf_value = TriUnknown, cf_source = FactNotChecked, cf_detail = detail\<rparr>"

definition crm_text_cache :: "string list \<Rightarrow> string \<Rightarrow> crm_text_fact_value" where
  "crm_text_cache values detail = \<lparr>ctf_values = values, ctf_source = FactCrmCache, ctf_detail = detail, ctf_unknown = False\<rparr>"

definition crm_text_unknown :: "string \<Rightarrow> crm_text_fact_value" where
  "crm_text_unknown detail = \<lparr>ctf_values = [], ctf_source = FactNotChecked, ctf_detail = detail, ctf_unknown = True\<rparr>"

definition crm_text_tri_value :: "crm_text_fact_value \<Rightarrow> tri_value" where
  "crm_text_tri_value f =
     (if ctf_unknown f then TriUnknown else if ctf_values f = [] then TriFalse else TriTrue)"

section \<open>The connection\<close>

record customer_snapshot =
  cs_client_id :: string
  cs_provider_customer_id :: string
  cs_email :: "string option"
  cs_active :: bool

record invoice_snapshot =
  iv_client_id :: string
  iv_customer_id :: string
  iv_balance_cents :: int
  iv_voided :: bool
  iv_due_date :: "string option"

record fact_connection =
  fc_customers :: "customer_snapshot list"
  fc_invoices :: "invoice_snapshot list"
  fc_open_item :: "string \<Rightarrow> string \<Rightarrow> bool"
  fc_before_today :: "string \<Rightarrow> bool"

definition customer_of_email :: "string \<Rightarrow> string \<Rightarrow> customer_snapshot \<Rightarrow> bool" where
  "customer_of_email client email c \<longleftrightarrow>
     cs_client_id c = client \<and> map_option to_ascii_lowercase (cs_email c) = Some (to_ascii_lowercase email) \<and> cs_active c"

definition customer_row_found :: "fact_connection \<Rightarrow> string \<Rightarrow> string \<Rightarrow> bool" where
  "customer_row_found conn client email \<longleftrightarrow> list_ex (customer_of_email client email) (fc_customers conn)"

definition invoice_is_due :: "fact_connection \<Rightarrow> bool \<Rightarrow> invoice_snapshot \<Rightarrow> bool" where
  "invoice_is_due conn overdue i \<longleftrightarrow>
     iv_balance_cents i > 0 \<and> \<not> iv_voided i
     \<and> (overdue \<longrightarrow> (case iv_due_date i of None \<Rightarrow> False | Some d \<Rightarrow> fc_before_today conn d))"

definition invoice_row_found :: "fact_connection \<Rightarrow> string \<Rightarrow> string \<Rightarrow> bool \<Rightarrow> bool" where
  "invoice_row_found conn client email overdue \<longleftrightarrow>
     list_ex (\<lambda>c. customer_of_email client email c
         \<and> list_ex (\<lambda>i. iv_client_id i = cs_client_id c \<and> iv_customer_id i = cs_provider_customer_id c
                        \<and> invoice_is_due conn overdue i) (fc_invoices conn)) (fc_customers conn)"

section \<open>The bag\<close>

record fact_bag =
  fb_conn :: "fact_connection option"
  fb_client_id :: string
  fb_message :: message_view
  fb_message_id :: "string option"
  fb_source_user_id :: "string option"
  fb_provider :: string
  fb_subjects :: sender_subjects
  fb_crm :: crm_fact_overrides
  fb_traces :: "fact_trace list"

definition new_bag ::
    "fact_connection option \<Rightarrow> string \<Rightarrow> message_view \<Rightarrow> string option \<Rightarrow> string option \<Rightarrow> crm_fact_overrides \<Rightarrow> fact_bag" where
  "new_bag conn client message message_id source_user_id crm =
     \<lparr>fb_conn = conn, fb_client_id = client, fb_message = message, fb_message_id = message_id,
      fb_source_user_id = source_user_id, fb_provider = ''gmail'', fb_subjects = resolve_subjects (mv_from message),
      fb_crm = crm, fb_traces = []\<rparr>"

type_synonym fact_answer = "tri_value \<times> fact_source \<times> string"

definition is_text :: "string option \<Rightarrow> bool" where
  "is_text v = (case v of None \<Rightarrow> False | Some s \<Rightarrow> trim s \<noteq> [])"

definition exists_text :: "string option \<Rightarrow> fact_source \<Rightarrow> fact_answer" where
  "exists_text v source = (tri_of (is_text v), source, ''read from message'')"

definition business_domain :: "fact_bag \<Rightarrow> fact_answer" where
  "business_domain bag =
     (case ss_domain (fb_subjects bag) of
        None \<Rightarrow> (TriUnknown, FactMessage, ''couldn't check yet (sender domain is unclear)'')
      | Some domain \<Rightarrow>
          if public_mailbox_domain domain then (TriFalse, FactMessage, ''sender uses a consumer mailbox domain'')
          else (TriTrue, FactMessage, ''sender uses a business email domain''))"

definition crm_fact_answer :: "crm_fact_value option \<Rightarrow> fact_answer" where
  "crm_fact_answer f =
     (case f of None \<Rightarrow> (TriUnknown, FactNotChecked, ''couldn't check yet'')
      | Some x \<Rightarrow> (cf_value x, cf_source x, cf_detail x))"

fun crm_text_of :: "crm_fact_overrides \<Rightarrow> condition_id \<Rightarrow> crm_text_fact_value option" where
  "crm_text_of crm CrmSenderDealStage = co_sender_deal_stages crm"
| "crm_text_of crm CrmSenderDealPipeline = co_sender_deal_pipelines crm"
| "crm_text_of crm _ = None"

definition crm_text_fact :: "fact_bag \<Rightarrow> condition_id \<Rightarrow> fact_answer" where
  "crm_text_fact bag cid =
     (case crm_text_of (fb_crm bag) cid of
        None \<Rightarrow> (TriUnknown, FactNotChecked, ''couldn't check yet'')
      | Some x \<Rightarrow> (crm_text_tri_value x, ctf_source x, ctf_detail x))"

definition accounting_customer :: "fact_bag \<Rightarrow> fact_answer" where
  "accounting_customer bag =
     (case fb_conn bag of
        None \<Rightarrow> (TriUnknown, FactAccountingSnapshot, ''couldn't check yet (local snapshot unavailable)'')
      | Some conn \<Rightarrow>
          (case ss_email (fb_subjects bag) of
             None \<Rightarrow> (TriUnknown, FactAccountingSnapshot, ''couldn't check yet (sender email is unclear)'')
           | Some email \<Rightarrow>
               if customer_row_found conn (fb_client_id bag) email
               then (TriTrue, FactAccountingSnapshot, ''found in accounting snapshots'')
               else (TriFalse, FactAccountingSnapshot, ''not found in accounting snapshots'')))"

definition accounting_invoice :: "fact_bag \<Rightarrow> bool \<Rightarrow> fact_answer" where
  "accounting_invoice bag overdue =
     (case fb_conn bag of
        None \<Rightarrow> (TriUnknown, FactAccountingSnapshot, ''couldn't check yet (local snapshot unavailable)'')
      | Some conn \<Rightarrow>
          (case ss_email (fb_subjects bag) of
             None \<Rightarrow> (TriUnknown, FactAccountingSnapshot, ''couldn't check yet (sender email is unclear)'')
           | Some email \<Rightarrow>
               if invoice_row_found conn (fb_client_id bag) email overdue
               then (TriTrue, FactAccountingSnapshot,
                     if overdue then ''found overdue invoice in accounting snapshots''
                     else ''found open invoice in accounting snapshots'')
               else (TriFalse, FactAccountingSnapshot, ''not found in accounting snapshots'')))"

definition workflow_open_item :: "fact_bag \<Rightarrow> fact_answer" where
  "workflow_open_item bag =
     (case fb_conn bag of
        None \<Rightarrow> (TriUnknown, FactWorkflow, ''couldn't check yet (work queue unavailable)'')
      | Some conn \<Rightarrow>
          (case fb_message_id bag of
             None \<Rightarrow> (TriUnknown, FactWorkflow, ''couldn't check yet (message id unavailable)'')
           | Some message_id \<Rightarrow>
               if fc_open_item conn (fb_client_id bag) message_id
               then (TriTrue, FactWorkflow, ''open work already exists for this email'')
               else (TriFalse, FactWorkflow, ''no open work exists for this email'')))"

fun fact_label :: "condition_id \<Rightarrow> string" where
  "fact_label MessageFrom = ''From line''"
| "fact_label MessageTo = ''To line''"
| "fact_label MessageFromEmail = ''Sender email''"
| "fact_label MessageFromDomain = ''Sender domain''"
| "fact_label MessageFromDomainIsBusiness = ''Sender uses a business email domain''"
| "fact_label MessageSubject = ''Subject''"
| "fact_label MessageBody = ''Message body''"
| "fact_label MessageLabel = ''Mailbox label''"
| "fact_label MessageHeader = ''Message header''"
| "fact_label SourceAccountUserId = ''Connected mailbox user''"
| "fact_label SourceProvider = ''Mail provider''"
| "fact_label CrmSenderContactExists = ''Sender is a saved contact''"
| "fact_label CrmSenderCompanyExists = ''Sender's company is a known account''"
| "fact_label CrmSenderDealExists = ''Sender has an associated deal''"
| "fact_label CrmSenderDealStage = ''Sender deal stage''"
| "fact_label CrmSenderDealPipeline = ''Sender deal pipeline''"
| "fact_label AccountingSenderCustomerExists = ''Sender is an accounting customer''"
| "fact_label AccountingSenderHasOpenInvoice = ''Sender has an open invoice''"
| "fact_label AccountingSenderHasOverdueInvoice = ''Sender has an overdue invoice''"
| "fact_label WorkflowThreadHasOpenItem = ''This email already has open work''"
| "fact_label QuickKnownCustomer = ''Known customer''"
| "fact_label QuickNewSalesLead = ''New sales lead''"
| "fact_label QuickBillingFollowup = ''Billing follow-up''"
| "fact_label QuickExistingWorkThread = ''Existing work thread''"

fun fact_answer_of :: "fact_bag \<Rightarrow> condition_id \<Rightarrow> fact_answer" where
  "fact_answer_of bag MessageFrom = exists_text (mv_from (fb_message bag)) FactMessage"
| "fact_answer_of bag MessageTo = exists_text (mv_to (fb_message bag)) FactMessage"
| "fact_answer_of bag MessageFromEmail = exists_text (ss_email (fb_subjects bag)) FactMessage"
| "fact_answer_of bag MessageFromDomain = exists_text (ss_domain (fb_subjects bag)) FactMessage"
| "fact_answer_of bag MessageFromDomainIsBusiness = business_domain bag"
| "fact_answer_of bag MessageSubject = exists_text (mv_subject (fb_message bag)) FactMessage"
| "fact_answer_of bag MessageBody = exists_text (mv_body (fb_message bag)) FactMessage"
| "fact_answer_of bag MessageLabel =
     (tri_of (list_ex (\<lambda>label. trim label \<noteq> []) (mv_labels (fb_message bag))), FactMessage, ''message labels'')"
| "fact_answer_of bag MessageHeader =
     (tri_of (list_ex (\<lambda>(name, v). trim name \<noteq> [] \<and> trim v \<noteq> []) (mv_headers (fb_message bag))), FactMessage,
      ''message headers'')"
| "fact_answer_of bag SourceAccountUserId = exists_text (fb_source_user_id bag) FactSource"
| "fact_answer_of bag SourceProvider = exists_text (Some (fb_provider bag)) FactSource"
| "fact_answer_of bag CrmSenderContactExists = crm_fact_answer (co_sender_contact_exists (fb_crm bag))"
| "fact_answer_of bag CrmSenderCompanyExists = crm_fact_answer (co_sender_company_exists (fb_crm bag))"
| "fact_answer_of bag CrmSenderDealExists = crm_fact_answer (co_sender_deal_exists (fb_crm bag))"
| "fact_answer_of bag CrmSenderDealStage = crm_text_fact bag CrmSenderDealStage"
| "fact_answer_of bag CrmSenderDealPipeline = crm_text_fact bag CrmSenderDealPipeline"
| "fact_answer_of bag AccountingSenderCustomerExists = accounting_customer bag"
| "fact_answer_of bag AccountingSenderHasOpenInvoice = accounting_invoice bag False"
| "fact_answer_of bag AccountingSenderHasOverdueInvoice = accounting_invoice bag True"
| "fact_answer_of bag WorkflowThreadHasOpenItem = workflow_open_item bag"
| "fact_answer_of bag QuickKnownCustomer = (TriUnknown, FactNotChecked, ''quick pick expands during rule evaluation'')"
| "fact_answer_of bag QuickNewSalesLead = (TriUnknown, FactNotChecked, ''quick pick expands during rule evaluation'')"
| "fact_answer_of bag QuickBillingFollowup = (TriUnknown, FactNotChecked, ''quick pick expands during rule evaluation'')"
| "fact_answer_of bag QuickExistingWorkThread = (TriUnknown, FactNotChecked, ''quick pick expands during rule evaluation'')"

definition push_trace :: "condition_id \<Rightarrow> tri_value \<Rightarrow> fact_source \<Rightarrow> string \<Rightarrow> fact_bag \<Rightarrow> fact_bag" where
  "push_trace cid v source detail bag =
     bag\<lparr>fb_traces := fb_traces bag @ [\<lparr>ft_condition_id = cid, ft_label = fact_label cid, ft_value = to_contract v,
           ft_source = source, ft_detail = detail\<rparr>]\<rparr>"

definition bag_fact :: "condition_id \<Rightarrow> fact_bag \<Rightarrow> tri_value \<times> fact_bag" where
  "bag_fact cid bag = (case fact_answer_of bag cid of (v, source, detail) \<Rightarrow> (v, push_trace cid v source detail bag))"

definition drain_traces :: "fact_bag \<Rightarrow> fact_trace list \<times> fact_bag" where
  "drain_traces bag = (fb_traces bag, bag\<lparr>fb_traces := []\<rparr>)"

fun text_value :: "fact_bag \<Rightarrow> condition_id \<Rightarrow> string option" where
  "text_value bag MessageFrom = mv_from (fb_message bag)"
| "text_value bag MessageTo = mv_to (fb_message bag)"
| "text_value bag MessageFromEmail = ss_email (fb_subjects bag)"
| "text_value bag MessageFromDomain = ss_domain (fb_subjects bag)"
| "text_value bag MessageFromDomainIsBusiness = None"
| "text_value bag MessageSubject = mv_subject (fb_message bag)"
| "text_value bag MessageBody = mv_body (fb_message bag)"
| "text_value bag SourceAccountUserId = fb_source_user_id bag"
| "text_value bag SourceProvider = Some (fb_provider bag)"
| "text_value bag _ = None"

definition record_crm_text_trace ::
    "condition_id \<Rightarrow> crm_text_fact_value option \<Rightarrow> fact_bag \<Rightarrow> string list option \<times> fact_bag" where
  "record_crm_text_trace cid f bag =
     (case f of
        None \<Rightarrow> (None, bag)
      | Some x \<Rightarrow>
          (if ctf_unknown x then None else Some (ctf_values x),
           push_trace cid (crm_text_tri_value x) (ctf_source x) (ctf_detail x) bag))"

fun text_values :: "condition_id \<Rightarrow> fact_bag \<Rightarrow> string list option \<times> fact_bag" where
  "text_values CrmSenderDealStage bag = record_crm_text_trace CrmSenderDealStage (co_sender_deal_stages (fb_crm bag)) bag"
| "text_values CrmSenderDealPipeline bag =
     record_crm_text_trace CrmSenderDealPipeline (co_sender_deal_pipelines (fb_crm bag)) bag"
| "text_values cid bag = (map_option (\<lambda>v. [v]) (text_value bag cid), bag)"

definition header_value :: "fact_bag \<Rightarrow> string \<Rightarrow> string option" where
  "header_value bag header_name =
     map_option snd (find (\<lambda>(name, _). eq_ignore_ascii_case name (trim header_name)) (mv_headers (fb_message bag)))"

section \<open>Lemmas\<close>

text \<open>The values of the answers.\<close>

lemma answer_values:
  "fst (exists_text v source) = tri_of (is_text v)"
  "fst (business_domain b) = (case ss_domain (fb_subjects b) of None \<Rightarrow> TriUnknown | Some d \<Rightarrow> tri_of (\<not> public_mailbox_domain d))"
  "fst (accounting_customer b) =
     (case fb_conn b of None \<Rightarrow> TriUnknown | Some conn \<Rightarrow>
       (case ss_email (fb_subjects b) of None \<Rightarrow> TriUnknown | Some e \<Rightarrow> tri_of (customer_row_found conn (fb_client_id b) e)))"
  "fst (accounting_invoice b overdue) =
     (case fb_conn b of None \<Rightarrow> TriUnknown | Some conn \<Rightarrow>
       (case ss_email (fb_subjects b) of None \<Rightarrow> TriUnknown | Some e \<Rightarrow> tri_of (invoice_row_found conn (fb_client_id b) e overdue)))"
  "fst (workflow_open_item b) =
     (case fb_conn b of None \<Rightarrow> TriUnknown | Some conn \<Rightarrow>
       (case fb_message_id b of None \<Rightarrow> TriUnknown | Some m \<Rightarrow> tri_of (fc_open_item conn (fb_client_id b) m)))"
  by (simp_all add: exists_text_def business_domain_def accounting_customer_def accounting_invoice_def
      workflow_open_item_def tri_of_def split: option.split)

text \<open>What a bag knows does not depend on its traces.\<close>

definition untraced :: "fact_bag \<Rightarrow> fact_bag" where
  "untraced bag = bag\<lparr>fb_traces := []\<rparr>"

lemma untraced_push [simp]: "untraced (push_trace cid v source detail bag) = untraced bag"
  by (simp add: untraced_def push_trace_def)

lemma untraced_idem [simp]: "untraced (untraced bag) = untraced bag"
  by (simp add: untraced_def)

lemma untraced_sel [simp]:
  "fb_conn (untraced bag) = fb_conn bag" "fb_client_id (untraced bag) = fb_client_id bag"
  "fb_message (untraced bag) = fb_message bag" "fb_message_id (untraced bag) = fb_message_id bag"
  "fb_source_user_id (untraced bag) = fb_source_user_id bag" "fb_provider (untraced bag) = fb_provider bag"
  "fb_subjects (untraced bag) = fb_subjects bag" "fb_crm (untraced bag) = fb_crm bag"
  by (simp_all add: untraced_def)

lemma fact_answer_untraced: "fact_answer_of (untraced bag) cid = fact_answer_of bag cid"
  by (cases cid) (simp_all add: business_domain_def crm_text_fact_def accounting_customer_def accounting_invoice_def
      workflow_open_item_def cong: option.case_cong)

lemma text_value_untraced: "text_value (untraced bag) cid = text_value bag cid"
  by (cases cid) simp_all

lemma header_value_untraced: "header_value (untraced bag) name = header_value bag name"
  by (simp add: header_value_def)

lemma bag_fact_untraced:
  "fst (bag_fact cid (untraced bag)) = fst (bag_fact cid bag)" "untraced (snd (bag_fact cid bag)) = untraced bag"
  by (simp_all add: bag_fact_def fact_answer_untraced split: prod.splits)

lemma text_values_untraced:
  "fst (text_values cid (untraced bag)) = fst (text_values cid bag)" "untraced (snd (text_values cid bag)) = untraced bag"
  by (cases cid; simp add: record_crm_text_trace_def text_value_untraced split: option.splits)+

end
