(* ===== verification/Triage_Rules.thy ===== *)
theory Triage_Rules
  imports Triage_Facts
begin

text \<open>
  The rule engine of the triage (\<open>slices/email_triage/service.rs\<close>): the operators on texts, labels and facts, the evaluation of a
  rule's conditions with its traces, the choice of the rule that files a message, and the dry run that explains
  the choice. The regular expressions are those of the \<open>regex\<close> crate, a parameter: it compiles a pattern, ignoring case, to
  a test, or refuses it.
\<close>

type_synonym regex_engine = "string \<Rightarrow> (string \<Rightarrow> bool) option"

section \<open>Operators\<close>

definition contains_case_insensitive :: "string option \<Rightarrow> string \<Rightarrow> bool" where
  "contains_case_insensitive v needle =
     (if trim needle = [] then False
      else (case v of None \<Rightarrow> False
            | Some s \<Rightarrow> str_contains (to_ascii_lowercase s) (to_ascii_lowercase (trim needle))))"

definition equals_case_insensitive :: "string option \<Rightarrow> string \<Rightarrow> bool" where
  "equals_case_insensitive v expected =
     (if trim expected = [] then False
      else (case v of None \<Rightarrow> False | Some s \<Rightarrow> eq_ignore_ascii_case (trim s) (trim expected)))"

definition starts_with_case_insensitive :: "string option \<Rightarrow> string \<Rightarrow> bool" where
  "starts_with_case_insensitive v prefix =
     (if trim prefix = [] then False
      else (case v of None \<Rightarrow> False
            | Some s \<Rightarrow> strip_prefix (to_ascii_lowercase (trim prefix)) (to_ascii_lowercase s) \<noteq> None))"

definition regex_matches :: "regex_engine \<Rightarrow> string option \<Rightarrow> string \<Rightarrow> bool" where
  "regex_matches rx v pattern =
     (if trim pattern = [] then False
      else (case rx (trim pattern) of
              None \<Rightarrow> False
            | Some is_match \<Rightarrow> (case v of None \<Rightarrow> False | Some s \<Rightarrow> is_match s)))"

definition text_op_matches :: "regex_engine \<Rightarrow> string option \<Rightarrow> condition_operator \<Rightarrow> string \<Rightarrow> tri_value" where
  "text_op_matches rx v op expected =
     tri_of (case op of
        OpExists \<Rightarrow> is_text v
      | OpContains \<Rightarrow> contains_case_insensitive v expected
      | OpEquals \<Rightarrow> equals_case_insensitive v expected
      | OpStartsWith \<Rightarrow> starts_with_case_insensitive v expected
      | OpRegex \<Rightarrow> regex_matches rx v expected
      | _ \<Rightarrow> False)"

fun text_value_from_condition :: "condition_value \<Rightarrow> string" where
  "text_value_from_condition (ValueText v) = v"
| "text_value_from_condition (ValueDate v) = v"
| "text_value_from_condition (ValueHeader _ v) = v"
| "text_value_from_condition _ = []"

fun string_list_values :: "condition_value \<Rightarrow> string list" where
  "string_list_values (ValueStringList vs) = filter (\<lambda>v. v \<noteq> []) (map trim vs)"
| "string_list_values (ValueText v) = filter (\<lambda>v. v \<noteq> []) (map trim (split_on (CHR '','') v))"
| "string_list_values _ = []"

definition text_condition_matches :: "regex_engine \<Rightarrow> string option \<Rightarrow> condition_v2 \<Rightarrow> tri_value" where
  "text_condition_matches rx v c =
     (if cv_op c = OpIn
      then tri_of (case v of None \<Rightarrow> False
                   | Some actual \<Rightarrow>
                       list_ex (equals_case_insensitive (Some actual)) (string_list_values (cv_value c)))
      else text_op_matches rx v (cv_op c) (text_value_from_condition (cv_value c)))"

definition text_values_condition_matches :: "regex_engine \<Rightarrow> string list option \<Rightarrow> condition_v2 \<Rightarrow> tri_value" where
  "text_values_condition_matches rx values c =
     (case values of
        None \<Rightarrow> TriUnknown
      | Some vs \<Rightarrow>
          if cv_op c = OpExists then tri_of (list_ex (\<lambda>v. trim v \<noteq> []) vs)
          else tri_of (list_ex (\<lambda>v. text_condition_matches rx (Some v) c = TriTrue) vs))"

definition label_condition_matches_v2 :: "regex_engine \<Rightarrow> string list \<Rightarrow> condition_v2 \<Rightarrow> tri_value" where
  "label_condition_matches_v2 rx labels c =
     (if cv_op c = OpExists then tri_of (list_ex (\<lambda>label. trim label \<noteq> []) labels)
      else tri_of (list_ex (\<lambda>label.
             text_op_matches rx (Some label) (cv_op c) (text_value_from_condition (cv_value c)) = TriTrue) labels))"

fun tri_not :: "tri_value \<Rightarrow> tri_value" where
  "tri_not TriTrue = TriFalse"
| "tri_not TriFalse = TriTrue"
| "tri_not TriUnknown = TriUnknown"

definition bool_op_matches :: "tri_value \<Rightarrow> condition_v2 \<Rightarrow> tri_value" where
  "bool_op_matches v c =
     (if v = TriUnknown then TriUnknown
      else (case cv_op c of
              OpExists \<Rightarrow> TriTrue
            | OpIsTrue \<Rightarrow> v
            | OpIsFalse \<Rightarrow> tri_not v
            | OpEquals \<Rightarrow> (case cv_value c of ValueBoolean expected \<Rightarrow> tri_of ((v = TriTrue) = expected) | _ \<Rightarrow> TriFalse)
            | _ \<Rightarrow> TriFalse))"

section \<open>Conditions\<close>

definition is_message_text :: "condition_id \<Rightarrow> bool" where
  "is_message_text cid \<longleftrightarrow>
     cid \<in> {MessageFrom, MessageTo, MessageFromEmail, MessageFromDomain, MessageSubject, MessageBody, SourceAccountUserId,
            SourceProvider}"

text \<open>A condition other than a quick pick.\<close>

definition plain_condition_matches :: "regex_engine \<Rightarrow> condition_v2 \<Rightarrow> fact_bag \<Rightarrow> tri_value \<times> fact_bag" where
  "plain_condition_matches rx c bag =
     (let cid = cv_condition_id c in
      if cid = MessageLabel then (label_condition_matches_v2 rx (mv_labels (fb_message bag)) c, bag)
      else if cid = MessageHeader
      then (case cv_value c of
              ValueHeader name v \<Rightarrow> (text_op_matches rx (header_value bag name) (cv_op c) v, bag)
            | _ \<Rightarrow> (TriFalse, bag))
      else if is_message_text cid then (text_condition_matches rx (text_value bag cid) c, bag)
      else if cid = CrmSenderDealStage \<or> cid = CrmSenderDealPipeline
      then (case text_values cid bag of (values, bag') \<Rightarrow> (text_values_condition_matches rx values c, bag'))
      else (case bag_fact cid bag of (v, bag') \<Rightarrow> (bool_op_matches v c, bag')))"

record condition_trace =
  ct_condition_id :: condition_id
  ct_label :: string
  ct_result :: contract_tri_value
  ct_detail :: string

definition condition_trace_of :: "condition_v2 \<Rightarrow> tri_value \<Rightarrow> condition_trace" where
  "condition_trace_of c v =
     \<lparr>ct_condition_id = cv_condition_id c, ct_label = fact_label (cv_condition_id c), ct_result = to_contract v,
      ct_detail = (case v of TriTrue \<Rightarrow> ''matched'' | TriFalse \<Rightarrow> ''did not match'' | TriUnknown \<Rightarrow> ''couldn't check yet'')\<rparr>"

definition condition_weight :: "condition_v2 \<Rightarrow> nat" where
  "condition_weight c = (if is_quick (cv_condition_id c) then 11 else 1)"

definition conditions_weight :: "condition_v2 list \<Rightarrow> nat" where
  "conditions_weight cs = sum_list (map (\<lambda>c. condition_weight c + 1) cs)"

lemma conditions_weight_simps [simp]:
  "conditions_weight [] = 0"
  "conditions_weight (c # cs) = condition_weight c + 1 + conditions_weight cs"
  by (simp_all add: conditions_weight_def)

lemma alias_weight:
  assumes "is_quick cid"
  shows "conditions_weight (snd (alias_conditions cid)) < 11"
proof -
  have "conditions_weight (snd (alias_conditions cid)) = 2 * length (snd (alias_conditions cid))"
    using assms by (auto simp: is_quick_def alias_simps condition_weight_def)
  then show ?thesis using alias_short [OF assms] by simp
qed

text \<open>
  The quick picks expand to the conditions of the catalog, so the evaluation of a condition and that of a list of
  conditions call each other; a quick pick weighs more than what it expands to.
\<close>

function condition_matches_v2 :: "regex_engine \<Rightarrow> condition_v2 \<Rightarrow> fact_bag \<Rightarrow> tri_value \<times> fact_bag"
  and conditions_loop ::
    "regex_engine \<Rightarrow> match_mode \<Rightarrow> condition_v2 list \<Rightarrow> bool \<Rightarrow> condition_trace list \<Rightarrow> fact_bag
       \<Rightarrow> (tri_value \<times> condition_trace list) \<times> fact_bag" where
  "condition_matches_v2 rx c bag =
     (if is_quick (cv_condition_id c)
      then (case conditions_loop rx (fst (alias_conditions (cv_condition_id c))) (snd (alias_conditions (cv_condition_id c)))
                   False [] bag of ((v, _), bag') \<Rightarrow> (v, bag'))
      else plain_condition_matches rx c bag)"
| "conditions_loop rx mode [] saw_unknown traces bag =
     ((if saw_unknown then TriUnknown else if mode = MatchAll then TriTrue else TriFalse, traces), bag)"
| "conditions_loop rx mode (c # cs) saw_unknown traces bag =
     (case condition_matches_v2 rx c bag of
        (v, bag') \<Rightarrow>
          if mode = MatchAll \<and> v = TriFalse then ((TriFalse, traces @ [condition_trace_of c v]), bag')
          else if mode = MatchAny \<and> v = TriTrue then ((TriTrue, traces @ [condition_trace_of c v]), bag')
          else conditions_loop rx mode cs (saw_unknown \<or> v = TriUnknown) (traces @ [condition_trace_of c v]) bag')"
  by pat_completeness auto
termination
  by (relation "measure (case_sum (\<lambda>(rx, c, bag). condition_weight c) (\<lambda>(rx, mode, cs, u, ts, bag). conditions_weight cs))")
     (auto simp: condition_weight_def alias_weight)

declare condition_matches_v2.simps [simp del]

definition evaluate_conditions_with_trace ::
    "regex_engine \<Rightarrow> match_mode \<Rightarrow> condition_v2 list \<Rightarrow> fact_bag \<Rightarrow> (tri_value \<times> condition_trace list) \<times> fact_bag" where
  "evaluate_conditions_with_trace rx mode cs bag = conditions_loop rx mode cs False [] bag"

definition evaluate_conditions ::
    "regex_engine \<Rightarrow> match_mode \<Rightarrow> condition_v2 list \<Rightarrow> fact_bag \<Rightarrow> tri_value \<times> fact_bag" where
  "evaluate_conditions rx mode cs bag =
     (case evaluate_conditions_with_trace rx mode cs bag of ((v, _), bag') \<Rightarrow> (v, bag'))"

section \<open>Rules\<close>

fun resolve_rule_with_fact_bag :: "regex_engine \<Rightarrow> triage_rule list \<Rightarrow> fact_bag \<Rightarrow> triage_rule option \<times> fact_bag" where
  "resolve_rule_with_fact_bag rx [] bag = (None, bag)"
| "resolve_rule_with_fact_bag rx (r # rs) bag =
     (if \<not> tr_enabled r \<or> effective_conditions r = [] then resolve_rule_with_fact_bag rx rs bag
      else (case evaluate_conditions rx (tr_match_mode r) (effective_conditions r) bag of
              (v, bag') \<Rightarrow> if v = TriTrue then (Some r, bag') else resolve_rule_with_fact_bag rx rs bag'))"

definition resolve_rule :: "regex_engine \<Rightarrow> triage_rule list \<Rightarrow> message_view \<Rightarrow> triage_rule option" where
  "resolve_rule rx rules message =
     fst (resolve_rule_with_fact_bag rx rules (new_bag None [] message None None no_crm_facts))"

definition resolve_category :: "regex_engine \<Rightarrow> triage_rule list \<Rightarrow> string \<Rightarrow> message_view \<Rightarrow> string" where
  "resolve_category rx rules fallback message =
     (case resolve_rule rx rules message of Some r \<Rightarrow> tr_pinned_category r | None \<Rightarrow> fallback)"

definition needs_crm :: "condition_id \<Rightarrow> bool" where
  "needs_crm cid \<longleftrightarrow>
     cid \<in> {CrmSenderContactExists, CrmSenderCompanyExists, CrmSenderDealExists, CrmSenderDealStage, CrmSenderDealPipeline}"

definition rules_need_crm_facts :: "triage_rule list \<Rightarrow> bool" where
  "rules_need_crm_facts rules \<longleftrightarrow>
     list_ex (\<lambda>r. list_ex (\<lambda>c. needs_crm (cv_condition_id c)) (effective_conditions r)) (filter tr_enabled rules)"

text \<open>
  How a message is filed when it is ingested from a mailbox and when it is classified again (the same lines of
  \<open>ingest_messages_with_overlay\<close> and \<open>reclassify_all_with_email_overlay\<close>). What the cache of CRM facts has on the message is the argument
  \<open>cached\<close>.
\<close>

definition classification_facts ::
    "triage_rule list \<Rightarrow> (message_view \<Rightarrow> crm_fact_overrides) \<Rightarrow> message_view \<Rightarrow> crm_fact_overrides" where
  "classification_facts rules cached view = (if rules_need_crm_facts rules then cached view else no_crm_facts)"

definition matched_rule ::
    "regex_engine \<Rightarrow> triage_rule list \<Rightarrow> (message_view \<Rightarrow> crm_fact_overrides) \<Rightarrow> fact_connection \<Rightarrow> string \<Rightarrow> message_view
       \<Rightarrow> string \<Rightarrow> string option \<Rightarrow> triage_rule option" where
  "matched_rule rx rules cached conn client view source_key source_user_id =
     fst (resolve_rule_with_fact_bag rx rules
            (new_bag (Some conn) client view (Some source_key) source_user_id (classification_facts rules cached view)))"

definition classify_message ::
    "regex_engine \<Rightarrow> triage_rule list \<Rightarrow> (message_view \<Rightarrow> crm_fact_overrides) \<Rightarrow> fact_connection \<Rightarrow> string \<Rightarrow> message_view
       \<Rightarrow> string \<Rightarrow> string option \<Rightarrow> string \<Rightarrow> string \<times> string option" where
  "classify_message rx rules cached conn client view source_key source_user_id fallback =
     (let m = matched_rule rx rules cached conn client view source_key source_user_id
      in ((case m of Some r \<Rightarrow> tr_pinned_category r | None \<Rightarrow> fallback), map_option tr_rule_id m))"

section \<open>Dry runs\<close>

record rule_trace =
  rt_rule_id :: string
  rt_result :: contract_tri_value
  rt_matched :: bool
  rt_condition_traces :: "condition_trace list"

record dry_run_trace =
  dt_sample_index :: u32
  dt_resolved_category :: string
  dt_matched_rule_id :: "string option"
  dt_needs_fact_refresh :: bool
  dt_rule_traces :: "rule_trace list"
  dt_fact_traces :: "fact_trace list"

record dry_run_result =
  dr_resolved_category :: string
  dr_matched_rule_id :: "string option"

fun trace_rules ::
    "regex_engine \<Rightarrow> triage_rule list \<Rightarrow> string \<Rightarrow> rule_trace list \<Rightarrow> bool \<Rightarrow> fact_bag
       \<Rightarrow> (rule_trace list \<times> string option \<times> string \<times> bool) \<times> fact_bag" where
  "trace_rules rx [] category traces refresh bag = ((traces, None, category, refresh), bag)"
| "trace_rules rx (r # rs) category traces refresh bag =
     (if \<not> tr_enabled r \<or> effective_conditions r = [] then trace_rules rx rs category traces refresh bag
      else (case evaluate_conditions_with_trace rx (tr_match_mode r) (effective_conditions r) bag of
              ((v, condition_traces), bag') \<Rightarrow>
                let refresh' = (refresh \<or> is_unknown v);
                    traces' = traces @ [\<lparr>rt_rule_id = tr_rule_id r, rt_result = to_contract v, rt_matched = (v = TriTrue),
                                          rt_condition_traces = condition_traces\<rparr>]
                in if v = TriTrue then ((traces', Some (tr_rule_id r), tr_pinned_category r, refresh'), bag')
                   else trace_rules rx rs category traces' refresh' bag'))"

definition evaluate_trace ::
    "regex_engine \<Rightarrow> u32 \<Rightarrow> triage_rule list \<Rightarrow> string \<Rightarrow> fact_bag \<Rightarrow> dry_run_trace \<times> fact_bag" where
  "evaluate_trace rx sample_index rules fallback bag =
     (case trace_rules rx rules fallback [] False bag of
        ((traces, matched, category, refresh), bag') \<Rightarrow>
          (case drain_traces bag' of
             (facts, bag'') \<Rightarrow>
               (\<lparr>dt_sample_index = sample_index, dt_resolved_category = category, dt_matched_rule_id = matched,
                 dt_needs_fact_refresh = refresh, dt_rule_traces = traces, dt_fact_traces = facts\<rparr>, bag'')))"

definition dry_run_traces_with_fact_bags ::
    "regex_engine \<Rightarrow> triage_rule list \<Rightarrow> string \<Rightarrow> fact_bag list \<Rightarrow> dry_run_trace list" where
  "dry_run_traces_with_fact_bags rx rules fallback bags =
     map (\<lambda>(i, bag). fst (evaluate_trace rx (of_nat i) rules fallback bag)) (enumerate 0 bags)"

definition nth_or :: "'a \<Rightarrow> 'a list \<Rightarrow> nat \<Rightarrow> 'a" where
  "nth_or d xs i = (if i < length xs then xs ! i else d)"

definition sample_bag :: "fact_connection option \<Rightarrow> string \<Rightarrow> crm_fact_overrides list \<Rightarrow> nat \<times> message_view \<Rightarrow> fact_bag" where
  "sample_bag conn client crm =
     (\<lambda>(i, sample). new_bag conn client sample (mv_message_id sample) (mv_source_user_id sample) (nth_or no_crm_facts crm i))"

definition dry_run_traces ::
    "regex_engine \<Rightarrow> triage_rule list \<Rightarrow> string \<Rightarrow> message_view list \<Rightarrow> crm_fact_overrides list \<Rightarrow> dry_run_trace list" where
  "dry_run_traces rx rules fallback samples crm =
     map (\<lambda>(i, sample). fst (evaluate_trace rx (of_nat i) rules fallback (sample_bag None [] crm (i, sample))))
       (enumerate 0 samples)"

definition dry_run_result_of :: "dry_run_trace \<Rightarrow> dry_run_result" where
  "dry_run_result_of t = \<lparr>dr_resolved_category = dt_resolved_category t, dr_matched_rule_id = dt_matched_rule_id t\<rparr>"

definition dry_run_samples ::
    "regex_engine \<Rightarrow> triage_rule list \<Rightarrow> string \<Rightarrow> message_view list \<Rightarrow> dry_run_result list" where
  "dry_run_samples rx rules fallback samples =
     map dry_run_result_of (dry_run_traces rx rules fallback samples (replicate (length samples) no_crm_facts))"

definition merge_rules_for_dry_run :: "triage_rule list \<Rightarrow> triage_rule list \<Rightarrow> triage_rule list" where
  "merge_rules_for_dry_run stored proposed =
     sort_key (\<lambda>r. (tr_priority r, tr_rule_id r))
       (filter (\<lambda>r. tr_rule_id r \<notin> tr_rule_id ` set proposed) stored @ proposed)"

end
