(* ===== verification/Triage_Store.thy ===== *)
theory Triage_Store
  imports Triage_Rules Work_Emission
begin

text \<open>
  The rules and categories of the triage in the database (\<open>slices/email_triage/store.rs\<close>), the handlers of \<open>routes.rs\<close> through which
  operators change them, and the clean-up of legacy rules that every start of the server runs
  (\<open>run_post_migration_cleanups\<close> of \<open>persistence.rs\<close>). The JSON of a stored rule is kept decoded. Not modelled: the messages
  themselves, the cache of CRM facts, the inbox and its settings, attachments and the passes that ask a language model.
\<close>

section \<open>Tables\<close>

record category_record =
  cr_category_id :: string
  cr_display_name :: string
  cr_description :: string
  cr_color :: string
  cr_sort :: int
  cr_is_system :: bool
  cr_default_agent_dir :: string
  cr_default_agent_context :: string

record category_row =
  cat_display_name :: string
  cat_description :: string
  cat_color :: string
  cat_sort :: int
  cat_is_system :: bool
  cat_default_agent_dir :: string
  cat_default_agent_context :: string
  cat_deleted :: bool
  cat_updated_at_ms :: u64

record rule_row =
  rl_rule :: triage_rule
  rl_priority :: int
  rl_enabled :: bool
  rl_deleted :: bool
  rl_updated_at_ms :: u64

record triage_tables = queue_tables +
  tt_rules :: "(string \<times> string, rule_row) hash_map"
  tt_categories :: "(string \<times> string, category_row) hash_map"

abbreviation rules_of :: "'x triage_tables_scheme db \<Rightarrow> (string \<times> string, rule_row) hash_map" where
  "rules_of db \<equiv> tt_rules (db_domain db)"

abbreviation categories_of :: "'x triage_tables_scheme db \<Rightarrow> (string \<times> string, category_row) hash_map" where
  "categories_of db \<equiv> tt_categories (db_domain db)"

definition RULE_ENTITY_KIND :: string where "RULE_ENTITY_KIND = ''email_triage_rule''"
definition CATEGORY_ENTITY_KIND :: string where "CATEGORY_ENTITY_KIND = ''email_triage_category''"

datatype triage_payload =
  RulePayload triage_rule
| CategoryPayload category_record
| CategoryPolicyPayload category_record work_queue_policy

record rule_mutation_context =
  rm_client_id :: string
  rm_actor_id :: string
  rm_expected_revision :: "u64 option"
  rm_idempotency_key :: string
  rm_correlation_id :: "string option"
  rm_now_ms :: u64

section \<open>Rules\<close>

record stored_rule =
  st_rule :: triage_rule
  st_revision :: u64

definition list_active_rules :: "'x triage_tables_scheme db \<Rightarrow> string \<Rightarrow> stored_rule list" where
  "list_active_rules db client =
     map (\<lambda>(k, r). \<lparr>st_rule = (rl_rule r)\<lparr>tr_enabled := rl_enabled r\<rparr>,
                    st_revision = (case read_revision db (fst k, RULE_ENTITY_KIND, snd k) of None \<Rightarrow> 0 | Some n \<Rightarrow> n)\<rparr>)
       (sort_key (\<lambda>(k, r). (rl_priority r, snd k))
         (filter (\<lambda>(k, r). fst k = client \<and> \<not> rl_deleted r) (rules_of db)))"

definition active_rules :: "'x triage_tables_scheme db \<Rightarrow> string \<Rightarrow> triage_rule list" where
  "active_rules db client = map st_rule (list_active_rules db client)"

text \<open>
  How a message that arrives at the webhook is filed (\<open>ingest\<close> of \<open>ingress.rs\<close>): under the rule the request names, without a look
  at its conditions, or else under the first rule that matches; the facts of such a message are its own text and nothing
  from the database. Of the errors of the webhook only this one depends on the rules.
\<close>

datatype ingress_error = FromRequired | RuleIdUnknown | ClientIdMismatch | IngressStore store_error

definition webhook_view ::
    "string \<Rightarrow> string option \<Rightarrow> string \<Rightarrow> string option \<Rightarrow> string \<Rightarrow> message_view" where
  "webhook_view message_id subject from_addr to_addr body =
     \<lparr>mv_message_id = Some message_id, mv_source_user_id = None, mv_subject = subject, mv_from = Some from_addr,
      mv_to = to_addr, mv_body = Some body, mv_labels = [''webhook''], mv_headers = []\<rparr>"

definition ingress_choice ::
    "regex_engine \<Rightarrow> triage_rule list \<Rightarrow> string option \<Rightarrow> message_view \<Rightarrow> ingress_error + string \<times> string option" where
  "ingress_choice rx rules rule_id view =
     (case non_blank rule_id of
        Some i \<Rightarrow>
          (case find (\<lambda>r. tr_enabled r \<and> tr_rule_id r = i) rules of
             None \<Rightarrow> Inl RuleIdUnknown
           | Some r \<Rightarrow> Inr (tr_pinned_category r, Some (tr_rule_id r)))
      | None \<Rightarrow>
          let m = resolve_rule rx rules view
          in Inr (case m of Some r \<Rightarrow> tr_pinned_category r | None \<Rightarrow> FALLBACK_CATEGORY_ID, map_option tr_rule_id m))"

definition current_rule :: "'x triage_tables_scheme db \<Rightarrow> string \<Rightarrow> string \<Rightarrow> triage_rule option" where
  "current_rule db client rule_id =
     (case hm_get (rules_of db) (client, rule_id) of
        None \<Rightarrow> None
      | Some r \<Rightarrow> if rl_deleted r then None else Some (rl_rule r))"

definition put_rule :: "string \<times> string \<Rightarrow> rule_row \<Rightarrow> 'x triage_tables_scheme db \<Rightarrow> 'x triage_tables_scheme db" where
  "put_rule k r db = db\<lparr>db_domain := (db_domain db)\<lparr>tt_rules := hm_insert k r (rules_of db)\<rparr>\<rparr>"

definition update_rule ::
    "string \<times> string \<Rightarrow> (rule_row \<Rightarrow> rule_row) \<Rightarrow> 'x triage_tables_scheme db \<Rightarrow> 'x triage_tables_scheme db" where
  "update_rule k f db = (case hm_get (rules_of db) k of None \<Rightarrow> db | Some r \<Rightarrow> put_rule k (f r) db)"

text \<open>The categories every client starts with; an empty registry accepts them before they are written.\<close>

definition DEFAULT_CATEGORIES :: "category_record list" where
  "DEFAULT_CATEGORIES =
     [\<lparr>cr_category_id = FALLBACK_CATEGORY_ID, cr_display_name = ''Inbound email'',
       cr_description = ''General inbound email that doesn't fit a more specific category.'', cr_color = ''#38bdf8'',
       cr_sort = 10, cr_is_system = True, cr_default_agent_dir = [], cr_default_agent_context = []\<rparr>,
      \<lparr>cr_category_id = ''operator_note'', cr_display_name = ''Operator note'',
       cr_description = ''Internal notes written by the operator, not external correspondence.'', cr_color = ''#f59e0b'',
       cr_sort = 20, cr_is_system = False, cr_default_agent_dir = [], cr_default_agent_context = []\<rparr>]"

definition category_is_active :: "'x triage_tables_scheme db \<Rightarrow> string \<Rightarrow> string \<Rightarrow> bool" where
  "category_is_active db client category_id \<longleftrightarrow>
     (case hm_get (categories_of db) (client, category_id) of None \<Rightarrow> False | Some r \<Rightarrow> \<not> cat_deleted r)"

definition category_exists :: "'x triage_tables_scheme db \<Rightarrow> string \<Rightarrow> string \<Rightarrow> bool" where
  "category_exists db client category_id \<longleftrightarrow>
     (if length (filter (\<lambda>(k, r). fst k = client \<and> \<not> cat_deleted r) (categories_of db)) = 0
      then list_ex (\<lambda>c. cr_category_id c = category_id) DEFAULT_CATEGORIES
      else category_is_active db client category_id)"

definition upsert_rule_write ::
    "string \<Rightarrow> triage_rule \<Rightarrow> u64 \<Rightarrow> ('x triage_tables_scheme, unit) db_op" where
  "upsert_rule_write client rule now_ms db =
     (Inr (), put_rule (client, tr_rule_id rule)
        \<lparr>rl_rule = rule, rl_priority = tr_priority rule, rl_enabled = tr_enabled rule, rl_deleted = False,
         rl_updated_at_ms = now_ms\<rparr> db)"

definition rule_request ::
    "rule_mutation_context \<Rightarrow> string \<Rightarrow> string \<Rightarrow> string option \<Rightarrow> string option \<Rightarrow> mutation_request" where
  "rule_request ctx rule_id change before after =
     \<lparr>mq_client_id = rm_client_id ctx, mq_entity_kind = RULE_ENTITY_KIND, mq_entity_id = rule_id,
      mq_change_kind = change, mq_actor_id = rm_actor_id ctx, mq_actor_kind = Operator,
      mq_expected_revision = rm_expected_revision ctx, mq_idempotency_key = rm_idempotency_key ctx,
      mq_correlation_id = rm_correlation_id ctx, mq_causation_id = None, mq_before_json = before,
      mq_after_json = after, mq_now_ms = rm_now_ms ctx\<rparr>"

definition upsert_rule ::
    "(triage_payload \<Rightarrow> string) \<Rightarrow> rule_mutation_context \<Rightarrow> triage_rule \<Rightarrow> ('x triage_tables_scheme, mutation_outcome) db_op" where
  "upsert_rule render ctx rule db =
     (case validate_rule rule of
        Inl e \<Rightarrow> (Inl (Domain (rule_error_code e)), db)
      | Inr _ \<Rightarrow>
          if \<not> category_exists db (rm_client_id ctx) (tr_pinned_category rule)
          then (Inl (Domain ''email_triage_category_unknown''), db)
          else mutate (rule_request ctx (tr_rule_id rule) ''upsert''
                 (map_option (\<lambda>r. render (RulePayload r)) (current_rule db (rm_client_id ctx) (tr_rule_id rule)))
                 (Some (render (RulePayload rule))))
               (upsert_rule_write (rm_client_id ctx) rule (rm_now_ms ctx)) db)"

datatype rule_action = EnableRule | DisableRule | DeleteRule

fun rule_change_kind :: "rule_action \<Rightarrow> string" where
  "rule_change_kind EnableRule = ''enable''"
| "rule_change_kind DisableRule = ''disable''"
| "rule_change_kind DeleteRule = ''delete''"

fun act_on_rule :: "rule_action \<Rightarrow> rule_row \<Rightarrow> rule_row" where
  "act_on_rule EnableRule r = r\<lparr>rl_enabled := True\<rparr>"
| "act_on_rule DisableRule r = r\<lparr>rl_enabled := False\<rparr>"
| "act_on_rule DeleteRule r = r\<lparr>rl_deleted := True\<rparr>"

definition rule_action_write ::
    "string \<Rightarrow> string \<Rightarrow> rule_action \<Rightarrow> u64 \<Rightarrow> ('x triage_tables_scheme, unit) db_op" where
  "rule_action_write client rule_id action now_ms db =
     (Inr (), update_rule (client, rule_id) (\<lambda>r. (act_on_rule action r)\<lparr>rl_updated_at_ms := now_ms\<rparr>) db)"

definition apply_rule_action ::
    "(triage_payload \<Rightarrow> string) \<Rightarrow> rule_mutation_context \<Rightarrow> string \<Rightarrow> rule_action
       \<Rightarrow> ('x triage_tables_scheme, mutation_outcome) db_op" where
  "apply_rule_action render ctx rule_id action db =
     (case current_rule db (rm_client_id ctx) rule_id of
        None \<Rightarrow> (Inl (Domain ''email_triage_rule_not_found''), db)
      | Some before \<Rightarrow>
          mutate (rule_request ctx rule_id (rule_change_kind action) (Some (render (RulePayload before))) None)
            (rule_action_write (rm_client_id ctx) rule_id action (rm_now_ms ctx)) db)"

section \<open>The clean-up of legacy rules\<close>

definition legacy_cleanup_candidates ::
    "'x triage_tables_scheme db \<Rightarrow> ((string \<times> string) \<times> triage_rule) list" where
  "legacy_cleanup_candidates db =
     map (\<lambda>(k, r). (k, rl_rule r)) (sort_key fst (filter (\<lambda>(k, r). length (tr_conditions (rl_rule r)) > 0) (rules_of db)))"

definition cleaned_rule :: "triage_rule \<Rightarrow> triage_rule" where
  "cleaned_rule rule = rule\<lparr>tr_conditions_v2 := effective_conditions rule, tr_conditions := []\<rparr>"

definition cleanup_write ::
    "string \<times> string \<Rightarrow> triage_rule \<Rightarrow> u64 \<Rightarrow> ('x triage_tables_scheme, unit) db_op" where
  "cleanup_write k rule now_ms db = (Inr (), update_rule k (\<lambda>r. r\<lparr>rl_rule := rule, rl_updated_at_ms := now_ms\<rparr>) db)"

definition cleanup_one ::
    "(triage_payload \<Rightarrow> string) \<Rightarrow> u64 \<Rightarrow> string \<times> string \<Rightarrow> triage_rule \<Rightarrow> ('x triage_tables_scheme, mutation_outcome) db_op" where
  "cleanup_one render now_ms k rule db =
     (case validate_rule (cleaned_rule rule) of
        Inl e \<Rightarrow> (Inl (Domain (rule_error_code e)), db)
      | Inr _ \<Rightarrow>
          mutate
            \<lparr>mq_client_id = fst k, mq_entity_kind = RULE_ENTITY_KIND, mq_entity_id = snd k,
             mq_change_kind = ''legacy_cleanup'', mq_actor_id = ''email_triage_legacy_cleanup'',
             mq_actor_kind = System, mq_expected_revision = None,
             mq_idempotency_key = ''email-triage-rule-legacy-cleanup-0062:'' @ fst k @ '':'' @ snd k,
             mq_correlation_id = None, mq_causation_id = None,
             mq_before_json = Some (render (RulePayload rule)),
             mq_after_json = Some (render (RulePayload (cleaned_rule rule))), mq_now_ms = now_ms\<rparr>
            (cleanup_write k (cleaned_rule rule) now_ms) db)"

fun cleanup_rows ::
    "(triage_payload \<Rightarrow> string) \<Rightarrow> u64 \<Rightarrow> ((string \<times> string) \<times> triage_rule) list \<Rightarrow> usize
       \<Rightarrow> ('x triage_tables_scheme, usize) db_op" where
  "cleanup_rows render now_ms [] changed db = (Inr changed, db)"
| "cleanup_rows render now_ms ((k, rule) # rows) changed db =
     (if tr_conditions rule = [] then cleanup_rows render now_ms rows changed db
      else (case cleanup_one render now_ms k rule db of
              (Inl e, db') \<Rightarrow> (Inl e, db')
            | (Inr _, db') \<Rightarrow> cleanup_rows render now_ms rows (changed + 1) db'))"

definition cleanup_legacy_rule_json ::
    "(triage_payload \<Rightarrow> string) \<Rightarrow> u64 \<Rightarrow> ('x triage_tables_scheme, usize) db_op" where
  "cleanup_legacy_rule_json render now_ms db = cleanup_rows render now_ms (legacy_cleanup_candidates db) 0 db"

text \<open>What a start of the server does after the migrations: an error is \<open>PersistenceError::Migration\<close>, and the start fails.\<close>

definition run_post_migration_cleanups ::
    "(triage_payload \<Rightarrow> string) \<Rightarrow> u64 \<Rightarrow> 'x triage_tables_scheme db \<Rightarrow> (string + unit) \<times> 'x triage_tables_scheme db" where
  "run_post_migration_cleanups render now_ms db =
     (case cleanup_legacy_rule_json render now_ms db of
        (Inl e, db') \<Rightarrow> (Inl (store_error_display e), db')
      | (Inr _, db') \<Rightarrow> (Inr (), db'))"

section \<open>Categories\<close>

definition put_category ::
    "string \<times> string \<Rightarrow> category_row \<Rightarrow> 'x triage_tables_scheme db \<Rightarrow> 'x triage_tables_scheme db" where
  "put_category k r db = db\<lparr>db_domain := (db_domain db)\<lparr>tt_categories := hm_insert k r (categories_of db)\<rparr>\<rparr>"

definition category_row_of :: "category_record \<Rightarrow> bool \<Rightarrow> u64 \<Rightarrow> category_row" where
  "category_row_of c is_system now_ms =
     \<lparr>cat_display_name = cr_display_name c, cat_description = cr_description c, cat_color = cr_color c,
      cat_sort = cr_sort c, cat_is_system = is_system, cat_default_agent_dir = trim (cr_default_agent_dir c),
      cat_default_agent_context = trim (cr_default_agent_context c), cat_deleted = False, cat_updated_at_ms = now_ms\<rparr>"

text \<open>The update of an existing row leaves its \<open>is_system\<close> alone.\<close>

definition write_category_tx :: "string \<Rightarrow> category_record \<Rightarrow> u64 \<Rightarrow> ('x triage_tables_scheme, unit) db_op" where
  "write_category_tx client c now_ms db =
     (Inr (), put_category (client, cr_category_id c)
        (category_row_of c (case hm_get (categories_of db) (client, cr_category_id c) of
                              None \<Rightarrow> cr_is_system c | Some r \<Rightarrow> cat_is_system r) now_ms) db)"

definition category_request ::
    "string \<Rightarrow> string \<Rightarrow> string \<Rightarrow> string \<Rightarrow> actor_kind \<Rightarrow> string option \<Rightarrow> string \<Rightarrow> u64 \<Rightarrow> mutation_request" where
  "category_request client category_id change actor kind after key now_ms =
     \<lparr>mq_client_id = client, mq_entity_kind = CATEGORY_ENTITY_KIND, mq_entity_id = category_id,
      mq_change_kind = change, mq_actor_id = actor, mq_actor_kind = kind, mq_expected_revision = None,
      mq_idempotency_key = key, mq_correlation_id = None, mq_causation_id = None, mq_before_json = None,
      mq_after_json = after, mq_now_ms = now_ms\<rparr>"

definition write_category ::
    "(triage_payload \<Rightarrow> string) \<Rightarrow> string \<Rightarrow> string \<Rightarrow> category_record \<Rightarrow> string \<Rightarrow> u64
       \<Rightarrow> ('x triage_tables_scheme, mutation_outcome) db_op" where
  "write_category render client actor c key now_ms =
     mutate (category_request client (cr_category_id c) ''upsert'' actor
         (if actor = ''system_seed'' then System else Operator) (Some (render (CategoryPayload c))) key now_ms)
       (write_category_tx client c now_ms)"

definition category_of_row :: "string \<times> string \<Rightarrow> category_row \<Rightarrow> category_record" where
  "category_of_row k r =
     \<lparr>cr_category_id = snd k, cr_display_name = cat_display_name r, cr_description = cat_description r,
      cr_color = cat_color r, cr_sort = cat_sort r, cr_is_system = cat_is_system r,
      cr_default_agent_dir = cat_default_agent_dir r, cr_default_agent_context = cat_default_agent_context r\<rparr>"

fun seed_categories ::
    "(triage_payload \<Rightarrow> string) \<Rightarrow> string \<Rightarrow> string list \<Rightarrow> u64 \<Rightarrow> category_record list \<Rightarrow> ('x triage_tables_scheme, unit) db_op" where
  "seed_categories render client known_ids now_ms [] db = (Inr (), db)"
| "seed_categories render client known_ids now_ms (c # cs) db =
     (if cr_category_id c \<in> set known_ids then seed_categories render client known_ids now_ms cs db
      else (case write_category render client ''system_seed'' c (''seed:'' @ cr_category_id c) now_ms db of
              (Inl e, db') \<Rightarrow> (Inl e, db')
            | (Inr _, db') \<Rightarrow> seed_categories render client known_ids now_ms cs db'))"

definition active_categories :: "'x triage_tables_scheme db \<Rightarrow> string \<Rightarrow> category_record list" where
  "active_categories db client =
     map (\<lambda>(k, r). category_of_row k r)
       (sort_key (\<lambda>(k, r). (cat_sort r, snd k))
         (filter (\<lambda>(k, r). fst k = client \<and> \<not> cat_deleted r) (categories_of db)))"

definition list_categories ::
    "(triage_payload \<Rightarrow> string) \<Rightarrow> string \<Rightarrow> u64 \<Rightarrow> ('x triage_tables_scheme, category_record list) db_op" where
  "list_categories render client now_ms db =
     (let known_ids = map (\<lambda>(k, _). snd k) (filter (\<lambda>(k, _). fst k = client) (categories_of db))
      in case seed_categories render client known_ids now_ms DEFAULT_CATEGORIES db of
           (Inl e, db') \<Rightarrow> (Inl e, db')
         | (Inr _, db') \<Rightarrow> (Inr (active_categories db' client), db'))"

definition category_by_id :: "'x triage_tables_scheme db \<Rightarrow> string \<Rightarrow> string \<Rightarrow> category_record option" where
  "category_by_id db client category_id =
     (case hm_get (categories_of db) (client, category_id) of
        None \<Rightarrow> None
      | Some r \<Rightarrow> if cat_deleted r then None else Some (category_of_row (client, category_id) r))"

definition check_category :: "category_record \<Rightarrow> store_error + unit" where
  "check_category c =
     (if \<not> validate_category_id (cr_category_id c) then Inl (Domain ''email_triage_category_id_invalid'')
      else if trim (cr_display_name c) = [] then Inl (Domain ''email_triage_category_name_required'')
      else Inr ())"

definition upsert_category ::
    "(triage_payload \<Rightarrow> string) \<Rightarrow> string \<Rightarrow> string \<Rightarrow> category_record \<Rightarrow> string \<Rightarrow> u64
       \<Rightarrow> ('x triage_tables_scheme, mutation_outcome) db_op" where
  "upsert_category render client actor c key now_ms db =
     (case check_category c of
        Inl e \<Rightarrow> (Inl e, db)
      | Inr _ \<Rightarrow>
          write_category render client actor
            (c\<lparr>cr_is_system := (case hm_get (categories_of db) (client, cr_category_id c) of
                                  None \<Rightarrow> False | Some r \<Rightarrow> cat_is_system r)\<rparr>) key now_ms db)"

definition create_category_write ::
    "string \<Rightarrow> category_record \<Rightarrow> work_queue_policy \<Rightarrow> u64 \<Rightarrow> ('x triage_tables_scheme, unit) db_op" where
  "create_category_write client c policy now_ms db =
     (if hm_get (categories_of db) (client, cr_category_id c) \<noteq> None
      then (Inl (Sqlite ''UNIQUE constraint failed: email_triage_categories.client_id, email_triage_categories.category_id''), db)
      else write_policy_tx client policy now_ms
             (put_category (client, cr_category_id c) (category_row_of c False now_ms) db))"

definition upsert_category_with_policy ::
    "(triage_payload \<Rightarrow> string) \<Rightarrow> string \<Rightarrow> string \<Rightarrow> category_record \<Rightarrow> work_queue_policy \<Rightarrow> string \<Rightarrow> u64
       \<Rightarrow> ('x triage_tables_scheme, mutation_outcome) db_op" where
  "upsert_category_with_policy render client actor c policy key now_ms db =
     (case check_category c of
        Inl e \<Rightarrow> (Inl e, db)
      | Inr _ \<Rightarrow>
          if qp_category_id policy \<noteq> cr_category_id c
          then (Inl (Domain ''email_triage_category_policy_mismatch''), db)
          else (case sanitize_policy policy of
                  Inl e \<Rightarrow> (Inl e, db)
                | Inr p \<Rightarrow>
                    mutate (category_request client (cr_category_id c) ''create_with_policy'' actor Operator
                        (Some (render (CategoryPolicyPayload (c\<lparr>cr_is_system := False\<rparr>) p))) key now_ms)
                      (create_category_write client (c\<lparr>cr_is_system := False\<rparr>) p now_ms) db))"

definition pinned_by :: "'x triage_tables_scheme db \<Rightarrow> string \<Rightarrow> string \<Rightarrow> nat" where
  "pinned_by db client category_id =
     length (filter (\<lambda>(k, r). fst k = client \<and> \<not> rl_deleted r \<and> tr_pinned_category (rl_rule r) = category_id) (rules_of db))"

definition delete_category_write :: "string \<Rightarrow> string \<Rightarrow> u64 \<Rightarrow> ('x triage_tables_scheme, unit) db_op" where
  "delete_category_write client category_id now_ms db =
     (Inr (), case hm_get (categories_of db) (client, category_id) of
        None \<Rightarrow> db
      | Some r \<Rightarrow> put_category (client, category_id) (r\<lparr>cat_deleted := True, cat_updated_at_ms := now_ms\<rparr>) db)"

definition delete_category ::
    "string \<Rightarrow> string \<Rightarrow> string \<Rightarrow> string \<Rightarrow> u64 \<Rightarrow> ('x triage_tables_scheme, mutation_outcome) db_op" where
  "delete_category client actor category_id key now_ms db =
     (case category_by_id db client category_id of
        None \<Rightarrow> (Inl (Domain ''email_triage_category_not_found''), db)
      | Some c \<Rightarrow>
          if cr_is_system c then (Inl (Domain ''email_triage_category_is_system''), db)
          else if pinned_by db client category_id > 0 then (Inl (Domain ''email_triage_category_in_use''), db)
          else mutate (category_request client category_id ''delete'' actor Operator None key now_ms)
                 (delete_category_write client category_id now_ms) db)"

section \<open>The connection of the facts\<close>

text \<open>The query of \<open>workflow_open_item\<close>, and the bag's view of the database; the accounting snapshots are arguments.\<close>

definition open_item_found :: "'x queue_tables_scheme db \<Rightarrow> string \<Rightarrow> string \<Rightarrow> bool" where
  "open_item_found db client message_id \<longleftrightarrow>
     list_ex (\<lambda>(k, r). fst k = client \<and> wr_source_kind r = ''email'' \<and> wr_source_ref r = message_id
                        \<and> (wr_status r = ''open'' \<or> wr_status r = ''accepted'')) (items_of db)"

definition fact_connection_of ::
    "'x queue_tables_scheme db \<Rightarrow> customer_snapshot list \<Rightarrow> invoice_snapshot list \<Rightarrow> (string \<Rightarrow> bool) \<Rightarrow> fact_connection" where
  "fact_connection_of db customers invoices before_today =
     \<lparr>fc_customers = customers, fc_invoices = invoices, fc_open_item = open_item_found db,
      fc_before_today = before_today\<rparr>"

text \<open>
  A dry run overlays the proposed rules on the stored ones. What the cache of CRM facts and the calls of the CRM find on a
  sample is the argument \<open>looked_up\<close>; it is asked only when a rule names such a fact.
\<close>

definition dry_run_answer ::
    "regex_engine \<Rightarrow> 'x triage_tables_scheme db \<Rightarrow> string \<Rightarrow> fact_connection \<Rightarrow> (message_view \<Rightarrow> crm_fact_overrides)
       \<Rightarrow> triage_rule list \<Rightarrow> string option \<Rightarrow> message_view list \<Rightarrow> dry_run_result list \<times> dry_run_trace list" where
  "dry_run_answer rx db client conn looked_up proposed fallback samples =
     (let merged = merge_rules_for_dry_run (active_rules db client) proposed;
          contexts = (if rules_need_crm_facts merged then map looked_up samples else []);
          traces = dry_run_traces_with_fact_bags rx merged (unwrap_text fallback FALLBACK_CATEGORY_ID)
                     (map (sample_bag (Some conn) client contexts) (enumerate 0 samples))
      in (map dry_run_result_of traces, traces))"

section \<open>Handlers\<close>

type_synonym 'x triage_handler =
  "app_state \<times> 'x triage_tables_scheme db \<Rightarrow> http_response \<times> (app_state \<times> 'x triage_tables_scheme db)"

definition rule_context ::
    "auth_context \<Rightarrow> app_state \<Rightarrow> string option \<Rightarrow> u64 option \<Rightarrow> string \<Rightarrow> u64 \<Rightarrow> rule_mutation_context" where
  "rule_context auth st requested expected key now_ms =
     \<lparr>rm_client_id = as_client_id st, rm_actor_id = actor_or auth requested, rm_expected_revision = expected,
      rm_idempotency_key = key, rm_correlation_id = None, rm_now_ms = now_ms\<rparr>"

definition rule_upsert ::
    "(string \<Rightarrow> string) \<Rightarrow> (triage_payload \<Rightarrow> string) \<Rightarrow> u64 \<Rightarrow> headers \<Rightarrow> string \<Rightarrow> string option \<Rightarrow> u64 option
       \<Rightarrow> triage_rule \<Rightarrow> u64 \<Rightarrow> 'x triage_handler" where
  "rule_upsert sha render auth_ms hs key requested expected rule now_ms =
     guarded sha auth_ms hs (\<lambda>_. Inr ()) key (\<lambda>auth w.
       on_db (upsert_rule render (rule_context auth (fst w) requested expected key now_ms) rule) mutation_result w)"

definition rule_action_route ::
    "(string \<Rightarrow> string) \<Rightarrow> (triage_payload \<Rightarrow> string) \<Rightarrow> u64 \<Rightarrow> headers \<Rightarrow> string \<Rightarrow> string option \<Rightarrow> u64 option
       \<Rightarrow> string \<Rightarrow> rule_action \<Rightarrow> u64 \<Rightarrow> 'x triage_handler" where
  "rule_action_route sha render auth_ms hs key requested expected rule_id action now_ms =
     guarded sha auth_ms hs (\<lambda>_. Inr ()) key (\<lambda>auth w.
       on_db (apply_rule_action render (rule_context auth (fst w) requested expected key now_ms) rule_id action)
         mutation_result w)"

definition category_upsert ::
    "(string \<Rightarrow> string) \<Rightarrow> (triage_payload \<Rightarrow> string) \<Rightarrow> u64 \<Rightarrow> headers \<Rightarrow> string \<Rightarrow> string option
       \<Rightarrow> category_record \<Rightarrow> work_queue_policy option \<Rightarrow> u64 \<Rightarrow> 'x triage_handler" where
  "category_upsert sha render auth_ms hs key requested c policy now_ms =
     guarded sha auth_ms hs (\<lambda>_. Inr ()) key (\<lambda>auth w.
       on_db (case policy of
                Some p \<Rightarrow> upsert_category_with_policy render (as_client_id (fst w)) (actor_or auth requested) c p key now_ms
              | None \<Rightarrow> upsert_category render (as_client_id (fst w)) (actor_or auth requested) c key now_ms)
         mutation_result w)"

definition category_delete ::
    "(string \<Rightarrow> string) \<Rightarrow> u64 \<Rightarrow> headers \<Rightarrow> string \<Rightarrow> string option \<Rightarrow> string \<Rightarrow> u64 \<Rightarrow> 'x triage_handler" where
  "category_delete sha auth_ms hs key requested category_id now_ms =
     guarded sha auth_ms hs (\<lambda>_. Inr ()) key (\<lambda>auth w.
       on_db (delete_category (as_client_id (fst w)) (actor_or auth requested) category_id key now_ms) mutation_result w)"

definition categories_list ::
    "(string \<Rightarrow> string) \<Rightarrow> (triage_payload \<Rightarrow> string) \<Rightarrow> u64 \<Rightarrow> headers \<Rightarrow> u64
       \<Rightarrow> app_state \<times> 'x triage_tables_scheme db \<Rightarrow> (http_error + category_record list) \<times> (app_state \<times> 'x triage_tables_scheme db)" where
  "categories_list sha render auth_ms hs now_ms w =
     (case authenticate sha (snd w) auth_ms hs (fst w) of
        (Inl e, st) \<Rightarrow> (Inl e, (st, snd w))
      | (Inr _, st) \<Rightarrow>
          (case list_categories render (as_client_id st) now_ms (snd w) of
             (Inr categories, db) \<Rightarrow> (Inr categories, (st, db))
           | (Inl (Domain code), db) \<Rightarrow> (Inl \<lparr>he_status = 422, he_code = code\<rparr>, (st, db))
           | (Inl (Sqlite _), db) \<Rightarrow> (Inl \<lparr>he_status = 500, he_code = ''storage_failure''\<rparr>, (st, db))))"

definition rules_list ::
    "(string \<Rightarrow> string) \<Rightarrow> u64 \<Rightarrow> headers \<Rightarrow> app_state \<times> 'x triage_tables_scheme db
       \<Rightarrow> (http_error + stored_rule list) \<times> app_state" where
  "rules_list sha auth_ms hs w =
     (case authenticate sha (snd w) auth_ms hs (fst w) of
        (Inl e, st) \<Rightarrow> (Inl e, st)
      | (Inr _, st) \<Rightarrow> (Inr (list_active_rules (snd w) (as_client_id st)), st))"

end
