(* ===== verification/Triage_Engine.thy ===== *)
theory Triage_Engine
  imports Triage_Rules
begin

text \<open>
  The meaning of the rule engine: the value of a condition, and that the evaluation with its traces and early exits computes
  Kleene's three-valued conjunction or disjunction of these values. More facts only decide what was unknown.
\<close>

section \<open>Kleene's connectives\<close>

fun tri_and :: "tri_value \<Rightarrow> tri_value \<Rightarrow> tri_value" where
  "tri_and TriFalse w = TriFalse"
| "tri_and TriTrue w = w"
| "tri_and TriUnknown w = (if w = TriFalse then TriFalse else TriUnknown)"

fun tri_or :: "tri_value \<Rightarrow> tri_value \<Rightarrow> tri_value" where
  "tri_or TriTrue w = TriTrue"
| "tri_or TriFalse w = w"
| "tri_or TriUnknown w = (if w = TriTrue then TriTrue else TriUnknown)"

fun tri_combine :: "match_mode \<Rightarrow> tri_value list \<Rightarrow> tri_value" where
  "tri_combine MatchAll vs = foldr tri_and vs TriTrue"
| "tri_combine MatchAny vs = foldr tri_or vs TriFalse"

lemma tri_of_simps [simp]: "tri_of b = TriTrue \<longleftrightarrow> b" "tri_of b = TriFalse \<longleftrightarrow> \<not> b" "tri_of b \<noteq> TriUnknown"
  by (simp_all add: tri_of_def)

lemma tri_all_cases:
  "foldr tri_and vs TriTrue =
     (if TriFalse \<in> set vs then TriFalse else if TriUnknown \<in> set vs then TriUnknown else TriTrue)"
proof (induction vs)
  case (Cons v vs)
  then show ?case by (cases v) auto
qed simp

lemma tri_any_cases:
  "foldr tri_or vs TriFalse =
     (if TriTrue \<in> set vs then TriTrue else if TriUnknown \<in> set vs then TriUnknown else TriFalse)"
proof (induction vs)
  case (Cons v vs)
  then show ?case by (cases v) auto
qed simp

lemma all_true: "tri_combine MatchAll vs = TriTrue \<Longrightarrow> v \<in> set vs \<Longrightarrow> v = TriTrue"
  by (cases v) (auto simp: tri_all_cases split: if_splits)

lemma tri_combine_set: "set vs = set ws \<Longrightarrow> tri_combine mode vs = tri_combine mode ws"
  by (cases mode) (simp_all add: tri_all_cases tri_any_cases)

section \<open>The value of a condition\<close>

definition plain_truth :: "regex_engine \<Rightarrow> fact_bag \<Rightarrow> condition_v2 \<Rightarrow> tri_value" where
  "plain_truth rx bag c = fst (plain_condition_matches rx c bag)"

definition condition_truth :: "regex_engine \<Rightarrow> fact_bag \<Rightarrow> condition_v2 \<Rightarrow> tri_value" where
  "condition_truth rx bag c =
     (if is_quick (cv_condition_id c)
      then tri_combine (fst (alias_conditions (cv_condition_id c)))
             (map (plain_truth rx bag) (snd (alias_conditions (cv_condition_id c))))
      else plain_truth rx bag c)"

definition rule_truth :: "regex_engine \<Rightarrow> fact_bag \<Rightarrow> triage_rule \<Rightarrow> tri_value" where
  "rule_truth rx bag r = tri_combine (tr_match_mode r) (map (condition_truth rx bag) (effective_conditions r))"

definition rule_tried :: "triage_rule \<Rightarrow> bool" where
  "rule_tried r \<longleftrightarrow> tr_enabled r \<and> effective_conditions r \<noteq> []"

definition rule_matches :: "regex_engine \<Rightarrow> fact_bag \<Rightarrow> triage_rule \<Rightarrow> bool" where
  "rule_matches rx bag r \<longleftrightarrow> rule_tried r \<and> rule_truth rx bag r = TriTrue"

lemma plain_untraced:
  "untraced (snd (plain_condition_matches rx c bag)) = untraced bag"
  "plain_truth rx (untraced bag) c = plain_truth rx bag c"
  using text_values_untraced [of "cv_condition_id c" bag] bag_fact_untraced [of "cv_condition_id c" bag]
  by (auto simp: plain_truth_def plain_condition_matches_def Let_def header_value_untraced text_value_untraced
      split: prod.splits condition_value.splits)

lemma plain_truth_untraced: "plain_truth rx (untraced bag) = plain_truth rx bag"
  by (simp add: plain_untraced fun_eq_iff)

lemma condition_truth_untraced: "condition_truth rx (untraced bag) = condition_truth rx bag"
  by (simp add: condition_truth_def plain_truth_untraced fun_eq_iff)

lemma truth_untraced:
  "condition_truth rx (untraced bag) c = condition_truth rx bag c"
  "rule_truth rx (untraced bag) r = rule_truth rx bag r"
  "rule_matches rx (untraced bag) = rule_matches rx bag"
  by (simp_all add: condition_truth_untraced rule_truth_def rule_matches_def fun_eq_iff)

lemma same_truth:
  assumes "untraced bag = untraced bag'"
  shows "condition_truth rx bag = condition_truth rx bag'" "rule_truth rx bag = rule_truth rx bag'"
    "rule_matches rx bag = rule_matches rx bag'" "plain_truth rx bag = plain_truth rx bag'"
  using assms by (metis truth_untraced(1) ext, metis truth_untraced(2) ext, metis truth_untraced(3),
      metis plain_untraced(2) ext)

text \<open>The loop computes the connective, whatever the traces and wherever it leaves.\<close>

lemma loop_computes:
  assumes "\<And>c bag. c \<in> set cs \<Longrightarrow> untraced bag = untraced bag0 \<Longrightarrow>
      fst (condition_matches_v2 rx c bag) = T c \<and> untraced (snd (condition_matches_v2 rx c bag)) = untraced bag0"
    and "untraced bag = untraced bag0"
  shows "fst (fst (conditions_loop rx mode cs u ts bag)) =
       tri_combine mode ((if u then [TriUnknown] else []) @ map T cs)
     \<and> untraced (snd (conditions_loop rx mode cs u ts bag)) = untraced bag0"
  using assms
proof (induction cs arbitrary: u ts bag)
  case Nil
  then show ?case by (cases mode) (auto simp: tri_all_cases tri_any_cases)
next
  case (Cons c cs)
  obtain v bag' where m: "condition_matches_v2 rx c bag = (v, bag')" by fastforce
  then have v: "v = T c" and bag': "untraced bag' = untraced bag0"
    using Cons.prems(1) [of c bag] Cons.prems(2) by auto
  have ih: "fst (fst (conditions_loop rx mode cs u' ts' bag')) =
       tri_combine mode ((if u' then [TriUnknown] else []) @ map T cs)
     \<and> untraced (snd (conditions_loop rx mode cs u' ts' bag')) = untraced bag0" for u' ts'
    by (rule Cons.IH) (use Cons.prems bag' in auto)
  show ?case
    using ih bag' v by (cases mode; cases v) (auto simp: m tri_all_cases tri_any_cases)
qed

lemma condition_computes:
  "fst (condition_matches_v2 rx c bag) = condition_truth rx bag c
   \<and> untraced (snd (condition_matches_v2 rx c bag)) = untraced bag"
proof (cases "is_quick (cv_condition_id c)")
  case False
  then show ?thesis
    by (simp add: condition_matches_v2.simps condition_truth_def plain_truth_def plain_untraced)
next
  case True
  have plain: "fst (condition_matches_v2 rx d b) = plain_truth rx bag d
      \<and> untraced (snd (condition_matches_v2 rx d b)) = untraced bag"
    if d: "d \<in> set (snd (alias_conditions (cv_condition_id c)))" and b: "untraced b = untraced bag" for d b
    using alias_flat [OF True d] b same_truth(4) [OF b]
    by (simp add: condition_matches_v2.simps plain_untraced plain_truth_def [symmetric])
  let ?loop = "conditions_loop rx (fst (alias_conditions (cv_condition_id c))) (snd (alias_conditions (cv_condition_id c))) False [] bag"
  have "fst (fst ?loop) = tri_combine (fst (alias_conditions (cv_condition_id c)))
        ((if False then [TriUnknown] else []) @ map (plain_truth rx bag) (snd (alias_conditions (cv_condition_id c))))
      \<and> untraced (snd ?loop) = untraced bag"
    by (rule loop_computes) (use plain in auto)
  then show ?thesis using True
    by (simp add: condition_matches_v2.simps [of rx c bag] condition_truth_def case_prod_beta)
qed

lemma evaluation_computes:
  "fst (fst (evaluate_conditions_with_trace rx mode cs bag)) = tri_combine mode (map (condition_truth rx bag) cs)
   \<and> untraced (snd (evaluate_conditions_with_trace rx mode cs bag)) = untraced bag"
proof -
  have "fst (condition_matches_v2 rx c b) = condition_truth rx bag c
      \<and> untraced (snd (condition_matches_v2 rx c b)) = untraced bag" if "untraced b = untraced bag" for c b
    using condition_computes [of rx c b] same_truth(1) [OF that] that by simp
  from loop_computes [OF this refl, where u = False and ts = "[]"] show ?thesis
    by (simp add: evaluate_conditions_with_trace_def)
qed

lemma evaluate_conditions_computes:
  "fst (evaluate_conditions rx mode cs bag) = tri_combine mode (map (condition_truth rx bag) cs)"
  "untraced (snd (evaluate_conditions rx mode cs bag)) = untraced bag"
  using evaluation_computes [of rx mode cs bag] by (auto simp: evaluate_conditions_def split: prod.splits)

lemma resolve_computes:
  "fst (resolve_rule_with_fact_bag rx rules bag) = find (rule_matches rx bag) rules"
proof (induction rules arbitrary: bag)
  case (Cons r rs)
  obtain v bag' where e: "evaluate_conditions rx (tr_match_mode r) (effective_conditions r) bag = (v, bag')" by fastforce
  then have v: "v = rule_truth rx bag r" and b: "untraced bag' = untraced bag"
    using evaluate_conditions_computes [of rx "tr_match_mode r" "effective_conditions r" bag] by (auto simp: rule_truth_def)
  show ?case
    using Cons.IH [of bag'] Cons.IH [of bag] same_truth(3) [OF b] v
    by (auto simp: rule_matches_def rule_tried_def e)
qed simp

section \<open>The dry run\<close>

text \<open>The rules a run looks at: those tried, up to the first that matches.\<close>

definition rules_seen :: "regex_engine \<Rightarrow> fact_bag \<Rightarrow> triage_rule list \<Rightarrow> triage_rule list" where
  "rules_seen rx bag rules =
     (let tried = filter rule_tried rules
      in takeWhile (\<lambda>r. rule_truth rx bag r \<noteq> TriTrue) tried
         @ (case find (\<lambda>r. rule_truth rx bag r = TriTrue) tried of None \<Rightarrow> [] | Some r \<Rightarrow> [r]))"

lemma rules_seen_simps [simp]:
  "rules_seen rx bag [] = []"
  "rules_seen rx bag (r # rs) =
     (if \<not> rule_tried r then rules_seen rx bag rs
      else if rule_truth rx bag r = TriTrue then [r] else r # rules_seen rx bag rs)"
  by (simp_all add: rules_seen_def Let_def)

definition trace_summary :: "rule_trace \<Rightarrow> string \<times> contract_tri_value \<times> bool" where
  "trace_summary t = (rt_rule_id t, rt_result t, rt_matched t)"

definition truth_summary :: "regex_engine \<Rightarrow> fact_bag \<Rightarrow> triage_rule \<Rightarrow> string \<times> contract_tri_value \<times> bool" where
  "truth_summary rx bag r = (tr_rule_id r, to_contract (rule_truth rx bag r), rule_truth rx bag r = TriTrue)"

lemma trace_computes:
  assumes "trace_rules rx rules category ts u bag = ((ts', m, category', u'), bag')"
  shows "map trace_summary ts' = map trace_summary ts @ map (truth_summary rx bag) (rules_seen rx bag rules)"
    and "m = map_option tr_rule_id (find (rule_matches rx bag) rules)"
    and "category' = (case find (rule_matches rx bag) rules of None \<Rightarrow> category | Some r \<Rightarrow> tr_pinned_category r)"
    and "u' \<longleftrightarrow> u \<or> list_ex (\<lambda>r. rule_truth rx bag r = TriUnknown) (rules_seen rx bag rules)"
proof -
  have "map trace_summary ts' = map trace_summary ts @ map (truth_summary rx bag) (rules_seen rx bag rules)
     \<and> m = map_option tr_rule_id (find (rule_matches rx bag) rules)
     \<and> category' = (case find (rule_matches rx bag) rules of None \<Rightarrow> category | Some r \<Rightarrow> tr_pinned_category r)
     \<and> (u' \<longleftrightarrow> u \<or> list_ex (\<lambda>r. rule_truth rx bag r = TriUnknown) (rules_seen rx bag rules))"
    using assms
  proof (induction rules arbitrary: ts u bag)
    case (Cons r rs)
    show ?case
    proof (cases "rule_tried r")
      case False
      then show ?thesis using Cons.IH [of ts u bag] Cons.prems by (auto simp: rule_tried_def rule_matches_def)
    next
      case True
      obtain v cts bag1 where e: "evaluate_conditions_with_trace rx (tr_match_mode r) (effective_conditions r) bag = ((v, cts), bag1)"
        by (metis surj_pair)
      then have v: "v = rule_truth rx bag r" and b: "untraced bag1 = untraced bag"
        using evaluation_computes [of rx "tr_match_mode r" "effective_conditions r" bag] by (auto simp: rule_truth_def)
      have s: "rules_seen rx bag1 rs = rules_seen rx bag rs" "truth_summary rx bag1 = truth_summary rx bag"
        using same_truth(2) [OF b] by (simp_all add: rules_seen_def truth_summary_def fun_eq_iff)
      show ?thesis
      proof (cases "v = TriTrue")
        case tt: True
        then show ?thesis using Cons.prems True v
          by (auto simp: e Let_def is_unknown_def rule_tried_def rule_matches_def trace_summary_def truth_summary_def)
      next
        case False
        then show ?thesis
          using Cons.prems Cons.IH [of _ "u \<or> is_unknown v" bag1] True v s same_truth [OF b]
          by (auto simp: e Let_def is_unknown_def rule_tried_def rule_matches_def trace_summary_def truth_summary_def)
      qed
    qed
  qed auto
  then show "map trace_summary ts' = map trace_summary ts @ map (truth_summary rx bag) (rules_seen rx bag rules)"
    and "m = map_option tr_rule_id (find (rule_matches rx bag) rules)"
    and "category' = (case find (rule_matches rx bag) rules of None \<Rightarrow> category | Some r \<Rightarrow> tr_pinned_category r)"
    and "u' \<longleftrightarrow> u \<or> list_ex (\<lambda>r. rule_truth rx bag r = TriUnknown) (rules_seen rx bag rules)"
    by blast+
qed

lemma evaluate_trace_computes:
  fixes rx i rules fallback bag
  defines "t \<equiv> fst (evaluate_trace rx i rules fallback bag)"
  shows "map trace_summary (dt_rule_traces t) = map (truth_summary rx bag) (rules_seen rx bag rules)"
    and "dt_matched_rule_id t = map_option tr_rule_id (find (rule_matches rx bag) rules)"
    and "dt_resolved_category t = (case find (rule_matches rx bag) rules of None \<Rightarrow> fallback | Some r \<Rightarrow> tr_pinned_category r)"
    and "dt_needs_fact_refresh t \<longleftrightarrow> list_ex (\<lambda>r. rule_truth rx bag r = TriUnknown) (rules_seen rx bag rules)"
proof -
  obtain ts m category u bag' where e: "trace_rules rx rules fallback [] False bag = ((ts, m, category, u), bag')"
    by (metis surj_pair)
  note c = trace_computes [OF e]
  show "map trace_summary (dt_rule_traces t) = map (truth_summary rx bag) (rules_seen rx bag rules)"
    and "dt_matched_rule_id t = map_option tr_rule_id (find (rule_matches rx bag) rules)"
    and "dt_resolved_category t = (case find (rule_matches rx bag) rules of None \<Rightarrow> fallback | Some r \<Rightarrow> tr_pinned_category r)"
    and "dt_needs_fact_refresh t \<longleftrightarrow> list_ex (\<lambda>r. rule_truth rx bag r = TriUnknown) (rules_seen rx bag rules)"
    using c by (simp_all add: t_def evaluate_trace_def e drain_traces_def)
qed

section \<open>Learning more\<close>

definition knows_more :: "tri_value \<Rightarrow> tri_value \<Rightarrow> bool" where
  "knows_more v w \<longleftrightarrow> v = TriUnknown \<or> v = w"

definition crm_known :: "crm_fact_value option \<Rightarrow> tri_value" where
  "crm_known f = (case f of None \<Rightarrow> TriUnknown | Some x \<Rightarrow> cf_value x)"

definition crm_texts_known :: "crm_text_fact_value option \<Rightarrow> string list option" where
  "crm_texts_known f = (case f of None \<Rightarrow> None | Some x \<Rightarrow> if ctf_unknown x then None else Some (ctf_values x))"

definition texts_refine :: "crm_text_fact_value option \<Rightarrow> crm_text_fact_value option \<Rightarrow> bool" where
  "texts_refine f g \<longleftrightarrow> crm_texts_known f = None \<or> crm_texts_known f = crm_texts_known g"

definition crm_refines :: "crm_fact_overrides \<Rightarrow> crm_fact_overrides \<Rightarrow> bool" where
  "crm_refines c d \<longleftrightarrow>
     knows_more (crm_known (co_sender_contact_exists c)) (crm_known (co_sender_contact_exists d))
   \<and> knows_more (crm_known (co_sender_company_exists c)) (crm_known (co_sender_company_exists d))
   \<and> knows_more (crm_known (co_sender_deal_exists c)) (crm_known (co_sender_deal_exists d))
   \<and> texts_refine (co_sender_deal_stages c) (co_sender_deal_stages d)
   \<and> texts_refine (co_sender_deal_pipelines c) (co_sender_deal_pipelines d)"

text \<open>The same message, with a connection, a message id or facts from the CRM that the first bag does not have.\<close>

definition bag_refines :: "fact_bag \<Rightarrow> fact_bag \<Rightarrow> bool" where
  "bag_refines b d \<longleftrightarrow>
     fb_client_id b = fb_client_id d \<and> fb_message b = fb_message d \<and> fb_source_user_id b = fb_source_user_id d
   \<and> fb_provider b = fb_provider d \<and> fb_subjects b = fb_subjects d
   \<and> (fb_conn b = None \<or> fb_conn b = fb_conn d) \<and> (fb_message_id b = None \<or> fb_message_id b = fb_message_id d)
   \<and> crm_refines (fb_crm b) (fb_crm d)"

lemma crm_fact_answer_known: "fst (crm_fact_answer f) = crm_known f"
  by (simp add: crm_fact_answer_def crm_known_def split: option.splits)

lemma crm_text_tri_known:
  "fst (case f of None \<Rightarrow> (TriUnknown, FactNotChecked, d) | Some x \<Rightarrow> (crm_text_tri_value x, ctf_source x, ctf_detail x))
     = (case crm_texts_known f of None \<Rightarrow> TriUnknown | Some vs \<Rightarrow> tri_of (vs \<noteq> []))"
  by (simp add: crm_texts_known_def crm_text_tri_value_def tri_of_def split: option.splits)

lemma knows_more_refl [simp]: "knows_more v v" "knows_more TriUnknown v"
  by (simp_all add: knows_more_def)

lemma fact_answer_refines:
  assumes r: "bag_refines b d"
  shows "knows_more (fst (fact_answer_of b cid)) (fst (fact_answer_of d cid))"
proof -
  have same: "fb_client_id b = fb_client_id d" "fb_message b = fb_message d" "fb_source_user_id b = fb_source_user_id d"
    "fb_provider b = fb_provider d" "fb_subjects b = fb_subjects d"
    using r by (simp_all add: bag_refines_def)
  have conn: "knows_more (case fb_conn b of None \<Rightarrow> TriUnknown | Some conn \<Rightarrow> f conn)
      (case fb_conn d of None \<Rightarrow> TriUnknown | Some conn \<Rightarrow> f conn)" for f
    using r by (auto simp: bag_refines_def)
  have work: "knows_more (case fb_conn b of None \<Rightarrow> TriUnknown | Some conn \<Rightarrow>
        (case fb_message_id b of None \<Rightarrow> TriUnknown | Some m \<Rightarrow> f conn m))
      (case fb_conn d of None \<Rightarrow> TriUnknown | Some conn \<Rightarrow>
        (case fb_message_id d of None \<Rightarrow> TriUnknown | Some m \<Rightarrow> f conn m))" for f
    using r by (auto simp: bag_refines_def split: option.split)
  have crm: "knows_more (crm_known (co_sender_contact_exists (fb_crm b))) (crm_known (co_sender_contact_exists (fb_crm d)))"
    "knows_more (crm_known (co_sender_company_exists (fb_crm b))) (crm_known (co_sender_company_exists (fb_crm d)))"
    "knows_more (crm_known (co_sender_deal_exists (fb_crm b))) (crm_known (co_sender_deal_exists (fb_crm d)))"
    using r by (simp_all add: bag_refines_def crm_refines_def)
  have texts: "knows_more (case crm_texts_known f of None \<Rightarrow> TriUnknown | Some vs \<Rightarrow> tri_of (vs \<noteq> []))
      (case crm_texts_known g of None \<Rightarrow> TriUnknown | Some vs \<Rightarrow> tri_of (vs \<noteq> []))" if "texts_refine f g" for f g
    using that by (auto simp: texts_refine_def)
  have deals: "texts_refine (co_sender_deal_stages (fb_crm b)) (co_sender_deal_stages (fb_crm d))"
    "texts_refine (co_sender_deal_pipelines (fb_crm b)) (co_sender_deal_pipelines (fb_crm d))"
    using r by (simp_all add: bag_refines_def crm_refines_def)
  show ?thesis
    by (cases cid) (simp_all add: answer_values same conn work crm crm_fact_answer_known crm_text_fact_def
        crm_text_tri_known texts [OF deals(1)] texts [OF deals(2)] cong: option.case_cong)
qed

lemma text_values_known:
  "fst (text_values CrmSenderDealStage b) = crm_texts_known (co_sender_deal_stages (fb_crm b))"
  "fst (text_values CrmSenderDealPipeline b) = crm_texts_known (co_sender_deal_pipelines (fb_crm b))"
  by (simp_all add: record_crm_text_trace_def crm_texts_known_def split: option.splits)

lemma text_value_refines: "bag_refines b d \<Longrightarrow> text_value b cid = text_value d cid"
  by (cases cid) (simp_all add: bag_refines_def)

lemma bool_op_refines: "knows_more v w \<Longrightarrow> knows_more (bool_op_matches v c) (bool_op_matches w c)"
  by (auto simp: knows_more_def bool_op_matches_def)

lemma texts_match_refines:
  "vs = None \<or> vs = ws \<Longrightarrow> knows_more (text_values_condition_matches rx vs c) (text_values_condition_matches rx ws c)"
  by (auto simp: knows_more_def text_values_condition_matches_def)

lemma plain_refines:
  assumes r: "bag_refines b d"
  shows "knows_more (plain_truth rx b c) (plain_truth rx d c)"
proof -
  have same: "fb_message b = fb_message d" "\<And>n. header_value b n = header_value d n"
    using r by (simp_all add: bag_refines_def header_value_def)
  have fact: "knows_more (fst (bag_fact cid b)) (fst (bag_fact cid d))" for cid
    using fact_answer_refines [OF r] by (simp add: bag_fact_def split: prod.splits) (metis fst_conv)
  have deal: "fst (text_values cid b) = None \<or> fst (text_values cid b) = fst (text_values cid d)"
    if "cid = CrmSenderDealStage \<or> cid = CrmSenderDealPipeline" for cid
    using r that by (auto simp: bag_refines_def crm_refines_def texts_refine_def text_values_known simp del: text_values.simps)
  show ?thesis
    using bool_op_refines [OF fact] texts_match_refines [OF deal] same text_value_refines [OF r]
    by (auto simp: plain_truth_def plain_condition_matches_def Let_def case_prod_beta split: condition_value.splits)
qed

lemma combine_refines:
  assumes "list_all2 knows_more vs ws"
  shows "knows_more (tri_combine mode vs) (tri_combine mode ws)"
proof -
  have "knows_more (foldr tri_and vs TriTrue) (foldr tri_and ws TriTrue)"
    using assms
  proof (induction rule: list_all2_induct)
    case (Cons v vs w ws)
    then show ?case by (cases v; cases w) (auto simp: knows_more_def)
  qed (simp add: knows_more_def)
  moreover have "knows_more (foldr tri_or vs TriFalse) (foldr tri_or ws TriFalse)"
    using assms
  proof (induction rule: list_all2_induct)
    case (Cons v vs w ws)
    then show ?case by (cases v; cases w) (auto simp: knows_more_def)
  qed (simp add: knows_more_def)
  ultimately show ?thesis by (cases mode) simp_all
qed

lemma condition_refines:
  assumes "bag_refines b d"
  shows "knows_more (condition_truth rx b c) (condition_truth rx d c)"
  using plain_refines [OF assms]
  by (auto simp: condition_truth_def list_all2_map1 list_all2_map2 list_all2_same intro!: combine_refines)

lemma rule_refines:
  assumes "bag_refines b d"
  shows "knows_more (rule_truth rx b r) (rule_truth rx d r)"
  using condition_refines [OF assms]
  by (auto simp: rule_truth_def list_all2_map1 list_all2_map2 list_all2_same intro!: combine_refines)

lemma decided_stays:
  assumes r: "bag_refines b d" and known: "\<not> list_ex (\<lambda>r. rule_truth rx b r = TriUnknown) (rules_seen rx b rules)"
  shows "find (rule_matches rx d) rules = find (rule_matches rx b) rules \<and> rules_seen rx d rules = rules_seen rx b rules
    \<and> (\<forall>r\<in>set (rules_seen rx b rules). rule_truth rx d r = rule_truth rx b r)"
  using known
proof (induction rules)
  case (Cons a rs)
  have same: "rule_truth rx d a = rule_truth rx b a" if "rule_truth rx b a \<noteq> TriUnknown"
    using rule_refines [OF r, of rx a] that by (simp add: knows_more_def)
  show ?case
    using Cons same by (cases "rule_tried a"; cases "rule_truth rx b a") (simp_all add: rule_matches_def)
qed simp

section \<open>Facts from the CRM\<close>

lemma plain_without_crm:
  assumes "\<not> needs_crm (cv_condition_id c)"
  shows "plain_truth rx (b\<lparr>fb_crm := crm\<rparr>) c = plain_truth rx b c"
proof -
  let ?b = "b\<lparr>fb_crm := crm\<rparr>"
  have fact: "fst (fact_answer_of ?b cid) = fst (fact_answer_of b cid)" if "\<not> needs_crm cid" for cid
    using that by (cases cid) (simp_all add: needs_crm_def answer_values cong: option.case_cong)
  have texts: "text_value ?b cid = text_value b cid" for cid by (cases cid) simp_all
  have message: "fb_message ?b = fb_message b" by simp
  have header: "header_value ?b n = header_value b n" for n by (simp add: header_value_def)
  have no: "cv_condition_id c \<noteq> CrmSenderDealStage" "cv_condition_id c \<noteq> CrmSenderDealPipeline"
    using assms by (auto simp: needs_crm_def)
  have bag: "fst (bag_fact (cv_condition_id c) ?b) = fst (bag_fact (cv_condition_id c) b)"
    using fact [OF assms] by (simp add: bag_fact_def case_prod_beta)
  show ?thesis
    unfolding plain_truth_def plain_condition_matches_def Let_def case_prod_beta
    by (cases "cv_value c") (simp_all only: no simp_thms if_False if_distrib [of fst] fst_conv bag texts header
        condition_value.case message)
qed

definition quick_needs_crm :: "condition_id \<Rightarrow> bool" where
  "quick_needs_crm cid \<longleftrightarrow> cid = QuickKnownCustomer \<or> cid = QuickNewSalesLead"

lemma condition_without_crm:
  assumes "\<not> needs_crm (cv_condition_id c)" "\<not> quick_needs_crm (cv_condition_id c)"
  shows "condition_truth rx (b\<lparr>fb_crm := crm\<rparr>) c = condition_truth rx b c"
proof (cases "is_quick (cv_condition_id c)")
  case True
  then have "\<forall>d\<in>set (snd (alias_conditions (cv_condition_id c))). \<not> needs_crm (cv_condition_id d)"
    using assms by (auto simp: is_quick_def quick_needs_crm_def alias_simps needs_crm_def)
  then have m: "map (plain_truth rx (b\<lparr>fb_crm := crm\<rparr>)) (snd (alias_conditions (cv_condition_id c)))
      = map (plain_truth rx b) (snd (alias_conditions (cv_condition_id c)))"
    using plain_without_crm by (simp cong: map_cong)
  show ?thesis by (simp only: condition_truth_def m True if_True)
qed (use assms plain_without_crm in \<open>simp add: condition_truth_def\<close>)

lemma sales_lead_not_true:
  assumes "fb_crm b = no_crm_facts" "cv_condition_id c = QuickNewSalesLead"
  shows "condition_truth rx b c \<noteq> TriTrue"
proof -
  have "plain_truth rx b \<lparr>cv_condition_id = CrmSenderContactExists, cv_op = OpIsFalse, cv_value = ValueEmpty\<rparr> = TriUnknown"
    using assms by (simp add: plain_truth_def plain_condition_matches_def is_message_text_def bag_fact_def
        crm_fact_answer_def no_crm_facts_def bool_op_matches_def)
  then have "TriUnknown \<in> set (map (plain_truth rx b) (snd (alias_conditions QuickNewSalesLead)))"
    by (auto simp: alias_simps)
  then show ?thesis using all_true assms by (fastforce simp: condition_truth_def is_quick_def alias_sales_lead simp del: foldr.simps)
qed

end
