(* ===== verification/Triage_Invariant.thy ===== *)
theory Triage_Invariant
  imports Triage_Store Triage_Engine
begin

text \<open>
  What the tables of the triage keep: the fallback category stays active and protected once it has been written, and every
  rule that is not deleted files under an active category. The steps are the operations of the store, and whatever else
  changes the database without touching the two tables.
\<close>

section \<open>The invariant\<close>

definition category_kept :: "(string \<times> string, category_row) hash_map \<Rightarrow> string \<times> string \<Rightarrow> bool" where
  "category_kept C k \<longleftrightarrow> (case hm_get C k of None \<Rightarrow> False | Some r \<Rightarrow> \<not> cat_deleted r)"

definition filed_ok ::
    "string \<Rightarrow> (string \<times> string, rule_row) hash_map \<Rightarrow> (string \<times> string, category_row) hash_map \<Rightarrow> bool" where
  "filed_ok c R C \<longleftrightarrow> hm_wf R
     \<and> (\<exists>r. hm_get C (c, FALLBACK_CATEGORY_ID) = Some r \<and> cat_is_system r \<and> \<not> cat_deleted r)
     \<and> (\<forall>i r. hm_get R (c, i) = Some r \<longrightarrow> \<not> rl_deleted r \<longrightarrow> category_kept C (c, tr_pinned_category (rl_rule r)))"

abbreviation triage_ok :: "string \<Rightarrow> 'x triage_tables_scheme db \<Rightarrow> bool" where
  "triage_ok c db \<equiv> filed_ok c (rules_of db) (categories_of db)"

lemma category_is_active_kept: "category_is_active db c i \<longleftrightarrow> category_kept (categories_of db) (c, i)"
  by (simp add: category_is_active_def category_kept_def)

lemma filed_wf: "filed_ok c R C \<Longrightarrow> hm_wf R"
  and filed_fallback: "filed_ok c R C \<Longrightarrow>
    \<exists>r. hm_get C (c, FALLBACK_CATEGORY_ID) = Some r \<and> cat_is_system r \<and> \<not> cat_deleted r"
  and filed_pinned: "filed_ok c R C \<Longrightarrow> hm_get R (c, i) = Some r \<Longrightarrow> \<not> rl_deleted r
    \<Longrightarrow> category_kept C (c, tr_pinned_category (rl_rule r))"
  by (auto simp: filed_ok_def)

lemma filed_put_rule:
  assumes "filed_ok c R C" and "\<lbrakk>fst k = c; \<not> rl_deleted r\<rbrakk> \<Longrightarrow> category_kept C (c, tr_pinned_category (rl_rule r))"
  shows "filed_ok c (hm_insert k r R) C"
  using assms by (auto simp: filed_ok_def)

lemma filed_put_category:
  assumes "filed_ok c R C" and "\<not> cat_deleted r" and "k = (c, FALLBACK_CATEGORY_ID) \<Longrightarrow> cat_is_system r"
  shows "filed_ok c R (hm_insert k r C)"
  using assms by (auto simp: filed_ok_def category_kept_def)

lemma filed_delete_category:
  assumes "filed_ok c R C" and "k = (c, FALLBACK_CATEGORY_ID) \<Longrightarrow> False"
    and "\<And>i r. fst k = c \<Longrightarrow> hm_get R (c, i) = Some r \<Longrightarrow> \<not> rl_deleted r \<Longrightarrow> tr_pinned_category (rl_rule r) \<noteq> snd k"
  shows "filed_ok c R (hm_insert k r C)"
  using assms by (fastforce simp: filed_ok_def category_kept_def)

lemma put_simps [simp]:
  "rules_of (put_rule k r db) = hm_insert k r (rules_of db)" "categories_of (put_rule k r db) = categories_of db"
  "rules_of (put_category k cat db) = rules_of db" "categories_of (put_category k cat db) = hm_insert k cat (categories_of db)"
  by (simp_all add: put_rule_def put_category_def)

section \<open>Every operation keeps it\<close>

lemma mutate_triage:
  assumes "triage_ok c db" and "\<And>db1. w db = (Inr (), db1) \<Longrightarrow> triage_ok c db1"
  shows "triage_ok c (snd (mutate req w db))"
proof -
  obtain r db' where m: "mutate req w db = (r, db')" by fastforce
  have "\<exists>db1. db_domain db' = db_domain db1 \<and> triage_ok c db1"
    using mutate_domain [OF m] assms by blast
  then show ?thesis by (auto simp: m)
qed

lemma update_rule_ok:
  assumes ok: "triage_ok c db" and k: "k = (c', i)"
    and f: "\<And>r. c' = c \<Longrightarrow> hm_get (rules_of db) k = Some r \<Longrightarrow> \<not> rl_deleted (f r)
        \<Longrightarrow> category_kept (categories_of db) (c, tr_pinned_category (rl_rule (f r)))"
  shows "triage_ok c (update_rule k f db)"
  using assms by (auto simp: update_rule_def split: option.split intro!: filed_put_rule)

lemma category_exists_kept:
  assumes "triage_ok c db" and "category_exists db c i"
  shows "category_kept (categories_of db) (c, i)"
proof -
  obtain r where r: "hm_get (categories_of db) (c, FALLBACK_CATEGORY_ID) = Some r" "\<not> cat_deleted r"
    using filed_fallback [OF assms(1)] by blast
  then have "((c, FALLBACK_CATEGORY_ID), r) \<in> set (filter (\<lambda>(k, r). fst k = c \<and> \<not> cat_deleted r) (categories_of db))"
    by (auto dest: map_of_SomeD)
  then have "filter (\<lambda>(k, r). fst k = c \<and> \<not> cat_deleted r) (categories_of db) \<noteq> []" by force
  then show ?thesis
    using assms(2) by (simp add: category_exists_def category_is_active_kept split: if_splits)
qed

lemma upsert_rule_ok:
  assumes ok: "triage_ok c db"
  shows "triage_ok c (snd (upsert_rule render ctx rule db))"
proof -
  have "triage_ok c (snd (mutate req (upsert_rule_write (rm_client_id ctx) rule t) db))"
    if "category_exists db (rm_client_id ctx) (tr_pinned_category rule)" for req t
    by (rule mutate_triage [OF ok])
       (use ok that category_exists_kept [OF ok] in \<open>auto simp: upsert_rule_write_def intro!: filed_put_rule\<close>)
  then show ?thesis using ok by (auto simp: upsert_rule_def split: sum.split)
qed

lemma act_on_rule_keeps [simp]: "rl_rule (act_on_rule a r) = rl_rule r"
  by (cases a) simp_all

lemma act_on_rule_live: "\<not> rl_deleted (act_on_rule a r) \<Longrightarrow> \<not> rl_deleted r"
  by (cases a) simp_all

lemma rule_action_ok:
  assumes ok: "triage_ok c db"
  shows "triage_ok c (snd (apply_rule_action render ctx i a db))"
proof -
  have "triage_ok c (snd (mutate req (rule_action_write client i a t) db))" for req client t
    by (rule mutate_triage [OF ok])
       (use filed_pinned [OF ok] act_on_rule_live in \<open>auto simp: rule_action_write_def intro!: update_rule_ok [OF ok]\<close>)
  then show ?thesis using ok by (simp add: apply_rule_action_def split: option.split)
qed

lemma cleaned_rule_simps [simp]:
  "tr_pinned_category (cleaned_rule rule) = tr_pinned_category rule"
  "effective_conditions (cleaned_rule rule) = effective_conditions rule"
  by (auto simp: cleaned_rule_def effective_conditions_def)

lemma rule_action_keeps_rule:
  assumes row: "hm_get (rules_of db) k = Some row"
  shows "\<exists>row'. hm_get (rules_of (snd (apply_rule_action render ctx i a db))) k = Some row' \<and> rl_rule row' = rl_rule row"
proof -
  have "\<exists>row'. hm_get (rules_of (snd (mutate req (rule_action_write client i a t) db))) k = Some row' \<and> rl_rule row' = rl_rule row"
    for req client t
    using mutate_domain [of req "rule_action_write client i a t" db "fst (mutate req (rule_action_write client i a t) db)"
        "snd (mutate req (rule_action_write client i a t) db)"] row
    by (auto simp: rule_action_write_def update_rule_def split: option.splits)
  then show ?thesis using row by (simp add: apply_rule_action_def split: option.split)
qed

text \<open>A row of the clean-up, and what is known of the rows still to come.\<close>

definition candidates_ok :: "string \<Rightarrow> 'x triage_tables_scheme db \<Rightarrow> ((string \<times> string) \<times> triage_rule) list \<Rightarrow> bool" where
  "candidates_ok c db rows \<longleftrightarrow>
     (\<forall>(k, rule)\<in>set rows. \<forall>i r. k = (c, i) \<longrightarrow> hm_get (rules_of db) k = Some r \<longrightarrow> \<not> rl_deleted r
        \<longrightarrow> category_kept (categories_of db) (c, tr_pinned_category rule))"

lemma candidates_later:
  assumes "candidates_ok c db rows" and "categories_of db1 = categories_of db"
    and "\<And>k r1. hm_get (rules_of db1) k = Some r1 \<Longrightarrow> \<exists>r. hm_get (rules_of db) k = Some r \<and> rl_deleted r = rl_deleted r1"
  shows "candidates_ok c db1 rows"
  unfolding candidates_ok_def
proof (clarify)
  fix i rule r1
  assume rule: "((c, i), rule) \<in> set rows" and r1: "hm_get (rules_of db1) (c, i) = Some r1" "\<not> rl_deleted r1"
  obtain r where "hm_get (rules_of db) (c, i) = Some r" "\<not> rl_deleted r" using assms(3) [OF r1(1)] r1(2) by auto
  then show "category_kept (categories_of db1) (c, tr_pinned_category rule)"
    using assms(1,2) rule by (force simp: candidates_ok_def)
qed

lemma cleanup_one_ok:
  assumes ok: "triage_ok c db" and rows: "candidates_ok c db ((k, rule) # rows)"
  shows "triage_ok c (snd (cleanup_one render t k rule db)) \<and> candidates_ok c (snd (cleanup_one render t k rule db)) rows"
proof -
  let ?f = "\<lambda>r. r\<lparr>rl_rule := cleaned_rule rule, rl_updated_at_ms := t\<rparr>"
  let ?dw = "cleanup_write k (cleaned_rule rule) t"
  have head: "category_kept (categories_of db) (c, tr_pinned_category rule)"
    if "k = (c, i)" "hm_get (rules_of db) k = Some r" "\<not> rl_deleted r" for i r
    using rows that by (simp add: candidates_ok_def)
  have tail: "candidates_ok c db rows" using rows by (simp add: candidates_ok_def)
  have ok1: "triage_ok c (update_rule k ?f db)"
    by (rule update_rule_ok [OF ok, of _ "fst k" "snd k"]) (use head in \<open>auto simp: prod_eq_iff\<close>)
  have tail1: "candidates_ok c (update_rule k ?f db) rows"
    by (rule candidates_later [OF tail]) (auto simp: update_rule_def split: option.splits if_splits)
  have "triage_ok c (snd (mutate req ?dw db)) \<and> candidates_ok c (snd (mutate req ?dw db)) rows" for req
    using mutate_domain [of req ?dw db "fst (mutate req ?dw db)" "snd (mutate req ?dw db)"] ok tail ok1 tail1
    by (auto simp: candidates_ok_def cleanup_write_def)
  then show ?thesis using ok tail by (simp add: cleanup_one_def split: sum.split)
qed

lemma cleanup_rows_ok:
  assumes "triage_ok c db" and "candidates_ok c db rows"
  shows "triage_ok c (snd (cleanup_rows render t rows n db))"
  using assms
proof (induction rows arbitrary: n db)
  case (Cons row rows)
  obtain k rule where row: "row = (k, rule)" by fastforce
  obtain r db' where o: "cleanup_one render t k rule db = (r, db')" by fastforce
  have "triage_ok c db' \<and> candidates_ok c db' rows"
    using cleanup_one_ok [OF Cons.prems(1), of k rule rows render t] Cons.prems(2) by (simp add: row o)
  moreover have "candidates_ok c db rows" using Cons.prems(2) by (simp add: candidates_ok_def)
  ultimately show ?case using Cons by (simp add: row o split: sum.split)
qed simp

lemma cleanup_ok:
  assumes ok: "triage_ok c db"
  shows "triage_ok c (snd (cleanup_legacy_rule_json render t db))"
proof -
  have "candidates_ok c db (legacy_cleanup_candidates db)"
    unfolding candidates_ok_def legacy_cleanup_candidates_def
  proof (clarsimp)
    fix i row r
    assume row: "((c, i), row) \<in> set (rules_of db)" and r: "hm_get (rules_of db) (c, i) = Some r" "\<not> rl_deleted r"
    have "hm_get (rules_of db) (c, i) = Some row" using row filed_wf [OF ok] by (simp add: hm_get_iff)
    then show "category_kept (categories_of db) (c, tr_pinned_category (rl_rule row))"
      using r filed_pinned [OF ok, of i r] by simp
  qed
  from cleanup_rows_ok [OF ok this] show ?thesis by (simp add: cleanup_legacy_rule_json_def)
qed

lemma write_category_ok:
  assumes ok: "triage_ok c db"
  shows "triage_ok c (snd (write_category render client actor cat key t db))"
  unfolding write_category_def
proof (rule mutate_triage [OF ok])
  fix db1 assume w: "write_category_tx client cat t db = (Inr (), db1)"
  obtain r where "hm_get (categories_of db) (c, FALLBACK_CATEGORY_ID) = Some r" "cat_is_system r"
    using filed_fallback [OF ok] by blast
  with w ok show "triage_ok c db1"
    by (auto simp: write_category_tx_def category_row_of_def intro!: filed_put_category)
qed

lemma seed_ok: "triage_ok c db \<Longrightarrow> triage_ok c (snd (seed_categories render client known t cats db))"
proof (induction cats arbitrary: db)
  case (Cons cat cats)
  obtain r db' where w: "write_category render client ''system_seed'' cat (''seed:'' @ cr_category_id cat) t db = (r, db')"
    by fastforce
  with write_category_ok [OF Cons.prems, of render client "''system_seed''" cat "''seed:'' @ cr_category_id cat" t]
  have "triage_ok c db'" by simp
  then have "triage_ok c (snd (seed_categories render client known t cats db'))" "triage_ok c (snd (seed_categories render client known t cats db))"
    using Cons by blast+
  then show ?case using \<open>triage_ok c db'\<close> by (simp only: seed_categories.simps w prod.case) (simp split: sum.split)
qed simp

lemma list_categories_ok:
  assumes "triage_ok c db"
  shows "triage_ok c (snd (list_categories render client t db))"
proof -
  let ?known = "map (\<lambda>(k, _). snd k) (filter (\<lambda>(k, _). fst k = client) (categories_of db))"
  obtain r db' where e: "seed_categories render client ?known t DEFAULT_CATEGORIES db = (r, db')" by fastforce
  with seed_ok [OF assms, of render client ?known t DEFAULT_CATEGORIES] have "triage_ok c db'" by simp
  then show ?thesis by (simp add: list_categories_def Let_def e split: sum.split)
qed

lemma upsert_category_ok:
  "triage_ok c db \<Longrightarrow> triage_ok c (snd (upsert_category render client actor cat key t db))"
  by (simp add: upsert_category_def write_category_ok split: sum.split)

lemma create_category_ok:
  assumes ok: "triage_ok c db"
  shows "triage_ok c (snd (upsert_category_with_policy render client actor cat policy key t db))"
proof -
  have "triage_ok c (snd (mutate req (create_category_write client cat' p t) db))" for req cat' p
  proof (rule mutate_triage [OF ok])
    fix db1 assume "create_category_write client cat' p t db = (Inr (), db1)"
    then show "triage_ok c db1"
      using ok filed_fallback [OF ok]
      by (auto simp: create_category_write_def write_policy_tx_def category_row_of_def
          split: if_splits intro!: filed_put_category)
  qed
  then show ?thesis using ok by (simp add: upsert_category_with_policy_def split: sum.split)
qed

lemma delete_category_ok:
  assumes ok: "triage_ok c db"
  shows "triage_ok c (snd (delete_category client actor i key t db))"
proof -
  have "triage_ok c (snd (mutate req (delete_category_write client i t) db))"
    if cat: "category_by_id db client i = Some cat" "\<not> cr_is_system cat" and free: "pinned_by db client i = 0" for req cat
  proof (rule mutate_triage [OF ok])
    fix db1 assume w: "delete_category_write client i t db = (Inr (), db1)"
    obtain r where r: "hm_get (categories_of db) (client, i) = Some r" "\<not> cat_is_system r"
      using cat by (auto simp: category_by_id_def category_of_row_def split: option.splits if_splits)
    have "tr_pinned_category (rl_rule rr) \<noteq> i"
      if "hm_get (rules_of db) (client, j) = Some rr" "\<not> rl_deleted rr" for j rr
      using free map_of_SomeD [OF that(1)] that(2) by (auto simp: pinned_by_def filter_empty_conv)
    then show "triage_ok c db1"
      using w r ok filed_fallback [OF ok] by (auto simp: delete_category_write_def intro!: filed_delete_category)
  qed
  then show ?thesis using ok by (simp add: delete_category_def split: option.split)
qed

section \<open>Histories\<close>

inductive triage_step :: "'x triage_tables_scheme db \<Rightarrow> 'x triage_tables_scheme db \<Rightarrow> bool" where
  UpsertRule: "triage_step db (snd (upsert_rule render ctx rule db))"
| RuleAction: "triage_step db (snd (apply_rule_action render ctx i a db))"
| CleanUp: "triage_step db (snd (cleanup_legacy_rule_json render t db))"
| ListCategories: "triage_step db (snd (list_categories render client t db))"
| UpsertCategory: "triage_step db (snd (upsert_category render client actor cat key t db))"
| CreateCategory: "triage_step db (snd (upsert_category_with_policy render client actor cat policy key t db))"
| DeleteCategory: "triage_step db (snd (delete_category client actor i key t db))"
| Elsewhere: "rules_of db' = rules_of db \<Longrightarrow> categories_of db' = categories_of db \<Longrightarrow> triage_step db db'"

text \<open>
  The histories of a client's triage start with the first listing of its categories, before the client has a rule or a
  category and before the keys of the seeds are used; what other clients and the rest of the application have written by
  then does not matter.
\<close>

definition untouched :: "string \<Rightarrow> 'x triage_tables_scheme db \<Rightarrow> bool" where
  "untouched client db \<longleftrightarrow> spine_ok (db_receipts db) \<and> hm_wf (rules_of db)
     \<and> (\<forall>i. hm_get (rules_of db) (client, i) = None) \<and> (\<forall>i. hm_get (categories_of db) (client, i) = None)
     \<and> (\<forall>c \<in> set DEFAULT_CATEGORIES. \<not> applied_key_taken db client (''seed:'' @ cr_category_id c))"

inductive triage_reachable :: "string \<Rightarrow> 'x triage_tables_scheme db \<Rightarrow> bool" for client where
  Seeded: "untouched client db0 \<Longrightarrow> triage_reachable client (snd (list_categories render client t db0))"
| Later: "triage_reachable client db \<Longrightarrow> triage_step db db' \<Longrightarrow> triage_reachable client db'"

lemma triage_writes_safe [simp]:
  "spine_safe (\<lambda>_. write_category_tx client cat t)" "spine_safe (\<lambda>_. upsert_rule_write client rule t)"
  "spine_safe (\<lambda>_. delete_category_write client i t)"
  by (auto simp: spine_safe_def write_category_tx_def upsert_rule_write_def delete_category_write_def put_category_def
      put_rule_def split: option.splits)

lemma seeded_ok:
  assumes new: "untouched client db"
  shows "triage_ok client (snd (list_categories render client t db))"
proof -
  obtain fb nt where cats: "DEFAULT_CATEGORIES = [fb, nt]" "cr_category_id fb = FALLBACK_CATEGORY_ID" "cr_is_system fb"
    by (rule that [of "hd DEFAULT_CATEGORIES" "DEFAULT_CATEGORIES ! 1"]) (simp_all add: DEFAULT_CATEGORIES_def)
  let ?row = "put_category (client, FALLBACK_CATEGORY_ID) (category_row_of fb True t) db"
  let ?seed = "''seed:'' @ cr_category_id fb"
  obtain r db1 where w: "write_category render client ''system_seed'' fb ?seed t db = (r, db1)" by fastforce
  have tx: "write_category_tx client fb t db = (Inr (), ?row)"
    using new cats(2,3) by (simp add: write_category_tx_def untouched_def)
  define req where "req = category_request client (cr_category_id fb) ''upsert'' ''system_seed'' System
      (Some (render (CategoryPayload fb))) ?seed t"
  have m: "mutate req (write_category_tx client fb t) db = (r, db1)"
    using w by (simp add: write_category_def req_def)
  have e: "mq_expected_revision req = None" "\<not> applied_key_taken db (mq_client_id req) (mq_idempotency_key req)"
    using new list.set_intros(1) [of fb "[nt]"] by (auto simp: req_def category_request_def untouched_def simp flip: cats(1))
  have sp: "spine_ok (db_receipts db)" using new by (simp add: untouched_def)
  obtain i n db' where "mutate req (write_category_tx client fb t) db = (Inr (MutationApplied i n), db')"
      "db_domain db' = db_domain ?row"
    using mutate_fresh [OF triage_writes_safe(1) sp e tx] by blast
  with m have "\<exists>i n. r = Inr (MutationApplied i n) \<and> db_domain db1 = db_domain ?row" by (metis prod.inject)
  then obtain i n where r: "r = Inr (MutationApplied i n)" and d: "db_domain db1 = db_domain ?row" by blast
  have "triage_ok client db1"
    using new by (simp add: d untouched_def filed_ok_def category_row_of_def put_category_def)
  moreover have "seed_categories render client [] t DEFAULT_CATEGORIES db = seed_categories render client [] t [nt] db1"
    unfolding cats(1) by (simp only: seed_categories.simps(2) [of _ _ _ _ fb] w prod.case r sum.case if_False list.set empty_iff)
  ultimately have "triage_ok client (snd (seed_categories render client [] t DEFAULT_CATEGORIES db))"
    using seed_ok [of client db1 render client "[]" t "[nt]"] by metis
  moreover have "filter (\<lambda>(k, _). fst k = client) (categories_of db) = []"
    using new by (fastforce simp: untouched_def filter_empty_conv map_of_eq_None_iff image_iff)
  ultimately show ?thesis
    by (auto simp: list_categories_def Let_def split: prod.split sum.split)
qed

lemma triage_step_ok: "triage_step db db' \<Longrightarrow> triage_ok c db \<Longrightarrow> triage_ok c db'"
  by (induction rule: triage_step.induct)
     (simp_all add: upsert_rule_ok rule_action_ok cleanup_ok list_categories_ok upsert_category_ok create_category_ok
        delete_category_ok)

lemma triage_reachable_ok: "triage_reachable c db \<Longrightarrow> triage_ok c db"
  by (induction rule: triage_reachable.induct) (auto intro: seeded_ok triage_step_ok)

lemma active_rule_kept:
  assumes ok: "triage_ok c db" and r: "r \<in> set (active_rules db c)"
  shows "category_is_active db c (tr_pinned_category r)"
proof -
  obtain i row where "((c, i), row) \<in> set (rules_of db)" "\<not> rl_deleted row" "tr_pinned_category r = tr_pinned_category (rl_rule row)"
    using r by (auto simp: active_rules_def list_active_rules_def)
  then show ?thesis
    using filed_pinned [OF ok, of i row] filed_wf [OF ok] by (simp add: hm_get_iff category_is_active_kept)
qed

section \<open>The clean-up at start\<close>

lemma cleanup_rows_fail:
  assumes "(k, rule) \<in> set rows" and "tr_conditions rule \<noteq> []" and "validate_rule (cleaned_rule rule) = Inl e"
  shows "\<exists>e'. fst (cleanup_rows render t rows n db) = Inl e'"
  using assms(1)
proof (induction rows arbitrary: n db)
  case (Cons row rows)
  obtain k' rule' where row: "row = (k', rule')" by fastforce
  show ?case
  proof (cases "(k, rule) = row")
    case True
    then show ?thesis using assms(2,3) by (auto simp: cleanup_one_def)
  next
    case False
    with Cons.prems have "(k, rule) \<in> set rows" by simp
    from Cons.IH [OF this] show ?thesis
      by (cases "cleanup_one render t k' rule' db"; cases "fst (cleanup_one render t k' rule' db)") (auto simp: row)
  qed
qed simp

lemma stored_rule_stops_start:
  assumes row: "hm_get (rules_of db) k = Some row" and rule: "tr_conditions_v2 (rl_rule row) = []" "c \<in> set (tr_conditions (rl_rule row))"
    and c: "validate_legacy_condition c = Inr ()" "upgrade_refused c"
  shows "\<exists>e. fst (run_post_migration_cleanups render t db) = Inl e"
proof -
  have "validate_condition_v2 (upgrade_condition c) \<noteq> Inr ()"
    using upgraded_condition_valid [OF c(1)] c(2) by simp
  then have "validate_rule (cleaned_rule (rl_rule row)) \<noteq> Inr ()"
    using rule unfolding validate_rule_ok by (auto simp: cleaned_rule_def effective_conditions_def)
  then obtain e where e: "validate_rule (cleaned_rule (rl_rule row)) = Inl e"
    by (metis old.unit.exhaust sum.exhaust)
  have ne: "tr_conditions (rl_rule row) \<noteq> []" using rule(2) by auto
  have "(k, rl_rule row) \<in> set (legacy_cleanup_candidates db)"
    using map_of_SomeD [OF row] rule(2) by (force simp: legacy_cleanup_candidates_def)
  from cleanup_rows_fail [OF this ne e, of render t 0 db] show ?thesis
    by (auto simp: run_post_migration_cleanups_def cleanup_legacy_rule_json_def split: prod.split sum.split)
qed

end
