(* ===== verification/Triage_Properties.thy ===== *)
theory Triage_Properties
  imports Triage_Invariant
begin

text \<open>
  What the triage guarantees: rules mean Kleene's three-valued logic, the dry run explains the choice that is made, a choice
  that waits for no fact is final, and messages are filed under active categories. Two of the theorems show
  where the code does not do what it means to: facts from the CRM that a quick pick needs are not fetched, and a rule that
  was accepted can keep the server from starting.
\<close>

section \<open>Inputs of the witnesses\<close>

definition demo_regex :: regex_engine where
  "demo_regex = (\<lambda>pattern. Some (\<lambda>s. str_contains s ''quote''))"

definition demo_mail :: message_view where
  "demo_mail = \<lparr>mv_message_id = None, mv_source_user_id = None, mv_subject = Some ''Invoice 7'', mv_from = Some ''Ada <ada@acme.io>'',
     mv_to = None, mv_body = Some ''a quote please'', mv_labels = [], mv_headers = []\<rparr>"

definition demo_conn :: fact_connection where
  "demo_conn = \<lparr>fc_customers = [], fc_invoices = [], fc_open_item = (\<lambda>_ _. False), fc_before_today = (\<lambda>_. False)\<rparr>"

definition demo_crm :: crm_fact_overrides where
  "demo_crm = no_crm_facts\<lparr>co_sender_contact_exists := Some (crm_fact_live TriFalse),
     co_sender_company_exists := Some (crm_fact_live TriFalse)\<rparr>"

definition demo_lead_rule :: triage_rule where
  "demo_lead_rule = \<lparr>tr_rule_id = ''lead'', tr_conditions = [],
     tr_conditions_v2 = [\<lparr>cv_condition_id = QuickNewSalesLead, cv_op = OpExists, cv_value = ValueEmpty\<rparr>],
     tr_match_mode = MatchAll, tr_priority = 10, tr_enabled = True, tr_pinned_category = ''sales''\<rparr>"

definition demo_subject_rule :: triage_rule where
  "demo_subject_rule = \<lparr>tr_rule_id = ''invoice'', tr_conditions = [],
     tr_conditions_v2 = [\<lparr>cv_condition_id = MessageSubject, cv_op = OpContains, cv_value = ValueText ''invoice''\<rparr>,
       \<lparr>cv_condition_id = CrmSenderDealExists, cv_op = OpIsTrue, cv_value = ValueEmpty\<rparr>],
     tr_match_mode = MatchAny, tr_priority = 20, tr_enabled = True, tr_pinned_category = ''billing''\<rparr>"

definition demo_legacy_rule :: triage_rule where
  "demo_legacy_rule = \<lparr>tr_rule_id = ''crm'', tr_conditions =
       [\<lparr>lc_field = FieldSenderInCrmContacts, lc_op = LegacyContains, lc_value = ''acme'', lc_header_name = None\<rparr>],
     tr_conditions_v2 = [], tr_match_mode = MatchAll, tr_priority = 10, tr_enabled = True,
     tr_pinned_category = FALLBACK_CATEGORY_ID\<rparr>"

definition demo_start :: "triage_tables db" where
  "demo_start = empty_db \<lparr>ot_jobs = [], at_users = [], at_api_tokens = [], at_google_credentials = [],
     at_qbo_credentials = [], st_overrides = [], ct_oauth_states = [], nt_notes = [], qt_items = [], qt_visibility = [],
     qt_policies = [], tt_rules = [], tt_categories = []\<rparr>"

definition demo_seeded :: "triage_tables db" where
  "demo_seeded = snd (list_categories (\<lambda>_. []) ''client'' 1000 demo_start)"

definition demo_context :: rule_mutation_context where
  "demo_context = \<lparr>rm_client_id = ''client'', rm_actor_id = ''operator'', rm_expected_revision = None,
     rm_idempotency_key = ''k1'', rm_correlation_id = None, rm_now_ms = 2000\<rparr>"

definition demo_upsert :: "(store_error + mutation_outcome) \<times> triage_tables db" where
  "demo_upsert = upsert_rule (\<lambda>_. []) demo_context demo_legacy_rule demo_seeded"

section \<open>The meaning of a rule\<close>

text \<open>(C31)
  A message is filed by the first rule, in the order given, that is enabled, has conditions, and whose conditions combine
  to true in Kleene's three-valued logic, by conjunction or disjunction as its mode says; early exits, traces and the
  expansion of quick picks do not show.
\<close>

theorem rule_choice_is_kleene:
  "fst (resolve_rule_with_fact_bag rx rules bag)
     = find (\<lambda>r. tr_enabled r \<and> effective_conditions r \<noteq> []
               \<and> tri_combine (tr_match_mode r) (map (condition_truth rx bag) (effective_conditions r)) = TriTrue) rules"
  by (simp add: resolve_computes rule_matches_def [abs_def] rule_tried_def rule_truth_def)

text \<open>(C32)
  The dry run of a sample names the rule and the category that filing it with the same facts chooses; its trace lists
  exactly the rules that were tried, up to the chosen one, with the truth of each; and it asks for a refresh exactly when
  one of them could not be decided.
\<close>

theorem dry_run_explains_choice:
  "let run = fst (evaluate_trace rx i rules fallback bag); choice = fst (resolve_rule_with_fact_bag rx rules bag)
   in dt_matched_rule_id run = map_option tr_rule_id choice
     \<and> dt_resolved_category run = (case choice of None \<Rightarrow> fallback | Some r \<Rightarrow> tr_pinned_category r)
     \<and> map trace_summary (dt_rule_traces run) = map (truth_summary rx bag) (rules_seen rx bag rules)
     \<and> dt_needs_fact_refresh run = list_ex (\<lambda>r. rule_truth rx bag r = TriUnknown) (rules_seen rx bag rules)"
  unfolding Let_def resolve_computes by (simp only: evaluate_trace_computes)

text \<open>(C33)
  A dry run that asks for no refresh is final: with more facts (a connection, a message id, facts from the CRM that were
  unknown) the same rule files the message, and still no refresh is asked for.
\<close>

theorem settled_choice_is_final:
  assumes "bag_refines b d" and "\<not> dt_needs_fact_refresh (fst (evaluate_trace rx i rules fallback b))"
  shows "fst (resolve_rule_with_fact_bag rx rules d) = fst (resolve_rule_with_fact_bag rx rules b)
     \<and> dt_resolved_category (fst (evaluate_trace rx j rules fallback d)) = dt_resolved_category (fst (evaluate_trace rx i rules fallback b))
     \<and> \<not> dt_needs_fact_refresh (fst (evaluate_trace rx j rules fallback d))"
proof -
  note known = assms(2) [unfolded evaluate_trace_computes(4)]
  note stays = decided_stays [OF assms(1) known]
  then have "\<not> list_ex (\<lambda>r. rule_truth rx d r = TriUnknown) (rules_seen rx d rules)"
    using known by (simp add: list_ex_iff)
  then show ?thesis using stays by (simp add: resolve_computes evaluate_trace_computes)
qed

theorem settled_choice_is_final_witness:
  "\<not> dt_needs_fact_refresh (fst (evaluate_trace demo_regex 0 [demo_subject_rule] ''inbound_email''
       (new_bag None [] demo_mail None None no_crm_facts)))
   \<and> fst (resolve_rule_with_fact_bag demo_regex [demo_subject_rule] (new_bag (Some demo_conn) [] demo_mail (Some ''m'') None demo_crm))
       = Some demo_subject_rule"
proof -
  let ?b = "new_bag None [] demo_mail None None no_crm_facts"
    and ?d = "new_bag (Some demo_conn) [] demo_mail (Some ''m'') None demo_crm"
  have r: "bag_refines ?b ?d"
    by (simp add: bag_refines_def new_bag_def crm_refines_def no_crm_facts_def crm_known_def texts_refine_def
        crm_texts_known_def demo_crm_def)
  have run: "\<not> dt_needs_fact_refresh (fst (evaluate_trace demo_regex 0 [demo_subject_rule] ''inbound_email'' ?b))"
    and choice: "fst (resolve_rule_with_fact_bag demo_regex [demo_subject_rule] ?b) = Some demo_subject_rule"
    by code_simp+
  from settled_choice_is_final [OF r run] run choice show ?thesis by simp
qed

section \<open>Facts from the CRM\<close>

text \<open>Where no quick pick stands for facts from the CRM, not fetching them changes nothing.\<close>

theorem skipped_crm_facts_do_not_matter:
  assumes "\<not> rules_need_crm_facts rules"
    and "\<forall>r\<in>set rules. tr_enabled r \<longrightarrow> (\<forall>c\<in>set (effective_conditions r). \<not> quick_needs_crm (cv_condition_id c))"
  shows "matched_rule rx rules cached conn client view key user
     = fst (resolve_rule_with_fact_bag rx rules (new_bag (Some conn) client view (Some key) user (cached view)))"
proof -
  let ?b = "new_bag (Some conn) client view (Some key) user no_crm_facts"
  let ?d = "new_bag (Some conn) client view (Some key) user (cached view)"
  have d: "?d = ?b\<lparr>fb_crm := cached view\<rparr>" by (simp add: new_bag_def)
  have "rule_matches rx ?d r = rule_matches rx ?b r" if r: "r \<in> set rules" for r
  proof (cases "tr_enabled r")
    case True
    then have "\<forall>c\<in>set (effective_conditions r). \<not> needs_crm (cv_condition_id c) \<and> \<not> quick_needs_crm (cv_condition_id c)"
      using assms r by (auto simp: rules_need_crm_facts_def list_ex_iff)
    then have "map (condition_truth rx ?d) (effective_conditions r) = map (condition_truth rx ?b) (effective_conditions r)"
      unfolding d by (intro map_cong [OF refl] condition_without_crm) auto
    then show ?thesis by (simp only: rule_matches_def rule_truth_def)
  qed (simp add: rule_matches_def rule_tried_def)
  then have "find (rule_matches rx ?d) rules = find (rule_matches rx ?b) rules"
    by (simp cong: find_cong)
  then show ?thesis using assms(1) by (simp add: matched_rule_def classification_facts_def resolve_computes)
qed

lemma rule_never_true:
  assumes "fb_crm b = no_crm_facts" and "tr_match_mode r = MatchAll"
    and "QuickNewSalesLead \<in> cv_condition_id ` set (effective_conditions r)"
  shows "\<not> rule_matches rx b r"
proof
  assume "rule_matches rx b r"
  then have "\<forall>c\<in>set (effective_conditions r). condition_truth rx b c = TriTrue"
    using assms(2) all_true by (auto simp: rule_matches_def rule_truth_def simp del: tri_combine.simps)
  moreover obtain c where "c \<in> set (effective_conditions r)" "cv_condition_id c = QuickNewSalesLead"
    using assms(3) by auto
  ultimately show False using sales_lead_not_true [of b c rx] assms(1) by simp
qed

text \<open>(C34)
  The quick pick for new sales leads stands for facts from the CRM, but does not count as needing them. A rule that requires
  the pick is never the match of a message from a mailbox, ingested or classified again, as long as no rule names such a
  fact itself, whatever the cache of the CRM knows about the sender; and no webhook message is filed by it unless the
  request names the rule.
\<close>

theorem sales_lead_rule_never_matches:
  assumes "r \<in> set rules" and ids: "distinct (map tr_rule_id rules)" and mode: "tr_match_mode r = MatchAll"
    and pick: "QuickNewSalesLead \<in> cv_condition_id ` set (effective_conditions r)"
  shows "(\<not> rules_need_crm_facts rules
         \<longrightarrow> snd (classify_message rx rules cached conn client view key user fallback) \<noteq> Some (tr_rule_id r))
     \<and> (ingress_choice rx rules rule_id view' = Inr (category, Some (tr_rule_id r)) \<longrightarrow> non_blank rule_id = Some (tr_rule_id r))"
proof -
  have same: "r' = r" if "r' \<in> set rules" "tr_rule_id r' = tr_rule_id r" for r'
    using ids assms(1) that by (auto simp: distinct_map inj_on_def)
  have none: "fst (resolve_rule_with_fact_bag rx rules b) \<noteq> Some r'"
    if "fb_crm b = no_crm_facts" "tr_rule_id r' = tr_rule_id r" for b r'
  proof
    assume "fst (resolve_rule_with_fact_bag rx rules b) = Some r'"
    then have "rule_matches rx b r'" "r' \<in> set rules" by (auto simp: resolve_computes find_Some_iff)
    then have "rule_matches rx b r" using same that(2) by blast
    with rule_never_true [OF that(1) mode pick] show False by blast
  qed
  have "snd (classify_message rx rules cached conn client view key user fallback) \<noteq> Some (tr_rule_id r)"
    if "\<not> rules_need_crm_facts rules"
    using that none by (auto simp: classify_message_def Let_def matched_rule_def classification_facts_def new_bag_def)
  moreover have "non_blank rule_id = Some (tr_rule_id r)"
    if "ingress_choice rx rules rule_id view' = Inr (category, Some (tr_rule_id r))"
    using that none
    by (auto simp: ingress_choice_def Let_def resolve_rule_def new_bag_def find_Some_iff split: option.splits)
  ultimately show ?thesis by blast
qed

theorem sales_lead_rule_never_matches_witness:
  "snd (classify_message demo_regex [demo_lead_rule] (\<lambda>_. demo_crm) demo_conn ''client'' demo_mail ''m1'' None FALLBACK_CATEGORY_ID)
     \<noteq> Some ''lead''
   \<and> fst (resolve_rule_with_fact_bag demo_regex [demo_lead_rule]
        (new_bag (Some demo_conn) ''client'' demo_mail (Some ''m1'') None demo_crm)) = Some demo_lead_rule
   \<and> ingress_choice demo_regex [demo_lead_rule] (Some '' lead '') demo_mail = Inr (tr_pinned_category demo_lead_rule, Some ''lead'')"
proof (intro conjI)
  have "QuickNewSalesLead \<in> cv_condition_id ` set (effective_conditions demo_lead_rule)" "tr_match_mode demo_lead_rule = MatchAll"
    "\<not> rules_need_crm_facts [demo_lead_rule]" "tr_rule_id demo_lead_rule = ''lead''"
    by (simp_all add: demo_lead_rule_def rules_need_crm_facts_def effective_conditions_def needs_crm_def)
  with sales_lead_rule_never_matches [of demo_lead_rule "[demo_lead_rule]" demo_regex "\<lambda>_. demo_crm" demo_conn "''client''" demo_mail
      "''m1''" None FALLBACK_CATEGORY_ID]
  show "snd (classify_message demo_regex [demo_lead_rule] (\<lambda>_. demo_crm) demo_conn ''client'' demo_mail ''m1'' None FALLBACK_CATEGORY_ID)
     \<noteq> Some ''lead''" by auto
  show "fst (resolve_rule_with_fact_bag demo_regex [demo_lead_rule]
        (new_bag (Some demo_conn) ''client'' demo_mail (Some ''m1'') None demo_crm)) = Some demo_lead_rule"
    by code_simp
  show "ingress_choice demo_regex [demo_lead_rule] (Some '' lead '') demo_mail = Inr (tr_pinned_category demo_lead_rule, Some ''lead'')"
    by code_simp
qed

section \<open>Legacy rules\<close>

text \<open>(C35)
  A rule is accepted and stored with a legacy condition on the CRM that contains, starts with or matches a text; its
  upgrade is refused for want of a value, so every later start of the server fails, and deleting the rule does not
  help.
\<close>

theorem accepted_rule_stops_start:
  assumes up: "upsert_rule render ctx rule db = (Inr (MutationApplied i n), db1)"
    and rule: "tr_conditions_v2 rule = []" and c: "c \<in> set (tr_conditions rule)" "upgrade_refused c"
  shows "(\<exists>e. fst (run_post_migration_cleanups render t db1) = Inl e)
     \<and> (\<exists>e. fst (run_post_migration_cleanups render t
           (snd (apply_rule_action render ctx' (tr_rule_id rule) action db1))) = Inl e)"
proof -
  let ?k = "(rm_client_id ctx, tr_rule_id rule)"
  have valid: "validate_rule rule = Inr ()"
    using up by (auto simp: upsert_rule_def split: sum.splits)
  have cv: "validate_legacy_condition c = Inr ()" using valid c(1) by (simp add: validate_rule_ok)
  obtain req where "mutate req (upsert_rule_write (rm_client_id ctx) rule (rm_now_ms ctx)) db = (Inr (MutationApplied i n), db1)"
    using up by (auto simp: upsert_rule_def split: sum.splits if_splits)
  from mutate_domain [OF this] obtain row where row: "hm_get (rules_of db1) ?k = Some row" "rl_rule row = rule"
    by (auto simp: upsert_rule_write_def put_rule_def)
  have stop: "\<exists>e. fst (run_post_migration_cleanups render t db') = Inl e"
    if "hm_get (rules_of db') ?k = Some row'" "rl_rule row' = rule" for db' :: "'a triage_tables_scheme db" and row'
    by (rule stored_rule_stops_start [OF that(1), of c]) (simp_all add: that(2) rule c cv)
  have "\<exists>row'. hm_get (rules_of (snd (apply_rule_action render ctx' (tr_rule_id rule) action db1))) ?k = Some row' \<and> rl_rule row' = rule"
    using rule_action_keeps_rule [OF row(1)] row(2) by metis
  with stop [OF row] stop show ?thesis by blast
qed

theorem accepted_rule_stops_start_witness:
  "fst (upsert_rule (\<lambda>_. []) demo_context demo_legacy_rule demo_seeded) = fst demo_upsert
   \<and> (\<exists>e. fst (run_post_migration_cleanups (\<lambda>_. []) 3000 (snd demo_upsert)) = Inl e)"
proof -
  have "case fst demo_upsert of Inr (MutationApplied _ _) \<Rightarrow> True | _ \<Rightarrow> False" by code_simp
  then obtain i n where "fst demo_upsert = Inr (MutationApplied i n)"
    by (auto split: sum.splits mutation_outcome.splits)
  then have "upsert_rule (\<lambda>_. []) demo_context demo_legacy_rule demo_seeded = (Inr (MutationApplied i n), snd demo_upsert)"
    unfolding demo_upsert_def by (metis prod.collapse)
  from accepted_rule_stops_start [OF this, of "hd (tr_conditions demo_legacy_rule)"] show ?thesis
    by (simp add: demo_upsert_def demo_legacy_rule_def upgrade_refused_def is_crm_field_def)
qed

text \<open>The clean-up changes no decision: a cleaned rule has the conditions it had, and a rule it accepts stays valid.\<close>

lemma cleaned_rule_decides_alike:
  "rule_matches rx bag (cleaned_rule r) \<longleftrightarrow> rule_matches rx bag r"
proof -
  have "tr_enabled (cleaned_rule r) = tr_enabled r" "tr_match_mode (cleaned_rule r) = tr_match_mode r"
    by (simp_all add: cleaned_rule_def)
  then show ?thesis by (simp add: rule_matches_def rule_tried_def rule_truth_def)
qed

section \<open>Where messages are filed\<close>

text \<open>(C36)
  When the listing of its categories is the first thing a client does with rules and categories, then whatever operators do
  to both afterwards, and whatever other clients do, a message of a mailbox and a message of the webhook are filed under a
  category that is active: a rule that is not deleted pins an active category, and the fallback stays.
\<close>

theorem messages_filed_under_active_category:
  assumes "triage_reachable client db"
  shows "category_is_active db client (fst (classify_message rx (active_rules db client) cached conn client view key user
           FALLBACK_CATEGORY_ID))
     \<and> (ingress_choice rx (active_rules db client) rule_id view' = Inr (category, matched) \<longrightarrow> category_is_active db client category)"
proof -
  note ok = triage_reachable_ok [OF assms]
  have fallback: "category_is_active db client FALLBACK_CATEGORY_ID"
    using filed_fallback [OF ok] by (auto simp: category_is_active_kept category_kept_def)
  have chosen: "category_is_active db client
      (case fst (resolve_rule_with_fact_bag rx (active_rules db client) b) of Some r \<Rightarrow> tr_pinned_category r | None \<Rightarrow> FALLBACK_CATEGORY_ID)" for b
    using fallback active_rule_kept [OF ok] by (auto simp: resolve_computes find_Some_iff split: option.split)
  have "category_is_active db client (fst (classify_message rx (active_rules db client) cached conn client view key user
           FALLBACK_CATEGORY_ID))"
    using chosen by (simp add: classify_message_def matched_rule_def Let_def)
  moreover have "category_is_active db client category"
    if filed: "ingress_choice rx (active_rules db client) rule_id view' = Inr (category, matched)"
  proof (cases "non_blank rule_id")
    case None
    then show ?thesis using filed chosen by (auto simp: ingress_choice_def resolve_rule_def Let_def)
  next
    case (Some i)
    then obtain r where "find (\<lambda>r. tr_enabled r \<and> tr_rule_id r = i) (active_rules db client) = Some r" "category = tr_pinned_category r"
      using filed by (auto simp: ingress_choice_def split: option.splits)
    with find_Some_mem active_rule_kept [OF ok] show ?thesis by metis
  qed
  ultimately show ?thesis by blast
qed

theorem messages_filed_under_active_category_witness:
  "category_is_active demo_seeded ''client'' (fst (classify_message demo_regex (active_rules demo_seeded ''client'') (\<lambda>_. demo_crm)
      demo_conn ''client'' demo_mail ''m1'' None FALLBACK_CATEGORY_ID))"
proof -
  have "untouched ''client'' demo_start"
    by (simp add: untouched_def demo_start_def empty_db_def spine_ok_def applied_key_taken_def)
  then have "triage_reachable ''client'' demo_seeded" unfolding demo_seeded_def by (rule Seeded)
  from messages_filed_under_active_category [OF this] show ?thesis by blast
qed

text \<open>
  The listing has to come first: a fallback category that is created before it is an ordinary one, which the listing leaves
  alone and which can be deleted.
\<close>

definition demo_fallback :: category_record where
  "demo_fallback = \<lparr>cr_category_id = FALLBACK_CATEGORY_ID, cr_display_name = ''Inbox'', cr_description = [], cr_color = [],
     cr_sort = 1, cr_is_system = True, cr_default_agent_dir = [], cr_default_agent_context = []\<rparr>"

lemma unseeded_fallback_can_be_deleted:
  "\<not> category_is_active
     (snd (delete_category ''client'' ''operator'' FALLBACK_CATEGORY_ID ''k2'' 3000
       (snd (list_categories (\<lambda>_. []) ''client'' 2000
         (snd (upsert_category (\<lambda>_. []) ''client'' ''operator'' demo_fallback ''k1'' 1000 demo_start))))))
     ''client'' FALLBACK_CATEGORY_ID"
  by code_simp

end
