(* ===== verification/Spec2Isabelle.thy ===== *)
theory Spec2Isabelle
  imports Memory_Views Runner Outbox_Delivery Session_Properties Datetime_Properties Crm_Properties Chunk_Properties Work_Queue_Properties Triage_Properties
begin

text \<open>
  BusinessOS is a Rust workspace for running the office work of a small company: an operator sees work
  items that arrive from mail, chat and documents; language models propose drafts (calendar events, notes in a
  CRM, replies); an operator edits, approves or rejects a draft; an approval becomes a job that calls the external
  provider. This library models the parts that decide what is stored, who may change it and which effects
  leave the system, and proves what makes these parts correct.

  \<^bold>\<open>The program and its theories.\<close>

  \<^item> The execution kernel, \<open>crates/bos-kernel/src\<close>. \<open>Kernel_Types\<close> holds the identifiers, errors and telemetry events
    (\<open>ids.rs\<close>, \<open>error.rs\<close>, \<open>telemetry.rs\<close>); \<open>Current_State\<close> the audited aggregate (\<open>current_state.rs\<close>); \<open>Execution_Core\<close> and
    \<open>Outbox_Core\<close> the records, leases and resolutions of execution records and of outbox messages with the validator of
    transactional writes (\<open>execution.rs\<close>, \<open>outbox.rs\<close> and their \<open>inspection.rs\<close>); \<open>Dispatch_Core\<close> the queue-independent
    dispatch layer and worker heartbeats (\<open>dispatch.rs\<close>, \<open>workers.rs\<close>); \<open>Memory_Store\<close> the in-memory store that implements
    the kernel's three store traits (\<open>memory.rs\<close>). \<open>Lease_Contracts\<close> states the two contracts of a leased queue as
    locales; \<open>Memory_Facts\<close> interprets them on both queues of the store. \<open>Memory_Invariant\<close>, \<open>Memory_Claims\<close>,
    \<open>Memory_Properties\<close>, \<open>Memory_Recovery\<close> and \<open>Memory_Views\<close> prove what the store guarantees in every reachable state.
    \<open>Scheduler\<close> is the worker coordinator over any three stores (\<open>scheduler.rs\<close>), \<open>Runner\<close> the reference runner with its
    claim registry (\<open>runner/dispatch_runner.rs\<close>); both are run on the in-memory store as well.

  \<^item> The mutation spine of the application, \<open>crates/bos-app/src\<close>. Every change of a client's data passes through
    \<open>mutate\<close> of \<open>store_core.rs\<close> (\<open>Receipt_Store\<close>): it replays the receipt of a repeated idempotency key, refuses a stale
    revision, runs the handler, and appends a receipt. Every effect at a provider passes through the job outbox of
    \<open>outbox.rs\<close> (\<open>Outbox_Jobs\<close>): a job is enqueued in the transaction of the mutation that approves it, claimed under a
    lease, attempted, and rescheduled or settled. \<open>Outbox_Safety\<close> proves its invariant and what no step can change,
    \<open>Outbox_Delivery\<close> the effect of each operation and of a delivery cycle.

  \<^item> Who may act. \<open>Operator_Users\<close> are the two credential tables, \<open>Operator_Auth\<close> the gate of \<open>http.rs\<close> with identities,
    capabilities and session cookies, \<open>Operator_Admin\<close> the handlers that create, archive and revoke.
    \<open>Auth_Properties\<close> and \<open>Session_Properties\<close> show that a revoked credential, an archived user and a logged-out session
    stay refused in every later state, and what every gate answers to a scoped token.

  \<^item> Configuration. \<open>Env_Registry\<close> is the registry of environment variables (\<open>env_registry.rs\<close>), \<open>Runtime_Settings\<close> the
    overrides an administrator stores (\<open>slices/admin_settings\<close>); \<open>Settings_Properties\<close> proves that stored overrides are
    typed and that no secret reaches the settings page. \<open>Google_Connector\<close> is the consent flow of
    \<open>slices/google_connector\<close> and \<open>slices/oauth_state.rs\<close>; \<open>Connector_Properties\<close> treats it as a protocol.

  \<^item> The work queue, \<open>slices/work_queue\<close>. \<open>Work_Queue\<close> is the store: items, the operators who see them, policies of
    categories, and what an operator or the triage changes; \<open>Work_Emission\<close> how a message or another source becomes an item, and
    the handlers. \<open>Work_Queue_Invariant\<close> is the step relation of the queue with its invariant, \<open>Work_Queue_Properties\<close> the
    confinement of items to the operators their source admits and the other guarantees.

  \<^item> The triage of mail, \<open>slices/email_triage\<close>. \<open>Triage_Catalog\<close> are rules, their validation, the catalog of conditions and the
    upgrade of legacy conditions; \<open>Triage_Facts\<close> the three-valued facts about a message (\<open>facts.rs\<close>); \<open>Triage_Rules\<close> the rule engine
    with its dry run (\<open>service.rs\<close>); \<open>Triage_Store\<close> rules and categories in the database, how the webhook files a message
    (\<open>ingress.rs\<close>), the handlers, and the clean-up that each start runs. \<open>Triage_Engine\<close> gives the engine its meaning in Kleene's logic, \<open>Triage_Invariant\<close> is the step relation of the
    two tables with its invariant, \<open>Triage_Properties\<close> what follows for the filing of messages.

  \<^item> Drafts. \<open>Source_Input\<close> is the input of the slices (JSON values, inbound messages, work items), \<open>Draft_Store\<close> the code
    all draft slices share (\<open>slices/draft_store.rs\<close>, \<open>slices/mutation_context.rs\<close>), \<open>Draft_Contract\<close> the contract between a slice
    and the spine as the locale \<open>provider_drafts\<close>: in every history the jobs of the slice are exactly its approved
    drafts. \<open>Calendar_Drafts\<close> (\<open>slices/calendar_drafts\<close>) and \<open>Crm_Drafts\<close> (\<open>slices/crm_drafts\<close>) interpret it;
    \<open>Calendar_Properties\<close> and \<open>Crm_Properties\<close> add what the slices themselves check.

  \<^item> Text. \<open>Rust_Text\<close> are the functions of \<open>str\<close> and \<open>char\<close> the application uses, on UTF-8 bytes; \<open>Mail_Address\<close> reads the addresses off a mail header; \<open>Datetime_Input\<close> the
    parsers of \<open>slices/datetime_input.rs\<close>, with \<open>Calendar_Facts\<close>, \<open>Calendar_Order\<close> and \<open>Datetime_Properties\<close>; \<open>Drive_Chunks\<close>
    the chunker and query builder of the search index (\<open>slices/drive_corpus/service.rs\<close>), with \<open>Chunk_Properties\<close>.

  \<^item> \<open>Prelude\<close> has the machine integers, results, hash maps and the named collections of lemmas all of them use.

  \<^bold>\<open>How the model reads.\<close> A Rust struct is a record, an enum a datatype with the same constructors, a method a
  definition with its guards in the order of the code. \<open>Result\<close> is a sum with the error on the left; a method with
  \<open>&mut self\<close> returns its result with the new state, and keeps in an error branch the changes the code has
  made before it fails. \<open>u32\<close> and \<open>u64\<close> are words, so their additions wrap or saturate as written in the source; times in
  milliseconds are compared through \<open>sint\<close>; \<open>usize\<close> counters are naturals with the cap of a 64-bit target. A
  hash map and an SQL table are association lists with one entry per primary key; an SQL statement is the list
  function it means, a unique index a check that fails the statement. A database handler runs under the
  persistence lock, so the steps of an interleaving are whole handlers. Loops are structural recursion or
  \<open>function\<close> with a proved measure; no definition uses fuel. The loop of the chunker over a long line need not end on arbitrary bytes,
  so it is a \<open>partial_function (option)\<close>, shown to return on every well-formed text.

  \<^bold>\<open>Parameters.\<close> The clock, random identifiers and secrets, and generated correlation ids are arguments of the
  operations that draw them. SHA-256, percent encoding, regular expressions, the renderings and parsers of JSON columns, the answers of
  language models, and the calls of external providers are arguments too; where a property relies on one of
  them (a hash that does not collide on the secrets in question, a rendering that is read back), the reliance is a
  named hypothesis of the theorem, with a witness at a concrete instance. The process environment is a function from names
  to optional values.

  \<^bold>\<open>What the lemmas show.\<close> For the kernel store: its invariant on every reachable state, exclusive leases, what a claim
  hands out, resolution by the holder only, fencing, renewal and recovery, and agreement of the two read sides. For the
  spine: a mutation is applied once per idempotency key and revision, and the revision of an entity counts its
  applied receipts and the mutations of other entities that start or advance it.
  For the outbox: a claim excludes others until its lease expires or an attempt is recorded (by whom is not checked:
  \<open>late_attempt_frees_job\<close>), a delivery cycle settles what it claims, terminal jobs change only by an operator's retry, the payload that was authorised is
  the payload that is sent, and the retry curve is bounded. For the gate: authority comes from a live
  credential, and dies with it. For the queue: an operator sees, changes and is assigned only items whose source admits them; the
  feed and the check of a single item agree; rows and policies are well formed. For the triage: a rule means the three-valued conjunction or disjunction of its conditions,
  the dry run explains the choice, a settled choice is final, and once a client's categories have been listed before anything else,
  messages are filed under active ones. For drafts: provider writes are exactly approvals, with the approved content. For
  text: dates are read back as printed and ordered as days; a chunked document loses nothing.

  \<^bold>\<open>Not modelled.\<close> Opening SQLite files, migrations and I/O failures of the database; tracing and mutex poisoning;
  overlay files and process start-up; prompt assembly and the calls of language models; the HTTP clients of the
  providers (what they send is modelled up to the payload, what they answer is a parameter); routing and the rendering
  of HTML and JSON pages other than those named above; the read-only inspector of the kernel runner; the TypeScript
  frontend. The remaining slices under \<open>slices/\<close> are users of the spine, the draft store and the outbox and are not
  translated; what is proved of those three for an arbitrary handler, slice table or job holds for them to the extent that they
  satisfy the stated contracts, which is not proved here.
\<close>

end
